(* ===== verification/Prelude.thy ===== *)
theory Prelude
  imports Main "HOL-Library.Word"
begin

text \<open>
  Shared vocabulary of the development.

  The first part names the C++ integer types, the exceptions the code raises and the two shapes
  of stateful code: a \<^emph>\<open>step\<close> (a void member function that may throw) and an \<^emph>\<open>action\<close>
  (a member function that also returns a value). A sequence of C++ statements is a list of steps
  run by \<open>steps\<close>; a sequence of declarations whose values are used later is a chain of
  \<open>act_bind\<close>. The second part holds the list and word lemmas the component theories share.
\<close>

unbundle bit_operations_syntax

section \<open>C++ types, exceptions and statements\<close>

type_synonym u8 = "8 word"
type_synonym u16 = "16 word"
type_synonym u32 = "32 word"
type_synonym u64 = "64 word"

text \<open>
  A \<open>std::string\<close> holds bytes, not characters: it is a list of bytes here. \<open>str\<close> turns a
  literal of the source into its bytes.
\<close>

type_synonym cstring = "u8 list"

definition str :: "string \<Rightarrow> cstring" where
  "str cs = map of_char cs"

text \<open>
  The exceptions of the modelled code. \<open>Undefined_behaviour\<close> is not an exception of C++: it marks
  the executions for which the language gives no meaning (an iterator moved past the end), so that
  they are never mistaken for a result. \<open>Never_resumed\<close> marks a coroutine that waits for a call
  that does not come.
\<close>

datatype (discs_sels) exn =
    Serialization_error string
  | Deserialization_error string
  | Out_of_range string
  | Runtime_error string
  | Invalid_argument string
  | Bad_variant_access
  | Bad_function_call
  | Undefined_behaviour string
  | Never_resumed

type_synonym 'a result = "exn + 'a"
type_synonym 's step = "'s \<Rightarrow> 's result"
type_synonym ('s, 'a) action = "'s \<Rightarrow> ('a \<times> 's) result"

fun steps :: "'s step list \<Rightarrow> 's step" where
  "steps [] s = Inr s"
| "steps (f # fs) s = (case f s of Inl e \<Rightarrow> Inl e | Inr s' \<Rightarrow> steps fs s')"

definition act_return :: "'a \<Rightarrow> ('s, 'a) action" where
  "act_return x s = Inr (x, s)"

definition act_throw :: "exn \<Rightarrow> ('s, 'a) action" where
  "act_throw e s = Inl e"

definition act_bind :: "('s, 'a) action \<Rightarrow> ('a \<Rightarrow> ('s, 'b) action) \<Rightarrow> ('s, 'b) action" where
  "act_bind m f s = (case m s of Inl e \<Rightarrow> Inl e | Inr (x, s') \<Rightarrow> f x s')"

definition act_then :: "'s step \<Rightarrow> ('s, 'b) action \<Rightarrow> ('s, 'b) action" where
  "act_then p m s = (case p s of Inl e \<Rightarrow> Inl e | Inr s' \<Rightarrow> m s')"

text \<open>\<open>for (...; i < n; i++) result.push_back(m())\<close>.\<close>

fun act_times :: "nat \<Rightarrow> ('s, 'a) action \<Rightarrow> ('s, 'a list) action" where
  "act_times 0 m s = Inr ([], s)"
| "act_times (Suc n) m s =
     (case m s of
        Inl e \<Rightarrow> Inl e
      | Inr (x, s') \<Rightarrow>
          (case act_times n m s' of Inl e \<Rightarrow> Inl e | Inr (xs, s'') \<Rightarrow> Inr (x # xs, s'')))"

section \<open>Success and failure of statement sequences\<close>

named_theorems run_iff \<open>when a sequence of statements succeeds, and with which state\<close>

lemma steps_Nil_iff [run_iff]: "steps [] s = Inr s' \<longleftrightarrow> s' = s"
  by auto

lemma steps_Cons_iff [run_iff]:
  "steps (f # fs) s = Inr s' \<longleftrightarrow> (\<exists>t. f s = Inr t \<and> steps fs t = Inr s')"
  by (auto split: sum.splits)

lemma act_return_iff [run_iff]: "act_return x s = Inr r \<longleftrightarrow> r = (x, s)"
  by (auto simp: act_return_def)

lemma act_throw_iff [run_iff]: "act_throw e s = Inr r \<longleftrightarrow> False"
  by (simp add: act_throw_def)

lemma act_bind_iff [run_iff]:
  "act_bind m f s = Inr r \<longleftrightarrow> (\<exists>x t. m s = Inr (x, t) \<and> f x t = Inr r)"
  by (auto simp: act_bind_def split: sum.splits)

lemma act_then_iff [run_iff]:
  "act_then p m s = Inr r \<longleftrightarrow> (\<exists>t. p s = Inr t \<and> m t = Inr r)"
  by (auto simp: act_then_def split: sum.splits)

lemma if_run_iff [run_iff]:
  "(if b then m else n) s = Inr r \<longleftrightarrow> (b \<and> m s = Inr r) \<or> (\<not> b \<and> n s = Inr r)"
  by simp

lemma steps_append:
  "steps (fs @ gs) s = (case steps fs s of Inl e \<Rightarrow> Inl e | Inr t \<Rightarrow> steps gs t)"
  by (induction fs arbitrary: s) (auto split: sum.splits)

text \<open>
  \<open>throws P m\<close>: every exception that leaves \<open>m\<close> satisfies \<open>P\<close>. An exception of a sequence
  comes from one of its statements.
\<close>

definition throws :: "(exn \<Rightarrow> bool) \<Rightarrow> ('s \<Rightarrow> 'b result) \<Rightarrow> bool" where
  "throws P m \<longleftrightarrow> (\<forall>s e. m s = Inl e \<longrightarrow> P e)"

named_theorems throws_intros \<open>which exceptions can leave a statement\<close>

lemma throwsD: "throws P m \<Longrightarrow> m s = Inl e \<Longrightarrow> P e"
  by (auto simp: throws_def)

lemma throws_steps_Nil [throws_intros]: "throws P (steps [])"
  by (simp add: throws_def)

lemma throws_steps_Cons [throws_intros]:
  "throws P f \<Longrightarrow> throws P (steps fs) \<Longrightarrow> throws P (steps (f # fs))"
  by (auto simp: throws_def split: sum.splits)

lemma throws_steps: "(\<And>f. f \<in> set fs \<Longrightarrow> throws P f) \<Longrightarrow> throws P (steps fs)"
  by (induction fs) (auto intro: throws_intros)

lemma throws_return [throws_intros]: "throws P (act_return x)"
  by (simp add: throws_def act_return_def)

lemma throws_throw [throws_intros]: "P e \<Longrightarrow> throws P (act_throw e)"
  by (simp add: throws_def act_throw_def)

lemma throws_bind [throws_intros]:
  "throws P m \<Longrightarrow> (\<And>x. throws P (f x)) \<Longrightarrow> throws P (act_bind m f)"
  by (fastforce simp: throws_def act_bind_def split: sum.splits)

lemma throws_then [throws_intros]: "throws P p \<Longrightarrow> throws P m \<Longrightarrow> throws P (act_then p m)"
  by (fastforce simp: throws_def act_then_def split: sum.splits)

lemma throws_if [throws_intros]: "throws P m \<Longrightarrow> throws P n \<Longrightarrow> throws P (if b then m else n)"
  by simp

lemma throws_times [throws_intros]:
  assumes "throws P m"
  shows "throws P (act_times n m)"
proof (induction n)
  case (Suc n)
  with assms show ?case by (fastforce simp: throws_def split: sum.splits)
qed (simp add: throws_def)

lemma act_times_length: "act_times n m s = Inr (xs, t) \<Longrightarrow> length xs = n"
  by (induction n arbitrary: s xs t) (auto split: sum.splits)

lemma act_times_0_iff [run_iff]: "act_times 0 m s = Inr r \<longleftrightarrow> r = ([], s)"
  by auto

lemma act_times_Suc_iff [run_iff]:
  "act_times (Suc n) m s = Inr (ys, t) \<longleftrightarrow>
     (\<exists>x xs r. m s = Inr (x, r) \<and> act_times n m r = Inr (xs, t) \<and> ys = x # xs)"
  by (auto split: sum.splits)

text \<open>From here on sequences are taken apart by \<open>run_iff\<close>, not unfolded.\<close>

declare steps.simps [simp del] act_times.simps [simp del]

section \<open>Words\<close>

lemma unat_pred_word: "(b :: 'a::len word) \<noteq> 0 \<Longrightarrow> unat (b - 1) = unat b - 1"
  by (simp add: unat_minus_one)

lemma Suc_le_unat_iff: "Suc n \<le> unat (b :: 'a::len word) \<longleftrightarrow> b \<noteq> 0 \<and> n \<le> unat (b - 1)"
proof (cases "b = 0")
  case False
  then have "0 < unat b" by (simp add: unat_gt_0)
  with False show ?thesis by (simp add: unat_pred_word [OF False]) linarith
qed simp

lemma unat_u8_low7: "unat ((b :: u8) AND 0x7F) = unat b mod 128"
proof -
  have "b AND 0x7F = take_bit 7 b" by (simp add: take_bit_eq_mask mask_eq_exp_minus_1)
  then show ?thesis by (simp add: take_bit_eq_mod unat_mod)
qed

lemma u8_low7_eq_iff: "(b :: u8) AND 0x7F = b \<longleftrightarrow> unat b < 128"
  by (simp add: word_unat_eq_iff unat_u8_low7 mod_eq_self_iff_div_eq_0 div_eq_0_iff)

lemma push_and_take_zero: "(push_bit k x :: 'a::len word) AND ucast (take_bit k (y :: 'b::len word)) = 0"
  by (rule bit_word_eqI) (auto simp: bit_simps)

lemma unat_or_push_bit:
  fixes v :: u64 and b :: u8
  assumes "unat v < 2 ^ k" and "unat b < 128" and "k + 7 \<le> 64"
  shows "unat (v OR push_bit k (ucast b)) = unat v + 2 ^ k * unat b"
proof -
  have v: "take_bit k v = v" using assms(1) by (simp add: word_unat_eq_iff unsigned_take_bit_eq take_bit_nat_eq_self)
  have "take_bit k v AND push_bit k (ucast b) = 0"
    by (rule bit_word_eqI) (auto simp: bit_simps)
  then have "v OR push_bit k (ucast b) = v + push_bit k (ucast b)"
    unfolding v by (rule disjunctive_add_eq_or [symmetric])
  moreover have b: "unat v + 2 ^ k * unat b < 2 ^ 64"
  proof -
    have "unat v + 2 ^ k * unat b < 2 ^ k * (1 + unat b)" using assms(1) by simp
    also have "\<dots> \<le> 2 ^ k * 2 ^ 7" using assms(2) by (intro mult_le_mono2) simp
    also have "\<dots> \<le> 2 ^ 64" unfolding power_add [symmetric] using assms(3) by (intro power_increasing) auto
    finally show ?thesis .
  qed
  moreover have "push_bit k (ucast b) = (of_nat (2 ^ k * unat b) :: u64)"
    by (simp add: push_bit_eq_mult mult.commute)
  ultimately have "v OR push_bit k (ucast b) = of_nat (unat v + 2 ^ k * unat b)" by simp
  with b show ?thesis by (simp only: unat_of_nat) simp
qed


lemma byte_mod_128: "n < 256 \<Longrightarrow> n < 128 \<or> n = 128 + n mod 128" for n :: nat
  by (cases "n < 128") (simp_all add: le_mod_geq)

lemma ex_base_128:
  assumes "r < 128"
  shows "(\<exists>m::nat. m mod 128 = r \<and> P m (m div 128)) \<longleftrightarrow> (\<exists>q. P (r + 128 * q) q)"
proof
  assume "\<exists>m. m mod 128 = r \<and> P m (m div 128)"
  then obtain m where "m mod 128 = r" "P m (m div 128)" by blast
  then have "P (r + 128 * (m div 128)) (m div 128)" by auto
  then show "\<exists>q. P (r + 128 * q) q" by blast
next
  assume "\<exists>q. P (r + 128 * q) q"
  then obtain q where "P (r + 128 * q) q" by blast
  with assms show "\<exists>m. m mod 128 = r \<and> P m (m div 128)"
    by (intro exI [of _ "r + 128 * q"]) simp
qed

lemma eq_of_nat_iff: "n < 2 ^ LENGTH('a) \<and> v = of_nat n \<longleftrightarrow> unat (v :: 'a::len word) = n"
proof
  assume "n < 2 ^ LENGTH('a) \<and> v = of_nat n"
  then show "unat v = n" by (simp add: unat_of_nat)
next
  assume "unat v = n"
  then show "n < 2 ^ LENGTH('a) \<and> v = of_nat n" using unsigned_less [of v] by auto
qed

lemma unat_u32_less: "unat (v :: u32) < 2 ^ 32"
  using unsigned_less [of v] by simp

lemma unat_u8_less: "unat (v :: u8) < 256"
  using unsigned_less [of v] by simp

lemma unat_u64_less: "unat (v :: u64) < 2 ^ 64"
  using unsigned_less [of v] by simp

section \<open>Characters\<close>

lemma unat_of_char: "unat (of_char c :: u8) = of_char c"
proof -
  have "unat (of_nat (of_char c) :: u8) = of_char c"
    using nat_of_char_less_256 [of c] by (simp add: unat_of_nat del: of_nat_of_char)
  then show ?thesis by (simp only: of_nat_of_char)
qed

lemma inj_of_char: "inj (of_char :: char \<Rightarrow> u8)"
  by (rule injI) (metis unat_of_char of_char_eq_iff)

lemma str_inj: "str a = str b \<Longrightarrow> a = b"
  using inj_of_char by (simp add: str_def inj_map_eq_map)

section \<open>Little-endian bytes of a word\<close>

text \<open>
  \<open>le_split n v\<close> are the \<open>n\<close> low bytes of \<open>v\<close>, lowest first; \<open>le_join\<close> is its inverse. The
  integer serializers write the first out byte by byte, the deserializers the second.
\<close>

primrec le_split :: "nat \<Rightarrow> 'a::len word \<Rightarrow> u8 list" where
  "le_split 0 v = []"
| "le_split (Suc n) v = ucast v # le_split n (drop_bit 8 v)"

primrec le_join :: "u8 list \<Rightarrow> 'a::len word" where
  "le_join [] = 0"
| "le_join (b # bs) = ucast b OR push_bit 8 (le_join bs)"

lemma length_le_split [simp]: "length (le_split n v) = n"
  by (induction n arbitrary: v) simp_all

lemma ucast_u8_OR_push_drop:
  fixes v :: "'a::len word"
  shows "ucast (ucast v :: u8) OR push_bit 8 (take_bit n (drop_bit 8 v)) = take_bit (8 + n) v"
  by (rule bit_word_eqI) (auto simp: bit_simps)

lemma le_join_split: "le_join (le_split n v) = take_bit (8 * n) v"
  by (induction n arbitrary: v) (simp_all add: ucast_u8_OR_push_drop)

lemma ucast_le_join_Cons:
  assumes "8 \<le> LENGTH('a::len)"
  shows "ucast (ucast b OR push_bit 8 (w :: 'a word)) = (b :: u8)"
  by (rule bit_word_eqI) (use assms in \<open>auto simp: bit_simps dest: bit_imp_le_length\<close>)

lemma drop_le_join_Cons:
  assumes "8 + n \<le> LENGTH('a::len)" and "\<And>i. bit w i \<Longrightarrow> i < n"
  shows "drop_bit 8 (ucast (b :: u8) OR push_bit 8 (w :: 'a word)) = w"
proof (rule bit_word_eqI)
  fix i assume "i < LENGTH('a)"
  moreover have "bit w i \<Longrightarrow> 8 + i < LENGTH('a)" using assms(2) [of i] assms(1) by simp
  ultimately show "bit (drop_bit 8 (ucast b OR push_bit 8 w)) i = bit w i"
    by (auto simp: bit_simps dest: bit_imp_le_length)
qed

lemma bit_le_join: "bit (le_join bs :: 'a::len word) i \<Longrightarrow> i < 8 * length bs"
proof (induction bs arbitrary: i)
  case (Cons b bs)
  from Cons.prems have "bit (ucast b :: 'a word) i \<or> (8 \<le> i \<and> bit (le_join bs :: 'a word) (i - 8))"
    by (auto simp: bit_simps)
  then show ?case
    using Cons.IH [of "i - 8"] by (auto simp: bit_simps dest: bit_imp_le_length)
qed simp

lemma le_split_join:
  "8 * length bs \<le> LENGTH('a::len) \<Longrightarrow> le_split (length bs) (le_join bs :: 'a word) = bs"
proof (induction bs)
  case (Cons b bs)
  have "drop_bit 8 (ucast b OR push_bit 8 (le_join bs) :: 'a word) = le_join bs"
    using Cons.prems by (intro drop_le_join_Cons [where n = "8 * length bs"]) (auto dest: bit_le_join)
  with Cons show ?case by (simp add: ucast_le_join_Cons)
qed simp

lemma le_join_eq_iff:
  fixes v :: "'a::len word"
  assumes "LENGTH('a) = 8 * length bs"
  shows "le_join bs = v \<longleftrightarrow> bs = le_split (length bs) v"
proof
  assume "le_join bs = v"
  then show "bs = le_split (length bs) v" using le_split_join [where 'a = 'a, of bs] assms by auto
next
  assume "bs = le_split (length bs) v"
  then have "le_join bs = (le_join (le_split (length bs) v) :: 'a word)" by simp
  then show "le_join bs = v" by (simp only: le_join_split assms [symmetric]) simp
qed

end
