(* ===== verification/Bcs_Doc.thy ===== *)
theory Bcs_Doc
  imports Prelude
begin

text \<open>
  The abstract specification of Binary Canonical Serialization, independent of the C++ code.

  A value to be serialized is abstracted to a document (\<open>bcs_doc\<close>): fixed-width bytes, UTF-8
  strings, sequences with a length prefix, fixed-size arrays, tuples (struct fields), enum
  alternatives and container levels. \<open>enc\<close> gives the canonical bytes of a document, \<open>depth\<close>
  the number of nested containers, \<open>fits\<close> the length limits and \<open>wf_doc\<close> what a
  deserializer may return. The component theories show that the serializers and deserializers of
  the code implement exactly \<open>enc\<close> on these documents.
\<close>

section \<open>ULEB128\<close>

fun uleb128 :: "nat \<Rightarrow> u8 list" where
  "uleb128 n = (if n < 128 then [of_nat n] else of_nat (128 + n mod 128) # uleb128 (n div 128))"

declare uleb128.simps [simp del]

lemma uleb128_small: "n < 128 \<Longrightarrow> uleb128 n = [of_nat n]"
  by (subst uleb128.simps) simp

lemma uleb128_big: "128 \<le> n \<Longrightarrow> uleb128 n = of_nat (128 + n mod 128) # uleb128 (n div 128)"
  by (subst uleb128.simps) simp

lemma uleb128_not_Nil [simp]: "uleb128 n \<noteq> []"
  by (subst uleb128.simps) simp

section \<open>UTF-8 as the format checks it\<close>

text \<open>
  The shape of UTF-8: every code point is a lead byte followed by as many continuation bytes as
  the lead byte announces. Overlong forms, surrogates and values above U+10FFFF are not excluded.
\<close>

definition continuation :: "u8 \<Rightarrow> bool" where
  "continuation b \<longleftrightarrow> 128 \<le> unat b \<and> unat b < 192"

definition announced :: "u8 \<Rightarrow> nat option" where
  "announced b =
     (if unat b < 128 then Some 0
      else if 192 \<le> unat b \<and> unat b < 224 then Some 1
      else if 224 \<le> unat b \<and> unat b < 240 then Some 2
      else if 240 \<le> unat b \<and> unat b < 248 then Some 3
      else None)"

inductive utf8_shaped :: "u8 list \<Rightarrow> bool" where
  utf8_empty: "utf8_shaped []"
| utf8_point: "announced b = Some (length cs) \<Longrightarrow> list_all continuation cs \<Longrightarrow> utf8_shaped rest \<Longrightarrow>
     utf8_shaped (b # cs @ rest)"

section \<open>Documents\<close>

datatype bcs_doc =
    Doc_Bytes "u8 list"
  | Doc_Str "u8 list"
  | Doc_Seq "bcs_doc list"
  | Doc_Array nat "bcs_doc list"
  | Doc_Tuple "bcs_doc list"
  | Doc_Variant nat bcs_doc
  | Doc_Container bcs_doc

definition max_length :: nat where
  "max_length = 2 ^ 31 - 1"

definition max_list :: "nat list \<Rightarrow> nat" where
  "max_list ns = foldr max ns 0"

primrec enc :: "bcs_doc \<Rightarrow> u8 list" where
  "enc (Doc_Bytes bs) = bs"
| "enc (Doc_Str bs) = uleb128 (length bs) @ bs"
| "enc (Doc_Seq ds) = uleb128 (length ds) @ concat (map enc ds)"
| "enc (Doc_Array n ds) = concat (map enc ds)"
| "enc (Doc_Tuple ds) = concat (map enc ds)"
| "enc (Doc_Variant i d) = uleb128 i @ enc d"
| "enc (Doc_Container d) = enc d"

primrec depth :: "bcs_doc \<Rightarrow> nat" where
  "depth (Doc_Bytes bs) = 0"
| "depth (Doc_Str bs) = 0"
| "depth (Doc_Seq ds) = max_list (map depth ds)"
| "depth (Doc_Array n ds) = max_list (map depth ds)"
| "depth (Doc_Tuple ds) = max_list (map depth ds)"
| "depth (Doc_Variant i d) = depth d"
| "depth (Doc_Container d) = Suc (depth d)"

primrec fits :: "bcs_doc \<Rightarrow> bool" where
  "fits (Doc_Bytes bs) = True"
| "fits (Doc_Str bs) = (length bs \<le> max_length)"
| "fits (Doc_Seq ds) = (length ds \<le> max_length \<and> list_all (\<lambda>b. b) (map fits ds))"
| "fits (Doc_Array n ds) = list_all (\<lambda>b. b) (map fits ds)"
| "fits (Doc_Tuple ds) = list_all (\<lambda>b. b) (map fits ds)"
| "fits (Doc_Variant i d) = (i < 2 ^ 32 \<and> fits d)"
| "fits (Doc_Container d) = fits d"

primrec typed :: "bcs_doc \<Rightarrow> bool" where
  "typed (Doc_Bytes bs) = True"
| "typed (Doc_Str bs) = utf8_shaped bs"
| "typed (Doc_Seq ds) = list_all (\<lambda>b. b) (map typed ds)"
| "typed (Doc_Array n ds) = (length ds = n \<and> list_all (\<lambda>b. b) (map typed ds))"
| "typed (Doc_Tuple ds) = list_all (\<lambda>b. b) (map typed ds)"
| "typed (Doc_Variant i d) = typed d"
| "typed (Doc_Container d) = typed d"

definition wf_doc :: "bcs_doc \<Rightarrow> bool" where
  "wf_doc d \<longleftrightarrow> fits d \<and> typed d"

lemma max_list_simps [simp]: "max_list [] = 0" "max_list (n # ns) = max n (max_list ns)"
  by (simp_all add: max_list_def)

lemma max_list_le_iff: "max_list ns \<le> k \<longleftrightarrow> list_all (\<lambda>n. n \<le> k) ns"
  by (induction ns) simp_all

lemma wf_doc_simps [simp]:
  "wf_doc (Doc_Bytes bs)"
  "wf_doc (Doc_Str bs) \<longleftrightarrow> length bs \<le> max_length \<and> utf8_shaped bs"
  "wf_doc (Doc_Seq ds) \<longleftrightarrow> length ds \<le> max_length \<and> list_all wf_doc ds"
  "wf_doc (Doc_Array n ds) \<longleftrightarrow> length ds = n \<and> list_all wf_doc ds"
  "wf_doc (Doc_Tuple ds) \<longleftrightarrow> list_all wf_doc ds"
  "wf_doc (Doc_Variant i d) \<longleftrightarrow> i < 2 ^ 32 \<and> wf_doc d"
  "wf_doc (Doc_Container d) \<longleftrightarrow> wf_doc d"
  by (auto simp: wf_doc_def list_all_iff)

lemma wf_doc_fits: "wf_doc d \<Longrightarrow> fits d"
  by (simp add: wf_doc_def)

end
