(* ===== verification/Codec.thy ===== *)
theory Codec
  imports Bcs_Doc
begin

text \<open>
  The interface between a type of the program and the wire format.

  \<open>BinarySerializer\<close> and \<open>BinaryDeserializer\<close> are the states of the two classes of
  \<open>src/cpp/framework/src/binary.hpp\<close>. The locale \<open>bcs_codec\<close> is the contract of a pair
  \<open>Serializable<T>::serialize\<close> / \<open>Deserializable<T>::deserialize\<close>: with the document of a
  value as its abstraction, serialization succeeds exactly for the documents that fit and then
  appends their canonical bytes, and deserialization returns a value exactly when the input goes on
  with the canonical bytes of its document. Everything a client needs (round trip, canonicity,
  prefix freedom, no false accept) follows inside the locale, once.
\<close>

section \<open>State of the serializer and the deserializer\<close>

record BinarySerializer =
  bytes :: "u8 list"
  container_depth_budget :: u64

record BinaryDeserializer =
  pos :: nat
  de_container_depth_budget :: u64
  de_bytes :: "u8 list"

type_synonym ser_step = "BinarySerializer step"
type_synonym 'a de_action = "(BinaryDeserializer, 'a) action"

definition put :: "u8 list \<Rightarrow> BinarySerializer \<Rightarrow> BinarySerializer" where
  "put bs s = s\<lparr>bytes := bytes s @ bs\<rparr>"

definition advance :: "nat \<Rightarrow> BinaryDeserializer \<Rightarrow> BinaryDeserializer" where
  "advance n d = d\<lparr>pos := pos d + n\<rparr>"

text \<open>The unread input starts with the given bytes.\<close>

definition input_starts :: "u8 list \<Rightarrow> BinaryDeserializer \<Rightarrow> bool" where
  "input_starts bs d \<longleftrightarrow> take (length bs) (drop (pos d) (de_bytes d)) = bs"

lemma put_simps [simp]:
  "put [] s = s"
  "put bs (put as s) = put (as @ bs) s"
  "bytes (put bs s) = bytes s @ bs"
  "container_depth_budget (put bs s) = container_depth_budget s"
  by (simp_all add: put_def)

lemma put_budget [simp]:
  "put bs (s\<lparr>container_depth_budget := b\<rparr>) = (put bs s)\<lparr>container_depth_budget := b\<rparr>"
  by (simp add: put_def)

lemma put_same_budget [simp]:
  "(put bs s)\<lparr>container_depth_budget := container_depth_budget s\<rparr> = put bs s"
  by (simp add: put_def)

lemma advance_simps [simp]:
  "advance 0 d = d"
  "advance m (advance n d) = advance (n + m) d"
  "pos (advance n d) = pos d + n"
  "de_bytes (advance n d) = de_bytes d"
  "de_container_depth_budget (advance n d) = de_container_depth_budget d"
  by (simp_all add: advance_def ac_simps)

lemma advance_budget [simp]:
  "advance n (d\<lparr>de_container_depth_budget := b\<rparr>) = (advance n d)\<lparr>de_container_depth_budget := b\<rparr>"
  by (simp add: advance_def)

lemma advance_same_budget [simp]:
  "(advance n d)\<lparr>de_container_depth_budget := de_container_depth_budget d\<rparr> = advance n d"
  by (simp add: advance_def)

lemma input_starts_budget [simp]:
  "input_starts bs (d\<lparr>de_container_depth_budget := b\<rparr>) = input_starts bs d"
  by (simp add: input_starts_def)

lemma input_starts_Nil [simp]: "input_starts [] d"
  by (simp add: input_starts_def)

lemma input_starts_prefix:
  "input_starts bs d \<longleftrightarrow> (\<exists>rest. drop (pos d) (de_bytes d) = bs @ rest)"
  unfolding input_starts_def by (metis append_eq_conv_conj append_take_drop_id)

lemma input_starts_append [simp]:
  "input_starts (as @ bs) d \<longleftrightarrow> input_starts as d \<and> input_starts bs (advance (length as) d)"
proof -
  let ?in = "drop (pos d) (de_bytes d)"
  have "drop (pos d + length as) (de_bytes d) = drop (length as) ?in"
    by (simp add: add.commute)
  moreover have "(\<exists>rest. ?in = as @ bs @ rest) \<longleftrightarrow>
      (\<exists>rest. ?in = as @ rest) \<and> (\<exists>rest. drop (length as) ?in = bs @ rest)"
    by (metis append_eq_conv_conj)
  ultimately show ?thesis
    unfolding input_starts_prefix by simp
qed

lemma input_starts_Cons:
  "input_starts (a # bs) d \<longleftrightarrow> input_starts [a] d \<and> input_starts bs (advance 1 d)"
  using input_starts_append [of "[a]" bs d] by simp

section \<open>The contract of a codec\<close>

text \<open>
  The laws of every interpretation are collected, so that the codec of a struct is proved from
  those of its fields by the same call of the simplifier.
\<close>

named_theorems codec_iff \<open>when the serializer and the deserializer of a type succeed\<close>
named_theorems codec_exn \<open>the exceptions of the serializer and the deserializer of a type\<close>

definition is_decoding_exn :: "exn \<Rightarrow> bool" where
  "is_decoding_exn e \<longleftrightarrow> is_Deserialization_error e \<or> is_Out_of_range e"

locale bcs_codec =
  fixes ser :: "'a \<Rightarrow> ser_step"
    and de :: "'a de_action"
    and doc :: "'a \<Rightarrow> bcs_doc"
  assumes ser_iff [codec_iff]:
      "ser x s = Inr s' \<longleftrightarrow>
         fits (doc x) \<and> depth (doc x) \<le> unat (container_depth_budget s) \<and> s' = put (enc (doc x)) s"
    and ser_exn [codec_exn]: "throws is_Serialization_error (ser x)"
    and de_iff [codec_iff]:
      "de d = Inr (x, d') \<longleftrightarrow>
         wf_doc (doc x) \<and> depth (doc x) \<le> unat (de_container_depth_budget d) \<and>
         input_starts (enc (doc x)) d \<and> d' = advance (length (enc (doc x))) d"
    and de_exn [codec_exn]: "throws is_decoding_exn de"
begin

text \<open>What was written is read back, whatever follows it in the input.\<close>

lemma read_back:
  assumes "ser x s = Inr s'" and "typed (doc x)"
    and "drop (pos d) (de_bytes d) = drop (length (bytes s)) (bytes s') @ rest"
    and "container_depth_budget s \<le> de_container_depth_budget d"
  shows "de d = Inr (x, advance (length (bytes s') - length (bytes s)) d)"
proof -
  have "depth (doc x) \<le> unat (de_container_depth_budget d)"
    using assms(1,4) unfolding ser_iff word_le_nat_alt by linarith
  with assms show ?thesis
    unfolding ser_iff de_iff by (simp add: wf_doc_def input_starts_prefix)
qed

text \<open>No encoding is a proper prefix of another, and none is shared by two values.\<close>

lemma prefix_free:
  assumes "wf_doc (doc x)" and "wf_doc (doc y)"
    and "depth (doc x) < 2 ^ 64" and "depth (doc y) < 2 ^ 64"
    and "enc (doc x) @ p = enc (doc y) @ q"
  shows "x = y"
proof -
  let ?d = "\<lparr>pos = 0, de_container_depth_budget = 0xFFFFFFFFFFFFFFFF, de_bytes = enc (doc x) @ p\<rparr>"

  have "de ?d = Inr (x, advance (length (enc (doc x))) ?d)"
    using assms(1,3) by (simp add: de_iff input_starts_prefix)
  moreover have "de ?d = Inr (y, advance (length (enc (doc y))) ?d)"
    using assms(2,4,5) by (simp add: de_iff input_starts_prefix)
  ultimately show ?thesis by simp
qed

end

end
