(* ===== verification/Binary.thy ===== *)
theory Binary
  imports Codec
begin

text \<open>
  \<open>src/cpp/framework/src/binary.hpp\<close>: the byte-level serializer and deserializer.

  \<open>BinarySerializer\<close> appends to a byte vector, \<open>BinaryDeserializer\<close> moves a position over one;
  both carry the remaining budget of nested containers as a 64-bit \<open>size_t\<close>. The two classes are
  templates over their subclass (\<open>static_cast<S *>(this)->serialize_len\<close>): the subclass
  operation is an argument of \<open>serialize_str\<close> and \<open>deserialize_str\<close> here. The lemmas say when
  each operation succeeds and what it writes or reads, for every state.
\<close>

section \<open>128-bit integers\<close>

record uint128_t =
  high :: u64
  low :: u64

record int128_t =
  i_high :: u64
  i_low :: u64

section \<open>BinarySerializer\<close>

definition push_back :: "u8 \<Rightarrow> ser_step" where
  "push_back v s = Inr (s\<lparr>bytes := bytes s @ [v]\<rparr>)"

definition serialize_str_with :: "(nat \<Rightarrow> ser_step) \<Rightarrow> cstring \<Rightarrow> ser_step" where
  "serialize_str_with serialize_len value = steps (serialize_len (length value) # map push_back value)"

definition serialize_unit :: ser_step where
  "serialize_unit s = Inr s"

definition serialize_f32 :: "u32 \<Rightarrow> ser_step" where
  "serialize_f32 v s = Inl (Serialization_error ''not implemented'')"

definition serialize_f64 :: "u64 \<Rightarrow> ser_step" where
  "serialize_f64 v s = Inl (Serialization_error ''not implemented'')"

definition serialize_char :: "u32 \<Rightarrow> ser_step" where
  "serialize_char v s = Inl (Serialization_error ''not implemented'')"

definition serialize_bool :: "bool \<Rightarrow> ser_step" where
  "serialize_bool v = push_back (of_bool v)"

definition serialize_u8 :: "u8 \<Rightarrow> ser_step" where
  "serialize_u8 v = push_back v"

definition serialize_u16 :: "u16 \<Rightarrow> ser_step" where
  "serialize_u16 v = steps [push_back (ucast v), push_back (ucast (drop_bit 8 v))]"

definition serialize_u32 :: "u32 \<Rightarrow> ser_step" where
  "serialize_u32 v = steps
     [push_back (ucast v),
      push_back (ucast (drop_bit 8 v)),
      push_back (ucast (drop_bit 16 v)),
      push_back (ucast (drop_bit 24 v))]"

definition serialize_u64 :: "u64 \<Rightarrow> ser_step" where
  "serialize_u64 v = steps
     [push_back (ucast v),
      push_back (ucast (drop_bit 8 v)),
      push_back (ucast (drop_bit 16 v)),
      push_back (ucast (drop_bit 24 v)),
      push_back (ucast (drop_bit 32 v)),
      push_back (ucast (drop_bit 40 v)),
      push_back (ucast (drop_bit 48 v)),
      push_back (ucast (drop_bit 56 v))]"

definition serialize_u128 :: "uint128_t \<Rightarrow> ser_step" where
  "serialize_u128 v = steps [serialize_u64 (low v), serialize_u64 (high v)]"

text \<open>A signed integer has the same bits as the unsigned one it is cast to; \<open>sint\<close> reads it.\<close>

definition serialize_i8 :: "u8 \<Rightarrow> ser_step" where
  "serialize_i8 v = serialize_u8 v"

definition serialize_i16 :: "u16 \<Rightarrow> ser_step" where
  "serialize_i16 v = serialize_u16 v"

definition serialize_i32 :: "u32 \<Rightarrow> ser_step" where
  "serialize_i32 v = serialize_u32 v"

definition serialize_i64 :: "u64 \<Rightarrow> ser_step" where
  "serialize_i64 v = serialize_u64 v"

definition serialize_i128 :: "int128_t \<Rightarrow> ser_step" where
  "serialize_i128 v = steps [serialize_u64 (i_low v), serialize_i64 (i_high v)]"

definition serialize_option_tag :: "bool \<Rightarrow> ser_step" where
  "serialize_option_tag v = serialize_bool v"

definition get_buffer_offset :: "BinarySerializer \<Rightarrow> nat" where
  "get_buffer_offset s = length (bytes s)"

definition increase_container_depth :: ser_step where
  "increase_container_depth s =
     (if container_depth_budget s = 0 then Inl (Serialization_error ''Too many nested containers'')
      else Inr (s\<lparr>container_depth_budget := container_depth_budget s - 1\<rparr>))"

definition decrease_container_depth :: ser_step where
  "decrease_container_depth s = Inr (s\<lparr>container_depth_budget := container_depth_budget s + 1\<rparr>)"

section \<open>BinaryDeserializer\<close>

definition read_byte :: "u8 de_action" where
  "read_byte d =
     (if pos d \<ge> length (de_bytes d) then Inl (Deserialization_error ''Input is not large enough'')
      else Inr (de_bytes d ! pos d, d\<lparr>pos := pos d + 1\<rparr>))"

fun is_valid_utf8_loop :: "u8 \<Rightarrow> u8 list \<Rightarrow> bool" where
  "is_valid_utf8_loop trailing_digits [] = (trailing_digits = 0)"
| "is_valid_utf8_loop trailing_digits (byte # input) =
     (if trailing_digits = 0 then
        (if drop_bit 7 byte = 0 then is_valid_utf8_loop trailing_digits input
         else if drop_bit 5 byte = 0b110 then is_valid_utf8_loop 1 input
         else if drop_bit 4 byte = 0b1110 then is_valid_utf8_loop 2 input
         else if drop_bit 3 byte = 0b11110 then is_valid_utf8_loop 3 input
         else False)
      else if drop_bit 6 byte \<noteq> 0b10 then False
      else is_valid_utf8_loop (trailing_digits - 1) input)"

definition is_valid_utf8 :: "cstring \<Rightarrow> bool" where
  "is_valid_utf8 input = is_valid_utf8_loop 0 input"

definition deserialize_str_with :: "nat de_action \<Rightarrow> cstring de_action" where
  "deserialize_str_with deserialize_len =
     act_bind deserialize_len (\<lambda>len.
     act_bind (act_times len read_byte) (\<lambda>result.
       if \<not> is_valid_utf8 result then act_throw (Deserialization_error (''Invalid UTF8 string: '' @ map (\<lambda>b. char_of (unat b)) result))
       else act_return result))"

definition deserialize_unit :: "unit de_action" where
  "deserialize_unit = act_return ()"

definition deserialize_f32 :: "u32 de_action" where
  "deserialize_f32 = act_throw (Deserialization_error ''not implemented'')"

definition deserialize_f64 :: "u64 de_action" where
  "deserialize_f64 = act_throw (Deserialization_error ''not implemented'')"

definition deserialize_char :: "u32 de_action" where
  "deserialize_char = act_throw (Deserialization_error ''not implemented'')"

definition deserialize_bool :: "bool de_action" where
  "deserialize_bool = act_bind read_byte (\<lambda>b.
     if b = 0 then act_return False
     else if b = 1 then act_return True
     else act_throw (Deserialization_error ''Invalid boolean value''))"

definition deserialize_u8 :: "u8 de_action" where
  "deserialize_u8 = read_byte"

definition deserialize_u16 :: "u16 de_action" where
  "deserialize_u16 =
     act_bind read_byte (\<lambda>b0. act_bind read_byte (\<lambda>b1.
     act_return (ucast b0 OR push_bit 8 (ucast b1))))"

definition deserialize_u32 :: "u32 de_action" where
  "deserialize_u32 =
     act_bind read_byte (\<lambda>b0. act_bind read_byte (\<lambda>b1.
     act_bind read_byte (\<lambda>b2. act_bind read_byte (\<lambda>b3.
     act_return (ucast b0 OR push_bit 8 (ucast b1) OR push_bit 16 (ucast b2)
       OR push_bit 24 (ucast b3))))))"

definition deserialize_u64 :: "u64 de_action" where
  "deserialize_u64 =
     act_bind read_byte (\<lambda>b0. act_bind read_byte (\<lambda>b1.
     act_bind read_byte (\<lambda>b2. act_bind read_byte (\<lambda>b3.
     act_bind read_byte (\<lambda>b4. act_bind read_byte (\<lambda>b5.
     act_bind read_byte (\<lambda>b6. act_bind read_byte (\<lambda>b7.
     act_return (ucast b0 OR push_bit 8 (ucast b1) OR push_bit 16 (ucast b2)
       OR push_bit 24 (ucast b3) OR push_bit 32 (ucast b4) OR push_bit 40 (ucast b5)
       OR push_bit 48 (ucast b6) OR push_bit 56 (ucast b7))))))))))"

definition deserialize_u128 :: "uint128_t de_action" where
  "deserialize_u128 =
     act_bind deserialize_u64 (\<lambda>l. act_bind deserialize_u64 (\<lambda>h.
     act_return \<lparr>high = h, low = l\<rparr>))"

definition deserialize_i8 :: "u8 de_action" where
  "deserialize_i8 = deserialize_u8"

definition deserialize_i16 :: "u16 de_action" where
  "deserialize_i16 = deserialize_u16"

definition deserialize_i32 :: "u32 de_action" where
  "deserialize_i32 = deserialize_u32"

definition deserialize_i64 :: "u64 de_action" where
  "deserialize_i64 = deserialize_u64"

definition deserialize_i128 :: "int128_t de_action" where
  "deserialize_i128 =
     act_bind deserialize_u64 (\<lambda>l. act_bind deserialize_i64 (\<lambda>h.
     act_return \<lparr>i_high = h, i_low = l\<rparr>))"

definition deserialize_option_tag :: "bool de_action" where
  "deserialize_option_tag = deserialize_bool"

definition de_get_buffer_offset :: "BinaryDeserializer \<Rightarrow> nat" where
  "de_get_buffer_offset d = pos d"

definition de_increase_container_depth :: "BinaryDeserializer step" where
  "de_increase_container_depth d =
     (if de_container_depth_budget d = 0
      then Inl (Deserialization_error ''Too many nested containers'')
      else Inr (d\<lparr>de_container_depth_budget := de_container_depth_budget d - 1\<rparr>))"

definition de_decrease_container_depth :: "BinaryDeserializer step" where
  "de_decrease_container_depth d =
     Inr (d\<lparr>de_container_depth_budget := de_container_depth_budget d + 1\<rparr>)"

section \<open>When each operation succeeds\<close>

lemma push_back_iff [run_iff]: "push_back v s = Inr t \<longleftrightarrow> t = put [v] s"
  by (auto simp: push_back_def put_def)

lemma increase_container_depth_iff [run_iff]:
  "increase_container_depth s = Inr t \<longleftrightarrow>
     container_depth_budget s \<noteq> 0 \<and> t = s\<lparr>container_depth_budget := container_depth_budget s - 1\<rparr>"
  by (auto simp: increase_container_depth_def)

lemma decrease_container_depth_iff [run_iff]:
  "decrease_container_depth s = Inr t \<longleftrightarrow>
     t = s\<lparr>container_depth_budget := container_depth_budget s + 1\<rparr>"
  by (auto simp: decrease_container_depth_def)

lemma read_byte_iff [run_iff]:
  "read_byte d = Inr (b, d') \<longleftrightarrow> input_starts [b] d \<and> d' = advance 1 d"
  by (auto simp: read_byte_def input_starts_def advance_def take_Suc hd_drop_conv_nth)

lemma de_increase_container_depth_iff [run_iff]:
  "de_increase_container_depth d = Inr t \<longleftrightarrow>
     de_container_depth_budget d \<noteq> 0 \<and>
     t = d\<lparr>de_container_depth_budget := de_container_depth_budget d - 1\<rparr>"
  by (auto simp: de_increase_container_depth_def)

lemma de_decrease_container_depth_iff [run_iff]:
  "de_decrease_container_depth d = Inr t \<longleftrightarrow>
     t = d\<lparr>de_container_depth_budget := de_container_depth_budget d + 1\<rparr>"
  by (auto simp: de_decrease_container_depth_def)

lemma throws_push_back [throws_intros]: "throws P (push_back v)"
  by (simp add: throws_def push_back_def)

lemma throws_container_depth [throws_intros]:
  "throws is_Serialization_error increase_container_depth"
  "throws P decrease_container_depth"
  "throws is_decoding_exn de_increase_container_depth"
  "throws Q de_decrease_container_depth"
  by (auto simp: throws_def increase_container_depth_def decrease_container_depth_def
      de_increase_container_depth_def de_decrease_container_depth_def is_decoding_exn_def)

lemma throws_read_byte [throws_intros]: "throws is_decoding_exn read_byte"
  by (auto simp: throws_def read_byte_def is_decoding_exn_def)

lemma is_decoding_exn_simps [simp]:
  "is_decoding_exn (Deserialization_error m)"
  "is_decoding_exn (Out_of_range m)"
  by (simp_all add: is_decoding_exn_def)

section \<open>The primitive codecs\<close>

definition doc_u8 :: "u8 \<Rightarrow> bcs_doc" where
  "doc_u8 v = Doc_Bytes [v]"

definition doc_bool :: "bool \<Rightarrow> bcs_doc" where
  "doc_bool v = Doc_Bytes [of_bool v]"

definition doc_unit :: "unit \<Rightarrow> bcs_doc" where
  "doc_unit v = Doc_Bytes []"

definition doc_word :: "nat \<Rightarrow> 'a::len word \<Rightarrow> bcs_doc" where
  "doc_word n v = Doc_Bytes (le_split n v)"

definition doc_u128 :: "uint128_t \<Rightarrow> bcs_doc" where
  "doc_u128 v = Doc_Tuple [doc_word 8 (low v), doc_word 8 (high v)]"

definition doc_i128 :: "int128_t \<Rightarrow> bcs_doc" where
  "doc_i128 v = Doc_Tuple [doc_word 8 (i_low v), doc_word 8 (i_high v)]"

interpretation u8_codec: bcs_codec serialize_u8 deserialize_u8 doc_u8
  by unfold_locales
    (auto simp: serialize_u8_def deserialize_u8_def doc_u8_def run_iff intro: throws_intros)

interpretation unit_codec: bcs_codec "\<lambda>_. serialize_unit" deserialize_unit doc_unit
  by unfold_locales
    (auto simp: serialize_unit_def deserialize_unit_def doc_unit_def throws_def act_return_def)

interpretation bool_codec: bcs_codec serialize_bool deserialize_bool doc_bool
proof unfold_locales
  fix x :: bool and s s' and d d'
  show "serialize_bool x s = Inr s' \<longleftrightarrow> fits (doc_bool x) \<and>
      depth (doc_bool x) \<le> unat (container_depth_budget s) \<and> s' = put (enc (doc_bool x)) s"
    by (auto simp: serialize_bool_def doc_bool_def run_iff)
  show "throws is_Serialization_error (serialize_bool x)"
    by (auto simp: serialize_bool_def intro: throws_intros)
  show "throws is_decoding_exn deserialize_bool"
    by (auto simp: deserialize_bool_def intro!: throws_intros)
  show "deserialize_bool d = Inr (x, d') \<longleftrightarrow> wf_doc (doc_bool x) \<and>
      depth (doc_bool x) \<le> unat (de_container_depth_budget d) \<and>
      input_starts (enc (doc_bool x)) d \<and> d' = advance (length (enc (doc_bool x))) d"
    by (cases x) (auto simp: deserialize_bool_def doc_bool_def run_iff split: if_splits
        intro: exI [of _ "0 :: u8"] exI [of _ "1 :: u8"])
qed

lemma le_split_eqs:
  "le_split 2 v = [ucast v, ucast (drop_bit 8 v)]"
  "le_split 4 v = [ucast v, ucast (drop_bit 8 v), ucast (drop_bit 16 v), ucast (drop_bit 24 v)]"
  "le_split 8 v = [ucast v, ucast (drop_bit 8 v), ucast (drop_bit 16 v), ucast (drop_bit 24 v),
     ucast (drop_bit 32 v), ucast (drop_bit 40 v), ucast (drop_bit 48 v), ucast (drop_bit 56 v)]"
  by (simp_all add: numeral_eq_Suc)

text \<open>The deserializers of fixed-width integers read that many bytes and join them.\<close>

lemma read_bytes_iff:
  "act_times n read_byte d = Inr (bs, d') \<longleftrightarrow>
     length bs = n \<and> input_starts bs d \<and> d' = advance n d"
proof (induction n arbitrary: d bs)
  case (Suc n)
  show ?case
  proof (cases bs)
    case (Cons b as)
    then show ?thesis
      by (auto simp: run_iff Suc.IH input_starts_Cons [of b as])
  qed (simp add: run_iff)
qed (auto simp: run_iff)

lemma deserialize_by_join:
  "deserialize_u16 = act_bind (act_times 2 read_byte) (\<lambda>bs. act_return (le_join bs))"
  "deserialize_u32 = act_bind (act_times 4 read_byte) (\<lambda>bs. act_return (le_join bs))"
  "deserialize_u64 = act_bind (act_times 8 read_byte) (\<lambda>bs. act_return (le_join bs))"
  unfolding deserialize_u16_def deserialize_u32_def deserialize_u64_def
  by (rule ext, simp add: numeral_eq_Suc act_times.simps act_bind_def act_return_def push_bit_or or.assoc
      split: sum.splits prod.splits)+

lemma bcs_codec_word:
  fixes ser :: "'a::len word \<Rightarrow> ser_step"
  assumes "\<And>v s. ser v s = Inr (put (le_split n v) s)"
    and "de = act_bind (act_times n read_byte) (\<lambda>bs. act_return (le_join bs))"
    and "LENGTH('a) = 8 * n"
  shows "bcs_codec ser de (doc_word n)"
proof
  show "throws is_Serialization_error (ser x)" for x
    by (simp add: throws_def assms(1))
  show "throws is_decoding_exn de"
    unfolding assms(2) by (intro throws_intros)
  show "ser x s = Inr s' \<longleftrightarrow> fits (doc_word n x) \<and>
      depth (doc_word n x) \<le> unat (container_depth_budget s) \<and> s' = put (enc (doc_word n x)) s" for x s s'
    by (auto simp: assms(1) doc_word_def)
  show "de d = Inr (x, d') \<longleftrightarrow> wf_doc (doc_word n x) \<and>
      depth (doc_word n x) \<le> unat (de_container_depth_budget d) \<and>
      input_starts (enc (doc_word n x)) d \<and> d' = advance (length (enc (doc_word n x))) d" for d x d'
  proof -
    have join: "length bs = n \<and> x = le_join bs \<longleftrightarrow> bs = le_split n x" for bs
      using le_join_eq_iff [of bs x] assms(3) by auto
    have "de d = Inr (x, d') \<longleftrightarrow>
        (\<exists>bs. (length bs = n \<and> x = le_join bs) \<and> input_starts bs d \<and> d' = advance n d)"
      by (auto simp: assms(2) run_iff read_bytes_iff)
    then show ?thesis
      unfolding join by (simp add: doc_word_def)
  qed
qed

lemma serialize_words:
  "serialize_u16 v16 s = Inr (put (le_split 2 v16) s)"
  "serialize_u32 v32 s = Inr (put (le_split 4 v32) s)"
  "serialize_u64 v64 s = Inr (put (le_split 8 v64) s)"
  by (simp_all add: serialize_u16_def serialize_u32_def serialize_u64_def le_split_eqs
      steps.simps push_back_def put_def)

interpretation u16_codec: bcs_codec serialize_u16 deserialize_u16 "doc_word 2"
  by (rule bcs_codec_word) (simp_all add: serialize_words deserialize_by_join)

interpretation u32_codec: bcs_codec serialize_u32 deserialize_u32 "doc_word 4"
  by (rule bcs_codec_word) (simp_all add: serialize_words deserialize_by_join)

interpretation u64_codec: bcs_codec serialize_u64 deserialize_u64 "doc_word 8"
  by (rule bcs_codec_word) (simp_all add: serialize_words deserialize_by_join)

lemma serialize_signed_eq:
  "serialize_i8 = serialize_u8" "serialize_i16 = serialize_u16"
  "serialize_i32 = serialize_u32" "serialize_i64 = serialize_u64"
  by (simp_all add: serialize_i8_def serialize_i16_def serialize_i32_def serialize_i64_def fun_eq_iff)

lemmas deserialize_signed_eq =
  deserialize_i8_def deserialize_i16_def deserialize_i32_def deserialize_i64_def

interpretation i8_codec: bcs_codec serialize_i8 deserialize_i8 doc_u8
  unfolding serialize_signed_eq deserialize_signed_eq by (rule u8_codec.bcs_codec_axioms)

interpretation i16_codec: bcs_codec serialize_i16 deserialize_i16 "doc_word 2"
  unfolding serialize_signed_eq deserialize_signed_eq by (rule u16_codec.bcs_codec_axioms)

interpretation i32_codec: bcs_codec serialize_i32 deserialize_i32 "doc_word 4"
  unfolding serialize_signed_eq deserialize_signed_eq by (rule u32_codec.bcs_codec_axioms)

interpretation i64_codec: bcs_codec serialize_i64 deserialize_i64 "doc_word 8"
  unfolding serialize_signed_eq deserialize_signed_eq by (rule u64_codec.bcs_codec_axioms)

lemma uint128_t_eq_iff: "v = \<lparr>high = h, low = l\<rparr> \<longleftrightarrow> high v = h \<and> low v = l"
  by (cases v) auto

interpretation u128_codec: bcs_codec serialize_u128 deserialize_u128 doc_u128
  by unfold_locales
    (auto simp: serialize_u128_def deserialize_u128_def doc_u128_def run_iff uint128_t_eq_iff
      u64_codec.ser_iff u64_codec.de_iff intro!: throws_intros u64_codec.ser_exn u64_codec.de_exn)

interpretation i128_codec: bcs_codec serialize_i128 deserialize_i128 doc_i128
proof unfold_locales
  fix x :: int128_t and s s' d d'
  show "serialize_i128 x s = Inr s' \<longleftrightarrow> fits (doc_i128 x) \<and>
      depth (doc_i128 x) \<le> unat (container_depth_budget s) \<and> s' = put (enc (doc_i128 x)) s"
    by (auto simp: serialize_i128_def doc_i128_def run_iff u64_codec.ser_iff i64_codec.ser_iff)
  show "throws is_Serialization_error (serialize_i128 x)"
    unfolding serialize_i128_def by (intro throws_intros u64_codec.ser_exn i64_codec.ser_exn)
  show "throws is_decoding_exn deserialize_i128"
    unfolding deserialize_i128_def by (intro throws_intros u64_codec.de_exn i64_codec.de_exn)
  show "deserialize_i128 d = Inr (x, d') \<longleftrightarrow> wf_doc (doc_i128 x) \<and>
      depth (doc_i128 x) \<le> unat (de_container_depth_budget d) \<and>
      input_starts (enc (doc_i128 x)) d \<and> d' = advance (length (enc (doc_i128 x))) d"
    by (cases x) (auto simp: deserialize_i128_def doc_i128_def run_iff u64_codec.de_iff i64_codec.de_iff)
qed

section \<open>UTF-8 validation\<close>

lemma drop_bit_eq_iff:
  "drop_bit 7 (b :: u8) = 0 \<longleftrightarrow> unat b < 128"
  "drop_bit 5 b = 0b110 \<longleftrightarrow> 192 \<le> unat b \<and> unat b < 224"
  "drop_bit 4 b = 0b1110 \<longleftrightarrow> 224 \<le> unat b \<and> unat b < 240"
  "drop_bit 3 b = 0b11110 \<longleftrightarrow> 240 \<le> unat b \<and> unat b < 248"
  "drop_bit 6 b = 0b10 \<longleftrightarrow> 128 \<le> unat b \<and> unat b < 192"
  by (simp_all add: word_unat_eq_iff drop_bit_eq_div unat_div) linarith+

inductive_simps utf8_shaped_Cons: "utf8_shaped (b # bs)"

definition utf8_tail :: "nat \<Rightarrow> u8 list \<Rightarrow> bool" where
  "utf8_tail n bs \<longleftrightarrow>
     (\<exists>cs rest. bs = cs @ rest \<and> length cs = n \<and> list_all continuation cs \<and> utf8_shaped rest)"

lemma utf8_tail_simps:
  "utf8_tail 0 bs \<longleftrightarrow> utf8_shaped bs"
  "utf8_tail (Suc n) [] \<longleftrightarrow> False"
  "utf8_tail (Suc n) (b # bs) \<longleftrightarrow> continuation b \<and> utf8_tail n bs"
  by (auto simp: utf8_tail_def length_Suc_conv) (metis append_Cons list.pred_inject(2) length_Cons)+

lemma utf8_shaped_tail: "utf8_shaped (b # bs) \<longleftrightarrow> (\<exists>n. announced b = Some n \<and> utf8_tail n bs)"
  by (auto simp: utf8_shaped_Cons utf8_tail_def)

lemma is_valid_utf8_loop_iff: "is_valid_utf8_loop k bs \<longleftrightarrow> utf8_tail (unat k) bs"
proof (induction bs arbitrary: k)
  case Nil
  then show ?case
    by (cases "unat k") (auto simp: utf8_tail_simps utf8_empty unat_eq_0)
next
  case (Cons b bs)
  show ?case
  proof (cases "k = 0")
    case True
    then show ?thesis
      by (auto simp: Cons.IH utf8_tail_simps utf8_shaped_tail announced_def drop_bit_eq_iff)
  next
    case False
    then have "unat k = Suc (unat (k - 1))"
      by (simp add: unat_pred_word unat_gt_0)
    with False show ?thesis
      by (auto simp: Cons.IH utf8_tail_simps continuation_def drop_bit_eq_iff)
  qed
qed

lemma is_valid_utf8_iff: "is_valid_utf8 bs \<longleftrightarrow> utf8_shaped bs"
  by (simp add: is_valid_utf8_def is_valid_utf8_loop_iff utf8_tail_simps)

end
