(* ===== verification/Bcs.thy ===== *)
theory Bcs
  imports Binary "HOL-Library.List_Lexorder"
begin

text \<open>
  \<open>src/cpp/framework/src/bcs.hpp\<close>: \<open>BcsSerializer\<close> and \<open>BcsDeserializer\<close>, the BCS instances
  of the binary classes, and the two member functions every generated type has,
  \<open>bcsSerialize\<close> and \<open>bcsDeserialize\<close> (\<open>src/cpp/framework/src/diem_types.hpp\<close>).

  The lemmas show that the ULEB128 loops implement \<open>uleb128\<close> exactly (canonical encodings only),
  and lift the contract of a codec to whole messages.
\<close>

section \<open>BcsSerializer\<close>

definition BCS_MAX_LENGTH :: nat where
  "BCS_MAX_LENGTH = 2 ^ 31 - 1"

definition BCS_MAX_CONTAINER_DEPTH :: u64 where
  "BCS_MAX_CONTAINER_DEPTH = 500"

definition BcsSerializer :: BinarySerializer where
  "BcsSerializer = \<lparr>bytes = [], container_depth_budget = BCS_MAX_CONTAINER_DEPTH\<rparr>"

function serialize_u32_as_uleb128 :: "u32 \<Rightarrow> ser_step" where
  "serialize_u32_as_uleb128 value s =
     (if value \<ge> 0x80
      then (case push_back (ucast ((value AND 0x7F) OR 0x80)) s of
              Inl e \<Rightarrow> Inl e
            | Inr s' \<Rightarrow> serialize_u32_as_uleb128 (drop_bit 7 value) s')
      else push_back (ucast value) s)"
  by pat_completeness auto
termination
  by (relation "measure (\<lambda>(value, s). unat value)")
    (auto simp: word_le_nat_alt drop_bit_eq_div unat_div)

declare serialize_u32_as_uleb128.simps [simp del]

definition serialize_len :: "nat \<Rightarrow> ser_step" where
  "serialize_len value s =
     (if value > BCS_MAX_LENGTH then Inl (Serialization_error ''Length is too large'')
      else serialize_u32_as_uleb128 (of_nat value) s)"

definition serialize_variant_index :: "u32 \<Rightarrow> ser_step" where
  "serialize_variant_index value = serialize_u32_as_uleb128 value"

definition serialize_str :: "cstring \<Rightarrow> ser_step" where
  "serialize_str = serialize_str_with serialize_len"

text \<open>
  \<open>sort_last_entries\<close>: cut the buffer at the offsets, sort the slices as byte strings
  (\<open>std::lexicographical_compare\<close>), write them back. \<open>std::sort\<close> with this comparison leaves equal
  slices in any order, which cannot be observed.
\<close>

fun slices_at :: "u8 list \<Rightarrow> nat list \<Rightarrow> u8 list list" where
  "slices_at bs (i # j # offsets) = take (j - i) (drop i bs) # slices_at bs (j # offsets)"
| "slices_at bs offsets = []"

definition sort_last_entries :: "nat list \<Rightarrow> BinarySerializer \<Rightarrow> BinarySerializer" where
  "sort_last_entries offsets s =
     (if length offsets \<le> 1 then s
      else let slices = slices_at (bytes s) (offsets @ [length (bytes s)])
           in s\<lparr>bytes := take (hd offsets) (bytes s) @ concat (sort slices)\<rparr>)"

section \<open>BcsDeserializer\<close>

definition BcsDeserializer :: "u8 list \<Rightarrow> BinaryDeserializer" where
  "BcsDeserializer input =
     \<lparr>pos = 0, de_container_depth_budget = BCS_MAX_CONTAINER_DEPTH, de_bytes = input\<rparr>"

function deserialize_uleb128_loop :: "nat \<Rightarrow> u64 \<Rightarrow> u32 de_action" where
  "deserialize_uleb128_loop shift value d =
     (if shift < 32 then
        (case read_byte d of
           Inl e \<Rightarrow> Inl e
         | Inr (byte, d') \<Rightarrow>
             (let digit = byte AND 0x7F;
                  value' = value OR push_bit shift (ucast digit)
              in if value' > 0xFFFFFFFF then
                   Inl (Deserialization_error
                     ''Overflow while parsing uleb128-encoded uint32 value'')
                 else if digit = byte then
                   (if shift > 0 \<and> digit = 0 then
                      Inl (Deserialization_error ''Invalid uleb128 number (unexpected zero digit)'')
                    else Inr (ucast value', d'))
                 else deserialize_uleb128_loop (shift + 7) value' d'))
      else Inl (Deserialization_error ''Overflow while parsing uleb128-encoded uint32 value''))"
  by pat_completeness auto
termination
  by (relation "measure (\<lambda>(shift, value, d). 32 - shift)") auto

declare deserialize_uleb128_loop.simps [simp del]

definition deserialize_uleb128_as_u32 :: "u32 de_action" where
  "deserialize_uleb128_as_u32 = deserialize_uleb128_loop 0 0"

definition deserialize_len :: "nat de_action" where
  "deserialize_len = act_bind deserialize_uleb128_as_u32 (\<lambda>value.
     if unat value > BCS_MAX_LENGTH then act_throw (Deserialization_error ''Length is too large'')
     else act_return (unat value))"

definition deserialize_variant_index :: "u32 de_action" where
  "deserialize_variant_index = deserialize_uleb128_as_u32"

definition deserialize_str :: "cstring de_action" where
  "deserialize_str = deserialize_str_with deserialize_len"

definition check_that_key_slices_are_increasing ::
    "nat \<times> nat \<Rightarrow> nat \<times> nat \<Rightarrow> BinaryDeserializer step" where
  "check_that_key_slices_are_increasing key1 key2 d =
     (let slice = (\<lambda>(i, j). take (j - i) (drop i (de_bytes d)))
      in if \<not> slice key1 < slice key2
         then Inl (Deserialization_error
           ''Error while decoding map: keys are not serialized in the expected order'')
         else Inr d)"

section \<open>Whole messages\<close>

definition bcsSerialize :: "('a \<Rightarrow> ser_step) \<Rightarrow> 'a \<Rightarrow> u8 list result" where
  "bcsSerialize serialize obj =
     (case serialize obj BcsSerializer of Inl e \<Rightarrow> Inl e | Inr s \<Rightarrow> Inr (bytes s))"

definition bcsDeserialize :: "'a de_action \<Rightarrow> u8 list \<Rightarrow> 'a result" where
  "bcsDeserialize deserialize input =
     (case deserialize (BcsDeserializer input) of
        Inl e \<Rightarrow> Inl e
      | Inr (value, d) \<Rightarrow>
          (if de_get_buffer_offset d < length input
           then Inl (Deserialization_error ''Some input bytes were not read'')
           else Inr value))"

section \<open>ULEB128\<close>

lemma uleb128_more:
  fixes v :: u32
  shows "ucast ((v AND 0x7F) OR 0x80) = (of_nat (128 + unat v mod 128) :: u8)"
proof -
  have m: "v AND 0x7F = take_bit 7 v" by (simp add: take_bit_eq_mask mask_eq_exp_minus_1)
  have "ucast ((v AND 0x7F) OR 0x80) = (0x80 :: u8) OR ucast (take_bit 7 v)"
    unfolding m by (rule bit_word_eqI) (auto simp: bit_simps)
  also have "\<dots> = 0x80 + ucast (take_bit 7 v)"
  proof -
    have "(0x80 :: u8) AND ucast (take_bit 7 v) = 0"
      using push_and_take_zero [of 7 "1 :: u8" v] by simp
    then show ?thesis by (rule disjunctive_add_eq_or [symmetric])
  qed
  also have "\<dots> = of_nat (128 + unat v mod 128)"
  proof -
    have "unat v mod 128 = unat (take_bit 7 v)" by (simp add: take_bit_eq_mod unat_mod)
    then show ?thesis by (simp only: of_nat_add of_nat_unat) simp
  qed
  finally show ?thesis .
qed

lemma serialize_u32_as_uleb128_eq: "serialize_u32_as_uleb128 v s = Inr (put (uleb128 (unat v)) s)"
proof (induction v s rule: serialize_u32_as_uleb128.induct)
  case (1 v s)
  show ?case
  proof (cases "v \<ge> 0x80")
    case True
    then have "128 \<le> unat v" by (simp add: word_le_nat_alt)
    moreover have "unat (drop_bit 7 v) = unat v div 128"
      by (simp add: drop_bit_eq_div unat_div)
    ultimately show ?thesis
      using True "1.IH"
      by (simp add: serialize_u32_as_uleb128.simps [of v s] push_back_def put_def uleb128_more uleb128_big)
  next
    case False
    then have "unat v < 128" by (simp add: word_le_nat_alt)
    with False show ?thesis
      by (simp add: serialize_u32_as_uleb128.simps [of v s] push_back_def put_def uleb128_small)
  qed
qed

text \<open>The first byte of an encoding decides whether it is the last one.\<close>

lemma input_starts_uleb128:
  assumes "input_starts [b] d"
  shows "input_starts (uleb128 m) d \<longleftrightarrow>
     (if unat b < 128 then m = unat b
      else m mod 128 = unat b mod 128 \<and> 0 < m div 128 \<and> input_starts (uleb128 (m div 128)) (advance 1 d))"
proof -
  have one: "input_starts [a] d \<longleftrightarrow> a = b" for a
    using assms by (cases "drop (pos d) (de_bytes d)") (auto simp: input_starts_def)
  show ?thesis
  proof (cases "m < 128")
    case True
    then have "(of_nat m = b) \<longleftrightarrow> m = unat b"
      by (auto simp: unat_of_nat)
    with True show ?thesis
      by (simp add: uleb128_small one)
  next
    case False
    have "(of_nat (128 + m mod 128) = b) \<longleftrightarrow> 128 + m mod 128 = unat b"
      by (auto simp: unat_of_nat simp del: of_nat_add)
    moreover have "unat b < 128 \<or> unat b = 128 + unat b mod 128"
      using byte_mod_128 [of "unat b"] unsigned_less [of b] by simp
    ultimately show ?thesis
      using False by (auto simp: uleb128_big input_starts_Cons [of _ "uleb128 _"] one simp del: of_nat_add)
  qed
qed

lemma no_first_byte: "(\<And>b. \<not> input_starts [b] d) \<Longrightarrow> \<not> input_starts (uleb128 m) d"
  by (metis input_starts_Cons neq_Nil_conv uleb128_not_Nil)

text \<open>One round of the decoding loop, with the accumulated value read as a number.\<close>

lemma deserialize_uleb128_loop_round:
  assumes "read_byte d = Inr (b, d')" and "shift < 32" and "n < 2 ^ shift"
    and "n' = n + 2 ^ shift * (unat b mod 128)"
  shows "deserialize_uleb128_loop shift (of_nat n) d = Inr (v, d'') \<longleftrightarrow>
    n' < 2 ^ 32 \<and>
    (if unat b < 128 then (shift = 0 \<or> unat b \<noteq> 0) \<and> v = of_nat n' \<and> d'' = d'
     else deserialize_uleb128_loop (shift + 7) (of_nat n') d' = Inr (v, d''))"
proof -
  define acc where "acc = of_nat n OR push_bit shift (ucast (b AND 0x7F) :: u64)"
  have "(2 :: nat) ^ shift \<le> 2 ^ 32" using assms(2) by (intro power_increasing) auto
  then have "n < 2 ^ 64" using assms(3) by simp
  then have acc: "unat acc = n'"
    using assms(2-4) unat_or_push_bit [of "of_nat n" shift "b AND 0x7F"]
    by (simp add: acc_def unat_u8_low7 unat_of_nat)
  have eqs: "acc > 0xFFFFFFFF \<longleftrightarrow> 2 ^ 32 \<le> n'" "of_nat n' = acc"
    "b AND 0x7F = 0 \<and> unat b < 128 \<longleftrightarrow> unat b = 0"
    using acc by (auto simp: word_less_nat_alt unat_u8_low7 word_unat_eq_iff)
  have "ucast acc = (of_nat n' :: u32)"
    unfolding acc [symmetric] by simp
  with assms(1,2) eqs show ?thesis
    by (auto simp: deserialize_uleb128_loop.simps [of shift] Let_def u8_low7_eq_iff simp flip: acc_def)
qed

definition uleb128_loop_reads :: "nat \<Rightarrow> bool" where
  "uleb128_loop_reads shift \<longleftrightarrow> (\<forall>n d v d'. n < 2 ^ shift \<longrightarrow>
     (deserialize_uleb128_loop shift (of_nat n) d = Inr (v, d') \<longleftrightarrow>
      (\<exists>m. unat v = n + 2 ^ shift * m \<and> (0 < shift \<longrightarrow> 0 < m) \<and>
         input_starts (uleb128 m) d \<and> d' = advance (length (uleb128 m)) d)))"

lemma uleb128_loop_reads_end: "uleb128_loop_reads 35"
proof -
  have "unat v \<noteq> n + 2 ^ 35 * m" if "0 < m" for v :: u32 and n m
    using unat_u32_less [of v] that by (cases m) auto
  then show ?thesis
    by (auto simp: uleb128_loop_reads_def deserialize_uleb128_loop.simps [of 35])
qed

lemma uleb128_loop_reads_step:
  assumes IH: "uleb128_loop_reads (shift + 7)" and shift: "shift < 32"
  shows "uleb128_loop_reads shift"
  unfolding uleb128_loop_reads_def
proof (intro allI impI)
  fix n :: nat and d v d' assume n: "n < 2 ^ shift"
  show "deserialize_uleb128_loop shift (of_nat n) d = Inr (v, d') \<longleftrightarrow>
      (\<exists>m. unat v = n + 2 ^ shift * m \<and> (0 < shift \<longrightarrow> 0 < m) \<and>
         input_starts (uleb128 m) d \<and> d' = advance (length (uleb128 m)) d)" (is "?L \<longleftrightarrow> ?R")
  proof (cases "read_byte d")
    case (Inl e)
    then have "\<not> input_starts [b] d" for b using read_byte_iff [of d b "advance 1 d"] by auto
    with Inl show ?thesis by (auto simp: deserialize_uleb128_loop.simps [of shift] no_first_byte)
  next
    case (Inr r)
    then obtain b where r: "read_byte d = Inr (b, advance 1 d)" and b: "input_starts [b] d"
      by (cases r) (auto simp: read_byte_iff)
    define n' where "n' = n + 2 ^ shift * (unat b mod 128)"
    have v: "unat v < 2 ^ 32" by (rule unat_u32_less)
    have round: "?L \<longleftrightarrow> n' < 2 ^ 32 \<and>
       (if unat b < 128 then (shift = 0 \<or> unat b \<noteq> 0) \<and> v = of_nat n' \<and> d' = advance 1 d
        else deserialize_uleb128_loop (shift + 7) (of_nat n') (advance 1 d) = Inr (v, d'))"
      by (rule deserialize_uleb128_loop_round [OF r shift n n'_def])
    show ?thesis
    proof (cases "unat b < 128")
      case True
      then have "n' < 2 ^ 32 \<and> v = of_nat n' \<longleftrightarrow> unat v = n + 2 ^ shift * unat b"
        using eq_of_nat_iff [of n' v] by (simp add: n'_def)
      with True show ?thesis
        unfolding round by (auto simp: input_starts_uleb128 [OF b] uleb128_small)
    next
      case False
      have "n' < 2 ^ shift * (1 + unat b mod 128)" using n by (simp add: n'_def)
      also have "\<dots> \<le> 2 ^ (shift + 7)"
        unfolding power_add by (intro mult_le_mono2) (simp add: Suc_le_eq)
      finally have "deserialize_uleb128_loop (shift + 7) (of_nat n') (advance 1 d) = Inr (v, d') \<longleftrightarrow>
          (\<exists>m. unat v = n' + 2 ^ (shift + 7) * m \<and> 0 < m \<and>
            input_starts (uleb128 m) (advance 1 d) \<and> d' = advance (length (uleb128 m)) (advance 1 d))"
        using IH by (simp add: uleb128_loop_reads_def)
      also have "\<dots> \<longleftrightarrow> (\<exists>m. m mod 128 = unat b mod 128 \<and> unat v = n + 2 ^ shift * m \<and> 0 < m div 128 \<and>
            input_starts (uleb128 (m div 128)) (advance 1 d) \<and>
            d' = advance (length (uleb128 (m div 128))) (advance 1 d))"
        by (subst ex_base_128) (simp_all add: n'_def power_add algebra_simps)
      finally have split: "deserialize_uleb128_loop (shift + 7) (of_nat n') (advance 1 d) = Inr (v, d') \<longleftrightarrow> \<dots>" .
      have "n' < 2 ^ 32" if "unat v = n + 2 ^ shift * m" "m mod 128 = unat b mod 128" for m
      proof -
        have "n' \<le> unat v" unfolding n'_def that(1) that(2) [symmetric] by simp
        with v show ?thesis by simp
      qed
      with False show ?thesis
        unfolding round split by (auto simp: input_starts_uleb128 [OF b] uleb128_big)
    qed
  qed
qed

lemma deserialize_uleb128_as_u32_iff [run_iff]:
  "deserialize_uleb128_as_u32 d = Inr (v, d') \<longleftrightarrow>
     input_starts (uleb128 (unat v)) d \<and> d' = advance (length (uleb128 (unat v))) d"
proof -
  have "uleb128_loop_reads 28" using uleb128_loop_reads_step [of 28] uleb128_loop_reads_end by simp
  then have "uleb128_loop_reads 21" using uleb128_loop_reads_step [of 21] by simp
  then have "uleb128_loop_reads 14" using uleb128_loop_reads_step [of 14] by simp
  then have "uleb128_loop_reads 7" using uleb128_loop_reads_step [of 7] by simp
  then have "uleb128_loop_reads 0" using uleb128_loop_reads_step [of 0] by simp
  from this [unfolded uleb128_loop_reads_def, rule_format, of 0] show ?thesis
    by (simp add: deserialize_uleb128_as_u32_def)
qed

lemma throws_uleb128 [throws_intros]:
  "throws P (serialize_u32_as_uleb128 v)"
  "throws is_decoding_exn deserialize_uleb128_as_u32"
proof -
  show "throws P (serialize_u32_as_uleb128 v)"
    by (simp add: throws_def serialize_u32_as_uleb128_eq)
  have "deserialize_uleb128_loop shift acc d = Inl e \<Longrightarrow> is_decoding_exn e" for shift acc d e
  proof (induction shift acc d rule: deserialize_uleb128_loop.induct)
    case (1 shift acc d)
    then show ?case
      using throwsD [OF throws_read_byte]
      by (auto simp: deserialize_uleb128_loop.simps [of shift] Let_def
          split: if_splits sum.splits prod.splits)
  qed
  then show "throws is_decoding_exn deserialize_uleb128_as_u32"
    by (simp add: throws_def deserialize_uleb128_as_u32_def)
qed

section \<open>Lengths, enum indices and strings\<close>

lemma BCS_MAX_LENGTH_eq: "BCS_MAX_LENGTH = max_length"
  by (simp add: BCS_MAX_LENGTH_def max_length_def)

lemma serialize_len_iff [run_iff]:
  "serialize_len n s = Inr t \<longleftrightarrow> n \<le> max_length \<and> t = put (uleb128 n) s"
  by (auto simp: serialize_len_def BCS_MAX_LENGTH_eq serialize_u32_as_uleb128_eq max_length_def unat_of_nat)

lemma deserialize_len_iff [run_iff]:
  "deserialize_len d = Inr (n, d') \<longleftrightarrow>
     n \<le> max_length \<and> input_starts (uleb128 n) d \<and> d' = advance (length (uleb128 n)) d"
proof -
  have "n \<le> max_length \<Longrightarrow> \<exists>v :: u32. unat v = n"
    by (rule exI [of _ "of_nat n"]) (simp add: max_length_def unat_of_nat)
  then show ?thesis
    by (simp add: deserialize_len_def run_iff BCS_MAX_LENGTH_eq not_less) (use not_less in blast)
qed

lemma serialize_variant_index_iff [run_iff]:
  "serialize_variant_index v s = Inr t \<longleftrightarrow> t = put (uleb128 (unat v)) s"
  by (auto simp: serialize_variant_index_def serialize_u32_as_uleb128_eq)

lemma deserialize_variant_index_iff [run_iff]:
  "deserialize_variant_index d = Inr (v, d') \<longleftrightarrow>
     input_starts (uleb128 (unat v)) d \<and> d' = advance (length (uleb128 (unat v))) d"
  by (simp add: deserialize_variant_index_def run_iff)

lemma throws_len [throws_intros]:
  "throws is_Serialization_error (serialize_len n)"
  "throws is_decoding_exn deserialize_len"
  "throws P (serialize_variant_index v)"
  "throws is_decoding_exn deserialize_variant_index"
proof -
  show "throws is_Serialization_error (serialize_len n)"
    by (auto simp: throws_def serialize_len_def serialize_u32_as_uleb128_eq)
  show "throws is_decoding_exn deserialize_len"
    unfolding deserialize_len_def by (auto intro!: throws_intros)
  show "throws P (serialize_variant_index v)" "throws is_decoding_exn deserialize_variant_index"
    unfolding serialize_variant_index_def deserialize_variant_index_def by (rule throws_uleb128)+
qed

lemma push_backs_iff: "steps (map push_back bs) s = Inr t \<longleftrightarrow> t = put bs s"
proof (induction bs arbitrary: s)
  case (Cons b bs)
  then show ?case using put_simps(2) [of bs "[b]" s] by (simp add: run_iff)
qed (simp add: run_iff)

interpretation str_codec: bcs_codec serialize_str deserialize_str Doc_Str
proof unfold_locales
  fix x :: cstring and s s' and d d'
  show "serialize_str x s = Inr s' \<longleftrightarrow> fits (Doc_Str x) \<and>
      depth (Doc_Str x) \<le> unat (container_depth_budget s) \<and> s' = put (enc (Doc_Str x)) s"
    by (auto simp: serialize_str_def serialize_str_with_def run_iff push_backs_iff)
  show "throws is_Serialization_error (serialize_str x)"
    unfolding serialize_str_def serialize_str_with_def
    by (rule throws_steps) (auto intro: throws_intros)
  show "throws is_decoding_exn deserialize_str"
    unfolding deserialize_str_def deserialize_str_with_def by (auto intro!: throws_intros)
  show "deserialize_str d = Inr (x, d') \<longleftrightarrow> wf_doc (Doc_Str x) \<and>
      depth (Doc_Str x) \<le> unat (de_container_depth_budget d) \<and>
      input_starts (enc (Doc_Str x)) d \<and> d' = advance (length (enc (Doc_Str x))) d"
    by (auto simp: deserialize_str_def deserialize_str_with_def run_iff read_bytes_iff is_valid_utf8_iff
        split: if_splits)
qed

section \<open>Whole messages of a codec\<close>

context bcs_codec
begin

lemma bcsSerialize_iff:
  "bcsSerialize ser x = Inr bs \<longleftrightarrow> fits (doc x) \<and> depth (doc x) \<le> 500 \<and> bs = enc (doc x)"
proof -
  have "bcsSerialize ser x = Inr bs \<longleftrightarrow> (\<exists>s. ser x BcsSerializer = Inr s \<and> bs = bytes s)"
    by (auto simp: bcsSerialize_def split: sum.splits)
  then show ?thesis
    unfolding ser_iff by (auto simp: BcsSerializer_def BCS_MAX_CONTAINER_DEPTH_def)
qed

lemma bcsDeserialize_iff:
  "bcsDeserialize de bs = Inr x \<longleftrightarrow> wf_doc (doc x) \<and> depth (doc x) \<le> 500 \<and> bs = enc (doc x)"
proof -
  let ?d = "BcsDeserializer bs"
  have whole: "input_starts es ?d \<and> \<not> pos (advance (length es) ?d) < length bs \<longleftrightarrow> bs = es" for es
    by (auto simp: BcsDeserializer_def input_starts_prefix)
  have budget: "unat (de_container_depth_budget ?d) = 500"
    by (simp add: BcsDeserializer_def BCS_MAX_CONTAINER_DEPTH_def)
  have "bcsDeserialize de bs = Inr x \<longleftrightarrow> (\<exists>d'. de ?d = Inr (x, d') \<and> \<not> pos d' < length bs)"
    by (auto simp: bcsDeserialize_def de_get_buffer_offset_def split: sum.splits prod.splits)
  also have "\<dots> \<longleftrightarrow> wf_doc (doc x) \<and> depth (doc x) \<le> 500 \<and>
      input_starts (enc (doc x)) ?d \<and> \<not> pos (advance (length (enc (doc x))) ?d) < length bs"
    unfolding de_iff budget by auto
  finally show ?thesis
    unfolding whole .
qed

text \<open>Round trip: a serialized value whose strings are UTF-8 and whose arrays are full comes back.\<close>

lemma message_roundtrip:
  "bcsSerialize ser x = Inr bs \<Longrightarrow> typed (doc x) \<Longrightarrow> bcsDeserialize de bs = Inr x"
  by (simp add: bcsSerialize_iff bcsDeserialize_iff wf_doc_def)

text \<open>Canonicity: an accepted message is the one and only serialization of the value it denotes.\<close>

lemma message_canonical: "bcsDeserialize de bs = Inr x \<Longrightarrow> bcsSerialize ser x = Inr bs"
  by (simp add: bcsSerialize_iff bcsDeserialize_iff wf_doc_def)

lemma message_unique:
  "bcsDeserialize de bs = Inr x \<Longrightarrow> bcsDeserialize de bs' = Inr x \<Longrightarrow> bs = bs'"
  by (simp add: bcsDeserialize_iff)

lemma message_injective:
  "bcsSerialize ser x = Inr bs \<Longrightarrow> bcsSerialize ser y = Inr bs \<Longrightarrow> typed (doc x) \<Longrightarrow> typed (doc y) \<Longrightarrow> x = y"
  using message_roundtrip [of x bs] message_roundtrip [of y bs] by simp

lemma message_serializable: "(\<exists>bs. bcsSerialize ser x = Inr bs) \<longleftrightarrow> fits (doc x) \<and> depth (doc x) \<le> 500"
  by (simp add: bcsSerialize_iff)

lemma message_exn: "bcsSerialize ser x = Inl e \<Longrightarrow> is_Serialization_error e"
  by (auto simp: bcsSerialize_def split: sum.splits dest: throwsD [OF ser_exn])

lemma message_de_exn: "bcsDeserialize de bs = Inl e \<Longrightarrow> is_decoding_exn e"
  by (auto simp: bcsDeserialize_def split: sum.splits if_splits dest: throwsD [OF de_exn])

end

end
