(* ===== verification/Serde.thy ===== *)
theory Serde
  imports Bcs
begin

text \<open>
  \<open>src/cpp/framework/src/serde.hpp\<close>: the serializers and deserializers that C++ derives for
  composite types. A template over \<open>Serializable<T>\<close> takes the serializer of \<open>T\<close> as an argument
  here. Each combinator comes with a rule that builds the \<open>bcs_codec\<close> contract of the composite
  from the contracts of its parts.

  The components of a tuple are deserialized by the arguments of one call of
  \<open>std::make_tuple\<close>. C++ does not say in which order the arguments of a call are evaluated, so the
  order the compiler chose is a parameter (\<open>eval_order\<close>) of \<open>deserialize_tuple2\<close> and of
  everything that contains a tuple.
\<close>

section \<open>Options, vectors, arrays, tuples\<close>

definition serialize_optional :: "('a \<Rightarrow> ser_step) \<Rightarrow> 'a option \<Rightarrow> ser_step" where
  "serialize_optional ser opt =
     (case opt of
        Some v \<Rightarrow> steps [serialize_option_tag True, ser v]
      | None \<Rightarrow> serialize_option_tag False)"

definition deserialize_optional :: "'a de_action \<Rightarrow> 'a option de_action" where
  "deserialize_optional de = act_bind deserialize_option_tag (\<lambda>tag.
     if \<not> tag then act_return None else act_bind de (\<lambda>v. act_return (Some v)))"

definition serialize_vector :: "('a \<Rightarrow> ser_step) \<Rightarrow> 'a list \<Rightarrow> ser_step" where
  "serialize_vector ser value = steps (serialize_len (length value) # map ser value)"

definition deserialize_vector :: "'a de_action \<Rightarrow> 'a list de_action" where
  "deserialize_vector de = act_bind deserialize_len (\<lambda>len. act_times len de)"

definition serialize_array :: "('a \<Rightarrow> ser_step) \<Rightarrow> 'a list \<Rightarrow> ser_step" where
  "serialize_array ser value = steps (map ser value)"

definition deserialize_array :: "nat \<Rightarrow> 'a de_action \<Rightarrow> 'a list de_action" where
  "deserialize_array N de = act_times N de"

definition serialize_tuple2 :: "('a \<Rightarrow> ser_step) \<Rightarrow> ('b \<Rightarrow> ser_step) \<Rightarrow> 'a \<times> 'b \<Rightarrow> ser_step" where
  "serialize_tuple2 serA serB value = steps [serA (fst value), serB (snd value)]"

datatype eval_order = Left_to_right | Right_to_left

definition deserialize_tuple2 ::
    "eval_order \<Rightarrow> 'a de_action \<Rightarrow> 'b de_action \<Rightarrow> ('a \<times> 'b) de_action" where
  "deserialize_tuple2 order deA deB =
     (case order of
        Left_to_right \<Rightarrow> act_bind deA (\<lambda>a. act_bind deB (\<lambda>b. act_return (a, b)))
      | Right_to_left \<Rightarrow> act_bind deB (\<lambda>b. act_bind deA (\<lambda>a. act_return (a, b))))"

section \<open>Variants\<close>

definition serialize_variant :: "nat \<Rightarrow> ser_step \<Rightarrow> ser_step" where
  "serialize_variant index arg = steps [serialize_variant_index (of_nat index), arg]"

text \<open>
  The check before \<open>cases.at(index)\<close> is \<open>index > cases.size()\<close>: for \<open>index == cases.size()\<close> it is
  \<open>at\<close> that throws, a \<open>std::out_of_range\<close>.
\<close>

definition deserialize_variant :: "'a de_action list \<Rightarrow> 'a de_action" where
  "deserialize_variant alts = act_bind deserialize_variant_index (\<lambda>index.
     if unat index > length alts
     then act_throw (Deserialization_error ''Unknown variant index for enum'')
     else if unat index \<ge> length alts then act_throw (Out_of_range ''array::at'')
     else alts ! unat index)"

section \<open>Maps\<close>

text \<open>
  A \<open>std::map\<close> is the list of its entries in iteration order. \<open>serialize_map_loop\<close> is the loop
  that remembers where each entry starts; \<open>map_insert\<close> is \<open>std::map::insert\<close>, which keeps an entry
  that is already there, with the key comparison as an argument.
\<close>

fun serialize_map_loop ::
    "('k \<Rightarrow> ser_step) \<Rightarrow> ('v \<Rightarrow> ser_step) \<Rightarrow> ('k \<times> 'v) list \<Rightarrow> nat list \<Rightarrow>
     BinarySerializer \<Rightarrow> (nat list \<times> BinarySerializer) result" where
  "serialize_map_loop serK serV [] offsets s = Inr (offsets, s)"
| "serialize_map_loop serK serV (item # items) offsets s =
     (case steps [serK (fst item), serV (snd item)] s of
        Inl e \<Rightarrow> Inl e
      | Inr s' \<Rightarrow> serialize_map_loop serK serV items (offsets @ [get_buffer_offset s]) s')"

definition serialize_map ::
    "('k \<Rightarrow> ser_step) \<Rightarrow> ('v \<Rightarrow> ser_step) \<Rightarrow> ('k \<times> 'v) list \<Rightarrow> ser_step" where
  "serialize_map serK serV value s =
     (case serialize_len (length value) s of
        Inl e \<Rightarrow> Inl e
      | Inr s' \<Rightarrow>
          (case serialize_map_loop serK serV value [] s' of
             Inl e \<Rightarrow> Inl e
           | Inr (offsets, s'') \<Rightarrow> Inr (sort_last_entries offsets s'')))"

fun map_insert :: "('k \<Rightarrow> 'k \<Rightarrow> bool) \<Rightarrow> 'k \<times> 'v \<Rightarrow> ('k \<times> 'v) list \<Rightarrow> ('k \<times> 'v) list" where
  "map_insert lt (k, v) [] = [(k, v)]"
| "map_insert lt (k, v) ((k', v') # m) =
     (if lt k k' then (k, v) # (k', v') # m
      else if lt k' k then (k', v') # map_insert lt (k, v) m
      else (k', v') # m)"

fun deserialize_map_loop ::
    "('k \<Rightarrow> 'k \<Rightarrow> bool) \<Rightarrow> 'k de_action \<Rightarrow> 'v de_action \<Rightarrow> nat \<Rightarrow> (nat \<times> nat) option \<Rightarrow>
     ('k \<times> 'v) list \<Rightarrow> ('k \<times> 'v) list de_action" where
  "deserialize_map_loop lt deK deV 0 previous_key_slice result d = Inr (result, d)"
| "deserialize_map_loop lt deK deV (Suc n) previous_key_slice result d =
     (case deK d of
        Inl e \<Rightarrow> Inl e
      | Inr (key, d1) \<Rightarrow>
          (let slice = (de_get_buffer_offset d, de_get_buffer_offset d1);
               checked = (case previous_key_slice of
                            Some prev \<Rightarrow> check_that_key_slices_are_increasing prev slice d1
                          | None \<Rightarrow> Inr d1)
           in case checked of
                Inl e \<Rightarrow> Inl e
              | Inr d2 \<Rightarrow>
                  (case deV d2 of
                     Inl e \<Rightarrow> Inl e
                   | Inr (v, d3) \<Rightarrow>
                       deserialize_map_loop lt deK deV n (Some slice)
                         (map_insert lt (key, v) result) d3)))"

definition deserialize_map ::
    "('k \<Rightarrow> 'k \<Rightarrow> bool) \<Rightarrow> 'k de_action \<Rightarrow> 'v de_action \<Rightarrow> ('k \<times> 'v) list de_action" where
  "deserialize_map lt deK deV = act_bind deserialize_len (\<lambda>len.
     deserialize_map_loop lt deK deV len None [])"

section \<open>Congruence, for recursion through vectors\<close>

lemma serialize_vector_cong [fundef_cong]:
  "xs = ys \<Longrightarrow> (\<And>x. x \<in> set ys \<Longrightarrow> f x = g x) \<Longrightarrow> serialize_vector f xs = serialize_vector g ys"
  unfolding serialize_vector_def by (metis (no_types, lifting) map_cong)

section \<open>Agreement of two readers at one depth\<close>

text \<open>
  Two readers agree at a budget when they give the same result, errors included, in every state
  with that budget. The rules follow the structure of a deserializer.
\<close>

definition same_at :: "u64 \<Rightarrow> 'a de_action \<Rightarrow> 'a de_action \<Rightarrow> bool" where
  "same_at b f g \<longleftrightarrow> (\<forall>d. de_container_depth_budget d = b \<longrightarrow> f d = g d)"

definition keeps_at :: "u64 \<Rightarrow> 'a de_action \<Rightarrow> bool" where
  "keeps_at b f \<longleftrightarrow>
     (\<forall>d x d'. de_container_depth_budget d = b \<longrightarrow> f d = Inr (x, d') \<longrightarrow> de_container_depth_budget d' = b)"

lemma same_atD: "same_at b f g \<Longrightarrow> de_container_depth_budget d = b \<Longrightarrow> f d = g d"
  by (simp add: same_at_def)

lemma keeps_atD:
  "keeps_at b f \<Longrightarrow> de_container_depth_budget d = b \<Longrightarrow> f d = Inr (x, d') \<Longrightarrow>
     de_container_depth_budget d' = b"
  unfolding keeps_at_def by blast

lemma same_at_refl [simp]: "same_at b f f"
  by (simp add: same_at_def)

lemma same_at_trans: "same_at b f g \<Longrightarrow> same_at b g h \<Longrightarrow> same_at b f h"
  by (simp add: same_at_def)

lemma same_at_bind:
  assumes "keeps_at b m" and "\<And>x. same_at b (f x) (g x)"
  shows "same_at b (act_bind m f) (act_bind m g)"
  unfolding same_at_def
proof (intro allI impI)
  fix d :: BinaryDeserializer
  assume "de_container_depth_budget d = b"
  with assms show "act_bind m f d = act_bind m g d"
    by (cases "m d") (auto simp: act_bind_def intro: same_atD dest: keeps_atD)
qed

lemma same_at_bind_first: "same_at b m m' \<Longrightarrow> same_at b (act_bind m f) (act_bind m' f)"
  by (simp add: same_at_def act_bind_def)

lemma same_at_inc:
  "same_at (b - 1) m m' \<Longrightarrow>
     same_at b (act_then de_increase_container_depth m) (act_then de_increase_container_depth m')"
  by (simp add: same_at_def act_then_def de_increase_container_depth_def)

lemma same_at_times:
  assumes "keeps_at b f" and "same_at b f g"
  shows "same_at b (act_times n f) (act_times n g)"
proof (induction n)
  case (Suc n)
  have "act_times (Suc n) f d = act_times (Suc n) g d" if "de_container_depth_budget d = b" for d
  proof (cases "f d")
    case (Inr r)
    with assms(1) that have "de_container_depth_budget (snd r) = b"
      by (cases r) (auto dest: keeps_atD)
    then have "act_times n f (snd r) = act_times n g (snd r)" by (rule same_atD [OF Suc])
    with Inr same_atD [OF assms(2) that] show ?thesis by (cases r) (simp add: act_times.simps)
  qed (use same_atD [OF assms(2) that] in \<open>simp add: act_times.simps\<close>)
  then show ?case by (simp add: same_at_def)
qed (simp add: same_at_def act_times.simps)

lemma keeps_len: "keeps_at b deserialize_len"
  by (auto simp: keeps_at_def run_iff)

lemma same_at_variant:
  assumes "list_all2 (same_at b) alts alts'"
  shows "same_at b (deserialize_variant alts) (deserialize_variant alts')"
  unfolding deserialize_variant_def
proof (rule same_at_bind)
  show "keeps_at b deserialize_variant_index" by (auto simp: keeps_at_def run_iff)
  show "same_at b
      (if length alts < unat index then act_throw (Deserialization_error ''Unknown variant index for enum'')
       else if length alts \<le> unat index then act_throw (Out_of_range ''array::at'') else alts ! unat index)
      (if length alts' < unat index then act_throw (Deserialization_error ''Unknown variant index for enum'')
       else if length alts' \<le> unat index then act_throw (Out_of_range ''array::at'') else alts' ! unat index)"
    for index :: u32
    using assms by (auto simp: list_all2_conv_all_nth)
qed

section \<open>Codecs of composite types\<close>

lemma list_all_id_iff [simp]: "list_all (\<lambda>b. b) (map f xs) \<longleftrightarrow> list_all f xs"
  by (simp add: list_all_iff)

lemma steps_map_ser_iff:
  assumes "bcs_codec ser de doc"
  shows "steps (map ser xs) s = Inr t \<longleftrightarrow>
     list_all (\<lambda>x. fits (doc x) \<and> depth (doc x) \<le> unat (container_depth_budget s)) xs \<and>
     t = put (concat (map (\<lambda>x. enc (doc x)) xs)) s"
proof (induction xs arbitrary: s)
  case (Cons x xs)
  then show ?case by (auto simp: run_iff bcs_codec.ser_iff [OF assms])
qed (simp add: run_iff)

text \<open>
  Elements are read one after the other at the same depth, so it is enough to know the reader of
  one element at that depth. The recursive types need this form.
\<close>

definition reads_doc_at :: "u64 \<Rightarrow> 'a de_action \<Rightarrow> ('a \<Rightarrow> bcs_doc) \<Rightarrow> bool" where
  "reads_doc_at b de doc \<longleftrightarrow>
     (\<forall>d x d'. de_container_depth_budget d = b \<longrightarrow>
        (de d = Inr (x, d') \<longleftrightarrow>
           wf_doc (doc x) \<and> depth (doc x) \<le> unat b \<and>
           input_starts (enc (doc x)) d \<and> d' = advance (length (enc (doc x))) d))"

lemma reads_doc_atD:
  "reads_doc_at b de doc \<Longrightarrow> de_container_depth_budget d = b \<Longrightarrow>
     de d = Inr (x, d') \<longleftrightarrow>
       wf_doc (doc x) \<and> depth (doc x) \<le> unat b \<and>
       input_starts (enc (doc x)) d \<and> d' = advance (length (enc (doc x))) d"
  unfolding reads_doc_at_def by blast

lemma bcs_codec_reads_doc_at: "bcs_codec ser de doc \<Longrightarrow> reads_doc_at b de doc"
  by (auto simp: reads_doc_at_def bcs_codec.de_iff)

lemma reads_doc_at_keeps: "reads_doc_at b de doc \<Longrightarrow> keeps_at b de"
  by (auto simp: keeps_at_def reads_doc_atD)

lemma act_times_reads_doc_at:
  assumes "reads_doc_at b de doc" and "de_container_depth_budget d = b"
  shows "act_times n de d = Inr (xs, d') \<longleftrightarrow>
     length xs = n \<and>
     list_all (\<lambda>x. wf_doc (doc x) \<and> depth (doc x) \<le> unat b) xs \<and>
     input_starts (concat (map (\<lambda>x. enc (doc x)) xs)) d \<and>
     d' = advance (length (concat (map (\<lambda>x. enc (doc x)) xs))) d"
  using assms(2)
proof (induction n arbitrary: xs d)
  case (Suc n)
  show ?case
  proof (cases xs)
    case (Cons y ys)
    with Suc show ?thesis by (auto simp: run_iff reads_doc_atD [OF assms(1)])
  qed (simp add: run_iff)
qed (auto simp: run_iff)

lemmas act_times_de_iff =
  act_times_reads_doc_at [OF bcs_codec_reads_doc_at refl]

definition doc_option :: "('a \<Rightarrow> bcs_doc) \<Rightarrow> 'a option \<Rightarrow> bcs_doc" where
  "doc_option doc opt =
     (case opt of None \<Rightarrow> doc_bool False | Some v \<Rightarrow> Doc_Tuple [doc_bool True, doc v])"

definition doc_vector :: "('a \<Rightarrow> bcs_doc) \<Rightarrow> 'a list \<Rightarrow> bcs_doc" where
  "doc_vector doc xs = Doc_Seq (map doc xs)"

definition doc_array :: "nat \<Rightarrow> ('a \<Rightarrow> bcs_doc) \<Rightarrow> 'a list \<Rightarrow> bcs_doc" where
  "doc_array n doc xs = Doc_Array n (map doc xs)"

definition doc_pair :: "('a \<Rightarrow> bcs_doc) \<Rightarrow> ('b \<Rightarrow> bcs_doc) \<Rightarrow> 'a \<times> 'b \<Rightarrow> bcs_doc" where
  "doc_pair docA docB p = Doc_Tuple [docA (fst p), docB (snd p)]"

named_theorems codec_intros \<open>building codecs from codecs\<close>

lemma bcs_codec_vector [codec_intros]:
  assumes "bcs_codec ser de doc"
  shows "bcs_codec (serialize_vector ser) (deserialize_vector de) (doc_vector doc)"
proof
  note iffs = run_iff steps_map_ser_iff [OF assms] act_times_de_iff [OF assms]
  show "serialize_vector ser x s = Inr s' \<longleftrightarrow> fits (doc_vector doc x) \<and>
      depth (doc_vector doc x) \<le> unat (container_depth_budget s) \<and> s' = put (enc (doc_vector doc x)) s" for x s s'
    by (auto simp: serialize_vector_def doc_vector_def iffs max_list_le_iff list_all_iff comp_def)
  show "throws is_Serialization_error (serialize_vector ser x)" for x
    unfolding serialize_vector_def
    by (rule throws_steps) (auto intro: throws_intros bcs_codec.ser_exn [OF assms])
  show "throws is_decoding_exn (deserialize_vector de)"
    unfolding deserialize_vector_def by (intro throws_intros bcs_codec.de_exn [OF assms])
  show "deserialize_vector de d = Inr (x, d') \<longleftrightarrow> wf_doc (doc_vector doc x) \<and>
      depth (doc_vector doc x) \<le> unat (de_container_depth_budget d) \<and>
      input_starts (enc (doc_vector doc x)) d \<and> d' = advance (length (enc (doc_vector doc x))) d" for d x d'
    by (auto simp: deserialize_vector_def doc_vector_def iffs max_list_le_iff list_all_iff comp_def)
qed

lemma bcs_codec_array [codec_intros]:
  assumes "bcs_codec ser de doc"
  shows "bcs_codec (serialize_array ser) (deserialize_array n de) (doc_array n doc)"
proof
  note iffs = run_iff steps_map_ser_iff [OF assms] act_times_de_iff [OF assms]
  show "serialize_array ser x s = Inr s' \<longleftrightarrow> fits (doc_array n doc x) \<and>
      depth (doc_array n doc x) \<le> unat (container_depth_budget s) \<and> s' = put (enc (doc_array n doc x)) s" for x s s'
    by (auto simp: serialize_array_def doc_array_def iffs max_list_le_iff list_all_iff comp_def)
  show "throws is_Serialization_error (serialize_array ser x)" for x
    unfolding serialize_array_def
    by (rule throws_steps) (auto intro: bcs_codec.ser_exn [OF assms])
  show "throws is_decoding_exn (deserialize_array n de)"
    unfolding deserialize_array_def by (intro throws_intros bcs_codec.de_exn [OF assms])
  show "deserialize_array n de d = Inr (x, d') \<longleftrightarrow> wf_doc (doc_array n doc x) \<and>
      depth (doc_array n doc x) \<le> unat (de_container_depth_budget d) \<and>
      input_starts (enc (doc_array n doc x)) d \<and> d' = advance (length (enc (doc_array n doc x))) d" for d x d'
    by (auto simp: deserialize_array_def doc_array_def iffs max_list_le_iff list_all_iff comp_def)
qed

lemma serialize_option_tag_eq: "serialize_option_tag = serialize_bool"
  by (simp add: serialize_option_tag_def fun_eq_iff)

lemma bcs_codec_optional [codec_intros]:
  assumes "bcs_codec ser de doc"
  shows "bcs_codec (serialize_optional ser) (deserialize_optional de) (doc_option doc)"
proof
  note iffs = run_iff bcs_codec.ser_iff [OF assms] bcs_codec.de_iff [OF assms]
    bool_codec.ser_iff bool_codec.de_iff serialize_option_tag_eq deserialize_option_tag_def
  note exns = throws_intros bcs_codec.ser_exn [OF assms] bcs_codec.de_exn [OF assms]
    bool_codec.ser_exn bool_codec.de_exn
  show "serialize_optional ser x s = Inr s' \<longleftrightarrow> fits (doc_option doc x) \<and>
      depth (doc_option doc x) \<le> unat (container_depth_budget s) \<and> s' = put (enc (doc_option doc x)) s" for x s s'
    by (cases x) (auto simp: serialize_optional_def doc_option_def iffs)
  show "throws is_Serialization_error (serialize_optional ser x)" for x
    by (cases x) (auto simp: serialize_optional_def serialize_option_tag_eq intro!: exns)
  show "throws is_decoding_exn (deserialize_optional de)"
    unfolding deserialize_optional_def deserialize_option_tag_def by (intro exns)
  show "deserialize_optional de d = Inr (x, d') \<longleftrightarrow> wf_doc (doc_option doc x) \<and>
      depth (doc_option doc x) \<le> unat (de_container_depth_budget d) \<and>
      input_starts (enc (doc_option doc x)) d \<and> d' = advance (length (enc (doc_option doc x))) d" for d x d'
    by (cases x) (auto simp: deserialize_optional_def doc_option_def iffs)
qed

lemma bcs_codec_tuple2 [codec_intros]:
  assumes "bcs_codec serA deA docA" and "bcs_codec serB deB docB"
  shows "bcs_codec (serialize_tuple2 serA serB) (deserialize_tuple2 Left_to_right deA deB) (doc_pair docA docB)"
proof
  note iffs = run_iff bcs_codec.ser_iff [OF assms(1)] bcs_codec.de_iff [OF assms(1)]
    bcs_codec.ser_iff [OF assms(2)] bcs_codec.de_iff [OF assms(2)]
  note exns = throws_intros bcs_codec.ser_exn [OF assms(1)] bcs_codec.de_exn [OF assms(1)]
    bcs_codec.ser_exn [OF assms(2)] bcs_codec.de_exn [OF assms(2)]
  show "serialize_tuple2 serA serB x s = Inr s' \<longleftrightarrow> fits (doc_pair docA docB x) \<and>
      depth (doc_pair docA docB x) \<le> unat (container_depth_budget s) \<and> s' = put (enc (doc_pair docA docB x)) s" for x s s'
    by (auto simp: serialize_tuple2_def doc_pair_def iffs)
  show "throws is_Serialization_error (serialize_tuple2 serA serB x)" for x
    unfolding serialize_tuple2_def by (intro exns)
  show "throws is_decoding_exn (deserialize_tuple2 Left_to_right deA deB)"
    unfolding deserialize_tuple2_def eval_order.case by (intro exns)
  show "deserialize_tuple2 Left_to_right deA deB d = Inr (x, d') \<longleftrightarrow> wf_doc (doc_pair docA docB x) \<and>
      depth (doc_pair docA docB x) \<le> unat (de_container_depth_budget d) \<and>
      input_starts (enc (doc_pair docA docB x)) d \<and>
      d' = advance (length (enc (doc_pair docA docB x))) d" for d x d'
    by (cases x) (auto simp: deserialize_tuple2_def doc_pair_def iffs)
qed

text \<open>The byte vectors and byte arrays that the types of the program share.\<close>

interpretation u8_vector_codec: bcs_codec
  "serialize_vector serialize_u8"
  "deserialize_vector deserialize_u8"
  "doc_vector doc_u8"
  by (intro codec_intros u8_codec.bcs_codec_axioms)

interpretation u8_array16_codec: bcs_codec
  "serialize_array serialize_u8"
  "deserialize_array 16 deserialize_u8"
  "doc_array 16 doc_u8"
  by (intro codec_intros u8_codec.bcs_codec_axioms)

section \<open>Enums\<close>

lemma serialize_variant_iff [run_iff]:
  assumes "i < 2 ^ 32"
  shows "serialize_variant i arg s = Inr t \<longleftrightarrow> arg (put (uleb128 i) s) = Inr t"
  using assms by (simp add: serialize_variant_def run_iff unat_of_nat)

lemma throws_variant [throws_intros]: "throws P arg \<Longrightarrow> throws P (serialize_variant i arg)"
  unfolding serialize_variant_def by (intro throws_intros)

text \<open>Some alternative from number \<open>i\<close> on was chosen by the index and read the rest.\<close>

fun reads_alternative ::
    "nat \<Rightarrow> 'a de_action list \<Rightarrow> BinaryDeserializer \<Rightarrow> 'a \<times> BinaryDeserializer \<Rightarrow> bool" where
  "reads_alternative i [] d r = False"
| "reads_alternative i (alt # alts) d r =
     (input_starts (uleb128 i) d \<and> alt (advance (length (uleb128 i)) d) = Inr r
      \<or> reads_alternative (Suc i) alts d r)"

text \<open>The numbers of the alternatives, as the enums of the program write them.\<close>

lemma variant_index_folds:
  "uleb128 (Suc (Suc 0)) = uleb128 2"
  "uleb128 (Suc (Suc (Suc 0))) = uleb128 3"
  "uleb128 (Suc (Suc (Suc (Suc 0)))) = uleb128 4"
  "uleb128 (Suc (Suc (Suc (Suc (Suc 0))))) = uleb128 5"
  "uleb128 (Suc (Suc (Suc (Suc (Suc (Suc 0)))))) = uleb128 6"
  "uleb128 (Suc (Suc (Suc (Suc (Suc (Suc (Suc 0))))))) = uleb128 7"
  by (simp_all add: eval_nat_numeral)

lemma reads_alternative_iff:
  "reads_alternative i alts d r \<longleftrightarrow>
     (\<exists>j < length alts. input_starts (uleb128 (i + j)) d \<and>
        (alts ! j) (advance (length (uleb128 (i + j))) d) = Inr r)"
  by (induction alts arbitrary: i) (auto simp: less_Suc_eq_0_disj)

lemma deserialize_variant_iff:
  assumes "length alts < 2 ^ 32"
  shows "deserialize_variant alts d = Inr r \<longleftrightarrow> reads_alternative 0 alts d r"
proof -
  have word: "(\<exists>v :: u32. unat v < length alts \<and> P (unat v)) \<longleftrightarrow> (\<exists>j < length alts. P j)" for P
  proof
    assume "\<exists>j < length alts. P j"
    then obtain j where j: "j < length alts" "P j" by blast
    with assms have "unat (of_nat j :: u32) = j" by (simp add: unat_of_nat)
    with j show "\<exists>v :: u32. unat v < length alts \<and> P (unat v)" by metis
  qed blast
  have "deserialize_variant alts d = Inr r \<longleftrightarrow>
      (\<exists>v :: u32. unat v < length alts \<and> input_starts (uleb128 (unat v)) d \<and>
         (alts ! unat v) (advance (length (uleb128 (unat v))) d) = Inr r)"
    by (auto simp: deserialize_variant_def run_iff not_le)
  then show ?thesis
    unfolding reads_alternative_iff
    using word [of "\<lambda>j. input_starts (uleb128 j) d \<and> (alts ! j) (advance (length (uleb128 j)) d) = Inr r"]
    by simp
qed

lemma throws_deserialize_variant [throws_intros]:
  assumes "\<And>alt. alt \<in> set alts \<Longrightarrow> throws is_decoding_exn alt"
  shows "throws is_decoding_exn (deserialize_variant alts)"
proof -
  have "throws is_decoding_exn (if unat index > length alts
     then act_throw (Deserialization_error ''Unknown variant index for enum'')
     else if unat index \<ge> length alts then act_throw (Out_of_range ''array::at'')
     else alts ! unat index)" for index :: u32
    using assms by (auto intro: throws_intros)
  then show ?thesis
    unfolding deserialize_variant_def by (intro throws_bind throws_len)
qed

end
