(* ===== verification/Diem_Metadata.thy ===== *)
theory Diem_Metadata
  imports Serde
begin

text \<open>
  Transaction metadata of \<open>src/cpp/framework/src/diem_types.hpp\<close>: the versioned metadata
  records a payment can carry. One record or datatype per C++ struct, one serializer and one
  deserializer each, and the codec contract of every type.
\<close>

section \<open>CoinTradeMetadataV0\<close>

interpretation str_vector_codec: bcs_codec
  "serialize_vector serialize_str"
  "deserialize_vector deserialize_str"
  "doc_vector Doc_Str"
  by (intro codec_intros str_codec.bcs_codec_axioms)

record CoinTradeMetadataV0 =
  CoinTradeMetadataV0_trade_ids :: "cstring list"

definition serialize_CoinTradeMetadataV0 :: "CoinTradeMetadataV0 \<Rightarrow> ser_step" where
  "serialize_CoinTradeMetadataV0 obj = steps
     [increase_container_depth,
      serialize_vector serialize_str (CoinTradeMetadataV0_trade_ids obj),
      decrease_container_depth]"

definition deserialize_CoinTradeMetadataV0 :: "CoinTradeMetadataV0 de_action" where
  "deserialize_CoinTradeMetadataV0 =
     act_then de_increase_container_depth (
     act_bind (deserialize_vector deserialize_str) (\<lambda>trade_ids'.
     act_then de_decrease_container_depth (
     act_return \<lparr>CoinTradeMetadataV0_trade_ids = trade_ids'\<rparr>)))"

definition bcsSerialize_CoinTradeMetadataV0 :: "CoinTradeMetadataV0 \<Rightarrow> u8 list result" where
  "bcsSerialize_CoinTradeMetadataV0 = bcsSerialize serialize_CoinTradeMetadataV0"

definition bcsDeserialize_CoinTradeMetadataV0 :: "u8 list \<Rightarrow> CoinTradeMetadataV0 result" where
  "bcsDeserialize_CoinTradeMetadataV0 = bcsDeserialize deserialize_CoinTradeMetadataV0"

definition doc_CoinTradeMetadataV0 :: "CoinTradeMetadataV0 \<Rightarrow> bcs_doc" where
  "doc_CoinTradeMetadataV0 obj = Doc_Container (Doc_Tuple
     [doc_vector Doc_Str (CoinTradeMetadataV0_trade_ids obj)])"

lemma CoinTradeMetadataV0_eq_iff:
  "x = \<lparr>CoinTradeMetadataV0_trade_ids = a0\<rparr> \<longleftrightarrow>
     CoinTradeMetadataV0_trade_ids x = a0"
  by (cases x) auto

lemmas CoinTradeMetadataV0_defs = serialize_CoinTradeMetadataV0_def deserialize_CoinTradeMetadataV0_def doc_CoinTradeMetadataV0_def CoinTradeMetadataV0_eq_iff

interpretation CoinTradeMetadataV0_codec: bcs_codec serialize_CoinTradeMetadataV0 deserialize_CoinTradeMetadataV0 doc_CoinTradeMetadataV0
  by unfold_locales (auto simp: CoinTradeMetadataV0_defs run_iff codec_iff Suc_le_unat_iff add.assoc
      intro!: throws_intros codec_exn)

section \<open>CoinTradeMetadata\<close>

datatype CoinTradeMetadata =
    CoinTradeMetadata_CoinTradeMetadataV0 CoinTradeMetadataV0

definition serialize_CoinTradeMetadata_CoinTradeMetadataV0 :: "CoinTradeMetadataV0 \<Rightarrow> ser_step" where
  "serialize_CoinTradeMetadata_CoinTradeMetadataV0 value' = steps [serialize_CoinTradeMetadataV0 value']"

definition deserialize_CoinTradeMetadata_CoinTradeMetadataV0 :: "CoinTradeMetadata de_action" where
  "deserialize_CoinTradeMetadata_CoinTradeMetadataV0 = act_bind deserialize_CoinTradeMetadataV0 (\<lambda>value'. act_return (CoinTradeMetadata_CoinTradeMetadataV0 value'))"

definition serialize_CoinTradeMetadata :: "CoinTradeMetadata \<Rightarrow> ser_step" where
  "serialize_CoinTradeMetadata obj = steps
     [increase_container_depth,
      (case obj of
         CoinTradeMetadata_CoinTradeMetadataV0 value' \<Rightarrow> serialize_variant 0 (serialize_CoinTradeMetadata_CoinTradeMetadataV0 value')),
      decrease_container_depth]"

definition deserialize_CoinTradeMetadata :: "CoinTradeMetadata de_action" where
  "deserialize_CoinTradeMetadata =
     act_then de_increase_container_depth (
     act_bind (deserialize_variant
       [deserialize_CoinTradeMetadata_CoinTradeMetadataV0]) (\<lambda>value.
     act_then de_decrease_container_depth (
     act_return value)))"

definition bcsSerialize_CoinTradeMetadata :: "CoinTradeMetadata \<Rightarrow> u8 list result" where
  "bcsSerialize_CoinTradeMetadata = bcsSerialize serialize_CoinTradeMetadata"

definition bcsDeserialize_CoinTradeMetadata :: "u8 list \<Rightarrow> CoinTradeMetadata result" where
  "bcsDeserialize_CoinTradeMetadata = bcsDeserialize deserialize_CoinTradeMetadata"

definition doc_CoinTradeMetadata :: "CoinTradeMetadata \<Rightarrow> bcs_doc" where
  "doc_CoinTradeMetadata obj = Doc_Container
     (case obj of
        CoinTradeMetadata_CoinTradeMetadataV0 value' \<Rightarrow> Doc_Variant 0 (Doc_Tuple [doc_CoinTradeMetadataV0 value']))"

lemmas CoinTradeMetadata_defs = serialize_CoinTradeMetadata_def deserialize_CoinTradeMetadata_def doc_CoinTradeMetadata_def
  serialize_CoinTradeMetadata_CoinTradeMetadataV0_def deserialize_CoinTradeMetadata_CoinTradeMetadataV0_def

interpretation CoinTradeMetadata_codec: bcs_codec serialize_CoinTradeMetadata deserialize_CoinTradeMetadata doc_CoinTradeMetadata
  by unfold_locales (auto simp: CoinTradeMetadata_defs run_iff codec_iff deserialize_variant_iff variant_index_folds
      Suc_le_unat_iff add.assoc split: CoinTradeMetadata.splits intro!: throws_intros codec_exn)

section \<open>GeneralMetadataV0\<close>

interpretation u8_vector_optional_codec: bcs_codec
  "serialize_optional (serialize_vector serialize_u8)"
  "deserialize_optional (deserialize_vector deserialize_u8)"
  "doc_option (doc_vector doc_u8)"
  by (intro codec_intros u8_codec.bcs_codec_axioms)

interpretation u64_optional_codec: bcs_codec
  "serialize_optional serialize_u64"
  "deserialize_optional deserialize_u64"
  "doc_option (doc_word 8)"
  by (intro codec_intros u64_codec.bcs_codec_axioms)

record GeneralMetadataV0 =
  GeneralMetadataV0_to_subaddress :: "u8 list option"
  GeneralMetadataV0_from_subaddress :: "u8 list option"
  GeneralMetadataV0_referenced_event :: "u64 option"

definition serialize_GeneralMetadataV0 :: "GeneralMetadataV0 \<Rightarrow> ser_step" where
  "serialize_GeneralMetadataV0 obj = steps
     [increase_container_depth,
      serialize_optional (serialize_vector serialize_u8) (GeneralMetadataV0_to_subaddress obj),
      serialize_optional (serialize_vector serialize_u8) (GeneralMetadataV0_from_subaddress obj),
      serialize_optional serialize_u64 (GeneralMetadataV0_referenced_event obj),
      decrease_container_depth]"

definition deserialize_GeneralMetadataV0 :: "GeneralMetadataV0 de_action" where
  "deserialize_GeneralMetadataV0 =
     act_then de_increase_container_depth (
     act_bind (deserialize_optional (deserialize_vector deserialize_u8)) (\<lambda>to_subaddress'.
     act_bind (deserialize_optional (deserialize_vector deserialize_u8)) (\<lambda>from_subaddress'.
     act_bind (deserialize_optional deserialize_u64) (\<lambda>referenced_event'.
     act_then de_decrease_container_depth (
     act_return \<lparr>GeneralMetadataV0_to_subaddress = to_subaddress', GeneralMetadataV0_from_subaddress = from_subaddress', GeneralMetadataV0_referenced_event = referenced_event'\<rparr>)))))"

definition bcsSerialize_GeneralMetadataV0 :: "GeneralMetadataV0 \<Rightarrow> u8 list result" where
  "bcsSerialize_GeneralMetadataV0 = bcsSerialize serialize_GeneralMetadataV0"

definition bcsDeserialize_GeneralMetadataV0 :: "u8 list \<Rightarrow> GeneralMetadataV0 result" where
  "bcsDeserialize_GeneralMetadataV0 = bcsDeserialize deserialize_GeneralMetadataV0"

definition doc_GeneralMetadataV0 :: "GeneralMetadataV0 \<Rightarrow> bcs_doc" where
  "doc_GeneralMetadataV0 obj = Doc_Container (Doc_Tuple
     [doc_option (doc_vector doc_u8) (GeneralMetadataV0_to_subaddress obj),
      doc_option (doc_vector doc_u8) (GeneralMetadataV0_from_subaddress obj),
      doc_option (doc_word 8) (GeneralMetadataV0_referenced_event obj)])"

lemma GeneralMetadataV0_eq_iff:
  "x = \<lparr>GeneralMetadataV0_to_subaddress = a0, GeneralMetadataV0_from_subaddress = a1, GeneralMetadataV0_referenced_event = a2\<rparr> \<longleftrightarrow>
     GeneralMetadataV0_to_subaddress x = a0 \<and> GeneralMetadataV0_from_subaddress x = a1 \<and> GeneralMetadataV0_referenced_event x = a2"
  by (cases x) auto

lemmas GeneralMetadataV0_defs = serialize_GeneralMetadataV0_def deserialize_GeneralMetadataV0_def doc_GeneralMetadataV0_def GeneralMetadataV0_eq_iff

interpretation GeneralMetadataV0_codec: bcs_codec serialize_GeneralMetadataV0 deserialize_GeneralMetadataV0 doc_GeneralMetadataV0
  by unfold_locales (auto simp: GeneralMetadataV0_defs run_iff codec_iff Suc_le_unat_iff add.assoc
      intro!: throws_intros codec_exn)

section \<open>GeneralMetadata\<close>

datatype GeneralMetadata =
    GeneralMetadata_GeneralMetadataVersion0 GeneralMetadataV0

definition serialize_GeneralMetadata_GeneralMetadataVersion0 :: "GeneralMetadataV0 \<Rightarrow> ser_step" where
  "serialize_GeneralMetadata_GeneralMetadataVersion0 value' = steps [serialize_GeneralMetadataV0 value']"

definition deserialize_GeneralMetadata_GeneralMetadataVersion0 :: "GeneralMetadata de_action" where
  "deserialize_GeneralMetadata_GeneralMetadataVersion0 = act_bind deserialize_GeneralMetadataV0 (\<lambda>value'. act_return (GeneralMetadata_GeneralMetadataVersion0 value'))"

definition serialize_GeneralMetadata :: "GeneralMetadata \<Rightarrow> ser_step" where
  "serialize_GeneralMetadata obj = steps
     [increase_container_depth,
      (case obj of
         GeneralMetadata_GeneralMetadataVersion0 value' \<Rightarrow> serialize_variant 0 (serialize_GeneralMetadata_GeneralMetadataVersion0 value')),
      decrease_container_depth]"

definition deserialize_GeneralMetadata :: "GeneralMetadata de_action" where
  "deserialize_GeneralMetadata =
     act_then de_increase_container_depth (
     act_bind (deserialize_variant
       [deserialize_GeneralMetadata_GeneralMetadataVersion0]) (\<lambda>value.
     act_then de_decrease_container_depth (
     act_return value)))"

definition bcsSerialize_GeneralMetadata :: "GeneralMetadata \<Rightarrow> u8 list result" where
  "bcsSerialize_GeneralMetadata = bcsSerialize serialize_GeneralMetadata"

definition bcsDeserialize_GeneralMetadata :: "u8 list \<Rightarrow> GeneralMetadata result" where
  "bcsDeserialize_GeneralMetadata = bcsDeserialize deserialize_GeneralMetadata"

definition doc_GeneralMetadata :: "GeneralMetadata \<Rightarrow> bcs_doc" where
  "doc_GeneralMetadata obj = Doc_Container
     (case obj of
        GeneralMetadata_GeneralMetadataVersion0 value' \<Rightarrow> Doc_Variant 0 (Doc_Tuple [doc_GeneralMetadataV0 value']))"

lemmas GeneralMetadata_defs = serialize_GeneralMetadata_def deserialize_GeneralMetadata_def doc_GeneralMetadata_def
  serialize_GeneralMetadata_GeneralMetadataVersion0_def deserialize_GeneralMetadata_GeneralMetadataVersion0_def

interpretation GeneralMetadata_codec: bcs_codec serialize_GeneralMetadata deserialize_GeneralMetadata doc_GeneralMetadata
  by unfold_locales (auto simp: GeneralMetadata_defs run_iff codec_iff deserialize_variant_iff variant_index_folds
      Suc_le_unat_iff add.assoc split: GeneralMetadata.splits intro!: throws_intros codec_exn)

section \<open>PaymentMetadataV0\<close>

record PaymentMetadataV0 =
  PaymentMetadataV0_reference_id :: "u8 list"

definition serialize_PaymentMetadataV0 :: "PaymentMetadataV0 \<Rightarrow> ser_step" where
  "serialize_PaymentMetadataV0 obj = steps
     [increase_container_depth,
      serialize_array serialize_u8 (PaymentMetadataV0_reference_id obj),
      decrease_container_depth]"

definition deserialize_PaymentMetadataV0 :: "PaymentMetadataV0 de_action" where
  "deserialize_PaymentMetadataV0 =
     act_then de_increase_container_depth (
     act_bind (deserialize_array 16 deserialize_u8) (\<lambda>reference_id'.
     act_then de_decrease_container_depth (
     act_return \<lparr>PaymentMetadataV0_reference_id = reference_id'\<rparr>)))"

definition bcsSerialize_PaymentMetadataV0 :: "PaymentMetadataV0 \<Rightarrow> u8 list result" where
  "bcsSerialize_PaymentMetadataV0 = bcsSerialize serialize_PaymentMetadataV0"

definition bcsDeserialize_PaymentMetadataV0 :: "u8 list \<Rightarrow> PaymentMetadataV0 result" where
  "bcsDeserialize_PaymentMetadataV0 = bcsDeserialize deserialize_PaymentMetadataV0"

definition doc_PaymentMetadataV0 :: "PaymentMetadataV0 \<Rightarrow> bcs_doc" where
  "doc_PaymentMetadataV0 obj = Doc_Container (Doc_Tuple
     [doc_array 16 doc_u8 (PaymentMetadataV0_reference_id obj)])"

lemma PaymentMetadataV0_eq_iff:
  "x = \<lparr>PaymentMetadataV0_reference_id = a0\<rparr> \<longleftrightarrow>
     PaymentMetadataV0_reference_id x = a0"
  by (cases x) auto

lemmas PaymentMetadataV0_defs = serialize_PaymentMetadataV0_def deserialize_PaymentMetadataV0_def doc_PaymentMetadataV0_def PaymentMetadataV0_eq_iff

interpretation PaymentMetadataV0_codec: bcs_codec serialize_PaymentMetadataV0 deserialize_PaymentMetadataV0 doc_PaymentMetadataV0
  by unfold_locales (auto simp: PaymentMetadataV0_defs run_iff codec_iff Suc_le_unat_iff add.assoc
      intro!: throws_intros codec_exn)

section \<open>PaymentMetadata\<close>

datatype PaymentMetadata =
    PaymentMetadata_PaymentMetadataVersion0 PaymentMetadataV0

definition serialize_PaymentMetadata_PaymentMetadataVersion0 :: "PaymentMetadataV0 \<Rightarrow> ser_step" where
  "serialize_PaymentMetadata_PaymentMetadataVersion0 value' = steps [serialize_PaymentMetadataV0 value']"

definition deserialize_PaymentMetadata_PaymentMetadataVersion0 :: "PaymentMetadata de_action" where
  "deserialize_PaymentMetadata_PaymentMetadataVersion0 = act_bind deserialize_PaymentMetadataV0 (\<lambda>value'. act_return (PaymentMetadata_PaymentMetadataVersion0 value'))"

definition serialize_PaymentMetadata :: "PaymentMetadata \<Rightarrow> ser_step" where
  "serialize_PaymentMetadata obj = steps
     [increase_container_depth,
      (case obj of
         PaymentMetadata_PaymentMetadataVersion0 value' \<Rightarrow> serialize_variant 0 (serialize_PaymentMetadata_PaymentMetadataVersion0 value')),
      decrease_container_depth]"

definition deserialize_PaymentMetadata :: "PaymentMetadata de_action" where
  "deserialize_PaymentMetadata =
     act_then de_increase_container_depth (
     act_bind (deserialize_variant
       [deserialize_PaymentMetadata_PaymentMetadataVersion0]) (\<lambda>value.
     act_then de_decrease_container_depth (
     act_return value)))"

definition bcsSerialize_PaymentMetadata :: "PaymentMetadata \<Rightarrow> u8 list result" where
  "bcsSerialize_PaymentMetadata = bcsSerialize serialize_PaymentMetadata"

definition bcsDeserialize_PaymentMetadata :: "u8 list \<Rightarrow> PaymentMetadata result" where
  "bcsDeserialize_PaymentMetadata = bcsDeserialize deserialize_PaymentMetadata"

definition doc_PaymentMetadata :: "PaymentMetadata \<Rightarrow> bcs_doc" where
  "doc_PaymentMetadata obj = Doc_Container
     (case obj of
        PaymentMetadata_PaymentMetadataVersion0 value' \<Rightarrow> Doc_Variant 0 (Doc_Tuple [doc_PaymentMetadataV0 value']))"

lemmas PaymentMetadata_defs = serialize_PaymentMetadata_def deserialize_PaymentMetadata_def doc_PaymentMetadata_def
  serialize_PaymentMetadata_PaymentMetadataVersion0_def deserialize_PaymentMetadata_PaymentMetadataVersion0_def

interpretation PaymentMetadata_codec: bcs_codec serialize_PaymentMetadata deserialize_PaymentMetadata doc_PaymentMetadata
  by unfold_locales (auto simp: PaymentMetadata_defs run_iff codec_iff deserialize_variant_iff variant_index_folds
      Suc_le_unat_iff add.assoc split: PaymentMetadata.splits intro!: throws_intros codec_exn)

section \<open>RefundReason\<close>

datatype RefundReason =
    RefundReason_OtherReason
  | RefundReason_InvalidSubaddress
  | RefundReason_UserInitiatedPartialRefund
  | RefundReason_UserInitiatedFullRefund
  | RefundReason_InvalidReferenceId

definition serialize_RefundReason_OtherReason :: "ser_step" where
  "serialize_RefundReason_OtherReason = steps []"

definition deserialize_RefundReason_OtherReason :: "RefundReason de_action" where
  "deserialize_RefundReason_OtherReason = act_return RefundReason_OtherReason"

definition serialize_RefundReason_InvalidSubaddress :: "ser_step" where
  "serialize_RefundReason_InvalidSubaddress = steps []"

definition deserialize_RefundReason_InvalidSubaddress :: "RefundReason de_action" where
  "deserialize_RefundReason_InvalidSubaddress = act_return RefundReason_InvalidSubaddress"

definition serialize_RefundReason_UserInitiatedPartialRefund :: "ser_step" where
  "serialize_RefundReason_UserInitiatedPartialRefund = steps []"

definition deserialize_RefundReason_UserInitiatedPartialRefund :: "RefundReason de_action" where
  "deserialize_RefundReason_UserInitiatedPartialRefund = act_return RefundReason_UserInitiatedPartialRefund"

definition serialize_RefundReason_UserInitiatedFullRefund :: "ser_step" where
  "serialize_RefundReason_UserInitiatedFullRefund = steps []"

definition deserialize_RefundReason_UserInitiatedFullRefund :: "RefundReason de_action" where
  "deserialize_RefundReason_UserInitiatedFullRefund = act_return RefundReason_UserInitiatedFullRefund"

definition serialize_RefundReason_InvalidReferenceId :: "ser_step" where
  "serialize_RefundReason_InvalidReferenceId = steps []"

definition deserialize_RefundReason_InvalidReferenceId :: "RefundReason de_action" where
  "deserialize_RefundReason_InvalidReferenceId = act_return RefundReason_InvalidReferenceId"

definition serialize_RefundReason :: "RefundReason \<Rightarrow> ser_step" where
  "serialize_RefundReason obj = steps
     [increase_container_depth,
      (case obj of
         RefundReason_OtherReason \<Rightarrow> serialize_variant 0 serialize_RefundReason_OtherReason
       | RefundReason_InvalidSubaddress \<Rightarrow> serialize_variant 1 serialize_RefundReason_InvalidSubaddress
       | RefundReason_UserInitiatedPartialRefund \<Rightarrow> serialize_variant 2 serialize_RefundReason_UserInitiatedPartialRefund
       | RefundReason_UserInitiatedFullRefund \<Rightarrow> serialize_variant 3 serialize_RefundReason_UserInitiatedFullRefund
       | RefundReason_InvalidReferenceId \<Rightarrow> serialize_variant 4 serialize_RefundReason_InvalidReferenceId),
      decrease_container_depth]"

definition deserialize_RefundReason :: "RefundReason de_action" where
  "deserialize_RefundReason =
     act_then de_increase_container_depth (
     act_bind (deserialize_variant
       [deserialize_RefundReason_OtherReason,
        deserialize_RefundReason_InvalidSubaddress,
        deserialize_RefundReason_UserInitiatedPartialRefund,
        deserialize_RefundReason_UserInitiatedFullRefund,
        deserialize_RefundReason_InvalidReferenceId]) (\<lambda>value.
     act_then de_decrease_container_depth (
     act_return value)))"

definition bcsSerialize_RefundReason :: "RefundReason \<Rightarrow> u8 list result" where
  "bcsSerialize_RefundReason = bcsSerialize serialize_RefundReason"

definition bcsDeserialize_RefundReason :: "u8 list \<Rightarrow> RefundReason result" where
  "bcsDeserialize_RefundReason = bcsDeserialize deserialize_RefundReason"

definition doc_RefundReason :: "RefundReason \<Rightarrow> bcs_doc" where
  "doc_RefundReason obj = Doc_Container
     (case obj of
        RefundReason_OtherReason \<Rightarrow> Doc_Variant 0 (Doc_Tuple [])
      | RefundReason_InvalidSubaddress \<Rightarrow> Doc_Variant 1 (Doc_Tuple [])
      | RefundReason_UserInitiatedPartialRefund \<Rightarrow> Doc_Variant 2 (Doc_Tuple [])
      | RefundReason_UserInitiatedFullRefund \<Rightarrow> Doc_Variant 3 (Doc_Tuple [])
      | RefundReason_InvalidReferenceId \<Rightarrow> Doc_Variant 4 (Doc_Tuple []))"

lemmas RefundReason_defs = serialize_RefundReason_def deserialize_RefundReason_def doc_RefundReason_def
  serialize_RefundReason_OtherReason_def deserialize_RefundReason_OtherReason_def
  serialize_RefundReason_InvalidSubaddress_def deserialize_RefundReason_InvalidSubaddress_def
  serialize_RefundReason_UserInitiatedPartialRefund_def deserialize_RefundReason_UserInitiatedPartialRefund_def
  serialize_RefundReason_UserInitiatedFullRefund_def deserialize_RefundReason_UserInitiatedFullRefund_def
  serialize_RefundReason_InvalidReferenceId_def deserialize_RefundReason_InvalidReferenceId_def

interpretation RefundReason_codec: bcs_codec serialize_RefundReason deserialize_RefundReason doc_RefundReason
  by unfold_locales (auto simp: RefundReason_defs run_iff codec_iff deserialize_variant_iff variant_index_folds
      Suc_le_unat_iff add.assoc split: RefundReason.splits intro!: throws_intros codec_exn)

section \<open>RefundMetadataV0\<close>

record RefundMetadataV0 =
  RefundMetadataV0_transaction_version :: u64
  RefundMetadataV0_reason :: RefundReason

definition serialize_RefundMetadataV0 :: "RefundMetadataV0 \<Rightarrow> ser_step" where
  "serialize_RefundMetadataV0 obj = steps
     [increase_container_depth,
      serialize_u64 (RefundMetadataV0_transaction_version obj),
      serialize_RefundReason (RefundMetadataV0_reason obj),
      decrease_container_depth]"

definition deserialize_RefundMetadataV0 :: "RefundMetadataV0 de_action" where
  "deserialize_RefundMetadataV0 =
     act_then de_increase_container_depth (
     act_bind deserialize_u64 (\<lambda>transaction_version'.
     act_bind deserialize_RefundReason (\<lambda>reason'.
     act_then de_decrease_container_depth (
     act_return \<lparr>RefundMetadataV0_transaction_version = transaction_version', RefundMetadataV0_reason = reason'\<rparr>))))"

definition bcsSerialize_RefundMetadataV0 :: "RefundMetadataV0 \<Rightarrow> u8 list result" where
  "bcsSerialize_RefundMetadataV0 = bcsSerialize serialize_RefundMetadataV0"

definition bcsDeserialize_RefundMetadataV0 :: "u8 list \<Rightarrow> RefundMetadataV0 result" where
  "bcsDeserialize_RefundMetadataV0 = bcsDeserialize deserialize_RefundMetadataV0"

definition doc_RefundMetadataV0 :: "RefundMetadataV0 \<Rightarrow> bcs_doc" where
  "doc_RefundMetadataV0 obj = Doc_Container (Doc_Tuple
     [doc_word 8 (RefundMetadataV0_transaction_version obj),
      doc_RefundReason (RefundMetadataV0_reason obj)])"

lemma RefundMetadataV0_eq_iff:
  "x = \<lparr>RefundMetadataV0_transaction_version = a0, RefundMetadataV0_reason = a1\<rparr> \<longleftrightarrow>
     RefundMetadataV0_transaction_version x = a0 \<and> RefundMetadataV0_reason x = a1"
  by (cases x) auto

lemmas RefundMetadataV0_defs = serialize_RefundMetadataV0_def deserialize_RefundMetadataV0_def doc_RefundMetadataV0_def RefundMetadataV0_eq_iff

interpretation RefundMetadataV0_codec: bcs_codec serialize_RefundMetadataV0 deserialize_RefundMetadataV0 doc_RefundMetadataV0
  by unfold_locales (auto simp: RefundMetadataV0_defs run_iff codec_iff Suc_le_unat_iff add.assoc
      intro!: throws_intros codec_exn)

section \<open>RefundMetadata\<close>

datatype RefundMetadata =
    RefundMetadata_RefundMetadataV0 RefundMetadataV0

definition serialize_RefundMetadata_RefundMetadataV0 :: "RefundMetadataV0 \<Rightarrow> ser_step" where
  "serialize_RefundMetadata_RefundMetadataV0 value' = steps [serialize_RefundMetadataV0 value']"

definition deserialize_RefundMetadata_RefundMetadataV0 :: "RefundMetadata de_action" where
  "deserialize_RefundMetadata_RefundMetadataV0 = act_bind deserialize_RefundMetadataV0 (\<lambda>value'. act_return (RefundMetadata_RefundMetadataV0 value'))"

definition serialize_RefundMetadata :: "RefundMetadata \<Rightarrow> ser_step" where
  "serialize_RefundMetadata obj = steps
     [increase_container_depth,
      (case obj of
         RefundMetadata_RefundMetadataV0 value' \<Rightarrow> serialize_variant 0 (serialize_RefundMetadata_RefundMetadataV0 value')),
      decrease_container_depth]"

definition deserialize_RefundMetadata :: "RefundMetadata de_action" where
  "deserialize_RefundMetadata =
     act_then de_increase_container_depth (
     act_bind (deserialize_variant
       [deserialize_RefundMetadata_RefundMetadataV0]) (\<lambda>value.
     act_then de_decrease_container_depth (
     act_return value)))"

definition bcsSerialize_RefundMetadata :: "RefundMetadata \<Rightarrow> u8 list result" where
  "bcsSerialize_RefundMetadata = bcsSerialize serialize_RefundMetadata"

definition bcsDeserialize_RefundMetadata :: "u8 list \<Rightarrow> RefundMetadata result" where
  "bcsDeserialize_RefundMetadata = bcsDeserialize deserialize_RefundMetadata"

definition doc_RefundMetadata :: "RefundMetadata \<Rightarrow> bcs_doc" where
  "doc_RefundMetadata obj = Doc_Container
     (case obj of
        RefundMetadata_RefundMetadataV0 value' \<Rightarrow> Doc_Variant 0 (Doc_Tuple [doc_RefundMetadataV0 value']))"

lemmas RefundMetadata_defs = serialize_RefundMetadata_def deserialize_RefundMetadata_def doc_RefundMetadata_def
  serialize_RefundMetadata_RefundMetadataV0_def deserialize_RefundMetadata_RefundMetadataV0_def

interpretation RefundMetadata_codec: bcs_codec serialize_RefundMetadata deserialize_RefundMetadata doc_RefundMetadata
  by unfold_locales (auto simp: RefundMetadata_defs run_iff codec_iff deserialize_variant_iff variant_index_folds
      Suc_le_unat_iff add.assoc split: RefundMetadata.splits intro!: throws_intros codec_exn)

section \<open>TravelRuleMetadataV0\<close>

interpretation str_optional_codec: bcs_codec
  "serialize_optional serialize_str"
  "deserialize_optional deserialize_str"
  "doc_option Doc_Str"
  by (intro codec_intros str_codec.bcs_codec_axioms)

record TravelRuleMetadataV0 =
  TravelRuleMetadataV0_off_chain_reference_id :: "cstring option"

definition serialize_TravelRuleMetadataV0 :: "TravelRuleMetadataV0 \<Rightarrow> ser_step" where
  "serialize_TravelRuleMetadataV0 obj = steps
     [increase_container_depth,
      serialize_optional serialize_str (TravelRuleMetadataV0_off_chain_reference_id obj),
      decrease_container_depth]"

definition deserialize_TravelRuleMetadataV0 :: "TravelRuleMetadataV0 de_action" where
  "deserialize_TravelRuleMetadataV0 =
     act_then de_increase_container_depth (
     act_bind (deserialize_optional deserialize_str) (\<lambda>off_chain_reference_id'.
     act_then de_decrease_container_depth (
     act_return \<lparr>TravelRuleMetadataV0_off_chain_reference_id = off_chain_reference_id'\<rparr>)))"

definition bcsSerialize_TravelRuleMetadataV0 :: "TravelRuleMetadataV0 \<Rightarrow> u8 list result" where
  "bcsSerialize_TravelRuleMetadataV0 = bcsSerialize serialize_TravelRuleMetadataV0"

definition bcsDeserialize_TravelRuleMetadataV0 :: "u8 list \<Rightarrow> TravelRuleMetadataV0 result" where
  "bcsDeserialize_TravelRuleMetadataV0 = bcsDeserialize deserialize_TravelRuleMetadataV0"

definition doc_TravelRuleMetadataV0 :: "TravelRuleMetadataV0 \<Rightarrow> bcs_doc" where
  "doc_TravelRuleMetadataV0 obj = Doc_Container (Doc_Tuple
     [doc_option Doc_Str (TravelRuleMetadataV0_off_chain_reference_id obj)])"

lemma TravelRuleMetadataV0_eq_iff:
  "x = \<lparr>TravelRuleMetadataV0_off_chain_reference_id = a0\<rparr> \<longleftrightarrow>
     TravelRuleMetadataV0_off_chain_reference_id x = a0"
  by (cases x) auto

lemmas TravelRuleMetadataV0_defs = serialize_TravelRuleMetadataV0_def deserialize_TravelRuleMetadataV0_def doc_TravelRuleMetadataV0_def TravelRuleMetadataV0_eq_iff

interpretation TravelRuleMetadataV0_codec: bcs_codec serialize_TravelRuleMetadataV0 deserialize_TravelRuleMetadataV0 doc_TravelRuleMetadataV0
  by unfold_locales (auto simp: TravelRuleMetadataV0_defs run_iff codec_iff Suc_le_unat_iff add.assoc
      intro!: throws_intros codec_exn)

section \<open>TravelRuleMetadata\<close>

datatype TravelRuleMetadata =
    TravelRuleMetadata_TravelRuleMetadataVersion0 TravelRuleMetadataV0

definition serialize_TravelRuleMetadata_TravelRuleMetadataVersion0 :: "TravelRuleMetadataV0 \<Rightarrow> ser_step" where
  "serialize_TravelRuleMetadata_TravelRuleMetadataVersion0 value' = steps [serialize_TravelRuleMetadataV0 value']"

definition deserialize_TravelRuleMetadata_TravelRuleMetadataVersion0 :: "TravelRuleMetadata de_action" where
  "deserialize_TravelRuleMetadata_TravelRuleMetadataVersion0 = act_bind deserialize_TravelRuleMetadataV0 (\<lambda>value'. act_return (TravelRuleMetadata_TravelRuleMetadataVersion0 value'))"

definition serialize_TravelRuleMetadata :: "TravelRuleMetadata \<Rightarrow> ser_step" where
  "serialize_TravelRuleMetadata obj = steps
     [increase_container_depth,
      (case obj of
         TravelRuleMetadata_TravelRuleMetadataVersion0 value' \<Rightarrow> serialize_variant 0 (serialize_TravelRuleMetadata_TravelRuleMetadataVersion0 value')),
      decrease_container_depth]"

definition deserialize_TravelRuleMetadata :: "TravelRuleMetadata de_action" where
  "deserialize_TravelRuleMetadata =
     act_then de_increase_container_depth (
     act_bind (deserialize_variant
       [deserialize_TravelRuleMetadata_TravelRuleMetadataVersion0]) (\<lambda>value.
     act_then de_decrease_container_depth (
     act_return value)))"

definition bcsSerialize_TravelRuleMetadata :: "TravelRuleMetadata \<Rightarrow> u8 list result" where
  "bcsSerialize_TravelRuleMetadata = bcsSerialize serialize_TravelRuleMetadata"

definition bcsDeserialize_TravelRuleMetadata :: "u8 list \<Rightarrow> TravelRuleMetadata result" where
  "bcsDeserialize_TravelRuleMetadata = bcsDeserialize deserialize_TravelRuleMetadata"

definition doc_TravelRuleMetadata :: "TravelRuleMetadata \<Rightarrow> bcs_doc" where
  "doc_TravelRuleMetadata obj = Doc_Container
     (case obj of
        TravelRuleMetadata_TravelRuleMetadataVersion0 value' \<Rightarrow> Doc_Variant 0 (Doc_Tuple [doc_TravelRuleMetadataV0 value']))"

lemmas TravelRuleMetadata_defs = serialize_TravelRuleMetadata_def deserialize_TravelRuleMetadata_def doc_TravelRuleMetadata_def
  serialize_TravelRuleMetadata_TravelRuleMetadataVersion0_def deserialize_TravelRuleMetadata_TravelRuleMetadataVersion0_def

interpretation TravelRuleMetadata_codec: bcs_codec serialize_TravelRuleMetadata deserialize_TravelRuleMetadata doc_TravelRuleMetadata
  by unfold_locales (auto simp: TravelRuleMetadata_defs run_iff codec_iff deserialize_variant_iff variant_index_folds
      Suc_le_unat_iff add.assoc split: TravelRuleMetadata.splits intro!: throws_intros codec_exn)

section \<open>UnstructuredBytesMetadata\<close>

record UnstructuredBytesMetadata =
  UnstructuredBytesMetadata_metadata :: "u8 list option"

definition serialize_UnstructuredBytesMetadata :: "UnstructuredBytesMetadata \<Rightarrow> ser_step" where
  "serialize_UnstructuredBytesMetadata obj = steps
     [increase_container_depth,
      serialize_optional (serialize_vector serialize_u8) (UnstructuredBytesMetadata_metadata obj),
      decrease_container_depth]"

definition deserialize_UnstructuredBytesMetadata :: "UnstructuredBytesMetadata de_action" where
  "deserialize_UnstructuredBytesMetadata =
     act_then de_increase_container_depth (
     act_bind (deserialize_optional (deserialize_vector deserialize_u8)) (\<lambda>metadata'.
     act_then de_decrease_container_depth (
     act_return \<lparr>UnstructuredBytesMetadata_metadata = metadata'\<rparr>)))"

definition bcsSerialize_UnstructuredBytesMetadata :: "UnstructuredBytesMetadata \<Rightarrow> u8 list result" where
  "bcsSerialize_UnstructuredBytesMetadata = bcsSerialize serialize_UnstructuredBytesMetadata"

definition bcsDeserialize_UnstructuredBytesMetadata :: "u8 list \<Rightarrow> UnstructuredBytesMetadata result" where
  "bcsDeserialize_UnstructuredBytesMetadata = bcsDeserialize deserialize_UnstructuredBytesMetadata"

definition doc_UnstructuredBytesMetadata :: "UnstructuredBytesMetadata \<Rightarrow> bcs_doc" where
  "doc_UnstructuredBytesMetadata obj = Doc_Container (Doc_Tuple
     [doc_option (doc_vector doc_u8) (UnstructuredBytesMetadata_metadata obj)])"

lemma UnstructuredBytesMetadata_eq_iff:
  "x = \<lparr>UnstructuredBytesMetadata_metadata = a0\<rparr> \<longleftrightarrow>
     UnstructuredBytesMetadata_metadata x = a0"
  by (cases x) auto

lemmas UnstructuredBytesMetadata_defs = serialize_UnstructuredBytesMetadata_def deserialize_UnstructuredBytesMetadata_def doc_UnstructuredBytesMetadata_def UnstructuredBytesMetadata_eq_iff

interpretation UnstructuredBytesMetadata_codec: bcs_codec serialize_UnstructuredBytesMetadata deserialize_UnstructuredBytesMetadata doc_UnstructuredBytesMetadata
  by unfold_locales (auto simp: UnstructuredBytesMetadata_defs run_iff codec_iff Suc_le_unat_iff add.assoc
      intro!: throws_intros codec_exn)

section \<open>Metadata\<close>

datatype Metadata =
    Metadata_Undefined
  | Metadata_GeneralMetadata GeneralMetadata
  | Metadata_TravelRuleMetadata TravelRuleMetadata
  | Metadata_UnstructuredBytesMetadata UnstructuredBytesMetadata
  | Metadata_RefundMetadata RefundMetadata
  | Metadata_CoinTradeMetadata CoinTradeMetadata
  | Metadata_PaymentMetadata PaymentMetadata

definition serialize_Metadata_Undefined :: "ser_step" where
  "serialize_Metadata_Undefined = steps []"

definition deserialize_Metadata_Undefined :: "Metadata de_action" where
  "deserialize_Metadata_Undefined = act_return Metadata_Undefined"

definition serialize_Metadata_GeneralMetadata :: "GeneralMetadata \<Rightarrow> ser_step" where
  "serialize_Metadata_GeneralMetadata value' = steps [serialize_GeneralMetadata value']"

definition deserialize_Metadata_GeneralMetadata :: "Metadata de_action" where
  "deserialize_Metadata_GeneralMetadata = act_bind deserialize_GeneralMetadata (\<lambda>value'. act_return (Metadata_GeneralMetadata value'))"

definition serialize_Metadata_TravelRuleMetadata :: "TravelRuleMetadata \<Rightarrow> ser_step" where
  "serialize_Metadata_TravelRuleMetadata value' = steps [serialize_TravelRuleMetadata value']"

definition deserialize_Metadata_TravelRuleMetadata :: "Metadata de_action" where
  "deserialize_Metadata_TravelRuleMetadata = act_bind deserialize_TravelRuleMetadata (\<lambda>value'. act_return (Metadata_TravelRuleMetadata value'))"

definition serialize_Metadata_UnstructuredBytesMetadata :: "UnstructuredBytesMetadata \<Rightarrow> ser_step" where
  "serialize_Metadata_UnstructuredBytesMetadata value' = steps [serialize_UnstructuredBytesMetadata value']"

definition deserialize_Metadata_UnstructuredBytesMetadata :: "Metadata de_action" where
  "deserialize_Metadata_UnstructuredBytesMetadata = act_bind deserialize_UnstructuredBytesMetadata (\<lambda>value'. act_return (Metadata_UnstructuredBytesMetadata value'))"

definition serialize_Metadata_RefundMetadata :: "RefundMetadata \<Rightarrow> ser_step" where
  "serialize_Metadata_RefundMetadata value' = steps [serialize_RefundMetadata value']"

definition deserialize_Metadata_RefundMetadata :: "Metadata de_action" where
  "deserialize_Metadata_RefundMetadata = act_bind deserialize_RefundMetadata (\<lambda>value'. act_return (Metadata_RefundMetadata value'))"

definition serialize_Metadata_CoinTradeMetadata :: "CoinTradeMetadata \<Rightarrow> ser_step" where
  "serialize_Metadata_CoinTradeMetadata value' = steps [serialize_CoinTradeMetadata value']"

definition deserialize_Metadata_CoinTradeMetadata :: "Metadata de_action" where
  "deserialize_Metadata_CoinTradeMetadata = act_bind deserialize_CoinTradeMetadata (\<lambda>value'. act_return (Metadata_CoinTradeMetadata value'))"

definition serialize_Metadata_PaymentMetadata :: "PaymentMetadata \<Rightarrow> ser_step" where
  "serialize_Metadata_PaymentMetadata value' = steps [serialize_PaymentMetadata value']"

definition deserialize_Metadata_PaymentMetadata :: "Metadata de_action" where
  "deserialize_Metadata_PaymentMetadata = act_bind deserialize_PaymentMetadata (\<lambda>value'. act_return (Metadata_PaymentMetadata value'))"

definition serialize_Metadata :: "Metadata \<Rightarrow> ser_step" where
  "serialize_Metadata obj = steps
     [increase_container_depth,
      (case obj of
         Metadata_Undefined \<Rightarrow> serialize_variant 0 serialize_Metadata_Undefined
       | Metadata_GeneralMetadata value' \<Rightarrow> serialize_variant 1 (serialize_Metadata_GeneralMetadata value')
       | Metadata_TravelRuleMetadata value' \<Rightarrow> serialize_variant 2 (serialize_Metadata_TravelRuleMetadata value')
       | Metadata_UnstructuredBytesMetadata value' \<Rightarrow> serialize_variant 3 (serialize_Metadata_UnstructuredBytesMetadata value')
       | Metadata_RefundMetadata value' \<Rightarrow> serialize_variant 4 (serialize_Metadata_RefundMetadata value')
       | Metadata_CoinTradeMetadata value' \<Rightarrow> serialize_variant 5 (serialize_Metadata_CoinTradeMetadata value')
       | Metadata_PaymentMetadata value' \<Rightarrow> serialize_variant 6 (serialize_Metadata_PaymentMetadata value')),
      decrease_container_depth]"

definition deserialize_Metadata :: "Metadata de_action" where
  "deserialize_Metadata =
     act_then de_increase_container_depth (
     act_bind (deserialize_variant
       [deserialize_Metadata_Undefined,
        deserialize_Metadata_GeneralMetadata,
        deserialize_Metadata_TravelRuleMetadata,
        deserialize_Metadata_UnstructuredBytesMetadata,
        deserialize_Metadata_RefundMetadata,
        deserialize_Metadata_CoinTradeMetadata,
        deserialize_Metadata_PaymentMetadata]) (\<lambda>value.
     act_then de_decrease_container_depth (
     act_return value)))"

definition bcsSerialize_Metadata :: "Metadata \<Rightarrow> u8 list result" where
  "bcsSerialize_Metadata = bcsSerialize serialize_Metadata"

definition bcsDeserialize_Metadata :: "u8 list \<Rightarrow> Metadata result" where
  "bcsDeserialize_Metadata = bcsDeserialize deserialize_Metadata"

definition doc_Metadata :: "Metadata \<Rightarrow> bcs_doc" where
  "doc_Metadata obj = Doc_Container
     (case obj of
        Metadata_Undefined \<Rightarrow> Doc_Variant 0 (Doc_Tuple [])
      | Metadata_GeneralMetadata value' \<Rightarrow> Doc_Variant 1 (Doc_Tuple [doc_GeneralMetadata value'])
      | Metadata_TravelRuleMetadata value' \<Rightarrow> Doc_Variant 2 (Doc_Tuple [doc_TravelRuleMetadata value'])
      | Metadata_UnstructuredBytesMetadata value' \<Rightarrow> Doc_Variant 3 (Doc_Tuple [doc_UnstructuredBytesMetadata value'])
      | Metadata_RefundMetadata value' \<Rightarrow> Doc_Variant 4 (Doc_Tuple [doc_RefundMetadata value'])
      | Metadata_CoinTradeMetadata value' \<Rightarrow> Doc_Variant 5 (Doc_Tuple [doc_CoinTradeMetadata value'])
      | Metadata_PaymentMetadata value' \<Rightarrow> Doc_Variant 6 (Doc_Tuple [doc_PaymentMetadata value']))"

lemmas Metadata_defs = serialize_Metadata_def deserialize_Metadata_def doc_Metadata_def
  serialize_Metadata_Undefined_def deserialize_Metadata_Undefined_def
  serialize_Metadata_GeneralMetadata_def deserialize_Metadata_GeneralMetadata_def
  serialize_Metadata_TravelRuleMetadata_def deserialize_Metadata_TravelRuleMetadata_def
  serialize_Metadata_UnstructuredBytesMetadata_def deserialize_Metadata_UnstructuredBytesMetadata_def
  serialize_Metadata_RefundMetadata_def deserialize_Metadata_RefundMetadata_def
  serialize_Metadata_CoinTradeMetadata_def deserialize_Metadata_CoinTradeMetadata_def
  serialize_Metadata_PaymentMetadata_def deserialize_Metadata_PaymentMetadata_def

interpretation Metadata_codec: bcs_codec serialize_Metadata deserialize_Metadata doc_Metadata
  by unfold_locales (auto simp: Metadata_defs run_iff codec_iff deserialize_variant_iff variant_index_folds
      Suc_le_unat_iff add.assoc split: Metadata.splits intro!: throws_intros codec_exn)

end
