(* ===== verification/Diem_Account.thy ===== *)
theory Diem_Account
  imports Serde
begin

text \<open>
  Accounts and authenticators of \<open>src/cpp/framework/src/diem_types.hpp\<close>: addresses, public
  keys, signatures, and who signed a transaction. A \<open>std::array<uint8_t, 16>\<close> is a byte list here;
  its length is part of the document, so no deserializer returns another one.
\<close>

section \<open>AccountAddress\<close>

record AccountAddress =
  AccountAddress_value :: "u8 list"

definition serialize_AccountAddress :: "AccountAddress \<Rightarrow> ser_step" where
  "serialize_AccountAddress obj = steps
     [increase_container_depth,
      serialize_array serialize_u8 (AccountAddress_value obj),
      decrease_container_depth]"

definition deserialize_AccountAddress :: "AccountAddress de_action" where
  "deserialize_AccountAddress =
     act_then de_increase_container_depth (
     act_bind (deserialize_array 16 deserialize_u8) (\<lambda>value'.
     act_then de_decrease_container_depth (
     act_return \<lparr>AccountAddress_value = value'\<rparr>)))"

definition bcsSerialize_AccountAddress :: "AccountAddress \<Rightarrow> u8 list result" where
  "bcsSerialize_AccountAddress = bcsSerialize serialize_AccountAddress"

definition bcsDeserialize_AccountAddress :: "u8 list \<Rightarrow> AccountAddress result" where
  "bcsDeserialize_AccountAddress = bcsDeserialize deserialize_AccountAddress"

definition doc_AccountAddress :: "AccountAddress \<Rightarrow> bcs_doc" where
  "doc_AccountAddress obj = Doc_Container (Doc_Tuple
     [doc_array 16 doc_u8 (AccountAddress_value obj)])"

lemma AccountAddress_eq_iff:
  "x = \<lparr>AccountAddress_value = a0\<rparr> \<longleftrightarrow>
     AccountAddress_value x = a0"
  by (cases x) auto

lemmas AccountAddress_defs = serialize_AccountAddress_def deserialize_AccountAddress_def doc_AccountAddress_def AccountAddress_eq_iff

interpretation AccountAddress_codec: bcs_codec serialize_AccountAddress deserialize_AccountAddress doc_AccountAddress
  by unfold_locales (auto simp: AccountAddress_defs run_iff codec_iff Suc_le_unat_iff add.assoc
      intro!: throws_intros codec_exn)

section \<open>Ed25519PublicKey\<close>

record Ed25519PublicKey =
  Ed25519PublicKey_value :: "u8 list"

definition serialize_Ed25519PublicKey :: "Ed25519PublicKey \<Rightarrow> ser_step" where
  "serialize_Ed25519PublicKey obj = steps
     [increase_container_depth,
      serialize_vector serialize_u8 (Ed25519PublicKey_value obj),
      decrease_container_depth]"

definition deserialize_Ed25519PublicKey :: "Ed25519PublicKey de_action" where
  "deserialize_Ed25519PublicKey =
     act_then de_increase_container_depth (
     act_bind (deserialize_vector deserialize_u8) (\<lambda>value'.
     act_then de_decrease_container_depth (
     act_return \<lparr>Ed25519PublicKey_value = value'\<rparr>)))"

definition bcsSerialize_Ed25519PublicKey :: "Ed25519PublicKey \<Rightarrow> u8 list result" where
  "bcsSerialize_Ed25519PublicKey = bcsSerialize serialize_Ed25519PublicKey"

definition bcsDeserialize_Ed25519PublicKey :: "u8 list \<Rightarrow> Ed25519PublicKey result" where
  "bcsDeserialize_Ed25519PublicKey = bcsDeserialize deserialize_Ed25519PublicKey"

definition doc_Ed25519PublicKey :: "Ed25519PublicKey \<Rightarrow> bcs_doc" where
  "doc_Ed25519PublicKey obj = Doc_Container (Doc_Tuple
     [doc_vector doc_u8 (Ed25519PublicKey_value obj)])"

lemma Ed25519PublicKey_eq_iff:
  "x = \<lparr>Ed25519PublicKey_value = a0\<rparr> \<longleftrightarrow>
     Ed25519PublicKey_value x = a0"
  by (cases x) auto

lemmas Ed25519PublicKey_defs = serialize_Ed25519PublicKey_def deserialize_Ed25519PublicKey_def doc_Ed25519PublicKey_def Ed25519PublicKey_eq_iff

interpretation Ed25519PublicKey_codec: bcs_codec serialize_Ed25519PublicKey deserialize_Ed25519PublicKey doc_Ed25519PublicKey
  by unfold_locales (auto simp: Ed25519PublicKey_defs run_iff codec_iff Suc_le_unat_iff add.assoc
      intro!: throws_intros codec_exn)

section \<open>Ed25519Signature\<close>

record Ed25519Signature =
  Ed25519Signature_value :: "u8 list"

definition serialize_Ed25519Signature :: "Ed25519Signature \<Rightarrow> ser_step" where
  "serialize_Ed25519Signature obj = steps
     [increase_container_depth,
      serialize_vector serialize_u8 (Ed25519Signature_value obj),
      decrease_container_depth]"

definition deserialize_Ed25519Signature :: "Ed25519Signature de_action" where
  "deserialize_Ed25519Signature =
     act_then de_increase_container_depth (
     act_bind (deserialize_vector deserialize_u8) (\<lambda>value'.
     act_then de_decrease_container_depth (
     act_return \<lparr>Ed25519Signature_value = value'\<rparr>)))"

definition bcsSerialize_Ed25519Signature :: "Ed25519Signature \<Rightarrow> u8 list result" where
  "bcsSerialize_Ed25519Signature = bcsSerialize serialize_Ed25519Signature"

definition bcsDeserialize_Ed25519Signature :: "u8 list \<Rightarrow> Ed25519Signature result" where
  "bcsDeserialize_Ed25519Signature = bcsDeserialize deserialize_Ed25519Signature"

definition doc_Ed25519Signature :: "Ed25519Signature \<Rightarrow> bcs_doc" where
  "doc_Ed25519Signature obj = Doc_Container (Doc_Tuple
     [doc_vector doc_u8 (Ed25519Signature_value obj)])"

lemma Ed25519Signature_eq_iff:
  "x = \<lparr>Ed25519Signature_value = a0\<rparr> \<longleftrightarrow>
     Ed25519Signature_value x = a0"
  by (cases x) auto

lemmas Ed25519Signature_defs = serialize_Ed25519Signature_def deserialize_Ed25519Signature_def doc_Ed25519Signature_def Ed25519Signature_eq_iff

interpretation Ed25519Signature_codec: bcs_codec serialize_Ed25519Signature deserialize_Ed25519Signature doc_Ed25519Signature
  by unfold_locales (auto simp: Ed25519Signature_defs run_iff codec_iff Suc_le_unat_iff add.assoc
      intro!: throws_intros codec_exn)

section \<open>MultiEd25519PublicKey\<close>

record MultiEd25519PublicKey =
  MultiEd25519PublicKey_value :: "u8 list"

definition serialize_MultiEd25519PublicKey :: "MultiEd25519PublicKey \<Rightarrow> ser_step" where
  "serialize_MultiEd25519PublicKey obj = steps
     [increase_container_depth,
      serialize_vector serialize_u8 (MultiEd25519PublicKey_value obj),
      decrease_container_depth]"

definition deserialize_MultiEd25519PublicKey :: "MultiEd25519PublicKey de_action" where
  "deserialize_MultiEd25519PublicKey =
     act_then de_increase_container_depth (
     act_bind (deserialize_vector deserialize_u8) (\<lambda>value'.
     act_then de_decrease_container_depth (
     act_return \<lparr>MultiEd25519PublicKey_value = value'\<rparr>)))"

definition bcsSerialize_MultiEd25519PublicKey :: "MultiEd25519PublicKey \<Rightarrow> u8 list result" where
  "bcsSerialize_MultiEd25519PublicKey = bcsSerialize serialize_MultiEd25519PublicKey"

definition bcsDeserialize_MultiEd25519PublicKey :: "u8 list \<Rightarrow> MultiEd25519PublicKey result" where
  "bcsDeserialize_MultiEd25519PublicKey = bcsDeserialize deserialize_MultiEd25519PublicKey"

definition doc_MultiEd25519PublicKey :: "MultiEd25519PublicKey \<Rightarrow> bcs_doc" where
  "doc_MultiEd25519PublicKey obj = Doc_Container (Doc_Tuple
     [doc_vector doc_u8 (MultiEd25519PublicKey_value obj)])"

lemma MultiEd25519PublicKey_eq_iff:
  "x = \<lparr>MultiEd25519PublicKey_value = a0\<rparr> \<longleftrightarrow>
     MultiEd25519PublicKey_value x = a0"
  by (cases x) auto

lemmas MultiEd25519PublicKey_defs = serialize_MultiEd25519PublicKey_def deserialize_MultiEd25519PublicKey_def doc_MultiEd25519PublicKey_def MultiEd25519PublicKey_eq_iff

interpretation MultiEd25519PublicKey_codec: bcs_codec serialize_MultiEd25519PublicKey deserialize_MultiEd25519PublicKey doc_MultiEd25519PublicKey
  by unfold_locales (auto simp: MultiEd25519PublicKey_defs run_iff codec_iff Suc_le_unat_iff add.assoc
      intro!: throws_intros codec_exn)

section \<open>MultiEd25519Signature\<close>

record MultiEd25519Signature =
  MultiEd25519Signature_value :: "u8 list"

definition serialize_MultiEd25519Signature :: "MultiEd25519Signature \<Rightarrow> ser_step" where
  "serialize_MultiEd25519Signature obj = steps
     [increase_container_depth,
      serialize_vector serialize_u8 (MultiEd25519Signature_value obj),
      decrease_container_depth]"

definition deserialize_MultiEd25519Signature :: "MultiEd25519Signature de_action" where
  "deserialize_MultiEd25519Signature =
     act_then de_increase_container_depth (
     act_bind (deserialize_vector deserialize_u8) (\<lambda>value'.
     act_then de_decrease_container_depth (
     act_return \<lparr>MultiEd25519Signature_value = value'\<rparr>)))"

definition bcsSerialize_MultiEd25519Signature :: "MultiEd25519Signature \<Rightarrow> u8 list result" where
  "bcsSerialize_MultiEd25519Signature = bcsSerialize serialize_MultiEd25519Signature"

definition bcsDeserialize_MultiEd25519Signature :: "u8 list \<Rightarrow> MultiEd25519Signature result" where
  "bcsDeserialize_MultiEd25519Signature = bcsDeserialize deserialize_MultiEd25519Signature"

definition doc_MultiEd25519Signature :: "MultiEd25519Signature \<Rightarrow> bcs_doc" where
  "doc_MultiEd25519Signature obj = Doc_Container (Doc_Tuple
     [doc_vector doc_u8 (MultiEd25519Signature_value obj)])"

lemma MultiEd25519Signature_eq_iff:
  "x = \<lparr>MultiEd25519Signature_value = a0\<rparr> \<longleftrightarrow>
     MultiEd25519Signature_value x = a0"
  by (cases x) auto

lemmas MultiEd25519Signature_defs = serialize_MultiEd25519Signature_def deserialize_MultiEd25519Signature_def doc_MultiEd25519Signature_def MultiEd25519Signature_eq_iff

interpretation MultiEd25519Signature_codec: bcs_codec serialize_MultiEd25519Signature deserialize_MultiEd25519Signature doc_MultiEd25519Signature
  by unfold_locales (auto simp: MultiEd25519Signature_defs run_iff codec_iff Suc_le_unat_iff add.assoc
      intro!: throws_intros codec_exn)

section \<open>AccountAuthenticator\<close>

datatype AccountAuthenticator =
    AccountAuthenticator_Ed25519 Ed25519PublicKey Ed25519Signature
  | AccountAuthenticator_MultiEd25519 MultiEd25519PublicKey MultiEd25519Signature

definition serialize_AccountAuthenticator_Ed25519 :: "Ed25519PublicKey \<Rightarrow> Ed25519Signature \<Rightarrow> ser_step" where
  "serialize_AccountAuthenticator_Ed25519 public_key' signature' = steps [serialize_Ed25519PublicKey public_key', serialize_Ed25519Signature signature']"

definition deserialize_AccountAuthenticator_Ed25519 :: "AccountAuthenticator de_action" where
  "deserialize_AccountAuthenticator_Ed25519 = act_bind deserialize_Ed25519PublicKey (\<lambda>public_key'. act_bind deserialize_Ed25519Signature (\<lambda>signature'. act_return (AccountAuthenticator_Ed25519 public_key' signature')))"

definition serialize_AccountAuthenticator_MultiEd25519 :: "MultiEd25519PublicKey \<Rightarrow> MultiEd25519Signature \<Rightarrow> ser_step" where
  "serialize_AccountAuthenticator_MultiEd25519 public_key' signature' = steps [serialize_MultiEd25519PublicKey public_key', serialize_MultiEd25519Signature signature']"

definition deserialize_AccountAuthenticator_MultiEd25519 :: "AccountAuthenticator de_action" where
  "deserialize_AccountAuthenticator_MultiEd25519 = act_bind deserialize_MultiEd25519PublicKey (\<lambda>public_key'. act_bind deserialize_MultiEd25519Signature (\<lambda>signature'. act_return (AccountAuthenticator_MultiEd25519 public_key' signature')))"

definition serialize_AccountAuthenticator :: "AccountAuthenticator \<Rightarrow> ser_step" where
  "serialize_AccountAuthenticator obj = steps
     [increase_container_depth,
      (case obj of
         AccountAuthenticator_Ed25519 public_key' signature' \<Rightarrow> serialize_variant 0 (serialize_AccountAuthenticator_Ed25519 public_key' signature')
       | AccountAuthenticator_MultiEd25519 public_key' signature' \<Rightarrow> serialize_variant 1 (serialize_AccountAuthenticator_MultiEd25519 public_key' signature')),
      decrease_container_depth]"

definition deserialize_AccountAuthenticator :: "AccountAuthenticator de_action" where
  "deserialize_AccountAuthenticator =
     act_then de_increase_container_depth (
     act_bind (deserialize_variant
       [deserialize_AccountAuthenticator_Ed25519,
        deserialize_AccountAuthenticator_MultiEd25519]) (\<lambda>value.
     act_then de_decrease_container_depth (
     act_return value)))"

definition bcsSerialize_AccountAuthenticator :: "AccountAuthenticator \<Rightarrow> u8 list result" where
  "bcsSerialize_AccountAuthenticator = bcsSerialize serialize_AccountAuthenticator"

definition bcsDeserialize_AccountAuthenticator :: "u8 list \<Rightarrow> AccountAuthenticator result" where
  "bcsDeserialize_AccountAuthenticator = bcsDeserialize deserialize_AccountAuthenticator"

definition doc_AccountAuthenticator :: "AccountAuthenticator \<Rightarrow> bcs_doc" where
  "doc_AccountAuthenticator obj = Doc_Container
     (case obj of
        AccountAuthenticator_Ed25519 public_key' signature' \<Rightarrow> Doc_Variant 0 (Doc_Tuple [doc_Ed25519PublicKey public_key', doc_Ed25519Signature signature'])
      | AccountAuthenticator_MultiEd25519 public_key' signature' \<Rightarrow> Doc_Variant 1 (Doc_Tuple [doc_MultiEd25519PublicKey public_key', doc_MultiEd25519Signature signature']))"

lemmas AccountAuthenticator_defs = serialize_AccountAuthenticator_def deserialize_AccountAuthenticator_def doc_AccountAuthenticator_def
  serialize_AccountAuthenticator_Ed25519_def deserialize_AccountAuthenticator_Ed25519_def
  serialize_AccountAuthenticator_MultiEd25519_def deserialize_AccountAuthenticator_MultiEd25519_def

interpretation AccountAuthenticator_codec: bcs_codec serialize_AccountAuthenticator deserialize_AccountAuthenticator doc_AccountAuthenticator
  by unfold_locales (auto simp: AccountAuthenticator_defs run_iff codec_iff deserialize_variant_iff variant_index_folds
      Suc_le_unat_iff add.assoc split: AccountAuthenticator.splits intro!: throws_intros codec_exn)

section \<open>TransactionAuthenticator\<close>

interpretation AccountAddress_vector_codec: bcs_codec
  "serialize_vector serialize_AccountAddress"
  "deserialize_vector deserialize_AccountAddress"
  "doc_vector doc_AccountAddress"
  by (intro codec_intros AccountAddress_codec.bcs_codec_axioms)

interpretation AccountAuthenticator_vector_codec: bcs_codec
  "serialize_vector serialize_AccountAuthenticator"
  "deserialize_vector deserialize_AccountAuthenticator"
  "doc_vector doc_AccountAuthenticator"
  by (intro codec_intros AccountAuthenticator_codec.bcs_codec_axioms)

datatype TransactionAuthenticator =
    TransactionAuthenticator_Ed25519 Ed25519PublicKey Ed25519Signature
  | TransactionAuthenticator_MultiEd25519 MultiEd25519PublicKey MultiEd25519Signature
  | TransactionAuthenticator_MultiAgent AccountAuthenticator "AccountAddress list" "AccountAuthenticator list"

definition serialize_TransactionAuthenticator_Ed25519 :: "Ed25519PublicKey \<Rightarrow> Ed25519Signature \<Rightarrow> ser_step" where
  "serialize_TransactionAuthenticator_Ed25519 public_key' signature' = steps [serialize_Ed25519PublicKey public_key', serialize_Ed25519Signature signature']"

definition deserialize_TransactionAuthenticator_Ed25519 :: "TransactionAuthenticator de_action" where
  "deserialize_TransactionAuthenticator_Ed25519 = act_bind deserialize_Ed25519PublicKey (\<lambda>public_key'. act_bind deserialize_Ed25519Signature (\<lambda>signature'. act_return (TransactionAuthenticator_Ed25519 public_key' signature')))"

definition serialize_TransactionAuthenticator_MultiEd25519 :: "MultiEd25519PublicKey \<Rightarrow> MultiEd25519Signature \<Rightarrow> ser_step" where
  "serialize_TransactionAuthenticator_MultiEd25519 public_key' signature' = steps [serialize_MultiEd25519PublicKey public_key', serialize_MultiEd25519Signature signature']"

definition deserialize_TransactionAuthenticator_MultiEd25519 :: "TransactionAuthenticator de_action" where
  "deserialize_TransactionAuthenticator_MultiEd25519 = act_bind deserialize_MultiEd25519PublicKey (\<lambda>public_key'. act_bind deserialize_MultiEd25519Signature (\<lambda>signature'. act_return (TransactionAuthenticator_MultiEd25519 public_key' signature')))"

definition serialize_TransactionAuthenticator_MultiAgent :: "AccountAuthenticator \<Rightarrow> AccountAddress list \<Rightarrow> AccountAuthenticator list \<Rightarrow> ser_step" where
  "serialize_TransactionAuthenticator_MultiAgent sender' secondary_signer_addresses' secondary_signers' = steps [serialize_AccountAuthenticator sender', serialize_vector serialize_AccountAddress secondary_signer_addresses', serialize_vector serialize_AccountAuthenticator secondary_signers']"

definition deserialize_TransactionAuthenticator_MultiAgent :: "TransactionAuthenticator de_action" where
  "deserialize_TransactionAuthenticator_MultiAgent = act_bind deserialize_AccountAuthenticator (\<lambda>sender'. act_bind (deserialize_vector deserialize_AccountAddress) (\<lambda>secondary_signer_addresses'. act_bind (deserialize_vector deserialize_AccountAuthenticator) (\<lambda>secondary_signers'. act_return (TransactionAuthenticator_MultiAgent sender' secondary_signer_addresses' secondary_signers'))))"

definition serialize_TransactionAuthenticator :: "TransactionAuthenticator \<Rightarrow> ser_step" where
  "serialize_TransactionAuthenticator obj = steps
     [increase_container_depth,
      (case obj of
         TransactionAuthenticator_Ed25519 public_key' signature' \<Rightarrow> serialize_variant 0 (serialize_TransactionAuthenticator_Ed25519 public_key' signature')
       | TransactionAuthenticator_MultiEd25519 public_key' signature' \<Rightarrow> serialize_variant 1 (serialize_TransactionAuthenticator_MultiEd25519 public_key' signature')
       | TransactionAuthenticator_MultiAgent sender' secondary_signer_addresses' secondary_signers' \<Rightarrow> serialize_variant 2 (serialize_TransactionAuthenticator_MultiAgent sender' secondary_signer_addresses' secondary_signers')),
      decrease_container_depth]"

definition deserialize_TransactionAuthenticator :: "TransactionAuthenticator de_action" where
  "deserialize_TransactionAuthenticator =
     act_then de_increase_container_depth (
     act_bind (deserialize_variant
       [deserialize_TransactionAuthenticator_Ed25519,
        deserialize_TransactionAuthenticator_MultiEd25519,
        deserialize_TransactionAuthenticator_MultiAgent]) (\<lambda>value.
     act_then de_decrease_container_depth (
     act_return value)))"

definition bcsSerialize_TransactionAuthenticator :: "TransactionAuthenticator \<Rightarrow> u8 list result" where
  "bcsSerialize_TransactionAuthenticator = bcsSerialize serialize_TransactionAuthenticator"

definition bcsDeserialize_TransactionAuthenticator :: "u8 list \<Rightarrow> TransactionAuthenticator result" where
  "bcsDeserialize_TransactionAuthenticator = bcsDeserialize deserialize_TransactionAuthenticator"

definition doc_TransactionAuthenticator :: "TransactionAuthenticator \<Rightarrow> bcs_doc" where
  "doc_TransactionAuthenticator obj = Doc_Container
     (case obj of
        TransactionAuthenticator_Ed25519 public_key' signature' \<Rightarrow> Doc_Variant 0 (Doc_Tuple [doc_Ed25519PublicKey public_key', doc_Ed25519Signature signature'])
      | TransactionAuthenticator_MultiEd25519 public_key' signature' \<Rightarrow> Doc_Variant 1 (Doc_Tuple [doc_MultiEd25519PublicKey public_key', doc_MultiEd25519Signature signature'])
      | TransactionAuthenticator_MultiAgent sender' secondary_signer_addresses' secondary_signers' \<Rightarrow> Doc_Variant 2 (Doc_Tuple [doc_AccountAuthenticator sender', doc_vector doc_AccountAddress secondary_signer_addresses', doc_vector doc_AccountAuthenticator secondary_signers']))"

lemmas TransactionAuthenticator_defs = serialize_TransactionAuthenticator_def deserialize_TransactionAuthenticator_def doc_TransactionAuthenticator_def
  serialize_TransactionAuthenticator_Ed25519_def deserialize_TransactionAuthenticator_Ed25519_def
  serialize_TransactionAuthenticator_MultiEd25519_def deserialize_TransactionAuthenticator_MultiEd25519_def
  serialize_TransactionAuthenticator_MultiAgent_def deserialize_TransactionAuthenticator_MultiAgent_def

interpretation TransactionAuthenticator_codec: bcs_codec serialize_TransactionAuthenticator deserialize_TransactionAuthenticator doc_TransactionAuthenticator
  by unfold_locales (auto simp: TransactionAuthenticator_defs run_iff codec_iff deserialize_variant_iff variant_index_folds
      Suc_le_unat_iff add.assoc split: TransactionAuthenticator.splits intro!: throws_intros codec_exn)

end
