(* ===== verification/Diem_Move.thy ===== *)
theory Diem_Move
  imports Diem_Account
begin

text \<open>
  Move values of \<open>src/cpp/framework/src/diem_types.hpp\<close>: identifiers, type tags, transaction
  arguments, scripts, modules and script functions. \<open>TypeTag\<close> and \<open>StructTag\<close> are the recursive
  types of the format; their nesting is what the container depth budget is there to bound.
\<close>

section \<open>Module\<close>

record Module =
  Module_code :: "u8 list"

definition serialize_Module :: "Module \<Rightarrow> ser_step" where
  "serialize_Module obj = steps
     [increase_container_depth,
      serialize_vector serialize_u8 (Module_code obj),
      decrease_container_depth]"

definition deserialize_Module :: "Module de_action" where
  "deserialize_Module =
     act_then de_increase_container_depth (
     act_bind (deserialize_vector deserialize_u8) (\<lambda>code'.
     act_then de_decrease_container_depth (
     act_return \<lparr>Module_code = code'\<rparr>)))"

definition bcsSerialize_Module :: "Module \<Rightarrow> u8 list result" where
  "bcsSerialize_Module = bcsSerialize serialize_Module"

definition bcsDeserialize_Module :: "u8 list \<Rightarrow> Module result" where
  "bcsDeserialize_Module = bcsDeserialize deserialize_Module"

definition doc_Module :: "Module \<Rightarrow> bcs_doc" where
  "doc_Module obj = Doc_Container (Doc_Tuple
     [doc_vector doc_u8 (Module_code obj)])"

lemma Module_eq_iff:
  "x = \<lparr>Module_code = a0\<rparr> \<longleftrightarrow>
     Module_code x = a0"
  by (cases x) auto

lemmas Module_defs = serialize_Module_def deserialize_Module_def doc_Module_def Module_eq_iff

interpretation Module_codec: bcs_codec serialize_Module deserialize_Module doc_Module
  by unfold_locales (auto simp: Module_defs run_iff codec_iff Suc_le_unat_iff add.assoc
      intro!: throws_intros codec_exn)

section \<open>TransactionArgument\<close>

datatype TransactionArgument =
    TransactionArgument_U8 u8
  | TransactionArgument_U64 u64
  | TransactionArgument_U128 uint128_t
  | TransactionArgument_Address AccountAddress
  | TransactionArgument_U8Vector "u8 list"
  | TransactionArgument_Bool bool

definition serialize_TransactionArgument_U8 :: "u8 \<Rightarrow> ser_step" where
  "serialize_TransactionArgument_U8 value' = steps [serialize_u8 value']"

definition deserialize_TransactionArgument_U8 :: "TransactionArgument de_action" where
  "deserialize_TransactionArgument_U8 = act_bind deserialize_u8 (\<lambda>value'. act_return (TransactionArgument_U8 value'))"

definition serialize_TransactionArgument_U64 :: "u64 \<Rightarrow> ser_step" where
  "serialize_TransactionArgument_U64 value' = steps [serialize_u64 value']"

definition deserialize_TransactionArgument_U64 :: "TransactionArgument de_action" where
  "deserialize_TransactionArgument_U64 = act_bind deserialize_u64 (\<lambda>value'. act_return (TransactionArgument_U64 value'))"

definition serialize_TransactionArgument_U128 :: "uint128_t \<Rightarrow> ser_step" where
  "serialize_TransactionArgument_U128 value' = steps [serialize_u128 value']"

definition deserialize_TransactionArgument_U128 :: "TransactionArgument de_action" where
  "deserialize_TransactionArgument_U128 = act_bind deserialize_u128 (\<lambda>value'. act_return (TransactionArgument_U128 value'))"

definition serialize_TransactionArgument_Address :: "AccountAddress \<Rightarrow> ser_step" where
  "serialize_TransactionArgument_Address value' = steps [serialize_AccountAddress value']"

definition deserialize_TransactionArgument_Address :: "TransactionArgument de_action" where
  "deserialize_TransactionArgument_Address = act_bind deserialize_AccountAddress (\<lambda>value'. act_return (TransactionArgument_Address value'))"

definition serialize_TransactionArgument_U8Vector :: "u8 list \<Rightarrow> ser_step" where
  "serialize_TransactionArgument_U8Vector value' = steps [serialize_vector serialize_u8 value']"

definition deserialize_TransactionArgument_U8Vector :: "TransactionArgument de_action" where
  "deserialize_TransactionArgument_U8Vector = act_bind (deserialize_vector deserialize_u8) (\<lambda>value'. act_return (TransactionArgument_U8Vector value'))"

definition serialize_TransactionArgument_Bool :: "bool \<Rightarrow> ser_step" where
  "serialize_TransactionArgument_Bool value' = steps [serialize_bool value']"

definition deserialize_TransactionArgument_Bool :: "TransactionArgument de_action" where
  "deserialize_TransactionArgument_Bool = act_bind deserialize_bool (\<lambda>value'. act_return (TransactionArgument_Bool value'))"

definition serialize_TransactionArgument :: "TransactionArgument \<Rightarrow> ser_step" where
  "serialize_TransactionArgument obj = steps
     [increase_container_depth,
      (case obj of
         TransactionArgument_U8 value' \<Rightarrow> serialize_variant 0 (serialize_TransactionArgument_U8 value')
       | TransactionArgument_U64 value' \<Rightarrow> serialize_variant 1 (serialize_TransactionArgument_U64 value')
       | TransactionArgument_U128 value' \<Rightarrow> serialize_variant 2 (serialize_TransactionArgument_U128 value')
       | TransactionArgument_Address value' \<Rightarrow> serialize_variant 3 (serialize_TransactionArgument_Address value')
       | TransactionArgument_U8Vector value' \<Rightarrow> serialize_variant 4 (serialize_TransactionArgument_U8Vector value')
       | TransactionArgument_Bool value' \<Rightarrow> serialize_variant 5 (serialize_TransactionArgument_Bool value')),
      decrease_container_depth]"

definition deserialize_TransactionArgument :: "TransactionArgument de_action" where
  "deserialize_TransactionArgument =
     act_then de_increase_container_depth (
     act_bind (deserialize_variant
       [deserialize_TransactionArgument_U8,
        deserialize_TransactionArgument_U64,
        deserialize_TransactionArgument_U128,
        deserialize_TransactionArgument_Address,
        deserialize_TransactionArgument_U8Vector,
        deserialize_TransactionArgument_Bool]) (\<lambda>value.
     act_then de_decrease_container_depth (
     act_return value)))"

definition bcsSerialize_TransactionArgument :: "TransactionArgument \<Rightarrow> u8 list result" where
  "bcsSerialize_TransactionArgument = bcsSerialize serialize_TransactionArgument"

definition bcsDeserialize_TransactionArgument :: "u8 list \<Rightarrow> TransactionArgument result" where
  "bcsDeserialize_TransactionArgument = bcsDeserialize deserialize_TransactionArgument"

definition doc_TransactionArgument :: "TransactionArgument \<Rightarrow> bcs_doc" where
  "doc_TransactionArgument obj = Doc_Container
     (case obj of
        TransactionArgument_U8 value' \<Rightarrow> Doc_Variant 0 (Doc_Tuple [doc_u8 value'])
      | TransactionArgument_U64 value' \<Rightarrow> Doc_Variant 1 (Doc_Tuple [doc_word 8 value'])
      | TransactionArgument_U128 value' \<Rightarrow> Doc_Variant 2 (Doc_Tuple [doc_u128 value'])
      | TransactionArgument_Address value' \<Rightarrow> Doc_Variant 3 (Doc_Tuple [doc_AccountAddress value'])
      | TransactionArgument_U8Vector value' \<Rightarrow> Doc_Variant 4 (Doc_Tuple [doc_vector doc_u8 value'])
      | TransactionArgument_Bool value' \<Rightarrow> Doc_Variant 5 (Doc_Tuple [doc_bool value']))"

lemmas TransactionArgument_defs = serialize_TransactionArgument_def deserialize_TransactionArgument_def doc_TransactionArgument_def
  serialize_TransactionArgument_U8_def deserialize_TransactionArgument_U8_def
  serialize_TransactionArgument_U64_def deserialize_TransactionArgument_U64_def
  serialize_TransactionArgument_U128_def deserialize_TransactionArgument_U128_def
  serialize_TransactionArgument_Address_def deserialize_TransactionArgument_Address_def
  serialize_TransactionArgument_U8Vector_def deserialize_TransactionArgument_U8Vector_def
  serialize_TransactionArgument_Bool_def deserialize_TransactionArgument_Bool_def

interpretation TransactionArgument_codec: bcs_codec serialize_TransactionArgument deserialize_TransactionArgument doc_TransactionArgument
  by unfold_locales (auto simp: TransactionArgument_defs run_iff codec_iff deserialize_variant_iff variant_index_folds
      Suc_le_unat_iff add.assoc split: TransactionArgument.splits intro!: throws_intros codec_exn)

section \<open>Identifier\<close>

record Identifier =
  Identifier_value :: cstring

definition serialize_Identifier :: "Identifier \<Rightarrow> ser_step" where
  "serialize_Identifier obj = steps
     [increase_container_depth,
      serialize_str (Identifier_value obj),
      decrease_container_depth]"

definition deserialize_Identifier :: "Identifier de_action" where
  "deserialize_Identifier =
     act_then de_increase_container_depth (
     act_bind deserialize_str (\<lambda>value'.
     act_then de_decrease_container_depth (
     act_return \<lparr>Identifier_value = value'\<rparr>)))"

definition bcsSerialize_Identifier :: "Identifier \<Rightarrow> u8 list result" where
  "bcsSerialize_Identifier = bcsSerialize serialize_Identifier"

definition bcsDeserialize_Identifier :: "u8 list \<Rightarrow> Identifier result" where
  "bcsDeserialize_Identifier = bcsDeserialize deserialize_Identifier"

definition doc_Identifier :: "Identifier \<Rightarrow> bcs_doc" where
  "doc_Identifier obj = Doc_Container (Doc_Tuple
     [Doc_Str (Identifier_value obj)])"

lemma Identifier_eq_iff:
  "x = \<lparr>Identifier_value = a0\<rparr> \<longleftrightarrow>
     Identifier_value x = a0"
  by (cases x) auto

lemmas Identifier_defs = serialize_Identifier_def deserialize_Identifier_def doc_Identifier_def Identifier_eq_iff

interpretation Identifier_codec: bcs_codec serialize_Identifier deserialize_Identifier doc_Identifier
  by unfold_locales (auto simp: Identifier_defs run_iff codec_iff Suc_le_unat_iff add.assoc
      intro!: throws_intros codec_exn)

section \<open>TypeTag and StructTag\<close>

text \<open>
  The two types refer to each other: a \<open>std::vector<TypeTag>\<close> in \<open>StructTag\<close>, and in
  \<open>TypeTag\<close> a \<open>value_ptr<TypeTag>\<close> (an owning pointer, read through by its serializer and
  filled by its deserializer) and a \<open>StructTag\<close>.
\<close>

datatype TypeTag =
    TypeTag_Bool
  | TypeTag_U8
  | TypeTag_U64
  | TypeTag_U128
  | TypeTag_Address
  | TypeTag_Signer
  | TypeTag_Vector TypeTag
  | TypeTag_Struct StructTag
and StructTag =
    StructTag (StructTag_address: AccountAddress) (StructTag_module: Identifier)
      (StructTag_name: Identifier) (StructTag_type_params: "TypeTag list")

definition serialize_TypeTag_Bool :: ser_step where
  "serialize_TypeTag_Bool = steps []"

definition deserialize_TypeTag_Bool :: "TypeTag de_action" where
  "deserialize_TypeTag_Bool = act_return TypeTag_Bool"

definition serialize_TypeTag_U8 :: ser_step where
  "serialize_TypeTag_U8 = steps []"

definition deserialize_TypeTag_U8 :: "TypeTag de_action" where
  "deserialize_TypeTag_U8 = act_return TypeTag_U8"

definition serialize_TypeTag_U64 :: ser_step where
  "serialize_TypeTag_U64 = steps []"

definition deserialize_TypeTag_U64 :: "TypeTag de_action" where
  "deserialize_TypeTag_U64 = act_return TypeTag_U64"

definition serialize_TypeTag_U128 :: ser_step where
  "serialize_TypeTag_U128 = steps []"

definition deserialize_TypeTag_U128 :: "TypeTag de_action" where
  "deserialize_TypeTag_U128 = act_return TypeTag_U128"

definition serialize_TypeTag_Address :: ser_step where
  "serialize_TypeTag_Address = steps []"

definition deserialize_TypeTag_Address :: "TypeTag de_action" where
  "deserialize_TypeTag_Address = act_return TypeTag_Address"

definition serialize_TypeTag_Signer :: ser_step where
  "serialize_TypeTag_Signer = steps []"

definition deserialize_TypeTag_Signer :: "TypeTag de_action" where
  "deserialize_TypeTag_Signer = act_return TypeTag_Signer"

text \<open>The two alternatives with a payload take the serializer of the payload as an argument.\<close>

definition serialize_TypeTag_Vector :: "(TypeTag \<Rightarrow> ser_step) \<Rightarrow> TypeTag \<Rightarrow> ser_step" where
  "serialize_TypeTag_Vector ser value' = steps [ser value']"

definition deserialize_TypeTag_Vector :: "TypeTag de_action \<Rightarrow> TypeTag de_action" where
  "deserialize_TypeTag_Vector de = act_bind de (\<lambda>value'. act_return (TypeTag_Vector value'))"

definition serialize_TypeTag_Struct :: "(StructTag \<Rightarrow> ser_step) \<Rightarrow> StructTag \<Rightarrow> ser_step" where
  "serialize_TypeTag_Struct ser value' = steps [ser value']"

definition deserialize_TypeTag_Struct :: "StructTag de_action \<Rightarrow> TypeTag de_action" where
  "deserialize_TypeTag_Struct de = act_bind de (\<lambda>value'. act_return (TypeTag_Struct value'))"

lemma serialize_TypeTag_payload_cong [fundef_cong]:
  "x = y \<Longrightarrow> f y = g y \<Longrightarrow> serialize_TypeTag_Vector f x = serialize_TypeTag_Vector g y"
  "a = b \<Longrightarrow> h b = k b \<Longrightarrow> serialize_TypeTag_Struct h a = serialize_TypeTag_Struct k b"
  by (simp_all add: serialize_TypeTag_Vector_def serialize_TypeTag_Struct_def)

fun serialize_TypeTag :: "TypeTag \<Rightarrow> ser_step"
and serialize_StructTag :: "StructTag \<Rightarrow> ser_step" where
  "serialize_TypeTag obj = steps
     [increase_container_depth,
      (case obj of
         TypeTag_Bool \<Rightarrow> serialize_variant 0 serialize_TypeTag_Bool
       | TypeTag_U8 \<Rightarrow> serialize_variant 1 serialize_TypeTag_U8
       | TypeTag_U64 \<Rightarrow> serialize_variant 2 serialize_TypeTag_U64
       | TypeTag_U128 \<Rightarrow> serialize_variant 3 serialize_TypeTag_U128
       | TypeTag_Address \<Rightarrow> serialize_variant 4 serialize_TypeTag_Address
       | TypeTag_Signer \<Rightarrow> serialize_variant 5 serialize_TypeTag_Signer
       | TypeTag_Vector value' \<Rightarrow> serialize_variant 6 (serialize_TypeTag_Vector serialize_TypeTag value')
       | TypeTag_Struct value' \<Rightarrow> serialize_variant 7 (serialize_TypeTag_Struct serialize_StructTag value')),
      decrease_container_depth]"
| "serialize_StructTag (StructTag address' module' name' type_params') = steps
     [increase_container_depth,
      serialize_AccountAddress address',
      serialize_Identifier module',
      serialize_Identifier name',
      serialize_vector serialize_TypeTag type_params',
      decrease_container_depth]"

declare serialize_TypeTag.simps [simp del] serialize_StructTag.simps [simp del]

text \<open>
  The bodies of the two deserializers, with the recursive calls as arguments. They call each other
  without a bound of their own; what ends the recursion is the container depth budget, which every
  level lowers by one. The knot is tied by fuel, one unit per level, and \<open>deserialize_TypeTag\<close>
  starts with one unit more than the budget allows levels. The lemmas below show that the fuel is
  never used up and that the two functions satisfy the recursion of the source, without fuel.
\<close>

definition deserialize_TypeTag_body ::
    "TypeTag de_action \<Rightarrow> StructTag de_action \<Rightarrow> TypeTag de_action" where
  "deserialize_TypeTag_body deT deS =
     act_then de_increase_container_depth (
     act_bind (deserialize_variant
       [deserialize_TypeTag_Bool,
        deserialize_TypeTag_U8,
        deserialize_TypeTag_U64,
        deserialize_TypeTag_U128,
        deserialize_TypeTag_Address,
        deserialize_TypeTag_Signer,
        deserialize_TypeTag_Vector deT,
        deserialize_TypeTag_Struct deS]) (\<lambda>value.
     act_then de_decrease_container_depth (
     act_return value)))"

definition deserialize_StructTag_body :: "TypeTag de_action \<Rightarrow> StructTag de_action" where
  "deserialize_StructTag_body deT =
     act_then de_increase_container_depth (
     act_bind deserialize_AccountAddress (\<lambda>address'.
     act_bind deserialize_Identifier (\<lambda>module'.
     act_bind deserialize_Identifier (\<lambda>name'.
     act_bind (deserialize_vector deT) (\<lambda>type_params'.
     act_then de_decrease_container_depth (
     act_return (StructTag address' module' name' type_params')))))))"

fun deserialize_TypeTag_fuel :: "nat \<Rightarrow> TypeTag de_action"
and deserialize_StructTag_fuel :: "nat \<Rightarrow> StructTag de_action" where
  "deserialize_TypeTag_fuel 0 = act_throw (Deserialization_error ''Too many nested containers'')"
| "deserialize_TypeTag_fuel (Suc n) =
     deserialize_TypeTag_body (deserialize_TypeTag_fuel n) (deserialize_StructTag_fuel n)"
| "deserialize_StructTag_fuel 0 = act_throw (Deserialization_error ''Too many nested containers'')"
| "deserialize_StructTag_fuel (Suc n) = deserialize_StructTag_body (deserialize_TypeTag_fuel n)"

definition deserialize_TypeTag :: "TypeTag de_action" where
  "deserialize_TypeTag d = deserialize_TypeTag_fuel (Suc (unat (de_container_depth_budget d))) d"

definition deserialize_StructTag :: "StructTag de_action" where
  "deserialize_StructTag d = deserialize_StructTag_fuel (Suc (unat (de_container_depth_budget d))) d"

definition bcsSerialize_TypeTag :: "TypeTag \<Rightarrow> u8 list result" where
  "bcsSerialize_TypeTag = bcsSerialize serialize_TypeTag"

definition bcsDeserialize_TypeTag :: "u8 list \<Rightarrow> TypeTag result" where
  "bcsDeserialize_TypeTag = bcsDeserialize deserialize_TypeTag"

definition bcsSerialize_StructTag :: "StructTag \<Rightarrow> u8 list result" where
  "bcsSerialize_StructTag = bcsSerialize serialize_StructTag"

definition bcsDeserialize_StructTag :: "u8 list \<Rightarrow> StructTag result" where
  "bcsDeserialize_StructTag = bcsDeserialize deserialize_StructTag"

primrec doc_TypeTag :: "TypeTag \<Rightarrow> bcs_doc"
and doc_StructTag :: "StructTag \<Rightarrow> bcs_doc" where
  "doc_TypeTag TypeTag_Bool = Doc_Container (Doc_Variant 0 (Doc_Tuple []))"
| "doc_TypeTag TypeTag_U8 = Doc_Container (Doc_Variant 1 (Doc_Tuple []))"
| "doc_TypeTag TypeTag_U64 = Doc_Container (Doc_Variant 2 (Doc_Tuple []))"
| "doc_TypeTag TypeTag_U128 = Doc_Container (Doc_Variant 3 (Doc_Tuple []))"
| "doc_TypeTag TypeTag_Address = Doc_Container (Doc_Variant 4 (Doc_Tuple []))"
| "doc_TypeTag TypeTag_Signer = Doc_Container (Doc_Variant 5 (Doc_Tuple []))"
| "doc_TypeTag (TypeTag_Vector value') = Doc_Container (Doc_Variant 6 (Doc_Tuple [doc_TypeTag value']))"
| "doc_TypeTag (TypeTag_Struct value') = Doc_Container (Doc_Variant 7 (Doc_Tuple [doc_StructTag value']))"
| "doc_StructTag (StructTag address' module' name' type_params') = Doc_Container (Doc_Tuple
     [doc_AccountAddress address', doc_Identifier module', doc_Identifier name',
      Doc_Seq (map doc_TypeTag type_params')])"

lemmas TypeTag_alternative_defs =
  serialize_TypeTag_Bool_def deserialize_TypeTag_Bool_def
  serialize_TypeTag_U8_def deserialize_TypeTag_U8_def
  serialize_TypeTag_U64_def deserialize_TypeTag_U64_def
  serialize_TypeTag_U128_def deserialize_TypeTag_U128_def
  serialize_TypeTag_Address_def deserialize_TypeTag_Address_def
  serialize_TypeTag_Signer_def deserialize_TypeTag_Signer_def
  serialize_TypeTag_Vector_def deserialize_TypeTag_Vector_def
  serialize_TypeTag_Struct_def deserialize_TypeTag_Struct_def

lemmas serialize_TypeTag_eqs =
  serialize_TypeTag.simps [of TypeTag_Bool, unfolded TypeTag.case]
  serialize_TypeTag.simps [of TypeTag_U8, unfolded TypeTag.case]
  serialize_TypeTag.simps [of TypeTag_U64, unfolded TypeTag.case]
  serialize_TypeTag.simps [of TypeTag_U128, unfolded TypeTag.case]
  serialize_TypeTag.simps [of TypeTag_Address, unfolded TypeTag.case]
  serialize_TypeTag.simps [of TypeTag_Signer, unfolded TypeTag.case]
  serialize_TypeTag.simps [of "TypeTag_Vector v" for v, unfolded TypeTag.case]
  serialize_TypeTag.simps [of "TypeTag_Struct v" for v, unfolded TypeTag.case]

lemma doc_TypeTag_depth [simp]: "0 < depth (doc_TypeTag ty)" "0 < depth (doc_StructTag st)"
  by (cases ty; simp) (cases st; simp)

subsection \<open>Serialization\<close>

lemma serialize_TypeTag_StructTag_iff:
  "serialize_TypeTag ty s = Inr s' \<longleftrightarrow>
     fits (doc_TypeTag ty) \<and> depth (doc_TypeTag ty) \<le> unat (container_depth_budget s) \<and>
     s' = put (enc (doc_TypeTag ty)) s"
  "serialize_StructTag st s = Inr s' \<longleftrightarrow>
     fits (doc_StructTag st) \<and> depth (doc_StructTag st) \<le> unat (container_depth_budget s) \<and>
     s' = put (enc (doc_StructTag st)) s"
proof (induction ty and st arbitrary: s s' and s s')
  case (StructTag address' module' name' type_params')
  have list: "steps (map serialize_TypeTag type_params') s = Inr t \<longleftrightarrow>
      list_all (\<lambda>x. fits (doc_TypeTag x) \<and> depth (doc_TypeTag x) \<le> unat (container_depth_budget s)) type_params' \<and>
      t = put (concat (map (\<lambda>x. enc (doc_TypeTag x)) type_params')) s" for s t
    using StructTag by (induction type_params' arbitrary: s) (auto simp: run_iff)
  show ?case
    by (auto simp: serialize_StructTag.simps serialize_vector_def run_iff codec_iff list
        Suc_le_unat_iff max_list_le_iff list_all_iff comp_def add.assoc)
qed (auto simp: serialize_TypeTag_eqs TypeTag_alternative_defs run_iff Suc_le_unat_iff)

lemma throws_serialize_TypeTag_StructTag:
  "throws is_Serialization_error (serialize_TypeTag ty)"
  "throws is_Serialization_error (serialize_StructTag st)"
proof (induction ty and st)
  case (StructTag address' module' name' type_params')
  then have "throws is_Serialization_error (serialize_vector serialize_TypeTag type_params')"
    unfolding serialize_vector_def by (intro throws_steps) (auto intro: throws_intros)
  then show ?case
    unfolding serialize_StructTag.simps by (intro throws_intros codec_exn)
qed (auto simp: serialize_TypeTag_eqs TypeTag_alternative_defs intro!: throws_intros)

subsection \<open>Deserialization\<close>

lemma deserialize_TypeTag_body_reads:
  assumes "reads_doc_at (b - 1) deT doc_TypeTag" and "reads_doc_at (b - 1) deS doc_StructTag"
    and "b \<noteq> 0"
  shows "reads_doc_at b (deserialize_TypeTag_body deT deS) doc_TypeTag"
  unfolding reads_doc_at_def
proof (intro allI impI)
  fix d d' :: BinaryDeserializer and ty
  assume b: "de_container_depth_budget d = b"
  show "deserialize_TypeTag_body deT deS d = Inr (ty, d') \<longleftrightarrow>
      wf_doc (doc_TypeTag ty) \<and> depth (doc_TypeTag ty) \<le> unat b \<and>
      input_starts (enc (doc_TypeTag ty)) d \<and> d' = advance (length (enc (doc_TypeTag ty))) d"
    using assms(3) b [symmetric]
    by (cases ty) (auto simp: deserialize_TypeTag_body_def TypeTag_alternative_defs run_iff
        deserialize_variant_iff variant_index_folds reads_doc_atD [OF assms(1)]
        reads_doc_atD [OF assms(2)] Suc_le_unat_iff add.assoc)
qed

lemma deserialize_StructTag_body_reads:
  assumes "reads_doc_at (b - 1) deT doc_TypeTag" and "b \<noteq> 0"
  shows "reads_doc_at b (deserialize_StructTag_body deT) doc_StructTag"
  unfolding reads_doc_at_def
proof (intro allI impI)
  fix d d' :: BinaryDeserializer and st
  assume b: "de_container_depth_budget d = b"
  show "deserialize_StructTag_body deT d = Inr (st, d') \<longleftrightarrow>
      wf_doc (doc_StructTag st) \<and> depth (doc_StructTag st) \<le> unat b \<and>
      input_starts (enc (doc_StructTag st)) d \<and> d' = advance (length (enc (doc_StructTag st))) d"
    using assms(2) b [symmetric]
    by (cases st) (auto simp: deserialize_StructTag_body_def deserialize_vector_def run_iff codec_iff
        act_times_reads_doc_at [OF assms(1)] Suc_le_unat_iff max_list_le_iff list_all_iff comp_def add.assoc)
qed

lemma body_budget_0:
  assumes "de_container_depth_budget d = 0"
  shows "deserialize_TypeTag_body deT deS d = Inl (Deserialization_error ''Too many nested containers'')"
    and "deserialize_StructTag_body deT d = Inl (Deserialization_error ''Too many nested containers'')"
  using assms by (simp_all add: deserialize_TypeTag_body_def deserialize_StructTag_body_def
      act_then_def de_increase_container_depth_def)

lemma less_pred_budget: "(b :: u64) \<noteq> 0 \<Longrightarrow> unat b < Suc n \<Longrightarrow> unat (b - 1) < n"
  using unat_gt_0 [of b] by (simp add: unat_pred_word less_Suc_eq_le less_diff_conv2)

text \<open>With more fuel than the budget has levels, the deserializers read documents.\<close>

lemma deserialize_fuel_reads:
  "unat b < n \<Longrightarrow>
     reads_doc_at b (deserialize_TypeTag_fuel n) doc_TypeTag \<and>
     reads_doc_at b (deserialize_StructTag_fuel n) doc_StructTag"
proof (induction n arbitrary: b)
  case (Suc n)
  show ?case
  proof (cases "b = 0")
    case True
    then show ?thesis by (auto simp: reads_doc_at_def body_budget_0)
  next
    case False
    with Suc have "reads_doc_at (b - 1) (deserialize_TypeTag_fuel n) doc_TypeTag \<and>
        reads_doc_at (b - 1) (deserialize_StructTag_fuel n) doc_StructTag"
      by (simp add: less_pred_budget)
    with False show ?thesis
      by (simp add: deserialize_TypeTag_body_reads deserialize_StructTag_body_reads)
  qed
qed simp

text \<open>Any two amounts of fuel that exceed the budget give the same result, errors included.\<close>

lemma keeps_AccountAddress: "keeps_at b deserialize_AccountAddress"
  by (rule reads_doc_at_keeps [OF bcs_codec_reads_doc_at [OF AccountAddress_codec.bcs_codec_axioms]])

lemma keeps_Identifier: "keeps_at b deserialize_Identifier"
  by (rule reads_doc_at_keeps [OF bcs_codec_reads_doc_at [OF Identifier_codec.bcs_codec_axioms]])

lemma same_at_TypeTag_body:
  "same_at (b - 1) deT deT' \<Longrightarrow> same_at (b - 1) deS deS' \<Longrightarrow>
     same_at b (deserialize_TypeTag_body deT deS) (deserialize_TypeTag_body deT' deS')"
  unfolding deserialize_TypeTag_body_def deserialize_TypeTag_Vector_def deserialize_TypeTag_Struct_def
  by (intro same_at_inc same_at_bind_first same_at_variant) (simp add: same_at_bind_first)

lemma same_at_StructTag_body:
  "keeps_at (b - 1) deT \<Longrightarrow> same_at (b - 1) deT deT' \<Longrightarrow>
     same_at b (deserialize_StructTag_body deT) (deserialize_StructTag_body deT')"
  unfolding deserialize_StructTag_body_def deserialize_vector_def
  by (intro same_at_inc same_at_bind [OF keeps_AccountAddress] same_at_bind [OF keeps_Identifier]
      same_at_bind_first same_at_bind [OF keeps_len] same_at_times)

lemma deserialize_fuel_agree:
  "unat b < n \<Longrightarrow> unat b < m \<Longrightarrow>
     same_at b (deserialize_TypeTag_fuel n) (deserialize_TypeTag_fuel m) \<and>
     same_at b (deserialize_StructTag_fuel n) (deserialize_StructTag_fuel m)"
proof (induction n arbitrary: m b)
  case (Suc n)
  from Suc.prems obtain k where m: "m = Suc k" by (cases m) auto
  show ?case
  proof (cases "b = 0")
    case True
    then show ?thesis by (simp add: same_at_def m body_budget_0)
  next
    case False
    then have fuel: "unat (b - 1) < n" "unat (b - 1) < k"
      using Suc.prems m by (auto intro: less_pred_budget)
    have "keeps_at (b - 1) (deserialize_TypeTag_fuel n)"
      using deserialize_fuel_reads [OF fuel(1)] by (blast intro: reads_doc_at_keeps)
    with Suc.IH [OF fuel] show ?thesis
      by (simp add: m same_at_TypeTag_body same_at_StructTag_body)
  qed
qed simp

lemma same_at_fuel:
  assumes "unat b < n"
  shows "same_at b (deserialize_TypeTag_fuel n) deserialize_TypeTag"
    and "same_at b (deserialize_StructTag_fuel n) deserialize_StructTag"
  using deserialize_fuel_agree [OF assms, of "Suc (unat b)"]
  by (simp_all add: same_at_def deserialize_TypeTag_def deserialize_StructTag_def)

text \<open>The recursion of the source: no fuel, and the same calls with the same results.\<close>

lemma deserialize_unfold_at:
  "deserialize_TypeTag d = deserialize_TypeTag_body deserialize_TypeTag deserialize_StructTag d \<and>
   deserialize_StructTag d = deserialize_StructTag_body deserialize_TypeTag d"
proof (cases "de_container_depth_budget d = 0")
  case True
  then show ?thesis by (simp add: deserialize_TypeTag_def deserialize_StructTag_def body_budget_0)
next
  case False
  let ?b = "de_container_depth_budget d"
  have fuel: "unat (?b - 1) < unat ?b" using False by (simp add: less_pred_budget)
  have "keeps_at (?b - 1) (deserialize_TypeTag_fuel (unat ?b))"
    using deserialize_fuel_reads [OF fuel] by (blast intro: reads_doc_at_keeps)
  with same_at_fuel [OF fuel]
  have "same_at ?b (deserialize_TypeTag_fuel (Suc (unat ?b)))
          (deserialize_TypeTag_body deserialize_TypeTag deserialize_StructTag)"
    and "same_at ?b (deserialize_StructTag_fuel (Suc (unat ?b)))
          (deserialize_StructTag_body deserialize_TypeTag)"
    by (simp_all add: same_at_TypeTag_body same_at_StructTag_body)
  then show ?thesis by (simp add: same_at_def deserialize_TypeTag_def deserialize_StructTag_def)
qed

lemma deserialize_TypeTag_unfold:
  "deserialize_TypeTag = deserialize_TypeTag_body deserialize_TypeTag deserialize_StructTag"
  and deserialize_StructTag_unfold:
  "deserialize_StructTag = deserialize_StructTag_body deserialize_TypeTag"
  using deserialize_unfold_at by (auto simp: fun_eq_iff)

subsection \<open>The codecs\<close>

lemma throws_deserialize_body:
  "throws is_decoding_exn deT \<Longrightarrow> throws is_decoding_exn deS \<Longrightarrow>
     throws is_decoding_exn (deserialize_TypeTag_body deT deS)"
  "throws is_decoding_exn deT \<Longrightarrow> throws is_decoding_exn (deserialize_StructTag_body deT)"
  unfolding deserialize_TypeTag_body_def deserialize_StructTag_body_def deserialize_vector_def
  by (auto simp: TypeTag_alternative_defs intro!: throws_intros codec_exn)

lemma throws_deserialize_fuel:
  "throws is_decoding_exn (deserialize_TypeTag_fuel n)"
  "throws is_decoding_exn (deserialize_StructTag_fuel n)"
  by (induction n) (auto intro!: throws_deserialize_body throws_intros)

lemma throws_deserialize_tags:
  "throws is_decoding_exn deserialize_TypeTag" "throws is_decoding_exn deserialize_StructTag"
  unfolding throws_def deserialize_TypeTag_def deserialize_StructTag_def
  by (blast intro: throwsD [OF throws_deserialize_fuel(1)] throwsD [OF throws_deserialize_fuel(2)])+

lemma deserialize_reads:
  "reads_doc_at b deserialize_TypeTag doc_TypeTag" "reads_doc_at b deserialize_StructTag doc_StructTag"
  using deserialize_fuel_reads [of b "Suc (unat b)"]
  by (auto simp: reads_doc_at_def deserialize_TypeTag_def deserialize_StructTag_def)

interpretation TypeTag_codec: bcs_codec serialize_TypeTag deserialize_TypeTag doc_TypeTag
  by unfold_locales (auto simp: serialize_TypeTag_StructTag_iff throws_serialize_TypeTag_StructTag
      throws_deserialize_tags reads_doc_atD [OF deserialize_reads(1) refl])

interpretation StructTag_codec: bcs_codec serialize_StructTag deserialize_StructTag doc_StructTag
  by unfold_locales (auto simp: serialize_TypeTag_StructTag_iff throws_serialize_TypeTag_StructTag
      throws_deserialize_tags reads_doc_atD [OF deserialize_reads(2) refl])

section \<open>Script\<close>

interpretation TypeTag_vector_codec: bcs_codec
  "serialize_vector serialize_TypeTag"
  "deserialize_vector deserialize_TypeTag"
  "doc_vector doc_TypeTag"
  by (intro codec_intros TypeTag_codec.bcs_codec_axioms)

interpretation TransactionArgument_vector_codec: bcs_codec
  "serialize_vector serialize_TransactionArgument"
  "deserialize_vector deserialize_TransactionArgument"
  "doc_vector doc_TransactionArgument"
  by (intro codec_intros TransactionArgument_codec.bcs_codec_axioms)

record Script =
  Script_code :: "u8 list"
  Script_ty_args :: "TypeTag list"
  Script_args :: "TransactionArgument list"

definition serialize_Script :: "Script \<Rightarrow> ser_step" where
  "serialize_Script obj = steps
     [increase_container_depth,
      serialize_vector serialize_u8 (Script_code obj),
      serialize_vector serialize_TypeTag (Script_ty_args obj),
      serialize_vector serialize_TransactionArgument (Script_args obj),
      decrease_container_depth]"

definition deserialize_Script :: "Script de_action" where
  "deserialize_Script =
     act_then de_increase_container_depth (
     act_bind (deserialize_vector deserialize_u8) (\<lambda>code'.
     act_bind (deserialize_vector deserialize_TypeTag) (\<lambda>ty_args'.
     act_bind (deserialize_vector deserialize_TransactionArgument) (\<lambda>args'.
     act_then de_decrease_container_depth (
     act_return \<lparr>Script_code = code', Script_ty_args = ty_args', Script_args = args'\<rparr>)))))"

definition bcsSerialize_Script :: "Script \<Rightarrow> u8 list result" where
  "bcsSerialize_Script = bcsSerialize serialize_Script"

definition bcsDeserialize_Script :: "u8 list \<Rightarrow> Script result" where
  "bcsDeserialize_Script = bcsDeserialize deserialize_Script"

definition doc_Script :: "Script \<Rightarrow> bcs_doc" where
  "doc_Script obj = Doc_Container (Doc_Tuple
     [doc_vector doc_u8 (Script_code obj),
      doc_vector doc_TypeTag (Script_ty_args obj),
      doc_vector doc_TransactionArgument (Script_args obj)])"

lemma Script_eq_iff:
  "x = \<lparr>Script_code = a0, Script_ty_args = a1, Script_args = a2\<rparr> \<longleftrightarrow>
     Script_code x = a0 \<and> Script_ty_args x = a1 \<and> Script_args x = a2"
  by (cases x) auto

lemmas Script_defs = serialize_Script_def deserialize_Script_def doc_Script_def Script_eq_iff

interpretation Script_codec: bcs_codec serialize_Script deserialize_Script doc_Script
  by unfold_locales (auto simp: Script_defs run_iff codec_iff Suc_le_unat_iff add.assoc
      intro!: throws_intros codec_exn)

section \<open>ModuleId\<close>

record ModuleId =
  ModuleId_address :: AccountAddress
  ModuleId_name :: Identifier

definition serialize_ModuleId :: "ModuleId \<Rightarrow> ser_step" where
  "serialize_ModuleId obj = steps
     [increase_container_depth,
      serialize_AccountAddress (ModuleId_address obj),
      serialize_Identifier (ModuleId_name obj),
      decrease_container_depth]"

definition deserialize_ModuleId :: "ModuleId de_action" where
  "deserialize_ModuleId =
     act_then de_increase_container_depth (
     act_bind deserialize_AccountAddress (\<lambda>address'.
     act_bind deserialize_Identifier (\<lambda>name'.
     act_then de_decrease_container_depth (
     act_return \<lparr>ModuleId_address = address', ModuleId_name = name'\<rparr>))))"

definition bcsSerialize_ModuleId :: "ModuleId \<Rightarrow> u8 list result" where
  "bcsSerialize_ModuleId = bcsSerialize serialize_ModuleId"

definition bcsDeserialize_ModuleId :: "u8 list \<Rightarrow> ModuleId result" where
  "bcsDeserialize_ModuleId = bcsDeserialize deserialize_ModuleId"

definition doc_ModuleId :: "ModuleId \<Rightarrow> bcs_doc" where
  "doc_ModuleId obj = Doc_Container (Doc_Tuple
     [doc_AccountAddress (ModuleId_address obj),
      doc_Identifier (ModuleId_name obj)])"

lemma ModuleId_eq_iff:
  "x = \<lparr>ModuleId_address = a0, ModuleId_name = a1\<rparr> \<longleftrightarrow>
     ModuleId_address x = a0 \<and> ModuleId_name x = a1"
  by (cases x) auto

lemmas ModuleId_defs = serialize_ModuleId_def deserialize_ModuleId_def doc_ModuleId_def ModuleId_eq_iff

interpretation ModuleId_codec: bcs_codec serialize_ModuleId deserialize_ModuleId doc_ModuleId
  by unfold_locales (auto simp: ModuleId_defs run_iff codec_iff Suc_le_unat_iff add.assoc
      intro!: throws_intros codec_exn)

section \<open>ScriptFunction\<close>

interpretation u8_vector_vector_codec: bcs_codec
  "serialize_vector (serialize_vector serialize_u8)"
  "deserialize_vector (deserialize_vector deserialize_u8)"
  "doc_vector (doc_vector doc_u8)"
  by (intro codec_intros u8_codec.bcs_codec_axioms)

record ScriptFunction =
  ScriptFunction_module :: ModuleId
  ScriptFunction_function :: Identifier
  ScriptFunction_ty_args :: "TypeTag list"
  ScriptFunction_args :: "u8 list list"

definition serialize_ScriptFunction :: "ScriptFunction \<Rightarrow> ser_step" where
  "serialize_ScriptFunction obj = steps
     [increase_container_depth,
      serialize_ModuleId (ScriptFunction_module obj),
      serialize_Identifier (ScriptFunction_function obj),
      serialize_vector serialize_TypeTag (ScriptFunction_ty_args obj),
      serialize_vector (serialize_vector serialize_u8) (ScriptFunction_args obj),
      decrease_container_depth]"

definition deserialize_ScriptFunction :: "ScriptFunction de_action" where
  "deserialize_ScriptFunction =
     act_then de_increase_container_depth (
     act_bind deserialize_ModuleId (\<lambda>module'.
     act_bind deserialize_Identifier (\<lambda>function'.
     act_bind (deserialize_vector deserialize_TypeTag) (\<lambda>ty_args'.
     act_bind (deserialize_vector (deserialize_vector deserialize_u8)) (\<lambda>args'.
     act_then de_decrease_container_depth (
     act_return \<lparr>ScriptFunction_module = module', ScriptFunction_function = function', ScriptFunction_ty_args = ty_args', ScriptFunction_args = args'\<rparr>))))))"

definition bcsSerialize_ScriptFunction :: "ScriptFunction \<Rightarrow> u8 list result" where
  "bcsSerialize_ScriptFunction = bcsSerialize serialize_ScriptFunction"

definition bcsDeserialize_ScriptFunction :: "u8 list \<Rightarrow> ScriptFunction result" where
  "bcsDeserialize_ScriptFunction = bcsDeserialize deserialize_ScriptFunction"

definition doc_ScriptFunction :: "ScriptFunction \<Rightarrow> bcs_doc" where
  "doc_ScriptFunction obj = Doc_Container (Doc_Tuple
     [doc_ModuleId (ScriptFunction_module obj),
      doc_Identifier (ScriptFunction_function obj),
      doc_vector doc_TypeTag (ScriptFunction_ty_args obj),
      doc_vector (doc_vector doc_u8) (ScriptFunction_args obj)])"

lemma ScriptFunction_eq_iff:
  "x = \<lparr>ScriptFunction_module = a0, ScriptFunction_function = a1, ScriptFunction_ty_args = a2, ScriptFunction_args = a3\<rparr> \<longleftrightarrow>
     ScriptFunction_module x = a0 \<and> ScriptFunction_function x = a1 \<and> ScriptFunction_ty_args x = a2 \<and> ScriptFunction_args x = a3"
  by (cases x) auto

lemmas ScriptFunction_defs = serialize_ScriptFunction_def deserialize_ScriptFunction_def doc_ScriptFunction_def ScriptFunction_eq_iff

interpretation ScriptFunction_codec: bcs_codec serialize_ScriptFunction deserialize_ScriptFunction doc_ScriptFunction
  by unfold_locales (auto simp: ScriptFunction_defs run_iff codec_iff Suc_le_unat_iff add.assoc
      intro!: throws_intros codec_exn)

end
