(* ===== verification/Diem_Transaction.thy ===== *)
theory Diem_Transaction
  imports Diem_Move
begin

text \<open>
  Transactions of \<open>src/cpp/framework/src/diem_types.hpp\<close>: events, write sets, payloads, raw and
  signed transactions and what a ledger transaction can be. The types that contain a tuple
  (\<open>WriteSetMut\<close> and what is built from it) take the evaluation order of their deserializer as an
  argument; their codec contract is the one of the order the code means, left to right.
\<close>

section \<open>EventKey\<close>

record EventKey =
  EventKey_value :: "u8 list"

definition serialize_EventKey :: "EventKey \<Rightarrow> ser_step" where
  "serialize_EventKey obj = steps
     [increase_container_depth,
      serialize_vector serialize_u8 (EventKey_value obj),
      decrease_container_depth]"

definition deserialize_EventKey :: "EventKey de_action" where
  "deserialize_EventKey =
     act_then de_increase_container_depth (
     act_bind (deserialize_vector deserialize_u8) (\<lambda>value'.
     act_then de_decrease_container_depth (
     act_return \<lparr>EventKey_value = value'\<rparr>)))"

definition bcsSerialize_EventKey :: "EventKey \<Rightarrow> u8 list result" where
  "bcsSerialize_EventKey = bcsSerialize serialize_EventKey"

definition bcsDeserialize_EventKey :: "u8 list \<Rightarrow> EventKey result" where
  "bcsDeserialize_EventKey = bcsDeserialize deserialize_EventKey"

definition doc_EventKey :: "EventKey \<Rightarrow> bcs_doc" where
  "doc_EventKey obj = Doc_Container (Doc_Tuple
     [doc_vector doc_u8 (EventKey_value obj)])"

lemma EventKey_eq_iff:
  "x = \<lparr>EventKey_value = a0\<rparr> \<longleftrightarrow>
     EventKey_value x = a0"
  by (cases x) auto

lemmas EventKey_defs = serialize_EventKey_def deserialize_EventKey_def doc_EventKey_def EventKey_eq_iff

interpretation EventKey_codec: bcs_codec serialize_EventKey deserialize_EventKey doc_EventKey
  by unfold_locales (auto simp: EventKey_defs run_iff codec_iff Suc_le_unat_iff add.assoc
      intro!: throws_intros codec_exn)

section \<open>ContractEventV0\<close>

record ContractEventV0 =
  ContractEventV0_key :: EventKey
  ContractEventV0_sequence_number :: u64
  ContractEventV0_type_tag :: TypeTag
  ContractEventV0_event_data :: "u8 list"

definition serialize_ContractEventV0 :: "ContractEventV0 \<Rightarrow> ser_step" where
  "serialize_ContractEventV0 obj = steps
     [increase_container_depth,
      serialize_EventKey (ContractEventV0_key obj),
      serialize_u64 (ContractEventV0_sequence_number obj),
      serialize_TypeTag (ContractEventV0_type_tag obj),
      serialize_vector serialize_u8 (ContractEventV0_event_data obj),
      decrease_container_depth]"

definition deserialize_ContractEventV0 :: "ContractEventV0 de_action" where
  "deserialize_ContractEventV0 =
     act_then de_increase_container_depth (
     act_bind deserialize_EventKey (\<lambda>key'.
     act_bind deserialize_u64 (\<lambda>sequence_number'.
     act_bind deserialize_TypeTag (\<lambda>type_tag'.
     act_bind (deserialize_vector deserialize_u8) (\<lambda>event_data'.
     act_then de_decrease_container_depth (
     act_return \<lparr>ContractEventV0_key = key', ContractEventV0_sequence_number = sequence_number', ContractEventV0_type_tag = type_tag', ContractEventV0_event_data = event_data'\<rparr>))))))"

definition bcsSerialize_ContractEventV0 :: "ContractEventV0 \<Rightarrow> u8 list result" where
  "bcsSerialize_ContractEventV0 = bcsSerialize serialize_ContractEventV0"

definition bcsDeserialize_ContractEventV0 :: "u8 list \<Rightarrow> ContractEventV0 result" where
  "bcsDeserialize_ContractEventV0 = bcsDeserialize deserialize_ContractEventV0"

definition doc_ContractEventV0 :: "ContractEventV0 \<Rightarrow> bcs_doc" where
  "doc_ContractEventV0 obj = Doc_Container (Doc_Tuple
     [doc_EventKey (ContractEventV0_key obj),
      doc_word 8 (ContractEventV0_sequence_number obj),
      doc_TypeTag (ContractEventV0_type_tag obj),
      doc_vector doc_u8 (ContractEventV0_event_data obj)])"

lemma ContractEventV0_eq_iff:
  "x = \<lparr>ContractEventV0_key = a0, ContractEventV0_sequence_number = a1, ContractEventV0_type_tag = a2, ContractEventV0_event_data = a3\<rparr> \<longleftrightarrow>
     ContractEventV0_key x = a0 \<and> ContractEventV0_sequence_number x = a1 \<and> ContractEventV0_type_tag x = a2 \<and> ContractEventV0_event_data x = a3"
  by (cases x) auto

lemmas ContractEventV0_defs = serialize_ContractEventV0_def deserialize_ContractEventV0_def doc_ContractEventV0_def ContractEventV0_eq_iff

interpretation ContractEventV0_codec: bcs_codec serialize_ContractEventV0 deserialize_ContractEventV0 doc_ContractEventV0
  by unfold_locales (auto simp: ContractEventV0_defs run_iff codec_iff Suc_le_unat_iff add.assoc
      intro!: throws_intros codec_exn)

section \<open>ContractEvent\<close>

datatype ContractEvent =
    ContractEvent_V0 ContractEventV0

definition serialize_ContractEvent_V0 :: "ContractEventV0 \<Rightarrow> ser_step" where
  "serialize_ContractEvent_V0 value' = steps [serialize_ContractEventV0 value']"

definition deserialize_ContractEvent_V0 :: "ContractEvent de_action" where
  "deserialize_ContractEvent_V0 = act_bind deserialize_ContractEventV0 (\<lambda>value'. act_return (ContractEvent_V0 value'))"

definition serialize_ContractEvent :: "ContractEvent \<Rightarrow> ser_step" where
  "serialize_ContractEvent obj = steps
     [increase_container_depth,
      (case obj of
         ContractEvent_V0 value' \<Rightarrow> serialize_variant 0 (serialize_ContractEvent_V0 value')),
      decrease_container_depth]"

definition deserialize_ContractEvent :: "ContractEvent de_action" where
  "deserialize_ContractEvent =
     act_then de_increase_container_depth (
     act_bind (deserialize_variant
       [deserialize_ContractEvent_V0]) (\<lambda>value.
     act_then de_decrease_container_depth (
     act_return value)))"

definition bcsSerialize_ContractEvent :: "ContractEvent \<Rightarrow> u8 list result" where
  "bcsSerialize_ContractEvent = bcsSerialize serialize_ContractEvent"

definition bcsDeserialize_ContractEvent :: "u8 list \<Rightarrow> ContractEvent result" where
  "bcsDeserialize_ContractEvent = bcsDeserialize deserialize_ContractEvent"

definition doc_ContractEvent :: "ContractEvent \<Rightarrow> bcs_doc" where
  "doc_ContractEvent obj = Doc_Container
     (case obj of
        ContractEvent_V0 value' \<Rightarrow> Doc_Variant 0 (Doc_Tuple [doc_ContractEventV0 value']))"

lemmas ContractEvent_defs = serialize_ContractEvent_def deserialize_ContractEvent_def doc_ContractEvent_def
  serialize_ContractEvent_V0_def deserialize_ContractEvent_V0_def

interpretation ContractEvent_codec: bcs_codec serialize_ContractEvent deserialize_ContractEvent doc_ContractEvent
  by unfold_locales (auto simp: ContractEvent_defs run_iff codec_iff deserialize_variant_iff variant_index_folds
      Suc_le_unat_iff add.assoc split: ContractEvent.splits intro!: throws_intros codec_exn)

section \<open>AccessPath\<close>

record AccessPath =
  AccessPath_address :: AccountAddress
  AccessPath_path :: "u8 list"

definition serialize_AccessPath :: "AccessPath \<Rightarrow> ser_step" where
  "serialize_AccessPath obj = steps
     [increase_container_depth,
      serialize_AccountAddress (AccessPath_address obj),
      serialize_vector serialize_u8 (AccessPath_path obj),
      decrease_container_depth]"

definition deserialize_AccessPath :: "AccessPath de_action" where
  "deserialize_AccessPath =
     act_then de_increase_container_depth (
     act_bind deserialize_AccountAddress (\<lambda>address'.
     act_bind (deserialize_vector deserialize_u8) (\<lambda>path'.
     act_then de_decrease_container_depth (
     act_return \<lparr>AccessPath_address = address', AccessPath_path = path'\<rparr>))))"

definition bcsSerialize_AccessPath :: "AccessPath \<Rightarrow> u8 list result" where
  "bcsSerialize_AccessPath = bcsSerialize serialize_AccessPath"

definition bcsDeserialize_AccessPath :: "u8 list \<Rightarrow> AccessPath result" where
  "bcsDeserialize_AccessPath = bcsDeserialize deserialize_AccessPath"

definition doc_AccessPath :: "AccessPath \<Rightarrow> bcs_doc" where
  "doc_AccessPath obj = Doc_Container (Doc_Tuple
     [doc_AccountAddress (AccessPath_address obj),
      doc_vector doc_u8 (AccessPath_path obj)])"

lemma AccessPath_eq_iff:
  "x = \<lparr>AccessPath_address = a0, AccessPath_path = a1\<rparr> \<longleftrightarrow>
     AccessPath_address x = a0 \<and> AccessPath_path x = a1"
  by (cases x) auto

lemmas AccessPath_defs = serialize_AccessPath_def deserialize_AccessPath_def doc_AccessPath_def AccessPath_eq_iff

interpretation AccessPath_codec: bcs_codec serialize_AccessPath deserialize_AccessPath doc_AccessPath
  by unfold_locales (auto simp: AccessPath_defs run_iff codec_iff Suc_le_unat_iff add.assoc
      intro!: throws_intros codec_exn)

section \<open>WriteOp\<close>

datatype WriteOp =
    WriteOp_Deletion
  | WriteOp_Value "u8 list"

definition serialize_WriteOp_Deletion :: "ser_step" where
  "serialize_WriteOp_Deletion = steps []"

definition deserialize_WriteOp_Deletion :: "WriteOp de_action" where
  "deserialize_WriteOp_Deletion = act_return WriteOp_Deletion"

definition serialize_WriteOp_Value :: "u8 list \<Rightarrow> ser_step" where
  "serialize_WriteOp_Value value' = steps [serialize_vector serialize_u8 value']"

definition deserialize_WriteOp_Value :: "WriteOp de_action" where
  "deserialize_WriteOp_Value = act_bind (deserialize_vector deserialize_u8) (\<lambda>value'. act_return (WriteOp_Value value'))"

definition serialize_WriteOp :: "WriteOp \<Rightarrow> ser_step" where
  "serialize_WriteOp obj = steps
     [increase_container_depth,
      (case obj of
         WriteOp_Deletion \<Rightarrow> serialize_variant 0 serialize_WriteOp_Deletion
       | WriteOp_Value value' \<Rightarrow> serialize_variant 1 (serialize_WriteOp_Value value')),
      decrease_container_depth]"

definition deserialize_WriteOp :: "WriteOp de_action" where
  "deserialize_WriteOp =
     act_then de_increase_container_depth (
     act_bind (deserialize_variant
       [deserialize_WriteOp_Deletion,
        deserialize_WriteOp_Value]) (\<lambda>value.
     act_then de_decrease_container_depth (
     act_return value)))"

definition bcsSerialize_WriteOp :: "WriteOp \<Rightarrow> u8 list result" where
  "bcsSerialize_WriteOp = bcsSerialize serialize_WriteOp"

definition bcsDeserialize_WriteOp :: "u8 list \<Rightarrow> WriteOp result" where
  "bcsDeserialize_WriteOp = bcsDeserialize deserialize_WriteOp"

definition doc_WriteOp :: "WriteOp \<Rightarrow> bcs_doc" where
  "doc_WriteOp obj = Doc_Container
     (case obj of
        WriteOp_Deletion \<Rightarrow> Doc_Variant 0 (Doc_Tuple [])
      | WriteOp_Value value' \<Rightarrow> Doc_Variant 1 (Doc_Tuple [doc_vector doc_u8 value']))"

lemmas WriteOp_defs = serialize_WriteOp_def deserialize_WriteOp_def doc_WriteOp_def
  serialize_WriteOp_Deletion_def deserialize_WriteOp_Deletion_def
  serialize_WriteOp_Value_def deserialize_WriteOp_Value_def

interpretation WriteOp_codec: bcs_codec serialize_WriteOp deserialize_WriteOp doc_WriteOp
  by unfold_locales (auto simp: WriteOp_defs run_iff codec_iff deserialize_variant_iff variant_index_folds
      Suc_le_unat_iff add.assoc split: WriteOp.splits intro!: throws_intros codec_exn)

section \<open>WriteSetMut\<close>

interpretation AccessPath_WriteOp_codec: bcs_codec
  "serialize_tuple2 serialize_AccessPath serialize_WriteOp"
  "deserialize_tuple2 Left_to_right deserialize_AccessPath deserialize_WriteOp"
  "doc_pair doc_AccessPath doc_WriteOp"
  by (intro codec_intros AccessPath_codec.bcs_codec_axioms WriteOp_codec.bcs_codec_axioms)

interpretation AccessPath_WriteOp_vector_codec: bcs_codec
  "serialize_vector (serialize_tuple2 serialize_AccessPath serialize_WriteOp)"
  "deserialize_vector (deserialize_tuple2 Left_to_right deserialize_AccessPath deserialize_WriteOp)"
  "doc_vector (doc_pair doc_AccessPath doc_WriteOp)"
  by (intro codec_intros AccessPath_codec.bcs_codec_axioms WriteOp_codec.bcs_codec_axioms)

record WriteSetMut =
  WriteSetMut_write_set :: "(AccessPath \<times> WriteOp) list"

definition serialize_WriteSetMut :: "WriteSetMut \<Rightarrow> ser_step" where
  "serialize_WriteSetMut obj = steps
     [increase_container_depth,
      serialize_vector (serialize_tuple2 serialize_AccessPath serialize_WriteOp) (WriteSetMut_write_set obj),
      decrease_container_depth]"

definition deserialize_WriteSetMut :: "eval_order \<Rightarrow> WriteSetMut de_action" where
  "deserialize_WriteSetMut order =
     act_then de_increase_container_depth (
     act_bind (deserialize_vector (deserialize_tuple2 order deserialize_AccessPath deserialize_WriteOp)) (\<lambda>write_set'.
     act_then de_decrease_container_depth (
     act_return \<lparr>WriteSetMut_write_set = write_set'\<rparr>)))"

definition bcsSerialize_WriteSetMut :: "WriteSetMut \<Rightarrow> u8 list result" where
  "bcsSerialize_WriteSetMut = bcsSerialize serialize_WriteSetMut"

definition bcsDeserialize_WriteSetMut :: "eval_order \<Rightarrow> u8 list \<Rightarrow> WriteSetMut result" where
  "bcsDeserialize_WriteSetMut order = bcsDeserialize (deserialize_WriteSetMut order)"

definition doc_WriteSetMut :: "WriteSetMut \<Rightarrow> bcs_doc" where
  "doc_WriteSetMut obj = Doc_Container (Doc_Tuple
     [doc_vector (doc_pair doc_AccessPath doc_WriteOp) (WriteSetMut_write_set obj)])"

lemma WriteSetMut_eq_iff:
  "x = \<lparr>WriteSetMut_write_set = a0\<rparr> \<longleftrightarrow>
     WriteSetMut_write_set x = a0"
  by (cases x) auto

lemmas WriteSetMut_defs = serialize_WriteSetMut_def deserialize_WriteSetMut_def doc_WriteSetMut_def WriteSetMut_eq_iff

interpretation WriteSetMut_codec: bcs_codec serialize_WriteSetMut "deserialize_WriteSetMut Left_to_right" doc_WriteSetMut
  by unfold_locales (auto simp: WriteSetMut_defs run_iff codec_iff Suc_le_unat_iff add.assoc
      intro!: throws_intros codec_exn)

section \<open>WriteSet\<close>

record WriteSet =
  WriteSet_value :: WriteSetMut

definition serialize_WriteSet :: "WriteSet \<Rightarrow> ser_step" where
  "serialize_WriteSet obj = steps
     [increase_container_depth,
      serialize_WriteSetMut (WriteSet_value obj),
      decrease_container_depth]"

definition deserialize_WriteSet :: "eval_order \<Rightarrow> WriteSet de_action" where
  "deserialize_WriteSet order =
     act_then de_increase_container_depth (
     act_bind (deserialize_WriteSetMut order) (\<lambda>value'.
     act_then de_decrease_container_depth (
     act_return \<lparr>WriteSet_value = value'\<rparr>)))"

definition bcsSerialize_WriteSet :: "WriteSet \<Rightarrow> u8 list result" where
  "bcsSerialize_WriteSet = bcsSerialize serialize_WriteSet"

definition bcsDeserialize_WriteSet :: "eval_order \<Rightarrow> u8 list \<Rightarrow> WriteSet result" where
  "bcsDeserialize_WriteSet order = bcsDeserialize (deserialize_WriteSet order)"

definition doc_WriteSet :: "WriteSet \<Rightarrow> bcs_doc" where
  "doc_WriteSet obj = Doc_Container (Doc_Tuple
     [doc_WriteSetMut (WriteSet_value obj)])"

lemma WriteSet_eq_iff:
  "x = \<lparr>WriteSet_value = a0\<rparr> \<longleftrightarrow>
     WriteSet_value x = a0"
  by (cases x) auto

lemmas WriteSet_defs = serialize_WriteSet_def deserialize_WriteSet_def doc_WriteSet_def WriteSet_eq_iff

interpretation WriteSet_codec: bcs_codec serialize_WriteSet "deserialize_WriteSet Left_to_right" doc_WriteSet
  by unfold_locales (auto simp: WriteSet_defs run_iff codec_iff Suc_le_unat_iff add.assoc
      intro!: throws_intros codec_exn)

section \<open>ChangeSet\<close>

interpretation ContractEvent_vector_codec: bcs_codec
  "serialize_vector serialize_ContractEvent"
  "deserialize_vector deserialize_ContractEvent"
  "doc_vector doc_ContractEvent"
  by (intro codec_intros ContractEvent_codec.bcs_codec_axioms)

record ChangeSet =
  ChangeSet_write_set :: WriteSet
  ChangeSet_events :: "ContractEvent list"

definition serialize_ChangeSet :: "ChangeSet \<Rightarrow> ser_step" where
  "serialize_ChangeSet obj = steps
     [increase_container_depth,
      serialize_WriteSet (ChangeSet_write_set obj),
      serialize_vector serialize_ContractEvent (ChangeSet_events obj),
      decrease_container_depth]"

definition deserialize_ChangeSet :: "eval_order \<Rightarrow> ChangeSet de_action" where
  "deserialize_ChangeSet order =
     act_then de_increase_container_depth (
     act_bind (deserialize_WriteSet order) (\<lambda>write_set'.
     act_bind (deserialize_vector deserialize_ContractEvent) (\<lambda>events'.
     act_then de_decrease_container_depth (
     act_return \<lparr>ChangeSet_write_set = write_set', ChangeSet_events = events'\<rparr>))))"

definition bcsSerialize_ChangeSet :: "ChangeSet \<Rightarrow> u8 list result" where
  "bcsSerialize_ChangeSet = bcsSerialize serialize_ChangeSet"

definition bcsDeserialize_ChangeSet :: "eval_order \<Rightarrow> u8 list \<Rightarrow> ChangeSet result" where
  "bcsDeserialize_ChangeSet order = bcsDeserialize (deserialize_ChangeSet order)"

definition doc_ChangeSet :: "ChangeSet \<Rightarrow> bcs_doc" where
  "doc_ChangeSet obj = Doc_Container (Doc_Tuple
     [doc_WriteSet (ChangeSet_write_set obj),
      doc_vector doc_ContractEvent (ChangeSet_events obj)])"

lemma ChangeSet_eq_iff:
  "x = \<lparr>ChangeSet_write_set = a0, ChangeSet_events = a1\<rparr> \<longleftrightarrow>
     ChangeSet_write_set x = a0 \<and> ChangeSet_events x = a1"
  by (cases x) auto

lemmas ChangeSet_defs = serialize_ChangeSet_def deserialize_ChangeSet_def doc_ChangeSet_def ChangeSet_eq_iff

interpretation ChangeSet_codec: bcs_codec serialize_ChangeSet "deserialize_ChangeSet Left_to_right" doc_ChangeSet
  by unfold_locales (auto simp: ChangeSet_defs run_iff codec_iff Suc_le_unat_iff add.assoc
      intro!: throws_intros codec_exn)

section \<open>WriteSetPayload\<close>

datatype WriteSetPayload =
    WriteSetPayload_Direct ChangeSet
  | WriteSetPayload_Script AccountAddress Script

definition serialize_WriteSetPayload_Direct :: "ChangeSet \<Rightarrow> ser_step" where
  "serialize_WriteSetPayload_Direct value' = steps [serialize_ChangeSet value']"

definition deserialize_WriteSetPayload_Direct :: "eval_order \<Rightarrow> WriteSetPayload de_action" where
  "deserialize_WriteSetPayload_Direct order = act_bind (deserialize_ChangeSet order) (\<lambda>value'. act_return (WriteSetPayload_Direct value'))"

definition serialize_WriteSetPayload_Script :: "AccountAddress \<Rightarrow> Script \<Rightarrow> ser_step" where
  "serialize_WriteSetPayload_Script execute_as' script' = steps [serialize_AccountAddress execute_as', serialize_Script script']"

definition deserialize_WriteSetPayload_Script :: "WriteSetPayload de_action" where
  "deserialize_WriteSetPayload_Script = act_bind deserialize_AccountAddress (\<lambda>execute_as'. act_bind deserialize_Script (\<lambda>script'. act_return (WriteSetPayload_Script execute_as' script')))"

definition serialize_WriteSetPayload :: "WriteSetPayload \<Rightarrow> ser_step" where
  "serialize_WriteSetPayload obj = steps
     [increase_container_depth,
      (case obj of
         WriteSetPayload_Direct value' \<Rightarrow> serialize_variant 0 (serialize_WriteSetPayload_Direct value')
       | WriteSetPayload_Script execute_as' script' \<Rightarrow> serialize_variant 1 (serialize_WriteSetPayload_Script execute_as' script')),
      decrease_container_depth]"

definition deserialize_WriteSetPayload :: "eval_order \<Rightarrow> WriteSetPayload de_action" where
  "deserialize_WriteSetPayload order =
     act_then de_increase_container_depth (
     act_bind (deserialize_variant
       [deserialize_WriteSetPayload_Direct order,
        deserialize_WriteSetPayload_Script]) (\<lambda>value.
     act_then de_decrease_container_depth (
     act_return value)))"

definition bcsSerialize_WriteSetPayload :: "WriteSetPayload \<Rightarrow> u8 list result" where
  "bcsSerialize_WriteSetPayload = bcsSerialize serialize_WriteSetPayload"

definition bcsDeserialize_WriteSetPayload :: "eval_order \<Rightarrow> u8 list \<Rightarrow> WriteSetPayload result" where
  "bcsDeserialize_WriteSetPayload order = bcsDeserialize (deserialize_WriteSetPayload order)"

definition doc_WriteSetPayload :: "WriteSetPayload \<Rightarrow> bcs_doc" where
  "doc_WriteSetPayload obj = Doc_Container
     (case obj of
        WriteSetPayload_Direct value' \<Rightarrow> Doc_Variant 0 (Doc_Tuple [doc_ChangeSet value'])
      | WriteSetPayload_Script execute_as' script' \<Rightarrow> Doc_Variant 1 (Doc_Tuple [doc_AccountAddress execute_as', doc_Script script']))"

lemmas WriteSetPayload_defs = serialize_WriteSetPayload_def deserialize_WriteSetPayload_def doc_WriteSetPayload_def
  serialize_WriteSetPayload_Direct_def deserialize_WriteSetPayload_Direct_def
  serialize_WriteSetPayload_Script_def deserialize_WriteSetPayload_Script_def

interpretation WriteSetPayload_codec: bcs_codec serialize_WriteSetPayload "deserialize_WriteSetPayload Left_to_right" doc_WriteSetPayload
  by unfold_locales (auto simp: WriteSetPayload_defs run_iff codec_iff deserialize_variant_iff variant_index_folds
      Suc_le_unat_iff add.assoc split: WriteSetPayload.splits intro!: throws_intros codec_exn)

section \<open>TransactionPayload\<close>

datatype TransactionPayload =
    TransactionPayload_WriteSet WriteSetPayload
  | TransactionPayload_Script Script
  | TransactionPayload_Module Module
  | TransactionPayload_ScriptFunction ScriptFunction

definition serialize_TransactionPayload_WriteSet :: "WriteSetPayload \<Rightarrow> ser_step" where
  "serialize_TransactionPayload_WriteSet value' = steps [serialize_WriteSetPayload value']"

definition deserialize_TransactionPayload_WriteSet :: "eval_order \<Rightarrow> TransactionPayload de_action" where
  "deserialize_TransactionPayload_WriteSet order = act_bind (deserialize_WriteSetPayload order) (\<lambda>value'. act_return (TransactionPayload_WriteSet value'))"

definition serialize_TransactionPayload_Script :: "Script \<Rightarrow> ser_step" where
  "serialize_TransactionPayload_Script value' = steps [serialize_Script value']"

definition deserialize_TransactionPayload_Script :: "TransactionPayload de_action" where
  "deserialize_TransactionPayload_Script = act_bind deserialize_Script (\<lambda>value'. act_return (TransactionPayload_Script value'))"

definition serialize_TransactionPayload_Module :: "Module \<Rightarrow> ser_step" where
  "serialize_TransactionPayload_Module value' = steps [serialize_Module value']"

definition deserialize_TransactionPayload_Module :: "TransactionPayload de_action" where
  "deserialize_TransactionPayload_Module = act_bind deserialize_Module (\<lambda>value'. act_return (TransactionPayload_Module value'))"

definition serialize_TransactionPayload_ScriptFunction :: "ScriptFunction \<Rightarrow> ser_step" where
  "serialize_TransactionPayload_ScriptFunction value' = steps [serialize_ScriptFunction value']"

definition deserialize_TransactionPayload_ScriptFunction :: "TransactionPayload de_action" where
  "deserialize_TransactionPayload_ScriptFunction = act_bind deserialize_ScriptFunction (\<lambda>value'. act_return (TransactionPayload_ScriptFunction value'))"

definition serialize_TransactionPayload :: "TransactionPayload \<Rightarrow> ser_step" where
  "serialize_TransactionPayload obj = steps
     [increase_container_depth,
      (case obj of
         TransactionPayload_WriteSet value' \<Rightarrow> serialize_variant 0 (serialize_TransactionPayload_WriteSet value')
       | TransactionPayload_Script value' \<Rightarrow> serialize_variant 1 (serialize_TransactionPayload_Script value')
       | TransactionPayload_Module value' \<Rightarrow> serialize_variant 2 (serialize_TransactionPayload_Module value')
       | TransactionPayload_ScriptFunction value' \<Rightarrow> serialize_variant 3 (serialize_TransactionPayload_ScriptFunction value')),
      decrease_container_depth]"

definition deserialize_TransactionPayload :: "eval_order \<Rightarrow> TransactionPayload de_action" where
  "deserialize_TransactionPayload order =
     act_then de_increase_container_depth (
     act_bind (deserialize_variant
       [deserialize_TransactionPayload_WriteSet order,
        deserialize_TransactionPayload_Script,
        deserialize_TransactionPayload_Module,
        deserialize_TransactionPayload_ScriptFunction]) (\<lambda>value.
     act_then de_decrease_container_depth (
     act_return value)))"

definition bcsSerialize_TransactionPayload :: "TransactionPayload \<Rightarrow> u8 list result" where
  "bcsSerialize_TransactionPayload = bcsSerialize serialize_TransactionPayload"

definition bcsDeserialize_TransactionPayload :: "eval_order \<Rightarrow> u8 list \<Rightarrow> TransactionPayload result" where
  "bcsDeserialize_TransactionPayload order = bcsDeserialize (deserialize_TransactionPayload order)"

definition doc_TransactionPayload :: "TransactionPayload \<Rightarrow> bcs_doc" where
  "doc_TransactionPayload obj = Doc_Container
     (case obj of
        TransactionPayload_WriteSet value' \<Rightarrow> Doc_Variant 0 (Doc_Tuple [doc_WriteSetPayload value'])
      | TransactionPayload_Script value' \<Rightarrow> Doc_Variant 1 (Doc_Tuple [doc_Script value'])
      | TransactionPayload_Module value' \<Rightarrow> Doc_Variant 2 (Doc_Tuple [doc_Module value'])
      | TransactionPayload_ScriptFunction value' \<Rightarrow> Doc_Variant 3 (Doc_Tuple [doc_ScriptFunction value']))"

lemmas TransactionPayload_defs = serialize_TransactionPayload_def deserialize_TransactionPayload_def doc_TransactionPayload_def
  serialize_TransactionPayload_WriteSet_def deserialize_TransactionPayload_WriteSet_def
  serialize_TransactionPayload_Script_def deserialize_TransactionPayload_Script_def
  serialize_TransactionPayload_Module_def deserialize_TransactionPayload_Module_def
  serialize_TransactionPayload_ScriptFunction_def deserialize_TransactionPayload_ScriptFunction_def

interpretation TransactionPayload_codec: bcs_codec serialize_TransactionPayload "deserialize_TransactionPayload Left_to_right" doc_TransactionPayload
  by unfold_locales (auto simp: TransactionPayload_defs run_iff codec_iff deserialize_variant_iff variant_index_folds
      Suc_le_unat_iff add.assoc split: TransactionPayload.splits intro!: throws_intros codec_exn)

section \<open>ChainId\<close>

record ChainId =
  ChainId_value :: u8

definition serialize_ChainId :: "ChainId \<Rightarrow> ser_step" where
  "serialize_ChainId obj = steps
     [increase_container_depth,
      serialize_u8 (ChainId_value obj),
      decrease_container_depth]"

definition deserialize_ChainId :: "ChainId de_action" where
  "deserialize_ChainId =
     act_then de_increase_container_depth (
     act_bind deserialize_u8 (\<lambda>value'.
     act_then de_decrease_container_depth (
     act_return \<lparr>ChainId_value = value'\<rparr>)))"

definition bcsSerialize_ChainId :: "ChainId \<Rightarrow> u8 list result" where
  "bcsSerialize_ChainId = bcsSerialize serialize_ChainId"

definition bcsDeserialize_ChainId :: "u8 list \<Rightarrow> ChainId result" where
  "bcsDeserialize_ChainId = bcsDeserialize deserialize_ChainId"

definition doc_ChainId :: "ChainId \<Rightarrow> bcs_doc" where
  "doc_ChainId obj = Doc_Container (Doc_Tuple
     [doc_u8 (ChainId_value obj)])"

lemma ChainId_eq_iff:
  "x = \<lparr>ChainId_value = a0\<rparr> \<longleftrightarrow>
     ChainId_value x = a0"
  by (cases x) auto

lemmas ChainId_defs = serialize_ChainId_def deserialize_ChainId_def doc_ChainId_def ChainId_eq_iff

interpretation ChainId_codec: bcs_codec serialize_ChainId deserialize_ChainId doc_ChainId
  by unfold_locales (auto simp: ChainId_defs run_iff codec_iff Suc_le_unat_iff add.assoc
      intro!: throws_intros codec_exn)

section \<open>RawTransaction\<close>

record RawTransaction =
  RawTransaction_sender :: AccountAddress
  RawTransaction_sequence_number :: u64
  RawTransaction_payload :: TransactionPayload
  RawTransaction_max_gas_amount :: u64
  RawTransaction_gas_unit_price :: u64
  RawTransaction_gas_currency_code :: cstring
  RawTransaction_expiration_timestamp_secs :: u64
  RawTransaction_chain_id :: ChainId

definition serialize_RawTransaction :: "RawTransaction \<Rightarrow> ser_step" where
  "serialize_RawTransaction obj = steps
     [increase_container_depth,
      serialize_AccountAddress (RawTransaction_sender obj),
      serialize_u64 (RawTransaction_sequence_number obj),
      serialize_TransactionPayload (RawTransaction_payload obj),
      serialize_u64 (RawTransaction_max_gas_amount obj),
      serialize_u64 (RawTransaction_gas_unit_price obj),
      serialize_str (RawTransaction_gas_currency_code obj),
      serialize_u64 (RawTransaction_expiration_timestamp_secs obj),
      serialize_ChainId (RawTransaction_chain_id obj),
      decrease_container_depth]"

definition deserialize_RawTransaction :: "eval_order \<Rightarrow> RawTransaction de_action" where
  "deserialize_RawTransaction order =
     act_then de_increase_container_depth (
     act_bind deserialize_AccountAddress (\<lambda>sender'.
     act_bind deserialize_u64 (\<lambda>sequence_number'.
     act_bind (deserialize_TransactionPayload order) (\<lambda>payload'.
     act_bind deserialize_u64 (\<lambda>max_gas_amount'.
     act_bind deserialize_u64 (\<lambda>gas_unit_price'.
     act_bind deserialize_str (\<lambda>gas_currency_code'.
     act_bind deserialize_u64 (\<lambda>expiration_timestamp_secs'.
     act_bind deserialize_ChainId (\<lambda>chain_id'.
     act_then de_decrease_container_depth (
     act_return \<lparr>RawTransaction_sender = sender', RawTransaction_sequence_number = sequence_number', RawTransaction_payload = payload', RawTransaction_max_gas_amount = max_gas_amount', RawTransaction_gas_unit_price = gas_unit_price', RawTransaction_gas_currency_code = gas_currency_code', RawTransaction_expiration_timestamp_secs = expiration_timestamp_secs', RawTransaction_chain_id = chain_id'\<rparr>))))))))))"

definition bcsSerialize_RawTransaction :: "RawTransaction \<Rightarrow> u8 list result" where
  "bcsSerialize_RawTransaction = bcsSerialize serialize_RawTransaction"

definition bcsDeserialize_RawTransaction :: "eval_order \<Rightarrow> u8 list \<Rightarrow> RawTransaction result" where
  "bcsDeserialize_RawTransaction order = bcsDeserialize (deserialize_RawTransaction order)"

definition doc_RawTransaction :: "RawTransaction \<Rightarrow> bcs_doc" where
  "doc_RawTransaction obj = Doc_Container (Doc_Tuple
     [doc_AccountAddress (RawTransaction_sender obj),
      doc_word 8 (RawTransaction_sequence_number obj),
      doc_TransactionPayload (RawTransaction_payload obj),
      doc_word 8 (RawTransaction_max_gas_amount obj),
      doc_word 8 (RawTransaction_gas_unit_price obj),
      Doc_Str (RawTransaction_gas_currency_code obj),
      doc_word 8 (RawTransaction_expiration_timestamp_secs obj),
      doc_ChainId (RawTransaction_chain_id obj)])"

lemma RawTransaction_eq_iff:
  "x = \<lparr>RawTransaction_sender = a0, RawTransaction_sequence_number = a1, RawTransaction_payload = a2, RawTransaction_max_gas_amount = a3, RawTransaction_gas_unit_price = a4, RawTransaction_gas_currency_code = a5, RawTransaction_expiration_timestamp_secs = a6, RawTransaction_chain_id = a7\<rparr> \<longleftrightarrow>
     RawTransaction_sender x = a0 \<and> RawTransaction_sequence_number x = a1 \<and> RawTransaction_payload x = a2 \<and> RawTransaction_max_gas_amount x = a3 \<and> RawTransaction_gas_unit_price x = a4 \<and> RawTransaction_gas_currency_code x = a5 \<and> RawTransaction_expiration_timestamp_secs x = a6 \<and> RawTransaction_chain_id x = a7"
  by (cases x) auto

lemmas RawTransaction_defs = serialize_RawTransaction_def deserialize_RawTransaction_def doc_RawTransaction_def RawTransaction_eq_iff

interpretation RawTransaction_codec: bcs_codec serialize_RawTransaction "deserialize_RawTransaction Left_to_right" doc_RawTransaction
  by unfold_locales (auto simp: RawTransaction_defs run_iff codec_iff Suc_le_unat_iff add.assoc
      intro!: throws_intros codec_exn)

section \<open>HashValue\<close>

record HashValue =
  HashValue_value :: "u8 list"

definition serialize_HashValue :: "HashValue \<Rightarrow> ser_step" where
  "serialize_HashValue obj = steps
     [increase_container_depth,
      serialize_vector serialize_u8 (HashValue_value obj),
      decrease_container_depth]"

definition deserialize_HashValue :: "HashValue de_action" where
  "deserialize_HashValue =
     act_then de_increase_container_depth (
     act_bind (deserialize_vector deserialize_u8) (\<lambda>value'.
     act_then de_decrease_container_depth (
     act_return \<lparr>HashValue_value = value'\<rparr>)))"

definition bcsSerialize_HashValue :: "HashValue \<Rightarrow> u8 list result" where
  "bcsSerialize_HashValue = bcsSerialize serialize_HashValue"

definition bcsDeserialize_HashValue :: "u8 list \<Rightarrow> HashValue result" where
  "bcsDeserialize_HashValue = bcsDeserialize deserialize_HashValue"

definition doc_HashValue :: "HashValue \<Rightarrow> bcs_doc" where
  "doc_HashValue obj = Doc_Container (Doc_Tuple
     [doc_vector doc_u8 (HashValue_value obj)])"

lemma HashValue_eq_iff:
  "x = \<lparr>HashValue_value = a0\<rparr> \<longleftrightarrow>
     HashValue_value x = a0"
  by (cases x) auto

lemmas HashValue_defs = serialize_HashValue_def deserialize_HashValue_def doc_HashValue_def HashValue_eq_iff

interpretation HashValue_codec: bcs_codec serialize_HashValue deserialize_HashValue doc_HashValue
  by unfold_locales (auto simp: HashValue_defs run_iff codec_iff Suc_le_unat_iff add.assoc
      intro!: throws_intros codec_exn)

section \<open>BlockMetadata\<close>

record BlockMetadata =
  BlockMetadata_id :: HashValue
  BlockMetadata_round :: u64
  BlockMetadata_timestamp_usecs :: u64
  BlockMetadata_previous_block_votes :: "AccountAddress list"
  BlockMetadata_proposer :: AccountAddress

definition serialize_BlockMetadata :: "BlockMetadata \<Rightarrow> ser_step" where
  "serialize_BlockMetadata obj = steps
     [increase_container_depth,
      serialize_HashValue (BlockMetadata_id obj),
      serialize_u64 (BlockMetadata_round obj),
      serialize_u64 (BlockMetadata_timestamp_usecs obj),
      serialize_vector serialize_AccountAddress (BlockMetadata_previous_block_votes obj),
      serialize_AccountAddress (BlockMetadata_proposer obj),
      decrease_container_depth]"

definition deserialize_BlockMetadata :: "BlockMetadata de_action" where
  "deserialize_BlockMetadata =
     act_then de_increase_container_depth (
     act_bind deserialize_HashValue (\<lambda>id'.
     act_bind deserialize_u64 (\<lambda>round'.
     act_bind deserialize_u64 (\<lambda>timestamp_usecs'.
     act_bind (deserialize_vector deserialize_AccountAddress) (\<lambda>previous_block_votes'.
     act_bind deserialize_AccountAddress (\<lambda>proposer'.
     act_then de_decrease_container_depth (
     act_return \<lparr>BlockMetadata_id = id', BlockMetadata_round = round', BlockMetadata_timestamp_usecs = timestamp_usecs', BlockMetadata_previous_block_votes = previous_block_votes', BlockMetadata_proposer = proposer'\<rparr>)))))))"

definition bcsSerialize_BlockMetadata :: "BlockMetadata \<Rightarrow> u8 list result" where
  "bcsSerialize_BlockMetadata = bcsSerialize serialize_BlockMetadata"

definition bcsDeserialize_BlockMetadata :: "u8 list \<Rightarrow> BlockMetadata result" where
  "bcsDeserialize_BlockMetadata = bcsDeserialize deserialize_BlockMetadata"

definition doc_BlockMetadata :: "BlockMetadata \<Rightarrow> bcs_doc" where
  "doc_BlockMetadata obj = Doc_Container (Doc_Tuple
     [doc_HashValue (BlockMetadata_id obj),
      doc_word 8 (BlockMetadata_round obj),
      doc_word 8 (BlockMetadata_timestamp_usecs obj),
      doc_vector doc_AccountAddress (BlockMetadata_previous_block_votes obj),
      doc_AccountAddress (BlockMetadata_proposer obj)])"

lemma BlockMetadata_eq_iff:
  "x = \<lparr>BlockMetadata_id = a0, BlockMetadata_round = a1, BlockMetadata_timestamp_usecs = a2, BlockMetadata_previous_block_votes = a3, BlockMetadata_proposer = a4\<rparr> \<longleftrightarrow>
     BlockMetadata_id x = a0 \<and> BlockMetadata_round x = a1 \<and> BlockMetadata_timestamp_usecs x = a2 \<and> BlockMetadata_previous_block_votes x = a3 \<and> BlockMetadata_proposer x = a4"
  by (cases x) auto

lemmas BlockMetadata_defs = serialize_BlockMetadata_def deserialize_BlockMetadata_def doc_BlockMetadata_def BlockMetadata_eq_iff

interpretation BlockMetadata_codec: bcs_codec serialize_BlockMetadata deserialize_BlockMetadata doc_BlockMetadata
  by unfold_locales (auto simp: BlockMetadata_defs run_iff codec_iff Suc_le_unat_iff add.assoc
      intro!: throws_intros codec_exn)

section \<open>SignedTransaction\<close>

record SignedTransaction =
  SignedTransaction_raw_txn :: RawTransaction
  SignedTransaction_authenticator :: TransactionAuthenticator

definition serialize_SignedTransaction :: "SignedTransaction \<Rightarrow> ser_step" where
  "serialize_SignedTransaction obj = steps
     [increase_container_depth,
      serialize_RawTransaction (SignedTransaction_raw_txn obj),
      serialize_TransactionAuthenticator (SignedTransaction_authenticator obj),
      decrease_container_depth]"

definition deserialize_SignedTransaction :: "eval_order \<Rightarrow> SignedTransaction de_action" where
  "deserialize_SignedTransaction order =
     act_then de_increase_container_depth (
     act_bind (deserialize_RawTransaction order) (\<lambda>raw_txn'.
     act_bind deserialize_TransactionAuthenticator (\<lambda>authenticator'.
     act_then de_decrease_container_depth (
     act_return \<lparr>SignedTransaction_raw_txn = raw_txn', SignedTransaction_authenticator = authenticator'\<rparr>))))"

definition bcsSerialize_SignedTransaction :: "SignedTransaction \<Rightarrow> u8 list result" where
  "bcsSerialize_SignedTransaction = bcsSerialize serialize_SignedTransaction"

definition bcsDeserialize_SignedTransaction :: "eval_order \<Rightarrow> u8 list \<Rightarrow> SignedTransaction result" where
  "bcsDeserialize_SignedTransaction order = bcsDeserialize (deserialize_SignedTransaction order)"

definition doc_SignedTransaction :: "SignedTransaction \<Rightarrow> bcs_doc" where
  "doc_SignedTransaction obj = Doc_Container (Doc_Tuple
     [doc_RawTransaction (SignedTransaction_raw_txn obj),
      doc_TransactionAuthenticator (SignedTransaction_authenticator obj)])"

lemma SignedTransaction_eq_iff:
  "x = \<lparr>SignedTransaction_raw_txn = a0, SignedTransaction_authenticator = a1\<rparr> \<longleftrightarrow>
     SignedTransaction_raw_txn x = a0 \<and> SignedTransaction_authenticator x = a1"
  by (cases x) auto

lemmas SignedTransaction_defs = serialize_SignedTransaction_def deserialize_SignedTransaction_def doc_SignedTransaction_def SignedTransaction_eq_iff

interpretation SignedTransaction_codec: bcs_codec serialize_SignedTransaction "deserialize_SignedTransaction Left_to_right" doc_SignedTransaction
  by unfold_locales (auto simp: SignedTransaction_defs run_iff codec_iff Suc_le_unat_iff add.assoc
      intro!: throws_intros codec_exn)

section \<open>Transaction\<close>

datatype Transaction =
    Transaction_UserTransaction SignedTransaction
  | Transaction_GenesisTransaction WriteSetPayload
  | Transaction_BlockMetadata BlockMetadata

definition serialize_Transaction_UserTransaction :: "SignedTransaction \<Rightarrow> ser_step" where
  "serialize_Transaction_UserTransaction value' = steps [serialize_SignedTransaction value']"

definition deserialize_Transaction_UserTransaction :: "eval_order \<Rightarrow> Transaction de_action" where
  "deserialize_Transaction_UserTransaction order = act_bind (deserialize_SignedTransaction order) (\<lambda>value'. act_return (Transaction_UserTransaction value'))"

definition serialize_Transaction_GenesisTransaction :: "WriteSetPayload \<Rightarrow> ser_step" where
  "serialize_Transaction_GenesisTransaction value' = steps [serialize_WriteSetPayload value']"

definition deserialize_Transaction_GenesisTransaction :: "eval_order \<Rightarrow> Transaction de_action" where
  "deserialize_Transaction_GenesisTransaction order = act_bind (deserialize_WriteSetPayload order) (\<lambda>value'. act_return (Transaction_GenesisTransaction value'))"

definition serialize_Transaction_BlockMetadata :: "BlockMetadata \<Rightarrow> ser_step" where
  "serialize_Transaction_BlockMetadata value' = steps [serialize_BlockMetadata value']"

definition deserialize_Transaction_BlockMetadata :: "Transaction de_action" where
  "deserialize_Transaction_BlockMetadata = act_bind deserialize_BlockMetadata (\<lambda>value'. act_return (Transaction_BlockMetadata value'))"

definition serialize_Transaction :: "Transaction \<Rightarrow> ser_step" where
  "serialize_Transaction obj = steps
     [increase_container_depth,
      (case obj of
         Transaction_UserTransaction value' \<Rightarrow> serialize_variant 0 (serialize_Transaction_UserTransaction value')
       | Transaction_GenesisTransaction value' \<Rightarrow> serialize_variant 1 (serialize_Transaction_GenesisTransaction value')
       | Transaction_BlockMetadata value' \<Rightarrow> serialize_variant 2 (serialize_Transaction_BlockMetadata value')),
      decrease_container_depth]"

definition deserialize_Transaction :: "eval_order \<Rightarrow> Transaction de_action" where
  "deserialize_Transaction order =
     act_then de_increase_container_depth (
     act_bind (deserialize_variant
       [deserialize_Transaction_UserTransaction order,
        deserialize_Transaction_GenesisTransaction order,
        deserialize_Transaction_BlockMetadata]) (\<lambda>value.
     act_then de_decrease_container_depth (
     act_return value)))"

definition bcsSerialize_Transaction :: "Transaction \<Rightarrow> u8 list result" where
  "bcsSerialize_Transaction = bcsSerialize serialize_Transaction"

definition bcsDeserialize_Transaction :: "eval_order \<Rightarrow> u8 list \<Rightarrow> Transaction result" where
  "bcsDeserialize_Transaction order = bcsDeserialize (deserialize_Transaction order)"

definition doc_Transaction :: "Transaction \<Rightarrow> bcs_doc" where
  "doc_Transaction obj = Doc_Container
     (case obj of
        Transaction_UserTransaction value' \<Rightarrow> Doc_Variant 0 (Doc_Tuple [doc_SignedTransaction value'])
      | Transaction_GenesisTransaction value' \<Rightarrow> Doc_Variant 1 (Doc_Tuple [doc_WriteSetPayload value'])
      | Transaction_BlockMetadata value' \<Rightarrow> Doc_Variant 2 (Doc_Tuple [doc_BlockMetadata value']))"

lemmas Transaction_defs = serialize_Transaction_def deserialize_Transaction_def doc_Transaction_def
  serialize_Transaction_UserTransaction_def deserialize_Transaction_UserTransaction_def
  serialize_Transaction_GenesisTransaction_def deserialize_Transaction_GenesisTransaction_def
  serialize_Transaction_BlockMetadata_def deserialize_Transaction_BlockMetadata_def

interpretation Transaction_codec: bcs_codec serialize_Transaction "deserialize_Transaction Left_to_right" doc_Transaction
  by unfold_locales (auto simp: Transaction_defs run_iff codec_iff deserialize_variant_iff variant_index_folds
      Suc_le_unat_iff add.assoc split: Transaction.splits intro!: throws_intros codec_exn)

end
