(* ===== verification/Diem_Framework.thy ===== *)
theory Diem_Framework
  imports Diem_Transaction
begin

text \<open>
  \<open>src/cpp/framework/src/diem_framework.cpp\<close>: the builders of the framework's transaction scripts.

  \<open>encode_*_script\<close> returns a \<open>Script\<close>: compiled Move bytecode with type and transaction
  arguments. \<open>encode_*_script_function\<close> returns the payload of a call of a script function of the
  account \<open>0x1\<close>; its arguments are BCS messages of their own, and serializing one of them can
  throw, so these builders return a result. A braced list is evaluated from left to right, so the
  first argument that cannot be serialized decides the exception.
\<close>

section \<open>Building blocks\<close>

text \<open>\<open>std::array<uint8_t, 16>{0, ..., 0, 1}\<close>, the account of the framework's modules.\<close>

definition core_code_address :: AccountAddress where
  "core_code_address = \<lparr>AccountAddress_value = replicate 15 0 @ [1]\<rparr>"

fun eval_args :: "u8 list result list \<Rightarrow> u8 list list result" where
  "eval_args [] = Inr []"
| "eval_args (r # rs) =
     (case r of
        Inl e \<Rightarrow> Inl e
      | Inr bs \<Rightarrow> (case eval_args rs of Inl e \<Rightarrow> Inl e | Inr bss \<Rightarrow> Inr (bs # bss)))"

definition script_function_payload ::
    "string \<Rightarrow> string \<Rightarrow> TypeTag list \<Rightarrow> u8 list result list \<Rightarrow> TransactionPayload result" where
  "script_function_payload module' function' ty_args args =
     (case eval_args args of
        Inl e \<Rightarrow> Inl e
      | Inr bss \<Rightarrow> Inr (TransactionPayload_ScriptFunction \<lparr>
          ScriptFunction_module =
            \<lparr>ModuleId_address = core_code_address, ModuleId_name = \<lparr>Identifier_value = str module'\<rparr>\<rparr>,
          ScriptFunction_function = \<lparr>Identifier_value = str function'\<rparr>,
          ScriptFunction_ty_args = ty_args,
          ScriptFunction_args = bss\<rparr>))"

section \<open>The builders\<close>

definition encode_add_currency_to_account_script :: "TypeTag \<Rightarrow> Script" where
  "encode_add_currency_to_account_script currency' = \<lparr>
     Script_code =
       [161, 28, 235, 11, 1, 0, 0, 0, 6, 1, 0, 2, 3, 2, 6, 4, 8, 2, 5, 10, 7, 7, 17, 25, 8, 42, 16,
        0, 0, 0, 1, 0, 1, 1, 1, 0, 2, 1, 6, 12, 0, 1, 9, 0, 11, 68, 105, 101, 109, 65, 99, 99, 111,
        117, 110, 116, 12, 97, 100, 100, 95, 99, 117, 114, 114, 101, 110, 99, 121, 0, 0, 0, 0, 0, 0,
        0, 0, 0, 0, 0, 0, 0, 0, 0, 1, 1, 1, 0, 1, 3, 11, 0, 56, 0, 2],
     Script_ty_args = [currency'],
     Script_args = []\<rparr>"

definition encode_add_currency_to_account_script_function :: "TypeTag \<Rightarrow> TransactionPayload result" where
  "encode_add_currency_to_account_script_function currency' = script_function_payload
     ''AccountAdministrationScripts'' ''add_currency_to_account''
     [currency']
     []"

definition encode_add_recovery_rotation_capability_script :: "AccountAddress \<Rightarrow> Script" where
  "encode_add_recovery_rotation_capability_script recovery_address' = \<lparr>
     Script_code =
       [161, 28, 235, 11, 1, 0, 0, 0, 6, 1, 0, 4, 2, 4, 4, 3, 8, 10, 5, 18, 15, 7, 33, 106, 8, 139,
        1, 16, 0, 0, 0, 1, 0, 2, 1, 0, 0, 3, 0, 1, 0, 1, 4, 2, 3, 0, 1, 6, 12, 1, 8, 0, 2, 8, 0, 5,
        0, 2, 6, 12, 5, 11, 68, 105, 101, 109, 65, 99, 99, 111, 117, 110, 116, 15, 82, 101, 99, 111,
        118, 101, 114, 121, 65, 100, 100, 114, 101, 115, 115, 21, 75, 101, 121, 82, 111, 116, 97, 116,
        105, 111, 110, 67, 97, 112, 97, 98, 105, 108, 105, 116, 121, 31, 101, 120, 116, 114, 97, 99,
        116, 95, 107, 101, 121, 95, 114, 111, 116, 97, 116, 105, 111, 110, 95, 99, 97, 112, 97, 98,
        105, 108, 105, 116, 121, 23, 97, 100, 100, 95, 114, 111, 116, 97, 116, 105, 111, 110, 95, 99,
        97, 112, 97, 98, 105, 108, 105, 116, 121, 0, 0, 0, 0, 0, 0, 0, 0, 0, 0, 0, 0, 0, 0, 0, 1, 0,
        4, 3, 5, 11, 0, 17, 0, 10, 1, 17, 1, 2],
     Script_ty_args = [],
     Script_args = [TransactionArgument_Address recovery_address']\<rparr>"

definition encode_add_recovery_rotation_capability_script_function :: "AccountAddress \<Rightarrow> TransactionPayload result" where
  "encode_add_recovery_rotation_capability_script_function recovery_address' = script_function_payload
     ''AccountAdministrationScripts'' ''add_recovery_rotation_capability''
     []
     [bcsSerialize_AccountAddress recovery_address']"

definition encode_add_validator_and_reconfigure_script :: "u64 \<Rightarrow> u8 list \<Rightarrow> AccountAddress \<Rightarrow> Script" where
  "encode_add_validator_and_reconfigure_script sliding_nonce' validator_name' validator_address' = \<lparr>
     Script_code =
       [161, 28, 235, 11, 1, 0, 0, 0, 5, 1, 0, 6, 3, 6, 15, 5, 21, 24, 7, 45, 91, 8, 136, 1, 16, 0,
        0, 0, 1, 0, 2, 1, 3, 0, 1, 0, 2, 4, 2, 3, 0, 0, 5, 4, 1, 0, 2, 6, 12, 3, 0, 1, 5, 1, 10, 2,
        2, 6, 12, 5, 4, 6, 12, 3, 10, 2, 5, 2, 1, 3, 10, 68, 105, 101, 109, 83, 121, 115, 116, 101,
        109, 12, 83, 108, 105, 100, 105, 110, 103, 78, 111, 110, 99, 101, 15, 86, 97, 108, 105, 100,
        97, 116, 111, 114, 67, 111, 110, 102, 105, 103, 21, 114, 101, 99, 111, 114, 100, 95, 110, 111,
        110, 99, 101, 95, 111, 114, 95, 97, 98, 111, 114, 116, 14, 103, 101, 116, 95, 104, 117, 109,
        97, 110, 95, 110, 97, 109, 101, 13, 97, 100, 100, 95, 118, 97, 108, 105, 100, 97, 116, 111,
        114, 0, 0, 0, 0, 0, 0, 0, 0, 0, 0, 0, 0, 0, 0, 0, 1, 0, 5, 6, 18, 10, 0, 10, 1, 17, 0, 10,
        3, 17, 1, 11, 2, 33, 12, 4, 11, 4, 3, 14, 11, 0, 1, 6, 0, 0, 0, 0, 0, 0, 0, 0, 39, 11, 0, 10,
        3, 17, 2, 2],
     Script_ty_args = [],
     Script_args = [TransactionArgument_U64 sliding_nonce', TransactionArgument_U8Vector validator_name', TransactionArgument_Address validator_address']\<rparr>"

definition encode_add_validator_and_reconfigure_script_function :: "u64 \<Rightarrow> u8 list \<Rightarrow> AccountAddress \<Rightarrow> TransactionPayload result" where
  "encode_add_validator_and_reconfigure_script_function sliding_nonce' validator_name' validator_address' = script_function_payload
     ''ValidatorAdministrationScripts'' ''add_validator_and_reconfigure''
     []
     [bcsSerialize serialize_u64 sliding_nonce',
      bcsSerialize (serialize_vector serialize_u8) validator_name',
      bcsSerialize_AccountAddress validator_address']"

definition encode_add_vasp_domain_script_function :: "AccountAddress \<Rightarrow> u8 list \<Rightarrow> TransactionPayload result" where
  "encode_add_vasp_domain_script_function address' domain' = script_function_payload
     ''TreasuryComplianceScripts'' ''add_vasp_domain''
     []
     [bcsSerialize_AccountAddress address',
      bcsSerialize (serialize_vector serialize_u8) domain']"

definition encode_burn_script :: "TypeTag \<Rightarrow> u64 \<Rightarrow> AccountAddress \<Rightarrow> Script" where
  "encode_burn_script token' sliding_nonce' preburn_address' = \<lparr>
     Script_code =
       [161, 28, 235, 11, 1, 0, 0, 0, 6, 1, 0, 4, 3, 4, 11, 4, 15, 2, 5, 17, 17, 7, 34, 45, 8, 79,
        16, 0, 0, 0, 1, 1, 2, 0, 1, 0, 0, 3, 2, 1, 1, 1, 1, 4, 2, 6, 12, 3, 0, 2, 6, 12, 5, 3, 6, 12,
        3, 5, 1, 9, 0, 4, 68, 105, 101, 109, 12, 83, 108, 105, 100, 105, 110, 103, 78, 111, 110, 99,
        101, 21, 114, 101, 99, 111, 114, 100, 95, 110, 111, 110, 99, 101, 95, 111, 114, 95, 97, 98,
        111, 114, 116, 4, 98, 117, 114, 110, 0, 0, 0, 0, 0, 0, 0, 0, 0, 0, 0, 0, 0, 0, 0, 1, 1, 1,
        3, 1, 7, 10, 0, 10, 1, 17, 0, 11, 0, 10, 2, 56, 0, 2],
     Script_ty_args = [token'],
     Script_args = [TransactionArgument_U64 sliding_nonce', TransactionArgument_Address preburn_address']\<rparr>"

definition encode_burn_txn_fees_script :: "TypeTag \<Rightarrow> Script" where
  "encode_burn_txn_fees_script coin_type' = \<lparr>
     Script_code =
       [161, 28, 235, 11, 1, 0, 0, 0, 6, 1, 0, 2, 3, 2, 6, 4, 8, 2, 5, 10, 7, 7, 17, 25, 8, 42, 16,
        0, 0, 0, 1, 0, 1, 1, 1, 0, 2, 1, 6, 12, 0, 1, 9, 0, 14, 84, 114, 97, 110, 115, 97, 99, 116,
        105, 111, 110, 70, 101, 101, 9, 98, 117, 114, 110, 95, 102, 101, 101, 115, 0, 0, 0, 0, 0, 0,
        0, 0, 0, 0, 0, 0, 0, 0, 0, 1, 1, 1, 0, 1, 3, 11, 0, 56, 0, 2],
     Script_ty_args = [coin_type'],
     Script_args = []\<rparr>"

definition encode_burn_txn_fees_script_function :: "TypeTag \<Rightarrow> TransactionPayload result" where
  "encode_burn_txn_fees_script_function coin_type' = script_function_payload
     ''TreasuryComplianceScripts'' ''burn_txn_fees''
     [coin_type']
     []"

definition encode_burn_with_amount_script_function :: "TypeTag \<Rightarrow> u64 \<Rightarrow> AccountAddress \<Rightarrow> u64 \<Rightarrow> TransactionPayload result" where
  "encode_burn_with_amount_script_function token' sliding_nonce' preburn_address' amount' = script_function_payload
     ''TreasuryComplianceScripts'' ''burn_with_amount''
     [token']
     [bcsSerialize serialize_u64 sliding_nonce',
      bcsSerialize_AccountAddress preburn_address',
      bcsSerialize serialize_u64 amount']"

definition encode_cancel_burn_script :: "TypeTag \<Rightarrow> AccountAddress \<Rightarrow> Script" where
  "encode_cancel_burn_script token' preburn_address' = \<lparr>
     Script_code =
       [161, 28, 235, 11, 1, 0, 0, 0, 6, 1, 0, 2, 3, 2, 6, 4, 8, 2, 5, 10, 8, 7, 18, 24, 8, 42, 16,
        0, 0, 0, 1, 0, 1, 1, 1, 0, 2, 2, 6, 12, 5, 0, 1, 9, 0, 11, 68, 105, 101, 109, 65, 99, 99, 111,
        117, 110, 116, 11, 99, 97, 110, 99, 101, 108, 95, 98, 117, 114, 110, 0, 0, 0, 0, 0, 0, 0, 0,
        0, 0, 0, 0, 0, 0, 0, 1, 1, 1, 0, 1, 4, 11, 0, 10, 1, 56, 0, 2],
     Script_ty_args = [token'],
     Script_args = [TransactionArgument_Address preburn_address']\<rparr>"

definition encode_cancel_burn_with_amount_script_function :: "TypeTag \<Rightarrow> AccountAddress \<Rightarrow> u64 \<Rightarrow> TransactionPayload result" where
  "encode_cancel_burn_with_amount_script_function token' preburn_address' amount' = script_function_payload
     ''TreasuryComplianceScripts'' ''cancel_burn_with_amount''
     [token']
     [bcsSerialize_AccountAddress preburn_address',
      bcsSerialize serialize_u64 amount']"

definition encode_create_child_vasp_account_script :: "TypeTag \<Rightarrow> AccountAddress \<Rightarrow> u8 list \<Rightarrow> bool \<Rightarrow> u64 \<Rightarrow> Script" where
  "encode_create_child_vasp_account_script coin_type' child_address' auth_key_prefix' add_all_currencies' child_initial_balance' = \<lparr>
     Script_code =
       [161, 28, 235, 11, 1, 0, 0, 0, 8, 1, 0, 2, 2, 2, 4, 3, 6, 22, 4, 28, 4, 5, 32, 35, 7, 67, 122,
        8, 189, 1, 16, 6, 205, 1, 4, 0, 0, 0, 1, 1, 0, 0, 2, 0, 1, 1, 1, 0, 3, 2, 3, 0, 0, 4, 4, 1,
        1, 1, 0, 5, 3, 1, 0, 0, 6, 2, 6, 4, 6, 12, 5, 10, 2, 1, 0, 1, 6, 12, 1, 8, 0, 5, 6, 8, 0, 5,
        3, 10, 2, 10, 2, 5, 6, 12, 5, 10, 2, 1, 3, 1, 9, 0, 11, 68, 105, 101, 109, 65, 99, 99, 111,
        117, 110, 116, 18, 87, 105, 116, 104, 100, 114, 97, 119, 67, 97, 112, 97, 98, 105, 108, 105,
        116, 121, 25, 99, 114, 101, 97, 116, 101, 95, 99, 104, 105, 108, 100, 95, 118, 97, 115, 112,
        95, 97, 99, 99, 111, 117, 110, 116, 27, 101, 120, 116, 114, 97, 99, 116, 95, 119, 105, 116,
        104, 100, 114, 97, 119, 95, 99, 97, 112, 97, 98, 105, 108, 105, 116, 121, 8, 112, 97, 121,
        95, 102, 114, 111, 109, 27, 114, 101, 115, 116, 111, 114, 101, 95, 119, 105, 116, 104, 100,
        114, 97, 119, 95, 99, 97, 112, 97, 98, 105, 108, 105, 116, 121, 0, 0, 0, 0, 0, 0, 0, 0, 0,
        0, 0, 0, 0, 0, 0, 1, 10, 2, 1, 0, 1, 1, 5, 3, 25, 10, 0, 10, 1, 11, 2, 10, 3, 56, 0, 10, 4,
        6, 0, 0, 0, 0, 0, 0, 0, 0, 36, 3, 10, 5, 22, 11, 0, 17, 1, 12, 5, 14, 5, 10, 1, 10, 4, 7, 0,
        7, 0, 56, 1, 11, 5, 17, 3, 5, 24, 11, 0, 1, 2],
     Script_ty_args = [coin_type'],
     Script_args = [TransactionArgument_Address child_address', TransactionArgument_U8Vector auth_key_prefix', TransactionArgument_Bool add_all_currencies', TransactionArgument_U64 child_initial_balance']\<rparr>"

definition encode_create_child_vasp_account_script_function :: "TypeTag \<Rightarrow> AccountAddress \<Rightarrow> u8 list \<Rightarrow> bool \<Rightarrow> u64 \<Rightarrow> TransactionPayload result" where
  "encode_create_child_vasp_account_script_function coin_type' child_address' auth_key_prefix' add_all_currencies' child_initial_balance' = script_function_payload
     ''AccountCreationScripts'' ''create_child_vasp_account''
     [coin_type']
     [bcsSerialize_AccountAddress child_address',
      bcsSerialize (serialize_vector serialize_u8) auth_key_prefix',
      bcsSerialize serialize_bool add_all_currencies',
      bcsSerialize serialize_u64 child_initial_balance']"

definition encode_create_designated_dealer_script :: "TypeTag \<Rightarrow> u64 \<Rightarrow> AccountAddress \<Rightarrow> u8 list \<Rightarrow> u8 list \<Rightarrow> bool \<Rightarrow> Script" where
  "encode_create_designated_dealer_script currency' sliding_nonce' addr' auth_key_prefix' human_name' add_all_currencies' = \<lparr>
     Script_code =
       [161, 28, 235, 11, 1, 0, 0, 0, 6, 1, 0, 4, 3, 4, 11, 4, 15, 2, 5, 17, 27, 7, 44, 72, 8, 116,
        16, 0, 0, 0, 1, 1, 2, 0, 1, 0, 0, 3, 2, 1, 1, 1, 1, 4, 2, 6, 12, 3, 0, 5, 6, 12, 5, 10, 2,
        10, 2, 1, 6, 6, 12, 3, 5, 10, 2, 10, 2, 1, 1, 9, 0, 11, 68, 105, 101, 109, 65, 99, 99, 111,
        117, 110, 116, 12, 83, 108, 105, 100, 105, 110, 103, 78, 111, 110, 99, 101, 21, 114, 101, 99,
        111, 114, 100, 95, 110, 111, 110, 99, 101, 95, 111, 114, 95, 97, 98, 111, 114, 116, 24, 99,
        114, 101, 97, 116, 101, 95, 100, 101, 115, 105, 103, 110, 97, 116, 101, 100, 95, 100, 101,
        97, 108, 101, 114, 0, 0, 0, 0, 0, 0, 0, 0, 0, 0, 0, 0, 0, 0, 0, 1, 1, 1, 3, 1, 10, 10, 0, 10,
        1, 17, 0, 11, 0, 10, 2, 11, 3, 11, 4, 10, 5, 56, 0, 2],
     Script_ty_args = [currency'],
     Script_args = [TransactionArgument_U64 sliding_nonce', TransactionArgument_Address addr', TransactionArgument_U8Vector auth_key_prefix', TransactionArgument_U8Vector human_name', TransactionArgument_Bool add_all_currencies']\<rparr>"

definition encode_create_designated_dealer_script_function :: "TypeTag \<Rightarrow> u64 \<Rightarrow> AccountAddress \<Rightarrow> u8 list \<Rightarrow> u8 list \<Rightarrow> bool \<Rightarrow> TransactionPayload result" where
  "encode_create_designated_dealer_script_function currency' sliding_nonce' addr' auth_key_prefix' human_name' add_all_currencies' = script_function_payload
     ''AccountCreationScripts'' ''create_designated_dealer''
     [currency']
     [bcsSerialize serialize_u64 sliding_nonce',
      bcsSerialize_AccountAddress addr',
      bcsSerialize (serialize_vector serialize_u8) auth_key_prefix',
      bcsSerialize (serialize_vector serialize_u8) human_name',
      bcsSerialize serialize_bool add_all_currencies']"

definition encode_create_parent_vasp_account_script :: "TypeTag \<Rightarrow> u64 \<Rightarrow> AccountAddress \<Rightarrow> u8 list \<Rightarrow> u8 list \<Rightarrow> bool \<Rightarrow> Script" where
  "encode_create_parent_vasp_account_script coin_type' sliding_nonce' new_account_address' auth_key_prefix' human_name' add_all_currencies' = \<lparr>
     Script_code =
       [161, 28, 235, 11, 1, 0, 0, 0, 6, 1, 0, 4, 3, 4, 11, 4, 15, 2, 5, 17, 27, 7, 44, 74, 8, 118,
        16, 0, 0, 0, 1, 1, 2, 0, 1, 0, 0, 3, 2, 1, 1, 1, 1, 4, 2, 6, 12, 3, 0, 5, 6, 12, 5, 10, 2,
        10, 2, 1, 6, 6, 12, 3, 5, 10, 2, 10, 2, 1, 1, 9, 0, 11, 68, 105, 101, 109, 65, 99, 99, 111,
        117, 110, 116, 12, 83, 108, 105, 100, 105, 110, 103, 78, 111, 110, 99, 101, 21, 114, 101, 99,
        111, 114, 100, 95, 110, 111, 110, 99, 101, 95, 111, 114, 95, 97, 98, 111, 114, 116, 26, 99,
        114, 101, 97, 116, 101, 95, 112, 97, 114, 101, 110, 116, 95, 118, 97, 115, 112, 95, 97, 99,
        99, 111, 117, 110, 116, 0, 0, 0, 0, 0, 0, 0, 0, 0, 0, 0, 0, 0, 0, 0, 1, 1, 1, 3, 1, 10, 10,
        0, 10, 1, 17, 0, 11, 0, 10, 2, 11, 3, 11, 4, 10, 5, 56, 0, 2],
     Script_ty_args = [coin_type'],
     Script_args = [TransactionArgument_U64 sliding_nonce', TransactionArgument_Address new_account_address', TransactionArgument_U8Vector auth_key_prefix', TransactionArgument_U8Vector human_name', TransactionArgument_Bool add_all_currencies']\<rparr>"

definition encode_create_parent_vasp_account_script_function :: "TypeTag \<Rightarrow> u64 \<Rightarrow> AccountAddress \<Rightarrow> u8 list \<Rightarrow> u8 list \<Rightarrow> bool \<Rightarrow> TransactionPayload result" where
  "encode_create_parent_vasp_account_script_function coin_type' sliding_nonce' new_account_address' auth_key_prefix' human_name' add_all_currencies' = script_function_payload
     ''AccountCreationScripts'' ''create_parent_vasp_account''
     [coin_type']
     [bcsSerialize serialize_u64 sliding_nonce',
      bcsSerialize_AccountAddress new_account_address',
      bcsSerialize (serialize_vector serialize_u8) auth_key_prefix',
      bcsSerialize (serialize_vector serialize_u8) human_name',
      bcsSerialize serialize_bool add_all_currencies']"

definition encode_create_recovery_address_script :: "Script" where
  "encode_create_recovery_address_script = \<lparr>
     Script_code =
       [161, 28, 235, 11, 1, 0, 0, 0, 6, 1, 0, 4, 2, 4, 4, 3, 8, 10, 5, 18, 12, 7, 30, 90, 8, 120,
        16, 0, 0, 0, 1, 0, 2, 1, 0, 0, 3, 0, 1, 0, 1, 4, 2, 3, 0, 1, 6, 12, 1, 8, 0, 2, 6, 12, 8, 0,
        0, 11, 68, 105, 101, 109, 65, 99, 99, 111, 117, 110, 116, 15, 82, 101, 99, 111, 118, 101, 114,
        121, 65, 100, 100, 114, 101, 115, 115, 21, 75, 101, 121, 82, 111, 116, 97, 116, 105, 111, 110,
        67, 97, 112, 97, 98, 105, 108, 105, 116, 121, 31, 101, 120, 116, 114, 97, 99, 116, 95, 107,
        101, 121, 95, 114, 111, 116, 97, 116, 105, 111, 110, 95, 99, 97, 112, 97, 98, 105, 108, 105,
        116, 121, 7, 112, 117, 98, 108, 105, 115, 104, 0, 0, 0, 0, 0, 0, 0, 0, 0, 0, 0, 0, 0, 0, 0,
        1, 0, 0, 3, 5, 10, 0, 11, 0, 17, 0, 17, 1, 2],
     Script_ty_args = [],
     Script_args = []\<rparr>"

definition encode_create_recovery_address_script_function :: "TransactionPayload result" where
  "encode_create_recovery_address_script_function = script_function_payload
     ''AccountAdministrationScripts'' ''create_recovery_address''
     []
     []"

definition encode_create_validator_account_script :: "u64 \<Rightarrow> AccountAddress \<Rightarrow> u8 list \<Rightarrow> u8 list \<Rightarrow> Script" where
  "encode_create_validator_account_script sliding_nonce' new_account_address' auth_key_prefix' human_name' = \<lparr>
     Script_code =
       [161, 28, 235, 11, 1, 0, 0, 0, 5, 1, 0, 4, 3, 4, 10, 5, 14, 22, 7, 36, 72, 8, 108, 16, 0, 0,
        0, 1, 1, 2, 0, 1, 0, 0, 3, 2, 1, 0, 2, 6, 12, 3, 0, 4, 6, 12, 5, 10, 2, 10, 2, 5, 6, 12, 3,
        5, 10, 2, 10, 2, 11, 68, 105, 101, 109, 65, 99, 99, 111, 117, 110, 116, 12, 83, 108, 105, 100,
        105, 110, 103, 78, 111, 110, 99, 101, 21, 114, 101, 99, 111, 114, 100, 95, 110, 111, 110, 99,
        101, 95, 111, 114, 95, 97, 98, 111, 114, 116, 24, 99, 114, 101, 97, 116, 101, 95, 118, 97,
        108, 105, 100, 97, 116, 111, 114, 95, 97, 99, 99, 111, 117, 110, 116, 0, 0, 0, 0, 0, 0, 0,
        0, 0, 0, 0, 0, 0, 0, 0, 1, 0, 3, 1, 9, 10, 0, 10, 1, 17, 0, 11, 0, 10, 2, 11, 3, 11, 4, 17,
        1, 2],
     Script_ty_args = [],
     Script_args = [TransactionArgument_U64 sliding_nonce', TransactionArgument_Address new_account_address', TransactionArgument_U8Vector auth_key_prefix', TransactionArgument_U8Vector human_name']\<rparr>"

definition encode_create_validator_account_script_function :: "u64 \<Rightarrow> AccountAddress \<Rightarrow> u8 list \<Rightarrow> u8 list \<Rightarrow> TransactionPayload result" where
  "encode_create_validator_account_script_function sliding_nonce' new_account_address' auth_key_prefix' human_name' = script_function_payload
     ''AccountCreationScripts'' ''create_validator_account''
     []
     [bcsSerialize serialize_u64 sliding_nonce',
      bcsSerialize_AccountAddress new_account_address',
      bcsSerialize (serialize_vector serialize_u8) auth_key_prefix',
      bcsSerialize (serialize_vector serialize_u8) human_name']"

definition encode_create_validator_operator_account_script :: "u64 \<Rightarrow> AccountAddress \<Rightarrow> u8 list \<Rightarrow> u8 list \<Rightarrow> Script" where
  "encode_create_validator_operator_account_script sliding_nonce' new_account_address' auth_key_prefix' human_name' = \<lparr>
     Script_code =
       [161, 28, 235, 11, 1, 0, 0, 0, 5, 1, 0, 4, 3, 4, 10, 5, 14, 22, 7, 36, 81, 8, 117, 16, 0, 0,
        0, 1, 1, 2, 0, 1, 0, 0, 3, 2, 1, 0, 2, 6, 12, 3, 0, 4, 6, 12, 5, 10, 2, 10, 2, 5, 6, 12, 3,
        5, 10, 2, 10, 2, 11, 68, 105, 101, 109, 65, 99, 99, 111, 117, 110, 116, 12, 83, 108, 105, 100,
        105, 110, 103, 78, 111, 110, 99, 101, 21, 114, 101, 99, 111, 114, 100, 95, 110, 111, 110, 99,
        101, 95, 111, 114, 95, 97, 98, 111, 114, 116, 33, 99, 114, 101, 97, 116, 101, 95, 118, 97,
        108, 105, 100, 97, 116, 111, 114, 95, 111, 112, 101, 114, 97, 116, 111, 114, 95, 97, 99, 99,
        111, 117, 110, 116, 0, 0, 0, 0, 0, 0, 0, 0, 0, 0, 0, 0, 0, 0, 0, 1, 0, 3, 1, 9, 10, 0, 10,
        1, 17, 0, 11, 0, 10, 2, 11, 3, 11, 4, 17, 1, 2],
     Script_ty_args = [],
     Script_args = [TransactionArgument_U64 sliding_nonce', TransactionArgument_Address new_account_address', TransactionArgument_U8Vector auth_key_prefix', TransactionArgument_U8Vector human_name']\<rparr>"

definition encode_create_validator_operator_account_script_function :: "u64 \<Rightarrow> AccountAddress \<Rightarrow> u8 list \<Rightarrow> u8 list \<Rightarrow> TransactionPayload result" where
  "encode_create_validator_operator_account_script_function sliding_nonce' new_account_address' auth_key_prefix' human_name' = script_function_payload
     ''AccountCreationScripts'' ''create_validator_operator_account''
     []
     [bcsSerialize serialize_u64 sliding_nonce',
      bcsSerialize_AccountAddress new_account_address',
      bcsSerialize (serialize_vector serialize_u8) auth_key_prefix',
      bcsSerialize (serialize_vector serialize_u8) human_name']"

definition encode_create_vasp_domains_script_function :: "TransactionPayload result" where
  "encode_create_vasp_domains_script_function = script_function_payload
     ''AccountAdministrationScripts'' ''create_vasp_domains''
     []
     []"

definition encode_freeze_account_script :: "u64 \<Rightarrow> AccountAddress \<Rightarrow> Script" where
  "encode_freeze_account_script sliding_nonce' to_freeze_account' = \<lparr>
     Script_code =
       [161, 28, 235, 11, 1, 0, 0, 0, 5, 1, 0, 4, 3, 4, 10, 5, 14, 14, 7, 28, 66, 8, 94, 16, 0, 0,
        0, 1, 0, 2, 0, 1, 0, 1, 3, 2, 1, 0, 2, 6, 12, 5, 0, 2, 6, 12, 3, 3, 6, 12, 3, 5, 15, 65, 99,
        99, 111, 117, 110, 116, 70, 114, 101, 101, 122, 105, 110, 103, 12, 83, 108, 105, 100, 105,
        110, 103, 78, 111, 110, 99, 101, 14, 102, 114, 101, 101, 122, 101, 95, 97, 99, 99, 111, 117,
        110, 116, 21, 114, 101, 99, 111, 114, 100, 95, 110, 111, 110, 99, 101, 95, 111, 114, 95, 97,
        98, 111, 114, 116, 0, 0, 0, 0, 0, 0, 0, 0, 0, 0, 0, 0, 0, 0, 0, 1, 0, 3, 1, 7, 10, 0, 10, 1,
        17, 1, 11, 0, 10, 2, 17, 0, 2],
     Script_ty_args = [],
     Script_args = [TransactionArgument_U64 sliding_nonce', TransactionArgument_Address to_freeze_account']\<rparr>"

definition encode_freeze_account_script_function :: "u64 \<Rightarrow> AccountAddress \<Rightarrow> TransactionPayload result" where
  "encode_freeze_account_script_function sliding_nonce' to_freeze_account' = script_function_payload
     ''TreasuryComplianceScripts'' ''freeze_account''
     []
     [bcsSerialize serialize_u64 sliding_nonce',
      bcsSerialize_AccountAddress to_freeze_account']"

definition encode_initialize_diem_consensus_config_script_function :: "u64 \<Rightarrow> TransactionPayload result" where
  "encode_initialize_diem_consensus_config_script_function sliding_nonce' = script_function_payload
     ''SystemAdministrationScripts'' ''initialize_diem_consensus_config''
     []
     [bcsSerialize serialize_u64 sliding_nonce']"

definition encode_peer_to_peer_by_signers_script_function :: "TypeTag \<Rightarrow> u64 \<Rightarrow> u8 list \<Rightarrow> TransactionPayload result" where
  "encode_peer_to_peer_by_signers_script_function currency' amount' metadata' = script_function_payload
     ''PaymentScripts'' ''peer_to_peer_by_signers''
     [currency']
     [bcsSerialize serialize_u64 amount',
      bcsSerialize (serialize_vector serialize_u8) metadata']"

definition encode_peer_to_peer_with_metadata_script :: "TypeTag \<Rightarrow> AccountAddress \<Rightarrow> u64 \<Rightarrow> u8 list \<Rightarrow> u8 list \<Rightarrow> Script" where
  "encode_peer_to_peer_with_metadata_script currency' payee' amount' metadata' metadata_signature' = \<lparr>
     Script_code =
       [161, 28, 235, 11, 1, 0, 0, 0, 7, 1, 0, 2, 2, 2, 4, 3, 6, 16, 4, 22, 2, 5, 24, 29, 7, 53, 96,
        8, 149, 1, 16, 0, 0, 0, 1, 1, 0, 0, 2, 0, 1, 0, 0, 3, 2, 3, 1, 1, 0, 4, 1, 3, 0, 1, 5, 1, 6,
        12, 1, 8, 0, 5, 6, 8, 0, 5, 3, 10, 2, 10, 2, 0, 5, 6, 12, 5, 3, 10, 2, 10, 2, 1, 9, 0, 11,
        68, 105, 101, 109, 65, 99, 99, 111, 117, 110, 116, 18, 87, 105, 116, 104, 100, 114, 97, 119,
        67, 97, 112, 97, 98, 105, 108, 105, 116, 121, 27, 101, 120, 116, 114, 97, 99, 116, 95, 119,
        105, 116, 104, 100, 114, 97, 119, 95, 99, 97, 112, 97, 98, 105, 108, 105, 116, 121, 8, 112,
        97, 121, 95, 102, 114, 111, 109, 27, 114, 101, 115, 116, 111, 114, 101, 95, 119, 105, 116,
        104, 100, 114, 97, 119, 95, 99, 97, 112, 97, 98, 105, 108, 105, 116, 121, 0, 0, 0, 0, 0, 0,
        0, 0, 0, 0, 0, 0, 0, 0, 0, 1, 1, 1, 4, 1, 12, 11, 0, 17, 0, 12, 5, 14, 5, 10, 1, 10, 2, 11,
        3, 11, 4, 56, 0, 11, 5, 17, 2, 2],
     Script_ty_args = [currency'],
     Script_args = [TransactionArgument_Address payee', TransactionArgument_U64 amount', TransactionArgument_U8Vector metadata', TransactionArgument_U8Vector metadata_signature']\<rparr>"

definition encode_peer_to_peer_with_metadata_script_function :: "TypeTag \<Rightarrow> AccountAddress \<Rightarrow> u64 \<Rightarrow> u8 list \<Rightarrow> u8 list \<Rightarrow> TransactionPayload result" where
  "encode_peer_to_peer_with_metadata_script_function currency' payee' amount' metadata' metadata_signature' = script_function_payload
     ''PaymentScripts'' ''peer_to_peer_with_metadata''
     [currency']
     [bcsSerialize_AccountAddress payee',
      bcsSerialize serialize_u64 amount',
      bcsSerialize (serialize_vector serialize_u8) metadata',
      bcsSerialize (serialize_vector serialize_u8) metadata_signature']"

definition encode_preburn_script :: "TypeTag \<Rightarrow> u64 \<Rightarrow> Script" where
  "encode_preburn_script token' amount' = \<lparr>
     Script_code =
       [161, 28, 235, 11, 1, 0, 0, 0, 7, 1, 0, 2, 2, 2, 4, 3, 6, 16, 4, 22, 2, 5, 24, 21, 7, 45, 95,
        8, 140, 1, 16, 0, 0, 0, 1, 1, 0, 0, 2, 0, 1, 0, 0, 3, 2, 3, 1, 1, 0, 4, 1, 3, 0, 1, 5, 1, 6,
        12, 1, 8, 0, 3, 6, 12, 6, 8, 0, 3, 0, 2, 6, 12, 3, 1, 9, 0, 11, 68, 105, 101, 109, 65, 99,
        99, 111, 117, 110, 116, 18, 87, 105, 116, 104, 100, 114, 97, 119, 67, 97, 112, 97, 98, 105,
        108, 105, 116, 121, 27, 101, 120, 116, 114, 97, 99, 116, 95, 119, 105, 116, 104, 100, 114,
        97, 119, 95, 99, 97, 112, 97, 98, 105, 108, 105, 116, 121, 7, 112, 114, 101, 98, 117, 114,
        110, 27, 114, 101, 115, 116, 111, 114, 101, 95, 119, 105, 116, 104, 100, 114, 97, 119, 95,
        99, 97, 112, 97, 98, 105, 108, 105, 116, 121, 0, 0, 0, 0, 0, 0, 0, 0, 0, 0, 0, 0, 0, 0, 0,
        1, 1, 1, 4, 1, 10, 10, 0, 17, 0, 12, 2, 11, 0, 14, 2, 10, 1, 56, 0, 11, 2, 17, 2, 2],
     Script_ty_args = [token'],
     Script_args = [TransactionArgument_U64 amount']\<rparr>"

definition encode_preburn_script_function :: "TypeTag \<Rightarrow> u64 \<Rightarrow> TransactionPayload result" where
  "encode_preburn_script_function token' amount' = script_function_payload
     ''TreasuryComplianceScripts'' ''preburn''
     [token']
     [bcsSerialize serialize_u64 amount']"

definition encode_publish_shared_ed25519_public_key_script :: "u8 list \<Rightarrow> Script" where
  "encode_publish_shared_ed25519_public_key_script public_key' = \<lparr>
     Script_code =
       [161, 28, 235, 11, 1, 0, 0, 0, 5, 1, 0, 2, 3, 2, 5, 5, 7, 6, 7, 13, 31, 8, 44, 16, 0, 0, 0,
        1, 0, 1, 0, 2, 6, 12, 10, 2, 0, 22, 83, 104, 97, 114, 101, 100, 69, 100, 50, 53, 53, 49, 57,
        80, 117, 98, 108, 105, 99, 75, 101, 121, 7, 112, 117, 98, 108, 105, 115, 104, 0, 0, 0, 0, 0,
        0, 0, 0, 0, 0, 0, 0, 0, 0, 0, 1, 0, 0, 1, 4, 11, 0, 11, 1, 17, 0, 2],
     Script_ty_args = [],
     Script_args = [TransactionArgument_U8Vector public_key']\<rparr>"

definition encode_publish_shared_ed25519_public_key_script_function :: "u8 list \<Rightarrow> TransactionPayload result" where
  "encode_publish_shared_ed25519_public_key_script_function public_key' = script_function_payload
     ''AccountAdministrationScripts'' ''publish_shared_ed25519_public_key''
     []
     [bcsSerialize (serialize_vector serialize_u8) public_key']"

definition encode_register_validator_config_script :: "AccountAddress \<Rightarrow> u8 list \<Rightarrow> u8 list \<Rightarrow> u8 list \<Rightarrow> Script" where
  "encode_register_validator_config_script validator_account' consensus_pubkey' validator_network_addresses' fullnode_network_addresses' = \<lparr>
     Script_code =
       [161, 28, 235, 11, 1, 0, 0, 0, 5, 1, 0, 2, 3, 2, 5, 5, 7, 11, 7, 18, 27, 8, 45, 16, 0, 0, 0,
        1, 0, 1, 0, 5, 6, 12, 5, 10, 2, 10, 2, 10, 2, 0, 15, 86, 97, 108, 105, 100, 97, 116, 111, 114,
        67, 111, 110, 102, 105, 103, 10, 115, 101, 116, 95, 99, 111, 110, 102, 105, 103, 0, 0, 0, 0,
        0, 0, 0, 0, 0, 0, 0, 0, 0, 0, 0, 1, 0, 0, 1, 7, 11, 0, 10, 1, 11, 2, 11, 3, 11, 4, 17, 0, 2],
     Script_ty_args = [],
     Script_args = [TransactionArgument_Address validator_account', TransactionArgument_U8Vector consensus_pubkey', TransactionArgument_U8Vector validator_network_addresses', TransactionArgument_U8Vector fullnode_network_addresses']\<rparr>"

definition encode_register_validator_config_script_function :: "AccountAddress \<Rightarrow> u8 list \<Rightarrow> u8 list \<Rightarrow> u8 list \<Rightarrow> TransactionPayload result" where
  "encode_register_validator_config_script_function validator_account' consensus_pubkey' validator_network_addresses' fullnode_network_addresses' = script_function_payload
     ''ValidatorAdministrationScripts'' ''register_validator_config''
     []
     [bcsSerialize_AccountAddress validator_account',
      bcsSerialize (serialize_vector serialize_u8) consensus_pubkey',
      bcsSerialize (serialize_vector serialize_u8) validator_network_addresses',
      bcsSerialize (serialize_vector serialize_u8) fullnode_network_addresses']"

definition encode_remove_validator_and_reconfigure_script :: "u64 \<Rightarrow> u8 list \<Rightarrow> AccountAddress \<Rightarrow> Script" where
  "encode_remove_validator_and_reconfigure_script sliding_nonce' validator_name' validator_address' = \<lparr>
     Script_code =
       [161, 28, 235, 11, 1, 0, 0, 0, 5, 1, 0, 6, 3, 6, 15, 5, 21, 24, 7, 45, 94, 8, 139, 1, 16, 0,
        0, 0, 1, 0, 2, 1, 3, 0, 1, 0, 2, 4, 2, 3, 0, 0, 5, 4, 1, 0, 2, 6, 12, 3, 0, 1, 5, 1, 10, 2,
        2, 6, 12, 5, 4, 6, 12, 3, 10, 2, 5, 2, 1, 3, 10, 68, 105, 101, 109, 83, 121, 115, 116, 101,
        109, 12, 83, 108, 105, 100, 105, 110, 103, 78, 111, 110, 99, 101, 15, 86, 97, 108, 105, 100,
        97, 116, 111, 114, 67, 111, 110, 102, 105, 103, 21, 114, 101, 99, 111, 114, 100, 95, 110, 111,
        110, 99, 101, 95, 111, 114, 95, 97, 98, 111, 114, 116, 14, 103, 101, 116, 95, 104, 117, 109,
        97, 110, 95, 110, 97, 109, 101, 16, 114, 101, 109, 111, 118, 101, 95, 118, 97, 108, 105, 100,
        97, 116, 111, 114, 0, 0, 0, 0, 0, 0, 0, 0, 0, 0, 0, 0, 0, 0, 0, 1, 0, 5, 6, 18, 10, 0, 10,
        1, 17, 0, 10, 3, 17, 1, 11, 2, 33, 12, 4, 11, 4, 3, 14, 11, 0, 1, 6, 0, 0, 0, 0, 0, 0, 0, 0,
        39, 11, 0, 10, 3, 17, 2, 2],
     Script_ty_args = [],
     Script_args = [TransactionArgument_U64 sliding_nonce', TransactionArgument_U8Vector validator_name', TransactionArgument_Address validator_address']\<rparr>"

definition encode_remove_validator_and_reconfigure_script_function :: "u64 \<Rightarrow> u8 list \<Rightarrow> AccountAddress \<Rightarrow> TransactionPayload result" where
  "encode_remove_validator_and_reconfigure_script_function sliding_nonce' validator_name' validator_address' = script_function_payload
     ''ValidatorAdministrationScripts'' ''remove_validator_and_reconfigure''
     []
     [bcsSerialize serialize_u64 sliding_nonce',
      bcsSerialize (serialize_vector serialize_u8) validator_name',
      bcsSerialize_AccountAddress validator_address']"

definition encode_remove_vasp_domain_script_function :: "AccountAddress \<Rightarrow> u8 list \<Rightarrow> TransactionPayload result" where
  "encode_remove_vasp_domain_script_function address' domain' = script_function_payload
     ''TreasuryComplianceScripts'' ''remove_vasp_domain''
     []
     [bcsSerialize_AccountAddress address',
      bcsSerialize (serialize_vector serialize_u8) domain']"

definition encode_rotate_authentication_key_script :: "u8 list \<Rightarrow> Script" where
  "encode_rotate_authentication_key_script new_key' = \<lparr>
     Script_code =
       [161, 28, 235, 11, 1, 0, 0, 0, 6, 1, 0, 2, 2, 2, 4, 3, 6, 15, 5, 21, 18, 7, 39, 124, 8, 163,
        1, 16, 0, 0, 0, 1, 1, 0, 0, 2, 0, 1, 0, 0, 3, 1, 2, 0, 0, 4, 3, 2, 0, 1, 6, 12, 1, 8, 0, 0,
        2, 6, 8, 0, 10, 2, 2, 6, 12, 10, 2, 11, 68, 105, 101, 109, 65, 99, 99, 111, 117, 110, 116,
        21, 75, 101, 121, 82, 111, 116, 97, 116, 105, 111, 110, 67, 97, 112, 97, 98, 105, 108, 105,
        116, 121, 31, 101, 120, 116, 114, 97, 99, 116, 95, 107, 101, 121, 95, 114, 111, 116, 97, 116,
        105, 111, 110, 95, 99, 97, 112, 97, 98, 105, 108, 105, 116, 121, 31, 114, 101, 115, 116, 111,
        114, 101, 95, 107, 101, 121, 95, 114, 111, 116, 97, 116, 105, 111, 110, 95, 99, 97, 112, 97,
        98, 105, 108, 105, 116, 121, 25, 114, 111, 116, 97, 116, 101, 95, 97, 117, 116, 104, 101, 110,
        116, 105, 99, 97, 116, 105, 111, 110, 95, 107, 101, 121, 0, 0, 0, 0, 0, 0, 0, 0, 0, 0, 0, 0,
        0, 0, 0, 1, 0, 4, 1, 9, 11, 0, 17, 0, 12, 2, 14, 2, 11, 1, 17, 2, 11, 2, 17, 1, 2],
     Script_ty_args = [],
     Script_args = [TransactionArgument_U8Vector new_key']\<rparr>"

definition encode_rotate_authentication_key_script_function :: "u8 list \<Rightarrow> TransactionPayload result" where
  "encode_rotate_authentication_key_script_function new_key' = script_function_payload
     ''AccountAdministrationScripts'' ''rotate_authentication_key''
     []
     [bcsSerialize (serialize_vector serialize_u8) new_key']"

definition encode_rotate_authentication_key_with_nonce_script :: "u64 \<Rightarrow> u8 list \<Rightarrow> Script" where
  "encode_rotate_authentication_key_with_nonce_script sliding_nonce' new_key' = \<lparr>
     Script_code =
       [161, 28, 235, 11, 1, 0, 0, 0, 6, 1, 0, 4, 2, 4, 4, 3, 8, 20, 5, 28, 23, 7, 51, 159, 1, 8, 210,
        1, 16, 0, 0, 0, 1, 0, 3, 1, 0, 1, 2, 0, 1, 0, 0, 4, 2, 3, 0, 0, 5, 3, 1, 0, 0, 6, 4, 1, 0,
        2, 6, 12, 3, 0, 1, 6, 12, 1, 8, 0, 2, 6, 8, 0, 10, 2, 3, 6, 12, 3, 10, 2, 11, 68, 105, 101,
        109, 65, 99, 99, 111, 117, 110, 116, 12, 83, 108, 105, 100, 105, 110, 103, 78, 111, 110, 99,
        101, 21, 114, 101, 99, 111, 114, 100, 95, 110, 111, 110, 99, 101, 95, 111, 114, 95, 97, 98,
        111, 114, 116, 21, 75, 101, 121, 82, 111, 116, 97, 116, 105, 111, 110, 67, 97, 112, 97, 98,
        105, 108, 105, 116, 121, 31, 101, 120, 116, 114, 97, 99, 116, 95, 107, 101, 121, 95, 114, 111,
        116, 97, 116, 105, 111, 110, 95, 99, 97, 112, 97, 98, 105, 108, 105, 116, 121, 31, 114, 101,
        115, 116, 111, 114, 101, 95, 107, 101, 121, 95, 114, 111, 116, 97, 116, 105, 111, 110, 95,
        99, 97, 112, 97, 98, 105, 108, 105, 116, 121, 25, 114, 111, 116, 97, 116, 101, 95, 97, 117,
        116, 104, 101, 110, 116, 105, 99, 97, 116, 105, 111, 110, 95, 107, 101, 121, 0, 0, 0, 0, 0,
        0, 0, 0, 0, 0, 0, 0, 0, 0, 0, 1, 0, 5, 3, 12, 10, 0, 10, 1, 17, 0, 11, 0, 17, 1, 12, 3, 14,
        3, 11, 2, 17, 3, 11, 3, 17, 2, 2],
     Script_ty_args = [],
     Script_args = [TransactionArgument_U64 sliding_nonce', TransactionArgument_U8Vector new_key']\<rparr>"

definition encode_rotate_authentication_key_with_nonce_script_function :: "u64 \<Rightarrow> u8 list \<Rightarrow> TransactionPayload result" where
  "encode_rotate_authentication_key_with_nonce_script_function sliding_nonce' new_key' = script_function_payload
     ''AccountAdministrationScripts'' ''rotate_authentication_key_with_nonce''
     []
     [bcsSerialize serialize_u64 sliding_nonce',
      bcsSerialize (serialize_vector serialize_u8) new_key']"

definition encode_rotate_authentication_key_with_nonce_admin_script :: "u64 \<Rightarrow> u8 list \<Rightarrow> Script" where
  "encode_rotate_authentication_key_with_nonce_admin_script sliding_nonce' new_key' = \<lparr>
     Script_code =
       [161, 28, 235, 11, 1, 0, 0, 0, 6, 1, 0, 4, 2, 4, 4, 3, 8, 20, 5, 28, 25, 7, 53, 159, 1, 8, 212,
        1, 16, 0, 0, 0, 1, 0, 3, 1, 0, 1, 2, 0, 1, 0, 0, 4, 2, 3, 0, 0, 5, 3, 1, 0, 0, 6, 4, 1, 0,
        2, 6, 12, 3, 0, 1, 6, 12, 1, 8, 0, 2, 6, 8, 0, 10, 2, 4, 6, 12, 6, 12, 3, 10, 2, 11, 68, 105,
        101, 109, 65, 99, 99, 111, 117, 110, 116, 12, 83, 108, 105, 100, 105, 110, 103, 78, 111, 110,
        99, 101, 21, 114, 101, 99, 111, 114, 100, 95, 110, 111, 110, 99, 101, 95, 111, 114, 95, 97,
        98, 111, 114, 116, 21, 75, 101, 121, 82, 111, 116, 97, 116, 105, 111, 110, 67, 97, 112, 97,
        98, 105, 108, 105, 116, 121, 31, 101, 120, 116, 114, 97, 99, 116, 95, 107, 101, 121, 95, 114,
        111, 116, 97, 116, 105, 111, 110, 95, 99, 97, 112, 97, 98, 105, 108, 105, 116, 121, 31, 114,
        101, 115, 116, 111, 114, 101, 95, 107, 101, 121, 95, 114, 111, 116, 97, 116, 105, 111, 110,
        95, 99, 97, 112, 97, 98, 105, 108, 105, 116, 121, 25, 114, 111, 116, 97, 116, 101, 95, 97,
        117, 116, 104, 101, 110, 116, 105, 99, 97, 116, 105, 111, 110, 95, 107, 101, 121, 0, 0, 0,
        0, 0, 0, 0, 0, 0, 0, 0, 0, 0, 0, 0, 1, 0, 5, 3, 12, 11, 0, 10, 2, 17, 0, 11, 1, 17, 1, 12,
        4, 14, 4, 11, 3, 17, 3, 11, 4, 17, 2, 2],
     Script_ty_args = [],
     Script_args = [TransactionArgument_U64 sliding_nonce', TransactionArgument_U8Vector new_key']\<rparr>"

definition encode_rotate_authentication_key_with_nonce_admin_script_function :: "u64 \<Rightarrow> u8 list \<Rightarrow> TransactionPayload result" where
  "encode_rotate_authentication_key_with_nonce_admin_script_function sliding_nonce' new_key' = script_function_payload
     ''AccountAdministrationScripts'' ''rotate_authentication_key_with_nonce_admin''
     []
     [bcsSerialize serialize_u64 sliding_nonce',
      bcsSerialize (serialize_vector serialize_u8) new_key']"

definition encode_rotate_authentication_key_with_recovery_address_script :: "AccountAddress \<Rightarrow> AccountAddress \<Rightarrow> u8 list \<Rightarrow> Script" where
  "encode_rotate_authentication_key_with_recovery_address_script recovery_address' to_recover' new_key' = \<lparr>
     Script_code =
       [161, 28, 235, 11, 1, 0, 0, 0, 5, 1, 0, 2, 3, 2, 5, 5, 7, 8, 7, 15, 42, 8, 57, 16, 0, 0, 0,
        1, 0, 1, 0, 4, 6, 12, 5, 5, 10, 2, 0, 15, 82, 101, 99, 111, 118, 101, 114, 121, 65, 100, 100,
        114, 101, 115, 115, 25, 114, 111, 116, 97, 116, 101, 95, 97, 117, 116, 104, 101, 110, 116,
        105, 99, 97, 116, 105, 111, 110, 95, 107, 101, 121, 0, 0, 0, 0, 0, 0, 0, 0, 0, 0, 0, 0, 0,
        0, 0, 1, 0, 0, 1, 6, 11, 0, 10, 1, 10, 2, 11, 3, 17, 0, 2],
     Script_ty_args = [],
     Script_args = [TransactionArgument_Address recovery_address', TransactionArgument_Address to_recover', TransactionArgument_U8Vector new_key']\<rparr>"

definition encode_rotate_authentication_key_with_recovery_address_script_function :: "AccountAddress \<Rightarrow> AccountAddress \<Rightarrow> u8 list \<Rightarrow> TransactionPayload result" where
  "encode_rotate_authentication_key_with_recovery_address_script_function recovery_address' to_recover' new_key' = script_function_payload
     ''AccountAdministrationScripts'' ''rotate_authentication_key_with_recovery_address''
     []
     [bcsSerialize_AccountAddress recovery_address',
      bcsSerialize_AccountAddress to_recover',
      bcsSerialize (serialize_vector serialize_u8) new_key']"

definition encode_rotate_dual_attestation_info_script :: "u8 list \<Rightarrow> u8 list \<Rightarrow> Script" where
  "encode_rotate_dual_attestation_info_script new_url' new_key' = \<lparr>
     Script_code =
       [161, 28, 235, 11, 1, 0, 0, 0, 5, 1, 0, 2, 3, 2, 10, 5, 12, 13, 7, 25, 61, 8, 86, 16, 0, 0,
        0, 1, 0, 1, 0, 0, 2, 0, 1, 0, 2, 6, 12, 10, 2, 0, 3, 6, 12, 10, 2, 10, 2, 15, 68, 117, 97,
        108, 65, 116, 116, 101, 115, 116, 97, 116, 105, 111, 110, 15, 114, 111, 116, 97, 116, 101,
        95, 98, 97, 115, 101, 95, 117, 114, 108, 28, 114, 111, 116, 97, 116, 101, 95, 99, 111, 109,
        112, 108, 105, 97, 110, 99, 101, 95, 112, 117, 98, 108, 105, 99, 95, 107, 101, 121, 0, 0, 0,
        0, 0, 0, 0, 0, 0, 0, 0, 0, 0, 0, 0, 1, 0, 2, 1, 7, 10, 0, 11, 1, 17, 0, 11, 0, 11, 2, 17, 1,
        2],
     Script_ty_args = [],
     Script_args = [TransactionArgument_U8Vector new_url', TransactionArgument_U8Vector new_key']\<rparr>"

definition encode_rotate_dual_attestation_info_script_function :: "u8 list \<Rightarrow> u8 list \<Rightarrow> TransactionPayload result" where
  "encode_rotate_dual_attestation_info_script_function new_url' new_key' = script_function_payload
     ''AccountAdministrationScripts'' ''rotate_dual_attestation_info''
     []
     [bcsSerialize (serialize_vector serialize_u8) new_url',
      bcsSerialize (serialize_vector serialize_u8) new_key']"

definition encode_rotate_shared_ed25519_public_key_script :: "u8 list \<Rightarrow> Script" where
  "encode_rotate_shared_ed25519_public_key_script public_key' = \<lparr>
     Script_code =
       [161, 28, 235, 11, 1, 0, 0, 0, 5, 1, 0, 2, 3, 2, 5, 5, 7, 6, 7, 13, 34, 8, 47, 16, 0, 0, 0,
        1, 0, 1, 0, 2, 6, 12, 10, 2, 0, 22, 83, 104, 97, 114, 101, 100, 69, 100, 50, 53, 53, 49, 57,
        80, 117, 98, 108, 105, 99, 75, 101, 121, 10, 114, 111, 116, 97, 116, 101, 95, 107, 101, 121,
        0, 0, 0, 0, 0, 0, 0, 0, 0, 0, 0, 0, 0, 0, 0, 1, 0, 0, 1, 4, 11, 0, 11, 1, 17, 0, 2],
     Script_ty_args = [],
     Script_args = [TransactionArgument_U8Vector public_key']\<rparr>"

definition encode_rotate_shared_ed25519_public_key_script_function :: "u8 list \<Rightarrow> TransactionPayload result" where
  "encode_rotate_shared_ed25519_public_key_script_function public_key' = script_function_payload
     ''AccountAdministrationScripts'' ''rotate_shared_ed25519_public_key''
     []
     [bcsSerialize (serialize_vector serialize_u8) public_key']"

definition encode_set_gas_constants_script_function :: "u64 \<Rightarrow> u64 \<Rightarrow> u64 \<Rightarrow> u64 \<Rightarrow> u64 \<Rightarrow> u64 \<Rightarrow> u64 \<Rightarrow> u64 \<Rightarrow> u64 \<Rightarrow> u64 \<Rightarrow> u64 \<Rightarrow> u64 \<Rightarrow> TransactionPayload result" where
  "encode_set_gas_constants_script_function sliding_nonce' global_memory_per_byte_cost' global_memory_per_byte_write_cost' min_transaction_gas_units' large_transaction_cutoff' intrinsic_gas_per_byte' maximum_number_of_gas_units' min_price_per_gas_unit' max_price_per_gas_unit' max_transaction_size_in_bytes' gas_unit_scaling_factor' default_account_size' = script_function_payload
     ''SystemAdministrationScripts'' ''set_gas_constants''
     []
     [bcsSerialize serialize_u64 sliding_nonce',
      bcsSerialize serialize_u64 global_memory_per_byte_cost',
      bcsSerialize serialize_u64 global_memory_per_byte_write_cost',
      bcsSerialize serialize_u64 min_transaction_gas_units',
      bcsSerialize serialize_u64 large_transaction_cutoff',
      bcsSerialize serialize_u64 intrinsic_gas_per_byte',
      bcsSerialize serialize_u64 maximum_number_of_gas_units',
      bcsSerialize serialize_u64 min_price_per_gas_unit',
      bcsSerialize serialize_u64 max_price_per_gas_unit',
      bcsSerialize serialize_u64 max_transaction_size_in_bytes',
      bcsSerialize serialize_u64 gas_unit_scaling_factor',
      bcsSerialize serialize_u64 default_account_size']"

definition encode_set_validator_config_and_reconfigure_script :: "AccountAddress \<Rightarrow> u8 list \<Rightarrow> u8 list \<Rightarrow> u8 list \<Rightarrow> Script" where
  "encode_set_validator_config_and_reconfigure_script validator_account' consensus_pubkey' validator_network_addresses' fullnode_network_addresses' = \<lparr>
     Script_code =
       [161, 28, 235, 11, 1, 0, 0, 0, 5, 1, 0, 4, 3, 4, 10, 5, 14, 15, 7, 29, 68, 8, 97, 16, 0, 0,
        0, 1, 1, 2, 0, 1, 0, 0, 3, 2, 1, 0, 5, 6, 12, 5, 10, 2, 10, 2, 10, 2, 0, 2, 6, 12, 5, 10, 68,
        105, 101, 109, 83, 121, 115, 116, 101, 109, 15, 86, 97, 108, 105, 100, 97, 116, 111, 114, 67,
        111, 110, 102, 105, 103, 10, 115, 101, 116, 95, 99, 111, 110, 102, 105, 103, 29, 117, 112,
        100, 97, 116, 101, 95, 99, 111, 110, 102, 105, 103, 95, 97, 110, 100, 95, 114, 101, 99, 111,
        110, 102, 105, 103, 117, 114, 101, 0, 0, 0, 0, 0, 0, 0, 0, 0, 0, 0, 0, 0, 0, 0, 1, 0, 0, 1,
        10, 10, 0, 10, 1, 11, 2, 11, 3, 11, 4, 17, 0, 11, 0, 10, 1, 17, 1, 2],
     Script_ty_args = [],
     Script_args = [TransactionArgument_Address validator_account', TransactionArgument_U8Vector consensus_pubkey', TransactionArgument_U8Vector validator_network_addresses', TransactionArgument_U8Vector fullnode_network_addresses']\<rparr>"

definition encode_set_validator_config_and_reconfigure_script_function :: "AccountAddress \<Rightarrow> u8 list \<Rightarrow> u8 list \<Rightarrow> u8 list \<Rightarrow> TransactionPayload result" where
  "encode_set_validator_config_and_reconfigure_script_function validator_account' consensus_pubkey' validator_network_addresses' fullnode_network_addresses' = script_function_payload
     ''ValidatorAdministrationScripts'' ''set_validator_config_and_reconfigure''
     []
     [bcsSerialize_AccountAddress validator_account',
      bcsSerialize (serialize_vector serialize_u8) consensus_pubkey',
      bcsSerialize (serialize_vector serialize_u8) validator_network_addresses',
      bcsSerialize (serialize_vector serialize_u8) fullnode_network_addresses']"

definition encode_set_validator_operator_script :: "u8 list \<Rightarrow> AccountAddress \<Rightarrow> Script" where
  "encode_set_validator_operator_script operator_name' operator_account' = \<lparr>
     Script_code =
       [161, 28, 235, 11, 1, 0, 0, 0, 5, 1, 0, 4, 3, 4, 10, 5, 14, 19, 7, 33, 68, 8, 101, 16, 0, 0,
        0, 1, 1, 2, 0, 1, 0, 0, 3, 2, 3, 0, 1, 5, 1, 10, 2, 2, 6, 12, 5, 0, 3, 6, 12, 10, 2, 5, 2,
        1, 3, 15, 86, 97, 108, 105, 100, 97, 116, 111, 114, 67, 111, 110, 102, 105, 103, 23, 86, 97,
        108, 105, 100, 97, 116, 111, 114, 79, 112, 101, 114, 97, 116, 111, 114, 67, 111, 110, 102,
        105, 103, 14, 103, 101, 116, 95, 104, 117, 109, 97, 110, 95, 110, 97, 109, 101, 12, 115, 101,
        116, 95, 111, 112, 101, 114, 97, 116, 111, 114, 0, 0, 0, 0, 0, 0, 0, 0, 0, 0, 0, 0, 0, 0, 0,
        1, 0, 4, 5, 15, 10, 2, 17, 0, 11, 1, 33, 12, 3, 11, 3, 3, 11, 11, 0, 1, 6, 0, 0, 0, 0, 0, 0,
        0, 0, 39, 11, 0, 10, 2, 17, 1, 2],
     Script_ty_args = [],
     Script_args = [TransactionArgument_U8Vector operator_name', TransactionArgument_Address operator_account']\<rparr>"

definition encode_set_validator_operator_script_function :: "u8 list \<Rightarrow> AccountAddress \<Rightarrow> TransactionPayload result" where
  "encode_set_validator_operator_script_function operator_name' operator_account' = script_function_payload
     ''ValidatorAdministrationScripts'' ''set_validator_operator''
     []
     [bcsSerialize (serialize_vector serialize_u8) operator_name',
      bcsSerialize_AccountAddress operator_account']"

definition encode_set_validator_operator_with_nonce_admin_script :: "u64 \<Rightarrow> u8 list \<Rightarrow> AccountAddress \<Rightarrow> Script" where
  "encode_set_validator_operator_with_nonce_admin_script sliding_nonce' operator_name' operator_account' = \<lparr>
     Script_code =
       [161, 28, 235, 11, 1, 0, 0, 0, 5, 1, 0, 6, 3, 6, 15, 5, 21, 26, 7, 47, 103, 8, 150, 1, 16, 0,
        0, 0, 1, 0, 2, 0, 3, 0, 1, 0, 2, 4, 2, 3, 0, 1, 5, 4, 1, 0, 2, 6, 12, 3, 0, 1, 5, 1, 10, 2,
        2, 6, 12, 5, 5, 6, 12, 6, 12, 3, 10, 2, 5, 2, 1, 3, 12, 83, 108, 105, 100, 105, 110, 103, 78,
        111, 110, 99, 101, 15, 86, 97, 108, 105, 100, 97, 116, 111, 114, 67, 111, 110, 102, 105, 103,
        23, 86, 97, 108, 105, 100, 97, 116, 111, 114, 79, 112, 101, 114, 97, 116, 111, 114, 67, 111,
        110, 102, 105, 103, 21, 114, 101, 99, 111, 114, 100, 95, 110, 111, 110, 99, 101, 95, 111, 114,
        95, 97, 98, 111, 114, 116, 14, 103, 101, 116, 95, 104, 117, 109, 97, 110, 95, 110, 97, 109,
        101, 12, 115, 101, 116, 95, 111, 112, 101, 114, 97, 116, 111, 114, 0, 0, 0, 0, 0, 0, 0, 0,
        0, 0, 0, 0, 0, 0, 0, 1, 0, 5, 6, 18, 11, 0, 10, 2, 17, 0, 10, 4, 17, 1, 11, 3, 33, 12, 5, 11,
        5, 3, 14, 11, 1, 1, 6, 0, 0, 0, 0, 0, 0, 0, 0, 39, 11, 1, 10, 4, 17, 2, 2],
     Script_ty_args = [],
     Script_args = [TransactionArgument_U64 sliding_nonce', TransactionArgument_U8Vector operator_name', TransactionArgument_Address operator_account']\<rparr>"

definition encode_set_validator_operator_with_nonce_admin_script_function :: "u64 \<Rightarrow> u8 list \<Rightarrow> AccountAddress \<Rightarrow> TransactionPayload result" where
  "encode_set_validator_operator_with_nonce_admin_script_function sliding_nonce' operator_name' operator_account' = script_function_payload
     ''ValidatorAdministrationScripts'' ''set_validator_operator_with_nonce_admin''
     []
     [bcsSerialize serialize_u64 sliding_nonce',
      bcsSerialize (serialize_vector serialize_u8) operator_name',
      bcsSerialize_AccountAddress operator_account']"

definition encode_tiered_mint_script :: "TypeTag \<Rightarrow> u64 \<Rightarrow> AccountAddress \<Rightarrow> u64 \<Rightarrow> u64 \<Rightarrow> Script" where
  "encode_tiered_mint_script coin_type' sliding_nonce' designated_dealer_address' mint_amount' tier_index' = \<lparr>
     Script_code =
       [161, 28, 235, 11, 1, 0, 0, 0, 6, 1, 0, 4, 3, 4, 11, 4, 15, 2, 5, 17, 21, 7, 38, 59, 8, 97,
        16, 0, 0, 0, 1, 1, 2, 0, 1, 0, 0, 3, 2, 1, 1, 1, 1, 4, 2, 6, 12, 3, 0, 4, 6, 12, 5, 3, 3, 5,
        6, 12, 3, 5, 3, 3, 1, 9, 0, 11, 68, 105, 101, 109, 65, 99, 99, 111, 117, 110, 116, 12, 83,
        108, 105, 100, 105, 110, 103, 78, 111, 110, 99, 101, 21, 114, 101, 99, 111, 114, 100, 95, 110,
        111, 110, 99, 101, 95, 111, 114, 95, 97, 98, 111, 114, 116, 11, 116, 105, 101, 114, 101, 100,
        95, 109, 105, 110, 116, 0, 0, 0, 0, 0, 0, 0, 0, 0, 0, 0, 0, 0, 0, 0, 1, 1, 1, 3, 1, 9, 10,
        0, 10, 1, 17, 0, 11, 0, 10, 2, 10, 3, 10, 4, 56, 0, 2],
     Script_ty_args = [coin_type'],
     Script_args = [TransactionArgument_U64 sliding_nonce', TransactionArgument_Address designated_dealer_address', TransactionArgument_U64 mint_amount', TransactionArgument_U64 tier_index']\<rparr>"

definition encode_tiered_mint_script_function :: "TypeTag \<Rightarrow> u64 \<Rightarrow> AccountAddress \<Rightarrow> u64 \<Rightarrow> u64 \<Rightarrow> TransactionPayload result" where
  "encode_tiered_mint_script_function coin_type' sliding_nonce' designated_dealer_address' mint_amount' tier_index' = script_function_payload
     ''TreasuryComplianceScripts'' ''tiered_mint''
     [coin_type']
     [bcsSerialize serialize_u64 sliding_nonce',
      bcsSerialize_AccountAddress designated_dealer_address',
      bcsSerialize serialize_u64 mint_amount',
      bcsSerialize serialize_u64 tier_index']"

definition encode_unfreeze_account_script :: "u64 \<Rightarrow> AccountAddress \<Rightarrow> Script" where
  "encode_unfreeze_account_script sliding_nonce' to_unfreeze_account' = \<lparr>
     Script_code =
       [161, 28, 235, 11, 1, 0, 0, 0, 5, 1, 0, 4, 3, 4, 10, 5, 14, 14, 7, 28, 68, 8, 96, 16, 0, 0,
        0, 1, 0, 2, 0, 1, 0, 1, 3, 2, 1, 0, 2, 6, 12, 5, 0, 2, 6, 12, 3, 3, 6, 12, 3, 5, 15, 65, 99,
        99, 111, 117, 110, 116, 70, 114, 101, 101, 122, 105, 110, 103, 12, 83, 108, 105, 100, 105,
        110, 103, 78, 111, 110, 99, 101, 16, 117, 110, 102, 114, 101, 101, 122, 101, 95, 97, 99, 99,
        111, 117, 110, 116, 21, 114, 101, 99, 111, 114, 100, 95, 110, 111, 110, 99, 101, 95, 111, 114,
        95, 97, 98, 111, 114, 116, 0, 0, 0, 0, 0, 0, 0, 0, 0, 0, 0, 0, 0, 0, 0, 1, 0, 3, 1, 7, 10,
        0, 10, 1, 17, 1, 11, 0, 10, 2, 17, 0, 2],
     Script_ty_args = [],
     Script_args = [TransactionArgument_U64 sliding_nonce', TransactionArgument_Address to_unfreeze_account']\<rparr>"

definition encode_unfreeze_account_script_function :: "u64 \<Rightarrow> AccountAddress \<Rightarrow> TransactionPayload result" where
  "encode_unfreeze_account_script_function sliding_nonce' to_unfreeze_account' = script_function_payload
     ''TreasuryComplianceScripts'' ''unfreeze_account''
     []
     [bcsSerialize serialize_u64 sliding_nonce',
      bcsSerialize_AccountAddress to_unfreeze_account']"

definition encode_update_diem_consensus_config_script_function :: "u64 \<Rightarrow> u8 list \<Rightarrow> TransactionPayload result" where
  "encode_update_diem_consensus_config_script_function sliding_nonce' config' = script_function_payload
     ''SystemAdministrationScripts'' ''update_diem_consensus_config''
     []
     [bcsSerialize serialize_u64 sliding_nonce',
      bcsSerialize (serialize_vector serialize_u8) config']"

definition encode_update_diem_version_script :: "u64 \<Rightarrow> u64 \<Rightarrow> Script" where
  "encode_update_diem_version_script sliding_nonce' major' = \<lparr>
     Script_code =
       [161, 28, 235, 11, 1, 0, 0, 0, 5, 1, 0, 4, 3, 4, 10, 5, 14, 10, 7, 24, 51, 8, 75, 16, 0, 0,
        0, 1, 0, 2, 0, 1, 0, 1, 3, 0, 1, 0, 2, 6, 12, 3, 0, 3, 6, 12, 3, 3, 11, 68, 105, 101, 109,
        86, 101, 114, 115, 105, 111, 110, 12, 83, 108, 105, 100, 105, 110, 103, 78, 111, 110, 99, 101,
        3, 115, 101, 116, 21, 114, 101, 99, 111, 114, 100, 95, 110, 111, 110, 99, 101, 95, 111, 114,
        95, 97, 98, 111, 114, 116, 0, 0, 0, 0, 0, 0, 0, 0, 0, 0, 0, 0, 0, 0, 0, 1, 0, 2, 1, 7, 10,
        0, 10, 1, 17, 1, 11, 0, 10, 2, 17, 0, 2],
     Script_ty_args = [],
     Script_args = [TransactionArgument_U64 sliding_nonce', TransactionArgument_U64 major']\<rparr>"

definition encode_update_diem_version_script_function :: "u64 \<Rightarrow> u64 \<Rightarrow> TransactionPayload result" where
  "encode_update_diem_version_script_function sliding_nonce' major' = script_function_payload
     ''SystemAdministrationScripts'' ''update_diem_version''
     []
     [bcsSerialize serialize_u64 sliding_nonce',
      bcsSerialize serialize_u64 major']"

definition encode_update_dual_attestation_limit_script :: "u64 \<Rightarrow> u64 \<Rightarrow> Script" where
  "encode_update_dual_attestation_limit_script sliding_nonce' new_micro_xdx_limit' = \<lparr>
     Script_code =
       [161, 28, 235, 11, 1, 0, 0, 0, 5, 1, 0, 4, 3, 4, 10, 5, 14, 10, 7, 24, 71, 8, 95, 16, 0, 0,
        0, 1, 0, 2, 0, 1, 0, 1, 3, 0, 1, 0, 2, 6, 12, 3, 0, 3, 6, 12, 3, 3, 15, 68, 117, 97, 108, 65,
        116, 116, 101, 115, 116, 97, 116, 105, 111, 110, 12, 83, 108, 105, 100, 105, 110, 103, 78,
        111, 110, 99, 101, 19, 115, 101, 116, 95, 109, 105, 99, 114, 111, 100, 105, 101, 109, 95, 108,
        105, 109, 105, 116, 21, 114, 101, 99, 111, 114, 100, 95, 110, 111, 110, 99, 101, 95, 111, 114,
        95, 97, 98, 111, 114, 116, 0, 0, 0, 0, 0, 0, 0, 0, 0, 0, 0, 0, 0, 0, 0, 1, 0, 2, 1, 7, 10,
        0, 10, 1, 17, 1, 11, 0, 10, 2, 17, 0, 2],
     Script_ty_args = [],
     Script_args = [TransactionArgument_U64 sliding_nonce', TransactionArgument_U64 new_micro_xdx_limit']\<rparr>"

definition encode_update_dual_attestation_limit_script_function :: "u64 \<Rightarrow> u64 \<Rightarrow> TransactionPayload result" where
  "encode_update_dual_attestation_limit_script_function sliding_nonce' new_micro_xdx_limit' = script_function_payload
     ''TreasuryComplianceScripts'' ''update_dual_attestation_limit''
     []
     [bcsSerialize serialize_u64 sliding_nonce',
      bcsSerialize serialize_u64 new_micro_xdx_limit']"

definition encode_update_exchange_rate_script :: "TypeTag \<Rightarrow> u64 \<Rightarrow> u64 \<Rightarrow> u64 \<Rightarrow> Script" where
  "encode_update_exchange_rate_script currency' sliding_nonce' new_exchange_rate_numerator' new_exchange_rate_denominator' = \<lparr>
     Script_code =
       [161, 28, 235, 11, 1, 0, 0, 0, 7, 1, 0, 6, 2, 6, 4, 3, 10, 16, 4, 26, 2, 5, 28, 25, 7, 53, 99,
        8, 152, 1, 16, 0, 0, 0, 1, 0, 2, 1, 1, 2, 0, 1, 3, 0, 1, 0, 2, 4, 2, 3, 0, 0, 5, 4, 3, 1, 1,
        2, 6, 2, 3, 3, 1, 8, 0, 2, 6, 12, 3, 0, 2, 6, 12, 8, 0, 4, 6, 12, 3, 3, 3, 1, 9, 0, 4, 68,
        105, 101, 109, 12, 70, 105, 120, 101, 100, 80, 111, 105, 110, 116, 51, 50, 12, 83, 108, 105,
        100, 105, 110, 103, 78, 111, 110, 99, 101, 20, 99, 114, 101, 97, 116, 101, 95, 102, 114, 111,
        109, 95, 114, 97, 116, 105, 111, 110, 97, 108, 21, 114, 101, 99, 111, 114, 100, 95, 110, 111,
        110, 99, 101, 95, 111, 114, 95, 97, 98, 111, 114, 116, 24, 117, 112, 100, 97, 116, 101, 95,
        120, 100, 120, 95, 101, 120, 99, 104, 97, 110, 103, 101, 95, 114, 97, 116, 101, 0, 0, 0, 0,
        0, 0, 0, 0, 0, 0, 0, 0, 0, 0, 0, 1, 1, 1, 5, 1, 11, 10, 0, 10, 1, 17, 1, 10, 2, 10, 3, 17,
        0, 12, 4, 11, 0, 11, 4, 56, 0, 2],
     Script_ty_args = [currency'],
     Script_args = [TransactionArgument_U64 sliding_nonce', TransactionArgument_U64 new_exchange_rate_numerator', TransactionArgument_U64 new_exchange_rate_denominator']\<rparr>"

definition encode_update_exchange_rate_script_function :: "TypeTag \<Rightarrow> u64 \<Rightarrow> u64 \<Rightarrow> u64 \<Rightarrow> TransactionPayload result" where
  "encode_update_exchange_rate_script_function currency' sliding_nonce' new_exchange_rate_numerator' new_exchange_rate_denominator' = script_function_payload
     ''TreasuryComplianceScripts'' ''update_exchange_rate''
     [currency']
     [bcsSerialize serialize_u64 sliding_nonce',
      bcsSerialize serialize_u64 new_exchange_rate_numerator',
      bcsSerialize serialize_u64 new_exchange_rate_denominator']"

definition encode_update_minting_ability_script :: "TypeTag \<Rightarrow> bool \<Rightarrow> Script" where
  "encode_update_minting_ability_script currency' allow_minting' = \<lparr>
     Script_code =
       [161, 28, 235, 11, 1, 0, 0, 0, 6, 1, 0, 2, 3, 2, 6, 4, 8, 2, 5, 10, 8, 7, 18, 28, 8, 46, 16,
        0, 0, 0, 1, 0, 1, 1, 1, 0, 2, 2, 6, 12, 1, 0, 1, 9, 0, 4, 68, 105, 101, 109, 22, 117, 112,
        100, 97, 116, 101, 95, 109, 105, 110, 116, 105, 110, 103, 95, 97, 98, 105, 108, 105, 116, 121,
        0, 0, 0, 0, 0, 0, 0, 0, 0, 0, 0, 0, 0, 0, 0, 1, 1, 1, 0, 1, 4, 11, 0, 10, 1, 56, 0, 2],
     Script_ty_args = [currency'],
     Script_args = [TransactionArgument_Bool allow_minting']\<rparr>"

definition encode_update_minting_ability_script_function :: "TypeTag \<Rightarrow> bool \<Rightarrow> TransactionPayload result" where
  "encode_update_minting_ability_script_function currency' allow_minting' = script_function_payload
     ''TreasuryComplianceScripts'' ''update_minting_ability''
     [currency']
     [bcsSerialize serialize_bool allow_minting']"

section \<open>What a payload determines\<close>

lemma eval_args_Inr: "eval_args (map Inr bss) = Inr bss"
  by (induction bss) simp_all

lemma eval_args_iff: "eval_args rs = Inr bss \<longleftrightarrow> rs = map Inr bss"
proof
  show "eval_args rs = Inr bss \<Longrightarrow> rs = map Inr bss"
    by (induction rs arbitrary: bss) (auto split: sum.splits)
qed (simp add: eval_args_Inr)

lemma script_function_payload_inj:
  assumes "script_function_payload m f tys args = Inr p" and "script_function_payload m' f' tys' args' = Inr p"
  shows "m = m' \<and> f = f' \<and> tys = tys' \<and> args = args'"
  using assms by (auto simp: script_function_payload_def eval_args_iff split: sum.splits dest: str_inj)

lemma script_function_payload_args:
  "script_function_payload m f tys args = Inr p \<Longrightarrow> \<exists>bss. args = map Inr bss"
  by (auto simp: script_function_payload_def eval_args_iff split: sum.splits)

text \<open>The arguments of the builders, as messages.\<close>

lemma bcsSerialize_u64: "bcsSerialize serialize_u64 v = Inr (le_split 8 v)"
  by (simp add: u64_codec.bcsSerialize_iff doc_word_def)

lemma bcsSerialize_bytes_iff:
  "bcsSerialize (serialize_vector serialize_u8) bs = Inr m \<longleftrightarrow>
     length bs \<le> max_length \<and> m = uleb128 (length bs) @ bs"
proof -
  have "concat (map (\<lambda>b. [b]) bs) = bs" by (induction bs) simp_all
  then show ?thesis
    by (auto simp: u8_vector_codec.bcsSerialize_iff doc_vector_def doc_u8_def list_all_iff comp_def
        max_list_le_iff)
qed


end
