(* ===== verification/Coroutine.thy ===== *)
theory Coroutine
  imports Prelude
begin

text \<open>
  \<open>src/cpp/sdk/include/co_helper.hpp\<close>: the coroutine type \<open>Task\<close> that every awaitable operation returns.

  A task is a coroutine with a promise. It starts at once, and from its first suspension on it runs on
  the thread that completes the HTTP request it waits for, while the coroutine that awaits it runs
  on another: the accesses of the two to the promise interleave. A step of the model is one such
  access; \<open>task_run\<close> executes a schedule, which says whose turn it is. \<open>Task<void>\<close> has the same code with the
  type \<open>unit\<close> for its value.
\<close>

section \<open>The state of a task\<close>

text \<open>
  How far the task has come: its body is running; the value or the exception is in the promise;
  \<open>final_suspend\<close> has looked at \<open>_prev\<close>; the coroutine is destroyed, with its promise, because
  \<open>final_suspend\<close> returns \<open>std::suspend_never\<close>.
\<close>

datatype callee = Running | Returned | Finishing | Destroyed

text \<open>
  How far the coroutine has come that awaits the task: it has not reached \<open>co_await\<close>; \<open>await_ready\<close> has
  said no; its handle is in \<open>_prev\<close>; it goes on and will call \<open>await_resume\<close>; it has got the value, or
  the exception is rethrown to it. \<open>Dangling\<close> means it has written to a promise that is no more, or has
  been resumed without being suspended.
\<close>

datatype 'a awaiter = Before_await | Not_ready | Suspended | Resumed | Got "'a result" | Dangling

text \<open>
  \<open>future\<close> is the shared state of promise and future, which outlives the promise; \<open>prev\<close> says whether
  \<open>_prev\<close> holds the handle of the awaiter.
\<close>

record 'a task =
  future :: "'a result option"
  prev :: bool
  callee_state :: callee
  awaiter_state :: "'a awaiter"

definition get_return_object :: "'a task" where
  "get_return_object = \<lparr>future = None, prev = False, callee_state = Running, awaiter_state = Before_await\<rparr>"

section \<open>The promise\<close>

definition return_value :: "'a \<Rightarrow> 'a task \<Rightarrow> 'a task" where
  "return_value v t = t\<lparr>future := Some (Inr v), callee_state := Returned\<rparr>"

definition unhandled_exception :: "exn \<Rightarrow> 'a task \<Rightarrow> 'a task" where
  "unhandled_exception e t = t\<lparr>future := Some (Inl e), callee_state := Returned\<rparr>"

text \<open>\<open>_prev.resume()\<close> continues the awaiter, if there is one; it must be suspended.\<close>

definition final_suspend :: "'a task \<Rightarrow> 'a task" where
  "final_suspend t =
     (if prev t
      then t\<lparr>callee_state := Finishing,
             awaiter_state := (if awaiter_state t = Suspended then Resumed else Dangling)\<rparr>
      else t\<lparr>callee_state := Finishing\<rparr>)"

definition task_destroy :: "'a task \<Rightarrow> 'a task" where
  "task_destroy t = t\<lparr>callee_state := Destroyed\<rparr>"

text \<open>The next step of a task whose body has the given outcome.\<close>

definition callee_step :: "'a result \<Rightarrow> 'a task \<Rightarrow> 'a task" where
  "callee_step outcome t =
     (case callee_state t of
        Running \<Rightarrow> (case outcome of Inr v \<Rightarrow> return_value v t | Inl e \<Rightarrow> unhandled_exception e t)
      | Returned \<Rightarrow> final_suspend t
      | Finishing \<Rightarrow> task_destroy t
      | Destroyed \<Rightarrow> t)"

section \<open>The awaiter\<close>

definition await_ready :: "'a task \<Rightarrow> bool" where
  "await_ready t \<longleftrightarrow> future t \<noteq> None"

definition await_suspend :: "'a task \<Rightarrow> 'a task" where
  "await_suspend t =
     (if callee_state t = Destroyed then t\<lparr>awaiter_state := Dangling\<rparr>
      else t\<lparr>prev := True, awaiter_state := Suspended\<rparr>)"

text \<open>\<open>future::get\<close> blocks until there is a value.\<close>

definition await_resume :: "'a task \<Rightarrow> 'a task" where
  "await_resume t = (case future t of None \<Rightarrow> t | Some r \<Rightarrow> t\<lparr>awaiter_state := Got r\<rparr>)"

definition awaiter_step :: "'a task \<Rightarrow> 'a task" where
  "awaiter_step t =
     (case awaiter_state t of
        Before_await \<Rightarrow> t\<lparr>awaiter_state := (if await_ready t then Resumed else Not_ready)\<rparr>
      | Not_ready \<Rightarrow> await_suspend t
      | Resumed \<Rightarrow> await_resume t
      | _ \<Rightarrow> t)"

section \<open>Schedules\<close>

datatype thread = Callee | Awaiter

fun task_step :: "'a result \<Rightarrow> thread \<Rightarrow> 'a task \<Rightarrow> 'a task" where
  "task_step outcome Callee t = callee_step outcome t"
| "task_step outcome Awaiter t = awaiter_step t"

definition task_run :: "'a result \<Rightarrow> thread list \<Rightarrow> 'a task \<Rightarrow> 'a task" where
  "task_run outcome schedule = fold (task_step outcome) schedule"

text \<open>
  The same when nothing comes between \<open>await_ready\<close> and \<open>await_suspend\<close>, as it is when one thread does
  everything.
\<close>

fun atomic_step :: "'a result \<Rightarrow> thread \<Rightarrow> 'a task \<Rightarrow> 'a task" where
  "atomic_step outcome Callee t = callee_step outcome t"
| "atomic_step outcome Awaiter t =
     (let t' = awaiter_step t in if awaiter_state t' = Not_ready then awaiter_step t' else t')"

definition task_run_atomic :: "'a result \<Rightarrow> thread list \<Rightarrow> 'a task \<Rightarrow> 'a task" where
  "task_run_atomic outcome schedule = fold (atomic_step outcome) schedule"

lemmas task_defs = callee_step_def return_value_def unhandled_exception_def final_suspend_def task_destroy_def
  awaiter_step_def await_ready_def await_suspend_def await_resume_def

section \<open>Safety under every schedule\<close>

text \<open>
  The future is set exactly when the body has ended, to its outcome; the awaiter goes on only
  afterwards, and what it gets is the outcome.
\<close>

definition task_ok :: "'a result \<Rightarrow> 'a task \<Rightarrow> bool" where
  "task_ok outcome t \<longleftrightarrow>
     future t = (if callee_state t = Running then None else Some outcome) \<and>
     (awaiter_state t = Resumed \<longrightarrow> future t = Some outcome) \<and>
     (\<forall>r. awaiter_state t = Got r \<longrightarrow> r = outcome \<and> future t = Some outcome) \<and>
     (prev t \<longrightarrow> awaiter_state t \<notin> {Before_await, Not_ready, Dangling}) \<and>
     (prev t \<and> callee_state t \<in> {Running, Returned} \<longrightarrow> awaiter_state t = Suspended) \<and>
     (awaiter_state t = Suspended \<longrightarrow> prev t) \<and>
     (awaiter_state t = Dangling \<longrightarrow> callee_state t = Destroyed)"

lemma task_ok_initial: "task_ok outcome get_return_object"
  by (simp add: task_ok_def get_return_object_def)

lemma task_ok_callee: "task_ok outcome t \<Longrightarrow> task_ok outcome (callee_step outcome t)"
  by (cases "callee_state t"; cases outcome) (auto simp: task_ok_def task_defs)

lemma task_ok_awaiter: "task_ok outcome t \<Longrightarrow> task_ok outcome (awaiter_step t)"
  by (cases "awaiter_state t") (auto simp: task_ok_def task_defs split: option.splits)

lemma task_ok_step: "task_ok outcome t \<Longrightarrow> task_ok outcome (task_step outcome th t)"
  by (cases th) (simp_all add: task_ok_callee task_ok_awaiter)

lemma task_ok_run: "task_ok outcome t \<Longrightarrow> task_ok outcome (task_run outcome schedule t)"
  unfolding task_run_def by (induction schedule arbitrary: t) (simp_all add: task_ok_step)

section \<open>Every awaiter goes on when awaiting is atomic\<close>

definition atomic_ok :: "'a result \<Rightarrow> 'a task \<Rightarrow> bool" where
  "atomic_ok outcome t \<longleftrightarrow>
     task_ok outcome t \<and> awaiter_state t \<notin> {Not_ready, Dangling} \<and>
     (awaiter_state t = Suspended \<longrightarrow> callee_state t \<in> {Running, Returned})"

lemma atomic_ok_initial: "atomic_ok outcome get_return_object"
  by (simp add: atomic_ok_def task_ok_initial) (simp add: get_return_object_def)

lemma atomic_ok_step:
  assumes "atomic_ok outcome t"
  shows "atomic_ok outcome (atomic_step outcome th t)"
proof -
  let ?t = "atomic_step outcome th t"
  from assms have ok: "task_ok outcome t" by (simp add: atomic_ok_def)
  then have "task_ok outcome ?t" by (cases th) (simp_all add: Let_def task_ok_callee task_ok_awaiter)
  moreover have "awaiter_state ?t \<notin> {Not_ready, Dangling} \<and>
      (awaiter_state ?t = Suspended \<longrightarrow> callee_state ?t \<in> {Running, Returned})"
    using assms
    by (cases th; cases "awaiter_state t"; cases "callee_state t"; cases outcome)
      (simp_all add: atomic_ok_def task_ok_def task_defs Let_def)
  ultimately show ?thesis by (simp add: atomic_ok_def)
qed

lemma atomic_ok_run: "atomic_ok outcome t \<Longrightarrow> atomic_ok outcome (task_run_atomic outcome schedule t)"
  unfolding task_run_atomic_def by (induction schedule arbitrary: t) (simp_all add: atomic_ok_step)

text \<open>What is left to do; a step does some of it, or nothing at all.\<close>

fun callee_work :: "callee \<Rightarrow> nat" where
  "callee_work Running = 3"
| "callee_work Returned = 2"
| "callee_work Finishing = 1"
| "callee_work Destroyed = 0"

fun awaiter_work :: "'a awaiter \<Rightarrow> nat" where
  "awaiter_work Before_await = 3"
| "awaiter_work Suspended = 2"
| "awaiter_work Resumed = 1"
| "awaiter_work _ = 0"

definition task_work :: "'a task \<Rightarrow> nat" where
  "task_work t = callee_work (callee_state t) + awaiter_work (awaiter_state t)"

lemma atomic_step_work:
  assumes "atomic_ok outcome t"
  shows "atomic_step outcome th t = t \<or> task_work (atomic_step outcome th t) < task_work t"
  using assms
  by (cases th; cases "awaiter_state t"; cases "callee_state t"; cases outcome)
    (auto simp: atomic_ok_def task_ok_def task_defs task_work_def Let_def)

lemma run_atomic_work:
  assumes "atomic_ok outcome t"
  shows "(task_run_atomic outcome xs t = t \<and> (\<forall>th \<in> set xs. atomic_step outcome th t = t)) \<or>
    task_work (task_run_atomic outcome xs t) < task_work t"
  using assms
proof (induction xs arbitrary: t)
  case (Cons th xs)
  let ?t = "atomic_step outcome th t"
  have task_run: "task_run_atomic outcome (th # xs) t = task_run_atomic outcome xs ?t" by (simp add: task_run_atomic_def)
  from Cons.IH [OF atomic_ok_step [OF Cons.prems], of th] atomic_step_work [OF Cons.prems, of th]
  show ?case unfolding task_run by auto
qed (simp add: task_run_atomic_def)

text \<open>Nobody can move: then the task is gone and the awaiter has its outcome.\<close>

lemma atomic_end:
  assumes "atomic_ok outcome t" and "atomic_step outcome Callee t = t" and "atomic_step outcome Awaiter t = t"
  shows "task_work t = 0" and "awaiter_state t = Got outcome"
proof -
  from assms(2) have d: "callee_state t = Destroyed"
    by (cases "callee_state t"; cases outcome) (auto simp: task_defs split: if_splits dest: arg_cong [of _ t callee_state])
  with assms(1) have f: "future t = Some outcome" by (simp add: atomic_ok_def task_ok_def)
  with assms(1,3) d show "awaiter_state t = Got outcome"
    by (cases "awaiter_state t")
      (auto simp: atomic_ok_def task_ok_def task_defs Let_def dest: arg_cong [of _ t awaiter_state])
  with d show "task_work t = 0" by (simp add: task_work_def)
qed

lemma atomic_round:
  assumes "atomic_ok outcome t" and "set xs = {Callee, Awaiter}"
  shows "task_work (task_run_atomic outcome xs t) \<le> task_work t - 1"
  using run_atomic_work [OF assms(1), of xs] atomic_end(1) [OF assms(1)] assms(2) by auto

lemma atomic_rounds:
  assumes "atomic_ok outcome t" and "\<forall>xs \<in> set rounds. set xs = {Callee, Awaiter}"
  shows "task_work (task_run_atomic outcome (concat rounds) t) \<le> task_work t - length rounds"
  using assms
proof (induction rounds arbitrary: t)
  case (Cons xs rounds)
  have "task_work (task_run_atomic outcome (concat rounds) (task_run_atomic outcome xs t)) \<le> task_work (task_run_atomic outcome xs t) - length rounds"
    using Cons.prems by (intro Cons.IH atomic_ok_run) auto
  moreover have "task_work (task_run_atomic outcome xs t) \<le> task_work t - 1" using Cons.prems by (intro atomic_round) auto
  ultimately show ?case by (simp add: task_run_atomic_def)
qed (simp add: task_run_atomic_def)

lemma work_done: "atomic_ok outcome t \<Longrightarrow> task_work t = 0 \<Longrightarrow> awaiter_state t = Got outcome"
  by (cases "awaiter_state t") (auto simp: atomic_ok_def task_ok_def task_work_def)

section \<open>What goes wrong when it is not\<close>

text \<open>The task looks for an awaiter before the awaiter has said that it waits: nobody resumes it.\<close>

definition forgotten :: "'a task \<Rightarrow> bool" where
  "forgotten t \<longleftrightarrow> callee_state t \<in> {Finishing, Destroyed} \<and> awaiter_state t = Suspended"

lemma forgotten_step: "forgotten t \<Longrightarrow> forgotten (task_step outcome th t)"
  by (cases th) (auto simp: forgotten_def task_defs)

lemma forgotten_run: "forgotten t \<Longrightarrow> forgotten (task_run outcome schedule t)"
  unfolding task_run_def by (induction schedule arbitrary: t) (simp_all add: forgotten_step)

lemma task_run_append: "task_run outcome (xs @ ys) t = task_run outcome ys (task_run outcome xs t)"
  by (simp add: task_run_def)

lemma lost_wake_up: "forgotten (task_run outcome [Awaiter, Callee, Callee, Awaiter] get_return_object)"
  by (cases outcome) (simp_all add: task_run_def forgotten_def get_return_object_def task_defs)

lemma dangling_promise:
  "awaiter_state (task_run outcome [Awaiter, Callee, Callee, Callee, Awaiter] get_return_object) = Dangling"
  by (cases outcome) (simp_all add: task_run_def get_return_object_def task_defs)

end
