(* ===== verification/Utils.thy ===== *)
theory Utils
  imports Prelude
begin

text \<open>
  \<open>src/cpp/sdk/include/utils.hpp\<close>: hexadecimal text and trimming.

  Text is a list of bytes (\<open>cstring\<close>), as in \<open>std::string\<close>. The parsers hand two characters to a
  \<open>std::stringstream\<close> and extract an unsigned short in base 16: \<open>extract_hex\<close> is that extraction
  on at most two characters, with everything \<open>std::num_get\<close> does to them (leading blanks are skipped,
  a sign and the prefix \<open>0x\<close> are part of a number, the number ends at the first character that is
  not a digit, nothing extracted gives 0).
\<close>

section \<open>Characters\<close>

definition is_space :: "u8 \<Rightarrow> bool" where
  "is_space c \<longleftrightarrow> c = 0x20 \<or> (0x09 \<le> c \<and> c \<le> 0x0D)"

definition hex_value :: "u8 \<Rightarrow> nat option" where
  "hex_value c =
     (if 0x30 \<le> c \<and> c \<le> 0x39 then Some (unat c - 0x30)
      else if 0x61 \<le> c \<and> c \<le> 0x66 then Some (unat c - 0x61 + 10)
      else if 0x41 \<le> c \<and> c \<le> 0x46 then Some (unat c - 0x41 + 10)
      else None)"

definition hex_digit :: "nat \<Rightarrow> u8" where
  "hex_digit n = (if n < 10 then of_nat (0x30 + n) else of_nat (0x61 + (n - 10)))"

text \<open>\<open>ss >> std::hex >> byte\<close> for \<open>uint16_t byte\<close>, when the stream holds the given characters.\<close>

fun extract_hex :: "cstring \<Rightarrow> u16" where
  "extract_hex [] = 0"
| "extract_hex [a] = (case hex_value a of Some v \<Rightarrow> of_nat v | None \<Rightarrow> 0)"
| "extract_hex (a # b # cs) =
     (if is_space a then extract_hex [b]
      else if a = 0x2B \<or> a = 0x2D then
        (case hex_value b of
           Some v \<Rightarrow> (if a = 0x2D then - of_nat v else of_nat v)
         | None \<Rightarrow> 0)
      else
        (case hex_value a of
           None \<Rightarrow> 0
         | Some v \<Rightarrow> (case hex_value b of Some w \<Rightarrow> of_nat (16 * v + w) | None \<Rightarrow> of_nat v)))"

section \<open>Hexadecimal text\<close>

text \<open>
  \<open>hex_to_bytes\<close> moves its iterator by two without looking at the end: with an odd number of
  characters it steps over the end, which has no defined behaviour; neither has looking for the prefix
  in a string of fewer than two characters that starts with \<open>0\<close>, or in the empty string.
\<close>

fun hex_to_bytes_loop :: "cstring \<Rightarrow> u8 list result" where
  "hex_to_bytes_loop [] = Inr []"
| "hex_to_bytes_loop [a] = Inl (Undefined_behaviour ''iterator past the end'')"
| "hex_to_bytes_loop (a # b # cs) =
     (case hex_to_bytes_loop cs of Inl e \<Rightarrow> Inl e | Inr bs \<Rightarrow> Inr (ucast (extract_hex [a, b]) # bs))"

definition hex_to_bytes :: "cstring \<Rightarrow> u8 list result" where
  "hex_to_bytes s =
     (if s = [] \<or> s = [0x30] then Inl (Undefined_behaviour ''iterator past the end'')
      else if take 2 s = [0x30, 0x78] then hex_to_bytes_loop (drop 2 s)
      else hex_to_bytes_loop s)"

definition bytes_to_hex :: "u8 list \<Rightarrow> cstring" where
  "bytes_to_hex bs = concat (map (\<lambda>v. [hex_digit (unat v div 16), hex_digit (unat v mod 16)]) bs)"

definition string_at :: "cstring \<Rightarrow> nat \<Rightarrow> u8 result" where
  "string_at s i = (if i < length s then Inr (s ! i) else Inl (Out_of_range ''basic_string_view::at''))"

fun hex_to_array_loop :: "cstring \<Rightarrow> nat \<Rightarrow> nat \<Rightarrow> u8 list result" where
  "hex_to_array_loop hex i 0 = Inr []"
| "hex_to_array_loop hex i (Suc n) =
     (case string_at hex (i * 2) of
        Inl e \<Rightarrow> Inl e
      | Inr a \<Rightarrow>
          (case string_at hex (i * 2 + 1) of
             Inl e \<Rightarrow> Inl e
           | Inr b \<Rightarrow>
               (case hex_to_array_loop hex (i + 1) n of
                  Inl e \<Rightarrow> Inl e
                | Inr bs \<Rightarrow> Inr (ucast (extract_hex [a, b]) # bs))))"

definition hex_to_array_u8 :: "nat \<Rightarrow> cstring \<Rightarrow> u8 list result" where
  "hex_to_array_u8 N hex =
     (if length hex < N
      then Inl (Runtime_error ''hex_to_array_u8 error, the length of hex is less than the size of array'')
      else hex_to_array_loop hex 0 N)"

text \<open>
  \<open>operator>>(const std::string &, std::array<uint8_t, N> &)\<close>: \<open>str.substr(x, 2)\<close> throws when \<open>x\<close>
  is past the end; at the end it is empty, and the extraction fails and ends the loop.
\<close>

definition extraction_fails :: "cstring \<Rightarrow> bool" where
  "extraction_fails cs \<longleftrightarrow>
     (case dropWhile is_space cs of
        [] \<Rightarrow> True
      | [a] \<Rightarrow> hex_value a = None
      | a # b # _ \<Rightarrow> (if a = 0x2B \<or> a = 0x2D then hex_value b = None
                      else hex_value a = None \<or> (a = 0x30 \<and> (b = 0x78 \<or> b = 0x58))))"

function string_to_array_loop :: "cstring \<Rightarrow> nat \<Rightarrow> nat \<Rightarrow> u8 list \<Rightarrow> u8 list result" where
  "string_to_array_loop s i x arr =
     (if i < length s \<and> i < length arr then
        (if x > length s then Inl (Out_of_range ''basic_string::substr'')
         else let sub = take 2 (drop x s)
              in if extraction_fails sub then Inr arr
                 else string_to_array_loop s (i + 1) (x + 2) (arr[i := ucast (extract_hex sub)]))
      else Inr arr)"
  by pat_completeness auto
termination
  by (relation "measure (\<lambda>(s, i, x, arr). length arr - i)") auto

declare string_to_array_loop.simps [simp del]

definition string_to_array :: "cstring \<Rightarrow> u8 list \<Rightarrow> u8 list result" where
  "string_to_array s arr = string_to_array_loop s 0 0 arr"

section \<open>Trimming\<close>

definition trim_left :: "cstring \<Rightarrow> cstring" where
  "trim_left s = dropWhile is_space s"

definition trim_right :: "cstring \<Rightarrow> cstring" where
  "trim_right s = rev (dropWhile is_space (rev s))"

definition trim :: "cstring \<Rightarrow> cstring" where
  "trim s = trim_left (trim_right s)"

section \<open>Round trips\<close>

lemma hex_value_digit: "n < 16 \<Longrightarrow> hex_value (hex_digit n) = Some n"
  by (auto simp: hex_value_def hex_digit_def word_le_nat_alt unat_of_nat simp del: of_nat_add)

lemma hex_digit_plain:
  "n < 16 \<Longrightarrow> \<not> is_space (hex_digit n)" "n < 16 \<Longrightarrow> hex_digit n \<noteq> 0x2B"
  "n < 16 \<Longrightarrow> hex_digit n \<noteq> 0x2D" "n < 16 \<Longrightarrow> hex_digit n \<noteq> 0x78"
  by (auto simp: is_space_def hex_digit_def word_le_nat_alt word_unat_eq_iff unat_of_nat simp del: of_nat_add)

declare extract_hex.simps(3) [simp del]

lemma extract_hex_digits:
  fixes v :: u8
  shows "ucast (extract_hex [hex_digit (unat v div 16), hex_digit (unat v mod 16)]) = v"
proof -
  have "unat v div 16 < 16" using unat_u8_less [of v] by (simp add: less_mult_imp_div_less)
  moreover have "unat v mod 16 < 16" by simp
  ultimately have "extract_hex [hex_digit (unat v div 16), hex_digit (unat v mod 16)] =
      of_nat (16 * (unat v div 16) + unat v mod 16)"
    by (simp add: extract_hex.simps(3) hex_value_digit hex_digit_plain del: of_nat_add of_nat_mult)
  also have "\<dots> = of_nat (unat v)" by simp
  finally have "extract_hex [hex_digit (unat v div 16), hex_digit (unat v mod 16)] = ucast v" by simp
  moreover have "ucast (ucast v :: u16) = v" by (rule bit_word_eqI) (simp add: bit_simps)
  ultimately show ?thesis by simp
qed

lemma hex_to_bytes_loop_hex: "hex_to_bytes_loop (bytes_to_hex bs) = Inr bs"
  by (induction bs) (simp_all add: bytes_to_hex_def extract_hex_digits)

lemma bytes_to_hex_shape:
  "bytes_to_hex bs = [] \<longleftrightarrow> bs = []" "bytes_to_hex bs \<noteq> [c]" "take 2 (bytes_to_hex bs) \<noteq> [0x30, 0x78]"
  by (cases bs; simp add: bytes_to_hex_def hex_digit_plain)+

lemma bytes_to_hex_digits: "set (bytes_to_hex bs) \<subseteq> set (str ''0123456789abcdef'')"
proof -
  have digit: "hex_digit n \<in> set (str ''0123456789abcdef'')" if "n < 16" for n
  proof -
    from that have "n \<in> set [0..<16]" by simp
    then show ?thesis by (auto simp: upt_conv_Cons hex_digit_def str_def)
  qed
  show ?thesis
    unfolding bytes_to_hex_def using digit unat_u8_less by (auto simp: less_mult_imp_div_less)
qed

lemma hex_to_bytes_hex: "bs \<noteq> [] \<Longrightarrow> hex_to_bytes (bytes_to_hex bs) = Inr bs"
  by (simp add: hex_to_bytes_def bytes_to_hex_shape hex_to_bytes_loop_hex)

lemma hex_to_bytes_prefixed: "hex_to_bytes (0x30 # 0x78 # bytes_to_hex bs) = Inr bs"
  by (simp add: hex_to_bytes_def hex_to_bytes_loop_hex)

lemma hex_to_bytes_loop_length:
  "(\<exists>bs. hex_to_bytes_loop s = Inr bs) \<longleftrightarrow> even (length s)"
  "hex_to_bytes_loop s = Inr bs \<Longrightarrow> length s = 2 * length bs"
  by (induction s arbitrary: bs rule: hex_to_bytes_loop.induct) (auto split: sum.splits)

text \<open>The array parser reads the first \<open>2 * N\<close> digits and throws on a string that is shorter.\<close>

lemma length_bytes_to_hex [simp]: "length (bytes_to_hex bs) = 2 * length bs"
  by (induction bs) (simp_all add: bytes_to_hex_def)

lemma nth_bytes_to_hex:
  "i < length bs \<Longrightarrow> (bytes_to_hex bs @ rest) ! (2 * i) = hex_digit (unat (bs ! i) div 16)"
  "i < length bs \<Longrightarrow> (bytes_to_hex bs @ rest) ! Suc (2 * i) = hex_digit (unat (bs ! i) mod 16)"
proof (induction bs arbitrary: i)
  case (Cons b bs)
  { case 1 with Cons.IH(1) [of "i - 1"] show ?case
      by (cases i) (simp_all add: bytes_to_hex_def) }
  { case 2 with Cons.IH(2) [of "i - 1"] show ?case
      by (cases i) (simp_all add: bytes_to_hex_def) }
qed simp_all

lemma hex_to_array_loop_hex:
  "i + n \<le> length bs \<Longrightarrow> hex_to_array_loop (bytes_to_hex bs @ rest) i n = Inr (take n (drop i bs))"
proof (induction n arbitrary: i)
  case (Suc n)
  then have i: "i < length bs" by simp
  with Suc.IH [of "Suc i"] Suc.prems show ?case
    by (simp add: string_at_def mult.commute [of _ 2] nth_bytes_to_hex extract_hex_digits
        take_Suc_conv_app_nth Cons_nth_drop_Suc [symmetric])
qed simp

lemma hex_to_array_u8_hex:
  "length bs = N \<Longrightarrow> hex_to_array_u8 N (bytes_to_hex bs @ rest) = Inr bs"
  by (simp add: hex_to_array_u8_def hex_to_array_loop_hex)

lemma hex_to_array_loop_short:
  "length hex < 2 * (i + n) \<Longrightarrow> 0 < n \<Longrightarrow> 2 * i \<le> length hex \<Longrightarrow>
     hex_to_array_loop hex i n = Inl (Out_of_range ''basic_string_view::at'')"
proof (induction n arbitrary: i)
  case (Suc n)
  show ?case
  proof (cases "2 * i + 1 < length hex")
    case True
    with Suc.prems have "0 < n" by (cases n) auto
    with True Suc show ?thesis by (simp add: string_at_def)
  qed (use Suc.prems in \<open>auto simp: string_at_def\<close>)
qed simp

section \<open>Trimming\<close>

lemma dropWhile_suffix: "dropWhile P xs = drop (length (takeWhile P xs)) xs"
  by (induction xs) simp_all

lemma last_dropWhile: "dropWhile P xs \<noteq> [] \<Longrightarrow> last (dropWhile P xs) = last xs"
  by (simp add: dropWhile_suffix last_drop)

lemma trim_ends:
  assumes "trim s \<noteq> []"
  shows "\<not> is_space (hd (trim s))" and "\<not> is_space (last (trim s))"
proof -
  let ?r = "dropWhile is_space (rev s)"
  have t: "trim s = dropWhile is_space (rev ?r)" by (simp add: trim_def trim_left_def trim_right_def)
  with assms have ne: "dropWhile is_space (rev ?r) \<noteq> []" by simp
  then have "?r \<noteq> []" by (metis dropWhile.simps(1) rev.simps(1))
  with ne show "\<not> is_space (hd (trim s))" "\<not> is_space (last (trim s))"
    using hd_dropWhile [of is_space "rev ?r"] hd_dropWhile [of is_space "rev s"]
    by (simp_all add: t last_dropWhile last_rev)
qed

lemma trim_split: "\<exists>as bs. s = as @ trim s @ bs \<and> list_all is_space as \<and> list_all is_space bs"
proof -
  let ?r = "dropWhile is_space (rev s)"
  have "rev s = takeWhile is_space (rev s) @ ?r" by simp
  then have "s = rev ?r @ rev (takeWhile is_space (rev s))" by (metis rev_append rev_rev_ident)
  moreover have "rev ?r = takeWhile is_space (rev ?r) @ trim s"
    by (simp add: trim_def trim_left_def trim_right_def)
  ultimately have "s = takeWhile is_space (rev ?r) @ trim s @ rev (takeWhile is_space (rev s))"
    by (metis append.assoc)
  moreover have "list_all is_space (takeWhile is_space (rev ?r))"
    "list_all is_space (rev (takeWhile is_space (rev s)))"
    by (auto simp: list_all_iff dest: set_takeWhileD)
  ultimately show ?thesis by blast
qed

end
