(* ===== verification/Mnemonic.thy ===== *)
theory Mnemonic
  imports Utils "HOL-Library.List_Lexorder"
begin

text \<open>
  \<open>src/cpp/sdk/src/mnemonic.hpp\<close>: the 2048 words of a mnemonic, and how the wallet looks a word up
  (\<open>std::lower_bound\<close>) and splits a text into words (\<open>std::istream_iterator<std::string>\<close>).

  The lemmas show that the words are strictly ascending and free of blanks, so that the binary search
  finds every word at its own position, and what it finds for a text that is not a word.
\<close>

section \<open>The words\<close>

text \<open>\<open>static const char *WORDS[2048]\<close>.\<close>

definition WORDS :: "string list" where
  "WORDS =
     [''abandon'', ''ability'', ''able'', ''about'', ''above'', ''absent'', ''absorb'',
      ''abstract'', ''absurd'', ''abuse'', ''access'', ''accident'', ''account'', ''accuse'',
      ''achieve'', ''acid'', ''acoustic'', ''acquire'', ''across'', ''act'', ''action'',
      ''actor'', ''actress'', ''actual'', ''adapt'', ''add'', ''addict'', ''address'',
      ''adjust'', ''admit'', ''adult'', ''advance'', ''advice'', ''aerobic'', ''affair'',
      ''afford'', ''afraid'', ''again'', ''age'', ''agent'', ''agree'', ''ahead'', ''aim'',
      ''air'', ''airport'', ''aisle'', ''alarm'', ''album'', ''alcohol'', ''alert'', ''alien'',
      ''all'', ''alley'', ''allow'', ''almost'', ''alone'', ''alpha'', ''already'', ''also'',
      ''alter'', ''always'', ''amateur'', ''amazing'', ''among'', ''amount'', ''amused'',
      ''analyst'', ''anchor'', ''ancient'', ''anger'', ''angle'', ''angry'', ''animal'',
      ''ankle'', ''announce'', ''annual'', ''another'', ''answer'', ''antenna'', ''antique'',
      ''anxiety'', ''any'', ''apart'', ''apology'', ''appear'', ''apple'', ''approve'',
      ''april'', ''arch'', ''arctic'', ''area'', ''arena'', ''argue'', ''arm'', ''armed'',
      ''armor'', ''army'', ''around'', ''arrange'', ''arrest'', ''arrive'', ''arrow'', ''art'',
      ''artefact'', ''artist'', ''artwork'', ''ask'', ''aspect'', ''assault'', ''asset'',
      ''assist'', ''assume'', ''asthma'', ''athlete'', ''atom'', ''attack'', ''attend'',
      ''attitude'', ''attract'', ''auction'', ''audit'', ''august'', ''aunt'', ''author'',
      ''auto'', ''autumn'', ''average'', ''avocado'', ''avoid'', ''awake'', ''aware'', ''away'',
      ''awesome'', ''awful'', ''awkward'', ''axis'', ''baby'', ''bachelor'', ''bacon'',
      ''badge'', ''bag'', ''balance'', ''balcony'', ''ball'', ''bamboo'', ''banana'',
      ''banner'', ''bar'', ''barely'', ''bargain'', ''barrel'', ''base'', ''basic'', ''basket'',
      ''battle'', ''beach'', ''bean'', ''beauty'', ''because'', ''become'', ''beef'',
      ''before'', ''begin'', ''behave'', ''behind'', ''believe'', ''below'', ''belt'',
      ''bench'', ''benefit'', ''best'', ''betray'', ''better'', ''between'', ''beyond'',
      ''bicycle'', ''bid'', ''bike'', ''bind'', ''biology'', ''bird'', ''birth'', ''bitter'',
      ''black'', ''blade'', ''blame'', ''blanket'', ''blast'', ''bleak'', ''bless'', ''blind'',
      ''blood'', ''blossom'', ''blouse'', ''blue'', ''blur'', ''blush'', ''board'', ''boat'',
      ''body'', ''boil'', ''bomb'', ''bone'', ''bonus'', ''book'', ''boost'', ''border'',
      ''boring'', ''borrow'', ''boss'', ''bottom'', ''bounce'', ''box'', ''boy'', ''bracket'',
      ''brain'', ''brand'', ''brass'', ''brave'', ''bread'', ''breeze'', ''brick'', ''bridge'',
      ''brief'', ''bright'', ''bring'', ''brisk'', ''broccoli'', ''broken'', ''bronze'',
      ''broom'', ''brother'', ''brown'', ''brush'', ''bubble'', ''buddy'', ''budget'',
      ''buffalo'', ''build'', ''bulb'', ''bulk'', ''bullet'', ''bundle'', ''bunker'',
      ''burden'', ''burger'', ''burst'', ''bus'', ''business'', ''busy'', ''butter'', ''buyer'',
      ''buzz'', ''cabbage'', ''cabin'', ''cable'', ''cactus'', ''cage'', ''cake'', ''call'',
      ''calm'', ''camera'', ''camp'', ''can'', ''canal'', ''cancel'', ''candy'', ''cannon'',
      ''canoe'', ''canvas'', ''canyon'', ''capable'', ''capital'', ''captain'', ''car'',
      ''carbon'', ''card'', ''cargo'', ''carpet'', ''carry'', ''cart'', ''case'', ''cash'',
      ''casino'', ''castle'', ''casual'', ''cat'', ''catalog'', ''catch'', ''category'',
      ''cattle'', ''caught'', ''cause'', ''caution'', ''cave'', ''ceiling'', ''celery'',
      ''cement'', ''census'', ''century'', ''cereal'', ''certain'', ''chair'', ''chalk'',
      ''champion'', ''change'', ''chaos'', ''chapter'', ''charge'', ''chase'', ''chat'',
      ''cheap'', ''check'', ''cheese'', ''chef'', ''cherry'', ''chest'', ''chicken'', ''chief'',
      ''child'', ''chimney'', ''choice'', ''choose'', ''chronic'', ''chuckle'', ''chunk'',
      ''churn'', ''cigar'', ''cinnamon'', ''circle'', ''citizen'', ''city'', ''civil'',
      ''claim'', ''clap'', ''clarify'', ''claw'', ''clay'', ''clean'', ''clerk'', ''clever'',
      ''click'', ''client'', ''cliff'', ''climb'', ''clinic'', ''clip'', ''clock'', ''clog'',
      ''close'', ''cloth'', ''cloud'', ''clown'', ''club'', ''clump'', ''cluster'', ''clutch'',
      ''coach'', ''coast'', ''coconut'', ''code'', ''coffee'', ''coil'', ''coin'', ''collect'',
      ''color'', ''column'', ''combine'', ''come'', ''comfort'', ''comic'', ''common'',
      ''company'', ''concert'', ''conduct'', ''confirm'', ''congress'', ''connect'',
      ''consider'', ''control'', ''convince'', ''cook'', ''cool'', ''copper'', ''copy'',
      ''coral'', ''core'', ''corn'', ''correct'', ''cost'', ''cotton'', ''couch'', ''country'',
      ''couple'', ''course'', ''cousin'', ''cover'', ''coyote'', ''crack'', ''cradle'',
      ''craft'', ''cram'', ''crane'', ''crash'', ''crater'', ''crawl'', ''crazy'', ''cream'',
      ''credit'', ''creek'', ''crew'', ''cricket'', ''crime'', ''crisp'', ''critic'', ''crop'',
      ''cross'', ''crouch'', ''crowd'', ''crucial'', ''cruel'', ''cruise'', ''crumble'',
      ''crunch'', ''crush'', ''cry'', ''crystal'', ''cube'', ''culture'', ''cup'', ''cupboard'',
      ''curious'', ''current'', ''curtain'', ''curve'', ''cushion'', ''custom'', ''cute'',
      ''cycle'', ''dad'', ''damage'', ''damp'', ''dance'', ''danger'', ''daring'', ''dash'',
      ''daughter'', ''dawn'', ''day'', ''deal'', ''debate'', ''debris'', ''decade'',
      ''december'', ''decide'', ''decline'', ''decorate'', ''decrease'', ''deer'', ''defense'',
      ''define'', ''defy'', ''degree'', ''delay'', ''deliver'', ''demand'', ''demise'',
      ''denial'', ''dentist'', ''deny'', ''depart'', ''depend'', ''deposit'', ''depth'',
      ''deputy'', ''derive'', ''describe'', ''desert'', ''design'', ''desk'', ''despair'',
      ''destroy'', ''detail'', ''detect'', ''develop'', ''device'', ''devote'', ''diagram'',
      ''dial'', ''diamond'', ''diary'', ''dice'', ''diesel'', ''diet'', ''differ'', ''digital'',
      ''dignity'', ''dilemma'', ''dinner'', ''dinosaur'', ''direct'', ''dirt'', ''disagree'',
      ''discover'', ''disease'', ''dish'', ''dismiss'', ''disorder'', ''display'', ''distance'',
      ''divert'', ''divide'', ''divorce'', ''dizzy'', ''doctor'', ''document'', ''dog'',
      ''doll'', ''dolphin'', ''domain'', ''donate'', ''donkey'', ''donor'', ''door'', ''dose'',
      ''double'', ''dove'', ''draft'', ''dragon'', ''drama'', ''drastic'', ''draw'', ''dream'',
      ''dress'', ''drift'', ''drill'', ''drink'', ''drip'', ''drive'', ''drop'', ''drum'',
      ''dry'', ''duck'', ''dumb'', ''dune'', ''during'', ''dust'', ''dutch'', ''duty'',
      ''dwarf'', ''dynamic'', ''eager'', ''eagle'', ''early'', ''earn'', ''earth'', ''easily'',
      ''east'', ''easy'', ''echo'', ''ecology'', ''economy'', ''edge'', ''edit'', ''educate'',
      ''effort'', ''egg'', ''eight'', ''either'', ''elbow'', ''elder'', ''electric'',
      ''elegant'', ''element'', ''elephant'', ''elevator'', ''elite'', ''else'', ''embark'',
      ''embody'', ''embrace'', ''emerge'', ''emotion'', ''employ'', ''empower'', ''empty'',
      ''enable'', ''enact'', ''end'', ''endless'', ''endorse'', ''enemy'', ''energy'',
      ''enforce'', ''engage'', ''engine'', ''enhance'', ''enjoy'', ''enlist'', ''enough'',
      ''enrich'', ''enroll'', ''ensure'', ''enter'', ''entire'', ''entry'', ''envelope'',
      ''episode'', ''equal'', ''equip'', ''era'', ''erase'', ''erode'', ''erosion'', ''error'',
      ''erupt'', ''escape'', ''essay'', ''essence'', ''estate'', ''eternal'', ''ethics'',
      ''evidence'', ''evil'', ''evoke'', ''evolve'', ''exact'', ''example'', ''excess'',
      ''exchange'', ''excite'', ''exclude'', ''excuse'', ''execute'', ''exercise'', ''exhaust'',
      ''exhibit'', ''exile'', ''exist'', ''exit'', ''exotic'', ''expand'', ''expect'',
      ''expire'', ''explain'', ''expose'', ''express'', ''extend'', ''extra'', ''eye'',
      ''eyebrow'', ''fabric'', ''face'', ''faculty'', ''fade'', ''faint'', ''faith'', ''fall'',
      ''false'', ''fame'', ''family'', ''famous'', ''fan'', ''fancy'', ''fantasy'', ''farm'',
      ''fashion'', ''fat'', ''fatal'', ''father'', ''fatigue'', ''fault'', ''favorite'',
      ''feature'', ''february'', ''federal'', ''fee'', ''feed'', ''feel'', ''female'',
      ''fence'', ''festival'', ''fetch'', ''fever'', ''few'', ''fiber'', ''fiction'', ''field'',
      ''figure'', ''file'', ''film'', ''filter'', ''final'', ''find'', ''fine'', ''finger'',
      ''finish'', ''fire'', ''firm'', ''first'', ''fiscal'', ''fish'', ''fit'', ''fitness'',
      ''fix'', ''flag'', ''flame'', ''flash'', ''flat'', ''flavor'', ''flee'', ''flight'',
      ''flip'', ''float'', ''flock'', ''floor'', ''flower'', ''fluid'', ''flush'', ''fly'',
      ''foam'', ''focus'', ''fog'', ''foil'', ''fold'', ''follow'', ''food'', ''foot'',
      ''force'', ''forest'', ''forget'', ''fork'', ''fortune'', ''forum'', ''forward'',
      ''fossil'', ''foster'', ''found'', ''fox'', ''fragile'', ''frame'', ''frequent'',
      ''fresh'', ''friend'', ''fringe'', ''frog'', ''front'', ''frost'', ''frown'', ''frozen'',
      ''fruit'', ''fuel'', ''fun'', ''funny'', ''furnace'', ''fury'', ''future'', ''gadget'',
      ''gain'', ''galaxy'', ''gallery'', ''game'', ''gap'', ''garage'', ''garbage'', ''garden'',
      ''garlic'', ''garment'', ''gas'', ''gasp'', ''gate'', ''gather'', ''gauge'', ''gaze'',
      ''general'', ''genius'', ''genre'', ''gentle'', ''genuine'', ''gesture'', ''ghost'',
      ''giant'', ''gift'', ''giggle'', ''ginger'', ''giraffe'', ''girl'', ''give'', ''glad'',
      ''glance'', ''glare'', ''glass'', ''glide'', ''glimpse'', ''globe'', ''gloom'', ''glory'',
      ''glove'', ''glow'', ''glue'', ''goat'', ''goddess'', ''gold'', ''good'', ''goose'',
      ''gorilla'', ''gospel'', ''gossip'', ''govern'', ''gown'', ''grab'', ''grace'', ''grain'',
      ''grant'', ''grape'', ''grass'', ''gravity'', ''great'', ''green'', ''grid'', ''grief'',
      ''grit'', ''grocery'', ''group'', ''grow'', ''grunt'', ''guard'', ''guess'', ''guide'',
      ''guilt'', ''guitar'', ''gun'', ''gym'', ''habit'', ''hair'', ''half'', ''hammer'',
      ''hamster'', ''hand'', ''happy'', ''harbor'', ''hard'', ''harsh'', ''harvest'', ''hat'',
      ''have'', ''hawk'', ''hazard'', ''head'', ''health'', ''heart'', ''heavy'', ''hedgehog'',
      ''height'', ''hello'', ''helmet'', ''help'', ''hen'', ''hero'', ''hidden'', ''high'',
      ''hill'', ''hint'', ''hip'', ''hire'', ''history'', ''hobby'', ''hockey'', ''hold'',
      ''hole'', ''holiday'', ''hollow'', ''home'', ''honey'', ''hood'', ''hope'', ''horn'',
      ''horror'', ''horse'', ''hospital'', ''host'', ''hotel'', ''hour'', ''hover'', ''hub'',
      ''huge'', ''human'', ''humble'', ''humor'', ''hundred'', ''hungry'', ''hunt'', ''hurdle'',
      ''hurry'', ''hurt'', ''husband'', ''hybrid'', ''ice'', ''icon'', ''idea'', ''identify'',
      ''idle'', ''ignore'', ''ill'', ''illegal'', ''illness'', ''image'', ''imitate'',
      ''immense'', ''immune'', ''impact'', ''impose'', ''improve'', ''impulse'', ''inch'',
      ''include'', ''income'', ''increase'', ''index'', ''indicate'', ''indoor'', ''industry'',
      ''infant'', ''inflict'', ''inform'', ''inhale'', ''inherit'', ''initial'', ''inject'',
      ''injury'', ''inmate'', ''inner'', ''innocent'', ''input'', ''inquiry'', ''insane'',
      ''insect'', ''inside'', ''inspire'', ''install'', ''intact'', ''interest'', ''into'',
      ''invest'', ''invite'', ''involve'', ''iron'', ''island'', ''isolate'', ''issue'',
      ''item'', ''ivory'', ''jacket'', ''jaguar'', ''jar'', ''jazz'', ''jealous'', ''jeans'',
      ''jelly'', ''jewel'', ''job'', ''join'', ''joke'', ''journey'', ''joy'', ''judge'',
      ''juice'', ''jump'', ''jungle'', ''junior'', ''junk'', ''just'', ''kangaroo'', ''keen'',
      ''keep'', ''ketchup'', ''key'', ''kick'', ''kid'', ''kidney'', ''kind'', ''kingdom'',
      ''kiss'', ''kit'', ''kitchen'', ''kite'', ''kitten'', ''kiwi'', ''knee'', ''knife'',
      ''knock'', ''know'', ''lab'', ''label'', ''labor'', ''ladder'', ''lady'', ''lake'',
      ''lamp'', ''language'', ''laptop'', ''large'', ''later'', ''latin'', ''laugh'',
      ''laundry'', ''lava'', ''law'', ''lawn'', ''lawsuit'', ''layer'', ''lazy'', ''leader'',
      ''leaf'', ''learn'', ''leave'', ''lecture'', ''left'', ''leg'', ''legal'', ''legend'',
      ''leisure'', ''lemon'', ''lend'', ''length'', ''lens'', ''leopard'', ''lesson'',
      ''letter'', ''level'', ''liar'', ''liberty'', ''library'', ''license'', ''life'',
      ''lift'', ''light'', ''like'', ''limb'', ''limit'', ''link'', ''lion'', ''liquid'',
      ''list'', ''little'', ''live'', ''lizard'', ''load'', ''loan'', ''lobster'', ''local'',
      ''lock'', ''logic'', ''lonely'', ''long'', ''loop'', ''lottery'', ''loud'', ''lounge'',
      ''love'', ''loyal'', ''lucky'', ''luggage'', ''lumber'', ''lunar'', ''lunch'', ''luxury'',
      ''lyrics'', ''machine'', ''mad'', ''magic'', ''magnet'', ''maid'', ''mail'', ''main'',
      ''major'', ''make'', ''mammal'', ''man'', ''manage'', ''mandate'', ''mango'', ''mansion'',
      ''manual'', ''maple'', ''marble'', ''march'', ''margin'', ''marine'', ''market'',
      ''marriage'', ''mask'', ''mass'', ''master'', ''match'', ''material'', ''math'',
      ''matrix'', ''matter'', ''maximum'', ''maze'', ''meadow'', ''mean'', ''measure'',
      ''meat'', ''mechanic'', ''medal'', ''media'', ''melody'', ''melt'', ''member'',
      ''memory'', ''mention'', ''menu'', ''mercy'', ''merge'', ''merit'', ''merry'', ''mesh'',
      ''message'', ''metal'', ''method'', ''middle'', ''midnight'', ''milk'', ''million'',
      ''mimic'', ''mind'', ''minimum'', ''minor'', ''minute'', ''miracle'', ''mirror'',
      ''misery'', ''miss'', ''mistake'', ''mix'', ''mixed'', ''mixture'', ''mobile'', ''model'',
      ''modify'', ''mom'', ''moment'', ''monitor'', ''monkey'', ''monster'', ''month'',
      ''moon'', ''moral'', ''more'', ''morning'', ''mosquito'', ''mother'', ''motion'',
      ''motor'', ''mountain'', ''mouse'', ''move'', ''movie'', ''much'', ''muffin'', ''mule'',
      ''multiply'', ''muscle'', ''museum'', ''mushroom'', ''music'', ''must'', ''mutual'',
      ''myself'', ''mystery'', ''myth'', ''naive'', ''name'', ''napkin'', ''narrow'', ''nasty'',
      ''nation'', ''nature'', ''near'', ''neck'', ''need'', ''negative'', ''neglect'',
      ''neither'', ''nephew'', ''nerve'', ''nest'', ''net'', ''network'', ''neutral'',
      ''never'', ''news'', ''next'', ''nice'', ''night'', ''noble'', ''noise'', ''nominee'',
      ''noodle'', ''normal'', ''north'', ''nose'', ''notable'', ''note'', ''nothing'',
      ''notice'', ''novel'', ''now'', ''nuclear'', ''number'', ''nurse'', ''nut'', ''oak'',
      ''obey'', ''object'', ''oblige'', ''obscure'', ''observe'', ''obtain'', ''obvious'',
      ''occur'', ''ocean'', ''october'', ''odor'', ''off'', ''offer'', ''office'', ''often'',
      ''oil'', ''okay'', ''old'', ''olive'', ''olympic'', ''omit'', ''once'', ''one'',
      ''onion'', ''online'', ''only'', ''open'', ''opera'', ''opinion'', ''oppose'', ''option'',
      ''orange'', ''orbit'', ''orchard'', ''order'', ''ordinary'', ''organ'', ''orient'',
      ''original'', ''orphan'', ''ostrich'', ''other'', ''outdoor'', ''outer'', ''output'',
      ''outside'', ''oval'', ''oven'', ''over'', ''own'', ''owner'', ''oxygen'', ''oyster'',
      ''ozone'', ''pact'', ''paddle'', ''page'', ''pair'', ''palace'', ''palm'', ''panda'',
      ''panel'', ''panic'', ''panther'', ''paper'', ''parade'', ''parent'', ''park'',
      ''parrot'', ''party'', ''pass'', ''patch'', ''path'', ''patient'', ''patrol'',
      ''pattern'', ''pause'', ''pave'', ''payment'', ''peace'', ''peanut'', ''pear'',
      ''peasant'', ''pelican'', ''pen'', ''penalty'', ''pencil'', ''people'', ''pepper'',
      ''perfect'', ''permit'', ''person'', ''pet'', ''phone'', ''photo'', ''phrase'',
      ''physical'', ''piano'', ''picnic'', ''picture'', ''piece'', ''pig'', ''pigeon'',
      ''pill'', ''pilot'', ''pink'', ''pioneer'', ''pipe'', ''pistol'', ''pitch'', ''pizza'',
      ''place'', ''planet'', ''plastic'', ''plate'', ''play'', ''please'', ''pledge'',
      ''pluck'', ''plug'', ''plunge'', ''poem'', ''poet'', ''point'', ''polar'', ''pole'',
      ''police'', ''pond'', ''pony'', ''pool'', ''popular'', ''portion'', ''position'',
      ''possible'', ''post'', ''potato'', ''pottery'', ''poverty'', ''powder'', ''power'',
      ''practice'', ''praise'', ''predict'', ''prefer'', ''prepare'', ''present'', ''pretty'',
      ''prevent'', ''price'', ''pride'', ''primary'', ''print'', ''priority'', ''prison'',
      ''private'', ''prize'', ''problem'', ''process'', ''produce'', ''profit'', ''program'',
      ''project'', ''promote'', ''proof'', ''property'', ''prosper'', ''protect'', ''proud'',
      ''provide'', ''public'', ''pudding'', ''pull'', ''pulp'', ''pulse'', ''pumpkin'',
      ''punch'', ''pupil'', ''puppy'', ''purchase'', ''purity'', ''purpose'', ''purse'',
      ''push'', ''put'', ''puzzle'', ''pyramid'', ''quality'', ''quantum'', ''quarter'',
      ''question'', ''quick'', ''quit'', ''quiz'', ''quote'', ''rabbit'', ''raccoon'', ''race'',
      ''rack'', ''radar'', ''radio'', ''rail'', ''rain'', ''raise'', ''rally'', ''ramp'',
      ''ranch'', ''random'', ''range'', ''rapid'', ''rare'', ''rate'', ''rather'', ''raven'',
      ''raw'', ''razor'', ''ready'', ''real'', ''reason'', ''rebel'', ''rebuild'', ''recall'',
      ''receive'', ''recipe'', ''record'', ''recycle'', ''reduce'', ''reflect'', ''reform'',
      ''refuse'', ''region'', ''regret'', ''regular'', ''reject'', ''relax'', ''release'',
      ''relief'', ''rely'', ''remain'', ''remember'', ''remind'', ''remove'', ''render'',
      ''renew'', ''rent'', ''reopen'', ''repair'', ''repeat'', ''replace'', ''report'',
      ''require'', ''rescue'', ''resemble'', ''resist'', ''resource'', ''response'', ''result'',
      ''retire'', ''retreat'', ''return'', ''reunion'', ''reveal'', ''review'', ''reward'',
      ''rhythm'', ''rib'', ''ribbon'', ''rice'', ''rich'', ''ride'', ''ridge'', ''rifle'',
      ''right'', ''rigid'', ''ring'', ''riot'', ''ripple'', ''risk'', ''ritual'', ''rival'',
      ''river'', ''road'', ''roast'', ''robot'', ''robust'', ''rocket'', ''romance'', ''roof'',
      ''rookie'', ''room'', ''rose'', ''rotate'', ''rough'', ''round'', ''route'', ''royal'',
      ''rubber'', ''rude'', ''rug'', ''rule'', ''run'', ''runway'', ''rural'', ''sad'',
      ''saddle'', ''sadness'', ''safe'', ''sail'', ''salad'', ''salmon'', ''salon'', ''salt'',
      ''salute'', ''same'', ''sample'', ''sand'', ''satisfy'', ''satoshi'', ''sauce'',
      ''sausage'', ''save'', ''say'', ''scale'', ''scan'', ''scare'', ''scatter'', ''scene'',
      ''scheme'', ''school'', ''science'', ''scissors'', ''scorpion'', ''scout'', ''scrap'',
      ''screen'', ''script'', ''scrub'', ''sea'', ''search'', ''season'', ''seat'', ''second'',
      ''secret'', ''section'', ''security'', ''seed'', ''seek'', ''segment'', ''select'',
      ''sell'', ''seminar'', ''senior'', ''sense'', ''sentence'', ''series'', ''service'',
      ''session'', ''settle'', ''setup'', ''seven'', ''shadow'', ''shaft'', ''shallow'',
      ''share'', ''shed'', ''shell'', ''sheriff'', ''shield'', ''shift'', ''shine'', ''ship'',
      ''shiver'', ''shock'', ''shoe'', ''shoot'', ''shop'', ''short'', ''shoulder'', ''shove'',
      ''shrimp'', ''shrug'', ''shuffle'', ''shy'', ''sibling'', ''sick'', ''side'', ''siege'',
      ''sight'', ''sign'', ''silent'', ''silk'', ''silly'', ''silver'', ''similar'', ''simple'',
      ''since'', ''sing'', ''siren'', ''sister'', ''situate'', ''six'', ''size'', ''skate'',
      ''sketch'', ''ski'', ''skill'', ''skin'', ''skirt'', ''skull'', ''slab'', ''slam'',
      ''sleep'', ''slender'', ''slice'', ''slide'', ''slight'', ''slim'', ''slogan'', ''slot'',
      ''slow'', ''slush'', ''small'', ''smart'', ''smile'', ''smoke'', ''smooth'', ''snack'',
      ''snake'', ''snap'', ''sniff'', ''snow'', ''soap'', ''soccer'', ''social'', ''sock'',
      ''soda'', ''soft'', ''solar'', ''soldier'', ''solid'', ''solution'', ''solve'',
      ''someone'', ''song'', ''soon'', ''sorry'', ''sort'', ''soul'', ''sound'', ''soup'',
      ''source'', ''south'', ''space'', ''spare'', ''spatial'', ''spawn'', ''speak'',
      ''special'', ''speed'', ''spell'', ''spend'', ''sphere'', ''spice'', ''spider'',
      ''spike'', ''spin'', ''spirit'', ''split'', ''spoil'', ''sponsor'', ''spoon'', ''sport'',
      ''spot'', ''spray'', ''spread'', ''spring'', ''spy'', ''square'', ''squeeze'',
      ''squirrel'', ''stable'', ''stadium'', ''staff'', ''stage'', ''stairs'', ''stamp'',
      ''stand'', ''start'', ''state'', ''stay'', ''steak'', ''steel'', ''stem'', ''step'',
      ''stereo'', ''stick'', ''still'', ''sting'', ''stock'', ''stomach'', ''stone'', ''stool'',
      ''story'', ''stove'', ''strategy'', ''street'', ''strike'', ''strong'', ''struggle'',
      ''student'', ''stuff'', ''stumble'', ''style'', ''subject'', ''submit'', ''subway'',
      ''success'', ''such'', ''sudden'', ''suffer'', ''sugar'', ''suggest'', ''suit'',
      ''summer'', ''sun'', ''sunny'', ''sunset'', ''super'', ''supply'', ''supreme'', ''sure'',
      ''surface'', ''surge'', ''surprise'', ''surround'', ''survey'', ''suspect'', ''sustain'',
      ''swallow'', ''swamp'', ''swap'', ''swarm'', ''swear'', ''sweet'', ''swift'', ''swim'',
      ''swing'', ''switch'', ''sword'', ''symbol'', ''symptom'', ''syrup'', ''system'',
      ''table'', ''tackle'', ''tag'', ''tail'', ''talent'', ''talk'', ''tank'', ''tape'',
      ''target'', ''task'', ''taste'', ''tattoo'', ''taxi'', ''teach'', ''team'', ''tell'',
      ''ten'', ''tenant'', ''tennis'', ''tent'', ''term'', ''test'', ''text'', ''thank'',
      ''that'', ''theme'', ''then'', ''theory'', ''there'', ''they'', ''thing'', ''this'',
      ''thought'', ''three'', ''thrive'', ''throw'', ''thumb'', ''thunder'', ''ticket'',
      ''tide'', ''tiger'', ''tilt'', ''timber'', ''time'', ''tiny'', ''tip'', ''tired'',
      ''tissue'', ''title'', ''toast'', ''tobacco'', ''today'', ''toddler'', ''toe'',
      ''together'', ''toilet'', ''token'', ''tomato'', ''tomorrow'', ''tone'', ''tongue'',
      ''tonight'', ''tool'', ''tooth'', ''top'', ''topic'', ''topple'', ''torch'', ''tornado'',
      ''tortoise'', ''toss'', ''total'', ''tourist'', ''toward'', ''tower'', ''town'', ''toy'',
      ''track'', ''trade'', ''traffic'', ''tragic'', ''train'', ''transfer'', ''trap'',
      ''trash'', ''travel'', ''tray'', ''treat'', ''tree'', ''trend'', ''trial'', ''tribe'',
      ''trick'', ''trigger'', ''trim'', ''trip'', ''trophy'', ''trouble'', ''truck'', ''true'',
      ''truly'', ''trumpet'', ''trust'', ''truth'', ''try'', ''tube'', ''tuition'', ''tumble'',
      ''tuna'', ''tunnel'', ''turkey'', ''turn'', ''turtle'', ''twelve'', ''twenty'', ''twice'',
      ''twin'', ''twist'', ''two'', ''type'', ''typical'', ''ugly'', ''umbrella'', ''unable'',
      ''unaware'', ''uncle'', ''uncover'', ''under'', ''undo'', ''unfair'', ''unfold'',
      ''unhappy'', ''uniform'', ''unique'', ''unit'', ''universe'', ''unknown'', ''unlock'',
      ''until'', ''unusual'', ''unveil'', ''update'', ''upgrade'', ''uphold'', ''upon'',
      ''upper'', ''upset'', ''urban'', ''urge'', ''usage'', ''use'', ''used'', ''useful'',
      ''useless'', ''usual'', ''utility'', ''vacant'', ''vacuum'', ''vague'', ''valid'',
      ''valley'', ''valve'', ''van'', ''vanish'', ''vapor'', ''various'', ''vast'', ''vault'',
      ''vehicle'', ''velvet'', ''vendor'', ''venture'', ''venue'', ''verb'', ''verify'',
      ''version'', ''very'', ''vessel'', ''veteran'', ''viable'', ''vibrant'', ''vicious'',
      ''victory'', ''video'', ''view'', ''village'', ''vintage'', ''violin'', ''virtual'',
      ''virus'', ''visa'', ''visit'', ''visual'', ''vital'', ''vivid'', ''vocal'', ''voice'',
      ''void'', ''volcano'', ''volume'', ''vote'', ''voyage'', ''wage'', ''wagon'', ''wait'',
      ''walk'', ''wall'', ''walnut'', ''want'', ''warfare'', ''warm'', ''warrior'', ''wash'',
      ''wasp'', ''waste'', ''water'', ''wave'', ''way'', ''wealth'', ''weapon'', ''wear'',
      ''weasel'', ''weather'', ''web'', ''wedding'', ''weekend'', ''weird'', ''welcome'',
      ''west'', ''wet'', ''whale'', ''what'', ''wheat'', ''wheel'', ''when'', ''where'',
      ''whip'', ''whisper'', ''wide'', ''width'', ''wife'', ''wild'', ''will'', ''win'',
      ''window'', ''wine'', ''wing'', ''wink'', ''winner'', ''winter'', ''wire'', ''wisdom'',
      ''wise'', ''wish'', ''witness'', ''wolf'', ''woman'', ''wonder'', ''wood'', ''wool'',
      ''word'', ''work'', ''world'', ''worry'', ''worth'', ''wrap'', ''wreck'', ''wrestle'',
      ''wrist'', ''write'', ''wrong'', ''yard'', ''year'', ''yellow'', ''you'', ''young'',
      ''youth'', ''zebra'', ''zero'', ''zone'', ''zoo'']"

section \<open>Searching and splitting\<close>

text \<open>
  \<open>std::lower_bound(begin(words), end(words), word)\<close> halves the range \<open>[first, first + len)\<close>; its
  result is an index here. \<open>*middle < word\<close> compares a \<open>const char *\<close> with a \<open>std::string\<close>, byte by
  byte.
\<close>

function lower_bound_loop :: "string list \<Rightarrow> cstring \<Rightarrow> nat \<Rightarrow> nat \<Rightarrow> nat" where
  "lower_bound_loop ws word first len =
     (if len = 0 then first
      else let half = len div 2; middle = first + half
           in if str (ws ! middle) < word then lower_bound_loop ws word (middle + 1) (len - half - 1)
              else lower_bound_loop ws word first half)"
  by pat_completeness auto
termination
  by (relation "measure (\<lambda>(ws, word, first, len). len)") auto

declare lower_bound_loop.simps [simp del]

definition lower_bound :: "string list \<Rightarrow> cstring \<Rightarrow> nat" where
  "lower_bound ws word = lower_bound_loop ws word 0 (length ws)"

text \<open>
  The words of a stream: blanks are skipped, and a word goes on up to the next blank.
\<close>

function stream_words :: "cstring \<Rightarrow> cstring list" where
  "stream_words s =
     (case dropWhile is_space s of
        [] \<Rightarrow> []
      | c # cs \<Rightarrow>
          (c # takeWhile (\<lambda>b. \<not> is_space b) cs) # stream_words (dropWhile (\<lambda>b. \<not> is_space b) cs))"
  by pat_completeness auto
termination
proof (relation "measure length")
  fix s :: cstring and c cs assume "dropWhile is_space s = c # cs"
  then have "length (c # cs) \<le> length s" by (metis length_dropWhile_le)
  with length_dropWhile_le [of "\<lambda>b. \<not> is_space b" cs]
  show "(dropWhile (\<lambda>b. \<not> is_space b) cs, s) \<in> measure length" by simp
qed simp

declare stream_words.simps [simp del]

section \<open>The order of the words\<close>

fun char_less :: "char \<Rightarrow> char \<Rightarrow> bool" where
  "char_less (Char a0 a1 a2 a3 a4 a5 a6 a7) (Char b0 b1 b2 b3 b4 b5 b6 b7) \<longleftrightarrow>
    (((((((\<not> a7 \<and> b7) \<or> (a7 = b7) \<and> \<not> a6 \<and> b6) \<or> (a7 = b7 \<and> a6 = b6) \<and> \<not> a5 \<and> b5) \<or> (a7 = b7 \<and> a6 = b6 \<and> a5 = b5) \<and> \<not> a4 \<and> b4) \<or> (a7 = b7 \<and> a6 = b6 \<and> a5 = b5 \<and> a4 = b4) \<and> \<not> a3 \<and> b3) \<or> (a7 = b7 \<and> a6 = b6 \<and> a5 = b5 \<and> a4 = b4 \<and> a3 = b3) \<and> \<not> a2 \<and> b2) \<or> (a7 = b7 \<and> a6 = b6 \<and> a5 = b5 \<and> a4 = b4 \<and> a3 = b3 \<and> a2 = b2) \<and> \<not> a1 \<and> b1) \<or> (a7 = b7 \<and> a6 = b6 \<and> a5 = b5 \<and> a4 = b4 \<and> a3 = b3 \<and> a2 = b2 \<and> a1 = b1) \<and> \<not> a0 \<and> b0"
lemma horner_less_Cons:
  "horner_sum of_bool 2 (a # as) < (horner_sum of_bool 2 (b # bs) :: nat) \<longleftrightarrow>
     horner_sum of_bool 2 as < (horner_sum of_bool 2 bs :: nat) \<or>
     horner_sum of_bool 2 as = (horner_sum of_bool 2 bs :: nat) \<and> \<not> a \<and> b"
  by (cases a; cases b) auto

lemma horner_eq_Cons:
  "horner_sum of_bool 2 (a # as) = (horner_sum of_bool 2 (b # bs) :: nat) \<longleftrightarrow>
     horner_sum of_bool 2 as = (horner_sum of_bool 2 bs :: nat) \<and> a = b"
  by (cases a; cases b) (simp_all, presburger+)

lemma char_less_iff: "char_less c d \<longleftrightarrow> (of_char c :: nat) < of_char d"
  by (cases c; cases d)
    (simp only: of_char_Char horner_less_Cons horner_eq_Cons less_irrefl refl
       char_less.simps simp_thms conj_assoc)
fun string_less :: "string \<Rightarrow> string \<Rightarrow> bool" where
  "string_less [] v \<longleftrightarrow> v \<noteq> []"
| "string_less (c # u) [] \<longleftrightarrow> False"
| "string_less (c # u) (d # v) \<longleftrightarrow> (if c = d then string_less u v else char_less c d)"

lemma Nil_less_map: "[] < map f v \<longleftrightarrow> v \<noteq> []"
  by (cases v) auto

lemma string_less_iff: "string_less u v \<longleftrightarrow> str u < str v"
  by (induction u v rule: string_less.induct)
    (auto simp: str_def char_less_iff word_less_nat_alt unat_of_char Nil_less_map dest: injD [OF inj_of_char])

fun ascending :: "string list \<Rightarrow> bool" where
  "ascending (u # v # ws) \<longleftrightarrow> string_less u v \<and> ascending (v # ws)"
| "ascending ws \<longleftrightarrow> True"

lemma ascending_sorted: "ascending ws \<Longrightarrow> sorted_wrt (<) (map str ws)"
  by (induction ws rule: ascending.induct) (auto simp: string_less_iff intro: order.strict_trans)

lemma length_WORDS [simp]: "length WORDS = 2048"
  by (simp add: WORDS_def)

lemma ascending_WORDS: "ascending WORDS"
  by (simp add: WORDS_def)

lemma WORDS_sorted: "sorted_wrt (<) (map str WORDS)"
  using ascending_WORDS by (rule ascending_sorted)

lemma inj_str: "inj str"
  by (rule injI) (rule str_inj)

text \<open>Binary search is linear search, on a sorted list.\<close>

lemma length_takeWhile_first:
  assumes "n \<le> length xs" and "\<And>i. i < n \<Longrightarrow> P (xs ! i)" and "n < length xs \<Longrightarrow> \<not> P (xs ! n)"
  shows "length (takeWhile P xs) = n"
  using assms by (subst takeWhile_eq_take_P_nth [of n]) auto

lemma lower_bound_loop_eq:
  assumes "sorted_wrt (<) (map str ws)" and "first + len \<le> length ws"
    and "\<And>i. i < first \<Longrightarrow> str (ws ! i) < word"
    and "\<And>i. first + len \<le> i \<Longrightarrow> i < length ws \<Longrightarrow> \<not> str (ws ! i) < word"
  shows "lower_bound_loop ws word first len = length (takeWhile (\<lambda>w. str w < word) ws)"
  using assms(2-4)
proof (induction len arbitrary: first rule: less_induct)
  case (less len)
  show ?case
  proof (cases "len = 0")
    case True
    with less.prems have "length (takeWhile (\<lambda>w. str w < word) ws) = first"
      by (intro length_takeWhile_first) auto
    with True show ?thesis by (simp add: lower_bound_loop.simps)
  next
    case False
    let ?half = "len div 2" let ?m = "first + ?half"
    have m: "?m < length ws" "?half < len" using False less.prems(1) by auto
    have mono: "str (ws ! i) < str (ws ! j)" if "i < j" "j < length ws" for i j
      using assms(1) that by (simp add: sorted_wrt_iff_nth_less)
    show ?thesis
    proof (cases "str (ws ! ?m) < word")
      case True
      have "lower_bound_loop ws word (?m + 1) (len - ?half - 1) = length (takeWhile (\<lambda>w. str w < word) ws)"
      proof (rule less.IH)
        fix i assume "i < ?m + 1"
        then show "str (ws ! i) < word" using True mono [of i ?m] m by (cases "i = ?m") auto
      qed (use m less.prems in auto)
      with False True show ?thesis by (subst lower_bound_loop.simps) (simp add: Let_def)
    next
      case notless: False
      have "lower_bound_loop ws word first ?half = length (takeWhile (\<lambda>w. str w < word) ws)"
      proof (rule less.IH)
        fix i assume "?m \<le> i" "i < length ws"
        then show "\<not> str (ws ! i) < word" using notless mono [of ?m i] m by (cases "i = ?m") auto
      qed (use m less.prems in auto)
      with False notless show ?thesis by (subst lower_bound_loop.simps) (simp add: Let_def)
    qed
  qed
qed

lemma lower_bound_eq:
  "sorted_wrt (<) (map str ws) \<Longrightarrow> lower_bound ws word = length (takeWhile (\<lambda>w. str w < word) ws)"
  unfolding lower_bound_def by (rule lower_bound_loop_eq) auto

lemma lower_bound_at:
  assumes "sorted_wrt (<) (map str ws)" and "i < length ws"
    and "word \<le> str (ws ! i)" and "\<And>j. j < i \<Longrightarrow> str (ws ! j) < word"
  shows "lower_bound ws word = i"
  unfolding lower_bound_eq [OF assms(1)] using assms(2-4)
  by (intro length_takeWhile_first) (auto simp: leD)

lemma lower_bound_word:
  assumes "sorted_wrt (<) (map str ws)" and "i < length ws"
  shows "lower_bound ws (str (ws ! i)) = i"
  using assms by (intro lower_bound_at) (auto simp: sorted_wrt_iff_nth_less)

lemma lower_bound_bounds:
  assumes "sorted_wrt (<) (map str ws)"
  shows "lower_bound ws word \<le> length ws"
    and "lower_bound ws word < length ws \<Longrightarrow> word \<le> str (ws ! lower_bound ws word)"
  using nth_length_takeWhile [of "\<lambda>w. str w < word" ws] length_takeWhile_le
  by (auto simp: lower_bound_eq [OF assms] not_less)

text \<open>No word has a blank or a null character in it.\<close>

definition plain_word :: "cstring \<Rightarrow> bool" where
  "plain_word w \<longleftrightarrow> w \<noteq> [] \<and> list_all (\<lambda>b. \<not> is_space b \<and> b \<noteq> 0) w"

lemma digit6_not_space: "digit6 c \<Longrightarrow> \<not> is_space (of_char c) \<and> (of_char c :: u8) \<noteq> 0"
proof (cases c)
  fix b0 b1 b2 b3 b4 b5 b6 b7
  assume "digit6 c" and c: "c = Char b0 b1 b2 b3 b4 b5 b6 b7"
  then have "64 \<le> (of_char c :: nat)" by (simp add: of_char_Char)
  then have "64 \<le> unat (of_char c :: u8)" by (simp only: unat_of_char)
  then show ?thesis by (auto simp: is_space_def word_le_nat_alt)
qed

lemma digit6_WORDS: "list_all (\<lambda>w. w \<noteq> [] \<and> list_all digit6 w) WORDS"
  by (simp add: WORDS_def)

lemma WORDS_plain: "i < 2048 \<Longrightarrow> plain_word (str (WORDS ! i))"
  using digit6_WORDS digit6_not_space
  by (auto simp: plain_word_def list_all_length list_all_iff str_def)

lemma stream_words_Nil [simp]: "stream_words [] = []"
  by (simp add: stream_words.simps)

lemma stream_words_plain:
  assumes "plain_word w"
  shows "stream_words w = [w]" and "stream_words (w @ 0x20 # s) = w # stream_words s"
    and "stream_words (0x20 # s) = stream_words s"
proof -
  have blank: "is_space 0x20" by (simp add: is_space_def)
  from assms obtain c cs where w: "w = c # cs" "\<not> is_space c" "\<And>b. b \<in> set cs \<Longrightarrow> \<not> is_space b"
    by (cases w) (auto simp: plain_word_def list_all_iff)
  have all: "takeWhile (\<lambda>b. \<not> is_space b) cs = cs" "dropWhile (\<lambda>b. \<not> is_space b) cs = []"
    using w by (simp_all add: takeWhile_eq_all_conv dropWhile_eq_Nil_conv)
  show "stream_words w = [w]" using w(1,2) by (simp add: stream_words.simps [of "c # cs"] all)
  have sp: "stream_words (0x20 # s) = stream_words s" for s
    using blank by (simp add: stream_words.simps [of "0x20 # s"] stream_words.simps [of s])
  then show "stream_words (0x20 # s) = stream_words s" .
  have "takeWhile (\<lambda>b. \<not> is_space b) (cs @ 0x20 # s) = cs"
    "dropWhile (\<lambda>b. \<not> is_space b) (cs @ 0x20 # s) = 0x20 # s"
    using w blank by (simp_all add: takeWhile_append2 dropWhile_append2)
  then show "stream_words (w @ 0x20 # s) = w # stream_words s"
    using w sp by (simp add: stream_words.simps [of "c # cs @ 0x20 # s"])
qed

text \<open>A list of words, written with single blanks between them, is split into these words.\<close>

fun join_words :: "cstring list \<Rightarrow> cstring" where
  "join_words [] = []"
| "join_words [w] = w"
| "join_words (w # ws) = w @ 0x20 # join_words ws"

lemma stream_words_join: "list_all plain_word ws \<Longrightarrow> stream_words (join_words ws) = ws"
  by (induction ws rule: join_words.induct) (simp_all add: stream_words_plain)

lemma join_words_snoc: "join_words (ws @ [w]) = (if ws = [] then w else join_words ws @ 0x20 # w)"
  by (induction ws rule: join_words.induct) auto

lemma join_words_no_null: "list_all plain_word ws \<Longrightarrow> 0 \<notin> set (join_words ws)"
  by (induction ws rule: join_words.induct) (auto simp: plain_word_def list_all_iff)

end
