(* ===== verification/Effects.thy ===== *)
theory Effects
  imports Prelude
begin

text \<open>
  Member functions of objects that outlive an exception.

  A serializer that throws is thrown away, so its state need not be kept (an \<open>action\<close>). A client
  goes on living: what a call changed before it threw stays changed. An \<open>eff\<close> returns the result or
  the exception together with the state. \<open>c_text\<close>, \<open>dec\<close> and \<open>c_str\<close> are the text conversions of
  the C++ library that error messages and requests are built with.
\<close>

section \<open>Effects\<close>

type_synonym ('s, 'a) eff = "'s \<Rightarrow> 'a result \<times> 's"

definition eff_return :: "'a \<Rightarrow> ('s, 'a) eff" where
  "eff_return x s = (Inr x, s)"

definition eff_throw :: "exn \<Rightarrow> ('s, 'a) eff" where
  "eff_throw e s = (Inl e, s)"

definition eff_bind :: "('s, 'a) eff \<Rightarrow> ('a \<Rightarrow> ('s, 'b) eff) \<Rightarrow> ('s, 'b) eff" where
  "eff_bind m f s = (case m s of (Inl e, s') \<Rightarrow> (Inl e, s') | (Inr x, s') \<Rightarrow> f x s')"

definition eff_lift :: "'a result \<Rightarrow> ('s, 'a) eff" where
  "eff_lift r s = (r, s)"

definition eff_get :: "('s \<Rightarrow> 'a) \<Rightarrow> ('s, 'a) eff" where
  "eff_get f s = (Inr (f s), s)"

definition eff_modify :: "('s \<Rightarrow> 's) \<Rightarrow> ('s, unit) eff" where
  "eff_modify f s = (Inr (), f s)"

text \<open>An effect of one of two objects, as an effect of both.\<close>

definition eff_fst :: "('a, 'r) eff \<Rightarrow> ('a \<times> 'b, 'r) eff" where
  "eff_fst m s = (case m (fst s) of (r, a) \<Rightarrow> (r, (a, snd s)))"

definition eff_snd :: "('b, 'r) eff \<Rightarrow> ('a \<times> 'b, 'r) eff" where
  "eff_snd m s = (case m (snd s) of (r, b) \<Rightarrow> (r, (fst s, b)))"

named_theorems eff_iff \<open>when an effect succeeds, and with which state\<close>

lemma eff_return_iff [eff_iff]: "eff_return x s = (Inr y, t) \<longleftrightarrow> y = x \<and> t = s"
  by (auto simp: eff_return_def)

lemma eff_throw_iff [eff_iff]: "eff_throw e s = (Inr y, t) \<longleftrightarrow> False"
  by (simp add: eff_throw_def)

lemma eff_bind_iff [eff_iff]:
  "eff_bind m f s = (Inr y, t) \<longleftrightarrow> (\<exists>x r. m s = (Inr x, r) \<and> f x r = (Inr y, t))"
  by (auto simp: eff_bind_def split: prod.splits sum.splits)

lemma eff_lift_iff [eff_iff]: "eff_lift r s = (Inr y, t) \<longleftrightarrow> r = Inr y \<and> t = s"
  by (auto simp: eff_lift_def)

lemma eff_get_iff [eff_iff]: "eff_get f s = (Inr y, t) \<longleftrightarrow> y = f s \<and> t = s"
  by (auto simp: eff_get_def)

lemma eff_modify_iff [eff_iff]: "eff_modify f s = (Inr y, t) \<longleftrightarrow> t = f s"
  by (auto simp: eff_modify_def)

lemma eff_fst_iff [eff_iff]:
  "eff_fst m s = (Inr y, t) \<longleftrightarrow> (\<exists>a. m (fst s) = (Inr y, a) \<and> t = (a, snd s))"
  by (auto simp: eff_fst_def split: prod.splits)

lemma eff_snd_iff [eff_iff]:
  "eff_snd m s = (Inr y, t) \<longleftrightarrow> (\<exists>b. m (snd s) = (Inr y, b) \<and> t = (fst s, b))"
  by (auto simp: eff_snd_def split: prod.splits)

lemma eff_if_iff [eff_iff]:
  "(if b then m else n) s = (Inr y, t) \<longleftrightarrow> (b \<and> m s = (Inr y, t)) \<or> (\<not> b \<and> n s = (Inr y, t))"
  by simp

text \<open>
  \<open>try { ... } catch (const std::exception &)\<close>: what was changed stays changed. Undefined behaviour is not
  an exception, and a coroutine that is not resumed does not get to its handler.
\<close>

fun catchable :: "exn \<Rightarrow> bool" where
  "catchable (Undefined_behaviour what) \<longleftrightarrow> False"
| "catchable Never_resumed \<longleftrightarrow> False"
| "catchable _ \<longleftrightarrow> True"

definition eff_catch :: "('s, 'a) eff \<Rightarrow> ('s, 'a) eff \<Rightarrow> ('s, 'a) eff" where
  "eff_catch m handler s =
     (case m s of (Inr x, t) \<Rightarrow> (Inr x, t) | (Inl e, t) \<Rightarrow> if catchable e then handler t else (Inl e, t))"

text \<open>What an effect does to a state, whether it returns or throws.\<close>

definition preserves :: "('s \<Rightarrow> bool) \<Rightarrow> ('s, 'a) eff \<Rightarrow> bool" where
  "preserves P m \<longleftrightarrow> (\<forall>s. P s \<longrightarrow> P (snd (m s)))"

named_theorems preserves_intros \<open>which effects keep a property of the state\<close>

lemma preservesD: "preserves P m \<Longrightarrow> P s \<Longrightarrow> m s = (r, t) \<Longrightarrow> P t"
  by (auto simp: preserves_def dest: spec [of _ s])

lemma preserves_return [preserves_intros]: "preserves P (eff_return x)"
  and preserves_throw [preserves_intros]: "preserves P (eff_throw e)"
  and preserves_lift [preserves_intros]: "preserves P (eff_lift r)"
  and preserves_get [preserves_intros]: "preserves P (eff_get f)"
  by (simp_all add: preserves_def eff_return_def eff_throw_def eff_lift_def eff_get_def)

lemma preserves_modify: "(\<And>s. P s \<Longrightarrow> P (f s)) \<Longrightarrow> preserves P (eff_modify f)"
  by (simp add: preserves_def eff_modify_def)

lemma preserves_bind [preserves_intros]:
  assumes "preserves P m" and "\<And>x. preserves P (f x)"
  shows "preserves P (eff_bind m f)"
  using assms by (fastforce simp: preserves_def eff_bind_def split: prod.splits sum.splits)

lemma preserves_if [preserves_intros]:
  "preserves P m \<Longrightarrow> preserves P n \<Longrightarrow> preserves P (if b then m else n)"
  by simp

lemma preserves_catch [preserves_intros]:
  "preserves P m \<Longrightarrow> preserves P handler \<Longrightarrow> preserves P (eff_catch m handler)"
  by (fastforce simp: preserves_def eff_catch_def split: prod.splits sum.splits)

lemma preserves_option [preserves_intros]:
  "preserves P n \<Longrightarrow> (\<And>x. preserves P (f x)) \<Longrightarrow> preserves P (case v of None \<Rightarrow> n | Some x \<Rightarrow> f x)"
  by (cases v) simp_all

text \<open>Which exceptions an effect throws.\<close>

definition raises :: "(exn \<Rightarrow> bool) \<Rightarrow> ('s, 'a) eff \<Rightarrow> bool" where
  "raises E m \<longleftrightarrow> (\<forall>s e t. m s = (Inl e, t) \<longrightarrow> E e)"

named_theorems raises_intros \<open>which exceptions an effect throws\<close>

lemma raises_pure [raises_intros]: "raises E (eff_return x)" "raises E (eff_get f)" "raises E (eff_modify g)"
  by (simp_all add: raises_def eff_return_def eff_get_def eff_modify_def)

lemma raises_bind [raises_intros]: "raises E m \<Longrightarrow> (\<And>x. raises E (f x)) \<Longrightarrow> raises E (eff_bind m f)"
  by (fastforce simp: raises_def eff_bind_def split: prod.splits sum.splits)

lemma raises_if [raises_intros]: "(b \<Longrightarrow> raises E m) \<Longrightarrow> (\<not> b \<Longrightarrow> raises E n) \<Longrightarrow> raises E (if b then m else n)"
  by simp

lemma raises_catch [raises_intros]: "raises E m \<Longrightarrow> raises E handler \<Longrightarrow> raises E (eff_catch m handler)"
  by (fastforce simp: raises_def eff_catch_def split: prod.splits sum.splits if_splits)

text \<open>The same for a value that may be an exception.\<close>

definition sum_bind :: "'a result \<Rightarrow> ('a \<Rightarrow> 'b result) \<Rightarrow> 'b result" where
  "sum_bind r f = (case r of Inl e \<Rightarrow> Inl e | Inr x \<Rightarrow> f x)"

lemma sum_bind_iff [eff_iff]: "sum_bind r f = Inr y \<longleftrightarrow> (\<exists>x. r = Inr x \<and> f x = Inr y)"
  by (auto simp: sum_bind_def split: sum.splits)

section \<open>Conversions\<close>

text \<open>
  A \<open>double\<close> that is converted to \<open>uint64_t\<close> loses its fraction; if what is left is not in the range of the type, or the
  \<open>double\<close> is not finite (\<open>None\<close>), the behaviour is undefined.
\<close>

definition double_to_u64 :: "int option \<Rightarrow> u64 result" where
  "double_to_u64 whole =
     (case whole of
        Some n \<Rightarrow> if 0 \<le> n \<and> n < 2 ^ 64 then Inr (word_of_int n) else Inl (Undefined_behaviour ''uint64_t(double)'')
      | None \<Rightarrow> Inl (Undefined_behaviour ''uint64_t(double)''))"

lemma double_to_u64_iff [eff_iff]:
  "double_to_u64 whole = Inr v \<longleftrightarrow> (\<exists>n. whole = Some n \<and> 0 \<le> n \<and> n < 2 ^ 64 \<and> v = word_of_int n)"
  by (auto simp: double_to_u64_def split: option.splits)

section \<open>Text\<close>

text \<open>A \<open>const char *\<close> ends at the first null character.\<close>

definition c_str :: "cstring \<Rightarrow> cstring" where
  "c_str s = takeWhile (\<lambda>b. b \<noteq> 0) s"

definition c_text :: "cstring \<Rightarrow> string" where
  "c_text s = map (\<lambda>b. char_of (unat b)) (c_str s)"

text \<open>\<open>operator<<\<close> of an unsigned integer: its decimal digits.\<close>

fun dec :: "nat \<Rightarrow> cstring" where
  "dec n = (if n < 10 then [of_nat (48 + n)] else dec (n div 10) @ [of_nat (48 + n mod 10)])"

declare dec.simps [simp del]

lemma c_str_no_null: "0 \<notin> set s \<Longrightarrow> c_str s = s"
  by (auto simp: c_str_def takeWhile_eq_all_conv)

lemma dec_digits_value: "foldl (\<lambda>m b. 10 * m + (unat (b :: u8) - 48)) 0 (dec n) = n"
proof (induction n rule: dec.induct)
  case (1 n)
  have digit: "unat (of_nat (48 + d) :: u8) - 48 = d" if "d < 10" for d
    using that by (simp add: unat_of_nat del: of_nat_add)
  show ?case
  proof (cases "n < 10")
    case True
    then show ?thesis using digit [OF True] by (simp add: dec.simps [of n] del: of_nat_add)
  next
    case False
    then show ?thesis using 1 digit [of "n mod 10"] by (simp add: dec.simps [of n] del: of_nat_add)
  qed
qed

lemma dec_inj: "dec n = dec m \<Longrightarrow> n = m"
  by (metis dec_digits_value)

lemma dec_digits: "b \<in> set (dec n) \<Longrightarrow> 48 \<le> unat b \<and> unat b < 58"
proof (induction n rule: dec.induct)
  case (1 n)
  have digit: "48 \<le> unat (of_nat (48 + d) :: u8) \<and> unat (of_nat (48 + d) :: u8) < 58" if "d < 10" for d
    using that by (simp add: unat_of_nat del: of_nat_add)
  show ?case
  proof (cases "n < 10")
    case True
    with 1 show ?thesis using digit [OF True] by (simp add: dec.simps [of n] del: of_nat_add)
  next
    case False
    with 1 show ?thesis using digit [of "n mod 10"] by (auto simp: dec.simps [of n] simp del: of_nat_add)
  qed
qed

end
