(* ===== verification/Ed25519.thy ===== *)
theory Ed25519
  imports Utils Effects
begin

text \<open>
  \<open>src/cpp/sdk/src/ed25519.cpp\<close>: keys and signatures, a wrapper around OpenSSL.

  OpenSSL is not part of the repository: what the SDK calls of it is the record \<open>openssl\<close>, an
  argument of every definition that needs it. \<open>'k\<close> stands for the keys behind an
  \<open>EVP_PKEY *\<close>. A single call that can return 0 gives an option, a sequence of calls gives the name of the
  call that returned 0 or the result; \<open>ERR_text\<close> is the text OpenSSL has for its last error. What the SDK relies on (signatures verify, hashes have their length) is the
  predicate \<open>openssl_ok\<close>.
\<close>

record 'k openssl =
  ssl_new_private_key :: "u8 list \<Rightarrow> 'k option"
  ssl_raw_private_key :: "'k \<Rightarrow> u8 list option"
  ssl_raw_public_key :: "'k \<Rightarrow> u8 list option"
  ssl_new_public_key :: "u8 list \<Rightarrow> 'k option"
  ssl_digest_sign :: "'k \<Rightarrow> u8 list \<Rightarrow> string + u8 list"
  ssl_digest_verify :: "'k \<Rightarrow> u8 list \<Rightarrow> u8 list \<Rightarrow> string + bool"
  ssl_sha256 :: "u8 list \<Rightarrow> u8 list"
  ssl_sha3_256 :: "u8 list \<Rightarrow> u8 list"
  ssl_pbkdf2 :: "cstring \<Rightarrow> cstring \<Rightarrow> nat \<Rightarrow> nat \<Rightarrow> u8 list"
  ssl_hmac :: "cstring \<Rightarrow> u8 list \<Rightarrow> string + u8 list"
  ssl_hkdf :: "cstring \<Rightarrow> u8 list \<Rightarrow> u8 list \<Rightarrow> nat \<Rightarrow> string + u8 list"
  ERR_text :: string

section \<open>Keys\<close>

definition check_ret :: "'k openssl \<Rightarrow> string + 'a \<Rightarrow> 'a result" where
  "check_ret ssl ret =
     (case ret of
        Inr x \<Rightarrow> Inr x
      | Inl error \<Rightarrow> Inl (Runtime_error (error @ ''failed, error detail : '' @ ERR_text ssl @ [CHR 10])))"

definition ret_of :: "string \<Rightarrow> 'a option \<Rightarrow> string + 'a" where
  "ret_of error ret = (case ret of None \<Rightarrow> Inl error | Some x \<Rightarrow> Inr x)"

fun hex_to_raw_key_loop :: "cstring \<Rightarrow> u8 list" where
  "hex_to_raw_key_loop (a # b # hex) = ucast (extract_hex [a, b]) # hex_to_raw_key_loop hex"
| "hex_to_raw_key_loop hex = []"

definition hex_to_raw_key :: "cstring \<Rightarrow> u8 list result" where
  "hex_to_raw_key hex_key =
     (if length hex_key \<noteq> 64
      then Inl (Invalid_argument ''the length of hex key string must be equal to 64'')
      else Inr (hex_to_raw_key_loop hex_key))"

text \<open>
  A \<open>PublicKey\<close> keeps the pointer it got, which is null when OpenSSL refused the bytes; OpenSSL does
  not say what its functions do with a null pointer.
\<close>

type_synonym 'k PublicKey = "'k option"

definition PublicKey_new :: "'k openssl \<Rightarrow> u8 list \<Rightarrow> 'k PublicKey" where
  "PublicKey_new ssl raw_key = ssl_new_public_key ssl raw_key"

definition PublicKey_from_hex_string :: "'k openssl \<Rightarrow> cstring \<Rightarrow> 'k PublicKey result" where
  "PublicKey_from_hex_string ssl hex_str =
     (case hex_to_raw_key hex_str of Inl e \<Rightarrow> Inl e | Inr raw_key \<Rightarrow> Inr (PublicKey_new ssl raw_key))"

definition PublicKey_get_raw_key :: "'k openssl \<Rightarrow> 'k PublicKey \<Rightarrow> u8 list result" where
  "PublicKey_get_raw_key ssl pub =
     (case pub of
        None \<Rightarrow> Inl (Undefined_behaviour ''null EVP_PKEY'')
      | Some pkey \<Rightarrow>
          (case ssl_raw_public_key ssl pkey of
             None \<Rightarrow> Inl (Undefined_behaviour ''raw_key is not initialised'')
           | Some raw_key \<Rightarrow> Inr raw_key))"

definition PublicKey_dump_hex :: "'k openssl \<Rightarrow> 'k PublicKey \<Rightarrow> cstring result" where
  "PublicKey_dump_hex ssl pub =
     (case PublicKey_get_raw_key ssl pub of Inl e \<Rightarrow> Inl e | Inr raw_key \<Rightarrow> Inr (bytes_to_hex raw_key))"

definition PublicKey_verify :: "'k openssl \<Rightarrow> 'k PublicKey \<Rightarrow> u8 list \<Rightarrow> u8 list \<Rightarrow> bool result" where
  "PublicKey_verify ssl pub sig data =
     (case pub of
        None \<Rightarrow> Inl (Undefined_behaviour ''null EVP_PKEY'')
      | Some pkey \<Rightarrow> check_ret ssl (ssl_digest_verify ssl pkey sig data))"

text \<open>A \<open>PrivateKey\<close> is only made of a key OpenSSL accepted.\<close>

type_synonym 'k PrivateKey = 'k

definition PrivateKey_from_raw_key :: "'k openssl \<Rightarrow> u8 list \<Rightarrow> 'k PrivateKey result" where
  "PrivateKey_from_raw_key ssl raw_key =
     (case ssl_new_private_key ssl raw_key of
        None \<Rightarrow> Inl (Undefined_behaviour ''null EVP_PKEY'')
      | Some pkey \<Rightarrow>
          (case check_ret ssl (ret_of ''EVP_PKEY_get_raw_private_key'' (ssl_raw_private_key ssl pkey)) of
             Inl e \<Rightarrow> Inl e
           | Inr priv \<Rightarrow> Inr pkey))"

definition PrivateKey_from_hex_string :: "'k openssl \<Rightarrow> cstring \<Rightarrow> 'k PrivateKey result" where
  "PrivateKey_from_hex_string ssl hex_key =
     (case hex_to_raw_key hex_key of Inl e \<Rightarrow> Inl e | Inr raw_key \<Rightarrow> PrivateKey_from_raw_key ssl raw_key)"

definition PrivateKey_get_raw_key :: "'k openssl \<Rightarrow> 'k PrivateKey \<Rightarrow> u8 list result" where
  "PrivateKey_get_raw_key ssl priv =
     (case ssl_raw_private_key ssl priv of
        None \<Rightarrow> Inl (Undefined_behaviour ''raw_key is not initialised'')
      | Some raw_key \<Rightarrow> Inr raw_key)"

definition PrivateKey_dump_hex :: "'k openssl \<Rightarrow> 'k PrivateKey \<Rightarrow> cstring result" where
  "PrivateKey_dump_hex ssl priv =
     (case PrivateKey_get_raw_key ssl priv of Inl e \<Rightarrow> Inl e | Inr raw_key \<Rightarrow> Inr (bytes_to_hex raw_key))"

definition get_public_key :: "'k openssl \<Rightarrow> 'k PrivateKey \<Rightarrow> 'k PublicKey result" where
  "get_public_key ssl priv =
     (case check_ret ssl (ret_of ''EVP_PKEY_get_raw_public_key'' (ssl_raw_public_key ssl priv)) of
        Inl e \<Rightarrow> Inl e
      | Inr raw_key \<Rightarrow> Inr (PublicKey_new ssl raw_key))"

definition PrivateKey_sign :: "'k openssl \<Rightarrow> 'k PrivateKey \<Rightarrow> u8 list \<Rightarrow> u8 list result" where
  "PrivateKey_sign ssl priv data = check_ret ssl (ssl_digest_sign ssl priv data)"

text \<open>\<open>priv.get_public_key().get_raw_key()\<close>, as the SDK writes it everywhere.\<close>

definition public_raw_key :: "'k openssl \<Rightarrow> 'k PrivateKey \<Rightarrow> u8 list result" where
  "public_raw_key ssl priv =
     (case get_public_key ssl priv of Inl e \<Rightarrow> Inl e | Inr pub \<Rightarrow> PublicKey_get_raw_key ssl pub)"

section \<open>What the SDK relies on\<close>

definition keys_ok :: "'k openssl \<Rightarrow> bool" where
  "keys_ok ssl \<longleftrightarrow>
     (\<forall>raw. length raw = 32 \<longrightarrow> (\<exists>k. ssl_new_private_key ssl raw = Some k \<and> ssl_raw_private_key ssl k = Some raw))"

text \<open>Every private key has a public key, which is recovered from its bytes and verifies its signatures.\<close>

definition private_key :: "'k openssl \<Rightarrow> 'k \<Rightarrow> bool" where
  "private_key ssl k \<longleftrightarrow> (\<exists>raw. ssl_new_private_key ssl raw = Some k)"

definition signs_for :: "'k openssl \<Rightarrow> 'k \<Rightarrow> u8 list \<Rightarrow> 'k \<Rightarrow> bool" where
  "signs_for ssl k raw p \<longleftrightarrow>
     ssl_raw_public_key ssl k = Some raw \<and> length raw = 32 \<and>
     ssl_new_public_key ssl raw = Some p \<and> ssl_raw_public_key ssl p = Some raw \<and>
     (\<forall>data. \<exists>sig. ssl_digest_sign ssl k data = Inr sig \<and> length sig = 64 \<and>
        ssl_digest_verify ssl p sig data = Inr True)"

text \<open>OpenSSL keeps at most 1024 bytes of HKDF info.\<close>

definition hashes_ok :: "'k openssl \<Rightarrow> bool" where
  "hashes_ok ssl \<longleftrightarrow>
     (\<forall>data. length (ssl_sha256 ssl data) = 32) \<and>
     (\<forall>data. length (ssl_sha3_256 ssl data) = 32) \<and>
     (\<forall>pass salt. length (ssl_pbkdf2 ssl pass salt 2048 32) = 32) \<and>
     (\<forall>key data. \<exists>out. ssl_hmac ssl key data = Inr out \<and> length out = 32) \<and>
     (\<forall>salt key info. length key = 32 \<and> length info \<le> 1024 \<longrightarrow>
        (\<exists>out. ssl_hkdf ssl salt key info 32 = Inr out \<and> length out = 32))"

definition openssl_ok :: "'k openssl \<Rightarrow> bool" where
  "openssl_ok ssl \<longleftrightarrow> keys_ok ssl \<and> (\<forall>k. private_key ssl k \<longrightarrow> (\<exists>raw p. signs_for ssl k raw p)) \<and> hashes_ok ssl"

section \<open>Lemmas\<close>

lemma hex_to_raw_key_loop_hex: "hex_to_raw_key_loop (bytes_to_hex bs) = bs"
  by (induction bs) (simp_all add: bytes_to_hex_def extract_hex_digits)

lemma hex_to_raw_key_hex: "length bs = 32 \<Longrightarrow> hex_to_raw_key (bytes_to_hex bs) = Inr bs"
  by (simp add: hex_to_raw_key_def hex_to_raw_key_loop_hex)

lemma from_raw_key_ok:
  assumes "openssl_ok ssl" and "length raw = 32"
  shows "\<exists>k. PrivateKey_from_raw_key ssl raw = Inr k \<and> PrivateKey_get_raw_key ssl k = Inr raw"
proof -
  from assms obtain k where "ssl_new_private_key ssl raw = Some k" "ssl_raw_private_key ssl k = Some raw"
    unfolding openssl_ok_def keys_ok_def by blast
  then show ?thesis
    by (simp add: PrivateKey_from_raw_key_def PrivateKey_get_raw_key_def check_ret_def ret_of_def)
qed

lemma from_raw_key_private: "PrivateKey_from_raw_key ssl raw = Inr k \<Longrightarrow> private_key ssl k"
  by (auto simp: PrivateKey_from_raw_key_def private_key_def split: option.splits sum.splits)

lemma signs_for_public:
  assumes "signs_for ssl k raw p"
  shows "get_public_key ssl k = Inr (Some p)" and "public_raw_key ssl k = Inr raw" and "length raw = 32"
    and "PublicKey_new ssl raw = Some p" and "PublicKey_get_raw_key ssl (Some p) = Inr raw"
  using assms
  by (simp_all add: signs_for_def get_public_key_def public_raw_key_def PublicKey_get_raw_key_def
      PublicKey_new_def check_ret_def ret_of_def)

lemma signs_for_sign:
  assumes "signs_for ssl k raw p"
  shows "\<exists>sig. PrivateKey_sign ssl k data = Inr sig \<and> length sig = 64 \<and> PublicKey_verify ssl (Some p) sig data = Inr True"
proof -
  from assms obtain sig where "ssl_digest_sign ssl k data = Inr sig" "length sig = 64"
    "ssl_digest_verify ssl p sig data = Inr True"
    unfolding signs_for_def by blast
  then show ?thesis by (simp add: PrivateKey_sign_def PublicKey_verify_def check_ret_def)
qed

lemma openssl_okD:
  assumes "openssl_ok ssl"
  shows "private_key ssl k \<Longrightarrow> \<exists>raw p. signs_for ssl k raw p" and "length (ssl_sha256 ssl data) = 32"
    and "length (ssl_sha3_256 ssl data) = 32" and "length (ssl_pbkdf2 ssl pass salt 2048 32) = 32"
    and "\<exists>out. ssl_hmac ssl key data = Inr out \<and> length out = 32"
    and "length seed = 32 \<Longrightarrow> length info \<le> 1024 \<Longrightarrow> \<exists>out. ssl_hkdf ssl salt seed info 32 = Inr out \<and> length out = 32"
  using assms unfolding openssl_ok_def hashes_ok_def by blast+

end
