(* ===== verification/Wallet.thy ===== *)
theory Wallet
  imports Mnemonic Ed25519 Diem_Account
begin

text \<open>
  \<open>src/cpp/sdk/src/wallet.cpp\<close>: the wallet, from a mnemonic to the keys and addresses of accounts.

  A mnemonic of 24 words is 264 bits, eleven for each word: 32 bytes of entropy and one byte of
  their hash. The seed is derived from the text of the mnemonic, the private key of account \<open>i\<close> from
  the seed and \<open>i\<close>, and the address of the account from its public key. The lemmas follow the bits
  from the entropy to the text and back, and the accounts through every history of a wallet.
\<close>

section \<open>The wallet\<close>

record 'k Wallet =
  m_entropy_hash :: "u8 list"
  m_seed :: "u8 list"
  main_key :: "u8 list"
  m_private_keys :: "'k PrivateKey list"

definition MNEMONIC_SALT_PREFIX :: cstring where
  "MNEMONIC_SALT_PREFIX = str ''DIEM WALLET: mnemonic salt prefix$''"

definition MAIN_KEY_SALT :: cstring where
  "MAIN_KEY_SALT = str ''DIEM WALLET: main key salt$''"

definition INFO_PREFIX :: cstring where
  "INFO_PREFIX = str ''DIEM WALLET: derived key$''"

text \<open>
  The constructor from 32 bytes of entropy assigns to \<open>entropy[32]\<close>, one past the end of the array
  it was given. Wallets from random numbers are made by it, of an array that was never filled.
\<close>

definition Wallet_from_entropy :: "u8 list \<Rightarrow> 'k Wallet result" where
  "Wallet_from_entropy entropy = Inl (Undefined_behaviour ''entropy[32]'')"

definition generate_from_random :: "u8 list \<Rightarrow> 'k Wallet result" where
  "generate_from_random entropy = Wallet_from_entropy entropy"

section \<open>Exporting the mnemonic\<close>

definition export_step :: "u8 list \<Rightarrow> nat \<Rightarrow> u64 \<times> cstring \<Rightarrow> u64 \<times> cstring" where
  "export_step entropy i = (\<lambda>(word_index, oss).
     let byte_index = i div 8; bit_index = 7 - i mod 8;
         byte = entropy ! byte_index;
         word_index' = (if byte AND push_bit bit_index 1 \<noteq> 0
                        then word_index OR push_bit (10 - i mod 11) 1 else word_index)
     in if i mod 11 = 10
        then (0, oss @ (if i \<noteq> 10 then [0x20] else []) @ str (WORDS ! unat word_index'))
        else (word_index', oss))"

definition export_mnemonic :: "'k openssl \<Rightarrow> ('k Wallet, cstring) eff" where
  "export_mnemonic ssl w =
     (let hash = ssl_sha256 ssl (take 32 (m_entropy_hash w));
          w' = w\<lparr>m_entropy_hash := (m_entropy_hash w)[32 := hash ! 0]\<rparr>
      in (Inr (snd (fold (export_step (m_entropy_hash w')) [0..<33 * 8] (0, []))), w'))"

section \<open>Seeds and keys\<close>

definition generate_seed :: "'k openssl \<Rightarrow> cstring \<Rightarrow> ('k Wallet, unit) eff" where
  "generate_seed ssl salt =
     eff_bind (export_mnemonic ssl) (\<lambda>mnemonic.
     eff_modify (\<lambda>w. w\<lparr>m_seed := ssl_pbkdf2 ssl mnemonic (MNEMONIC_SALT_PREFIX @ c_str salt) 2048 32\<rparr>))"

definition extract_main_key :: "'k openssl \<Rightarrow> ('k Wallet, unit) eff" where
  "extract_main_key ssl =
     eff_bind (eff_get m_seed) (\<lambda>seed.
     eff_bind (eff_lift (check_ret ssl (ssl_hmac ssl MAIN_KEY_SALT seed))) (\<lambda>key.
     eff_modify (\<lambda>w. w\<lparr>main_key := key\<rparr>)))"

definition extend_child_private_key :: "'k openssl \<Rightarrow> 'k Wallet \<Rightarrow> u64 \<Rightarrow> u8 list result" where
  "extend_child_private_key ssl w index =
     check_ret ssl (ssl_hkdf ssl MAIN_KEY_SALT (m_seed w) (INFO_PREFIX @ le_split 8 index) 32)"

section \<open>Reading a mnemonic\<close>

text \<open>\<open>std::bitset<264>::set\<close> throws when the position is out of range.\<close>

definition bitset_set :: "bool list \<Rightarrow> nat \<Rightarrow> bool list result" where
  "bitset_set bits position =
     (if position < length bits then Inr (bits[position := True]) else Inl (Out_of_range ''bitset::set''))"

fun index_bits :: "u64 \<Rightarrow> nat list \<Rightarrow> bool list \<times> nat \<Rightarrow> (bool list \<times> nat) result" where
  "index_bits index [] st = Inr st"
| "index_bits index (i # ks) (bits, bit_index) =
     (if index AND push_bit i 1 \<noteq> 0 then
        (case bitset_set bits bit_index of
           Inl e \<Rightarrow> Inl e
         | Inr bits' \<Rightarrow> index_bits index ks (bits', bit_index + 1))
      else index_bits index ks (bits, bit_index + 1))"

fun mnemonic_bits :: "cstring list \<Rightarrow> bool list \<times> nat \<Rightarrow> (bool list \<times> nat) result" where
  "mnemonic_bits [] st = Inr st"
| "mnemonic_bits (word # words) st =
     (let found = lower_bound WORDS word
      in if found = length WORDS
         then Inl (Runtime_error (''Mnemonic contains a unkonwn word : '' @ c_text word))
         else (case index_bits (of_nat found) (rev [0..<11]) st of
                 Inl e \<Rightarrow> Inl e
               | Inr st' \<Rightarrow> mnemonic_bits words st'))"

definition entropy_step :: "bool list \<Rightarrow> nat \<Rightarrow> u8 list \<Rightarrow> u8 list" where
  "entropy_step bits i entropy =
     (let index = i div 8; bit' = 7 - i mod 8; byte = push_bit bit' (if bits ! i then 1 else 0)
      in entropy[index := entropy ! index OR byte])"

definition generate_from_mnemonic :: "'k openssl \<Rightarrow> cstring \<Rightarrow> 'k Wallet result" where
  "generate_from_mnemonic ssl mnemonic =
     (let words = stream_words (c_str mnemonic)
      in if length words \<notin> {24, 21, 18, 15, 12}
         then Inl (Runtime_error ''Mnemonic must have a word count of the following lengths: 24, 21, 18, 15, 12'')
         else (case mnemonic_bits words (replicate 264 False, 0) of
                 Inl e \<Rightarrow> Inl e
               | Inr (bits, _) \<Rightarrow>
                   (let entropy = fold (entropy_step bits) [0..<33 * 8] (replicate 33 0);
                        hash = ssl_sha256 ssl (take 32 entropy)
                    in if entropy ! 32 \<noteq> hash ! 0
                       then Inl (Runtime_error ''Failed to verify mnemonic.'')
                       else (case eff_bind (generate_seed ssl (str ''DIEM'')) (\<lambda>_. extract_main_key ssl)
                                    \<lparr>m_entropy_hash = entropy, m_seed = [], main_key = [], m_private_keys = []\<rparr> of
                               (Inl e, _) \<Rightarrow> Inl e
                             | (Inr _, wallet) \<Rightarrow> Inr wallet))))"

section \<open>Accounts\<close>

text \<open>\<open>Scheme::Ed25519\<close> is 0.\<close>

definition pub_key_to_auth_key :: "'k openssl \<Rightarrow> 'k PublicKey \<Rightarrow> u8 list result" where
  "pub_key_to_auth_key ssl pub_key =
     (case PublicKey_get_raw_key ssl pub_key of
        Inl e \<Rightarrow> Inl e
      | Inr raw_pub_key \<Rightarrow> Inr (ssl_sha3_256 ssl (raw_pub_key @ [0])))"

definition pub_key_account_address :: "'k openssl \<Rightarrow> 'k PublicKey \<Rightarrow> AccountAddress result" where
  "pub_key_account_address ssl pub_key =
     (case pub_key_to_auth_key ssl pub_key of
        Inl e \<Rightarrow> Inl e
      | Inr auth_key \<Rightarrow> Inr \<lparr>AccountAddress_value = drop 16 auth_key\<rparr>)"

definition wallet_create_next_account :: "'k openssl \<Rightarrow> ('k Wallet, u64 \<times> AccountAddress) eff" where
  "wallet_create_next_account ssl =
     eff_bind (eff_get (\<lambda>w. of_nat (length (m_private_keys w)))) (\<lambda>keys_size.
     eff_bind (\<lambda>w. eff_lift (extend_child_private_key ssl w keys_size) w) (\<lambda>raw_key.
     eff_bind (eff_lift (PrivateKey_from_raw_key ssl raw_key)) (\<lambda>priv_key.
     eff_bind (eff_lift (public_raw_key ssl priv_key)) (\<lambda>raw_pub_key.
     eff_bind (eff_modify (\<lambda>w. w\<lparr>m_private_keys := m_private_keys w @ [priv_key]\<rparr>)) (\<lambda>_.
     let hash = ssl_sha3_256 ssl (raw_pub_key @ [0])
     in eff_return (keys_size, \<lparr>AccountAddress_value = drop 16 hash\<rparr>))))))"

record Account =
  Account_index :: u64
  Account_address :: AccountAddress
  Account_auth_key :: "u8 list"

fun all_accounts_loop :: "'k openssl \<Rightarrow> u64 \<Rightarrow> 'k PrivateKey list \<Rightarrow> Account list result" where
  "all_accounts_loop ssl index [] = Inr []"
| "all_accounts_loop ssl index (priv_key # keys) =
     (case get_public_key ssl priv_key of
        Inl e \<Rightarrow> Inl e
      | Inr pub \<Rightarrow>
          (case pub_key_account_address ssl pub of
             Inl e \<Rightarrow> Inl e
           | Inr address \<Rightarrow>
               (case pub_key_to_auth_key ssl pub of
                  Inl e \<Rightarrow> Inl e
                | Inr auth_key \<Rightarrow>
                    (case all_accounts_loop ssl (index + 1) keys of
                       Inl e \<Rightarrow> Inl e
                     | Inr accounts \<Rightarrow>
                         Inr (\<lparr>Account_index = index, Account_address = address,
                               Account_auth_key = auth_key\<rparr> # accounts)))))"

definition wallet_get_all_accounts :: "'k openssl \<Rightarrow> 'k Wallet \<Rightarrow> Account list result" where
  "wallet_get_all_accounts ssl w = all_accounts_loop ssl 0 (m_private_keys w)"

text \<open>\<open>m_private_keys.at(index)\<close>.\<close>

definition get_account_priv_key :: "'k Wallet \<Rightarrow> u64 \<Rightarrow> 'k PrivateKey result" where
  "get_account_priv_key w index =
     (if unat index < length (m_private_keys w) then Inr (m_private_keys w ! unat index)
      else Inl (Out_of_range ''vector::_M_range_check''))"

definition get_account_pub_key :: "'k openssl \<Rightarrow> 'k Wallet \<Rightarrow> u64 \<Rightarrow> u8 list result" where
  "get_account_pub_key ssl w index =
     (case get_account_priv_key w index of Inl e \<Rightarrow> Inl e | Inr priv \<Rightarrow> public_raw_key ssl priv)"

section \<open>Bits and words\<close>

text \<open>The \<open>i\<close>-th bit of a byte string, highest bit of a byte first.\<close>

definition bit_at :: "u8 list \<Rightarrow> nat \<Rightarrow> bool" where
  "bit_at e i \<longleftrightarrow> bit (e ! (i div 8)) (7 - i mod 8)"

text \<open>The \<open>k\<close>-th group of eleven bits, as a number.\<close>

definition word_at :: "u8 list \<Rightarrow> nat \<Rightarrow> u64" where
  "word_at e k = fold (\<lambda>j w. if bit_at e (11 * k + j) then w OR push_bit (10 - j) 1 else w) [0..<11] 0"

lemma and_bit_iff: "(w :: 'a::len word) AND 2 ^ i = 0 \<longleftrightarrow> \<not> bit w i"
  using bit_iff_and_push_bit_not_eq_0 [of w i] by simp

lemma upt_groups: "[0..<11 * Suc n] = [0..<11 * n] @ [11 * n..<11 * n + 11]"
  by (metis add.commute mult_Suc_right upt_add_eq_append zero_le)

lemma upt_group_last: "[a..<a + 11] = [a..<a + 10] @ [a + 10 :: nat]"
  using upt_Suc_append [of a "a + 10"] by (simp add: add.commute)

lemma bit_fold_or:
  "bit (fold (\<lambda>j w. if P j then w OR push_bit (f j) 1 else w) js (w :: u64)) n \<longleftrightarrow>
     bit w n \<or> (n < 64 \<and> (\<exists>j \<in> set js. P j \<and> f j = n))"
  by (induction js arbitrary: w) (auto simp: bit_simps)

lemma bit_word_at: "bit (word_at e k) n \<longleftrightarrow> n \<le> 10 \<and> bit_at e (11 * k + (10 - n))"
proof -
  have "bit (word_at e k) n \<longleftrightarrow> n < 64 \<and> (\<exists>j < 11. bit_at e (11 * k + j) \<and> 10 - j = n)"
    by (simp add: word_at_def bit_fold_or atLeast0LessThan Bex_def)
  also have "\<dots> \<longleftrightarrow> n \<le> 10 \<and> bit_at e (11 * k + (10 - n))"
    by (auto intro: exI [of _ "10 - n"])
  finally show ?thesis .
qed

lemma word_at_less: "unat (word_at e k) < 2048"
proof -
  have "word_at e k = take_bit 11 (word_at e k)"
    by (rule bit_word_eqI) (auto simp: bit_simps bit_word_at)
  then have "unat (word_at e k) = take_bit 11 (unat (word_at e k))"
    by (metis unsigned_take_bit_eq)
  then show ?thesis using take_bit_nat_less_exp [of 11 "unat (word_at e k)"] by simp
qed

text \<open>The words of an entropy, and the text that is exported.\<close>

definition entropy_words :: "u8 list \<Rightarrow> nat \<Rightarrow> cstring list" where
  "entropy_words e n = map (\<lambda>k. str (WORDS ! unat (word_at e k))) [0..<n]"

lemma export_step_eq:
  "export_step e i (w, oss) =
     (let w' = (if bit_at e i then w OR push_bit (10 - i mod 11) 1 else w)
      in if i mod 11 = 10 then (0, oss @ (if i \<noteq> 10 then [0x20] else []) @ str (WORDS ! unat w')) else (w', oss))"
  by (simp add: export_step_def bit_at_def and_bit_iff Let_def)

lemma export_group_part:
  "m \<le> 10 \<Longrightarrow> fold (export_step e) [11 * k..<11 * k + m] (0, oss) =
     (fold (\<lambda>j w. if bit_at e (11 * k + j) then w OR push_bit (10 - j) 1 else w) [0..<m] 0, oss)"
  by (induction m) (simp_all add: export_step_eq Let_def)

lemma export_group:
  "fold (export_step e) [11 * k..<11 * k + 11] (0, oss) =
     (0, oss @ (if k \<noteq> 0 then [0x20] else []) @ str (WORDS ! unat (word_at e k)))"
  using upt_group_last [of 0]
  by (simp add: upt_group_last export_group_part export_step_eq word_at_def Let_def)

lemma export_words:
  "fold (export_step e) [0..<11 * n] (0, []) = (0, join_words (entropy_words e n))"
proof (induction n)
  case (Suc n)
  then show ?case
    by (auto simp: upt_groups export_group entropy_words_def join_words_snoc simp del: mult_Suc_right)
qed (simp add: entropy_words_def)

lemma entropy_words_plain: "list_all plain_word (entropy_words e n)"
  using WORDS_plain word_at_less by (auto simp: entropy_words_def list_all_iff)

lemma export_mnemonic_eq:
  "export_mnemonic ssl w =
     (let e = (m_entropy_hash w)[32 := ssl_sha256 ssl (take 32 (m_entropy_hash w)) ! 0]
      in (Inr (join_words (entropy_words e 24)), w\<lparr>m_entropy_hash := e\<rparr>))"
  using export_words [of _ 24] by (simp add: export_mnemonic_def Let_def)

text \<open>Reading: every word contributes the eleven bits of its index, whatever came before.\<close>

lemma index_bits_eq:
  "length ks \<le> m \<Longrightarrow> index_bits x ks (pre @ replicate m False, length pre) =
     Inr (pre @ map (bit x) ks @ replicate (m - length ks) False, length pre + length ks)"
proof (induction ks arbitrary: pre m)
  case (Cons i ks)
  then obtain m' where m: "m = Suc m'" by (cases m) auto
  have "bitset_set (pre @ replicate m False) (length pre) = Inr ((pre @ [True]) @ replicate m' False)"
    by (simp add: bitset_set_def m)
  with Cons.IH [of m' "pre @ [True]"] Cons.IH [of m' "pre @ [False]"] Cons.prems show ?case
    by (simp add: and_bit_iff m)
qed simp

definition word_bits :: "cstring \<Rightarrow> bool list" where
  "word_bits word = map (bit (of_nat (lower_bound WORDS word) :: u64)) (rev [0..<11])"

lemma length_word_bits [simp]: "length (word_bits word) = 11"
  by (simp add: word_bits_def)

lemma mnemonic_bits_eq:
  assumes "11 * length words \<le> m"
  shows "mnemonic_bits words (pre @ replicate m False, length pre) = Inr r \<longleftrightarrow>
     list_all (\<lambda>word. lower_bound WORDS word < 2048) words \<and>
     r = (pre @ concat (map word_bits words) @ replicate (m - 11 * length words) False,
          length pre + 11 * length words)"
  using assms
proof (induction words arbitrary: pre m)
  case (Cons word words)
  have le: "lower_bound WORDS word \<le> 2048"
    using lower_bound_bounds(1) [OF WORDS_sorted, of word] by simp
  have "index_bits (of_nat (lower_bound WORDS word)) (rev [0..<11]) (pre @ replicate m False, length pre) =
      Inr ((pre @ word_bits word) @ replicate (m - 11) False, length (pre @ word_bits word))"
    using Cons.prems by (subst index_bits_eq) (simp_all add: word_bits_def del: upt_Suc)
  moreover have "m - 11 - 11 * length words = m - (11 + 11 * length words)" by simp
  ultimately show ?case
    using Cons.IH [of "m - 11" "pre @ word_bits word"] Cons.prems le
    by (auto simp: Let_def add.assoc simp del: upt_Suc)
qed auto

lemma word_bits_at: "word_bits (str (WORDS ! unat (word_at e k))) = map (bit_at e) [11 * k..<11 * k + 11]"
proof -
  have "lower_bound WORDS (str (WORDS ! unat (word_at e k))) = unat (word_at e k)"
    using WORDS_sorted word_at_less by (intro lower_bound_word) simp_all
  then show ?thesis
    by (intro nth_equalityI) (simp_all add: word_bits_def rev_nth bit_word_at del: upt_Suc)
qed

lemma concat_word_bits: "concat (map word_bits (entropy_words e n)) = map (bit_at e) [0..<11 * n]"
proof (induction n)
  case (Suc n)
  then show ?case by (simp add: upt_groups entropy_words_def word_bits_at del: mult_Suc_right)
qed (simp add: entropy_words_def)

text \<open>Collecting bits into bytes.\<close>

lemma byte_bit_index:
  fixes b q :: nat
  assumes "b < 8"
  shows "(8 * q + (7 - b)) div 8 = q" and "(8 * q + (7 - b)) mod 8 = 7 - b"
proof -
  define c where "c = 7 - b"
  have "c < 8" by (simp add: c_def)
  then have "(8 * q + c) div 8 = q" "(8 * q + c) mod 8 = c" by simp_all
  then show "(8 * q + (7 - b)) div 8 = q" "(8 * q + (7 - b)) mod 8 = 7 - b" by (simp_all only: c_def)
qed

lemma length_entropy_step [simp]: "length (entropy_step bits i e) = length e"
  by (simp add: entropy_step_def Let_def)

lemma bit_entropy_step:
  "i div 8 < length e \<Longrightarrow> q < length e \<Longrightarrow> b < 8 \<Longrightarrow>
     bit (entropy_step bits i e ! q) b \<longleftrightarrow> bit (e ! q) b \<or> (q = i div 8 \<and> b = 7 - i mod 8 \<and> bits ! i)"
  by (auto simp: entropy_step_def Let_def nth_list_update bit_simps)

lemma entropy_fold:
  assumes "n \<le> 8 * N"
  shows "length (fold (entropy_step bits) [0..<n] (replicate N 0)) = N"
    and "q < N \<Longrightarrow> b < 8 \<Longrightarrow>
      bit (fold (entropy_step bits) [0..<n] (replicate N 0) ! q) b \<longleftrightarrow> 8 * q + (7 - b) < n \<and> bits ! (8 * q + (7 - b))"
proof -
  have "length (fold (entropy_step bits) [0..<n] (replicate N 0)) = N \<and>
    (\<forall>q < N. \<forall>b < 8. bit (fold (entropy_step bits) [0..<n] (replicate N 0) ! q) b \<longleftrightarrow>
       8 * q + (7 - b) < n \<and> bits ! (8 * q + (7 - b)))" (is "?P n")
    using assms
  proof (induction n)
    case (Suc n)
    let ?e = "fold (entropy_step bits) [0..<n] (replicate N 0)"
    have IH: "?P n" using Suc by simp
    have n: "n div 8 < N" using Suc.prems by simp
    have step: "8 * q + (7 - b) < Suc n \<longleftrightarrow> 8 * q + (7 - b) < n \<or> (q = n div 8 \<and> b = 7 - n mod 8)"
      if "b < 8" for q b
    proof
      assume "8 * q + (7 - b) < Suc n"
      moreover have "q = n div 8 \<and> b = 7 - n mod 8" if "n = 8 * q + (7 - b)"
        unfolding that byte_bit_index [OF \<open>b < 8\<close>] using \<open>b < 8\<close> by simp
      ultimately show "8 * q + (7 - b) < n \<or> (q = n div 8 \<and> b = 7 - n mod 8)" by fastforce
    qed (use that in auto)
    have eq: "8 * (n div 8) + (7 - (7 - n mod 8)) = n" by simp
    show ?case
    proof (intro conjI allI impI)
      show "length (fold (entropy_step bits) [0..<Suc n] (replicate N 0)) = N"
        using IH by simp
    next
      fix q b assume q: "q < N" and b: "b < (8 :: nat)"
      from IH q b have h: "bit (?e ! q) b \<longleftrightarrow> 8 * q + (7 - b) < n \<and> bits ! (8 * q + (7 - b))" by blast
      have "bit (fold (entropy_step bits) [0..<Suc n] (replicate N 0) ! q) b \<longleftrightarrow>
          bit (?e ! q) b \<or> (q = n div 8 \<and> b = 7 - n mod 8 \<and> bits ! n)"
        using IH q n b by (simp add: bit_entropy_step)
      also have "\<dots> \<longleftrightarrow> 8 * q + (7 - b) < Suc n \<and> bits ! (8 * q + (7 - b))"
        using h step [OF b, of q] eq by metis
      finally show "bit (fold (entropy_step bits) [0..<Suc n] (replicate N 0) ! q) b \<longleftrightarrow>
          8 * q + (7 - b) < Suc n \<and> bits ! (8 * q + (7 - b))" .
    qed
  qed simp
  then show "length (fold (entropy_step bits) [0..<n] (replicate N 0)) = N"
    "q < N \<Longrightarrow> b < 8 \<Longrightarrow>
      bit (fold (entropy_step bits) [0..<n] (replicate N 0) ! q) b \<longleftrightarrow> 8 * q + (7 - b) < n \<and> bits ! (8 * q + (7 - b))"
    by blast+
qed

lemma entropy_of_bits:
  assumes "length e = N"
  shows "fold (entropy_step (map (bit_at e) [0..<8 * N])) [0..<8 * N] (replicate N 0) = e" (is "?f = e")
proof (rule nth_equalityI)
  show len: "length ?f = length e" using assms by (simp add: entropy_fold)
  fix q assume "q < length ?f"
  with len assms have q: "q < N" by simp
  show "?f ! q = e ! q"
  proof (rule bit_word_eqI)
    fix b assume "b < LENGTH(8)"
    then have b: "b < 8" by simp
    with q have "8 * q + (7 - b) < 8 * N" by linarith
    moreover have "bit_at e (8 * q + (7 - b)) \<longleftrightarrow> bit (e ! q) b"
      unfolding bit_at_def byte_bit_index [OF b] using b by simp
    ultimately show "bit (?f ! q) b \<longleftrightarrow> bit (e ! q) b"
      unfolding entropy_fold(2) [OF order_refl q b] by simp
  qed
qed

section \<open>Wallets from mnemonics\<close>

definition decoded_entropy :: "cstring list \<Rightarrow> u8 list" where
  "decoded_entropy words =
     fold (entropy_step (concat (map word_bits words) @ replicate (264 - 11 * length words) False))
       [0..<264] (replicate 33 0)"

text \<open>The wallet an entropy with its checksum stands for.\<close>

definition wallet_of :: "'k openssl \<Rightarrow> u8 list \<Rightarrow> 'k Wallet result" where
  "wallet_of ssl e =
     (let seed = ssl_pbkdf2 ssl (join_words (entropy_words e 24)) (MNEMONIC_SALT_PREFIX @ str ''DIEM'') 2048 32
      in case check_ret ssl (ssl_hmac ssl MAIN_KEY_SALT seed) of
           Inl x \<Rightarrow> Inl x
         | Inr key \<Rightarrow> Inr \<lparr>m_entropy_hash = e, m_seed = seed, main_key = key, m_private_keys = []\<rparr>)"

definition checked :: "'k openssl \<Rightarrow> u8 list \<Rightarrow> bool" where
  "checked ssl e \<longleftrightarrow> length e = 33 \<and> e ! 32 = ssl_sha256 ssl (take 32 e) ! 0"

lemma checked_update: "checked ssl e \<Longrightarrow> e[32 := ssl_sha256 ssl (take 32 e) ! 0] = e"
  by (metis checked_def list_update_id)

lemma length_decoded_entropy [simp]: "length (decoded_entropy words) = 33"
  by (simp add: decoded_entropy_def entropy_fold)

lemma c_str_DIEM: "c_str (str ''DIEM'') = str ''DIEM''"
  by (simp add: c_str_def str_def)

lemma generate_from_mnemonic_iff:
  "generate_from_mnemonic ssl mnemonic = Inr w \<longleftrightarrow>
     (let words = stream_words (c_str mnemonic); e = decoded_entropy words
      in length words \<in> {24, 21, 18, 15, 12} \<and> list_all (\<lambda>word. lower_bound WORDS word < 2048) words \<and>
         checked ssl e \<and> wallet_of ssl e = Inr w)"
proof (cases "length (stream_words (c_str mnemonic)) \<in> {24, 21, 18, 15, 12}")
  case True
  let ?words = "stream_words (c_str mnemonic)"
  have bits: "mnemonic_bits ?words (replicate 264 False, 0) = Inr r \<longleftrightarrow>
      list_all (\<lambda>word. lower_bound WORDS word < 2048) ?words \<and>
      r = (concat (map word_bits ?words) @ replicate (264 - 11 * length ?words) False, 11 * length ?words)" for r
    using mnemonic_bits_eq [of ?words 264 "[]" r] True by auto
  have run: "(case eff_bind (generate_seed ssl (str ''DIEM'')) (\<lambda>_. extract_main_key ssl)
        \<lparr>m_entropy_hash = e, m_seed = [], main_key = [], m_private_keys = []\<rparr> of
        (Inl x, _) \<Rightarrow> Inl x | (Inr _, wallet) \<Rightarrow> Inr wallet) = wallet_of ssl e" if "checked ssl e" for e
    by (simp add: eff_bind_def generate_seed_def export_mnemonic_eq extract_main_key_def eff_get_def eff_lift_def
        eff_modify_def wallet_of_def checked_update [OF that] c_str_DIEM Let_def split: sum.splits)
  show ?thesis
  proof (cases "mnemonic_bits ?words (replicate 264 False, 0)")
    case (Inl x)
    with bits [THEN iffD2] show ?thesis using True by (auto simp: generate_from_mnemonic_def Let_def)
  next
    case (Inr r)
    with bits [of r] True run [of "decoded_entropy ?words"] show ?thesis
      by (auto simp: generate_from_mnemonic_def Let_def decoded_entropy_def [symmetric] checked_def)
  qed
qed (auto simp: generate_from_mnemonic_def Let_def)

lemma decoded_entropy_words: "length e = 33 \<Longrightarrow> decoded_entropy (entropy_words e 24) = e"
  using entropy_of_bits [of e 33] concat_word_bits [of e 24]
  by (simp add: decoded_entropy_def entropy_words_def)

lemma entropy_words_found: "list_all (\<lambda>word. lower_bound WORDS word < 2048) (entropy_words e n)"
  using WORDS_sorted word_at_less by (auto simp: entropy_words_def list_all_iff lower_bound_word)

lemma generate_from_exported:
  assumes "checked ssl e"
  shows "generate_from_mnemonic ssl (join_words (entropy_words e 24)) = Inr w \<longleftrightarrow> wallet_of ssl e = Inr w"
proof -
  have "stream_words (c_str (join_words (entropy_words e 24))) = entropy_words e 24"
    using entropy_words_plain [of e 24] by (simp add: c_str_no_null join_words_no_null stream_words_join)
  moreover have "length (entropy_words e 24) = 24" by (simp add: entropy_words_def)
  ultimately show ?thesis
    using assms decoded_entropy_words [of e] entropy_words_found [of e 24]
    by (simp add: generate_from_mnemonic_iff Let_def checked_def)
qed

section \<open>The accounts of a wallet\<close>

text \<open>Every history of a wallet: it is made from a mnemonic, accounts are created, it is exported.\<close>

inductive wallet_history :: "'k openssl \<Rightarrow> cstring \<Rightarrow> 'k Wallet \<Rightarrow> bool" for ssl mnemonic where
  made: "generate_from_mnemonic ssl mnemonic = Inr w \<Longrightarrow> wallet_history ssl mnemonic w"
| created: "wallet_history ssl mnemonic w \<Longrightarrow> wallet_create_next_account ssl w = (r, w') \<Longrightarrow>
    wallet_history ssl mnemonic w'"
| exported: "wallet_history ssl mnemonic w \<Longrightarrow> export_mnemonic ssl w = (r, w') \<Longrightarrow>
    wallet_history ssl mnemonic w'"

text \<open>The key of account \<open>i\<close> is derived from the seed and \<open>i\<close> alone.\<close>

definition child_key :: "'k openssl \<Rightarrow> u8 list \<Rightarrow> nat \<Rightarrow> 'k PrivateKey result" where
  "child_key ssl seed i =
     (case check_ret ssl (ssl_hkdf ssl MAIN_KEY_SALT seed (INFO_PREFIX @ le_split 8 (of_nat i :: u64)) 32) of
        Inl e \<Rightarrow> Inl e
      | Inr raw \<Rightarrow> PrivateKey_from_raw_key ssl raw)"

definition wallet_ok :: "'k openssl \<Rightarrow> 'k Wallet \<Rightarrow> bool" where
  "wallet_ok ssl w \<longleftrightarrow>
     checked ssl (m_entropy_hash w) \<and>
     (\<exists>w0. wallet_of ssl (m_entropy_hash w) = Inr w0 \<and> m_seed w = m_seed w0 \<and> main_key w = main_key w0) \<and>
     (\<forall>i < length (m_private_keys w). child_key ssl (m_seed w) i = Inr (m_private_keys w ! i))"

text \<open>\<open>create_next_account\<close>, all at once.\<close>

lemma create_next_account_eq:
  "wallet_create_next_account ssl w =
     (case child_key ssl (m_seed w) (length (m_private_keys w)) of
        Inl e \<Rightarrow> (Inl e, w)
      | Inr k \<Rightarrow>
          (case public_raw_key ssl k of
             Inl e \<Rightarrow> (Inl e, w)
           | Inr pub \<Rightarrow> (Inr (of_nat (length (m_private_keys w)),
               \<lparr>AccountAddress_value = drop 16 (ssl_sha3_256 ssl (pub @ [0]))\<rparr>),
               w\<lparr>m_private_keys := m_private_keys w @ [k]\<rparr>)))"
  by (simp add: wallet_create_next_account_def extend_child_private_key_def child_key_def eff_bind_def
      eff_get_def eff_lift_def eff_modify_def eff_return_def Let_def split: sum.splits)

lemma wallet_ok_made:
  assumes "generate_from_mnemonic ssl mnemonic = Inr w"
  shows "wallet_ok ssl w" and "m_private_keys w = []"
    and "m_entropy_hash w = decoded_entropy (stream_words (c_str mnemonic))"
proof -
  let ?e = "decoded_entropy (stream_words (c_str mnemonic))"
  from assms have c: "checked ssl ?e" "wallet_of ssl ?e = Inr w"
    by (simp_all add: generate_from_mnemonic_iff Let_def)
  then have "m_entropy_hash w = ?e \<and> m_private_keys w = []"
    by (auto simp: wallet_of_def Let_def split: sum.splits)
  with c show "wallet_ok ssl w" "m_private_keys w = []" "m_entropy_hash w = ?e"
    by (auto simp: wallet_ok_def)
qed

lemma wallet_ok_created:
  assumes "wallet_ok ssl w" and "wallet_create_next_account ssl w = (r, w')"
  shows "wallet_ok ssl w'" and "m_entropy_hash w' = m_entropy_hash w"
  using assms
  by (auto simp: create_next_account_eq wallet_ok_def nth_append less_Suc_eq split: sum.splits)

lemma wallet_ok_exported:
  assumes "wallet_ok ssl w" and "export_mnemonic ssl w = (r, w')"
  shows "w' = w" and "r = Inr (join_words (entropy_words (m_entropy_hash w) 24))"
  using assms by (auto simp: export_mnemonic_eq wallet_ok_def checked_update Let_def)

lemma wallet_history_ok:
  assumes "wallet_history ssl mnemonic w"
  shows "wallet_ok ssl w \<and> m_entropy_hash w = decoded_entropy (stream_words (c_str mnemonic))"
  using assms
  by (induction rule: wallet_history.induct)
    (auto dest: wallet_ok_made wallet_ok_created wallet_ok_exported)

lemma wallet_ok_seed:
  "wallet_ok ssl w \<Longrightarrow> wallet_ok ssl w' \<Longrightarrow> m_entropy_hash w = m_entropy_hash w' \<Longrightarrow> m_seed w = m_seed w'"
  by (auto simp: wallet_ok_def)

lemma all_accounts_loop_iff:
  "all_accounts_loop ssl index keys = Inr accounts \<longleftrightarrow>
     length accounts = length keys \<and>
     (\<forall>i < length keys. all_accounts_loop ssl (index + of_nat i) [keys ! i] = Inr [accounts ! i])"
proof (induction keys arbitrary: index accounts)
  case (Cons k keys)
  show ?case
  proof (cases accounts)
    case Nil
    then show ?thesis by (auto split: sum.splits)
  next
    case acc: (Cons a rest)
    have "all_accounts_loop ssl index (k # keys) = Inr (a # rest) \<longleftrightarrow>
        all_accounts_loop ssl index [k] = Inr [a] \<and> all_accounts_loop ssl (index + 1) keys = Inr rest"
      by (auto split: sum.splits)
    then show ?thesis
      by (simp add: acc Cons.IH All_less_Suc2 ac_simps del: all_accounts_loop.simps)
  qed
qed auto

text \<open>The accounts of two wallets of the same entropy agree as far as both go.\<close>

lemma wallet_accounts_agree:
  assumes ok: "wallet_ok ssl v" "wallet_ok ssl w" "m_entropy_hash v = m_entropy_hash w"
    and acc: "wallet_get_all_accounts ssl v = Inr as" "wallet_get_all_accounts ssl w = Inr bs"
    and le: "length as \<le> length bs"
  shows "as = take (length as) bs" and "m_private_keys v = take (length as) (m_private_keys w)"
proof -
  have len: "length as = length (m_private_keys v)" "length bs = length (m_private_keys w)"
    and at: "\<And>i. i < length as \<Longrightarrow> all_accounts_loop ssl (of_nat i) [m_private_keys v ! i] = Inr [as ! i]"
      "\<And>i. i < length bs \<Longrightarrow> all_accounts_loop ssl (of_nat i) [m_private_keys w ! i] = Inr [bs ! i]"
    using acc all_accounts_loop_iff [of ssl 0 "m_private_keys v" as] all_accounts_loop_iff [of ssl 0 "m_private_keys w" bs]
    by (simp_all add: wallet_get_all_accounts_def)
  have keys: "m_private_keys v ! i = m_private_keys w ! i" if "i < length as" for i
  proof -
    have "child_key ssl (m_seed v) i = Inr (m_private_keys v ! i)" "child_key ssl (m_seed w) i = Inr (m_private_keys w ! i)"
      using that len le ok(1,2) by (simp_all add: wallet_ok_def)
    then show ?thesis using wallet_ok_seed [OF ok] by simp
  qed
  show "m_private_keys v = take (length as) (m_private_keys w)"
    using keys len le by (intro nth_equalityI) simp_all
  have "as ! i = bs ! i" if "i < length as" for i
    using at(1) [OF that] at(2) [of i] keys [OF that] that le by simp
  then show "as = take (length as) bs" using le by (intro nth_equalityI) simp_all
qed

text \<open>When OpenSSL does what the SDK relies on, creating an account succeeds.\<close>

lemma wallet_ok_seed_length: "openssl_ok ssl \<Longrightarrow> wallet_ok ssl w \<Longrightarrow> length (m_seed w) = 32"
  by (auto simp: wallet_ok_def wallet_of_def openssl_okD(4) Let_def split: sum.splits)

lemma child_key_private: "child_key ssl seed i = Inr k \<Longrightarrow> private_key ssl k"
  by (auto simp: child_key_def split: sum.splits dest: from_raw_key_private)

lemma wallet_ok_private: "wallet_ok ssl w \<Longrightarrow> list_all (private_key ssl) (m_private_keys w)"
  by (auto simp: wallet_ok_def list_all_length intro: child_key_private)

lemma child_key_ok:
  assumes "openssl_ok ssl" and "length seed = 32"
  shows "\<exists>k. child_key ssl seed i = Inr k"
proof -
  have info: "length (INFO_PREFIX @ le_split 8 (of_nat i :: u64)) \<le> 1024" by (simp add: INFO_PREFIX_def str_def)
  obtain raw where "ssl_hkdf ssl MAIN_KEY_SALT seed (INFO_PREFIX @ le_split 8 (of_nat i :: u64)) 32 = Inr raw" "length raw = 32"
    using openssl_okD(6) [OF assms] info by blast
  then show ?thesis using from_raw_key_ok [OF assms(1), of raw] by (auto simp: child_key_def check_ret_def)
qed

definition account_of :: "'k openssl \<Rightarrow> u64 \<Rightarrow> u8 list \<Rightarrow> Account" where
  "account_of ssl index raw =
     \<lparr>Account_index = index, Account_address = \<lparr>AccountAddress_value = drop 16 (ssl_sha3_256 ssl (raw @ [0]))\<rparr>,
      Account_auth_key = ssl_sha3_256 ssl (raw @ [0])\<rparr>"

lemma account_of_key:
  assumes "signs_for ssl k raw p"
  shows "all_accounts_loop ssl index [k] = Inr [account_of ssl index raw]"
  using signs_for_public [OF assms]
  by (simp add: pub_key_account_address_def pub_key_to_auth_key_def account_of_def)

lemma all_accounts_ok:
  assumes "openssl_ok ssl" and "list_all (private_key ssl) keys"
  shows "\<exists>accounts. all_accounts_loop ssl index keys = Inr accounts"
  using assms(2)
proof (induction keys arbitrary: index)
  case (Cons k keys)
  obtain raw p where "signs_for ssl k raw p" using openssl_okD(1) [OF assms(1), of k] Cons.prems by auto
  note k = signs_for_public [OF this]
  obtain rest where "all_accounts_loop ssl (index + 1) keys = Inr rest" using Cons by auto
  with k show ?case by (simp add: pub_key_account_address_def pub_key_to_auth_key_def)
qed simp

end
