(* ===== verification/Json_Rpc.thy ===== *)
theory Json_Rpc
  imports Utils Effects Diem_Transaction
begin

text \<open>
  \<open>src/cpp/sdk/src/json_rpc.cpp\<close>: the client of the JSON-RPC service of a node.

  HTTP and JSON come from the C++ REST SDK, which is not part of the repository. What the client
  calls of it are the records \<open>json\<close> and \<open>http\<close>, arguments of the definitions here: \<open>'j\<close> stands for
  JSON values, \<open>'w\<close> for the state of the world behind a request. The requests are built, and the
  answers taken apart, as the code does it. The interface \<open>json_rpc::Client\<close> is the record
  \<open>rpc_client\<close>, and \<open>Client_create\<close> is its implementation.
\<close>

section \<open>HTTP and JSON\<close>

text \<open>
  \<open>json_at\<close> is \<open>value::operator[]\<close>, which gives null for a key that is absent and throws for
  a value that is no object; \<open>json_as_integer\<close> gives an \<open>int\<close>.
\<close>

record 'j json =
  json_at :: "'j \<Rightarrow> string \<Rightarrow> 'j result"
  json_is_null :: "'j \<Rightarrow> bool"
  json_as_string :: "'j \<Rightarrow> cstring result"
  json_as_integer :: "'j \<Rightarrow> u32 result"
  json_to_int64 :: "'j \<Rightarrow> u64 result"
  json_as_array :: "'j \<Rightarrow> 'j list result"
  json_serialize :: "'j \<Rightarrow> cstring"

record 'j http_response =
  status_code :: nat
  extract_string :: cstring
  extract_json :: "'j result"

record ('w, 'j) http =
  http_post :: "cstring \<Rightarrow> ('w, 'j http_response) eff"

section \<open>Data\<close>

text \<open>
  The members of the structs that the client assigns; the others are never read.
\<close>

record AccountView =
  AccountView_address :: AccountAddress
  AccountView_sequence_number :: u64

record AccountStateWithProof =
  AccountState_version :: u64
  AccountState_blob :: cstring
  ledger_info_to_transaction_info_proof :: cstring
  transaction_info :: cstring
  transaction_info_to_account_proof :: cstring

record EventView =
  EventView_key :: cstring
  EventView_sequence_number :: u64
  EventView_transaction_version :: u64
  EventView_event :: "u8 list"

record Explanation =
  category :: cstring
  category_description :: cstring
  reason :: cstring
  reason_description :: cstring

datatype VMStatus =
    VMStatus_Executed cstring
  | VMStatus_ExecutionFailure cstring cstring u64 u64
  | VMStatus_OutOfGas cstring
  | VMStatus_MiscellaneousError cstring
  | VMStatus_MoveAbort cstring cstring u64 Explanation

record TransactionView =
  TransactionView_vm_status :: VMStatus

section \<open>Requests\<close>

text \<open>
  The text of the requests. \<open>%s\<close> inserts a \<open>const char *\<close>. \<open>%d\<close> is given a \<open>uint64_t\<close>, but stands
  for an \<open>int\<close>: what is printed is the low half of the argument as a signed number, on platforms that
  pass arguments in 64-bit registers.
\<close>

definition format_d :: "u64 \<Rightarrow> cstring" where
  "format_d n = (let i = sint (ucast n :: u32) in (if i < 0 then [0x2D] else []) @ dec (nat \<bar>i\<bar>))"

definition submit_request :: "cstring \<Rightarrow> cstring" where
  \<open>submit_request data =
     str ''{"jsonrpc":"2.0","method":"submit","params":["'' @ c_str data @ str ''"],"id":1}''\<close>

definition get_account_transaction_request :: "AccountAddress \<Rightarrow> u64 \<Rightarrow> bool \<Rightarrow> cstring" where
  \<open>get_account_transaction_request address sn include_events =
     str ''{"jsonrpc":"2.0","method":"get_account_transaction","params":["'' @
     c_str (bytes_to_hex (AccountAddress_value address)) @ str ''", '' @ format_d sn @ str '', '' @
     (if include_events then str ''true'' else str ''false'') @ str ''],"id":1}''\<close>

definition get_account_request :: "AccountAddress \<Rightarrow> cstring" where
  \<open>get_account_request address =
     str ''{"jsonrpc":"2.0","method":"get_account","params":["'' @
     c_str (bytes_to_hex (AccountAddress_value address)) @ str ''"],"id":1}''\<close>

definition get_account_state_request :: "cstring \<Rightarrow> cstring" where
  \<open>get_account_state_request account_address =
     str ''{"jsonrpc":"2.0","method":"get_account_state_with_proof","params":["'' @
     c_str account_address @ str ''", null, null],"id":1}''\<close>

definition get_events_request :: "cstring \<Rightarrow> u64 \<Rightarrow> u64 \<Rightarrow> cstring" where
  \<open>get_events_request event_key start limit =
     str ''{"jsonrpc":"2.0","method":"get_events","params":["'' @ c_str event_key @ str ''", '' @
     format_d start @ str '', '' @ format_d limit @ str ''],"id":1}''\<close>

section \<open>Calls\<close>

text \<open>
  \<open>request(...).then(...).get()\<close>: the calling thread waits for the answer, and an exception of the
  continuation is rethrown to it.
\<close>

definition rpc_call :: "('w, 'j) http \<Rightarrow> cstring \<Rightarrow> ('w, 'j) eff" where
  "rpc_call http method =
     eff_bind (http_post http method) (\<lambda>response.
     if status_code response \<noteq> 200 then eff_throw (Runtime_error (c_text (extract_string response)))
     else eff_lift (extract_json response))"

text \<open>
  The awaitables: a continuation resumes the coroutine. When the request fails, the continuation is
  not run; the exception stays in the task of the library and the coroutine is never resumed.
\<close>

definition rpc_await :: "('w, 'j) http \<Rightarrow> cstring \<Rightarrow> ('w, 'j) eff" where
  "rpc_await http method w =
     (case rpc_call http method w of (Inl e, w') \<Rightarrow> (Inl Never_resumed, w') | (Inr v, w') \<Rightarrow> (Inr v, w'))"

section \<open>Answers\<close>

definition check_error :: "'j json \<Rightarrow> cstring \<Rightarrow> 'j \<Rightarrow> unit result" where
  "check_error json what rpc_response =
     (case json_at json rpc_response ''error'' of
        Inl e \<Rightarrow> Inl e
      | Inr error \<Rightarrow>
          (if \<not> json_is_null json error
           then Inl (Runtime_error (c_text (what @ json_serialize json error))) else Inr ()))"

definition submit_answer :: "'j json \<Rightarrow> 'j \<Rightarrow> unit result" where
  "submit_answer json rpc_response =
     (case check_error json (str ''fun : get_account_state_blob, error : '') rpc_response of
        Inl e \<Rightarrow> Inl e
      | Inr _ \<Rightarrow>
          (case json_at json rpc_response ''diem_ledger_version'' of
             Inl e \<Rightarrow> Inl e
           | Inr v \<Rightarrow> (case json_as_integer json v of Inl e \<Rightarrow> Inl e | Inr version \<Rightarrow> Inr ())))"

text \<open>\<open>v["a"].as_string()\<close> and \<open>(uint64_t)v["a"].as_integer()\<close>.\<close>

definition string_member :: "'j json \<Rightarrow> 'j \<Rightarrow> string \<Rightarrow> cstring result" where
  "string_member json v key =
     (case json_at json v key of Inl e \<Rightarrow> Inl e | Inr x \<Rightarrow> json_as_string json x)"

definition integer_member :: "'j json \<Rightarrow> 'j \<Rightarrow> string \<Rightarrow> u64 result" where
  "integer_member json v key =
     (case json_at json v key of
        Inl e \<Rightarrow> Inl e
      | Inr x \<Rightarrow> (case json_as_integer json x of Inl e \<Rightarrow> Inl e | Inr i \<Rightarrow> Inr (scast i)))"

definition explanation_member :: "'j json \<Rightarrow> 'j \<Rightarrow> string \<Rightarrow> cstring result" where
  "explanation_member json vm_status key =
     (case json_at json vm_status ''explanation'' of
        Inl e \<Rightarrow> Inl e
      | Inr x \<Rightarrow> (if json_is_null json x then Inr [] else string_member json x key))"

definition vm_status_answer :: "'j json \<Rightarrow> 'j \<Rightarrow> VMStatus result" where
  "vm_status_answer json vm_status =
     sum_bind (string_member json vm_status ''type'') (\<lambda>type'.
     if type' = str ''executed'' then Inr (VMStatus_Executed type')
     else if type' = str ''execution_failure'' then
       sum_bind (string_member json vm_status ''location'') (\<lambda>location.
       sum_bind (integer_member json vm_status ''function_index'') (\<lambda>function_index.
       sum_bind (integer_member json vm_status ''code_offset'') (\<lambda>code_offset.
       Inr (VMStatus_ExecutionFailure type' location function_index code_offset))))
     else if type' = str ''out_of_gas'' then Inr (VMStatus_OutOfGas type')
     else if type' = str ''miscellaneous_error'' then Inr (VMStatus_MiscellaneousError type')
     else if type' = str ''move_abort'' then
       sum_bind (string_member json vm_status ''location'') (\<lambda>location.
       sum_bind (integer_member json vm_status ''abort_code'') (\<lambda>abort_code.
       sum_bind (explanation_member json vm_status ''category'') (\<lambda>category'.
       sum_bind (explanation_member json vm_status ''category_description'') (\<lambda>category_description'.
       sum_bind (explanation_member json vm_status ''reason'') (\<lambda>reason'.
       sum_bind (explanation_member json vm_status ''reason_description'') (\<lambda>reason_description'.
       Inr (VMStatus_MoveAbort type' location abort_code
         \<lparr>category = category', category_description = category_description',
          reason = reason', reason_description = reason_description'\<rparr>)))))))
     else Inl (Runtime_error ''unknow vm status''))"

definition transaction_answer :: "'j json \<Rightarrow> 'j \<Rightarrow> TransactionView option result" where
  "transaction_answer json rpc_response =
     sum_bind (check_error json (str ''get_account_transaction error, '') rpc_response) (\<lambda>_.
     sum_bind (json_at json rpc_response ''result'') (\<lambda>result.
     if \<not> json_is_null json result then
       sum_bind (json_at json result ''vm_status'') (\<lambda>vm_status.
       sum_bind (vm_status_answer json vm_status) (\<lambda>status.
       Inr (Some \<lparr>TransactionView_vm_status = status\<rparr>)))
     else Inr None))"

text \<open>\<open>init\<close> is the view as it is declared: its members have no value yet.\<close>

definition account_answer :: "'j json \<Rightarrow> AccountView \<Rightarrow> 'j \<Rightarrow> AccountView option result" where
  "account_answer json init rpc_response =
     sum_bind (check_error json (str ''fun : get_account_state_blob, error : '') rpc_response) (\<lambda>_.
     sum_bind (json_at json rpc_response ''result'') (\<lambda>result.
     if \<not> json_is_null json result then
       sum_bind (json_at json result ''sequence_number'') (\<lambda>sn.
       if \<not> json_is_null json sn then
         sum_bind (json_to_int64 json sn) (\<lambda>n.
         sum_bind (string_member json result ''address'') (\<lambda>address.
         sum_bind (hex_to_array_u8 16 address) (\<lambda>a.
         Inr (Some (init\<lparr>AccountView_sequence_number := n,
           AccountView_address := \<lparr>AccountAddress_value = a\<rparr>\<rparr>)))))
       else Inr (Some init))
     else Inr None))"

definition proof_member :: "'j json \<Rightarrow> 'j \<Rightarrow> string \<Rightarrow> cstring result" where
  "proof_member json result key =
     sum_bind (json_at json result ''proof'') (\<lambda>proof'. string_member json proof' key)"

definition blob_answer :: "'j json \<Rightarrow> bool \<Rightarrow> 'j \<Rightarrow> AccountStateWithProof result" where
  "blob_answer json null_is_error rpc_response =
     sum_bind (check_error json (str ''fun : get_account_state_blob, error : '') rpc_response) (\<lambda>_.
     sum_bind (json_at json rpc_response ''result'') (\<lambda>result.
     sum_bind (integer_member json result ''version'') (\<lambda>version.
     sum_bind (json_at json result ''blob'') (\<lambda>blob.
     sum_bind (if \<not> json_is_null json blob then json_as_string json blob
               else if null_is_error then Inl (Runtime_error (c_text
                 (str ''json_rpc::await_get_account_state_blob, error : '' @ json_serialize json rpc_response)))
               else Inr []) (\<lambda>text'.
     sum_bind (proof_member json result ''ledger_info_to_transaction_info_proof'') (\<lambda>p1.
     sum_bind (proof_member json result ''transaction_info'') (\<lambda>p2.
     sum_bind (proof_member json result ''transaction_info_to_account_proof'') (\<lambda>p3.
     Inr \<lparr>AccountState_version = version, AccountState_blob = text',
       ledger_info_to_transaction_info_proof = p1, transaction_info = p2,
       transaction_info_to_account_proof = p3\<rparr>))))))))"

definition event_answer :: "'j json \<Rightarrow> 'j \<Rightarrow> EventView result" where
  "event_answer json e =
     sum_bind (string_member json e ''key'') (\<lambda>key.
     sum_bind (integer_member json e ''sequence_number'') (\<lambda>sn.
     sum_bind (integer_member json e ''transaction_version'') (\<lambda>version.
     sum_bind (json_at json e ''data'') (\<lambda>data.
     sum_bind (string_member json data ''type'') (\<lambda>type'.
     sum_bind (if type' = str ''unknown''
               then sum_bind (string_member json data ''bytes'') hex_to_bytes else Inr []) (\<lambda>bytes'.
     Inr \<lparr>EventView_key = key, EventView_sequence_number = sn,
       EventView_transaction_version = version, EventView_event = bytes'\<rparr>))))))"

fun events_loop :: "'j json \<Rightarrow> 'j list \<Rightarrow> EventView list result" where
  "events_loop json [] = Inr []"
| "events_loop json (e # es) =
     sum_bind (event_answer json e) (\<lambda>ev. sum_bind (events_loop json es) (\<lambda>evs. Inr (ev # evs)))"

definition events_answer :: "'j json \<Rightarrow> 'j \<Rightarrow> EventView list result" where
  "events_answer json rpc_response =
     sum_bind (check_error json (str ''fun : get_events, error : '') rpc_response) (\<lambda>_.
     sum_bind (json_at json rpc_response ''result'') (\<lambda>result.
     sum_bind (json_as_array json result) (events_loop json)))"

section \<open>The client\<close>

definition submit :: "('w, 'j) http \<Rightarrow> 'j json \<Rightarrow> SignedTransaction \<Rightarrow> ('w, unit) eff" where
  "submit http json signed_txn =
     eff_bind (eff_lift (bcsSerialize_SignedTransaction signed_txn)) (\<lambda>data.
     eff_bind (rpc_call http (submit_request (bytes_to_hex data))) (\<lambda>rpc_response.
     eff_lift (submit_answer json rpc_response)))"

text \<open>
  In \<open>await_submit2\<close> the answer is looked at inside the continuation: whatever it throws there also
  keeps the coroutine from being resumed.
\<close>

definition await_submit2 :: "('w, 'j) http \<Rightarrow> 'j json \<Rightarrow> SignedTransaction \<Rightarrow> ('w, unit) eff" where
  "await_submit2 http json signed_txn =
     eff_bind (eff_lift (bcsSerialize_SignedTransaction signed_txn)) (\<lambda>data.
     eff_bind (rpc_await http (submit_request (bytes_to_hex data))) (\<lambda>rpc_response.
     case submit_answer json rpc_response of
       Inl e \<Rightarrow> eff_throw Never_resumed
     | Inr _ \<Rightarrow> eff_return ()))"

definition get_account_transaction ::
    "('w, 'j) http \<Rightarrow> 'j json \<Rightarrow> AccountAddress \<Rightarrow> u64 \<Rightarrow> bool \<Rightarrow> ('w, TransactionView option) eff" where
  "get_account_transaction http json address sn include_events =
     eff_bind (rpc_call http (get_account_transaction_request address sn include_events)) (\<lambda>rpc_response.
     eff_lift (transaction_answer json rpc_response))"

definition await_get_account_transaction ::
    "('w, 'j) http \<Rightarrow> 'j json \<Rightarrow> AccountAddress \<Rightarrow> u64 \<Rightarrow> bool \<Rightarrow> ('w, TransactionView option) eff" where
  "await_get_account_transaction http json address sn include_events =
     eff_bind (rpc_await http (get_account_transaction_request address sn include_events)) (\<lambda>rpc_response.
     eff_lift (transaction_answer json rpc_response))"

definition get_account ::
    "('w, 'j) http \<Rightarrow> 'j json \<Rightarrow> AccountView \<Rightarrow> AccountAddress \<Rightarrow> ('w, AccountView option) eff" where
  "get_account http json init address =
     eff_bind (rpc_call http (get_account_request address)) (\<lambda>rpc_response.
     eff_lift (account_answer json init rpc_response))"

definition get_account_state_blob ::
    "('w, 'j) http \<Rightarrow> 'j json \<Rightarrow> cstring \<Rightarrow> ('w, AccountStateWithProof) eff" where
  "get_account_state_blob http json account_address =
     eff_bind (rpc_call http (get_account_state_request account_address)) (\<lambda>rpc_response.
     eff_lift (blob_answer json False rpc_response))"

definition await_get_account_state_blob ::
    "('w, 'j) http \<Rightarrow> 'j json \<Rightarrow> cstring \<Rightarrow> ('w, AccountStateWithProof) eff" where
  "await_get_account_state_blob http json account_address =
     eff_bind (rpc_await http (get_account_state_request account_address)) (\<lambda>rpc_response.
     eff_lift (blob_answer json True rpc_response))"

definition get_events ::
    "('w, 'j) http \<Rightarrow> 'j json \<Rightarrow> cstring \<Rightarrow> u64 \<Rightarrow> u64 \<Rightarrow> ('w, EventView list) eff" where
  "get_events http json event_key start limit =
     eff_bind (rpc_call http (get_events_request event_key start limit)) (\<lambda>rpc_response.
     eff_lift (events_answer json rpc_response))"

definition await_get_events ::
    "('w, 'j) http \<Rightarrow> 'j json \<Rightarrow> cstring \<Rightarrow> u64 \<Rightarrow> u64 \<Rightarrow> ('w, EventView list) eff" where
  "await_get_events http json event_key start limit =
     eff_bind (rpc_await http (get_events_request event_key start limit)) (\<lambda>rpc_response.
     eff_lift (events_answer json rpc_response))"

text \<open>The interface \<open>json_rpc::Client\<close>, and its implementation.\<close>

record 'w rpc_client =
  rpc_submit :: "SignedTransaction \<Rightarrow> ('w, unit) eff"
  rpc_await_submit2 :: "SignedTransaction \<Rightarrow> ('w, unit) eff"
  rpc_get_account_transaction :: "AccountAddress \<Rightarrow> u64 \<Rightarrow> bool \<Rightarrow> ('w, TransactionView option) eff"
  rpc_await_get_account_transaction :: "AccountAddress \<Rightarrow> u64 \<Rightarrow> bool \<Rightarrow> ('w, TransactionView option) eff"
  rpc_get_account :: "AccountAddress \<Rightarrow> ('w, AccountView option) eff"
  rpc_get_account_state_blob :: "cstring \<Rightarrow> ('w, AccountStateWithProof) eff"
  rpc_await_get_account_state_blob :: "cstring \<Rightarrow> ('w, AccountStateWithProof) eff"
  rpc_get_events :: "cstring \<Rightarrow> u64 \<Rightarrow> u64 \<Rightarrow> ('w, EventView list) eff"
  rpc_await_get_events :: "cstring \<Rightarrow> u64 \<Rightarrow> u64 \<Rightarrow> ('w, EventView list) eff"

definition Client_create :: "('w, 'j) http \<Rightarrow> 'j json \<Rightarrow> AccountView \<Rightarrow> 'w rpc_client" where
  "Client_create http json init =
     \<lparr>rpc_submit = submit http json,
      rpc_await_submit2 = await_submit2 http json,
      rpc_get_account_transaction = get_account_transaction http json,
      rpc_await_get_account_transaction = await_get_account_transaction http json,
      rpc_get_account = get_account http json init,
      rpc_get_account_state_blob = get_account_state_blob http json,
      rpc_await_get_account_state_blob = await_get_account_state_blob http json,
      rpc_get_events = get_events http json,
      rpc_await_get_events = await_get_events http json\<rparr>"

section \<open>Lemmas\<close>

lemma hex_no_null: "0 \<notin> set (bytes_to_hex bs)"
proof -
  have "hex_digit n \<noteq> 0" if "n < 16" for n
    using that by (auto simp: hex_digit_def word_unat_eq_iff unat_of_nat simp del: of_nat_add)
  moreover have "unat (v :: u8) div 16 < 16" for v
    using unat_u8_less [of v] by (simp add: less_mult_imp_div_less)
  ultimately show ?thesis by (auto simp: bytes_to_hex_def)
qed

lemma c_str_hex [simp]: "c_str (bytes_to_hex bs) = bytes_to_hex bs"
  by (rule c_str_no_null [OF hex_no_null])

lemma rpc_await_iff: "rpc_await http method w = (Inr v, w') \<longleftrightarrow> rpc_call http method w = (Inr v, w')"
  by (auto simp: rpc_await_def split: prod.splits sum.splits)

lemma bytes_to_hex_inj: "bytes_to_hex a = bytes_to_hex b \<Longrightarrow> a = b"
  by (metis hex_to_bytes_loop_hex sum.inject(2))

text \<open>\<open>%d\<close> prints an argument below \<open>2^31\<close>, and only the low half of any other.\<close>

lemma unat_ucast_u32: "unat (ucast (n :: u64) :: u32) = unat n mod 2 ^ 32"
  by (simp add: unsigned_ucast_eq take_bit_eq_mod)

lemma format_d_small:
  assumes "unat n < 2 ^ 31"
  shows "format_d n = dec (unat n)"
proof -
  have "unat (ucast n :: u32) = unat n" using assms by (simp add: unat_ucast_u32)
  then have u: "uint (ucast n :: u32) = int (unat n)" by (metis of_nat_unat)
  define m where "m = unat n"
  have "signed_take_bit 31 (int m) = int m"
    using assms by (intro signed_take_bit_int_eq_self) (simp_all add: m_def [symmetric])
  then have "sint (ucast n :: u32) = int (unat n)"
    unfolding m_def by (simp only: sint_uint u) simp
  then show ?thesis by (simp add: format_d_def)
qed

lemma format_d_low: "format_d (n + 0x100000000) = format_d n"
proof -
  have "unat (n + 0x100000000) mod 2 ^ 32 = (unat n + 2 ^ 32) mod 2 ^ 64 mod 2 ^ 32"
    by (simp add: unat_word_ariths)
  also have "\<dots> = unat n mod 2 ^ 32" by (simp add: mod_mod_cancel)
  finally have "(ucast (n + 0x100000000) :: u32) = ucast n"
    by (simp only: word_unat_eq_iff unat_ucast_u32)
  then show ?thesis by (simp only: format_d_def)
qed

end
