(* ===== verification/Serde_Map.thy ===== *)
theory Serde_Map
  imports Serde "HOL-Library.Multiset"
begin

text \<open>
  Maps on the wire (\<open>Serializable<std::map<K, V>>\<close> and \<open>Deserializable<std::map<K, V>>\<close> of
  \<open>src/cpp/framework/src/serde.hpp\<close> with \<open>sort_last_entries\<close> and
  \<open>check_that_key_slices_are_increasing\<close> of \<open>src/cpp/framework/src/bcs.hpp\<close>).

  The serializer writes the entries in the order of the map's own comparison and then sorts their
  bytes; the deserializer insists on strictly increasing key bytes. The lemmas show that this is
  canonical: the bytes are those of the sorted entries, sorting whole entries also sorts the keys
  (because key encodings are prefix-free), and the deserializer accepts exactly those bytes.
\<close>

section \<open>The bytes of a map\<close>

definition map_entry :: "('k \<Rightarrow> bcs_doc) \<Rightarrow> ('v \<Rightarrow> bcs_doc) \<Rightarrow> 'k \<times> 'v \<Rightarrow> u8 list" where
  "map_entry docK docV item = enc (docK (fst item)) @ enc (docV (snd item))"

definition map_bytes :: "('k \<Rightarrow> bcs_doc) \<Rightarrow> ('v \<Rightarrow> bcs_doc) \<Rightarrow> ('k \<times> 'v) list \<Rightarrow> u8 list" where
  "map_bytes docK docV m = uleb128 (length m) @ concat (sort (map (map_entry docK docV) m))"

definition map_fits :: "('k \<Rightarrow> bcs_doc) \<Rightarrow> ('v \<Rightarrow> bcs_doc) \<Rightarrow> nat \<Rightarrow> ('k \<times> 'v) list \<Rightarrow> bool" where
  "map_fits docK docV b m \<longleftrightarrow> length m \<le> max_length \<and>
     list_all (\<lambda>(k, v). fits (docK k) \<and> fits (docV v) \<and> depth (docK k) \<le> b \<and> depth (docV v) \<le> b) m"

definition map_typed :: "('k \<Rightarrow> bcs_doc) \<Rightarrow> ('v \<Rightarrow> bcs_doc) \<Rightarrow> ('k \<times> 'v) list \<Rightarrow> bool" where
  "map_typed docK docV m \<longleftrightarrow> list_all (\<lambda>(k, v). typed (docK k) \<and> typed (docV v)) m"

section \<open>Cutting the buffer and sorting the slices\<close>

fun entry_starts :: "nat \<Rightarrow> 'a list list \<Rightarrow> nat list" where
  "entry_starts n [] = []"
| "entry_starts n (e # es) = n # entry_starts (n + length e) es"

lemma length_entry_starts [simp]: "length (entry_starts n es) = length es"
  by (induction es arbitrary: n) auto

lemma slices_at_entry_starts:
  "slices_at (pre @ concat es @ post) (entry_starts (length pre) es @ [length pre + length (concat es)]) = es"
proof (induction es arbitrary: pre)
  case (Cons e es)
  from Cons [of "pre @ e"] show ?case by (cases es) (simp_all add: add.assoc)
qed simp

lemma sort_last_entries_put:
  "sort_last_entries (entry_starts (length (bytes s)) es) (put (concat es) s) = put (concat (sort es)) s"
proof (cases es)
  case (Cons e es')
  with slices_at_entry_starts [of "bytes s" es "[]"] show ?thesis
    by (cases es') (simp_all add: sort_last_entries_def Let_def put_def)
qed (simp add: sort_last_entries_def)

section \<open>Lexicographic order and prefixes\<close>

lemma lex_append_prefix_free:
  fixes k1 :: "'a::linorder list"
  assumes "\<And>p q. k1 @ p \<noteq> k2 @ q"
  shows "k1 @ v1 < k2 @ v2 \<longleftrightarrow> k1 < k2"
  using assms
proof (induction k1 arbitrary: k2)
  case Nil
  from Nil [of k2 "[]"] show ?case by simp
next
  case (Cons a k1)
  show ?case
  proof (cases k2)
    case Nil
    with Cons.prems [of "[]" "a # k1"] show ?thesis by simp
  next
    case (Cons b k2')
    with Cons.prems have "a = b \<Longrightarrow> k1 @ p \<noteq> k2' @ q" for p q by simp
    then have "a = b \<Longrightarrow> k1 @ v1 < k2' @ v2 \<longleftrightarrow> k1 < k2'" by (rule Cons.IH)
    with Cons show ?thesis by auto
  qed
qed

section \<open>Insertion\<close>

text \<open>\<open>std::map\<close> asks for a strict order in which two keys that are not ordered are equal.\<close>

definition strict_total :: "('k \<Rightarrow> 'k \<Rightarrow> bool) \<Rightarrow> bool" where
  "strict_total lt \<longleftrightarrow> (\<forall>x. \<not> lt x x) \<and> (\<forall>x y z. lt x y \<longrightarrow> lt y z \<longrightarrow> lt x z) \<and> (\<forall>x y. lt x y \<or> x = y \<or> lt y x)"

lemma strict_totalD:
  assumes "strict_total lt"
  shows "\<not> lt x x" and "lt x y \<Longrightarrow> lt y z \<Longrightarrow> lt x z" and "\<not> lt x y \<Longrightarrow> x \<noteq> y \<Longrightarrow> lt y x"
  using assms unfolding strict_total_def by blast+

lemma sorted_wrt_unique:
  assumes "strict_total lt"
  shows "sorted_wrt (\<lambda>x y. lt (fst x) (fst y)) xs \<Longrightarrow> sorted_wrt (\<lambda>x y. lt (fst x) (fst y)) ys \<Longrightarrow>
     set xs = set ys \<Longrightarrow> xs = ys"
proof (induction xs arbitrary: ys)
  case (Cons x xs)
  note lt = strict_totalD [OF assms]
  from Cons.prems(3) obtain y ys' where ys: "ys = y # ys'" by (cases ys) auto
  have "x = y"
  proof (rule ccontr)
    assume "x \<noteq> y"
    then have "y \<in> set xs" "x \<in> set ys'" using Cons.prems(3) ys by auto
    then have "lt (fst x) (fst y)" "lt (fst y) (fst x)" using Cons.prems(1,2) ys by auto
    then show False using lt(1,2) by blast
  qed
  moreover have "x \<notin> set xs" "y \<notin> set ys'" using Cons.prems(1,2) ys lt(1) by auto
  ultimately have "set xs = set ys'" using Cons.prems(3) ys by auto
  with Cons ys \<open>x = y\<close> show ?case by simp
qed simp

abbreviation map_sorted :: "('k \<Rightarrow> 'k \<Rightarrow> bool) \<Rightarrow> ('k \<times> 'v) list \<Rightarrow> bool" where
  "map_sorted lt m \<equiv> sorted_wrt (\<lambda>x y. lt (fst x) (fst y)) m"

lemma map_sorted_distinct: "strict_total lt \<Longrightarrow> map_sorted lt m \<Longrightarrow> distinct (map fst m)"
  by (induction m) (auto simp: strict_totalD(1))

lemma map_insert_keys: "fst ` set (map_insert lt item m) \<subseteq> insert (fst item) (fst ` set m)"
  by (induction lt item m rule: map_insert.induct) auto

lemma map_insert_sorted:
  assumes "strict_total lt"
  shows "map_sorted lt m \<Longrightarrow> map_sorted lt (map_insert lt (k, v) m)"
proof (induction m)
  case (Cons e m)
  obtain k' v' where e: "e = (k', v')" by force
  have above: "lt k' (fst x)" if "x \<in> set m" for x using Cons.prems that e by auto
  show ?case
  proof (cases "lt k k'")
    case True
    then have "lt k (fst x)" if "x \<in> set m" for x
      using above [OF that] strict_totalD(2) [OF assms] by blast
    with True Cons.prems show ?thesis by (auto simp: e)
  next
    case False
    have "lt k' (fst x)" if "lt k' k" "x \<in> set (map_insert lt (k, v) m)" for x
      using map_insert_keys [of lt "(k, v)" m] that above by force
    with False Cons show ?thesis by (auto simp: e)
  qed
qed simp

lemma map_insert_set:
  assumes "strict_total lt"
  shows "k \<notin> fst ` set m \<Longrightarrow> set (map_insert lt (k, v) m) = insert (k, v) (set m)"
proof (induction m)
  case (Cons e m)
  obtain k' v' where e: "e = (k', v')" by force
  with Cons.prems have "k \<noteq> k'" by auto
  then have "lt k k' \<or> lt k' k" using strict_totalD(3) [OF assms] by blast
  with Cons show ?case by (auto simp: e)
qed simp

text \<open>Inserting entries with distinct keys one by one gives the sorted map of these entries.\<close>

lemma fold_map_insert:
  assumes "strict_total lt"
  shows "map_sorted lt m \<Longrightarrow> distinct (map fst items) \<Longrightarrow> fst ` set items \<inter> fst ` set m = {} \<Longrightarrow>
     map_sorted lt (fold (map_insert lt) items m) \<and>
     set (fold (map_insert lt) items m) = set items \<union> set m"
proof (induction items arbitrary: m)
  case (Cons item items)
  obtain k v where item: "item = (k, v)" by force
  have "map_sorted lt (map_insert lt item m)" "set (map_insert lt item m) = insert item (set m)"
    using Cons.prems by (auto simp: item map_insert_sorted [OF assms] map_insert_set [OF assms])
  with Cons.IH [of "map_insert lt item m"] Cons.prems show ?case by (auto simp: item)
qed simp

section \<open>The codec of a map\<close>

locale map_codec = K: bcs_codec serK deK docK + V: bcs_codec serV deV docV
  for serK :: "'k \<Rightarrow> ser_step" and deK and docK and serV :: "'v \<Rightarrow> ser_step" and deV and docV +
  fixes lt :: "'k \<Rightarrow> 'k \<Rightarrow> bool"
  assumes strict_total: "strict_total lt"
begin

lemma serialize_map_loop_iff:
  "serialize_map_loop serK serV items offsets s = Inr (offsets', s') \<longleftrightarrow>
     list_all (\<lambda>(k, v). fits (docK k) \<and> fits (docV v) \<and> depth (docK k) \<le> unat (container_depth_budget s) \<and>
        depth (docV v) \<le> unat (container_depth_budget s)) items \<and>
     offsets' = offsets @ entry_starts (length (bytes s)) (map (map_entry docK docV) items) \<and>
     s' = put (concat (map (map_entry docK docV) items)) s"
proof (induction items arbitrary: offsets s)
  case (Cons item items)
  obtain k v where item: "item = (k, v)" by force
  have "serialize_map_loop serK serV (item # items) offsets s = Inr (offsets', s') \<longleftrightarrow>
     (\<exists>t. steps [serK k, serV v] s = Inr t \<and>
        serialize_map_loop serK serV items (offsets @ [length (bytes s)]) t = Inr (offsets', s'))"
    by (auto simp: item get_buffer_offset_def split: sum.splits)
  then show ?case
    by (auto simp: Cons run_iff K.ser_iff V.ser_iff item map_entry_def add.assoc)
qed auto

lemma serialize_map_iff:
  "serialize_map serK serV m s = Inr s' \<longleftrightarrow>
     map_fits docK docV (unat (container_depth_budget s)) m \<and> s' = put (map_bytes docK docV m) s"
proof -
  have "serialize_map serK serV m s = Inr s' \<longleftrightarrow>
     (\<exists>t offsets u. serialize_len (length m) s = Inr t \<and>
        serialize_map_loop serK serV m [] t = Inr (offsets, u) \<and> s' = sort_last_entries offsets u)"
    by (auto simp: serialize_map_def split: sum.splits)
  then show ?thesis
    by (auto simp: run_iff serialize_map_loop_iff map_fits_def map_bytes_def
        sort_last_entries_put [of "put (uleb128 (length m)) s" "map (map_entry docK docV) m", simplified])
qed

abbreviation key_bytes :: "'k \<times> 'v \<Rightarrow> u8 list" where
  "key_bytes item \<equiv> enc (docK (fst item))"

definition previous_key :: "(nat \<times> nat) option \<Rightarrow> BinaryDeserializer \<Rightarrow> u8 list list" where
  "previous_key prev d =
     (case prev of None \<Rightarrow> [] | Some (i, j) \<Rightarrow> [take (j - i) (drop i (de_bytes d))])"

lemma previous_key_advance [simp]: "previous_key prev (advance n d) = previous_key prev d"
  by (simp add: previous_key_def split: option.splits)

text \<open>One round of the loop.\<close>

lemma deserialize_map_loop_round:
  "deserialize_map_loop lt deK deV (Suc n) prev result d = Inr r \<longleftrightarrow>
     (\<exists>k d1 v d2. deK d = Inr (k, d1) \<and>
        sorted_wrt (<) (previous_key prev d1 @ [take (pos d1 - pos d) (drop (pos d) (de_bytes d1))]) \<and>
        deV d1 = Inr (v, d2) \<and>
        deserialize_map_loop lt deK deV n (Some (pos d, pos d1)) (map_insert lt (k, v) result) d2 = Inr r)"
  by (auto simp: check_that_key_slices_are_increasing_def previous_key_def de_get_buffer_offset_def
      split: sum.splits option.splits if_splits)

definition reads_entries :: "('k \<times> 'v) list \<Rightarrow> BinaryDeserializer \<Rightarrow> BinaryDeserializer \<Rightarrow> bool" where
  "reads_entries items d d' \<longleftrightarrow>
     list_all (\<lambda>(k, v). wf_doc (docK k) \<and> wf_doc (docV v) \<and>
        depth (docK k) \<le> unat (de_container_depth_budget d) \<and>
        depth (docV v) \<le> unat (de_container_depth_budget d)) items \<and>
     input_starts (concat (map (map_entry docK docV) items)) d \<and>
     d' = advance (length (concat (map (map_entry docK docV) items))) d"

lemma reads_entries_Cons:
  "reads_entries ((k, v) # items) d d' \<longleftrightarrow>
     (\<exists>d1 d2. deK d = Inr (k, d1) \<and> deV d1 = Inr (v, d2) \<and> reads_entries items d2 d')"
  by (auto simp: reads_entries_def K.de_iff V.de_iff map_entry_def add.assoc)

lemma key_slice:
  assumes "deK d = Inr (k, d1)"
  shows "take (pos d1 - pos d) (drop (pos d) (de_bytes d)) = enc (docK k)" and "de_bytes d1 = de_bytes d"
  using assms by (auto simp: K.de_iff input_starts_def)

lemma deserialize_map_loop_iff:
  "deserialize_map_loop lt deK deV n prev result d = Inr (r, d') \<longleftrightarrow>
     (\<exists>items. length items = n \<and> reads_entries items d d' \<and>
        sorted_wrt (<) (previous_key prev d @ map key_bytes items) \<and>
        r = fold (map_insert lt) items result)"
proof (induction n arbitrary: prev result d)
  case 0
  then show ?case by (auto simp: reads_entries_def previous_key_def split: option.splits)
next
  case (Suc n)
  have prev: "previous_key prev d1 = previous_key prev d"
    "sorted_wrt (<) (previous_key prev d @ enc (docK k) # map key_bytes items) \<longleftrightarrow>
       sorted_wrt (<) (previous_key prev d @ [take (pos d1 - pos d) (drop (pos d) (de_bytes d1))]) \<and>
       sorted_wrt (<) (previous_key (Some (pos d, pos d1)) d2 @ map key_bytes items)"
    if "deK d = Inr (k, d1)" "deV d1 = Inr (v, d2)" for k v d1 d2 and items :: "('k \<times> 'v) list"
  proof -
    have d2: "de_bytes d2 = de_bytes d" using that by (auto simp: K.de_iff V.de_iff)
    show "previous_key prev d1 = previous_key prev d" using that(1) by (auto simp: K.de_iff)
    show "sorted_wrt (<) (previous_key prev d @ enc (docK k) # map key_bytes items) \<longleftrightarrow>
       sorted_wrt (<) (previous_key prev d @ [take (pos d1 - pos d) (drop (pos d) (de_bytes d1))]) \<and>
       sorted_wrt (<) (previous_key (Some (pos d, pos d1)) d2 @ map key_bytes items)"
      unfolding previous_key_def [of "Some _"] key_slice [OF that(1)] d2
      by (auto simp: previous_key_def key_slice(1) [OF that(1)] split: option.splits)
  qed
  have "(\<exists>items. length items = Suc n \<and> reads_entries items d d' \<and>
        sorted_wrt (<) (previous_key prev d @ map key_bytes items) \<and>
        r = fold (map_insert lt) items result) \<longleftrightarrow>
     (\<exists>k d1 v d2 items. deK d = Inr (k, d1) \<and> deV d1 = Inr (v, d2) \<and>
        length items = n \<and> reads_entries items d2 d' \<and>
        sorted_wrt (<) (previous_key prev d @ enc (docK k) # map key_bytes items) \<and>
        r = fold (map_insert lt) items (map_insert lt (k, v) result))"
    by (fastforce simp: length_Suc_conv reads_entries_Cons)
  also have "\<dots> \<longleftrightarrow> deserialize_map_loop lt deK deV (Suc n) prev result d = Inr (r, d')"
    unfolding deserialize_map_loop_round Suc by (auto simp: prev)
  finally show ?case by blast
qed

subsection \<open>Sorted entries have sorted keys\<close>

lemma map_entry_less_iff:
  assumes "wf_doc (docK (fst x))" "wf_doc (docK (fst y))" "depth (docK (fst x)) < 2 ^ 64" "depth (docK (fst y)) < 2 ^ 64"
    and "fst x \<noteq> fst y"
  shows "map_entry docK docV x < map_entry docK docV y \<longleftrightarrow> key_bytes x < key_bytes y"
  unfolding map_entry_def
  by (rule lex_append_prefix_free) (use K.prefix_free [OF assms(1-4)] assms(5) in blast)

lemma sorted_entries_iff:
  assumes "\<And>x. x \<in> set items \<Longrightarrow> wf_doc (docK (fst x)) \<and> depth (docK (fst x)) < 2 ^ 64"
    and "distinct (map fst items)"
  shows "sorted (map (map_entry docK docV) items) \<longleftrightarrow> sorted_wrt (<) (map key_bytes items)"
  using assms
proof (induction items)
  case (Cons x items)
  have "map_entry docK docV x \<le> map_entry docK docV y \<longleftrightarrow> key_bytes x < key_bytes y" if "y \<in> set items" for y
  proof -
    have "fst x \<noteq> fst y" using Cons.prems(2) that by auto
    moreover have wf: "wf_doc (docK (fst x))" "depth (docK (fst x)) < 2 ^ 64"
        "wf_doc (docK (fst y))" "depth (docK (fst y)) < 2 ^ 64"
      using Cons.prems(1) [of x] Cons.prems(1) [of y] that by simp_all
    ultimately have "map_entry docK docV x < map_entry docK docV y \<longleftrightarrow> key_bytes x < key_bytes y"
      "map_entry docK docV y < map_entry docK docV x \<longleftrightarrow> key_bytes y < key_bytes x"
      by (simp_all add: map_entry_less_iff)
    moreover have "key_bytes x \<noteq> key_bytes y"
      using K.prefix_free [of "fst x" "fst y" "[]" "[]"] wf \<open>fst x \<noteq> fst y\<close> by auto
    ultimately show ?thesis by (meson antisym_conv3 leD leI less_imp_le)
  qed
  with Cons show ?case by auto
qed simp

lemma increasing_keys_distinct: "sorted_wrt (<) (map key_bytes items) \<Longrightarrow> distinct (map fst items)"
  by (induction items) force+

text \<open>Reading entries whose keys increase, as the sorted map that results.\<close>

lemma increasing_entries_of_map:
  assumes "sorted_wrt (<) (map key_bytes items)"
    and "\<And>x. x \<in> set items \<Longrightarrow> wf_doc (docK (fst x)) \<and> depth (docK (fst x)) < 2 ^ 64"
    and m: "m = fold (map_insert lt) items []"
  shows "map_sorted lt m" and "set m = set items" and "length m = length items"
    and "sort (map (map_entry docK docV) m) = map (map_entry docK docV) items"
proof -
  have dist: "distinct (map fst items)" by (rule increasing_keys_distinct [OF assms(1)])
  then show sorted: "map_sorted lt m" and set: "set m = set items"
    using fold_map_insert [OF strict_total, of "[]" items] by (simp_all add: m)
  have "distinct m" using map_sorted_distinct [OF strict_total sorted] by (simp add: distinct_map)
  moreover have "distinct items" using dist by (simp add: distinct_map)
  ultimately have mset: "mset m = mset items" using set by (simp add: set_eq_iff_mset_eq_distinct)
  then show "length m = length items" by (rule mset_eq_length)
  have "sorted (map (map_entry docK docV) items)"
    using assms(1) by (simp add: sorted_entries_iff [OF assms(2) dist])
  with mset show "sort (map (map_entry docK docV) m) = map (map_entry docK docV) items"
    by (intro properties_for_sort) simp_all
qed

text \<open>The entries of a sorted map, in the order in which they are written.\<close>

lemma entries_in_wire_order:
  assumes "map_sorted lt m"
    and "\<And>x. x \<in> set m \<Longrightarrow> wf_doc (docK (fst x)) \<and> depth (docK (fst x)) < 2 ^ 64"
  obtains items where "set items = set m" and "length items = length m"
    and "map (map_entry docK docV) items = sort (map (map_entry docK docV) m)"
    and "sorted_wrt (<) (map key_bytes items)" and "fold (map_insert lt) items [] = m"
proof -
  define items where "items = sort_key (map_entry docK docV) m"
  have set: "set items = set m" and len: "length items = length m" by (simp_all add: items_def)
  have "distinct (map fst m)" by (rule map_sorted_distinct [OF strict_total assms(1)])
  then have dist: "distinct (map fst items)"
    by (simp add: items_def distinct_map distinct_sort)
  have sorted: "sorted (map (map_entry docK docV) items)" by (simp add: items_def)
  then have entries: "map (map_entry docK docV) items = sort (map (map_entry docK docV) m)"
    by (intro properties_for_sort [symmetric]) (simp_all add: items_def)
  have keys: "sorted_wrt (<) (map key_bytes items)"
    using sorted assms(2) set by (subst (asm) sorted_entries_iff) (auto simp: dist)
  have "map_sorted lt (fold (map_insert lt) items []) \<and> set (fold (map_insert lt) items []) = set m"
    using fold_map_insert [OF strict_total, of "[]" items] dist set by simp
  then have "fold (map_insert lt) items [] = m"
    using sorted_wrt_unique [OF strict_total _ assms(1)] by blast
  with set len entries keys show thesis by (rule that)
qed

lemma deserialize_map_iff:
  "deserialize_map lt deK deV d = Inr (m, d') \<longleftrightarrow>
     map_sorted lt m \<and> map_fits docK docV (unat (de_container_depth_budget d)) m \<and> map_typed docK docV m \<and>
     input_starts (map_bytes docK docV m) d \<and> d' = advance (length (map_bytes docK docV m)) d"
  (is "?L \<longleftrightarrow> ?R")
proof -
  have budget: "n \<le> unat (de_container_depth_budget d) \<Longrightarrow> n < 2 ^ 64" for n
    by (rule le_less_trans [OF _ unat_u64_less])
  have L: "?L \<longleftrightarrow> (\<exists>items. length items \<le> max_length \<and> input_starts (uleb128 (length items)) d \<and>
      reads_entries items (advance (length (uleb128 (length items))) d) d' \<and>
      sorted_wrt (<) (map key_bytes items) \<and> m = fold (map_insert lt) items [])"
    by (auto simp: deserialize_map_def run_iff deserialize_map_loop_iff previous_key_def)
  show ?thesis
  proof
    assume ?L
    then obtain items where items: "length items \<le> max_length" "input_starts (uleb128 (length items)) d"
      "reads_entries items (advance (length (uleb128 (length items))) d) d'"
      "sorted_wrt (<) (map key_bytes items)" "m = fold (map_insert lt) items []"
      unfolding L by blast
    then have "x \<in> set items \<Longrightarrow> wf_doc (docK (fst x)) \<and> depth (docK (fst x)) < 2 ^ 64" for x
      using budget by (auto simp: reads_entries_def list_all_iff)
    from increasing_entries_of_map [OF items(4) this items(5)] items(1-3) show ?R
      by (auto simp: reads_entries_def map_fits_def map_typed_def map_bytes_def list_all_iff wf_doc_def add.assoc)
  next
    assume R: ?R
    then have "x \<in> set m \<Longrightarrow> wf_doc (docK (fst x)) \<and> depth (docK (fst x)) < 2 ^ 64" for x
      using budget by (auto simp: map_fits_def map_typed_def list_all_iff wf_doc_def)
    with R obtain items where "set items = set m" "length items = length m"
      "map (map_entry docK docV) items = sort (map (map_entry docK docV) m)"
      "sorted_wrt (<) (map key_bytes items)" "fold (map_insert lt) items [] = m"
      using entries_in_wire_order by metis
    with R show ?L
      unfolding L by (intro exI [of _ items])
        (auto simp: reads_entries_def map_fits_def map_typed_def map_bytes_def list_all_iff wf_doc_def add.assoc)
  qed
qed

text \<open>What was written is read back, and what is accepted is what would be written.\<close>

lemma map_read_back:
  assumes "serialize_map serK serV m s = Inr s'" and "map_sorted lt m" and "map_typed docK docV m"
    and "drop (pos d) (de_bytes d) = drop (length (bytes s)) (bytes s') @ rest"
    and "container_depth_budget s = de_container_depth_budget d"
  shows "deserialize_map lt deK deV d = Inr (m, advance (length (bytes s') - length (bytes s)) d)"
  using assms unfolding serialize_map_iff deserialize_map_iff by (auto simp: input_starts_prefix)

lemma map_canonical:
  assumes "deserialize_map lt deK deV d = Inr (m, d')"
    and "container_depth_budget s = de_container_depth_budget d"
  shows "serialize_map serK serV m s =
     Inr (put (take (pos d' - pos d) (drop (pos d) (de_bytes d))) s)"
  using assms unfolding serialize_map_iff deserialize_map_iff by (auto simp: input_starts_def)

end

lemma strict_total_less: "strict_total ((<) :: 'a::linorder \<Rightarrow> 'a \<Rightarrow> bool)"
  by (auto simp: strict_total_def)

text \<open>\<open>std::map<std::string, uint64_t>\<close>: \<open>std::string\<close> compares its bytes lexicographically.\<close>

interpretation str_u64_map: map_codec serialize_str deserialize_str Doc_Str
  serialize_u64 deserialize_u64 "doc_word 8" "(<)"
  by (intro map_codec.intro str_codec.bcs_codec_axioms u64_codec.bcs_codec_axioms
      map_codec_axioms.intro strict_total_less)

end
