(* ===== verification/Bcs_Serde.thy ===== *)
theory Bcs_Serde
  imports Serde_Map Utils
begin

text \<open>
  \<open>src/cpp/sdk/include/bcs_serde.hpp\<close>: the class \<open>BcsSerde\<close> of the SDK, which both writes and
  reads. An overload of \<open>operator&&(T &t)\<close> appends \<open>t\<close> to the bytes when the object serializes
  and assigns to \<open>t\<close> when it does not, so it is a function from the value of \<open>t\<close> before the
  call to an action that returns the value after it.

  \<open>*_iterator++\<close> is not guarded in the source: reading past the end has no defined behaviour, and
  the model says so (\<open>Undefined_behaviour\<close>). Integers are copied byte by byte from memory, which is
  little-endian on the platforms of the SDK. Where an overload first creates a value (\<open>T t;\<close>,
  \<open>container.resize(size)\<close>), that value is an argument \<open>init\<close>.
\<close>

section \<open>The class\<close>

record BcsSerde =
  bs_bytes :: "u8 list"
  bs_iterator :: nat
  is_serialization :: bool

type_synonym 'a serde_op = "'a \<Rightarrow> (BcsSerde, 'a) action"

definition BcsSerde_new :: BcsSerde where
  "BcsSerde_new = \<lparr>bs_bytes = [], bs_iterator = 0, is_serialization = True\<rparr>"

definition BcsSerde_from :: "u8 list \<Rightarrow> BcsSerde" where
  "BcsSerde_from input = \<lparr>bs_bytes = input, bs_iterator = 0, is_serialization = False\<rparr>"

definition bs_reset :: "BcsSerde \<Rightarrow> BcsSerde" where
  "bs_reset s = s\<lparr>bs_iterator := 0\<rparr>"

definition set_des :: "BcsSerde \<Rightarrow> BcsSerde" where
  "set_des s = bs_reset (s\<lparr>is_serialization := False\<rparr>)"

definition bs_push_back :: "u8 \<Rightarrow> BcsSerde \<Rightarrow> BcsSerde" where
  "bs_push_back v s = s\<lparr>bs_bytes := bs_bytes s @ [v]\<rparr>"

text \<open>\<open>*_iterator++\<close>.\<close>

definition deref_next :: "(BcsSerde, u8) action" where
  "deref_next s =
     (if bs_iterator s < length (bs_bytes s)
      then Inr (bs_bytes s ! bs_iterator s, s\<lparr>bs_iterator := bs_iterator s + 1\<rparr>)
      else Inl (Undefined_behaviour ''iterator past the end''))"

function encode_integer :: "u64 \<Rightarrow> BcsSerde \<Rightarrow> BcsSerde" where
  "encode_integer value s =
     (let v = ucast (value AND 0x7F);
          value' = drop_bit 7 value;
          v' = (if value' \<noteq> 0 then v OR 0x80 else v);
          s' = bs_push_back v' s
      in if value' \<noteq> 0 then encode_integer value' s' else s')"
  by pat_completeness auto

lemma unat_drop_bit_7: "unat (drop_bit 7 (v :: u64)) = unat v div 128"
  by (simp add: drop_bit_eq_div unat_div)

termination encode_integer
proof (relation "measure (\<lambda>(value, s). unat value)")
  fix v :: u64 and s s' v' v'' w
  assume "w = drop_bit 7 v" "w \<noteq> 0"
  then have "0 < unat v div 128" using unat_drop_bit_7 [of v] unat_gt_0 [of w] by simp
  then have "unat v div 128 < unat v" by (simp add: div_greater_zero_iff)
  with \<open>w = drop_bit 7 v\<close> show "((w, s'), (v, s)) \<in> measure (\<lambda>(value, s). unat value)"
    by (simp add: unat_drop_bit_7)
qed auto

declare encode_integer.simps [simp del]

text \<open>\<open>decode_integer\<close> reads at most four bytes: \<open>i\<close> and \<open>value\<close> are its locals.\<close>

function decode_integer_loop :: "nat \<Rightarrow> u64 \<Rightarrow> (BcsSerde, u64) action" where
  "decode_integer_loop i value s =
     (if i < 4 then
        (case deref_next s of
           Inl e \<Rightarrow> Inl e
         | Inr (v, s') \<Rightarrow>
             (let t = ucast (v AND 0x7F);
                  t' = push_bit (7 * i) t;
                  value' = value OR t'
              in if v AND 0x80 = 0 then Inr (value', s') else decode_integer_loop (i + 1) value' s'))
      else Inr (value, s))"
  by pat_completeness auto
termination
  by (relation "measure (\<lambda>(i, value, s). 4 - i)") auto

declare decode_integer_loop.simps [simp del]

definition decode_integer :: "(BcsSerde, u64) action" where
  "decode_integer = decode_integer_loop 0 0"

text \<open>
  \<open>dump\<close>: the counter \<open>i\<close> of the source is never increased, so the line break that \<open>i % 16\<close>
  guards is never written.
\<close>

fun dump_loop :: "nat \<Rightarrow> u8 list \<Rightarrow> cstring" where
  "dump_loop i [] = []"
| "dump_loop i (v # bs) =
     (if i mod 16 \<noteq> 0 then [0x0A] else [])
     @ [hex_digit (unat v div 16), hex_digit (unat v mod 16), 0x20] @ dump_loop i bs"

definition dump :: "BcsSerde \<Rightarrow> cstring" where
  "dump s = dump_loop 0 (bs_bytes s)"

section \<open>The overloads of \<open>operator&&\<close>\<close>

text \<open>\<open>std::integral T\<close>, with \<open>n = sizeof(T)\<close>.\<close>

definition serde_integral :: "nat \<Rightarrow> 'a::len word serde_op" where
  "serde_integral n t s =
     (if is_serialization s then Inr (t, s\<lparr>bs_bytes := bs_bytes s @ le_split n t\<rparr>)
      else act_bind (act_times n deref_next) (\<lambda>bs. act_return (le_join bs)) s)"

definition serde_bool :: "bool serde_op" where
  "serde_bool t = act_bind (serde_integral 1 (of_bool t :: u8)) (\<lambda>v. act_return (v \<noteq> 0))"

definition serde_string :: "cstring serde_op" where
  "serde_string t s =
     (if is_serialization s
      then let s' = encode_integer (of_nat (length t)) s
           in Inr (t, s'\<lparr>bs_bytes := bs_bytes s' @ t\<rparr>)
      else act_bind decode_integer (\<lambda>size. act_times (unat size) deref_next) s)"

text \<open>\<open>for (auto &v : container) *this && v;\<close>\<close>

fun serde_each :: "'a serde_op \<Rightarrow> 'a list serde_op" where
  "serde_each f [] = act_return []"
| "serde_each f (v # vs) = act_bind (f v) (\<lambda>v'. act_bind (serde_each f vs) (\<lambda>vs'. act_return (v' # vs')))"

definition resize :: "nat \<Rightarrow> 'a \<Rightarrow> 'a list \<Rightarrow> 'a list" where
  "resize n x xs = take n xs @ replicate (n - length xs) x"

definition serde_container :: "'a \<Rightarrow> 'a serde_op \<Rightarrow> 'a list serde_op" where
  "serde_container init f container s =
     (if is_serialization s then serde_each f container (encode_integer (of_nat (length container)) s)
      else act_bind decode_integer (\<lambda>size. serde_each f (resize (unat size) init container)) s)"

text \<open>A \<open>std::set\<close> is the list of its elements in the order of its comparison.\<close>

fun set_insert :: "('a \<Rightarrow> 'a \<Rightarrow> bool) \<Rightarrow> 'a \<Rightarrow> 'a list \<Rightarrow> 'a list" where
  "set_insert lt k [] = [k]"
| "set_insert lt k (x # xs) =
     (if lt k x then k # x # xs else if lt x k then x # set_insert lt k xs else x # xs)"

fun serde_set_loop :: "('a \<Rightarrow> 'a \<Rightarrow> bool) \<Rightarrow> 'a \<Rightarrow> 'a serde_op \<Rightarrow> nat \<Rightarrow> 'a list serde_op" where
  "serde_set_loop lt init f 0 set' = act_return set'"
| "serde_set_loop lt init f (Suc n) set' =
     act_bind (f init) (\<lambda>k. serde_set_loop lt init f n (set_insert lt k set'))"

definition serde_set :: "('a \<Rightarrow> 'a \<Rightarrow> bool) \<Rightarrow> 'a \<Rightarrow> 'a serde_op \<Rightarrow> 'a list serde_op" where
  "serde_set lt init f set' s =
     (if is_serialization s
      then act_bind (serde_each f set') (\<lambda>copies. act_return set') (encode_integer (of_nat (length set')) s)
      else act_bind decode_integer (\<lambda>size. serde_set_loop lt init f (unat size) []) s)"

definition serde_pair :: "'a serde_op \<Rightarrow> 'b serde_op \<Rightarrow> ('a \<times> 'b) serde_op" where
  "serde_pair f g p = act_bind (f (fst p)) (\<lambda>a. act_bind (g (snd p)) (\<lambda>b. act_return (a, b)))"

text \<open>A \<open>std::map\<close> is written in the order of its keys' own comparison, not of their bytes.\<close>

fun serde_map_loop ::
    "('k \<Rightarrow> 'k \<Rightarrow> bool) \<Rightarrow> 'k \<times> 'v \<Rightarrow> 'k serde_op \<Rightarrow> 'v serde_op \<Rightarrow> nat \<Rightarrow> ('k \<times> 'v) list serde_op" where
  "serde_map_loop lt init f g 0 container = act_return container"
| "serde_map_loop lt init f g (Suc n) container =
     act_bind (serde_pair f g init) (\<lambda>p. serde_map_loop lt init f g n (map_insert lt p container))"

definition serde_map ::
    "('k \<Rightarrow> 'k \<Rightarrow> bool) \<Rightarrow> 'k \<times> 'v \<Rightarrow> 'k serde_op \<Rightarrow> 'v serde_op \<Rightarrow> ('k \<times> 'v) list serde_op" where
  "serde_map lt init f g container s =
     (if is_serialization s
      then act_bind (serde_each (serde_pair f g) container) (\<lambda>copies. act_return container)
             (encode_integer (of_nat (length container)) s)
      else act_bind decode_integer (\<lambda>size. serde_map_loop lt init f g (unat size) []) s)"

definition serde_array :: "'a serde_op \<Rightarrow> 'a list serde_op" where
  "serde_array f arr = serde_each f arr"

definition serde_optional :: "'a \<Rightarrow> 'a serde_op \<Rightarrow> 'a option serde_op" where
  "serde_optional init f opt s =
     (if is_serialization s then
        (case opt of
           Some v \<Rightarrow> act_bind (serde_integral 1 (1 :: u8)) (\<lambda>flag.
                     act_bind (f v) (\<lambda>v'. act_return opt)) s
         | None \<Rightarrow> act_bind (serde_integral 1 (0 :: u8)) (\<lambda>flag. act_return opt) s)
      else
        act_bind (serde_integral 1 (0 :: u8)) (\<lambda>flag.
          if flag = 0 then act_return None
          else act_bind (f init) (\<lambda>t. act_return (Some t))) s)"

text \<open>
  \<open>std::variant\<close>: \<open>index\<close> is \<open>var.index()\<close> and \<open>visit\<close> applies the overload of the alternative
  that \<open>var\<close> holds. When reading, the decoded index is dropped and the alternative is the one \<open>var\<close>
  already held.
\<close>

definition serde_variant :: "('a \<Rightarrow> nat) \<Rightarrow> 'a serde_op \<Rightarrow> 'a serde_op" where
  "serde_variant index visit var s =
     (if is_serialization s then visit var (encode_integer (of_nat (index var)) s)
      else act_bind decode_integer (\<lambda>ignored. visit var) s)"

section \<open>The integer codec\<close>

lemma uleb128_more_u64: "ucast ((v :: u64) AND 0x7F) OR 0x80 = (of_nat (128 + unat v mod 128) :: u8)"
proof -
  have m: "v AND 0x7F = take_bit 7 v" by (simp add: take_bit_eq_mask mask_eq_exp_minus_1)
  have "(0x80 :: u8) AND ucast (take_bit 7 v) = 0"
    using push_and_take_zero [of 7 "1 :: u8" v] by simp
  then have "(0x80 :: u8) OR ucast (take_bit 7 v) = 0x80 + ucast (take_bit 7 v)"
    by (rule disjunctive_add_eq_or [symmetric])
  also have "\<dots> = of_nat (128 + unat v mod 128)"
  proof -
    have "unat v mod 128 = unat (take_bit 7 v)" by (simp add: take_bit_eq_mod unat_mod)
    then show ?thesis by (simp only: of_nat_add of_nat_unat) simp
  qed
  finally show ?thesis unfolding m by (simp add: or.commute)
qed

lemma drop_bit_7_eq_0_iff: "drop_bit 7 (v :: u64) = 0 \<longleftrightarrow> unat v < 128"
  by (simp add: word_unat_eq_iff unat_drop_bit_7 div_eq_0_iff)

definition bs_put :: "u8 list \<Rightarrow> BcsSerde \<Rightarrow> BcsSerde" where
  "bs_put bs s = s\<lparr>bs_bytes := bs_bytes s @ bs\<rparr>"

lemma bs_put_simps [simp]:
  "bs_put [] s = s" "bs_put bs (bs_put as s) = bs_put (as @ bs) s"
  "bs_bytes (bs_put bs s) = bs_bytes s @ bs" "is_serialization (bs_put bs s) = is_serialization s"
  by (simp_all add: bs_put_def)

lemma encode_integer_eq: "encode_integer v s = bs_put (uleb128 (unat v)) s"
proof (induction v s rule: encode_integer.induct)
  case (1 v s)
  show ?case
  proof (cases "drop_bit 7 v = 0")
    case True
    then have "unat v < 128" by (simp add: drop_bit_7_eq_0_iff)
    moreover have "ucast (v AND 0x7F) = (of_nat (unat v) :: u8)"
    proof -
      have "v AND 0x7F = take_bit 7 v" by (simp add: take_bit_eq_mask mask_eq_exp_minus_1)
      also have "\<dots> = v" using \<open>unat v < 128\<close>
        by (simp add: word_unat_eq_iff unsigned_take_bit_eq take_bit_nat_eq_self)
      finally show ?thesis by simp
    qed
    ultimately show ?thesis
      using True by (simp add: encode_integer.simps [of v s] bs_push_back_def bs_put_def uleb128_small)
  next
    case False
    then have "128 \<le> unat v" by (simp add: drop_bit_7_eq_0_iff)
    with False "1.IH" show ?thesis
      by (simp add: encode_integer.simps [of v s] Let_def uleb128_more_u64 unat_drop_bit_7
          uleb128_big [of "unat v"] bs_push_back_def bs_put_def del: of_nat_add)
  qed
qed

text \<open>Reading, seen through the deserializer state with the same bytes and position.\<close>

definition bs_view :: "BcsSerde \<Rightarrow> BinaryDeserializer" where
  "bs_view s = \<lparr>pos = bs_iterator s, de_container_depth_budget = 0, de_bytes = bs_bytes s\<rparr>"

definition bs_starts :: "u8 list \<Rightarrow> BcsSerde \<Rightarrow> bool" where
  "bs_starts bs s \<longleftrightarrow> input_starts bs (bs_view s)"

definition bs_advance :: "nat \<Rightarrow> BcsSerde \<Rightarrow> BcsSerde" where
  "bs_advance n s = s\<lparr>bs_iterator := bs_iterator s + n\<rparr>"

lemma bs_advance_simps [simp]:
  "bs_advance 0 s = s" "bs_advance m (bs_advance n s) = bs_advance (n + m) s"
  "is_serialization (bs_advance n s) = is_serialization s"
  "bs_view (bs_advance n s) = advance n (bs_view s)"
  by (simp_all add: bs_advance_def bs_view_def advance_def ac_simps)

lemma bs_starts_append [simp]:
  "bs_starts (as @ bs) s \<longleftrightarrow> bs_starts as s \<and> bs_starts bs (bs_advance (length as) s)"
  by (simp add: bs_starts_def)

lemma bs_starts_Nil [simp]: "bs_starts [] s"
  by (simp add: bs_starts_def)

lemma bs_starts_Cons:
  "bs_starts (a # bs) s \<longleftrightarrow> bs_starts [a] s \<and> bs_starts bs (bs_advance 1 s)"
  using bs_starts_append [of "[a]" bs s] by simp

lemma deref_next_starts:
  assumes "bs_starts [b] s"
  shows "deref_next s = Inr (b, bs_advance (Suc 0) s)"
proof -
  from assms obtain rest where drop: "drop (bs_iterator s) (bs_bytes s) = b # rest"
    by (auto simp: bs_starts_def input_starts_prefix bs_view_def)
  then have "bs_iterator s < length (bs_bytes s)" by (metis drop_all leI list.discI)
  with nth_via_drop [OF drop] show ?thesis by (simp add: deref_next_def bs_advance_def)
qed

lemma deref_times_starts:
  "bs_starts bs s \<Longrightarrow> act_times (length bs) deref_next s = Inr (bs, bs_advance (length bs) s)"
proof (induction bs arbitrary: s)
  case (Cons b bs)
  then have "deref_next s = Inr (b, bs_advance 1 s)" "bs_starts bs (bs_advance 1 s)"
    by (simp_all add: bs_starts_Cons [of b bs] deref_next_starts)
  with Cons.IH [of "bs_advance 1 s"] show ?case by (simp add: act_times.simps)
qed (simp add: act_times.simps)

lemma u8_high_bit_iff: "(b :: u8) AND 0x80 = 0 \<longleftrightarrow> unat b < 128"
proof -
  have ff: "(0xFF :: u8) = - 1" by simp
  have "(0x7F OR 0x80 :: u8) = 0xFF" by simp
  then have "b AND (0x7F OR 0x80) = b" by (simp only: ff and.right_neutral)
  then have "b = (b AND 0x7F) OR (b AND 0x80)"
    by (simp only: bit.conj_disj_distrib)
  moreover have "(b AND 0x7F) AND 0x80 = 0" by (simp add: and.assoc)
  ultimately have "b AND 0x80 = 0 \<longleftrightarrow> b AND 0x7F = b" by auto
  then show ?thesis by (simp add: u8_low7_eq_iff)
qed

lemma decode_integer_loop_round:
  assumes "i < 4" and "n < 2 ^ (7 * i)" and "bs_starts [b] s"
  shows "decode_integer_loop i (of_nat n) s =
    (let n' = n + 2 ^ (7 * i) * (unat b mod 128)
     in if unat b < 128 then Inr (of_nat n', bs_advance (Suc 0) s)
        else decode_integer_loop (Suc i) (of_nat n') (bs_advance (Suc 0) s))"
proof -
  define acc where "acc = of_nat n OR push_bit (7 * i) (ucast (b AND 0x7F) :: u64)"
  have "(2 :: nat) ^ (7 * i) \<le> 2 ^ 28" using assms(1) by (intro power_increasing) auto
  then have "n < 2 ^ 64" using assms(2) by simp
  then have acc: "unat acc = n + 2 ^ (7 * i) * (unat b mod 128)"
    using assms(1,2) unat_or_push_bit [of "of_nat n" "7 * i" "b AND 0x7F"]
    by (simp add: acc_def unat_u8_low7 unat_of_nat)
  have "acc = of_nat (n + 2 ^ (7 * i) * (unat b mod 128))"
    unfolding acc [symmetric] by simp
  with assms(1) show ?thesis
    by (simp add: decode_integer_loop.simps [of i] deref_next_starts [OF assms(3)] u8_high_bit_iff
        Let_def del: of_nat_add of_nat_mult flip: acc_def)
qed

lemma base_128_digit: "n + p * r + p * 128 * q = n + p * (128 * q + r)" for n p q r :: nat
  by (simp add: algebra_simps)

lemma mod_next_digit:
  assumes "i < 4"
  shows "(m :: nat) mod 2 ^ (28 - 7 * i) = 128 * (m div 128 mod 2 ^ (28 - 7 * Suc i)) + m mod 128"
proof -
  have e: "28 - 7 * i = 7 + (28 - 7 * Suc i)" using assms by simp
  show ?thesis
    unfolding e power_add using mod_mult2_eq [of m 128 "2 ^ (28 - 7 * Suc i)"] by simp
qed

lemma join_digit:
  assumes "i < 4"
  shows "n + 2 ^ (7 * i) * (m mod 128) + 2 ^ (7 * Suc i) * (m div 128 mod 2 ^ (28 - 7 * Suc i)) =
    n + 2 ^ (7 * i) * ((m :: nat) mod 2 ^ (28 - 7 * i))"
proof -
  have "(2 :: nat) ^ (7 * Suc i) = 2 ^ (7 * i) * 128" by (simp add: power_add)
  then show ?thesis unfolding mod_next_digit [OF assms] using base_128_digit by presburger
qed

lemma decode_integer_loop_uleb128:
  assumes "i \<le> 4" and "n < 2 ^ (7 * i)" and "bs_starts (uleb128 m) s"
  shows "decode_integer_loop i (of_nat n) s =
    Inr (of_nat (n + 2 ^ (7 * i) * (m mod 2 ^ (28 - 7 * i))), bs_advance (min (length (uleb128 m)) (4 - i)) s)"
  using assms
proof (induction "4 - i" arbitrary: i n m s)
  case 0
  then show ?case by (simp add: decode_integer_loop.simps [of 4])
next
  case (Suc k)
  then have i: "i < 4" by simp
  show ?case
  proof (cases "m < 128")
    case True
    then have "m < 2 ^ (28 - 7 * i)"
    proof -
      have "(2 :: nat) ^ 7 \<le> 2 ^ (28 - 7 * i)" using i by (intro power_increasing) auto
      with True show ?thesis by simp
    qed
    moreover have "bs_starts [of_nat m] s" using Suc.prems(3) True by (simp add: uleb128_small)
    note decode_integer_loop_round [OF i Suc.prems(2) this]
    ultimately show ?thesis
      using True i by (simp add: uleb128_small unat_of_nat Let_def)
  next
    case False
    let ?b = "of_nat (128 + m mod 128) :: u8"
    have b: "unat ?b = 128 + m mod 128" by (simp add: unat_of_nat del: of_nat_add)
    have starts: "bs_starts [?b] s" "bs_starts (uleb128 (m div 128)) (bs_advance (Suc 0) s)"
      using Suc.prems(3) False by (simp_all add: uleb128_big bs_starts_Cons [of _ "uleb128 _"] del: of_nat_add)
    let ?n = "n + 2 ^ (7 * i) * (m mod 128)"
    have "?n < 2 ^ (7 * i) * (1 + m mod 128)" using Suc.prems(2) by simp
    also have "\<dots> \<le> 2 ^ (7 * i) * 128" by (intro mult_le_mono2) (simp add: Suc_le_eq)
    finally have n: "?n < 2 ^ (7 * Suc i)" by (simp add: power_add)
    have "decode_integer_loop i (of_nat n) s = decode_integer_loop (Suc i) (of_nat ?n) (bs_advance (Suc 0) s)"
      using decode_integer_loop_round [OF i Suc.prems(2) starts(1)] b by (simp add: Let_def)
    also have "\<dots> = Inr (of_nat (?n + 2 ^ (7 * Suc i) * (m div 128 mod 2 ^ (28 - 7 * Suc i))),
        bs_advance (min (length (uleb128 (m div 128))) (4 - Suc i)) (bs_advance (Suc 0) s))"
      by (rule Suc.hyps(1)) (use Suc.hyps(2) i n starts in simp_all)
    also have "?n + 2 ^ (7 * Suc i) * (m div 128 mod 2 ^ (28 - 7 * Suc i)) =
        n + 2 ^ (7 * i) * (m mod 2 ^ (28 - 7 * i))"
      by (rule join_digit [OF i])
    also have "bs_advance (min (length (uleb128 (m div 128))) (4 - Suc i)) (bs_advance (Suc 0) s) =
        bs_advance (min (length (uleb128 m)) (4 - i)) s"
    proof -
      have "4 - i = Suc (4 - Suc i)" using i by simp
      moreover have "length (uleb128 m) = Suc (length (uleb128 (m div 128)))"
        using False uleb128_big [of m] by simp
      ultimately show ?thesis by (simp only: min_Suc_Suc bs_advance_simps(2) plus_1_eq_Suc add_Suc add_0)
    qed
    finally show ?thesis .
  qed
qed

lemma decode_integer_uleb128:
  assumes "bs_starts (uleb128 m) s"
  shows "decode_integer s = Inr (of_nat (m mod 2 ^ 28), bs_advance (min (length (uleb128 m)) 4) s)"
  using decode_integer_loop_uleb128 [of 0 0 m s] assms by (simp add: decode_integer_def)

lemma length_uleb128_le: "m < 128 ^ k \<Longrightarrow> 0 < k \<Longrightarrow> length (uleb128 m) \<le> k"
proof (induction k arbitrary: m)
  case (Suc k)
  show ?case
  proof (cases "m < 128")
    case False
    then have "m div 128 < 128 ^ k" using Suc.prems(1) by (simp add: less_mult_imp_div_less mult.commute)
    moreover have "0 < k" using False Suc.prems(1) by (cases k) auto
    ultimately show ?thesis using False Suc.IH [of "m div 128"] by (simp add: uleb128_big)
  qed (simp add: uleb128_small)
qed simp

lemma decode_integer_small:
  assumes "bs_starts (uleb128 m) s" and "m < 2 ^ 28"
  shows "decode_integer s = Inr (of_nat m, bs_advance (length (uleb128 m)) s)"
  using decode_integer_uleb128 [OF assms(1)] length_uleb128_le [of m 4] assms(2) by simp

section \<open>The contract of an overload\<close>

text \<open>Every length in a document is below a bound.\<close>

primrec lengths_below :: "nat \<Rightarrow> bcs_doc \<Rightarrow> bool" where
  "lengths_below n (Doc_Bytes bs) = True"
| "lengths_below n (Doc_Str bs) = (length bs < n)"
| "lengths_below n (Doc_Seq ds) = (length ds < n \<and> list_all (\<lambda>b. b) (map (lengths_below n) ds))"
| "lengths_below n (Doc_Array k ds) = list_all (\<lambda>b. b) (map (lengths_below n) ds)"
| "lengths_below n (Doc_Tuple ds) = list_all (\<lambda>b. b) (map (lengths_below n) ds)"
| "lengths_below n (Doc_Variant i d) = lengths_below n d"
| "lengths_below n (Doc_Container d) = lengths_below n d"

lemma lengths_below_mono: "lengths_below n d \<Longrightarrow> n \<le> m \<Longrightarrow> lengths_below m d"
  by (induction d) (auto simp: list_all_iff)

lemma fits_lengths_below: "fits d \<Longrightarrow> lengths_below (2 ^ 64) d"
  by (induction d) (auto simp: list_all_iff max_length_def)

lemma not_serialization_from [simp]: "\<not> is_serialization (BcsSerde_from bs)"
  by (simp add: BcsSerde_from_def)

lemma bs_starts_from [simp]: "bs_starts bs (BcsSerde_from bs)"
  by (simp add: bs_starts_def input_starts_def bs_view_def BcsSerde_from_def)

text \<open>
  Writing appends the document of the value, whatever the framework's serializer would refuse;
  reading a document gives the value back, as long as no length in it reaches \<open>2 ^ 28\<close>. The value
  \<open>y\<close> that is overwritten only has to satisfy the invariant of its C++ type (an array has its
  length, a map is sorted).
\<close>

locale serde_field =
  fixes f :: "'a serde_op" and invar :: "'a \<Rightarrow> bool" and doc :: "'a \<Rightarrow> bcs_doc"
  assumes field_write:
      "is_serialization s \<Longrightarrow> lengths_below (2 ^ 64) (doc x) \<Longrightarrow> f x s = Inr (x, bs_put (enc (doc x)) s)"
    and field_read:
      "\<not> is_serialization s \<Longrightarrow> invar x \<Longrightarrow> invar y \<Longrightarrow> lengths_below (2 ^ 28) (doc x) \<Longrightarrow>
         bs_starts (enc (doc x)) s \<Longrightarrow> f y s = Inr (x, bs_advance (length (enc (doc x))) s)"
begin

lemma read_message:
  "invar x \<Longrightarrow> invar y \<Longrightarrow> lengths_below (2 ^ 28) (doc x) \<Longrightarrow>
     \<exists>s. f y (BcsSerde_from (enc (doc x))) = Inr (x, s)"
  using field_read [of "BcsSerde_from (enc (doc x))" x y] by simp

lemma each_write:
  "is_serialization s \<Longrightarrow> list_all (\<lambda>x. lengths_below (2 ^ 64) (doc x)) xs \<Longrightarrow>
     serde_each f xs s = Inr (xs, bs_put (concat (map (\<lambda>x. enc (doc x)) xs)) s)"
  by (induction xs arbitrary: s) (auto simp: act_bind_def act_return_def field_write)

lemma each_read:
  "\<not> is_serialization s \<Longrightarrow> list_all invar xs \<Longrightarrow> list_all invar ys \<Longrightarrow> length ys = length xs \<Longrightarrow>
     list_all (\<lambda>x. lengths_below (2 ^ 28) (doc x)) xs \<Longrightarrow> bs_starts (concat (map (\<lambda>x. enc (doc x)) xs)) s \<Longrightarrow>
     serde_each f ys s = Inr (xs, bs_advance (length (concat (map (\<lambda>x. enc (doc x)) xs))) s)"
proof (induction xs arbitrary: ys s)
  case (Cons x xs)
  from Cons.prems(4) obtain y ys' where ys: "ys = y # ys'" by (cases ys) auto
  have "f y s = Inr (x, bs_advance (length (enc (doc x))) s)"
    using Cons.prems by (intro field_read) (auto simp: ys)
  moreover have "serde_each f ys' (bs_advance (length (enc (doc x))) s) =
      Inr (xs, bs_advance (length (concat (map (\<lambda>x. enc (doc x)) xs))) (bs_advance (length (enc (doc x))) s))"
    using Cons.prems by (intro Cons.IH) (auto simp: ys)
  ultimately show ?case by (simp add: ys act_bind_def act_return_def)
qed (simp add: act_return_def)

end

lemma le_split_starts: "bs_starts (le_split n v) s \<Longrightarrow> act_times n deref_next s = Inr (le_split n v, bs_advance n s)"
  using deref_times_starts [of "le_split n v" s] by simp

lemma serde_field_integral:
  assumes "LENGTH('a::len) = 8 * n"
  shows "serde_field (serde_integral n :: 'a word serde_op) (\<lambda>v. True) (doc_word n)"
  by unfold_locales
    (auto simp: serde_integral_def doc_word_def bs_put_def act_bind_def act_return_def le_split_starts
      le_join_split assms [symmetric])

interpretation serde_u8: serde_field "serde_integral 1 :: u8 serde_op" "\<lambda>v. True" "doc_word 1"
  by (rule serde_field_integral) simp

interpretation serde_u64: serde_field "serde_integral 8 :: u64 serde_op" "\<lambda>v. True" "doc_word 8"
  by (rule serde_field_integral) simp

lemma doc_word_1: "doc_word 1 v = doc_u8 v" for v :: u8
  by (simp add: doc_word_def doc_u8_def)

lemma serde_byte_write: "is_serialization s \<Longrightarrow> serde_integral (Suc 0) v s = Inr (v, bs_put [v] s)" for v :: u8
  using serde_u8.field_write [of s v] by (simp add: doc_word_def)

lemma serde_byte_read:
  "\<not> is_serialization s \<Longrightarrow> bs_starts [v] s \<Longrightarrow> serde_integral (Suc 0) w s = Inr (v, bs_advance (Suc 0) s)"
  for v w :: u8
  using serde_u8.field_read [of s v w] by (simp add: doc_word_def)

interpretation serde_bool: serde_field serde_bool "\<lambda>v. True" doc_bool
proof
  fix s and x y :: bool
  show "is_serialization s \<Longrightarrow> serde_bool x s = Inr (x, bs_put (enc (doc_bool x)) s)"
    by (auto simp: serde_bool_def act_bind_def act_return_def doc_bool_def serde_byte_write)
  assume "\<not> is_serialization s" "bs_starts (enc (doc_bool x)) s"
  then show "serde_bool y s = Inr (x, bs_advance (length (enc (doc_bool x))) s)"
    by (simp add: serde_bool_def act_bind_def act_return_def doc_bool_def serde_byte_read [of _ "of_bool x"]
        del: of_bool_eq_0_iff)
qed

interpretation serde_string: serde_field serde_string "\<lambda>t. True" Doc_Str
proof
  fix s and x y :: cstring
  show "is_serialization s \<Longrightarrow> lengths_below (2 ^ 64) (Doc_Str x) \<Longrightarrow>
      serde_string x s = Inr (x, bs_put (enc (Doc_Str x)) s)"
    by (simp add: serde_string_def Let_def encode_integer_eq unat_of_nat bs_put_def)
  assume "\<not> is_serialization s" "lengths_below (2 ^ 28) (Doc_Str x)" "bs_starts (enc (Doc_Str x)) s"
  then show "serde_string y s = Inr (x, bs_advance (length (enc (Doc_Str x))) s)"
    by (simp add: serde_string_def act_bind_def decode_integer_small [of "length x"] unat_of_nat
        deref_times_starts)
qed

lemma length_resize [simp]: "length (resize n x xs) = n"
  by (simp add: resize_def)

lemma list_all_resize: "list_all P xs \<Longrightarrow> P x \<Longrightarrow> list_all P (resize n x xs)"
  by (auto simp: resize_def list_all_iff dest: in_set_takeD)

context serde_field
begin

lemma container_field:
  assumes "invar init"
  shows "serde_field (serde_container init f) (list_all invar) (doc_vector doc)"
proof
  fix s xs ys
  show "is_serialization s \<Longrightarrow> lengths_below (2 ^ 64) (doc_vector doc xs) \<Longrightarrow>
      serde_container init f xs s = Inr (xs, bs_put (enc (doc_vector doc xs)) s)"
    by (simp add: serde_container_def encode_integer_eq doc_vector_def unat_of_nat each_write
        list_all_iff comp_def)
  assume read: "\<not> is_serialization s" "list_all invar xs" "list_all invar ys"
    "lengths_below (2 ^ 28) (doc_vector doc xs)" "bs_starts (enc (doc_vector doc xs)) s"
  let ?s = "bs_advance (length (uleb128 (length xs))) s"
  have "serde_each f (resize (length xs) init ys) ?s =
      Inr (xs, bs_advance (length (concat (map (\<lambda>x. enc (doc x)) xs))) ?s)"
    using read assms list_all_resize [OF read(3) assms]
    by (intro each_read) (auto simp: doc_vector_def list_all_iff comp_def)
  with read show "serde_container init f ys s = Inr (xs, bs_advance (length (enc (doc_vector doc xs))) s)"
    by (simp add: serde_container_def act_bind_def doc_vector_def decode_integer_small [of "length xs"]
        unat_of_nat comp_def)
qed

lemma array_field: "serde_field (serde_array f) (\<lambda>xs. length xs = n \<and> list_all invar xs) (doc_array n doc)"
  by unfold_locales (simp_all add: serde_array_def doc_array_def each_write each_read list_all_iff comp_def)

lemma optional_field:
  assumes "invar init"
  shows "serde_field (serde_optional init f) (pred_option invar) (doc_option doc)"
proof
  fix s x y
  show "is_serialization s \<Longrightarrow> lengths_below (2 ^ 64) (doc_option doc x) \<Longrightarrow>
      serde_optional init f x s = Inr (x, bs_put (enc (doc_option doc x)) s)"
    by (cases x) (auto simp: serde_optional_def doc_option_def doc_bool_def act_bind_def act_return_def
        serde_byte_write field_write)
  assume "\<not> is_serialization s" "pred_option invar x" "pred_option invar y"
    "lengths_below (2 ^ 28) (doc_option doc x)" "bs_starts (enc (doc_option doc x)) s"
  with assms show "serde_optional init f y s = Inr (x, bs_advance (length (enc (doc_option doc x))) s)"
    by (cases x) (auto simp: serde_optional_def doc_option_def doc_bool_def act_bind_def act_return_def
        serde_byte_read [of _ 0] serde_byte_read [of _ 1] bs_starts_Cons [of 1 "enc _"] field_read)
qed

end

lemma serde_field_pair:
  assumes "serde_field f invA docA" and "serde_field g invB docB"
  shows "serde_field (serde_pair f g) (\<lambda>p. invA (fst p) \<and> invB (snd p)) (doc_pair docA docB)"
  by unfold_locales
    (auto simp: serde_pair_def doc_pair_def act_bind_def act_return_def
      serde_field.field_write [OF assms(1)] serde_field.field_write [OF assms(2)]
      serde_field.field_read [OF assms(1)] serde_field.field_read [OF assms(2)])

text \<open>Maps: the entries follow one another in the order of the keys.\<close>

lemma fold_map_insert_sorted:
  assumes "strict_total lt" and "map_sorted lt m"
  shows "fold (map_insert lt) m [] = m"
  using fold_map_insert [OF assms(1), of "[]" m] map_sorted_distinct [OF assms]
    sorted_wrt_unique [OF assms(1) _ assms(2)] by simp

lemma serde_map_loop_read:
  assumes "serde_field f invK docK" and "serde_field g invV docV" and "invK (fst init)" and "invV (snd init)"
  shows "\<not> is_serialization s \<Longrightarrow>
     list_all (\<lambda>p. invK (fst p) \<and> invV (snd p) \<and> lengths_below (2 ^ 28) (doc_pair docK docV p)) m \<Longrightarrow>
     bs_starts (concat (map (\<lambda>p. enc (doc_pair docK docV p)) m)) s \<Longrightarrow>
     serde_map_loop lt init f g (length m) m0 s =
       Inr (fold (map_insert lt) m m0, bs_advance (length (concat (map (\<lambda>p. enc (doc_pair docK docV p)) m))) s)"
proof (induction m arbitrary: m0 s)
  case (Cons p m)
  have "serde_pair f g init s = Inr (p, bs_advance (length (enc (doc_pair docK docV p))) s)"
    using Cons.prems assms(3,4) by (intro serde_field.field_read [OF serde_field_pair [OF assms(1,2)]]) auto
  with Cons show ?case by (simp add: act_bind_def)
qed (simp add: act_return_def)

lemma serde_field_map:
  assumes "serde_field f invK docK" and "serde_field g invV docV" and "invK (fst init)" and "invV (snd init)"
    and "strict_total lt"
  shows "serde_field (serde_map lt init f g)
    (\<lambda>m. map_sorted lt m \<and> list_all (\<lambda>p. invK (fst p) \<and> invV (snd p)) m)
    (doc_vector (doc_pair docK docV))"
proof
  fix s m m0
  show "is_serialization s \<Longrightarrow> lengths_below (2 ^ 64) (doc_vector (doc_pair docK docV) m) \<Longrightarrow>
      serde_map lt init f g m s = Inr (m, bs_put (enc (doc_vector (doc_pair docK docV) m)) s)"
    by (simp add: serde_map_def encode_integer_eq doc_vector_def unat_of_nat act_bind_def act_return_def
        serde_field.each_write [OF serde_field_pair [OF assms(1,2)]] list_all_iff comp_def)
  assume read: "\<not> is_serialization s" "map_sorted lt m \<and> list_all (\<lambda>p. invK (fst p) \<and> invV (snd p)) m"
    "lengths_below (2 ^ 28) (doc_vector (doc_pair docK docV) m)"
    "bs_starts (enc (doc_vector (doc_pair docK docV) m)) s"
  let ?s = "bs_advance (length (uleb128 (length m))) s"
  have "serde_map_loop lt init f g (length m) [] ?s =
      Inr (fold (map_insert lt) m [], bs_advance (length (concat (map (\<lambda>p. enc (doc_pair docK docV p)) m))) ?s)"
    using read by (intro serde_map_loop_read [OF assms(1-4)]) (auto simp: doc_vector_def list_all_iff comp_def)
  with read show "serde_map lt init f g m0 s =
      Inr (m, bs_advance (length (enc (doc_vector (doc_pair docK docV) m))) s)"
    by (simp add: serde_map_def act_bind_def doc_vector_def decode_integer_small [of "length m"]
        unat_of_nat comp_def fold_map_insert_sorted [OF assms(5)])
qed

text \<open>Sets: the elements follow one another in order, so that each one is inserted at the end.\<close>

lemma set_insert_last:
  assumes "strict_total lt"
  shows "(\<And>x. x \<in> set xs \<Longrightarrow> lt x k) \<Longrightarrow> set_insert lt k xs = xs @ [k]"
proof (induction xs)
  case (Cons x xs)
  then have "lt x k" by simp
  moreover from this have "\<not> lt k x" using strict_totalD(1,2) [OF assms] by blast
  ultimately show ?case using Cons by simp
qed simp

lemma serde_set_loop_read:
  assumes "serde_field f invar doc" and "invar init" and "strict_total lt"
  shows "\<not> is_serialization s \<Longrightarrow> list_all (\<lambda>x. invar x \<and> lengths_below (2 ^ 28) (doc x)) xs \<Longrightarrow>
     bs_starts (concat (map (\<lambda>x. enc (doc x)) xs)) s \<Longrightarrow> sorted_wrt lt (ys @ xs) \<Longrightarrow>
     serde_set_loop lt init f (length xs) ys s =
       Inr (ys @ xs, bs_advance (length (concat (map (\<lambda>x. enc (doc x)) xs))) s)"
proof (induction xs arbitrary: ys s)
  case (Cons x xs)
  have "f init s = Inr (x, bs_advance (length (enc (doc x))) s)"
    using Cons.prems assms(2) by (intro serde_field.field_read [OF assms(1)]) auto
  moreover have "set_insert lt x ys = ys @ [x]"
    using Cons.prems(4) by (intro set_insert_last [OF assms(3)]) (auto simp: sorted_wrt_append)
  ultimately show ?case using Cons by (simp add: act_bind_def)
qed (simp add: act_return_def)

lemma serde_field_set:
  assumes "serde_field f invar doc" and "invar init" and "strict_total lt"
  shows "serde_field (serde_set lt init f) (\<lambda>xs. sorted_wrt lt xs \<and> list_all invar xs) (doc_vector doc)"
proof
  fix s xs ys
  show "is_serialization s \<Longrightarrow> lengths_below (2 ^ 64) (doc_vector doc xs) \<Longrightarrow>
      serde_set lt init f xs s = Inr (xs, bs_put (enc (doc_vector doc xs)) s)"
    by (simp add: serde_set_def encode_integer_eq doc_vector_def unat_of_nat act_bind_def act_return_def
        serde_field.each_write [OF assms(1)] list_all_iff comp_def)
  assume read: "\<not> is_serialization s" "sorted_wrt lt xs \<and> list_all invar xs"
    "lengths_below (2 ^ 28) (doc_vector doc xs)" "bs_starts (enc (doc_vector doc xs)) s"
  let ?s = "bs_advance (length (uleb128 (length xs))) s"
  have "serde_set_loop lt init f (length xs) [] ?s =
      Inr ([] @ xs, bs_advance (length (concat (map (\<lambda>x. enc (doc x)) xs))) ?s)"
    using read by (intro serde_set_loop_read [OF assms]) (auto simp: doc_vector_def list_all_iff comp_def)
  with read show "serde_set lt init f ys s = Inr (xs, bs_advance (length (enc (doc_vector doc xs))) s)"
    by (simp add: serde_set_def act_bind_def doc_vector_def decode_integer_small [of "length xs"]
        unat_of_nat comp_def)
qed

section \<open>BcsSerde and the framework\<close>

text \<open>
  A type with a codec of the framework and an overload of the SDK over the same document: both
  write the same bytes, and each reads what the other wrote.
\<close>

locale serde_agrees = C: bcs_codec ser de doc + F: serde_field f invar doc
  for ser :: "'a \<Rightarrow> ser_step" and de and doc and f and invar
begin

lemma same_bytes:
  assumes "bcsSerialize ser x = Inr bs"
  shows "f x BcsSerde_new = Inr (x, bs_put bs BcsSerde_new)"
  using assms F.field_write [of BcsSerde_new x] fits_lengths_below
  by (simp add: C.bcsSerialize_iff BcsSerde_new_def)

lemma serde_reads_message:
  assumes "bcsSerialize ser x = Inr bs" and "invar x" and "invar y" and "lengths_below (2 ^ 28) (doc x)"
  shows "\<exists>s. f y (BcsSerde_from bs) = Inr (x, s)"
  using assms F.read_message [of x y] by (simp add: C.bcsSerialize_iff)

lemma framework_reads_serde:
  assumes "f x BcsSerde_new = Inr (x, s)" and "wf_doc (doc x)" and "depth (doc x) \<le> 500"
  shows "bcsDeserialize de (bs_bytes s) = Inr x"
  using assms F.field_write [of BcsSerde_new x] fits_lengths_below [OF wf_doc_fits [OF assms(2)]]
  by (auto simp: C.bcsDeserialize_iff BcsSerde_new_def)

end

lemma doc_word_u8: "doc_word 1 = (doc_u8 :: u8 \<Rightarrow> bcs_doc)"
  by (rule ext) (rule doc_word_1)

lemma list_all_True: "list_all (\<lambda>x. True) = (\<lambda>xs. True)"
  by (simp add: fun_eq_iff list_all_iff)

text \<open>\<open>std::vector<uint8_t>\<close>, \<open>std::array<uint8_t, 16>\<close> and the primitive types.\<close>

definition serde_bytes :: "u8 list serde_op" where
  "serde_bytes = serde_container 0 (serde_integral 1)"

definition serde_address :: "u8 list serde_op" where
  "serde_address = serde_array (serde_integral 1)"

lemma serde_field_bytes: "serde_field serde_bytes (\<lambda>bs. True) (doc_vector doc_u8)"
  using serde_u8.container_field [of 0, unfolded doc_word_u8 list_all_True] by (simp add: serde_bytes_def)

lemma serde_field_address: "serde_field serde_address (\<lambda>bs. length bs = 16) (doc_array 16 doc_u8)"
  using serde_u8.array_field [of 16, unfolded doc_word_u8 list_all_True] by (simp add: serde_address_def)

interpretation serde_bytes: serde_field serde_bytes "\<lambda>bs. True" "doc_vector doc_u8"
  by (rule serde_field_bytes)

interpretation serde_address: serde_field serde_address "\<lambda>bs. length bs = 16" "doc_array 16 doc_u8"
  by (rule serde_field_address)

interpretation u64_agrees: serde_agrees serialize_u64 deserialize_u64 "doc_word 8" "serde_integral 8" "\<lambda>v. True"
  by (intro serde_agrees.intro u64_codec.bcs_codec_axioms serde_u64.serde_field_axioms)

interpretation str_agrees: serde_agrees serialize_str deserialize_str Doc_Str serde_string "\<lambda>t. True"
  by (intro serde_agrees.intro str_codec.bcs_codec_axioms serde_string.serde_field_axioms)

interpretation bytes_agrees: serde_agrees "serialize_vector serialize_u8" "deserialize_vector deserialize_u8"
  "doc_vector doc_u8" serde_bytes "\<lambda>bs. True"
  by (intro serde_agrees.intro u8_vector_codec.bcs_codec_axioms serde_field_bytes)

interpretation address_agrees: serde_agrees "serialize_array serialize_u8" "deserialize_array 16 deserialize_u8"
  "doc_array 16 doc_u8" serde_address "\<lambda>bs. length bs = 16"
  by (intro serde_agrees.intro u8_array16_codec.bcs_codec_axioms serde_field_address)

end
