(* ===== verification/Sdk_Resource.thy ===== *)
theory Sdk_Resource
  imports Bcs_Serde Diem_Move
begin

text \<open>
  On-chain resources as the SDK reads them: \<open>EventHandle\<close>, \<open>ResourcePath\<close> and \<open>AccountState2\<close> of
  \<open>src/cpp/sdk/include/violas_client2.hpp\<close> (constructor in \<open>src/cpp/sdk/src/violas_client2.cpp\<close>)
  and the resources and events of \<open>src/cpp/sdk/include/nft.hpp\<close>.

  The blob of an account is hexadecimal text of a BCS byte vector that holds a BCS map from
  resource paths to resources. The lemmas follow it all the way: from the text of a well-formed blob to
  the resource that a client asks for.
\<close>

section \<open>EventHandle\<close>

record EventHandle =
  counter :: u64
  guid :: "u8 list"

definition serde_EventHandle :: "EventHandle serde_op" where
  "serde_EventHandle t =
     act_bind (serde_integral 8 (counter t)) (\<lambda>counter'.
     act_bind (serde_bytes (guid t)) (\<lambda>guid'.
     act_return \<lparr>counter = counter', guid = guid'\<rparr>))"

definition doc_EventHandle :: "EventHandle \<Rightarrow> bcs_doc" where
  "doc_EventHandle t = Doc_Tuple [doc_word 8 (counter t), doc_vector doc_u8 (guid t)]"

text \<open>
  The overload of a struct is the sequence of the overloads of its fields: writing and reading it
  follows from theirs, field by field.
\<close>

interpretation EventHandle_field: serde_field serde_EventHandle "\<lambda>t. True" doc_EventHandle
proof
  fix s and x y :: EventHandle
  show "is_serialization s \<Longrightarrow> lengths_below (2 ^ 64) (doc_EventHandle x) \<Longrightarrow>
      serde_EventHandle x s = Inr (x, bs_put (enc (doc_EventHandle x)) s)"
    by (simp add: serde_EventHandle_def doc_EventHandle_def act_bind_def act_return_def
        serde_u64.field_write serde_bytes.field_write)
  show "serde_EventHandle y s = Inr (x, bs_advance (length (enc (doc_EventHandle x))) s)"
    if "\<not> is_serialization s" "lengths_below (2 ^ 28) (doc_EventHandle x)" "bs_starts (enc (doc_EventHandle x)) s"
    using that
    by (simp add: serde_EventHandle_def doc_EventHandle_def act_bind_def act_return_def
        serde_u64.field_read [where x = "counter x"] serde_bytes.field_read [where x = "guid x"])
qed

section \<open>NFT resources\<close>

type_synonym Address = "u8 list"

record NftInfo =
  limited :: bool
  total :: u64
  amount :: u64
  admin :: Address
  owners :: "(u8 list \<times> Address) list"
  mint_event :: EventHandle
  burn_event :: EventHandle
  transferred_event :: EventHandle

definition serde_owners :: "(u8 list \<times> Address) list serde_op" where
  "serde_owners = serde_map (<) ([], replicate 16 0) serde_bytes serde_address"

definition serde_NftInfo :: "NftInfo serde_op" where
  "serde_NftInfo t =
     act_bind (serde_bool (limited t)) (\<lambda>limited'.
     act_bind (serde_integral 8 (total t)) (\<lambda>total'.
     act_bind (serde_integral 8 (amount t)) (\<lambda>amount'.
     act_bind (serde_address (admin t)) (\<lambda>admin'.
     act_bind (serde_owners (owners t)) (\<lambda>owners'.
     act_bind (serde_EventHandle (mint_event t)) (\<lambda>mint_event'.
     act_bind (serde_EventHandle (burn_event t)) (\<lambda>burn_event'.
     act_bind (serde_EventHandle (transferred_event t)) (\<lambda>transferred_event'.
     act_return \<lparr>limited = limited', total = total', amount = amount', admin = admin', owners = owners',
       mint_event = mint_event', burn_event = burn_event', transferred_event = transferred_event'\<rparr>))))))))"

definition owners_ok :: "(u8 list \<times> Address) list \<Rightarrow> bool" where
  "owners_ok m \<longleftrightarrow> map_sorted (<) m \<and> list_all (\<lambda>p. length (snd p) = 16) m"

definition doc_owners :: "(u8 list \<times> Address) list \<Rightarrow> bcs_doc" where
  "doc_owners = doc_vector (doc_pair (doc_vector doc_u8) (doc_array 16 doc_u8))"

interpretation owners_field: serde_field serde_owners owners_ok doc_owners
proof -
  have "(\<lambda>m. map_sorted (<) m \<and> list_all (\<lambda>p. True \<and> length (snd p) = 16) m) = owners_ok"
    by (simp add: fun_eq_iff owners_ok_def)
  then show "serde_field serde_owners owners_ok doc_owners"
    using serde_field_map [OF serde_field_bytes serde_field_address, of "([], replicate 16 0)" "(<)"]
    by (simp add: serde_owners_def doc_owners_def strict_total_less)
qed

definition doc_NftInfo :: "NftInfo \<Rightarrow> bcs_doc" where
  "doc_NftInfo t = Doc_Tuple
     [doc_bool (limited t), doc_word 8 (total t), doc_word 8 (amount t), doc_array 16 doc_u8 (admin t),
      doc_owners (owners t), doc_EventHandle (mint_event t), doc_EventHandle (burn_event t),
      doc_EventHandle (transferred_event t)]"

interpretation NftInfo_field: serde_field serde_NftInfo
  "\<lambda>t. length (admin t) = 16 \<and> owners_ok (owners t)" doc_NftInfo
proof
  fix s and x y :: NftInfo
  show "is_serialization s \<Longrightarrow> lengths_below (2 ^ 64) (doc_NftInfo x) \<Longrightarrow>
      serde_NftInfo x s = Inr (x, bs_put (enc (doc_NftInfo x)) s)"
    by (simp add: serde_NftInfo_def doc_NftInfo_def act_bind_def act_return_def serde_bool.field_write
        serde_u64.field_write serde_address.field_write owners_field.field_write EventHandle_field.field_write)
  show "serde_NftInfo y s = Inr (x, bs_advance (length (enc (doc_NftInfo x))) s)"
    if "\<not> is_serialization s" "length (admin x) = 16 \<and> owners_ok (owners x)"
      "length (admin y) = 16 \<and> owners_ok (owners y)"
      "lengths_below (2 ^ 28) (doc_NftInfo x)" "bs_starts (enc (doc_NftInfo x)) s"
    using that
    by (simp add: serde_NftInfo_def doc_NftInfo_def act_bind_def act_return_def
        serde_bool.field_read [where x = "limited x"] serde_u64.field_read [where x = "total x"]
        serde_u64.field_read [where x = "amount x"] serde_address.field_read [where x = "admin x"]
        owners_field.field_read [where x = "owners x"] EventHandle_field.field_read [where x = "mint_event x"]
        EventHandle_field.field_read [where x = "burn_event x"]
        EventHandle_field.field_read [where x = "transferred_event x"] add.assoc)
qed

record NftAccount =
  sent_event :: EventHandle
  received_event :: EventHandle

definition serde_NftAccount :: "NftAccount serde_op" where
  "serde_NftAccount t =
     act_bind (serde_EventHandle (sent_event t)) (\<lambda>sent_event'.
     act_bind (serde_EventHandle (received_event t)) (\<lambda>received_event'.
     act_return \<lparr>sent_event = sent_event', received_event = received_event'\<rparr>))"

definition doc_NftAccount :: "NftAccount \<Rightarrow> bcs_doc" where
  "doc_NftAccount t = Doc_Tuple [doc_EventHandle (sent_event t), doc_EventHandle (received_event t)]"

interpretation NftAccount_field: serde_field serde_NftAccount "\<lambda>t. True" doc_NftAccount
proof
  fix s and x y :: NftAccount
  show "is_serialization s \<Longrightarrow> lengths_below (2 ^ 64) (doc_NftAccount x) \<Longrightarrow>
      serde_NftAccount x s = Inr (x, bs_put (enc (doc_NftAccount x)) s)"
    by (simp add: serde_NftAccount_def doc_NftAccount_def act_bind_def act_return_def EventHandle_field.field_write)
  show "serde_NftAccount y s = Inr (x, bs_advance (length (enc (doc_NftAccount x))) s)"
    if "\<not> is_serialization s" "lengths_below (2 ^ 28) (doc_NftAccount x)" "bs_starts (enc (doc_NftAccount x)) s"
    using that
    by (simp add: serde_NftAccount_def doc_NftAccount_def act_bind_def act_return_def
        EventHandle_field.field_read [where x = "sent_event x"]
        EventHandle_field.field_read [where x = "received_event x"])
qed

section \<open>NFT events\<close>

text \<open>
  The events derive from \<open>Event\<close>, whose two members are not part of the event data: the client
  fills them in from the JSON-RPC answer.
\<close>

record Event =
  sequence_number :: u64
  transaction_version :: u64

record MintedEvent = Event +
  minted_token_id :: "u8 list"
  minted_receiver :: Address

record BurnedEvent = Event +
  burned_token_id :: "u8 list"

record SentEvent = Event +
  sent_token_id :: "u8 list"
  sent_payee :: Address
  sent_metadata :: "u8 list"

record ReceivedEvent = Event +
  received_token_id :: "u8 list"
  received_payer :: Address
  received_metadata :: "u8 list"

record TransferredEvent = Event +
  transferred_token_id :: "u8 list"
  transferred_payer :: Address
  transferred_peeer :: Address
  transferred_metadata :: "u8 list"

definition serde_MintedEvent :: "MintedEvent serde_op" where
  "serde_MintedEvent t =
     act_bind (serde_bytes (minted_token_id t)) (\<lambda>token_id'.
     act_bind (serde_address (minted_receiver t)) (\<lambda>receiver'.
     act_return (t\<lparr>minted_token_id := token_id', minted_receiver := receiver'\<rparr>)))"

definition serde_BurnedEvent :: "BurnedEvent serde_op" where
  "serde_BurnedEvent t =
     act_bind (serde_bytes (burned_token_id t)) (\<lambda>token_id'.
     act_return (t\<lparr>burned_token_id := token_id'\<rparr>))"

definition serde_SentEvent :: "SentEvent serde_op" where
  "serde_SentEvent t =
     act_bind (serde_bytes (sent_token_id t)) (\<lambda>token_id'.
     act_bind (serde_address (sent_payee t)) (\<lambda>payee'.
     act_bind (serde_bytes (sent_metadata t)) (\<lambda>metadata'.
     act_return (t\<lparr>sent_token_id := token_id', sent_payee := payee', sent_metadata := metadata'\<rparr>))))"

definition serde_ReceivedEvent :: "ReceivedEvent serde_op" where
  "serde_ReceivedEvent t =
     act_bind (serde_bytes (received_token_id t)) (\<lambda>token_id'.
     act_bind (serde_address (received_payer t)) (\<lambda>payer'.
     act_bind (serde_bytes (received_metadata t)) (\<lambda>metadata'.
     act_return (t\<lparr>received_token_id := token_id', received_payer := payer', received_metadata := metadata'\<rparr>))))"

text \<open>\<open>peeer\<close> is not among the members that \<open>TransferredEvent::serde\<close> visits.\<close>

definition serde_TransferredEvent :: "TransferredEvent serde_op" where
  "serde_TransferredEvent t =
     act_bind (serde_bytes (transferred_token_id t)) (\<lambda>token_id'.
     act_bind (serde_address (transferred_payer t)) (\<lambda>payer'.
     act_bind (serde_bytes (transferred_metadata t)) (\<lambda>metadata'.
     act_return (t\<lparr>transferred_token_id := token_id', transferred_payer := payer',
       transferred_metadata := metadata'\<rparr>))))"

text \<open>
  \<open>query_events\<close>: an event of the answer is its data with its sequence number and version; \<open>init\<close> is
  the event the loop declares, \<open>f\<close> its overload.
\<close>

fun query_events ::
    "'a Event_scheme serde_op \<Rightarrow> 'a Event_scheme \<Rightarrow> (u8 list \<times> u64 \<times> u64) list \<Rightarrow> 'a Event_scheme list result" where
  "query_events f init [] = Inr []"
| "query_events f init ((data, seq, version) # events) =
     (case f init (BcsSerde_from data) of
        Inl e \<Rightarrow> Inl e
      | Inr (event, s) \<Rightarrow>
          (case query_events f init events of
             Inl e \<Rightarrow> Inl e
           | Inr nft_events \<Rightarrow>
               Inr (event\<lparr>sequence_number := seq, transaction_version := version\<rparr> # nft_events)))"

text \<open>
  What the overload of an event reads, and that a query of such events gives them all in order.
\<close>

locale event_field =
  fixes f :: "'a Event_scheme serde_op" and invar :: "'a Event_scheme \<Rightarrow> bool" and doc :: "'a Event_scheme \<Rightarrow> bcs_doc"
  assumes event_read:
    "\<not> is_serialization s \<Longrightarrow> invar x \<Longrightarrow> invar y \<Longrightarrow> lengths_below (2 ^ 28) (doc x) \<Longrightarrow>
       bs_starts (enc (doc x)) s \<Longrightarrow>
       f y s = Inr (x\<lparr>sequence_number := sequence_number y, transaction_version := transaction_version y\<rparr>,
         bs_advance (length (enc (doc x))) s)"
begin

lemma query:
  assumes "invar init" and "\<And>x. x \<in> set xs \<Longrightarrow> invar x \<and> lengths_below (2 ^ 28) (doc x)"
  shows "query_events f init (map (\<lambda>x. (enc (doc x), sequence_number x, transaction_version x)) xs) = Inr xs"
  using assms(2)
proof (induction xs)
  case (Cons x xs)
  then have "f init (BcsSerde_from (enc (doc x))) =
      Inr (x\<lparr>sequence_number := sequence_number init, transaction_version := transaction_version init\<rparr>,
        bs_advance (length (enc (doc x))) (BcsSerde_from (enc (doc x))))"
    using assms(1) by (intro event_read) simp_all
  with Cons show ?case by simp
qed simp

end

definition doc_MintedEvent :: "MintedEvent \<Rightarrow> bcs_doc" where
  "doc_MintedEvent t = Doc_Tuple
     [doc_vector doc_u8 (minted_token_id t),
      doc_array 16 doc_u8 (minted_receiver t)]"

interpretation MintedEvent_field: event_field serde_MintedEvent "\<lambda>t. length (minted_receiver t) = 16" doc_MintedEvent
proof
  fix s and x y :: MintedEvent
  show "serde_MintedEvent y s = Inr (x\<lparr>sequence_number := sequence_number y, transaction_version := transaction_version y\<rparr>, bs_advance (length (enc (doc_MintedEvent x))) s)"
    if "\<not> is_serialization s"
      "length (minted_receiver x) = 16"
      "length (minted_receiver y) = 16"
      "lengths_below (2 ^ 28) (doc_MintedEvent x)"
      "bs_starts (enc (doc_MintedEvent x)) s"
    using that
    by (simp add: serde_MintedEvent_def doc_MintedEvent_def act_bind_def act_return_def add.assoc
        serde_bytes.field_read [where x = "minted_token_id x"]
        serde_address.field_read [where x = "minted_receiver x"])
qed

definition doc_BurnedEvent :: "BurnedEvent \<Rightarrow> bcs_doc" where
  "doc_BurnedEvent t = Doc_Tuple
     [doc_vector doc_u8 (burned_token_id t)]"

interpretation BurnedEvent_field: event_field serde_BurnedEvent "\<lambda>t. True" doc_BurnedEvent
proof
  fix s and x y :: BurnedEvent
  show "serde_BurnedEvent y s = Inr (x\<lparr>sequence_number := sequence_number y, transaction_version := transaction_version y\<rparr>, bs_advance (length (enc (doc_BurnedEvent x))) s)"
    if "\<not> is_serialization s"
      "lengths_below (2 ^ 28) (doc_BurnedEvent x)"
      "bs_starts (enc (doc_BurnedEvent x)) s"
    using that
    by (simp add: serde_BurnedEvent_def doc_BurnedEvent_def act_bind_def act_return_def add.assoc
        serde_bytes.field_read [where x = "burned_token_id x"])
qed

definition doc_SentEvent :: "SentEvent \<Rightarrow> bcs_doc" where
  "doc_SentEvent t = Doc_Tuple
     [doc_vector doc_u8 (sent_token_id t),
      doc_array 16 doc_u8 (sent_payee t),
      doc_vector doc_u8 (sent_metadata t)]"

interpretation SentEvent_field: event_field serde_SentEvent "\<lambda>t. length (sent_payee t) = 16" doc_SentEvent
proof
  fix s and x y :: SentEvent
  show "serde_SentEvent y s = Inr (x\<lparr>sequence_number := sequence_number y, transaction_version := transaction_version y\<rparr>, bs_advance (length (enc (doc_SentEvent x))) s)"
    if "\<not> is_serialization s"
      "length (sent_payee x) = 16"
      "length (sent_payee y) = 16"
      "lengths_below (2 ^ 28) (doc_SentEvent x)"
      "bs_starts (enc (doc_SentEvent x)) s"
    using that
    by (simp add: serde_SentEvent_def doc_SentEvent_def act_bind_def act_return_def add.assoc
        serde_bytes.field_read [where x = "sent_token_id x"]
        serde_address.field_read [where x = "sent_payee x"]
        serde_bytes.field_read [where x = "sent_metadata x"])
qed

definition doc_ReceivedEvent :: "ReceivedEvent \<Rightarrow> bcs_doc" where
  "doc_ReceivedEvent t = Doc_Tuple
     [doc_vector doc_u8 (received_token_id t),
      doc_array 16 doc_u8 (received_payer t),
      doc_vector doc_u8 (received_metadata t)]"

interpretation ReceivedEvent_field: event_field serde_ReceivedEvent "\<lambda>t. length (received_payer t) = 16" doc_ReceivedEvent
proof
  fix s and x y :: ReceivedEvent
  show "serde_ReceivedEvent y s = Inr (x\<lparr>sequence_number := sequence_number y, transaction_version := transaction_version y\<rparr>, bs_advance (length (enc (doc_ReceivedEvent x))) s)"
    if "\<not> is_serialization s"
      "length (received_payer x) = 16"
      "length (received_payer y) = 16"
      "lengths_below (2 ^ 28) (doc_ReceivedEvent x)"
      "bs_starts (enc (doc_ReceivedEvent x)) s"
    using that
    by (simp add: serde_ReceivedEvent_def doc_ReceivedEvent_def act_bind_def act_return_def add.assoc
        serde_bytes.field_read [where x = "received_token_id x"]
        serde_address.field_read [where x = "received_payer x"]
        serde_bytes.field_read [where x = "received_metadata x"])
qed

section \<open>ResourcePath\<close>

datatype ResourcePath =
    ResourcePath_ModuleId ModuleId
  | ResourcePath_StructTag StructTag

definition serialize_ResourcePath :: "ResourcePath \<Rightarrow> ser_step" where
  "serialize_ResourcePath obj = steps
     [increase_container_depth,
      (case obj of
         ResourcePath_ModuleId module_id \<Rightarrow> serialize_variant 0 (serialize_ModuleId module_id)
       | ResourcePath_StructTag tag \<Rightarrow> serialize_variant 1 (serialize_StructTag tag)),
      decrease_container_depth]"

definition bcsSerialize_ResourcePath :: "ResourcePath \<Rightarrow> u8 list result" where
  "bcsSerialize_ResourcePath = bcsSerialize serialize_ResourcePath"

definition doc_ResourcePath :: "ResourcePath \<Rightarrow> bcs_doc" where
  "doc_ResourcePath obj = Doc_Container
     (case obj of
        ResourcePath_ModuleId module_id \<Rightarrow> Doc_Variant 0 (Doc_Tuple [doc_ModuleId module_id])
      | ResourcePath_StructTag tag \<Rightarrow> Doc_Variant 1 (Doc_Tuple [doc_StructTag tag]))"

lemma bcsSerialize_ResourcePath_iff:
  "bcsSerialize_ResourcePath p = Inr bs \<longleftrightarrow>
     fits (doc_ResourcePath p) \<and> depth (doc_ResourcePath p) \<le> 500 \<and> bs = enc (doc_ResourcePath p)"
proof -
  have ser: "serialize_ResourcePath p s = Inr t \<longleftrightarrow>
     fits (doc_ResourcePath p) \<and> depth (doc_ResourcePath p) \<le> unat (container_depth_budget s) \<and>
     t = put (enc (doc_ResourcePath p)) s" for s t
    by (auto simp: serialize_ResourcePath_def doc_ResourcePath_def run_iff codec_iff Suc_le_unat_iff
        split: ResourcePath.splits)
  have "bcsSerialize_ResourcePath p = Inr bs \<longleftrightarrow>
      (\<exists>s. serialize_ResourcePath p BcsSerializer = Inr s \<and> bs = bytes s)"
    by (auto simp: bcsSerialize_ResourcePath_def bcsSerialize_def split: sum.splits)
  then show ?thesis
    unfolding ser by (auto simp: BcsSerializer_def BCS_MAX_CONTAINER_DEPTH_def)
qed

text \<open>Two struct tags never share a path: the lookup key identifies the resource type.\<close>

lemma ResourcePath_inj:
  assumes "bcsSerialize_ResourcePath (ResourcePath_StructTag t) = Inr k"
    and "bcsSerialize_ResourcePath (ResourcePath_StructTag u) = Inr k"
    and "typed (doc_StructTag t)" and "typed (doc_StructTag u)"
  shows "t = u"
proof -
  have "enc (doc_StructTag t) @ [] = enc (doc_StructTag u) @ []"
    and "fits (doc_StructTag t)" "fits (doc_StructTag u)"
    and "depth (doc_StructTag t) < 2 ^ 64" "depth (doc_StructTag u) < 2 ^ 64"
    using assms(1,2) unfolding bcsSerialize_ResourcePath_iff by (auto simp: doc_ResourcePath_def)
  with assms(3,4) show ?thesis
    by (intro StructTag_codec.prefix_free) (auto simp: wf_doc_def)
qed

section \<open>AccountState2\<close>

type_synonym resources = "(u8 list \<times> u8 list) list"

definition serde_resources :: "resources serde_op" where
  "serde_resources = serde_map (<) ([], []) serde_bytes serde_bytes"

definition AccountState2 :: "cstring \<Rightarrow> resources result" where
  "AccountState2 hex =
     (case hex_to_bytes hex of
        Inl e \<Rightarrow> Inl e
      | Inr bytes' \<Rightarrow>
          (case serde_bytes [] (BcsSerde_from bytes') of
             Inl e \<Rightarrow> Inl e
           | Inr (data, s) \<Rightarrow>
               (case serde_resources [] (BcsSerde_from data) of
                  Inl e \<Rightarrow> Inl e
                | Inr (resources', s') \<Rightarrow> Inr resources')))"

text \<open>\<open>get_resource<T>\<close>: \<open>f\<close> is the overload of \<open>T\<close>, \<open>init\<close> the value it declares.\<close>

definition get_resource :: "'a serde_op \<Rightarrow> 'a \<Rightarrow> resources \<Rightarrow> StructTag \<Rightarrow> 'a option result" where
  "get_resource f init resources' tag =
     (case bcsSerialize_ResourcePath (ResourcePath_StructTag tag) of
        Inl e \<Rightarrow> Inl e
      | Inr key \<Rightarrow>
          (case map_of resources' key of
             None \<Rightarrow> Inr None
           | Some data \<Rightarrow>
               (case f init (BcsSerde_from data) of
                  Inl e \<Rightarrow> Inl e
                | Inr (t, s) \<Rightarrow> Inr (Some t))))"

definition doc_resources :: "resources \<Rightarrow> bcs_doc" where
  "doc_resources = doc_vector (doc_pair (doc_vector doc_u8) (doc_vector doc_u8))"

text \<open>The blob of an account: the bytes of the map, in any order of its entries, as a byte vector.\<close>

definition account_blob :: "resources \<Rightarrow> u8 list" where
  "account_blob entries = enc (doc_vector doc_u8 (enc (doc_resources entries)))"

lemma serde_resources_read:
  assumes "distinct (map fst entries)" and "lengths_below (2 ^ 28) (doc_resources entries)"
  shows "\<exists>m s. serde_resources [] (BcsSerde_from (enc (doc_resources entries))) = Inr (m, s) \<and>
     map_sorted (<) m \<and> set m = set entries"
proof -
  let ?bs = "enc (doc_resources entries)" and ?s = "BcsSerde_from (enc (doc_resources entries))"
  let ?m = "fold (map_insert (<)) entries []"
  let ?es = "concat (map (\<lambda>p. enc (doc_pair (doc_vector doc_u8) (doc_vector doc_u8) p)) entries)"
  have bs: "?bs = uleb128 (length entries) @ ?es"
    by (simp add: doc_resources_def doc_vector_def comp_def)
  have "bs_starts (uleb128 (length entries) @ ?es) ?s"
    unfolding bs by (rule bs_starts_from)
  then have starts: "bs_starts (uleb128 (length entries)) ?s"
      "bs_starts ?es (bs_advance (length (uleb128 (length entries))) ?s)"
    unfolding bs_starts_append by blast+
  have len: "length entries < 2 ^ 28" using assms(2) by (simp add: doc_resources_def doc_vector_def)
  have "serde_map_loop (<) ([], []) serde_bytes serde_bytes (length entries) []
      (bs_advance (length (uleb128 (length entries))) ?s) =
      Inr (?m, bs_advance (length ?es) (bs_advance (length (uleb128 (length entries))) ?s))"
    by (rule serde_map_loop_read [OF serde_field_bytes serde_field_bytes _ _ _ _ starts(2)])
      (use assms(2) in \<open>auto simp: doc_resources_def doc_vector_def list_all_iff\<close>)
  then have "\<exists>s. serde_resources [] ?s = Inr (?m, s)"
    using len by (auto simp: serde_resources_def serde_map_def act_bind_def
        decode_integer_small [OF starts(1) len] unat_of_nat)
  then show ?thesis
    using fold_map_insert [OF strict_total_less, of "[]" entries] assms(1) by auto
qed

lemma AccountState2_reads_blob:
  assumes "distinct (map fst entries)" and "lengths_below (2 ^ 28) (doc_resources entries)"
    and "length (enc (doc_resources entries)) < 2 ^ 28"
  shows "\<exists>m. AccountState2 (bytes_to_hex (account_blob entries)) = Inr m \<and>
     map_sorted (<) m \<and> map_of m = map_of entries"
proof -
  obtain m s where m: "serde_resources [] (BcsSerde_from (enc (doc_resources entries))) = Inr (m, s)"
      "map_sorted (<) m" "set m = set entries"
    using serde_resources_read [OF assms(1,2)] by blast
  have "account_blob entries \<noteq> []" by (simp add: account_blob_def doc_vector_def)
  then have hex: "hex_to_bytes (bytes_to_hex (account_blob entries)) = Inr (account_blob entries)"
    by (rule hex_to_bytes_hex)
  have "lengths_below (2 ^ 28) (doc_vector doc_u8 (enc (doc_resources entries)))"
    using assms(3) by (simp add: doc_vector_def list_all_iff doc_u8_def)
  then have "\<exists>s. serde_bytes [] (BcsSerde_from (account_blob entries)) = Inr (enc (doc_resources entries), s)"
    unfolding account_blob_def by (intro serde_bytes.read_message) simp_all
  moreover have "map_of m = map_of entries"
    using map_sorted_distinct [OF strict_total_less m(2)] assms(1) m(3)
    by (metis map_of_inject_set)
  ultimately show ?thesis
    using m hex by (auto simp: AccountState2_def)
qed

text \<open>From the text of the blob to the resource of a type.\<close>

text \<open>What follows the bytes of the value in the resource is not read.\<close>

lemma get_resource_prefix:
  assumes "serde_field f invar doc" and "invar init" and "invar x" and "lengths_below (2 ^ 28) (doc x)"
    and "bcsSerialize_ResourcePath (ResourcePath_StructTag tag) = Inr key"
    and "map_of m key = Some (enc (doc x) @ rest)"
  shows "get_resource f init m tag = Inr (Some x)"
proof -
  have "bs_starts (enc (doc x) @ rest) (BcsSerde_from (enc (doc x) @ rest))" by (rule bs_starts_from)
  then have "bs_starts (enc (doc x)) (BcsSerde_from (enc (doc x) @ rest))" by (simp only: bs_starts_append)
  from serde_field.field_read [OF assms(1) not_serialization_from assms(3,2,4) this] assms(5,6)
  show ?thesis by (simp add: get_resource_def)
qed

lemma get_resource_reads:
  assumes "serde_field f invar doc" and "invar init" and "invar x" and "lengths_below (2 ^ 28) (doc x)"
    and "bcsSerialize_ResourcePath (ResourcePath_StructTag tag) = Inr key"
    and "map_of m key = Some (enc (doc x))"
  shows "get_resource f init m tag = Inr (Some x)"
  using assms(5,6) serde_field.read_message [OF assms(1,3,2,4)] by (auto simp: get_resource_def)

end
