(* ===== verification/Client2.thy ===== *)
theory Client2
  imports Wallet Json_Rpc Sdk_Resource
begin

text \<open>
  \<open>src/cpp/sdk/src/violas_client2.cpp\<close>: the client \<open>Client2Imp\<close>, which keeps a wallet and a cache of
  the accounts it works for, signs transactions and submits them.

  The state of a call is the client together with the world behind the JSON-RPC service (\<open>'w\<close>); what
  the client is given from outside is the record \<open>env\<close>: OpenSSL, the JSON-RPC client, the clock, the
  files and what sleeping does to the world. The lemmas are about signatures, sequence numbers and
  the polling of a transaction.
\<close>

section \<open>Constants\<close>

definition STD_LIB_ADDRESS :: AccountAddress where
  "STD_LIB_ADDRESS = \<lparr>AccountAddress_value = [0, 0, 0, 0, 0, 0, 0, 0, 0, 0, 0, 0, 0, 0, 0, 1]\<rparr>"

definition ROOT_ADDRESS :: AccountAddress where
  "ROOT_ADDRESS = \<lparr>AccountAddress_value = [0, 0, 0, 0, 0, 0, 0, 0, 0, 0, 0, 0, 0x0A, 0x55, 0x0C, 0x18]\<rparr>"

definition TC_ADDRESS :: AccountAddress where
  "TC_ADDRESS = \<lparr>AccountAddress_value = [0, 0, 0, 0, 0, 0, 0, 0, 0, 0, 0, 0, 0x0B, 0x1E, 0x55, 0xED]\<rparr>"

definition TESTNET_DD_ADDRESS :: AccountAddress where
  "TESTNET_DD_ADDRESS = \<lparr>AccountAddress_value = [0, 0, 0, 0, 0, 0, 0, 0, 0, 0, 0, 0, 0, 0, 0, 0xDD]\<rparr>"

definition ACCOUNT_ROOT_ID :: u64 where
  "ACCOUNT_ROOT_ID = - 1"

definition ACCOUNT_TC_ID :: u64 where
  "ACCOUNT_TC_ID = - 1 - 1"

definition ACCOUNT_DD_ID :: u64 where
  "ACCOUNT_DD_ID = - 1 - 2"

section \<open>The client\<close>

record ('k, 'w) env =
  env_ssl :: "'k openssl"
  env_rpc :: "'w rpc_client"
  env_time :: "'w \<Rightarrow> u64"
  env_file :: "'w \<Rightarrow> cstring \<Rightarrow> u8 list option"
  env_sleep :: "nat \<Rightarrow> 'w \<Rightarrow> 'w"

record 'k Client2Imp =
  m_chain_id :: u8
  m_wallet :: "'k Wallet"
  m_opt_root :: "'k PrivateKey option"
  m_opt_tc :: "'k PrivateKey option"
  m_opt_dd :: "'k PrivateKey option"
  m_accounts :: "u64 \<rightharpoonup> AccountView"

type_synonym ('k, 'w) client_state = "'k Client2Imp \<times> 'w"

definition open_wallet :: "('k, 'w) env \<Rightarrow> cstring \<Rightarrow> ('w, 'k Wallet) eff" where
  "open_wallet env mnemonic_file =
     eff_bind (eff_get (\<lambda>w. env_file env w mnemonic_file)) (\<lambda>ifs.
     case ifs of
       None \<Rightarrow> eff_lift (generate_from_random [])
     | Some text' \<Rightarrow> eff_lift (generate_from_mnemonic (env_ssl env) (takeWhile (\<lambda>b. b \<noteq> 0x3B) text')))"

text \<open>
  The guard on the mint key throws only when both conditions fail; what follows copies 32 bytes, also
  of a file that has fewer.
\<close>

definition read_mint_key :: "u8 list \<Rightarrow> u8 list result" where
  "read_mint_key buf =
     (if buf = [] then Inl (Undefined_behaviour ''buf[0]'')
      else if hd buf \<noteq> 32 \<and> length buf \<noteq> 33
      then Inl (Runtime_error ''The size of mint key file is not 32, cannot handle it.'')
      else if length buf < 33 then Inl (Undefined_behaviour ''begin(buf) + 33'')
      else Inr (take 32 (drop 1 buf)))"

definition cache_account :: "u64 \<Rightarrow> AccountView option \<Rightarrow> (u64 \<rightharpoonup> AccountView) \<Rightarrow> (u64 \<rightharpoonup> AccountView)" where
  "cache_account index view accounts = (case view of None \<Rightarrow> accounts | Some v \<Rightarrow> accounts(index \<mapsto> v))"

definition Client2_create ::
    "('k, 'w) env \<Rightarrow> u8 \<Rightarrow> cstring \<Rightarrow> cstring \<Rightarrow> ('w, 'k Client2Imp) eff" where
  "Client2_create env chain_id mnemonic_file mint_key_file =
     eff_bind (open_wallet env mnemonic_file) (\<lambda>wallet.
     eff_bind (eff_get (\<lambda>w. if mint_key_file = [] then None else env_file env w mint_key_file)) (\<lambda>mint.
     case mint of
       None \<Rightarrow> eff_return \<lparr>m_chain_id = chain_id, m_wallet = wallet, m_opt_root = None, m_opt_tc = None,
         m_opt_dd = None, m_accounts = Map.empty\<rparr>
     | Some buf \<Rightarrow>
         eff_bind (eff_lift (read_mint_key buf)) (\<lambda>raw_key.
         eff_bind (eff_lift (PrivateKey_from_raw_key (env_ssl env) raw_key)) (\<lambda>key.
         eff_bind (rpc_get_account (env_rpc env) ROOT_ADDRESS) (\<lambda>root_account_view.
         eff_bind (rpc_get_account (env_rpc env) TC_ADDRESS) (\<lambda>tc_account_view.
         eff_bind (rpc_get_account (env_rpc env) TESTNET_DD_ADDRESS) (\<lambda>dd_account_view.
         eff_return \<lparr>m_chain_id = chain_id, m_wallet = wallet, m_opt_root = Some key, m_opt_tc = Some key,
           m_opt_dd = Some key,
           m_accounts = cache_account ACCOUNT_DD_ID dd_account_view
             (cache_account ACCOUNT_TC_ID tc_account_view
             (cache_account ACCOUNT_ROOT_ID root_account_view Map.empty))\<rparr>)))))))"

text \<open>An effect of the wallet, of the service.\<close>

definition with_wallet :: "('k Wallet, 'a) eff \<Rightarrow> (('k, 'w) client_state, 'a) eff" where
  "with_wallet m = eff_fst (\<lambda>c. case m (m_wallet c) of (r, w) \<Rightarrow> (r, c\<lparr>m_wallet := w\<rparr>))"

definition set_account :: "u64 \<Rightarrow> AccountView \<Rightarrow> (('k, 'w) client_state, unit) eff" where
  "set_account index view = eff_fst (eff_modify (\<lambda>c. c\<lparr>m_accounts := (m_accounts c)(index \<mapsto> view)\<rparr>))"

definition create_next_account ::
    "('k, 'w) env \<Rightarrow> AccountAddress option \<Rightarrow> (('k, 'w) client_state, u64 \<times> AccountAddress) eff" where
  "create_next_account env opt_address =
     eff_bind (with_wallet (wallet_create_next_account (env_ssl env))) (\<lambda>(index, own_address).
     let address = (case opt_address of None \<Rightarrow> own_address | Some a \<Rightarrow> a)
     in eff_bind (eff_snd (rpc_get_account (env_rpc env) address)) (\<lambda>opt_account_view.
        eff_bind (set_account index
          (case opt_account_view of
             Some view \<Rightarrow> view
           | None \<Rightarrow> \<lparr>AccountView_address = address, AccountView_sequence_number = 0\<rparr>)) (\<lambda>_.
        eff_return (index, address))))"

definition update_account_info :: "u64 \<Rightarrow> (('k, 'w) client_state, unit) eff" where
  "update_account_info account_index = eff_return ()"

definition get_all_accounts :: "('k, 'w) env \<Rightarrow> (('k, 'w) client_state, Account list) eff" where
  "get_all_accounts env s = (wallet_get_all_accounts (env_ssl env) (m_wallet (fst s)), s)"

section \<open>Signing\<close>

text \<open>The account of an index: from the cache, or else from the service.\<close>

definition account_at :: "('k, 'w) env \<Rightarrow> u64 \<Rightarrow> (('k, 'w) client_state, Account) eff" where
  "account_at env account_index =
     eff_bind (get_all_accounts env) (\<lambda>accounts.
     if unat account_index < length accounts then eff_return (accounts ! unat account_index)
     else eff_throw (Out_of_range ''vector::_M_range_check''))"

definition find_account :: "('k, 'w) env \<Rightarrow> u64 \<Rightarrow> (('k, 'w) client_state, AccountView) eff" where
  "find_account env account_index =
     eff_bind (eff_get (\<lambda>s. m_accounts (fst s) account_index)) (\<lambda>cached.
     case cached of
       Some view \<Rightarrow> eff_return view
     | None \<Rightarrow>
         eff_bind (account_at env account_index) (\<lambda>account.
         eff_bind (eff_snd (rpc_get_account (env_rpc env) (Account_address account))) (\<lambda>opt_account_view.
         case opt_account_view of
           Some view \<Rightarrow> eff_bind (set_account account_index view) (\<lambda>_. eff_return view)
         | None \<Rightarrow> eff_throw (Runtime_error ''Account index does not exist.''))))"

text \<open>
  The key a message is signed with, and the public key that is published with the signature: for
  \<open>ACCOUNT_DD_ID\<close> these come from two members.
\<close>

definition deref :: "'a option \<Rightarrow> 'a result" where
  "deref opt = (case opt of None \<Rightarrow> Inl (Undefined_behaviour ''empty optional'') | Some x \<Rightarrow> Inr x)"

definition sign_message :: "'k openssl \<Rightarrow> 'k Client2Imp \<Rightarrow> u64 \<Rightarrow> u8 list \<Rightarrow> (u8 list \<times> u8 list) result" where
  "sign_message ssl c account_index message =
     (if account_index = ACCOUNT_ROOT_ID then
        sum_bind (deref (m_opt_root c)) (\<lambda>root.
        sum_bind (PrivateKey_sign ssl root message) (\<lambda>signature.
        sum_bind (public_raw_key ssl root) (\<lambda>pub. Inr (pub, signature))))
      else if account_index = ACCOUNT_TC_ID then
        sum_bind (deref (m_opt_tc c)) (\<lambda>tc.
        sum_bind (public_raw_key ssl tc) (\<lambda>pub.
        sum_bind (PrivateKey_sign ssl tc message) (\<lambda>signature. Inr (pub, signature))))
      else if account_index = ACCOUNT_DD_ID then
        sum_bind (deref (m_opt_dd c)) (\<lambda>dd.
        sum_bind (PrivateKey_sign ssl dd message) (\<lambda>signature.
        sum_bind (deref (m_opt_tc c)) (\<lambda>tc.
        sum_bind (public_raw_key ssl tc) (\<lambda>pub. Inr (pub, signature)))))
      else
        sum_bind (get_account_priv_key (m_wallet c) account_index) (\<lambda>priv_key.
        sum_bind (PrivateKey_sign ssl priv_key message) (\<lambda>signature.
        sum_bind (public_raw_key ssl priv_key) (\<lambda>pub. Inr (pub, signature)))))"

definition client_sign :: "('k, 'w) env \<Rightarrow> u64 \<Rightarrow> u8 list \<Rightarrow> (('k, 'w) client_state, u8 list \<times> u8 list) eff" where
  "client_sign env account_index message s = (sign_message (env_ssl env) (fst s) account_index message, s)"

definition raw_transaction_message :: "'k openssl \<Rightarrow> u8 list \<Rightarrow> u8 list" where
  "raw_transaction_message ssl bytes' = ssl_sha3_256 ssl (str ''DIEM::RawTransaction'') @ bytes'"

definition make_signed_txn ::
    "('k, 'w) env \<Rightarrow> u64 \<Rightarrow> TransactionPayload \<Rightarrow> u64 \<Rightarrow> u64 \<Rightarrow> cstring \<Rightarrow> u64 \<Rightarrow>
     (('k, 'w) client_state, SignedTransaction) eff" where
  "make_signed_txn env account_index txn_payload max_gas_amount gas_unit_price gas_currency_code
       expiration_timestamp_secs =
     eff_bind (find_account env account_index) (\<lambda>view.
     eff_bind (eff_get (\<lambda>s. env_time env (snd s))) (\<lambda>now.
     eff_bind (eff_get (\<lambda>s. m_chain_id (fst s))) (\<lambda>chain_id.
     let raw_txn = \<lparr>
           RawTransaction_sender =
             (if account_index = ACCOUNT_ROOT_ID then ROOT_ADDRESS
              else if account_index = ACCOUNT_TC_ID then TC_ADDRESS
              else if account_index = ACCOUNT_DD_ID then TESTNET_DD_ADDRESS
              else AccountView_address view),
           RawTransaction_sequence_number = AccountView_sequence_number view,
           RawTransaction_payload = txn_payload,
           RawTransaction_max_gas_amount = max_gas_amount,
           RawTransaction_gas_unit_price = gas_unit_price,
           RawTransaction_gas_currency_code = gas_currency_code,
           RawTransaction_expiration_timestamp_secs = now + expiration_timestamp_secs,
           RawTransaction_chain_id = \<lparr>ChainId_value = chain_id\<rparr>\<rparr>
     in eff_bind (eff_lift (bcsSerialize_RawTransaction raw_txn)) (\<lambda>bytes'.
        eff_bind (client_sign env account_index (raw_transaction_message (env_ssl env) bytes')) (\<lambda>(pub, signature).
        eff_return \<lparr>SignedTransaction_raw_txn = raw_txn,
          SignedTransaction_authenticator = TransactionAuthenticator_Ed25519
            \<lparr>Ed25519PublicKey_value = pub\<rparr> \<lparr>Ed25519Signature_value = signature\<rparr>\<rparr>)))))"

section \<open>Submitting\<close>

text \<open>\<open>iter->second.sequence_number++\<close>, when the account is in the cache.\<close>

definition increment_sequence_number :: "u64 \<Rightarrow> (('k, 'w) client_state, unit) eff" where
  "increment_sequence_number account_index =
     eff_bind (eff_get (\<lambda>s. m_accounts (fst s) account_index)) (\<lambda>cached.
     case cached of
       None \<Rightarrow> eff_return ()
     | Some view \<Rightarrow> set_account account_index
         (view\<lparr>AccountView_sequence_number := AccountView_sequence_number view + 1\<rparr>))"

definition submit_txn_payload ::
    "('k, 'w) env \<Rightarrow> u64 \<Rightarrow> TransactionPayload \<Rightarrow> u64 \<Rightarrow> u64 \<Rightarrow> cstring \<Rightarrow> u64 \<Rightarrow>
     (('k, 'w) client_state, AccountAddress \<times> u64) eff" where
  "submit_txn_payload env account_index txn_payload max_gas_amount gas_unit_price gas_currency_code
       expiration_timestamp_secs =
     eff_bind (make_signed_txn env account_index txn_payload max_gas_amount gas_unit_price
       gas_currency_code expiration_timestamp_secs) (\<lambda>signed_txn.
     eff_bind (eff_snd (rpc_submit (env_rpc env) signed_txn)) (\<lambda>_.
     eff_bind (increment_sequence_number account_index) (\<lambda>_.
     eff_return (RawTransaction_sender (SignedTransaction_raw_txn signed_txn),
       RawTransaction_sequence_number (SignedTransaction_raw_txn signed_txn)))))"

definition await_submit_txn_payload ::
    "('k, 'w) env \<Rightarrow> u64 \<Rightarrow> TransactionPayload \<Rightarrow> u64 \<Rightarrow> u64 \<Rightarrow> cstring \<Rightarrow> u64 \<Rightarrow>
     (('k, 'w) client_state, AccountAddress \<times> u64) eff" where
  "await_submit_txn_payload env account_index txn_payload max_gas_amount gas_unit_price gas_currency_code
       expiration_timestamp_secs =
     eff_bind (make_signed_txn env account_index txn_payload max_gas_amount gas_unit_price
       gas_currency_code expiration_timestamp_secs) (\<lambda>signed_txn.
     eff_bind (eff_snd (rpc_await_submit2 (env_rpc env) signed_txn)) (\<lambda>_.
     eff_bind (increment_sequence_number account_index) (\<lambda>_.
     eff_return (RawTransaction_sender (SignedTransaction_raw_txn signed_txn),
       RawTransaction_sequence_number (SignedTransaction_raw_txn signed_txn)))))"

definition submit_script ::
    "('k, 'w) env \<Rightarrow> u64 \<Rightarrow> Script \<Rightarrow> u64 \<Rightarrow> u64 \<Rightarrow> cstring \<Rightarrow> u64 \<Rightarrow>
     (('k, 'w) client_state, AccountAddress \<times> u64) eff" where
  "submit_script env account_index script = submit_txn_payload env account_index (TransactionPayload_Script script)"

definition await_submit_script ::
    "('k, 'w) env \<Rightarrow> u64 \<Rightarrow> Script \<Rightarrow> u64 \<Rightarrow> u64 \<Rightarrow> cstring \<Rightarrow> u64 \<Rightarrow>
     (('k, 'w) client_state, AccountAddress \<times> u64) eff" where
  "await_submit_script env account_index script =
     await_submit_txn_payload env account_index (TransactionPayload_Script script)"

definition submit_module ::
    "('k, 'w) env \<Rightarrow> u64 \<Rightarrow> Module \<Rightarrow> u64 \<Rightarrow> u64 \<Rightarrow> cstring \<Rightarrow> u64 \<Rightarrow>
     (('k, 'w) client_state, AccountAddress \<times> u64) eff" where
  "submit_module env account_index module' = submit_txn_payload env account_index (TransactionPayload_Module module')"

definition await_submit_module ::
    "('k, 'w) env \<Rightarrow> u64 \<Rightarrow> Module \<Rightarrow> u64 \<Rightarrow> u64 \<Rightarrow> cstring \<Rightarrow> u64 \<Rightarrow>
     (('k, 'w) client_state, AccountAddress \<times> u64) eff" where
  "await_submit_module env account_index module' =
     await_submit_txn_payload env account_index (TransactionPayload_Module module')"

text \<open>\<open>Script\<close>s from bytecode and from a file.\<close>

definition execute_script_bytecode ::
    "('k, 'w) env \<Rightarrow> u64 \<Rightarrow> u8 list \<Rightarrow> TypeTag list \<Rightarrow> TransactionArgument list \<Rightarrow> u64 \<Rightarrow> u64 \<Rightarrow> cstring \<Rightarrow> u64 \<Rightarrow>
     (('k, 'w) client_state, AccountAddress \<times> u64) eff" where
  "execute_script_bytecode env account_index script_byte_code type_tags args =
     submit_txn_payload env account_index (TransactionPayload_Script
       \<lparr>Script_code = script_byte_code, Script_ty_args = type_tags, Script_args = args\<rparr>)"

definition read_file :: "('k, 'w) env \<Rightarrow> cstring \<Rightarrow> string \<Rightarrow> (('k, 'w) client_state, u8 list) eff" where
  "read_file env file_name error =
     eff_bind (eff_get (\<lambda>s. env_file env (snd s) file_name)) (\<lambda>ifs.
     case ifs of None \<Rightarrow> eff_throw (Runtime_error error) | Some data \<Rightarrow> eff_return data)"

definition execute_script_file ::
    "('k, 'w) env \<Rightarrow> u64 \<Rightarrow> cstring \<Rightarrow> TypeTag list \<Rightarrow> TransactionArgument list \<Rightarrow> u64 \<Rightarrow> u64 \<Rightarrow> cstring \<Rightarrow> u64 \<Rightarrow>
     (('k, 'w) client_state, AccountAddress \<times> u64) eff" where
  "execute_script_file env account_index script_file_name type_tags args max_gas_amount gas_unit_price
       gas_currency_code expiration_timestamp_secs =
     eff_bind (read_file env script_file_name
       (''failed to open file '' @ c_text script_file_name @ '' at execute_script_file'')) (\<lambda>script_bytecode.
     submit_script env account_index
       \<lparr>Script_code = script_bytecode, Script_ty_args = type_tags, Script_args = args\<rparr>
       max_gas_amount gas_unit_price gas_currency_code expiration_timestamp_secs)"

definition await_execute_script ::
    "('k, 'w) env \<Rightarrow> u64 \<Rightarrow> cstring \<Rightarrow> TypeTag list \<Rightarrow> TransactionArgument list \<Rightarrow> u64 \<Rightarrow> u64 \<Rightarrow> cstring \<Rightarrow> u64 \<Rightarrow>
     (('k, 'w) client_state, AccountAddress \<times> u64) eff" where
  "await_execute_script env account_index script_file_name type_tags args max_gas_amount gas_unit_price
       gas_currency_code expiration_timestamp_secs =
     eff_bind (read_file env script_file_name
       (''failed to open file '' @ c_text script_file_name @ '' at execute_script_file'')) (\<lambda>script_bytecode.
     await_submit_script env account_index
       \<lparr>Script_code = script_bytecode, Script_ty_args = type_tags, Script_args = args\<rparr>
       max_gas_amount gas_unit_price gas_currency_code expiration_timestamp_secs)"

section \<open>Waiting for a transaction\<close>

text \<open>The loop asks at most \<open>n\<close> times, and sleeps 0.1 seconds after each answer that has no transaction.\<close>

fun poll_transaction ::
    "('w, TransactionView option) eff \<Rightarrow> (nat \<Rightarrow> 'w \<Rightarrow> 'w) \<Rightarrow> nat \<Rightarrow> ('w, TransactionView option) eff" where
  "poll_transaction get sleep 0 = eff_return None"
| "poll_transaction get sleep (Suc n) =
     eff_bind get (\<lambda>opt_txn_view.
     case opt_txn_view of
       Some view \<Rightarrow> eff_return (Some view)
     | None \<Rightarrow> eff_bind (eff_modify (sleep 100)) (\<lambda>_. poll_transaction get sleep n))"

fun vm_status_error :: "cstring \<Rightarrow> VMStatus \<Rightarrow> unit result" where
  "vm_status_error error_info (VMStatus_Executed type') = Inr ()"
| "vm_status_error error_info (VMStatus_ExecutionFailure type' location function_index code_offset) =
     Inl (Runtime_error (c_text (error_info @ str '' error, '' @ str ''vm_status : {'' @ [10] @
       str ''type : '' @ type' @ str '', '' @ str ''location : '' @ location @ str '', '' @ [10] @
       str ''function index : '' @ dec (unat function_index) @ str '', '' @ [10] @
       str ''code offset : '' @ dec (unat code_offset) @ str '', '' @ [10] @ str ''}'')))"
| "vm_status_error error_info (VMStatus_OutOfGas type') = Inl (Runtime_error (c_text type'))"
| "vm_status_error error_info (VMStatus_MiscellaneousError type') =
     Inl (Runtime_error (c_text (error_info @ str '' failed, VM status : '' @ type')))"
| "vm_status_error error_info (VMStatus_MoveAbort type' location abort_code explanation) =
     Inl (Runtime_error (c_text (error_info @ str '' error, '' @ str ''vm_status : { '' @
       str ''type : '' @ type' @ str '', '' @ str ''abort code : '' @ dec (unat abort_code) @ str '' }'')))"

definition vm_status_result :: "cstring \<Rightarrow> TransactionView option \<Rightarrow> unit result" where
  "vm_status_result error_info opt_txn_view =
     (case opt_txn_view of
        Some view \<Rightarrow> vm_status_error error_info (TransactionView_vm_status view)
      | None \<Rightarrow> Inl (Runtime_error ''check_txn_vm_status is timeout.''))"

definition check_txn_vm_status ::
    "('k, 'w) env \<Rightarrow> AccountAddress \<Rightarrow> u64 \<Rightarrow> cstring \<Rightarrow> (('k, 'w) client_state, unit) eff" where
  "check_txn_vm_status env address sn error_info =
     eff_bind (eff_snd (poll_transaction (rpc_get_account_transaction (env_rpc env) address sn False)
       (env_sleep env) 50)) (\<lambda>opt_txn_view.
     eff_lift (vm_status_result error_info opt_txn_view))"

definition await_check_txn_vm_status ::
    "('k, 'w) env \<Rightarrow> AccountAddress \<Rightarrow> u64 \<Rightarrow> cstring \<Rightarrow> (('k, 'w) client_state, unit) eff" where
  "await_check_txn_vm_status env address sn error_info =
     eff_bind (eff_snd (poll_transaction (rpc_await_get_account_transaction (env_rpc env) address sn False)
       (env_sleep env) 50)) (\<lambda>opt_txn_view.
     eff_lift (vm_status_result error_info opt_txn_view))"

section \<open>Several signers\<close>

definition raw_transaction_with_data_message ::
    "'k openssl \<Rightarrow> RawTransaction \<Rightarrow> AccountAddress list \<Rightarrow> u8 list result" where
  "raw_transaction_with_data_message ssl raw_txn secondary_signer_addresses =
     sum_bind (bcsSerialize_RawTransaction raw_txn) (\<lambda>bytes'.
     sum_bind (bcsSerialize (serialize_vector serialize_AccountAddress) secondary_signer_addresses) (\<lambda>addresses.
     Inr (ssl_sha3_256 ssl (str ''DIEM::RawTransactionWithData'') @ [0] @ bytes' @ addresses)))"

definition sign_multi_agent_script ::
    "('k, 'w) env \<Rightarrow> u64 \<Rightarrow> Script \<Rightarrow> AccountAddress list \<Rightarrow> u64 \<Rightarrow> u64 \<Rightarrow> cstring \<Rightarrow> u64 \<Rightarrow>
     (('k, 'w) client_state, SignedTransaction) eff" where
  "sign_multi_agent_script env account_index script secondary_signer_addresses max_gas_amount gas_unit_price
       gas_currency_code expiration_timestamp_secs =
     eff_bind (eff_get (\<lambda>s. env_time env (snd s))) (\<lambda>now.
     eff_bind (eff_get (\<lambda>s. m_chain_id (fst s))) (\<lambda>chain_id.
     eff_bind (find_account env account_index) (\<lambda>view.
     let raw_txn = \<lparr>
           RawTransaction_sender = AccountView_address view,
           RawTransaction_sequence_number = AccountView_sequence_number view,
           RawTransaction_payload = TransactionPayload_Script script,
           RawTransaction_max_gas_amount = max_gas_amount,
           RawTransaction_gas_unit_price = gas_unit_price,
           RawTransaction_gas_currency_code = gas_currency_code,
           RawTransaction_expiration_timestamp_secs = now + expiration_timestamp_secs,
           RawTransaction_chain_id = \<lparr>ChainId_value = chain_id\<rparr>\<rparr>
     in eff_bind (eff_lift (raw_transaction_with_data_message (env_ssl env) raw_txn secondary_signer_addresses)) (\<lambda>message.
        eff_bind (client_sign env account_index message) (\<lambda>(pub, signature).
        eff_return \<lparr>SignedTransaction_raw_txn = raw_txn,
          SignedTransaction_authenticator = TransactionAuthenticator_MultiAgent
            (AccountAuthenticator_Ed25519 \<lparr>Ed25519PublicKey_value = pub\<rparr> \<lparr>Ed25519Signature_value = signature\<rparr>)
            secondary_signer_addresses []\<rparr>)))))"

text \<open>
  \<open>m_accounts[account_index].address\<close>: an account that is not in the cache is inserted with zeros.
\<close>

definition account_address :: "u64 \<Rightarrow> (('k, 'w) client_state, AccountAddress) eff" where
  "account_address account_index =
     eff_bind (eff_get (\<lambda>s. m_accounts (fst s) account_index)) (\<lambda>cached.
     case cached of
       Some view \<Rightarrow> eff_return (AccountView_address view)
     | None \<Rightarrow>
         let view = \<lparr>AccountView_address = \<lparr>AccountAddress_value = replicate 16 0\<rparr>, AccountView_sequence_number = 0\<rparr>
         in eff_bind (set_account account_index view) (\<lambda>_. eff_return (AccountView_address view)))"

definition sign_and_submit_multi_agent_signed_txn ::
    "('k, 'w) env \<Rightarrow> u64 \<Rightarrow> SignedTransaction \<Rightarrow> (('k, 'w) client_state, AccountAddress \<times> u64) eff" where
  "sign_and_submit_multi_agent_signed_txn env account_index signed_txn =
     (let raw_txn = SignedTransaction_raw_txn signed_txn
      in case SignedTransaction_authenticator signed_txn of
           TransactionAuthenticator_MultiAgent sender addresses signers \<Rightarrow>
             eff_bind (eff_lift (raw_transaction_with_data_message (env_ssl env) raw_txn addresses)) (\<lambda>message.
             eff_bind (client_sign env account_index message) (\<lambda>(pub, signature).
             eff_bind (if account_index = ACCOUNT_ROOT_ID \<or> account_index = ACCOUNT_DD_ID
                       then eff_bind (account_address account_index) (\<lambda>a. eff_return (addresses @ [a]))
                       else eff_return addresses) (\<lambda>addresses'.
             let signed_txn' = signed_txn\<lparr>SignedTransaction_authenticator :=
                   TransactionAuthenticator_MultiAgent sender addresses'
                     (signers @ [AccountAuthenticator_Ed25519 \<lparr>Ed25519PublicKey_value = pub\<rparr>
                                   \<lparr>Ed25519Signature_value = signature\<rparr>])\<rparr>
             in eff_bind (eff_snd (rpc_submit (env_rpc env) signed_txn')) (\<lambda>_.
                eff_return (RawTransaction_sender raw_txn, RawTransaction_sequence_number raw_txn)))))
         | _ \<Rightarrow> eff_throw Bad_variant_access)"

section \<open>Signatures\<close>

definition verifies :: "'k openssl \<Rightarrow> u8 list \<Rightarrow> u8 list \<Rightarrow> u8 list \<Rightarrow> bool" where
  "verifies ssl pub signature message \<longleftrightarrow>
     length pub = 32 \<and> length signature = 64 \<and> PublicKey_verify ssl (PublicKey_new ssl pub) signature message = Inr True"

lemma key_verifies:
  assumes "openssl_ok ssl" and "private_key ssl k"
    and "PrivateKey_sign ssl k message = Inr signature" and "public_raw_key ssl k = Inr pub"
  shows "verifies ssl pub signature message"
proof -
  obtain raw p where k: "signs_for ssl k raw p" using openssl_okD(1) [OF assms(1,2)] by blast
  with assms(4) have "pub = raw" by (simp add: signs_for_public)
  with k assms(3) signs_for_sign [OF k, of message] show ?thesis
    by (simp add: verifies_def signs_for_public)
qed

text \<open>The three keys of a client come from one file.\<close>

definition one_mint_key :: "'k Client2Imp \<Rightarrow> bool" where
  "one_mint_key c \<longleftrightarrow> m_opt_root c = m_opt_tc c \<and> m_opt_tc c = m_opt_dd c"

definition client_ok :: "('k, 'w) env \<Rightarrow> 'k Client2Imp \<Rightarrow> bool" where
  "client_ok env c \<longleftrightarrow>
     one_mint_key c \<and> (\<forall>k. m_opt_root c = Some k \<longrightarrow> private_key (env_ssl env) k) \<and>
     wallet_ok (env_ssl env) (m_wallet c)"

lemma client_ok_wallet_key:
  "client_ok env c \<Longrightarrow> get_account_priv_key (m_wallet c) i = Inr k \<Longrightarrow> private_key (env_ssl env) k"
  using wallet_ok_private [of "env_ssl env" "m_wallet c"]
  by (auto simp: client_ok_def get_account_priv_key_def list_all_length split: if_splits)

lemma sign_message_verifies:
  assumes "openssl_ok (env_ssl env)" and "client_ok env c"
    and "sign_message (env_ssl env) c account_index message = Inr (pub, signature)"
  shows "verifies (env_ssl env) pub signature message"
proof -
  have mint: "one_mint_key c" "\<And>k. m_opt_root c = Some k \<Longrightarrow> private_key (env_ssl env) k"
    using assms(2) by (simp_all add: client_ok_def)
  have "\<exists>k. private_key (env_ssl env) k \<and> PrivateKey_sign (env_ssl env) k message = Inr signature \<and>
      public_raw_key (env_ssl env) k = Inr pub"
    using assms(3) mint client_ok_wallet_key [OF assms(2)]
    by (auto simp: sign_message_def one_mint_key_def eff_iff deref_def split: if_splits option.splits)
  then obtain k where "private_key (env_ssl env) k" "PrivateKey_sign (env_ssl env) k message = Inr signature"
    "public_raw_key (env_ssl env) k = Inr pub" by blast
  then show ?thesis by (rule key_verifies [OF assms(1)])
qed

lemma client_sign_iff [eff_iff]:
  "client_sign env account_index message s = (Inr r, t) \<longleftrightarrow>
     t = s \<and> sign_message (env_ssl env) (fst s) account_index message = Inr r"
  by (auto simp: client_sign_def)

section \<open>What the operations change\<close>

text \<open>
  Looking an account up and signing change nothing but the cache, and there only an account that was not
  in it. \<open>cached\<close> is the client after a lookup.
\<close>

definition cached :: "u64 \<Rightarrow> AccountView \<Rightarrow> 'k Client2Imp \<Rightarrow> 'k Client2Imp" where
  "cached index view c = c\<lparr>m_accounts := (m_accounts c)(index \<mapsto> view)\<rparr>"

lemma cached_simps [simp]:
  "m_accounts (cached i v c) = (m_accounts c)(i \<mapsto> v)" "m_wallet (cached i v c) = m_wallet c"
  "m_chain_id (cached i v c) = m_chain_id c" "m_opt_root (cached i v c) = m_opt_root c"
  "m_opt_tc (cached i v c) = m_opt_tc c" "m_opt_dd (cached i v c) = m_opt_dd c"
  "one_mint_key (cached i v c) = one_mint_key c" "cached i v (cached i u c) = cached i v c"
  by (simp_all add: cached_def one_mint_key_def)

lemma cached_same: "m_accounts c i = Some v \<Longrightarrow> cached i v c = c"
  by (simp add: cached_def map_upd_triv)

lemma set_account_eq: "set_account i v s = (Inr (), (cached i v (fst s), snd s))"
  by (simp add: set_account_def eff_fst_def eff_modify_def cached_def)

lemma find_account_cached: "m_accounts (fst s) i = Some v \<Longrightarrow> find_account env i s = (Inr v, s)"
  by (simp add: find_account_def eff_bind_def eff_get_def eff_return_def)

lemma find_account_uncached:
  assumes "m_accounts (fst s) i = None" and "find_account env i s = (r, t)"
  shows "case r of Inl e \<Rightarrow> fst t = fst s | Inr v \<Rightarrow> fst t = cached i v (fst s)"
  using assms
  by (auto simp: find_account_def account_at_def get_all_accounts_def set_account_eq eff_bind_def eff_get_def
      eff_return_def eff_throw_def eff_snd_def split: prod.splits sum.splits option.splits if_splits)

lemma find_account_eff:
  assumes "find_account env i s = (r, t)"
  shows "case r of
      Inl e \<Rightarrow> fst t = fst s
    | Inr v \<Rightarrow> fst t = cached i v (fst s) \<and> (\<forall>u. m_accounts (fst s) i = Some u \<longrightarrow> u = v)"
proof (cases "m_accounts (fst s) i")
  case None
  with find_account_uncached [OF this assms] show ?thesis by (auto split: sum.splits)
next
  case (Some v)
  with assms show ?thesis by (auto simp: find_account_cached cached_same)
qed

text \<open>A signed transaction: what is in it, and what is left of the client.\<close>

lemma make_signed_txn_eff:
  assumes "make_signed_txn env i payload gas price currency secs s = (r, t)"
  shows "case r of
      Inl e \<Rightarrow> fst t = fst s \<or> (\<exists>v. m_accounts (fst s) i = None \<and> fst t = cached i v (fst s))
    | Inr txn \<Rightarrow> (\<exists>v pub signature bytes'.
        fst t = cached i v (fst s) \<and> (\<forall>u. m_accounts (fst s) i = Some u \<longrightarrow> u = v) \<and>
        RawTransaction_sequence_number (SignedTransaction_raw_txn txn) = AccountView_sequence_number v \<and>
        RawTransaction_payload (SignedTransaction_raw_txn txn) = payload \<and>
        bcsSerialize_RawTransaction (SignedTransaction_raw_txn txn) = Inr bytes' \<and>
        SignedTransaction_authenticator txn = TransactionAuthenticator_Ed25519
          \<lparr>Ed25519PublicKey_value = pub\<rparr> \<lparr>Ed25519Signature_value = signature\<rparr> \<and>
        sign_message (env_ssl env) (fst t) i (raw_transaction_message (env_ssl env) bytes') = Inr (pub, signature))"
proof -
  obtain f t1 where f: "find_account env i s = (f, t1)" by (cases "find_account env i s")
  note eff = find_account_eff [OF f]
  show ?thesis
  proof (cases f)
    case (Inl e)
    with eff f assms show ?thesis by (auto simp: make_signed_txn_def eff_bind_def)
  next
    case (Inr v)
    with eff have c: "fst t1 = cached i v (fst s)" and u: "\<forall>u. m_accounts (fst s) i = Some u \<longrightarrow> u = v" by simp_all
    have t: "t = t1" using assms f Inr
      by (auto simp: make_signed_txn_def eff_bind_def eff_get_def eff_lift_def eff_return_def client_sign_def Let_def
          split: prod.splits sum.splits)
    show ?thesis
    proof (cases r)
      case (Inl e)
      with c u t show ?thesis by (cases "m_accounts (fst s) i") (auto simp: cached_same)
    next
      case r: (Inr txn)
      with assms f Inr c u t show ?thesis
        by (auto simp: make_signed_txn_def eff_iff Let_def)
    qed
  qed
qed

section \<open>Sequence numbers\<close>

definition next_view :: "AccountView \<Rightarrow> AccountView" where
  "next_view v = v\<lparr>AccountView_sequence_number := AccountView_sequence_number v + 1\<rparr>"

lemma increment_eff:
  "m_accounts (fst s) i = Some v \<Longrightarrow> increment_sequence_number i s = (Inr (), (cached i (next_view v) (fst s), snd s))"
  by (simp add: increment_sequence_number_def eff_bind_def eff_get_def set_account_eq next_view_def)

text \<open>
  A submission that succeeds uses the number of the account and moves it on by one; one that fails
  leaves the number of a cached account as it is. This is the same for both ways to submit.
\<close>

definition submit_with ::
    "(SignedTransaction \<Rightarrow> ('w, unit) eff) \<Rightarrow> u64 \<Rightarrow> (('k, 'w) client_state, SignedTransaction) eff \<Rightarrow>
     (('k, 'w) client_state, AccountAddress \<times> u64) eff" where
  "submit_with send i build =
     eff_bind build (\<lambda>signed_txn.
     eff_bind (eff_snd (send signed_txn)) (\<lambda>_.
     eff_bind (increment_sequence_number i) (\<lambda>_.
     eff_return (RawTransaction_sender (SignedTransaction_raw_txn signed_txn),
       RawTransaction_sequence_number (SignedTransaction_raw_txn signed_txn)))))"

lemma submit_with_eqs:
  "submit_txn_payload env i p g pr cu ex = submit_with (rpc_submit (env_rpc env)) i (make_signed_txn env i p g pr cu ex)"
  "await_submit_txn_payload env i p g pr cu ex =
     submit_with (rpc_await_submit2 (env_rpc env)) i (make_signed_txn env i p g pr cu ex)"
  by (simp_all add: submit_txn_payload_def await_submit_txn_payload_def submit_with_def)

lemma submit_with_eff:
  assumes "submit_with send i (make_signed_txn env i p g pr cu ex) s = (r, t)"
  shows "case r of
      Inl e \<Rightarrow> fst t = fst s \<or> (\<exists>v. m_accounts (fst s) i = None \<and> fst t = cached i v (fst s))
    | Inr (sender, sn) \<Rightarrow> (\<exists>v. (\<forall>u. m_accounts (fst s) i = Some u \<longrightarrow> u = v) \<and>
        sn = AccountView_sequence_number v \<and> fst t = cached i (next_view v) (fst s))"
proof -
  obtain m t1 where m: "make_signed_txn env i p g pr cu ex s = (m, t1)" by (cases "make_signed_txn env i p g pr cu ex s")
  note eff = make_signed_txn_eff [OF m]
  show ?thesis
  proof (cases m)
    case (Inl e)
    with eff m assms show ?thesis by (auto simp: submit_with_def eff_bind_def)
  next
    case (Inr txn)
    with eff obtain v where v: "fst t1 = cached i v (fst s)" "\<forall>u. m_accounts (fst s) i = Some u \<longrightarrow> u = v"
      "RawTransaction_sequence_number (SignedTransaction_raw_txn txn) = AccountView_sequence_number v" by auto
    obtain q w where q: "send txn (snd t1) = (q, w)" by (cases "send txn (snd t1)")
    have sent: "eff_snd (send txn) t1 = (q, (fst t1, w))" by (simp add: eff_snd_def q)
    show ?thesis
    proof (cases q)
      case (Inl e)
      with assms m Inr sent have "r = Inl e" "t = (fst t1, w)" by (auto simp: submit_with_def eff_bind_def)
      with v show ?thesis by (cases "m_accounts (fst s) i") (auto simp: cached_same)
    next
      case ok: (Inr u)
      have inc: "increment_sequence_number i (fst t1, w) = (Inr (), (cached i (next_view v) (fst s), w))"
        using increment_eff [of "(fst t1, w)" i v] v(1) by simp
      with assms m Inr sent ok have "r = Inr (RawTransaction_sender (SignedTransaction_raw_txn txn), AccountView_sequence_number v)"
        "t = (cached i (next_view v) (fst s), w)"
        using v(3) by (auto simp: submit_with_def eff_bind_def eff_return_def)
      with v show ?thesis by auto
    qed
  qed
qed

text \<open>A series of submissions, whatever comes of each.\<close>

fun submit_all :: "('x \<Rightarrow> ('s, 'a) eff) \<Rightarrow> 'x list \<Rightarrow> 's \<Rightarrow> 'a result list \<times> 's" where
  "submit_all call [] s = ([], s)"
| "submit_all call (x # xs) s =
     (case call x s of (r, t) \<Rightarrow> (case submit_all call xs t of (rs, u) \<Rightarrow> (r # rs, u)))"

fun submitted :: "(AccountAddress \<times> u64) result list \<Rightarrow> u64 list" where
  "submitted [] = []"
| "submitted (Inl e # rs) = submitted rs"
| "submitted (Inr (sender, sn) # rs) = sn # submitted rs"

text \<open>
  What a way to submit promises about an account of the cache; from it follows that a series of
  submissions numbers its transactions without a gap.
\<close>

locale submitter =
  fixes call :: "'x \<Rightarrow> ('s, AccountAddress \<times> u64) eff"
    and account :: "'s \<Rightarrow> AccountView option"
  assumes refused: "call x s = (Inl e, t) \<Longrightarrow> account s = Some v \<Longrightarrow> account t = Some v"
    and accepted: "call x s = (Inr (sender, sn), t) \<Longrightarrow> account s = Some v \<Longrightarrow>
      sn = AccountView_sequence_number v \<and> account t = Some (next_view v)"
begin

lemma numbers:
  assumes "submit_all call xs s = (rs, t)" and "account s = Some v"
  shows "submitted rs = map (\<lambda>k. AccountView_sequence_number v + of_nat k) [0..<length (submitted rs)] \<and>
    account t = Some (v\<lparr>AccountView_sequence_number :=
      AccountView_sequence_number v + of_nat (length (submitted rs))\<rparr>)"
  using assms
proof (induction xs arbitrary: s rs v)
  case (Cons x xs)
  obtain r s1 where r: "call x s = (r, s1)" by (cases "call x s")
  obtain rs' where rs: "submit_all call xs s1 = (rs', t)" "rs = r # rs'"
    using Cons.prems(1) r by (auto split: prod.splits)
  show ?case
  proof (cases r)
    case (Inl e)
    with refused r Cons.prems(2) have "account s1 = Some v" by blast
    from Cons.IH [OF rs(1) this] Inl rs(2) show ?thesis by simp
  next
    case (Inr p)
    obtain sender sn where p: "p = (sender, sn)" by (cases p)
    with Inr r accepted Cons.prems(2) have "sn = AccountView_sequence_number v" "account s1 = Some (next_view v)"
      by blast+
    with Cons.IH [OF rs(1) this(2)] Inr p rs(2) show ?thesis
      by (simp add: next_view_def map_upt_Suc ac_simps del: upt_Suc)
  qed
qed simp

end

text \<open>Both ways to submit keep the promise, so the calls of a series may mix them.\<close>

record Submission =
  sub_awaited :: bool
  sub_payload :: TransactionPayload
  sub_max_gas_amount :: u64
  sub_gas_unit_price :: u64
  sub_gas_currency_code :: cstring
  sub_expiration :: u64

definition submit_one :: "('k, 'w) env \<Rightarrow> u64 \<Rightarrow> Submission \<Rightarrow> (('k, 'w) client_state, AccountAddress \<times> u64) eff" where
  "submit_one env i x = (if sub_awaited x then await_submit_txn_payload else submit_txn_payload) env i
     (sub_payload x) (sub_max_gas_amount x) (sub_gas_unit_price x) (sub_gas_currency_code x) (sub_expiration x)"

lemma submit_one_eff:
  assumes "submit_one env i x s = (r, t)" and "m_accounts (fst s) i = Some v"
  shows "case r of
      Inl e \<Rightarrow> m_accounts (fst t) i = Some v
    | Inr (sender, sn) \<Rightarrow> sn = AccountView_sequence_number v \<and> m_accounts (fst t) i = Some (next_view v)"
proof -
  obtain send where "submit_one env i x = submit_with send i (make_signed_txn env i (sub_payload x)
      (sub_max_gas_amount x) (sub_gas_unit_price x) (sub_gas_currency_code x) (sub_expiration x))"
    unfolding submit_one_def submit_with_eqs [abs_def] by (cases "sub_awaited x") auto
  with assms(1) have "submit_with send i (make_signed_txn env i (sub_payload x)
      (sub_max_gas_amount x) (sub_gas_unit_price x) (sub_gas_currency_code x) (sub_expiration x)) s = (r, t)" by simp
  from submit_with_eff [OF this] assms(2) show ?thesis by (auto split: sum.splits)
qed

interpretation account_submitter: submitter "submit_one env i" "\<lambda>s. m_accounts (fst s) i" for env i
  by unfold_locales (drule (1) submit_one_eff, simp)+

section \<open>Polling\<close>

text \<open>The world after \<open>i\<close> answers without a transaction.\<close>

fun world_after :: "('w, 'a) eff \<Rightarrow> (nat \<Rightarrow> 'w \<Rightarrow> 'w) \<Rightarrow> nat \<Rightarrow> 'w \<Rightarrow> 'w" where
  "world_after get sleep 0 w = w"
| "world_after get sleep (Suc i) w = world_after get sleep i (sleep 100 (snd (get w)))"

definition answer :: "('w, 'a) eff \<Rightarrow> (nat \<Rightarrow> 'w \<Rightarrow> 'w) \<Rightarrow> nat \<Rightarrow> 'w \<Rightarrow> 'a result" where
  "answer get sleep i w = fst (get (world_after get sleep i w))"

lemma poll_transaction_result:
  "fst (poll_transaction get sleep n w) =
     (if \<forall>i < n. answer get sleep i w = Inr None then Inr None
      else answer get sleep (LEAST i. answer get sleep i w \<noteq> Inr None) w)"
proof (induction n arbitrary: w)
  case (Suc n)
  obtain r w' where g: "get w = (r, w')" by (cases "get w")
  have shift: "answer get sleep (Suc i) w = answer get sleep i (sleep 100 w')" for i
    by (simp add: answer_def g)
  have zero: "answer get sleep 0 w = r" by (simp add: answer_def g)
  show ?case
  proof (cases "r = Inr None")
    case True
    have "(\<forall>i < Suc n. answer get sleep i w = Inr None) \<longleftrightarrow> (\<forall>i < n. answer get sleep i (sleep 100 w') = Inr None)"
      using True by (simp add: All_less_Suc2 zero shift)
    moreover have "(LEAST i. answer get sleep i w \<noteq> Inr None) = Suc (LEAST i. answer get sleep i (sleep 100 w') \<noteq> Inr None)"
      if "\<not> (\<forall>i < n. answer get sleep i (sleep 100 w') = Inr None)"
    proof -
      from that obtain i where "answer get sleep (Suc i) w \<noteq> Inr None" by (auto simp: shift)
      then have "(LEAST i. answer get sleep i w \<noteq> Inr None) = Suc (LEAST m. answer get sleep (Suc m) w \<noteq> Inr None)"
        by (rule Least_Suc) (simp add: zero True)
      then show ?thesis by (simp add: shift)
    qed
    moreover have "fst (poll_transaction get sleep (Suc n) w) = fst (poll_transaction get sleep n (sleep 100 w'))"
      using g True by (simp add: eff_bind_def eff_modify_def)
    ultimately show ?thesis using Suc.IH [of "sleep 100 w'"] by (auto simp: shift)
  next
    case False
    then have "(LEAST i. answer get sleep i w \<noteq> Inr None) = 0" by (intro Least_eq_0) (simp add: zero)
    moreover have "fst (poll_transaction get sleep (Suc n) w) = r"
      using g False by (auto simp: eff_bind_def eff_return_def split: sum.splits option.splits)
    ultimately show ?thesis using False zero by auto
  qed
qed (simp add: eff_return_def)

lemma vm_status_error_iff: "vm_status_error info status = Inr () \<longleftrightarrow> (\<exists>t. status = VMStatus_Executed t)"
  by (cases status) auto

lemma poll_executed_iff:
  "(\<exists>v. fst (poll_transaction get sleep n w) = Inr v \<and> vm_status_result info v = Inr ()) \<longleftrightarrow>
     (\<exists>i < n. (\<forall>j < i. answer get sleep j w = Inr None) \<and>
        (\<exists>t. answer get sleep i w = Inr (Some \<lparr>TransactionView_vm_status = VMStatus_Executed t\<rparr>)))"
proof (cases "\<forall>i < n. answer get sleep i w = Inr None")
  case True
  then show ?thesis by (auto simp: poll_transaction_result vm_status_result_def)
next
  case False
  let ?k = "LEAST i. answer get sleep i w \<noteq> Inr None"
  from False obtain i where i: "i < n" "answer get sleep i w \<noteq> Inr None" by blast
  then have k: "?k < n" "answer get sleep ?k w \<noteq> Inr None"
    using LeastI [of "\<lambda>i. answer get sleep i w \<noteq> Inr None" i] Least_le [of "\<lambda>i. answer get sleep i w \<noteq> Inr None" i] by auto
  have before: "\<And>j. j < ?k \<Longrightarrow> answer get sleep j w = Inr None" using not_less_Least by blast
  have unique: "m = ?k" if "\<forall>j < m. answer get sleep j w = Inr None" "answer get sleep m w \<noteq> Inr None" for m
    using that by (intro Least_equality [symmetric]) (auto simp: not_less [symmetric])
  have "(\<exists>v. answer get sleep ?k w = Inr v \<and> vm_status_result info v = Inr ()) \<longleftrightarrow>
      (\<exists>t. answer get sleep ?k w = Inr (Some \<lparr>TransactionView_vm_status = VMStatus_Executed t\<rparr>))"
    using k(2) by (auto simp: vm_status_result_def vm_status_error_iff split: option.splits)
      (metis TransactionView.surjective old.unit.exhaust)
  moreover have "fst (poll_transaction get sleep n w) = answer get sleep ?k w"
    unfolding poll_transaction_result using False by (rule if_not_P)
  ultimately have "(\<exists>v. fst (poll_transaction get sleep n w) = Inr v \<and> vm_status_result info v = Inr ()) \<longleftrightarrow>
      (\<exists>t. answer get sleep ?k w = Inr (Some \<lparr>TransactionView_vm_status = VMStatus_Executed t\<rparr>))" (is "?poll \<longleftrightarrow> ?exec")
    by simp
  moreover have "?exec \<longleftrightarrow> (\<exists>i < n. (\<forall>j < i. answer get sleep j w = Inr None) \<and>
        (\<exists>t. answer get sleep i w = Inr (Some \<lparr>TransactionView_vm_status = VMStatus_Executed t\<rparr>)))" (is "_ \<longleftrightarrow> ?ex")
  proof
    show "?exec \<Longrightarrow> ?ex" using k(1) before by blast
    assume ?ex
    then obtain i t where i: "\<forall>j < i. answer get sleep j w = Inr None"
      "answer get sleep i w = Inr (Some \<lparr>TransactionView_vm_status = VMStatus_Executed t\<rparr>)" by blast
    then have "i = ?k" by (intro unique) simp_all
    with i(2) show ?exec by blast
  qed
  ultimately show ?thesis by (rule trans)
qed

section \<open>Several signers\<close>

lemma sign_multi_agent_success:
  assumes "sign_multi_agent_script env i script addrs g pr cu ex s = (Inr txn, t)"
  obtains v pub signature message where "fst t = cached i v (fst s)"
    and "\<And>u. m_accounts (fst s) i = Some u \<Longrightarrow> u = v"
    and "RawTransaction_sequence_number (SignedTransaction_raw_txn txn) = AccountView_sequence_number v"
    and "RawTransaction_sender (SignedTransaction_raw_txn txn) = AccountView_address v"
    and "SignedTransaction_authenticator txn = TransactionAuthenticator_MultiAgent
      (AccountAuthenticator_Ed25519 \<lparr>Ed25519PublicKey_value = pub\<rparr> \<lparr>Ed25519Signature_value = signature\<rparr>) addrs []"
    and "raw_transaction_with_data_message (env_ssl env) (SignedTransaction_raw_txn txn) addrs = Inr message"
    and "sign_message (env_ssl env) (fst t) i message = Inr (pub, signature)"
proof -
  from assms obtain v where f: "find_account env i s = (Inr v, t)"
    by (auto simp: sign_multi_agent_script_def eff_iff Let_def)
  from find_account_eff [OF f] have "fst t = cached i v (fst s)" "\<And>u. m_accounts (fst s) i = Some u \<Longrightarrow> u = v"
    by simp_all
  with assms f show thesis
    by (auto simp: sign_multi_agent_script_def eff_iff Let_def intro: that)
qed

definition add_signer :: "u8 list \<Rightarrow> u8 list \<Rightarrow> SignedTransaction \<Rightarrow> SignedTransaction" where
  "add_signer pub signature txn =
     (case SignedTransaction_authenticator txn of
        TransactionAuthenticator_MultiAgent sender addresses signers \<Rightarrow>
          txn\<lparr>SignedTransaction_authenticator := TransactionAuthenticator_MultiAgent sender addresses
            (signers @ [AccountAuthenticator_Ed25519 \<lparr>Ed25519PublicKey_value = pub\<rparr> \<lparr>Ed25519Signature_value = signature\<rparr>])\<rparr>
      | _ \<Rightarrow> txn)"

lemma submit_multi_agent_success:
  assumes "sign_and_submit_multi_agent_signed_txn env j txn s = (Inr (sender, sn), t)"
    and "SignedTransaction_authenticator txn = TransactionAuthenticator_MultiAgent first addrs signers"
    and "j \<noteq> ACCOUNT_ROOT_ID" and "j \<noteq> ACCOUNT_DD_ID"
  obtains pub signature message where
      "raw_transaction_with_data_message (env_ssl env) (SignedTransaction_raw_txn txn) addrs = Inr message"
    and "sign_message (env_ssl env) (fst s) j message = Inr (pub, signature)"
    and "rpc_submit (env_rpc env) (add_signer pub signature txn) (snd s) = (Inr (), snd t)"
    and "fst t = fst s" and "sender = RawTransaction_sender (SignedTransaction_raw_txn txn)"
    and "sn = RawTransaction_sequence_number (SignedTransaction_raw_txn txn)"
  using assms
  by (auto simp: sign_and_submit_multi_agent_signed_txn_def add_signer_def eff_iff Let_def intro: that)

section \<open>Histories\<close>

text \<open>
  What can happen to a client: its own operations, also those that throw, and whatever goes on in
  the world meanwhile. The methods for the framework are sequences of these.
\<close>

inductive client_history :: "('k, 'w) env \<Rightarrow> ('k, 'w) client_state \<Rightarrow> bool" for env where
  started: "Client2_create env chain_id mnemonic_file mint_key_file w = (Inr c, w') \<Longrightarrow> client_history env (c, w')"
| new_account: "client_history env s \<Longrightarrow> create_next_account env opt_address s = (r, t) \<Longrightarrow> client_history env t"
| submission: "client_history env s \<Longrightarrow> submit_txn_payload env i p g pr cu ex s = (r, t) \<Longrightarrow> client_history env t"
| async_submission:
    "client_history env s \<Longrightarrow> await_submit_txn_payload env i p g pr cu ex s = (r, t) \<Longrightarrow> client_history env t"
| multi_agent: "client_history env s \<Longrightarrow> sign_multi_agent_script env i script addrs g pr cu ex s = (q, t) \<Longrightarrow> client_history env t"
| multi_submission:
    "client_history env s \<Longrightarrow> sign_and_submit_multi_agent_signed_txn env i txn s = (r, t) \<Longrightarrow> client_history env t"
| waiting: "client_history env s \<Longrightarrow> check_txn_vm_status env address sn info s = (u, t) \<Longrightarrow> client_history env t"
| async_waiting: "client_history env s \<Longrightarrow> await_check_txn_vm_status env address sn info s = (u, t) \<Longrightarrow> client_history env t"
| world: "client_history env (c, w) \<Longrightarrow> client_history env (c, w')"

lemma client_ok_cached [simp]: "client_ok env (cached i v c) = client_ok env c"
  by (simp add: client_ok_def)

lemma preserves_find_account: "preserves (\<lambda>s. client_ok env (fst s)) (find_account env' i)"
proof -
  have "client_ok env (fst t)" if "client_ok env (fst s)" "find_account env' i s = (r, t)" for s r t
    using find_account_eff [OF that(2)] that(1) by (auto split: sum.splits)
  then show ?thesis by (auto simp: preserves_def) (metis prod.collapse)
qed

lemma preserves_client_snd [preserves_intros]: "preserves (\<lambda>s. P (fst s)) (eff_snd m)"
  by (simp add: preserves_def eff_snd_def split: prod.splits)

lemma preserves_client_set [preserves_intros]: "preserves (\<lambda>s. client_ok env (fst s)) (set_account i v)"
  by (simp add: preserves_def set_account_eq)

lemma preserves_client_sign [preserves_intros]: "preserves P (client_sign env i message)"
  by (simp add: preserves_def client_sign_def)

lemma client_ok_started:
  assumes "Client2_create env chain_id mnemonic_file mint_key_file w = (Inr c, w')"
  shows "client_ok env c"
proof -
  have "wallet_ok (env_ssl env) wallet" if "open_wallet env mnemonic_file w = (Inr wallet, v)" for wallet v
    using that by (auto simp: open_wallet_def generate_from_random_def Wallet_from_entropy_def eff_iff
        split: option.splits dest: wallet_ok_made(1))
  with assms show ?thesis
    by (auto simp: Client2_create_def client_ok_def one_mint_key_def eff_iff split: option.splits if_splits)
      (erule from_raw_key_private)+
qed

lemma preserves_wallet [preserves_intros]:
  "preserves (\<lambda>s. client_ok env (fst s)) (with_wallet (wallet_create_next_account (env_ssl env)))"
  by (auto simp: preserves_def with_wallet_def eff_fst_def client_ok_def one_mint_key_def
      split: prod.splits dest: wallet_ok_created(1))

lemma preserves_let [preserves_intros]: "preserves P (f x) \<Longrightarrow> preserves P (let y = x in f y)"
  by simp

lemma preserves_pair [preserves_intros]: "(\<And>x y. preserves P (f x y)) \<Longrightarrow> preserves P (case p of (x, y) \<Rightarrow> f x y)"
  by (cases p) simp

lemma preserves_authenticator [preserves_intros]:
  "(\<And>x y. preserves P (f x y)) \<Longrightarrow> (\<And>x y. preserves P (g x y)) \<Longrightarrow> (\<And>x y z. preserves P (h x y z)) \<Longrightarrow>
     preserves P (case a of TransactionAuthenticator_Ed25519 x y \<Rightarrow> f x y
       | TransactionAuthenticator_MultiEd25519 x y \<Rightarrow> g x y | TransactionAuthenticator_MultiAgent x y z \<Rightarrow> h x y z)"
  by (cases a) simp_all

lemma client_operations_preserve:
  "preserves (\<lambda>s. client_ok env (fst s)) (create_next_account env opt_address)"
  "preserves (\<lambda>s. client_ok env (fst s)) (submit_txn_payload env i p g pr cu ex)"
  "preserves (\<lambda>s. client_ok env (fst s)) (await_submit_txn_payload env i p g pr cu ex)"
  "preserves (\<lambda>s. client_ok env (fst s)) (sign_multi_agent_script env i script addrs g pr cu ex)"
  "preserves (\<lambda>s. client_ok env (fst s)) (sign_and_submit_multi_agent_signed_txn env i txn)"
  "preserves (\<lambda>s. client_ok env (fst s)) (check_txn_vm_status env address sn info)"
  "preserves (\<lambda>s. client_ok env (fst s)) (await_check_txn_vm_status env address sn info)"
  unfolding create_next_account_def submit_txn_payload_def await_submit_txn_payload_def make_signed_txn_def
    sign_multi_agent_script_def sign_and_submit_multi_agent_signed_txn_def account_address_def
    increment_sequence_number_def check_txn_vm_status_def await_check_txn_vm_status_def
  by (intro preserves_intros preserves_find_account)+

lemma client_history_ok: "client_history env s \<Longrightarrow> client_ok env (fst s)"
  by (induction rule: client_history.induct)
    (auto intro: client_ok_started dest: preservesD [OF client_operations_preserve(1)]
      preservesD [OF client_operations_preserve(2)] preservesD [OF client_operations_preserve(3)]
      preservesD [OF client_operations_preserve(4)] preservesD [OF client_operations_preserve(5)]
      preservesD [OF client_operations_preserve(6)] preservesD [OF client_operations_preserve(7)])

end
