(* ===== verification/Client2_Framework.thy ===== *)
theory Client2_Framework
  imports Client2 Diem_Framework
begin

text \<open>
  \<open>src/cpp/sdk/src/violas_client2.cpp\<close>, the methods of the client that use its core: publishing modules,
  reading accounts and events, and the transactions of the Violas framework. Each submits one
  transaction and waits for it, except \<open>regiester_stable_currency\<close>, which publishes a module and
  then has a second transaction signed by two accounts.
\<close>

section \<open>Arguments\<close>

text \<open>\<open>make_txn_args\<close> turns each argument into the transaction argument of its C++ type.\<close>

datatype txn_arg =
    Arg_uint8 u8
  | Arg_uint64 u64
  | Arg_uint128 "128 word"
  | Arg_address AccountAddress
  | Arg_bytes "u8 list"
  | Arg_string cstring
  | Arg_array32 "u8 list"
  | Arg_bool bool

fun to_ta :: "txn_arg \<Rightarrow> TransactionArgument" where
  "to_ta (Arg_uint8 arg) = TransactionArgument_U8 arg"
| "to_ta (Arg_uint64 arg) = TransactionArgument_U64 arg"
| "to_ta (Arg_uint128 arg) = TransactionArgument_U128 \<lparr>high = ucast (drop_bit 64 arg), low = ucast arg\<rparr>"
| "to_ta (Arg_address arg) = TransactionArgument_Address arg"
| "to_ta (Arg_bytes arg) = TransactionArgument_U8Vector arg"
| "to_ta (Arg_string arg) = TransactionArgument_U8Vector arg"
| "to_ta (Arg_array32 arg) = TransactionArgument_U8Vector arg"
| "to_ta (Arg_bool arg) = TransactionArgument_Bool arg"

definition make_txn_args :: "txn_arg list \<Rightarrow> TransactionArgument list" where
  "make_txn_args args = map to_ta args"

definition make_struct_type_tag :: "AccountAddress \<Rightarrow> cstring \<Rightarrow> cstring \<Rightarrow> TypeTag" where
  "make_struct_type_tag address module' name' = TypeTag_Struct
     (StructTag address \<lparr>Identifier_value = module'\<rparr> \<lparr>Identifier_value = name'\<rparr> [])"

definition make_struct_tag :: "AccountAddress \<Rightarrow> cstring \<Rightarrow> cstring \<Rightarrow> TypeTag list \<Rightarrow> StructTag" where
  "make_struct_tag address module' name' type_tags =
     StructTag address \<lparr>Identifier_value = module'\<rparr> \<lparr>Identifier_value = name'\<rparr> type_tags"

definition currency_tag :: "cstring \<Rightarrow> TypeTag" where
  "currency_tag currency_code = make_struct_type_tag STD_LIB_ADDRESS currency_code currency_code"

section \<open>Submitting and waiting\<close>

text \<open>A call with the default arguments, and what every method does with its result.\<close>

definition run_script ::
    "('k, 'w) env \<Rightarrow> u64 \<Rightarrow> Script \<Rightarrow> string \<Rightarrow> (('k, 'w) client_state, AccountAddress \<times> u64) eff" where
  "run_script env account_index script error_info =
     eff_bind (submit_script env account_index script 1000000 0 (str ''VLS'') 100) (\<lambda>(sender, sn).
     eff_bind (check_txn_vm_status env sender sn (str error_info)) (\<lambda>_.
     eff_return (sender, sn)))"

definition await_run_script ::
    "('k, 'w) env \<Rightarrow> u64 \<Rightarrow> Script \<Rightarrow> string \<Rightarrow> (('k, 'w) client_state, unit) eff" where
  "await_run_script env account_index script error_info =
     eff_bind (await_submit_script env account_index script 1000000 0 (str ''VLS'') 100) (\<lambda>(sender, sn).
     await_check_txn_vm_status env sender sn (str error_info))"

definition run_script_void :: "('k, 'w) env \<Rightarrow> u64 \<Rightarrow> Script \<Rightarrow> string \<Rightarrow> (('k, 'w) client_state, unit) eff" where
  "run_script_void env account_index script error_info =
     eff_bind (run_script env account_index script error_info) (\<lambda>_. eff_return ())"

section \<open>Modules, accounts and events\<close>

definition publish_module :: "('k, 'w) env \<Rightarrow> u64 \<Rightarrow> u8 list \<Rightarrow> (('k, 'w) client_state, unit) eff" where
  "publish_module env account_index module_bytes_code =
     eff_bind (submit_module env account_index \<lparr>Module_code = module_bytes_code\<rparr> 1000000 0 (str ''VLS'') 100) (\<lambda>(sender, sn).
     check_txn_vm_status env sender sn (str ''publish_module''))"

definition await_publish_module :: "('k, 'w) env \<Rightarrow> u64 \<Rightarrow> u8 list \<Rightarrow> (('k, 'w) client_state, unit) eff" where
  "await_publish_module env account_index module_bytes_code =
     eff_bind (await_submit_module env account_index \<lparr>Module_code = module_bytes_code\<rparr> 1000000 0 (str ''VLS'') 100) (\<lambda>(sender, sn).
     await_check_txn_vm_status env sender sn (str ''publish_module''))"

definition publish_module_file :: "('k, 'w) env \<Rightarrow> u64 \<Rightarrow> cstring \<Rightarrow> (('k, 'w) client_state, unit) eff" where
  "publish_module_file env account_index module_file_name =
     eff_bind (read_file env module_file_name
       (''failed to open file '' @ c_text module_file_name @ '' at function publish_module''))
     (publish_module env account_index)"

definition await_publish_module_file :: "('k, 'w) env \<Rightarrow> u64 \<Rightarrow> cstring \<Rightarrow> (('k, 'w) client_state, unit) eff" where
  "await_publish_module_file env account_index module_file_name =
     eff_bind (read_file env module_file_name
       (''await_publish_module : failed to open file '' @ c_text module_file_name))
     (await_publish_module env account_index)"

definition account_state_of :: "AccountStateWithProof \<Rightarrow> resources option result" where
  "account_state_of asp =
     (if AccountState_blob asp = [] then Inr None
      else sum_bind (AccountState2 (AccountState_blob asp)) (\<lambda>state. Inr (Some state)))"

definition get_account_state ::
    "('k, 'w) env \<Rightarrow> AccountAddress \<Rightarrow> (('k, 'w) client_state, resources option) eff" where
  "get_account_state env address =
     eff_bind (eff_snd (rpc_get_account_state_blob (env_rpc env) (bytes_to_hex (AccountAddress_value address)))) (\<lambda>asp.
     eff_lift (account_state_of asp))"

definition await_get_account_state ::
    "('k, 'w) env \<Rightarrow> AccountAddress \<Rightarrow> (('k, 'w) client_state, resources option) eff" where
  "await_get_account_state env address =
     eff_bind (eff_snd (rpc_await_get_account_state_blob (env_rpc env) (bytes_to_hex (AccountAddress_value address)))) (\<lambda>asp.
     eff_lift (account_state_of asp))"

definition client_get_events ::
    "('k, 'w) env \<Rightarrow> EventHandle \<Rightarrow> u64 \<Rightarrow> u64 \<Rightarrow> (('k, 'w) client_state, EventView list) eff" where
  "client_get_events env handle start limit =
     eff_snd (rpc_get_events (env_rpc env) (bytes_to_hex (guid handle)) start limit)"

definition client_await_get_events ::
    "('k, 'w) env \<Rightarrow> EventHandle \<Rightarrow> u64 \<Rightarrow> u64 \<Rightarrow> (('k, 'w) client_state, EventView list) eff" where
  "client_await_get_events env handle start limit =
     eff_snd (rpc_await_get_events (env_rpc env) (bytes_to_hex (guid handle)) start limit)"

section \<open>Bytecode\<close>

definition allow_custom_script_bytecode :: "u8 list" where
  "allow_custom_script_bytecode =
     [161, 28, 235, 11, 3, 0, 0, 0, 5, 1, 0, 2, 3, 2, 5, 5, 7, 6, 7, 13, 48, 8, 61, 16, 0, 0,
      0, 1, 2, 1, 0, 1, 12, 0, 1, 6, 12, 31, 68, 105, 101, 109, 84, 114, 97, 110, 115, 97, 99,
      116, 105, 111, 110, 80, 117, 98, 108, 105, 115, 104, 105, 110, 103, 79, 112, 116, 105,
      111, 110, 15, 115, 101, 116, 95, 111, 112, 101, 110, 95, 115, 99, 114, 105, 112, 116, 0,
      0, 0, 0, 0, 0, 0, 0, 0, 0, 0, 0, 0, 0, 0, 1, 0, 0, 1, 3, 14, 0, 17, 0, 2]"

definition allow_publishing_module_bytecode :: "u8 list" where
  "allow_publishing_module_bytecode =
     [161, 28, 235, 11, 3, 0, 0, 0, 5, 1, 0, 2, 3, 2, 5, 5, 7, 8, 7, 15, 48, 8, 63, 16, 0, 0,
      0, 1, 2, 1, 0, 2, 12, 1, 0, 2, 6, 12, 1, 31, 68, 105, 101, 109, 84, 114, 97, 110, 115,
      97, 99, 116, 105, 111, 110, 80, 117, 98, 108, 105, 115, 104, 105, 110, 103, 79, 112,
      116, 105, 111, 110, 15, 115, 101, 116, 95, 111, 112, 101, 110, 95, 109, 111, 100, 117,
      108, 101, 0, 0, 0, 0, 0, 0, 0, 0, 0, 0, 0, 0, 0, 0, 0, 1, 0, 0, 1, 4, 14, 0, 10, 1, 17,
      0, 2]"

definition create_designated_dealer_ex_bytecode :: "u8 list" where
  "create_designated_dealer_ex_bytecode =
     [161, 28, 235, 11, 3, 0, 0, 0, 6, 1, 0, 4, 3, 4, 11, 4, 15, 2, 5, 17, 26, 7, 43, 75, 8,
      118, 16, 0, 0, 0, 1, 1, 2, 2, 1, 0, 0, 3, 4, 1, 1, 0, 1, 3, 6, 12, 3, 5, 10, 2, 10, 2,
      1, 0, 2, 6, 12, 3, 1, 9, 0, 5, 6, 12, 5, 10, 2, 10, 2, 1, 11, 68, 105, 101, 109, 65, 99,
      99, 111, 117, 110, 116, 12, 83, 108, 105, 100, 105, 110, 103, 78, 111, 110, 99, 101, 21,
      114, 101, 99, 111, 114, 100, 95, 110, 111, 110, 99, 101, 95, 111, 114, 95, 97, 98, 111,
      114, 116, 27, 99, 114, 101, 97, 116, 101, 95, 100, 101, 115, 105, 103, 110, 97, 116,
      101, 100, 95, 100, 101, 97, 108, 101, 114, 95, 101, 120, 0, 0, 0, 0, 0, 0, 0, 0, 0, 0,
      0, 0, 0, 0, 0, 1, 1, 0, 0, 1, 10, 14, 0, 10, 1, 17, 0, 14, 0, 10, 2, 11, 3, 11, 4, 10,
      5, 56, 0, 2]"

definition currency_module :: "u8 list" where
  "currency_module =
     [161, 28, 235, 11, 2, 0, 0, 0, 5, 1, 0, 2, 2, 2, 4, 7, 6, 16, 8, 22, 16, 10, 38, 5, 0, 0,
      0, 0, 4, 0, 3, 85, 83, 68, 11, 100, 117, 109, 109, 121, 95, 102, 105, 101, 108, 100, 0,
      0, 0, 0, 0, 0, 0, 0, 0, 0, 0, 0, 0, 0, 0, 1, 0, 2, 1, 1, 1, 0]"

definition regiester_stable_currency_bytecode :: "u8 list" where
  "regiester_stable_currency_bytecode =
     [161, 28, 235, 11, 3, 0, 0, 0, 7, 1, 0, 6, 2, 6, 4, 3, 10, 17, 4, 27, 4, 5, 31, 33, 7, 64,
      103, 8, 167, 1, 16, 0, 0, 0, 1, 0, 2, 2, 2, 7, 0, 2, 3, 3, 1, 0, 1, 4, 5, 2, 1, 0, 0, 5,
      6, 2, 1, 0, 1, 4, 2, 4, 7, 12, 12, 3, 3, 3, 3, 10, 2, 1, 8, 0, 0, 2, 3, 3, 1, 9, 0, 6,
      6, 12, 6, 12, 8, 0, 3, 3, 10, 2, 1, 6, 12, 13, 65, 99, 99, 111, 117, 110, 116, 76, 105,
      109, 105, 116, 115, 4, 68, 105, 101, 109, 12, 70, 105, 120, 101, 100, 80, 111, 105, 110,
      116, 51, 50, 20, 99, 114, 101, 97, 116, 101, 95, 102, 114, 111, 109, 95, 114, 97, 116,
      105, 111, 110, 97, 108, 21, 114, 101, 103, 105, 115, 116, 101, 114, 95, 83, 67, 83, 95,
      99, 117, 114, 114, 101, 110, 99, 121, 27, 112, 117, 98, 108, 105, 115, 104, 95, 117,
      110, 114, 101, 115, 116, 114, 105, 99, 116, 101, 100, 95, 108, 105, 109, 105, 116, 115,
      0, 0, 0, 0, 0, 0, 0, 0, 0, 0, 0, 0, 0, 0, 0, 1, 1, 4, 0, 1, 14, 10, 2, 10, 3, 17, 0, 12,
      7, 14, 0, 14, 1, 11, 7, 10, 4, 10, 5, 11, 6, 56, 0, 14, 0, 56, 1, 2]"

definition add_currency_for_designated_dealer_bytecode :: "u8 list" where
  "add_currency_for_designated_dealer_bytecode =
     [161, 28, 235, 11, 3, 0, 0, 0, 6, 1, 0, 2, 3, 2, 6, 4, 8, 2, 5, 10, 11, 7, 21, 47, 8, 68,
      16, 0, 0, 0, 1, 3, 1, 1, 4, 0, 2, 2, 12, 5, 0, 1, 9, 0, 2, 6, 12, 5, 11, 68, 105, 101,
      109, 65, 99, 99, 111, 117, 110, 116, 34, 97, 100, 100, 95, 99, 117, 114, 114, 101, 110,
      99, 121, 95, 102, 111, 114, 95, 100, 101, 115, 105, 103, 110, 97, 116, 101, 100, 95,
      100, 101, 97, 108, 101, 114, 0, 0, 0, 0, 0, 0, 0, 0, 0, 0, 0, 0, 0, 0, 0, 1, 1, 4, 0, 1,
      4, 14, 0, 10, 1, 56, 0, 2]"

section \<open>The methods of the framework\<close>

definition add_currency :: "('k, 'w) env \<Rightarrow> u64 \<Rightarrow> cstring \<Rightarrow> (('k, 'w) client_state, unit) eff" where
  "add_currency env account_index currency_code =
     run_script_void env account_index (encode_add_currency_to_account_script (currency_tag currency_code))
       ''add_currency''"

text \<open>The argument \<open>is_allowing\<close> of \<open>allow_custom_script\<close> is not used.\<close>

definition allow_custom_script :: "('k, 'w) env \<Rightarrow> bool \<Rightarrow> (('k, 'w) client_state, unit) eff" where
  "allow_custom_script env is_allowing =
     run_script_void env ACCOUNT_ROOT_ID
       \<lparr>Script_code = allow_custom_script_bytecode, Script_ty_args = [], Script_args = []\<rparr> ''allow_custom_script''"

definition await_allow_custom_script :: "('k, 'w) env \<Rightarrow> bool \<Rightarrow> (('k, 'w) client_state, unit) eff" where
  "await_allow_custom_script env is_allowing =
     await_run_script env ACCOUNT_ROOT_ID
       \<lparr>Script_code = allow_custom_script_bytecode, Script_ty_args = [], Script_args = []\<rparr> ''await_allow_custom_script''"

definition allow_publishing_module :: "('k, 'w) env \<Rightarrow> bool \<Rightarrow> (('k, 'w) client_state, unit) eff" where
  "allow_publishing_module env is_allowing =
     run_script_void env ACCOUNT_ROOT_ID
       \<lparr>Script_code = allow_publishing_module_bytecode, Script_ty_args = [],
        Script_args = make_txn_args [Arg_bool is_allowing]\<rparr> ''allow_publishing_module''"

definition await_allow_publishing_module :: "('k, 'w) env \<Rightarrow> bool \<Rightarrow> (('k, 'w) client_state, unit) eff" where
  "await_allow_publishing_module env is_allowing =
     await_run_script env ACCOUNT_ROOT_ID
       \<lparr>Script_code = allow_publishing_module_bytecode, Script_ty_args = [],
        Script_args = make_txn_args [Arg_bool is_allowing]\<rparr> ''allow_publishing_module''"

definition create_parent_vasp_account ::
    "('k, 'w) env \<Rightarrow> AccountAddress \<Rightarrow> u8 list \<Rightarrow> cstring \<Rightarrow> bool \<Rightarrow> (('k, 'w) client_state, u64) eff" where
  "create_parent_vasp_account env address auth_key human_name add_all_currencies =
     eff_bind (eff_get (\<lambda>s. m_opt_tc (fst s))) (\<lambda>tc.
     if tc = None then eff_throw (Runtime_error ''TC account is null, please specify the mint key file.'')
     else eff_bind (run_script env ACCOUNT_TC_ID
            (encode_create_parent_vasp_account_script (currency_tag (str ''VLS'')) 0 address (take 16 auth_key)
               human_name add_all_currencies) ''create_parent_vasp_account'') (\<lambda>(sender, sn).
          eff_return sn))"

definition create_child_vasp_account ::
    "('k, 'w) env \<Rightarrow> u64 \<Rightarrow> AccountAddress \<Rightarrow> u8 list \<Rightarrow> cstring \<Rightarrow> u64 \<Rightarrow> bool \<Rightarrow> (('k, 'w) client_state, unit) eff" where
  "create_child_vasp_account env account_index address auth_key currency child_initial_balance add_all_currencies =
     run_script_void env account_index
       (encode_create_child_vasp_account_script (currency_tag currency) address (take 16 auth_key)
          add_all_currencies child_initial_balance) ''create_child_vasp_account''"

definition create_designated_dealer_ex ::
    "('k, 'w) env \<Rightarrow> cstring \<Rightarrow> u64 \<Rightarrow> AccountAddress \<Rightarrow> u8 list \<Rightarrow> cstring \<Rightarrow> bool \<Rightarrow> (('k, 'w) client_state, unit) eff" where
  "create_designated_dealer_ex env currency_code sliding_nonce address auth_key human_name add_all_currencies =
     run_script_void env ACCOUNT_TC_ID
       \<lparr>Script_code = create_designated_dealer_ex_bytecode, Script_ty_args = [currency_tag currency_code],
        Script_args = make_txn_args [Arg_uint64 sliding_nonce, Arg_address address, Arg_array32 auth_key,
          Arg_string human_name, Arg_bool add_all_currencies]\<rparr> ''create_designated_dealer_ex''"

text \<open>
  \<open>std::search\<close> gives the first position where the pattern begins, or the end; the three bytes of the
  currency code are copied over the pattern.
\<close>

fun search :: "'a list \<Rightarrow> 'a list \<Rightarrow> nat" where
  "search xs pat =
     (if take (length pat) xs = pat then 0 else case xs of [] \<Rightarrow> 0 | x # xs' \<Rightarrow> Suc (search xs' pat))"

declare search.simps [simp del]

definition currency_module_code :: "cstring \<Rightarrow> u8 list" where
  "currency_module_code currency_code =
     (if length currency_code = 3 then
        (let iter = search currency_module (str ''USD'')
         in if iter \<noteq> length currency_module
            then take iter currency_module @ currency_code @ drop (iter + 3) currency_module
            else currency_module)
      else [])"

definition publish_currency_module :: "('k, 'w) env \<Rightarrow> cstring \<Rightarrow> (('k, 'w) client_state, unit) eff" where
  "publish_currency_module env currency_code =
     publish_module env ACCOUNT_ROOT_ID (currency_module_code currency_code)"

definition regiester_stable_currency ::
    "('k, 'w) env \<Rightarrow> cstring \<Rightarrow> u64 \<Rightarrow> u64 \<Rightarrow> u64 \<Rightarrow> u64 \<Rightarrow> (('k, 'w) client_state, unit) eff" where
  "regiester_stable_currency env currency_code exchange_rate_denom exchange_rate_num scaling_factor fractional_part =
     eff_bind (publish_currency_module env currency_code) (\<lambda>_.
     let script = \<lparr>Script_code = regiester_stable_currency_bytecode, Script_ty_args = [currency_tag currency_code],
           Script_args = make_txn_args [Arg_uint64 exchange_rate_denom, Arg_uint64 exchange_rate_num,
             Arg_uint64 scaling_factor, Arg_uint64 fractional_part, Arg_string currency_code]\<rparr>
     in eff_bind (sign_multi_agent_script env ACCOUNT_ROOT_ID script [TC_ADDRESS] 1000000 0 (str ''VLS'') 100) (\<lambda>signed_txn.
        eff_bind (sign_and_submit_multi_agent_signed_txn env ACCOUNT_TC_ID signed_txn) (\<lambda>(sender, sn).
        check_txn_vm_status env sender sn (str ''regiester_stable_currency''))))"

definition add_currency_for_designated_dealer ::
    "('k, 'w) env \<Rightarrow> cstring \<Rightarrow> AccountAddress \<Rightarrow> (('k, 'w) client_state, unit) eff" where
  "add_currency_for_designated_dealer env currency_code dd_address =
     run_script_void env ACCOUNT_TC_ID
       \<lparr>Script_code = add_currency_for_designated_dealer_bytecode, Script_ty_args = [currency_tag currency_code],
        Script_args = make_txn_args [Arg_address dd_address]\<rparr> ''tc_add_currency_for_designated_dealer''"

definition mint ::
    "('k, 'w) env \<Rightarrow> cstring \<Rightarrow> u64 \<Rightarrow> u64 \<Rightarrow> AccountAddress \<Rightarrow> u64 \<Rightarrow> (('k, 'w) client_state, unit) eff" where
  "mint env currency_code sliding_nonce amount' dd_address tier_index =
     run_script_void env ACCOUNT_TC_ID
       (encode_tiered_mint_script (currency_tag currency_code) sliding_nonce dd_address amount' tier_index) ''mint''"

section \<open>The currency module\<close>

lemma search_currency_module: "search currency_module (str ''USD'') = 31"
  by (simp add: currency_module_def search.simps str_def)

lemma currency_module_parts:
  "take 31 currency_module @ str ''USD'' @ drop 34 currency_module = currency_module" "length currency_module = 68"
  by (simp_all add: currency_module_def str_def)

end
