(* ===== verification/Nft_Token.thy ===== *)
theory Nft_Token
  imports Client2_Framework Sdk_Resource
begin

text \<open>
  \<open>src/cpp/nft-store-2/src/nft/nft.cpp\<close>: the client for non-fungible tokens, over \<open>Client2\<close>.

  Operations that change something run a Move script from a file and wait for it; queries read a
  resource of an account. The class is a template: what it uses of the type of a token is the record
  \<open>token_type\<close>; \<open>Portrait\<close> of \<open>portrait.hpp\<close> is an instance. \<open>NftInfo\<close> and the events are the
  ones of \<open>Sdk_Resource\<close>. The lemmas show what a script call that returns has done, and follow a query from
  the text of the account to its answer.
\<close>

section \<open>Scripts\<close>

definition VIOLAS_LIB_ADDRESS :: AccountAddress where
  "VIOLAS_LIB_ADDRESS = \<lparr>AccountAddress_value = replicate 15 0 @ [2]\<rparr>"

text \<open>
  \<open>execute_script_file\<close> with the default arguments of the client, and then \<open>check_txn_vm_status\<close>, as
  every operation does it.
\<close>

definition script_call ::
    "('k, 'w) env \<Rightarrow> u64 \<Rightarrow> string \<Rightarrow> TypeTag list \<Rightarrow> txn_arg list \<Rightarrow> string \<Rightarrow> (('k, 'w) client_state, unit) eff" where
  "script_call env account_index file_name type_tags args error_info =
     eff_bind (execute_script_file env account_index (str file_name) type_tags (make_txn_args args)
       1000000 0 (str ''VLS'') 100) (\<lambda>(sender, sn).
     check_txn_vm_status env sender sn (str error_info))"

section \<open>Tokens\<close>

record 'a token_type =
  token_serde :: "'a serde_op"
  token_init :: 'a
  token_tag :: TypeTag
  token_module_name :: cstring

record 'a NFT =
  NFT_tokens :: "'a list"
  NFT_sent_event :: EventHandle
  NFT_received_event :: EventHandle

definition serde_NFT :: "'a token_type \<Rightarrow> 'a NFT serde_op" where
  "serde_NFT T t =
     act_bind (serde_container (token_init T) (token_serde T) (NFT_tokens t)) (\<lambda>tokens'.
     act_bind (serde_EventHandle (NFT_sent_event t)) (\<lambda>sent_event'.
     act_bind (serde_EventHandle (NFT_received_event t)) (\<lambda>received_event'.
     act_return \<lparr>NFT_tokens = tokens', NFT_sent_event = sent_event', NFT_received_event = received_event'\<rparr>)))"

definition compute_token_id :: "'k openssl \<Rightarrow> 'a token_type \<Rightarrow> 'a \<Rightarrow> u8 list result" where
  "compute_token_id ssl T t =
     (case token_serde T t BcsSerde_new of Inl e \<Rightarrow> Inl e | Inr (_, serde) \<Rightarrow> Inr (ssl_sha3_256 ssl (bs_bytes serde)))"

text \<open>The members of an object are indeterminate before they are read; here they are zero.\<close>

definition no_handle :: EventHandle where
  "no_handle = \<lparr>counter = 0, guid = []\<rparr>"

definition no_NftInfo :: NftInfo where
  "no_NftInfo = \<lparr>limited = False, total = 0, amount = 0, admin = replicate 16 0, owners = [], mint_event = no_handle,
     burn_event = no_handle, transferred_event = no_handle\<rparr>"

definition no_NFT :: "'a NFT" where
  "no_NFT = \<lparr>NFT_tokens = [], NFT_sent_event = no_handle, NFT_received_event = no_handle\<rparr>"

section \<open>Operations\<close>

text \<open>A module that cannot be published is reported, and the next one is tried.\<close>

definition publish_or_report :: "('k, 'w) env \<Rightarrow> string \<Rightarrow> (('k, 'w) client_state, unit) eff" where
  "publish_or_report env file_name =
     eff_catch (publish_module_file env ACCOUNT_ROOT_ID (str file_name)) (eff_return ())"

definition deploy :: "('k, 'w) env \<Rightarrow> (('k, 'w) client_state, unit) eff" where
  "deploy env =
     eff_bind (allow_publishing_module env True) (\<lambda>_.
     eff_bind (allow_custom_script env True) (\<lambda>_.
     eff_bind (publish_or_report env ''move/stdlib/modules/Compare.mv'') (\<lambda>_.
     eff_bind (publish_or_report env ''move/stdlib/modules/Map.mv'') (\<lambda>_.
     eff_bind (publish_or_report env ''move/stdlib/modules/NonFungibleToken.mv'') (\<lambda>_.
     publish_or_report env ''move/tea/modules/MountWuyi.mv'')))))"

definition register_instance ::
    "('k, 'w) env \<Rightarrow> 'a token_type \<Rightarrow> u64 \<Rightarrow> Address \<Rightarrow> (('k, 'w) client_state, unit) eff" where
  "register_instance env T total_number admin_address =
     script_call env ACCOUNT_ROOT_ID ''move/build/scripts/nft_register.mv'' [token_tag T]
       [Arg_uint64 total_number, Arg_address \<lparr>AccountAddress_value = admin_address\<rparr>, Arg_string (token_module_name T)]
       ''failed to execute nft_register''"

definition burn :: "('k, 'w) env \<Rightarrow> 'a token_type \<Rightarrow> u64 \<Rightarrow> u8 list \<Rightarrow> (('k, 'w) client_state, unit) eff" where
  "burn env T account_index token_id =
     script_call env account_index ''move/build/scripts/nft_burn.mv'' [token_tag T] [Arg_array32 token_id]
       ''NonFungibleToken::burn''"

definition accept :: "('k, 'w) env \<Rightarrow> 'a token_type \<Rightarrow> u64 \<Rightarrow> (('k, 'w) client_state, unit) eff" where
  "accept env T account_index =
     script_call env account_index ''move/build/scripts/nft_accept.mv'' [token_tag T] [] ''nft::accept''"

definition transfer_by_token_index ::
    "('k, 'w) env \<Rightarrow> 'a token_type \<Rightarrow> u64 \<Rightarrow> Address \<Rightarrow> u64 \<Rightarrow> u8 list \<Rightarrow> (('k, 'w) client_state, unit) eff" where
  "transfer_by_token_index env T account_index receiver token_index metadata =
     script_call env account_index ''move/stdlib/scripts/nft_transfer_by_token_index.mv'' [token_tag T]
       [Arg_address \<lparr>AccountAddress_value = receiver\<rparr>, Arg_uint64 token_index, Arg_bytes metadata]
       ''nft::transfer_by_token_index''"

definition transfer_by_token_id ::
    "('k, 'w) env \<Rightarrow> 'a token_type \<Rightarrow> u64 \<Rightarrow> Address \<Rightarrow> u8 list \<Rightarrow> u8 list \<Rightarrow> (('k, 'w) client_state, unit) eff" where
  "transfer_by_token_id env T account_index receiver token_id metadata =
     script_call env account_index ''move/build/scripts/nft_transfer_by_token_id.mv'' [token_tag T]
       [Arg_address \<lparr>AccountAddress_value = receiver\<rparr>, Arg_array32 token_id, Arg_bytes metadata]
       ''nft::transfer_by_token_id''"

section \<open>Queries\<close>

text \<open>\<open>state->get_resource<T>(tag)\<close>: nothing checks whether there is a state.\<close>

definition state_resource :: "'a serde_op \<Rightarrow> 'a \<Rightarrow> StructTag \<Rightarrow> resources option \<Rightarrow> 'a option result" where
  "state_resource f init tag state = sum_bind (deref state) (\<lambda>resources'. get_resource f init resources' tag)"

definition nft_tag :: "'a token_type \<Rightarrow> string \<Rightarrow> StructTag" where
  "nft_tag T resource_name =
     StructTag VIOLAS_LIB_ADDRESS \<lparr>Identifier_value = str ''NonFungibleToken''\<rparr> \<lparr>Identifier_value = str resource_name\<rparr>
       [token_tag T]"

text \<open>
  The resource \<open>NFT\<close> is a struct that begins with the vector of tokens; \<open>balance\<close> reads only this
  vector of it.
\<close>

definition balance ::
    "('k, 'w) env \<Rightarrow> 'a token_type \<Rightarrow> Address \<Rightarrow> (('k, 'w) client_state, 'a list option) eff" where
  "balance env T addr =
     eff_bind (get_account_state env \<lparr>AccountAddress_value = addr\<rparr>) (\<lambda>state.
     eff_catch
       (eff_lift (state_resource (serde_container (token_init T) (token_serde T)) [] (nft_tag T ''NFT'') state))
       (eff_return None))"

definition get_nft_info :: "('k, 'w) env \<Rightarrow> 'a token_type \<Rightarrow> (('k, 'w) client_state, NftInfo option) eff" where
  "get_nft_info env T =
     eff_bind (get_account_state env ROOT_ADDRESS) (\<lambda>state.
     eff_lift (state_resource serde_NftInfo no_NftInfo (nft_tag T ''Configuration'') state))"

definition get_owner :: "('k, 'w) env \<Rightarrow> 'a token_type \<Rightarrow> u8 list \<Rightarrow> (('k, 'w) client_state, Address option) eff" where
  "get_owner env T token_id =
     eff_bind (get_nft_info env T) (\<lambda>opt_nft_info.
     eff_return (case opt_nft_info of None \<Rightarrow> None | Some info \<Rightarrow> map_of (owners info) token_id))"

definition nft_get_account :: "('k, 'w) env \<Rightarrow> 'a token_type \<Rightarrow> Address \<Rightarrow> (('k, 'w) client_state, 'a NFT option) eff" where
  "nft_get_account env T address =
     eff_bind (get_account_state env \<lparr>AccountAddress_value = address\<rparr>) (\<lambda>state.
     eff_lift (state_resource (serde_NFT T) no_NFT (nft_tag T ''NFT'') state))"

datatype EventType = minted | burned | sent | received

fun get_event_handle ::
    "('k, 'w) env \<Rightarrow> 'a token_type \<Rightarrow> EventType \<Rightarrow> Address \<Rightarrow> (('k, 'w) client_state, EventHandle option) eff" where
  "get_event_handle env T minted address =
     eff_bind (get_nft_info env T) (\<lambda>info. eff_return (map_option mint_event info))"
| "get_event_handle env T burned address =
     eff_bind (get_nft_info env T) (\<lambda>info. eff_return (map_option burn_event info))"
| "get_event_handle env T sent address =
     eff_bind (nft_get_account env T address) (\<lambda>account. eff_return (map_option NFT_sent_event account))"
| "get_event_handle env T received address =
     eff_bind (nft_get_account env T address) (\<lambda>account. eff_return (map_option NFT_received_event account))"

text \<open>\<open>query_events\<close> and \<open>await_query_events\<close> of the client, and the query of the token class.\<close>

definition event_data :: "EventView \<Rightarrow> u8 list \<times> u64 \<times> u64" where
  "event_data e = (EventView_event e, EventView_sequence_number e, EventView_transaction_version e)"

definition client_query_events ::
    "('k, 'w) env \<Rightarrow> 'a Event_scheme serde_op \<Rightarrow> 'a Event_scheme \<Rightarrow> EventHandle \<Rightarrow> u64 \<Rightarrow> u64 \<Rightarrow>
     (('k, 'w) client_state, 'a Event_scheme list) eff" where
  "client_query_events env f init handle start limit =
     eff_bind (client_get_events env handle start limit) (\<lambda>events.
     eff_lift (query_events f init (map event_data events)))"

definition client_await_query_events ::
    "('k, 'w) env \<Rightarrow> 'a Event_scheme serde_op \<Rightarrow> 'a Event_scheme \<Rightarrow> EventHandle \<Rightarrow> u64 \<Rightarrow> u64 \<Rightarrow>
     (('k, 'w) client_state, 'a Event_scheme list) eff" where
  "client_await_query_events env f init handle start limit =
     eff_bind (client_await_get_events env handle start limit) (\<lambda>events.
     eff_lift (query_events f init (map event_data events)))"

definition nft_query_events ::
    "('k, 'w) env \<Rightarrow> 'a Event_scheme serde_op \<Rightarrow> 'a Event_scheme \<Rightarrow> EventHandle \<Rightarrow> Address \<Rightarrow> u64 \<Rightarrow> u64 \<Rightarrow>
     (('k, 'w) client_state, 'a Event_scheme list) eff" where
  "nft_query_events env f init event_handle address start limit =
     client_query_events env f init event_handle start limit"

section \<open>Portrait\<close>

record Portrait =
  description :: "u8 list"
  ipfs_cid :: "u8 list"

definition serde_Portrait :: "Portrait serde_op" where
  "serde_Portrait t =
     act_bind (serde_bytes (description t)) (\<lambda>description'.
     act_bind (serde_bytes (ipfs_cid t)) (\<lambda>ipfs_cid'.
     act_return \<lparr>description = description', ipfs_cid = ipfs_cid'\<rparr>))"

definition Portrait_type :: "Portrait token_type" where
  "Portrait_type = \<lparr>token_serde = serde_Portrait, token_init = \<lparr>description = [], ipfs_cid = []\<rparr>,
     token_tag = make_struct_type_tag VIOLAS_LIB_ADDRESS (str ''Portrait'') (str ''Portrait''),
     token_module_name = str ''Portrait''\<rparr>"

definition Portrait_mint ::
    "('k, 'w) env \<Rightarrow> u64 \<Rightarrow> cstring \<Rightarrow> cstring \<Rightarrow> AccountAddress \<Rightarrow> (('k, 'w) client_state, unit) eff" where
  "Portrait_mint env account_index description' ipfs_cid' receiver =
     script_call env account_index ''move/build/scripts/mint_portrait_nft.mv'' []
       [Arg_string description', Arg_string ipfs_cid', Arg_address receiver] ''Portrait::mint''"

section \<open>What a script call has done\<close>

text \<open>The service reports a transaction as executed, in one of the first 50 answers.\<close>

definition executed :: "('k, 'w) env \<Rightarrow> AccountAddress \<Rightarrow> u64 \<Rightarrow> 'w \<Rightarrow> bool" where
  "executed env address sn w \<longleftrightarrow>
     (\<exists>i < 50.
       (\<forall>j < i. answer (rpc_get_account_transaction (env_rpc env) address sn False) (env_sleep env) j w = Inr None) \<and>
       (\<exists>type'. answer (rpc_get_account_transaction (env_rpc env) address sn False) (env_sleep env) i w =
          Inr (Some \<lparr>TransactionView_vm_status = VMStatus_Executed type'\<rparr>)))"

lemma check_txn_executed: "fst (check_txn_vm_status env address sn info (c, w)) = Inr () \<longleftrightarrow> executed env address sn w"
proof -
  let ?poll = "poll_transaction (rpc_get_account_transaction (env_rpc env) address sn False) (env_sleep env) 50"
  have "fst (check_txn_vm_status env address sn info (c, w)) = Inr () \<longleftrightarrow>
      (\<exists>v. fst (?poll w) = Inr v \<and> vm_status_result info v = Inr ())"
    by (auto simp: check_txn_vm_status_def eff_bind_def eff_snd_def eff_lift_def split: prod.splits sum.splits)
  then show ?thesis unfolding poll_executed_iff executed_def .
qed

lemma submit_txn_payload_success:
  assumes "submit_txn_payload env i p g pr cu ex s = (Inr (sender, sn), t)"
  obtains txn s1 where "make_signed_txn env i p g pr cu ex s = (Inr txn, s1)"
    and "rpc_submit (env_rpc env) txn (snd s1) = (Inr (), snd t)"
    and "sender = RawTransaction_sender (SignedTransaction_raw_txn txn)"
    and "sn = RawTransaction_sequence_number (SignedTransaction_raw_txn txn)"
  using assms
  by (auto simp: submit_txn_payload_def increment_sequence_number_def set_account_def eff_iff
      split: option.splits intro: that)

text \<open>The sender of a transaction of account \<open>i\<close>: three accounts have fixed addresses.\<close>

definition sender_address :: "u64 \<Rightarrow> AccountView \<Rightarrow> AccountAddress" where
  "sender_address i view =
     (if i = ACCOUNT_ROOT_ID then ROOT_ADDRESS
      else if i = ACCOUNT_TC_ID then TC_ADDRESS
      else if i = ACCOUNT_DD_ID then TESTNET_DD_ADDRESS
      else AccountView_address view)"

lemma make_signed_txn_success:
  assumes "make_signed_txn env i payload g pr cu ex s = (Inr txn, s1)"
  obtains v pub signature bytes' where "find_account env i s = (Inr v, s1)"
    and "RawTransaction_sender (SignedTransaction_raw_txn txn) = sender_address i v"
    and "RawTransaction_sequence_number (SignedTransaction_raw_txn txn) = AccountView_sequence_number v"
    and "RawTransaction_payload (SignedTransaction_raw_txn txn) = payload"
    and "bcsSerialize_RawTransaction (SignedTransaction_raw_txn txn) = Inr bytes'"
    and "sign_message (env_ssl env) (fst s1) i (raw_transaction_message (env_ssl env) bytes') = Inr (pub, signature)"
    and "SignedTransaction_authenticator txn =
      TransactionAuthenticator_Ed25519 \<lparr>Ed25519PublicKey_value = pub\<rparr> \<lparr>Ed25519Signature_value = signature\<rparr>"
  using assms by (auto simp: make_signed_txn_def sender_address_def eff_iff Let_def intro: that)

lemma sign_message_cached [simp]: "sign_message ssl (cached i v c) j message = sign_message ssl c j message"
  by (simp add: sign_message_def)

text \<open>
  What it means that a script of account \<open>i\<close> was confirmed, when the client goes from \<open>s\<close> to \<open>t\<close>. The account is looked up;
  a transaction with its address and its next sequence number, with the code of the file as a script, is signed with
  the key of that account, so that the signature verifies; the service takes it and reports it as executed; and the
  client has counted it.
\<close>

definition script_confirmed ::
    "('k, 'w) env \<Rightarrow> u64 \<Rightarrow> string \<Rightarrow> TypeTag list \<Rightarrow> TransactionArgument list \<Rightarrow>
     ('k, 'w) client_state \<Rightarrow> ('k, 'w) client_state \<Rightarrow> bool" where
  "script_confirmed env i file_name tags args s t \<longleftrightarrow>
     (\<exists>code view s1 txn pub signature bytes' w info.
        env_file env (snd s) (str file_name) = Some code \<and>
        find_account env i s = (Inr view, s1) \<and>
        RawTransaction_sender (SignedTransaction_raw_txn (txn :: SignedTransaction)) = sender_address i view \<and>
        RawTransaction_sequence_number (SignedTransaction_raw_txn txn) = AccountView_sequence_number view \<and>
        RawTransaction_payload (SignedTransaction_raw_txn txn) =
          TransactionPayload_Script \<lparr>Script_code = code, Script_ty_args = tags, Script_args = args\<rparr> \<and>
        bcsSerialize_RawTransaction (SignedTransaction_raw_txn txn) = Inr bytes' \<and>
        sign_message (env_ssl env) (fst s) i (raw_transaction_message (env_ssl env) bytes') = Inr (pub, signature) \<and>
        SignedTransaction_authenticator txn =
          TransactionAuthenticator_Ed25519 \<lparr>Ed25519PublicKey_value = pub\<rparr> \<lparr>Ed25519Signature_value = signature\<rparr> \<and>
        PublicKey_verify (env_ssl env) (PublicKey_new (env_ssl env) pub) signature
          (raw_transaction_message (env_ssl env) bytes') = Inr True \<and>
        rpc_submit (env_rpc env) txn (snd s1) = (Inr (), w) \<and>
        executed env (RawTransaction_sender (SignedTransaction_raw_txn txn))
          (RawTransaction_sequence_number (SignedTransaction_raw_txn txn)) w \<and>
        check_txn_vm_status env (RawTransaction_sender (SignedTransaction_raw_txn txn))
          (RawTransaction_sequence_number (SignedTransaction_raw_txn txn)) info (cached i (next_view view) (fst s), w) = (Inr (), t))"

lemma script_call_confirmed:
  assumes "openssl_ok (env_ssl env)" and "client_history env s"
    and "script_call env i file_name tags args info s = (Inr (), t)"
  shows "script_confirmed env i file_name tags (make_txn_args args) s t"
proof -
  from assms(3) obtain sender sn s2 where
    ex: "execute_script_file env i (str file_name) tags (make_txn_args args) 1000000 0 (str ''VLS'') 100 s = (Inr (sender, sn), s2)"
    and check: "check_txn_vm_status env sender sn (str info) s2 = (Inr (), t)"
    by (auto simp: script_call_def eff_iff)
  from ex obtain code where code: "env_file env (snd s) (str file_name) = Some code"
    and sub: "submit_txn_payload env i (TransactionPayload_Script
      \<lparr>Script_code = code, Script_ty_args = tags, Script_args = make_txn_args args\<rparr>) 1000000 0 (str ''VLS'') 100 s = (Inr (sender, sn), s2)"
    by (auto simp: execute_script_file_def read_file_def submit_script_def eff_iff split: option.splits)
  from submit_txn_payload_success [OF sub] obtain txn s1 where
    make: "make_signed_txn env i (TransactionPayload_Script
      \<lparr>Script_code = code, Script_ty_args = tags, Script_args = make_txn_args args\<rparr>) 1000000 0 (str ''VLS'') 100 s = (Inr txn, s1)"
    and posted: "rpc_submit (env_rpc env) txn (snd s1) = (Inr (), snd s2)"
    and named: "sender = RawTransaction_sender (SignedTransaction_raw_txn txn)"
      "sn = RawTransaction_sequence_number (SignedTransaction_raw_txn txn)" by blast
  show ?thesis
  proof (rule make_signed_txn_success [OF make])
    fix view pub signature bytes'
    assume v: "find_account env i s = (Inr view, s1)"
      and number: "RawTransaction_sequence_number (SignedTransaction_raw_txn txn) = AccountView_sequence_number view"
      and serialized: "bcsSerialize_RawTransaction (SignedTransaction_raw_txn txn) = Inr bytes'"
      and signed: "sign_message (env_ssl env) (fst s1) i (raw_transaction_message (env_ssl env) bytes') = Inr (pub, signature)"
      and rest: "RawTransaction_sender (SignedTransaction_raw_txn txn) = sender_address i view"
        "RawTransaction_payload (SignedTransaction_raw_txn txn) = TransactionPayload_Script
          \<lparr>Script_code = code, Script_ty_args = tags, Script_args = make_txn_args args\<rparr>"
        "SignedTransaction_authenticator txn =
          TransactionAuthenticator_Ed25519 \<lparr>Ed25519PublicKey_value = pub\<rparr> \<lparr>Ed25519Signature_value = signature\<rparr>"
    from find_account_eff [OF v] have s1: "fst s1 = cached i view (fst s)" by simp
    have "fst s2 = cached i (next_view view) (fst s)"
      using sub make v posted s1 increment_eff [of "(fst s1, snd s2)" i view]
      by (auto simp: submit_txn_payload_def eff_bind_def eff_snd_def eff_return_def) (metis fst_conv)
    then obtain w where s2: "s2 = (cached i (next_view view) (fst s), w)" by (cases s2) simp
    have "client_ok env (fst s1)" using client_history_ok [OF assms(2)] s1 by simp
    from sign_message_verifies [OF assms(1) this signed]
    have verified: "PublicKey_verify (env_ssl env) (PublicKey_new (env_ssl env) pub) signature
        (raw_transaction_message (env_ssl env) bytes') = Inr True" by (simp add: verifies_def)
    have signed': "sign_message (env_ssl env) (fst s) i (raw_transaction_message (env_ssl env) bytes') = Inr (pub, signature)"
      using signed s1 by simp
    have executed: "executed env sender sn (snd s2)"
      using check check_txn_executed [of env sender sn "str info" "fst s2" "snd s2"] by simp
    note executed' = executed [unfolded named s2 snd_conv] and check' = check [unfolded named s2]
      and posted' = posted [unfolded s2 snd_conv]
    show ?thesis
      unfolding script_confirmed_def
      by (rule exI [of _ code], rule exI [of _ view], rule exI [of _ s1], rule exI [of _ txn], rule exI [of _ pub],
          rule exI [of _ signature], rule exI [of _ bytes'], rule exI [of _ w], rule exI [of _ "str info"])
        (intro conjI code v rest number serialized signed' verified posted' executed' check')
  qed
qed

text \<open>Without its file, a script call changes nothing.\<close>

lemma script_call_no_file:
  "env_file env (snd s) (str file_name) = None \<Longrightarrow>
     \<exists>e. script_call env i file_name tags args info s = (Inl (Runtime_error e), s)"
  by (auto simp: script_call_def execute_script_file_def read_file_def eff_bind_def eff_get_def eff_throw_def)

section \<open>What a query answers\<close>

text \<open>The service answers with the text of the resources of an account.\<close>

definition blob_served ::
    "(cstring \<Rightarrow> ('w, AccountStateWithProof) eff) \<Rightarrow> AccountAddress \<Rightarrow> resources \<Rightarrow> 'w \<Rightarrow> 'w \<Rightarrow> bool" where
  "blob_served get address entries w w' \<longleftrightarrow>
     (\<exists>asp. get (bytes_to_hex (AccountAddress_value address)) w = (Inr asp, w') \<and>
        AccountState_blob asp = bytes_to_hex (account_blob entries)) \<and>
     distinct (map fst entries) \<and> lengths_below (2 ^ 28) (doc_resources entries) \<and>
     length (enc (doc_resources entries)) < 2 ^ 28"

abbreviation serves_resources :: "('k, 'w) env \<Rightarrow> AccountAddress \<Rightarrow> resources \<Rightarrow> 'w \<Rightarrow> 'w \<Rightarrow> bool" where
  "serves_resources env \<equiv> blob_served (rpc_get_account_state_blob (env_rpc env))"

abbreviation await_serves_resources :: "('k, 'w) env \<Rightarrow> AccountAddress \<Rightarrow> resources \<Rightarrow> 'w \<Rightarrow> 'w \<Rightarrow> bool" where
  "await_serves_resources env \<equiv> blob_served (rpc_await_get_account_state_blob (env_rpc env))"

lemma account_state_of_served:
  assumes "blob_served get address entries w w'"
  obtains asp m where "get (bytes_to_hex (AccountAddress_value address)) w = (Inr asp, w')"
    and "account_state_of asp = Inr (Some m)" and "map_of m = map_of entries"
proof -
  from assms obtain asp where
    asp: "get (bytes_to_hex (AccountAddress_value address)) w = (Inr asp, w')"
      "AccountState_blob asp = bytes_to_hex (account_blob entries)"
    and ok: "distinct (map fst entries)" "lengths_below (2 ^ 28) (doc_resources entries)"
      "length (enc (doc_resources entries)) < 2 ^ 28"
    unfolding blob_served_def by blast
  obtain m where m: "AccountState2 (bytes_to_hex (account_blob entries)) = Inr m" "map_of m = map_of entries"
    using AccountState2_reads_blob [OF ok] by blast
  have "bytes_to_hex (account_blob entries) \<noteq> []"
    by (simp add: account_blob_def doc_vector_def bytes_to_hex_def uleb128_not_Nil)
  with asp m show thesis by (intro that [of asp m]) (simp_all add: account_state_of_def sum_bind_def)
qed

lemma get_account_state_served:
  assumes "serves_resources env address entries w w'"
  obtains m where "get_account_state env address (c, w) = (Inr (Some m), (c, w'))" and "map_of m = map_of entries"
proof (rule account_state_of_served [OF assms])
  fix asp m
  assume "rpc_get_account_state_blob (env_rpc env) (bytes_to_hex (AccountAddress_value address)) w = (Inr asp, w')"
    "account_state_of asp = Inr (Some m)" "map_of m = map_of entries"
  then show thesis by (intro that [of m]) (simp_all add: get_account_state_def eff_bind_def eff_snd_def eff_lift_def)
qed

lemma await_get_account_state_served:
  assumes "await_serves_resources env address entries w w'"
  obtains m where "await_get_account_state env address (c, w) = (Inr (Some m), (c, w'))" and "map_of m = map_of entries"
proof (rule account_state_of_served [OF assms])
  fix asp m
  assume "rpc_await_get_account_state_blob (env_rpc env) (bytes_to_hex (AccountAddress_value address)) w = (Inr asp, w')"
    "account_state_of asp = Inr (Some m)" "map_of m = map_of entries"
  then show thesis by (intro that [of m]) (simp_all add: await_get_account_state_def eff_bind_def eff_snd_def eff_lift_def)
qed

lemma state_resource_served:
  assumes "serde_field f invar doc" and "invar init" and "invar x" and "lengths_below (2 ^ 28) (doc x)"
    and "bcsSerialize_ResourcePath (ResourcePath_StructTag tag) = Inr key"
    and "map_of m key = Some (enc (doc x) @ rest)"
  shows "state_resource f init tag (Some m) = Inr (Some x)"
  using get_resource_prefix [OF assms] by (simp add: state_resource_def deref_def sum_bind_def)

lemma get_nft_info_served:
  assumes "serves_resources env ROOT_ADDRESS entries w w'"
    and "bcsSerialize_ResourcePath (ResourcePath_StructTag (nft_tag T ''Configuration'')) = Inr key"
    and "map_of entries key = Some (enc (doc_NftInfo info))"
    and "length (admin info) = 16" and "owners_ok (owners info)" and "lengths_below (2 ^ 28) (doc_NftInfo info)"
  shows "get_nft_info env T (c, w) = (Inr (Some info), (c, w'))"
proof -
  obtain m where m: "get_account_state env ROOT_ADDRESS (c, w) = (Inr (Some m), (c, w'))" "map_of m = map_of entries"
    by (rule get_account_state_served [OF assms(1)])
  have "state_resource serde_NftInfo no_NftInfo (nft_tag T ''Configuration'') (Some m) = Inr (Some info)"
    by (rule state_resource_served [OF NftInfo_field.serde_field_axioms _ _ assms(6,2), where rest = "[]"])
      (use assms(3-5) m(2) in \<open>auto simp: no_NftInfo_def owners_ok_def\<close>)
  with m(1) show ?thesis by (simp add: get_nft_info_def eff_bind_def eff_lift_def)
qed

text \<open>
  The contract of the type of a token: its overload reads what it writes. It carries over to the
  resource of an account, which both queries of it read.
\<close>

definition doc_NFT :: "('a \<Rightarrow> bcs_doc) \<Rightarrow> 'a NFT \<Rightarrow> bcs_doc" where
  "doc_NFT doc t = Doc_Tuple
     [doc_vector doc (NFT_tokens t), doc_EventHandle (NFT_sent_event t), doc_EventHandle (NFT_received_event t)]"

locale token =
  fixes T :: "'a token_type" and invar :: "'a \<Rightarrow> bool" and doc :: "'a \<Rightarrow> bcs_doc"
  assumes token_field: "serde_field (token_serde T) invar doc" and token_init: "invar (token_init T)"
begin

lemma tokens_field:
  "serde_field (serde_container (token_init T) (token_serde T)) (list_all invar) (doc_vector doc)"
  by (rule serde_field.container_field [OF token_field token_init])

lemma NFT_field: "serde_field (serde_NFT T) (\<lambda>t. list_all invar (NFT_tokens t)) (doc_NFT doc)"
proof
  fix s and x y :: "'a NFT"
  show "is_serialization s \<Longrightarrow> lengths_below (2 ^ 64) (doc_NFT doc x) \<Longrightarrow>
      serde_NFT T x s = Inr (x, bs_put (enc (doc_NFT doc x)) s)"
    by (simp add: serde_NFT_def doc_NFT_def act_bind_def act_return_def EventHandle_field.field_write
        serde_field.field_write [OF tokens_field])
  show "serde_NFT T y s = Inr (x, bs_advance (length (enc (doc_NFT doc x))) s)"
    if "\<not> is_serialization s" "list_all invar (NFT_tokens x)" "list_all invar (NFT_tokens y)"
      "lengths_below (2 ^ 28) (doc_NFT doc x)" "bs_starts (enc (doc_NFT doc x)) s"
    using that
    by (simp add: serde_NFT_def doc_NFT_def act_bind_def act_return_def add.assoc
        serde_field.field_read [OF tokens_field, where x = "NFT_tokens x"]
        EventHandle_field.field_read [where x = "NFT_sent_event x"]
        EventHandle_field.field_read [where x = "NFT_received_event x"])
qed

lemma account_served:
  assumes "serves_resources env \<lparr>AccountAddress_value = addr\<rparr> entries w w'"
    and "bcsSerialize_ResourcePath (ResourcePath_StructTag (nft_tag T ''NFT'')) = Inr key"
    and "map_of entries key = Some (enc (doc_NFT doc x))"
    and "list_all invar (NFT_tokens x)" and "lengths_below (2 ^ 28) (doc_NFT doc x)"
  shows "nft_get_account env T addr (c, w) = (Inr (Some x), (c, w'))"
    and "balance env T addr (c, w) = (Inr (Some (NFT_tokens x)), (c, w'))"
proof -
  obtain m where m: "get_account_state env \<lparr>AccountAddress_value = addr\<rparr> (c, w) = (Inr (Some m), (c, w'))"
      "map_of m = map_of entries"
    by (rule get_account_state_served [OF assms(1)])
  have "state_resource (serde_NFT T) no_NFT (nft_tag T ''NFT'') (Some m) = Inr (Some x)"
    by (rule state_resource_served [OF NFT_field _ assms(4,5,2), where rest = "[]"])
      (use assms(3) m(2) in \<open>simp_all add: no_NFT_def\<close>)
  with m(1) show "nft_get_account env T addr (c, w) = (Inr (Some x), (c, w'))"
    by (simp add: nft_get_account_def eff_bind_def eff_lift_def)
  have "state_resource (serde_container (token_init T) (token_serde T)) [] (nft_tag T ''NFT'') (Some m) = Inr (Some (NFT_tokens x))"
    by (rule state_resource_served [OF tokens_field _ assms(4) _ assms(2),
          where rest = "enc (doc_EventHandle (NFT_sent_event x)) @ enc (doc_EventHandle (NFT_received_event x))"])
      (use assms(3,5) m(2) in \<open>simp_all add: doc_NFT_def\<close>)
  with m(1) show "balance env T addr (c, w) = (Inr (Some (NFT_tokens x)), (c, w'))"
    by (simp add: balance_def eff_bind_def eff_lift_def eff_catch_def)
qed

lemma token_id_written:
  "lengths_below (2 ^ 64) (doc x) \<Longrightarrow> compute_token_id ssl T x = Inr (ssl_sha3_256 ssl (enc (doc x)))"
  using serde_field.field_write [OF token_field, of BcsSerde_new x]
  by (simp add: compute_token_id_def BcsSerde_new_def bs_put_def)

end

definition doc_Portrait :: "Portrait \<Rightarrow> bcs_doc" where
  "doc_Portrait t = Doc_Tuple [doc_vector doc_u8 (description t), doc_vector doc_u8 (ipfs_cid t)]"

interpretation Portrait_field: serde_field serde_Portrait "\<lambda>t. True" doc_Portrait
proof
  fix s and x y :: Portrait
  show "is_serialization s \<Longrightarrow> lengths_below (2 ^ 64) (doc_Portrait x) \<Longrightarrow>
      serde_Portrait x s = Inr (x, bs_put (enc (doc_Portrait x)) s)"
    by (simp add: serde_Portrait_def doc_Portrait_def act_bind_def act_return_def serde_bytes.field_write)
  show "serde_Portrait y s = Inr (x, bs_advance (length (enc (doc_Portrait x))) s)"
    if "\<not> is_serialization s" "lengths_below (2 ^ 28) (doc_Portrait x)" "bs_starts (enc (doc_Portrait x)) s"
    using that
    by (simp add: serde_Portrait_def doc_Portrait_def act_bind_def act_return_def
        serde_bytes.field_read [where x = "description x"] serde_bytes.field_read [where x = "ipfs_cid x"])
qed

interpretation Portrait_token: token Portrait_type "\<lambda>t. True" doc_Portrait
  by (rule token.intro) (simp_all add: Portrait_type_def Portrait_field.serde_field_axioms)

end
