(* ===== verification/Meta42.thy ===== *)
theory Meta42
  imports Nft_Token
begin

text \<open>
  \<open>src/cpp/meta42-cli/src/meta42.cpp\<close>: the client for shared files. Tokens are minted and shared by Move
  scripts; every sharing is an event of one global handle. The client keeps a copy of these events in
  a table of a local database, which it completes before every query.

  The database is not in the repository: \<open>storage\<close> holds the operations of it that the client
  uses, and \<open>storage_ok\<close> what their documentation says. The state is the client with the world, and the
  database.
\<close>

section \<open>Resources and events\<close>

definition META42_ADMIN_ADDRESS :: Address where
  "META42_ADMIN_ADDRESS =
     [0x45, 0x8d, 0x62, 0x33, 0x00, 0xe7, 0x97, 0x45, 0x1b, 0x3e, 0x79, 0x4a, 0x45, 0xb4, 0x10, 0x65]"

record Token =
  token_hdfs_path :: cstring

definition serde_Token :: "Token serde_op" where
  "serde_Token t =
     act_bind (serde_string (token_hdfs_path t)) (\<lambda>hdfs_path'.
     act_return (t\<lparr>token_hdfs_path := hdfs_path'\<rparr>))"

definition get_token_id :: "'k openssl \<Rightarrow> Token \<Rightarrow> u8 list result" where
  "get_token_id ssl t =
     (case serde_Token t BcsSerde_new of Inl e \<Rightarrow> Inl e | Inr (_, serde) \<Rightarrow> Inr (ssl_sha3_256 ssl (bs_bytes serde)))"

text \<open>Of the members of an account, only the tokens are read.\<close>

record Meta42_AccountInfo =
  meta_tokens :: "Token list"
  meta_minted_event :: EventHandle
  meta_sent_event :: EventHandle
  meta_received_event :: EventHandle

definition serde_Meta42_AccountInfo :: "Meta42_AccountInfo serde_op" where
  "serde_Meta42_AccountInfo t =
     act_bind (serde_container \<lparr>token_hdfs_path = []\<rparr> serde_Token (meta_tokens t)) (\<lambda>tokens'.
     act_return (t\<lparr>meta_tokens := tokens'\<rparr>))"

record GlobalInfo =
  global_minted_token_event :: EventHandle
  global_shared_token_event :: EventHandle

definition serde_GlobalInfo :: "GlobalInfo serde_op" where
  "serde_GlobalInfo t =
     act_bind (serde_EventHandle (global_minted_token_event t)) (\<lambda>minted_token_event'.
     act_bind (serde_EventHandle (global_shared_token_event t)) (\<lambda>shared_token_event'.
     act_return (t\<lparr>global_minted_token_event := minted_token_event',
       global_shared_token_event := shared_token_event'\<rparr>)))"

record SharedTokenEvent = Event +
  shared_sn :: u64
  shared_sender :: Address
  shared_receiver :: Address
  shared_token_id :: "u8 list"
  shared_message :: cstring

definition serde_SharedTokenEvent :: "SharedTokenEvent serde_op" where
  "serde_SharedTokenEvent t =
     act_bind (serde_address (shared_sender t)) (\<lambda>sender'.
     act_bind (serde_address (shared_receiver t)) (\<lambda>receiver'.
     act_bind (serde_bytes (shared_token_id t)) (\<lambda>token_id'.
     act_bind (serde_string (shared_message t)) (\<lambda>message'.
     act_return (t\<lparr>shared_sender := sender', shared_receiver := receiver', shared_token_id := token_id',
       shared_message := message'\<rparr>)))))"

section \<open>Scripts\<close>

definition await_script_call ::
    "('k, 'w) env \<Rightarrow> u64 \<Rightarrow> string \<Rightarrow> TypeTag list \<Rightarrow> txn_arg list \<Rightarrow> string \<Rightarrow> (('k, 'w) client_state, unit) eff" where
  "await_script_call env account_index file_name type_tags args error_info =
     eff_bind (await_execute_script env account_index (str file_name) type_tags (make_txn_args args)
       1000000 0 (str ''VLS'') 100) (\<lambda>(sender, sn).
     await_check_txn_vm_status env sender sn (str error_info))"

text \<open>\<open>accounts[0]\<close> of a wallet without accounts has no meaning.\<close>

definition meta_initialize :: "('k, 'w) env \<Rightarrow> (('k, 'w) client_state, unit) eff" where
  "meta_initialize env =
     eff_bind (allow_custom_script env True) (\<lambda>_.
     eff_bind (allow_publishing_module env True) (\<lambda>_.
     eff_bind (publish_module_file env ACCOUNT_ROOT_ID (str ''move/modules/Compare.mv'')) (\<lambda>_.
     eff_bind (publish_module_file env ACCOUNT_ROOT_ID (str ''move/modules/00_Meta42.mv'')) (\<lambda>_.
     eff_bind (get_all_accounts env) (\<lambda>accounts.
     case accounts of
       [] \<Rightarrow> eff_throw (Undefined_behaviour ''accounts[0]'')
     | admin' # rest \<Rightarrow>
         eff_bind (eff_catch
           (eff_bind (create_parent_vasp_account env (Account_address admin') (Account_auth_key admin')
             (str ''Meta42 Admin'') True) (\<lambda>_. eff_return ()))
           (eff_return ())) (\<lambda>_.
         script_call env 0 ''move/scripts/meta42_initialize.mv'' [] [] ''meta42::intialize''))))))"

definition await_accept :: "('k, 'w) env \<Rightarrow> u64 \<Rightarrow> (('k, 'w) client_state, unit) eff" where
  "await_accept env account_index =
     eff_catch (await_script_call env account_index ''move/scripts/meta42_accept.mv'' [] [] ''Meta42::accept'')
       (eff_return ())"

definition await_mint_token :: "('k, 'w) env \<Rightarrow> u64 \<Rightarrow> cstring \<Rightarrow> (('k, 'w) client_state, unit) eff" where
  "await_mint_token env account_index hdfs_path =
     eff_catch (await_script_call env account_index ''move/scripts/meta42_mint_token.mv'' [] [Arg_string hdfs_path]
       ''Meta42::await_mint_token'') (eff_return ())"

definition await_share_token_by_id ::
    "('k, 'w) env \<Rightarrow> u64 \<Rightarrow> Address \<Rightarrow> u8 list \<Rightarrow> cstring \<Rightarrow> (('k, 'w) client_state, unit) eff" where
  "await_share_token_by_id env account_index receiver token_id message =
     eff_catch (await_script_call env account_index ''move/scripts/meta42_share_token_by_id.mv'' []
       [Arg_address \<lparr>AccountAddress_value = receiver\<rparr>, Arg_array32 token_id, Arg_string message]
       ''Meta42::await_share_token'') (eff_return ())"

definition await_share_token_by_index ::
    "('k, 'w) env \<Rightarrow> u64 \<Rightarrow> Address \<Rightarrow> u64 \<Rightarrow> cstring \<Rightarrow> (('k, 'w) client_state, unit) eff" where
  "await_share_token_by_index env account_index receiver token_index message =
     eff_catch (await_script_call env account_index ''move/scripts/meta42_share_token_by_index.mv'' []
       [Arg_address \<lparr>AccountAddress_value = receiver\<rparr>, Arg_uint64 token_index, Arg_string message]
       ''Meta42::await_share_token'') (eff_return ())"

section \<open>Queries\<close>

definition meta_tag :: "string \<Rightarrow> StructTag" where
  "meta_tag resource_name = make_struct_tag VIOLAS_LIB_ADDRESS (str ''Meta42'') (str resource_name) []"

definition await_resource ::
    "('k, 'w) env \<Rightarrow> 'a serde_op \<Rightarrow> 'a \<Rightarrow> StructTag \<Rightarrow> Address \<Rightarrow> (('k, 'w) client_state, 'a option) eff" where
  "await_resource env f init tag address =
     eff_bind (await_get_account_state env \<lparr>AccountAddress_value = address\<rparr>) (\<lambda>account_state.
     case account_state of
       None \<Rightarrow> eff_return None
     | Some resources' \<Rightarrow> eff_lift (get_resource f init resources' tag))"

definition no_Meta42_AccountInfo :: Meta42_AccountInfo where
  "no_Meta42_AccountInfo = \<lparr>meta_tokens = [], meta_minted_event = no_handle, meta_sent_event = no_handle,
     meta_received_event = no_handle\<rparr>"

definition no_GlobalInfo :: GlobalInfo where
  "no_GlobalInfo = \<lparr>global_minted_token_event = no_handle, global_shared_token_event = no_handle\<rparr>"

definition no_SharedTokenEvent :: SharedTokenEvent where
  "no_SharedTokenEvent = \<lparr>sequence_number = 0, transaction_version = 0, shared_sn = 0, shared_sender = replicate 16 0,
     shared_receiver = replicate 16 0, shared_token_id = [], shared_message = []\<rparr>"

definition await_get_tokens :: "('k, 'w) env \<Rightarrow> Address \<Rightarrow> (('k, 'w) client_state, Token list) eff" where
  "await_get_tokens env address =
     eff_catch
       (eff_bind (await_resource env serde_Meta42_AccountInfo no_Meta42_AccountInfo (meta_tag ''AccountInfo'') address)
         (\<lambda>account_info. eff_return (case account_info of None \<Rightarrow> [] | Some info \<Rightarrow> meta_tokens info)))
       (eff_return [])"

section \<open>The history of shared tokens\<close>

record SharedTokenHistory =
  history_sn :: u64
  history_sender :: cstring
  history_receiver :: cstring
  history_token_id :: cstring
  history_message :: cstring
  history_block_version :: u64

definition SharedTokenHistory_of :: "SharedTokenEvent \<Rightarrow> SharedTokenHistory" where
  "SharedTokenHistory_of event = \<lparr>history_sn = sequence_number event, history_sender = bytes_to_hex (shared_sender event),
     history_receiver = bytes_to_hex (shared_receiver event), history_token_id = bytes_to_hex (shared_token_id event),
     history_message = shared_message event, history_block_version = transaction_version event\<rparr>"

record 'd storage =
  sync_schema :: "('d, unit) eff"
  storage_count :: "('d, nat) eff"
  storage_insert :: "SharedTokenHistory \<Rightarrow> ('d, unit) eff"
  db_exec :: "cstring \<Rightarrow> 'd \<Rightarrow> 'd"

fun insert_events :: "'d storage \<Rightarrow> SharedTokenEvent list \<Rightarrow> ('d, unit) eff" where
  "insert_events st [] = eff_return ()"
| "insert_events st (event # events) =
     eff_bind (storage_insert st (SharedTokenHistory_of event)) (\<lambda>_. insert_events st events)"

definition history_query :: "Address \<Rightarrow> u8 list \<Rightarrow> cstring" where
  "history_query addr token_id =
     str ''WITH RECURSIVE'' @ [10] @ replicate 32 0x20 @
     str ''history(sn, sender, receiver, token_id, message, block_version) AS ('' @ [10] @ replicate 32 0x20 @
     str ''SELECT sth.* FROM shared_token_events as sth WHERE sth.receiver='' @ [39] @ bytes_to_hex addr @ [39] @
     str '' AND sth.token_id='' @ [39] @ bytes_to_hex token_id @ [39, 10] @ replicate 32 0x20 @
     str ''UNION ALL'' @ [10] @ replicate 32 0x20 @
     str ''SELECT ste.* FROM history AS h INNER JOIN shared_token_events AS ste ON h.sender = ste.receiver AND h.token_id=ste.token_id'' @
     [10] @ replicate 32 0x20 @ str '')'' @ [10] @ replicate 28 0x20 @ str ''SELECT * FROM history h''"

text \<open>What the query prints is not part of the state.\<close>

definition make_recursive_query_shared_token :: "'d storage \<Rightarrow> Address \<Rightarrow> u8 list \<Rightarrow> ('d, unit) eff" where
  "make_recursive_query_shared_token st addr token_id = eff_modify (db_exec st (history_query addr token_id))"

text \<open>The part of the query that completes the table, in its \<open>try\<close> block; \<open>count'\<close> is an \<open>int\<close>.\<close>

definition complete_history ::
    "('k, 'w) env \<Rightarrow> 'd storage \<Rightarrow> nat \<Rightarrow> (('k, 'w) client_state \<times> 'd, unit) eff" where
  "complete_history env st count' =
     eff_bind (eff_fst (await_resource env serde_GlobalInfo no_GlobalInfo (meta_tag ''GlobalInfo'') META42_ADMIN_ADDRESS))
       (\<lambda>global_info.
     case global_info of
       None \<Rightarrow> eff_return ()
     | Some info \<Rightarrow>
         (let event_count = counter (global_shared_token_event info)
          in if (of_nat count' :: u64) < event_count
             then eff_bind (eff_fst (client_await_query_events env serde_SharedTokenEvent no_SharedTokenEvent
                    (global_shared_token_event info) (of_nat count') event_count)) (\<lambda>events.
                  eff_snd (insert_events st events))
             else eff_return ()))"

definition query_shared_token_events_history ::
    "('k, 'w) env \<Rightarrow> 'd storage \<Rightarrow> Address \<Rightarrow> u8 list \<Rightarrow> (('k, 'w) client_state \<times> 'd, SharedTokenEvent list) eff" where
  "query_shared_token_events_history env st addr token_id =
     eff_bind (eff_snd (sync_schema st)) (\<lambda>_.
     eff_bind (eff_snd (storage_count st)) (\<lambda>count'.
     eff_bind (eff_catch (complete_history env st count') (eff_return ())) (\<lambda>_.
     eff_bind (eff_snd (make_recursive_query_shared_token st addr token_id)) (\<lambda>_.
     eff_return []))))"

section \<open>The documents of resources and events\<close>

lemma META42_ADMIN_ADDRESS_hex: "hex_to_array_u8 16 (str ''458d623300e797451b3e794a45b41065'') = Inr META42_ADMIN_ADDRESS"
  using hex_to_array_u8_hex [of META42_ADMIN_ADDRESS 16 "[]"]
  by (simp add: META42_ADMIN_ADDRESS_def bytes_to_hex_def hex_digit_def str_def)

definition doc_Token :: "Token \<Rightarrow> bcs_doc" where
  "doc_Token t = Doc_Tuple
     [Doc_Str (token_hdfs_path t)]"

interpretation Token_field: serde_field serde_Token "\<lambda>t. True" doc_Token
proof
  fix s and x y :: Token
  show "is_serialization s \<Longrightarrow> lengths_below (2 ^ 64) (doc_Token x) \<Longrightarrow>
      serde_Token x s = Inr (x, bs_put (enc (doc_Token x)) s)"
    by (simp add: serde_Token_def doc_Token_def act_bind_def act_return_def serde_string.field_write)
  show "serde_Token y s = Inr (x, bs_advance (length (enc (doc_Token x))) s)"
    if "\<not> is_serialization s"
      "lengths_below (2 ^ 28) (doc_Token x)"
      "bs_starts (enc (doc_Token x)) s"
    using that
    by (simp add: serde_Token_def doc_Token_def act_bind_def act_return_def add.assoc
        serde_string.field_read [where x = "token_hdfs_path x"])
qed

definition doc_GlobalInfo :: "GlobalInfo \<Rightarrow> bcs_doc" where
  "doc_GlobalInfo t = Doc_Tuple
     [doc_EventHandle (global_minted_token_event t),
      doc_EventHandle (global_shared_token_event t)]"

interpretation GlobalInfo_field: serde_field serde_GlobalInfo "\<lambda>t. True" doc_GlobalInfo
proof
  fix s and x y :: GlobalInfo
  show "is_serialization s \<Longrightarrow> lengths_below (2 ^ 64) (doc_GlobalInfo x) \<Longrightarrow>
      serde_GlobalInfo x s = Inr (x, bs_put (enc (doc_GlobalInfo x)) s)"
    by (simp add: serde_GlobalInfo_def doc_GlobalInfo_def act_bind_def act_return_def EventHandle_field.field_write)
  show "serde_GlobalInfo y s = Inr (x, bs_advance (length (enc (doc_GlobalInfo x))) s)"
    if "\<not> is_serialization s"
      "lengths_below (2 ^ 28) (doc_GlobalInfo x)"
      "bs_starts (enc (doc_GlobalInfo x)) s"
    using that
    by (simp add: serde_GlobalInfo_def doc_GlobalInfo_def act_bind_def act_return_def add.assoc
        EventHandle_field.field_read [where x = "global_minted_token_event x"]
        EventHandle_field.field_read [where x = "global_shared_token_event x"])
qed

definition doc_SharedTokenEvent :: "SharedTokenEvent \<Rightarrow> bcs_doc" where
  "doc_SharedTokenEvent t = Doc_Tuple
     [doc_array 16 doc_u8 (shared_sender t),
      doc_array 16 doc_u8 (shared_receiver t),
      doc_vector doc_u8 (shared_token_id t),
      Doc_Str (shared_message t)]"

text \<open>The member \<open>sn\<close> is not read, and keeps the value that stands for an indeterminate one.\<close>

definition shared_ok :: "SharedTokenEvent \<Rightarrow> bool" where
  "shared_ok t \<longleftrightarrow> length (shared_sender t) = 16 \<and> length (shared_receiver t) = 16 \<and> shared_sn t = 0"

interpretation SharedTokenEvent_field: event_field serde_SharedTokenEvent shared_ok doc_SharedTokenEvent
proof
  fix s and x y :: SharedTokenEvent
  show "serde_SharedTokenEvent y s = Inr (x\<lparr>sequence_number := sequence_number y, transaction_version := transaction_version y\<rparr>, bs_advance (length (enc (doc_SharedTokenEvent x))) s)"
    if "\<not> is_serialization s"
      "shared_ok x"
      "shared_ok y"
      "lengths_below (2 ^ 28) (doc_SharedTokenEvent x)"
      "bs_starts (enc (doc_SharedTokenEvent x)) s"
    using that
    by (simp add: serde_SharedTokenEvent_def doc_SharedTokenEvent_def shared_ok_def act_bind_def act_return_def add.assoc
        serde_address.field_read [where x = "shared_sender x"]
        serde_address.field_read [where x = "shared_receiver x"]
        serde_bytes.field_read [where x = "shared_token_id x"]
        serde_string.field_read [where x = "shared_message x"])
qed

section \<open>The table is a prefix of the log\<close>

text \<open>
  Documented behaviour of the database: \<open>count\<close> is the number of rows, and \<open>insert\<close> either throws and
  leaves the table alone, or adds a row, whose primary key is not the one of the object but one
  more than the largest in the table. A query with \<open>SELECT\<close> changes nothing.
\<close>

definition next_sn :: "SharedTokenHistory list \<Rightarrow> u64" where
  "next_sn rows = (if rows = [] then 1 else Max (history_sn ` set rows) + 1)"

definition storage_ok :: "'d storage \<Rightarrow> ('d \<Rightarrow> SharedTokenHistory list) \<Rightarrow> bool" where
  "storage_ok st rows \<longleftrightarrow>
     (\<forall>d r d'. sync_schema st d = (r, d') \<longrightarrow> rows d' = rows d) \<and>
     (\<forall>d. storage_count st d = (Inr (length (rows d)), d)) \<and>
     (\<forall>h d r d'. storage_insert st h d = (r, d') \<longrightarrow>
        (case r of Inl e \<Rightarrow> rows d' = rows d | Inr _ \<Rightarrow> rows d' = rows d @ [h\<lparr>history_sn := next_sn (rows d)\<rparr>])) \<and>
     (\<forall>addr token_id d. rows (db_exec st (history_query addr token_id) d) = rows d)"

text \<open>The first \<open>n\<close> events of the log, as rows.\<close>

definition table :: "SharedTokenEvent list \<Rightarrow> nat \<Rightarrow> SharedTokenHistory list" where
  "table log n = map (\<lambda>k. (SharedTokenHistory_of (log ! k))\<lparr>history_sn := of_nat (k + 1)\<rparr>) [0..<n]"

lemma length_table [simp]: "length (table log n) = n"
  by (simp add: table_def)

lemma table_Suc: "table log (Suc n) = table log n @ [(SharedTokenHistory_of (log ! n))\<lparr>history_sn := of_nat (n + 1)\<rparr>]"
  by (simp add: table_def)

lemma next_sn_table:
  assumes "n < 2 ^ 64"
  shows "next_sn (table log n) = of_nat (n + 1)"
proof (cases n)
  case (Suc m)
  have "Max (history_sn ` set (table log n)) = of_nat n"
  proof (rule Max_eqI)
    fix y assume "y \<in> history_sn ` set (table log n)"
    then obtain k where "k < n" "y = of_nat (k + 1)" by (auto simp: table_def)
    then show "y \<le> of_nat n" using assms by (simp add: word_le_nat_alt unat_of_nat del: of_nat_Suc of_nat_add)
  next
    show "of_nat n \<in> history_sn ` set (table log n)" by (simp add: Suc table_Suc)
  qed simp
  then show ?thesis by (auto simp: next_sn_def Suc table_def)
qed (simp add: next_sn_def table_def)

lemma insert_events_table:
  assumes "storage_ok st rows" and "length log < 2 ^ 64"
    and "insert_events st events d = (r, d')" and "rows d = table log n"
    and "events = take m (drop n log)"
  shows "\<exists>n'. n \<le> n' \<and> n' \<le> n + length events \<and> rows d' = table log n' \<and> (r = Inr () \<longrightarrow> n' = n + length events)"
  using assms(3-5)
proof (induction events arbitrary: d n m)
  case Nil
  then show ?case by (auto simp: eff_return_def intro!: exI [of _ n])
next
  case (Cons event events)
  have n: "n < length log" using Cons.prems(3) by (metis drop_all leI list.distinct(1) take_Nil)
  then obtain m' where m: "m = Suc m'" using Cons.prems(3) by (cases m) auto
  from Cons.prems(3) n have ev: "event = log ! n" "events = take m' (drop (Suc n) log)"
    by (simp_all add: m Cons_nth_drop_Suc [symmetric])
  obtain q d1 where q: "storage_insert st (SharedTokenHistory_of event) d = (q, d1)"
    by (cases "storage_insert st (SharedTokenHistory_of event) d")
  have step: "case q of Inl e \<Rightarrow> rows d1 = rows d
      | Inr _ \<Rightarrow> rows d1 = rows d @ [(SharedTokenHistory_of event)\<lparr>history_sn := next_sn (rows d)\<rparr>]"
    using assms(1) q unfolding storage_ok_def by blast
  show ?case
  proof (cases q)
    case (Inl e)
    with Cons.prems(1,2) q step show ?thesis by (auto simp: eff_bind_def intro!: exI [of _ n])
  next
    case (Inr u)
    have rows: "rows d1 = table log (Suc n)"
      using step Inr Cons.prems(2) n assms(2) ev by (simp add: table_Suc next_sn_table)
    have "insert_events st events d1 = (r, d')" using Cons.prems(1) q Inr by (simp add: eff_bind_def)
    from Cons.IH [OF this rows ev(2)] obtain n' where "Suc n \<le> n'" "n' \<le> Suc n + length events"
      "rows d' = table log n'" "r = Inr () \<longrightarrow> n' = Suc n + length events" by blast
    then show ?thesis by (intro exI [of _ n']) simp
  qed
qed

text \<open>The events that the service has under a key: an answer is a segment of them.\<close>

definition event_answers :: "SharedTokenEvent list \<Rightarrow> (u8 list \<times> u64 \<times> u64) list" where
  "event_answers = map (\<lambda>x. (enc (doc_SharedTokenEvent x), sequence_number x, transaction_version x))"

definition serves_log :: "('k, 'w) env \<Rightarrow> SharedTokenEvent list \<Rightarrow> cstring \<Rightarrow> bool" where
  "serves_log env log key \<longleftrightarrow>
     (\<forall>start limit w evs w'. rpc_await_get_events (env_rpc env) key start limit w = (Inr evs, w') \<longrightarrow>
        (\<exists>m. map event_data evs = event_answers (take m (drop (unat start) log))))"

definition serves_history :: "('k, 'w) env \<Rightarrow> SharedTokenEvent list \<Rightarrow> bool" where
  "serves_history env log \<longleftrightarrow>
     (\<forall>info s t. await_resource env serde_GlobalInfo no_GlobalInfo (meta_tag ''GlobalInfo'') META42_ADMIN_ADDRESS s =
        (Inr (Some info), t) \<longrightarrow> serves_log env log (bytes_to_hex (guid (global_shared_token_event info))))"

definition log_ok :: "SharedTokenEvent list \<Rightarrow> bool" where
  "log_ok log \<longleftrightarrow> length log < 2 ^ 64 \<and> (\<forall>x \<in> set log. shared_ok x \<and> lengths_below (2 ^ 28) (doc_SharedTokenEvent x))"

lemma query_answers:
  assumes "log_ok log" and "set xs \<subseteq> set log"
  shows "query_events serde_SharedTokenEvent no_SharedTokenEvent (event_answers xs) = Inr xs"
  unfolding event_answers_def
  by (rule SharedTokenEvent_field.query) (use assms in \<open>auto simp: log_ok_def no_SharedTokenEvent_def shared_ok_def\<close>)

text \<open>What completing the table does to it, whether it ends or throws.\<close>

lemma complete_history_table:
  assumes "storage_ok st rows" and "log_ok log"
    and log: "serves_history env log"
    and run: "complete_history env st n (s, d) = (r, (t, d'))" and rows: "rows d = table log n" "n \<le> length log"
  shows "\<exists>n'. n \<le> n' \<and> n' \<le> length log \<and> rows d' = table log n'"
proof (cases "d' = d")
  case False
  then obtain info s1 events s2 q where
    info: "await_resource env serde_GlobalInfo no_GlobalInfo (meta_tag ''GlobalInfo'') META42_ADMIN_ADDRESS s = (Inr (Some info), s1)"
    and events: "client_await_query_events env serde_SharedTokenEvent no_SharedTokenEvent (global_shared_token_event info)
      (of_nat n) (counter (global_shared_token_event info)) s1 = (Inr events, s2)"
    and ins: "insert_events st events d = (q, d')"
    using run by (auto simp: complete_history_def eff_bind_def eff_fst_def eff_snd_def eff_return_def Let_def
        split: prod.splits sum.splits option.splits if_splits)
  have len: "length log < 2 ^ 64" using assms(2) by (simp add: log_ok_def)
  obtain evs w' where "rpc_await_get_events (env_rpc env) (bytes_to_hex (guid (global_shared_token_event info)))
      (of_nat n) (counter (global_shared_token_event info)) (snd s1) = (Inr evs, w')"
    and q: "query_events serde_SharedTokenEvent no_SharedTokenEvent (map event_data evs) = Inr events"
    using events by (auto simp: client_await_query_events_def client_await_get_events_def eff_iff)
  moreover have "serves_log env log (bytes_to_hex (guid (global_shared_token_event info)))"
    using log info unfolding serves_history_def by blast
  ultimately obtain m where "map event_data evs = event_answers (take m (drop (unat (of_nat n :: u64)) log))"
    unfolding serves_log_def by blast
  moreover have "unat (of_nat n :: u64) = n" using rows(2) len by (simp add: unat_of_nat)
  ultimately have "map event_data evs = event_answers (take m (drop n log))" by simp
  moreover have "set (take m (drop n log)) \<subseteq> set log" by (auto dest: in_set_takeD in_set_dropD)
  ultimately have ev: "events = take m (drop n log)" using q query_answers [OF assms(2)] by simp
  from insert_events_table [OF assms(1) len ins rows(1) ev] obtain n' where
    "n \<le> n'" "n' \<le> n + length events" "rows d' = table log n'" by blast
  moreover have "n + length events \<le> length log" using rows(2) by (simp add: ev)
  ultimately show ?thesis by (intro exI [of _ n']) simp
qed (use rows in auto)

lemma history_query_table:
  assumes "storage_ok st rows" and "log_ok log"
    and "serves_history env log"
    and run: "query_shared_token_events_history env st addr token_id (s, d) = (r, (t, d'))"
    and rows: "rows d = table log n" "n \<le> length log"
  shows "\<exists>n'. n \<le> n' \<and> n' \<le> length log \<and> rows d' = table log n'"
proof -
  obtain r1 d1 where sync: "sync_schema st d = (r1, d1)" by (cases "sync_schema st d")
  have rows1: "rows d1 = table log n" using assms(1) sync rows(1) unfolding storage_ok_def by metis
  have cnt: "storage_count st d1 = (Inr n, d1)" using assms(1) rows1 unfolding storage_ok_def by simp
  obtain r2 t2 d2 where comp: "complete_history env st n (s, d1) = (r2, (t2, d2))"
    by (metis prod.collapse)
  from complete_history_table [OF assms(1-3) comp rows1 rows(2)] obtain n' where
    n': "n \<le> n'" "n' \<le> length log" "rows d2 = table log n'" by blast
  have "rows d' \<in> {rows d1, rows d2, rows (db_exec st (history_query addr token_id) d2)}"
    using run sync cnt comp
    by (auto simp: query_shared_token_events_history_def make_recursive_query_shared_token_def eff_bind_def
        eff_snd_def eff_catch_def eff_return_def eff_modify_def split: sum.splits if_splits prod.splits)
  moreover have "rows (db_exec st (history_query addr token_id) d2) = rows d2"
    using assms(1) unfolding storage_ok_def by blast
  ultimately show ?thesis using n' rows1 rows(2) by auto
qed

text \<open>When nothing fails and the service gives all events, the table is complete.\<close>

lemma insert_events_succeed:
  assumes "\<And>h d. \<exists>d'. storage_insert st h d = (Inr (), d')"
  shows "\<exists>d'. insert_events st events d = (Inr (), d')"
proof (induction events arbitrary: d)
  case (Cons event events)
  obtain d1 where "storage_insert st (SharedTokenHistory_of event) d = (Inr (), d1)" using assms by blast
  with Cons.IH [of d1] show ?case by (simp add: eff_bind_def)
qed (simp add: eff_return_def)

lemma history_query_complete:
  assumes st: "storage_ok st rows" "\<And>h d. \<exists>d'. storage_insert st h d = (Inr (), d')" "sync_schema st d = (Inr (), d1)"
    and log: "log_ok log"
    and info: "await_resource env serde_GlobalInfo no_GlobalInfo (meta_tag ''GlobalInfo'') META42_ADMIN_ADDRESS s = (Inr (Some info), s1)"
      "counter (global_shared_token_event info) = of_nat (length log)"
    and evs: "rpc_await_get_events (env_rpc env) (bytes_to_hex (guid (global_shared_token_event info)))
        (of_nat n) (of_nat (length log)) (snd s1) = (Inr evs, w')" "map event_data evs = event_answers (drop n log)"
    and rows: "rows d = table log n" "n \<le> length log"
  shows "\<exists>t d'. query_shared_token_events_history env st addr token_id (s, d) = (Inr [], (t, d')) \<and>
    rows d' = table log (length log)"
proof -
  have len: "length log < 2 ^ 64" using log by (simp add: log_ok_def)
  have rows1: "rows d1 = table log n" using st(1,3) rows(1) unfolding storage_ok_def by metis
  have cnt: "storage_count st d1 = (Inr n, d1)" using st(1) rows1 unfolding storage_ok_def by simp
  have keep: "rows (db_exec st (history_query addr token_id) e) = rows e" for e
    using st(1) unfolding storage_ok_def by blast
  have "\<exists>t d2. complete_history env st n (s, d1) = (Inr (), (t, d2)) \<and> rows d2 = table log (length log)"
  proof (cases "n < length log")
    case True
    have less: "(of_nat n :: u64) < of_nat (length log)" using True len by (simp add: word_less_nat_alt unat_of_nat)
    have q: "query_events serde_SharedTokenEvent no_SharedTokenEvent (map event_data evs) = Inr (drop n log)"
      using query_answers [OF log, of "drop n log"] evs(2) by (auto dest: in_set_dropD)
    obtain d2 where ins: "insert_events st (drop n log) d1 = (Inr (), d2)"
      using insert_events_succeed [OF st(2)] by blast
    have "drop n log = take (length log) (drop n log)" by simp
    from insert_events_table [OF st(1) len ins rows1 this] rows(2) have "rows d2 = table log (length log)" by auto
    moreover have "client_await_query_events env serde_SharedTokenEvent no_SharedTokenEvent (global_shared_token_event info)
        (of_nat n) (of_nat (length log)) s1 = (Inr (drop n log), (fst s1, w'))"
      using evs(1) q by (simp add: client_await_query_events_def client_await_get_events_def eff_bind_def eff_snd_def eff_lift_def)
    ultimately show ?thesis
      using info less ins
      by (simp add: complete_history_def eff_bind_def eff_fst_def eff_snd_def Let_def)
  next
    case False
    then have "n = length log" using rows(2) by simp
    with info rows1 show ?thesis
      by (simp add: complete_history_def eff_bind_def eff_fst_def eff_return_def Let_def)
  qed
  then obtain t d2 where "complete_history env st n (s, d1) = (Inr (), (t, d2))" "rows d2 = table log (length log)" by blast
  with st(3) cnt keep [of d2] show ?thesis
    by (simp add: query_shared_token_events_history_def make_recursive_query_shared_token_def eff_bind_def
        eff_snd_def eff_catch_def eff_return_def eff_modify_def)
qed

text \<open>A series of queries, each of which may fail or be cut off.\<close>

fun history_queries ::
    "('k, 'w) env \<Rightarrow> 'd storage \<Rightarrow> (Address \<times> u8 list) list \<Rightarrow> ('k, 'w) client_state \<times> 'd \<Rightarrow> ('k, 'w) client_state \<times> 'd" where
  "history_queries env st [] s = s"
| "history_queries env st ((addr, token_id) # queries) s =
     history_queries env st queries (snd (query_shared_token_events_history env st addr token_id s))"

lemma history_queries_table:
  assumes "storage_ok st rows" and "log_ok log" and "serves_history env log"
    and "rows d = table log n" and "n \<le> length log"
  shows "\<exists>n'. n \<le> n' \<and> n' \<le> length log \<and> rows (snd (history_queries env st queries (s, d))) = table log n'"
  using assms(4,5)
proof (induction queries arbitrary: s d n)
  case (Cons query queries)
  obtain addr token_id where q: "query = (addr, token_id)" by (cases query)
  obtain r t d1 where run: "query_shared_token_events_history env st addr token_id (s, d) = (r, (t, d1))"
    by (metis prod.collapse)
  from history_query_table [OF assms(1-3) run Cons.prems] obtain n1 where
    n1: "n \<le> n1" "n1 \<le> length log" "rows d1 = table log n1" by blast
  from Cons.IH [OF n1(3,2)] obtain n' where "n1 \<le> n'" "n' \<le> length log"
    "rows (snd (history_queries env st queries (t, d1))) = table log n'" by blast
  with n1(1) show ?case by (intro exI [of _ n']) (simp add: q run)
qed auto

text \<open>The resource is read from the text of the account.\<close>

lemma await_resource_served:
  assumes "serde_field f invar doc" and "invar init" and "invar x" and "lengths_below (2 ^ 28) (doc x)"
    and "bcsSerialize_ResourcePath (ResourcePath_StructTag tag) = Inr key"
    and "await_serves_resources env \<lparr>AccountAddress_value = address\<rparr> entries w w'"
    and "map_of entries key = Some (enc (doc x) @ rest)"
  shows "await_resource env f init tag address (c, w) = (Inr (Some x), (c, w'))"
proof (rule await_get_account_state_served [OF assms(6), of c])
  fix m
  assume "await_get_account_state env \<lparr>AccountAddress_value = address\<rparr> (c, w) = (Inr (Some m), (c, w'))"
    and m: "map_of m = map_of entries"
  moreover from m have "map_of m key = Some (enc (doc x) @ rest)" using assms(7) by simp
  from get_resource_prefix [OF assms(1-5) this] have "get_resource f init m tag = Inr (Some x)" .
  ultimately show ?thesis by (simp add: await_resource_def eff_bind_def eff_lift_def)
qed

lemma history_query_served:
  assumes st: "storage_ok st rows" "\<And>h d. \<exists>d'. storage_insert st h d = (Inr (), d')" "sync_schema st d = (Inr (), d1)"
    and log: "log_ok log"
    and info: "await_serves_resources env \<lparr>AccountAddress_value = META42_ADMIN_ADDRESS\<rparr> entries w w'"
      "bcsSerialize_ResourcePath (ResourcePath_StructTag (meta_tag ''GlobalInfo'')) = Inr key"
      "map_of entries key = Some (enc (doc_GlobalInfo info))" "lengths_below (2 ^ 28) (doc_GlobalInfo info)"
      "counter (global_shared_token_event info) = of_nat (length log)"
    and evs: "rpc_await_get_events (env_rpc env) (bytes_to_hex (guid (global_shared_token_event info)))
        (of_nat n) (of_nat (length log)) w' = (Inr evs, w'')" "map event_data evs = event_answers (drop n log)"
    and rows: "rows d = table log n" "n \<le> length log"
  shows "\<exists>t d'. query_shared_token_events_history env st addr token_id ((c, w), d) = (Inr [], (t, d')) \<and>
    rows d' = table log (length log)"
proof -
  have "await_resource env serde_GlobalInfo no_GlobalInfo (meta_tag ''GlobalInfo'') META42_ADMIN_ADDRESS (c, w) =
      (Inr (Some info), (c, w'))"
    by (rule await_resource_served [OF GlobalInfo_field.serde_field_axioms _ _ info(4,2,1), where rest = "[]"])
      (use info(3) in simp_all)
  from history_query_complete [OF st log this info(5) _ evs(2) rows, where w' = w''] evs(1) show ?thesis by simp
qed

end
