(* ===== verification/Meta42_History.thy ===== *)
theory Meta42_History
  imports Meta42 "HOL-Library.Multiset"
begin

text \<open>
  The recursive query of \<open>make_recursive_query_shared_token\<close> in \<open>src/cpp/meta42-cli/src/meta42.cpp\<close>: how a
  token came to an account.

  A recursive table expression of SQL is computed with a queue. Its first part fills the queue; then,
  until the queue is empty, a row is taken out and given out, and the second part of the expression, with
  this row as the only row of \<open>history\<close>, adds rows to the queue. In which order rows are taken out is
  not specified, so \<open>history_step\<close> is a relation; \<open>history_fifo\<close> takes the oldest row, with fuel. \<open>UNION ALL\<close>
  drops no duplicates: the lemmas show that the query ends exactly when no token came back to an account
  that had passed it on.
\<close>

section \<open>The query\<close>

text \<open>\<open>WHERE sth.receiver = ... AND sth.token_id = ...\<close>.\<close>

definition first_rows :: "SharedTokenHistory list \<Rightarrow> Address \<Rightarrow> u8 list \<Rightarrow> SharedTokenHistory list" where
  "first_rows rows addr token_id =
     filter (\<lambda>sth. history_receiver sth = bytes_to_hex addr \<and> history_token_id sth = bytes_to_hex token_id) rows"

text \<open>\<open>ON h.sender = ste.receiver AND h.token_id = ste.token_id\<close>.\<close>

definition earlier_rows :: "SharedTokenHistory list \<Rightarrow> SharedTokenHistory \<Rightarrow> SharedTokenHistory list" where
  "earlier_rows rows h =
     filter (\<lambda>ste. history_sender h = history_receiver ste \<and> history_token_id h = history_token_id ste) rows"

text \<open>The rows that wait in the queue, and those that were given out.\<close>

type_synonym history_state = "SharedTokenHistory multiset \<times> SharedTokenHistory multiset"

definition history_start :: "SharedTokenHistory list \<Rightarrow> Address \<Rightarrow> u8 list \<Rightarrow> history_state" where
  "history_start rows addr token_id = (mset (first_rows rows addr token_id), {#})"

inductive history_step :: "SharedTokenHistory list \<Rightarrow> history_state \<Rightarrow> history_state \<Rightarrow> bool" for rows where
  take: "history_step rows (add_mset h queue, given) (queue + mset (earlier_rows rows h), add_mset h given)"

inductive_cases history_stepE: "history_step rows s t"

abbreviation history_steps :: "SharedTokenHistory list \<Rightarrow> history_state \<Rightarrow> history_state \<Rightarrow> bool" where
  "history_steps rows \<equiv> (history_step rows)\<^sup>*\<^sup>*"

text \<open>The queue as a list, of which the first row is taken: \<open>None\<close> when the fuel does not last.\<close>

fun history_fifo :: "nat \<Rightarrow> SharedTokenHistory list \<Rightarrow> SharedTokenHistory list \<Rightarrow> SharedTokenHistory list option" where
  "history_fifo fuel rows [] = Some []"
| "history_fifo 0 rows (h # queue) = None"
| "history_fifo (Suc fuel) rows (h # queue) =
     map_option (Cons h) (history_fifo fuel rows (queue @ earlier_rows rows h))"

lemma history_fifo_steps:
  "history_fifo fuel rows queue = Some given \<Longrightarrow> history_steps rows (mset queue, acc) ({#}, acc + mset given)"
proof (induction fuel rows queue arbitrary: acc given rule: history_fifo.induct)
  case (3 fuel rows h queue)
  then obtain given' where g: "history_fifo fuel rows (queue @ earlier_rows rows h) = Some given'" "given = h # given'" by auto
  have "history_step rows (mset (h # queue), acc) (mset (queue @ earlier_rows rows h), add_mset h acc)"
    using history_step.take [of rows h "mset queue" acc] by simp
  also from 3(1) [OF g(1), of "add_mset h acc"] have "history_steps rows \<dots> ({#}, acc + mset given)" by (simp add: g(2))
  finally show ?case .
qed auto

section \<open>Which rows are given out\<close>

text \<open>\<open>(r, h)\<close>: the token came by \<open>r\<close> to the account that passed it on by \<open>h\<close>.\<close>

definition came_by :: "SharedTokenHistory list \<Rightarrow> (SharedTokenHistory \<times> SharedTokenHistory) set" where
  "came_by rows = {(r, h). h \<in> set rows \<and> r \<in> set (earlier_rows rows h)}"

definition history_of :: "SharedTokenHistory list \<Rightarrow> Address \<Rightarrow> u8 list \<Rightarrow> SharedTokenHistory set" where
  "history_of rows addr token_id = {r. \<exists>h \<in> set (first_rows rows addr token_id). (r, h) \<in> (came_by rows)\<^sup>*}"

lemma came_by_rows: "came_by rows \<subseteq> set rows \<times> set rows"
  by (auto simp: came_by_def earlier_rows_def)

lemma finite_came_by: "finite (came_by rows)"
  by (rule finite_subset [OF came_by_rows]) simp

text \<open>
  In every state, the rows of the history are those given out and those that can still be reached from
  the queue.
\<close>

definition history_ok :: "SharedTokenHistory list \<Rightarrow> SharedTokenHistory set \<Rightarrow> history_state \<Rightarrow> bool" where
  "history_ok rows all s \<longleftrightarrow>
     set_mset (fst s) \<subseteq> set rows \<and> all = set_mset (snd s) \<union> {r. \<exists>h \<in># fst s. (r, h) \<in> (came_by rows)\<^sup>*}"

lemma history_ok_start: "history_ok rows (history_of rows addr token_id) (history_start rows addr token_id)"
  by (auto simp: history_ok_def history_of_def history_start_def first_rows_def)

lemma reached_split:
  assumes "h \<in> set rows"
  shows "{r. (r, h) \<in> (came_by rows)\<^sup>*} = insert h {r. \<exists>e \<in> set (earlier_rows rows h). (r, e) \<in> (came_by rows)\<^sup>*}"
  using assms by (auto simp: came_by_def elim: rtranclE intro: rtrancl_into_rtrancl)

lemma history_ok_step:
  assumes "history_step rows s t" and "history_ok rows all s"
  shows "history_ok rows all t"
  using assms(1)
proof cases
  case (take h queue given)
  with assms(2) have h: "h \<in> set rows" and "set_mset queue \<subseteq> set rows"
    and all: "all = set_mset given \<union> {r. (r, h) \<in> (came_by rows)\<^sup>*} \<union> {r. \<exists>e \<in># queue. (r, e) \<in> (came_by rows)\<^sup>*}"
    by (auto simp: history_ok_def)
  moreover have "set (earlier_rows rows h) \<subseteq> set rows" by (auto simp: earlier_rows_def)
  ultimately show ?thesis unfolding all reached_split [OF h] by (auto simp: history_ok_def take)
qed

lemma history_ok_steps: "history_steps rows s t \<Longrightarrow> history_ok rows all s \<Longrightarrow> history_ok rows all t"
  by (induction rule: rtranclp_induct) (auto intro: history_ok_step)

lemma history_result:
  "history_steps rows (history_start rows addr token_id) ({#}, given) \<Longrightarrow> set_mset given = history_of rows addr token_id"
  using history_ok_steps [OF _ history_ok_start] by (fastforce simp: history_ok_def)

section \<open>Without cycles the query ends\<close>

text \<open>
  Only the rows by which the token came to the account matter: the queue never holds another one.
\<close>

lemma history_of_rows: "history_of rows addr token_id \<subseteq> set rows"
proof
  fix r assume "r \<in> history_of rows addr token_id"
  then obtain h where "h \<in> set rows" "(r, h) \<in> (came_by rows)\<^sup>*" by (auto simp: history_of_def first_rows_def)
  then show "r \<in> set rows" using came_by_rows [of rows] by (auto elim: converse_rtranclE)
qed

lemma history_of_first: "set (first_rows rows addr token_id) \<subseteq> history_of rows addr token_id"
  by (auto simp: history_of_def)

lemma history_of_earlier:
  assumes "h \<in> history_of rows addr token_id"
  shows "set (earlier_rows rows h) \<subseteq> history_of rows addr token_id"
proof
  fix r assume "r \<in> set (earlier_rows rows h)"
  with assms history_of_rows have "(r, h) \<in> came_by rows" by (auto simp: came_by_def)
  with assms show "r \<in> history_of rows addr token_id"
    unfolding history_of_def by (blast intro: converse_rtrancl_into_rtrancl)
qed

definition cyclic_sharing :: "SharedTokenHistory list \<Rightarrow> Address \<Rightarrow> u8 list \<Rightarrow> bool" where
  "cyclic_sharing rows addr token_id \<longleftrightarrow> (\<exists>c \<in> history_of rows addr token_id. (c, c) \<in> (came_by rows)\<^sup>+)"

definition came_by_to :: "SharedTokenHistory list \<Rightarrow> Address \<Rightarrow> u8 list \<Rightarrow> (SharedTokenHistory \<times> SharedTokenHistory) set" where
  "came_by_to rows addr token_id = came_by rows \<inter> UNIV \<times> history_of rows addr token_id"

lemma wf_came_by_to:
  assumes "\<not> cyclic_sharing rows addr token_id"
  shows "wf (came_by_to rows addr token_id)"
proof (rule finite_acyclic_wf)
  show "finite (came_by_to rows addr token_id)" by (simp add: came_by_to_def finite_came_by)
  have "(c, c) \<notin> (came_by_to rows addr token_id)\<^sup>+" for c
  proof
    assume c: "(c, c) \<in> (came_by_to rows addr token_id)\<^sup>+"
    then have "c \<in> history_of rows addr token_id" by (auto simp: came_by_to_def dest: tranclD2)
    moreover have "(c, c) \<in> (came_by rows)\<^sup>+" using trancl_mono [OF c] by (auto simp: came_by_to_def)
    ultimately show False using assms by (auto simp: cyclic_sharing_def)
  qed
  then show "acyclic (came_by_to rows addr token_id)" by (simp add: acyclic_def)
qed

lemma history_step_decreases:
  assumes "history_step rows s t" and "set_mset (fst s) \<subseteq> history_of rows addr token_id"
  shows "(fst t, fst s) \<in> mult1 (came_by_to rows addr token_id)" and "set_mset (fst t) \<subseteq> history_of rows addr token_id"
proof -
  from assms(1) have "(fst t, fst s) \<in> mult1 (came_by_to rows addr token_id) \<and> set_mset (fst t) \<subseteq> history_of rows addr token_id"
  proof cases
    case (take h queue given)
    with assms(2) have h: "h \<in> history_of rows addr token_id" by simp
    with take history_of_rows history_of_earlier [OF h] assms(2) show ?thesis
      by (auto simp: came_by_def came_by_to_def intro!: mult1I [of _ h queue _ "mset (earlier_rows rows h)"])
  qed
  then show "(fst t, fst s) \<in> mult1 (came_by_to rows addr token_id)" "set_mset (fst t) \<subseteq> history_of rows addr token_id" by auto
qed

lemma history_no_infinite_run:
  assumes "\<not> cyclic_sharing rows addr token_id" and "f 0 = history_start rows addr token_id"
  shows "\<exists>i. \<not> history_step rows (f i) (f (Suc i))"
proof (rule ccontr)
  assume "\<not> ?thesis"
  then have step: "history_step rows (f i) (f (Suc i))" for i by blast
  have rows: "set_mset (fst (f i)) \<subseteq> history_of rows addr token_id" for i
  proof (induction i)
    case 0
    then show ?case using assms(2) history_of_first by (simp add: history_start_def)
  next
    case (Suc i)
    then show ?case using history_step_decreases(2) [OF step] by blast
  qed
  from history_step_decreases(1) [OF step rows]
  have "\<forall>i. (fst (f (Suc i)), fst (f i)) \<in> mult1 (came_by_to rows addr token_id)" by blast
  then have "\<exists>g. \<forall>i. (g (Suc i), g i) \<in> mult1 (came_by_to rows addr token_id)" by (rule exI [of _ "\<lambda>i. fst (f i)"])
  moreover have "wf (mult1 (came_by_to rows addr token_id))" by (intro wf_mult1 wf_came_by_to assms(1))
  ultimately show False unfolding wf_iff_no_infinite_down_chain by (rule notE [rotated])
qed

lemma history_fifo_ends:
  assumes "\<not> cyclic_sharing rows addr token_id" and "set queue \<subseteq> history_of rows addr token_id"
  shows "\<exists>fuel given. history_fifo fuel rows queue = Some given"
  using assms(2)
proof (induction queue rule: wf_induct_rule [OF wf_inv_image [OF wf_mult1 [OF wf_came_by_to [OF assms(1)]], of mset]])
  case (1 queue)
  show ?case
  proof (cases queue)
    case Nil
    then show ?thesis by auto
  next
    case (Cons h rest)
    with "1.prems" have h: "h \<in> history_of rows addr token_id" by simp
    have "(rest @ earlier_rows rows h, queue) \<in> inv_image (mult1 (came_by_to rows addr token_id)) mset"
      using h history_of_rows Cons
      by (auto simp: inv_image_def came_by_def came_by_to_def intro!: mult1I [of _ h "mset rest" _ "mset (earlier_rows rows h)"])
    moreover have "set (rest @ earlier_rows rows h) \<subseteq> history_of rows addr token_id"
      using "1.prems" Cons history_of_earlier [OF h] by auto
    ultimately obtain fuel given where "history_fifo fuel rows (rest @ earlier_rows rows h) = Some given"
      using "1.IH" by blast
    then have "history_fifo (Suc fuel) rows queue = Some (h # given)" by (simp add: Cons)
    then show ?thesis by blast
  qed
qed

section \<open>A cycle keeps it going\<close>

text \<open>A row from which a row is reached that is earlier than itself.\<close>

definition endless :: "SharedTokenHistory list \<Rightarrow> SharedTokenHistory \<Rightarrow> bool" where
  "endless rows h \<longleftrightarrow> (\<exists>c. (c, c) \<in> (came_by rows)\<^sup>+ \<and> (c, h) \<in> (came_by rows)\<^sup>*)"

lemma endless_earlier: "endless rows h \<Longrightarrow> \<exists>e \<in> set (earlier_rows rows h). endless rows e"
proof -
  assume "endless rows h"
  then obtain c where c: "(c, c) \<in> (came_by rows)\<^sup>+" "(c, h) \<in> (came_by rows)\<^sup>*" by (auto simp: endless_def)
  then have "(c, h) \<in> (came_by rows)\<^sup>+" by (meson trancl_rtrancl_trancl)
  then obtain e where "(c, e) \<in> (came_by rows)\<^sup>*" "(e, h) \<in> came_by rows" by (meson tranclD2)
  with c(1) show ?thesis by (auto simp: endless_def came_by_def)
qed

lemma endless_steps:
  assumes "history_steps rows s t" and "\<exists>h \<in># fst s. endless rows h"
  shows "\<exists>h \<in># fst t. endless rows h"
  using assms
proof (induction rule: rtranclp_induct)
  case (step t u)
  from step.hyps(2) show ?case
  proof cases
    case (take h queue given)
    with step.IH step.prems endless_earlier show ?thesis by auto
  qed
qed

lemma history_never_ends:
  assumes "(c, c) \<in> (came_by rows)\<^sup>+" and "c \<in> history_of rows addr token_id"
  shows "\<not> history_steps rows (history_start rows addr token_id) ({#}, given)"
proof
  assume run: "history_steps rows (history_start rows addr token_id) ({#}, given)"
  from assms have "\<exists>h \<in># fst (history_start rows addr token_id). endless rows h"
    by (auto simp: history_of_def history_start_def endless_def)
  from endless_steps [OF run this] show False by simp
qed

end
