(* ===== verification/Iostream.thy ===== *)
theory Iostream
  imports Utils Effects
begin

text \<open>
  What the command line programs use of the streams of the C++ library: the formatted extraction of words,
  integers and byte arrays from an \<open>std::istringstream\<close>, and \<open>std::stoi\<close>.

  An extraction has three outcomes. Its sentry may fail, because the stream is at its end or has failed
  before: then the variable keeps its value. The text may not be a number: then the variable becomes 0 (or the
  nearest bound, for a number out of range) and the stream has failed. Or a value is read. The lemmas say what is
  read from the text that a value is printed as.
\<close>

section \<open>Streams\<close>

record istream =
  is_rest :: cstring
  is_eof :: bool
  is_fail :: bool

definition istringstream :: "cstring \<Rightarrow> istream" where
  "istringstream s = \<lparr>is_rest = s, is_eof = False, is_fail = False\<rparr>"

text \<open>The sentry skips white space.\<close>

definition sentry :: "istream \<Rightarrow> bool \<times> istream" where
  "sentry s =
     (if is_eof s \<or> is_fail s then (False, s\<lparr>is_fail := True\<rparr>)
      else let rest = dropWhile is_space (is_rest s)
           in if rest = [] then (False, \<lparr>is_rest = [], is_eof = True, is_fail = True\<rparr>)
              else (True, s\<lparr>is_rest := rest\<rparr>))"

text \<open>The stream after a text was taken from it; it is at its end when nothing is left.\<close>

definition is_taken :: "cstring \<Rightarrow> bool \<Rightarrow> istream" where
  "is_taken rest fail = \<lparr>is_rest = rest, is_eof = (rest = []), is_fail = fail\<rparr>"

definition get_word :: "cstring \<Rightarrow> istream \<Rightarrow> cstring \<times> istream" where
  "get_word old s =
     (case sentry s of
        (False, s') \<Rightarrow> (old, s')
      | (True, s') \<Rightarrow> (takeWhile (\<lambda>b. \<not> is_space b) (is_rest s'),
                     is_taken (dropWhile (\<lambda>b. \<not> is_space b) (is_rest s')) False))"

section \<open>Integers\<close>

definition is_digit :: "u8 \<Rightarrow> bool" where
  "is_digit b \<longleftrightarrow> 0x30 \<le> b \<and> b \<le> 0x39"

definition decimal :: "cstring \<Rightarrow> nat" where
  "decimal digits = foldl (\<lambda>m b. 10 * m + (unat b - 48)) 0 digits"

text \<open>An optional sign, digits, and the rest.\<close>

definition scan_integer :: "cstring \<Rightarrow> bool \<times> cstring \<times> cstring" where
  "scan_integer s =
     (let (negative, s') = (case s of [] \<Rightarrow> (False, []) | c # cs \<Rightarrow> if c = 0x2D then (True, cs) else if c = 0x2B then (False, cs) else (False, s))
      in (negative, takeWhile is_digit s', dropWhile is_digit s'))"

text \<open>\<open>uint64_t\<close> and \<open>size_t\<close>: a negative number is taken modulo \<open>2^64\<close>.\<close>

definition get_u64 :: "u64 \<Rightarrow> istream \<Rightarrow> u64 \<times> istream" where
  "get_u64 old s =
     (case sentry s of
        (False, s') \<Rightarrow> (old, s')
      | (True, s') \<Rightarrow>
          (case scan_integer (is_rest s') of
             (negative, digits, rest) \<Rightarrow>
               if digits = [] then (0, is_taken rest True)
               else if 2 ^ 64 \<le> decimal digits then (- 1, is_taken rest True)
               else ((if negative then - of_nat (decimal digits) else of_nat (decimal digits)), is_taken rest False)))"

text \<open>\<open>unsigned int\<close>.\<close>

definition get_u32 :: "u32 \<Rightarrow> istream \<Rightarrow> u32 \<times> istream" where
  "get_u32 old s =
     (case sentry s of
        (False, s') \<Rightarrow> (old, s')
      | (True, s') \<Rightarrow>
          (case scan_integer (is_rest s') of
             (negative, digits, rest) \<Rightarrow>
               if digits = [] then (0, is_taken rest True)
               else if 2 ^ 32 \<le> decimal digits then (- 1, is_taken rest True)
               else ((if negative then - of_nat (decimal digits) else of_nat (decimal digits)), is_taken rest False)))"

text \<open>\<open>int\<close>.\<close>

definition get_int :: "int \<Rightarrow> istream \<Rightarrow> int \<times> istream" where
  "get_int old s =
     (case sentry s of
        (False, s') \<Rightarrow> (old, s')
      | (True, s') \<Rightarrow>
          (case scan_integer (is_rest s') of
             (negative, digits, rest) \<Rightarrow>
               let v = (if negative then - int (decimal digits) else int (decimal digits))
               in if digits = [] then (0, is_taken rest True)
                  else if v < - (2 ^ 31) then (- (2 ^ 31), is_taken rest True)
                  else if 2 ^ 31 \<le> v then (2 ^ 31 - 1, is_taken rest True)
                  else (v, is_taken rest False)))"

definition stoi :: "cstring \<Rightarrow> int result" where
  "stoi s =
     (case scan_integer (dropWhile is_space s) of
        (negative, digits, rest) \<Rightarrow>
          let v = (if negative then - int (decimal digits) else int (decimal digits))
          in if digits = [] then Inl (Invalid_argument ''stoi'')
             else if v < - (2 ^ 31) \<or> 2 ^ 31 \<le> v then Inl (Out_of_range ''stoi'')
             else Inr v)"

section \<open>Byte arrays\<close>

text \<open>\<open>operator>>\<close> of \<open>utils.hpp\<close> for arrays: a word, and what its digits overwrite of the array.\<close>

definition get_array :: "u8 list \<Rightarrow> istream \<Rightarrow> (u8 list \<times> istream) result" where
  "get_array old s =
     (case get_word [] s of (word, s') \<Rightarrow> sum_bind (string_to_array word old) (\<lambda>arr. Inr (arr, s')))"

section \<open>What is read from a printed value\<close>

text \<open>The stream continues with a text, which the end or white space follows.\<close>

definition stream_at :: "cstring \<Rightarrow> cstring \<Rightarrow> istream \<Rightarrow> bool" where
  "stream_at word rest s \<longleftrightarrow>
     \<not> is_eof s \<and> \<not> is_fail s \<and> (\<exists>spaces. list_all is_space spaces \<and> is_rest s = spaces @ word @ rest) \<and>
     (rest = [] \<or> is_space (hd rest))"

definition solid :: "cstring \<Rightarrow> bool" where
  "solid word \<longleftrightarrow> word \<noteq> [] \<and> list_all (\<lambda>b. \<not> is_space b) word"

lemma sentry_at:
  assumes "stream_at word rest s" and "solid word"
  shows "sentry s = (True, s\<lparr>is_rest := word @ rest\<rparr>)"
proof -
  from assms obtain spaces where s: "list_all is_space spaces" "is_rest s = spaces @ word @ rest"
    "\<not> is_eof s" "\<not> is_fail s" by (auto simp: stream_at_def)
  obtain c cs where w: "word = c # cs" "\<not> is_space c" using assms(2) by (cases word) (auto simp: solid_def)
  have "dropWhile is_space (spaces @ word @ rest) = word @ rest"
    using s(1) w by (induction spaces) auto
  with s w show ?thesis by (simp add: sentry_def)
qed

lemma take_solid:
  assumes "list_all P word" and "rest = [] \<or> \<not> P (hd rest)"
  shows "takeWhile P (word @ rest) = word" and "dropWhile P (word @ rest) = rest"
  using assms by (induction word; cases rest; simp)+

lemma get_word_at:
  assumes "stream_at word rest s" and "solid word"
  shows "get_word old s = (word, is_taken rest False)"
proof -
  have "rest = [] \<or> \<not> \<not> is_space (hd rest)" using assms(1) by (simp add: stream_at_def)
  with assms(2) have "takeWhile (\<lambda>b. \<not> is_space b) (word @ rest) = word" "dropWhile (\<lambda>b. \<not> is_space b) (word @ rest) = rest"
    by (auto simp: solid_def intro: take_solid)
  then show ?thesis by (simp add: get_word_def sentry_at [OF assms])
qed

lemma digit_plain: "is_digit b \<Longrightarrow> \<not> is_space b" "is_space b \<Longrightarrow> \<not> is_digit b" "is_digit b \<Longrightarrow> b \<noteq> 0x2D \<and> b \<noteq> 0x2B"
  by (auto simp: is_digit_def is_space_def word_le_nat_alt word_unat_eq_iff)

lemma dec_not_Nil: "dec n \<noteq> []"
  by (simp add: dec.simps [of n])

lemma dec_is_digit: "list_all is_digit (dec n)"
  using dec_digits by (fastforce simp: list_all_iff is_digit_def word_le_nat_alt)

lemma solid_dec: "solid (dec n)"
  using dec_is_digit [of n] dec_not_Nil by (auto simp: solid_def list_all_iff digit_plain)

lemma decimal_dec: "decimal (dec n) = n"
  by (simp add: decimal_def dec_digits_value)

lemma scan_dec: "rest = [] \<or> is_space (hd rest) \<Longrightarrow> scan_integer (dec n @ rest) = (False, dec n, rest)"
proof -
  assume rest: "rest = [] \<or> is_space (hd rest)"
  obtain c cs where d: "dec n = c # cs" using dec_not_Nil by (cases "dec n") auto
  then have "c \<noteq> 0x2D" "c \<noteq> 0x2B" using dec_is_digit [of n] digit_plain(3) by auto
  then have "scan_integer (dec n @ rest) = (False, takeWhile is_digit (dec n @ rest), dropWhile is_digit (dec n @ rest))"
    by (simp add: scan_integer_def d)
  moreover have "rest = [] \<or> \<not> is_digit (hd rest)" using rest digit_plain(2) by auto
  ultimately show ?thesis using take_solid [OF dec_is_digit] by simp
qed

lemma get_u64_at:
  assumes "stream_at (dec (unat v)) rest s"
  shows "get_u64 old s = (v, is_taken rest False)"
proof -
  have "rest = [] \<or> is_space (hd rest)" using assms by (simp add: stream_at_def)
  moreover have "unat v < 2 ^ 64" by (rule order_less_le_trans [OF unsigned_less]) simp
  ultimately show ?thesis
    by (simp add: get_u64_def sentry_at [OF assms solid_dec] scan_dec dec_not_Nil decimal_dec)
qed

lemma get_int_at:
  assumes "stream_at (dec n) rest s" and "n < 2 ^ 31"
  shows "get_int old s = (int n, is_taken rest False)"
proof -
  have "rest = [] \<or> is_space (hd rest)" using assms(1) by (simp add: stream_at_def)
  with assms(2) show ?thesis
    by (simp add: get_int_def sentry_at [OF assms(1) solid_dec] scan_dec dec_not_Nil decimal_dec)
qed

text \<open>Text that is not a number at all.\<close>

lemma get_int_no_number:
  assumes "stream_at (c # word) rest s" and "solid (c # word)" and "\<not> is_digit c" and "c \<noteq> 0x2D" and "c \<noteq> 0x2B"
  shows "get_int old s = (0, is_taken (c # word @ rest) True)"
  using assms(3-5) by (simp add: get_int_def sentry_at [OF assms(1,2)] scan_integer_def)

section \<open>Arrays\<close>

lemma hex_digit_solid: "solid (bytes_to_hex bs) \<longleftrightarrow> bs \<noteq> []"
proof -
  have "\<not> is_space b" if "b \<in> set (bytes_to_hex bs)" for b
    using that unat_u8_less by (auto simp: bytes_to_hex_def hex_digit_plain less_mult_imp_div_less)
  then show ?thesis by (auto simp: solid_def list_all_iff bytes_to_hex_shape)
qed

lemma extraction_digits: "extraction_fails [hex_digit (unat (v :: u8) div 16), hex_digit (unat v mod 16)] \<longleftrightarrow> False"
proof -
  have "unat v div 16 < 16" using unat_u8_less [of v] by (simp add: less_mult_imp_div_less)
  moreover have "unat v mod 16 < 16" by simp
  moreover have "hex_digit n \<noteq> 0x58" if "n < 16" for n
    using that by (auto simp: hex_digit_def word_unat_eq_iff unat_of_nat simp del: of_nat_add)
  ultimately show ?thesis by (simp add: extraction_fails_def hex_digit_plain hex_value_digit)
qed

lemma string_to_array_loop_hex:
  assumes "length arr = length bs" and "i \<le> length bs" and "take i arr = take i bs"
  shows "string_to_array_loop (bytes_to_hex bs) i (2 * i) arr = Inr bs"
  using assms
proof (induction "length bs - i" arbitrary: i arr)
  case 0
  then show ?case by (subst string_to_array_loop.simps) simp
next
  case (Suc n)
  then have i: "i < length bs" by simp
  have "take 2 (drop (2 * i) (bytes_to_hex bs)) = [hex_digit (unat (bs ! i) div 16), hex_digit (unat (bs ! i) mod 16)]"
    using i nth_bytes_to_hex [of i bs "[]"]
    by (simp add: numeral_2_eq_2 take_Suc_conv_app_nth)
  moreover have "string_to_array_loop (bytes_to_hex bs) (Suc i) (2 * Suc i) (arr[i := bs ! i]) = Inr bs"
    by (rule Suc.hyps(1)) (use Suc.hyps(2) Suc.prems i in \<open>simp_all add: take_Suc_conv_app_nth\<close>)
  ultimately show ?case
    using i Suc.prems(1)
    by (subst string_to_array_loop.simps) (simp add: extraction_digits extract_hex_digits Let_def)
qed

lemma string_to_array_hex: "length arr = length bs \<Longrightarrow> string_to_array (bytes_to_hex bs) arr = Inr bs"
  using string_to_array_loop_hex [of arr bs 0] by (simp add: string_to_array_def)

lemma get_array_at:
  assumes "stream_at (bytes_to_hex bs) rest s" and "bs \<noteq> []" and "length old = length bs"
  shows "get_array old s = Inr (bs, is_taken rest False)"
  using get_word_at [OF assms(1), of "[]"] assms(2,3)
  by (simp add: get_array_def hex_digit_solid string_to_array_hex sum_bind_def)

text \<open>An odd number of digits, too few to fill the array, is more than the loop can take.\<close>

lemma string_to_array_loop_odd:
  assumes "length s = 2 * n + 1" and "n + 1 < length arr" and "list_all (\<lambda>b. hex_value b \<noteq> None) s"
    and "0 < n" and "i \<le> n + 1"
  shows "string_to_array_loop s i (2 * i) arr = Inl (Out_of_range ''basic_string::substr'')"
  using assms(2,5)
proof (induction "n + 1 - i" arbitrary: i arr)
  case 0
  then have "i = n + 1" by simp
  with 0 assms(1,4) show ?case by (subst string_to_array_loop.simps) simp
next
  case (Suc m)
  then have i: "i \<le> n" by simp
  have hex: "hex_value (s ! j) \<noteq> None" if "j < length s" for j using assms(3) that by (simp add: list_all_length)
  have plain: "\<not> is_space b \<and> b \<noteq> 0x2B \<and> b \<noteq> 0x2D \<and> b \<noteq> 0x78 \<and> b \<noteq> 0x58" if "hex_value b \<noteq> None" for b
    using that by (auto simp: hex_value_def is_space_def word_le_nat_alt word_unat_eq_iff split: if_splits)
  have "\<not> extraction_fails (take 2 (drop (2 * i) s))"
  proof (cases "i = n")
    case True
    then have "take 2 (drop (2 * i) s) = [s ! (2 * n)]"
      using assms(1) by (simp add: numeral_2_eq_2 take_Suc_conv_app_nth Cons_nth_drop_Suc [symmetric])
    with hex [of "2 * n"] assms(1) plain show ?thesis by (auto simp: extraction_fails_def)
  next
    case False
    then have l: "2 * i + 1 < length s" "i < n" using i assms(1) by auto
    then have "take 2 (drop (2 * i) s) = [s ! (2 * i), s ! (2 * i + 1)]"
      by (simp add: numeral_2_eq_2 take_Suc_conv_app_nth)
    with hex [of "2 * i"] hex [of "2 * i + 1"] plain [of "s ! (2 * i)"] plain [of "s ! (2 * i + 1)"] l show ?thesis
      by (auto simp: extraction_fails_def)
  qed
  moreover have "string_to_array_loop s (Suc i) (2 * Suc i) (arr[i := x]) = Inl (Out_of_range ''basic_string::substr'')" for x
    by (rule Suc.hyps(1)) (use Suc.hyps(2) Suc.prems i in simp_all)
  ultimately show ?case
    using i assms(1) Suc.prems(1) by (subst string_to_array_loop.simps) (simp add: Let_def)
qed

lemma string_to_array_odd:
  assumes "length s = 2 * n + 1" and "0 < n" and "n + 1 < length arr" and "list_all (\<lambda>b. hex_value b \<noteq> None) s"
  shows "string_to_array s arr = Inl (Out_of_range ''basic_string::substr'')"
  using string_to_array_loop_odd [OF assms(1,3,4,2), of 0] by (simp add: string_to_array_def)

section \<open>Words after a command\<close>

definition words_text :: "cstring list \<Rightarrow> cstring" where
  "words_text words = concat (map (\<lambda>w. 0x20 # w) words)"

text \<open>The stream when these words are left of the line.\<close>

definition words_left :: "cstring list \<Rightarrow> istream" where
  "words_left words = is_taken (words_text words) False"

lemma words_left_eof [simp]: "is_eof (words_left words) \<longleftrightarrow> words = []"
  by (cases words) (simp_all add: words_left_def is_taken_def words_text_def)

lemma stream_at_words: "stream_at w (words_text ws) (words_left (w # ws))"
  by (cases ws) (auto simp: stream_at_def words_left_def is_taken_def words_text_def is_space_def intro!: exI [where x = "[0x20]"])

lemma words_left_taken: "is_taken (words_text ws) False = words_left ws"
  by (simp add: words_left_def)

lemmas get_words_left =
  get_word_at [OF stream_at_words, unfolded words_left_taken]
  get_u64_at [OF stream_at_words, unfolded words_left_taken]
  get_array_at [OF stream_at_words, unfolded words_left_taken]

text \<open>Nothing is left: the variable keeps its value.\<close>

lemma get_nothing_left:
  "get_word old (words_left []) = (old, (words_left [])\<lparr>is_fail := True\<rparr>)"
  "get_u64 v (words_left []) = (v, (words_left [])\<lparr>is_fail := True\<rparr>)"
  "get_array arr (words_left []) = Inr (arr, (words_left [])\<lparr>is_fail := True\<rparr>)"
  by (simp_all add: get_word_def get_u64_def get_array_def sentry_def sum_bind_def words_left_def words_text_def is_taken_def
      string_to_array_def string_to_array_loop.simps)

end
