(* ===== verification/Shell.thy ===== *)
theory Shell
  imports Iostream Nft_Token
begin

text \<open>
  What the command line programs share: the arguments of the program (\<open>argument.hpp\<close>), the console
  (\<open>console.cpp\<close>), the loop that reads a line and runs a command, and the functions that read the parameters of a
  command (\<open>src/cpp/nft-store-2/src/main.cpp\<close>).

  A command is a function from the rest of its line to an effect; what it prints is not part of the state. The
  locale \<open>command_table\<close> is the contract between the commands and the loop: what every command keeps, a
  whole session keeps.
\<close>

section \<open>Arguments\<close>

record Arguments =
  arg_url :: cstring
  arg_mint_key :: cstring
  arg_mnemonic :: cstring
  arg_waypoint :: cstring
  arg_chain_id :: u8
  arg_distrbuting :: bool

definition Arguments_new :: Arguments where
  "Arguments_new = \<lparr>arg_url = [], arg_mint_key = [], arg_mnemonic = [], arg_waypoint = [], arg_chain_id = - 1,
     arg_distrbuting = False\<rparr>"

text \<open>The options, as \<open>getopt\<close> gives them one by one: a letter and its argument.\<close>

fun parse_command_line :: "(char \<times> cstring) list \<Rightarrow> Arguments \<Rightarrow> Arguments result" where
  "parse_command_line [] args = Inr args"
| "parse_command_line ((opt, optarg) # options) args =
     (if opt = CHR ''u'' then parse_command_line options (args\<lparr>arg_url := optarg\<rparr>)
      else if opt = CHR ''m'' then parse_command_line options (args\<lparr>arg_mint_key := optarg\<rparr>)
      else if opt = CHR ''n'' then parse_command_line options (args\<lparr>arg_mnemonic := optarg\<rparr>)
      else if opt = CHR ''w'' then parse_command_line options (args\<lparr>arg_waypoint := optarg\<rparr>)
      else if opt = CHR ''c'' then
        sum_bind (stoi optarg) (\<lambda>n. parse_command_line options (args\<lparr>arg_chain_id := word_of_int n\<rparr>))
      else if opt = CHR ''d'' then parse_command_line options (args\<lparr>arg_distrbuting := True\<rparr>)
      else Inl (Runtime_error ''usage : -u url -m mint.key -n mnemonic -w waypoint -c chain_id''))"

section \<open>The console\<close>

record Console =
  console_prompt :: cstring
  completions :: "cstring list"
  console_history :: "cstring list"

definition Console_create :: "cstring \<Rightarrow> Console" where
  "Console_create prompt = \<lparr>console_prompt = prompt, completions = [], console_history = []\<rparr>"

definition add_completion :: "cstring \<Rightarrow> Console \<Rightarrow> Console" where
  "add_completion completion con = con\<lparr>completions := completions con @ [completion]\<rparr>"

definition add_history :: "cstring \<Rightarrow> Console \<Rightarrow> Console" where
  "add_history line con = con\<lparr>console_history := console_history con @ [line]\<rparr>"

text \<open>The generator is called until it has no more matches; completion is offered at the start of a line.\<close>

fun next_match :: "cstring list \<Rightarrow> cstring \<Rightarrow> (cstring \<times> cstring list) option" where
  "next_match [] text' = None"
| "next_match (cmd # cmds) text' = (if take (length text') cmd = text' then Some (cmd, cmds) else next_match cmds text')"

lemma next_match_shorter: "next_match cmds text' = Some (cmd, rest) \<Longrightarrow> length rest < length cmds"
  by (induction cmds) (auto split: if_splits)

function completion_matches :: "cstring list \<Rightarrow> cstring \<Rightarrow> cstring list" where
  "completion_matches cmds text' =
     (case next_match cmds text' of None \<Rightarrow> [] | Some (cmd, rest) \<Rightarrow> cmd # completion_matches rest text')"
  by auto
termination by (relation "measure (\<lambda>(cmds, text'). length cmds)") (auto dest: next_match_shorter)

declare completion_matches.simps [simp del]

lemma completion_matches_filter: "completion_matches cmds text' = filter (\<lambda>cmd. take (length text') cmd = text') cmds"
  by (induction cmds) (subst completion_matches.simps, simp add: completion_matches.simps [symmetric] split: option.splits)+

section \<open>The loop\<close>

type_synonym 's command = "istream \<Rightarrow> ('s, unit) eff"

text \<open>
  \<open>catch (const std::invalid_argument &)\<close> and \<open>catch (runtime_error &)\<close>. The exceptions of the serializers are derived
  from \<open>std::invalid_argument\<close>; \<open>std::out_of_range\<close> and \<open>std::bad_variant_access\<close> are not caught.
\<close>

fun command_error :: "exn \<Rightarrow> bool" where
  "command_error (Invalid_argument what) \<longleftrightarrow> True"
| "command_error (Serialization_error what) \<longleftrightarrow> True"
| "command_error (Deserialization_error what) \<longleftrightarrow> True"
| "command_error (Runtime_error what) \<longleftrightarrow> True"
| "command_error _ \<longleftrightarrow> False"

definition report_error :: "('s, unit) eff \<Rightarrow> ('s, unit) eff" where
  "report_error m s = (case m s of (Inl e, t) \<Rightarrow> if command_error e then (Inr (), t) else (Inl e, t) | (Inr u, t) \<Rightarrow> (Inr u, t))"

definition run_command :: "(cstring \<times> 's command) list \<Rightarrow> cstring \<Rightarrow> ('s \<times> Console, unit) eff" where
  "run_command commands line =
     (let (cmd, iss) = get_word [] (istringstream line)
      in case map_of commands cmd of
           None \<Rightarrow> eff_return ()
         | Some command \<Rightarrow>
             eff_bind (eff_fst (report_error (command iss))) (\<lambda>_. eff_snd (eff_modify (add_history line))))"

definition names_command :: "(cstring \<times> 's command) list \<Rightarrow> cstring \<Rightarrow> bool" where
  "names_command commands line \<longleftrightarrow> fst (get_word [] (istringstream line)) \<in> set (map fst commands)"

text \<open>At the end of the input \<open>readline\<close> gives a null pointer, of which a string is made.\<close>

fun read_eval_loop :: "(cstring \<times> 's command) list \<Rightarrow> cstring list \<Rightarrow> ('s \<times> Console, unit) eff" where
  "read_eval_loop commands [] = eff_throw (Undefined_behaviour ''string(nullptr)'')"
| "read_eval_loop commands (line # lines) =
     (if trim line = str ''exit'' then eff_return ()
      else eff_bind (run_command commands (trim line)) (\<lambda>_. read_eval_loop commands lines))"

lemma preserves_report [preserves_intros]: "preserves P m \<Longrightarrow> preserves P (report_error m)"
  by (fastforce simp: preserves_def report_error_def split: prod.splits sum.splits)

lemma preserves_fst: "preserves P m \<Longrightarrow> preserves (\<lambda>s. P (fst s)) (eff_fst m)"
  by (fastforce simp: preserves_def eff_fst_def split: prod.splits)

locale command_table =
  fixes commands :: "(cstring \<times> 's command) list" and P :: "'s \<Rightarrow> bool"
  assumes names: "distinct (map fst commands)"
    and command_preserves: "(cmd, command) \<in> set commands \<Longrightarrow> preserves P (command iss)"
begin

lemma run_command_preserves: "preserves (\<lambda>s. P (fst s)) (run_command commands line)"
proof -
  obtain cmd iss where g: "get_word [] (istringstream line) = (cmd, iss)" by (cases "get_word [] (istringstream line)")
  show ?thesis
  proof (cases "map_of commands cmd")
    case None
    then show ?thesis by (simp add: run_command_def g preserves_return)
  next
    case (Some command)
    from command_preserves [OF map_of_SomeD [OF Some]] show ?thesis
      by (auto simp: run_command_def g Some intro!: preserves_bind preserves_fst preserves_report preserves_client_snd)
  qed
qed

lemma session_preserves: "preserves (\<lambda>s. P (fst s)) (read_eval_loop commands lines)"
  by (induction lines) (auto intro!: preserves_throw preserves_return preserves_bind run_command_preserves)

text \<open>A line that names a command runs it; an error of a command does not end the session.\<close>

lemma command_runs:
  assumes "(cmd, command) \<in> set commands" and "get_word [] (istringstream (trim line)) = (cmd, iss)"
    and "trim line \<noteq> str ''exit''" and "command iss s = (r, t)" and "\<And>e. r = Inl e \<Longrightarrow> command_error e"
  shows "read_eval_loop commands (line # lines) (s, con) = read_eval_loop commands lines (t, add_history (trim line) con)"
proof -
  have "map_of commands cmd = Some command" using assms(1) names by simp
  then have "run_command commands (trim line) (s, con) = (Inr (), (t, add_history (trim line) con))"
    using assms(2,4,5)
    by (cases r) (auto simp: run_command_def eff_bind_def eff_fst_def eff_snd_def eff_modify_def report_error_def)
  with assms(3) show ?thesis by (simp add: eff_bind_def)
qed

lemma command_ends_session:
  assumes "(cmd, command) \<in> set commands" and "get_word [] (istringstream (trim line)) = (cmd, iss)"
    and "trim line \<noteq> str ''exit''" and "command iss s = (Inl e, t)" and "\<not> command_error e"
  shows "read_eval_loop commands (line # lines) (s, con) = (Inl e, (t, con))"
proof -
  have "map_of commands cmd = Some command" using assms(1) names by simp
  then show ?thesis
    using assms(2-5) by (simp add: run_command_def eff_bind_def eff_fst_def report_error_def)
qed

end

section \<open>What a session comes to\<close>

text \<open>
  What a line makes of the objects of the program, and what a series of lines makes of them, whether their commands
  fail or not.
\<close>

definition line_outcome :: "(cstring \<times> 's command) list \<Rightarrow> cstring \<Rightarrow> ('s, unit) eff" where
  "line_outcome commands line =
     (let (cmd, iss) = get_word [] (istringstream (trim line))
      in case map_of commands cmd of None \<Rightarrow> eff_return () | Some command \<Rightarrow> command iss)"

definition state_after :: "(cstring \<times> 's command) list \<Rightarrow> cstring list \<Rightarrow> 's \<Rightarrow> 's" where
  "state_after commands lines s = fold (\<lambda>line t. snd (line_outcome commands line t)) lines s"

text \<open>
  A session ends behind \<open>n\<close> lines, none of which is \<open>exit\<close> or throws what the loop does not catch: with \<open>exit\<close>, at the end of
  the input, or with such an exception of the next line.
\<close>

definition session_result ::
    "(cstring \<times> 's command) list \<Rightarrow> cstring list \<Rightarrow> 's \<Rightarrow> nat \<Rightarrow> unit result \<Rightarrow> 's \<Rightarrow> bool" where
  "session_result commands lines s n r t \<longleftrightarrow>
     n \<le> length lines \<and>
     (\<forall>k < n. trim (lines ! k) \<noteq> str ''exit'' \<and>
        (\<forall>e. fst (line_outcome commands (lines ! k) (state_after commands (take k lines) s)) = Inl e \<longrightarrow> command_error e)) \<and>
     (case r of
        Inr _ \<Rightarrow> n < length lines \<and> trim (lines ! n) = str ''exit'' \<and> t = state_after commands (take n lines) s
      | Inl e \<Rightarrow>
          n = length lines \<and> e = Undefined_behaviour ''string(nullptr)'' \<and> t = state_after commands lines s \<or>
          n < length lines \<and> trim (lines ! n) \<noteq> str ''exit'' \<and> \<not> command_error e \<and>
            line_outcome commands (lines ! n) (state_after commands (take n lines) s) = (Inl e, t))"

lemma session_result_0:
  "session_result commands [] s 0 r t \<longleftrightarrow> r = Inl (Undefined_behaviour ''string(nullptr)'') \<and> t = s"
  "session_result commands (line # lines) s 0 r t \<longleftrightarrow>
     (case r of
        Inr _ \<Rightarrow> trim line = str ''exit'' \<and> t = s
      | Inl e \<Rightarrow> trim line \<noteq> str ''exit'' \<and> \<not> command_error e \<and> line_outcome commands line s = (Inl e, t))"
  by (auto simp: session_result_def state_after_def split: sum.splits)

lemma session_result_Suc:
  "session_result commands (line # lines) s (Suc n) r t \<longleftrightarrow>
     trim line \<noteq> str ''exit'' \<and> (\<forall>e. fst (line_outcome commands line s) = Inl e \<longrightarrow> command_error e) \<and>
     session_result commands lines (snd (line_outcome commands line s)) n r t"
  unfolding session_result_def All_less_Suc2 by (cases r) (simp_all add: state_after_def conj_ac)

lemma run_command_outcome:
  "run_command commands (trim line) (s, con) =
     (case line_outcome commands line s of (r, t) \<Rightarrow>
        if \<exists>e. r = Inl e \<and> \<not> command_error e then (r, (t, con))
        else (Inr (), (t, if names_command commands (trim line) then add_history (trim line) con else con)))"
proof -
  obtain cmd iss where g: "get_word [] (istringstream (trim line)) = (cmd, iss)" by (cases "get_word [] (istringstream (trim line))")
  show ?thesis
  proof (cases "map_of commands cmd")
    case None
    then have "\<not> names_command commands (trim line)" by (simp add: names_command_def g map_of_eq_None_iff)
    with None show ?thesis by (simp add: run_command_def line_outcome_def g eff_return_def)
  next
    case (Some command)
    then have "names_command commands (trim line)" using map_of_SomeD [OF Some] by (force simp: names_command_def g)
    with Some show ?thesis
      by (auto simp: run_command_def line_outcome_def g report_error_def eff_bind_def eff_fst_def eff_snd_def eff_modify_def
          split: prod.splits sum.splits)
  qed
qed

text \<open>The loop runs the commands of the lines one after the other, and remembers the lines that name one.\<close>

lemma session_runs:
  assumes "read_eval_loop commands lines (s, con) = (r, (t, con'))"
  shows "\<exists>n. session_result commands lines s n r t \<and>
    con' = con\<lparr>console_history := console_history con @ filter (names_command commands) (map trim (take n lines))\<rparr>"
  using assms
proof (induction lines arbitrary: s con)
  case Nil
  then show ?case by (auto simp: eff_throw_def session_result_0 intro!: exI [of _ 0])
next
  case (Cons line lines)
  obtain q s1 where outcome: "line_outcome commands line s = (q, s1)" by (cases "line_outcome commands line s")
  consider "trim line = str ''exit''" | e where "trim line \<noteq> str ''exit''" "q = Inl e" "\<not> command_error e"
    | "trim line \<noteq> str ''exit''" "\<forall>e. q = Inl e \<longrightarrow> command_error e" by blast
  then show ?case
  proof cases
    case 1
    with Cons.prems show ?thesis by (auto simp: eff_return_def session_result_0 intro!: exI [of _ 0])
  next
    case 2
    with Cons.prems outcome show ?thesis
      by (auto simp: eff_bind_def run_command_outcome session_result_0 intro!: exI [of _ 0])
  next
    case 3
    then have "\<not> (\<exists>e. q = Inl e \<and> \<not> command_error e)" by blast
    with Cons.prems 3(1) outcome have "read_eval_loop commands lines
        (s1, if names_command commands (trim line) then add_history (trim line) con else con) = (r, (t, con'))"
      by (simp add: eff_bind_def run_command_outcome)
    from Cons.IH [OF this] obtain n where "session_result commands lines s1 n r t"
      "con' = (if names_command commands (trim line) then add_history (trim line) con else con)\<lparr>console_history :=
         console_history (if names_command commands (trim line) then add_history (trim line) con else con) @
         filter (names_command commands) (map trim (take n lines))\<rparr>" by blast
    with 3 outcome show ?thesis
      by (intro exI [of _ "Suc n"]) (simp add: session_result_Suc add_history_def)
  qed
qed

section \<open>Lines\<close>

definition command_line :: "string \<Rightarrow> cstring list \<Rightarrow> cstring" where
  "command_line name' words = str name' @ words_text words"

lemma trim_solid_ends: "s \<noteq> [] \<Longrightarrow> \<not> is_space (hd s) \<Longrightarrow> \<not> is_space (last s) \<Longrightarrow> trim s = s"
proof -
  assume s: "s \<noteq> []" "\<not> is_space (hd s)" "\<not> is_space (last s)"
  have "dropWhile is_space t = t" if "t \<noteq> []" "\<not> is_space (hd t)" for t using that by (cases t) simp_all
  with s show ?thesis by (simp add: trim_def trim_left_def trim_right_def hd_rev)
qed

lemma solid_ends: "solid word \<Longrightarrow> word \<noteq> [] \<and> \<not> is_space (hd word) \<and> \<not> is_space (last word)"
  by (auto simp: solid_def list_all_iff)

lemma words_text_last: "words \<noteq> [] \<Longrightarrow> list_all solid words \<Longrightarrow> words_text words \<noteq> [] \<and> \<not> is_space (last (words_text words))"
proof (induction words)
  case (Cons w ws)
  then show ?case using solid_ends [of w] by (cases "ws = []") (auto simp: words_text_def)
qed simp

lemma command_line_trim:
  assumes "solid (str name')" and "list_all solid words"
  shows "trim (command_line name' words) = command_line name' words"
proof (rule trim_solid_ends)
  show "\<not> is_space (last (command_line name' words))"
    using solid_ends [OF assms(1)] words_text_last [OF _ assms(2)]
    by (cases "words = []") (simp_all add: command_line_def words_text_def)
qed (use solid_ends [OF assms(1)] in \<open>simp_all add: command_line_def\<close>)

lemma command_line_word: "solid (str name') \<Longrightarrow> get_word [] (istringstream (command_line name' words)) = (str name', words_left words)"
proof -
  assume "solid (str name')"
  moreover have "stream_at (str name') (words_text words) (istringstream (command_line name' words))"
    by (cases words) (auto simp: stream_at_def istringstream_def command_line_def words_text_def is_space_def)
  ultimately show ?thesis using get_word_at words_left_taken by fastforce
qed

lemma command_line_not_exit: "words \<noteq> [] \<Longrightarrow> command_line name' words \<noteq> str ''exit''"
proof
  assume "words \<noteq> []" "command_line name' words = str ''exit''"
  moreover have "0x20 \<in> set (command_line name' words)"
    using \<open>words \<noteq> []\<close> by (cases words) (simp_all add: command_line_def words_text_def)
  ultimately have "0x20 \<in> set (str ''exit'')" by simp
  then show False by (simp add: str_def)
qed

context command_table
begin

text \<open>What the session makes of a line, in full.\<close>

lemma command_line_runs:
  assumes "(str name', command) \<in> set commands" and "solid (str name')" and "words \<noteq> []" and "list_all solid words"
  shows "read_eval_loop commands (command_line name' words # lines) (s, con) =
    (case command (words_left words) s of
       (Inl e, t) \<Rightarrow> if command_error e then read_eval_loop commands lines (t, add_history (command_line name' words) con) else (Inl e, (t, con))
     | (Inr u, t) \<Rightarrow> read_eval_loop commands lines (t, add_history (command_line name' words) con))"
proof -
  note line = command_line_trim [OF assms(2,4)] command_line_word [OF assms(2), of words] command_line_not_exit [OF assms(3)]
  obtain r t where run: "command (words_left words) s = (r, t)" by (cases "command (words_left words) s")
  show ?thesis
  proof (cases "\<exists>e. r = Inl e \<and> \<not> command_error e")
    case True
    then obtain e where e: "r = Inl e" "\<not> command_error e" by blast
    show ?thesis
      using command_ends_session [OF assms(1), of "command_line name' words"] line run e by (simp del: read_eval_loop.simps)
  next
    case False
    then have "read_eval_loop commands (command_line name' words # lines) (s, con) =
        read_eval_loop commands lines (t, add_history (command_line name' words) con)"
      using command_runs [OF assms(1), of "command_line name' words" _ s r t] line run by fastforce
    with False run show ?thesis by (cases r) (simp_all del: read_eval_loop.simps)
  qed
qed

end

section \<open>A loop that remembers every line\<close>

text \<open>
  The programs for the first market and for tokens: a line is added to the history whether it names a command or not, and
  also when its command fails.
\<close>

definition run_line :: "(cstring \<times> 's command) list \<Rightarrow> cstring \<Rightarrow> ('s \<times> Console, unit) eff" where
  "run_line commands line =
     (let (cmd, iss) = get_word [] (istringstream line)
      in eff_bind
           (case map_of commands cmd of
              None \<Rightarrow> eff_return ()
            | Some command \<Rightarrow> eff_fst (report_error (command iss))) (\<lambda>_.
         eff_snd (eff_modify (add_history line))))"

fun line_loop :: "(cstring \<times> 's command) list \<Rightarrow> cstring list \<Rightarrow> ('s \<times> Console, unit) eff" where
  "line_loop commands [] = eff_throw (Undefined_behaviour ''string(nullptr)'')"
| "line_loop commands (line # lines) =
     (if trim line = str ''exit'' then eff_return ()
      else eff_bind (run_line commands (trim line)) (\<lambda>_. line_loop commands lines))"

text \<open>How it ends: after \<open>n\<close> lines, with \<open>exit\<close>, at the end of the input, or with an exception that is not caught.\<close>

definition line_loop_end :: "cstring list \<Rightarrow> nat \<Rightarrow> unit result \<Rightarrow> bool" where
  "line_loop_end lines n r \<longleftrightarrow>
     n \<le> length lines \<and> (\<forall>line \<in> set (take n lines). trim line \<noteq> str ''exit'') \<and>
     (case r of
        Inr _ \<Rightarrow> n < length lines \<and> trim (lines ! n) = str ''exit''
      | Inl e \<Rightarrow> n = length lines \<and> e = Undefined_behaviour ''string(nullptr)'' \<or> n < length lines \<and> \<not> command_error e)"

lemma line_loop_end_Suc:
  "trim line \<noteq> str ''exit'' \<Longrightarrow> line_loop_end (line # lines) (Suc n) r \<longleftrightarrow> line_loop_end lines n r"
  by (auto simp: line_loop_end_def split: sum.splits)

lemma report_error_throws: "report_error m s = (Inl e, t) \<Longrightarrow> \<not> command_error e"
  by (auto simp: report_error_def split: prod.splits sum.splits if_splits)

lemma run_line_result:
  "run_line commands line (s, con) = (r, (t, con')) \<Longrightarrow>
     (case r of Inl e \<Rightarrow> \<not> command_error e \<and> con' = con | Inr u \<Rightarrow> con' = add_history line con)"
  by (auto simp: run_line_def eff_bind_def eff_fst_def eff_snd_def eff_modify_def eff_return_def
      split: prod.splits sum.splits option.splits dest: report_error_throws)

lemma line_loop_console:
  assumes "line_loop commands lines (s, con) = (r, (t, con'))"
  shows "\<exists>n. line_loop_end lines n r \<and> con' = con\<lparr>console_history := console_history con @ map trim (take n lines)\<rparr>"
  using assms
proof (induction lines arbitrary: s con)
  case Nil
  then show ?case by (auto simp: eff_throw_def line_loop_end_def)
next
  case (Cons line lines)
  show ?case
  proof (cases "trim line = str ''exit''")
    case True
    with Cons.prems show ?thesis by (auto simp: eff_return_def line_loop_end_def intro!: exI [of _ 0])
  next
    case False
    obtain q s1 con1 where run: "run_line commands (trim line) (s, con) = (q, (s1, con1))"
      by (cases "run_line commands (trim line) (s, con)") auto
    show ?thesis
    proof (cases q)
      case (Inl e)
      with run_line_result [OF run] Cons.prems False run show ?thesis
        by (auto simp: eff_bind_def line_loop_end_def intro!: exI [of _ 0])
    next
      case (Inr u)
      then have "line_loop commands lines (s1, con1) = (r, (t, con'))"
        using Cons.prems False run by (simp add: eff_bind_def)
      from Cons.IH [OF this] obtain n where "line_loop_end lines n r"
        "con' = con1\<lparr>console_history := console_history con1 @ map trim (take n lines)\<rparr>" by blast
      with run_line_result [OF run] Inr False show ?thesis
        by (intro exI [of _ "Suc n"]) (simp add: add_history_def line_loop_end_Suc)
    qed
  qed
qed

context command_table
begin

lemma run_line_preserves: "preserves (\<lambda>s. P (fst s)) (run_line commands line)"
proof -
  obtain cmd iss where g: "get_word [] (istringstream line) = (cmd, iss)" by (cases "get_word [] (istringstream line)")
  have "preserves (\<lambda>s. P (fst s)) (case map_of commands cmd of
      None \<Rightarrow> eff_return () | Some command \<Rightarrow> eff_fst (report_error (command iss)))"
  proof (cases "map_of commands cmd")
    case (Some command)
    from command_preserves [OF map_of_SomeD [OF Some]] show ?thesis
      by (auto simp: Some intro!: preserves_fst preserves_report)
  qed (simp add: preserves_return)
  then show ?thesis by (auto simp: run_line_def g intro!: preserves_bind preserves_client_snd)
qed

lemma line_loop_preserves: "preserves (\<lambda>s. P (fst s)) (line_loop commands lines)"
  by (induction lines) (auto intro!: preserves_throw preserves_return preserves_bind run_line_preserves)

lemma line_ends_session:
  assumes "(cmd, command) \<in> set commands" and "get_word [] (istringstream (trim line)) = (cmd, iss)"
    and "trim line \<noteq> str ''exit''" and "command iss s = (Inl e, t)" and "\<not> command_error e"
  shows "line_loop commands (line # lines) (s, con) = (Inl e, (t, con))"
proof -
  have "map_of commands cmd = Some command" using assms(1) names by simp
  then show ?thesis
    using assms(2-5) by (simp add: run_line_def eff_bind_def eff_fst_def report_error_def)
qed

end

section \<open>Parameters of commands\<close>

text \<open>What a variable that is declared without an initializer holds: any value.\<close>

record uninit =
  uninit_index :: u64
  uninit_address :: "u8 list"
  uninit_id :: "u8 list"

definition check_istream_eof :: "istream \<Rightarrow> string \<Rightarrow> ('s, unit) eff" where
  "check_istream_eof params err = (if is_eof params then eff_throw (Invalid_argument err) else eff_return ())"

definition check_account_index :: "('k, 'w) env \<Rightarrow> u64 \<Rightarrow> (('k, 'w) client_state, unit) eff" where
  "check_account_index env account_index =
     eff_bind (get_all_accounts env) (\<lambda>accounts.
     if length accounts \<le> unat account_index
     then eff_throw (Invalid_argument ''The account index is more than the size of all accounts.'')
     else eff_return ())"

text \<open>
  An address in hexadecimal digits, or the index of an account. The index is an \<open>int\<close> and is compared with a
  \<open>size_t\<close>: a negative one is larger than all. A variable without initializer has an arbitrary value, \<open>junk\<close>.
\<close>

definition get_from_stream ::
    "('k, 'w) env \<Rightarrow> u8 list \<Rightarrow> istream \<Rightarrow> (('k, 'w) client_state, Address \<times> istream) eff" where
  "get_from_stream env junk params =
     eff_bind (check_istream_eof params ''index or address'') (\<lambda>_.
     let (temp, params') = get_word [] params
     in if length temp = 32
        then eff_bind (eff_lift (get_array junk (istringstream temp))) (\<lambda>(addr, _). eff_return (addr, params'))
        else eff_bind (get_all_accounts env) (\<lambda>accounts.
          let (account_index, _) = get_int (- 1) (istringstream temp)
          in if account_index < 0 \<or> length accounts \<le> nat account_index
             then eff_throw (Invalid_argument ''account index is out of account size.'')
             else eff_return (AccountAddress_value (Account_address (accounts ! nat account_index)), params')))"

text \<open>What a word that is neither stands for.\<close>

lemma get_from_stream_no_number:
  assumes "stream_at (c # word) rest params" and "solid (c # word)" and "\<not> is_digit c" and "c \<noteq> 0x2D" and "c \<noteq> 0x2B"
    and "length word \<noteq> 31"
    and "get_all_accounts env s = (Inr (account # accounts), s)"
  shows "get_from_stream env junk params s =
    (Inr (AccountAddress_value (Account_address account), is_taken rest False), s)"
proof -
  have "\<not> is_eof params" using assms(1) by (simp add: stream_at_def)
  moreover have "stream_at (c # word) [] (istringstream (c # word))"
    by (auto simp: stream_at_def istringstream_def)
  from get_int_no_number [OF this assms(2-5)] have "get_int (- 1) (istringstream (c # word)) = (0, is_taken (c # word) True)" by simp
  ultimately show ?thesis
    using assms(6,7) get_word_at [OF assms(1,2), of "[]"]
    by (simp add: get_from_stream_def check_istream_eof_def eff_bind_def eff_return_def)
qed

section \<open>Histories of a client\<close>

text \<open>What the operations of a client, and the calls composed of them, keep: the state stays one of a history.\<close>

named_theorems history_intros \<open>which operations stay within the histories of a client\<close>

lemma preserves_historyI:
  "(\<And>s r t. client_history env s \<Longrightarrow> m s = (r, t) \<Longrightarrow> client_history env t) \<Longrightarrow> preserves (client_history env) m"
  unfolding preserves_def by (metis prod.collapse)

lemma history_operations [history_intros]:
  "preserves (client_history env) (create_next_account env opt_address)"
  "preserves (client_history env) (submit_txn_payload env i p g pr cu ex)"
  "preserves (client_history env) (check_txn_vm_status env address sn info)"
  "preserves (client_history env) (sign_multi_agent_script env i script addrs g pr cu ex)"
  "preserves (client_history env) (sign_and_submit_multi_agent_signed_txn env i txn)"
  by (rule preserves_historyI; erule (1) client_history.intros)+

lemma history_world [history_intros]: "preserves (client_history env) (eff_snd m)"
proof (rule preserves_historyI)
  fix s r t
  assume "client_history env s" "eff_snd m s = (r, t)"
  then show "client_history env t"
    using client_history.world [of env "fst s" "snd s" "snd t"] by (auto simp: eff_snd_def split: prod.splits)
qed

lemma history_accounts [history_intros]: "preserves (client_history env) (get_all_accounts env)"
  by (simp add: preserves_def get_all_accounts_def)

lemma preserves_list [preserves_intros]:
  "preserves P n \<Longrightarrow> (\<And>x xs. preserves P (f x xs)) \<Longrightarrow> preserves P (case v of [] \<Rightarrow> n | x # xs \<Rightarrow> f x xs)"
  by (cases v) simp_all

lemmas client_calls = run_script_def run_script_void_def submit_script_def submit_module_def read_file_def publish_module_def
  publish_module_file_def execute_script_file_def get_account_state_def client_get_events_def

lemma history_calls [history_intros]:
  "preserves (client_history env) (script_call env i file_name tags args info)"
  "preserves (client_history env) (run_script env i script what)"
  "preserves (client_history env) (run_script_void env i script what)"
  "preserves (client_history env) (publish_module_file env i module_file)"
  "preserves (client_history env) (get_account_state env address)"
  "preserves (client_history env) (client_query_events env f init handle start limit)"
  unfolding script_call_def client_query_events_def client_calls
  by (intro preserves_intros history_intros)+

lemma history_framework [history_intros]:
  "preserves (client_history env) (allow_custom_script env is_allowing)"
  "preserves (client_history env) (allow_publishing_module env is_allowing)"
  "preserves (client_history env) (create_parent_vasp_account env a k n b)"
  "preserves (client_history env) (create_child_vasp_account env i a k c m b)"
  "preserves (client_history env) (create_designated_dealer_ex env c x a k n b)"
  unfolding allow_custom_script_def allow_publishing_module_def create_parent_vasp_account_def
    create_child_vasp_account_def create_designated_dealer_ex_def
  by (intro preserves_intros history_intros)+

lemma history_parameters [history_intros]:
  "preserves (client_history env) (check_istream_eof params err)"
  "preserves (client_history env) (check_account_index env i)"
  "preserves (client_history env) (get_from_stream env junk params)"
  unfolding check_istream_eof_def check_account_index_def get_from_stream_def
  by (intro preserves_intros history_intros)+

end
