(* ===== verification/Nft_Store_2.thy ===== *)
theory Nft_Store_2
  imports Nft_Token
begin

text \<open>
  \<open>src/cpp/nft-store-2/src/nft_store.cpp\<close>: the market for tokens. Orders are made, revoked and traded by
  Move scripts; the open orders and the event handles of an account are resources, the history of an
  account is in its events.
\<close>

section \<open>Resources and events\<close>

definition NFT_STORE_ADMIN_ADDRESS :: Address where
  "NFT_STORE_ADMIN_ADDRESS = replicate 14 0 @ [0x11, 0x22]"

record Order =
  order_nft_token_id :: "u8 list"
  order_price :: u64
  order_currency :: "u8 list"
  order_provider :: Address
  order_timestamp :: u64

definition serde_Order :: "Order serde_op" where
  "serde_Order t =
     act_bind (serde_bytes (order_nft_token_id t)) (\<lambda>nft_token_id'.
     act_bind (serde_integral 8 (order_price t)) (\<lambda>price'.
     act_bind (serde_bytes (order_currency t)) (\<lambda>currency'.
     act_bind (serde_address (order_provider t)) (\<lambda>provider'.
     act_bind (serde_integral 8 (order_timestamp t)) (\<lambda>timestamp'.
     act_return (t\<lparr>order_nft_token_id := nft_token_id', order_price := price',
       order_currency := currency', order_provider := provider', order_timestamp := timestamp'\<rparr>))))))"

record AccountInfo =
  info_made_order_event_handle :: EventHandle
  info_revoked_order_event_handle :: EventHandle
  info_sold_order_event_handle :: EventHandle
  info_bought_order_event_handle :: EventHandle

definition serde_AccountInfo :: "AccountInfo serde_op" where
  "serde_AccountInfo t =
     act_bind (serde_EventHandle (info_made_order_event_handle t)) (\<lambda>made_order_event_handle'.
     act_bind (serde_EventHandle (info_revoked_order_event_handle t)) (\<lambda>revoked_order_event_handle'.
     act_bind (serde_EventHandle (info_sold_order_event_handle t)) (\<lambda>sold_order_event_handle'.
     act_bind (serde_EventHandle (info_bought_order_event_handle t)) (\<lambda>bought_order_event_handle'.
     act_return (t\<lparr>info_made_order_event_handle := made_order_event_handle',
       info_revoked_order_event_handle := revoked_order_event_handle',
       info_sold_order_event_handle := sold_order_event_handle',
       info_bought_order_event_handle := bought_order_event_handle'\<rparr>)))))"

record MadeOrderEvent = Event +
  made_order_id :: "u8 list"
  made_nft_token_id :: "u8 list"
  made_price :: u64
  made_currency :: "u8 list"

definition serde_MadeOrderEvent :: "MadeOrderEvent serde_op" where
  "serde_MadeOrderEvent t =
     act_bind (serde_bytes (made_order_id t)) (\<lambda>order_id'.
     act_bind (serde_bytes (made_nft_token_id t)) (\<lambda>nft_token_id'.
     act_bind (serde_integral 8 (made_price t)) (\<lambda>price'.
     act_bind (serde_bytes (made_currency t)) (\<lambda>currency'.
     act_return (t\<lparr>made_order_id := order_id', made_nft_token_id := nft_token_id', made_price := price',
       made_currency := currency'\<rparr>)))))"

record RevokedOrderEvent = Event +
  revoked_order_id :: "u8 list"
  revoked_nft_token_id :: "u8 list"

definition serde_RevokedOrderEvent :: "RevokedOrderEvent serde_op" where
  "serde_RevokedOrderEvent t =
     act_bind (serde_bytes (revoked_order_id t)) (\<lambda>order_id'.
     act_bind (serde_bytes (revoked_nft_token_id t)) (\<lambda>nft_token_id'.
     act_return (t\<lparr>revoked_order_id := order_id', revoked_nft_token_id := nft_token_id'\<rparr>)))"

record SoldOrderEvent = Event +
  sold_order_id :: "u8 list"
  sold_nft_token_id :: "u8 list"
  sold_buyer :: Address
  sold_price :: u64
  sold_currency :: "u8 list"
  sold_fee_rate :: u64

definition serde_SoldOrderEvent :: "SoldOrderEvent serde_op" where
  "serde_SoldOrderEvent t =
     act_bind (serde_bytes (sold_order_id t)) (\<lambda>order_id'.
     act_bind (serde_bytes (sold_nft_token_id t)) (\<lambda>nft_token_id'.
     act_bind (serde_address (sold_buyer t)) (\<lambda>buyer'.
     act_bind (serde_integral 8 (sold_price t)) (\<lambda>price'.
     act_bind (serde_bytes (sold_currency t)) (\<lambda>currency'.
     act_bind (serde_integral 8 (sold_fee_rate t)) (\<lambda>fee_rate'.
     act_return (t\<lparr>sold_order_id := order_id', sold_nft_token_id := nft_token_id', sold_buyer := buyer',
       sold_price := price', sold_currency := currency', sold_fee_rate := fee_rate'\<rparr>)))))))"

record BoughtOrderEvent = Event +
  bought_order_id :: "u8 list"
  bought_nft_token_id :: "u8 list"
  bought_seller :: Address
  bought_price :: u64
  bought_currency :: "u8 list"

definition serde_BoughtOrderEvent :: "BoughtOrderEvent serde_op" where
  "serde_BoughtOrderEvent t =
     act_bind (serde_bytes (bought_order_id t)) (\<lambda>order_id'.
     act_bind (serde_bytes (bought_nft_token_id t)) (\<lambda>nft_token_id'.
     act_bind (serde_address (bought_seller t)) (\<lambda>seller'.
     act_bind (serde_integral 8 (bought_price t)) (\<lambda>price'.
     act_bind (serde_bytes (bought_currency t)) (\<lambda>currency'.
     act_return (t\<lparr>bought_order_id := order_id', bought_nft_token_id := nft_token_id',
       bought_seller := seller', bought_price := price', bought_currency := currency'\<rparr>))))))"

record TradedOrderEvent = Event +
  traded_order_id :: "u8 list"
  traded_nft_token_id :: "u8 list"
  traded_seller :: Address
  traded_buyer :: Address
  traded_price :: u64
  traded_currency :: "u8 list"
  traded_fee_rate :: u64

definition serde_TradedOrderEvent :: "TradedOrderEvent serde_op" where
  "serde_TradedOrderEvent t =
     act_bind (serde_bytes (traded_order_id t)) (\<lambda>order_id'.
     act_bind (serde_bytes (traded_nft_token_id t)) (\<lambda>nft_token_id'.
     act_bind (serde_address (traded_seller t)) (\<lambda>seller'.
     act_bind (serde_address (traded_buyer t)) (\<lambda>buyer'.
     act_bind (serde_integral 8 (traded_price t)) (\<lambda>price'.
     act_bind (serde_bytes (traded_currency t)) (\<lambda>currency'.
     act_bind (serde_integral 8 (traded_fee_rate t)) (\<lambda>fee_rate'.
     act_return (t\<lparr>traded_order_id := order_id', traded_nft_token_id := nft_token_id',
       traded_seller := seller', traded_buyer := buyer', traded_price := price', traded_currency := currency',
       traded_fee_rate := fee_rate'\<rparr>))))))))"

section \<open>The store\<close>

datatype event_type = made | revoked | sold | bought | traded

text \<open>A store keeps the client and the type tag of its tokens; the tag is the argument \<open>nft\<close> here.\<close>

definition store_initialize :: "('k, 'w) env \<Rightarrow> u64 \<Rightarrow> (('k, 'w) client_state, unit) eff" where
  "store_initialize env account_index =
     script_call env account_index ''move/build/scripts/nft_store_2_initialize.mv'' [] [] ''Store::initialize''"

text \<open>\<open>register_nft\<close> does not use its argument.\<close>

definition register_nft :: "('k, 'w) env \<Rightarrow> TypeTag \<Rightarrow> u64 \<Rightarrow> (('k, 'w) client_state, unit) eff" where
  "register_nft env nft account_index =
     script_call env 0 ''move/build/scripts/nft_store_2_register_nft.mv'' [nft] [Arg_uint64 5, Arg_uint64 1000]
       ''Store::register_nft''"

definition accept_nft :: "('k, 'w) env \<Rightarrow> TypeTag \<Rightarrow> u64 \<Rightarrow> (('k, 'w) client_state, unit) eff" where
  "accept_nft env nft account_index =
     script_call env account_index ''move/build/scripts/nft_store_2_accept.mv'' [nft] [] ''Store::accept_nft''"

definition make_order ::
    "('k, 'w) env \<Rightarrow> TypeTag \<Rightarrow> u64 \<Rightarrow> u8 list \<Rightarrow> u64 \<Rightarrow> cstring \<Rightarrow> (('k, 'w) client_state, unit) eff" where
  "make_order env nft account_index nft_id price currency =
     script_call env account_index ''move/build/scripts/nft_store_2_make_order.mv'' [nft, currency_tag currency]
       [Arg_array32 nft_id, Arg_uint64 price] ''Store::make_order''"

definition revoke_order :: "('k, 'w) env \<Rightarrow> TypeTag \<Rightarrow> u64 \<Rightarrow> u8 list \<Rightarrow> (('k, 'w) client_state, unit) eff" where
  "revoke_order env nft account_index order_id =
     script_call env account_index ''move/build/scripts/nft_store_2_revoke_order.mv'' [nft] [Arg_array32 order_id]
       ''Store::revoke_order''"

definition trade_order ::
    "('k, 'w) env \<Rightarrow> TypeTag \<Rightarrow> u64 \<Rightarrow> cstring \<Rightarrow> u8 list \<Rightarrow> (('k, 'w) client_state, unit) eff" where
  "trade_order env nft account_index currency order_id =
     script_call env account_index ''move/build/scripts/nft_store_2_trade_order.mv'' [nft, currency_tag currency]
       [Arg_array32 order_id] ''Store::trade_order''"

text \<open>Here, unlike in the token class, a missing state is noticed.\<close>

definition opt_resource :: "'a serde_op \<Rightarrow> 'a \<Rightarrow> StructTag \<Rightarrow> resources option \<Rightarrow> 'a option result" where
  "opt_resource f init tag state =
     (case state of None \<Rightarrow> Inr None | Some resources' \<Rightarrow> get_resource f init resources' tag)"

definition no_Order :: Order where
  "no_Order = \<lparr>order_nft_token_id = [], order_price = 0, order_currency = [], order_provider = replicate 16 0,
     order_timestamp = 0\<rparr>"

definition no_AccountInfo :: AccountInfo where
  "no_AccountInfo = \<lparr>info_made_order_event_handle = no_handle, info_revoked_order_event_handle = no_handle,
     info_sold_order_event_handle = no_handle, info_bought_order_event_handle = no_handle\<rparr>"

definition list_orders :: "('k, 'w) env \<Rightarrow> TypeTag \<Rightarrow> (('k, 'w) client_state, Order list) eff" where
  "list_orders env nft =
     eff_bind (get_account_state env \<lparr>AccountAddress_value = NFT_STORE_ADMIN_ADDRESS\<rparr>) (\<lambda>state.
     eff_bind (eff_lift (opt_resource (serde_container no_Order serde_Order) []
       (make_struct_tag VIOLAS_LIB_ADDRESS (str ''NftStore2'') (str ''OrderList'') [nft]) state)) (\<lambda>opt_orders.
     eff_return (case opt_orders of None \<Rightarrow> [] | Some orders \<Rightarrow> orders)))"

definition get_account_info ::
    "('k, 'w) env \<Rightarrow> TypeTag \<Rightarrow> Address \<Rightarrow> (('k, 'w) client_state, AccountInfo option) eff" where
  "get_account_info env nft address =
     eff_bind (get_account_state env \<lparr>AccountAddress_value = address\<rparr>) (\<lambda>state.
     eff_lift (opt_resource serde_AccountInfo no_AccountInfo
       (make_struct_tag VIOLAS_LIB_ADDRESS (str ''NftStore2'') (str ''Account'') [nft]) state))"

text \<open>The handle of traded orders is taken from the administrator; it is the one of revoked orders.\<close>

fun store_get_event_handle ::
    "('k, 'w) env \<Rightarrow> TypeTag \<Rightarrow> Address \<Rightarrow> event_type \<Rightarrow> (('k, 'w) client_state, EventHandle option) eff" where
  "store_get_event_handle env nft address made =
     eff_bind (get_account_info env nft address) (\<lambda>info. eff_return (map_option info_made_order_event_handle info))"
| "store_get_event_handle env nft address revoked =
     eff_bind (get_account_info env nft address) (\<lambda>info. eff_return (map_option info_revoked_order_event_handle info))"
| "store_get_event_handle env nft address sold =
     eff_bind (get_account_info env nft address) (\<lambda>info. eff_return (map_option info_sold_order_event_handle info))"
| "store_get_event_handle env nft address bought =
     eff_bind (get_account_info env nft address) (\<lambda>info. eff_return (map_option info_bought_order_event_handle info))"
| "store_get_event_handle env nft address traded =
     eff_bind (get_account_info env nft NFT_STORE_ADMIN_ADDRESS) (\<lambda>info.
     eff_return (map_option info_revoked_order_event_handle info))"

definition query_order_events ::
    "('k, 'w) env \<Rightarrow> 'a Event_scheme serde_op \<Rightarrow> 'a Event_scheme \<Rightarrow> EventHandle \<Rightarrow> u64 \<Rightarrow> u64 \<Rightarrow>
     (('k, 'w) client_state, 'a Event_scheme list) eff" where
  "query_order_events env f init handle start limit = client_query_events env f init handle start limit"

text \<open>What identifies an order: the hash of its bytes, as the table of orders shows it.\<close>

definition order_id :: "'k openssl \<Rightarrow> Order \<Rightarrow> u8 list result" where
  "order_id ssl order =
     (case serde_Order order BcsSerde_new of Inl e \<Rightarrow> Inl e | Inr (_, serde) \<Rightarrow> Inr (ssl_sha3_256 ssl (bs_bytes serde)))"

section \<open>The documents of resources and events\<close>

definition doc_Order :: "Order \<Rightarrow> bcs_doc" where
  "doc_Order t = Doc_Tuple
     [doc_vector doc_u8 (order_nft_token_id t),
      doc_word 8 (order_price t),
      doc_vector doc_u8 (order_currency t),
      doc_array 16 doc_u8 (order_provider t),
      doc_word 8 (order_timestamp t)]"

interpretation Order_field: serde_field serde_Order "\<lambda>t. length (order_provider t) = 16" doc_Order
proof
  fix s and x y :: Order
  show "is_serialization s \<Longrightarrow> lengths_below (2 ^ 64) (doc_Order x) \<Longrightarrow>
      serde_Order x s = Inr (x, bs_put (enc (doc_Order x)) s)"
    by (simp add: serde_Order_def doc_Order_def act_bind_def act_return_def serde_bytes.field_write serde_u64.field_write serde_address.field_write)
  show "serde_Order y s = Inr (x, bs_advance (length (enc (doc_Order x))) s)"
    if "\<not> is_serialization s"
      "length (order_provider x) = 16"
      "length (order_provider y) = 16"
      "lengths_below (2 ^ 28) (doc_Order x)"
      "bs_starts (enc (doc_Order x)) s"
    using that
    by (simp add: serde_Order_def doc_Order_def act_bind_def act_return_def add.assoc
        serde_bytes.field_read [where x = "order_nft_token_id x"]
        serde_u64.field_read [where x = "order_price x"]
        serde_bytes.field_read [where x = "order_currency x"]
        serde_address.field_read [where x = "order_provider x"]
        serde_u64.field_read [where x = "order_timestamp x"])
qed

definition doc_AccountInfo :: "AccountInfo \<Rightarrow> bcs_doc" where
  "doc_AccountInfo t = Doc_Tuple
     [doc_EventHandle (info_made_order_event_handle t),
      doc_EventHandle (info_revoked_order_event_handle t),
      doc_EventHandle (info_sold_order_event_handle t),
      doc_EventHandle (info_bought_order_event_handle t)]"

interpretation AccountInfo_field: serde_field serde_AccountInfo "\<lambda>t. True" doc_AccountInfo
proof
  fix s and x y :: AccountInfo
  show "is_serialization s \<Longrightarrow> lengths_below (2 ^ 64) (doc_AccountInfo x) \<Longrightarrow>
      serde_AccountInfo x s = Inr (x, bs_put (enc (doc_AccountInfo x)) s)"
    by (simp add: serde_AccountInfo_def doc_AccountInfo_def act_bind_def act_return_def EventHandle_field.field_write)
  show "serde_AccountInfo y s = Inr (x, bs_advance (length (enc (doc_AccountInfo x))) s)"
    if "\<not> is_serialization s"
      "lengths_below (2 ^ 28) (doc_AccountInfo x)"
      "bs_starts (enc (doc_AccountInfo x)) s"
    using that
    by (simp add: serde_AccountInfo_def doc_AccountInfo_def act_bind_def act_return_def add.assoc
        EventHandle_field.field_read [where x = "info_made_order_event_handle x"]
        EventHandle_field.field_read [where x = "info_revoked_order_event_handle x"]
        EventHandle_field.field_read [where x = "info_sold_order_event_handle x"]
        EventHandle_field.field_read [where x = "info_bought_order_event_handle x"])
qed

definition doc_MadeOrderEvent :: "MadeOrderEvent \<Rightarrow> bcs_doc" where
  "doc_MadeOrderEvent t = Doc_Tuple
     [doc_vector doc_u8 (made_order_id t),
      doc_vector doc_u8 (made_nft_token_id t),
      doc_word 8 (made_price t),
      doc_vector doc_u8 (made_currency t)]"

interpretation MadeOrderEvent_field: event_field serde_MadeOrderEvent "\<lambda>t. True" doc_MadeOrderEvent
proof
  fix s and x y :: MadeOrderEvent
  show "serde_MadeOrderEvent y s = Inr (x\<lparr>sequence_number := sequence_number y, transaction_version := transaction_version y\<rparr>, bs_advance (length (enc (doc_MadeOrderEvent x))) s)"
    if "\<not> is_serialization s"
      "lengths_below (2 ^ 28) (doc_MadeOrderEvent x)"
      "bs_starts (enc (doc_MadeOrderEvent x)) s"
    using that
    by (simp add: serde_MadeOrderEvent_def doc_MadeOrderEvent_def act_bind_def act_return_def add.assoc
        serde_bytes.field_read [where x = "made_order_id x"]
        serde_bytes.field_read [where x = "made_nft_token_id x"]
        serde_u64.field_read [where x = "made_price x"]
        serde_bytes.field_read [where x = "made_currency x"])
qed

definition doc_RevokedOrderEvent :: "RevokedOrderEvent \<Rightarrow> bcs_doc" where
  "doc_RevokedOrderEvent t = Doc_Tuple
     [doc_vector doc_u8 (revoked_order_id t),
      doc_vector doc_u8 (revoked_nft_token_id t)]"

interpretation RevokedOrderEvent_field: event_field serde_RevokedOrderEvent "\<lambda>t. True" doc_RevokedOrderEvent
proof
  fix s and x y :: RevokedOrderEvent
  show "serde_RevokedOrderEvent y s = Inr (x\<lparr>sequence_number := sequence_number y, transaction_version := transaction_version y\<rparr>, bs_advance (length (enc (doc_RevokedOrderEvent x))) s)"
    if "\<not> is_serialization s"
      "lengths_below (2 ^ 28) (doc_RevokedOrderEvent x)"
      "bs_starts (enc (doc_RevokedOrderEvent x)) s"
    using that
    by (simp add: serde_RevokedOrderEvent_def doc_RevokedOrderEvent_def act_bind_def act_return_def add.assoc
        serde_bytes.field_read [where x = "revoked_order_id x"]
        serde_bytes.field_read [where x = "revoked_nft_token_id x"])
qed

definition doc_SoldOrderEvent :: "SoldOrderEvent \<Rightarrow> bcs_doc" where
  "doc_SoldOrderEvent t = Doc_Tuple
     [doc_vector doc_u8 (sold_order_id t),
      doc_vector doc_u8 (sold_nft_token_id t),
      doc_array 16 doc_u8 (sold_buyer t),
      doc_word 8 (sold_price t),
      doc_vector doc_u8 (sold_currency t),
      doc_word 8 (sold_fee_rate t)]"

interpretation SoldOrderEvent_field: event_field serde_SoldOrderEvent "\<lambda>t. length (sold_buyer t) = 16" doc_SoldOrderEvent
proof
  fix s and x y :: SoldOrderEvent
  show "serde_SoldOrderEvent y s = Inr (x\<lparr>sequence_number := sequence_number y, transaction_version := transaction_version y\<rparr>, bs_advance (length (enc (doc_SoldOrderEvent x))) s)"
    if "\<not> is_serialization s"
      "length (sold_buyer x) = 16"
      "length (sold_buyer y) = 16"
      "lengths_below (2 ^ 28) (doc_SoldOrderEvent x)"
      "bs_starts (enc (doc_SoldOrderEvent x)) s"
    using that
    by (simp add: serde_SoldOrderEvent_def doc_SoldOrderEvent_def act_bind_def act_return_def add.assoc
        serde_bytes.field_read [where x = "sold_order_id x"]
        serde_bytes.field_read [where x = "sold_nft_token_id x"]
        serde_address.field_read [where x = "sold_buyer x"]
        serde_u64.field_read [where x = "sold_price x"]
        serde_bytes.field_read [where x = "sold_currency x"]
        serde_u64.field_read [where x = "sold_fee_rate x"])
qed

definition doc_BoughtOrderEvent :: "BoughtOrderEvent \<Rightarrow> bcs_doc" where
  "doc_BoughtOrderEvent t = Doc_Tuple
     [doc_vector doc_u8 (bought_order_id t),
      doc_vector doc_u8 (bought_nft_token_id t),
      doc_array 16 doc_u8 (bought_seller t),
      doc_word 8 (bought_price t),
      doc_vector doc_u8 (bought_currency t)]"

interpretation BoughtOrderEvent_field: event_field serde_BoughtOrderEvent "\<lambda>t. length (bought_seller t) = 16" doc_BoughtOrderEvent
proof
  fix s and x y :: BoughtOrderEvent
  show "serde_BoughtOrderEvent y s = Inr (x\<lparr>sequence_number := sequence_number y, transaction_version := transaction_version y\<rparr>, bs_advance (length (enc (doc_BoughtOrderEvent x))) s)"
    if "\<not> is_serialization s"
      "length (bought_seller x) = 16"
      "length (bought_seller y) = 16"
      "lengths_below (2 ^ 28) (doc_BoughtOrderEvent x)"
      "bs_starts (enc (doc_BoughtOrderEvent x)) s"
    using that
    by (simp add: serde_BoughtOrderEvent_def doc_BoughtOrderEvent_def act_bind_def act_return_def add.assoc
        serde_bytes.field_read [where x = "bought_order_id x"]
        serde_bytes.field_read [where x = "bought_nft_token_id x"]
        serde_address.field_read [where x = "bought_seller x"]
        serde_u64.field_read [where x = "bought_price x"]
        serde_bytes.field_read [where x = "bought_currency x"])
qed

definition doc_TradedOrderEvent :: "TradedOrderEvent \<Rightarrow> bcs_doc" where
  "doc_TradedOrderEvent t = Doc_Tuple
     [doc_vector doc_u8 (traded_order_id t),
      doc_vector doc_u8 (traded_nft_token_id t),
      doc_array 16 doc_u8 (traded_seller t),
      doc_array 16 doc_u8 (traded_buyer t),
      doc_word 8 (traded_price t),
      doc_vector doc_u8 (traded_currency t),
      doc_word 8 (traded_fee_rate t)]"

interpretation TradedOrderEvent_field: event_field serde_TradedOrderEvent "\<lambda>t. length (traded_seller t) = 16 \<and> length (traded_buyer t) = 16" doc_TradedOrderEvent
proof
  fix s and x y :: TradedOrderEvent
  show "serde_TradedOrderEvent y s = Inr (x\<lparr>sequence_number := sequence_number y, transaction_version := transaction_version y\<rparr>, bs_advance (length (enc (doc_TradedOrderEvent x))) s)"
    if "\<not> is_serialization s"
      "length (traded_seller x) = 16 \<and> length (traded_buyer x) = 16"
      "length (traded_seller y) = 16 \<and> length (traded_buyer y) = 16"
      "lengths_below (2 ^ 28) (doc_TradedOrderEvent x)"
      "bs_starts (enc (doc_TradedOrderEvent x)) s"
    using that
    by (simp add: serde_TradedOrderEvent_def doc_TradedOrderEvent_def act_bind_def act_return_def add.assoc
        serde_bytes.field_read [where x = "traded_order_id x"]
        serde_bytes.field_read [where x = "traded_nft_token_id x"]
        serde_address.field_read [where x = "traded_seller x"]
        serde_address.field_read [where x = "traded_buyer x"]
        serde_u64.field_read [where x = "traded_price x"]
        serde_bytes.field_read [where x = "traded_currency x"]
        serde_u64.field_read [where x = "traded_fee_rate x"])
qed

section \<open>What the queries answer\<close>

lemma opt_resource_served:
  assumes "serde_field f invar doc" and "invar init" and "invar x" and "lengths_below (2 ^ 28) (doc x)"
    and "bcsSerialize_ResourcePath (ResourcePath_StructTag tag) = Inr key"
    and "map_of m key = Some (enc (doc x))"
  shows "opt_resource f init tag (Some m) = Inr (Some x)"
  using get_resource_reads [OF assms] by (simp add: opt_resource_def)

lemma get_account_info_served:
  assumes "serves_resources env \<lparr>AccountAddress_value = address\<rparr> entries w w'"
    and "bcsSerialize_ResourcePath (ResourcePath_StructTag
      (make_struct_tag VIOLAS_LIB_ADDRESS (str ''NftStore2'') (str ''Account'') [nft])) = Inr key"
    and "map_of entries key = Some (enc (doc_AccountInfo info))" and "lengths_below (2 ^ 28) (doc_AccountInfo info)"
  shows "get_account_info env nft address (c, w) = (Inr (Some info), (c, w'))"
proof -
  obtain m where m: "get_account_state env \<lparr>AccountAddress_value = address\<rparr> (c, w) = (Inr (Some m), (c, w'))"
      "map_of m = map_of entries"
    by (rule get_account_state_served [OF assms(1)])
  with opt_resource_served [OF AccountInfo_field.serde_field_axioms _ _ assms(4,2), where init = no_AccountInfo and m = m] assms(3)
  show ?thesis by (simp add: get_account_info_def eff_bind_def eff_lift_def)
qed

lemma list_orders_served:
  assumes "serves_resources env \<lparr>AccountAddress_value = NFT_STORE_ADMIN_ADDRESS\<rparr> entries w w'"
    and "bcsSerialize_ResourcePath (ResourcePath_StructTag
      (make_struct_tag VIOLAS_LIB_ADDRESS (str ''NftStore2'') (str ''OrderList'') [nft])) = Inr key"
    and "map_of entries key = Some (enc (doc_vector doc_Order orders))"
    and "list_all (\<lambda>t. length (order_provider t) = 16) orders" and "lengths_below (2 ^ 28) (doc_vector doc_Order orders)"
  shows "list_orders env nft (c, w) = (Inr orders, (c, w'))"
proof -
  obtain m where m: "get_account_state env \<lparr>AccountAddress_value = NFT_STORE_ADMIN_ADDRESS\<rparr> (c, w) = (Inr (Some m), (c, w'))"
      "map_of m = map_of entries"
    by (rule get_account_state_served [OF assms(1)])
  have "serde_field (serde_container no_Order serde_Order) (list_all (\<lambda>t. length (order_provider t) = 16)) (doc_vector doc_Order)"
    by (rule serde_field.container_field [OF Order_field.serde_field_axioms]) (simp add: no_Order_def)
  from opt_resource_served [OF this _ assms(4,5,2), where init = "[]" and m = m] assms(3) m show ?thesis
    by (simp add: list_orders_def eff_bind_def eff_lift_def eff_return_def)
qed

lemma order_id_written:
  "lengths_below (2 ^ 64) (doc_Order x) \<Longrightarrow> order_id ssl x = Inr (ssl_sha3_256 ssl (enc (doc_Order x)))"
  using Order_field.field_write [of BcsSerde_new x]
  by (simp add: order_id_def BcsSerde_new_def bs_put_def)

end
