(* ===== verification/Nft_Store_2_Main.thy ===== *)
theory Nft_Store_2_Main
  imports Shell Nft_Store_2
begin

text \<open>
  \<open>src/cpp/nft-store-2/src/main.cpp\<close>: the command line program over the store and the tokens of type \<open>Portrait\<close>.

  One definition per command, as a function from the rest of the line. What a command prints is left out; a query
  is still made, since it may throw. A variable that is declared without an initializer has an arbitrary
  value, which the record \<open>uninit\<close> stands for. A price is read as a floating-point number: the argument
  \<open>get_price\<close> gives the micro coins that it is, without their fraction, which are converted to \<open>uint64_t\<close>. The lemmas show that the commands stay within the histories of the client, and
  follow a trade from the text of the line to the store.
\<close>

section \<open>Events without a value\<close>

definition no_MadeOrderEvent :: MadeOrderEvent where
  "no_MadeOrderEvent = \<lparr>sequence_number = 0, transaction_version = 0, made_order_id = [], made_nft_token_id = [],
     made_price = 0, made_currency = []\<rparr>"

definition no_RevokedOrderEvent :: RevokedOrderEvent where
  "no_RevokedOrderEvent = \<lparr>sequence_number = 0, transaction_version = 0, revoked_order_id = [], revoked_nft_token_id = []\<rparr>"

definition no_SoldOrderEvent :: SoldOrderEvent where
  "no_SoldOrderEvent = \<lparr>sequence_number = 0, transaction_version = 0, sold_order_id = [], sold_nft_token_id = [],
     sold_buyer = replicate 16 0, sold_price = 0, sold_currency = [], sold_fee_rate = 0\<rparr>"

definition no_BoughtOrderEvent :: BoughtOrderEvent where
  "no_BoughtOrderEvent = \<lparr>sequence_number = 0, transaction_version = 0, bought_order_id = [], bought_nft_token_id = [],
     bought_seller = replicate 16 0, bought_price = 0, bought_currency = []\<rparr>"

definition no_TradedOrderEvent :: TradedOrderEvent where
  "no_TradedOrderEvent = \<lparr>sequence_number = 0, transaction_version = 0, traded_order_id = [], traded_nft_token_id = [],
     traded_seller = replicate 16 0, traded_buyer = replicate 16 0, traded_price = 0, traded_currency = [], traded_fee_rate = 0\<rparr>"

definition no_MintedEvent :: MintedEvent where
  "no_MintedEvent = \<lparr>sequence_number = 0, transaction_version = 0, minted_token_id = [], minted_receiver = replicate 16 0\<rparr>"

definition no_BurnedEvent :: BurnedEvent where
  "no_BurnedEvent = \<lparr>sequence_number = 0, transaction_version = 0, burned_token_id = []\<rparr>"

definition no_SentEvent :: SentEvent where
  "no_SentEvent = \<lparr>sequence_number = 0, transaction_version = 0, sent_token_id = [], sent_payee = replicate 16 0, sent_metadata = []\<rparr>"

definition no_ReceivedEvent :: ReceivedEvent where
  "no_ReceivedEvent = \<lparr>sequence_number = 0, transaction_version = 0, received_token_id = [], received_payer = replicate 16 0,
     received_metadata = []\<rparr>"

section \<open>Accounts\<close>

definition cmd_add_account :: "('k, 'w) env \<Rightarrow> ('k, 'w) client_state command" where
  "cmd_add_account env params = eff_bind (create_next_account env None) (\<lambda>_. eff_return ())"

definition cmd_list_accounts :: "('k, 'w) env \<Rightarrow> ('k, 'w) client_state command" where
  "cmd_list_accounts env params = eff_bind (get_all_accounts env) (\<lambda>_. eff_return ())"

definition cmd_create_child_account :: "('k, 'w) env \<Rightarrow> uninit \<Rightarrow> ('k, 'w) client_state command" where
  "cmd_create_child_account env junk params =
     eff_bind (check_istream_eof params ''authentication key'') (\<lambda>_.
     eff_bind (eff_lift (get_array (uninit_id junk) params)) (\<lambda>(auth_key, _).
     create_child_vasp_account env 0 \<lparr>AccountAddress_value = take 16 (drop 16 auth_key)\<rparr> auth_key (str ''VLS'') 0 True))"

section \<open>The store\<close>

definition store_type_tag :: TypeTag where
  "store_type_tag = make_struct_type_tag VIOLAS_LIB_ADDRESS (str ''Portrait'') (str ''Portrait'')"

text \<open>The accounts are created before the commands are returned.\<close>

definition create_store_accounts :: "('k, 'w) env \<Rightarrow> (('k, 'w) client_state, unit) eff" where
  "create_store_accounts env =
     eff_bind (allow_custom_script env True) (\<lambda>_.
     eff_bind (create_next_account env (Some \<lparr>AccountAddress_value = NFT_STORE_ADMIN_ADDRESS\<rparr>)) (\<lambda>_.
     eff_bind (create_next_account env None) (\<lambda>_.
     eff_bind (create_next_account env None) (\<lambda>_.
     eff_bind (create_next_account env None) (\<lambda>_. eff_return ())))))"

definition cmd_deploy :: "('k, 'w) env \<Rightarrow> ('k, 'w) client_state command" where
  "cmd_deploy env params =
     eff_bind (allow_publishing_module env True) (\<lambda>_.
     eff_bind (publish_module_file env ACCOUNT_ROOT_ID (str ''move/build/package/stdlib/compiled/Compare.mv'')) (\<lambda>_.
     eff_bind (publish_module_file env ACCOUNT_ROOT_ID (str ''move/build/modules/0_Map.mv'')) (\<lambda>_.
     eff_bind (publish_module_file env ACCOUNT_ROOT_ID (str ''move/build/modules/1_NonFungibleToken.mv'')) (\<lambda>_.
     eff_bind (publish_module_file env ACCOUNT_ROOT_ID (str ''move/build/modules/4_NftStore2.mv'')) (\<lambda>_.
     eff_bind (publish_module_file env ACCOUNT_ROOT_ID (str ''move/build/modules/5_Portrait.mv'')) (\<lambda>_.
     eff_bind (get_all_accounts env) (\<lambda>accounts.
     case accounts of
       [] \<Rightarrow> eff_throw (Undefined_behaviour ''accounts[0]'')
     | a0 # as \<Rightarrow> (case as of [] \<Rightarrow> eff_throw (Undefined_behaviour ''accounts[1]'')
     | a1 # bs \<Rightarrow> (case bs of [] \<Rightarrow> eff_throw (Undefined_behaviour ''accounts[2]'')
     | a2 # cs \<Rightarrow> (case cs of [] \<Rightarrow> eff_throw (Undefined_behaviour ''accounts[3]'')
     | a3 # ds \<Rightarrow>
         eff_catch
           (eff_bind (create_designated_dealer_ex env (str ''VLS'') (Account_index a0)
              \<lparr>AccountAddress_value = NFT_STORE_ADMIN_ADDRESS\<rparr> (Account_auth_key a0) (str ''NFT Store Admin'') True) (\<lambda>_.
            eff_bind (create_parent_vasp_account env (Account_address a1) (Account_auth_key a1) (str ''NFT VASP'') True) (\<lambda>_.
            eff_bind (create_child_vasp_account env 1 (Account_address a2) (Account_auth_key a2) (str ''VLS'') 0 True) (\<lambda>_.
            create_child_vasp_account env 1 (Account_address a3) (Account_auth_key a3) (str ''VLS'') 0 True))))
           (eff_return ())))))))))))"

definition cmd_store_initialize :: "('k, 'w) env \<Rightarrow> ('k, 'w) client_state command" where
  "cmd_store_initialize env args =
     (let (account_index, _) = get_u64 0 args
      in eff_bind (check_account_index env account_index) (\<lambda>_. store_initialize env account_index))"

definition cmd_store_register_nft :: "('k, 'w) env \<Rightarrow> ('k, 'w) client_state command" where
  "cmd_store_register_nft env args =
     (let (account_index, _) = get_u64 0 args
      in eff_bind (check_account_index env account_index) (\<lambda>_. register_nft env store_type_tag account_index))"

definition cmd_store_accept_nft :: "('k, 'w) env \<Rightarrow> ('k, 'w) client_state command" where
  "cmd_store_accept_nft env args =
     eff_bind (check_istream_eof args ''account_index'') (\<lambda>_.
     let (account_index, _) = get_u64 0 args
     in eff_bind (check_account_index env account_index) (\<lambda>_. accept_nft env store_type_tag account_index))"

definition cmd_store_list_orders :: "('k, 'w) env \<Rightarrow> ('k, 'w) client_state command" where
  "cmd_store_list_orders env params = eff_bind (list_orders env store_type_tag) (\<lambda>_. eff_return ())"

definition cmd_store_make_order ::
    "('k, 'w) env \<Rightarrow> (istream \<Rightarrow> int option \<times> istream) \<Rightarrow> ('k, 'w) client_state command" where
  "cmd_store_make_order env get_price args =
     eff_bind (check_istream_eof args ''account_index, nft_token_id, price, currency'') (\<lambda>_.
     let (account_index, args1) = get_u64 0 args
     in eff_bind (eff_lift (get_array (replicate 32 0) args1)) (\<lambda>(nft_token_id, args2).
        let (micro_price, args3) = get_price args2;
            (currency, _) = get_word [] args3
        in eff_bind (check_account_index env account_index) (\<lambda>_.
           eff_bind (eff_lift (double_to_u64 micro_price)) (\<lambda>price.
           make_order env store_type_tag account_index nft_token_id price currency))))"

definition cmd_store_revoke_order :: "('k, 'w) env \<Rightarrow> uninit \<Rightarrow> ('k, 'w) client_state command" where
  "cmd_store_revoke_order env junk args =
     eff_bind (check_istream_eof args ''account_index, order_id'') (\<lambda>_.
     let (account_index, args1) = get_u64 (uninit_index junk) args
     in eff_bind (eff_lift (get_array (uninit_id junk) args1)) (\<lambda>(order_id, _).
        eff_bind (check_account_index env account_index) (\<lambda>_.
        revoke_order env store_type_tag account_index order_id)))"

definition cmd_store_trade_order :: "('k, 'w) env \<Rightarrow> uninit \<Rightarrow> ('k, 'w) client_state command" where
  "cmd_store_trade_order env junk args =
     eff_bind (check_istream_eof args ''account_index, order_id, currency'') (\<lambda>_.
     let (account_index, args1) = get_u64 (uninit_index junk) args
     in eff_bind (eff_lift (get_array (uninit_id junk) args1)) (\<lambda>(order_id, args2).
        let (currency, _) = get_word [] args2
        in eff_bind (check_account_index env account_index) (\<lambda>_.
           trade_order env store_type_tag account_index currency order_id)))"

definition cmd_store_get_account_info :: "('k, 'w) env \<Rightarrow> uninit \<Rightarrow> ('k, 'w) client_state command" where
  "cmd_store_get_account_info env junk params =
     eff_bind (check_istream_eof params ''usage : account_index or account_address'') (\<lambda>_.
     eff_bind (get_from_stream env (uninit_address junk) params) (\<lambda>(address, _).
     eff_bind (get_account_info env store_type_tag address) (\<lambda>_. eff_return ())))"

definition show_order_events ::
    "('k, 'w) env \<Rightarrow> event_type \<Rightarrow> 'a Event_scheme serde_op \<Rightarrow> 'a Event_scheme \<Rightarrow> Address \<Rightarrow> u64 \<Rightarrow> u64 \<Rightarrow>
     (('k, 'w) client_state, unit) eff" where
  "show_order_events env type' f init address start limit =
     eff_bind (store_get_event_handle env store_type_tag address type') (\<lambda>handle.
     case handle of
       None \<Rightarrow> eff_return ()
     | Some h \<Rightarrow> eff_bind (query_order_events env f init h start limit) (\<lambda>_. eff_return ()))"

definition cmd_store_query_events :: "('k, 'w) env \<Rightarrow> uninit \<Rightarrow> ('k, 'w) client_state command" where
  "cmd_store_query_events env junk args =
     eff_bind (check_istream_eof args ''account_index_or_address [made, revoked, sold, bought, traded] start limit'') (\<lambda>_.
     eff_bind (get_from_stream env (uninit_address junk) args) (\<lambda>(address, args1).
     let (event_type, args2) = get_word [] args1;
         (start, args3) = get_u64 0 args2;
         (limit, _) = get_u64 10 args3
     in if event_type = str ''made'' then show_order_events env made serde_MadeOrderEvent no_MadeOrderEvent address start limit
        else if event_type = str ''revoked'' then show_order_events env revoked serde_RevokedOrderEvent no_RevokedOrderEvent address start limit
        else if event_type = str ''sold'' then show_order_events env sold serde_SoldOrderEvent no_SoldOrderEvent address start limit
        else if event_type = str ''bought'' then show_order_events env bought serde_BoughtOrderEvent no_BoughtOrderEvent address start limit
        else if event_type = str ''traded'' then show_order_events env traded serde_TradedOrderEvent no_TradedOrderEvent address start limit
        else eff_throw (Invalid_argument (''event type '' @ [CHR 0x27] @ c_text event_type @ [CHR 0x27] @ '' is unknown''))))"

section \<open>Tokens\<close>

definition cmd_nft_register :: "('k, 'w) env \<Rightarrow> uninit \<Rightarrow> ('k, 'w) client_state command" where
  "cmd_nft_register env junk params =
     eff_bind (check_istream_eof params ''nft_total_amount, admin_address'') (\<lambda>_.
     let (total', params1) = get_u64 1000 params
     in eff_bind (eff_lift (get_array (uninit_address junk) params1)) (\<lambda>(address, _).
        register_instance env Portrait_type total' address))"

definition cmd_nft_accept :: "('k, 'w) env \<Rightarrow> ('k, 'w) client_state command" where
  "cmd_nft_accept env params = (let (account_index, _) = get_u64 0 params in accept env Portrait_type account_index)"

definition cmd_nft_mint :: "('k, 'w) env \<Rightarrow> uninit \<Rightarrow> ('k, 'w) client_state command" where
  "cmd_nft_mint env junk params =
     eff_bind (check_istream_eof params ''account_index description ipfs_cid receiver_address'') (\<lambda>_.
     let (account_index, params1) = get_u64 (uninit_index junk) params;
         (description', params2) = get_word [] params1;
         (ipfs_cid', params3) = get_word [] params2
     in eff_bind (eff_lift (get_array (uninit_address junk) params3)) (\<lambda>(receiver, _).
        Portrait_mint env account_index description' ipfs_cid' \<lparr>AccountAddress_value = receiver\<rparr>))"

definition cmd_nft_burn :: "('k, 'w) env \<Rightarrow> uninit \<Rightarrow> ('k, 'w) client_state command" where
  "cmd_nft_burn env junk params =
     (let (account_index, params1) = get_u64 (uninit_index junk) params
      in eff_bind (eff_lift (get_array (uninit_id junk) params1)) (\<lambda>(token_id, _).
         burn env Portrait_type account_index token_id))"

definition cmd_nft_transfer :: "('k, 'w) env \<Rightarrow> uninit \<Rightarrow> ('k, 'w) client_state command" where
  "cmd_nft_transfer env junk params =
     eff_bind (check_istream_eof params ''usage : transfer account_index account_address token_id_or_index metadata'') (\<lambda>_.
     let (account_index, params1) = get_u64 0 params
     in eff_bind (check_istream_eof params1 ''receiver address'') (\<lambda>_.
        eff_bind (get_from_stream env (uninit_address junk) params1) (\<lambda>(receiver, params2).
        eff_bind (check_istream_eof params2 ''index or token id'') (\<lambda>_.
        let (token_id_or_index, params3) = get_word [] params2;
            metadata = (if is_eof params3 then [] else fst (get_word [] params3))
        in if length token_id_or_index = 64
           then eff_bind (eff_lift (get_array (uninit_id junk) (istringstream token_id_or_index))) (\<lambda>(token_id, _).
                transfer_by_token_id env Portrait_type account_index receiver token_id metadata)
           else transfer_by_token_index env Portrait_type account_index receiver
                  (fst (get_u64 (uninit_index junk) (istringstream token_id_or_index))) metadata))))"

definition cmd_nft_balance :: "('k, 'w) env \<Rightarrow> uninit \<Rightarrow> ('k, 'w) client_state command" where
  "cmd_nft_balance env junk params =
     eff_bind (get_from_stream env (uninit_address junk) params) (\<lambda>(addr, _).
     eff_bind (balance env Portrait_type addr) (\<lambda>_. eff_return ()))"

definition cmd_nft_owner :: "('k, 'w) env \<Rightarrow> uninit \<Rightarrow> ('k, 'w) client_state command" where
  "cmd_nft_owner env junk params =
     eff_bind (eff_lift (get_array (uninit_id junk) params)) (\<lambda>(token_id, _).
     eff_bind (get_owner env Portrait_type token_id) (\<lambda>_. eff_return ()))"

definition cmd_nft_trace :: "('k, 'w) env \<Rightarrow> uninit \<Rightarrow> ('k, 'w) client_state command" where
  "cmd_nft_trace env junk params =
     eff_bind (check_istream_eof params ''token id'') (\<lambda>_.
     eff_bind (eff_lift (get_array (uninit_id junk) params)) (\<lambda>(token_id, _).
     eff_bind (get_owner env Portrait_type token_id) (\<lambda>_. eff_return ())))"

definition cmd_nft_info :: "('k, 'w) env \<Rightarrow> ('k, 'w) client_state command" where
  "cmd_nft_info env params = eff_bind (get_nft_info env Portrait_type) (\<lambda>_. eff_return ())"

definition show_token_events ::
    "('k, 'w) env \<Rightarrow> EventType \<Rightarrow> 'a Event_scheme serde_op \<Rightarrow> 'a Event_scheme \<Rightarrow> Address \<Rightarrow> u64 \<Rightarrow> u64 \<Rightarrow>
     (('k, 'w) client_state, unit) eff" where
  "show_token_events env type' f init addr start limit =
     eff_bind (get_event_handle env Portrait_type type' addr) (\<lambda>opt_event_handle.
     case opt_event_handle of
       None \<Rightarrow> eff_throw (Runtime_error (''event handle doesn'' @ [CHR 0x27] @ ''t exist.''))
     | Some handle \<Rightarrow> eff_bind (nft_query_events env f init handle addr start limit) (\<lambda>_. eff_return ()))"

definition cmd_nft_query_events :: "('k, 'w) env \<Rightarrow> uninit \<Rightarrow> ('k, 'w) client_state command" where
  "cmd_nft_query_events env junk params =
     eff_bind (check_istream_eof params ''(usage) : query_event [minted, burned, sent, received] address start limit'') (\<lambda>_.
     let (event_type, params1) = get_word [] params
     in eff_bind (get_from_stream env (uninit_address junk) params1) (\<lambda>(addr, params2).
        let (start, params3) = (if is_eof params2 then (0, params2) else get_u64 0 params2);
            (limit, _) = (if is_eof params3 then (10, params3) else get_u64 10 params3)
        in if event_type = str ''minted'' then show_token_events env minted serde_MintedEvent no_MintedEvent addr start limit
           else if event_type = str ''burned'' then show_token_events env burned serde_BurnedEvent no_BurnedEvent addr start limit
           else if event_type = str ''sent'' then show_token_events env sent serde_SentEvent no_SentEvent addr start limit
           else if event_type = str ''received'' then show_token_events env received serde_ReceivedEvent no_ReceivedEvent addr start limit
           else eff_throw (Invalid_argument ''event type is invalid, please input [minted, burned, sent, received]'')))"

section \<open>The program\<close>

definition create_store_commands ::
    "('k, 'w) env \<Rightarrow> uninit \<Rightarrow> (istream \<Rightarrow> int option \<times> istream) \<Rightarrow> (cstring \<times> ('k, 'w) client_state command) list" where
  "create_store_commands env junk get_price =
     [(str ''deploy'', cmd_deploy env),
      (str ''store-initalize'', cmd_store_initialize env),
      (str ''store-register-nft'', cmd_store_register_nft env),
      (str ''store-accept-nft'', cmd_store_accept_nft env),
      (str ''store-list-orders'', cmd_store_list_orders env),
      (str ''store-make-order'', cmd_store_make_order env get_price),
      (str ''store-revoke-order'', cmd_store_revoke_order env junk),
      (str ''store-trade-order'', cmd_store_trade_order env junk),
      (str ''store-get-account-info'', cmd_store_get_account_info env junk),
      (str ''store-query-events'', cmd_store_query_events env junk)]"

definition create_std_commands :: "('k, 'w) env \<Rightarrow> uninit \<Rightarrow> (cstring \<times> ('k, 'w) client_state command) list" where
  "create_std_commands env junk =
     [(str ''std-add-account'', cmd_add_account env),
      (str ''std-list-accounts'', cmd_list_accounts env),
      (str ''std-create-child-account'', cmd_create_child_account env junk)]"

definition create_nft_commands :: "('k, 'w) env \<Rightarrow> uninit \<Rightarrow> (cstring \<times> ('k, 'w) client_state command) list" where
  "create_nft_commands env junk =
     [(str ''nft-register'', cmd_nft_register env junk),
      (str ''nft-accept'', cmd_nft_accept env),
      (str ''nft-mint'', cmd_nft_mint env junk),
      (str ''nft-burn'', cmd_nft_burn env junk),
      (str ''nft-transfer'', cmd_nft_transfer env junk),
      (str ''nft-balance'', cmd_nft_balance env junk),
      (str ''nft-owner'', cmd_nft_owner env junk),
      (str ''nft-trace'', cmd_nft_trace env junk),
      (str ''nft-info'', cmd_nft_info env),
      (str ''nft-query-events'', cmd_nft_query_events env junk)]"

definition store_program_commands ::
    "('k, 'w) env \<Rightarrow> uninit \<Rightarrow> (istream \<Rightarrow> int option \<times> istream) \<Rightarrow> (cstring \<times> ('k, 'w) client_state command) list" where
  "store_program_commands env junk get_price =
     create_store_commands env junk get_price @ create_std_commands env junk @ create_nft_commands env junk"

definition store_session ::
    "('k, 'w) env \<Rightarrow> uninit \<Rightarrow> (istream \<Rightarrow> int option \<times> istream) \<Rightarrow> cstring list \<Rightarrow> (('k, 'w) client_state \<times> Console, unit) eff" where
  "store_session env junk get_price lines =
     eff_bind (eff_fst (allow_custom_script env True)) (\<lambda>_.
     eff_bind (eff_snd (eff_modify (add_completion (str ''exit'')))) (\<lambda>_.
     eff_bind (eff_fst (create_store_accounts env)) (\<lambda>_.
     eff_bind (eff_snd (eff_modify (fold add_completion (sort (map fst (store_program_commands env junk get_price)))))) (\<lambda>_.
     read_eval_loop (store_program_commands env junk get_price) lines))))"

text \<open>
  \<open>main\<close>: the state in which the program ends, if it got as far as a client, and the exception that ended it, if one
  did.
\<close>

definition store_main ::
    "('k, 'w) env \<Rightarrow> uninit \<Rightarrow> (istream \<Rightarrow> int option \<times> istream) \<Rightarrow> (char \<times> cstring) list \<Rightarrow> cstring list \<Rightarrow> 'w \<Rightarrow>
     unit result \<times> (('k, 'w) client_state \<times> Console) option" where
  "store_main env junk get_price options lines w =
     (case parse_command_line options Arguments_new of
        Inl e \<Rightarrow> (Inl e, None)
      | Inr args \<Rightarrow>
          (case Client2_create env (arg_chain_id args) (arg_mnemonic args) (arg_mint_key args) w of
             (Inl e, w') \<Rightarrow> (Inl e, None)
           | (Inr c, w') \<Rightarrow>
               (case store_session env junk get_price lines ((c, w'), Console_create (str ''NFT$ '')) of
                  (r, s) \<Rightarrow> (r, Some s))))"

section \<open>Sessions stay within the histories of the client\<close>

lemma history_store [history_intros]:
  "preserves (client_history env) (store_initialize env i)"
  "preserves (client_history env) (register_nft env nft i)"
  "preserves (client_history env) (accept_nft env nft i)"
  "preserves (client_history env) (make_order env nft i tok price currency)"
  "preserves (client_history env) (revoke_order env nft i order)"
  "preserves (client_history env) (trade_order env nft i currency order)"
  "preserves (client_history env) (list_orders env nft)"
  "preserves (client_history env) (get_account_info env nft address)"
  unfolding store_initialize_def register_nft_def accept_nft_def make_order_def revoke_order_def trade_order_def
    list_orders_def get_account_info_def
  by (intro preserves_intros history_intros)+

lemma history_store_handle [history_intros]: "preserves (client_history env) (store_get_event_handle env nft address type')"
  by (cases type') (auto intro!: preserves_intros history_intros)

lemma history_tokens [history_intros]:
  "preserves (client_history env) (register_instance env T n a)"
  "preserves (client_history env) (burn env T i tok)"
  "preserves (client_history env) (accept env T i)"
  "preserves (client_history env) (transfer_by_token_index env T i receiver index metadata)"
  "preserves (client_history env) (transfer_by_token_id env T i receiver tok metadata)"
  "preserves (client_history env) (balance env T address)"
  "preserves (client_history env) (get_nft_info env T)"
  "preserves (client_history env) (nft_get_account env T address)"
  "preserves (client_history env) (Portrait_mint env i d c r)"
  unfolding register_instance_def burn_def accept_def transfer_by_token_index_def transfer_by_token_id_def balance_def
    get_nft_info_def nft_get_account_def Portrait_mint_def
  by (intro preserves_intros history_intros)+

lemma history_owner [history_intros]: "preserves (client_history env) (get_owner env T tok)"
  unfolding get_owner_def by (intro preserves_intros history_intros)

lemma history_token_handle [history_intros]: "preserves (client_history env) (get_event_handle env T type' address)"
  by (cases type') (auto intro!: preserves_intros history_intros)

lemma history_show [history_intros]:
  "preserves (client_history env) (show_order_events env type' f init address start limit)"
  "preserves (client_history env) (show_token_events env type'' f init address start limit)"
  unfolding show_order_events_def show_token_events_def query_order_events_def nft_query_events_def
  by (intro preserves_intros history_intros)+

lemma history_commands [history_intros]:
  "preserves (client_history env) (cmd_add_account env iss)"
  "preserves (client_history env) (cmd_list_accounts env iss)"
  "preserves (client_history env) (cmd_create_child_account env junk iss)"
  "preserves (client_history env) (cmd_deploy env iss)"
  "preserves (client_history env) (cmd_store_initialize env iss)"
  "preserves (client_history env) (cmd_store_register_nft env iss)"
  "preserves (client_history env) (cmd_store_accept_nft env iss)"
  "preserves (client_history env) (cmd_store_list_orders env iss)"
  "preserves (client_history env) (cmd_store_make_order env get_price iss)"
  "preserves (client_history env) (cmd_store_revoke_order env junk iss)"
  "preserves (client_history env) (cmd_store_trade_order env junk iss)"
  "preserves (client_history env) (cmd_store_get_account_info env junk iss)"
  "preserves (client_history env) (cmd_store_query_events env junk iss)"
  "preserves (client_history env) (cmd_nft_register env junk iss)"
  "preserves (client_history env) (cmd_nft_accept env iss)"
  "preserves (client_history env) (cmd_nft_mint env junk iss)"
  "preserves (client_history env) (cmd_nft_burn env junk iss)"
  "preserves (client_history env) (cmd_nft_transfer env junk iss)"
  "preserves (client_history env) (cmd_nft_balance env junk iss)"
  "preserves (client_history env) (cmd_nft_owner env junk iss)"
  "preserves (client_history env) (cmd_nft_trace env junk iss)"
  "preserves (client_history env) (cmd_nft_info env iss)"
  "preserves (client_history env) (cmd_nft_query_events env junk iss)"
  unfolding cmd_add_account_def cmd_list_accounts_def cmd_create_child_account_def cmd_deploy_def cmd_store_initialize_def
    cmd_store_register_nft_def cmd_store_accept_nft_def cmd_store_list_orders_def cmd_store_make_order_def
    cmd_store_revoke_order_def cmd_store_trade_order_def cmd_store_get_account_info_def cmd_store_query_events_def
    cmd_nft_register_def cmd_nft_accept_def cmd_nft_mint_def cmd_nft_burn_def cmd_nft_transfer_def cmd_nft_balance_def
    cmd_nft_owner_def cmd_nft_trace_def cmd_nft_info_def cmd_nft_query_events_def
  by (intro preserves_intros history_intros)+

lemmas store_program_defs = store_program_commands_def create_store_commands_def create_std_commands_def create_nft_commands_def

lemma store_commands_distinct: "distinct (map fst (store_program_commands env junk get_price))"
  by (simp add: store_program_defs str_def)

interpretation store_table: command_table "store_program_commands env junk get_price" "client_history env"
proof
  show "distinct (map fst (store_program_commands env junk get_price))" by (rule store_commands_distinct)
  fix cmd command iss
  assume "(cmd, command) \<in> set (store_program_commands env junk get_price)"
  then show "preserves (client_history env) (command iss)"
    by (auto simp: store_program_defs intro: history_intros)
qed

lemma store_session_history: "preserves (\<lambda>s. client_history env (fst s)) (store_session env junk get_price lines)"
  unfolding store_session_def create_store_accounts_def
  by (intro preserves_bind preserves_fst preserves_client_snd store_table.session_preserves preserves_intros history_intros)

lemma store_main_session:
  assumes "store_main env junk get_price options lines w = (r, Some (s, con))"
  obtains c w' where "client_history env (c, w')"
    and "store_session env junk get_price lines ((c, w'), Console_create (str ''NFT$ '')) = (r, (s, con))"
  using assms by (auto simp: store_main_def split: sum.splits prod.splits intro: client_history.started)

lemma store_main_history:
  assumes "store_main env junk get_price options lines w = (r, Some (s, con))"
  shows "client_history env s"
  using assms by (rule store_main_session) (drule preservesD [OF store_session_history, rotated]; simp)

lemma fold_completion: "fold add_completion names con = con\<lparr>completions := completions con @ names\<rparr>"
  by (induction names arbitrary: con) (simp_all add: add_completion_def)

text \<open>
  A session: the accounts are prepared; if that succeeds, the lines are run in their order on what it has left of the client.
\<close>

definition store_session_prepared :: "('k, 'w) env \<Rightarrow> (('k, 'w) client_state, unit) eff" where
  "store_session_prepared env = eff_bind (allow_custom_script env True) (\<lambda>_. create_store_accounts env)"

lemma store_session_runs:
  assumes "store_session env junk get_price lines (s, Console_create prompt) = (r, (t, con))"
    and prepared: "store_session_prepared env s = (q, s1)"
  shows "case q of
      Inl e \<Rightarrow> r = Inl e \<and> t = s1 \<and> console_history con = []
    | Inr _ \<Rightarrow> \<exists>n. session_result (store_program_commands env junk get_price) lines s1 n r t \<and>
        console_history con = filter (names_command (store_program_commands env junk get_price)) (map trim (take n lines)) \<and>
        completions con = str ''exit'' # sort (map fst (store_program_commands env junk get_price))"
proof (cases q)
  case (Inl e)
  with assms show ?thesis
    by (auto simp: store_session_prepared_def store_session_def eff_bind_def eff_fst_def eff_snd_def eff_modify_def add_completion_def
        Console_create_def split: prod.splits sum.splits)
next
  case (Inr u)
  with assms have "read_eval_loop (store_program_commands env junk get_price) lines
      (s1, (Console_create prompt)\<lparr>completions := str ''exit'' # sort (map fst (store_program_commands env junk get_price))\<rparr>) = (r, (t, con))"
    by (auto simp: store_session_prepared_def store_session_def eff_bind_def eff_fst_def eff_snd_def eff_modify_def fold_completion
        add_completion_def Console_create_def split: prod.splits sum.splits)
  from session_runs [OF this] show ?thesis by (auto simp: Inr Console_create_def)
qed

section \<open>A line, from its text to the store\<close>

lemma store_names_solid:
  "solid (str ''store-trade-order'')" "solid (str ''store-revoke-order'')" "solid (str ''nft-burn'')"
  by (simp_all add: solid_def str_def is_space_def)

lemma store_commands_listed:
  "(str ''store-trade-order'', cmd_store_trade_order env junk) \<in> set (store_program_commands env junk get_price)"
  "(str ''store-revoke-order'', cmd_store_revoke_order env junk) \<in> set (store_program_commands env junk get_price)"
  "(str ''nft-burn'', cmd_nft_burn env junk) \<in> set (store_program_commands env junk get_price)"
  by (simp_all add: store_program_defs)

lemma check_account_index_run:
  assumes "get_all_accounts env s = (Inr accounts, s)"
  shows "eff_bind (check_account_index env i) (\<lambda>_. m) s =
    (if length accounts \<le> unat i then (Inl (Invalid_argument ''The account index is more than the size of all accounts.''), s)
     else m s)"
  using assms by (simp add: check_account_index_def eff_bind_def eff_throw_def eff_return_def)

lemma trade_command_reads:
  assumes "solid currency" and "length order = 32" and "length (uninit_id junk) = 32"
  shows "cmd_store_trade_order env junk (words_left [dec (unat i), bytes_to_hex order, currency]) =
    eff_bind (check_account_index env i) (\<lambda>_. trade_order env store_type_tag i currency order)"
proof -
  have "order \<noteq> []" using assms(2) by auto
  with assms show ?thesis
    by (intro ext) (simp add: cmd_store_trade_order_def check_istream_eof_def get_words_left eff_bind_def eff_lift_def eff_return_def)
qed

lemma revoke_command_missing:
  "cmd_store_revoke_order env junk (words_left [dec (unat i)]) =
    eff_bind (check_account_index env i) (\<lambda>_. revoke_order env store_type_tag i (uninit_id junk))"
  by (intro ext) (simp add: cmd_store_revoke_order_def check_istream_eof_def get_words_left get_nothing_left eff_bind_def
      eff_lift_def eff_return_def)

text \<open>An identifier with an odd number of digits.\<close>

definition odd_identifier :: "cstring \<Rightarrow> bool" where
  "odd_identifier word \<longleftrightarrow> odd (length word) \<and> 1 < length word \<and> length word < 62 \<and> list_all (\<lambda>b. hex_value b \<noteq> None) word"

lemma odd_identifier_solid: "odd_identifier word \<Longrightarrow> solid word"
  by (auto simp: odd_identifier_def solid_def hex_value_def is_space_def list_all_iff word_le_nat_alt word_unat_eq_iff split: if_splits)

lemma get_odd_identifier:
  assumes "odd_identifier word" and "length old = 32"
  shows "get_array old (words_left (word # words)) = Inl (Out_of_range ''basic_string::substr'')"
proof -
  from assms(1) obtain n where n: "length word = 2 * n + 1" by (auto simp: odd_identifier_def elim: oddE)
  with assms have "string_to_array word old = Inl (Out_of_range ''basic_string::substr'')"
    by (intro string_to_array_odd) (auto simp: odd_identifier_def)
  then show ?thesis
    using get_words_left(1) [OF odd_identifier_solid [OF assms(1)], of "[]"] by (simp add: get_array_def sum_bind_def)
qed

lemma odd_identifier_throws:
  assumes "odd_identifier word" and "length (uninit_id junk) = 32"
    and "command \<in> {cmd_store_trade_order env junk, cmd_store_revoke_order env junk, cmd_nft_burn env junk}"
  shows "command (words_left (dec (unat (i :: u64)) # word # words)) s = (Inl (Out_of_range ''basic_string::substr''), s)"
proof -
  have "get_u64 old (words_left (dec (unat i) # word # words)) = (i, words_left (word # words))" for old
    by (rule get_words_left)
  with assms(3) show ?thesis
    by (auto simp: cmd_store_trade_order_def cmd_store_revoke_order_def cmd_nft_burn_def check_istream_eof_def
        get_odd_identifier [OF assms(1,2)] eff_bind_def eff_lift_def eff_return_def)
qed

end
