(* ===== verification/Nft_Store.thy ===== *)
theory Nft_Store
  imports Nft_Token
begin

text \<open>
  \<open>src/cpp/nft-store/src/nft_store.cpp\<close>: the first market for tokens, where a trade is a transaction with
  two signers: the buyer signs it, and the agent adds a signature and submits it.
\<close>

section \<open>Resources and events\<close>

definition STORE_ADMIN_ADDRESS_v1 :: AccountAddress where
  "STORE_ADMIN_ADDRESS_v1 = \<lparr>AccountAddress_value = replicate 14 0 @ [0x11, 0x22]\<rparr>"

record Order_v1 =
  order1_nft_token_id :: "u8 list"
  order1_price :: u64
  order1_currency_code :: "u8 list"
  order1_sale_incentive :: u64
  order1_provider :: Address

definition serde_Order_v1 :: "Order_v1 serde_op" where
  "serde_Order_v1 t =
     act_bind (serde_bytes (order1_nft_token_id t)) (\<lambda>nft_token_id'.
     act_bind (serde_integral 8 (order1_price t)) (\<lambda>price'.
     act_bind (serde_bytes (order1_currency_code t)) (\<lambda>currency_code'.
     act_bind (serde_integral 8 (order1_sale_incentive t)) (\<lambda>sale_incentive'.
     act_bind (serde_address (order1_provider t)) (\<lambda>provider'.
     act_return (t\<lparr>order1_nft_token_id := nft_token_id', order1_price := price',
       order1_currency_code := currency_code', order1_sale_incentive := sale_incentive',
       order1_provider := provider'\<rparr>))))))"

record MadeOrderEvent_v1 = Event +
  made1_order_id :: "u8 list"
  made1_nft_token_id :: "u8 list"
  made1_price :: u64
  made1_currency_code :: "u8 list"
  made1_sale_incentive :: u64

definition serde_MadeOrderEvent_v1 :: "MadeOrderEvent_v1 serde_op" where
  "serde_MadeOrderEvent_v1 t =
     act_bind (serde_bytes (made1_order_id t)) (\<lambda>order_id'.
     act_bind (serde_bytes (made1_nft_token_id t)) (\<lambda>nft_token_id'.
     act_bind (serde_integral 8 (made1_price t)) (\<lambda>price'.
     act_bind (serde_bytes (made1_currency_code t)) (\<lambda>currency_code'.
     act_bind (serde_integral 8 (made1_sale_incentive t)) (\<lambda>sale_incentive'.
     act_return (t\<lparr>made1_order_id := order_id', made1_nft_token_id := nft_token_id',
       made1_price := price', made1_currency_code := currency_code', made1_sale_incentive := sale_incentive'\<rparr>))))))"

record AccountInfo_v1 =
  info1_made_order_events :: EventHandle
  info1_revoked_order_events :: EventHandle
  info1_traded_order_events :: EventHandle
  info1_sent_trading_order_sig_events :: EventHandle
  info1_received_trading_order_sig_events :: EventHandle

definition serde_AccountInfo_v1 :: "AccountInfo_v1 serde_op" where
  "serde_AccountInfo_v1 t =
     act_bind (serde_EventHandle (info1_made_order_events t)) (\<lambda>made_order_events'.
     act_bind (serde_EventHandle (info1_revoked_order_events t)) (\<lambda>revoked_order_events'.
     act_bind (serde_EventHandle (info1_traded_order_events t)) (\<lambda>traded_order_events'.
     act_bind (serde_EventHandle (info1_sent_trading_order_sig_events t)) (\<lambda>sent_trading_order_sig_events'.
     act_bind (serde_EventHandle (info1_received_trading_order_sig_events t)) (\<lambda>received_trading_order_sig_events'.
     act_return (t\<lparr>info1_made_order_events := made_order_events',
       info1_revoked_order_events := revoked_order_events', info1_traded_order_events := traded_order_events',
       info1_sent_trading_order_sig_events := sent_trading_order_sig_events',
       info1_received_trading_order_sig_events := received_trading_order_sig_events'\<rparr>))))))"

section \<open>The store\<close>

text \<open>The constructor creates the accounts of administrator, seller, agent and customer.\<close>

definition Store_v1 :: "('k, 'w) env \<Rightarrow> (('k, 'w) client_state, unit) eff" where
  "Store_v1 env =
     eff_bind (create_next_account env (Some STORE_ADMIN_ADDRESS_v1)) (\<lambda>_.
     eff_bind (create_next_account env None) (\<lambda>_.
     eff_bind (create_next_account env None) (\<lambda>_.
     eff_bind (create_next_account env None) (\<lambda>_. eff_return ()))))"

definition register_account :: "('k, 'w) env \<Rightarrow> TypeTag \<Rightarrow> u64 \<Rightarrow> (('k, 'w) client_state, unit) eff" where
  "register_account env nft account_index =
     script_call env account_index ''move/stdlib/scripts/nft_store_accept.mv'' [nft] [] ''Store::register_account''"

text \<open>\<open>accounts[i]\<close> is not checked.\<close>

definition initialize_v1 :: "('k, 'w) env \<Rightarrow> TypeTag \<Rightarrow> (('k, 'w) client_state, unit) eff" where
  "initialize_v1 env nft =
     eff_bind (get_all_accounts env) (\<lambda>accounts.
     case accounts of
       admin' # sale_parent # sale_agent_parent # customer # rest \<Rightarrow>
         eff_bind (create_designated_dealer_ex env (str ''VLS'') 0 STORE_ADMIN_ADDRESS_v1 (Account_auth_key admin')
           (str ''NFT Store administator'') True) (\<lambda>_.
         eff_bind (create_parent_vasp_account env (Account_address sale_parent) (Account_auth_key sale_parent)
           (str ''sales parent account'') True) (\<lambda>_.
         eff_bind (create_parent_vasp_account env (Account_address sale_agent_parent) (Account_auth_key sale_agent_parent)
           (str ''sales parent account'') True) (\<lambda>_.
         eff_bind (create_child_vasp_account env 2 (Account_address customer) (Account_auth_key customer)
           (str ''VLS'') 0 True) (\<lambda>_.
         eff_bind (script_call env 0 ''move/stdlib/scripts/nft_store_initialize.mv'' []
           [Arg_address (Account_address sale_parent), Arg_address (Account_address sale_agent_parent)]
           ''Store::initialize'') (\<lambda>_.
         eff_bind (register_account env nft 1) (\<lambda>_.
         register_account env nft 2))))))
     | _ \<Rightarrow> eff_throw (Undefined_behaviour ''accounts''))"

definition register_nft_v1 :: "('k, 'w) env \<Rightarrow> TypeTag \<Rightarrow> (('k, 'w) client_state, unit) eff" where
  "register_nft_v1 env nft =
     script_call env 0 ''move/stdlib/scripts/nft_store_register_nft.mv'' [nft] [] ''Store::register_nft''"

definition MICRO_COIN :: u64 where
  "MICRO_COIN = 1000000"

text \<open>
  The incentive is a \<open>double\<close>, of which \<open>micro_incentive\<close> is the number of micro coins without its fraction.
\<close>

definition make_order_v1 ::
    "('k, 'w) env \<Rightarrow> TypeTag \<Rightarrow> u64 \<Rightarrow> u8 list \<Rightarrow> u64 \<Rightarrow> cstring \<Rightarrow> int option \<Rightarrow> (('k, 'w) client_state, unit) eff" where
  "make_order_v1 env nft account_index nft_id price currency micro_incentive =
     eff_bind (eff_lift (double_to_u64 micro_incentive)) (\<lambda>incentive.
     script_call env account_index ''move/stdlib/scripts/nft_store_make_order.mv'' [nft, currency_tag currency]
       [Arg_array32 nft_id, Arg_uint64 price, Arg_uint64 incentive, Arg_uint64 MICRO_COIN] ''Store::make_order'')"

definition revoke_order_v1 :: "('k, 'w) env \<Rightarrow> TypeTag \<Rightarrow> u64 \<Rightarrow> u8 list \<Rightarrow> (('k, 'w) client_state, unit) eff" where
  "revoke_order_v1 env nft account_index order_id' =
     script_call env account_index ''move/stdlib/scripts/nft_store_revoke_order.mv'' [nft] [Arg_array32 order_id']
       ''Store::revoke_order''"

text \<open>Whether the file of the script could be opened is not checked: without it the code is empty.\<close>

definition sign_trading_order ::
    "('k, 'w) env \<Rightarrow> TypeTag \<Rightarrow> u64 \<Rightarrow> cstring \<Rightarrow> AccountAddress \<Rightarrow> u8 list \<Rightarrow> (('k, 'w) client_state, SignedTransaction) eff" where
  "sign_trading_order env nft account_index currency sale_agent_address order_id' =
     eff_bind (eff_get (\<lambda>s. env_file env (snd s) (str ''move/stdlib/scripts/nft_store_trade_order.mv''))) (\<lambda>ifs.
     let script = \<lparr>Script_code = (case ifs of None \<Rightarrow> [] | Some code \<Rightarrow> code),
           Script_ty_args = [nft, currency_tag currency], Script_args = make_txn_args [Arg_array32 order_id']\<rparr>
     in sign_multi_agent_script env account_index script [sale_agent_address] 1000000 0 (str ''VLS'') 100)"

definition submit_trading_order :: "('k, 'w) env \<Rightarrow> u64 \<Rightarrow> SignedTransaction \<Rightarrow> (('k, 'w) client_state, unit) eff" where
  "submit_trading_order env account_index txn =
     eff_bind (sign_and_submit_multi_agent_signed_txn env account_index txn) (\<lambda>(sender, sn).
     check_txn_vm_status env sender sn (str ''Store::submit_trading_order''))"

text \<open>The tag of the tokens is fixed here.\<close>

definition store_tag_v1 :: "string \<Rightarrow> StructTag" where
  "store_tag_v1 resource_name = make_struct_tag VIOLAS_LIB_ADDRESS (str ''NftStore'') (str resource_name)
     [make_struct_type_tag VIOLAS_LIB_ADDRESS (str ''MountWuyi'') (str ''Tea'')]"

definition no_Order_v1 :: Order_v1 where
  "no_Order_v1 = \<lparr>order1_nft_token_id = [], order1_price = 0, order1_currency_code = [], order1_sale_incentive = 0,
     order1_provider = replicate 16 0\<rparr>"

definition no_AccountInfo_v1 :: AccountInfo_v1 where
  "no_AccountInfo_v1 = \<lparr>info1_made_order_events = no_handle, info1_revoked_order_events = no_handle,
     info1_traded_order_events = no_handle, info1_sent_trading_order_sig_events = no_handle,
     info1_received_trading_order_sig_events = no_handle\<rparr>"

definition no_MadeOrderEvent_v1 :: MadeOrderEvent_v1 where
  "no_MadeOrderEvent_v1 = \<lparr>sequence_number = 0, transaction_version = 0, made1_order_id = [], made1_nft_token_id = [],
     made1_price = 0, made1_currency_code = [], made1_sale_incentive = 0\<rparr>"

definition list_orders_v1 :: "('k, 'w) env \<Rightarrow> (('k, 'w) client_state, Order_v1 list) eff" where
  "list_orders_v1 env =
     eff_bind (get_account_state env STORE_ADMIN_ADDRESS_v1) (\<lambda>state.
     eff_bind (eff_lift (state_resource (serde_container no_Order_v1 serde_Order_v1) [] (store_tag_v1 ''OrderList'') state)) (\<lambda>opt_orders.
     eff_return (case opt_orders of None \<Rightarrow> [] | Some orders \<Rightarrow> orders)))"

definition get_account_info_v1 :: "('k, 'w) env \<Rightarrow> Address \<Rightarrow> (('k, 'w) client_state, AccountInfo_v1 option) eff" where
  "get_account_info_v1 env address =
     eff_bind (get_account_state env \<lparr>AccountAddress_value = address\<rparr>) (\<lambda>state.
     eff_lift (state_resource serde_AccountInfo_v1 no_AccountInfo_v1 (store_tag_v1 ''Account'') state))"

definition get_made_order_events ::
    "('k, 'w) env \<Rightarrow> Address \<Rightarrow> u64 \<Rightarrow> u64 \<Rightarrow> (('k, 'w) client_state, MadeOrderEvent_v1 list) eff" where
  "get_made_order_events env address start limit =
     eff_bind (get_account_info_v1 env address) (\<lambda>account_info.
     case account_info of
       None \<Rightarrow> eff_return []
     | Some info \<Rightarrow> client_query_events env serde_MadeOrderEvent_v1 no_MadeOrderEvent_v1
         (info1_made_order_events info) start limit)"

section \<open>The documents of resources and events\<close>

definition doc_Order_v1 :: "Order_v1 \<Rightarrow> bcs_doc" where
  "doc_Order_v1 t = Doc_Tuple
     [doc_vector doc_u8 (order1_nft_token_id t),
      doc_word 8 (order1_price t),
      doc_vector doc_u8 (order1_currency_code t),
      doc_word 8 (order1_sale_incentive t),
      doc_array 16 doc_u8 (order1_provider t)]"

interpretation Order_v1_field: serde_field serde_Order_v1 "\<lambda>t. length (order1_provider t) = 16" doc_Order_v1
proof
  fix s and x y :: Order_v1
  show "is_serialization s \<Longrightarrow> lengths_below (2 ^ 64) (doc_Order_v1 x) \<Longrightarrow>
      serde_Order_v1 x s = Inr (x, bs_put (enc (doc_Order_v1 x)) s)"
    by (simp add: serde_Order_v1_def doc_Order_v1_def act_bind_def act_return_def serde_bytes.field_write serde_u64.field_write serde_address.field_write)
  show "serde_Order_v1 y s = Inr (x, bs_advance (length (enc (doc_Order_v1 x))) s)"
    if "\<not> is_serialization s"
      "length (order1_provider x) = 16"
      "length (order1_provider y) = 16"
      "lengths_below (2 ^ 28) (doc_Order_v1 x)"
      "bs_starts (enc (doc_Order_v1 x)) s"
    using that
    by (simp add: serde_Order_v1_def doc_Order_v1_def act_bind_def act_return_def add.assoc
        serde_bytes.field_read [where x = "order1_nft_token_id x"]
        serde_u64.field_read [where x = "order1_price x"]
        serde_bytes.field_read [where x = "order1_currency_code x"]
        serde_u64.field_read [where x = "order1_sale_incentive x"]
        serde_address.field_read [where x = "order1_provider x"])
qed

definition doc_MadeOrderEvent_v1 :: "MadeOrderEvent_v1 \<Rightarrow> bcs_doc" where
  "doc_MadeOrderEvent_v1 t = Doc_Tuple
     [doc_vector doc_u8 (made1_order_id t),
      doc_vector doc_u8 (made1_nft_token_id t),
      doc_word 8 (made1_price t),
      doc_vector doc_u8 (made1_currency_code t),
      doc_word 8 (made1_sale_incentive t)]"

interpretation MadeOrderEvent_v1_field: event_field serde_MadeOrderEvent_v1 "\<lambda>t. True" doc_MadeOrderEvent_v1
proof
  fix s and x y :: MadeOrderEvent_v1
  show "serde_MadeOrderEvent_v1 y s = Inr (x\<lparr>sequence_number := sequence_number y, transaction_version := transaction_version y\<rparr>, bs_advance (length (enc (doc_MadeOrderEvent_v1 x))) s)"
    if "\<not> is_serialization s"
      "lengths_below (2 ^ 28) (doc_MadeOrderEvent_v1 x)"
      "bs_starts (enc (doc_MadeOrderEvent_v1 x)) s"
    using that
    by (simp add: serde_MadeOrderEvent_v1_def doc_MadeOrderEvent_v1_def act_bind_def act_return_def add.assoc
        serde_bytes.field_read [where x = "made1_order_id x"]
        serde_bytes.field_read [where x = "made1_nft_token_id x"]
        serde_u64.field_read [where x = "made1_price x"]
        serde_bytes.field_read [where x = "made1_currency_code x"]
        serde_u64.field_read [where x = "made1_sale_incentive x"])
qed

definition doc_AccountInfo_v1 :: "AccountInfo_v1 \<Rightarrow> bcs_doc" where
  "doc_AccountInfo_v1 t = Doc_Tuple
     [doc_EventHandle (info1_made_order_events t),
      doc_EventHandle (info1_revoked_order_events t),
      doc_EventHandle (info1_traded_order_events t),
      doc_EventHandle (info1_sent_trading_order_sig_events t),
      doc_EventHandle (info1_received_trading_order_sig_events t)]"

interpretation AccountInfo_v1_field: serde_field serde_AccountInfo_v1 "\<lambda>t. True" doc_AccountInfo_v1
proof
  fix s and x y :: AccountInfo_v1
  show "is_serialization s \<Longrightarrow> lengths_below (2 ^ 64) (doc_AccountInfo_v1 x) \<Longrightarrow>
      serde_AccountInfo_v1 x s = Inr (x, bs_put (enc (doc_AccountInfo_v1 x)) s)"
    by (simp add: serde_AccountInfo_v1_def doc_AccountInfo_v1_def act_bind_def act_return_def EventHandle_field.field_write)
  show "serde_AccountInfo_v1 y s = Inr (x, bs_advance (length (enc (doc_AccountInfo_v1 x))) s)"
    if "\<not> is_serialization s"
      "lengths_below (2 ^ 28) (doc_AccountInfo_v1 x)"
      "bs_starts (enc (doc_AccountInfo_v1 x)) s"
    using that
    by (simp add: serde_AccountInfo_v1_def doc_AccountInfo_v1_def act_bind_def act_return_def add.assoc
        EventHandle_field.field_read [where x = "info1_made_order_events x"]
        EventHandle_field.field_read [where x = "info1_revoked_order_events x"]
        EventHandle_field.field_read [where x = "info1_traded_order_events x"]
        EventHandle_field.field_read [where x = "info1_sent_trading_order_sig_events x"]
        EventHandle_field.field_read [where x = "info1_received_trading_order_sig_events x"])
qed

end
