(* ===== verification/Nft_Store_Main.thy ===== *)
theory Nft_Store_Main
  imports Nft_Store Shell
begin

text \<open>
  \<open>src/cpp/nft-store/src/main.cpp\<close>: the command line program over the first market.

  One definition per command, as a function from the rest of the line; what a command prints is left out. The reads of the
  parameters are not checked, so that a variable can keep the arbitrary value it was declared with. The
  incentive is read as a floating-point number: the argument \<open>get_incentive\<close> gives the micro coins that it is, without their fraction. The lemmas show that a session
  stays within the histories of the client.
\<close>

section \<open>Commands\<close>

text \<open>
  Variables without initializer. A default constructed transaction has the first alternative of the authenticators, with empty
  vectors; its numbers and addresses are arbitrary.
\<close>

record uninit_v1 = uninit +
  uninit_price :: u64
  uninit_transaction :: SignedTransaction

definition default_SignedTransaction :: "uninit_v1 \<Rightarrow> SignedTransaction" where
  "default_SignedTransaction junk =
     (uninit_transaction junk)\<lparr>SignedTransaction_authenticator :=
        TransactionAuthenticator_Ed25519 \<lparr>Ed25519PublicKey_value = []\<rparr> \<lparr>Ed25519Signature_value = []\<rparr>\<rparr>"

definition tea_type_tag :: TypeTag where
  "tea_type_tag = make_struct_type_tag VIOLAS_LIB_ADDRESS (str ''MountWuyi'') (str ''Tea'')"

definition cmd1_deploy :: "('k, 'w) env \<Rightarrow> ('k, 'w) client_state command" where
  "cmd1_deploy env params =
     eff_bind (allow_publishing_module env True) (\<lambda>_.
     eff_bind (publish_module_file env ACCOUNT_ROOT_ID (str ''move/stdlib/modules/Compare.mv'')) (\<lambda>_.
     eff_bind (publish_module_file env ACCOUNT_ROOT_ID (str ''move/stdlib/modules/Map.mv'')) (\<lambda>_.
     eff_bind (publish_module_file env ACCOUNT_ROOT_ID (str ''move/stdlib/modules/NonFungibleToken.mv'')) (\<lambda>_.
     eff_bind (publish_module_file env ACCOUNT_ROOT_ID (str ''move/stdlib/modules/NftStore.mv'')) (\<lambda>_.
     publish_module_file env ACCOUNT_ROOT_ID (str ''move/tea/modules/MountWuyi.mv''))))))"

definition cmd1_initialize :: "('k, 'w) env \<Rightarrow> ('k, 'w) client_state command" where
  "cmd1_initialize env params = initialize_v1 env tea_type_tag"

definition cmd1_register :: "('k, 'w) env \<Rightarrow> ('k, 'w) client_state command" where
  "cmd1_register env params = register_nft_v1 env tea_type_tag"

definition cmd1_list_orders :: "('k, 'w) env \<Rightarrow> ('k, 'w) client_state command" where
  "cmd1_list_orders env params = eff_bind (list_orders_v1 env) (\<lambda>_. eff_return ())"

definition cmd1_make_order ::
    "('k, 'w) env \<Rightarrow> uninit_v1 \<Rightarrow> (istream \<Rightarrow> int option \<times> istream) \<Rightarrow> ('k, 'w) client_state command" where
  "cmd1_make_order env junk get_incentive params =
     (let (account_index, params1) = get_u64 (uninit_index junk) params
      in eff_bind (eff_lift (get_array (uninit_id junk) params1)) (\<lambda>(nft_token_id, params2).
         let (price, params3) = get_u64 (uninit_price junk) params2;
             (currency, params4) = get_word [] params3;
             (micro_incentive, _) = get_incentive params4
         in make_order_v1 env tea_type_tag account_index nft_token_id price currency micro_incentive))"

definition cmd1_revoke_order :: "('k, 'w) env \<Rightarrow> uninit_v1 \<Rightarrow> ('k, 'w) client_state command" where
  "cmd1_revoke_order env junk params =
     (let (account_index, params1) = get_u64 (uninit_index junk) params
      in eff_bind (eff_lift (get_array (uninit_id junk) params1)) (\<lambda>(order_id, _).
         revoke_order_v1 env tea_type_tag account_index order_id))"

text \<open>Whoever signs, account 2 submits.\<close>

definition cmd1_sign_trading_order :: "('k, 'w) env \<Rightarrow> uninit_v1 \<Rightarrow> ('k, 'w) client_state command" where
  "cmd1_sign_trading_order env junk params =
     (let (account_index, params1) = get_u64 (uninit_index junk) params;
          (currency, params2) = get_word [] params1
      in eff_bind (eff_lift (get_array (uninit_address junk) params2)) (\<lambda>(address, params3).
         eff_bind (eff_lift (get_array (uninit_id junk) params3)) (\<lambda>(order_id, _).
         eff_bind (sign_trading_order env tea_type_tag account_index currency \<lparr>AccountAddress_value = address\<rparr> order_id) (\<lambda>signed_txn.
         submit_trading_order env 2 signed_txn))))"

definition cmd1_submit_trading_order :: "('k, 'w) env \<Rightarrow> uninit_v1 \<Rightarrow> ('k, 'w) client_state command" where
  "cmd1_submit_trading_order env junk params =
     (let (account_index, params1) = get_u64 (uninit_index junk) params
      in eff_bind (eff_lift (get_array (uninit_id junk) params1)) (\<lambda>(order_id, _).
         submit_trading_order env account_index (default_SignedTransaction junk)))"

definition cmd1_get_account_info :: "('k, 'w) env \<Rightarrow> uninit_v1 \<Rightarrow> ('k, 'w) client_state command" where
  "cmd1_get_account_info env junk params =
     eff_bind (get_all_accounts env) (\<lambda>accounts.
     eff_bind (eff_lift (get_array (uninit_address junk) params)) (\<lambda>(address, _).
     eff_bind (get_account_info_v1 env address) (\<lambda>_. eff_return ())))"

definition cmd1_query_events :: "('k, 'w) env \<Rightarrow> uninit_v1 \<Rightarrow> ('k, 'w) client_state command" where
  "cmd1_query_events env junk params =
     eff_bind (get_all_accounts env) (\<lambda>accounts.
     let (event_type, params1) = get_word [] params
     in eff_bind (eff_lift (get_array (uninit_address junk) params1)) (\<lambda>(address, _).
        if event_type = str ''made'' then eff_bind (get_made_order_events env address 0 10) (\<lambda>_. eff_return ())
        else eff_return ()))"

definition store_v1_commands ::
    "('k, 'w) env \<Rightarrow> uninit_v1 \<Rightarrow> (istream \<Rightarrow> int option \<times> istream) \<Rightarrow> (cstring \<times> ('k, 'w) client_state command) list" where
  "store_v1_commands env junk get_incentive =
     [(str ''deploy'', cmd1_deploy env),
      (str ''initalize'', cmd1_initialize env),
      (str ''register'', cmd1_register env),
      (str ''list-orders'', cmd1_list_orders env),
      (str ''make-order'', cmd1_make_order env junk get_incentive),
      (str ''revoke-order'', cmd1_revoke_order env junk),
      (str ''sign-trading-order'', cmd1_sign_trading_order env junk),
      (str ''submit-trading-order'', cmd1_submit_trading_order env junk),
      (str ''get-account-info'', cmd1_get_account_info env junk),
      (str ''query-events'', cmd1_query_events env junk)]"

section \<open>The program\<close>

definition store_v1_session ::
    "('k, 'w) env \<Rightarrow> uninit_v1 \<Rightarrow> (istream \<Rightarrow> int option \<times> istream) \<Rightarrow> cstring list \<Rightarrow> (('k, 'w) client_state \<times> Console, unit) eff" where
  "store_v1_session env junk get_incentive lines =
     eff_bind (eff_fst (allow_custom_script env True)) (\<lambda>_.
     eff_bind (eff_snd (eff_modify (add_completion (str ''exit'')))) (\<lambda>_.
     eff_bind (eff_fst (allow_custom_script env True)) (\<lambda>_.
     eff_bind (eff_fst (Store_v1 env)) (\<lambda>_.
     eff_bind (eff_snd (eff_modify (fold add_completion (sort (map fst (store_v1_commands env junk get_incentive)))))) (\<lambda>_.
     line_loop (store_v1_commands env junk get_incentive) lines)))))"

definition store_v1_main ::
    "('k, 'w) env \<Rightarrow> uninit_v1 \<Rightarrow> (istream \<Rightarrow> int option \<times> istream) \<Rightarrow> (char \<times> cstring) list \<Rightarrow> cstring list \<Rightarrow> 'w \<Rightarrow>
     unit result \<times> (('k, 'w) client_state \<times> Console) option" where
  "store_v1_main env junk get_incentive options lines w =
     (case parse_command_line options Arguments_new of
        Inl e \<Rightarrow> (Inl e, None)
      | Inr args \<Rightarrow>
          (case Client2_create env (arg_chain_id args) (arg_mnemonic args) (arg_mint_key args) w of
             (Inl e, w') \<Rightarrow> (Inl e, None)
           | (Inr c, w') \<Rightarrow>
               (case store_v1_session env junk get_incentive lines ((c, w'), Console_create (str ''NFT$ '')) of
                  (r, s) \<Rightarrow> (r, Some s))))"

section \<open>Sessions stay within the histories of the client\<close>

lemma history_store_v1 [history_intros]:
  "preserves (client_history env) (register_account env nft i)"
  "preserves (client_history env) (register_nft_v1 env nft)"
  "preserves (client_history env) (make_order_v1 env nft i t p cu m)"
  "preserves (client_history env) (revoke_order_v1 env nft i d)"
  "preserves (client_history env) (sign_trading_order env nft i cu a d)"
  "preserves (client_history env) (submit_trading_order env i txn)"
  "preserves (client_history env) (list_orders_v1 env)"
  "preserves (client_history env) (get_account_info_v1 env address)"
  unfolding register_account_def register_nft_v1_def make_order_v1_def revoke_order_v1_def sign_trading_order_def
    submit_trading_order_def list_orders_v1_def get_account_info_v1_def Let_def
  by (intro preserves_intros history_intros)+

lemma history_store_v1_start [history_intros]:
  "preserves (client_history env) (Store_v1 env)"
  "preserves (client_history env) (initialize_v1 env nft)"
  "preserves (client_history env) (get_made_order_events env a s l)"
  unfolding Store_v1_def initialize_v1_def get_made_order_events_def
  by (intro preserves_intros history_intros)+

lemma history_commands_v1 [history_intros]:
  "preserves (client_history env) (cmd1_deploy env iss)"
  "preserves (client_history env) (cmd1_initialize env iss)"
  "preserves (client_history env) (cmd1_register env iss)"
  "preserves (client_history env) (cmd1_list_orders env iss)"
  "preserves (client_history env) (cmd1_make_order env junk get_incentive iss)"
  "preserves (client_history env) (cmd1_revoke_order env junk iss)"
  "preserves (client_history env) (cmd1_sign_trading_order env junk iss)"
  "preserves (client_history env) (cmd1_submit_trading_order env junk iss)"
  "preserves (client_history env) (cmd1_get_account_info env junk iss)"
  "preserves (client_history env) (cmd1_query_events env junk iss)"
  unfolding cmd1_deploy_def cmd1_initialize_def cmd1_register_def cmd1_list_orders_def cmd1_make_order_def cmd1_revoke_order_def
    cmd1_sign_trading_order_def cmd1_submit_trading_order_def cmd1_get_account_info_def cmd1_query_events_def Let_def
  by (intro preserves_intros history_intros)+

lemma store_v1_commands_distinct: "distinct (map fst (store_v1_commands env junk get_incentive))"
  by (simp add: store_v1_commands_def str_def)

interpretation store_v1_table: command_table "store_v1_commands env junk get_incentive" "client_history env"
proof
  show "distinct (map fst (store_v1_commands env junk get_incentive))" by (rule store_v1_commands_distinct)
  fix cmd command iss
  assume "(cmd, command) \<in> set (store_v1_commands env junk get_incentive)"
  then show "preserves (client_history env) (command iss)"
    by (auto simp: store_v1_commands_def intro: history_intros)
qed

lemma store_v1_session_history: "preserves (\<lambda>s. client_history env (fst s)) (store_v1_session env junk get_incentive lines)"
  unfolding store_v1_session_def
  by (intro preserves_bind preserves_fst preserves_client_snd store_v1_table.line_loop_preserves history_intros)

text \<open>A transaction that is not one of several signers cannot be submitted.\<close>

lemma submit_trading_order_default:
  "submit_trading_order env i (default_SignedTransaction junk) s = (Inl Bad_variant_access, s)"
  by (simp add: submit_trading_order_def sign_and_submit_multi_agent_signed_txn_def default_SignedTransaction_def eff_bind_def eff_throw_def)

lemma store_v1_main_session:
  assumes "store_v1_main env junk get_incentive options lines w = (r, Some (s, con))"
  obtains c w' where "client_history env (c, w')"
    and "store_v1_session env junk get_incentive lines ((c, w'), Console_create (str ''NFT$ '')) = (r, (s, con))"
  using assms by (auto simp: store_v1_main_def split: sum.splits prod.splits intro: client_history.started)

lemma store_v1_main_history:
  assumes "store_v1_main env junk get_incentive options lines w = (r, Some (s, con))"
  shows "client_history env s"
  using assms by (rule store_v1_main_session) (drule preservesD [OF store_v1_session_history, rotated]; simp)

lemma fold_completion_history: "console_history (fold add_completion names con) = console_history con"
  by (induction names arbitrary: con) (simp_all add: add_completion_def)

lemma store_v1_session_console:
  assumes "store_v1_session env junk get_incentive lines (s, Console_create prompt) = (r, (t, con))"
  shows "isl r \<and> console_history con = [] \<or> (\<exists>n. line_loop_end lines n r \<and> console_history con = map trim (take n lines))"
proof -
  have empty: "console_history (Console_create prompt) = []" by (simp add: Console_create_def)
  consider (early) "isl r" "console_history con = []"
    | (loop) s1 con1 where "line_loop (store_v1_commands env junk get_incentive) lines (s1, con1) = (r, (t, con))"
        "console_history con1 = []"
    using assms unfolding store_v1_session_def
    by (auto simp: eff_bind_def eff_fst_def eff_snd_def eff_modify_def fold_completion_history add_completion_def empty
        split: prod.splits sum.splits)
  then show ?thesis
  proof cases
    case loop
    from line_loop_console [OF loop(1)] loop(2) show ?thesis by auto
  qed simp
qed

lemma submit_line_ends:
  assumes "length id' = 32" and "length (uninit_id junk) = 32"
  shows "line_loop (store_v1_commands env junk get_incentive)
      (command_line ''submit-trading-order'' [dec (unat (i :: u64)), bytes_to_hex id'] # lines) (s, con) = (Inl Bad_variant_access, (s, con))"
proof -
  let ?words = "[dec (unat i), bytes_to_hex id']"
  have name': "solid (str ''submit-trading-order'')" by (simp add: solid_def str_def is_space_def)
  have words: "list_all solid ?words" "id' \<noteq> []" using assms(1) by (auto simp: solid_dec hex_digit_solid)
  have "cmd1_submit_trading_order env junk (words_left ?words) s = (Inl Bad_variant_access, s)"
    using words(2) assms
    by (simp add: cmd1_submit_trading_order_def get_words_left eff_lift_def eff_bind_def submit_trading_order_default)
  then show ?thesis
    by (intro store_v1_table.line_ends_session [where cmd = "str ''submit-trading-order''" and command = "cmd1_submit_trading_order env junk"])
      (simp_all add: store_v1_commands_def command_line_trim [OF name' words(1)] command_line_word [OF name'] command_line_not_exit)
qed

end
