(* ===== verification/Swap_Path.thy ===== *)
theory Swap_Path
  imports Effects
begin

text \<open>
  The search for the way over which an exchange swaps one currency for another
  (\<open>ExchangeImp::find_swap_path\<close> in \<open>src/cpp/sdk/src/violas_sdk2.cpp\<close>).

  Currencies are vertices, and a reserve of two currencies is an edge between them. The search relaxes the edges of
  the vertices in a priority queue until the queue is empty, and then walks back from the target over the
  predecessors. The lemmas show that the search ends on every input, whichever of several least vertices the
  queue takes first; that the walk ends and gives a chain of reserves whenever the target was reached; and that
  no other chain gives more, as long as no reserve on the way is too small for what arrives at it.
\<close>

section \<open>Reserves and edges\<close>

record Reserve =
  coina_index :: int
  coina_value :: u64
  coinb_index :: int
  coinb_value :: u64

text \<open>
  The value of the second coin is read as a \<open>double\<close>, which has 53 significant bits: a larger number is rounded to
  the nearest multiple of a power of two, in the middle to the even one.
\<close>

fun excess_bits :: "nat \<Rightarrow> nat" where
  "excess_bits n = (if n < 2 ^ 53 then 0 else Suc (excess_bits (n div 2)))"

declare excess_bits.simps [simp del]

definition round_double :: "nat \<Rightarrow> nat" where
  "round_double n =
     (let unit' = 2 ^ excess_bits n; q = n div unit'; r = n mod unit'
      in if 2 * r < unit' \<or> (2 * r = unit' \<and> even q) then q * unit' else (q + 1) * unit')"

definition get_double :: "u64 \<Rightarrow> u64 result" where
  "get_double v =
     (let n = round_double (unat v)
      in if n < 2 ^ 64 then Inr (of_nat n) else Inl (Undefined_behaviour ''conversion of a double that is too large''))"

lemma get_double_exact: "unat v < 2 ^ 53 \<Longrightarrow> get_double v = Inr v"
  using unat_u64_less [of v] by (simp add: get_double_def round_double_def excess_bits.simps [of "unat v"])

record edge =
  coin_a :: u64
  coin_a_value :: u64
  coin_b :: u64
  coin_b_value :: u64

text \<open>All reserves are taken forward, or all backward.\<close>

definition reserve_edge :: "bool \<Rightarrow> Reserve \<Rightarrow> edge result" where
  "reserve_edge forward r =
     sum_bind (get_double (coinb_value r)) (\<lambda>b_value.
       Inr (if forward
            then \<lparr>coin_a = word_of_int (coina_index r), coin_a_value = coina_value r,
                  coin_b = word_of_int (coinb_index r), coin_b_value = b_value\<rparr>
            else \<lparr>coin_a = word_of_int (coinb_index r), coin_a_value = b_value,
                  coin_b = word_of_int (coina_index r), coin_b_value = coina_value r\<rparr>))"

fun reserve_edges :: "bool \<Rightarrow> Reserve list \<Rightarrow> edge list result" where
  "reserve_edges forward [] = Inr []"
| "reserve_edges forward (r # rs) =
     sum_bind (reserve_edge forward r) (\<lambda>e. sum_bind (reserve_edges forward rs) (\<lambda>es. Inr (e # es)))"

text \<open>\<open>map<size_t, vector<edge>> v_to_e\<close>.\<close>

definition add_edge :: "edge \<Rightarrow> (u64 \<Rightarrow> edge list) \<Rightarrow> u64 \<Rightarrow> edge list" where
  "add_edge e v_to_e = v_to_e(coin_a e := v_to_e (coin_a e) @ [e])"

definition edge_map :: "edge list \<Rightarrow> u64 \<Rightarrow> edge list" where
  "edge_map es = fold add_edge es (\<lambda>_. [])"

lemma fold_add_edge: "fold add_edge es m v = m v @ filter (\<lambda>e. coin_a e = v) es"
  by (induction es arbitrary: m) (simp_all add: add_edge_def)

lemma edge_map_filter: "edge_map es v = filter (\<lambda>e. coin_a e = v) es"
  by (simp add: edge_map_def fold_add_edge)

section \<open>The search\<close>

type_synonym vertex = "u64 \<times> u64"

record search =
  dist_to :: "vertex list"
  minpq :: "vertex list"

definition relax :: "vertex \<Rightarrow> edge \<Rightarrow> search \<Rightarrow> search result" where
  "relax v e st =
     (if coin_a_value e = 0 then Inl (Undefined_behaviour ''division by zero'')
      else let available_value = snd v * coin_b_value e div coin_a_value e
           in if snd v \<le> coin_a_value e
              then if length (dist_to st) \<le> unat (coin_b e) then Inl (Undefined_behaviour ''dist_to[coin_b]'')
                   else if snd (dist_to st ! unat (coin_b e)) < available_value
                   then Inr \<lparr>dist_to = (dist_to st)[unat (coin_b e) := (coin_a e, available_value)],
                             minpq = minpq st @ [(coin_b e, available_value)]\<rparr>
                   else Inr st
              else Inr st)"

fun relax_all :: "vertex \<Rightarrow> edge list \<Rightarrow> search \<Rightarrow> search result" where
  "relax_all v [] st = Inr st"
| "relax_all v (e # es) st = sum_bind (relax v e st) (relax_all v es)"

text \<open>
  The top of the queue is a vertex with the least value (\<open>vertex_comp\<close>). Which one of several, in the
  \<open>k\<close>-th round, is up to the library: the argument \<open>tie\<close>.
\<close>

definition least_places :: "vertex list \<Rightarrow> nat list" where
  "least_places q = filter (\<lambda>i. list_all (\<lambda>v. snd (q ! i) \<le> snd v) q) [0..<length q]"

definition top_place :: "(nat \<Rightarrow> vertex list \<Rightarrow> nat) \<Rightarrow> nat \<Rightarrow> vertex list \<Rightarrow> nat" where
  "top_place tie k q = least_places q ! (tie k q mod length (least_places q))"

definition remove_place :: "nat \<Rightarrow> 'a list \<Rightarrow> 'a list" where
  "remove_place i q = take i q @ drop (Suc i) q"

lemma least_places_nonempty: "q \<noteq> [] \<Longrightarrow> least_places q \<noteq> []"
proof -
  assume "q \<noteq> []"
  then have "Min (snd ` set q) \<in> snd ` set q" by (intro Min_in) simp_all
  then obtain v where v: "v \<in> set q" "snd v = Min (snd ` set q)" by auto
  then obtain i where i: "i < length q" "q ! i = v" by (auto simp: in_set_conv_nth)
  have "list_all (\<lambda>u. snd (q ! i) \<le> snd u) q" by (auto simp: list_all_iff i v)
  with i show ?thesis by (auto simp: least_places_def filter_empty_conv)
qed

lemma top_place_less: "q \<noteq> [] \<Longrightarrow> top_place tie k q < length q"
proof -
  assume q: "q \<noteq> []"
  then have "top_place tie k q \<in> set (least_places q)"
    unfolding top_place_def using least_places_nonempty [OF q] by (intro nth_mem) simp
  then show ?thesis by (auto simp: least_places_def)
qed

lemma set_remove_place: "i < length q \<Longrightarrow> set q = insert (q ! i) (set (remove_place i q))"
  by (subst id_take_nth_drop [of i q]) (auto simp: remove_place_def simp del: append_take_drop_id)

lemma length_remove_place: "i < length q \<Longrightarrow> length (remove_place i q) = length q - 1"
  by (simp add: remove_place_def)

text \<open>Every push raises an entry of \<open>dist_to\<close>: the room that is left above the entries shrinks.\<close>

definition room :: "search \<Rightarrow> nat" where
  "room st = sum_list (map (\<lambda>v. 2 ^ 64 - unat (snd v)) (dist_to st))"

lemma relax_room: "relax v e st = Inr st' \<Longrightarrow> st' = st \<or> room st' < room st"
proof -
  assume r: "relax v e st = Inr st'"
  define i where "i = unat (coin_b e)"
  define available where "available = snd v * coin_b_value e div coin_a_value e"
  show ?thesis
  proof (cases "st' = st")
    case False
    then have less: "i < length (dist_to st)" "snd (dist_to st ! i) < available"
      and st': "dist_to st' = (dist_to st)[i := (coin_a e, available)]"
      using r by (auto simp: relax_def i_def available_def Let_def split: if_splits)
    let ?f = "\<lambda>v :: vertex. 2 ^ 64 - unat (snd v)"
    have split: "dist_to st = take i (dist_to st) @ dist_to st ! i # drop (Suc i) (dist_to st)"
      by (rule id_take_nth_drop [OF less(1)])
    have "room st = sum_list (map ?f (take i (dist_to st))) + ?f (dist_to st ! i) + sum_list (map ?f (drop (Suc i) (dist_to st)))"
      unfolding room_def by (subst split) simp
    moreover have "room st' = sum_list (map ?f (take i (dist_to st))) + ?f (coin_a e, available) + sum_list (map ?f (drop (Suc i) (dist_to st)))"
      unfolding room_def st' upd_conv_take_nth_drop [OF less(1)] by simp
    moreover have "?f (coin_a e, available) < ?f (dist_to st ! i)"
      using less(2) unat_u64_less [of available] by (simp add: word_less_nat_alt)
    ultimately show ?thesis by linarith
  qed simp
qed

lemma relax_all_room: "relax_all v es st = Inr st' \<Longrightarrow> st' = st \<or> room st' < room st"
proof (induction es arbitrary: st)
  case (Cons e es)
  then obtain st1 where "relax v e st = Inr st1" "relax_all v es st1 = Inr st'" by (auto simp: sum_bind_iff)
  with relax_room [of v e st st1] Cons.IH [of st1] show ?case by auto
qed simp

function search_loop ::
    "(nat \<Rightarrow> vertex list \<Rightarrow> nat) \<Rightarrow> nat \<Rightarrow> (u64 \<Rightarrow> edge list) \<Rightarrow> search \<Rightarrow> search result" where
  "search_loop tie k v_to_e st =
     (if minpq st = [] then Inr st
      else let i = top_place tie k (minpq st); v = minpq st ! i
           in case relax_all v (v_to_e (fst v)) (st\<lparr>minpq := remove_place i (minpq st)\<rparr>) of
                Inl e \<Rightarrow> Inl e
              | Inr st' \<Rightarrow> search_loop tie (Suc k) v_to_e st')"
  by pat_completeness auto
termination
proof (relation "measures [\<lambda>(tie, k, v_to_e, st). room st, \<lambda>(tie, k, v_to_e, st). length (minpq st)]")
  fix tie k v_to_e st i v st'
  assume q: "minpq st \<noteq> []" and i: "i = top_place tie k (minpq st)"
    and r: "relax_all v (v_to_e (fst v)) (st\<lparr>minpq := remove_place i (minpq st)\<rparr>) = Inr st'"
  have "length (remove_place i (minpq st)) < length (minpq st)"
    using top_place_less [OF q, of tie k] by (simp add: i length_remove_place)
  moreover have "room (st\<lparr>minpq := remove_place i (minpq st)\<rparr>) = room st" by (simp add: room_def)
  ultimately show "((tie, Suc k, v_to_e, st'), (tie, k, v_to_e, st)) \<in>
      measures [\<lambda>(tie, k, v_to_e, st). room st, \<lambda>(tie, k, v_to_e, st). length (minpq st)]"
    using relax_all_room [OF r] by auto
qed simp

declare search_loop.simps [simp del]

text \<open>The walk back: a stack is filled from the target to the start, and emptied. Without an end it has no value.\<close>

partial_function (option) path_from ::
    "vertex list \<Rightarrow> u64 \<Rightarrow> u64 \<Rightarrow> u8 list \<Rightarrow> u8 list result option" where
  "path_from dist a i path =
     (if i = a then Some (Inr (ucast a # path))
      else if length dist \<le> unat i then Some (Inl (Undefined_behaviour ''dist_to[i]''))
      else path_from dist a (fst (dist ! unat i)) (ucast i # path))"

definition search_start :: "u64 \<Rightarrow> u64 \<Rightarrow> search" where
  "search_start currency_a_index currency_a_amount =
     \<lparr>dist_to = replicate 32 (0, 0), minpq = [(currency_a_index, currency_a_amount)]\<rparr>"

definition swap_path ::
    "(nat \<Rightarrow> vertex list \<Rightarrow> nat) \<Rightarrow> Reserve list \<Rightarrow> u64 \<Rightarrow> u64 \<Rightarrow> u64 \<Rightarrow> u8 list result option" where
  "swap_path tie reserves currency_a_index currency_a_amount currency_b_index =
     (case sum_bind (reserve_edges (currency_a_index < currency_b_index) reserves) (\<lambda>es.
         search_loop tie 0 (edge_map es) (search_start currency_a_index currency_a_amount)) of
        Inl e \<Rightarrow> Some (Inl e)
      | Inr st \<Rightarrow> path_from (dist_to st) currency_a_index currency_b_index [])"

section \<open>Chains of reserves\<close>

text \<open>What a reserve gives for an amount, and what a chain of them gives in the end.\<close>

definition converted :: "edge \<Rightarrow> nat \<Rightarrow> nat" where
  "converted e y = y * unat (coin_b_value e) div unat (coin_a_value e)"

fun chain :: "edge list \<Rightarrow> u64 \<Rightarrow> edge list \<Rightarrow> u64 \<Rightarrow> bool" where
  "chain E a [] b \<longleftrightarrow> a = b"
| "chain E a (e # es) b \<longleftrightarrow> e \<in> set E \<and> coin_a e = a \<and> chain E (coin_b e) es b"

fun carry :: "nat \<Rightarrow> edge list \<Rightarrow> nat" where
  "carry y [] = y"
| "carry y (e # es) = carry (converted e y) es"

lemma chain_snoc: "chain E a (es @ [e]) b \<longleftrightarrow> chain E a es (coin_a e) \<and> e \<in> set E \<and> coin_b e = b"
  by (induction es arbitrary: a) auto

lemma carry_snoc: "carry y (es @ [e]) = converted e (carry y es)"
  by (induction es arbitrary: y) simp_all

lemma converted_mono: "y \<le> z \<Longrightarrow> converted e y \<le> converted e z"
  by (simp add: converted_def div_le_mono)

text \<open>
  Reserves that the search can use: no division by zero, an index within \<open>dist_to\<close>, no overflow, and no cycle,
  which a rank of the vertices shows.
\<close>

definition edges_ok :: "(u64 \<Rightarrow> nat) \<Rightarrow> edge list \<Rightarrow> bool" where
  "edges_ok rank E \<longleftrightarrow> (\<forall>e \<in> set E. coin_a_value e \<noteq> 0 \<and> unat (coin_b e) < 32 \<and>
     unat (coin_a_value e) * unat (coin_b_value e) < 2 ^ 64 \<and> rank (coin_a e) < rank (coin_b e))"

lemma edges_okD:
  assumes "edges_ok rank E" and "e \<in> set E"
  shows "coin_a_value e \<noteq> 0" "unat (coin_b e) < 32" "rank (coin_a e) < rank (coin_b e)"
    and "v \<le> coin_a_value e \<Longrightarrow> unat (v * coin_b_value e div coin_a_value e) = converted e (unat v)"
proof -
  show "coin_a_value e \<noteq> 0" "unat (coin_b e) < 32" "rank (coin_a e) < rank (coin_b e)"
    using assms by (auto simp: edges_ok_def)
  assume "v \<le> coin_a_value e"
  then have "unat v * unat (coin_b_value e) \<le> unat (coin_a_value e) * unat (coin_b_value e)"
    by (simp add: word_le_nat_alt)
  also have "\<dots> < 2 ^ 64" using assms by (auto simp: edges_ok_def)
  finally have "unat (v * coin_b_value e) = unat v * unat (coin_b_value e)" by (simp add: unat_word_ariths)
  then show "unat (v * coin_b_value e div coin_a_value e) = converted e (unat v)"
    by (simp add: converted_def unat_div)
qed

section \<open>The invariant of the search\<close>

abbreviation label :: "search \<Rightarrow> u64 \<Rightarrow> u64" where
  "label st w \<equiv> snd (dist_to st ! unat w)"

text \<open>
  A vertex of the queue is the start or one that was reached, with a value that its label has or had. Every label
  was made by relaxing an edge. A vertex with its present label is in the queue, or its edges improve nothing.
\<close>

definition entry :: "(u64 \<Rightarrow> nat) \<Rightarrow> vertex \<Rightarrow> search \<Rightarrow> vertex \<Rightarrow> bool" where
  "entry rank start st v \<longleftrightarrow> v = start \<or>
     (rank (fst start) < rank (fst v) \<and> unat (fst v) < 32 \<and> 0 < snd v \<and> snd v \<le> label st (fst v))"

definition present :: "vertex \<Rightarrow> search \<Rightarrow> vertex \<Rightarrow> bool" where
  "present start st v \<longleftrightarrow> v = start \<or> (unat (fst v) < 32 \<and> 0 < snd v \<and> snd v = label st (fst v))"

definition improves_nothing :: "edge list \<Rightarrow> search \<Rightarrow> vertex \<Rightarrow> bool" where
  "improves_nothing es st v \<longleftrightarrow> (\<forall>e \<in> set es. coin_a e = fst v \<longrightarrow> snd v \<le> coin_a_value e \<longrightarrow>
     converted e (unat (snd v)) \<le> unat (label st (coin_b e)))"

definition labels_made :: "(u64 \<Rightarrow> nat) \<Rightarrow> edge list \<Rightarrow> vertex \<Rightarrow> search \<Rightarrow> bool" where
  "labels_made rank E start st \<longleftrightarrow> (\<forall>i < 32. 0 < snd (dist_to st ! i) \<longrightarrow>
     (\<exists>e \<in> set E. \<exists>y. unat (coin_b e) = i \<and> coin_a e = fst (dist_to st ! i) \<and> entry rank start st (coin_a e, y) \<and>
        y \<le> coin_a_value e \<and> unat (snd (dist_to st ! i)) = converted e (unat y)))"

text \<open>The invariant while the edges of the vertices \<open>busy\<close> are being relaxed.\<close>

definition search_ok :: "(u64 \<Rightarrow> nat) \<Rightarrow> edge list \<Rightarrow> vertex \<Rightarrow> vertex set \<Rightarrow> search \<Rightarrow> bool" where
  "search_ok rank E start busy st \<longleftrightarrow> length (dist_to st) = 32 \<and> (\<forall>v \<in> set (minpq st). entry rank start st v) \<and>
     labels_made rank E start st \<and>
     (\<forall>v. present start st v \<longrightarrow> v \<in> set (minpq st) \<or> v \<in> busy \<or> improves_nothing E st v)"

lemma minpq_update [simp]:
  "entry rank start (st\<lparr>minpq := q\<rparr>) v \<longleftrightarrow> entry rank start st v"
  "present start (st\<lparr>minpq := q\<rparr>) v \<longleftrightarrow> present start st v"
  "improves_nothing es (st\<lparr>minpq := q\<rparr>) v \<longleftrightarrow> improves_nothing es st v"
  "labels_made rank E start (st\<lparr>minpq := q\<rparr>) \<longleftrightarrow> labels_made rank E start st"
  by (simp_all add: entry_def present_def improves_nothing_def labels_made_def)

text \<open>Labels only grow.\<close>

definition labels_le :: "search \<Rightarrow> search \<Rightarrow> bool" where
  "labels_le st st' \<longleftrightarrow> (\<forall>i < 32. snd (dist_to st ! i) \<le> snd (dist_to st' ! i))"

lemma labels_le_refl [simp]: "labels_le st st"
  by (simp add: labels_le_def)

lemma labels_le_trans: "labels_le st st1 \<Longrightarrow> labels_le st1 st2 \<Longrightarrow> labels_le st st2"
  unfolding labels_le_def by (meson order_trans)

lemma labels_le_nat: "labels_le st st' \<Longrightarrow> unat w < 32 \<Longrightarrow> unat (label st w) \<le> unat (label st' w)"
  by (simp add: labels_le_def word_le_nat_alt)

lemma entry_mono: "labels_le st st' \<Longrightarrow> entry rank start st v \<Longrightarrow> entry rank start st' v"
  by (auto simp: entry_def labels_le_def)

lemma improves_nothing_mono:
  assumes "labels_le st st'" and "edges_ok rank E" and "set es \<subseteq> set E" and "improves_nothing es st v"
  shows "improves_nothing es st' v"
proof -
  have "unat (label st (coin_b e)) \<le> unat (label st' (coin_b e))" if "e \<in> set es" for e
    using labels_le_nat [OF assms(1)] edges_okD(2) [OF assms(2)] assms(3) that by blast
  with assms(4) show ?thesis unfolding improves_nothing_def by (meson order_trans)
qed

lemma entry_rank: "entry rank start st v \<Longrightarrow> rank (fst start) \<le> rank (fst v)"
  by (auto simp: entry_def)

text \<open>One edge of a busy vertex.\<close>

lemma relax_raises:
  assumes ok: "edges_ok rank E" "e \<in> set E" and st: "search_ok rank E start busy st"
    and v: "entry rank start st v" "coin_a e = fst v" "snd v \<le> coin_a_value e"
    and more: "label st (coin_b e) < available" "unat available = converted e (unat (snd v))"
    and st': "st' = \<lparr>dist_to = (dist_to st)[unat (coin_b e) := (coin_a e, available)], minpq = minpq st @ [(coin_b e, available)]\<rparr>"
  shows "search_ok rank E start busy st' \<and> labels_le st st'"
proof -
  have b: "unat (coin_b e) < 32" and len: "length (dist_to st) = 32"
    using edges_okD(2) [OF ok] st by (simp_all add: search_ok_def)
  have dist: "dist_to st' ! i = (if i = unat (coin_b e) then (coin_a e, available) else dist_to st ! i)" if "i < 32" for i
    using that len by (simp add: st')
  have le: "labels_le st st'" using more(1) dist by (auto simp: labels_le_def)
  have rank: "rank (fst start) < rank (coin_b e)"
    using entry_rank [OF v(1)] edges_okD(3) [OF ok] v(2) by simp
  have pos: "0 < available" using more(1) by (rule le_less_trans [OF word_zero_le])
  have "entry rank start st' (coin_b e, available)" using rank b pos by (simp add: entry_def dist)
  with st have "\<forall>u \<in> set (minpq st'). entry rank start st' u"
    using entry_mono [OF le] by (auto simp: search_ok_def st')
  moreover have "labels_made rank E start st'"
    unfolding labels_made_def
  proof (intro allI impI)
    fix i :: nat
    assume i: "i < 32" "0 < snd (dist_to st' ! i)"
    show "\<exists>e \<in> set E. \<exists>y. unat (coin_b e) = i \<and> coin_a e = fst (dist_to st' ! i) \<and> entry rank start st' (coin_a e, y) \<and>
        y \<le> coin_a_value e \<and> unat (snd (dist_to st' ! i)) = converted e (unat y)"
    proof (cases "i = unat (coin_b e)")
      case True
      with ok(2) v more(2) entry_mono [OF le v(1)] i dist show ?thesis
        by (intro bexI [of _ e] exI [of _ "snd v"]) simp_all
    next
      case False
      with i dist have "0 < snd (dist_to st ! i)" "dist_to st' ! i = dist_to st ! i" by simp_all
      with st i(1) entry_mono [OF le] show ?thesis unfolding search_ok_def labels_made_def by metis
    qed
  qed
  moreover have "u \<in> set (minpq st') \<or> u \<in> busy \<or> improves_nothing E st' u" if u: "present start st' u" for u
  proof (cases "u \<noteq> start \<and> fst u = coin_b e")
    case True
    with u have "snd u = label st' (coin_b e)" by (auto simp: present_def)
    with True b dist have "u = (coin_b e, available)" by (simp add: prod_eq_iff)
    then show ?thesis by (simp add: st')
  next
    case False
    then have "u = start \<or> unat (fst u) \<noteq> unat (coin_b e)" by (simp add: word_unat_eq_iff)
    with u dist have "present start st u" by (auto simp: present_def)
    with st have "u \<in> set (minpq st) \<or> u \<in> busy \<or> improves_nothing E st u" unfolding search_ok_def by blast
    moreover have "set (minpq st) \<subseteq> set (minpq st')" by (auto simp: st')
    ultimately show ?thesis using improves_nothing_mono [OF le ok(1) subset_refl, of u] by blast
  qed
  moreover have "length (dist_to st') = 32" by (simp add: st' len)
  ultimately show ?thesis using le by (simp add: search_ok_def)
qed

lemma relax_ok:
  assumes ok: "edges_ok rank E" "e \<in> set E" and st: "search_ok rank E start busy st"
    and v: "entry rank start st v" "coin_a e = fst v"
  obtains st' where "relax v e st = Inr st'" and "search_ok rank E start busy st'" and "labels_le st st'"
    and "improves_nothing [e] st' v"
proof -
  define available where "available = snd v * coin_b_value e div coin_a_value e"
  have b: "unat (coin_b e) < length (dist_to st)" using edges_okD(2) [OF ok] st by (simp add: search_ok_def)
  have nz: "coin_a_value e \<noteq> 0" by (rule edges_okD(1) [OF ok])
  show ?thesis
  proof (cases "snd v \<le> coin_a_value e \<and> label st (coin_b e) < available")
    case True
    define st1 where "st1 = \<lparr>dist_to = (dist_to st)[unat (coin_b e) := (coin_a e, available)],
      minpq = minpq st @ [(coin_b e, available)]\<rparr>"
    have value': "unat available = converted e (unat (snd v))"
      using edges_okD(4) [OF ok] True by (simp add: available_def)
    show ?thesis
    proof (rule that)
      show "relax v e st = Inr st1" using True b nz by (simp add: relax_def available_def [symmetric] st1_def Let_def)
      show "search_ok rank E start busy st1" "labels_le st st1"
        using relax_raises [OF ok st v _ _ value' st1_def] True by auto
      show "improves_nothing [e] st1 v" using b value' by (simp add: improves_nothing_def st1_def)
    qed
  next
    case False
    show ?thesis
    proof (rule that [of st])
      show "relax v e st = Inr st" using False b nz by (auto simp: relax_def available_def Let_def)
      show "improves_nothing [e] st v"
        using False edges_okD(4) [OF ok, of "snd v"] by (auto simp: improves_nothing_def available_def not_less word_le_nat_alt)
    qed (use st in simp_all)
  qed
qed

lemma relax_all_ok:
  assumes "edges_ok rank E" and "search_ok rank E start busy st" and "entry rank start st v"
    and "\<And>e. e \<in> set es \<Longrightarrow> e \<in> set E \<and> coin_a e = fst v"
  shows "\<exists>st'. relax_all v es st = Inr st' \<and> search_ok rank E start busy st' \<and> labels_le st st' \<and> improves_nothing es st' v"
  using assms(2-)
proof (induction es arbitrary: st)
  case Nil
  then show ?case by (simp add: improves_nothing_def)
next
  case (Cons e es)
  from Cons.prems(3) [of e] have e: "e \<in> set E" "coin_a e = fst v" by simp_all
  obtain st1 where 1: "relax v e st = Inr st1" "search_ok rank E start busy st1" "labels_le st st1" "improves_nothing [e] st1 v"
    by (rule relax_ok [OF assms(1) e(1) Cons.prems(1,2) e(2)])
  from Cons.IH [OF 1(2) entry_mono [OF 1(3) Cons.prems(2)]] Cons.prems(3) obtain st2 where
    2: "relax_all v es st1 = Inr st2" "search_ok rank E start busy st2" "labels_le st1 st2" "improves_nothing es st2 v"
    by (metis list.set_intros(2))
  have "improves_nothing [e] st2 v" by (rule improves_nothing_mono [OF 2(3) assms(1) _ 1(4)]) (simp add: e)
  with 1 2 labels_le_trans [OF 1(3) 2(3)] show ?case
    by (intro exI [of _ st2]) (simp add: sum_bind_def improves_nothing_def)
qed

text \<open>The search ends, without undefined behaviour, in a state in which no edge improves a label.\<close>

lemma search_loop_ok:
  assumes "edges_ok rank E" and "search_ok rank E start {} st"
  shows "\<exists>st'. search_loop tie k (edge_map E) st = Inr st' \<and> search_ok rank E start {} st' \<and> minpq st' = []"
  using assms(2)
proof (induction tie k "edge_map E" st rule: search_loop.induct)
  case (1 tie k st)
  show ?case
  proof (cases "minpq st = []")
    case True
    with 1(2) show ?thesis by (subst search_loop.simps) simp
  next
    case False
    define i where "i = top_place tie k (minpq st)"
    define v where "v = minpq st ! i"
    define st1 where "st1 = st\<lparr>minpq := remove_place i (minpq st)\<rparr>"
    have i: "i < length (minpq st)" unfolding i_def by (rule top_place_less [OF False])
    note q = set_remove_place [OF i]
    have "search_ok rank E start {v} st1" "entry rank start st1 v"
      using 1(2) q by (auto simp: search_ok_def st1_def v_def)
    from relax_all_ok [OF assms(1) this, of "edge_map E (fst v)"] obtain st2 where
      2: "relax_all v (edge_map E (fst v)) st1 = Inr st2" "search_ok rank E start {v} st2"
        "improves_nothing (edge_map E (fst v)) st2 v"
      by (auto simp: edge_map_filter)
    from 2(3) have "improves_nothing E st2 v" by (simp add: improves_nothing_def edge_map_filter)
    with 2(2) have "search_ok rank E start {} st2" by (auto simp: search_ok_def)
    from 1(1) [OF False i_def v_def _ this] 2(1) have
      "\<exists>st'. search_loop tie (Suc k) (edge_map E) st2 = Inr st' \<and> search_ok rank E start {} st' \<and> minpq st' = []"
      by (simp add: st1_def)
    moreover have "search_loop tie k (edge_map E) st = search_loop tie (Suc k) (edge_map E) st2"
      using False 2(1) by (subst search_loop.simps) (simp add: Let_def i_def v_def st1_def)
    ultimately show ?thesis by simp
  qed
qed

lemma search_ok_start: "search_ok rank E (a, x) {} (search_start a x)"
  by (auto simp: search_ok_def search_start_def entry_def present_def labels_made_def)

section \<open>The walk back\<close>

lemma search_done:
  assumes "search_ok rank E start {} st" and "minpq st = []"
  shows "length (dist_to st) = 32" and "labels_made rank E start st" and "present start st v \<Longrightarrow> improves_nothing E st v"
proof -
  show "length (dist_to st) = 32" "labels_made rank E start st" using assms by (simp_all add: search_ok_def)
  assume "present start st v"
  with assms(1) have "v \<in> set (minpq st) \<or> improves_nothing E st v" unfolding search_ok_def by blast
  with assms(2) show "improves_nothing E st v" by simp
qed

text \<open>The amount at a vertex, when the search is over.\<close>

definition amount_at :: "vertex \<Rightarrow> search \<Rightarrow> u64 \<Rightarrow> nat" where
  "amount_at start st w = (if w = fst start then unat (snd start) else unat (label st w))"

definition reached :: "vertex \<Rightarrow> search \<Rightarrow> u64 \<Rightarrow> bool" where
  "reached start st w \<longleftrightarrow> w = fst start \<or> (unat w < 32 \<and> 0 < label st w)"

text \<open>No chain that starts with the amount brings more to a reserve than it holds.\<close>

definition unblocked :: "edge list \<Rightarrow> vertex \<Rightarrow> bool" where
  "unblocked E start \<longleftrightarrow> (\<forall>es. \<forall>e \<in> set E. chain E (fst start) es (coin_a e) \<longrightarrow>
     carry (unat (snd start)) es \<le> unat (coin_a_value e))"

lemma reached_present: "reached start st w \<Longrightarrow> present start st (w, of_nat (amount_at start st w))"
  by (cases start) (auto simp: reached_def present_def amount_at_def)

text \<open>The edge over which a vertex was reached leads back to one that was reached, with an amount that it had.\<close>

lemma reached_over:
  assumes "edges_ok rank E" and "labels_made rank E start st" and "reached start st w" and "w \<noteq> fst start"
  obtains e y where "e \<in> set E" and "coin_b e = w" and "coin_a e = fst (dist_to st ! unat w)"
    and "rank (coin_a e) < rank w" and "reached start st (coin_a e)" and "unat y \<le> amount_at start st (coin_a e)"
    and "y \<le> coin_a_value e" and "amount_at start st w = converted e (unat y)" and "rank (fst start) \<le> rank (coin_a e)"
proof -
  have w: "unat w < 32" "0 < label st w" using assms(3,4) by (auto simp: reached_def)
  with assms(2) obtain e y where e: "e \<in> set E" "unat (coin_b e) = unat w" "coin_a e = fst (dist_to st ! unat w)"
    "entry rank start st (coin_a e, y)" "y \<le> coin_a_value e" "unat (label st w) = converted e (unat y)"
    unfolding labels_made_def by blast
  have b: "coin_b e = w" using e(2) by (simp add: word_unat_eq_iff)
  have lower: "rank (coin_a e) < rank w" using edges_okD(3) [OF assms(1) e(1)] b by simp
  have "coin_a e = fst start \<Longrightarrow> (coin_a e, y) = start" using e(4) by (auto simp: entry_def)
  with e(4) have "reached start st (coin_a e)" "unat y \<le> amount_at start st (coin_a e)"
    by (auto simp: entry_def reached_def amount_at_def word_le_nat_alt word_less_nat_alt)
  with that e b lower assms(4) entry_rank [OF e(4)] show ?thesis by (simp add: amount_at_def)
qed

lemma path_from_chain:
  assumes "edges_ok rank E" and st: "length (dist_to st) = 32" "labels_made rank E start st" and "reached start st w"
  shows "\<exists>es. chain E (fst start) es w \<and>
    (\<forall>path. path_from (dist_to st) (fst start) w path = Some (Inr (map ucast (fst start # map coin_b es) @ path))) \<and>
    (unblocked E start \<and> (\<forall>v. present start st v \<longrightarrow> improves_nothing E st v) \<longrightarrow>
      carry (unat (snd start)) es = amount_at start st w)"
  using assms(4)
proof (induction "rank w" arbitrary: w rule: less_induct)
  case less
  show ?case
  proof (cases "w = fst start")
    case True
    then show ?thesis by (intro exI [of _ "[]"]) (simp add: path_from.simps amount_at_def)
  next
    case False
    then have w: "unat w < 32" using less.prems by (simp add: reached_def)
    obtain e y where e: "e \<in> set E" "coin_b e = w" "coin_a e = fst (dist_to st ! unat w)" "rank (coin_a e) < rank w"
      "reached start st (coin_a e)" "unat y \<le> amount_at start st (coin_a e)" "y \<le> coin_a_value e"
      "amount_at start st w = converted e (unat y)"
      using reached_over [OF assms(1) st(2) less.prems False] .
    from less.hyps [OF e(4,5)] obtain es where es: "chain E (fst start) es (coin_a e)"
      "\<And>path. path_from (dist_to st) (fst start) (coin_a e) path = Some (Inr (map ucast (fst start # map coin_b es) @ path))"
      "unblocked E start \<Longrightarrow> \<forall>v. present start st v \<longrightarrow> improves_nothing E st v \<Longrightarrow>
        carry (unat (snd start)) es = amount_at start st (coin_a e)" by blast
    have "chain E (fst start) (es @ [e]) w" using es(1) e(1,2) by (simp add: chain_snoc)
    moreover have "path_from (dist_to st) (fst start) w path = Some (Inr (map ucast (fst start # map coin_b (es @ [e])) @ path))" for path
      using False w st(1) es(2) e(2,3) by (subst path_from.simps) simp
    moreover have "carry (unat (snd start)) (es @ [e]) = amount_at start st w"
      if un: "unblocked E start" "\<forall>v. present start st v \<longrightarrow> improves_nothing E st v"
    proof -
      have all: "carry (unat (snd start)) es = amount_at start st (coin_a e)" by (rule es(3) [OF un])
      with un(1) es(1) e(1) have "amount_at start st (coin_a e) \<le> unat (coin_a_value e)" unfolding unblocked_def by metis
      moreover have small: "amount_at start st (coin_a e) < 2 ^ 64" using unat_u64_less by (simp add: amount_at_def)
      moreover have "improves_nothing E st (coin_a e, of_nat (amount_at start st (coin_a e)))"
        using un(2) reached_present [OF e(5)] by blast
      ultimately have "converted e (amount_at start st (coin_a e)) \<le> unat (label st w)"
        using e(1,2) by (auto simp: improves_nothing_def word_le_nat_alt unat_of_nat)
      then have "converted e (amount_at start st (coin_a e)) \<le> converted e (unat y)"
        using False e(8) by (simp add: amount_at_def)
      with converted_mono [OF e(6), of e] all e(8) show ?thesis by (simp add: carry_snoc)
    qed
    ultimately show ?thesis by blast
  qed
qed

text \<open>No chain gives more than the label of its last vertex.\<close>

lemma chain_ends:
  assumes "edges_ok rank E" and "chain E a es w"
  shows "es = [] \<or> (rank a < rank w \<and> unat w < 32)"
  using assms(2)
proof (induction es arbitrary: w rule: rev_induct)
  case (snoc e es)
  then have e: "chain E a es (coin_a e)" "e \<in> set E" "coin_b e = w" by (simp_all add: chain_snoc)
  from snoc.IH [OF e(1)] e(1) edges_okD(2,3) [OF assms(1) e(2)] e(3) show ?case by auto
qed simp

lemma amount_le_reserve:
  assumes "edges_ok rank E" and "search_ok rank E start {} st" "minpq st = []" and "unblocked E start"
    and "e \<in> set E" and "reached start st (coin_a e)"
  shows "amount_at start st (coin_a e) \<le> unat (coin_a_value e)"
proof -
  note fin = search_done [OF assms(2,3)]
  from path_from_chain [OF assms(1) fin(1,2) assms(6)] assms(4) fin(3) obtain es where
    "chain E (fst start) es (coin_a e)" "carry (unat (snd start)) es = amount_at start st (coin_a e)" by blast
  with assms(4,5) show ?thesis unfolding unblocked_def by metis
qed

lemma carry_le_amount:
  assumes ok: "edges_ok rank E" "search_ok rank E start {} st" "minpq st = []" "unblocked E start"
    and "chain E (fst start) es w"
  shows "carry (unat (snd start)) es \<le> amount_at start st w"
  using assms(5)
proof (induction es arbitrary: w rule: rev_induct)
  case Nil
  then show ?case by (simp add: amount_at_def)
next
  case (snoc e es)
  then have e: "chain E (fst start) es (coin_a e)" "e \<in> set E" "coin_b e = w" by (simp_all add: chain_snoc)
  note fin = search_done [OF ok(2,3)]
  have w: "w \<noteq> fst start" using chain_ends [OF ok(1) snoc.prems] by auto
  let ?A = "amount_at start st (coin_a e)"
  have IH: "converted e (carry (unat (snd start)) es) \<le> converted e ?A"
    by (rule converted_mono [OF snoc.IH [OF e(1)]])
  show ?case
  proof (cases "reached start st (coin_a e)")
    case True
    have "?A < 2 ^ 64" using unat_u64_less by (simp add: amount_at_def)
    with amount_le_reserve [OF ok e(2) True] fin(3) [OF reached_present [OF True]] e(2,3)
    have "converted e ?A \<le> unat (label st w)" by (auto simp: improves_nothing_def word_le_nat_alt unat_of_nat)
    with IH w show ?thesis by (simp add: carry_snoc amount_at_def)
  next
    case False
    then have "es \<noteq> []" using e(1) by (auto simp: reached_def)
    with chain_ends [OF ok(1) e(1)] False have "?A = 0" by (auto simp: reached_def amount_at_def word_gt_0)
    with IH show ?thesis by (simp add: carry_snoc converted_def)
  qed
qed

text \<open>A chain that gives something reaches its end.\<close>

lemma chain_reached:
  assumes "edges_ok rank E" "search_ok rank E start {} st" "minpq st = []" "unblocked E start"
    and "chain E (fst start) es w" and "0 < carry (unat (snd start)) es"
  shows "reached start st w"
proof (cases "w = fst start")
  case False
  then have "es \<noteq> []" using assms(5) by auto
  with chain_ends [OF assms(1,5)] carry_le_amount [OF assms(1-5)] assms(6) False show ?thesis
    by (auto simp: reached_def amount_at_def word_less_nat_alt)
qed (simp add: reached_def)

section \<open>Swaps\<close>

text \<open>Reserves as the exchange keeps them: of two currencies, the one with the lower index comes first.\<close>

definition reserves_ok :: "Reserve list \<Rightarrow> bool" where
  "reserves_ok reserves \<longleftrightarrow> (\<forall>r \<in> set reserves. 0 \<le> coina_index r \<and> coina_index r < coinb_index r \<and> coinb_index r < 32 \<and>
     coina_value r \<noteq> 0 \<and> coinb_value r \<noteq> 0 \<and> unat (coinb_value r) < 2 ^ 53 \<and> unat (coina_value r) * unat (coinb_value r) < 2 ^ 64)"

definition swap_rank :: "bool \<Rightarrow> u64 \<Rightarrow> nat" where
  "swap_rank forward i = (if forward then unat i else 32 - unat i)"

lemma unat_index: "0 \<le> i \<Longrightarrow> i < 32 \<Longrightarrow> unat (word_of_int i :: u64) = nat i"
  by (simp add: unsigned_of_int take_bit_int_eq_self nat_take_bit_eq)

lemma reserve_edge_ok:
  assumes "reserves_ok [r]"
  shows "\<exists>e. reserve_edge forward r = Inr e \<and> edges_ok (swap_rank forward) [e]"
  using assms get_double_exact [of "coinb_value r"] unat_index [of "coina_index r"] unat_index [of "coinb_index r"]
  by (auto simp: reserves_ok_def reserve_edge_def sum_bind_def edges_ok_def swap_rank_def nat_less_iff mult.commute)

lemma reserve_edges_ok:
  "reserves_ok reserves \<Longrightarrow> \<exists>E. reserve_edges forward reserves = Inr E \<and> edges_ok (swap_rank forward) E"
proof (induction reserves)
  case Nil
  then show ?case by (simp add: edges_ok_def)
next
  case (Cons r rs)
  then obtain E where "reserve_edges forward rs = Inr E" "edges_ok (swap_rank forward) E" by (auto simp: reserves_ok_def)
  moreover obtain e where "reserve_edge forward r = Inr e" "edges_ok (swap_rank forward) [e]"
    using reserve_edge_ok [of r forward] Cons.prems by (auto simp: reserves_ok_def)
  ultimately show ?case by (auto simp: sum_bind_def edges_ok_def)
qed

text \<open>What the whole search comes to.\<close>

lemma swap_path_search:
  assumes "reserves_ok reserves"
  obtains E st where "reserve_edges (a < b) reserves = Inr E" and "edges_ok (swap_rank (a < b)) E"
    and "search_ok (swap_rank (a < b)) E (a, x) {} st" and "minpq st = []"
    and "swap_path tie reserves a x b = path_from (dist_to st) a b []"
proof -
  from reserve_edges_ok [OF assms] obtain E where E: "reserve_edges (a < b) reserves = Inr E" "edges_ok (swap_rank (a < b)) E" by blast
  from search_loop_ok [OF E(2) search_ok_start] obtain st where
    "search_loop tie 0 (edge_map E) (search_start a x) = Inr st" "search_ok (swap_rank (a < b)) E (a, x) {} st" "minpq st = []" by blast
  with that E show ?thesis by (simp add: swap_path_def sum_bind_def)
qed

lemma swap_path_most_value:
  assumes "reserves_ok reserves" and "reserve_edges (a < b) reserves = Inr E" and "unblocked E (a, x)"
    and "chain E a es b" and "0 < carry (unat x) es"
  shows "\<exists>best. swap_path tie reserves a x b = Some (Inr (map ucast (a # map coin_b best))) \<and> chain E a best b \<and>
    (\<forall>es. chain E a es b \<longrightarrow> carry (unat x) es \<le> carry (unat x) best)"
proof -
  obtain st where st: "edges_ok (swap_rank (a < b)) E" "search_ok (swap_rank (a < b)) E (a, x) {} st" "minpq st = []"
    "swap_path tie reserves a x b = path_from (dist_to st) a b []"
    using swap_path_search [OF assms(1), where a = a and b = b and x = x and tie = tie] assms(2) by (metis sum.inject(2))
  note fin = search_done [OF st(2,3)]
  have "reached (a, x) st b" using chain_reached [OF st(1-3) assms(3), of es b] assms(4,5) by simp
  from path_from_chain [OF st(1) fin(1,2) this] assms(3) fin(3) obtain best where
    "chain E a best b" "path_from (dist_to st) a b [] = Some (Inr (map ucast (a # map coin_b best)))"
    "carry (unat x) best = amount_at (a, x) st b" by (metis append_Nil2 fst_conv snd_conv)
  moreover have "carry (unat x) es' \<le> amount_at (a, x) st b" if "chain E a es' b" for es'
    using carry_le_amount [OF st(1-3) assms(3), of es' b] that by simp
  ultimately show ?thesis using st(4) by auto
qed

text \<open>Entries without a value have the predecessor that they were initialised with.\<close>

definition blank_entries :: "search \<Rightarrow> bool" where
  "blank_entries st \<longleftrightarrow> (\<forall>i < length (dist_to st). snd (dist_to st ! i) = 0 \<longrightarrow> fst (dist_to st ! i) = 0)"

lemma relax_blank: "relax v e st = Inr st' \<Longrightarrow> blank_entries st \<Longrightarrow> blank_entries st'"
  by (auto simp: relax_def blank_entries_def Let_def nth_list_update split: if_splits)

lemma relax_all_blank: "relax_all v es st = Inr st' \<Longrightarrow> blank_entries st \<Longrightarrow> blank_entries st'"
  by (induction es arbitrary: st) (auto simp: sum_bind_iff dest: relax_blank)

lemma search_loop_blank: "search_loop tie k m st = Inr st' \<Longrightarrow> blank_entries st \<Longrightarrow> blank_entries st'"
proof (induction tie k m st rule: search_loop.induct)
  case (1 tie k m st)
  show ?case
  proof (cases "minpq st = []")
    case True
    with "1.prems" show ?thesis by (simp add: search_loop.simps [of tie k m st])
  next
    case False
    let ?i = "top_place tie k (minpq st)"
    obtain st1 where st1: "relax_all (minpq st ! ?i) (m (fst (minpq st ! ?i))) (st\<lparr>minpq := remove_place ?i (minpq st)\<rparr>) = Inr st1"
      "search_loop tie (Suc k) m st1 = Inr st'"
      using "1.prems"(1) False by (subst (asm) search_loop.simps) (auto simp: Let_def split: sum.splits)
    have "blank_entries (st\<lparr>minpq := remove_place ?i (minpq st)\<rparr>)" using "1.prems"(2) by (simp add: blank_entries_def)
    with "1.IH" [OF False refl refl st1] relax_all_blank [OF st1(1)] show ?thesis by blast
  qed
qed

text \<open>From an entry that is its own predecessor the walk does not come back.\<close>

lemma path_from_loop:
  "path_from dist a i path = Some r \<Longrightarrow> \<not> (i = 0 \<and> dist ! 0 = (0, 0) \<and> 0 < length dist \<and> a \<noteq> 0)"
proof (erule path_from.raw_induct [rotated])
  fix rec dist a i path r
  assume IH: "\<And>dist a i path r. rec dist a i path = Some r \<Longrightarrow> \<not> (i = 0 \<and> dist ! 0 = (0, 0) \<and> 0 < length dist \<and> a \<noteq> 0)"
    and run: "(if i = a then Some (Inr (ucast a # path))
      else if length dist \<le> unat i then Some (Inl (Undefined_behaviour ''dist_to[i]''))
      else rec dist a (fst (dist ! unat i)) (ucast i # path)) = Some r"
  show "\<not> (i = 0 \<and> dist ! 0 = (0, 0) \<and> 0 < length dist \<and> a \<noteq> 0)"
  proof
    assume *: "i = 0 \<and> dist ! 0 = (0, 0) \<and> 0 < length dist \<and> a \<noteq> 0"
    with run have "rec dist a 0 (0 # path) = Some r" by auto
    from IH [OF this] * show False by simp
  qed
qed

lemma path_from_endless: "dist ! 0 = (0, 0) \<Longrightarrow> 0 < length dist \<Longrightarrow> a \<noteq> 0 \<Longrightarrow> path_from dist a 0 path = None"
  using path_from_loop [of dist a 0 path] by (cases "path_from dist a 0 path") auto

lemma swap_path_unreached:
  assumes "reserves_ok reserves" and "reserve_edges True reserves = Inr E" and "a < b" and "unat b < 32"
    and "\<And>es. \<not> chain E a es b"
  shows "swap_path tie reserves a x b = (if a = 0 then Some (Inr [0, ucast b]) else None)"
proof -
  obtain E' where "reserve_edges (a < b) reserves = Inr E'" "edges_ok (swap_rank (a < b)) E'"
    using reserve_edges_ok [OF assms(1)] by blast
  with assms(2,3) have ok: "edges_ok (swap_rank True) E" by simp
  from search_loop_ok [OF ok search_ok_start] obtain st where
    st: "search_loop tie 0 (edge_map E) (search_start a x) = Inr st" "search_ok (swap_rank True) E (a, x) {} st" "minpq st = []" by blast
  note fin = search_done [OF st(2,3)]
  have blank: "blank_entries st"
    by (rule search_loop_blank [OF st(1)]) (simp add: blank_entries_def search_start_def)
  have "\<not> reached (a, x) st w" if "w = b \<or> (w = 0 \<and> a \<noteq> 0)" for w
  proof
    assume "reached (a, x) st w"
    from path_from_chain [OF ok fin(1,2) this] obtain es where es: "chain E a es w" by auto
    with assms(5) that have w: "w = 0" "a \<noteq> 0" by auto
    then have "es \<noteq> []" using es by auto
    with chain_ends [OF ok es] w show False by (simp add: swap_rank_def)
  qed
  then have "dist_to st ! unat w = (0, 0)" if "w = b \<or> (w = 0 \<and> a \<noteq> 0)" "unat w < 32" for w
    using that blank fin(1) by (auto simp: reached_def blank_entries_def prod_eq_iff word_gt_0)
  from this [of b] this [of 0] assms(4) have entries: "dist_to st ! unat b = (0, 0)" "a \<noteq> 0 \<Longrightarrow> dist_to st ! 0 = (0, 0)"
    by simp_all
  have "swap_path tie reserves a x b = path_from (dist_to st) a b []"
    using assms(2,3) st(1) by (simp add: swap_path_def sum_bind_def)
  also have "\<dots> = path_from (dist_to st) a 0 [ucast b]"
    using assms(3,4) fin(1) entries(1) by (subst path_from.simps) auto
  also have "\<dots> = (if a = 0 then Some (Inr [0, ucast b]) else None)"
    using path_from_endless [of "dist_to st" a "[ucast b]"] entries(2) fin(1) by (auto simp: path_from.simps [of _ 0])
  finally show ?thesis .
qed

end
