(* ===== verification/Exchange.thy ===== *)
theory Exchange
  imports Swap_Path Sdk_Resource
begin

text \<open>
  The exchange and the bank of the SDK (\<open>ExchangeImp\<close> and \<open>BankImp\<close> in \<open>src/cpp/sdk/src/violas_sdk2.cpp\<close>): clients of
  Move applications over the first-generation client.

  That client is an abstract class, implemented over a Rust library: the record \<open>rust_client\<close> holds the operations
  that are called, and the record \<open>exchange_json\<close> what the JSON parser makes of the answers. An operation is an effect
  on the outside world and on the object.
\<close>

section \<open>The client below\<close>

record RustTypeTag =
  tag_address :: Address
  tag_module_name :: cstring
  tag_resource_name :: cstring

datatype TransactionAugment =
    Augment_U8 u8
  | Augment_U64 u64
  | Augment_U128 "128 word"
  | Augment_Address Address
  | Augment_Bytes "u8 list"
  | Augment_Bool bool

record 'w rust_client =
  rust_publish_module :: "u64 \<Rightarrow> cstring \<Rightarrow> ('w, unit) eff"
  rust_execute_script_file :: "u64 \<Rightarrow> cstring \<Rightarrow> RustTypeTag list \<Rightarrow> TransactionAugment list \<Rightarrow> ('w, unit) eff"
  rust_get_exchange_currencies :: "Address \<Rightarrow> ('w, cstring) eff"
  rust_get_exchange_reserves :: "Address \<Rightarrow> ('w, cstring) eff"
  rust_get_liquidity_balance :: "Address \<Rightarrow> ('w, cstring) eff"

text \<open>The codes of the currencies as arrays of numbers (nothing for an empty document), and the reserves.\<close>

record exchange_json =
  json_currency_codes :: "cstring \<Rightarrow> int list list option result"
  json_reserves :: "cstring \<Rightarrow> Reserve list result"

record AddressAndIndex =
  admin_address :: Address
  admin_index :: u64

definition CORE_CODE_ADDRESS :: Address where
  "CORE_CODE_ADDRESS = replicate 15 0 @ [1]"

definition ASSOCIATION_ID :: u64 where
  "ASSOCIATION_ID = - 1"

definition make_currency_tag :: "cstring \<Rightarrow> RustTypeTag" where
  "make_currency_tag currency_code =
     \<lparr>tag_address = CORE_CODE_ADDRESS, tag_module_name = currency_code, tag_resource_name = currency_code\<rparr>"

section \<open>The exchange\<close>

record Exchange =
  exchange_admin :: AddressAndIndex
  exchange_path :: cstring

definition Exchange_create :: "cstring \<Rightarrow> AddressAndIndex \<Rightarrow> Exchange" where
  "Exchange_create exchange_contracts_path admin' = \<lparr>exchange_admin = admin', exchange_path = exchange_contracts_path\<rparr>"

text \<open>A script of the exchange, by the account of an index or of the administrator.\<close>

definition exchange_script ::
    "'w rust_client \<Rightarrow> u64 \<Rightarrow> string \<Rightarrow> RustTypeTag list \<Rightarrow> TransactionAugment list \<Rightarrow> (Exchange \<times> 'w, unit) eff" where
  "exchange_script rc account_index script tags args =
     eff_bind (eff_fst (eff_get exchange_path)) (\<lambda>path.
     eff_snd (rust_execute_script_file rc account_index (path @ str script) tags args))"

definition exchange_deploy_with_root_account :: "'w rust_client \<Rightarrow> (Exchange \<times> 'w, unit) eff" where
  "exchange_deploy_with_root_account rc =
     eff_bind (eff_fst (eff_get exchange_path)) (\<lambda>path.
     eff_snd (rust_publish_module rc ASSOCIATION_ID (path @ str ''exchange.mv'')))"

definition exchange_initialize :: "'w rust_client \<Rightarrow> AddressAndIndex \<Rightarrow> Address \<Rightarrow> (Exchange \<times> 'w, unit) eff" where
  "exchange_initialize rc admin' distributor_address =
     eff_bind (eff_fst (eff_modify (\<lambda>ex. ex\<lparr>exchange_admin := admin'\<rparr>))) (\<lambda>_.
     exchange_script rc (admin_index admin') ''initialize.mv'' [] [Augment_Address distributor_address])"

definition exchange_add_currency :: "'w rust_client \<Rightarrow> cstring \<Rightarrow> (Exchange \<times> 'w, unit) eff" where
  "exchange_add_currency rc currency_code =
     eff_bind (eff_fst (eff_get exchange_admin)) (\<lambda>admin'.
     exchange_script rc (admin_index admin') ''add_currency.mv'' [make_currency_tag currency_code] [])"

definition exchange_get_currencies :: "'w rust_client \<Rightarrow> exchange_json \<Rightarrow> (Exchange \<times> 'w, cstring list) eff" where
  "exchange_get_currencies rc js =
     eff_bind (eff_fst (eff_get exchange_admin)) (\<lambda>admin'.
     eff_bind (eff_snd (rust_get_exchange_currencies rc (admin_address admin'))) (\<lambda>currencies.
     eff_bind (eff_lift (json_currency_codes js currencies)) (\<lambda>currency_codes.
     case currency_codes of
       None \<Rightarrow> eff_throw (Runtime_error ''The Exchange currency codes are empty'')
     | Some codes \<Rightarrow> eff_return (map (map word_of_int) codes))))"

definition exchange_get_reserves :: "'w rust_client \<Rightarrow> (Exchange \<times> 'w, cstring) eff" where
  "exchange_get_reserves rc =
     eff_bind (eff_fst (eff_get exchange_admin)) (\<lambda>admin'.
     eff_snd (rust_get_exchange_reserves rc (admin_address admin')))"

definition exchange_get_liquidity_balance :: "'w rust_client \<Rightarrow> (Exchange \<times> 'w, cstring) eff" where
  "exchange_get_liquidity_balance rc =
     eff_bind (eff_fst (eff_get exchange_admin)) (\<lambda>admin'.
     eff_snd (rust_get_liquidity_balance rc (admin_address admin')))"

record LiquidityInfo =
  liquidity_currency_code :: cstring
  desired_amount :: u64
  min_amount :: u64

definition add_liquidity ::
    "'w rust_client \<Rightarrow> u64 \<Rightarrow> LiquidityInfo \<Rightarrow> LiquidityInfo \<Rightarrow> (Exchange \<times> 'w, unit) eff" where
  "add_liquidity rc account_index first second =
     exchange_script rc account_index ''add_liquidity.mv''
       [make_currency_tag (liquidity_currency_code first), make_currency_tag (liquidity_currency_code second)]
       [Augment_U64 (desired_amount first), Augment_U64 (desired_amount second),
        Augment_U64 (min_amount first), Augment_U64 (min_amount second)]"

definition remove_liquidity ::
    "'w rust_client \<Rightarrow> u64 \<Rightarrow> u64 \<Rightarrow> cstring \<Rightarrow> u64 \<Rightarrow> cstring \<Rightarrow> u64 \<Rightarrow> (Exchange \<times> 'w, unit) eff" where
  "remove_liquidity rc account_index liquidity_amount currency_code_a a_acceptable_min_amount currency_code_b b_acceptable_min_amount =
     exchange_script rc account_index ''remove_liquidity.mv''
       [make_currency_tag currency_code_a, make_currency_tag currency_code_b]
       [Augment_U64 liquidity_amount, Augment_U64 a_acceptable_min_amount, Augment_U64 b_acceptable_min_amount]"

text \<open>\<open>distance(begin, find(begin, end, code))\<close>: the number of codes, when the code is not among them.\<close>

definition currency_index :: "cstring list \<Rightarrow> cstring \<Rightarrow> u64" where
  "currency_index codes code = of_nat (length (takeWhile (\<lambda>c. c \<noteq> code) codes))"

text \<open>A walk that does not end keeps the caller for ever, like a coroutine that is not resumed.\<close>

definition find_swap_path ::
    "'w rust_client \<Rightarrow> exchange_json \<Rightarrow> (nat \<Rightarrow> vertex list \<Rightarrow> nat) \<Rightarrow> cstring \<Rightarrow> u64 \<Rightarrow> cstring \<Rightarrow>
     (Exchange \<times> 'w, u8 list) eff" where
  "find_swap_path rc js tie currency_code_a currency_a_amount currency_code_b =
     eff_bind (exchange_get_currencies rc js) (\<lambda>currency_codes.
     eff_bind (exchange_get_reserves rc) (\<lambda>text'.
     eff_bind (eff_lift (json_reserves js text')) (\<lambda>reserves.
     case swap_path tie reserves (currency_index currency_codes currency_code_a) currency_a_amount
            (currency_index currency_codes currency_code_b) of
       None \<Rightarrow> eff_throw Never_resumed
     | Some r \<Rightarrow> eff_lift r)))"

definition exchange_swap ::
    "'w rust_client \<Rightarrow> exchange_json \<Rightarrow> (nat \<Rightarrow> vertex list \<Rightarrow> nat) \<Rightarrow> u64 \<Rightarrow> Address \<Rightarrow> cstring \<Rightarrow> u64 \<Rightarrow> cstring \<Rightarrow> u64 \<Rightarrow>
     (Exchange \<times> 'w, unit) eff" where
  "exchange_swap rc js tie account_index receiver currency_code_a amount_a currency_code_b b_acceptable_min_amount =
     eff_bind (find_swap_path rc js tie currency_code_a amount_a currency_code_b) (\<lambda>path.
     exchange_script rc account_index ''swap.mv''
       [make_currency_tag currency_code_a, make_currency_tag currency_code_b]
       [Augment_Address receiver, Augment_U64 amount_a, Augment_U64 b_acceptable_min_amount, Augment_Bytes path, Augment_Bytes []])"

section \<open>The bank\<close>

record Bank =
  bank_admin :: "AddressAndIndex option"
  bank_path :: cstring

text \<open>The administrator has no value before \<open>initialize\<close>.\<close>

definition create_bank :: "cstring \<Rightarrow> Bank" where
  "create_bank bank_contracts_path = \<lparr>bank_admin = None, bank_path = bank_contracts_path\<rparr>"

definition bank_script ::
    "'w rust_client \<Rightarrow> u64 \<Rightarrow> string \<Rightarrow> RustTypeTag list \<Rightarrow> TransactionAugment list \<Rightarrow> (Bank \<times> 'w, unit) eff" where
  "bank_script rc account_index script tags args =
     eff_bind (eff_fst (eff_get bank_path)) (\<lambda>path.
     eff_snd (rust_execute_script_file rc account_index (path @ str script) tags args))"

definition bank_admin_script ::
    "'w rust_client \<Rightarrow> string \<Rightarrow> RustTypeTag list \<Rightarrow> TransactionAugment list \<Rightarrow> (Bank \<times> 'w, unit) eff" where
  "bank_admin_script rc script tags args =
     eff_bind (eff_fst (eff_get bank_admin)) (\<lambda>admin'.
     case admin' of
       None \<Rightarrow> eff_throw (Undefined_behaviour ''m_admin'')
     | Some ai \<Rightarrow> bank_script rc (admin_index ai) script tags args)"

definition bank_deploy_with_root_account :: "'w rust_client \<Rightarrow> (Bank \<times> 'w, unit) eff" where
  "bank_deploy_with_root_account rc =
     eff_bind (eff_fst (eff_get bank_path)) (\<lambda>path.
     eff_snd (rust_publish_module rc ASSOCIATION_ID (path @ str ''bank.mv'')))"

definition bank_publish :: "'w rust_client \<Rightarrow> u64 \<Rightarrow> (Bank \<times> 'w, unit) eff" where
  "bank_publish rc account_index = bank_script rc account_index ''publish.mv'' [] [Augment_Bytes []]"

definition bank_initialize :: "'w rust_client \<Rightarrow> AddressAndIndex \<Rightarrow> (Bank \<times> 'w, unit) eff" where
  "bank_initialize rc admin' =
     eff_bind (eff_fst (eff_modify (\<lambda>b. b\<lparr>bank_admin := Some admin'\<rparr>))) (\<lambda>_. bank_publish rc (admin_index admin'))"

definition bank_add_currency ::
    "'w rust_client \<Rightarrow> cstring \<Rightarrow> Address \<Rightarrow> u64 \<Rightarrow> u64 \<Rightarrow> u64 \<Rightarrow> u64 \<Rightarrow> u64 \<Rightarrow> (Bank \<times> 'w, unit) eff" where
  "bank_add_currency rc currency_code owner collateral_factor base_rate rate_multiplier rate_jump_multiplier rate_kink =
     bank_admin_script rc ''register_libra_token.mv'' [make_currency_tag currency_code]
       [Augment_Address owner, Augment_U64 collateral_factor, Augment_U64 base_rate, Augment_U64 rate_multiplier,
        Augment_U64 rate_jump_multiplier, Augment_U64 rate_kink, Augment_Bytes []]"

definition update_currency_price :: "'w rust_client \<Rightarrow> cstring \<Rightarrow> u64 \<Rightarrow> (Bank \<times> 'w, unit) eff" where
  "update_currency_price rc currency_code price =
     bank_admin_script rc ''update_price.mv'' [make_currency_tag currency_code] [Augment_U64 price]"

definition bank_enter :: "'w rust_client \<Rightarrow> u64 \<Rightarrow> cstring \<Rightarrow> u64 \<Rightarrow> (Bank \<times> 'w, unit) eff" where
  "bank_enter rc account_index currency_code amount' =
     bank_script rc account_index ''enter_bank.mv'' [make_currency_tag currency_code] [Augment_U64 amount']"

definition bank_exit :: "'w rust_client \<Rightarrow> u64 \<Rightarrow> cstring \<Rightarrow> u64 \<Rightarrow> (Bank \<times> 'w, unit) eff" where
  "bank_exit rc account_index currency_code amount' =
     bank_script rc account_index ''exit_bank.mv'' [make_currency_tag currency_code] [Augment_U64 amount']"

definition bank_lock :: "'w rust_client \<Rightarrow> u64 \<Rightarrow> cstring \<Rightarrow> u64 \<Rightarrow> (Bank \<times> 'w, unit) eff" where
  "bank_lock rc account_index currency_code amount' =
     bank_script rc account_index ''lock.mv'' [make_currency_tag currency_code] [Augment_U64 amount', Augment_Bytes []]"

definition bank_redeem :: "'w rust_client \<Rightarrow> u64 \<Rightarrow> cstring \<Rightarrow> u64 \<Rightarrow> (Bank \<times> 'w, unit) eff" where
  "bank_redeem rc account_index currency_code amount' =
     bank_script rc account_index ''redeem.mv'' [make_currency_tag currency_code] [Augment_U64 amount', Augment_Bytes []]"

definition bank_borrow :: "'w rust_client \<Rightarrow> u64 \<Rightarrow> cstring \<Rightarrow> u64 \<Rightarrow> (Bank \<times> 'w, unit) eff" where
  "bank_borrow rc account_index currency_code amount' =
     bank_script rc account_index ''borrow.mv'' [make_currency_tag currency_code] [Augment_U64 amount', Augment_Bytes []]"

definition bank_repay_borrow :: "'w rust_client \<Rightarrow> u64 \<Rightarrow> cstring \<Rightarrow> u64 \<Rightarrow> (Bank \<times> 'w, unit) eff" where
  "bank_repay_borrow rc account_index currency_code amount' =
     bank_script rc account_index ''repay_borrow.mv'' [make_currency_tag currency_code] [Augment_U64 amount', Augment_Bytes []]"

definition bank_liquidate_borrow ::
    "'w rust_client \<Rightarrow> u64 \<Rightarrow> cstring \<Rightarrow> Address \<Rightarrow> u64 \<Rightarrow> cstring \<Rightarrow> (Bank \<times> 'w, unit) eff" where
  "bank_liquidate_borrow rc account_index borrowed_currency_code liquidated_user_addr amount' liquidated_currency_code =
     bank_script rc account_index ''liquidate_borrow.mv''
       [make_currency_tag borrowed_currency_code, make_currency_tag liquidated_currency_code]
       [Augment_Address liquidated_user_addr, Augment_U64 amount', Augment_Bytes []]"

section \<open>A swap\<close>

text \<open>The service answers with these currencies and reserves, and is left as it was.\<close>

definition serves_exchange ::
    "'w rust_client \<Rightarrow> exchange_json \<Rightarrow> Address \<Rightarrow> int list list \<Rightarrow> Reserve list \<Rightarrow> 'w \<Rightarrow> bool" where
  "serves_exchange rc js address codes reserves w \<longleftrightarrow>
     (\<exists>text1 text2. rust_get_exchange_currencies rc address w = (Inr text1, w) \<and> json_currency_codes js text1 = Inr (Some codes) \<and>
        rust_get_exchange_reserves rc address w = (Inr text2, w) \<and> json_reserves js text2 = Inr reserves)"

lemma currency_index_nth:
  assumes "distinct codes" and "i < length codes"
  shows "currency_index codes (codes ! i) = of_nat i"
proof -
  have "takeWhile (\<lambda>c. c \<noteq> codes ! i) codes = take i codes"
    using assms by (intro takeWhile_eq_take_P_nth) (auto simp: nth_eq_iff_index_eq)
  with assms(2) show ?thesis by (simp add: currency_index_def)
qed

lemma find_swap_path_served:
  assumes "serves_exchange rc js (admin_address (exchange_admin ex)) codes reserves w"
  shows "find_swap_path rc js tie code_a x code_b (ex, w) =
    (case swap_path tie reserves (currency_index (map (map word_of_int) codes) code_a) x
            (currency_index (map (map word_of_int) codes) code_b) of
       None \<Rightarrow> (Inl Never_resumed, (ex, w))
     | Some r \<Rightarrow> (r, (ex, w)))"
  using assms
  by (auto simp: serves_exchange_def find_swap_path_def exchange_get_currencies_def exchange_get_reserves_def eff_bind_def
      eff_fst_def eff_snd_def eff_get_def eff_lift_def eff_return_def eff_throw_def split: option.split)

end
