(* ===== verification/Ssl_Aes.thy ===== *)
theory Ssl_Aes
  imports Effects
begin

text \<open>
  \<open>src/cpp/sdk/include/ssl_aes.hpp\<close>: encryption of a file with a password, and the commands
  \<open>encrypt\<close> and \<open>decrypt\<close> of \<open>src/cpp/command/src/command.cpp\<close> over it.

  Key derivation and the block cipher are OpenSSL's: the record \<open>aes\<close>, with \<open>'c\<close> for an expanded key.
  An encrypted file has two flag bytes, four bytes of salt, and the blocks of the content in CBC mode; the last
  block is filled with zeros, and nothing records its length.
\<close>

record 'c aes =
  pbkdf2_sha256 :: "cstring \<Rightarrow> u8 list \<Rightarrow> nat \<Rightarrow> nat \<Rightarrow> u8 list option"
  set_encrypt_key :: "u8 list \<Rightarrow> 'c option"
  set_decrypt_key :: "u8 list \<Rightarrow> 'c option"
  cbc_encrypt :: "'c \<Rightarrow> u8 list \<Rightarrow> u8 list \<Rightarrow> u8 list \<times> u8 list"
  cbc_decrypt :: "'c \<Rightarrow> u8 list \<Rightarrow> u8 list \<Rightarrow> u8 list \<times> u8 list"

definition AES_BLOCK_SIZE :: nat where
  "AES_BLOCK_SIZE = 16"

definition KEY_LEN :: nat where
  "KEY_LEN = AES_BLOCK_SIZE * 3"

definition ITERATE_COUNT :: nat where
  "ITERATE_COUNT = 1000000"

definition FLAG1 :: u8 where
  "FLAG1 = 0xFF"

definition FLAG2 :: u8 where
  "FLAG2 = 0xEE"

lemmas aes_constants = AES_BLOCK_SIZE_def KEY_LEN_def FLAG1_def FLAG2_def

text \<open>
  The loop over the blocks: \<open>crypt\<close> encrypts or decrypts one block and gives the next initialisation
  vector.
\<close>

definition input_block :: "u8 list \<Rightarrow> u8 list" where
  "input_block data = take AES_BLOCK_SIZE data @ replicate (AES_BLOCK_SIZE - length data) 0"

function aes_blocks :: "(u8 list \<Rightarrow> u8 list \<Rightarrow> u8 list \<times> u8 list) \<Rightarrow> u8 list \<Rightarrow> u8 list \<Rightarrow> u8 list" where
  "aes_blocks crypt iv data =
     (if data = [] then []
      else let (out, iv') = crypt (input_block data) iv in out @ aes_blocks crypt iv' (drop AES_BLOCK_SIZE data))"
  by auto
termination by (relation "measure (\<lambda>(crypt, iv, data). length data)") (auto simp: aes_constants)

declare aes_blocks.simps [simp del]

text \<open>What is written once the salt is there.\<close>

definition encrypt_with_salt :: "'c aes \<Rightarrow> cstring \<Rightarrow> u8 list \<Rightarrow> u8 list \<Rightarrow> u8 list result" where
  "encrypt_with_salt aes password salt data =
     (case pbkdf2_sha256 aes password salt ITERATE_COUNT KEY_LEN of
        None \<Rightarrow> Inl (Runtime_error ''aes_256_cbc_encrypt -> PKCS5_PBKDF2_HMAC error'')
      | Some key_out \<Rightarrow>
          (case set_encrypt_key aes (take 32 key_out) of
             None \<Rightarrow> Inl (Runtime_error ''aes_256_cbc_encrypt -> AES_set_encrypt_key error.'')
           | Some aes_key \<Rightarrow>
               Inr (FLAG1 # FLAG2 # salt @ aes_blocks (cbc_encrypt aes aes_key) (drop (AES_BLOCK_SIZE * 2) key_out) data)))"

text \<open>
  The salt is an array of four bytes, and the random number of 32 bits is stored in it as a \<open>size_t\<close>. The size
  of that type is a property of the platform: four bytes, or eight, which are more than the array has.
\<close>

definition store_size_t :: "nat \<Rightarrow> u32 \<Rightarrow> u8 list \<Rightarrow> u8 list result" where
  "store_size_t sizeof_size_t random salt =
     (if length salt < sizeof_size_t then Inl (Undefined_behaviour ''*(size_t *)salt'')
      else Inr (le_split sizeof_size_t random @ drop sizeof_size_t salt))"

definition aes_256_cbc_encrypt :: "nat \<Rightarrow> u32 \<Rightarrow> 'c aes \<Rightarrow> cstring \<Rightarrow> u8 list \<Rightarrow> u8 list result" where
  "aes_256_cbc_encrypt sizeof_size_t random aes password data =
     sum_bind (store_size_t sizeof_size_t random (str ''salt'')) (\<lambda>salt. encrypt_with_salt aes password salt data)"

definition aes_256_cbc_decrypt :: "'c aes \<Rightarrow> cstring \<Rightarrow> u8 list \<Rightarrow> u8 list result" where
  "aes_256_cbc_decrypt aes password content =
     (case content of
        flag_byte1 # flag_byte2 # first \<Rightarrow>
          if flag_byte1 \<noteq> FLAG1 \<and> flag_byte2 \<noteq> FLAG2
          then Inl (Runtime_error ''the input is not the encrypted content.'')
          else if length first < 4 then Inl (Undefined_behaviour ''*first++'')
          else (case pbkdf2_sha256 aes password (take 4 first) ITERATE_COUNT KEY_LEN of
                  None \<Rightarrow> Inl (Runtime_error ''PKCS5_PBKDF2_HMAC error.'')
                | Some key_out \<Rightarrow>
                    (case set_decrypt_key aes (take 32 key_out) of
                       None \<Rightarrow> Inl (Runtime_error ''AES_set_encrypt_key error.'')
                     | Some aes_key \<Rightarrow>
                         Inr (aes_blocks (cbc_decrypt aes aes_key) (drop (AES_BLOCK_SIZE * 2) key_out) (drop 4 first))))
      | _ \<Rightarrow> Inl (Undefined_behaviour ''*first++''))"

text \<open>
  \<open>encrypt password input-file encrypted-file\<close> and \<open>decrypt password encrypted-file decrypted-file\<close>, up to
  the content of the file they write; a file that cannot be opened is read as an empty one. A mint key file has 33
  bytes, which fill three blocks.
\<close>

definition command_encrypt ::
    "nat \<Rightarrow> u32 \<Rightarrow> 'c aes \<Rightarrow> (cstring \<Rightarrow> u8 list option) \<Rightarrow> cstring list \<Rightarrow> u8 list result" where
  "command_encrypt sizeof_size_t random aes file args =
     (if length args < 3 then Inl (Invalid_argument ''encrypt password input-file-name encrypted-file-name '')
      else aes_256_cbc_encrypt sizeof_size_t random aes (args ! 0) (case_option [] id (file (args ! 1))))"

definition command_decrypt :: "'c aes \<Rightarrow> (cstring \<Rightarrow> u8 list option) \<Rightarrow> cstring list \<Rightarrow> u8 list result" where
  "command_decrypt aes file args =
     (if length args < 3 then Inl (Invalid_argument ''decrypt encrypted-file decrypted-file password'')
      else sum_bind (aes_256_cbc_decrypt aes (args ! 0) (case_option [] id (file (args ! 1)))) (\<lambda>buffer.
        if length buffer \<noteq> 48 then Inl (Runtime_error ''the length of decrypted buffer is not 48.'')
        else Inr (take 33 buffer)))"

section \<open>Decryption inverts encryption\<close>

text \<open>Blocks and initialisation vectors have 16 bytes, and decryption follows encryption.\<close>

definition inverse_ciphers :: "(u8 list \<Rightarrow> u8 list \<Rightarrow> u8 list \<times> u8 list) \<Rightarrow> (u8 list \<Rightarrow> u8 list \<Rightarrow> u8 list \<times> u8 list) \<Rightarrow> bool" where
  "inverse_ciphers encrypt decrypt \<longleftrightarrow>
     (\<forall>block iv. length block = 16 \<and> length iv = 16 \<longrightarrow>
        (\<exists>out iv'. encrypt block iv = (out, iv') \<and> length out = 16 \<and> length iv' = 16 \<and> decrypt out iv = (block, iv')))"

definition aes_ok :: "'c aes \<Rightarrow> bool" where
  "aes_ok aes \<longleftrightarrow>
     (\<forall>password salt. \<exists>key. pbkdf2_sha256 aes password salt ITERATE_COUNT KEY_LEN = Some key \<and> length key = KEY_LEN) \<and>
     (\<forall>key. length key = 32 \<longrightarrow> (\<exists>e d. set_encrypt_key aes key = Some e \<and> set_decrypt_key aes key = Some d \<and>
        inverse_ciphers (cbc_encrypt aes e) (cbc_decrypt aes d)))"

definition padded :: "u8 list \<Rightarrow> u8 list" where
  "padded data = data @ replicate ((16 - length data mod 16) mod 16) 0"

lemma length_input_block [simp]: "length (input_block data) = 16"
  by (simp add: input_block_def aes_constants)

lemma input_block_full: "length data = 16 \<Longrightarrow> input_block (data @ rest) = data"
  by (simp add: input_block_def aes_constants)

lemma padded_step: "data \<noteq> [] \<Longrightarrow> padded data = input_block data @ padded (drop 16 data)"
proof (cases "16 \<le> length data")
  case True
  then have "(length data - 16) mod 16 = length data mod 16" by (simp add: le_mod_geq)
  with True show ?thesis by (simp add: padded_def input_block_def aes_constants)
next
  case False
  moreover assume "data \<noteq> []"
  ultimately show ?thesis by (simp add: padded_def input_block_def aes_constants)
qed

lemma blocks_roundtrip:
  assumes "inverse_ciphers encrypt decrypt" and "length iv = 16"
  shows "aes_blocks decrypt iv (aes_blocks encrypt iv data) = padded data"
  using assms(2)
proof (induction data arbitrary: iv rule: length_induct)
  case (1 data)
  show ?case
  proof (cases "data = []")
    case True
    then show ?thesis by (simp add: aes_blocks.simps [of encrypt] aes_blocks.simps [of decrypt] padded_def)
  next
    case False
    obtain out iv' where step: "encrypt (input_block data) iv = (out, iv')" "length out = 16" "length iv' = 16"
        "decrypt out iv = (input_block data, iv')"
      using assms(1) "1.prems" unfolding inverse_ciphers_def by (metis length_input_block)
    let ?rest = "aes_blocks encrypt iv' (drop 16 data)"
    have enc: "aes_blocks encrypt iv data = out @ ?rest"
      using False step(1) by (simp add: aes_blocks.simps [of encrypt iv data] AES_BLOCK_SIZE_def)
    have "aes_blocks decrypt iv (out @ ?rest) = input_block data @ aes_blocks decrypt iv' ?rest"
      using step(2,4) by (subst aes_blocks.simps) (auto simp: input_block_full AES_BLOCK_SIZE_def)
    also have "aes_blocks decrypt iv' ?rest = padded (drop 16 data)"
      using 1 False step(3) by simp
    finally show ?thesis using False by (simp add: enc padded_step)
  qed
qed

lemma decrypt_encrypted:
  assumes "aes_ok aes" and "length salt = 4" and "encrypt_with_salt aes password salt data = Inr content"
  shows "aes_256_cbc_decrypt aes password content = Inr (padded data)"
proof -
  obtain key where key: "pbkdf2_sha256 aes password salt ITERATE_COUNT KEY_LEN = Some key" "length key = KEY_LEN"
    using assms(1) unfolding aes_ok_def by blast
  then have "length (take 32 key) = 32" by (simp add: aes_constants)
  then obtain e d where ed: "set_encrypt_key aes (take 32 key) = Some e" "set_decrypt_key aes (take 32 key) = Some d"
    "inverse_ciphers (cbc_encrypt aes e) (cbc_decrypt aes d)"
    using assms(1) unfolding aes_ok_def by blast
  have "length (drop (AES_BLOCK_SIZE * 2) key) = 16" using key(2) by (simp add: aes_constants)
  from blocks_roundtrip [OF ed(3) this, of data] show ?thesis
    using assms(2,3) key(1) ed(1,2) by (auto simp: encrypt_with_salt_def aes_256_cbc_decrypt_def)
qed

lemma encrypt_with_salt_ok:
  assumes "aes_ok aes"
  shows "\<exists>content. encrypt_with_salt aes password salt data = Inr content"
proof -
  obtain key where key: "pbkdf2_sha256 aes password salt ITERATE_COUNT KEY_LEN = Some key" "length key = KEY_LEN"
    using assms unfolding aes_ok_def by blast
  then have "length (take 32 key) = 32" by (simp add: aes_constants)
  then obtain e where "set_encrypt_key aes (take 32 key) = Some e" using assms unfolding aes_ok_def by blast
  with key(1) show ?thesis by (simp add: encrypt_with_salt_def)
qed

text \<open>On a platform whose \<open>size_t\<close> has four bytes the salt is written in its place.\<close>

lemma store_size_t_32: "store_size_t 4 random (str ''salt'') = Inr (le_split 4 random)"
  by (simp add: store_size_t_def str_def)

lemma store_size_t_64: "store_size_t 8 random (str ''salt'') = Inl (Undefined_behaviour ''*(size_t *)salt'')"
  by (simp add: store_size_t_def str_def)

lemma padded_key_file: "length data = 33 \<Longrightarrow> length (padded data) = 48 \<and> take 33 (padded data) = data"
  by (simp add: padded_def)

lemma decrypt_flags:
  assumes "aes_ok aes"
  shows "aes_256_cbc_decrypt aes password (f1 # f2 # first) = Inl (Runtime_error ''the input is not the encrypted content.'') \<longleftrightarrow>
    f1 \<noteq> FLAG1 \<and> f2 \<noteq> FLAG2"
proof -
  obtain key where key: "pbkdf2_sha256 aes password (take 4 first) ITERATE_COUNT KEY_LEN = Some key" "length key = KEY_LEN"
    using assms unfolding aes_ok_def by blast
  then have "length (take 32 key) = 32" by (simp add: aes_constants)
  then obtain d where "set_decrypt_key aes (take 32 key) = Some d" using assms unfolding aes_ok_def by blast
  with key(1) show ?thesis by (simp add: aes_256_cbc_decrypt_def)
qed

end
