(* ===== verification/Command.thy ===== *)
theory Command
  imports Exchange Shell Ssl_Aes
begin

text \<open>
  The command program (\<open>src/cpp/command/src\<close>): a table of commands over the first-generation client, and the loop
  that reads them.

  The client is an abstract class over a Rust library. The calls that a command makes to it are the values of
  \<open>rust_call\<close> and \<open>rust_query\<close>, and the record \<open>command_env\<close> says what each of them does to the outside world; so do its
  other members for the shell, the terminal, the files and the JSON parser. \<open>micro_coins\<close> reads a floating-point word,
  multiplies it by a million and drops the fraction (\<open>None\<close> if the number is not finite); the conversion to \<open>uint64_t\<close>
  is \<open>double_to_u64\<close>, with its undefined behaviour. What a command prints is left out, but what it reads in order to
  print is not, since that may throw.
\<close>

section \<open>The client below\<close>

datatype payment_event_type = payment_sent | payment_received

datatype currency_event_type =
    currency_minted
  | currency_burned
  | currency_preburned
  | currency_cancelled_burn
  | currency_updated_exchange_rate

datatype rust_call =
    Call_add_currency u64 cstring
  | Call_allow_publishing_module bool
  | Call_allow_custom_script
  | Call_publish_curency cstring
  | Call_register_currency cstring u64 u64 bool u64 u64
  | Call_create_designated_dealer_ex cstring u64 Address "u8 list" cstring cstring "u8 list" bool
  | Call_create_parent_vasp_account cstring u64 Address "u8 list" cstring cstring "u8 list" bool
  | Call_create_child_vasp_account cstring u64 Address "u8 list" bool u64 bool
  | Call_add_currency_for_designated_dealer cstring Address
  | Call_mint_currency_for_designated_dealer cstring u64 Address u64 u64
  | Call_preburn cstring u64 u64 bool
  | Call_burn cstring u64 Address bool
  | Call_rotate_authentication_key_with_nonce u64 u64 "u8 list" bool
  | Call_save_private_key u64 cstring
  | Call_transfer u64 Address cstring u64 u64 u64 cstring
  | Call_recover_wallet_accounts cstring
  | Call_update_dual_attestation_limit u64 u64
  | Call_publish_module u64 cstring
  | Call_execute_script_file u64 cstring "RustTypeTag list" "TransactionAugment list"
  | Call_execute_script u64 "u8 list" "RustTypeTag list" "TransactionAugment list"
  | Call_mint_for_testnet cstring Address u64

datatype rust_query =
    Query_account_info Address
  | Query_transaction_info Address u64 bool
  | Query_transaction_range u64 u64 bool
  | Query_payment_events Address payment_event_type u64 u64
  | Query_currency_events cstring currency_event_type u64 u64
  | Query_account_creation_events u64 u64
  | Query_violas_status
  | Query_all_currency_info
  | Query_exchange_currencies Address
  | Query_exchange_reserves Address
  | Query_liquidity_balance Address

datatype AccountStatus = Local | Persisted | Unknow

record RustAccount =
  rust_index :: u64
  rust_address :: Address
  rust_auth_key :: "u8 list"
  rust_pub_key :: "u8 list"
  rust_sequence_number :: u64
  rust_status :: AccountStatus

record ('c, 'w) command_env =
  rust_create :: "Arguments \<Rightarrow> ('w, unit) eff"
  rust_test_connection :: "('w, unit) eff"
  rust_do :: "rust_call \<Rightarrow> ('w, unit) eff"
  rust_ask :: "rust_query \<Rightarrow> ('w, cstring) eff"
  rust_get_all_accounts :: "('w, RustAccount list) eff"
  rust_get_account :: "u64 \<Rightarrow> ('w, RustAccount) eff"
  rust_create_next_account :: "Address option \<Rightarrow> ('w, AddressAndIndex) eff"
  rust_get_currency_balance :: "Address \<Rightarrow> cstring \<Rightarrow> ('w, u64) eff"
  json_shown :: "rust_query \<Rightarrow> cstring \<Rightarrow> unit result"
  micro_coins :: "cstring \<Rightarrow> int option"
  term_system :: "cstring \<Rightarrow> ('w, unit) eff"
  term_word :: "('w, cstring) eff"
  file_content :: "'w \<Rightarrow> cstring \<Rightarrow> u8 list option"
  file_put :: "cstring \<Rightarrow> u8 list \<Rightarrow> 'w \<Rightarrow> 'w"
  env_aes :: "'c aes"
  env_random :: "'w \<Rightarrow> u32"
  env_size_t :: nat

definition VIOLAS_ROOT_ACCOUNT_ID :: u64 where
  "VIOLAS_ROOT_ACCOUNT_ID = - 1"

definition VIOLAS_TREASURY_COMPLIANCE_ACCOUNT_ID :: u64 where
  "VIOLAS_TREASURY_COMPLIANCE_ACCOUNT_ID = VIOLAS_ROOT_ACCOUNT_ID - 1"

definition VIOLAS_TESTNET_DD_ACCOUNT_ID :: u64 where
  "VIOLAS_TESTNET_DD_ACCOUNT_ID = VIOLAS_ROOT_ACCOUNT_ID - 2"

section \<open>Arguments\<close>

text \<open>
  An argument is read through a stream of its own. A word that is not a number gives 0, one that does not begin with
  \<open>true\<close> gives false; only an array can keep bytes that were there before (\<open>old\<close>).
\<close>

definition arg_u64 :: "cstring \<Rightarrow> u64" where
  "arg_u64 word = fst (get_u64 0 (istringstream word))"

definition arg_bool :: "cstring \<Rightarrow> bool" where
  "arg_bool word \<longleftrightarrow> take 4 word = str ''true''"

definition arg_array :: "u8 list \<Rightarrow> cstring \<Rightarrow> ('w, u8 list) eff" where
  "arg_array old word = eff_lift (sum_bind (get_array old (istringstream word)) (\<lambda>(arr, _). Inr arr))"

definition need_args :: "nat \<Rightarrow> string \<Rightarrow> cstring list \<Rightarrow> ('w, unit) eff \<Rightarrow> ('w, unit) eff" where
  "need_args n usage args m = (if length args < n then eff_throw (Invalid_argument usage) else m)"

text \<open>\<open>accounts[account_index]\<close>, without a check.\<close>

definition account_of_index :: "('c, 'w) command_env \<Rightarrow> u64 \<Rightarrow> ('w, RustAccount) eff" where
  "account_of_index env account_index =
     eff_bind (rust_get_all_accounts env) (\<lambda>accounts.
     if unat account_index < length accounts then eff_return (accounts ! unat account_index)
     else eff_throw (Undefined_behaviour ''accounts[account_index]''))"

definition address_of_arg :: "('c, 'w) command_env \<Rightarrow> u8 list \<Rightarrow> cstring \<Rightarrow> ('w, Address) eff" where
  "address_of_arg env old word =
     (if length word = 32 then arg_array old word
      else eff_bind (account_of_index env (arg_u64 word)) (\<lambda>account. eff_return (rust_address account)))"

text \<open>A query, and what printing its answer takes.\<close>

definition show_answer :: "('c, 'w) command_env \<Rightarrow> rust_query \<Rightarrow> ('w, unit) eff" where
  "show_answer env query =
     eff_bind (rust_ask env query) (\<lambda>answer'. eff_lift (json_shown env query answer'))"

section \<open>Accounts and currencies\<close>

type_synonym 'w handler = "cstring list \<Rightarrow> ('w, unit) eff"

definition command_add_account :: "('c, 'w) command_env \<Rightarrow> uninit \<Rightarrow> 'w handler" where
  "command_add_account env junk args =
     (if 1 \<le> length args
      then eff_bind (arg_array (uninit_address junk) (args ! 0)) (\<lambda>address.
           eff_bind (rust_create_next_account env (Some address)) (\<lambda>_. eff_return ()))
      else eff_bind (rust_create_next_account env None) (\<lambda>_. eff_return ()))"

definition command_list_accounts :: "('c, 'w) command_env \<Rightarrow> 'w handler" where
  "command_list_accounts env args =
     eff_bind (rust_get_all_accounts env) (\<lambda>accounts.
     eff_catch
       (eff_bind (rust_get_account env VIOLAS_ROOT_ACCOUNT_ID) (\<lambda>root.
        eff_bind (rust_get_account env VIOLAS_TREASURY_COMPLIANCE_ACCOUNT_ID) (\<lambda>tc.
        eff_bind (rust_get_account env VIOLAS_TESTNET_DD_ACCOUNT_ID) (\<lambda>dd. eff_return ()))))
       (eff_return ()))"

definition command_add_currency :: "('c, 'w) command_env \<Rightarrow> 'w handler" where
  "command_add_currency env args =
     need_args 2 ''add-currency index currency'' args
       (rust_do env (Call_add_currency (arg_u64 (args ! 0)) (args ! 1)))"

definition command_allow_publish :: "('c, 'w) command_env \<Rightarrow> 'w handler" where
  "command_allow_publish env args =
     need_args 1 (''commnd '' @ [CHR 0x27] @ ''allow publish'' @ [CHR 0x27] @ '' missed parameter '' @ [CHR 0x27] @ ''enabled'' @ [CHR 0x27] @
       '' : true or false'') args
       (rust_do env (Call_allow_publishing_module (arg_bool (args ! 0))))"

text \<open>The argument is read, and not used.\<close>

definition command_allow_custom_script :: "('c, 'w) command_env \<Rightarrow> 'w handler" where
  "command_allow_custom_script env args =
     need_args 1 (''commnd '' @ [CHR 0x27] @ ''allow publish'' @ [CHR 0x27] @ '' missed parameter '' @ [CHR 0x27] @ ''enabled'' @ [CHR 0x27] @
       '' : true or false'') args
       (rust_do env Call_allow_custom_script)"

definition command_register_currency :: "('c, 'w) command_env \<Rightarrow> 'w handler" where
  "command_register_currency env args =
     need_args 1 ''currency code is missing. '' args
       (eff_bind (term_word env) (\<lambda>confirmation.
        if confirmation \<noteq> str ''yes'' then eff_return ()
        else eff_bind (rust_do env (Call_publish_curency (args ! 0))) (\<lambda>_.
             rust_do env (Call_register_currency (args ! 0) 1 2 False 1000000 100))))"

definition command_create_dd_account :: "('c, 'w) command_env \<Rightarrow> uninit \<Rightarrow> 'w handler" where
  "command_create_dd_account env junk args =
     need_args 5 ''usage : create-dd-ex currency_code dd_address authentication_key human_name add_all_currencies(bool) '' args
       (eff_bind (arg_array (uninit_address junk) (args ! 1)) (\<lambda>address.
        eff_bind (arg_array (uninit_id junk) (args ! 2)) (\<lambda>auth_key.
        rust_do env (Call_create_designated_dealer_ex (args ! 0) 0 address auth_key (args ! 3) [] (replicate 32 0)
          (arg_bool (args ! 4))))))"

definition command_create_vasp_account :: "('c, 'w) command_env \<Rightarrow> uninit \<Rightarrow> 'w handler" where
  "command_create_vasp_account env junk args =
     need_args 5 ''usage : create_vasp_account currency_code dd_address authentication_key human_name add_all_currencies(bool) '' args
       (eff_bind (arg_array (uninit_address junk) (args ! 1)) (\<lambda>address.
        eff_bind (arg_array (uninit_id junk) (args ! 2)) (\<lambda>auth_key.
        rust_do env (Call_create_parent_vasp_account (args ! 0) 0 address auth_key (args ! 3) [] (replicate 32 0)
          (arg_bool (args ! 4))))))"

definition command_create_child_vasp_account :: "('c, 'w) command_env \<Rightarrow> uninit \<Rightarrow> 'w handler" where
  "command_create_child_vasp_account env junk args =
     need_args 6 ''usage : create-child-vasp currency_code parent_account_index address authentication_key add_all_currencies(true|false) initial_balance'' args
       (eff_bind (arg_array (uninit_address junk) (args ! 2)) (\<lambda>address.
        eff_bind (arg_array (uninit_id junk) (args ! 3)) (\<lambda>auth_key.
        rust_do env (Call_create_child_vasp_account (args ! 0) (arg_u64 (args ! 1)) address auth_key (arg_bool (args ! 4))
          (arg_u64 (args ! 5)) True))))"

definition command_add_currency_for_dd :: "('c, 'w) command_env \<Rightarrow> uninit \<Rightarrow> 'w handler" where
  "command_add_currency_for_dd env junk args =
     need_args 2 ''usage : adc-dd currency_code dd_address'' args
       (eff_bind (arg_array (uninit_address junk) (args ! 1)) (\<lambda>address.
        rust_do env (Call_add_currency_for_designated_dealer (args ! 0) address)))"

definition command_mint_to_dd :: "('c, 'w) command_env \<Rightarrow> uninit \<Rightarrow> 'w handler" where
  "command_mint_to_dd env junk args =
     need_args 4 ''usage : mint currency_code dd_address amount tier_index'' args
       (eff_bind (arg_array (uninit_address junk) (args ! 1)) (\<lambda>address.
        eff_bind (eff_lift (double_to_u64 (micro_coins env (args ! 2)))) (\<lambda>amount'.
        rust_do env (Call_mint_currency_for_designated_dealer (args ! 0) 0 address amount' (arg_u64 (args ! 3))))))"

definition command_preburn :: "('c, 'w) command_env \<Rightarrow> 'w handler" where
  "command_preburn env args =
     need_args 3 ''prebrun aount_index currency_code amount'' args
       (rust_do env (Call_preburn (args ! 1) (arg_u64 (args ! 0)) (arg_u64 (args ! 2)) True))"

definition command_burn :: "('c, 'w) command_env \<Rightarrow> uninit \<Rightarrow> 'w handler" where
  "command_burn env junk args =
     need_args 3 ''brun currency_code sliding_nonce preburn_address'' args
       (eff_bind (arg_array (uninit_address junk) (args ! 2)) (\<lambda>preburn_address.
        rust_do env (Call_burn (args ! 0) (arg_u64 (args ! 1)) preburn_address True)))"

definition command_rotate_authentication_key :: "('c, 'w) command_env \<Rightarrow> uninit \<Rightarrow> 'w handler" where
  "command_rotate_authentication_key env junk args =
     need_args 3 ''rotate-authentication-key account_index sliding_nonce new_auth_key'' args
       (eff_bind (arg_array (uninit_id junk) (args ! 2)) (\<lambda>auth_key.
        rust_do env (Call_rotate_authentication_key_with_nonce (arg_u64 (args ! 0)) (arg_u64 (args ! 1)) auth_key True)))"

definition command_save_private_key :: "('c, 'w) command_env \<Rightarrow> 'w handler" where
  "command_save_private_key env args =
     need_args 2 ''save-private-key account_index key-file-name'' args
       (rust_do env (Call_save_private_key (arg_u64 (args ! 0)) (args ! 1)))"

text \<open>
  With at least six arguments the maximal amount of gas is read from \<open>args[6]\<close>, which six arguments do not have.
  The sequence number of the account is looked up afterwards.
\<close>

definition command_transfer :: "('c, 'w) command_env \<Rightarrow> uninit \<Rightarrow> 'w handler" where
  "command_transfer env junk args =
     need_args 4 ''usage : transfer currency payer_account_index payee_address amount (gas_unit_price max_gas_amount gas_currency_code)'' args
       (eff_bind (arg_array (uninit_address junk) (args ! 2)) (\<lambda>address.
        let account_index = arg_u64 (args ! 1);
            gas_unit_price = (if 5 \<le> length args then arg_u64 (args ! 4) else 0)
        in if length args = 6 then eff_throw (Undefined_behaviour ''args[6]'')
           else let max_gas_amount = (if 6 \<le> length args then arg_u64 (args ! 6) else 1000000);
                    gas_currency_code = (if 7 \<le> length args then args ! 6 else str ''VLS'')
                in eff_bind (eff_lift (double_to_u64 (micro_coins env (args ! 3)))) (\<lambda>amount'.
                   eff_bind (rust_do env (Call_transfer account_index address (args ! 0) amount'
                     gas_unit_price max_gas_amount gas_currency_code)) (\<lambda>_.
                   eff_bind (account_of_index env account_index) (\<lambda>_. eff_return ())))))"

section \<open>Files\<close>

text \<open>The file that is written is opened, and so emptied, before the other one is read.\<close>

definition command_encrypt_file :: "('c, 'w) command_env \<Rightarrow> 'w handler" where
  "command_encrypt_file env args =
     need_args 3 ''encrypt password input-file-name encrypted-file-name '' args
       (eff_bind (eff_modify (file_put env (args ! 2) [])) (\<lambda>_.
        eff_bind (eff_get (\<lambda>w. command_encrypt (env_size_t env) (env_random env w) (env_aes env) (file_content env w) args)) (\<lambda>r.
        eff_bind (eff_lift r) (\<lambda>content. eff_modify (file_put env (args ! 2) content)))))"

definition command_decrypt_file :: "('c, 'w) command_env \<Rightarrow> 'w handler" where
  "command_decrypt_file env args =
     need_args 3 ''decrypt encrypted-file decrypted-file password'' args
       (eff_bind (eff_modify (file_put env (args ! 2) [])) (\<lambda>_.
        eff_bind (eff_get (\<lambda>w. command_decrypt (env_aes env) (file_content env w) args)) (\<lambda>r.
        eff_bind (eff_lift r) (\<lambda>content. eff_modify (file_put env (args ! 2) content)))))"

section \<open>Queries\<close>

definition command_query_account_balances :: "('c, 'w) command_env \<Rightarrow> uninit \<Rightarrow> 'w handler" where
  "command_query_account_balances env junk args =
     need_args 1 ''query-account-status account_index|address'' args
       (eff_bind (if length (args ! 0) = 32 then eff_lift (string_to_array (args ! 0) (uninit_address junk))
                  else eff_bind (account_of_index env (arg_u64 (args ! 0))) (\<lambda>account. eff_return (rust_address account))) (\<lambda>address.
        show_answer env (Query_account_info address)))"

definition command_query_account_status :: "('c, 'w) command_env \<Rightarrow> uninit \<Rightarrow> 'w handler" where
  "command_query_account_status env junk args =
     need_args 1 ''query-account-status account_index|address'' args
       (eff_bind (address_of_arg env (uninit_address junk) (args ! 0)) (\<lambda>address.
        show_answer env (Query_account_info address)))"

definition command_query_account_transaction :: "('c, 'w) command_env \<Rightarrow> uninit \<Rightarrow> 'w handler" where
  "command_query_account_transaction env junk args =
     need_args 3 ''query-transactions account_index|address sequence_number fectch_events(ture or false)'' args
       (eff_bind (address_of_arg env (uninit_address junk) (args ! 0)) (\<lambda>address.
        show_answer env (Query_transaction_info address (arg_u64 (args ! 1)) (arg_bool (args ! 2)))))"

definition command_query_txn_range :: "('c, 'w) command_env \<Rightarrow> 'w handler" where
  "command_query_txn_range env args =
     need_args 3 ''query-txn-range start_version limit fectch_events(ture|false)'' args
       (show_answer env (Query_transaction_range (arg_u64 (args ! 0)) (arg_u64 (args ! 1)) (arg_bool (args ! 2))))"

definition payment_type :: "cstring \<Rightarrow> payment_event_type result" where
  "payment_type type' =
     (if type' = str ''sent'' then Inr payment_sent
      else if type' = str ''received'' then Inr payment_received
      else Inl (Invalid_argument (CHR 0x22 # c_text type' @ [CHR 0x22] @ '' is not a payment event type, pleas input correct event type such as '' @
        [CHR 0x22] @ ''sent, receivied'' @ [CHR 0x22])))"

definition command_query_payment_events :: "('c, 'w) command_env \<Rightarrow> uninit \<Rightarrow> 'w handler" where
  "command_query_payment_events env junk args =
     need_args 4 ''query-events address event-type start limit'' args
       (eff_bind (eff_lift (payment_type (args ! 1))) (\<lambda>event_type.
        eff_bind (address_of_arg env (uninit_address junk) (args ! 0)) (\<lambda>address.
        show_answer env (Query_payment_events address event_type (arg_u64 (args ! 2)) (arg_u64 (args ! 3))))))"

text \<open>The usage names \<open>updated-exchange-rate\<close>, the comparison \<open>updated_exchange_rate\<close>.\<close>

definition currency_type :: "cstring \<Rightarrow> currency_event_type result" where
  "currency_type type' =
     (if type' = str ''minted'' then Inr currency_minted
      else if type' = str ''burned'' then Inr currency_burned
      else if type' = str ''preburned'' then Inr currency_preburned
      else if type' = str ''cancelled-burn'' then Inr currency_cancelled_burn
      else if type' = str ''updated_exchange_rate'' then Inr currency_updated_exchange_rate
      else Inl (Invalid_argument (CHR 0x22 # c_text type' @ [CHR 0x22] @ '' is not a payment event type, pleas input correct event type such as '' @
        [CHR 0x22] @ ''minted, burned, preburned, cancelled-burn, updated-exchange-rate'' @ [CHR 0x22])))"

definition command_query_currency_events :: "('c, 'w) command_env \<Rightarrow> 'w handler" where
  "command_query_currency_events env args =
     need_args 4 ''query-currency-events currency event-type(minted, burned, preburned, cancelled-burn, updated-exchange-rate) start limit'' args
       (eff_bind (eff_lift (currency_type (args ! 1))) (\<lambda>event_type.
        show_answer env (Query_currency_events (args ! 0) event_type (arg_u64 (args ! 2)) (arg_u64 (args ! 3)))))"

definition command_query_account_creation_events :: "('c, 'w) command_env \<Rightarrow> 'w handler" where
  "command_query_account_creation_events env args =
     need_args 2 ''usage : query_account_creation_events start limit'' args
       (show_answer env (Query_account_creation_events (arg_u64 (args ! 0)) (arg_u64 (args ! 1))))"

definition VLS_ADDRESSES :: "Address list" where
  "VLS_ADDRESSES = map (\<lambda>k. replicate 12 0 @ [0x56, 0x4C, 0x53, k]) [0, 1, 2, 3, 4, 5]"

definition DeFi_admins :: "Address list" where
  "DeFi_admins =
     [replicate 12 0 @ [0x42, 0x41, 0x4E, 0x4B], replicate 12 0 @ [0x45, 0x58, 0x43, 0x48],
      [0x58, 0x5c, 0x6a, 0xa3, 0x1d, 0xfb, 0x19, 0xc4, 0xaf, 0x20, 0xe8, 0xe1, 0x41, 0x12, 0xcb, 0x3f]]"

fun show_balances :: "('c, 'w) command_env \<Rightarrow> Address list \<Rightarrow> ('w, unit) eff" where
  "show_balances env [] = eff_return ()"
| "show_balances env (address # addresses) =
     eff_bind (rust_get_currency_balance env address (str ''VLS'')) (\<lambda>_. show_balances env addresses)"

definition command_query_vls_info :: "('c, 'w) command_env \<Rightarrow> 'w handler" where
  "command_query_vls_info env args =
     eff_bind (show_answer env Query_all_currency_info) (\<lambda>_.
     eff_bind (show_balances env VLS_ADDRESSES) (\<lambda>_. show_balances env DeFi_admins))"

definition command_query_violas_status :: "('c, 'w) command_env \<Rightarrow> 'w handler" where
  "command_query_violas_status env args = show_answer env Query_violas_status"

section \<open>The table\<close>

definition command_handlers :: "('c, 'w) command_env \<Rightarrow> uninit \<Rightarrow> (cstring \<times> 'w handler) list" where
  "command_handlers env junk =
     [(str ''help'', \<lambda>args. eff_return ()),
      (str ''wallet-add-account'', command_add_account env junk),
      (str ''wallet-list-account'', command_list_accounts env),
      (str ''add-currency'', command_add_currency env),
      (str ''allow-publish'', command_allow_publish env),
      (str ''allow-custome-script'', command_allow_custom_script env),
      (str ''create-designed-dealer'', command_create_dd_account env junk),
      (str ''create-vasp'', command_create_vasp_account env junk),
      (str ''create-child-vasp'', command_create_child_vasp_account env junk),
      (str ''add-currency-for-dd'', command_add_currency_for_dd env junk),
      (str ''mint'', command_mint_to_dd env junk),
      (str ''preburn'', command_preburn env),
      (str ''burn'', command_burn env junk),
      (str ''rotate-authentication-key'', command_rotate_authentication_key env junk),
      (str ''register-currency'', command_register_currency env),
      (str ''query-account-balances'', command_query_account_balances env junk),
      (str ''query-account-status'', command_query_account_status env junk),
      (str ''query-account-transaction'', command_query_account_transaction env junk),
      (str ''query-txn-range'', command_query_txn_range env),
      (str ''query-payment-events'', command_query_payment_events env junk),
      (str ''query-currency-events'', command_query_currency_events env),
      (str ''query-creation-events'', command_query_account_creation_events env),
      (str ''query-vls-info'', command_query_vls_info env),
      (str ''query-violas-status'', command_query_violas_status env),
      (str ''encrypt'', command_encrypt_file env),
      (str ''decrypt'', command_decrypt_file env),
      (str ''save-private-key'', command_save_private_key env),
      (str ''transfer'', command_transfer env junk)]"

text \<open>A line that names no command is given to the shell.\<close>

definition parse_cmd :: "('c, 'w) command_env \<Rightarrow> uninit \<Rightarrow> cstring \<Rightarrow> ('w, unit) eff" where
  "parse_cmd env junk line =
     (let (cmd, iss) = get_word [] (istringstream (c_str line));
          args = (if is_fail iss then [] else stream_words (is_rest iss))
      in case map_of (command_handlers env junk) cmd of
           None \<Rightarrow> term_system env (c_str line)
         | Some handler \<Rightarrow> handler args)"

definition get_all_cmds :: "('c, 'w) command_env \<Rightarrow> uninit \<Rightarrow> cstring list" where
  "get_all_cmds env junk = sort (map fst (command_handlers env junk))"

section \<open>The loop\<close>

definition trim_blanks :: "cstring \<Rightarrow> cstring" where
  "trim_blanks s = rev (dropWhile (\<lambda>b. b = 0x20) (rev (dropWhile (\<lambda>b. b = 0x20) s)))"

fun command_loop :: "('c, 'w) command_env \<Rightarrow> uninit \<Rightarrow> cstring list \<Rightarrow> ('w \<times> cstring list, unit) eff" where
  "command_loop env junk [] = eff_throw (Undefined_behaviour ''*line'')"
| "command_loop env junk (line # lines) =
     (if line = [] then command_loop env junk lines
      else let cmd = trim_blanks line
           in if cmd = str ''quit'' then eff_return ()
              else eff_bind (eff_fst (eff_catch (parse_cmd env junk cmd) (eff_return ()))) (\<lambda>_.
                   eff_bind (eff_snd (eff_modify (\<lambda>history. history @ [cmd]))) (\<lambda>_.
                   command_loop env junk lines)))"

definition command_main :: "('c, 'w) command_env \<Rightarrow> uninit \<Rightarrow> (char \<times> cstring) list \<Rightarrow> cstring list \<Rightarrow> ('w \<times> cstring list, unit) eff" where
  "command_main env junk options lines =
     eff_catch
       (eff_bind (eff_lift (parse_command_line options Arguments_new)) (\<lambda>args.
        eff_bind (eff_fst (rust_create env args)) (\<lambda>_.
        eff_bind (eff_fst (rust_test_connection env)) (\<lambda>_.
        command_loop env junk lines))))
       (eff_return ())"

section \<open>What a line runs\<close>

lemma plain_solid: "plain_word w \<Longrightarrow> solid w"
  by (auto simp: plain_word_def solid_def list_all_iff)

lemma stream_words_text: "list_all plain_word words \<Longrightarrow> stream_words (words_text words) = words"
proof (induction words)
  case (Cons w words)
  then have w: "plain_word w" by simp
  show ?case
  proof (cases words)
    case Nil
    with stream_words_plain [OF w] show ?thesis by (simp add: words_text_def)
  next
    case (Cons w' ws)
    then have "words_text (w # words) = 0x20 # (w @ 0x20 # (w' @ words_text ws))" "words_text words = 0x20 # (w' @ words_text ws)"
      by (simp_all add: words_text_def)
    with stream_words_plain [OF w] Cons.IH Cons.prems show ?thesis by simp
  qed
qed (simp add: words_text_def)

lemma c_str_plain: "0 \<notin> set s \<Longrightarrow> c_str s = s"
  unfolding c_str_def by (rule takeWhile_eq_all_conv [THEN iffD2]) auto

lemma command_line_plain:
  assumes "plain_word (str name')" and "list_all plain_word words"
  shows "c_str (command_line name' words) = command_line name' words"
proof -
  have zero: "0 \<notin> set w" if "plain_word w" for w using that by (auto simp: plain_word_def list_all_iff)
  have "0 \<notin> set (command_line name' words)"
    using zero [OF assms(1)] assms(2) zero by (auto simp: command_line_def words_text_def list_all_iff)
  then show ?thesis by (rule c_str_plain)
qed

lemma parse_cmd_line:
  assumes "map_of (command_handlers env junk) (str name') = Some handler" and "plain_word (str name')" and "list_all plain_word words"
  shows "parse_cmd env junk (command_line name' words) = handler words"
  using command_line_word [OF plain_solid [OF assms(2)], of words] stream_words_text [OF assms(3)]
  by (simp add: parse_cmd_def command_line_plain [OF assms(2,3)] assms(1) words_left_def is_taken_def)

lemma trim_blanks_ends: "s \<noteq> [] \<Longrightarrow> hd s \<noteq> 0x20 \<Longrightarrow> last s \<noteq> 0x20 \<Longrightarrow> trim_blanks s = s"
proof -
  assume s: "s \<noteq> []" "hd s \<noteq> 0x20" "last s \<noteq> 0x20"
  have "dropWhile (\<lambda>b. b = 0x20) t = t" if "t \<noteq> []" "hd t \<noteq> 0x20" for t :: cstring using that by (cases t) simp_all
  with s show ?thesis by (simp add: trim_blanks_def hd_rev)
qed

lemma command_line_trim_blanks:
  assumes "plain_word (str name')" and "list_all plain_word words"
  shows "trim_blanks (command_line name' words) = command_line name' words"
proof (rule trim_blanks_ends)
  have blank: "\<not> is_space b \<Longrightarrow> b \<noteq> 0x20" for b by (auto simp: is_space_def)
  note name' = solid_ends [OF plain_solid [OF assms(1)]]
  have all: "list_all solid words" using assms(2) plain_solid by (auto simp: list_all_iff)
  show "last (command_line name' words) \<noteq> 0x20"
    using name' words_text_last [OF _ all] blank by (cases "words = []") (auto simp: command_line_def words_text_def)
  show "command_line name' words \<noteq> []" "hd (command_line name' words) \<noteq> 0x20"
    using name' blank by (auto simp: command_line_def)
qed

section \<open>Missing arguments\<close>

text \<open>The commands that need arguments: how many, and what they say without them.\<close>

definition quoted :: "string \<Rightarrow> string" where
  "quoted s = CHR 0x27 # s @ [CHR 0x27]"

definition command_usages :: "(string \<times> nat \<times> string) list" where
  "command_usages =
     [(''add-currency'', 2, ''add-currency index currency''),
      (''allow-publish'', 1, ''commnd '' @ quoted ''allow publish'' @ '' missed parameter '' @ quoted ''enabled'' @ '' : true or false''),
      (''allow-custome-script'', 1, ''commnd '' @ quoted ''allow publish'' @ '' missed parameter '' @ quoted ''enabled'' @ '' : true or false''),
      (''register-currency'', 1, ''currency code is missing. ''),
      (''create-designed-dealer'', 5, ''usage : create-dd-ex currency_code dd_address authentication_key human_name add_all_currencies(bool) ''),
      (''create-vasp'', 5, ''usage : create_vasp_account currency_code dd_address authentication_key human_name add_all_currencies(bool) ''),
      (''create-child-vasp'', 6, ''usage : create-child-vasp currency_code parent_account_index address authentication_key add_all_currencies(true|false) initial_balance''),
      (''add-currency-for-dd'', 2, ''usage : adc-dd currency_code dd_address''),
      (''mint'', 4, ''usage : mint currency_code dd_address amount tier_index''),
      (''preburn'', 3, ''prebrun aount_index currency_code amount''),
      (''burn'', 3, ''brun currency_code sliding_nonce preburn_address''),
      (''rotate-authentication-key'', 3, ''rotate-authentication-key account_index sliding_nonce new_auth_key''),
      (''save-private-key'', 2, ''save-private-key account_index key-file-name''),
      (''transfer'', 4, ''usage : transfer currency payer_account_index payee_address amount (gas_unit_price max_gas_amount gas_currency_code)''),
      (''encrypt'', 3, ''encrypt password input-file-name encrypted-file-name ''),
      (''decrypt'', 3, ''decrypt encrypted-file decrypted-file password''),
      (''query-account-balances'', 1, ''query-account-status account_index|address''),
      (''query-account-status'', 1, ''query-account-status account_index|address''),
      (''query-account-transaction'', 3, ''query-transactions account_index|address sequence_number fectch_events(ture or false)''),
      (''query-txn-range'', 3, ''query-txn-range start_version limit fectch_events(ture|false)''),
      (''query-payment-events'', 4, ''query-events address event-type start limit''),
      (''query-currency-events'', 4, ''query-currency-events currency event-type(minted, burned, preburned, cancelled-burn, updated-exchange-rate) start limit''),
      (''query-creation-events'', 2, ''usage : query_account_creation_events start limit'')]"

lemma str_eq_iff [simp]: "str a = str b \<longleftrightarrow> a = b"
  using str_inj by auto

lemma map_of_str [simp]:
  "map_of ((str a, h) # table) (str b) = (if b = a then Some h else map_of table (str b))"
  by auto

lemmas command_defs = command_add_currency_def command_allow_publish_def command_allow_custom_script_def command_register_currency_def
  command_create_dd_account_def command_create_vasp_account_def command_create_child_vasp_account_def command_add_currency_for_dd_def
  command_mint_to_dd_def command_preburn_def command_burn_def command_rotate_authentication_key_def command_save_private_key_def
  command_transfer_def command_encrypt_file_def command_decrypt_file_def command_query_account_balances_def
  command_query_account_status_def command_query_account_transaction_def command_query_txn_range_def command_query_payment_events_def
  command_query_currency_events_def command_query_account_creation_events_def

definition handler_needs :: "('c, 'w) command_env \<Rightarrow> uninit \<Rightarrow> string \<times> nat \<times> string \<Rightarrow> bool" where
  "handler_needs env junk = (\<lambda>(name', n, usage). \<exists>handler. map_of (command_handlers env junk) (str name') = Some handler \<and>
     (\<forall>args. length args < n \<longrightarrow> handler args = eff_throw (Invalid_argument usage)))"

lemma handlers_need: "list_all (handler_needs env junk) command_usages"
  unfolding command_usages_def handler_needs_def command_handlers_def list.pred_inject prod.case quoted_def
  by (intro conjI TrueI; simp add: command_defs need_args_def)

lemma names_plain: "list_all (\<lambda>(name', _). plain_word (str name')) command_usages"
  by (simp add: command_usages_def plain_word_def str_def is_space_def)

text \<open>What the loop makes of a line: the command, whose exceptions are reported, and then the history.\<close>

lemma command_loop_line:
  assumes "plain_word (str name')" and "list_all plain_word words" and "command_line name' words \<noteq> str ''quit''"
  shows "command_loop env junk (command_line name' words # lines) (w, history) =
    (case parse_cmd env junk (command_line name' words) w of
       (Inl e, w') \<Rightarrow> if catchable e then command_loop env junk lines (w', history @ [command_line name' words]) else (Inl e, (w', history))
     | (Inr u, w') \<Rightarrow> command_loop env junk lines (w', history @ [command_line name' words]))"
proof -
  have "command_line name' words \<noteq> []" using assms(1) by (auto simp: command_line_def plain_word_def)
  with assms(3) show ?thesis
    by (auto simp: command_line_trim_blanks [OF assms(1,2)] Let_def eff_bind_def eff_fst_def eff_snd_def eff_catch_def eff_modify_def
      eff_return_def split: prod.splits sum.splits)
qed

lemma command_line_not_quit: "name' \<noteq> ''quit'' \<Longrightarrow> command_line name' words \<noteq> str ''quit''"
proof
  assume "name' \<noteq> ''quit''" and line: "command_line name' words = str ''quit''"
  then have "words \<noteq> []" by (auto simp: command_line_def words_text_def)
  then have "0x20 \<in> set (command_line name' words)" by (cases words) (simp_all add: command_line_def words_text_def)
  with line have "0x20 \<in> set (str ''quit'')" by simp
  then show False by (simp add: str_def)
qed

section \<open>Transfers\<close>

lemma arg_u64_dec: "arg_u64 (dec (unat v)) = v"
proof -
  have "stream_at (dec (unat v)) [] (istringstream (dec (unat v)))" by (auto simp: stream_at_def istringstream_def)
  then show ?thesis by (simp add: arg_u64_def get_u64_at)
qed

lemma arg_u64_no_number:
  assumes "plain_word (c # word)" and "\<not> is_digit c" and "c \<noteq> 0x2D" and "c \<noteq> 0x2B"
  shows "arg_u64 (c # word) = 0"
proof -
  have "stream_at (c # word) [] (istringstream (c # word))" by (auto simp: stream_at_def istringstream_def)
  from sentry_at [OF this plain_solid [OF assms(1)]] show ?thesis
    using assms(2-4) by (simp add: arg_u64_def get_u64_def scan_integer_def)
qed

lemma arg_array_hex:
  assumes "bs \<noteq> []" and "length old = length bs"
  shows "arg_array old (bytes_to_hex bs) = eff_return bs"
proof -
  have "stream_at (bytes_to_hex bs) [] (istringstream (bytes_to_hex bs))" by (auto simp: stream_at_def istringstream_def)
  from get_array_at [OF this assms] show ?thesis by (simp add: arg_array_def sum_bind_def fun_eq_iff eff_lift_def eff_return_def)
qed

definition submit_transfer :: "('c, 'w) command_env \<Rightarrow> u64 \<Rightarrow> Address \<Rightarrow> cstring \<Rightarrow> cstring \<Rightarrow> u64 \<Rightarrow> u64 \<Rightarrow> cstring \<Rightarrow> ('w, unit) eff" where
  "submit_transfer env i address currency price gas max_gas gas_currency =
     eff_bind (eff_lift (double_to_u64 (micro_coins env price))) (\<lambda>amount'.
     eff_bind (rust_do env (Call_transfer i address currency amount' gas max_gas gas_currency)) (\<lambda>_.
     eff_bind (account_of_index env i) (\<lambda>_. eff_return ())))"

lemma eff_return_bind [simp]: "eff_bind (eff_return x) f = f x"
  by (simp add: fun_eq_iff eff_bind_def eff_return_def)

lemma command_transfer_words:
  assumes "length address = 16" and "length (uninit_address junk) = 16"
  shows "command_transfer env junk (currency # dec (unat i) # bytes_to_hex address # price # gas) =
    (case gas of
       [] \<Rightarrow> submit_transfer env i address currency price 0 1000000 (str ''VLS'')
     | [unit_price] \<Rightarrow> submit_transfer env i address currency price (arg_u64 unit_price) 1000000 (str ''VLS'')
     | [unit_price, max_gas] \<Rightarrow> eff_throw (Undefined_behaviour ''args[6]'')
     | unit_price # max_gas # gas_currency # _ \<Rightarrow>
         submit_transfer env i address currency price (arg_u64 unit_price) (arg_u64 gas_currency) gas_currency)"
proof -
  have "address \<noteq> []" "length (uninit_address junk) = length address" using assms by auto
  note hex = arg_array_hex [OF this]
  show ?thesis
    by (auto simp: command_transfer_def need_args_def arg_u64_dec hex submit_transfer_def Let_def split: list.split)
qed

section \<open>Exceptions\<close>

text \<open>What the client, the parser and the shell may throw: exceptions that the loop can catch.\<close>

definition catchable_env :: "('c, 'w) command_env \<Rightarrow> bool" where
  "catchable_env env \<longleftrightarrow>
     (\<forall>c. raises catchable (rust_do env c)) \<and> (\<forall>q. raises catchable (rust_ask env q)) \<and> raises catchable (rust_get_all_accounts env) \<and>
     (\<forall>i. raises catchable (rust_get_account env i)) \<and> (\<forall>a. raises catchable (rust_create_next_account env a)) \<and>
     (\<forall>a c. raises catchable (rust_get_currency_balance env a c)) \<and>
     (\<forall>q a e. json_shown env q a = Inl e \<longrightarrow> catchable e) \<and> (\<forall>c. raises catchable (term_system env c)) \<and> raises catchable (term_word env)"

text \<open>The undefined behaviour that a line can lead to.\<close>

definition command_faults :: "string list" where
  "command_faults = [''accounts[account_index]'', ''args[6]'', ''*(size_t *)salt'', ''*first++'', ''uint64_t(double)'']"

definition command_throws :: "exn \<Rightarrow> bool" where
  "command_throws e \<longleftrightarrow> catchable e \<or> e \<in> Undefined_behaviour ` set command_faults"

lemma raises_env [raises_intros]:
  assumes "catchable_env env"
  shows "raises command_throws (rust_do env c)" "raises command_throws (rust_ask env q)" "raises command_throws (rust_get_all_accounts env)"
    "raises command_throws (rust_get_account env i)" "raises command_throws (rust_create_next_account env a)"
    "raises command_throws (rust_get_currency_balance env b d)" "raises command_throws (eff_lift (json_shown env q answer'))"
    "raises command_throws (term_system env line)" "raises command_throws (term_word env)"
  using assms by (simp_all add: catchable_env_def raises_def command_throws_def eff_lift_def)

lemma raises_fault [raises_intros]: "what \<in> set command_faults \<Longrightarrow> raises command_throws (eff_throw (Undefined_behaviour what))"
  "raises command_throws (eff_throw (Invalid_argument usage))"
  by (simp_all add: raises_def command_throws_def eff_throw_def)

lemma string_to_array_throws: "string_to_array_loop s i x arr = Inl e \<Longrightarrow> e = Out_of_range ''basic_string::substr''"
  by (induction s i x arr rule: string_to_array_loop.induct)
    (subst (asm) (2) string_to_array_loop.simps, auto simp: Let_def split: if_splits)

lemma raises_array [raises_intros]: "raises command_throws (arg_array old word)"
  "raises command_throws (eff_lift (string_to_array word old))"
  by (auto simp: raises_def arg_array_def get_array_def eff_lift_def sum_bind_def string_to_array_def command_throws_def
    split: sum.splits prod.splits dest!: string_to_array_throws)

lemma raises_account [raises_intros]:
  assumes "catchable_env env"
  shows "raises command_throws (account_of_index env i)" "raises command_throws (address_of_arg env old word)"
    "raises command_throws (show_answer env q)" "raises command_throws (show_balances env addresses)"
proof -
  show account: "raises command_throws (account_of_index env j)" for j
    unfolding account_of_index_def by (intro raises_intros assms) (simp add: command_faults_def)
  show "raises command_throws (address_of_arg env old word)"
    unfolding address_of_arg_def by (intro raises_intros account)
  show "raises command_throws (show_answer env q)"
    unfolding show_answer_def by (intro raises_intros assms)
  show "raises command_throws (show_balances env addresses)"
    by (induction addresses) (auto intro!: raises_intros assms)
qed

lemma raises_type [raises_intros]:
  "raises command_throws (eff_lift (payment_type type'))" "raises command_throws (eff_lift (currency_type type'))"
  by (simp_all add: raises_def eff_lift_def payment_type_def currency_type_def command_throws_def)

lemma raises_files [raises_intros]:
  "raises command_throws (eff_lift (command_encrypt n random aes content args))"
  "raises command_throws (eff_lift (command_decrypt aes content args))"
  by (auto simp: raises_def eff_lift_def command_encrypt_def command_decrypt_def aes_256_cbc_encrypt_def encrypt_with_salt_def
    store_size_t_def aes_256_cbc_decrypt_def sum_bind_def command_throws_def command_faults_def
    split: if_splits option.splits list.splits)

lemma raises_amount [raises_intros]: "raises command_throws (eff_lift (double_to_u64 whole))"
  by (auto simp: raises_def eff_lift_def double_to_u64_def command_throws_def command_faults_def split: option.splits if_splits)

lemma raises_need [raises_intros]: "raises command_throws m \<Longrightarrow> raises command_throws (need_args n usage args m)"
  unfolding need_args_def by (intro raises_intros)

lemma raises_plain_commands [raises_intros]:
  assumes "catchable_env env"
  shows "raises command_throws (command_add_currency env args)" "raises command_throws (command_allow_publish env args)"
    "raises command_throws (command_allow_custom_script env args)" "raises command_throws (command_register_currency env args)"
    "raises command_throws (command_create_dd_account env junk args)" "raises command_throws (command_create_vasp_account env junk args)"
    "raises command_throws (command_create_child_vasp_account env junk args)" "raises command_throws (command_add_currency_for_dd env junk args)"
    "raises command_throws (command_mint_to_dd env junk args)" "raises command_throws (command_preburn env args)"
    "raises command_throws (command_burn env junk args)" "raises command_throws (command_rotate_authentication_key env junk args)"
    "raises command_throws (command_save_private_key env args)"
  unfolding command_defs by (intro raises_intros assms)+

lemma raises_query_commands [raises_intros]:
  assumes "catchable_env env"
  shows "raises command_throws (command_query_account_balances env junk args)" "raises command_throws (command_query_account_status env junk args)"
    "raises command_throws (command_query_account_transaction env junk args)" "raises command_throws (command_query_txn_range env args)"
    "raises command_throws (command_query_payment_events env junk args)" "raises command_throws (command_query_currency_events env args)"
    "raises command_throws (command_query_account_creation_events env args)" "raises command_throws (command_query_vls_info env args)"
    "raises command_throws (command_query_violas_status env args)" "raises command_throws (command_add_account env junk args)"
    "raises command_throws (command_list_accounts env args)"
  unfolding command_defs command_query_vls_info_def command_query_violas_status_def command_add_account_def command_list_accounts_def
  by (intro raises_intros assms)+

lemma raises_file_commands [raises_intros]:
  "raises command_throws (command_encrypt_file env args)" "raises command_throws (command_decrypt_file env args)"
proof -
  have get: "raises E (eff_bind (eff_get f) m)" if "\<And>s. raises E (m (f s))" for E f and m :: "'x \<Rightarrow> ('s, unit) eff"
    using that by (simp add: raises_def eff_bind_def eff_get_def)
  show "raises command_throws (command_encrypt_file env args)" "raises command_throws (command_decrypt_file env args)"
    unfolding command_encrypt_file_def command_decrypt_file_def
    by (rule raises_need, rule raises_bind, rule raises_pure, rule get, intro raises_intros)+
qed

lemma raises_transfer [raises_intros]: "catchable_env env \<Longrightarrow> raises command_throws (command_transfer env junk args)"
  unfolding command_transfer_def Let_def by (intro raises_intros) (simp_all add: command_faults_def)

lemma raises_handlers:
  "catchable_env env \<Longrightarrow> (cmd, handler) \<in> set (command_handlers env junk) \<Longrightarrow> raises command_throws (handler args)"
  by (auto simp: command_handlers_def intro: raises_intros)

lemma raises_parse_cmd:
  assumes "catchable_env env"
  shows "raises command_throws (parse_cmd env junk line)"
proof -
  obtain cmd iss where g: "get_word [] (istringstream (c_str line)) = (cmd, iss)" by (cases "get_word [] (istringstream (c_str line))")
  show ?thesis
    by (cases "map_of (command_handlers env junk) cmd")
      (auto simp: parse_cmd_def g intro: raises_intros assms raises_handlers [OF assms] dest!: map_of_SomeD)
qed

text \<open>How a session ends: after \<open>n\<close> lines, all of which are in the history but the empty ones.\<close>

definition session_end :: "cstring list \<Rightarrow> nat \<Rightarrow> unit result \<Rightarrow> bool" where
  "session_end lines n r \<longleftrightarrow>
     n \<le> length lines \<and> (\<forall>line \<in> set (take n lines). trim_blanks line \<noteq> str ''quit'') \<and>
     (case r of
        Inr _ \<Rightarrow> n < length lines \<and> trim_blanks (lines ! n) = str ''quit''
      | Inl e \<Rightarrow> n < length lines \<and> e \<in> Undefined_behaviour ` set command_faults \<or>
          n = length lines \<and> e = Undefined_behaviour ''*line'')"

lemma session_end_Suc:
  "trim_blanks line \<noteq> str ''quit'' \<Longrightarrow> session_end (line # lines) (Suc n) r \<longleftrightarrow> session_end lines n r"
  by (auto simp: session_end_def split: sum.splits)

lemma command_loop_end:
  assumes "catchable_env env" and "command_loop env junk lines (w, history) = (r, (w', history'))"
  shows "\<exists>n. session_end lines n r \<and> history' = history @ map trim_blanks (filter (\<lambda>line. line \<noteq> []) (take n lines))"
  using assms(2)
proof (induction lines arbitrary: w history)
  case Nil
  then show ?case by (auto simp: eff_throw_def session_end_def)
next
  case (Cons line lines)
  let ?more = "\<lambda>w1 history1. command_loop env junk lines (w1, history1) = (r, (w', history'))"
  have step: ?case if "?more w1 (history @ (if line = [] then [] else [trim_blanks line]))" "trim_blanks line \<noteq> str ''quit''" for w1
  proof -
    from Cons.IH [OF that(1)] obtain n where "session_end lines n r"
      "history' = (history @ (if line = [] then [] else [trim_blanks line])) @ map trim_blanks (filter (\<lambda>line. line \<noteq> []) (take n lines))"
      by blast
    with that(2) show ?thesis by (intro exI [of _ "Suc n"]) (auto simp: session_end_Suc)
  qed
  consider "line = []" | "line \<noteq> []" "trim_blanks line = str ''quit''" | "line \<noteq> []" "trim_blanks line \<noteq> str ''quit''" by blast
  then show ?case
  proof cases
    case 1
    then show ?thesis using step [of w] Cons.prems by (simp add: trim_blanks_def str_def)
  next
    case 2
    then show ?thesis using Cons.prems by (auto simp: eff_return_def session_end_def intro!: exI [of _ 0])
  next
    case 3
    obtain q w1 where run: "parse_cmd env junk (trim_blanks line) w = (q, w1)" by (cases "parse_cmd env junk (trim_blanks line) w")
    show ?thesis
    proof (cases "\<exists>e. q = Inl e \<and> \<not> catchable e")
      case True
      then obtain e where e: "q = Inl e" "\<not> catchable e" by blast
      then have "e \<in> Undefined_behaviour ` set command_faults"
        using raises_parse_cmd [OF assms(1), of junk "trim_blanks line"] run by (auto simp: raises_def command_throws_def)
      with Cons.prems 3 e run show ?thesis
        by (auto simp: eff_bind_def eff_fst_def eff_catch_def Let_def session_end_def intro!: exI [of _ 0])
    next
      case False
      then have "?more w1 (history @ [trim_blanks line])"
        using Cons.prems 3 run
        by (cases q) (auto simp: eff_bind_def eff_fst_def eff_snd_def eff_catch_def eff_modify_def eff_return_def Let_def)
      with 3 show ?thesis using step by simp
    qed
  qed
qed

lemma plain_dec: "plain_word (dec n)"
  using solid_dec [of n] dec_digits [of 0 n] by (auto simp: plain_word_def solid_def list_all_iff)

lemma plain_hex: "bs \<noteq> [] \<Longrightarrow> plain_word (bytes_to_hex bs)"
proof -
  assume "bs \<noteq> []"
  moreover have "hex_digit n \<noteq> 0" if "n < 16" for n
    using that by (auto simp: hex_digit_def word_unat_eq_iff unat_of_nat simp del: of_nat_add)
  then have "0 \<notin> set (bytes_to_hex bs)"
    using unat_u8_less by (fastforce simp: bytes_to_hex_def less_mult_imp_div_less)
  ultimately show ?thesis using hex_digit_solid [of bs] by (auto simp: plain_word_def solid_def list_all_iff)
qed

end
