(* ===== verification/Account_State_V1.thy ===== *)
theory Account_State_V1
  imports Nft_Token
begin

text \<open>
  The first-generation account state (\<open>src/cpp/sdk/include/violas_sdk2.hpp\<close>, \<open>src/cpp/sdk/src/violas_sdk2.cpp\<close>): struct tags
  of its own, whose bytes are the key of a resource, and the class \<open>AccountState\<close>, which asks the service for the
  resources of an account and looks one up.

  A tag is only ever written, so its overload is modelled in this direction. The type of a type parameter is a
  \<open>std::variant\<close> that holds a value of the type, and the value is written too. The lemmas compare the bytes of a tag with those that
  \<open>bcsSerialize\<close> gives for the tag of the framework.
\<close>

section \<open>Tags\<close>

datatype TypeTag_v1 =
    TypeTag_v1_bool bool
  | TypeTag_v1_u8 u8
  | TypeTag_v1_u64 u64
  | TypeTag_v1_u128 "128 word"
  | TypeTag_v1_Address Address
  | TypeTag_v1_signer cstring
  | TypeTag_v1_vector "cstring list"
  | TypeTag_v1_StructTag StructTag_v1
and StructTag_v1 =
    StructTag_v1 (tag1_address: Address) (tag1_module: cstring) (tag1_name: cstring) (tag1_type_params: "TypeTag_v1 list")

record ModuleId_v1 =
  module1_address :: Address
  module1_name :: cstring

datatype AccessPath_v1 =
    AccessPath_v1_ModuleId ModuleId_v1
  | AccessPath_v1_StructTag StructTag_v1

definition write_index :: "nat \<Rightarrow> (BcsSerde, unit) action" where
  "write_index i s = Inr ((), encode_integer (of_nat i) s)"

definition write_with :: "'a serde_op \<Rightarrow> 'a \<Rightarrow> (BcsSerde, unit) action" where
  "write_with f v = act_bind (f v) (\<lambda>_. act_return ())"

fun write_TypeTag_v1 :: "TypeTag_v1 \<Rightarrow> (BcsSerde, unit) action"
and write_StructTag_v1 :: "StructTag_v1 \<Rightarrow> (BcsSerde, unit) action"
and write_TypeTags_v1 :: "TypeTag_v1 list \<Rightarrow> (BcsSerde, unit) action" where
  "write_TypeTag_v1 (TypeTag_v1_bool v) = act_bind (write_index 0) (\<lambda>_. write_with serde_bool v)"
| "write_TypeTag_v1 (TypeTag_v1_u8 v) = act_bind (write_index 1) (\<lambda>_. write_with (serde_integral 1) v)"
| "write_TypeTag_v1 (TypeTag_v1_u64 v) = act_bind (write_index 2) (\<lambda>_. write_with (serde_integral 8) v)"
| "write_TypeTag_v1 (TypeTag_v1_u128 v) = act_bind (write_index 3) (\<lambda>_. write_with (serde_integral 16) v)"
| "write_TypeTag_v1 (TypeTag_v1_Address v) = act_bind (write_index 4) (\<lambda>_. write_with serde_address v)"
| "write_TypeTag_v1 (TypeTag_v1_signer v) = act_bind (write_index 5) (\<lambda>_. write_with serde_string v)"
| "write_TypeTag_v1 (TypeTag_v1_vector v) = act_bind (write_index 6) (\<lambda>_. write_with (serde_container [] serde_string) v)"
| "write_TypeTag_v1 (TypeTag_v1_StructTag v) = act_bind (write_index 7) (\<lambda>_. write_StructTag_v1 v)"
| "write_StructTag_v1 (StructTag_v1 address module' name' type_params) =
     act_bind (write_with serde_address address) (\<lambda>_.
     act_bind (write_with serde_string module') (\<lambda>_.
     act_bind (write_with serde_string name') (\<lambda>_.
     act_bind (write_index (length type_params)) (\<lambda>_.
     write_TypeTags_v1 type_params))))"
| "write_TypeTags_v1 [] = act_return ()"
| "write_TypeTags_v1 (t # ts) = act_bind (write_TypeTag_v1 t) (\<lambda>_. write_TypeTags_v1 ts)"

definition write_ModuleId_v1 :: "ModuleId_v1 \<Rightarrow> (BcsSerde, unit) action" where
  "write_ModuleId_v1 t =
     act_bind (write_with serde_address (module1_address t)) (\<lambda>_. write_with serde_string (module1_name t))"

fun write_AccessPath_v1 :: "AccessPath_v1 \<Rightarrow> (BcsSerde, unit) action" where
  "write_AccessPath_v1 (AccessPath_v1_ModuleId t) = act_bind (write_index 0) (\<lambda>_. write_ModuleId_v1 t)"
| "write_AccessPath_v1 (AccessPath_v1_StructTag t) = act_bind (write_index 1) (\<lambda>_. write_StructTag_v1 t)"

text \<open>\<open>serde && path; serde.bytes()\<close>.\<close>

definition access_path_bytes :: "AccessPath_v1 \<Rightarrow> u8 list result" where
  "access_path_bytes path = sum_bind (write_AccessPath_v1 path BcsSerde_new) (\<lambda>(_, s). Inr (bs_bytes s))"

section \<open>AccountState\<close>

definition AccountState_from_hex :: "cstring \<Rightarrow> resources result" where
  "AccountState_from_hex hex =
     sum_bind (hex_to_bytes hex) (\<lambda>bytes'.
     sum_bind (serde_bytes [] (BcsSerde_from bytes')) (\<lambda>(data, _).
     sum_bind (serde_resources [] (BcsSerde_from data)) (\<lambda>(resources', _). Inr resources')))"

text \<open>The object keeps the resources of the account that was asked for last; an exception leaves those of before.\<close>

definition AccountState_get_account_state :: "'w rpc_client \<Rightarrow> Address \<Rightarrow> (resources \<times> 'w, unit) eff" where
  "AccountState_get_account_state rpc address =
     eff_bind (eff_snd (rpc_get_account_state_blob rpc (bytes_to_hex address))) (\<lambda>as.
     if AccountState_blob as = [] then eff_throw (Runtime_error ''Failed to get account state due to blob is null.'')
     else eff_bind (eff_lift (AccountState_from_hex (AccountState_blob as))) (\<lambda>resources'.
          eff_fst (eff_modify (\<lambda>_. resources'))))"

definition AccountState_get_resource ::
    "'w rpc_client \<Rightarrow> 'a serde_op \<Rightarrow> 'a \<Rightarrow> Address \<Rightarrow> StructTag_v1 \<Rightarrow> (resources \<times> 'w, 'a option) eff" where
  "AccountState_get_resource rpc f init address tag =
     eff_bind (AccountState_get_account_state rpc address) (\<lambda>_.
     eff_bind (eff_lift (access_path_bytes (AccessPath_v1_StructTag tag))) (\<lambda>key.
     eff_bind (eff_fst (eff_get (\<lambda>resources'. map_of resources' key))) (\<lambda>iter.
     case iter of
       None \<Rightarrow> eff_return None
     | Some data \<Rightarrow> eff_lift (sum_bind (f init (BcsSerde_from data)) (\<lambda>(t, _). Inr (Some t))))))"

section \<open>The bytes of a tag\<close>

text \<open>The tag of the framework in these types; a primitive type is given some value.\<close>

primrec v1_TypeTag :: "TypeTag \<Rightarrow> TypeTag_v1" and v1_StructTag :: "StructTag \<Rightarrow> StructTag_v1" where
  "v1_TypeTag TypeTag_Bool = TypeTag_v1_bool False"
| "v1_TypeTag TypeTag_U8 = TypeTag_v1_u8 0"
| "v1_TypeTag TypeTag_U64 = TypeTag_v1_u64 0"
| "v1_TypeTag TypeTag_U128 = TypeTag_v1_u128 0"
| "v1_TypeTag TypeTag_Address = TypeTag_v1_Address (replicate 16 0)"
| "v1_TypeTag TypeTag_Signer = TypeTag_v1_signer []"
| "v1_TypeTag (TypeTag_Vector t) = TypeTag_v1_vector []"
| "v1_TypeTag (TypeTag_Struct t) = TypeTag_v1_StructTag (v1_StructTag t)"
| "v1_StructTag (StructTag address module' name' type_params) =
     StructTag_v1 (AccountAddress_value address) (Identifier_value module') (Identifier_value name') (map v1_TypeTag type_params)"

text \<open>Every type parameter is a struct, at every level.\<close>

primrec struct_type :: "TypeTag \<Rightarrow> bool" and struct_params :: "StructTag \<Rightarrow> bool" where
  "struct_type TypeTag_Bool \<longleftrightarrow> False"
| "struct_type TypeTag_U8 \<longleftrightarrow> False"
| "struct_type TypeTag_U64 \<longleftrightarrow> False"
| "struct_type TypeTag_U128 \<longleftrightarrow> False"
| "struct_type TypeTag_Address \<longleftrightarrow> False"
| "struct_type TypeTag_Signer \<longleftrightarrow> False"
| "struct_type (TypeTag_Vector t) \<longleftrightarrow> False"
| "struct_type (TypeTag_Struct t) \<longleftrightarrow> struct_params t"
| "struct_params (StructTag address module' name' type_params) \<longleftrightarrow> list_all struct_type type_params"

lemma write_index_put: "i < 2 ^ 64 \<Longrightarrow> write_index i s = Inr ((), bs_put (uleb128 i) s)"
  by (simp add: write_index_def encode_integer_eq unat_of_nat)

lemma write_with_put:
  "serde_field f invar doc \<Longrightarrow> is_serialization s \<Longrightarrow> lengths_below (2 ^ 64) (doc v) \<Longrightarrow> write_with f v s = Inr ((), bs_put (enc (doc v)) s)"
  by (simp add: write_with_def act_bind_def act_return_def serde_field.field_write)

lemmas write_tag_fields = write_with_put [OF serde_field_address] write_with_put [OF serde_string.serde_field_axioms]

lemma write_struct_tag:
  "struct_type t \<Longrightarrow> lengths_below (2 ^ 64) (doc_TypeTag t) \<Longrightarrow> is_serialization s \<Longrightarrow>
     write_TypeTag_v1 (v1_TypeTag t) s = Inr ((), bs_put (enc (doc_TypeTag t)) s)"
  "struct_params u \<Longrightarrow> lengths_below (2 ^ 64) (doc_StructTag u) \<Longrightarrow> is_serialization s \<Longrightarrow>
     write_StructTag_v1 (v1_StructTag u) s = Inr ((), bs_put (enc (doc_StructTag u)) s)"
proof (induction t and u arbitrary: s and s)
  case (StructTag address module' name' type_params)
  have list: "write_TypeTags_v1 (map v1_TypeTag ts) s = Inr ((), bs_put (concat (map (\<lambda>x. enc (doc_TypeTag x)) ts)) s)"
    if "set ts \<subseteq> set type_params" "is_serialization s" for ts s
    using that
  proof (induction ts arbitrary: s)
    case (Cons t ts)
    then have "write_TypeTag_v1 (v1_TypeTag t) s = Inr ((), bs_put (enc (doc_TypeTag t)) s)"
      using StructTag by (intro StructTag.IH) (auto simp: list_all_iff)
    with Cons show ?case by (simp add: act_bind_def)
  qed (simp add: act_return_def)
  show ?case
    using StructTag.prems
    by (simp add: act_bind_def write_tag_fields write_index_put list doc_AccountAddress_def doc_Identifier_def comp_def)
qed (simp_all add: act_bind_def write_index_put)

lemma BcsSerde_new_simps [simp]: "is_serialization BcsSerde_new" "bs_bytes BcsSerde_new = []"
  by (simp_all add: BcsSerde_new_def)

lemma access_path_struct:
  assumes "struct_params tag" and "bcsSerialize_ResourcePath (ResourcePath_StructTag tag) = Inr key"
  shows "access_path_bytes (AccessPath_v1_StructTag (v1_StructTag tag)) = Inr key"
proof -
  have ok: "fits (doc_StructTag tag)" and key: "key = enc (doc_ResourcePath (ResourcePath_StructTag tag))"
    using assms(2) unfolding bcsSerialize_ResourcePath_iff by (auto simp: doc_ResourcePath_def)
  have "write_StructTag_v1 (v1_StructTag tag) s = Inr ((), bs_put (enc (doc_StructTag tag)) s)" if "is_serialization s" for s
    by (rule write_struct_tag(2) [OF assms(1) fits_lengths_below [OF ok] that])
  then show ?thesis
    by (simp add: access_path_bytes_def act_bind_def write_index_put sum_bind_def key doc_ResourcePath_def)
qed

text \<open>A primitive type parameter, and the value of the variant that stands for it.\<close>

fun same_primitive :: "TypeTag_v1 \<Rightarrow> TypeTag \<Rightarrow> bool" where
  "same_primitive (TypeTag_v1_bool v) TypeTag_Bool \<longleftrightarrow> True"
| "same_primitive (TypeTag_v1_u8 v) TypeTag_U8 \<longleftrightarrow> True"
| "same_primitive (TypeTag_v1_u64 v) TypeTag_U64 \<longleftrightarrow> True"
| "same_primitive (TypeTag_v1_u128 v) TypeTag_U128 \<longleftrightarrow> True"
| "same_primitive (TypeTag_v1_Address v) TypeTag_Address \<longleftrightarrow> length v = 16"
| "same_primitive (TypeTag_v1_signer v) TypeTag_Signer \<longleftrightarrow> length v < 2 ^ 64"
| "same_primitive _ _ \<longleftrightarrow> False"

lemma le_split_not_Nil: "0 < n \<Longrightarrow> le_split n v \<noteq> []"
  by (metis length_le_split length_greater_0_conv)

lemma serde_integral_new: "is_serialization s \<Longrightarrow> write_with (serde_integral n) v s = Inr ((), bs_put (le_split n v) s)"
  by (simp add: write_with_def serde_integral_def act_bind_def act_return_def bs_put_def)

lemma write_primitive:
  assumes "same_primitive p q"
  shows "\<exists>payload. payload \<noteq> [] \<and>
    (\<forall>s. is_serialization s \<longrightarrow> write_TypeTag_v1 p s = Inr ((), bs_put (enc (doc_TypeTag q) @ payload) s))"
  using assms
proof (induction p q rule: same_primitive.induct)
  case (1 v)
  show ?case
    by (intro exI [of _ "[of_bool v]"])
      (simp add: act_bind_def act_return_def write_index_put write_with_def serde_bool_def serde_integral_def bs_put_def)
next
  case (2 v)
  show ?case by (intro exI [of _ "le_split 1 v"]) (simp add: act_bind_def write_index_put serde_integral_new le_split_not_Nil del: le_split.simps)
next
  case (3 v)
  show ?case by (intro exI [of _ "le_split 8 v"]) (simp add: act_bind_def write_index_put serde_integral_new le_split_not_Nil del: le_split.simps)
next
  case (4 v)
  show ?case by (intro exI [of _ "le_split 16 v"]) (simp add: act_bind_def write_index_put serde_integral_new le_split_not_Nil del: le_split.simps)
next
  case (5 v)
  then show ?case
    by (intro exI [of _ "enc (doc_array 16 doc_u8 v)"])
      (auto simp: act_bind_def write_index_put write_tag_fields doc_array_def doc_u8_def list_all_iff)
next
  case (6 v)
  then show ?case
    by (intro exI [of _ "enc (Doc_Str v)"]) (auto simp: act_bind_def write_index_put write_tag_fields uleb128_not_Nil)
qed simp_all

lemma primitive_param_key:
  assumes "same_primitive p q"
    and "bcsSerialize_ResourcePath (ResourcePath_StructTag
      (StructTag \<lparr>AccountAddress_value = a\<rparr> \<lparr>Identifier_value = m\<rparr> \<lparr>Identifier_value = n\<rparr> [q])) = Inr key"
  shows "\<exists>payload. payload \<noteq> [] \<and> access_path_bytes (AccessPath_v1_StructTag (StructTag_v1 a m n [p])) = Inr (key @ payload)"
proof -
  let ?tag = "StructTag \<lparr>AccountAddress_value = a\<rparr> \<lparr>Identifier_value = m\<rparr> \<lparr>Identifier_value = n\<rparr> [q]"
  obtain payload where payload: "payload \<noteq> []"
    "\<And>s. is_serialization s \<Longrightarrow> write_TypeTag_v1 p s = Inr ((), bs_put (enc (doc_TypeTag q) @ payload) s)"
    using write_primitive [OF assms(1)] by blast
  have ok: "fits (doc_StructTag ?tag)" and key: "key = enc (doc_ResourcePath (ResourcePath_StructTag ?tag))"
    using assms(2) unfolding bcsSerialize_ResourcePath_iff by (auto simp: doc_ResourcePath_def)
  have "lengths_below (2 ^ 64) (doc_StructTag ?tag)" by (rule fits_lengths_below [OF ok])
  then have "access_path_bytes (AccessPath_v1_StructTag (StructTag_v1 a m n [p])) = Inr (key @ payload)"
    by (simp add: access_path_bytes_def act_bind_def act_return_def write_index_put sum_bind_def key doc_ResourcePath_def write_tag_fields
        payload(2) doc_AccountAddress_def doc_Identifier_def)
  with payload(1) show ?thesis by blast
qed

text \<open>No path starts with another one: a path with bytes behind it is that of no resource.\<close>

lemma no_path_behind:
  assumes "bcsSerialize_ResourcePath (ResourcePath_StructTag t) = Inr key" and "typed (doc_StructTag t)"
    and "bcsSerialize_ResourcePath (ResourcePath_StructTag u) = Inr (key @ payload)" and "typed (doc_StructTag u)"
  shows "payload = []"
proof -
  have t: "fits (doc_StructTag t)" "depth (doc_StructTag t) < 2 ^ 64" "key = enc (doc_ResourcePath (ResourcePath_StructTag t))"
    and u: "fits (doc_StructTag u)" "depth (doc_StructTag u) < 2 ^ 64"
      "key @ payload = enc (doc_ResourcePath (ResourcePath_StructTag u))"
    using assms(1,3) unfolding bcsSerialize_ResourcePath_iff by (auto simp: doc_ResourcePath_def)
  then have same: "enc (doc_StructTag t) @ payload = enc (doc_StructTag u)" by (simp add: doc_ResourcePath_def)
  then have "t = u"
    using StructTag_codec.prefix_free [of t u payload "[]"] assms(2,4) t(1,2) u(1,2) by (simp add: wf_doc_def)
  with same show ?thesis by simp
qed

section \<open>Resources\<close>

lemma AccountState_from_hex_eq: "AccountState_from_hex = AccountState2"
  by (auto simp: fun_eq_iff AccountState_from_hex_def AccountState2_def sum_bind_def split: sum.splits prod.splits)

text \<open>What both clients find, when the service has a state of the account.\<close>

lemma AccountState_resource:
  assumes "struct_params tag" and "bcsSerialize_ResourcePath (ResourcePath_StructTag tag) = Inr key"
    and "rpc_get_account_state_blob rpc (bytes_to_hex address) w = (Inr asp, w')" and "AccountState_blob asp \<noteq> []"
  shows "fst (AccountState_get_resource rpc f init address (v1_StructTag tag) (old, w)) =
      sum_bind (AccountState2 (AccountState_blob asp)) (\<lambda>m. get_resource f init m tag)"
    and "snd (snd (AccountState_get_resource rpc f init address (v1_StructTag tag) (old, w))) = w'"
  using assms
  by (auto simp: AccountState_get_resource_def AccountState_get_account_state_def AccountState_from_hex_eq access_path_struct [OF assms(1,2)]
      eff_bind_def eff_fst_def eff_snd_def eff_lift_def eff_modify_def eff_get_def eff_return_def sum_bind_def get_resource_def
      split: sum.splits option.splits prod.splits)

end
