(* ===== verification/Nft_V1.thy ===== *)
theory Nft_V1
  imports Account_State_V1 Command Nft_Store_2_Main
begin

text \<open>
  The first client for tokens (\<open>src/cpp/sdk/include/nft.hpp\<close>, \<open>nft.cpp\<close>) over the first-generation client, the tokens of type
  \<open>Tea\<close> (\<open>src/cpp/nft/src/tea.hpp\<close>) and the command line program over both (\<open>src/cpp/nft/src/main.cpp\<close>).

  The record \<open>nft_client\<close> holds what is called: the operations of the Rust library, the JSON-RPC client that is made from a
  URL, and the dialogue in which the members of a new token are typed. The resources and events are those
  of \<open>Sdk_Resource\<close>. The lemmas follow a query from the text of the account to its answer.
\<close>

section \<open>The clients below\<close>

record 'a token_v1 =
  token1_serde :: "'a serde_op"
  token1_init :: 'a
  token1_module_address :: Address
  token1_module_name :: cstring
  token1_resource_name :: cstring

definition token1_type_tag :: "'a token_v1 \<Rightarrow> RustTypeTag" where
  "token1_type_tag T = \<lparr>tag_address = token1_module_address T, tag_module_name = token1_module_name T,
     tag_resource_name = token1_resource_name T\<rparr>"

record tea_form =
  form_kind :: u64
  form_manufacturer :: cstring
  form_PA :: cstring
  form_date :: u64
  form_SN :: cstring
  form_url :: cstring

record 'w nft_client =
  nft_create :: "Arguments \<Rightarrow> ('w, unit) eff"
  nft_do :: "rust_call \<Rightarrow> ('w, unit) eff"
  nft_scripts :: "'w rust_client"
  nft_accounts :: "('w, RustAccount list) eff"
  nft_create_next_account :: "Address option \<Rightarrow> ('w, AddressAndIndex) eff"
  nft_rpc :: "cstring \<Rightarrow> 'w rpc_client"
  nft_form :: "('w, tea_form) eff"

definition VIOLAS_STDLIB_ADDRESS :: Address where
  "VIOLAS_STDLIB_ADDRESS = replicate 15 0 @ [2]"

definition VIOLAS_ROOT_ADDRESS :: Address where
  "VIOLAS_ROOT_ADDRESS = replicate 12 0 @ [0x0A, 0x55, 0x0C, 0x18]"

section \<open>Operations\<close>

text \<open>A script with the type of the tokens.\<close>

definition token_script ::
    "'w nft_client \<Rightarrow> 'a token_v1 \<Rightarrow> u64 \<Rightarrow> string \<Rightarrow> TransactionAugment list \<Rightarrow> ('w, unit) eff" where
  "token_script nc T account_index file_name args =
     rust_execute_script_file (nft_scripts nc) account_index (str file_name) [token1_type_tag T] args"

definition publish_or_report_v1 :: "'w nft_client \<Rightarrow> string \<Rightarrow> ('w, unit) eff" where
  "publish_or_report_v1 nc module' =
     eff_catch (rust_publish_module (nft_scripts nc) VIOLAS_ROOT_ACCOUNT_ID (str module')) (eff_return ())"

definition deploy_v1 :: "'w nft_client \<Rightarrow> ('w, unit) eff" where
  "deploy_v1 nc =
     eff_bind (nft_do nc (Call_allow_publishing_module True)) (\<lambda>_.
     eff_bind (nft_do nc Call_allow_custom_script) (\<lambda>_.
     eff_bind (publish_or_report_v1 nc ''move/stdlib/modules/Compare.mv'') (\<lambda>_.
     eff_bind (publish_or_report_v1 nc ''move/stdlib/modules/Map.mv'') (\<lambda>_.
     eff_bind (publish_or_report_v1 nc ''move/stdlib/modules/NonFungibleToken.mv'') (\<lambda>_.
     publish_or_report_v1 nc ''move/tea/modules/MountWuyi.mv'')))))"

definition accept_v1 :: "'w nft_client \<Rightarrow> 'a token_v1 \<Rightarrow> u64 \<Rightarrow> ('w, unit) eff" where
  "accept_v1 nc T account_index = token_script nc T account_index ''move/stdlib/scripts/nft_accept.mv'' []"

text \<open>\<open>accounts[0]\<close>, without a check.\<close>

definition first_account :: "'w nft_client \<Rightarrow> ('w, RustAccount) eff" where
  "first_account nc =
     eff_bind (nft_accounts nc) (\<lambda>accounts.
     case accounts of [] \<Rightarrow> eff_throw (Undefined_behaviour ''accounts[0]'') | admin' # _ \<Rightarrow> eff_return admin')"

definition register_instance_v1 :: "'w nft_client \<Rightarrow> 'a token_v1 \<Rightarrow> u64 \<Rightarrow> ('w, unit) eff" where
  "register_instance_v1 nc T total_number =
     eff_bind (first_account nc) (\<lambda>admin'.
     eff_bind (eff_catch
       (nft_do nc (Call_create_parent_vasp_account (str ''VLS'') 0 (rust_address admin') (rust_auth_key admin') (str ''NFT VASP'') []
          (rust_pub_key admin') True))
       (eff_return ())) (\<lambda>_.
     eff_bind (token_script nc T VIOLAS_ROOT_ACCOUNT_ID ''move/stdlib/scripts/nft_register.mv''
       [Augment_U64 total_number, Augment_Address (rust_address admin')]) (\<lambda>_.
     accept_v1 nc T (rust_index admin'))))"

definition burn_v1 :: "'w nft_client \<Rightarrow> 'a token_v1 \<Rightarrow> u8 list \<Rightarrow> ('w, unit) eff" where
  "burn_v1 nc T token_id =
     eff_bind (first_account nc) (\<lambda>admin'.
     token_script nc T (rust_index admin') ''move/stdlib/scripts/nft_burn.mv'' [Augment_Bytes token_id])"

definition transfer_by_token_index_v1 ::
    "'w nft_client \<Rightarrow> 'a token_v1 \<Rightarrow> u64 \<Rightarrow> Address \<Rightarrow> u64 \<Rightarrow> u8 list \<Rightarrow> ('w, unit) eff" where
  "transfer_by_token_index_v1 nc T account_index receiver token_index metadata =
     token_script nc T account_index ''move/stdlib/scripts/nft_transfer_by_token_index.mv''
       [Augment_Address receiver, Augment_U64 token_index, Augment_Bytes metadata]"

definition transfer_by_token_id_v1 ::
    "'w nft_client \<Rightarrow> 'a token_v1 \<Rightarrow> u64 \<Rightarrow> Address \<Rightarrow> u8 list \<Rightarrow> u8 list \<Rightarrow> ('w, unit) eff" where
  "transfer_by_token_id_v1 nc T account_index receiver token_id metadata =
     token_script nc T account_index ''move/stdlib/scripts/nft_transfer_by_token_id.mv''
       [Augment_Address receiver, Augment_Bytes token_id, Augment_Bytes metadata]"

section \<open>Queries\<close>

text \<open>Every query makes an \<open>AccountState\<close> of its own.\<close>

definition new_account_state :: "(resources \<times> 'w, 'a) eff \<Rightarrow> ('w, 'a) eff" where
  "new_account_state m w = (case m ([], w) of (r, (resources', w')) \<Rightarrow> (r, w'))"

definition token_tag_v1 :: "'a token_v1 \<Rightarrow> string \<Rightarrow> StructTag_v1" where
  "token_tag_v1 T resource_name =
     StructTag_v1 (replicate 15 0 @ [2]) (str ''NonFungibleToken'') (str resource_name)
       [TypeTag_v1_StructTag (StructTag_v1 (token1_module_address T) (token1_module_name T) (token1_resource_name T) [])]"

definition balance_v1 :: "'w nft_client \<Rightarrow> cstring \<Rightarrow> 'a token_v1 \<Rightarrow> Address \<Rightarrow> ('w, 'a list option) eff" where
  "balance_v1 nc url T addr =
     eff_catch
       (new_account_state (AccountState_get_resource (nft_rpc nc url) (serde_container (token1_init T) (token1_serde T)) [] addr
          (token_tag_v1 T ''NFT'')))
       (eff_return None)"

definition get_nft_info_v1 :: "'w nft_client \<Rightarrow> cstring \<Rightarrow> 'a token_v1 \<Rightarrow> ('w, NftInfo option) eff" where
  "get_nft_info_v1 nc url T =
     new_account_state (AccountState_get_resource (nft_rpc nc url) serde_NftInfo no_NftInfo VIOLAS_ROOT_ADDRESS
       (token_tag_v1 T ''Configuration''))"

definition get_owner_v1 :: "'w nft_client \<Rightarrow> cstring \<Rightarrow> 'a token_v1 \<Rightarrow> u8 list \<Rightarrow> ('w, Address option) eff" where
  "get_owner_v1 nc url T token_id =
     eff_bind (get_nft_info_v1 nc url T) (\<lambda>opt_nft_info.
     eff_return (case opt_nft_info of None \<Rightarrow> None | Some info \<Rightarrow> map_of (owners info) token_id))"

definition no_NftAccount :: NftAccount where
  "no_NftAccount = \<lparr>sent_event = no_handle, received_event = no_handle\<rparr>"

definition get_account_v1 :: "'w nft_client \<Rightarrow> cstring \<Rightarrow> 'a token_v1 \<Rightarrow> Address \<Rightarrow> ('w, NftAccount option) eff" where
  "get_account_v1 nc url T address =
     new_account_state (AccountState_get_resource (nft_rpc nc url) serde_NftAccount no_NftAccount address (token_tag_v1 T ''Account''))"

fun get_event_handle_v1 :: "'w nft_client \<Rightarrow> cstring \<Rightarrow> 'a token_v1 \<Rightarrow> EventType \<Rightarrow> Address \<Rightarrow> ('w, EventHandle option) eff" where
  "get_event_handle_v1 nc url T minted address =
     eff_bind (get_nft_info_v1 nc url T) (\<lambda>info. eff_return (map_option mint_event info))"
| "get_event_handle_v1 nc url T burned address =
     eff_bind (get_nft_info_v1 nc url T) (\<lambda>info. eff_return (map_option burn_event info))"
| "get_event_handle_v1 nc url T sent address =
     eff_bind (get_account_v1 nc url T address) (\<lambda>account. eff_return (map_option sent_event account))"
| "get_event_handle_v1 nc url T received address =
     eff_bind (get_account_v1 nc url T address) (\<lambda>account. eff_return (map_option received_event account))"

definition query_events_v1 ::
    "'w nft_client \<Rightarrow> cstring \<Rightarrow> 'a Event_scheme serde_op \<Rightarrow> 'a Event_scheme \<Rightarrow> EventHandle \<Rightarrow> u64 \<Rightarrow> u64 \<Rightarrow>
     ('w, 'a Event_scheme list) eff" where
  "query_events_v1 nc url f init event_handle start limit =
     eff_bind (rpc_get_events (nft_rpc nc url) (bytes_to_hex (guid event_handle)) start limit) (\<lambda>events.
     eff_lift (query_events f init (map event_data events)))"

section \<open>Tea\<close>

record Tea =
  tea_kind :: u8
  tea_manufacture :: "u8 list"
  tea_PA :: "u8 list"
  tea_PD :: u64
  tea_SN :: "u8 list"
  tea_url :: "u8 list"

definition serde_Tea :: "Tea serde_op" where
  "serde_Tea t =
     act_bind (serde_integral 1 (tea_kind t)) (\<lambda>kind'.
     act_bind (serde_bytes (tea_manufacture t)) (\<lambda>manufacture'.
     act_bind (serde_bytes (tea_PA t)) (\<lambda>PA'.
     act_bind (serde_integral 8 (tea_PD t)) (\<lambda>PD'.
     act_bind (serde_bytes (tea_SN t)) (\<lambda>SN'.
     act_bind (serde_bytes (tea_url t)) (\<lambda>url'.
     act_return \<lparr>tea_kind = kind', tea_manufacture = manufacture', tea_PA = PA', tea_PD = PD', tea_SN = SN', tea_url = url'\<rparr>))))))"

definition Tea_type_v1 :: "Tea token_v1" where
  "Tea_type_v1 = \<lparr>token1_serde = serde_Tea,
     token1_init = \<lparr>tea_kind = 0, tea_manufacture = [], tea_PA = [], tea_PD = 0, tea_SN = [], tea_url = []\<rparr>,
     token1_module_address = VIOLAS_STDLIB_ADDRESS, token1_module_name = str ''MountWuyi'', token1_resource_name = str ''Tea''\<rparr>"

definition doc_Tea :: "Tea \<Rightarrow> bcs_doc" where
  "doc_Tea t = Doc_Tuple [doc_word 1 (tea_kind t), doc_vector doc_u8 (tea_manufacture t), doc_vector doc_u8 (tea_PA t),
     doc_word 8 (tea_PD t), doc_vector doc_u8 (tea_SN t), doc_vector doc_u8 (tea_url t)]"

interpretation Tea_field: serde_field serde_Tea "\<lambda>t. True" doc_Tea
proof
  fix s and x y :: Tea
  show "is_serialization s \<Longrightarrow> lengths_below (2 ^ 64) (doc_Tea x) \<Longrightarrow> serde_Tea x s = Inr (x, bs_put (enc (doc_Tea x)) s)"
    by (simp add: serde_Tea_def doc_Tea_def act_bind_def act_return_def serde_u8.field_write serde_u64.field_write serde_bytes.field_write
        del: One_nat_def)
  show "serde_Tea y s = Inr (x, bs_advance (length (enc (doc_Tea x))) s)"
    if "\<not> is_serialization s" "lengths_below (2 ^ 28) (doc_Tea x)" "bs_starts (enc (doc_Tea x)) s"
    using that
    by (simp add: serde_Tea_def doc_Tea_def act_bind_def act_return_def add.assoc
        serde_u8.field_read [where x = "tea_kind x"] serde_bytes.field_read [where x = "tea_manufacture x"]
        serde_bytes.field_read [where x = "tea_PA x"] serde_u64.field_read [where x = "tea_PD x"]
        serde_bytes.field_read [where x = "tea_SN x"] serde_bytes.field_read [where x = "tea_url x"] del: One_nat_def)
qed

text \<open>The identifier of a token is the hash of its bytes.\<close>

definition compute_token_id_v1 :: "'k openssl \<Rightarrow> 'a token_v1 \<Rightarrow> 'a \<Rightarrow> u8 list result" where
  "compute_token_id_v1 ssl T t =
     sum_bind (token1_serde T t BcsSerde_new) (\<lambda>(_, serde). Inr (ssl_sha3_256 ssl (bs_bytes serde)))"

text \<open>The members are typed in a dialogue; the token is minted by the first account.\<close>

definition mint_tea_nft :: "'w nft_client \<Rightarrow> Address \<Rightarrow> ('w, unit) eff" where
  "mint_tea_nft nc addr =
     eff_bind (first_account nc) (\<lambda>admin'.
     eff_bind (nft_form nc) (\<lambda>form.
     rust_execute_script_file (nft_scripts nc) (rust_index admin') (str ''move/tea/scripts/mint_mountwuyi_tea_nft.mv'') []
       [Augment_U8 (ucast (form_kind form)), Augment_Bytes (form_manufacturer form), Augment_Bytes (form_PA form),
        Augment_U64 (form_date form), Augment_Bytes (form_SN form), Augment_Bytes (form_url form), Augment_Address addr]))"

section \<open>The program\<close>

definition get_from_stream_v1 :: "'w nft_client \<Rightarrow> u8 list \<Rightarrow> istream \<Rightarrow> ('w, Address \<times> istream) eff" where
  "get_from_stream_v1 nc junk params =
     eff_bind (check_istream_eof params ''index or address'') (\<lambda>_.
     let (temp, params') = get_word [] params
     in if length temp = 32
        then eff_bind (eff_lift (get_array junk (istringstream temp))) (\<lambda>(addr, _). eff_return (addr, params'))
        else eff_bind (nft_accounts nc) (\<lambda>accounts.
          let (account_index, _) = get_int (- 1) (istringstream temp)
          in if account_index < 0 \<or> length accounts \<le> nat account_index
             then eff_throw (Invalid_argument ''account index is out of account size.'')
             else eff_return (rust_address (accounts ! nat account_index), params')))"

definition tea_deploy :: "'w nft_client \<Rightarrow> 'w command" where
  "tea_deploy nc params = deploy_v1 nc"

definition tea_register :: "'w nft_client \<Rightarrow> 'w command" where
  "tea_register nc params =
     eff_bind (check_istream_eof params ''NFT total number'') (\<lambda>_.
     register_instance_v1 nc Tea_type_v1 (fst (get_u64 1000 params)))"

definition tea_accept :: "'w nft_client \<Rightarrow> 'w command" where
  "tea_accept nc params = accept_v1 nc Tea_type_v1 (fst (get_u64 0 params))"

definition tea_mint :: "'w nft_client \<Rightarrow> uninit \<Rightarrow> 'w command" where
  "tea_mint nc junk params =
     eff_bind (get_from_stream_v1 nc (uninit_address junk) params) (\<lambda>(addr, _). mint_tea_nft nc addr)"

definition tea_burn :: "'w nft_client \<Rightarrow> uninit \<Rightarrow> 'w command" where
  "tea_burn nc junk params =
     eff_bind (eff_lift (get_array (uninit_id junk) params)) (\<lambda>(token_id, _). burn_v1 nc Tea_type_v1 token_id)"

definition tea_transfer :: "'w nft_client \<Rightarrow> uninit \<Rightarrow> 'w command" where
  "tea_transfer nc junk params =
     eff_bind (check_istream_eof params ''usage : transfer account_index account_address token_id_or_index metadata'') (\<lambda>_.
     let (account_index, params1) = get_u64 0 params
     in eff_bind (check_istream_eof params1 ''receiver address'') (\<lambda>_.
        eff_bind (get_from_stream_v1 nc (uninit_address junk) params1) (\<lambda>(receiver, params2).
        eff_bind (check_istream_eof params2 ''index or token id'') (\<lambda>_.
        let (token_id_or_index, params3) = get_word [] params2;
            metadata = (if is_eof params3 then [] else fst (get_word [] params3))
        in if length token_id_or_index = 64
           then eff_bind (eff_lift (get_array (uninit_id junk) (istringstream token_id_or_index))) (\<lambda>(token_id, _).
                transfer_by_token_id_v1 nc Tea_type_v1 account_index receiver token_id metadata)
           else transfer_by_token_index_v1 nc Tea_type_v1 account_index receiver
                  (fst (get_u64 (uninit_index junk) (istringstream token_id_or_index))) metadata))))"

definition tea_balance :: "'w nft_client \<Rightarrow> cstring \<Rightarrow> uninit \<Rightarrow> 'w command" where
  "tea_balance nc url junk params =
     eff_bind (get_from_stream_v1 nc (uninit_address junk) params) (\<lambda>(addr, _).
     eff_bind (balance_v1 nc url Tea_type_v1 addr) (\<lambda>_. eff_return ()))"

definition tea_owner :: "'w nft_client \<Rightarrow> cstring \<Rightarrow> uninit \<Rightarrow> 'w command" where
  "tea_owner nc url junk params =
     eff_bind (eff_lift (get_array (uninit_id junk) params)) (\<lambda>(id', _).
     eff_bind (get_owner_v1 nc url Tea_type_v1 id') (\<lambda>_. eff_return ()))"

definition tea_trace :: "'w nft_client \<Rightarrow> cstring \<Rightarrow> uninit \<Rightarrow> 'w command" where
  "tea_trace nc url junk params =
     eff_bind (check_istream_eof params ''token id'') (\<lambda>_.
     eff_bind (eff_lift (get_array (uninit_id junk) params)) (\<lambda>(token_id, _).
     eff_bind (get_owner_v1 nc url Tea_type_v1 token_id) (\<lambda>_. eff_return ())))"

definition tea_info :: "'w nft_client \<Rightarrow> cstring \<Rightarrow> 'w command" where
  "tea_info nc url params = eff_bind (get_nft_info_v1 nc url Tea_type_v1) (\<lambda>_. eff_return ())"

definition tea_create_child_account :: "'w nft_client \<Rightarrow> uninit \<Rightarrow> 'w command" where
  "tea_create_child_account nc junk params =
     eff_bind (check_istream_eof params ''authentication key'') (\<lambda>_.
     eff_bind (eff_lift (get_array (uninit_id junk) params)) (\<lambda>(auth_key, _).
     nft_do nc (Call_create_child_vasp_account (str ''VLS'') 0 (take 16 (drop 16 auth_key)) auth_key True 0 True)))"

definition tea_add_account :: "'w nft_client \<Rightarrow> 'w command" where
  "tea_add_account nc params = eff_bind (nft_create_next_account nc None) (\<lambda>_. eff_return ())"

definition tea_list_accounts :: "'w nft_client \<Rightarrow> 'w command" where
  "tea_list_accounts nc params = eff_bind (nft_accounts nc) (\<lambda>_. eff_return ())"

definition show_tea_events ::
    "'w nft_client \<Rightarrow> cstring \<Rightarrow> EventType \<Rightarrow> 'a Event_scheme serde_op \<Rightarrow> 'a Event_scheme \<Rightarrow> Address \<Rightarrow> u64 \<Rightarrow> u64 \<Rightarrow> ('w, unit) eff" where
  "show_tea_events nc url type' f init addr start limit =
     eff_bind (get_event_handle_v1 nc url Tea_type_v1 type' addr) (\<lambda>opt_event_handle.
     case opt_event_handle of
       None \<Rightarrow> eff_throw (Runtime_error (''event handle doesn'' @ [CHR 0x27] @ ''t exist.''))
     | Some handle \<Rightarrow> eff_bind (query_events_v1 nc url f init handle start limit) (\<lambda>_. eff_return ()))"

definition tea_query_events :: "'w nft_client \<Rightarrow> cstring \<Rightarrow> uninit \<Rightarrow> 'w command" where
  "tea_query_events nc url junk params =
     eff_bind (check_istream_eof params ''(usage) : query_event [minted, burned, sent, received] address start limit'') (\<lambda>_.
     let (event_type, params1) = get_word [] params
     in eff_bind (get_from_stream_v1 nc (uninit_address junk) params1) (\<lambda>(addr, params2).
        let (start, params3) = (if is_eof params2 then (0, params2) else get_u64 0 params2);
            (limit, _) = (if is_eof params3 then (10, params3) else get_u64 10 params3)
        in if event_type = str ''minted'' then show_tea_events nc url minted serde_MintedEvent no_MintedEvent addr start limit
           else if event_type = str ''burned'' then show_tea_events nc url burned serde_BurnedEvent no_BurnedEvent addr start limit
           else if event_type = str ''sent'' then show_tea_events nc url sent serde_SentEvent no_SentEvent addr start limit
           else if event_type = str ''received'' then show_tea_events nc url received serde_ReceivedEvent no_ReceivedEvent addr start limit
           else eff_throw (Invalid_argument ''event type is invalid, please input [minted, burned, sent, received]'')))"

definition tea_commands :: "'w nft_client \<Rightarrow> cstring \<Rightarrow> uninit \<Rightarrow> (cstring \<times> 'w command) list" where
  "tea_commands nc url junk =
     [(str ''deploy'', tea_deploy nc),
      (str ''register'', tea_register nc),
      (str ''accept'', tea_accept nc),
      (str ''mint'', tea_mint nc junk),
      (str ''burn'', tea_burn nc junk),
      (str ''transfer'', tea_transfer nc junk),
      (str ''balance'', tea_balance nc url junk),
      (str ''owner'', tea_owner nc url junk),
      (str ''trace'', tea_trace nc url junk),
      (str ''info'', tea_info nc url),
      (str ''create_child_account'', tea_create_child_account nc junk),
      (str ''add-account'', tea_add_account nc),
      (str ''list-accounts'', tea_list_accounts nc),
      (str ''query-events'', tea_query_events nc url junk)]"

definition tea_session :: "'w nft_client \<Rightarrow> cstring \<Rightarrow> uninit \<Rightarrow> cstring list \<Rightarrow> ('w \<times> Console, unit) eff" where
  "tea_session nc url junk lines =
     eff_bind (eff_fst (nft_create_next_account nc None)) (\<lambda>_.
     eff_bind (eff_snd (eff_modify (add_completion (str ''exit'')))) (\<lambda>_.
     eff_bind (eff_snd (eff_modify (fold add_completion (sort (map fst (tea_commands nc url junk)))))) (\<lambda>_.
     eff_bind (eff_fst (tea_list_accounts nc (istringstream []))) (\<lambda>_.
     line_loop (tea_commands nc url junk) lines))))"

text \<open>\<open>main\<close>; exceptions are reported, and the program ends without one.\<close>

definition tea_main :: "'w nft_client \<Rightarrow> uninit \<Rightarrow> nat \<Rightarrow> (char \<times> cstring) list \<Rightarrow> cstring list \<Rightarrow> ('w \<times> Console, unit) eff" where
  "tea_main nc junk argc options lines =
     (if argc < 9 then eff_return ()
      else eff_catch
        (eff_bind (eff_lift (parse_command_line options Arguments_new)) (\<lambda>args.
         eff_bind (eff_fst (nft_create nc args)) (\<lambda>_.
         tea_session nc (arg_url args) junk lines)))
        (eff_return ()))"

lemma tea_commands_distinct: "distinct (map fst (tea_commands nc url junk))"
  by (simp add: tea_commands_def str_def)

section \<open>What a query answers\<close>

text \<open>The tag of a resource of the tokens, and the tag of the framework it stands for.\<close>

definition framework_tag :: "'a token_v1 \<Rightarrow> string \<Rightarrow> StructTag" where
  "framework_tag T resource_name =
     StructTag VIOLAS_LIB_ADDRESS \<lparr>Identifier_value = str ''NonFungibleToken''\<rparr> \<lparr>Identifier_value = str resource_name\<rparr>
       [make_struct_type_tag \<lparr>AccountAddress_value = token1_module_address T\<rparr> (token1_module_name T) (token1_resource_name T)]"

lemma token_tag_v1_eq: "token_tag_v1 T resource_name = v1_StructTag (framework_tag T resource_name)"
  "struct_params (framework_tag T resource_name)"
  by (simp_all add: token_tag_v1_def framework_tag_def make_struct_type_tag_def VIOLAS_LIB_ADDRESS_def)

lemma resource_served_v1:
  assumes "blob_served (rpc_get_account_state_blob rpc) \<lparr>AccountAddress_value = address\<rparr> entries w w'"
    and "bcsSerialize_ResourcePath (ResourcePath_StructTag (framework_tag T resource_name)) = Inr key"
    and "serde_field f invar doc" and "invar init" and "invar x" and "lengths_below (2 ^ 28) (doc x)"
    and "map_of entries key = Some (enc (doc x) @ rest)"
  shows "new_account_state (AccountState_get_resource rpc f init address (token_tag_v1 T resource_name)) w = (Inr (Some x), w')"
proof (rule account_state_of_served [OF assms(1)])
  fix asp m
  assume asp: "rpc_get_account_state_blob rpc (bytes_to_hex (AccountAddress_value \<lparr>AccountAddress_value = address\<rparr>)) w = (Inr asp, w')"
    and st: "account_state_of asp = Inr (Some m)" and m: "map_of m = map_of entries"
  have ne: "AccountState_blob asp \<noteq> []" and state: "AccountState2 (AccountState_blob asp) = Inr m"
    using st by (auto simp: account_state_of_def sum_bind_def split: if_splits sum.splits)
  have "get_resource f init m (framework_tag T resource_name) = Inr (Some x)"
    by (rule get_resource_prefix [OF assms(3-6,2)]) (simp add: m assms(7))
  with AccountState_resource [OF token_tag_v1_eq(2) assms(2), of rpc address w asp w' f init "[]"] asp ne state
  show ?thesis by (simp add: new_account_state_def token_tag_v1_eq(1) sum_bind_def prod_eq_iff split_beta)
qed

lemma tokens_served_v1:
  assumes "blob_served (rpc_get_account_state_blob (nft_rpc nc url)) \<lparr>AccountAddress_value = addr\<rparr> entries w w'"
    and "bcsSerialize_ResourcePath (ResourcePath_StructTag (framework_tag T ''NFT'')) = Inr key"
    and "serde_field (token1_serde T) invar doc" and "invar (token1_init T)" and "list_all invar tokens"
    and "lengths_below (2 ^ 28) (doc_vector doc tokens)" and "map_of entries key = Some (enc (doc_vector doc tokens) @ rest)"
  shows "balance_v1 nc url T addr w = (Inr (Some tokens), w')"
proof -
  have "serde_field (serde_container (token1_init T) (token1_serde T)) (list_all invar) (doc_vector doc)"
    by (rule serde_field.container_field [OF assms(3,4)])
  from resource_served_v1 [OF assms(1,2) this _ assms(5,6,7)] show ?thesis
    by (simp add: balance_v1_def eff_catch_def)
qed

lemma nft_info_served_v1:
  assumes "blob_served (rpc_get_account_state_blob (nft_rpc nc url)) \<lparr>AccountAddress_value = VIOLAS_ROOT_ADDRESS\<rparr> entries w w'"
    and "bcsSerialize_ResourcePath (ResourcePath_StructTag (framework_tag T ''Configuration'')) = Inr key"
    and "length (admin info) = 16" and "owners_ok (owners info)" and "lengths_below (2 ^ 28) (doc_NftInfo info)"
    and "map_of entries key = Some (enc (doc_NftInfo info) @ rest)"
  shows "get_nft_info_v1 nc url T w = (Inr (Some info), w')"
    and "get_owner_v1 nc url T token_id w = (Inr (map_of (owners info) token_id), w')"
proof -
  show "get_nft_info_v1 nc url T w = (Inr (Some info), w')"
    unfolding get_nft_info_v1_def
    by (rule resource_served_v1 [OF assms(1,2) NftInfo_field.serde_field_axioms _ _ assms(5,6)])
      (use assms(3,4) in \<open>auto simp: no_NftInfo_def owners_ok_def\<close>)
  then show "get_owner_v1 nc url T token_id w = (Inr (map_of (owners info) token_id), w')"
    by (simp add: get_owner_v1_def eff_bind_def eff_return_def)
qed

end
