(* ===== verification/Samples.thy ===== *)
theory Samples
  imports Nft_Store Nft_Store_2 Meta42 Ssl_Aes
begin

text \<open>
  A concrete environment of the client, at which the properties that depend on code outside the
  repository are applied: an OpenSSL whose keys are their own bytes, a wallet, a JSON-RPC service whose
  world is a clock, and a client started from files; a service that holds resources and events, a database
  that is a list of rows, and a cipher.
\<close>

section \<open>OpenSSL\<close>

definition pad :: "nat \<Rightarrow> u8 list \<Rightarrow> u8 list" where
  "pad n bs = take n (bs @ replicate n 0)"

lemma length_pad [simp]: "length (pad n bs) = n"
  by (simp add: pad_def)

lemma pad_pad [simp]: "pad n (pad n bs) = pad n bs"
  by (simp add: pad_def min_def)

definition sample_ssl :: "u8 list openssl" where
  "sample_ssl = \<lparr>
     ssl_new_private_key = (\<lambda>raw. if length raw = 32 then Some raw else None),
     ssl_raw_private_key = Some,
     ssl_raw_public_key = (\<lambda>k. Some (pad 32 k)),
     ssl_new_public_key = Some,
     ssl_digest_sign = (\<lambda>k data. Inr (pad 64 (pad 32 k @ data))),
     ssl_digest_verify = (\<lambda>p signature data. Inr (signature = pad 64 (p @ data))),
     ssl_sha256 = pad 32,
     ssl_sha3_256 = pad 32,
     ssl_pbkdf2 = (\<lambda>pass salt n len. pad len pass),
     ssl_hmac = (\<lambda>key data. Inr (pad 32 data)),
     ssl_hkdf = (\<lambda>salt key info len. Inr (pad len (rev info))),
     ERR_text = ''''\<rparr>"

lemma sample_ssl_ok: "openssl_ok sample_ssl"
proof -
  have "signs_for sample_ssl k (pad 32 k) (pad 32 k)" for k
    by (simp add: signs_for_def sample_ssl_def)
  moreover have "keys_ok sample_ssl" "hashes_ok sample_ssl"
    by (simp_all add: keys_ok_def hashes_ok_def sample_ssl_def)
  ultimately show ?thesis unfolding openssl_ok_def private_key_def by blast
qed

section \<open>A wallet\<close>

definition abandon_words :: "nat \<Rightarrow> cstring list" where
  "abandon_words n = replicate n (str ''abandon'')"

definition sample_entropy :: "u8 list" where
  "sample_entropy = replicate 33 0"

definition sample_mnemonic :: cstring where
  "sample_mnemonic = join_words (abandon_words 24)"

lemma first_word: "WORDS ! 0 = ''abandon''"
  unfolding WORDS_def by (simp only: nth_Cons_0)

lemma sample_checked: "checked sample_ssl sample_entropy"
  by (simp add: checked_def sample_entropy_def sample_ssl_def pad_def)

lemma sample_entropy_words: "n \<le> 24 \<Longrightarrow> entropy_words sample_entropy n = abandon_words n"
proof -
  assume n: "n \<le> 24"
  have "word_at sample_entropy k = 0" if "k < 24" for k
  proof (rule bit_word_eqI)
    fix b assume "b < LENGTH(64)"
    have "(11 * k + (10 - b)) div 8 < 33" using that by simp
    then show "bit (word_at sample_entropy k) b \<longleftrightarrow> bit 0 b"
      by (simp add: bit_word_at bit_at_def sample_entropy_def)
  qed
  then have "entropy_words sample_entropy n = map (\<lambda>k. str ''abandon'') [0..<n]"
    using n by (simp add: entropy_words_def first_word)
  then show ?thesis by (simp add: abandon_words_def map_replicate_const)
qed

definition sample_wallet :: "u8 list Wallet" where
  "sample_wallet = \<lparr>m_entropy_hash = sample_entropy, m_seed = pad 32 sample_mnemonic,
     main_key = pad 32 sample_mnemonic, m_private_keys = []\<rparr>"

lemma sample_wallet_of: "wallet_of sample_ssl sample_entropy = Inr sample_wallet"
  by (simp add: wallet_of_def sample_entropy_words sample_wallet_def sample_mnemonic_def check_ret_def
      sample_ssl_def Let_def)

lemma sample_generated: "generate_from_mnemonic sample_ssl sample_mnemonic = Inr sample_wallet"
  using generate_from_exported [OF sample_checked, of sample_wallet]
  by (simp add: sample_entropy_words sample_wallet_of sample_mnemonic_def)

lemma sample_history: "wallet_history sample_ssl sample_mnemonic sample_wallet"
  by (rule wallet_history.made) (rule sample_generated)

text \<open>A text that is no word, and the word it is taken for.\<close>

lemma lower_bound_aaa: "lower_bound WORDS (str ''aaa'') = 0"
proof (rule lower_bound_at [OF WORDS_sorted])
  show "str ''aaa'' \<le> str (WORDS ! 0)" unfolding first_word by (simp add: str_def)
qed simp_all

lemma lower_bound_abandon: "lower_bound WORDS (str ''abandon'') = 0"
  using lower_bound_word [OF WORDS_sorted, of 0] by (simp add: first_word)

lemma plain_aaa: "plain_word (str ''aaa'')"
  by (simp add: plain_word_def str_def is_space_def)

section \<open>A client\<close>

text \<open>The world is a clock; the service knows every account, and a transaction from time 3 on.\<close>

definition sample_rpc :: "nat rpc_client" where
  "sample_rpc = \<lparr>
     rpc_submit = (\<lambda>txn. eff_return ()),
     rpc_await_submit2 = (\<lambda>txn. eff_return ()),
     rpc_get_account_transaction = (\<lambda>address sn events w.
       (Inr (if 3 \<le> w then Some \<lparr>TransactionView_vm_status = VMStatus_Executed (str ''executed'')\<rparr> else None), w)),
     rpc_await_get_account_transaction = (\<lambda>address sn events. eff_return None),
     rpc_get_account = (\<lambda>address. eff_return (Some \<lparr>AccountView_address = address, AccountView_sequence_number = 7\<rparr>)),
     rpc_get_account_state_blob = (\<lambda>address. eff_throw Bad_variant_access),
     rpc_await_get_account_state_blob = (\<lambda>address. eff_throw Bad_variant_access),
     rpc_get_events = (\<lambda>key start limit. eff_return []),
     rpc_await_get_events = (\<lambda>key start limit. eff_return [])\<rparr>"

definition sample_env :: "(u8 list, nat) env" where
  "sample_env = \<lparr>env_ssl = sample_ssl, env_rpc = sample_rpc, env_time = of_nat,
     env_file = (\<lambda>w name'. if name' = str ''mint.key'' then Some (32 # replicate 32 9)
       else if name' = str ''mnemonic'' then Some (sample_mnemonic @ str '';0'') else Some [0xA1, 0x1C, 0xEB, 0x0B]),
     env_sleep = (\<lambda>ms w. Suc w)\<rparr>"

definition sample_view :: "AccountAddress \<Rightarrow> AccountView" where
  "sample_view address = \<lparr>AccountView_address = address, AccountView_sequence_number = 7\<rparr>"

definition sample_client :: "u8 list Client2Imp" where
  "sample_client = \<lparr>m_chain_id = 4, m_wallet = sample_wallet, m_opt_root = Some (replicate 32 9),
     m_opt_tc = Some (replicate 32 9), m_opt_dd = Some (replicate 32 9),
     m_accounts = [ACCOUNT_ROOT_ID \<mapsto> sample_view ROOT_ADDRESS, ACCOUNT_TC_ID \<mapsto> sample_view TC_ADDRESS,
       ACCOUNT_DD_ID \<mapsto> sample_view TESTNET_DD_ADDRESS]\<rparr>"

lemma sample_mnemonic_plain: "b \<in> set sample_mnemonic \<Longrightarrow> b \<noteq> 0x3B"
proof -
  have "b \<in> set (join_words (replicate n w)) \<Longrightarrow> b \<in> set w \<or> b = 0x20" for n w
  proof (induction n)
    case (Suc n)
    then show ?case by (cases n) auto
  qed simp
  then show "b \<in> set sample_mnemonic \<Longrightarrow> b \<noteq> 0x3B"
    by (fastforce simp: sample_mnemonic_def abandon_words_def str_def)
qed

lemma sample_started:
  "Client2_create sample_env 4 (str ''mnemonic'') (str ''mint.key'') 0 = (Inr sample_client, 0)"
proof -
  have "takeWhile (\<lambda>b. b \<noteq> 0x3B) (sample_mnemonic @ str '';0'') = sample_mnemonic"
    using sample_mnemonic_plain by (subst takeWhile_append2) (auto simp: str_def)
  moreover have "str ''mnemonic'' \<noteq> str ''mint.key''" "str ''mint.key'' \<noteq> []" by (simp_all add: str_def)
  moreover have "PrivateKey_from_raw_key sample_ssl (replicate 32 9) = Inr (replicate 32 9)"
    by (simp add: PrivateKey_from_raw_key_def sample_ssl_def check_ret_def ret_of_def)
  moreover have "read_mint_key (32 # replicate 32 9) = Inr (replicate 32 9)"
    by (simp add: read_mint_key_def)
  ultimately show ?thesis
    by (simp add: Client2_create_def open_wallet_def sample_env_def eff_bind_def eff_get_def eff_lift_def eff_return_def
        sample_generated sample_rpc_def sample_client_def sample_view_def cache_account_def)
qed

lemma sample_client_history: "client_history sample_env (sample_client, 0)"
  by (rule client_history.started [OF sample_started])

section \<open>A service with resources and events\<close>

definition sample_blob :: "resources \<Rightarrow> AccountStateWithProof" where
  "sample_blob entries = \<lparr>AccountState_version = 1, AccountState_blob = bytes_to_hex (account_blob entries),
     ledger_info_to_transaction_info_proof = [], transaction_info = [], transaction_info_to_account_proof = []\<rparr>"

definition sample_event_view :: "SharedTokenEvent \<Rightarrow> EventView" where
  "sample_event_view x = \<lparr>EventView_key = [], EventView_sequence_number = sequence_number x,
     EventView_transaction_version = transaction_version x, EventView_event = enc (doc_SharedTokenEvent x)\<rparr>"

definition serving_env :: "(cstring \<Rightarrow> resources) \<Rightarrow> SharedTokenEvent list \<Rightarrow> (u8 list, nat) env" where
  "serving_env entries log = sample_env\<lparr>env_rpc := sample_rpc\<lparr>
     rpc_get_account_state_blob := (\<lambda>address. eff_return (sample_blob (entries address))),
     rpc_await_get_account_state_blob := (\<lambda>address. eff_return (sample_blob (entries address))),
     rpc_await_get_events := (\<lambda>key start limit. eff_return
       (map sample_event_view (take (unat limit) (drop (unat start) log))))\<rparr>\<rparr>"

lemma serving_env_serves:
  assumes "entries (bytes_to_hex (AccountAddress_value address)) = es" and "distinct (map fst es)"
    and "lengths_below (2 ^ 28) (doc_resources es)" and "length (enc (doc_resources es)) < 2 ^ 28"
  shows "serves_resources (serving_env entries log) address es w w"
    and "await_serves_resources (serving_env entries log) address es w w"
  using assms by (simp_all add: blob_served_def serving_env_def sample_blob_def eff_return_def)

lemma sample_event_answers: "map event_data (map sample_event_view xs) = event_answers xs"
  by (simp add: event_answers_def event_data_def sample_event_view_def)

lemma serving_env_log: "serves_history (serving_env entries log) log"
  using sample_event_answers
  by (auto simp: serves_history_def serves_log_def serving_env_def eff_return_def simp del: map_map)

lemma serving_env_events:
  "rpc_await_get_events (env_rpc (serving_env entries log)) key start limit w =
     (Inr (map sample_event_view (take (unat limit) (drop (unat start) log))), w)"
  by (simp add: serving_env_def eff_return_def)

section \<open>A database\<close>

definition sample_storage :: "SharedTokenHistory list storage" where
  "sample_storage = \<lparr>sync_schema = eff_return (), storage_count = eff_get length,
     storage_insert = (\<lambda>h. eff_modify (\<lambda>rows. rows @ [h\<lparr>history_sn := next_sn rows\<rparr>])),
     db_exec = (\<lambda>sql rows. rows)\<rparr>"

lemma sample_storage_ok: "storage_ok sample_storage (\<lambda>rows. rows)"
  by (auto simp: storage_ok_def sample_storage_def eff_return_def eff_get_def eff_modify_def)

section \<open>A cipher\<close>

text \<open>The key is not used: a block is combined with the initialisation vector only.\<close>

definition xor_bytes :: "u8 list \<Rightarrow> u8 list \<Rightarrow> u8 list" where
  "xor_bytes xs ys = map (\<lambda>(x, y). xor x y) (zip xs ys)"

definition sample_aes :: "u8 list aes" where
  "sample_aes = \<lparr>pbkdf2_sha256 = (\<lambda>password salt n len. Some (pad len (password @ salt))), set_encrypt_key = Some,
     set_decrypt_key = Some, cbc_encrypt = (\<lambda>key block iv. (xor_bytes block iv, xor_bytes block iv)),
     cbc_decrypt = (\<lambda>key block iv. (xor_bytes block iv, block))\<rparr>"

lemma xor_bytes_twice: "length xs = length ys \<Longrightarrow> xor_bytes (xor_bytes xs ys) ys = xs"
  unfolding xor_bytes_def by (induction xs ys rule: list_induct2) (simp_all add: xor.assoc)

lemma sample_aes_ok: "aes_ok sample_aes"
  by (auto simp: aes_ok_def sample_aes_def inverse_ciphers_def xor_bytes_twice, simp_all add: xor_bytes_def)

end
