(* ===== verification/Diem_Equality.thy ===== *)
theory Diem_Equality
  imports Diem_Metadata Diem_Transaction
begin

text \<open>
  The equality operators of \<open>src/cpp/framework/src/diem_types.hpp\<close>: \<open>operator==\<close> of every type, member by member, and of the
  containers of the C++ library they are built from. A \<open>std::variant\<close> compares the alternatives, if they are the same one. The
  lemmas show that each operator decides equality.
\<close>

section \<open>Containers\<close>

definition eq_uint128 :: "uint128_t \<Rightarrow> uint128_t \<Rightarrow> bool" where
  "eq_uint128 lhs rhs \<longleftrightarrow> high lhs = high rhs \<and> low lhs = low rhs"

definition eq_vector :: "('a \<Rightarrow> 'a \<Rightarrow> bool) \<Rightarrow> 'a list \<Rightarrow> 'a list \<Rightarrow> bool" where
  "eq_vector eq lhs rhs \<longleftrightarrow> length lhs = length rhs \<and> list_all (\<lambda>(x, y). eq x y) (zip lhs rhs)"

definition eq_array :: "('a \<Rightarrow> 'a \<Rightarrow> bool) \<Rightarrow> 'a list \<Rightarrow> 'a list \<Rightarrow> bool" where
  "eq_array eq lhs rhs \<longleftrightarrow> length lhs = length rhs \<and> list_all (\<lambda>(x, y). eq x y) (zip lhs rhs)"

fun eq_optional :: "('a \<Rightarrow> 'a \<Rightarrow> bool) \<Rightarrow> 'a option \<Rightarrow> 'a option \<Rightarrow> bool" where
  "eq_optional eq (Some x) (Some y) \<longleftrightarrow> eq x y"
| "eq_optional eq None None \<longleftrightarrow> True"
| "eq_optional eq _ _ \<longleftrightarrow> False"

definition eq_tuple2 :: "('a \<Rightarrow> 'a \<Rightarrow> bool) \<Rightarrow> ('b \<Rightarrow> 'b \<Rightarrow> bool) \<Rightarrow> 'a \<times> 'b \<Rightarrow> 'a \<times> 'b \<Rightarrow> bool" where
  "eq_tuple2 eq1 eq2 lhs rhs \<longleftrightarrow> eq1 (fst lhs) (fst rhs) \<and> eq2 (snd lhs) (snd rhs)"

named_theorems decides_equality \<open>equality operators that decide equality\<close>

lemma equality_of_containers [decides_equality]:
  "eq_uint128 = (=)" "eq_vector (=) = ((=) :: 'a list \<Rightarrow> 'a list \<Rightarrow> bool)" "eq_array (=) = ((=) :: 'a list \<Rightarrow> 'a list \<Rightarrow> bool)"
  "eq_optional (=) = ((=) :: 'a option \<Rightarrow> 'a option \<Rightarrow> bool)" "eq_tuple2 (=) (=) = ((=) :: 'a \<times> 'b \<Rightarrow> 'a \<times> 'b \<Rightarrow> bool)"
proof -
  have each: "length xs = length ys \<and> list_all (\<lambda>(x, y). x = y) (zip xs ys) \<longleftrightarrow> xs = ys" for xs ys :: "'c list"
  proof -
    have "length xs = length ys \<and> list_all (\<lambda>(x, y). x = y) (zip xs ys) \<longleftrightarrow> list_all2 (=) xs ys"
      by (simp add: list_all2_iff list_all_iff)
    then show ?thesis by (simp add: list.rel_eq)
  qed
  show "eq_vector (=) = ((=) :: 'a list \<Rightarrow> 'a list \<Rightarrow> bool)" "eq_array (=) = ((=) :: 'a list \<Rightarrow> 'a list \<Rightarrow> bool)"
    by (simp_all add: fun_eq_iff eq_vector_def eq_array_def each)
  show "eq_optional (=) = ((=) :: 'a option \<Rightarrow> 'a option \<Rightarrow> bool)"
  proof (intro ext)
    fix x y :: "'a option"
    show "eq_optional (=) x y = (x = y)" by (cases x; cases y) simp_all
  qed
qed (auto simp: fun_eq_iff eq_uint128_def eq_tuple2_def)

section \<open>Metadata\<close>

definition eq_CoinTradeMetadataV0 :: "CoinTradeMetadataV0 \<Rightarrow> CoinTradeMetadataV0 \<Rightarrow> bool" where
  "eq_CoinTradeMetadataV0 lhs rhs =
     (if \<not> eq_vector (=) (CoinTradeMetadataV0_trade_ids lhs) (CoinTradeMetadataV0_trade_ids rhs) then False
      else True)"

lemma eq_CoinTradeMetadataV0_decides [decides_equality]: "eq_CoinTradeMetadataV0 = (=)"
  by (auto simp: fun_eq_iff eq_CoinTradeMetadataV0_def decides_equality)

definition eq_CoinTradeMetadata_CoinTradeMetadataV0 :: "CoinTradeMetadataV0 \<Rightarrow> CoinTradeMetadataV0 \<Rightarrow> bool" where
  "eq_CoinTradeMetadata_CoinTradeMetadataV0 value1 value2 =
     (if \<not> eq_CoinTradeMetadataV0 value1 value2 then False
      else True)"

definition eq_CoinTradeMetadata :: "CoinTradeMetadata \<Rightarrow> CoinTradeMetadata \<Rightarrow> bool" where
  "eq_CoinTradeMetadata lhs rhs =
     (case lhs of
        CoinTradeMetadata_CoinTradeMetadataV0 value1 \<Rightarrow> (case rhs of CoinTradeMetadata_CoinTradeMetadataV0 value2 \<Rightarrow> eq_CoinTradeMetadata_CoinTradeMetadataV0 value1 value2))"

lemma eq_CoinTradeMetadata_decides [decides_equality]: "eq_CoinTradeMetadata = (=)"
  by (auto simp: fun_eq_iff eq_CoinTradeMetadata_def eq_CoinTradeMetadata_CoinTradeMetadataV0_def decides_equality split: CoinTradeMetadata.split)

definition eq_GeneralMetadataV0 :: "GeneralMetadataV0 \<Rightarrow> GeneralMetadataV0 \<Rightarrow> bool" where
  "eq_GeneralMetadataV0 lhs rhs =
     (if \<not> eq_optional (eq_vector (=)) (GeneralMetadataV0_to_subaddress lhs) (GeneralMetadataV0_to_subaddress rhs) then False
      else if \<not> eq_optional (eq_vector (=)) (GeneralMetadataV0_from_subaddress lhs) (GeneralMetadataV0_from_subaddress rhs) then False
      else if \<not> eq_optional (=) (GeneralMetadataV0_referenced_event lhs) (GeneralMetadataV0_referenced_event rhs) then False
      else True)"

lemma eq_GeneralMetadataV0_decides [decides_equality]: "eq_GeneralMetadataV0 = (=)"
  by (auto simp: fun_eq_iff eq_GeneralMetadataV0_def decides_equality)

definition eq_GeneralMetadata_GeneralMetadataVersion0 :: "GeneralMetadataV0 \<Rightarrow> GeneralMetadataV0 \<Rightarrow> bool" where
  "eq_GeneralMetadata_GeneralMetadataVersion0 value1 value2 =
     (if \<not> eq_GeneralMetadataV0 value1 value2 then False
      else True)"

definition eq_GeneralMetadata :: "GeneralMetadata \<Rightarrow> GeneralMetadata \<Rightarrow> bool" where
  "eq_GeneralMetadata lhs rhs =
     (case lhs of
        GeneralMetadata_GeneralMetadataVersion0 value1 \<Rightarrow> (case rhs of GeneralMetadata_GeneralMetadataVersion0 value2 \<Rightarrow> eq_GeneralMetadata_GeneralMetadataVersion0 value1 value2))"

lemma eq_GeneralMetadata_decides [decides_equality]: "eq_GeneralMetadata = (=)"
  by (auto simp: fun_eq_iff eq_GeneralMetadata_def eq_GeneralMetadata_GeneralMetadataVersion0_def decides_equality split: GeneralMetadata.split)

definition eq_PaymentMetadataV0 :: "PaymentMetadataV0 \<Rightarrow> PaymentMetadataV0 \<Rightarrow> bool" where
  "eq_PaymentMetadataV0 lhs rhs =
     (if \<not> eq_array (=) (PaymentMetadataV0_reference_id lhs) (PaymentMetadataV0_reference_id rhs) then False
      else True)"

lemma eq_PaymentMetadataV0_decides [decides_equality]: "eq_PaymentMetadataV0 = (=)"
  by (auto simp: fun_eq_iff eq_PaymentMetadataV0_def decides_equality)

definition eq_PaymentMetadata_PaymentMetadataVersion0 :: "PaymentMetadataV0 \<Rightarrow> PaymentMetadataV0 \<Rightarrow> bool" where
  "eq_PaymentMetadata_PaymentMetadataVersion0 value1 value2 =
     (if \<not> eq_PaymentMetadataV0 value1 value2 then False
      else True)"

definition eq_PaymentMetadata :: "PaymentMetadata \<Rightarrow> PaymentMetadata \<Rightarrow> bool" where
  "eq_PaymentMetadata lhs rhs =
     (case lhs of
        PaymentMetadata_PaymentMetadataVersion0 value1 \<Rightarrow> (case rhs of PaymentMetadata_PaymentMetadataVersion0 value2 \<Rightarrow> eq_PaymentMetadata_PaymentMetadataVersion0 value1 value2))"

lemma eq_PaymentMetadata_decides [decides_equality]: "eq_PaymentMetadata = (=)"
  by (auto simp: fun_eq_iff eq_PaymentMetadata_def eq_PaymentMetadata_PaymentMetadataVersion0_def decides_equality split: PaymentMetadata.split)

definition eq_RefundReason_OtherReason :: bool where
  "eq_RefundReason_OtherReason = True"

definition eq_RefundReason_InvalidSubaddress :: bool where
  "eq_RefundReason_InvalidSubaddress = True"

definition eq_RefundReason_UserInitiatedPartialRefund :: bool where
  "eq_RefundReason_UserInitiatedPartialRefund = True"

definition eq_RefundReason_UserInitiatedFullRefund :: bool where
  "eq_RefundReason_UserInitiatedFullRefund = True"

definition eq_RefundReason_InvalidReferenceId :: bool where
  "eq_RefundReason_InvalidReferenceId = True"

definition eq_RefundReason :: "RefundReason \<Rightarrow> RefundReason \<Rightarrow> bool" where
  "eq_RefundReason lhs rhs =
     (case lhs of
        RefundReason_OtherReason \<Rightarrow> (case rhs of RefundReason_OtherReason \<Rightarrow> eq_RefundReason_OtherReason | _ \<Rightarrow> False)
      | RefundReason_InvalidSubaddress \<Rightarrow> (case rhs of RefundReason_InvalidSubaddress \<Rightarrow> eq_RefundReason_InvalidSubaddress | _ \<Rightarrow> False)
      | RefundReason_UserInitiatedPartialRefund \<Rightarrow> (case rhs of RefundReason_UserInitiatedPartialRefund \<Rightarrow> eq_RefundReason_UserInitiatedPartialRefund | _ \<Rightarrow> False)
      | RefundReason_UserInitiatedFullRefund \<Rightarrow> (case rhs of RefundReason_UserInitiatedFullRefund \<Rightarrow> eq_RefundReason_UserInitiatedFullRefund | _ \<Rightarrow> False)
      | RefundReason_InvalidReferenceId \<Rightarrow> (case rhs of RefundReason_InvalidReferenceId \<Rightarrow> eq_RefundReason_InvalidReferenceId | _ \<Rightarrow> False))"

lemma eq_RefundReason_decides [decides_equality]: "eq_RefundReason = (=)"
  by (auto simp: fun_eq_iff eq_RefundReason_def eq_RefundReason_OtherReason_def eq_RefundReason_InvalidSubaddress_def eq_RefundReason_UserInitiatedPartialRefund_def eq_RefundReason_UserInitiatedFullRefund_def eq_RefundReason_InvalidReferenceId_def decides_equality split: RefundReason.split)

definition eq_RefundMetadataV0 :: "RefundMetadataV0 \<Rightarrow> RefundMetadataV0 \<Rightarrow> bool" where
  "eq_RefundMetadataV0 lhs rhs =
     (if \<not> (RefundMetadataV0_transaction_version lhs = RefundMetadataV0_transaction_version rhs) then False
      else if \<not> eq_RefundReason (RefundMetadataV0_reason lhs) (RefundMetadataV0_reason rhs) then False
      else True)"

lemma eq_RefundMetadataV0_decides [decides_equality]: "eq_RefundMetadataV0 = (=)"
  by (auto simp: fun_eq_iff eq_RefundMetadataV0_def decides_equality)

definition eq_RefundMetadata_RefundMetadataV0 :: "RefundMetadataV0 \<Rightarrow> RefundMetadataV0 \<Rightarrow> bool" where
  "eq_RefundMetadata_RefundMetadataV0 value1 value2 =
     (if \<not> eq_RefundMetadataV0 value1 value2 then False
      else True)"

definition eq_RefundMetadata :: "RefundMetadata \<Rightarrow> RefundMetadata \<Rightarrow> bool" where
  "eq_RefundMetadata lhs rhs =
     (case lhs of
        RefundMetadata_RefundMetadataV0 value1 \<Rightarrow> (case rhs of RefundMetadata_RefundMetadataV0 value2 \<Rightarrow> eq_RefundMetadata_RefundMetadataV0 value1 value2))"

lemma eq_RefundMetadata_decides [decides_equality]: "eq_RefundMetadata = (=)"
  by (auto simp: fun_eq_iff eq_RefundMetadata_def eq_RefundMetadata_RefundMetadataV0_def decides_equality split: RefundMetadata.split)

definition eq_TravelRuleMetadataV0 :: "TravelRuleMetadataV0 \<Rightarrow> TravelRuleMetadataV0 \<Rightarrow> bool" where
  "eq_TravelRuleMetadataV0 lhs rhs =
     (if \<not> eq_optional (=) (TravelRuleMetadataV0_off_chain_reference_id lhs) (TravelRuleMetadataV0_off_chain_reference_id rhs) then False
      else True)"

lemma eq_TravelRuleMetadataV0_decides [decides_equality]: "eq_TravelRuleMetadataV0 = (=)"
  by (auto simp: fun_eq_iff eq_TravelRuleMetadataV0_def decides_equality)

definition eq_TravelRuleMetadata_TravelRuleMetadataVersion0 :: "TravelRuleMetadataV0 \<Rightarrow> TravelRuleMetadataV0 \<Rightarrow> bool" where
  "eq_TravelRuleMetadata_TravelRuleMetadataVersion0 value1 value2 =
     (if \<not> eq_TravelRuleMetadataV0 value1 value2 then False
      else True)"

definition eq_TravelRuleMetadata :: "TravelRuleMetadata \<Rightarrow> TravelRuleMetadata \<Rightarrow> bool" where
  "eq_TravelRuleMetadata lhs rhs =
     (case lhs of
        TravelRuleMetadata_TravelRuleMetadataVersion0 value1 \<Rightarrow> (case rhs of TravelRuleMetadata_TravelRuleMetadataVersion0 value2 \<Rightarrow> eq_TravelRuleMetadata_TravelRuleMetadataVersion0 value1 value2))"

lemma eq_TravelRuleMetadata_decides [decides_equality]: "eq_TravelRuleMetadata = (=)"
  by (auto simp: fun_eq_iff eq_TravelRuleMetadata_def eq_TravelRuleMetadata_TravelRuleMetadataVersion0_def decides_equality split: TravelRuleMetadata.split)

definition eq_UnstructuredBytesMetadata :: "UnstructuredBytesMetadata \<Rightarrow> UnstructuredBytesMetadata \<Rightarrow> bool" where
  "eq_UnstructuredBytesMetadata lhs rhs =
     (if \<not> eq_optional (eq_vector (=)) (UnstructuredBytesMetadata_metadata lhs) (UnstructuredBytesMetadata_metadata rhs) then False
      else True)"

lemma eq_UnstructuredBytesMetadata_decides [decides_equality]: "eq_UnstructuredBytesMetadata = (=)"
  by (auto simp: fun_eq_iff eq_UnstructuredBytesMetadata_def decides_equality)

definition eq_Metadata_Undefined :: bool where
  "eq_Metadata_Undefined = True"

definition eq_Metadata_GeneralMetadata :: "GeneralMetadata \<Rightarrow> GeneralMetadata \<Rightarrow> bool" where
  "eq_Metadata_GeneralMetadata value1 value2 =
     (if \<not> eq_GeneralMetadata value1 value2 then False
      else True)"

definition eq_Metadata_TravelRuleMetadata :: "TravelRuleMetadata \<Rightarrow> TravelRuleMetadata \<Rightarrow> bool" where
  "eq_Metadata_TravelRuleMetadata value1 value2 =
     (if \<not> eq_TravelRuleMetadata value1 value2 then False
      else True)"

definition eq_Metadata_UnstructuredBytesMetadata :: "UnstructuredBytesMetadata \<Rightarrow> UnstructuredBytesMetadata \<Rightarrow> bool" where
  "eq_Metadata_UnstructuredBytesMetadata value1 value2 =
     (if \<not> eq_UnstructuredBytesMetadata value1 value2 then False
      else True)"

definition eq_Metadata_RefundMetadata :: "RefundMetadata \<Rightarrow> RefundMetadata \<Rightarrow> bool" where
  "eq_Metadata_RefundMetadata value1 value2 =
     (if \<not> eq_RefundMetadata value1 value2 then False
      else True)"

definition eq_Metadata_CoinTradeMetadata :: "CoinTradeMetadata \<Rightarrow> CoinTradeMetadata \<Rightarrow> bool" where
  "eq_Metadata_CoinTradeMetadata value1 value2 =
     (if \<not> eq_CoinTradeMetadata value1 value2 then False
      else True)"

definition eq_Metadata_PaymentMetadata :: "PaymentMetadata \<Rightarrow> PaymentMetadata \<Rightarrow> bool" where
  "eq_Metadata_PaymentMetadata value1 value2 =
     (if \<not> eq_PaymentMetadata value1 value2 then False
      else True)"

definition eq_Metadata :: "Metadata \<Rightarrow> Metadata \<Rightarrow> bool" where
  "eq_Metadata lhs rhs =
     (case lhs of
        Metadata_Undefined \<Rightarrow> (case rhs of Metadata_Undefined \<Rightarrow> eq_Metadata_Undefined | _ \<Rightarrow> False)
      | Metadata_GeneralMetadata value1 \<Rightarrow> (case rhs of Metadata_GeneralMetadata value2 \<Rightarrow> eq_Metadata_GeneralMetadata value1 value2 | _ \<Rightarrow> False)
      | Metadata_TravelRuleMetadata value1 \<Rightarrow> (case rhs of Metadata_TravelRuleMetadata value2 \<Rightarrow> eq_Metadata_TravelRuleMetadata value1 value2 | _ \<Rightarrow> False)
      | Metadata_UnstructuredBytesMetadata value1 \<Rightarrow> (case rhs of Metadata_UnstructuredBytesMetadata value2 \<Rightarrow> eq_Metadata_UnstructuredBytesMetadata value1 value2 | _ \<Rightarrow> False)
      | Metadata_RefundMetadata value1 \<Rightarrow> (case rhs of Metadata_RefundMetadata value2 \<Rightarrow> eq_Metadata_RefundMetadata value1 value2 | _ \<Rightarrow> False)
      | Metadata_CoinTradeMetadata value1 \<Rightarrow> (case rhs of Metadata_CoinTradeMetadata value2 \<Rightarrow> eq_Metadata_CoinTradeMetadata value1 value2 | _ \<Rightarrow> False)
      | Metadata_PaymentMetadata value1 \<Rightarrow> (case rhs of Metadata_PaymentMetadata value2 \<Rightarrow> eq_Metadata_PaymentMetadata value1 value2 | _ \<Rightarrow> False))"

lemma eq_Metadata_decides [decides_equality]: "eq_Metadata = (=)"
  by (auto simp: fun_eq_iff eq_Metadata_def eq_Metadata_Undefined_def eq_Metadata_GeneralMetadata_def eq_Metadata_TravelRuleMetadata_def eq_Metadata_UnstructuredBytesMetadata_def eq_Metadata_RefundMetadata_def eq_Metadata_CoinTradeMetadata_def eq_Metadata_PaymentMetadata_def decides_equality split: Metadata.split)

section \<open>Accounts\<close>

definition eq_AccountAddress :: "AccountAddress \<Rightarrow> AccountAddress \<Rightarrow> bool" where
  "eq_AccountAddress lhs rhs =
     (if \<not> eq_array (=) (AccountAddress_value lhs) (AccountAddress_value rhs) then False
      else True)"

lemma eq_AccountAddress_decides [decides_equality]: "eq_AccountAddress = (=)"
  by (auto simp: fun_eq_iff eq_AccountAddress_def decides_equality)

definition eq_Ed25519PublicKey :: "Ed25519PublicKey \<Rightarrow> Ed25519PublicKey \<Rightarrow> bool" where
  "eq_Ed25519PublicKey lhs rhs =
     (if \<not> eq_vector (=) (Ed25519PublicKey_value lhs) (Ed25519PublicKey_value rhs) then False
      else True)"

lemma eq_Ed25519PublicKey_decides [decides_equality]: "eq_Ed25519PublicKey = (=)"
  by (auto simp: fun_eq_iff eq_Ed25519PublicKey_def decides_equality)

definition eq_Ed25519Signature :: "Ed25519Signature \<Rightarrow> Ed25519Signature \<Rightarrow> bool" where
  "eq_Ed25519Signature lhs rhs =
     (if \<not> eq_vector (=) (Ed25519Signature_value lhs) (Ed25519Signature_value rhs) then False
      else True)"

lemma eq_Ed25519Signature_decides [decides_equality]: "eq_Ed25519Signature = (=)"
  by (auto simp: fun_eq_iff eq_Ed25519Signature_def decides_equality)

definition eq_MultiEd25519PublicKey :: "MultiEd25519PublicKey \<Rightarrow> MultiEd25519PublicKey \<Rightarrow> bool" where
  "eq_MultiEd25519PublicKey lhs rhs =
     (if \<not> eq_vector (=) (MultiEd25519PublicKey_value lhs) (MultiEd25519PublicKey_value rhs) then False
      else True)"

lemma eq_MultiEd25519PublicKey_decides [decides_equality]: "eq_MultiEd25519PublicKey = (=)"
  by (auto simp: fun_eq_iff eq_MultiEd25519PublicKey_def decides_equality)

definition eq_MultiEd25519Signature :: "MultiEd25519Signature \<Rightarrow> MultiEd25519Signature \<Rightarrow> bool" where
  "eq_MultiEd25519Signature lhs rhs =
     (if \<not> eq_vector (=) (MultiEd25519Signature_value lhs) (MultiEd25519Signature_value rhs) then False
      else True)"

lemma eq_MultiEd25519Signature_decides [decides_equality]: "eq_MultiEd25519Signature = (=)"
  by (auto simp: fun_eq_iff eq_MultiEd25519Signature_def decides_equality)

definition eq_AccountAuthenticator_Ed25519 :: "Ed25519PublicKey \<Rightarrow> Ed25519Signature \<Rightarrow> Ed25519PublicKey \<Rightarrow> Ed25519Signature \<Rightarrow> bool" where
  "eq_AccountAuthenticator_Ed25519 public_key1 signature1 public_key2 signature2 =
     (if \<not> eq_Ed25519PublicKey public_key1 public_key2 then False
      else if \<not> eq_Ed25519Signature signature1 signature2 then False
      else True)"

definition eq_AccountAuthenticator_MultiEd25519 :: "MultiEd25519PublicKey \<Rightarrow> MultiEd25519Signature \<Rightarrow> MultiEd25519PublicKey \<Rightarrow> MultiEd25519Signature \<Rightarrow> bool" where
  "eq_AccountAuthenticator_MultiEd25519 public_key1 signature1 public_key2 signature2 =
     (if \<not> eq_MultiEd25519PublicKey public_key1 public_key2 then False
      else if \<not> eq_MultiEd25519Signature signature1 signature2 then False
      else True)"

definition eq_AccountAuthenticator :: "AccountAuthenticator \<Rightarrow> AccountAuthenticator \<Rightarrow> bool" where
  "eq_AccountAuthenticator lhs rhs =
     (case lhs of
        AccountAuthenticator_Ed25519 public_key1 signature1 \<Rightarrow> (case rhs of AccountAuthenticator_Ed25519 public_key2 signature2 \<Rightarrow> eq_AccountAuthenticator_Ed25519 public_key1 signature1 public_key2 signature2 | _ \<Rightarrow> False)
      | AccountAuthenticator_MultiEd25519 public_key1 signature1 \<Rightarrow> (case rhs of AccountAuthenticator_MultiEd25519 public_key2 signature2 \<Rightarrow> eq_AccountAuthenticator_MultiEd25519 public_key1 signature1 public_key2 signature2 | _ \<Rightarrow> False))"

lemma eq_AccountAuthenticator_decides [decides_equality]: "eq_AccountAuthenticator = (=)"
  by (auto simp: fun_eq_iff eq_AccountAuthenticator_def eq_AccountAuthenticator_Ed25519_def eq_AccountAuthenticator_MultiEd25519_def decides_equality split: AccountAuthenticator.split)

definition eq_TransactionAuthenticator_Ed25519 :: "Ed25519PublicKey \<Rightarrow> Ed25519Signature \<Rightarrow> Ed25519PublicKey \<Rightarrow> Ed25519Signature \<Rightarrow> bool" where
  "eq_TransactionAuthenticator_Ed25519 public_key1 signature1 public_key2 signature2 =
     (if \<not> eq_Ed25519PublicKey public_key1 public_key2 then False
      else if \<not> eq_Ed25519Signature signature1 signature2 then False
      else True)"

definition eq_TransactionAuthenticator_MultiEd25519 :: "MultiEd25519PublicKey \<Rightarrow> MultiEd25519Signature \<Rightarrow> MultiEd25519PublicKey \<Rightarrow> MultiEd25519Signature \<Rightarrow> bool" where
  "eq_TransactionAuthenticator_MultiEd25519 public_key1 signature1 public_key2 signature2 =
     (if \<not> eq_MultiEd25519PublicKey public_key1 public_key2 then False
      else if \<not> eq_MultiEd25519Signature signature1 signature2 then False
      else True)"

definition eq_TransactionAuthenticator_MultiAgent :: "AccountAuthenticator \<Rightarrow> (AccountAddress list) \<Rightarrow> (AccountAuthenticator list) \<Rightarrow> AccountAuthenticator \<Rightarrow> (AccountAddress list) \<Rightarrow> (AccountAuthenticator list) \<Rightarrow> bool" where
  "eq_TransactionAuthenticator_MultiAgent sender1 secondary_signer_addresses1 secondary_signers1 sender2 secondary_signer_addresses2 secondary_signers2 =
     (if \<not> eq_AccountAuthenticator sender1 sender2 then False
      else if \<not> eq_vector eq_AccountAddress secondary_signer_addresses1 secondary_signer_addresses2 then False
      else if \<not> eq_vector eq_AccountAuthenticator secondary_signers1 secondary_signers2 then False
      else True)"

definition eq_TransactionAuthenticator :: "TransactionAuthenticator \<Rightarrow> TransactionAuthenticator \<Rightarrow> bool" where
  "eq_TransactionAuthenticator lhs rhs =
     (case lhs of
        TransactionAuthenticator_Ed25519 public_key1 signature1 \<Rightarrow> (case rhs of TransactionAuthenticator_Ed25519 public_key2 signature2 \<Rightarrow> eq_TransactionAuthenticator_Ed25519 public_key1 signature1 public_key2 signature2 | _ \<Rightarrow> False)
      | TransactionAuthenticator_MultiEd25519 public_key1 signature1 \<Rightarrow> (case rhs of TransactionAuthenticator_MultiEd25519 public_key2 signature2 \<Rightarrow> eq_TransactionAuthenticator_MultiEd25519 public_key1 signature1 public_key2 signature2 | _ \<Rightarrow> False)
      | TransactionAuthenticator_MultiAgent sender1 secondary_signer_addresses1 secondary_signers1 \<Rightarrow> (case rhs of TransactionAuthenticator_MultiAgent sender2 secondary_signer_addresses2 secondary_signers2 \<Rightarrow> eq_TransactionAuthenticator_MultiAgent sender1 secondary_signer_addresses1 secondary_signers1 sender2 secondary_signer_addresses2 secondary_signers2 | _ \<Rightarrow> False))"

lemma eq_TransactionAuthenticator_decides [decides_equality]: "eq_TransactionAuthenticator = (=)"
  by (auto simp: fun_eq_iff eq_TransactionAuthenticator_def eq_TransactionAuthenticator_Ed25519_def eq_TransactionAuthenticator_MultiEd25519_def eq_TransactionAuthenticator_MultiAgent_def decides_equality split: TransactionAuthenticator.split)

section \<open>Move values\<close>

definition eq_Module :: "Module \<Rightarrow> Module \<Rightarrow> bool" where
  "eq_Module lhs rhs =
     (if \<not> eq_vector (=) (Module_code lhs) (Module_code rhs) then False
      else True)"

lemma eq_Module_decides [decides_equality]: "eq_Module = (=)"
  by (auto simp: fun_eq_iff eq_Module_def decides_equality)

definition eq_TransactionArgument_U8 :: "u8 \<Rightarrow> u8 \<Rightarrow> bool" where
  "eq_TransactionArgument_U8 value1 value2 =
     (if \<not> (value1 = value2) then False
      else True)"

definition eq_TransactionArgument_U64 :: "u64 \<Rightarrow> u64 \<Rightarrow> bool" where
  "eq_TransactionArgument_U64 value1 value2 =
     (if \<not> (value1 = value2) then False
      else True)"

definition eq_TransactionArgument_U128 :: "uint128_t \<Rightarrow> uint128_t \<Rightarrow> bool" where
  "eq_TransactionArgument_U128 value1 value2 =
     (if \<not> eq_uint128 value1 value2 then False
      else True)"

definition eq_TransactionArgument_Address :: "AccountAddress \<Rightarrow> AccountAddress \<Rightarrow> bool" where
  "eq_TransactionArgument_Address value1 value2 =
     (if \<not> eq_AccountAddress value1 value2 then False
      else True)"

definition eq_TransactionArgument_U8Vector :: "(u8 list) \<Rightarrow> (u8 list) \<Rightarrow> bool" where
  "eq_TransactionArgument_U8Vector value1 value2 =
     (if \<not> eq_vector (=) value1 value2 then False
      else True)"

definition eq_TransactionArgument_Bool :: "bool \<Rightarrow> bool \<Rightarrow> bool" where
  "eq_TransactionArgument_Bool value1 value2 =
     (if \<not> (value1 = value2) then False
      else True)"

definition eq_TransactionArgument :: "TransactionArgument \<Rightarrow> TransactionArgument \<Rightarrow> bool" where
  "eq_TransactionArgument lhs rhs =
     (case lhs of
        TransactionArgument_U8 value1 \<Rightarrow> (case rhs of TransactionArgument_U8 value2 \<Rightarrow> eq_TransactionArgument_U8 value1 value2 | _ \<Rightarrow> False)
      | TransactionArgument_U64 value1 \<Rightarrow> (case rhs of TransactionArgument_U64 value2 \<Rightarrow> eq_TransactionArgument_U64 value1 value2 | _ \<Rightarrow> False)
      | TransactionArgument_U128 value1 \<Rightarrow> (case rhs of TransactionArgument_U128 value2 \<Rightarrow> eq_TransactionArgument_U128 value1 value2 | _ \<Rightarrow> False)
      | TransactionArgument_Address value1 \<Rightarrow> (case rhs of TransactionArgument_Address value2 \<Rightarrow> eq_TransactionArgument_Address value1 value2 | _ \<Rightarrow> False)
      | TransactionArgument_U8Vector value1 \<Rightarrow> (case rhs of TransactionArgument_U8Vector value2 \<Rightarrow> eq_TransactionArgument_U8Vector value1 value2 | _ \<Rightarrow> False)
      | TransactionArgument_Bool value1 \<Rightarrow> (case rhs of TransactionArgument_Bool value2 \<Rightarrow> eq_TransactionArgument_Bool value1 value2 | _ \<Rightarrow> False))"

lemma eq_TransactionArgument_decides [decides_equality]: "eq_TransactionArgument = (=)"
  by (auto simp: fun_eq_iff eq_TransactionArgument_def eq_TransactionArgument_U8_def eq_TransactionArgument_U64_def eq_TransactionArgument_U128_def eq_TransactionArgument_Address_def eq_TransactionArgument_U8Vector_def eq_TransactionArgument_Bool_def decides_equality split: TransactionArgument.split)

definition eq_Identifier :: "Identifier \<Rightarrow> Identifier \<Rightarrow> bool" where
  "eq_Identifier lhs rhs =
     (if \<not> (Identifier_value lhs = Identifier_value rhs) then False
      else True)"

lemma eq_Identifier_decides [decides_equality]: "eq_Identifier = (=)"
  by (auto simp: fun_eq_iff eq_Identifier_def decides_equality)

fun eq_TypeTag :: "TypeTag \<Rightarrow> TypeTag \<Rightarrow> bool"
and eq_StructTag :: "StructTag \<Rightarrow> StructTag \<Rightarrow> bool"
and eq_TypeTags :: "TypeTag list \<Rightarrow> TypeTag list \<Rightarrow> bool" where
  "eq_TypeTag TypeTag_Bool rhs \<longleftrightarrow> (case rhs of TypeTag_Bool \<Rightarrow> True | _ \<Rightarrow> False)"
| "eq_TypeTag TypeTag_U8 rhs \<longleftrightarrow> (case rhs of TypeTag_U8 \<Rightarrow> True | _ \<Rightarrow> False)"
| "eq_TypeTag TypeTag_U64 rhs \<longleftrightarrow> (case rhs of TypeTag_U64 \<Rightarrow> True | _ \<Rightarrow> False)"
| "eq_TypeTag TypeTag_U128 rhs \<longleftrightarrow> (case rhs of TypeTag_U128 \<Rightarrow> True | _ \<Rightarrow> False)"
| "eq_TypeTag TypeTag_Address rhs \<longleftrightarrow> (case rhs of TypeTag_Address \<Rightarrow> True | _ \<Rightarrow> False)"
| "eq_TypeTag TypeTag_Signer rhs \<longleftrightarrow> (case rhs of TypeTag_Signer \<Rightarrow> True | _ \<Rightarrow> False)"
| "eq_TypeTag (TypeTag_Vector value1) rhs \<longleftrightarrow> (case rhs of TypeTag_Vector value2 \<Rightarrow> eq_TypeTag value1 value2 | _ \<Rightarrow> False)"
| "eq_TypeTag (TypeTag_Struct value1) rhs \<longleftrightarrow> (case rhs of TypeTag_Struct value2 \<Rightarrow> eq_StructTag value1 value2 | _ \<Rightarrow> False)"
| "eq_StructTag (StructTag address1 module1 name1 type_params1) rhs =
     (if \<not> eq_AccountAddress address1 (StructTag_address rhs) then False
      else if \<not> eq_Identifier module1 (StructTag_module rhs) then False
      else if \<not> eq_Identifier name1 (StructTag_name rhs) then False
      else if \<not> eq_TypeTags type_params1 (StructTag_type_params rhs) then False
      else True)"
| "eq_TypeTags [] rhs \<longleftrightarrow> rhs = []"
| "eq_TypeTags (t # ts) rhs \<longleftrightarrow> (case rhs of [] \<Rightarrow> False | u # us \<Rightarrow> eq_TypeTag t u \<and> eq_TypeTags ts us)"

lemma eq_tags:
  "eq_TypeTag t t' \<longleftrightarrow> t = t'" "eq_StructTag u u' \<longleftrightarrow> u = u'" "eq_TypeTags ts ts' \<longleftrightarrow> ts = ts'"
proof (induction t t' and u u' and ts ts' rule: eq_TypeTag_eq_StructTag_eq_TypeTags.induct)
  case (9 address1 module1 name1 type_params1 rhs)
  then show ?case by (cases rhs) (auto simp: decides_equality)
qed (auto split: TypeTag.split list.split)

lemma eq_tags_decides [decides_equality]: "eq_TypeTag = (=)" "eq_StructTag = (=)"
  by (simp_all add: fun_eq_iff eq_tags)

definition eq_Script :: "Script \<Rightarrow> Script \<Rightarrow> bool" where
  "eq_Script lhs rhs =
     (if \<not> eq_vector (=) (Script_code lhs) (Script_code rhs) then False
      else if \<not> eq_vector eq_TypeTag (Script_ty_args lhs) (Script_ty_args rhs) then False
      else if \<not> eq_vector eq_TransactionArgument (Script_args lhs) (Script_args rhs) then False
      else True)"

lemma eq_Script_decides [decides_equality]: "eq_Script = (=)"
  by (auto simp: fun_eq_iff eq_Script_def decides_equality)

definition eq_ModuleId :: "ModuleId \<Rightarrow> ModuleId \<Rightarrow> bool" where
  "eq_ModuleId lhs rhs =
     (if \<not> eq_AccountAddress (ModuleId_address lhs) (ModuleId_address rhs) then False
      else if \<not> eq_Identifier (ModuleId_name lhs) (ModuleId_name rhs) then False
      else True)"

lemma eq_ModuleId_decides [decides_equality]: "eq_ModuleId = (=)"
  by (auto simp: fun_eq_iff eq_ModuleId_def decides_equality)

definition eq_ScriptFunction :: "ScriptFunction \<Rightarrow> ScriptFunction \<Rightarrow> bool" where
  "eq_ScriptFunction lhs rhs =
     (if \<not> eq_ModuleId (ScriptFunction_module lhs) (ScriptFunction_module rhs) then False
      else if \<not> eq_Identifier (ScriptFunction_function lhs) (ScriptFunction_function rhs) then False
      else if \<not> eq_vector eq_TypeTag (ScriptFunction_ty_args lhs) (ScriptFunction_ty_args rhs) then False
      else if \<not> eq_vector (eq_vector (=)) (ScriptFunction_args lhs) (ScriptFunction_args rhs) then False
      else True)"

lemma eq_ScriptFunction_decides [decides_equality]: "eq_ScriptFunction = (=)"
  by (auto simp: fun_eq_iff eq_ScriptFunction_def decides_equality)

section \<open>Transactions\<close>

definition eq_EventKey :: "EventKey \<Rightarrow> EventKey \<Rightarrow> bool" where
  "eq_EventKey lhs rhs =
     (if \<not> eq_vector (=) (EventKey_value lhs) (EventKey_value rhs) then False
      else True)"

lemma eq_EventKey_decides [decides_equality]: "eq_EventKey = (=)"
  by (auto simp: fun_eq_iff eq_EventKey_def decides_equality)

definition eq_ContractEventV0 :: "ContractEventV0 \<Rightarrow> ContractEventV0 \<Rightarrow> bool" where
  "eq_ContractEventV0 lhs rhs =
     (if \<not> eq_EventKey (ContractEventV0_key lhs) (ContractEventV0_key rhs) then False
      else if \<not> (ContractEventV0_sequence_number lhs = ContractEventV0_sequence_number rhs) then False
      else if \<not> eq_TypeTag (ContractEventV0_type_tag lhs) (ContractEventV0_type_tag rhs) then False
      else if \<not> eq_vector (=) (ContractEventV0_event_data lhs) (ContractEventV0_event_data rhs) then False
      else True)"

lemma eq_ContractEventV0_decides [decides_equality]: "eq_ContractEventV0 = (=)"
  by (auto simp: fun_eq_iff eq_ContractEventV0_def decides_equality)

definition eq_ContractEvent_V0 :: "ContractEventV0 \<Rightarrow> ContractEventV0 \<Rightarrow> bool" where
  "eq_ContractEvent_V0 value1 value2 =
     (if \<not> eq_ContractEventV0 value1 value2 then False
      else True)"

definition eq_ContractEvent :: "ContractEvent \<Rightarrow> ContractEvent \<Rightarrow> bool" where
  "eq_ContractEvent lhs rhs =
     (case lhs of
        ContractEvent_V0 value1 \<Rightarrow> (case rhs of ContractEvent_V0 value2 \<Rightarrow> eq_ContractEvent_V0 value1 value2))"

lemma eq_ContractEvent_decides [decides_equality]: "eq_ContractEvent = (=)"
  by (auto simp: fun_eq_iff eq_ContractEvent_def eq_ContractEvent_V0_def decides_equality split: ContractEvent.split)

definition eq_AccessPath :: "AccessPath \<Rightarrow> AccessPath \<Rightarrow> bool" where
  "eq_AccessPath lhs rhs =
     (if \<not> eq_AccountAddress (AccessPath_address lhs) (AccessPath_address rhs) then False
      else if \<not> eq_vector (=) (AccessPath_path lhs) (AccessPath_path rhs) then False
      else True)"

lemma eq_AccessPath_decides [decides_equality]: "eq_AccessPath = (=)"
  by (auto simp: fun_eq_iff eq_AccessPath_def decides_equality)

definition eq_WriteOp_Deletion :: bool where
  "eq_WriteOp_Deletion = True"

definition eq_WriteOp_Value :: "(u8 list) \<Rightarrow> (u8 list) \<Rightarrow> bool" where
  "eq_WriteOp_Value value1 value2 =
     (if \<not> eq_vector (=) value1 value2 then False
      else True)"

definition eq_WriteOp :: "WriteOp \<Rightarrow> WriteOp \<Rightarrow> bool" where
  "eq_WriteOp lhs rhs =
     (case lhs of
        WriteOp_Deletion \<Rightarrow> (case rhs of WriteOp_Deletion \<Rightarrow> eq_WriteOp_Deletion | _ \<Rightarrow> False)
      | WriteOp_Value value1 \<Rightarrow> (case rhs of WriteOp_Value value2 \<Rightarrow> eq_WriteOp_Value value1 value2 | _ \<Rightarrow> False))"

lemma eq_WriteOp_decides [decides_equality]: "eq_WriteOp = (=)"
  by (auto simp: fun_eq_iff eq_WriteOp_def eq_WriteOp_Deletion_def eq_WriteOp_Value_def decides_equality split: WriteOp.split)

definition eq_WriteSetMut :: "WriteSetMut \<Rightarrow> WriteSetMut \<Rightarrow> bool" where
  "eq_WriteSetMut lhs rhs =
     (if \<not> eq_vector (eq_tuple2 eq_AccessPath eq_WriteOp) (WriteSetMut_write_set lhs) (WriteSetMut_write_set rhs) then False
      else True)"

lemma eq_WriteSetMut_decides [decides_equality]: "eq_WriteSetMut = (=)"
  by (auto simp: fun_eq_iff eq_WriteSetMut_def decides_equality)

definition eq_WriteSet :: "WriteSet \<Rightarrow> WriteSet \<Rightarrow> bool" where
  "eq_WriteSet lhs rhs =
     (if \<not> eq_WriteSetMut (WriteSet_value lhs) (WriteSet_value rhs) then False
      else True)"

lemma eq_WriteSet_decides [decides_equality]: "eq_WriteSet = (=)"
  by (auto simp: fun_eq_iff eq_WriteSet_def decides_equality)

definition eq_ChangeSet :: "ChangeSet \<Rightarrow> ChangeSet \<Rightarrow> bool" where
  "eq_ChangeSet lhs rhs =
     (if \<not> eq_WriteSet (ChangeSet_write_set lhs) (ChangeSet_write_set rhs) then False
      else if \<not> eq_vector eq_ContractEvent (ChangeSet_events lhs) (ChangeSet_events rhs) then False
      else True)"

lemma eq_ChangeSet_decides [decides_equality]: "eq_ChangeSet = (=)"
  by (auto simp: fun_eq_iff eq_ChangeSet_def decides_equality)

definition eq_WriteSetPayload_Direct :: "ChangeSet \<Rightarrow> ChangeSet \<Rightarrow> bool" where
  "eq_WriteSetPayload_Direct value1 value2 =
     (if \<not> eq_ChangeSet value1 value2 then False
      else True)"

definition eq_WriteSetPayload_Script :: "AccountAddress \<Rightarrow> Script \<Rightarrow> AccountAddress \<Rightarrow> Script \<Rightarrow> bool" where
  "eq_WriteSetPayload_Script execute_as1 script1 execute_as2 script2 =
     (if \<not> eq_AccountAddress execute_as1 execute_as2 then False
      else if \<not> eq_Script script1 script2 then False
      else True)"

definition eq_WriteSetPayload :: "WriteSetPayload \<Rightarrow> WriteSetPayload \<Rightarrow> bool" where
  "eq_WriteSetPayload lhs rhs =
     (case lhs of
        WriteSetPayload_Direct value1 \<Rightarrow> (case rhs of WriteSetPayload_Direct value2 \<Rightarrow> eq_WriteSetPayload_Direct value1 value2 | _ \<Rightarrow> False)
      | WriteSetPayload_Script execute_as1 script1 \<Rightarrow> (case rhs of WriteSetPayload_Script execute_as2 script2 \<Rightarrow> eq_WriteSetPayload_Script execute_as1 script1 execute_as2 script2 | _ \<Rightarrow> False))"

lemma eq_WriteSetPayload_decides [decides_equality]: "eq_WriteSetPayload = (=)"
  by (auto simp: fun_eq_iff eq_WriteSetPayload_def eq_WriteSetPayload_Direct_def eq_WriteSetPayload_Script_def decides_equality split: WriteSetPayload.split)

definition eq_TransactionPayload_WriteSet :: "WriteSetPayload \<Rightarrow> WriteSetPayload \<Rightarrow> bool" where
  "eq_TransactionPayload_WriteSet value1 value2 =
     (if \<not> eq_WriteSetPayload value1 value2 then False
      else True)"

definition eq_TransactionPayload_Script :: "Script \<Rightarrow> Script \<Rightarrow> bool" where
  "eq_TransactionPayload_Script value1 value2 =
     (if \<not> eq_Script value1 value2 then False
      else True)"

definition eq_TransactionPayload_Module :: "Module \<Rightarrow> Module \<Rightarrow> bool" where
  "eq_TransactionPayload_Module value1 value2 =
     (if \<not> eq_Module value1 value2 then False
      else True)"

definition eq_TransactionPayload_ScriptFunction :: "ScriptFunction \<Rightarrow> ScriptFunction \<Rightarrow> bool" where
  "eq_TransactionPayload_ScriptFunction value1 value2 =
     (if \<not> eq_ScriptFunction value1 value2 then False
      else True)"

definition eq_TransactionPayload :: "TransactionPayload \<Rightarrow> TransactionPayload \<Rightarrow> bool" where
  "eq_TransactionPayload lhs rhs =
     (case lhs of
        TransactionPayload_WriteSet value1 \<Rightarrow> (case rhs of TransactionPayload_WriteSet value2 \<Rightarrow> eq_TransactionPayload_WriteSet value1 value2 | _ \<Rightarrow> False)
      | TransactionPayload_Script value1 \<Rightarrow> (case rhs of TransactionPayload_Script value2 \<Rightarrow> eq_TransactionPayload_Script value1 value2 | _ \<Rightarrow> False)
      | TransactionPayload_Module value1 \<Rightarrow> (case rhs of TransactionPayload_Module value2 \<Rightarrow> eq_TransactionPayload_Module value1 value2 | _ \<Rightarrow> False)
      | TransactionPayload_ScriptFunction value1 \<Rightarrow> (case rhs of TransactionPayload_ScriptFunction value2 \<Rightarrow> eq_TransactionPayload_ScriptFunction value1 value2 | _ \<Rightarrow> False))"

lemma eq_TransactionPayload_decides [decides_equality]: "eq_TransactionPayload = (=)"
  by (auto simp: fun_eq_iff eq_TransactionPayload_def eq_TransactionPayload_WriteSet_def eq_TransactionPayload_Script_def eq_TransactionPayload_Module_def eq_TransactionPayload_ScriptFunction_def decides_equality split: TransactionPayload.split)

definition eq_ChainId :: "ChainId \<Rightarrow> ChainId \<Rightarrow> bool" where
  "eq_ChainId lhs rhs =
     (if \<not> (ChainId_value lhs = ChainId_value rhs) then False
      else True)"

lemma eq_ChainId_decides [decides_equality]: "eq_ChainId = (=)"
  by (auto simp: fun_eq_iff eq_ChainId_def decides_equality)

definition eq_RawTransaction :: "RawTransaction \<Rightarrow> RawTransaction \<Rightarrow> bool" where
  "eq_RawTransaction lhs rhs =
     (if \<not> eq_AccountAddress (RawTransaction_sender lhs) (RawTransaction_sender rhs) then False
      else if \<not> (RawTransaction_sequence_number lhs = RawTransaction_sequence_number rhs) then False
      else if \<not> eq_TransactionPayload (RawTransaction_payload lhs) (RawTransaction_payload rhs) then False
      else if \<not> (RawTransaction_max_gas_amount lhs = RawTransaction_max_gas_amount rhs) then False
      else if \<not> (RawTransaction_gas_unit_price lhs = RawTransaction_gas_unit_price rhs) then False
      else if \<not> (RawTransaction_gas_currency_code lhs = RawTransaction_gas_currency_code rhs) then False
      else if \<not> (RawTransaction_expiration_timestamp_secs lhs = RawTransaction_expiration_timestamp_secs rhs) then False
      else if \<not> eq_ChainId (RawTransaction_chain_id lhs) (RawTransaction_chain_id rhs) then False
      else True)"

lemma eq_RawTransaction_decides [decides_equality]: "eq_RawTransaction = (=)"
  by (auto simp: fun_eq_iff eq_RawTransaction_def decides_equality)

definition eq_HashValue :: "HashValue \<Rightarrow> HashValue \<Rightarrow> bool" where
  "eq_HashValue lhs rhs =
     (if \<not> eq_vector (=) (HashValue_value lhs) (HashValue_value rhs) then False
      else True)"

lemma eq_HashValue_decides [decides_equality]: "eq_HashValue = (=)"
  by (auto simp: fun_eq_iff eq_HashValue_def decides_equality)

definition eq_BlockMetadata :: "BlockMetadata \<Rightarrow> BlockMetadata \<Rightarrow> bool" where
  "eq_BlockMetadata lhs rhs =
     (if \<not> eq_HashValue (BlockMetadata_id lhs) (BlockMetadata_id rhs) then False
      else if \<not> (BlockMetadata_round lhs = BlockMetadata_round rhs) then False
      else if \<not> (BlockMetadata_timestamp_usecs lhs = BlockMetadata_timestamp_usecs rhs) then False
      else if \<not> eq_vector eq_AccountAddress (BlockMetadata_previous_block_votes lhs) (BlockMetadata_previous_block_votes rhs) then False
      else if \<not> eq_AccountAddress (BlockMetadata_proposer lhs) (BlockMetadata_proposer rhs) then False
      else True)"

lemma eq_BlockMetadata_decides [decides_equality]: "eq_BlockMetadata = (=)"
  by (auto simp: fun_eq_iff eq_BlockMetadata_def decides_equality)

definition eq_SignedTransaction :: "SignedTransaction \<Rightarrow> SignedTransaction \<Rightarrow> bool" where
  "eq_SignedTransaction lhs rhs =
     (if \<not> eq_RawTransaction (SignedTransaction_raw_txn lhs) (SignedTransaction_raw_txn rhs) then False
      else if \<not> eq_TransactionAuthenticator (SignedTransaction_authenticator lhs) (SignedTransaction_authenticator rhs) then False
      else True)"

lemma eq_SignedTransaction_decides [decides_equality]: "eq_SignedTransaction = (=)"
  by (auto simp: fun_eq_iff eq_SignedTransaction_def decides_equality)

definition eq_Transaction_UserTransaction :: "SignedTransaction \<Rightarrow> SignedTransaction \<Rightarrow> bool" where
  "eq_Transaction_UserTransaction value1 value2 =
     (if \<not> eq_SignedTransaction value1 value2 then False
      else True)"

definition eq_Transaction_GenesisTransaction :: "WriteSetPayload \<Rightarrow> WriteSetPayload \<Rightarrow> bool" where
  "eq_Transaction_GenesisTransaction value1 value2 =
     (if \<not> eq_WriteSetPayload value1 value2 then False
      else True)"

definition eq_Transaction_BlockMetadata :: "BlockMetadata \<Rightarrow> BlockMetadata \<Rightarrow> bool" where
  "eq_Transaction_BlockMetadata value1 value2 =
     (if \<not> eq_BlockMetadata value1 value2 then False
      else True)"

definition eq_Transaction :: "Transaction \<Rightarrow> Transaction \<Rightarrow> bool" where
  "eq_Transaction lhs rhs =
     (case lhs of
        Transaction_UserTransaction value1 \<Rightarrow> (case rhs of Transaction_UserTransaction value2 \<Rightarrow> eq_Transaction_UserTransaction value1 value2 | _ \<Rightarrow> False)
      | Transaction_GenesisTransaction value1 \<Rightarrow> (case rhs of Transaction_GenesisTransaction value2 \<Rightarrow> eq_Transaction_GenesisTransaction value1 value2 | _ \<Rightarrow> False)
      | Transaction_BlockMetadata value1 \<Rightarrow> (case rhs of Transaction_BlockMetadata value2 \<Rightarrow> eq_Transaction_BlockMetadata value1 value2 | _ \<Rightarrow> False))"

lemma eq_Transaction_decides [decides_equality]: "eq_Transaction = (=)"
  by (auto simp: fun_eq_iff eq_Transaction_def eq_Transaction_UserTransaction_def eq_Transaction_GenesisTransaction_def eq_Transaction_BlockMetadata_def decides_equality split: Transaction.split)

end
