(* ===== verification/Diem_Alternatives.thy ===== *)
theory Diem_Alternatives
  imports Diem_Metadata Diem_Transaction
begin

text \<open>
  The alternatives of the variants of \<open>src/cpp/framework/src/diem_types.hpp\<close>, each of which is a type with \<open>bcsSerialize\<close> and
  \<open>bcsDeserialize\<close> of its own: as a message, an alternative has neither an index nor a container level. The locale
  \<open>alternative\<close> is the contract of an alternative, whose deserializer gives a value of the variant.
\<close>

locale alternative =
  fixes ser :: "'v \<Rightarrow> ser_step"
    and de :: "'x de_action"
    and make_variant :: "'v \<Rightarrow> 'x"
    and doc :: "'v \<Rightarrow> bcs_doc"
  assumes inject: "make_variant v = make_variant w \<Longrightarrow> v = w"
    and alt_ser_iff: "ser v s = Inr s' \<longleftrightarrow>
         fits (doc v) \<and> depth (doc v) \<le> unat (container_depth_budget s) \<and> s' = put (enc (doc v)) s"
    and alt_ser_exn: "throws is_Serialization_error (ser v)"
    and alt_de_iff: "de d = Inr (x, d') \<longleftrightarrow> (\<exists>v. x = make_variant v \<and>
         wf_doc (doc v) \<and> depth (doc v) \<le> unat (de_container_depth_budget d) \<and>
         input_starts (enc (doc v)) d \<and> d' = advance (length (enc (doc v))) d)"
    and alt_de_exn: "throws is_decoding_exn de"
begin

lemma alt_bcsSerialize_iff: "bcsSerialize ser v = Inr bs \<longleftrightarrow> fits (doc v) \<and> depth (doc v) \<le> 500 \<and> bs = enc (doc v)"
proof -
  have "bcsSerialize ser v = Inr bs \<longleftrightarrow> (\<exists>s. ser v BcsSerializer = Inr s \<and> bs = bytes s)"
    by (auto simp: bcsSerialize_def split: sum.splits)
  then show ?thesis
    unfolding alt_ser_iff by (auto simp: BcsSerializer_def BCS_MAX_CONTAINER_DEPTH_def)
qed

lemma alt_bcsDeserialize_iff:
  "bcsDeserialize de bs = Inr x \<longleftrightarrow> (\<exists>v. x = make_variant v \<and> wf_doc (doc v) \<and> depth (doc v) \<le> 500 \<and> bs = enc (doc v))"
proof -
  let ?d = "BcsDeserializer bs"
  have whole: "input_starts es ?d \<and> \<not> pos (advance (length es) ?d) < length bs \<longleftrightarrow> bs = es" for es
    by (auto simp: BcsDeserializer_def input_starts_prefix)
  have budget: "unat (de_container_depth_budget ?d) = 500"
    by (simp add: BcsDeserializer_def BCS_MAX_CONTAINER_DEPTH_def)
  have "bcsDeserialize de bs = Inr x \<longleftrightarrow> (\<exists>d'. de ?d = Inr (x, d') \<and> \<not> pos d' < length bs)"
    by (auto simp: bcsDeserialize_def de_get_buffer_offset_def split: sum.splits prod.splits)
  also have "\<dots> \<longleftrightarrow> (\<exists>v. x = make_variant v \<and> wf_doc (doc v) \<and> depth (doc v) \<le> 500 \<and>
      (input_starts (enc (doc v)) ?d \<and> \<not> pos (advance (length (enc (doc v))) ?d) < length bs))"
    unfolding alt_de_iff budget by auto
  finally show ?thesis
    unfolding whole .
qed

lemma alt_roundtrip: "bcsSerialize ser v = Inr bs \<Longrightarrow> typed (doc v) \<Longrightarrow> bcsDeserialize de bs = Inr (make_variant v)"
  by (auto simp: alt_bcsSerialize_iff alt_bcsDeserialize_iff wf_doc_def)

lemma alt_canonical: "bcsDeserialize de bs = Inr (make_variant v) \<Longrightarrow> bcsSerialize ser v = Inr bs"
  by (auto simp: alt_bcsSerialize_iff alt_bcsDeserialize_iff wf_doc_def dest: inject)

lemma alt_no_other: "bcsDeserialize de bs = Inr x \<Longrightarrow> \<exists>v. x = make_variant v"
  by (auto simp: alt_bcsDeserialize_iff)

text \<open>The message of the variant is the message of the alternative behind its index, one container level deeper.\<close>

lemma alt_in_variant:
  assumes variant: "bcs_codec vser vde vdoc" and "vdoc (make_variant v) = Doc_Container (Doc_Variant i (doc v))"
    and serialized: "bcsSerialize vser (make_variant v) = Inr bs"
  shows "bcsSerialize ser v = Inr (drop (length (uleb128 i)) bs) \<and> take (length (uleb128 i)) bs = uleb128 i"
proof -
  have "fits (vdoc (make_variant v)) \<and> depth (vdoc (make_variant v)) \<le> 500 \<and> bs = enc (vdoc (make_variant v))"
    using serialized bcs_codec.bcsSerialize_iff [OF variant] by blast
  then show ?thesis using assms(2) by (simp add: alt_bcsSerialize_iff)
qed

end

section \<open>Alternatives of \<open>CoinTradeMetadata\<close>\<close>

definition bcsSerialize_CoinTradeMetadata_CoinTradeMetadataV0 :: "CoinTradeMetadataV0 \<Rightarrow> u8 list result" where
  "bcsSerialize_CoinTradeMetadata_CoinTradeMetadataV0 = bcsSerialize serialize_CoinTradeMetadata_CoinTradeMetadataV0"

definition bcsDeserialize_CoinTradeMetadata_CoinTradeMetadataV0 :: "u8 list \<Rightarrow> CoinTradeMetadata result" where
  "bcsDeserialize_CoinTradeMetadata_CoinTradeMetadataV0 = bcsDeserialize deserialize_CoinTradeMetadata_CoinTradeMetadataV0"

interpretation CoinTradeMetadata_CoinTradeMetadataV0_alternative: alternative
  "serialize_CoinTradeMetadata_CoinTradeMetadataV0" "deserialize_CoinTradeMetadata_CoinTradeMetadataV0" CoinTradeMetadata_CoinTradeMetadataV0
  "\<lambda>value'. Doc_Tuple [doc_CoinTradeMetadataV0 value']"
  by unfold_locales (auto simp: serialize_CoinTradeMetadata_CoinTradeMetadataV0_def deserialize_CoinTradeMetadata_CoinTradeMetadataV0_def run_iff codec_iff add.assoc
      intro!: throws_intros codec_exn)

section \<open>Alternatives of \<open>GeneralMetadata\<close>\<close>

definition bcsSerialize_GeneralMetadata_GeneralMetadataVersion0 :: "GeneralMetadataV0 \<Rightarrow> u8 list result" where
  "bcsSerialize_GeneralMetadata_GeneralMetadataVersion0 = bcsSerialize serialize_GeneralMetadata_GeneralMetadataVersion0"

definition bcsDeserialize_GeneralMetadata_GeneralMetadataVersion0 :: "u8 list \<Rightarrow> GeneralMetadata result" where
  "bcsDeserialize_GeneralMetadata_GeneralMetadataVersion0 = bcsDeserialize deserialize_GeneralMetadata_GeneralMetadataVersion0"

interpretation GeneralMetadata_GeneralMetadataVersion0_alternative: alternative
  "serialize_GeneralMetadata_GeneralMetadataVersion0" "deserialize_GeneralMetadata_GeneralMetadataVersion0" GeneralMetadata_GeneralMetadataVersion0
  "\<lambda>value'. Doc_Tuple [doc_GeneralMetadataV0 value']"
  by unfold_locales (auto simp: serialize_GeneralMetadata_GeneralMetadataVersion0_def deserialize_GeneralMetadata_GeneralMetadataVersion0_def run_iff codec_iff add.assoc
      intro!: throws_intros codec_exn)

section \<open>Alternatives of \<open>PaymentMetadata\<close>\<close>

definition bcsSerialize_PaymentMetadata_PaymentMetadataVersion0 :: "PaymentMetadataV0 \<Rightarrow> u8 list result" where
  "bcsSerialize_PaymentMetadata_PaymentMetadataVersion0 = bcsSerialize serialize_PaymentMetadata_PaymentMetadataVersion0"

definition bcsDeserialize_PaymentMetadata_PaymentMetadataVersion0 :: "u8 list \<Rightarrow> PaymentMetadata result" where
  "bcsDeserialize_PaymentMetadata_PaymentMetadataVersion0 = bcsDeserialize deserialize_PaymentMetadata_PaymentMetadataVersion0"

interpretation PaymentMetadata_PaymentMetadataVersion0_alternative: alternative
  "serialize_PaymentMetadata_PaymentMetadataVersion0" "deserialize_PaymentMetadata_PaymentMetadataVersion0" PaymentMetadata_PaymentMetadataVersion0
  "\<lambda>value'. Doc_Tuple [doc_PaymentMetadataV0 value']"
  by unfold_locales (auto simp: serialize_PaymentMetadata_PaymentMetadataVersion0_def deserialize_PaymentMetadata_PaymentMetadataVersion0_def run_iff codec_iff add.assoc
      intro!: throws_intros codec_exn)

section \<open>Alternatives of \<open>RefundReason\<close>\<close>

definition bcsSerialize_RefundReason_OtherReason :: "u8 list result" where
  "bcsSerialize_RefundReason_OtherReason = bcsSerialize (\<lambda>_. serialize_RefundReason_OtherReason) ()"

definition bcsDeserialize_RefundReason_OtherReason :: "u8 list \<Rightarrow> RefundReason result" where
  "bcsDeserialize_RefundReason_OtherReason = bcsDeserialize deserialize_RefundReason_OtherReason"

interpretation RefundReason_OtherReason_alternative: alternative
  "\<lambda>_ :: unit. serialize_RefundReason_OtherReason" "deserialize_RefundReason_OtherReason" "\<lambda>_ :: unit. RefundReason_OtherReason"
  "\<lambda>_ :: unit. Doc_Tuple []"
  by unfold_locales (auto simp: serialize_RefundReason_OtherReason_def deserialize_RefundReason_OtherReason_def run_iff codec_iff add.assoc
      intro!: throws_intros codec_exn)

definition bcsSerialize_RefundReason_InvalidSubaddress :: "u8 list result" where
  "bcsSerialize_RefundReason_InvalidSubaddress = bcsSerialize (\<lambda>_. serialize_RefundReason_InvalidSubaddress) ()"

definition bcsDeserialize_RefundReason_InvalidSubaddress :: "u8 list \<Rightarrow> RefundReason result" where
  "bcsDeserialize_RefundReason_InvalidSubaddress = bcsDeserialize deserialize_RefundReason_InvalidSubaddress"

interpretation RefundReason_InvalidSubaddress_alternative: alternative
  "\<lambda>_ :: unit. serialize_RefundReason_InvalidSubaddress" "deserialize_RefundReason_InvalidSubaddress" "\<lambda>_ :: unit. RefundReason_InvalidSubaddress"
  "\<lambda>_ :: unit. Doc_Tuple []"
  by unfold_locales (auto simp: serialize_RefundReason_InvalidSubaddress_def deserialize_RefundReason_InvalidSubaddress_def run_iff codec_iff add.assoc
      intro!: throws_intros codec_exn)

definition bcsSerialize_RefundReason_UserInitiatedPartialRefund :: "u8 list result" where
  "bcsSerialize_RefundReason_UserInitiatedPartialRefund = bcsSerialize (\<lambda>_. serialize_RefundReason_UserInitiatedPartialRefund) ()"

definition bcsDeserialize_RefundReason_UserInitiatedPartialRefund :: "u8 list \<Rightarrow> RefundReason result" where
  "bcsDeserialize_RefundReason_UserInitiatedPartialRefund = bcsDeserialize deserialize_RefundReason_UserInitiatedPartialRefund"

interpretation RefundReason_UserInitiatedPartialRefund_alternative: alternative
  "\<lambda>_ :: unit. serialize_RefundReason_UserInitiatedPartialRefund" "deserialize_RefundReason_UserInitiatedPartialRefund" "\<lambda>_ :: unit. RefundReason_UserInitiatedPartialRefund"
  "\<lambda>_ :: unit. Doc_Tuple []"
  by unfold_locales (auto simp: serialize_RefundReason_UserInitiatedPartialRefund_def deserialize_RefundReason_UserInitiatedPartialRefund_def run_iff codec_iff add.assoc
      intro!: throws_intros codec_exn)

definition bcsSerialize_RefundReason_UserInitiatedFullRefund :: "u8 list result" where
  "bcsSerialize_RefundReason_UserInitiatedFullRefund = bcsSerialize (\<lambda>_. serialize_RefundReason_UserInitiatedFullRefund) ()"

definition bcsDeserialize_RefundReason_UserInitiatedFullRefund :: "u8 list \<Rightarrow> RefundReason result" where
  "bcsDeserialize_RefundReason_UserInitiatedFullRefund = bcsDeserialize deserialize_RefundReason_UserInitiatedFullRefund"

interpretation RefundReason_UserInitiatedFullRefund_alternative: alternative
  "\<lambda>_ :: unit. serialize_RefundReason_UserInitiatedFullRefund" "deserialize_RefundReason_UserInitiatedFullRefund" "\<lambda>_ :: unit. RefundReason_UserInitiatedFullRefund"
  "\<lambda>_ :: unit. Doc_Tuple []"
  by unfold_locales (auto simp: serialize_RefundReason_UserInitiatedFullRefund_def deserialize_RefundReason_UserInitiatedFullRefund_def run_iff codec_iff add.assoc
      intro!: throws_intros codec_exn)

definition bcsSerialize_RefundReason_InvalidReferenceId :: "u8 list result" where
  "bcsSerialize_RefundReason_InvalidReferenceId = bcsSerialize (\<lambda>_. serialize_RefundReason_InvalidReferenceId) ()"

definition bcsDeserialize_RefundReason_InvalidReferenceId :: "u8 list \<Rightarrow> RefundReason result" where
  "bcsDeserialize_RefundReason_InvalidReferenceId = bcsDeserialize deserialize_RefundReason_InvalidReferenceId"

interpretation RefundReason_InvalidReferenceId_alternative: alternative
  "\<lambda>_ :: unit. serialize_RefundReason_InvalidReferenceId" "deserialize_RefundReason_InvalidReferenceId" "\<lambda>_ :: unit. RefundReason_InvalidReferenceId"
  "\<lambda>_ :: unit. Doc_Tuple []"
  by unfold_locales (auto simp: serialize_RefundReason_InvalidReferenceId_def deserialize_RefundReason_InvalidReferenceId_def run_iff codec_iff add.assoc
      intro!: throws_intros codec_exn)

section \<open>Alternatives of \<open>RefundMetadata\<close>\<close>

definition bcsSerialize_RefundMetadata_RefundMetadataV0 :: "RefundMetadataV0 \<Rightarrow> u8 list result" where
  "bcsSerialize_RefundMetadata_RefundMetadataV0 = bcsSerialize serialize_RefundMetadata_RefundMetadataV0"

definition bcsDeserialize_RefundMetadata_RefundMetadataV0 :: "u8 list \<Rightarrow> RefundMetadata result" where
  "bcsDeserialize_RefundMetadata_RefundMetadataV0 = bcsDeserialize deserialize_RefundMetadata_RefundMetadataV0"

interpretation RefundMetadata_RefundMetadataV0_alternative: alternative
  "serialize_RefundMetadata_RefundMetadataV0" "deserialize_RefundMetadata_RefundMetadataV0" RefundMetadata_RefundMetadataV0
  "\<lambda>value'. Doc_Tuple [doc_RefundMetadataV0 value']"
  by unfold_locales (auto simp: serialize_RefundMetadata_RefundMetadataV0_def deserialize_RefundMetadata_RefundMetadataV0_def run_iff codec_iff add.assoc
      intro!: throws_intros codec_exn)

section \<open>Alternatives of \<open>TravelRuleMetadata\<close>\<close>

definition bcsSerialize_TravelRuleMetadata_TravelRuleMetadataVersion0 :: "TravelRuleMetadataV0 \<Rightarrow> u8 list result" where
  "bcsSerialize_TravelRuleMetadata_TravelRuleMetadataVersion0 = bcsSerialize serialize_TravelRuleMetadata_TravelRuleMetadataVersion0"

definition bcsDeserialize_TravelRuleMetadata_TravelRuleMetadataVersion0 :: "u8 list \<Rightarrow> TravelRuleMetadata result" where
  "bcsDeserialize_TravelRuleMetadata_TravelRuleMetadataVersion0 = bcsDeserialize deserialize_TravelRuleMetadata_TravelRuleMetadataVersion0"

interpretation TravelRuleMetadata_TravelRuleMetadataVersion0_alternative: alternative
  "serialize_TravelRuleMetadata_TravelRuleMetadataVersion0" "deserialize_TravelRuleMetadata_TravelRuleMetadataVersion0" TravelRuleMetadata_TravelRuleMetadataVersion0
  "\<lambda>value'. Doc_Tuple [doc_TravelRuleMetadataV0 value']"
  by unfold_locales (auto simp: serialize_TravelRuleMetadata_TravelRuleMetadataVersion0_def deserialize_TravelRuleMetadata_TravelRuleMetadataVersion0_def run_iff codec_iff add.assoc
      intro!: throws_intros codec_exn)

section \<open>Alternatives of \<open>Metadata\<close>\<close>

definition bcsSerialize_Metadata_Undefined :: "u8 list result" where
  "bcsSerialize_Metadata_Undefined = bcsSerialize (\<lambda>_. serialize_Metadata_Undefined) ()"

definition bcsDeserialize_Metadata_Undefined :: "u8 list \<Rightarrow> Metadata result" where
  "bcsDeserialize_Metadata_Undefined = bcsDeserialize deserialize_Metadata_Undefined"

interpretation Metadata_Undefined_alternative: alternative
  "\<lambda>_ :: unit. serialize_Metadata_Undefined" "deserialize_Metadata_Undefined" "\<lambda>_ :: unit. Metadata_Undefined"
  "\<lambda>_ :: unit. Doc_Tuple []"
  by unfold_locales (auto simp: serialize_Metadata_Undefined_def deserialize_Metadata_Undefined_def run_iff codec_iff add.assoc
      intro!: throws_intros codec_exn)

definition bcsSerialize_Metadata_GeneralMetadata :: "GeneralMetadata \<Rightarrow> u8 list result" where
  "bcsSerialize_Metadata_GeneralMetadata = bcsSerialize serialize_Metadata_GeneralMetadata"

definition bcsDeserialize_Metadata_GeneralMetadata :: "u8 list \<Rightarrow> Metadata result" where
  "bcsDeserialize_Metadata_GeneralMetadata = bcsDeserialize deserialize_Metadata_GeneralMetadata"

interpretation Metadata_GeneralMetadata_alternative: alternative
  "serialize_Metadata_GeneralMetadata" "deserialize_Metadata_GeneralMetadata" Metadata_GeneralMetadata
  "\<lambda>value'. Doc_Tuple [doc_GeneralMetadata value']"
  by unfold_locales (auto simp: serialize_Metadata_GeneralMetadata_def deserialize_Metadata_GeneralMetadata_def run_iff codec_iff add.assoc
      intro!: throws_intros codec_exn)

definition bcsSerialize_Metadata_TravelRuleMetadata :: "TravelRuleMetadata \<Rightarrow> u8 list result" where
  "bcsSerialize_Metadata_TravelRuleMetadata = bcsSerialize serialize_Metadata_TravelRuleMetadata"

definition bcsDeserialize_Metadata_TravelRuleMetadata :: "u8 list \<Rightarrow> Metadata result" where
  "bcsDeserialize_Metadata_TravelRuleMetadata = bcsDeserialize deserialize_Metadata_TravelRuleMetadata"

interpretation Metadata_TravelRuleMetadata_alternative: alternative
  "serialize_Metadata_TravelRuleMetadata" "deserialize_Metadata_TravelRuleMetadata" Metadata_TravelRuleMetadata
  "\<lambda>value'. Doc_Tuple [doc_TravelRuleMetadata value']"
  by unfold_locales (auto simp: serialize_Metadata_TravelRuleMetadata_def deserialize_Metadata_TravelRuleMetadata_def run_iff codec_iff add.assoc
      intro!: throws_intros codec_exn)

definition bcsSerialize_Metadata_UnstructuredBytesMetadata :: "UnstructuredBytesMetadata \<Rightarrow> u8 list result" where
  "bcsSerialize_Metadata_UnstructuredBytesMetadata = bcsSerialize serialize_Metadata_UnstructuredBytesMetadata"

definition bcsDeserialize_Metadata_UnstructuredBytesMetadata :: "u8 list \<Rightarrow> Metadata result" where
  "bcsDeserialize_Metadata_UnstructuredBytesMetadata = bcsDeserialize deserialize_Metadata_UnstructuredBytesMetadata"

interpretation Metadata_UnstructuredBytesMetadata_alternative: alternative
  "serialize_Metadata_UnstructuredBytesMetadata" "deserialize_Metadata_UnstructuredBytesMetadata" Metadata_UnstructuredBytesMetadata
  "\<lambda>value'. Doc_Tuple [doc_UnstructuredBytesMetadata value']"
  by unfold_locales (auto simp: serialize_Metadata_UnstructuredBytesMetadata_def deserialize_Metadata_UnstructuredBytesMetadata_def run_iff codec_iff add.assoc
      intro!: throws_intros codec_exn)

definition bcsSerialize_Metadata_RefundMetadata :: "RefundMetadata \<Rightarrow> u8 list result" where
  "bcsSerialize_Metadata_RefundMetadata = bcsSerialize serialize_Metadata_RefundMetadata"

definition bcsDeserialize_Metadata_RefundMetadata :: "u8 list \<Rightarrow> Metadata result" where
  "bcsDeserialize_Metadata_RefundMetadata = bcsDeserialize deserialize_Metadata_RefundMetadata"

interpretation Metadata_RefundMetadata_alternative: alternative
  "serialize_Metadata_RefundMetadata" "deserialize_Metadata_RefundMetadata" Metadata_RefundMetadata
  "\<lambda>value'. Doc_Tuple [doc_RefundMetadata value']"
  by unfold_locales (auto simp: serialize_Metadata_RefundMetadata_def deserialize_Metadata_RefundMetadata_def run_iff codec_iff add.assoc
      intro!: throws_intros codec_exn)

definition bcsSerialize_Metadata_CoinTradeMetadata :: "CoinTradeMetadata \<Rightarrow> u8 list result" where
  "bcsSerialize_Metadata_CoinTradeMetadata = bcsSerialize serialize_Metadata_CoinTradeMetadata"

definition bcsDeserialize_Metadata_CoinTradeMetadata :: "u8 list \<Rightarrow> Metadata result" where
  "bcsDeserialize_Metadata_CoinTradeMetadata = bcsDeserialize deserialize_Metadata_CoinTradeMetadata"

interpretation Metadata_CoinTradeMetadata_alternative: alternative
  "serialize_Metadata_CoinTradeMetadata" "deserialize_Metadata_CoinTradeMetadata" Metadata_CoinTradeMetadata
  "\<lambda>value'. Doc_Tuple [doc_CoinTradeMetadata value']"
  by unfold_locales (auto simp: serialize_Metadata_CoinTradeMetadata_def deserialize_Metadata_CoinTradeMetadata_def run_iff codec_iff add.assoc
      intro!: throws_intros codec_exn)

definition bcsSerialize_Metadata_PaymentMetadata :: "PaymentMetadata \<Rightarrow> u8 list result" where
  "bcsSerialize_Metadata_PaymentMetadata = bcsSerialize serialize_Metadata_PaymentMetadata"

definition bcsDeserialize_Metadata_PaymentMetadata :: "u8 list \<Rightarrow> Metadata result" where
  "bcsDeserialize_Metadata_PaymentMetadata = bcsDeserialize deserialize_Metadata_PaymentMetadata"

interpretation Metadata_PaymentMetadata_alternative: alternative
  "serialize_Metadata_PaymentMetadata" "deserialize_Metadata_PaymentMetadata" Metadata_PaymentMetadata
  "\<lambda>value'. Doc_Tuple [doc_PaymentMetadata value']"
  by unfold_locales (auto simp: serialize_Metadata_PaymentMetadata_def deserialize_Metadata_PaymentMetadata_def run_iff codec_iff add.assoc
      intro!: throws_intros codec_exn)

section \<open>Alternatives of \<open>AccountAuthenticator\<close>\<close>

definition bcsSerialize_AccountAuthenticator_Ed25519 :: "Ed25519PublicKey \<Rightarrow> Ed25519Signature \<Rightarrow> u8 list result" where
  "bcsSerialize_AccountAuthenticator_Ed25519 public_key' signature' = bcsSerialize (\<lambda>(public_key', signature'). serialize_AccountAuthenticator_Ed25519 public_key' signature') (public_key', signature')"

definition bcsDeserialize_AccountAuthenticator_Ed25519 :: "u8 list \<Rightarrow> AccountAuthenticator result" where
  "bcsDeserialize_AccountAuthenticator_Ed25519 = bcsDeserialize deserialize_AccountAuthenticator_Ed25519"

interpretation AccountAuthenticator_Ed25519_alternative: alternative
  "\<lambda>(public_key', signature'). serialize_AccountAuthenticator_Ed25519 public_key' signature'" "deserialize_AccountAuthenticator_Ed25519" "\<lambda>(public_key', signature'). AccountAuthenticator_Ed25519 public_key' signature'"
  "\<lambda>(public_key', signature'). Doc_Tuple [doc_Ed25519PublicKey public_key', doc_Ed25519Signature signature']"
  by unfold_locales (auto simp: serialize_AccountAuthenticator_Ed25519_def deserialize_AccountAuthenticator_Ed25519_def run_iff codec_iff add.assoc
      intro!: throws_intros codec_exn split: prod.splits)

definition bcsSerialize_AccountAuthenticator_MultiEd25519 :: "MultiEd25519PublicKey \<Rightarrow> MultiEd25519Signature \<Rightarrow> u8 list result" where
  "bcsSerialize_AccountAuthenticator_MultiEd25519 public_key' signature' = bcsSerialize (\<lambda>(public_key', signature'). serialize_AccountAuthenticator_MultiEd25519 public_key' signature') (public_key', signature')"

definition bcsDeserialize_AccountAuthenticator_MultiEd25519 :: "u8 list \<Rightarrow> AccountAuthenticator result" where
  "bcsDeserialize_AccountAuthenticator_MultiEd25519 = bcsDeserialize deserialize_AccountAuthenticator_MultiEd25519"

interpretation AccountAuthenticator_MultiEd25519_alternative: alternative
  "\<lambda>(public_key', signature'). serialize_AccountAuthenticator_MultiEd25519 public_key' signature'" "deserialize_AccountAuthenticator_MultiEd25519" "\<lambda>(public_key', signature'). AccountAuthenticator_MultiEd25519 public_key' signature'"
  "\<lambda>(public_key', signature'). Doc_Tuple [doc_MultiEd25519PublicKey public_key', doc_MultiEd25519Signature signature']"
  by unfold_locales (auto simp: serialize_AccountAuthenticator_MultiEd25519_def deserialize_AccountAuthenticator_MultiEd25519_def run_iff codec_iff add.assoc
      intro!: throws_intros codec_exn split: prod.splits)

section \<open>Alternatives of \<open>TransactionAuthenticator\<close>\<close>

definition bcsSerialize_TransactionAuthenticator_Ed25519 :: "Ed25519PublicKey \<Rightarrow> Ed25519Signature \<Rightarrow> u8 list result" where
  "bcsSerialize_TransactionAuthenticator_Ed25519 public_key' signature' = bcsSerialize (\<lambda>(public_key', signature'). serialize_TransactionAuthenticator_Ed25519 public_key' signature') (public_key', signature')"

definition bcsDeserialize_TransactionAuthenticator_Ed25519 :: "u8 list \<Rightarrow> TransactionAuthenticator result" where
  "bcsDeserialize_TransactionAuthenticator_Ed25519 = bcsDeserialize deserialize_TransactionAuthenticator_Ed25519"

interpretation TransactionAuthenticator_Ed25519_alternative: alternative
  "\<lambda>(public_key', signature'). serialize_TransactionAuthenticator_Ed25519 public_key' signature'" "deserialize_TransactionAuthenticator_Ed25519" "\<lambda>(public_key', signature'). TransactionAuthenticator_Ed25519 public_key' signature'"
  "\<lambda>(public_key', signature'). Doc_Tuple [doc_Ed25519PublicKey public_key', doc_Ed25519Signature signature']"
  by unfold_locales (auto simp: serialize_TransactionAuthenticator_Ed25519_def deserialize_TransactionAuthenticator_Ed25519_def run_iff codec_iff add.assoc
      intro!: throws_intros codec_exn split: prod.splits)

definition bcsSerialize_TransactionAuthenticator_MultiEd25519 :: "MultiEd25519PublicKey \<Rightarrow> MultiEd25519Signature \<Rightarrow> u8 list result" where
  "bcsSerialize_TransactionAuthenticator_MultiEd25519 public_key' signature' = bcsSerialize (\<lambda>(public_key', signature'). serialize_TransactionAuthenticator_MultiEd25519 public_key' signature') (public_key', signature')"

definition bcsDeserialize_TransactionAuthenticator_MultiEd25519 :: "u8 list \<Rightarrow> TransactionAuthenticator result" where
  "bcsDeserialize_TransactionAuthenticator_MultiEd25519 = bcsDeserialize deserialize_TransactionAuthenticator_MultiEd25519"

interpretation TransactionAuthenticator_MultiEd25519_alternative: alternative
  "\<lambda>(public_key', signature'). serialize_TransactionAuthenticator_MultiEd25519 public_key' signature'" "deserialize_TransactionAuthenticator_MultiEd25519" "\<lambda>(public_key', signature'). TransactionAuthenticator_MultiEd25519 public_key' signature'"
  "\<lambda>(public_key', signature'). Doc_Tuple [doc_MultiEd25519PublicKey public_key', doc_MultiEd25519Signature signature']"
  by unfold_locales (auto simp: serialize_TransactionAuthenticator_MultiEd25519_def deserialize_TransactionAuthenticator_MultiEd25519_def run_iff codec_iff add.assoc
      intro!: throws_intros codec_exn split: prod.splits)

definition bcsSerialize_TransactionAuthenticator_MultiAgent :: "AccountAuthenticator \<Rightarrow> AccountAddress list \<Rightarrow> AccountAuthenticator list \<Rightarrow> u8 list result" where
  "bcsSerialize_TransactionAuthenticator_MultiAgent sender' secondary_signer_addresses' secondary_signers' = bcsSerialize (\<lambda>(sender', secondary_signer_addresses', secondary_signers'). serialize_TransactionAuthenticator_MultiAgent sender' secondary_signer_addresses' secondary_signers') (sender', secondary_signer_addresses', secondary_signers')"

definition bcsDeserialize_TransactionAuthenticator_MultiAgent :: "u8 list \<Rightarrow> TransactionAuthenticator result" where
  "bcsDeserialize_TransactionAuthenticator_MultiAgent = bcsDeserialize deserialize_TransactionAuthenticator_MultiAgent"

interpretation TransactionAuthenticator_MultiAgent_alternative: alternative
  "\<lambda>(sender', secondary_signer_addresses', secondary_signers'). serialize_TransactionAuthenticator_MultiAgent sender' secondary_signer_addresses' secondary_signers'" "deserialize_TransactionAuthenticator_MultiAgent" "\<lambda>(sender', secondary_signer_addresses', secondary_signers'). TransactionAuthenticator_MultiAgent sender' secondary_signer_addresses' secondary_signers'"
  "\<lambda>(sender', secondary_signer_addresses', secondary_signers'). Doc_Tuple [doc_AccountAuthenticator sender', doc_vector doc_AccountAddress secondary_signer_addresses', doc_vector doc_AccountAuthenticator secondary_signers']"
  by unfold_locales (auto simp: serialize_TransactionAuthenticator_MultiAgent_def deserialize_TransactionAuthenticator_MultiAgent_def run_iff codec_iff add.assoc
      intro!: throws_intros codec_exn split: prod.splits)

section \<open>Alternatives of \<open>TransactionArgument\<close>\<close>

definition bcsSerialize_TransactionArgument_U8 :: "u8 \<Rightarrow> u8 list result" where
  "bcsSerialize_TransactionArgument_U8 = bcsSerialize serialize_TransactionArgument_U8"

definition bcsDeserialize_TransactionArgument_U8 :: "u8 list \<Rightarrow> TransactionArgument result" where
  "bcsDeserialize_TransactionArgument_U8 = bcsDeserialize deserialize_TransactionArgument_U8"

interpretation TransactionArgument_U8_alternative: alternative
  "serialize_TransactionArgument_U8" "deserialize_TransactionArgument_U8" TransactionArgument_U8
  "\<lambda>value'. Doc_Tuple [doc_u8 value']"
  by unfold_locales (auto simp: serialize_TransactionArgument_U8_def deserialize_TransactionArgument_U8_def run_iff codec_iff add.assoc
      intro!: throws_intros codec_exn)

definition bcsSerialize_TransactionArgument_U64 :: "u64 \<Rightarrow> u8 list result" where
  "bcsSerialize_TransactionArgument_U64 = bcsSerialize serialize_TransactionArgument_U64"

definition bcsDeserialize_TransactionArgument_U64 :: "u8 list \<Rightarrow> TransactionArgument result" where
  "bcsDeserialize_TransactionArgument_U64 = bcsDeserialize deserialize_TransactionArgument_U64"

interpretation TransactionArgument_U64_alternative: alternative
  "serialize_TransactionArgument_U64" "deserialize_TransactionArgument_U64" TransactionArgument_U64
  "\<lambda>value'. Doc_Tuple [doc_word 8 value']"
  by unfold_locales (auto simp: serialize_TransactionArgument_U64_def deserialize_TransactionArgument_U64_def run_iff codec_iff add.assoc
      intro!: throws_intros codec_exn)

definition bcsSerialize_TransactionArgument_U128 :: "uint128_t \<Rightarrow> u8 list result" where
  "bcsSerialize_TransactionArgument_U128 = bcsSerialize serialize_TransactionArgument_U128"

definition bcsDeserialize_TransactionArgument_U128 :: "u8 list \<Rightarrow> TransactionArgument result" where
  "bcsDeserialize_TransactionArgument_U128 = bcsDeserialize deserialize_TransactionArgument_U128"

interpretation TransactionArgument_U128_alternative: alternative
  "serialize_TransactionArgument_U128" "deserialize_TransactionArgument_U128" TransactionArgument_U128
  "\<lambda>value'. Doc_Tuple [doc_u128 value']"
  by unfold_locales (auto simp: serialize_TransactionArgument_U128_def deserialize_TransactionArgument_U128_def run_iff codec_iff add.assoc
      intro!: throws_intros codec_exn)

definition bcsSerialize_TransactionArgument_Address :: "AccountAddress \<Rightarrow> u8 list result" where
  "bcsSerialize_TransactionArgument_Address = bcsSerialize serialize_TransactionArgument_Address"

definition bcsDeserialize_TransactionArgument_Address :: "u8 list \<Rightarrow> TransactionArgument result" where
  "bcsDeserialize_TransactionArgument_Address = bcsDeserialize deserialize_TransactionArgument_Address"

interpretation TransactionArgument_Address_alternative: alternative
  "serialize_TransactionArgument_Address" "deserialize_TransactionArgument_Address" TransactionArgument_Address
  "\<lambda>value'. Doc_Tuple [doc_AccountAddress value']"
  by unfold_locales (auto simp: serialize_TransactionArgument_Address_def deserialize_TransactionArgument_Address_def run_iff codec_iff add.assoc
      intro!: throws_intros codec_exn)

definition bcsSerialize_TransactionArgument_U8Vector :: "u8 list \<Rightarrow> u8 list result" where
  "bcsSerialize_TransactionArgument_U8Vector = bcsSerialize serialize_TransactionArgument_U8Vector"

definition bcsDeserialize_TransactionArgument_U8Vector :: "u8 list \<Rightarrow> TransactionArgument result" where
  "bcsDeserialize_TransactionArgument_U8Vector = bcsDeserialize deserialize_TransactionArgument_U8Vector"

interpretation TransactionArgument_U8Vector_alternative: alternative
  "serialize_TransactionArgument_U8Vector" "deserialize_TransactionArgument_U8Vector" TransactionArgument_U8Vector
  "\<lambda>value'. Doc_Tuple [doc_vector doc_u8 value']"
  by unfold_locales (auto simp: serialize_TransactionArgument_U8Vector_def deserialize_TransactionArgument_U8Vector_def run_iff codec_iff add.assoc
      intro!: throws_intros codec_exn)

definition bcsSerialize_TransactionArgument_Bool :: "bool \<Rightarrow> u8 list result" where
  "bcsSerialize_TransactionArgument_Bool = bcsSerialize serialize_TransactionArgument_Bool"

definition bcsDeserialize_TransactionArgument_Bool :: "u8 list \<Rightarrow> TransactionArgument result" where
  "bcsDeserialize_TransactionArgument_Bool = bcsDeserialize deserialize_TransactionArgument_Bool"

interpretation TransactionArgument_Bool_alternative: alternative
  "serialize_TransactionArgument_Bool" "deserialize_TransactionArgument_Bool" TransactionArgument_Bool
  "\<lambda>value'. Doc_Tuple [doc_bool value']"
  by unfold_locales (auto simp: serialize_TransactionArgument_Bool_def deserialize_TransactionArgument_Bool_def run_iff codec_iff add.assoc
      intro!: throws_intros codec_exn)

section \<open>Alternatives of \<open>TypeTag\<close>\<close>

definition bcsSerialize_TypeTag_Bool :: "u8 list result" where
  "bcsSerialize_TypeTag_Bool = bcsSerialize (\<lambda>_. serialize_TypeTag_Bool) ()"

definition bcsDeserialize_TypeTag_Bool :: "u8 list \<Rightarrow> TypeTag result" where
  "bcsDeserialize_TypeTag_Bool = bcsDeserialize deserialize_TypeTag_Bool"

interpretation TypeTag_Bool_alternative: alternative
  "\<lambda>_ :: unit. serialize_TypeTag_Bool" "deserialize_TypeTag_Bool" "\<lambda>_ :: unit. TypeTag_Bool"
  "\<lambda>_ :: unit. Doc_Tuple []"
  by unfold_locales (auto simp: serialize_TypeTag_Bool_def deserialize_TypeTag_Bool_def run_iff codec_iff add.assoc
      intro!: throws_intros codec_exn)

definition bcsSerialize_TypeTag_U8 :: "u8 list result" where
  "bcsSerialize_TypeTag_U8 = bcsSerialize (\<lambda>_. serialize_TypeTag_U8) ()"

definition bcsDeserialize_TypeTag_U8 :: "u8 list \<Rightarrow> TypeTag result" where
  "bcsDeserialize_TypeTag_U8 = bcsDeserialize deserialize_TypeTag_U8"

interpretation TypeTag_U8_alternative: alternative
  "\<lambda>_ :: unit. serialize_TypeTag_U8" "deserialize_TypeTag_U8" "\<lambda>_ :: unit. TypeTag_U8"
  "\<lambda>_ :: unit. Doc_Tuple []"
  by unfold_locales (auto simp: serialize_TypeTag_U8_def deserialize_TypeTag_U8_def run_iff codec_iff add.assoc
      intro!: throws_intros codec_exn)

definition bcsSerialize_TypeTag_U64 :: "u8 list result" where
  "bcsSerialize_TypeTag_U64 = bcsSerialize (\<lambda>_. serialize_TypeTag_U64) ()"

definition bcsDeserialize_TypeTag_U64 :: "u8 list \<Rightarrow> TypeTag result" where
  "bcsDeserialize_TypeTag_U64 = bcsDeserialize deserialize_TypeTag_U64"

interpretation TypeTag_U64_alternative: alternative
  "\<lambda>_ :: unit. serialize_TypeTag_U64" "deserialize_TypeTag_U64" "\<lambda>_ :: unit. TypeTag_U64"
  "\<lambda>_ :: unit. Doc_Tuple []"
  by unfold_locales (auto simp: serialize_TypeTag_U64_def deserialize_TypeTag_U64_def run_iff codec_iff add.assoc
      intro!: throws_intros codec_exn)

definition bcsSerialize_TypeTag_U128 :: "u8 list result" where
  "bcsSerialize_TypeTag_U128 = bcsSerialize (\<lambda>_. serialize_TypeTag_U128) ()"

definition bcsDeserialize_TypeTag_U128 :: "u8 list \<Rightarrow> TypeTag result" where
  "bcsDeserialize_TypeTag_U128 = bcsDeserialize deserialize_TypeTag_U128"

interpretation TypeTag_U128_alternative: alternative
  "\<lambda>_ :: unit. serialize_TypeTag_U128" "deserialize_TypeTag_U128" "\<lambda>_ :: unit. TypeTag_U128"
  "\<lambda>_ :: unit. Doc_Tuple []"
  by unfold_locales (auto simp: serialize_TypeTag_U128_def deserialize_TypeTag_U128_def run_iff codec_iff add.assoc
      intro!: throws_intros codec_exn)

definition bcsSerialize_TypeTag_Address :: "u8 list result" where
  "bcsSerialize_TypeTag_Address = bcsSerialize (\<lambda>_. serialize_TypeTag_Address) ()"

definition bcsDeserialize_TypeTag_Address :: "u8 list \<Rightarrow> TypeTag result" where
  "bcsDeserialize_TypeTag_Address = bcsDeserialize deserialize_TypeTag_Address"

interpretation TypeTag_Address_alternative: alternative
  "\<lambda>_ :: unit. serialize_TypeTag_Address" "deserialize_TypeTag_Address" "\<lambda>_ :: unit. TypeTag_Address"
  "\<lambda>_ :: unit. Doc_Tuple []"
  by unfold_locales (auto simp: serialize_TypeTag_Address_def deserialize_TypeTag_Address_def run_iff codec_iff add.assoc
      intro!: throws_intros codec_exn)

definition bcsSerialize_TypeTag_Signer :: "u8 list result" where
  "bcsSerialize_TypeTag_Signer = bcsSerialize (\<lambda>_. serialize_TypeTag_Signer) ()"

definition bcsDeserialize_TypeTag_Signer :: "u8 list \<Rightarrow> TypeTag result" where
  "bcsDeserialize_TypeTag_Signer = bcsDeserialize deserialize_TypeTag_Signer"

interpretation TypeTag_Signer_alternative: alternative
  "\<lambda>_ :: unit. serialize_TypeTag_Signer" "deserialize_TypeTag_Signer" "\<lambda>_ :: unit. TypeTag_Signer"
  "\<lambda>_ :: unit. Doc_Tuple []"
  by unfold_locales (auto simp: serialize_TypeTag_Signer_def deserialize_TypeTag_Signer_def run_iff codec_iff add.assoc
      intro!: throws_intros codec_exn)

definition bcsSerialize_TypeTag_Vector :: "TypeTag \<Rightarrow> u8 list result" where
  "bcsSerialize_TypeTag_Vector = bcsSerialize (serialize_TypeTag_Vector serialize_TypeTag)"

definition bcsDeserialize_TypeTag_Vector :: "u8 list \<Rightarrow> TypeTag result" where
  "bcsDeserialize_TypeTag_Vector = bcsDeserialize (deserialize_TypeTag_Vector deserialize_TypeTag)"

interpretation TypeTag_Vector_alternative: alternative
  "serialize_TypeTag_Vector serialize_TypeTag" "deserialize_TypeTag_Vector deserialize_TypeTag" TypeTag_Vector
  "\<lambda>value'. Doc_Tuple [doc_TypeTag value']"
  by unfold_locales (auto simp: serialize_TypeTag_Vector_def deserialize_TypeTag_Vector_def run_iff codec_iff add.assoc
      intro!: throws_intros codec_exn)

definition bcsSerialize_TypeTag_Struct :: "StructTag \<Rightarrow> u8 list result" where
  "bcsSerialize_TypeTag_Struct = bcsSerialize (serialize_TypeTag_Struct serialize_StructTag)"

definition bcsDeserialize_TypeTag_Struct :: "u8 list \<Rightarrow> TypeTag result" where
  "bcsDeserialize_TypeTag_Struct = bcsDeserialize (deserialize_TypeTag_Struct deserialize_StructTag)"

interpretation TypeTag_Struct_alternative: alternative
  "serialize_TypeTag_Struct serialize_StructTag" "deserialize_TypeTag_Struct deserialize_StructTag" TypeTag_Struct
  "\<lambda>value'. Doc_Tuple [doc_StructTag value']"
  by unfold_locales (auto simp: serialize_TypeTag_Struct_def deserialize_TypeTag_Struct_def run_iff codec_iff add.assoc
      intro!: throws_intros codec_exn)

section \<open>Alternatives of \<open>ContractEvent\<close>\<close>

definition bcsSerialize_ContractEvent_V0 :: "ContractEventV0 \<Rightarrow> u8 list result" where
  "bcsSerialize_ContractEvent_V0 = bcsSerialize serialize_ContractEvent_V0"

definition bcsDeserialize_ContractEvent_V0 :: "u8 list \<Rightarrow> ContractEvent result" where
  "bcsDeserialize_ContractEvent_V0 = bcsDeserialize deserialize_ContractEvent_V0"

interpretation ContractEvent_V0_alternative: alternative
  "serialize_ContractEvent_V0" "deserialize_ContractEvent_V0" ContractEvent_V0
  "\<lambda>value'. Doc_Tuple [doc_ContractEventV0 value']"
  by unfold_locales (auto simp: serialize_ContractEvent_V0_def deserialize_ContractEvent_V0_def run_iff codec_iff add.assoc
      intro!: throws_intros codec_exn)

section \<open>Alternatives of \<open>WriteOp\<close>\<close>

definition bcsSerialize_WriteOp_Deletion :: "u8 list result" where
  "bcsSerialize_WriteOp_Deletion = bcsSerialize (\<lambda>_. serialize_WriteOp_Deletion) ()"

definition bcsDeserialize_WriteOp_Deletion :: "u8 list \<Rightarrow> WriteOp result" where
  "bcsDeserialize_WriteOp_Deletion = bcsDeserialize deserialize_WriteOp_Deletion"

interpretation WriteOp_Deletion_alternative: alternative
  "\<lambda>_ :: unit. serialize_WriteOp_Deletion" "deserialize_WriteOp_Deletion" "\<lambda>_ :: unit. WriteOp_Deletion"
  "\<lambda>_ :: unit. Doc_Tuple []"
  by unfold_locales (auto simp: serialize_WriteOp_Deletion_def deserialize_WriteOp_Deletion_def run_iff codec_iff add.assoc
      intro!: throws_intros codec_exn)

definition bcsSerialize_WriteOp_Value :: "u8 list \<Rightarrow> u8 list result" where
  "bcsSerialize_WriteOp_Value = bcsSerialize serialize_WriteOp_Value"

definition bcsDeserialize_WriteOp_Value :: "u8 list \<Rightarrow> WriteOp result" where
  "bcsDeserialize_WriteOp_Value = bcsDeserialize deserialize_WriteOp_Value"

interpretation WriteOp_Value_alternative: alternative
  "serialize_WriteOp_Value" "deserialize_WriteOp_Value" WriteOp_Value
  "\<lambda>value'. Doc_Tuple [doc_vector doc_u8 value']"
  by unfold_locales (auto simp: serialize_WriteOp_Value_def deserialize_WriteOp_Value_def run_iff codec_iff add.assoc
      intro!: throws_intros codec_exn)

section \<open>Alternatives of \<open>WriteSetPayload\<close>\<close>

definition bcsSerialize_WriteSetPayload_Direct :: "ChangeSet \<Rightarrow> u8 list result" where
  "bcsSerialize_WriteSetPayload_Direct = bcsSerialize serialize_WriteSetPayload_Direct"

definition bcsDeserialize_WriteSetPayload_Direct :: "eval_order \<Rightarrow> u8 list \<Rightarrow> WriteSetPayload result" where
  "bcsDeserialize_WriteSetPayload_Direct order = bcsDeserialize (deserialize_WriteSetPayload_Direct order)"

interpretation WriteSetPayload_Direct_alternative: alternative
  "serialize_WriteSetPayload_Direct" "deserialize_WriteSetPayload_Direct Left_to_right" WriteSetPayload_Direct
  "\<lambda>value'. Doc_Tuple [doc_ChangeSet value']"
  by unfold_locales (auto simp: serialize_WriteSetPayload_Direct_def deserialize_WriteSetPayload_Direct_def run_iff codec_iff add.assoc
      intro!: throws_intros codec_exn)

definition bcsSerialize_WriteSetPayload_Script :: "AccountAddress \<Rightarrow> Script \<Rightarrow> u8 list result" where
  "bcsSerialize_WriteSetPayload_Script execute_as' script' = bcsSerialize (\<lambda>(execute_as', script'). serialize_WriteSetPayload_Script execute_as' script') (execute_as', script')"

definition bcsDeserialize_WriteSetPayload_Script :: "u8 list \<Rightarrow> WriteSetPayload result" where
  "bcsDeserialize_WriteSetPayload_Script = bcsDeserialize deserialize_WriteSetPayload_Script"

interpretation WriteSetPayload_Script_alternative: alternative
  "\<lambda>(execute_as', script'). serialize_WriteSetPayload_Script execute_as' script'" "deserialize_WriteSetPayload_Script" "\<lambda>(execute_as', script'). WriteSetPayload_Script execute_as' script'"
  "\<lambda>(execute_as', script'). Doc_Tuple [doc_AccountAddress execute_as', doc_Script script']"
  by unfold_locales (auto simp: serialize_WriteSetPayload_Script_def deserialize_WriteSetPayload_Script_def run_iff codec_iff add.assoc
      intro!: throws_intros codec_exn split: prod.splits)

section \<open>Alternatives of \<open>TransactionPayload\<close>\<close>

definition bcsSerialize_TransactionPayload_WriteSet :: "WriteSetPayload \<Rightarrow> u8 list result" where
  "bcsSerialize_TransactionPayload_WriteSet = bcsSerialize serialize_TransactionPayload_WriteSet"

definition bcsDeserialize_TransactionPayload_WriteSet :: "eval_order \<Rightarrow> u8 list \<Rightarrow> TransactionPayload result" where
  "bcsDeserialize_TransactionPayload_WriteSet order = bcsDeserialize (deserialize_TransactionPayload_WriteSet order)"

interpretation TransactionPayload_WriteSet_alternative: alternative
  "serialize_TransactionPayload_WriteSet" "deserialize_TransactionPayload_WriteSet Left_to_right" TransactionPayload_WriteSet
  "\<lambda>value'. Doc_Tuple [doc_WriteSetPayload value']"
  by unfold_locales (auto simp: serialize_TransactionPayload_WriteSet_def deserialize_TransactionPayload_WriteSet_def run_iff codec_iff add.assoc
      intro!: throws_intros codec_exn)

definition bcsSerialize_TransactionPayload_Script :: "Script \<Rightarrow> u8 list result" where
  "bcsSerialize_TransactionPayload_Script = bcsSerialize serialize_TransactionPayload_Script"

definition bcsDeserialize_TransactionPayload_Script :: "u8 list \<Rightarrow> TransactionPayload result" where
  "bcsDeserialize_TransactionPayload_Script = bcsDeserialize deserialize_TransactionPayload_Script"

interpretation TransactionPayload_Script_alternative: alternative
  "serialize_TransactionPayload_Script" "deserialize_TransactionPayload_Script" TransactionPayload_Script
  "\<lambda>value'. Doc_Tuple [doc_Script value']"
  by unfold_locales (auto simp: serialize_TransactionPayload_Script_def deserialize_TransactionPayload_Script_def run_iff codec_iff add.assoc
      intro!: throws_intros codec_exn)

definition bcsSerialize_TransactionPayload_Module :: "Module \<Rightarrow> u8 list result" where
  "bcsSerialize_TransactionPayload_Module = bcsSerialize serialize_TransactionPayload_Module"

definition bcsDeserialize_TransactionPayload_Module :: "u8 list \<Rightarrow> TransactionPayload result" where
  "bcsDeserialize_TransactionPayload_Module = bcsDeserialize deserialize_TransactionPayload_Module"

interpretation TransactionPayload_Module_alternative: alternative
  "serialize_TransactionPayload_Module" "deserialize_TransactionPayload_Module" TransactionPayload_Module
  "\<lambda>value'. Doc_Tuple [doc_Module value']"
  by unfold_locales (auto simp: serialize_TransactionPayload_Module_def deserialize_TransactionPayload_Module_def run_iff codec_iff add.assoc
      intro!: throws_intros codec_exn)

definition bcsSerialize_TransactionPayload_ScriptFunction :: "ScriptFunction \<Rightarrow> u8 list result" where
  "bcsSerialize_TransactionPayload_ScriptFunction = bcsSerialize serialize_TransactionPayload_ScriptFunction"

definition bcsDeserialize_TransactionPayload_ScriptFunction :: "u8 list \<Rightarrow> TransactionPayload result" where
  "bcsDeserialize_TransactionPayload_ScriptFunction = bcsDeserialize deserialize_TransactionPayload_ScriptFunction"

interpretation TransactionPayload_ScriptFunction_alternative: alternative
  "serialize_TransactionPayload_ScriptFunction" "deserialize_TransactionPayload_ScriptFunction" TransactionPayload_ScriptFunction
  "\<lambda>value'. Doc_Tuple [doc_ScriptFunction value']"
  by unfold_locales (auto simp: serialize_TransactionPayload_ScriptFunction_def deserialize_TransactionPayload_ScriptFunction_def run_iff codec_iff add.assoc
      intro!: throws_intros codec_exn)

section \<open>Alternatives of \<open>Transaction\<close>\<close>

definition bcsSerialize_Transaction_UserTransaction :: "SignedTransaction \<Rightarrow> u8 list result" where
  "bcsSerialize_Transaction_UserTransaction = bcsSerialize serialize_Transaction_UserTransaction"

definition bcsDeserialize_Transaction_UserTransaction :: "eval_order \<Rightarrow> u8 list \<Rightarrow> Transaction result" where
  "bcsDeserialize_Transaction_UserTransaction order = bcsDeserialize (deserialize_Transaction_UserTransaction order)"

interpretation Transaction_UserTransaction_alternative: alternative
  "serialize_Transaction_UserTransaction" "deserialize_Transaction_UserTransaction Left_to_right" Transaction_UserTransaction
  "\<lambda>value'. Doc_Tuple [doc_SignedTransaction value']"
  by unfold_locales (auto simp: serialize_Transaction_UserTransaction_def deserialize_Transaction_UserTransaction_def run_iff codec_iff add.assoc
      intro!: throws_intros codec_exn)

definition bcsSerialize_Transaction_GenesisTransaction :: "WriteSetPayload \<Rightarrow> u8 list result" where
  "bcsSerialize_Transaction_GenesisTransaction = bcsSerialize serialize_Transaction_GenesisTransaction"

definition bcsDeserialize_Transaction_GenesisTransaction :: "eval_order \<Rightarrow> u8 list \<Rightarrow> Transaction result" where
  "bcsDeserialize_Transaction_GenesisTransaction order = bcsDeserialize (deserialize_Transaction_GenesisTransaction order)"

interpretation Transaction_GenesisTransaction_alternative: alternative
  "serialize_Transaction_GenesisTransaction" "deserialize_Transaction_GenesisTransaction Left_to_right" Transaction_GenesisTransaction
  "\<lambda>value'. Doc_Tuple [doc_WriteSetPayload value']"
  by unfold_locales (auto simp: serialize_Transaction_GenesisTransaction_def deserialize_Transaction_GenesisTransaction_def run_iff codec_iff add.assoc
      intro!: throws_intros codec_exn)

definition bcsSerialize_Transaction_BlockMetadata :: "BlockMetadata \<Rightarrow> u8 list result" where
  "bcsSerialize_Transaction_BlockMetadata = bcsSerialize serialize_Transaction_BlockMetadata"

definition bcsDeserialize_Transaction_BlockMetadata :: "u8 list \<Rightarrow> Transaction result" where
  "bcsDeserialize_Transaction_BlockMetadata = bcsDeserialize deserialize_Transaction_BlockMetadata"

interpretation Transaction_BlockMetadata_alternative: alternative
  "serialize_Transaction_BlockMetadata" "deserialize_Transaction_BlockMetadata" Transaction_BlockMetadata
  "\<lambda>value'. Doc_Tuple [doc_BlockMetadata value']"
  by unfold_locales (auto simp: serialize_Transaction_BlockMetadata_def deserialize_Transaction_BlockMetadata_def run_iff codec_iff add.assoc
      intro!: throws_intros codec_exn)

end
