(* ===== verification/Deployment.thy ===== *)
theory Deployment
  imports Command
begin

text \<open>
  The deployment program (\<open>src/cpp/testnet/src/deployment.cpp\<close>): it registers the currencies of a test network, deploys the
  exchange and the bank, creates the accounts of the bridge, mints, and rotates the mint key.

  The client below is the one of theory \<open>Command\<close>, and exchange and bank are those of theory \<open>Exchange\<close> over it
  (\<open>exchange_calls\<close>). What is typed is one stream, \<open>cin\<close>, which is part of the state. The loop that mints need not end: it
  is a partial function, without a value where it does not. The hash of the password is a parameter.
\<close>

section \<open>Operations over the client\<close>

fun for_each :: "('a \<Rightarrow> ('s, unit) eff) \<Rightarrow> 'a list \<Rightarrow> ('s, unit) eff" where
  "for_each body [] = eff_return ()"
| "for_each body (x # xs) = eff_bind (body x) (\<lambda>_. for_each body xs)"

definition try_catch :: "('s, unit) eff \<Rightarrow> ('s, unit) eff" where
  "try_catch f = eff_catch f (eff_return ())"

text \<open>The client of exchange and bank: the same calls.\<close>

definition exchange_calls :: "('c, 'w) command_env \<Rightarrow> 'w rust_client" where
  "exchange_calls env =
     \<lparr>rust_publish_module = (\<lambda>account_index file_name. rust_do env (Call_publish_module account_index file_name)),
      rust_execute_script_file = (\<lambda>account_index file_name tags args.
        rust_do env (Call_execute_script_file account_index file_name tags args)),
      rust_get_exchange_currencies = (\<lambda>address. rust_ask env (Query_exchange_currencies address)),
      rust_get_exchange_reserves = (\<lambda>address. rust_ask env (Query_exchange_reserves address)),
      rust_get_liquidity_balance = (\<lambda>address. rust_ask env (Query_liquidity_balance address))\<rparr>"

text \<open>An object that lives as long as the function that creates it.\<close>

definition with_object :: "'o \<Rightarrow> ('o \<times> 'w, 'a) eff \<Rightarrow> ('w, 'a) eff" where
  "with_object object' m w = (case m (object', w) of (r, (_, w')) \<Rightarrow> (r, w'))"

text \<open>\<open>auto &account = accounts[index]\<close>, without a check.\<close>

definition account_ref :: "RustAccount list \<Rightarrow> u64 \<Rightarrow> ('w, RustAccount) eff" where
  "account_ref accounts i =
     (if unat i < length accounts then eff_return (accounts ! unat i) else eff_throw (Undefined_behaviour ''accounts[index]''))"

definition cin_word :: "('w \<times> istream, cstring) eff" where
  "cin_word = eff_snd (\<lambda>cin. case get_word [] cin of (word, cin') \<Rightarrow> (Inr word, cin'))"

definition cin_u64 :: "u64 \<Rightarrow> ('w \<times> istream, u64) eff" where
  "cin_u64 old = eff_snd (\<lambda>cin. case get_u64 old cin of (n, cin') \<Rightarrow> (Inr n, cin'))"

section \<open>Constants\<close>

definition MICRO_COIN_v1 :: u64 where
  "MICRO_COIN_v1 = 1000000"

definition TESTNET_DD_ADDRESS_v1 :: Address where
  "TESTNET_DD_ADDRESS_v1 = replicate 15 0 @ [0xDD]"

definition BANK_ADMIN_ADDRESS :: Address where
  "BANK_ADMIN_ADDRESS = replicate 12 0 @ [0x42, 0x41, 0x4E, 0x4B]"

definition EXCHANGE_ADMIN_ADDRESS :: Address where
  "EXCHANGE_ADMIN_ADDRESS = replicate 12 0 @ [0x45, 0x58, 0x43, 0x48]"

definition MANTISSA_1_0 :: u64 where
  "MANTISSA_1_0 = 0xFFFFFFFF"

definition currency_codes :: "cstring list" where
  "currency_codes = map str
     [''VBTC'', ''VUSDT'', ''VWBTC'', ''VHBTC'', ''VRNBTC'', ''VUSDC'', ''VBUSD'', ''VDAI'', ''VWETH'', ''VUNI'', ''VSUSHI'', ''VLINK'',
      ''VCOMP'', ''VAAVE'', ''VBNB'', ''VWFIL'']"

datatype account_type = DD | VASP | CHILD_VASP

definition reward_admin_address :: Address where
  "reward_admin_address = replicate 12 0 @ [0x56, 0x4C, 0x53, 0x01]"

definition bridge_address_type :: "(Address \<times> account_type \<times> cstring) list" where
  "bridge_address_type =
     [(replicate 9 0 @ str ''BRGBURN'', DD, str ''Bridge Burn''),
      (replicate 9 0 @ str ''BRGFUND'', DD, str ''Bridge Fund''),
      (replicate 9 0 @ str ''BRGUSDT'', DD, str ''Bridge USDT''),
      (replicate 9 0 @ str ''BRG-BTC'', DD, str ''Bridge BTC'')]"

section \<open>Passwords\<close>

definition password_ok :: "(cstring \<Rightarrow> u64) \<Rightarrow> cstring \<Rightarrow> bool" where
  "password_ok hash_str pwd \<longleftrightarrow> hash_str pwd = 12375900582722818748"

definition check_password :: "(cstring \<Rightarrow> u64) \<Rightarrow> ('w \<times> istream, unit) eff" where
  "check_password hash_str =
     eff_bind cin_word (\<lambda>pwd.
     if password_ok hash_str pwd then eff_return () else eff_throw (Runtime_error ''password is incorrect''))"

section \<open>Currencies\<close>

definition register_new_currency :: "('c, 'w) command_env \<Rightarrow> cstring \<Rightarrow> ('w, unit) eff" where
  "register_new_currency env currency_code =
     eff_bind (rust_do env (Call_publish_curency currency_code)) (\<lambda>_.
     rust_do env (Call_register_currency currency_code 1 2 False 1000000 100))"

definition mint_to_dd :: "('c, 'w) command_env \<Rightarrow> cstring \<Rightarrow> u64 \<Rightarrow> ('w, unit) eff" where
  "mint_to_dd env currency_code amount' =
     rust_do env (Call_mint_currency_for_designated_dealer currency_code 0 TESTNET_DD_ADDRESS_v1 amount' 3)"

text \<open>The chains 1 and 5 have no designated dealer of the test network.\<close>

definition register_all_currencies :: "('c, 'w) command_env \<Rightarrow> u8 \<Rightarrow> ('w, unit) eff" where
  "register_all_currencies env chain_id =
     eff_bind (rust_do env (Call_allow_publishing_module True)) (\<lambda>_.
     eff_bind (rust_do env Call_allow_custom_script) (\<lambda>_.
     eff_bind (rust_get_all_accounts env) (\<lambda>_.
     eff_bind (for_each (\<lambda>currency_code. try_catch
       (eff_bind (register_new_currency env currency_code) (\<lambda>_.
        if chain_id = 5 \<or> chain_id = 1 then eff_return ()
        else eff_bind (rust_do env (Call_add_currency_for_designated_dealer currency_code TESTNET_DD_ADDRESS_v1)) (\<lambda>_.
             mint_to_dd env currency_code (1000000 * MICRO_COIN_v1))))) currency_codes) (\<lambda>_.
     eff_bind (rust_ask env Query_all_currency_info) (\<lambda>_. eff_return ())))))"

text \<open>The condition of the loop, fewer than three and more than six characters, never holds.\<close>

function read_currency_code :: "cstring \<Rightarrow> istream \<Rightarrow> cstring \<times> istream" where
  "read_currency_code currency_code cin =
     (let (currency_code', cin') = get_word currency_code cin
      in if length currency_code' < 3 \<and> 6 < length currency_code' then read_currency_code currency_code' cin'
         else (currency_code', cin'))"
  by auto
termination by (relation "{}") auto

declare read_currency_code.simps [simp del]

definition register_currency :: "('c, 'w) command_env \<Rightarrow> (cstring \<Rightarrow> u64) \<Rightarrow> ('w \<times> istream, unit) eff" where
  "register_currency env hash_str =
     eff_bind cin_word (\<lambda>pwd.
     if \<not> password_ok hash_str pwd then eff_return ()
     else eff_bind (eff_snd (\<lambda>cin. case read_currency_code [] cin of (code, cin') \<Rightarrow> (Inr code, cin'))) (\<lambda>currency_code.
          eff_fst (eff_bind (register_new_currency env currency_code) (\<lambda>_.
            eff_bind (rust_do env (Call_add_currency_for_designated_dealer currency_code TESTNET_DD_ADDRESS_v1)) (\<lambda>_.
            mint_to_dd env currency_code (1000000 * MICRO_COIN_v1))))))"

text \<open>
  The loop ends when \<open>q\<close> or \<open>quit\<close> is read. The amount has no initializer (\<open>junk\<close>).
\<close>

partial_function (option) mint_loop ::
    "('c, 'w) command_env \<Rightarrow> u64 \<Rightarrow> 'w \<times> istream \<Rightarrow> (unit result \<times> ('w \<times> istream)) option" where
  "mint_loop env junk s =
     (let (currency_code, cin1) = get_word [] (snd s)
      in if currency_code = str ''q'' \<or> currency_code = str ''quit'' then Some (Inr (), (fst s, cin1))
         else let (amount', cin2) = get_u64 junk cin1;
                  (r, w') = try_catch (mint_to_dd env currency_code (amount' * MICRO_COIN_v1)) (fst s)
              in if isl r then Some (r, (w', cin2)) else mint_loop env junk (w', cin2))"

definition mint_currency ::
    "('c, 'w) command_env \<Rightarrow> u64 \<Rightarrow> 'w \<times> istream \<Rightarrow> (unit result \<times> ('w \<times> istream)) option" where
  "mint_currency env junk s =
     (case rust_get_all_accounts env (fst s) of
        (Inl e, w) \<Rightarrow> Some (Inl e, (w, snd s))
      | (Inr _, w) \<Rightarrow> mint_loop env junk (w, snd s))"

definition update_dual_attestation_limit :: "('c, 'w) command_env \<Rightarrow> (cstring \<Rightarrow> u64) \<Rightarrow> u64 \<Rightarrow> ('w \<times> istream, unit) eff" where
  "update_dual_attestation_limit env hash_str junk =
     eff_bind (check_password hash_str) (\<lambda>_.
     eff_bind (cin_u64 junk) (\<lambda>limit.
     eff_fst (rust_do env (Call_update_dual_attestation_limit 0 (limit * MICRO_COIN_v1)))))"

section \<open>Exchange and bank\<close>

text \<open>
  The administrator is a designated dealer, the two users are parent accounts; a failure is reported, and the
  contracts are deployed all the same.
\<close>

definition create_service_accounts ::
    "('c, 'w) command_env \<Rightarrow> string \<Rightarrow> Address \<Rightarrow> u64 \<Rightarrow> u64 \<Rightarrow> u64 \<Rightarrow> RustAccount \<Rightarrow> RustAccount \<Rightarrow> RustAccount \<Rightarrow> ('w, unit) eff" where
  "create_service_accounts env name' admin_address' admin' user1 user2 admin_account user1_account user2_account =
     eff_bind (rust_do env (Call_create_designated_dealer_ex (str ''VLS'') 0 admin_address' (rust_auth_key admin_account)
       (str (name' @ '' Administrator'')) (str ''www.violas.io'') (rust_pub_key admin_account) True)) (\<lambda>_.
     eff_bind (rust_do env (Call_create_parent_vasp_account (str ''VLS'') 0 (rust_address user1_account) (rust_auth_key user1_account)
       (str (name' @ '' user1'')) (str ''www.violas.io'') (rust_pub_key user1_account) True)) (\<lambda>_.
     eff_bind (rust_do env (Call_create_parent_vasp_account (str ''VLS'') 0 (rust_address user2_account) (rust_auth_key user2_account)
       (str (name' @ '' user2'')) (str ''www.violas.io'') (rust_pub_key user2_account) True)) (\<lambda>_.
     for_each (\<lambda>currency_code.
       eff_bind (rust_do env (Call_add_currency admin' currency_code)) (\<lambda>_.
       eff_bind (rust_do env (Call_add_currency user1 currency_code)) (\<lambda>_.
       rust_do env (Call_add_currency user2 currency_code)))) currency_codes)))"

definition service_accounts ::
    "('c, 'w) command_env \<Rightarrow> string \<Rightarrow> Address \<Rightarrow> string \<Rightarrow> ('w, AddressAndIndex \<times> AddressAndIndex \<times> AddressAndIndex) eff" where
  "service_accounts env mnemonic admin_address' name' =
     eff_bind (rust_do env (Call_recover_wallet_accounts (str mnemonic))) (\<lambda>_.
     eff_bind (rust_create_next_account env (Some admin_address')) (\<lambda>admin'.
     eff_bind (rust_create_next_account env None) (\<lambda>user1.
     eff_bind (rust_create_next_account env None) (\<lambda>user2.
     eff_bind (rust_get_all_accounts env) (\<lambda>accounts.
     eff_bind (account_ref accounts (admin_index admin')) (\<lambda>admin_account.
     eff_bind (account_ref accounts (admin_index user1)) (\<lambda>user1_account.
     eff_bind (account_ref accounts (admin_index user2)) (\<lambda>user2_account.
     eff_bind (try_catch (create_service_accounts env name' admin_address' (admin_index admin') (admin_index user1) (admin_index user2)
       admin_account user1_account user2_account)) (\<lambda>_.
     eff_return (admin', user1, user2))))))))))"

definition exchange_contracts :: "('c, 'w) command_env \<Rightarrow> AddressAndIndex \<Rightarrow> ('w, unit) eff" where
  "exchange_contracts env admin' =
     with_object (Exchange_create (str ''move/exchange/'') admin')
       (eff_bind (exchange_deploy_with_root_account (exchange_calls env)) (\<lambda>_.
        eff_bind (exchange_initialize (exchange_calls env) admin' reward_admin_address) (\<lambda>_.
        for_each (exchange_add_currency (exchange_calls env)) currency_codes)))"

definition deploy_exchange :: "('c, 'w) command_env \<Rightarrow> ('w, unit) eff" where
  "deploy_exchange env =
     eff_bind (service_accounts env ''mnemonic/exchange.mne'' EXCHANGE_ADMIN_ADDRESS ''Exchange'') (\<lambda>(admin', user1, user2).
     try_catch (exchange_contracts env admin'))"

definition bank_contracts ::
    "('c, 'w) command_env \<Rightarrow> AddressAndIndex \<Rightarrow> AddressAndIndex \<Rightarrow> AddressAndIndex \<Rightarrow> ('w, unit) eff" where
  "bank_contracts env admin' user1 user2 =
     with_object (create_bank (str ''move/bank/''))
       (eff_bind (bank_deploy_with_root_account (exchange_calls env)) (\<lambda>_.
        eff_bind (bank_initialize (exchange_calls env) admin') (\<lambda>_.
        eff_bind (bank_publish (exchange_calls env) (admin_index user1)) (\<lambda>_.
        eff_bind (bank_publish (exchange_calls env) (admin_index user2)) (\<lambda>_.
        for_each (\<lambda>currency_code. bank_add_currency (exchange_calls env) currency_code (admin_address admin')
          (MANTISSA_1_0 div 2) (MANTISSA_1_0 div 20) (MANTISSA_1_0 div 10) (MANTISSA_1_0 div 5) (MANTISSA_1_0 * 8 div 10))
          currency_codes)))))"

text \<open>What follows the \<open>return\<close> of the source is never run.\<close>

definition deploy_bank :: "('c, 'w) command_env \<Rightarrow> ('w \<times> istream, unit) eff" where
  "deploy_bank env =
     eff_bind cin_word (\<lambda>in'.
     if in' \<noteq> str ''yes'' then eff_return ()
     else eff_fst
       (eff_bind (service_accounts env ''mnemonic/bank.mne'' BANK_ADMIN_ADDRESS ''Bank'') (\<lambda>(admin', user1, user2).
        try_catch (bank_contracts env admin' user1 user2))))"

section \<open>The bridge\<close>

definition create_bridge_account :: "('c, 'w) command_env \<Rightarrow> Address \<times> account_type \<times> cstring \<Rightarrow> ('w, unit) eff" where
  "create_bridge_account env = (\<lambda>(address, type', name').
     try_catch
       (eff_bind (rust_create_next_account env (if type' = DD then Some address else None)) (\<lambda>ai.
        eff_bind (rust_get_all_accounts env) (\<lambda>accounts.
        eff_bind (account_ref accounts (admin_index ai)) (\<lambda>account.
        eff_bind (case type' of
            DD \<Rightarrow> rust_do env (Call_create_designated_dealer_ex (str ''VLS'') 0 (rust_address account) (rust_auth_key account)
              name' [] (rust_pub_key account) True)
          | VASP \<Rightarrow> rust_do env (Call_create_parent_vasp_account (str ''VLS'') 0 (rust_address account) (rust_auth_key account)
              name' [] (rust_pub_key account) True)
          | CHILD_VASP \<Rightarrow> eff_return ()) (\<lambda>_.
        for_each (\<lambda>currency. rust_do env (Call_add_currency (admin_index ai) currency)) currency_codes))))))"

definition create_bridge_accounts :: "('c, 'w) command_env \<Rightarrow> ('w, unit) eff" where
  "create_bridge_accounts env =
     eff_bind (rust_do env (Call_recover_wallet_accounts (str ''mnemonic/bridge.mne''))) (\<lambda>_.
     eff_bind (for_each (create_bridge_account env) bridge_address_type) (\<lambda>_.
     eff_bind (rust_do env (Call_recover_wallet_accounts (str ''mnemonic/backend.mne''))) (\<lambda>_.
     eff_bind (rust_create_next_account env None) (\<lambda>ai.
     eff_bind (rust_get_all_accounts env) (\<lambda>accounts.
     eff_bind (account_ref accounts (admin_index ai)) (\<lambda>account.
     try_catch
       (eff_bind (rust_do env (Call_create_parent_vasp_account (str ''VLS'') 0 (rust_address account) (rust_auth_key account)
          (str ''VLS-USER'') [] (rust_pub_key account) True)) (\<lambda>_.
        for_each (\<lambda>currency. rust_do env (Call_add_currency (admin_index ai) currency)) currency_codes))))))))"

section \<open>The mint key\<close>

definition rotate_mint_key :: "('c, 'w) command_env \<Rightarrow> (cstring \<Rightarrow> u64) \<Rightarrow> ('w \<times> istream, unit) eff" where
  "rotate_mint_key env hash_str =
     eff_bind (check_password hash_str) (\<lambda>_.
     eff_fst (eff_bind (rust_create_next_account env None) (\<lambda>_.
       eff_bind (rust_get_all_accounts env) (\<lambda>accounts.
       eff_bind (account_ref accounts 0) (\<lambda>account.
       eff_bind (for_each (\<lambda>id'. rust_do env (Call_rotate_authentication_key_with_nonce id' 0 (rust_auth_key account) True))
         [VIOLAS_ROOT_ACCOUNT_ID, VIOLAS_TREASURY_COMPLIANCE_ACCOUNT_ID, VIOLAS_TESTNET_DD_ACCOUNT_ID]) (\<lambda>_.
       rust_do env (Call_save_private_key 0 (str ''./mint.key''))))))))"

section \<open>The program\<close>

text \<open>The handlers. One that does not exist is an empty \<open>std::function\<close>.\<close>

definition deployment_handler ::
    "('c, 'w) command_env \<Rightarrow> (cstring \<Rightarrow> u64) \<Rightarrow> u64 \<Rightarrow> u8 \<Rightarrow> int \<Rightarrow> 'w \<times> istream \<Rightarrow> (unit result \<times> ('w \<times> istream)) option" where
  "deployment_handler env hash_str junk chain_id index s =
     (if index = 0 then Some (register_currency env hash_str s)
      else if index = 1 then Some (eff_fst (register_all_currencies env chain_id) s)
      else if index = 2 then Some (update_dual_attestation_limit env hash_str junk s)
      else if index = 3 then Some (eff_fst (deploy_exchange env) s)
      else if index = 4 then Some (deploy_bank env s)
      else if index = 5 then mint_currency env junk s
      else if index = 6 then Some (eff_fst (create_bridge_accounts env) s)
      else if index = 7 then Some (rotate_mint_key env hash_str s)
      else Some (Inl Bad_function_call, s))"

definition deployment_arguments :: "cstring list \<Rightarrow> Arguments result" where
  "deployment_arguments argv =
     (if length argv < 6 then Inl (Runtime_error (''missing arguments. '' @ [CHR 0x0A] @ '' Usage : url mint_key mnemonic waypoint chain_id''))
      else sum_bind (stoi (argv ! 5)) (\<lambda>chain_id.
        Inr \<lparr>arg_url = argv ! 1, arg_mint_key = argv ! 2, arg_mnemonic = argv ! 3, arg_waypoint = argv ! 4,
          arg_chain_id = word_of_int chain_id, arg_distrbuting = False\<rparr>))"

text \<open>The exceptions of a handler are reported. The program has no value when its handler does not return.\<close>

definition deployment_main ::
    "('c, 'w) command_env \<Rightarrow> (cstring \<Rightarrow> u64) \<Rightarrow> u64 \<Rightarrow> int \<Rightarrow> cstring list \<Rightarrow> 'w \<times> istream \<Rightarrow> (unit result \<times> ('w \<times> istream)) option" where
  "deployment_main env hash_str junk index_junk argv s =
     (let (r, t) = eff_bind (eff_lift (deployment_arguments argv)) (\<lambda>args.
                   eff_bind (eff_fst (rust_create env args)) (\<lambda>_.
                   eff_bind (eff_fst (rust_test_connection env)) (\<lambda>_.
                   eff_bind (eff_snd (\<lambda>cin. case get_int index_junk cin of (index, cin') \<Rightarrow> (Inr index, cin'))) (\<lambda>index.
                   eff_return (arg_chain_id args, index))))) s
      in case (case r of Inl e \<Rightarrow> Some (Inl e, t) | Inr (chain_id, index) \<Rightarrow> deployment_handler env hash_str junk chain_id index t) of
           None \<Rightarrow> None
         | Some (Inl e, t') \<Rightarrow> Some (if catchable e then Inr () else Inl e, t')
         | Some (Inr _, t') \<Rightarrow> Some (Inr (), t'))"

section \<open>Minting\<close>

lemma raises_try_catch: "raises catchable m \<Longrightarrow> \<exists>w'. try_catch m w = (Inr (), w')"
  by (cases "m w"; cases "fst (m w)") (auto simp: try_catch_def eff_catch_def eff_return_def raises_def)

text \<open>What one order does to the outside world, whether it succeeds or not.\<close>

definition mint_once :: "('c, 'w) command_env \<Rightarrow> cstring \<times> u64 \<Rightarrow> 'w \<Rightarrow> 'w" where
  "mint_once env = (\<lambda>(currency_code, amount') w. snd (try_catch (mint_to_dd env currency_code (amount' * MICRO_COIN_v1)) w))"

definition order_words :: "(cstring \<times> u64) list \<Rightarrow> cstring list" where
  "order_words orders = concat (map (\<lambda>(currency_code, amount'). [currency_code, dec (unat amount')]) orders)"

definition is_order :: "cstring \<times> u64 \<Rightarrow> bool" where
  "is_order = (\<lambda>(currency_code, amount'). solid currency_code \<and> currency_code \<noteq> str ''q'' \<and> currency_code \<noteq> str ''quit'')"

definition minting_client :: "('c, 'w) command_env \<Rightarrow> bool" where
  "minting_client env \<longleftrightarrow> (\<forall>c. raises catchable (rust_do env c))"

lemma mints: "minting_client env \<Longrightarrow> \<exists>w'. try_catch (mint_to_dd env code n) w = (Inr (), w')"
  by (simp add: raises_try_catch minting_client_def mint_to_dd_def)

lemma mint_loop_orders:
  assumes "minting_client env" and "list_all is_order orders"
  shows "mint_loop env junk (w, words_left (order_words orders @ words)) =
    mint_loop env junk (fold (mint_once env) orders w, words_left words)"
  using assms(2)
proof (induction orders arbitrary: w)
  case (Cons order orders)
  obtain code amount' where order: "order = (code, amount')" by (cases order)
  have code: "solid code" "code \<noteq> str ''q''" "code \<noteq> str ''quit''" using Cons.prems by (auto simp: is_order_def order)
  obtain w' where w': "try_catch (mint_to_dd env code (amount' * MICRO_COIN_v1)) w = (Inr (), w')"
    using mints [OF assms(1)] by blast
  have "mint_loop env junk (w, words_left (order_words (order # orders) @ words)) =
      mint_loop env junk (w', words_left (order_words orders @ words))"
    using code w' by (subst mint_loop.simps) (simp add: order order_words_def get_words_left Let_def)
  also have "\<dots> = mint_loop env junk (fold (mint_once env) orders w', words_left words)"
    using Cons.IH Cons.prems by simp
  finally show ?case by (simp add: order mint_once_def w')
qed (simp add: order_words_def)

text \<open>From a stream that has failed or is at its end, nothing more is read, and the loop does not end.\<close>

lemma mint_loop_returns:
  "mint_loop env junk s = Some y \<Longrightarrow> minting_client env \<Longrightarrow> \<not> is_fail (snd s) \<and> \<not> is_eof (snd s)"
proof (induct rule: mint_loop.raw_induct [rotated, consumes 1])
  case (1 rec env junk s y)
  show ?case
  proof (rule ccontr)
    assume "\<not> ?thesis"
    then have "sentry (snd s) = (False, (snd s)\<lparr>is_fail := True\<rparr>)" by (auto simp: sentry_def)
    then have word: "get_word [] (snd s) = ([], (snd s)\<lparr>is_fail := True\<rparr>)"
      "get_u64 junk ((snd s)\<lparr>is_fail := True\<rparr>) = (junk, (snd s)\<lparr>is_fail := True\<rparr>)"
      by (simp_all add: get_word_def get_u64_def sentry_def)
    have codes: "[] \<noteq> str ''q''" "[] \<noteq> str ''quit''" by (simp_all add: str_def)
    obtain w' where "try_catch (mint_to_dd env [] (junk * MICRO_COIN_v1)) (fst s) = (Inr (), w')"
      using mints [OF 1(3)] by blast
    with 1(2) word codes have "rec env junk (w', (snd s)\<lparr>is_fail := True\<rparr>) = Some y" by simp
    from 1(1) [OF this 1(3)] show False by simp
  qed
qed

lemma mint_loop_endless: "minting_client env \<Longrightarrow> is_fail (snd s) \<or> is_eof (snd s) \<Longrightarrow> mint_loop env junk s = None"
  using mint_loop_returns [of env junk s] by (cases "mint_loop env junk s") auto

lemma mint_loop_no_number:
  assumes "minting_client env" and "is_order (code, 0)" and "solid (c # word)" and "\<not> is_digit c" and "c \<noteq> 0x2D" and "c \<noteq> 0x2B"
  shows "mint_loop env junk (w, words_left (code # (c # word) # words)) = None"
proof -
  have code: "solid code" "code \<noteq> str ''q''" "code \<noteq> str ''quit''" using assms(2) by (auto simp: is_order_def)
  have number: "get_u64 junk (words_left ((c # word) # words)) = (0, is_taken (c # word @ words_text words) True)"
    using sentry_at [OF stream_at_words assms(3)] assms(4-6) by (simp add: get_u64_def scan_integer_def)
  obtain w' where "try_catch (mint_to_dd env code 0) w = (Inr (), w')"
    using mints [OF assms(1)] by blast
  with code number show ?thesis
    using mint_loop_endless [OF assms(1), of "(w', is_taken (c # word @ words_text words) True)"]
    by (subst mint_loop.simps) (simp add: get_words_left is_taken_def)
qed

section \<open>What a deployment asks of the chain\<close>

text \<open>
  An effect that returns, appends calls to a log, and keeps everything else that is observed.
\<close>

definition adds :: "('s \<Rightarrow> 'l list) \<Rightarrow> ('s \<Rightarrow> 'k) \<Rightarrow> 'k \<Rightarrow> ('s, unit) eff \<Rightarrow> 'l list \<Rightarrow> bool" where
  "adds log keep k m cs \<longleftrightarrow> (\<forall>s. keep s = k \<longrightarrow> (\<exists>s'. m s = (Inr (), s') \<and> log s' = log s @ cs \<and> keep s' = k))"

named_theorems adds_intros \<open>what effects append to a log\<close>

lemma adds_bind [adds_intros]: "adds log keep k m cs \<Longrightarrow> adds log keep k n ds \<Longrightarrow> adds log keep k (eff_bind m (\<lambda>_. n)) (cs @ ds)"
  by (fastforce simp: adds_def eff_bind_def)

lemma adds_for_each [adds_intros]:
  "(\<And>x. adds log keep k (body x) (f x)) \<Longrightarrow> adds log keep k (for_each body xs) (concat (map f xs))"
proof (induction xs)
  case Nil
  show ?case by (simp add: adds_def eff_return_def)
next
  case (Cons x xs)
  then show ?case using adds_bind [of log keep k "body x" "f x" "for_each body xs"] by simp
qed

lemma adds_try_catch [adds_intros]: "adds log keep k m cs \<Longrightarrow> adds log keep k (try_catch m) cs"
  by (fastforce simp: adds_def try_catch_def eff_catch_def)

lemma adds_object [adds_intros]:
  "adds (\<lambda>s. log (snd s)) (\<lambda>s. (fst s, keep (snd s))) (object', k) m cs \<Longrightarrow> adds log keep k (with_object object' m) cs"
  by (fastforce simp: adds_def with_object_def)

text \<open>
  A client whose calls succeed: \<open>log\<close> are the calls so far, \<open>accounts\<close> those of the wallet, \<open>recovered\<close> the ones a
  mnemonic file brings back. A new account gets the next index.
\<close>

definition is_recover :: "rust_call \<Rightarrow> bool" where
  "is_recover c \<longleftrightarrow> (\<exists>f. c = Call_recover_wallet_accounts f)"

definition recording_client ::
    "('c, 'w) command_env \<Rightarrow> ('w \<Rightarrow> rust_call list) \<Rightarrow> ('w \<Rightarrow> RustAccount list) \<Rightarrow> (cstring \<Rightarrow> RustAccount list) \<Rightarrow> bool" where
  "recording_client env log accounts recovered \<longleftrightarrow>
     (\<forall>c w. \<exists>w'. rust_do env c w = (Inr (), w') \<and> log w' = log w @ [c] \<and> (\<not> is_recover c \<longrightarrow> accounts w' = accounts w)) \<and>
     (\<forall>f w. accounts (snd (rust_do env (Call_recover_wallet_accounts f) w)) = recovered f) \<and>
     (\<forall>a w. \<exists>account w'. rust_create_next_account env a w =
          (Inr \<lparr>admin_address = rust_address account, admin_index = of_nat (length (accounts w))\<rparr>, w') \<and>
        accounts w' = accounts w @ [account] \<and> log w' = log w) \<and>
     (\<forall>w. rust_get_all_accounts env w = (Inr (accounts w), w))"

lemma adds_call:
  assumes "recording_client env log accounts recovered" and "\<not> is_recover c"
  shows "adds log accounts k (rust_do env c) [c]"
  unfolding adds_def
proof (intro allI impI)
  fix w
  assume "accounts w = k"
  moreover have "\<exists>w'. rust_do env c w = (Inr (), w') \<and> log w' = log w @ [c] \<and> (\<not> is_recover c \<longrightarrow> accounts w' = accounts w)"
    using assms(1) by (simp add: recording_client_def)
  ultimately show "\<exists>w'. rust_do env c w = (Inr (), w') \<and> log w' = log w @ [c] \<and> accounts w' = k"
    using assms(2) by blast
qed

lemma adds_script:
  assumes "adds log accounts k (rust_execute_script_file rc i (exchange_path ex @ str script) tags args) cs"
  shows "adds (\<lambda>s. log (snd s)) (\<lambda>s. (fst s, accounts (snd s))) (ex, k) (exchange_script rc i script tags args) cs"
  using assms by (fastforce simp: adds_def exchange_script_def eff_bind_def eff_fst_def eff_snd_def eff_get_def)

definition account_calls :: "string \<Rightarrow> Address \<Rightarrow> u64 \<Rightarrow> RustAccount \<Rightarrow> RustAccount \<Rightarrow> RustAccount \<Rightarrow> rust_call list" where
  "account_calls name' address i admin' user1 user2 =
     [Call_create_designated_dealer_ex (str ''VLS'') 0 address (rust_auth_key admin') (str (name' @ '' Administrator''))
        (str ''www.violas.io'') (rust_pub_key admin') True,
      Call_create_parent_vasp_account (str ''VLS'') 0 (rust_address user1) (rust_auth_key user1) (str (name' @ '' user1''))
        (str ''www.violas.io'') (rust_pub_key user1) True,
      Call_create_parent_vasp_account (str ''VLS'') 0 (rust_address user2) (rust_auth_key user2) (str (name' @ '' user2''))
        (str ''www.violas.io'') (rust_pub_key user2) True] @
     concat (map (\<lambda>code. [Call_add_currency i code, Call_add_currency (i + 1) code, Call_add_currency (i + 2) code]) currency_codes)"

lemma adds_service_accounts:
  assumes "recording_client env log accounts recovered"
  shows "adds log accounts k (create_service_accounts env name' address i (i + 1) (i + 2) admin' user1 user2)
    (account_calls name' address i admin' user1 user2)"
proof -
  have call: "adds log accounts k (rust_do env c) [c]" if "\<not> is_recover c" for c by (rule adds_call [OF assms that])
  have "adds log accounts k (create_service_accounts env name' address i (i + 1) (i + 2) admin' user1 user2)
     ([Call_create_designated_dealer_ex (str ''VLS'') 0 address (rust_auth_key admin') (str (name' @ '' Administrator''))
        (str ''www.violas.io'') (rust_pub_key admin') True] @
      [Call_create_parent_vasp_account (str ''VLS'') 0 (rust_address user1) (rust_auth_key user1) (str (name' @ '' user1''))
        (str ''www.violas.io'') (rust_pub_key user1) True] @
      [Call_create_parent_vasp_account (str ''VLS'') 0 (rust_address user2) (rust_auth_key user2) (str (name' @ '' user2''))
        (str ''www.violas.io'') (rust_pub_key user2) True] @
      concat (map (\<lambda>code. [Call_add_currency i code] @ [Call_add_currency (i + 1) code] @ [Call_add_currency (i + 2) code]) currency_codes))"
    unfolding create_service_accounts_def by (intro adds_intros call) (simp_all add: is_recover_def)
  then show ?thesis by (simp add: account_calls_def)
qed

text \<open>Recovery, three new accounts, and what is asked of the chain for them.\<close>

lemma service_accounts_log:
  assumes rec': "recording_client env log accounts recovered" and "length (recovered (str mnemonic)) + 3 < 2 ^ 64"
  shows "\<exists>w' i admin' user1 user2 ais. service_accounts env mnemonic address name' w = (Inr ais, w') \<and>
    i = of_nat (length (recovered (str mnemonic))) \<and>
    ais = (\<lparr>admin_address = rust_address admin', admin_index = i\<rparr>, \<lparr>admin_address = rust_address user1, admin_index = i + 1\<rparr>,
      \<lparr>admin_address = rust_address user2, admin_index = i + 2\<rparr>) \<and>
    log w' = log w @ Call_recover_wallet_accounts (str mnemonic) # account_calls name' address i admin' user1 user2 \<and>
    accounts w' = recovered (str mnemonic) @ [admin', user1, user2]"
proof -
  let ?c = "Call_recover_wallet_accounts (str mnemonic)" and ?n = "length (recovered (str mnemonic))"
  have do': "\<exists>w'. rust_do env c w = (Inr (), w') \<and> log w' = log w @ [c] \<and> (\<not> is_recover c \<longrightarrow> accounts w' = accounts w)"
    and recovers: "accounts (snd (rust_do env (Call_recover_wallet_accounts f) w)) = recovered f"
    and create: "\<exists>account w'. rust_create_next_account env a w =
        (Inr \<lparr>admin_address = rust_address account, admin_index = of_nat (length (accounts w))\<rparr>, w') \<and>
      accounts w' = accounts w @ [account] \<and> log w' = log w"
    and all: "rust_get_all_accounts env w = (Inr (accounts w), w)" for c f a w
    using rec' by (simp_all add: recording_client_def)
  obtain w0 where w0: "rust_do env ?c w = (Inr (), w0)" "log w0 = log w @ [?c]" using do' by blast
  have n0: "accounts w0 = recovered (str mnemonic)" using recovers [of "str mnemonic" w] w0(1) by simp
  obtain a1 w1 where w1: "rust_create_next_account env (Some address) w0 =
      (Inr \<lparr>admin_address = rust_address a1, admin_index = of_nat (length (accounts w0))\<rparr>, w1)"
    "accounts w1 = accounts w0 @ [a1]" "log w1 = log w0" using create by blast
  obtain a2 w2 where w2: "rust_create_next_account env None w1 =
      (Inr \<lparr>admin_address = rust_address a2, admin_index = of_nat (length (accounts w1))\<rparr>, w2)"
    "accounts w2 = accounts w1 @ [a2]" "log w2 = log w1" using create by blast
  obtain a3 w3 where w3: "rust_create_next_account env None w2 =
      (Inr \<lparr>admin_address = rust_address a3, admin_index = of_nat (length (accounts w2))\<rparr>, w3)"
    "accounts w3 = accounts w2 @ [a3]" "log w3 = log w2" using create by blast
  have accounts: "accounts w3 = recovered (str mnemonic) @ [a1, a2, a3]" using w1 w2 w3 n0 by simp
  have index: "unat (of_nat (?n + j) :: u64) = ?n + j" if "j < 3" for j
    using assms(2) that by (simp add: unat_of_nat take_bit_nat_eq_self del: of_nat_add)
  have refs: "account_ref (accounts w3) (of_nat ?n) w3 = (Inr a1, w3)"
    "account_ref (accounts w3) (of_nat (?n + 1)) w3 = (Inr a2, w3)" "account_ref (accounts w3) (of_nat (?n + 2)) w3 = (Inr a3, w3)"
    using index [of 0] index [of 1] index [of 2]
    by (simp_all add: account_ref_def accounts nth_append eff_return_def del: of_nat_add of_nat_Suc)
  obtain w4 where w4: "try_catch (create_service_accounts env name' address (of_nat ?n) (of_nat ?n + 1) (of_nat ?n + 2) a1 a2 a3) w3 = (Inr (), w4)"
    "log w4 = log w3 @ account_calls name' address (of_nat ?n) a1 a2 a3" "accounts w4 = accounts w3"
    using adds_try_catch [OF adds_service_accounts [OF rec', of "accounts w3" name' address "of_nat ?n" a1 a2 a3]] unfolding adds_def by blast
  have run: "service_accounts env mnemonic address name' w = (Inr
     (\<lparr>admin_address = rust_address a1, admin_index = of_nat ?n\<rparr>, \<lparr>admin_address = rust_address a2, admin_index = of_nat ?n + 1\<rparr>,
      \<lparr>admin_address = rust_address a3, admin_index = of_nat ?n + 2\<rparr>), w4)"
    using w0(1) w1(1,2) w2(1,2) w3(1) n0 refs w4(1) all
    by (simp add: service_accounts_def eff_bind_def eff_return_def add.commute)
  show ?thesis
    using run w4(2,3) w3(3) w2(3) w1(3) w0(2) accounts
    by (intro exI [of _ w4] exI [of _ "of_nat ?n"] exI [of _ a1] exI [of _ a2] exI [of _ a3] exI) simp
qed

text \<open>The contracts of the exchange: the module by the root account, the rest by the administrator.\<close>

definition exchange_contract_calls :: "u64 \<Rightarrow> rust_call list" where
  "exchange_contract_calls i =
     [Call_publish_module ASSOCIATION_ID (str ''move/exchange/exchange.mv''),
      Call_execute_script_file i (str ''move/exchange/initialize.mv'') [] [Augment_Address reward_admin_address]] @
     map (\<lambda>code. Call_execute_script_file i (str ''move/exchange/add_currency.mv'') [make_currency_tag code] []) currency_codes"

lemma str_append: "str a @ str b = str (a @ b)"
  by (simp add: str_def)

lemma adds_exchange_contracts:
  assumes "recording_client env log accounts recovered"
  shows "adds log accounts k (exchange_contracts env admin') (exchange_contract_calls (admin_index admin'))"
proof -
  let ?ex = "Exchange_create (str ''move/exchange/'') admin'" and ?i = "admin_index admin'"
  let ?log = "\<lambda>s. log (snd s)" and ?keep = "\<lambda>s :: Exchange \<times> 'b. (fst s, accounts (snd s))"
  have call: "adds log accounts k (rust_do env c) [c]" if "\<not> is_recover c" for c by (rule adds_call [OF assms that])
  have script: "adds ?log ?keep (?ex, k) (exchange_script (exchange_calls env) j name' tags args)
      [Call_execute_script_file j (str ''move/exchange/'' @ str name') tags args]" for j name' tags args
    by (rule adds_script) (simp add: exchange_calls_def Exchange_create_def call is_recover_def)
  have deploy: "adds ?log ?keep (?ex, k) (exchange_deploy_with_root_account (exchange_calls env))
      [Call_publish_module ASSOCIATION_ID (str ''move/exchange/exchange.mv'')]"
    using call [of "Call_publish_module ASSOCIATION_ID (str ''move/exchange/exchange.mv'')"]
    by (fastforce simp: adds_def exchange_deploy_with_root_account_def exchange_calls_def Exchange_create_def eff_bind_def eff_fst_def
        eff_snd_def eff_get_def str_append is_recover_def)
  have initialize: "adds ?log ?keep (?ex, k) (exchange_initialize (exchange_calls env) admin' reward_admin_address)
      [Call_execute_script_file ?i (str ''move/exchange/initialize.mv'') [] [Augment_Address reward_admin_address]]"
    using script [of ?i "''initialize.mv''" "[]" "[Augment_Address reward_admin_address]"]
    by (fastforce simp: adds_def exchange_initialize_def Exchange_create_def eff_bind_def eff_fst_def eff_modify_def str_append)
  have currency: "adds ?log ?keep (?ex, k) (exchange_add_currency (exchange_calls env) code)
      [Call_execute_script_file ?i (str ''move/exchange/add_currency.mv'') [make_currency_tag code] []]" for code
    using script [of ?i "''add_currency.mv''" "[make_currency_tag code]" "[]"]
    by (fastforce simp: adds_def exchange_add_currency_def Exchange_create_def eff_bind_def eff_fst_def eff_get_def str_append)
  show ?thesis
    using adds_object [OF adds_bind [OF deploy adds_bind [OF initialize adds_for_each [OF currency, where xs = currency_codes]]]]
    by (simp add: exchange_contracts_def exchange_contract_calls_def concat_map_singleton)
qed

lemma deploy_exchange_log:
  assumes "recording_client env log accounts recovered" and "length (recovered (str ''mnemonic/exchange.mne'')) + 3 < 2 ^ 64"
  shows "\<exists>w' admin' user1 user2. deploy_exchange env w = (Inr (), w') \<and>
    log w' = log w @ Call_recover_wallet_accounts (str ''mnemonic/exchange.mne'') #
      account_calls ''Exchange'' EXCHANGE_ADMIN_ADDRESS (of_nat (length (recovered (str ''mnemonic/exchange.mne'')))) admin' user1 user2 @
      exchange_contract_calls (of_nat (length (recovered (str ''mnemonic/exchange.mne'')))) \<and>
    accounts w' = recovered (str ''mnemonic/exchange.mne'') @ [admin', user1, user2]"
proof -
  let ?i = "of_nat (length (recovered (str ''mnemonic/exchange.mne''))) :: u64"
  obtain w1 admin' user1 user2 ai1 ai2 where w1:
    "service_accounts env ''mnemonic/exchange.mne'' EXCHANGE_ADMIN_ADDRESS ''Exchange'' w =
       (Inr (\<lparr>admin_address = rust_address admin', admin_index = ?i\<rparr>, ai1, ai2), w1)"
    "log w1 = log w @ Call_recover_wallet_accounts (str ''mnemonic/exchange.mne'') #
       account_calls ''Exchange'' EXCHANGE_ADMIN_ADDRESS ?i admin' user1 user2"
    "accounts w1 = recovered (str ''mnemonic/exchange.mne'') @ [admin', user1, user2]"
    using service_accounts_log [OF assms, of EXCHANGE_ADMIN_ADDRESS "''Exchange''" w] by blast
  obtain w2 where w2: "try_catch (exchange_contracts env \<lparr>admin_address = rust_address admin', admin_index = ?i\<rparr>) w1 = (Inr (), w2)"
    "log w2 = log w1 @ exchange_contract_calls ?i" "accounts w2 = accounts w1"
    using adds_try_catch [OF adds_exchange_contracts [OF assms(1), of "accounts w1" "\<lparr>admin_address = rust_address admin', admin_index = ?i\<rparr>"]]
    unfolding adds_def by fastforce
  show ?thesis
    using w1 w2 by (intro exI [of _ w2] exI [of _ admin'] exI [of _ user1] exI [of _ user2]) (simp add: deploy_exchange_def eff_bind_def)
qed

end
