(* ===== verification/Vls.thy ===== *)
theory Vls
  imports Deployment
begin

text \<open>
  The program for VLS, the native currency (\<open>src/cpp/vls/src/vls.cpp\<close>): a menu of functions that create the accounts of the
  receivers, mine, distribute and recover the currency by scripts whose bytecode is part of the program. The client below
  is that of theory \<open>Command\<close>; what is typed is one stream. The menu need not end: it is a partial function, without
  a value where it does not.
\<close>

section \<open>Scripts\<close>

definition vls_initialize_timestamp :: "u8 list" where
  "vls_initialize_timestamp =
     [161, 28, 235, 11, 2, 0, 0, 0, 5, 1, 0, 2, 3, 2, 5, 5, 7, 1, 7, 8, 25, 8, 33, 16, 0, 0, 0, 1, 0, 0, 0, 0, 3, 86,
      76, 83, 20, 105, 110, 105, 116, 105, 97, 108, 105, 122, 101, 95, 116, 105, 109, 101, 115, 116, 97, 109, 112, 0, 0,
      0, 0, 0, 0, 0, 0, 0, 0, 0, 0, 0, 0, 0, 1, 0, 0, 0, 2, 17, 0, 2]"

definition mint_vls_bytecode :: "u8 list" where
  "mint_vls_bytecode =
     [161, 28, 235, 11, 2, 0, 0, 0, 5, 1, 0, 2, 3, 2, 5, 5, 7, 1, 7, 8, 21, 8, 29, 16, 0, 0, 0, 1, 0, 0, 0, 0, 11, 68,
      105, 101, 109, 65, 99, 99, 111, 117, 110, 116, 8, 109, 105, 110, 101, 95, 118, 108, 115, 0, 0, 0, 0, 0, 0, 0, 0,
      0, 0, 0, 0, 0, 0, 0, 1, 0, 0, 0, 2, 17, 0, 2]"

definition distribute_bytecode :: "u8 list" where
  "distribute_bytecode =
     [161, 28, 235, 11, 2, 0, 0, 0, 8, 1, 0, 18, 2, 18, 16, 3, 34, 98, 4, 132, 1, 6, 5, 138, 1, 113, 7, 251, 1, 132, 3,
      8, 255, 4, 16, 6, 143, 5, 75, 0, 0, 0, 1, 0, 2, 0, 3, 0, 4, 0, 5, 0, 6, 0, 7, 0, 8, 4, 4, 7, 0, 0, 9, 4, 0, 6, 10,
      3, 0, 6, 6, 4, 0, 5, 11, 3, 4, 0, 0, 12, 2, 2, 0, 6, 13, 2, 5, 0, 7, 14, 7, 8, 1, 0, 6, 15, 6, 9, 0, 2, 16, 10,
      10, 0, 0, 17, 4, 10, 1, 4, 4, 18, 12, 10, 0, 4, 19, 13, 14, 0, 8, 20, 3, 15, 0, 8, 21, 16, 2, 0, 4, 22, 12, 10, 0,
      8, 23, 17, 2, 0, 2, 24, 10, 10, 0, 1, 25, 2, 10, 0, 3, 26, 18, 2, 0, 0, 27, 3, 19, 0, 0, 28, 20, 2, 1, 4, 0, 29,
      19, 2, 0, 3, 6, 6, 11, 17, 11, 2, 12, 1, 25, 8, 0, 3, 8, 0, 3, 3, 3, 3, 3, 8, 0, 8, 1, 8, 0, 6, 8, 2, 10, 8, 2, 5,
      3, 7, 10, 8, 2, 3, 1, 3, 1, 3, 1, 3, 3, 5, 0, 1, 6, 12, 1, 5, 1, 10, 8, 2, 1, 8, 2, 2, 6, 10, 9, 0, 3, 1, 6, 9, 0,
      2, 5, 8, 0, 1, 3, 1, 8, 3, 2, 3, 8, 0, 2, 3, 3, 1, 8, 0, 1, 1, 2, 6, 12, 10, 2, 2, 6, 12, 3, 4, 6, 12, 3, 3, 3, 1,
      8, 1, 5, 6, 8, 1, 5, 3, 10, 2, 10, 2, 11, 68, 105, 101, 109, 65, 99, 99, 111, 117, 110, 116, 13, 68, 105, 101,
      109, 84, 105, 109, 101, 115, 116, 97, 109, 112, 6, 69, 114, 114, 111, 114, 115, 8, 69, 120, 99, 104, 97, 110, 103,
      101, 12, 70, 105, 120, 101, 100, 80, 111, 105, 110, 116, 51, 50, 6, 83, 105, 103, 110, 101, 114, 3, 86, 76, 83, 6,
      86, 101, 99, 116, 111, 114, 10, 86, 105, 111, 108, 97, 115, 66, 97, 110, 107, 18, 87, 105, 116, 104, 100, 114, 97,
      119, 67, 97, 112, 97, 98, 105, 108, 105, 116, 121, 8, 82, 101, 99, 101, 105, 118, 101, 114, 10, 97, 100, 100, 114,
      101, 115, 115, 95, 111, 102, 8, 109, 105, 110, 101, 95, 118, 108, 115, 13, 103, 101, 116, 95, 114, 101, 99, 101,
      105, 118, 101, 114, 115, 6, 98, 111, 114, 114, 111, 119, 15, 117, 110, 112, 97, 99, 107, 95, 114, 101, 99, 101,
      105, 118, 101, 114, 16, 114, 101, 113, 117, 105, 114, 101, 115, 95, 97, 100, 100, 114, 101, 115, 115, 7, 98, 97,
      108, 97, 110, 99, 101, 10, 100, 105, 118, 105, 100, 101, 95, 117, 54, 52, 20, 99, 114, 101, 97, 116, 101, 95, 102,
      114, 111, 109, 95, 114, 97, 116, 105, 111, 110, 97, 108, 12, 105, 115, 95, 112, 117, 98, 108, 105, 115, 104, 101,
      100, 7, 112, 117, 98, 108, 105, 115, 104, 12, 109, 117, 108, 116, 105, 112, 108, 121, 95, 117, 54, 52, 18, 115,
      101, 116, 95, 105, 110, 99, 101, 110, 116, 105, 118, 101, 95, 114, 97, 116, 101, 14, 108, 105, 109, 105, 116, 95,
      101, 120, 99, 101, 101, 100, 101, 100, 11, 110, 111, 119, 95, 115, 101, 99, 111, 110, 100, 115, 16, 115, 101, 116,
      95, 110, 101, 120, 116, 95, 114, 101, 119, 97, 114, 100, 115, 27, 101, 120, 116, 114, 97, 99, 116, 95, 119, 105,
      116, 104, 100, 114, 97, 119, 95, 99, 97, 112, 97, 98, 105, 108, 105, 116, 121, 8, 112, 97, 121, 95, 102, 114, 111,
      109, 27, 114, 101, 115, 116, 111, 114, 101, 95, 119, 105, 116, 104, 100, 114, 97, 119, 95, 99, 97, 112, 97, 98,
      105, 108, 105, 116, 121, 0, 0, 0, 0, 0, 0, 0, 0, 0, 0, 0, 0, 0, 0, 0, 1, 5, 16, 88, 92, 106, 163, 29, 251, 25,
      196, 175, 32, 232, 225, 65, 18, 203, 63, 3, 8, 233, 3, 0, 0, 0, 0, 0, 0, 3, 8, 234, 3, 0, 0, 0, 0, 0, 0, 3, 8,
      232, 3, 0, 0, 0, 0, 0, 0, 10, 2, 2, 1, 0, 10, 2, 1, 0, 5, 16, 0, 0, 0, 0, 0, 0, 0, 0, 0, 0, 0, 0, 86, 76, 83, 0,
      0, 0, 1, 141, 1, 14, 0, 17, 0, 12, 15, 17, 1, 17, 2, 12, 14, 13, 14, 12, 17, 11, 17, 46, 6, 0, 0, 0, 0, 0, 0, 0,
      0, 56, 0, 12, 13, 11, 13, 20, 17, 4, 12, 12, 12, 26, 10, 15, 10, 26, 33, 7, 3, 17, 5, 12, 20, 12, 19, 11, 19, 3,
      29, 11, 20, 39, 10, 15, 56, 1, 12, 3, 10, 3, 11, 12, 17, 7, 12, 25, 6, 16, 0, 0, 0, 0, 0, 0, 0, 6, 100, 0, 0, 0,
      0, 0, 0, 0, 17, 8, 12, 4, 6, 30, 0, 0, 0, 0, 0, 0, 0, 6, 100, 0, 0, 0, 0, 0, 0, 0, 17, 8, 12, 10, 6, 15, 0, 0, 0,
      0, 0, 0, 0, 6, 100, 0, 0, 0, 0, 0, 0, 0, 17, 8, 12, 2, 10, 1, 3, 51, 5, 84, 14, 0, 17, 9, 9, 33, 3, 57, 5, 60, 14,
      0, 7, 4, 17, 10, 10, 25, 11, 4, 17, 11, 12, 5, 10, 15, 56, 1, 12, 3, 14, 0, 10, 5, 17, 12, 10, 15, 56, 1, 10, 3,
      10, 5, 23, 33, 7, 1, 17, 13, 12, 22, 12, 21, 11, 21, 3, 84, 11, 22, 39, 10, 25, 11, 10, 17, 11, 12, 6, 17, 14, 12,
      16, 10, 16, 6, 128, 81, 1, 0, 0, 0, 0, 0, 22, 12, 9, 10, 15, 56, 1, 12, 3, 14, 0, 10, 6, 10, 16, 10, 9, 17, 15,
      10, 15, 56, 1, 10, 3, 10, 6, 23, 33, 7, 2, 17, 13, 12, 24, 12, 23, 11, 23, 3, 116, 11, 24, 39, 14, 0, 17, 16, 12,
      11, 10, 25, 11, 2, 17, 11, 12, 7, 14, 11, 7, 0, 10, 7, 7, 5, 7, 5, 56, 2, 10, 15, 56, 1, 12, 8, 14, 11, 7, 6, 10,
      8, 7, 5, 7, 5, 56, 2, 11, 11, 17, 18, 2]"

definition recover_fees_bytecode :: "u8 list" where
  "recover_fees_bytecode =
     [161, 28, 235, 11, 2, 0, 0, 0, 5, 1, 0, 2, 3, 2, 5, 5, 7, 8, 7, 15, 44, 8, 59, 16, 0, 0, 0, 1, 2, 1, 0, 2, 12, 5,
      0, 2, 6, 12, 5, 11, 68, 105, 101, 109, 65, 99, 99, 111, 117, 110, 116, 31, 114, 101, 99, 111, 118, 101, 114, 95,
      118, 108, 115, 95, 102, 101, 101, 115, 95, 116, 111, 95, 97, 115, 115, 111, 99, 105, 97, 116, 105, 111, 110, 0, 0,
      0, 0, 0, 0, 0, 0, 0, 0, 0, 0, 0, 0, 0, 1, 0, 0, 1, 4, 14, 0, 10, 1, 17, 0, 2]"

section \<open>Functions\<close>

text \<open>The addresses are those of theory \<open>Command\<close> (\<open>VLS_ADDRESSES\<close>), each with a name.\<close>

definition VLS_NAMES :: "string list" where
  "VLS_NAMES = [''VLS-TRASH'', ''VLS-COMM'', ''VLS-ASSOCA'', ''VLS-TEAM'', ''VLS-ADVS'', ''VLS-OPEN'']"

definition create_receivers :: "('c, 'w) command_env \<Rightarrow> ('w, unit) eff" where
  "create_receivers env =
     for_each (\<lambda>address. eff_bind (rust_create_next_account env (Some address)) (\<lambda>_. eff_return ())) VLS_ADDRESSES"

text \<open>The name of an account is found by its index in the wallet, without a check.\<close>

definition create_receiver_account :: "('c, 'w) command_env \<Rightarrow> RustAccount \<Rightarrow> ('w, unit) eff" where
  "create_receiver_account env account =
     (if unat (rust_index account) < length VLS_NAMES
      then rust_do env (Call_create_designated_dealer_ex (str ''VLS'') 0 (rust_address account) (rust_auth_key account)
             (str (VLS_NAMES ! unat (rust_index account))) (str ''wwww.violas.io'') (rust_pub_key account) True)
      else eff_throw (Undefined_behaviour ''VLS_ADDRESSES[account.index]''))"

definition execute_bytecode :: "('c, 'w) command_env \<Rightarrow> u64 \<Rightarrow> u8 list \<Rightarrow> TransactionAugment list \<Rightarrow> ('w, unit) eff" where
  "execute_bytecode env account_index script args = rust_do env (Call_execute_script account_index script [] args)"

definition initialize_timestamp :: "('c, 'w) command_env \<Rightarrow> ('w, unit) eff" where
  "initialize_timestamp env =
     eff_bind (rust_do env (Call_allow_publishing_module True)) (\<lambda>_.
     eff_bind (rust_do env Call_allow_custom_script) (\<lambda>_.
     eff_bind (create_receivers env) (\<lambda>_.
     eff_bind (rust_get_all_accounts env) (\<lambda>accounts.
     eff_bind (try_catch (for_each (create_receiver_account env) accounts)) (\<lambda>_.
     execute_bytecode env 0 vls_initialize_timestamp [])))))"

definition mine_vls :: "('c, 'w) command_env \<Rightarrow> ('w, unit) eff" where
  "mine_vls env =
     eff_bind (rust_create_next_account env (Some (VLS_ADDRESSES ! 0))) (\<lambda>_.
     eff_bind (rust_get_all_accounts env) (\<lambda>_.
     execute_bytecode env 0 mint_vls_bytecode []))"

definition distribute_vls_to_all_service_admins :: "('c, 'w) command_env \<Rightarrow> bool \<Rightarrow> ('w, unit) eff" where
  "distribute_vls_to_all_service_admins env is_paying_to_bank_admin =
     eff_bind (create_receivers env) (\<lambda>_.
     eff_bind (rust_get_all_accounts env) (\<lambda>_.
     execute_bytecode env 1 distribute_bytecode [Augment_Bool is_paying_to_bank_admin]))"

definition recover_vls_fees_to_association :: "('c, 'w) command_env \<Rightarrow> ('w, unit) eff" where
  "recover_vls_fees_to_association env =
     eff_bind (create_receivers env) (\<lambda>_.
     eff_bind (rust_get_all_accounts env) (\<lambda>accounts.
     eff_bind (account_ref accounts 2) (\<lambda>association.
     eff_bind (rust_get_currency_balance env (rust_address association) (str ''VLS'')) (\<lambda>_.
     eff_bind (execute_bytecode env VIOLAS_TREASURY_COMPLIANCE_ACCOUNT_ID recover_fees_bytecode
       [Augment_Address (rust_address association)]) (\<lambda>_.
     eff_bind (rust_get_currency_balance env (rust_address association) (str ''VLS'')) (\<lambda>_. eff_return ()))))))"

definition view_vls_info :: "('c, 'w) command_env \<Rightarrow> ('w, unit) eff" where
  "view_vls_info env =
     eff_bind (show_answer env Query_all_currency_info) (\<lambda>_.
     eff_bind (show_balances env VLS_ADDRESSES) (\<lambda>_. show_balances env DeFi_admins))"

section \<open>The menu\<close>

definition vls_function :: "('c, 'w) command_env \<Rightarrow> u32 \<Rightarrow> ('w \<times> istream, unit) eff" where
  "vls_function env index =
     (if index = 1 then eff_fst (initialize_timestamp env)
      else if index = 2 then
        eff_bind cin_word (\<lambda>input. eff_fst (distribute_vls_to_all_service_admins env (input = str ''yes'')))
      else if index = 3 then eff_fst (mine_vls env)
      else if index = 4 then eff_fst (recover_vls_fees_to_association env)
      else if index = 5 then eff_fst (view_vls_info env)
      else eff_return ())"

text \<open>The index keeps its value when nothing can be read.\<close>

partial_function (option) vls_menu ::
    "('c, 'w) command_env \<Rightarrow> u32 \<Rightarrow> 'w \<times> istream \<Rightarrow> (unit result \<times> ('w \<times> istream)) option" where
  "vls_menu env index s =
     (let (index', cin') = get_u32 index (snd s);
          (r, t) = vls_function env index' (fst s, cin')
      in if isl r then Some (r, t)
         else if index' \<noteq> 0 then vls_menu env index' t
         else Some (Inr (), t))"

text \<open>Whether the menu is shown, or the program has done its work.\<close>

definition vls_start :: "('c, 'w) command_env \<Rightarrow> (char \<times> cstring) list \<Rightarrow> ('w, bool) eff" where
  "vls_start env options =
     eff_bind (eff_lift (parse_command_line options Arguments_new)) (\<lambda>args.
     eff_bind (rust_create env args) (\<lambda>_.
     eff_bind (if arg_mnemonic args = [] then rust_do env (Call_recover_wallet_accounts (str ''mnemonic/vls.mne'')) else eff_return ()) (\<lambda>_.
     if arg_distrbuting args
     then eff_bind (distribute_vls_to_all_service_admins env True) (\<lambda>_. eff_return False)
     else eff_return True)))"

definition vls_main ::
    "('c, 'w) command_env \<Rightarrow> (char \<times> cstring) list \<Rightarrow> 'w \<times> istream \<Rightarrow> (unit result \<times> ('w \<times> istream)) option" where
  "vls_main env options s =
     (let (r, t) = eff_fst (vls_start env options) s
      in case (case r of Inl e \<Rightarrow> Some (Inl e, t) | Inr menu \<Rightarrow> if menu then vls_menu env 0 t else Some (Inr (), t)) of
           None \<Rightarrow> None
         | Some (Inl e, t') \<Rightarrow> Some (if catchable e then Inr () else Inl e, t')
         | Some (Inr _, t') \<Rightarrow> Some (Inr (), t'))"

section \<open>The end of the input\<close>

text \<open>A client whose calls all return.\<close>

definition returning_client :: "('c, 'w) command_env \<Rightarrow> bool" where
  "returning_client env \<longleftrightarrow>
     (\<forall>c w. \<exists>w'. rust_do env c w = (Inr (), w')) \<and> (\<forall>a w. \<exists>ai w'. rust_create_next_account env a w = (Inr ai, w')) \<and>
     (\<forall>w. \<exists>accounts w'. rust_get_all_accounts env w = (Inr accounts, w'))"

lemma mine_returns:
  assumes "returning_client env"
  shows "\<exists>w'. mine_vls env w = (Inr (), w')"
proof -
  obtain ai w1 where 1: "rust_create_next_account env (Some (VLS_ADDRESSES ! 0)) w = (Inr ai, w1)"
    using assms unfolding returning_client_def by blast
  obtain accounts w2 where 2: "rust_get_all_accounts env w1 = (Inr accounts, w2)"
    using assms unfolding returning_client_def by blast
  obtain w3 where "rust_do env (Call_execute_script 0 mint_vls_bytecode [] []) w2 = (Inr (), w3)"
    using assms unfolding returning_client_def by blast
  with 1 2 show ?thesis by (simp add: mine_vls_def execute_bytecode_def eff_bind_def)
qed

text \<open>A function that was chosen last, and returns without reading, is run for ever once nothing can be read.\<close>

lemma vls_menu_returns:
  "vls_menu env index s = Some y \<Longrightarrow> returning_client env \<Longrightarrow> index = 3 \<Longrightarrow> \<not> is_fail (snd s) \<and> \<not> is_eof (snd s)"
proof (induct rule: vls_menu.raw_induct [rotated, consumes 1])
  case (1 rec env index s y)
  show ?case
  proof (rule ccontr)
    assume "\<not> ?thesis"
    then have "sentry (snd s) = (False, (snd s)\<lparr>is_fail := True\<rparr>)" by (auto simp: sentry_def)
    then have read: "get_u32 3 (snd s) = (3, (snd s)\<lparr>is_fail := True\<rparr>)" by (simp add: get_u32_def)
    obtain w' where "mine_vls env (fst s) = (Inr (), w')" using mine_returns [OF 1(3)] by blast
    with 1(2,4) read have "rec env 3 (w', (snd s)\<lparr>is_fail := True\<rparr>) = Some y"
      by (simp add: vls_function_def eff_fst_def)
    from 1(1) [OF this 1(3)] show False by simp
  qed
qed

lemma vls_menu_endless: "returning_client env \<Longrightarrow> is_fail (snd s) \<or> is_eof (snd s) \<Longrightarrow> vls_menu env 3 s = None"
  using vls_menu_returns [of env 3 s] by (cases "vls_menu env 3 s") auto

lemma get_u32_left: "get_u32 old (words_left (dec (unat (v :: u32)) # words)) = (v, words_left words)"
proof -
  have "unat v < 2 ^ 32" by (rule order_less_le_trans [OF unsigned_less]) simp
  moreover have "words_text words = [] \<or> is_space (hd (words_text words))"
    by (cases words) (simp_all add: words_text_def is_space_def)
  ultimately show ?thesis
    using sentry_at [OF stream_at_words solid_dec, of "unat v" words]
    by (simp add: get_u32_def scan_dec dec_not_Nil decimal_dec words_left_taken)
qed

section \<open>Sessions\<close>

text \<open>A choice, with the answer that the second function asks for.\<close>

definition choice_words :: "u32 \<times> cstring \<Rightarrow> cstring list" where
  "choice_words = (\<lambda>(index, answer'). dec (unat index) # (if index = 2 then [answer'] else []))"

definition is_choice :: "u32 \<times> cstring \<Rightarrow> bool" where
  "is_choice = (\<lambda>(index, answer'). index \<noteq> 0 \<and> solid answer')"

definition vls_action :: "('c, 'w) command_env \<Rightarrow> u32 \<times> cstring \<Rightarrow> ('w, unit) eff" where
  "vls_action env = (\<lambda>(index, answer').
     if index = 1 then initialize_timestamp env
     else if index = 2 then distribute_vls_to_all_service_admins env (answer' = str ''yes'')
     else if index = 3 then mine_vls env
     else if index = 4 then recover_vls_fees_to_association env
     else if index = 5 then view_vls_info env
     else eff_return ())"

lemma vls_function_action:
  assumes "solid answer'"
  shows "vls_function env index (w, words_left ((if index = 2 then [answer'] else []) @ words)) =
    (case vls_action env (index, answer') w of (r, w') \<Rightarrow> (r, (w', words_left words)))"
  using assms
  by (auto simp: vls_function_def vls_action_def cin_word_def eff_bind_def eff_fst_def eff_snd_def eff_return_def get_words_left
      split: prod.splits)

lemma vls_menu_choice:
  assumes "is_choice (index, answer')"
  shows "vls_menu env old (w, words_left (choice_words (index, answer') @ words)) =
    (case vls_action env (index, answer') w of
       (Inl e, w') \<Rightarrow> Some (Inl e, (w', words_left words))
     | (Inr _, w') \<Rightarrow> vls_menu env index (w', words_left words))"
  using assms vls_function_action [of answer' env index w words]
  by (subst vls_menu.simps) (auto simp: choice_words_def is_choice_def get_u32_left split: prod.splits sum.splits)

lemma vls_menu_choices:
  assumes "list_all is_choice choices" and "for_each (vls_action env) choices w = (Inr (), w')"
  shows "vls_menu env old (w, words_left (concat (map choice_words choices) @ words)) =
    vls_menu env (last (old # map fst choices)) (w', words_left words)"
  using assms
proof (induction choices arbitrary: old w)
  case (Cons choice choices)
  obtain index answer' where choice: "choice = (index, answer')" by (cases choice)
  obtain w1 where w1: "vls_action env choice w = (Inr (), w1)" "for_each (vls_action env) choices w1 = (Inr (), w')"
    using Cons.prems(2) by (auto simp: eff_iff)
  have "vls_menu env old (w, words_left (choice_words choice @ (concat (map choice_words choices) @ words))) =
      vls_menu env index (w1, words_left (concat (map choice_words choices) @ words))"
    using vls_menu_choice [of index answer' env old w "concat (map choice_words choices) @ words"] Cons.prems(1) w1(1) by (simp add: choice)
  also have "\<dots> = vls_menu env (last (index # map fst choices)) (w', words_left words)"
    using Cons.IH [OF _ w1(2)] Cons.prems(1) by simp
  finally show ?case by (simp add: choice)
qed (simp add: eff_return_def)

lemma vls_menu_throws:
  assumes "list_all is_choice choices" and "for_each (vls_action env) choices w = (Inl e, w')"
  shows "\<exists>cin'. vls_menu env old (w, words_left (concat (map choice_words choices) @ words)) = Some (Inl e, (w', cin'))"
  using assms
proof (induction choices arbitrary: old w)
  case (Cons choice choices)
  obtain index answer' where choice: "choice = (index, answer')" by (cases choice)
  let ?words = "concat (map choice_words choices) @ words"
  have step: "vls_menu env old (w, words_left (choice_words choice @ ?words)) =
    (case vls_action env choice w of
       (Inl e, w') \<Rightarrow> Some (Inl e, (w', words_left ?words))
     | (Inr _, w') \<Rightarrow> vls_menu env index (w', words_left ?words))"
    using vls_menu_choice [of index answer' env old w ?words] Cons.prems(1) by (simp add: choice)
  show ?case
  proof (cases "vls_action env choice w")
    case (Pair r w1)
    show ?thesis
    proof (cases r)
      case (Inl e')
      with Pair step Cons.prems(2) show ?thesis by (auto simp: eff_bind_def)
    next
      case (Inr u)
      with Pair Cons.prems(2) have "for_each (vls_action env) choices w1 = (Inl e, w')" by (simp add: eff_bind_def)
      with Cons.IH [of w1 index] Cons.prems(1) Pair Inr step show ?thesis by simp
    qed
  qed
qed (simp add: eff_return_def)

lemma vls_menu_quit: "vls_menu env old (w, words_left (dec 0 # words)) = Some (Inr (), (w, words_left words))"
  using get_u32_left [of old 0 words] by (subst vls_menu.simps) (simp add: vls_function_def eff_return_def)

text \<open>Nothing to read at the start, or a word that is no number at any time: the index is 0, and the menu ends.\<close>

lemma get_u32_failed: "is_fail s \<or> is_eof s \<Longrightarrow> get_u32 old s = (old, s\<lparr>is_fail := True\<rparr>)"
  by (auto simp: get_u32_def sentry_def)

lemma vls_menu_empty: "vls_menu env 0 (w, words_left []) = Some (Inr (), (w, (words_left [])\<lparr>is_fail := True\<rparr>))"
  by (subst vls_menu.simps) (simp add: get_u32_failed vls_function_def eff_return_def)

lemma vls_menu_no_number:
  assumes "solid (c # word)" and "\<not> is_digit c" and "c \<noteq> 0x2D" and "c \<noteq> 0x2B"
  shows "vls_menu env old (w, words_left ((c # word) # words)) = Some (Inr (), (w, is_taken (c # word @ words_text words) True))"
proof -
  have "get_u32 old (words_left ((c # word) # words)) = (0, is_taken (c # word @ words_text words) True)"
    using sentry_at [OF stream_at_words assms(1)] assms(2-4) by (simp add: get_u32_def scan_integer_def)
  then show ?thesis by (subst vls_menu.simps) (simp add: vls_function_def eff_return_def)
qed

text \<open>Once nothing can be read, the last choice is carried out again and again; only an exception ends that.\<close>

lemma vls_function_failed: "is_fail (snd s) \<Longrightarrow> is_fail (snd (snd (vls_function env index s)))"
  by (cases s) (auto simp: vls_function_def cin_word_def get_word_def sentry_def eff_bind_def eff_fst_def eff_snd_def eff_return_def
      split: prod.splits sum.splits)

lemma vls_menu_input_ended:
  "vls_menu env index s = Some y \<Longrightarrow> index \<noteq> 0 \<Longrightarrow> is_fail (snd s) \<or> is_eof (snd s) \<Longrightarrow> isl (fst y)"
proof (induct rule: vls_menu.raw_induct [rotated, consumes 1])
  case (1 rec env index s y)
  let ?c = "(snd s)\<lparr>is_fail := True\<rparr>"
  have read: "get_u32 index (snd s) = (index, ?c)" using 1(4) by (rule get_u32_failed)
  obtain r t where f: "vls_function env index (fst s, ?c) = (r, t)" by (cases "vls_function env index (fst s, ?c)")
  then have "is_fail (snd t)" using vls_function_failed [of "(fst s, ?c)" env index] by simp
  have step: "(if isl r then Some (r, t) else rec env index t) = Some y" using 1(2,3) read f by (auto split: if_splits)
  show ?case
  proof (cases "isl r")
    case False
    with step have "rec env index t = Some y" by simp
    with 1(1) [of env index t y] 1(3) \<open>is_fail (snd t)\<close> show ?thesis by blast
  qed (use step in auto)
qed

lemma vls_menu_all_read:
  assumes "list_all is_choice choices" and "choices \<noteq> []"
    and "vls_menu env old (w, words_left (concat (map choice_words choices))) = Some y"
  shows "isl (fst y)"
proof (cases "for_each (vls_action env) choices w")
  case (Pair r w')
  show ?thesis
  proof (cases r)
    case (Inl e)
    with Pair vls_menu_throws [OF assms(1), of env w e w' old "[]"] assms(3) show ?thesis by auto
  next
    case (Inr u)
    have "last choices \<in> set choices" using assms(2) by simp
    then have "last (old # map fst choices) \<noteq> 0"
      using assms(1,2) by (auto simp: list_all_iff is_choice_def last_map case_prod_beta)
    moreover have "vls_menu env (last (old # map fst choices)) (w', words_left []) = Some y"
      using vls_menu_choices [OF assms(1), of env w w' old "[]"] Pair Inr assms(3) by simp
    ultimately show ?thesis using vls_menu_input_ended [of env _ "(w', words_left [])" y] by simp
  qed
qed

text \<open>More accounts than receivers: the name of one is read behind the end of the table.\<close>

lemma receiver_accounts_fault:
  assumes "returning_client env" and "\<exists>account \<in> set accounts. 6 \<le> unat (rust_index account)"
  shows "\<exists>w'. for_each (create_receiver_account env) accounts w = (Inl (Undefined_behaviour ''VLS_ADDRESSES[account.index]''), w')"
  using assms(2)
proof (induction accounts arbitrary: w)
  case (Cons account accounts)
  show ?case
  proof (cases "6 \<le> unat (rust_index account)")
    case True
    then show ?thesis by (simp add: create_receiver_account_def VLS_NAMES_def eff_bind_def eff_throw_def)
  next
    case False
    with Cons.prems have rest: "\<exists>account \<in> set accounts. 6 \<le> unat (rust_index account)" by simp
    have "length VLS_NAMES = 6" by (simp add: VLS_NAMES_def)
    with False obtain w1 where "create_receiver_account env account w = (Inr (), w1)"
      using assms(1) by (fastforce simp: create_receiver_account_def returning_client_def)
    with Cons.IH [OF rest, of w1] show ?thesis by (simp add: eff_bind_def)
  qed
qed simp

end
