(* ===== verification/Resumption.thy ===== *)
theory Resumption
  imports Effects
begin

text \<open>
  Coroutines that several commands of a program start and that run beside each other
  (\<open>src/cpp/sdk/include/co_helper.hpp\<close>: \<open>initial_suspend\<close> is \<open>std::suspend_never\<close>, and \<open>final_suspend\<close> looks for nobody
  who waits, if nobody does).

  Theory \<open>Coroutine\<close> has the accesses of one task and its awaiter to their promise. Here a coroutine is what a program
  sees of it: it runs until it waits for an answer, and what comes after is a resumption, a function of the state at the
  time when it goes on. What it does between two suspensions is one step. A program keeps the resumptions of the coroutines
  that nobody waits for in a pool; a schedule says which of them go on before the next command.
\<close>

section \<open>Resumptions\<close>

datatype ('s, 'a) co = Ended "'a result" | Awaiting "'s \<Rightarrow> ('s, 'a) co \<times> 's"

type_synonym ('s, 'a) coroutine = "'s \<Rightarrow> ('s, 'a) co \<times> 's"

primrec co_then :: "('s, 'a) co \<Rightarrow> ('a result \<Rightarrow> ('s, 'b) coroutine) \<Rightarrow> ('s, 'b) coroutine" where
  "co_then (Ended r) f = f r"
| "co_then (Awaiting k) f =
     (\<lambda>s. (Awaiting (\<lambda>t. case map_prod (\<lambda>c. co_then c f) id (k t) of (g, u) \<Rightarrow> g u), s))"

text \<open>A part without a suspension; the end of a coroutine; one after the other; \<open>try\<close> and \<open>catch\<close>.\<close>

definition co_eff :: "('s, 'a) eff \<Rightarrow> ('s, 'a) coroutine" where
  "co_eff m s = (case m s of (r, t) \<Rightarrow> (Ended r, t))"

definition co_return :: "'a \<Rightarrow> ('s, 'a) coroutine" where
  "co_return x = co_eff (eff_return x)"

definition co_bind :: "('s, 'a) coroutine \<Rightarrow> ('a \<Rightarrow> ('s, 'b) coroutine) \<Rightarrow> ('s, 'b) coroutine" where
  "co_bind m f s =
     (case m s of (c, t) \<Rightarrow>
        co_then c (\<lambda>r. case r of Inl e \<Rightarrow> co_eff (eff_throw e) | Inr x \<Rightarrow> f x) t)"

definition co_catch :: "('s, 'a) coroutine \<Rightarrow> ('s, 'a) coroutine \<Rightarrow> ('s, 'a) coroutine" where
  "co_catch m handler s =
     (case m s of (c, t) \<Rightarrow>
        co_then c (\<lambda>r. case r of
            Inl e \<Rightarrow> if catchable e then handler else co_eff (eff_throw e)
          | Inr x \<Rightarrow> co_return x) t)"

text \<open>
  A request: the coroutine is suspended before the service answers, and may be resumed later than it does.
\<close>

definition co_call :: "('s, 'a) eff \<Rightarrow> ('s, 'a) coroutine" where
  "co_call m s = (Awaiting (\<lambda>t. case m t of (r, u) \<Rightarrow> (Awaiting (\<lambda>v. (Ended r, v)), u)), s)"

lemma co_induct [case_names Ended Awaiting]:
  assumes "\<And>r. R (Ended r)" and "\<And>k. (\<And>s. R (fst (k s))) \<Longrightarrow> R (Awaiting k)"
  shows "R c"
proof (induction c)
  case (Awaiting k)
  have "R (fst (k s))" for s by (rule Awaiting.IH [of "k s"]) (simp_all add: fsts.simps prod_eq_iff)
  then show ?case by (rule assms(2))
qed (rule assms(1))

section \<open>Nothing comes between\<close>

primrec finish :: "('s, 'a) co \<Rightarrow> ('s, 'a) eff" where
  "finish (Ended r) = (\<lambda>s. (r, s))"
| "finish (Awaiting k) = (\<lambda>s. case map_prod finish id (k s) of (g, t) \<Rightarrow> g t)"

definition co_run :: "('s, 'a) coroutine \<Rightarrow> ('s, 'a) eff" where
  "co_run m s = (case m s of (c, t) \<Rightarrow> finish c t)"

lemma finish_Awaiting [simp]: "finish (Awaiting k) s = (case k s of (c, t) \<Rightarrow> finish c t)"
  by (simp split: prod.splits)

lemma co_then_Awaiting [simp]: "co_then (Awaiting k) f s = (Awaiting (\<lambda>t. case k t of (c, u) \<Rightarrow> co_then c f u), s)"
  by (simp add: case_prod_beta)

declare finish.simps(2) [simp del] co_then.simps(2) [simp del]

lemma finish_then: "co_run (co_then c f) s = (case finish c s of (r, t) \<Rightarrow> co_run (f r) t)"
proof (induction c arbitrary: s rule: co_induct)
  case (Awaiting k)
  obtain c t where k: "k s = (c, t)" by (cases "k s")
  with Awaiting.IH [of s t] show ?case by (simp add: co_run_def)
qed (simp add: co_run_def)

lemma co_run_eff [simp]: "co_run (co_eff m) = m"
  by (rule ext) (simp add: co_run_def co_eff_def split: prod.splits)

lemma co_run_return [simp]: "co_run (co_return x) = eff_return x"
  by (simp add: co_return_def)

lemma co_run_call [simp]: "co_run (co_call m) = m"
  by (rule ext) (simp add: co_run_def co_call_def split: prod.splits)

lemma co_run_bind [simp]: "co_run (co_bind m f) = eff_bind (co_run m) (\<lambda>x. co_run (f x))"
proof
  fix s
  obtain c t where m: "m s = (c, t)" by (cases "m s")
  have "co_run (co_bind m f) s = co_run (co_then c (\<lambda>r. case r of Inl e \<Rightarrow> co_eff (eff_throw e) | Inr x \<Rightarrow> f x)) t"
    by (simp add: co_run_def co_bind_def m)
  then show "co_run (co_bind m f) s = eff_bind (co_run m) (\<lambda>x. co_run (f x)) s"
    by (auto simp: finish_then eff_bind_def eff_throw_def co_run_def [of m] m split: prod.splits sum.splits)
qed

lemma co_run_catch [simp]: "co_run (co_catch m handler) = eff_catch (co_run m) (co_run handler)"
proof
  fix s
  obtain c t where m: "m s = (c, t)" by (cases "m s")
  have "co_run (co_catch m handler) s = co_run (co_then c (\<lambda>r. case r of
      Inl e \<Rightarrow> if catchable e then handler else co_eff (eff_throw e) | Inr x \<Rightarrow> co_return x)) t"
    by (simp add: co_run_def co_catch_def m)
  then show "co_run (co_catch m handler) s = eff_catch (co_run m) (co_run handler) s"
    by (auto simp: finish_then eff_catch_def eff_throw_def eff_return_def co_run_def [of m] m split: prod.splits sum.splits)
qed

section \<open>What a coroutine keeps, whatever comes between\<close>

text \<open>\<open>P\<close> is kept by every step that starts in a state with \<open>P\<close>, and a value that is returned has \<open>Q\<close>.\<close>

primrec co_keeps :: "('s \<Rightarrow> bool) \<Rightarrow> ('a \<Rightarrow> bool) \<Rightarrow> ('s, 'a) co \<Rightarrow> bool" where
  "co_keeps P Q (Ended r) \<longleftrightarrow> (\<forall>x. r = Inr x \<longrightarrow> Q x)"
| "co_keeps P Q (Awaiting k) \<longleftrightarrow> (\<forall>s. P s \<longrightarrow> P (snd (k s)) \<and> fst (map_prod (co_keeps P Q) id (k s)))"

definition coroutine_keeps :: "('s \<Rightarrow> bool) \<Rightarrow> ('a \<Rightarrow> bool) \<Rightarrow> ('s, 'a) coroutine \<Rightarrow> bool" where
  "coroutine_keeps P Q m \<longleftrightarrow> (\<forall>s. P s \<longrightarrow> P (snd (m s)) \<and> co_keeps P Q (fst (m s)))"

named_theorems keeps_intros \<open>which coroutines keep a property of the state\<close>

lemma co_keeps_Awaiting [simp]: "co_keeps P Q (Awaiting k) \<longleftrightarrow> coroutine_keeps P Q k"
  by (simp add: coroutine_keeps_def)

declare co_keeps.simps(2) [simp del]

lemma coroutine_keepsD:
  "coroutine_keeps P Q m \<Longrightarrow> P s \<Longrightarrow> m s = (c, t) \<Longrightarrow> P t \<and> co_keeps P Q c"
  by (auto simp: coroutine_keeps_def dest: spec [of _ s])

lemma keeps_then:
  assumes "co_keeps P Q c" and "\<And>x. Q x \<Longrightarrow> coroutine_keeps P R (f (Inr x))" and "\<And>e. coroutine_keeps P R (f (Inl e))"
  shows "coroutine_keeps P R (co_then c f)"
  using assms(1)
proof (induction c rule: co_induct)
  case (Ended r)
  then show ?case using assms(2,3) by (cases r) auto
next
  case (Awaiting k)
  have "coroutine_keeps P R (\<lambda>t. case k t of (c, u) \<Rightarrow> co_then c f u)"
    unfolding coroutine_keeps_def
  proof (intro allI impI)
    fix s assume s: "P s"
    obtain c t where k: "k s = (c, t)" by (cases "k s")
    with Awaiting.prems s have "P t" "co_keeps P Q c" by (auto dest: coroutine_keepsD)
    with Awaiting.IH [of s] k have "coroutine_keeps P R (co_then c f)" by simp
    with \<open>P t\<close> k show "P (snd (case k s of (c, u) \<Rightarrow> co_then c f u)) \<and> co_keeps P R (fst (case k s of (c, u) \<Rightarrow> co_then c f u))"
      by (auto simp: coroutine_keeps_def)
  qed
  then show ?case by (simp add: coroutine_keeps_def [of P R "Pair _"])
qed

lemma keeps_eff:
  assumes "preserves P m" and "\<And>s x t. m s = (Inr x, t) \<Longrightarrow> Q x"
  shows "coroutine_keeps P Q (co_eff m)"
  using assms by (auto simp: coroutine_keeps_def co_eff_def preserves_def split: prod.splits)

lemma keeps_call:
  assumes "preserves P m" and "\<And>s x t. m s = (Inr x, t) \<Longrightarrow> Q x"
  shows "coroutine_keeps P Q (co_call m)"
  using assms by (auto simp: coroutine_keeps_def co_call_def preserves_def split: prod.splits)

lemma keeps_step [keeps_intros]:
  "preserves P m \<Longrightarrow> coroutine_keeps P (\<lambda>_. True) (co_eff m)"
  "preserves P m \<Longrightarrow> coroutine_keeps P (\<lambda>_. True) (co_call m)"
  by (auto intro: keeps_eff keeps_call)

lemma keeps_return: "Q x \<Longrightarrow> coroutine_keeps P Q (co_return x)"
  by (auto simp: co_return_def eff_return_iff intro!: keeps_eff preserves_intros)

lemma keeps_bind_value:
  assumes "coroutine_keeps P Q m" and "\<And>x. Q x \<Longrightarrow> coroutine_keeps P R (f x)"
  shows "coroutine_keeps P R (co_bind m f)"
  unfolding coroutine_keeps_def
proof (intro allI impI)
  fix s assume s: "P s"
  obtain c t where m: "m s = (c, t)" by (cases "m s")
  have throw: "coroutine_keeps P R (co_eff (eff_throw e))" for e
    by (rule keeps_eff) (auto simp: eff_throw_iff intro: preserves_intros)
  from coroutine_keepsD [OF assms(1) s m] have t: "P t" "co_keeps P Q c" by simp_all
  from keeps_then [OF t(2), of R "\<lambda>r. case r of Inl e \<Rightarrow> co_eff (eff_throw e) | Inr x \<Rightarrow> f x"] assms(2) throw
  have "coroutine_keeps P R (co_then c (\<lambda>r. case r of Inl e \<Rightarrow> co_eff (eff_throw e) | Inr x \<Rightarrow> f x))" by simp
  with t(1) show "P (snd (co_bind m f s)) \<and> co_keeps P R (fst (co_bind m f s))"
    by (simp add: co_bind_def m coroutine_keeps_def)
qed

lemma keeps_bind [keeps_intros]:
  "coroutine_keeps P (\<lambda>_. True) m \<Longrightarrow> (\<And>x. coroutine_keeps P Q (f x)) \<Longrightarrow> coroutine_keeps P Q (co_bind m f)"
  by (rule keeps_bind_value)

lemma keeps_catch [keeps_intros]:
  assumes "coroutine_keeps P Q m" and "coroutine_keeps P Q handler"
  shows "coroutine_keeps P Q (co_catch m handler)"
  unfolding coroutine_keeps_def
proof (intro allI impI)
  fix s assume s: "P s"
  obtain c t where m: "m s = (c, t)" by (cases "m s")
  have throw: "coroutine_keeps P Q (co_eff (eff_throw e))" for e
    by (rule keeps_eff) (auto simp: eff_throw_iff intro: preserves_intros)
  let ?f = "\<lambda>r. case r of Inl e \<Rightarrow> if catchable e then handler else co_eff (eff_throw e) | Inr x \<Rightarrow> co_return x"
  from coroutine_keepsD [OF assms(1) s m] have t: "P t" "co_keeps P Q c" by simp_all
  from keeps_then [OF t(2), of Q ?f] assms(2) throw have "coroutine_keeps P Q (co_then c ?f)"
    by (simp add: keeps_return)
  with t(1) show "P (snd (co_catch m handler s)) \<and> co_keeps P Q (fst (co_catch m handler s))"
    by (simp add: co_catch_def m coroutine_keeps_def)
qed

lemma keeps_option [keeps_intros]:
  "coroutine_keeps P Q n \<Longrightarrow> (\<And>x. coroutine_keeps P Q (f x)) \<Longrightarrow>
     coroutine_keeps P Q (case v of None \<Rightarrow> n | Some x \<Rightarrow> f x)"
  by (cases v) simp_all

lemma keeps_if [keeps_intros]:
  "coroutine_keeps P Q m \<Longrightarrow> coroutine_keeps P Q n \<Longrightarrow> coroutine_keeps P Q (if b then m else n)"
  by simp

lemma keeps_pair [keeps_intros]: "(\<And>x y. coroutine_keeps P Q (f x y)) \<Longrightarrow> coroutine_keeps P Q (case p of (x, y) \<Rightarrow> f x y)"
  by (cases p) simp

lemma keeps_return_True [keeps_intros]: "coroutine_keeps P (\<lambda>_. True) (co_return x)"
  by (rule keeps_return) simp

section \<open>A program with coroutines beside it\<close>

text \<open>
  The objects of the program, the pool, and the schedule. An entry of the schedule is for the time before one command:
  \<open>Some\<close> says which members of the pool go on, one after the other, each up to its next suspension; with \<open>None\<close> the
  user waits until all of them have ended.
\<close>

type_synonym 's pool = "('s, unit) co list"

type_synonym turns = "nat \<Rightarrow> nat list option"

type_synonym 's program = "'s \<times> 's pool \<times> turns"

text \<open>
  An exception that leaves such a coroutine is stored in its promise, where nobody looks; undefined behaviour is nobody's
  to catch.
\<close>

definition unobserved :: "'a result \<Rightarrow> unit result" where
  "unobserved r = (case r of Inl e \<Rightarrow> if is_Undefined_behaviour e then Inl e else Inr () | Inr x \<Rightarrow> Inr ())"

text \<open>A coroutine is started: it runs at once, until it waits for the first time.\<close>

definition detached :: "('s, 'a) coroutine \<Rightarrow> ('s program, unit) eff" where
  "detached m S =
     (case S of (s, pool, turns) \<Rightarrow>
        (case co_bind m (\<lambda>_. co_return ()) s of
           (Ended r, t) \<Rightarrow> (unobserved r, (t, pool, turns))
         | (Awaiting k, t) \<Rightarrow> (Inr (), (t, pool @ [Awaiting k], turns))))"

text \<open>One member of the pool goes on.\<close>

definition resume_at :: "nat \<Rightarrow> ('s program, unit) eff" where
  "resume_at i S =
     (case S of (s, pool, turns) \<Rightarrow>
        if i < length pool then
          (case pool ! i of
             Ended r \<Rightarrow> (unobserved r, (s, take i pool @ drop (Suc i) pool, turns))
           | Awaiting k \<Rightarrow>
               (case k s of
                  (Ended r, t) \<Rightarrow> (unobserved r, (t, take i pool @ drop (Suc i) pool, turns))
                | (Awaiting k', t) \<Rightarrow> (Inr (), (t, pool[i := Awaiting k'], turns))))
        else (Inr (), S))"

fun resume_each :: "nat list \<Rightarrow> ('s program, unit) eff" where
  "resume_each [] = eff_return ()"
| "resume_each (i # picks) = eff_bind (resume_at i) (\<lambda>_. resume_each picks)"

fun wait_for_all :: "'s pool \<Rightarrow> turns \<Rightarrow> 's \<Rightarrow> unit result \<times> 's program" where
  "wait_for_all [] turns s = (Inr (), (s, [], turns))"
| "wait_for_all (c # pool) turns s =
     (case finish c s of (r, t) \<Rightarrow>
        (case unobserved r of Inl e \<Rightarrow> (Inl e, (t, pool, turns)) | Inr u \<Rightarrow> wait_for_all pool turns t))"

definition others_turn :: "('s program, unit) eff" where
  "others_turn S =
     (case S of (s, pool, turns) \<Rightarrow>
        (case turns 0 of
           None \<Rightarrow> wait_for_all pool (\<lambda>n. turns (Suc n)) s
         | Some picks \<Rightarrow> resume_each picks (s, pool, \<lambda>n. turns (Suc n))))"

section \<open>What every schedule keeps\<close>

definition program_keeps :: "('s \<Rightarrow> bool) \<Rightarrow> 's program \<Rightarrow> bool" where
  "program_keeps P S \<longleftrightarrow> P (fst S) \<and> (\<forall>c \<in> set (fst (snd S)). co_keeps P (\<lambda>_. True) c)"

lemma keeps_detached:
  assumes "coroutine_keeps P (\<lambda>_. True) m"
  shows "preserves (program_keeps P) (detached m)"
  unfolding preserves_def
proof (intro allI impI)
  fix S assume "program_keeps P S"
  moreover obtain s pool turns where S: "S = (s, pool, turns)" by (cases S) auto
  ultimately have s: "P s" "\<forall>c \<in> set pool. co_keeps P (\<lambda>_. True) c" by (simp_all add: program_keeps_def)
  obtain c t where c: "co_bind m (\<lambda>_. co_return ()) s = (c, t)" by (cases "co_bind m (\<lambda>_. co_return ()) s")
  have "coroutine_keeps P (\<lambda>_. True) (co_bind m (\<lambda>_. co_return ()))"
    by (rule keeps_bind [OF assms keeps_return_True])
  from coroutine_keepsD [OF this s(1) c] s(2) show "program_keeps P (snd (detached m S))"
    by (cases c) (auto simp: detached_def S c program_keeps_def)
qed

lemma keeps_resume_at: "preserves (program_keeps P) (resume_at i)"
  unfolding preserves_def
proof (intro allI impI)
  fix S assume "program_keeps P S"
  moreover obtain s pool turns where S: "S = (s, pool, turns)" by (cases S) auto
  ultimately have s: "P s" "\<forall>c \<in> set pool. co_keeps P (\<lambda>_. True) c" by (simp_all add: program_keeps_def)
  show "program_keeps P (snd (resume_at i S))"
  proof (cases "i < length pool")
    case True
    have rest: "\<forall>c \<in> set (take i pool @ drop (Suc i) pool). co_keeps P (\<lambda>_. True) c"
      using s(2) by (auto dest: in_set_takeD in_set_dropD)
    show ?thesis
    proof (cases "pool ! i")
      case (Ended r)
      with True s rest show ?thesis by (auto simp: resume_at_def S program_keeps_def)
    next
      case (Awaiting k)
      obtain c t where k: "k s = (c, t)" by (cases "k s")
      have "coroutine_keeps P (\<lambda>_. True) k" using s(2) True Awaiting by (metis co_keeps_Awaiting nth_mem)
      from coroutine_keepsD [OF this s(1) k] True s Awaiting k rest show ?thesis
        by (cases c) (auto simp: resume_at_def S program_keeps_def dest!: set_update_subset_insert [THEN subsetD])
    qed
  next
    case False
    with s show ?thesis by (simp add: resume_at_def S program_keeps_def)
  qed
qed

lemma keeps_resume_each: "preserves (program_keeps P) (resume_each picks)"
  by (induction picks) (auto intro: preserves_intros keeps_resume_at)

lemma keeps_finish: "co_keeps P Q c \<Longrightarrow> P s \<Longrightarrow> P (snd (finish c s))"
proof (induction c arbitrary: s rule: co_induct)
  case (Awaiting k)
  obtain c t where k: "k s = (c, t)" by (cases "k s")
  from Awaiting.prems k have "P t" "co_keeps P Q c" by (auto dest: coroutine_keepsD)
  with Awaiting.IH [of s t] k show ?case by simp
qed simp

lemma keeps_wait_for_all:
  "P s \<Longrightarrow> \<forall>c \<in> set pool. co_keeps P (\<lambda>_. True) c \<Longrightarrow> program_keeps P (snd (wait_for_all pool turns s))"
proof (induction pool arbitrary: s)
  case (Cons c pool)
  obtain r t where c: "finish c s = (r, t)" by (cases "finish c s")
  with keeps_finish [of P "\<lambda>_. True" c s] Cons.prems have "P t" by simp
  with Cons c show ?case by (auto simp: program_keeps_def split: sum.splits)
qed (simp add: program_keeps_def)

lemma keeps_others_turn: "preserves (program_keeps P) others_turn"
  unfolding preserves_def
proof (intro allI impI)
  fix S assume S: "program_keeps P S"
  obtain s pool turns where "S = (s, pool, turns)" by (cases S) auto
  with S show "program_keeps P (snd (others_turn S))"
    by (auto simp: others_turn_def program_keeps_def [of _ "(s, _)"] intro!: keeps_wait_for_all
        preservesD [OF keeps_resume_each _ prod.collapse [symmetric]] split: option.splits)
qed

lemma program_keeps_fst: "preserves P m \<Longrightarrow> preserves (program_keeps P) (eff_fst m)"
  by (auto simp: preserves_def program_keeps_def eff_fst_def split: prod.splits)

section \<open>The user waits each time\<close>

definition ended :: "'s pool \<Rightarrow> 's \<Rightarrow> 's" where
  "ended pool s = fold (\<lambda>c t. snd (finish c t)) pool s"

text \<open>\<open>P\<close> holds once the coroutines that have been started have ended.\<close>

definition waiting_keeps :: "('s \<Rightarrow> bool) \<Rightarrow> 's program \<Rightarrow> bool" where
  "waiting_keeps P S \<longleftrightarrow> snd (snd S) = (\<lambda>_. None) \<and> P (ended (fst (snd S)) (fst S))"

text \<open>A command that is run when no coroutine is left.\<close>

definition started_alone :: "('s \<Rightarrow> bool) \<Rightarrow> ('s program, 'a) eff \<Rightarrow> bool" where
  "started_alone P m \<longleftrightarrow> (\<forall>s. P s \<longrightarrow> waiting_keeps P (snd (m (s, [], \<lambda>_. None))))"

named_theorems alone_intros \<open>which commands keep a property when no coroutine is left\<close>

lemma alone_pure [alone_intros]: "started_alone P (eff_return x)" "started_alone P (eff_throw e)" "started_alone P (eff_lift r)"
  by (simp_all add: started_alone_def waiting_keeps_def ended_def eff_return_def eff_throw_def eff_lift_def)

lemma alone_fst [alone_intros]: "preserves P m \<Longrightarrow> started_alone P (eff_fst m)"
  by (auto simp: started_alone_def waiting_keeps_def ended_def eff_fst_def preserves_def split: prod.splits)

lemma alone_bind_fst [alone_intros]:
  assumes "preserves P m" and "\<And>x. started_alone P (f x)"
  shows "started_alone P (eff_bind (eff_fst m) f)"
  unfolding started_alone_def
proof (intro allI impI)
  fix s assume s: "P s"
  obtain r t where m: "m s = (r, t)" by (cases "m s")
  with assms(1) s have t: "P t" by (auto dest: preservesD)
  show "waiting_keeps P (snd (eff_bind (eff_fst m) f (s, [], \<lambda>_. None)))"
  proof (cases r)
    case (Inl e)
    with t m show ?thesis by (simp add: eff_bind_def eff_fst_def waiting_keeps_def ended_def)
  next
    case (Inr x)
    with t m assms(2) [of x] show ?thesis by (simp add: eff_bind_def eff_fst_def started_alone_def)
  qed
qed

lemma alone_bind_lift [alone_intros]:
  "(\<And>x. started_alone P (f x)) \<Longrightarrow> started_alone P (eff_bind (eff_lift r) f)"
  by (cases r) (simp_all add: started_alone_def eff_bind_def eff_lift_def waiting_keeps_def ended_def)

lemma alone_pair [alone_intros]: "(\<And>x y. started_alone P (f x y)) \<Longrightarrow> started_alone P (case p of (x, y) \<Rightarrow> f x y)"
  by (cases p) simp

lemma alone_let [alone_intros]: "started_alone P (f x) \<Longrightarrow> started_alone P (let y = x in f y)"
  by simp

lemma alone_detached:
  assumes "preserves P (co_run m)"
  shows "started_alone P (detached m)"
  unfolding started_alone_def
proof (intro allI impI)
  fix s assume s: "P s"
  obtain c t where c: "co_bind m (\<lambda>_. co_return ()) s = (c, t)" by (cases "co_bind m (\<lambda>_. co_return ()) s")
  have "preserves P (co_run (co_bind m (\<lambda>_. co_return ())))"
    unfolding co_run_bind co_run_return by (intro preserves_intros assms)
  moreover have "co_run (co_bind m (\<lambda>_. co_return ())) s = finish c t" by (simp only: co_run_def c prod.case)
  ultimately have "P (snd (finish c t))" using s unfolding preserves_def by metis
  then show "waiting_keeps P (snd (detached m (s, [], \<lambda>_. None)))"
    by (cases c) (simp_all add: detached_def c waiting_keeps_def ended_def)
qed

lemma wait_for_all_ended:
  "wait_for_all pool turns s = (r, (t, pool', turns')) \<Longrightarrow>
     turns' = turns \<and> ended pool' t = ended pool s \<and> (r = Inr () \<longrightarrow> pool' = [])"
  by (induction pool arbitrary: s) (auto simp: ended_def split: prod.splits sum.splits)

lemma waiting_before:
  assumes "started_alone P m"
  shows "preserves (waiting_keeps P) (eff_bind others_turn (\<lambda>_. m))"
  unfolding preserves_def
proof (intro allI impI)
  fix S assume "waiting_keeps P S"
  moreover obtain s pool turns where S: "S = (s, pool, turns)" by (cases S) auto
  ultimately have turns: "turns = (\<lambda>_. None)" and P: "P (ended pool s)" by (simp_all add: waiting_keeps_def)
  obtain r t pool' turns' where w: "wait_for_all pool (\<lambda>_. None) s = (r, (t, pool', turns'))"
    by (metis prod.collapse)
  note e = wait_for_all_ended [OF w]
  show "waiting_keeps P (snd (eff_bind others_turn (\<lambda>_. m) S))"
  proof (cases r)
    case (Inl x)
    with w e P show ?thesis by (simp add: eff_bind_def others_turn_def S turns waiting_keeps_def)
  next
    case (Inr u)
    with e have "pool' = []" "turns' = (\<lambda>_. None)" by simp_all
    moreover from this e P have "P t" by (simp add: ended_def)
    ultimately show ?thesis using w Inr assms by (simp add: eff_bind_def others_turn_def S turns started_alone_def)
  qed
qed

end
