(* ===== verification/Meta42_Async.thy ===== *)
theory Meta42_Async
  imports Resumption Meta42
begin

text \<open>
  The awaitable operations of the client (\<open>src/cpp/sdk/src/violas_client2.cpp\<close>, \<open>violas_client2.hpp\<close>) and of the client
  for shared files (\<open>src/cpp/meta42-cli/src/meta42.cpp\<close>) as coroutines that other commands run beside: every
  \<open>co_await\<close> of a request suspends them, and what they read of the client, of the world and of the database, they read
  when they go on.

  Theories \<open>Client2\<close>, \<open>Client2_Framework\<close>, \<open>Nft_Token\<close> and \<open>Meta42\<close> have the same operations for a caller that waits;
  \<open>co_run\<close> of the coroutine is the operation there. The state is the client with the world, and the database.
\<close>

section \<open>The client\<close>

type_synonym ('k, 'w, 'd) shared = "('k, 'w) client_state \<times> 'd"

definition of_client :: "(('k, 'w) client_state, 'a) eff \<Rightarrow> (('k, 'w, 'd) shared, 'a) coroutine" where
  "of_client m = co_eff (eff_fst m)"

definition request :: "('w, 'a) eff \<Rightarrow> (('k, 'w, 'd) shared, 'a) coroutine" where
  "request m = co_call (eff_fst (eff_snd m))"

definition co_submit_txn_payload ::
    "('k, 'w) env \<Rightarrow> u64 \<Rightarrow> TransactionPayload \<Rightarrow> u64 \<Rightarrow> u64 \<Rightarrow> cstring \<Rightarrow> u64 \<Rightarrow>
     (('k, 'w, 'd) shared, AccountAddress \<times> u64) coroutine" where
  "co_submit_txn_payload env account_index txn_payload max_gas_amount gas_unit_price gas_currency_code
       expiration_timestamp_secs =
     co_bind (of_client (make_signed_txn env account_index txn_payload max_gas_amount gas_unit_price
       gas_currency_code expiration_timestamp_secs)) (\<lambda>signed_txn.
     co_bind (request (rpc_await_submit2 (env_rpc env) signed_txn)) (\<lambda>_.
     co_bind (of_client (increment_sequence_number account_index)) (\<lambda>_.
     co_return (RawTransaction_sender (SignedTransaction_raw_txn signed_txn),
       RawTransaction_sequence_number (SignedTransaction_raw_txn signed_txn)))))"

definition co_submit_script ::
    "('k, 'w) env \<Rightarrow> u64 \<Rightarrow> Script \<Rightarrow> u64 \<Rightarrow> u64 \<Rightarrow> cstring \<Rightarrow> u64 \<Rightarrow>
     (('k, 'w, 'd) shared, AccountAddress \<times> u64) coroutine" where
  "co_submit_script env account_index script =
     co_submit_txn_payload env account_index (TransactionPayload_Script script)"

definition co_execute_script ::
    "('k, 'w) env \<Rightarrow> u64 \<Rightarrow> cstring \<Rightarrow> TypeTag list \<Rightarrow> TransactionArgument list \<Rightarrow> u64 \<Rightarrow> u64 \<Rightarrow> cstring \<Rightarrow> u64 \<Rightarrow>
     (('k, 'w, 'd) shared, AccountAddress \<times> u64) coroutine" where
  "co_execute_script env account_index script_file_name type_tags args max_gas_amount gas_unit_price
       gas_currency_code expiration_timestamp_secs =
     co_bind (of_client (read_file env script_file_name
       (''failed to open file '' @ c_text script_file_name @ '' at execute_script_file''))) (\<lambda>script_bytecode.
     co_submit_script env account_index
       \<lparr>Script_code = script_bytecode, Script_ty_args = type_tags, Script_args = args\<rparr>
       max_gas_amount gas_unit_price gas_currency_code expiration_timestamp_secs)"

text \<open>The thread of a coroutine sleeps; the others go on.\<close>

fun co_poll_transaction ::
    "('w, TransactionView option) eff \<Rightarrow> (nat \<Rightarrow> 'w \<Rightarrow> 'w) \<Rightarrow> nat \<Rightarrow> (('k, 'w, 'd) shared, TransactionView option) coroutine" where
  "co_poll_transaction get sleep 0 = co_return None"
| "co_poll_transaction get sleep (Suc n) =
     co_bind (request get) (\<lambda>opt_txn_view.
     case opt_txn_view of
       None \<Rightarrow> co_bind (request (eff_modify (sleep 100))) (\<lambda>_. co_poll_transaction get sleep n)
     | Some view \<Rightarrow> co_return (Some view))"

definition co_check_txn_vm_status ::
    "('k, 'w) env \<Rightarrow> AccountAddress \<Rightarrow> u64 \<Rightarrow> cstring \<Rightarrow> (('k, 'w, 'd) shared, unit) coroutine" where
  "co_check_txn_vm_status env address sn error_info =
     co_bind (co_poll_transaction (rpc_await_get_account_transaction (env_rpc env) address sn False) (env_sleep env) 50)
       (\<lambda>opt_txn_view. of_client (eff_lift (vm_status_result error_info opt_txn_view)))"

definition co_get_account_state ::
    "('k, 'w) env \<Rightarrow> AccountAddress \<Rightarrow> (('k, 'w, 'd) shared, resources option) coroutine" where
  "co_get_account_state env address =
     co_bind (request (rpc_await_get_account_state_blob (env_rpc env) (bytes_to_hex (AccountAddress_value address)))) (\<lambda>asp.
     of_client (eff_lift (account_state_of asp)))"

definition co_query_events ::
    "('k, 'w) env \<Rightarrow> 'a Event_scheme serde_op \<Rightarrow> 'a Event_scheme \<Rightarrow> EventHandle \<Rightarrow> u64 \<Rightarrow> u64 \<Rightarrow>
     (('k, 'w, 'd) shared, 'a Event_scheme list) coroutine" where
  "co_query_events env f init handle start limit =
     co_bind (request (rpc_await_get_events (env_rpc env) (bytes_to_hex (guid handle)) start limit)) (\<lambda>events.
     of_client (eff_lift (query_events f init (map event_data events))))"

section \<open>Shared files\<close>

definition co_script_call ::
    "('k, 'w) env \<Rightarrow> u64 \<Rightarrow> string \<Rightarrow> TypeTag list \<Rightarrow> txn_arg list \<Rightarrow> string \<Rightarrow> (('k, 'w, 'd) shared, unit) coroutine" where
  "co_script_call env account_index file_name type_tags args error_info =
     co_bind (co_execute_script env account_index (str file_name) type_tags (make_txn_args args)
       1000000 0 (str ''VLS'') 100) (\<lambda>(sender, sn).
     co_check_txn_vm_status env sender sn (str error_info))"

definition co_accept :: "('k, 'w) env \<Rightarrow> u64 \<Rightarrow> (('k, 'w, 'd) shared, unit) coroutine" where
  "co_accept env account_index =
     co_catch (co_script_call env account_index ''move/scripts/meta42_accept.mv'' [] [] ''Meta42::accept'')
       (co_return ())"

definition co_mint_token :: "('k, 'w) env \<Rightarrow> u64 \<Rightarrow> cstring \<Rightarrow> (('k, 'w, 'd) shared, unit) coroutine" where
  "co_mint_token env account_index hdfs_path =
     co_catch (co_script_call env account_index ''move/scripts/meta42_mint_token.mv'' [] [Arg_string hdfs_path]
       ''Meta42::await_mint_token'') (co_return ())"

definition co_share_token_by_id ::
    "('k, 'w) env \<Rightarrow> u64 \<Rightarrow> Address \<Rightarrow> u8 list \<Rightarrow> cstring \<Rightarrow> (('k, 'w, 'd) shared, unit) coroutine" where
  "co_share_token_by_id env account_index receiver token_id message =
     co_catch (co_script_call env account_index ''move/scripts/meta42_share_token_by_id.mv'' []
       [Arg_address \<lparr>AccountAddress_value = receiver\<rparr>, Arg_array32 token_id, Arg_string message]
       ''Meta42::await_share_token'') (co_return ())"

definition co_share_token_by_index ::
    "('k, 'w) env \<Rightarrow> u64 \<Rightarrow> Address \<Rightarrow> u64 \<Rightarrow> cstring \<Rightarrow> (('k, 'w, 'd) shared, unit) coroutine" where
  "co_share_token_by_index env account_index receiver token_index message =
     co_catch (co_script_call env account_index ''move/scripts/meta42_share_token_by_index.mv'' []
       [Arg_address \<lparr>AccountAddress_value = receiver\<rparr>, Arg_uint64 token_index, Arg_string message]
       ''Meta42::await_share_token'') (co_return ())"

definition co_resource ::
    "('k, 'w) env \<Rightarrow> 'a serde_op \<Rightarrow> 'a \<Rightarrow> StructTag \<Rightarrow> Address \<Rightarrow> (('k, 'w, 'd) shared, 'a option) coroutine" where
  "co_resource env f init tag address =
     co_bind (co_get_account_state env \<lparr>AccountAddress_value = address\<rparr>) (\<lambda>account_state.
     case account_state of
       None \<Rightarrow> co_return None
     | Some resources' \<Rightarrow> of_client (eff_lift (get_resource f init resources' tag)))"

definition co_get_tokens :: "('k, 'w) env \<Rightarrow> Address \<Rightarrow> (('k, 'w, 'd) shared, Token list) coroutine" where
  "co_get_tokens env address =
     co_catch
       (co_bind (co_resource env serde_Meta42_AccountInfo no_Meta42_AccountInfo (meta_tag ''AccountInfo'') address)
         (\<lambda>account_info. co_return (case account_info of None \<Rightarrow> [] | Some info \<Rightarrow> meta_tokens info)))
       (co_return [])"

text \<open>The rows are counted before the first suspension, and inserted after the last one.\<close>

definition co_complete_history ::
    "('k, 'w) env \<Rightarrow> 'd storage \<Rightarrow> nat \<Rightarrow> (('k, 'w, 'd) shared, unit) coroutine" where
  "co_complete_history env st count' =
     co_bind (co_resource env serde_GlobalInfo no_GlobalInfo (meta_tag ''GlobalInfo'') META42_ADMIN_ADDRESS) (\<lambda>global_info.
     case global_info of
       None \<Rightarrow> co_return ()
     | Some info \<Rightarrow>
         (let event_count = counter (global_shared_token_event info)
          in if (of_nat count' :: u64) < event_count
             then co_bind (co_query_events env serde_SharedTokenEvent no_SharedTokenEvent
                    (global_shared_token_event info) (of_nat count') event_count) (\<lambda>events.
                  co_eff (eff_snd (insert_events st events)))
             else co_return ()))"

definition co_query_history ::
    "('k, 'w) env \<Rightarrow> 'd storage \<Rightarrow> Address \<Rightarrow> u8 list \<Rightarrow> (('k, 'w, 'd) shared, SharedTokenEvent list) coroutine" where
  "co_query_history env st addr token_id =
     co_bind (co_eff (eff_snd (sync_schema st))) (\<lambda>_.
     co_bind (co_eff (eff_snd (storage_count st))) (\<lambda>count'.
     co_bind (co_catch (co_complete_history env st count') (co_return ())) (\<lambda>_.
     co_bind (co_eff (eff_snd (make_recursive_query_shared_token st addr token_id))) (\<lambda>_.
     co_return []))))"

section \<open>A caller that waits\<close>

lemma eff_fst_simps [simp]:
  "eff_fst (eff_bind m f) = eff_bind (eff_fst m) (\<lambda>x. eff_fst (f x))"
  "eff_fst (eff_return x) = eff_return x"
  "eff_fst (eff_lift r) = eff_lift r"
  "eff_fst (eff_catch m h) = eff_catch (eff_fst m) (eff_fst h)"
  by (auto simp: fun_eq_iff eff_fst_def eff_bind_def eff_return_def eff_lift_def eff_catch_def split: prod.splits sum.splits)

lemma eff_snd_pure [simp]:
  "eff_fst (eff_snd (eff_bind m f)) = eff_bind (eff_fst (eff_snd m)) (\<lambda>x. eff_fst (eff_snd (f x)))"
  "eff_fst (eff_snd (eff_return x)) = eff_return x"
  "eff_fst (eff_snd (case v of None \<Rightarrow> n | Some x \<Rightarrow> g x)) =
     (case v of None \<Rightarrow> eff_fst (eff_snd n) | Some x \<Rightarrow> eff_fst (eff_snd (g x)))"
  by (auto simp: fun_eq_iff eff_fst_def eff_snd_def eff_bind_def eff_return_def split: prod.splits sum.splits option.splits)

lemma co_run_of_client [simp]: "co_run (of_client m) = eff_fst m"
  by (simp add: of_client_def)

lemma co_run_request [simp]: "co_run (request m) = eff_fst (eff_snd m)"
  by (simp add: request_def)

lemma co_run_option:
  "co_run (case v of None \<Rightarrow> n | Some x \<Rightarrow> f x) = (case v of None \<Rightarrow> co_run n | Some x \<Rightarrow> co_run (f x))"
  by (cases v) simp_all

lemma eff_fst_option:
  "eff_fst (case v of None \<Rightarrow> n | Some x \<Rightarrow> f x) = (case v of None \<Rightarrow> eff_fst n | Some x \<Rightarrow> eff_fst (f x))"
  by (cases v) simp_all

lemma co_run_pair: "co_run (case p of (x, y) \<Rightarrow> f x y) = (case p of (x, y) \<Rightarrow> co_run (f x y))"
  by (cases p) simp

lemma eff_fst_pair: "eff_fst (case p of (x, y) \<Rightarrow> f x y) = (case p of (x, y) \<Rightarrow> eff_fst (f x y))"
  by (cases p) simp

lemmas waits = co_run_option eff_fst_option co_run_pair eff_fst_pair

lemma co_run_submit:
  "co_run (co_submit_txn_payload env i p g pr cu ex) = eff_fst (await_submit_txn_payload env i p g pr cu ex)"
  by (simp add: co_submit_txn_payload_def await_submit_txn_payload_def)

lemma co_run_poll: "co_run (co_poll_transaction get sleep n) = eff_fst (eff_snd (poll_transaction get sleep n))"
  by (induction n) (simp_all add: waits cong: option.case_cong)

lemma co_run_check: "co_run (co_check_txn_vm_status env address sn info) = eff_fst (await_check_txn_vm_status env address sn info)"
  by (simp add: co_check_txn_vm_status_def await_check_txn_vm_status_def co_run_poll)

lemma co_run_script_call:
  "co_run (co_script_call env i file_name tags args info) = eff_fst (await_script_call env i file_name tags args info)"
  by (simp add: co_script_call_def await_script_call_def co_execute_script_def await_execute_script_def co_submit_script_def
      await_submit_script_def co_run_submit co_run_check waits)

lemma co_run_resource: "co_run (co_resource env f init tag address) = eff_fst (await_resource env f init tag address)"
  by (simp add: co_resource_def await_resource_def co_get_account_state_def await_get_account_state_def waits
      cong: option.case_cong)

text \<open>Every coroutine of the program does what the operation of theory \<open>Meta42\<close> does, when nothing comes between.\<close>

lemma co_run_meta:
  "co_run (co_accept env i) = eff_fst (await_accept env i)"
  "co_run (co_mint_token env i path) = eff_fst (await_mint_token env i path)"
  "co_run (co_share_token_by_id env i receiver token_id message) = eff_fst (await_share_token_by_id env i receiver token_id message)"
  "co_run (co_share_token_by_index env i receiver index message) = eff_fst (await_share_token_by_index env i receiver index message)"
  "co_run (co_get_tokens env address) = eff_fst (await_get_tokens env address)"
  by (simp_all add: co_accept_def await_accept_def co_mint_token_def await_mint_token_def co_share_token_by_id_def
      await_share_token_by_id_def co_share_token_by_index_def await_share_token_by_index_def co_get_tokens_def
      await_get_tokens_def co_run_script_call co_run_resource)

lemma co_run_complete: "co_run (co_complete_history env st n) = complete_history env st n"
  by (simp add: co_complete_history_def complete_history_def co_run_resource co_query_events_def client_await_query_events_def
      client_await_get_events_def waits Let_def if_distrib [of co_run] if_distrib [of eff_fst] cong: option.case_cong if_cong)

lemma co_run_query: "co_run (co_query_history env st addr token_id) = query_shared_token_events_history env st addr token_id"
  by (simp add: co_query_history_def query_shared_token_events_history_def co_run_complete)

section \<open>Beside other coroutines\<close>

text \<open>
  The table, whoever inserted what: it has the numbers one, two, and so on, and each row is that of an event of the log.
\<close>

definition rows_of_log :: "SharedTokenEvent list \<Rightarrow> SharedTokenHistory list \<Rightarrow> bool" where
  "rows_of_log log rs \<longleftrightarrow> (length rs < 2 ^ 64 \<longrightarrow> (\<exists>xs. set xs \<subseteq> set log \<and> rs = table xs (length xs)))"

definition shared_ok_state :: "('k, 'w) env \<Rightarrow> ('d \<Rightarrow> bool) \<Rightarrow> ('k, 'w, 'd) shared \<Rightarrow> bool" where
  "shared_ok_state env R s \<longleftrightarrow> client_ok env (fst (fst s)) \<and> R (snd s)"

lemma table_snoc: "table (xs @ [x]) (length (xs @ [x])) = table xs (length xs) @ [(SharedTokenHistory_of x)\<lparr>history_sn := of_nat (length xs + 1)\<rparr>]"
  by (auto simp: table_def nth_append)

lemma rows_of_log_snoc:
  assumes "rows_of_log log rs" and "x \<in> set log"
  shows "rows_of_log log (rs @ [(SharedTokenHistory_of x)\<lparr>history_sn := next_sn rs\<rparr>])"
  unfolding rows_of_log_def
proof
  assume "length (rs @ [(SharedTokenHistory_of x)\<lparr>history_sn := next_sn rs\<rparr>]) < 2 ^ 64"
  then have len: "length rs < 2 ^ 64" by simp
  with assms(1) obtain xs where xs: "set xs \<subseteq> set log" "rs = table xs (length xs)" unfolding rows_of_log_def by blast
  with len have "next_sn rs = of_nat (length xs + 1)" by (simp add: next_sn_table)
  with xs assms(2) table_snoc [of xs x]
  show "\<exists>ys. set ys \<subseteq> set log \<and> rs @ [(SharedTokenHistory_of x)\<lparr>history_sn := next_sn rs\<rparr>] = table ys (length ys)"
    by (intro exI [of _ "xs @ [x]"]) simp
qed

lemma insert_events_rows:
  assumes "storage_ok st rows" and "set events \<subseteq> set log"
  shows "preserves (\<lambda>d. rows_of_log log (rows d)) (insert_events st events)"
  using assms(2)
proof (induction events)
  case (Cons x events)
  have "preserves (\<lambda>d. rows_of_log log (rows d)) (storage_insert st (SharedTokenHistory_of x))"
    unfolding preserves_def
  proof (intro allI impI)
    fix d assume d: "rows_of_log log (rows d)"
    obtain r d' where i: "storage_insert st (SharedTokenHistory_of x) d = (r, d')"
      by (cases "storage_insert st (SharedTokenHistory_of x) d")
    with assms(1) have "case r of Inl e \<Rightarrow> rows d' = rows d
        | Inr u \<Rightarrow> rows d' = rows d @ [(SharedTokenHistory_of x)\<lparr>history_sn := next_sn (rows d)\<rparr>]"
      unfolding storage_ok_def by blast
    with d i rows_of_log_snoc [OF d, of x] Cons.prems
    show "rows_of_log log (rows (snd (storage_insert st (SharedTokenHistory_of x) d)))" by (auto split: sum.splits)
  qed
  with Cons show ?case by (auto intro: preserves_intros)
qed (auto intro: preserves_intros)

lemma preserves_client:
  "preserves (\<lambda>s. client_ok env (fst s)) m \<Longrightarrow> preserves (shared_ok_state env R) (eff_fst m)"
  unfolding preserves_def shared_ok_state_def eff_fst_def by (auto simp: case_prod_beta)

lemma preserves_database: "preserves R m \<Longrightarrow> preserves (shared_ok_state env R) (eff_snd m)"
  by (auto simp: preserves_def shared_ok_state_def eff_snd_def split: prod.splits)

lemma preserves_request: "preserves (shared_ok_state env R) (eff_fst (eff_snd m))"
  by (rule preserves_client) (rule preserves_intros)

lemma keeps_of_client [keeps_intros]:
  "preserves (\<lambda>s. client_ok env (fst s)) m \<Longrightarrow> coroutine_keeps (shared_ok_state env R) (\<lambda>_. True) (of_client m)"
  by (simp add: of_client_def keeps_step preserves_client)

lemma keeps_request [keeps_intros]: "coroutine_keeps (shared_ok_state env R) (\<lambda>_. True) (request m)"
  by (simp add: request_def keeps_step preserves_request)

lemma client_ok_steps [keeps_intros]:
  "preserves (\<lambda>s. client_ok env (fst s)) (make_signed_txn env i p g pr cu ex)"
  "preserves (\<lambda>s. client_ok env (fst s)) (increment_sequence_number i)"
  "preserves (\<lambda>s. client_ok env (fst s)) (read_file env file_name what)"
  "preserves (\<lambda>s. client_ok env (fst s)) (eff_lift r)"
  unfolding make_signed_txn_def increment_sequence_number_def read_file_def
  by (intro preserves_intros preserves_find_account)+

lemma keeps_poll: "coroutine_keeps (shared_ok_state env R) (\<lambda>_. True) (co_poll_transaction get sleep n)"
  by (induction n) (auto intro!: keeps_intros)

lemma keeps_script_call:
  "coroutine_keeps (shared_ok_state env R) (\<lambda>_. True) (co_script_call env i file_name tags args info)"
  unfolding co_script_call_def co_execute_script_def co_submit_script_def co_submit_txn_payload_def co_check_txn_vm_status_def
  by (intro keeps_intros keeps_poll)

lemma keeps_get_tokens: "coroutine_keeps (shared_ok_state env R) (\<lambda>_. True) (co_get_tokens env address)"
  unfolding co_get_tokens_def co_resource_def co_get_account_state_def by (intro keeps_intros)

lemma keeps_meta:
  "coroutine_keeps (shared_ok_state env R) (\<lambda>_. True) (co_accept env i)"
  "coroutine_keeps (shared_ok_state env R) (\<lambda>_. True) (co_mint_token env i path)"
  "coroutine_keeps (shared_ok_state env R) (\<lambda>_. True) (co_share_token_by_id env i receiver token_id message)"
  "coroutine_keeps (shared_ok_state env R) (\<lambda>_. True) (co_share_token_by_index env i receiver index message)"
  unfolding co_accept_def co_mint_token_def co_share_token_by_id_def co_share_token_by_index_def
  by (intro keeps_intros keeps_script_call)+

text \<open>Values that come from the service.\<close>

lemma keeps_resource:
  "coroutine_keeps (shared_ok_state env R) (\<lambda>x. \<exists>s t. await_resource env f init tag address s = (Inr x, t))
     (co_resource env f init tag address)"
proof -
  let ?state = "await_get_account_state env \<lparr>AccountAddress_value = address\<rparr>"
  have "coroutine_keeps (shared_ok_state env R) (\<lambda>x. \<exists>s t. ?state s = (Inr x, t))
      (co_get_account_state env \<lparr>AccountAddress_value = address\<rparr>)"
    unfolding co_get_account_state_def
  proof (rule keeps_bind_value)
    show "coroutine_keeps (shared_ok_state env R) (\<lambda>asp. \<exists>w w'. rpc_await_get_account_state_blob (env_rpc env)
        (bytes_to_hex (AccountAddress_value \<lparr>AccountAddress_value = address\<rparr>)) w = (Inr asp, w'))
      (request (rpc_await_get_account_state_blob (env_rpc env)
        (bytes_to_hex (AccountAddress_value \<lparr>AccountAddress_value = address\<rparr>))))"
      unfolding request_def by (rule keeps_call [OF preserves_request]) (auto simp: eff_iff)
  next
    fix asp
    assume "\<exists>w w'. rpc_await_get_account_state_blob (env_rpc env)
        (bytes_to_hex (AccountAddress_value \<lparr>AccountAddress_value = address\<rparr>)) w = (Inr asp, w')"
    then obtain w w' where "rpc_await_get_account_state_blob (env_rpc env)
        (bytes_to_hex (AccountAddress_value \<lparr>AccountAddress_value = address\<rparr>)) w = (Inr asp, w')" by blast
    then have "\<exists>s t. ?state s = (account_state_of asp, t)"
      by - (rule exI [of _ "(undefined, w)"], rule exI [of _ "(undefined, w')"], simp add: await_get_account_state_def eff_bind_def eff_snd_def eff_lift_def)
    then show "coroutine_keeps (shared_ok_state env R) (\<lambda>x. \<exists>s t. ?state s = (Inr x, t)) (of_client (eff_lift (account_state_of asp)))"
      unfolding of_client_def
      by (intro keeps_eff preserves_client preserves_intros) (simp add: eff_iff)
  qed
  then show ?thesis
    unfolding co_resource_def
  proof (rule keeps_bind_value)
    fix v
    assume "\<exists>s t. ?state s = (Inr v, t)"
    then obtain s t where "?state s = (Inr v, t)" by blast
    then have "\<exists>s t. await_resource env f init tag address s =
        (case v of None \<Rightarrow> Inr None | Some m \<Rightarrow> get_resource f init m tag, t)"
      by (intro exI [of _ s] exI [of _ t]) (simp add: await_resource_def eff_bind_def eff_return_def eff_lift_def split: option.splits)
    then show "coroutine_keeps (shared_ok_state env R) (\<lambda>x. \<exists>s t. await_resource env f init tag address s = (Inr x, t))
        (case v of None \<Rightarrow> co_return None | Some m \<Rightarrow> of_client (eff_lift (get_resource f init m tag)))"
      unfolding of_client_def
      by (cases v) (simp_all add: keeps_return, intro keeps_eff preserves_client preserves_intros, simp add: eff_iff)
  qed
qed

lemma keeps_query_events:
  "coroutine_keeps (shared_ok_state env R)
     (\<lambda>x. \<exists>w w' evs. rpc_await_get_events (env_rpc env) (bytes_to_hex (guid handle)) start limit w = (Inr evs, w') \<and>
        query_events f init (map event_data evs) = Inr x)
     (co_query_events env f init handle start limit)"
  unfolding co_query_events_def
proof (rule keeps_bind_value)
  show "coroutine_keeps (shared_ok_state env R)
      (\<lambda>evs. \<exists>w w'. rpc_await_get_events (env_rpc env) (bytes_to_hex (guid handle)) start limit w = (Inr evs, w'))
      (request (rpc_await_get_events (env_rpc env) (bytes_to_hex (guid handle)) start limit))"
    unfolding request_def by (rule keeps_call [OF preserves_request]) (auto simp: eff_iff)
next
  fix evs assume "\<exists>w w'. rpc_await_get_events (env_rpc env) (bytes_to_hex (guid handle)) start limit w = (Inr evs, w')"
  then show "coroutine_keeps (shared_ok_state env R)
     (\<lambda>x. \<exists>w w' evs. rpc_await_get_events (env_rpc env) (bytes_to_hex (guid handle)) start limit w = (Inr evs, w') \<and>
        query_events f init (map event_data evs) = Inr x) (of_client (eff_lift (query_events f init (map event_data evs))))"
    unfolding of_client_def by (intro keeps_eff preserves_client preserves_intros) (simp add: eff_iff, blast)
qed

text \<open>A query that others run beside, started when the table had any number of rows.\<close>

lemma keeps_complete:
  assumes "storage_ok st rows" and "log_ok log" and "serves_history env log"
  shows "coroutine_keeps (shared_ok_state env (\<lambda>d. rows_of_log log (rows d))) (\<lambda>_. True) (co_complete_history env st n)"
  unfolding co_complete_history_def
proof (rule keeps_bind_value [OF keeps_resource])
  let ?P = "shared_ok_state env (\<lambda>d. rows_of_log log (rows d))"
  fix v
  assume v: "\<exists>s t. await_resource env serde_GlobalInfo no_GlobalInfo (meta_tag ''GlobalInfo'') META42_ADMIN_ADDRESS s = (Inr v, t)"
  show "coroutine_keeps ?P (\<lambda>_. True) (case v of None \<Rightarrow> co_return () | Some info \<Rightarrow>
      (let event_count = counter (global_shared_token_event info)
       in if (of_nat n :: u64) < event_count
          then co_bind (co_query_events env serde_SharedTokenEvent no_SharedTokenEvent (global_shared_token_event info)
                 (of_nat n) event_count) (\<lambda>events. co_eff (eff_snd (insert_events st events)))
          else co_return ()))"
  proof (cases v)
    case (Some info)
    with v assms(3) have log: "serves_log env log (bytes_to_hex (guid (global_shared_token_event info)))"
      unfolding serves_history_def by blast
    have "coroutine_keeps ?P (\<lambda>_. True) (co_bind (co_query_events env serde_SharedTokenEvent no_SharedTokenEvent
        (global_shared_token_event info) start limit) (\<lambda>events. co_eff (eff_snd (insert_events st events))))" for start limit
    proof (rule keeps_bind_value [OF keeps_query_events])
      fix events
      assume "\<exists>w w' evs. rpc_await_get_events (env_rpc env) (bytes_to_hex (guid (global_shared_token_event info))) start limit w
          = (Inr evs, w') \<and> query_events serde_SharedTokenEvent no_SharedTokenEvent (map event_data evs) = Inr events"
      with log obtain m where
        "query_events serde_SharedTokenEvent no_SharedTokenEvent (event_answers (take m (drop (unat start) log))) = Inr events"
        unfolding serves_log_def by metis
      moreover have sub: "set (take m (drop (unat start) log)) \<subseteq> set log" by (auto dest: in_set_takeD in_set_dropD)
      ultimately have "set events \<subseteq> set log" using query_answers [OF assms(2) sub] by simp
      then show "coroutine_keeps ?P (\<lambda>_. True) (co_eff (eff_snd (insert_events st events)))"
        by (intro keeps_step preserves_database insert_events_rows [OF assms(1)])
    qed
    then show ?thesis by (auto simp: Some Let_def intro: keeps_intros)
  qed (auto intro: keeps_intros)
qed

lemma keeps_query:
  assumes "storage_ok st rows" and "log_ok log" and "serves_history env log"
  shows "coroutine_keeps (shared_ok_state env (\<lambda>d. rows_of_log log (rows d))) (\<lambda>_. True) (co_query_history env st addr token_id)"
proof -
  have "preserves (\<lambda>d. rows_of_log log (rows d)) (sync_schema st)"
    "preserves (\<lambda>d. rows_of_log log (rows d)) (storage_count st)"
    "preserves (\<lambda>d. rows_of_log log (rows d)) (make_recursive_query_shared_token st addr token_id)"
    using assms(1) unfolding storage_ok_def make_recursive_query_shared_token_def
    by (auto simp: preserves_def eff_modify_def) (metis prod.collapse)
  then show ?thesis
    unfolding co_query_history_def
    by (intro keeps_intros keeps_complete [OF assms] preserves_database)
qed

section \<open>Two queries that overlap\<close>

text \<open>
  A coroutine that, whatever the state is, is suspended \<open>n\<close> times without changing it, and then goes on as another one:
  the way of a request to a service whose world stays as it is.
\<close>

fun pauses :: "nat \<Rightarrow> ('s, 'a) coroutine \<Rightarrow> ('s, 'a) coroutine \<Rightarrow> bool" where
  "pauses 0 m m' \<longleftrightarrow> m = m'"
| "pauses (Suc n) m m' \<longleftrightarrow> (\<exists>k. m = (\<lambda>s. (Awaiting k, s)) \<and> pauses n k m')"

lemma pauses_bind: "pauses n m m' \<Longrightarrow> pauses n (co_bind m f) (co_bind m' f)"
proof (induction n arbitrary: m)
  case (Suc n)
  then obtain k where k: "m = (\<lambda>s. (Awaiting k, s))" "pauses n k m'" by auto
  then have "co_bind m f = (\<lambda>s. (Awaiting (co_bind k f), s))" by (simp add: co_bind_def [abs_def])
  with Suc.IH k show ?case by auto
qed simp

lemma pauses_catch: "pauses n m m' \<Longrightarrow> pauses n (co_catch m h) (co_catch m' h)"
proof (induction n arbitrary: m)
  case (Suc n)
  then obtain k where k: "m = (\<lambda>s. (Awaiting k, s))" "pauses n k m'" by auto
  then have "co_catch m h = (\<lambda>s. (Awaiting (co_catch k h), s))" by (simp add: co_catch_def [abs_def])
  with Suc.IH k show ?case by auto
qed simp

lemma pauses_add: "pauses n m m1 \<Longrightarrow> pauses j m1 m2 \<Longrightarrow> pauses (n + j) m m2"
  by (induction n arbitrary: m) auto

lemma pauses_request: "(\<And>w. g w = (Inr x, w)) \<Longrightarrow> pauses 2 (request g) (co_return x)"
  by (auto simp: numeral_2_eq_2 fun_eq_iff request_def co_call_def eff_fst_def eff_snd_def co_return_def co_eff_def eff_return_def)

lemma co_bind_return: "co_bind (co_return x) f = f x"
  by (rule ext) (simp add: co_bind_def co_return_def co_eff_def eff_return_def)

lemma of_client_lift: "of_client (eff_lift (Inr x)) = co_return x"
  by (rule ext) (simp add: of_client_def co_return_def co_eff_def eff_fst_def eff_return_def eff_lift_def)

lemma pauses_bind_return: "pauses n m (co_return x) \<Longrightarrow> f x = g \<Longrightarrow> pauses n (co_bind m f) g"
  using pauses_bind [of n m "co_return x" f] by (simp add: co_bind_return)

lemma co_bind_eff: "m s = (Inr x, t) \<Longrightarrow> co_bind (co_eff m) f s = f x t"
  by (simp add: co_bind_def co_eff_def)

text \<open>What a query does when the answers have come: it inserts the events that it asked for.\<close>

definition insertion :: "'d storage \<Rightarrow> Address \<Rightarrow> u8 list \<Rightarrow> SharedTokenEvent list \<Rightarrow> (('k, 'w, 'd) shared, unit) coroutine" where
  "insertion st addr token_id events =
     co_bind (co_bind (co_catch (co_eff (eff_snd (insert_events st events))) (co_return ())) (\<lambda>_.
       co_bind (co_eff (eff_snd (make_recursive_query_shared_token st addr token_id))) (\<lambda>_.
       co_return ([] :: SharedTokenEvent list)))) (\<lambda>_. co_return ())"

lemma query_pauses:
  assumes st: "storage_ok st rows" "\<And>d. sync_schema st d = (Inr (), d)"
    and blob: "\<And>w. rpc_await_get_account_state_blob (env_rpc env) (bytes_to_hex META42_ADMIN_ADDRESS) w = (Inr asp, w)"
      "account_state_of asp = Inr (Some m)" "get_resource serde_GlobalInfo no_GlobalInfo m (meta_tag ''GlobalInfo'') = Inr (Some info)"
      "counter (global_shared_token_event info) = of_nat (length log)"
    and log: "log_ok log" "length (rows d) = n" "n < length log"
    and events: "\<And>w. rpc_await_get_events (env_rpc env) (bytes_to_hex (guid (global_shared_token_event info)))
        (of_nat n) (of_nat (length log)) w = (Inr evs, w)" "map event_data evs = event_answers (drop n log)"
  shows "\<exists>k. detached (co_query_history env st addr token_id) ((s, d), pool, turns) = (Inr (), ((s, d), pool @ [Awaiting k], turns)) \<and>
    pauses 3 k (insertion st addr token_id (drop n log))"
proof -
  have resource: "pauses 2 (co_resource env serde_GlobalInfo no_GlobalInfo (meta_tag ''GlobalInfo'') META42_ADMIN_ADDRESS)
      (co_return (Some info))"
    unfolding co_resource_def co_get_account_state_def AccountAddress.simps
    by (rule pauses_bind_return [OF pauses_bind_return [OF pauses_request [OF blob(1)]], where x = "Some m"])
      (simp_all add: blob(2,3) of_client_lift)
  have less: "(of_nat n :: u64) < of_nat (length log)"
    using log by (simp add: log_ok_def word_less_nat_alt unat_of_nat)
  have query: "query_events serde_SharedTokenEvent no_SharedTokenEvent (event_answers (drop n log)) = Inr (drop n log)"
    by (rule query_answers [OF log(1)]) (auto dest: in_set_dropD)
  have "pauses 2 (co_query_events env serde_SharedTokenEvent no_SharedTokenEvent (global_shared_token_event info)
      (of_nat n) (of_nat (length log))) (co_return (drop n log))"
    unfolding co_query_events_def
    by (rule pauses_bind_return [OF pauses_request [OF events(1)]]) (simp add: events(2) query of_client_lift)
  from pauses_bind_return [OF this] have insert: "pauses 2 (co_bind (co_query_events env serde_SharedTokenEvent no_SharedTokenEvent
      (global_shared_token_event info) (of_nat n) (of_nat (length log))) (\<lambda>events. co_eff (eff_snd (insert_events st events))))
      (co_eff (eff_snd (insert_events st (drop n log))))"
    by simp
  have "pauses 2 (co_complete_history env st n)
      (co_bind (co_query_events env serde_SharedTokenEvent no_SharedTokenEvent
        (global_shared_token_event info) (of_nat n) (of_nat (length log))) (\<lambda>events. co_eff (eff_snd (insert_events st events))))"
    unfolding co_complete_history_def by (rule pauses_bind_return [OF resource]) (simp add: less blob(4) Let_def)
  from pauses_add [OF this insert]
  have "pauses (2 + 2) (co_complete_history env st n) (co_eff (eff_snd (insert_events st (drop n log))))" .
  then have complete: "pauses 4 (co_complete_history env st n) (co_eff (eff_snd (insert_events st (drop n log))))" by simp
  let ?body = "co_bind (co_bind (co_catch (co_complete_history env st n) (co_return ())) (\<lambda>_.
       co_bind (co_eff (eff_snd (make_recursive_query_shared_token st addr token_id))) (\<lambda>_.
       co_return ([] :: SharedTokenEvent list)))) (\<lambda>_. co_return ())"
  have "pauses 4 ?body (insertion st addr token_id (drop n log))"
    unfolding insertion_def by (intro pauses_bind pauses_catch complete)
  then have "pauses (Suc 3) ?body (insertion st addr token_id (drop n log))" by simp
  then obtain k where k: "?body = (\<lambda>s. (Awaiting k, s))" "pauses 3 k (insertion st addr token_id (drop n log))"
    unfolding pauses.simps(2) by blast
  have "storage_count st d = (Inr n, d)" using st(1) log(2) by (simp add: storage_ok_def)
  then have "co_query_history env st addr token_id (s, d) = co_bind (co_catch (co_complete_history env st n) (co_return ())) (\<lambda>_.
       co_bind (co_eff (eff_snd (make_recursive_query_shared_token st addr token_id))) (\<lambda>_.
       co_return ([] :: SharedTokenEvent list))) (s, d)"
    using st(2) by (simp add: co_query_history_def co_bind_eff eff_snd_def)
  then have "co_bind (co_query_history env st addr token_id) (\<lambda>_. co_return ()) (s, d) = ?body (s, d)"
    unfolding co_bind_def [of _ _ "(s, d)"] by simp
  with k show ?thesis by (intro exI [of _ k]) (simp add: detached_def)
qed

lemma resume_each_append: "resume_each (xs @ ys) S = eff_bind (resume_each xs) (\<lambda>_. resume_each ys) S"
  by (induction xs arbitrary: S) (auto simp: eff_bind_def eff_return_def split: prod.splits sum.splits)

lemma insertion_ends:
  assumes "storage_ok st rows" and "\<And>h d. \<exists>d'. storage_insert st h d = (Inr (), d')" and "length log < 2 ^ 64"
    and "rows d = table log n" and "events = take m (drop n log)"
  shows "\<exists>d'. insertion st addr token_id events (s, d) = (Ended (Inr ()), (s, d')) \<and> rows d' = table log (n + length events)"
proof -
  obtain d1 where i: "insert_events st events d = (Inr (), d1)" using insert_events_succeed [OF assms(2)] by blast
  with insert_events_table [OF assms(1,3) i assms(4,5)] have "rows d1 = table log (n + length events)" by auto
  moreover have "rows (db_exec st (history_query addr token_id) d1) = rows d1" using assms(1) unfolding storage_ok_def by blast
  ultimately show ?thesis
    by (simp add: insertion_def co_bind_def co_catch_def co_eff_def co_return_def eff_snd_def i eff_return_def
        make_recursive_query_shared_token_def eff_modify_def)
qed

text \<open>
  Both queries count the rows before the other one inserts: the missing events are inserted twice.
\<close>

lemma overlapping_queries_insert_twice:
  assumes st: "storage_ok st rows" "\<And>h d. \<exists>d'. storage_insert st h d = (Inr (), d')" "\<And>d. sync_schema st d = (Inr (), d)"
    and blob: "\<And>w. rpc_await_get_account_state_blob (env_rpc env) (bytes_to_hex META42_ADMIN_ADDRESS) w = (Inr asp, w)"
      "account_state_of asp = Inr (Some m)" "get_resource serde_GlobalInfo no_GlobalInfo m (meta_tag ''GlobalInfo'') = Inr (Some info)"
      "counter (global_shared_token_event info) = of_nat (length log)"
    and log: "log_ok log" "length log + length log < 2 ^ 64" "rows d = table log n" "n < length log"
    and events: "\<And>w. rpc_await_get_events (env_rpc env) (bytes_to_hex (guid (global_shared_token_event info)))
        (of_nat n) (of_nat (length log)) w = (Inr evs, w)" "map event_data evs = event_answers (drop n log)"
  shows "\<exists>d'. eff_bind (detached (co_query_history env st addr token_id)) (\<lambda>_.
      eff_bind (detached (co_query_history env st addr' token_id')) (\<lambda>_.
      resume_each [0, 0, 0, 1, 1, 1, 0, 0])) ((s, d), [], turns) = (Inr (), ((s, d'), [], turns)) \<and>
    rows d' = table (log @ drop n log) (length (log @ drop n log))"
proof -
  note paused = query_pauses [OF st(1,3) blob log(1) _ log(4) events, where d = d]
  have len: "length (rows d) = n" by (simp add: log(3))
  let ?S = "\<lambda>d pool. ((s, d), pool, turns)"
  obtain k where k: "detached (co_query_history env st addr token_id) (?S d []) = (Inr (), ?S d [Awaiting k])"
    "pauses 3 k (insertion st addr token_id (drop n log))"
    using paused [OF len, of addr token_id s "[]" turns] by auto
  obtain j where j: "detached (co_query_history env st addr' token_id') (?S d [Awaiting k]) = (Inr (), ?S d [Awaiting k, Awaiting j])"
    "pauses 3 j (insertion st addr' token_id' (drop n log))"
    using paused [OF len, of addr' token_id' s "[Awaiting k]" turns] by auto
  have first: "resume_each [0, 0, 0] (?S d [Awaiting k, Awaiting j]) = (Inr (), ?S d [Awaiting (insertion st addr token_id (drop n log)), Awaiting j])"
    using k(2) by (auto simp: eval_nat_numeral resume_at_def eff_bind_def eff_return_def)
  have second: "resume_each [1, 1, 1] (?S d [Awaiting i, Awaiting j]) = (Inr (), ?S d [Awaiting i, Awaiting (insertion st addr' token_id' (drop n log))])" for i
    using j(2) by (auto simp: eval_nat_numeral resume_at_def eff_bind_def eff_return_def)
  let ?log = "log @ drop n log"
  have "table log n = table ?log n" using log(4) by (auto simp: table_def nth_append)
  then have rows: "rows d = table ?log n" by (simp add: log(3))
  have take1: "drop n log = take (length log - n) (drop n ?log)" by simp
  have long: "length ?log < 2 ^ 64" using log(2) by simp
  from insertion_ends [OF st(1,2) long rows take1, of addr token_id s] log(4) obtain d1 where
    d1: "insertion st addr token_id (drop n log) (s, d) = (Ended (Inr ()), (s, d1))" "rows d1 = table ?log (length log)" by auto
  have take2: "drop n log = take (length log) (drop (length log) ?log)" by simp
  from insertion_ends [OF st(1,2) long d1(2) take2, of addr' token_id' s] obtain d2 where
    d2: "insertion st addr' token_id' (drop n log) (s, d1) = (Ended (Inr ()), (s, d2))" "rows d2 = table ?log (length log + (length log - n))"
    by auto
  have last: "resume_each [0, 0] (?S d [Awaiting (insertion st addr token_id (drop n log)), Awaiting (insertion st addr' token_id' (drop n log))])
      = (Inr (), ?S d2 [])"
    using d1 d2 by (simp add: resume_at_def eff_bind_def eff_return_def unobserved_def)
  have "resume_each ([0, 0, 0] @ [1, 1, 1] @ [0, 0]) (?S d [Awaiting k, Awaiting j]) = (Inr (), ?S d2 [])"
    by (simp only: resume_each_append eff_bind_def first second last prod.case sum.case)
  with k(1) j(1) d2(2) log(4) show ?thesis
    by (intro exI [of _ d2]) (simp add: eff_bind_def [of "detached _"])
qed

end
