(* ===== verification/Meta42_Main.thy ===== *)
theory Meta42_Main
  imports Shell Meta42_Async
begin

text \<open>
  The programs over the client for shared files (\<open>src/cpp/meta42-cli/src/main.cpp\<close>) and over its variant for tokens
  (\<open>src/cpp/nft-cli/src\<close>): the commands, the table of commands and the session.

  Several commands start a coroutine and do not wait for it (\<open>detached\<close> of theory \<open>Resumption\<close>): it goes on while later
  commands run, on the client and the database that all of them share. The state of a program is that of theory
  \<open>Meta42_Async\<close>, with the pool of coroutines and the schedule; before a command is run, the pool has its turn. What is
  printed is left out.
\<close>

section \<open>Commands\<close>

definition meta_add_account :: "('k, 'w) env \<Rightarrow> ('k, 'w) client_state command" where
  "meta_add_account env params = eff_bind (create_next_account env None) (\<lambda>_. eff_return ())"

definition meta_list_accounts :: "('k, 'w) env \<Rightarrow> ('k, 'w) client_state command" where
  "meta_list_accounts env params = eff_bind (get_all_accounts env) (\<lambda>_. eff_return ())"

text \<open>The address that is read first is overwritten by the second half of the authentication key.\<close>

definition meta_create_child_account :: "('k, 'w) env \<Rightarrow> uninit \<Rightarrow> ('k, 'w) client_state command" where
  "meta_create_child_account env junk params =
     eff_bind (get_from_stream env (uninit_address junk) params) (\<lambda>(_, params1).
     eff_bind (check_istream_eof params1 ''authentication key'') (\<lambda>_.
     eff_bind (eff_lift (get_array (uninit_id junk) params1)) (\<lambda>(auth_key, _).
     create_child_vasp_account env 0 \<lparr>AccountAddress_value = take 16 (drop 16 auth_key)\<rparr> auth_key (str ''VLS'') 0 True)))"

text \<open>A part of a command that the thread of the console does by itself.\<close>

definition by_console :: "(('k, 'w) client_state, 'a) eff \<Rightarrow> (('k, 'w, 'd) shared program, 'a) eff" where
  "by_console m = eff_fst (eff_fst m)"

definition meta_accept :: "('k, 'w) env \<Rightarrow> uninit \<Rightarrow> ('k, 'w, 'd) shared program command" where
  "meta_accept env junk params =
     (let (account_index, _) = get_u64 (uninit_index junk) params in detached (co_accept env account_index))"

definition meta_mint_token :: "('k, 'w) env \<Rightarrow> ('k, 'w, 'd) shared program command" where
  "meta_mint_token env params =
     eff_bind (by_console (check_istream_eof params ''account_index hdfs-path'')) (\<lambda>_.
     let (account_index, params1) = get_u64 0 params;
         (hdfs_path, _) = get_word [] params1
     in detached (co_mint_token env account_index hdfs_path))"

definition meta_share_token_by_id :: "('k, 'w) env \<Rightarrow> uninit \<Rightarrow> ('k, 'w, 'd) shared program command" where
  "meta_share_token_by_id env junk params =
     eff_bind (by_console (check_istream_eof params ''account_index receiver_address token_id'')) (\<lambda>_.
     let (account_index, params1) = get_u64 0 params
     in eff_bind (by_console (get_from_stream env (uninit_address junk) params1)) (\<lambda>(receiver, params2).
        eff_bind (eff_lift (get_array (uninit_id junk) params2)) (\<lambda>(token_id, params3).
        let (message, _) = get_word [] params3
        in detached (co_share_token_by_id env account_index receiver token_id message))))"

definition meta_share_token_by_index :: "('k, 'w) env \<Rightarrow> uninit \<Rightarrow> ('k, 'w, 'd) shared program command" where
  "meta_share_token_by_index env junk params =
     eff_bind (by_console (check_istream_eof params ''account_index receiver_address token_id'')) (\<lambda>_.
     let (account_index, params1) = get_u64 0 params
     in eff_bind (by_console (get_from_stream env (uninit_address junk) params1)) (\<lambda>(receiver, params2).
        let (token_index, params3) = get_u64 0 params2;
            (message, _) = get_word [] params3
        in detached (co_share_token_by_index env account_index receiver token_index message)))"

text \<open>Its coroutine prints the tokens that it gets.\<close>

definition meta_get_tokens :: "('k, 'w) env \<Rightarrow> uninit \<Rightarrow> ('k, 'w, 'd) shared program command" where
  "meta_get_tokens env junk params =
     eff_bind (by_console (get_from_stream env (uninit_address junk) params)) (\<lambda>(addr, _). detached (co_get_tokens env addr))"

definition meta_query_history ::
    "('k, 'w) env \<Rightarrow> 'd storage \<Rightarrow> uninit \<Rightarrow> ('k, 'w, 'd) shared program command" where
  "meta_query_history env st junk params =
     eff_bind (by_console (get_from_stream env (uninit_address junk) params)) (\<lambda>(addr, params1).
     eff_bind (by_console (check_istream_eof params1 ''account_index(or account_address)  token_id'')) (\<lambda>_.
     eff_bind (eff_lift (get_array (uninit_id junk) params1)) (\<lambda>(token_id, _).
     detached (co_query_history env st addr token_id))))"

text \<open>
  The keys of a mnemonic file, whose last two characters are taken away. A file that cannot be read is like an empty one:
  \<open>erase\<close> throws \<open>std::out_of_range\<close>.
\<close>

definition meta_export_key :: "('k, 'w) env \<Rightarrow> ('k, 'w) client_state command" where
  "meta_export_key env params =
     eff_bind (eff_get (\<lambda>s. env_file env (snd s) (str ''mnemonic/meta42.mne''))) (\<lambda>ifs.
     let mnemonic = (case ifs of None \<Rightarrow> [] | Some data \<Rightarrow> data)
     in if length mnemonic < 2 then eff_throw (Out_of_range ''basic_string::erase'')
        else let (index, _) = get_u64 0 params;
                 ssl = env_ssl env
             in eff_lift
               (sum_bind (generate_from_mnemonic ssl (take (length mnemonic - 2) mnemonic)) (\<lambda>wallet0.
                case wallet_create_next_account ssl wallet0 of
                  (Inl e, _) \<Rightarrow> Inl e
                | (Inr _, wallet) \<Rightarrow>
                    sum_bind (sum_bind (get_account_priv_key wallet index) (PrivateKey_get_raw_key ssl)) (\<lambda>_.
                    sum_bind (get_account_pub_key ssl wallet index) (\<lambda>_.
                    sum_bind (wallet_get_all_accounts ssl wallet) (\<lambda>accounts.
                    if accounts = [] then Inl (Undefined_behaviour ''accounts[0]'')
                    else sum_bind (sum_bind (get_account_priv_key wallet index) (PrivateKey_dump_hex ssl)) (\<lambda>hex.
                         sum_bind (PrivateKey_from_hex_string ssl hex) (\<lambda>priv.
                         sum_bind (get_public_key ssl priv) (\<lambda>pub.
                         sum_bind (PublicKey_dump_hex ssl pub) (\<lambda>_. Inr ()))))))))))"

text \<open>A command of the console alone; the turn that the coroutines have before any command.\<close>

definition client_command :: "('k, 'w) client_state command \<Rightarrow> ('k, 'w, 'd) shared program command" where
  "client_command command params = by_console (command params)"

definition after_others :: "'s program command \<Rightarrow> 's program command" where
  "after_others command params = eff_bind others_turn (\<lambda>_. command params)"

definition with_turns :: "(cstring \<times> 's program command) list \<Rightarrow> (cstring \<times> 's program command) list" where
  "with_turns commands = map (\<lambda>(name', command). (name', after_others command)) commands"

definition meta_commands ::
    "('k, 'w) env \<Rightarrow> 'd storage \<Rightarrow> uninit \<Rightarrow> (cstring \<times> ('k, 'w, 'd) shared program command) list" where
  "meta_commands env st junk =
     [(str ''add-account'', client_command (meta_add_account env)),
      (str ''list-accounts'', client_command (meta_list_accounts env)),
      (str ''std-create-child-account'', client_command (meta_create_child_account env junk)),
      (str ''initialize'', client_command (\<lambda>params. meta_initialize env)),
      (str ''accept'', meta_accept env junk),
      (str ''mint-token'', meta_mint_token env),
      (str ''share-token-by-id'', meta_share_token_by_id env junk),
      (str ''share-token-by-index'', meta_share_token_by_index env junk),
      (str ''get-tokens'', meta_get_tokens env junk),
      (str ''get-mint-events'', client_command (\<lambda>params. eff_return ())),
      (str ''get-sent-tokens'', client_command (\<lambda>params. eff_return ())),
      (str ''get-received-tokens'', client_command (\<lambda>params. eff_return ())),
      (str ''query-shared-token-history'', meta_query_history env st junk),
      (str ''export-key'', client_command (meta_export_key env))]"

section \<open>The programs\<close>

text \<open>An account is created before the console is. Coroutines that have not ended when \<open>main\<close> returns end with it.\<close>

definition client_session ::
    "('k, 'w) env \<Rightarrow> (cstring \<times> ('k, 'w, 'd) shared program command) list \<Rightarrow> cstring list \<Rightarrow>
     (('k, 'w, 'd) shared program \<times> Console, unit) eff" where
  "client_session env commands lines =
     eff_bind (eff_fst (by_console (create_next_account env None))) (\<lambda>_.
     eff_bind (eff_snd (eff_modify (add_completion (str ''exit'')))) (\<lambda>_.
     eff_bind (eff_snd (eff_modify (fold add_completion (sort (map fst commands))))) (\<lambda>_.
     read_eval_loop (with_turns commands) lines)))"

definition client_main ::
    "('k, 'w) env \<Rightarrow> (cstring \<times> ('k, 'w, 'd) shared program command) list \<Rightarrow> (char \<times> cstring) list \<Rightarrow> cstring list \<Rightarrow>
     'w \<Rightarrow> 'd \<Rightarrow> turns \<Rightarrow> unit result \<times> (('k, 'w, 'd) shared program \<times> Console) option" where
  "client_main env commands options lines w d turns =
     (case parse_command_line options Arguments_new of
        Inl e \<Rightarrow> (Inl e, None)
      | Inr args \<Rightarrow>
          (case Client2_create env (arg_chain_id args) (arg_mnemonic args) (arg_mint_key args) w of
             (Inl e, w') \<Rightarrow> (Inl e, None)
           | (Inr c, w') \<Rightarrow>
               (case client_session env commands lines ((((c, w'), d), [], turns), Console_create (str ''NFT$ '')) of
                  (r, s) \<Rightarrow> (r, Some s))))"

definition meta_main ::
    "('k, 'w) env \<Rightarrow> 'd storage \<Rightarrow> uninit \<Rightarrow> (char \<times> cstring) list \<Rightarrow> cstring list \<Rightarrow> 'w \<Rightarrow> 'd \<Rightarrow> turns \<Rightarrow>
     unit result \<times> (('k, 'w, 'd) shared program \<times> Console) option" where
  "meta_main env st junk = client_main env (meta_commands env st junk)"

section \<open>The variant for tokens\<close>

text \<open>The initialization is a coroutine, too, and the program waits for it.\<close>

definition nft_cli_initialize :: "('k, 'w) env \<Rightarrow> (('k, 'w) client_state, unit) eff" where
  "nft_cli_initialize env =
     eff_bind (eff_catch
       (eff_bind (await_allow_custom_script env True) (\<lambda>_.
        eff_bind (await_allow_publishing_module env True) (\<lambda>_.
        eff_bind (await_publish_module_file env ACCOUNT_ROOT_ID (str ''move/modules/Compare.mv'')) (\<lambda>_.
        eff_bind (await_publish_module_file env ACCOUNT_ROOT_ID (str ''move/modules/0_Map.mv'')) (\<lambda>_.
        await_publish_module_file env ACCOUNT_ROOT_ID (str ''move/modules/02_NonFungibleToken.mv''))))))
       (eff_return ())) (\<lambda>_.
     eff_bind (get_all_accounts env) (\<lambda>accounts.
     case accounts of
       [] \<Rightarrow> eff_throw (Undefined_behaviour ''accounts[0]'')
     | admin' # rest \<Rightarrow>
         eff_bind (eff_catch
           (eff_bind (create_parent_vasp_account env (Account_address admin') (Account_auth_key admin') (str ''nft Admin'') True)
              (\<lambda>_. eff_return ()))
           (eff_return ())) (\<lambda>_.
         await_script_call env 0 ''move/scripts/meta42_initialize.mv'' [] [] ''nft::intialize'')))"

definition nft_cli_commands :: "('k, 'w) env \<Rightarrow> uninit \<Rightarrow> (cstring \<times> ('k, 'w, 'd) shared program command) list" where
  "nft_cli_commands env junk =
     [(str ''add-account'', client_command (meta_add_account env)),
      (str ''list-accounts'', client_command (meta_list_accounts env)),
      (str ''std-create-child-account'', client_command (meta_create_child_account env junk)),
      (str ''initialize'', client_command (\<lambda>params. nft_cli_initialize env)),
      (str ''accept'', meta_accept env junk)]"

definition nft_cli_main ::
    "('k, 'w) env \<Rightarrow> uninit \<Rightarrow> (char \<times> cstring) list \<Rightarrow> cstring list \<Rightarrow> 'w \<Rightarrow> 'd \<Rightarrow> turns \<Rightarrow>
     unit result \<times> (('k, 'w, 'd) shared program \<times> Console) option" where
  "nft_cli_main env junk = client_main env (nft_cli_commands env junk)"

section \<open>What a session keeps\<close>

lemma preserves_historyI_async:
  "preserves (client_history env) (await_submit_txn_payload env i p g pr cu ex)"
  "preserves (client_history env) (await_check_txn_vm_status env address sn info)"
  by (rule preserves_historyI; erule (1) client_history.intros)+

lemmas async_calls = await_submit_script_def await_submit_module_def await_execute_script_def read_file_def await_run_script_def
  await_publish_module_def await_publish_module_file_def await_get_account_state_def await_script_call_def await_resource_def

lemma history_async [history_intros]:
  "preserves (client_history env) (await_submit_txn_payload env i p g pr cu ex)"
  "preserves (client_history env) (await_check_txn_vm_status env address sn info)"
  "preserves (client_history env) (await_script_call env i file_name tags args what)"
  "preserves (client_history env) (await_run_script env i script what)"
  "preserves (client_history env) (await_publish_module_file env i module_file)"
  "preserves (client_history env) (await_resource env f init tag address')"
  unfolding async_calls
  by (intro preserves_intros history_intros preserves_historyI_async)+

lemma history_meta [history_intros]:
  "preserves (client_history env) (meta_initialize env)"
  "preserves (client_history env) (await_accept env i)"
  "preserves (client_history env) (await_mint_token env i path)"
  "preserves (client_history env) (await_share_token_by_id env i receiver token_id message)"
  "preserves (client_history env) (await_share_token_by_index env i receiver token_index message)"
  "preserves (client_history env) (await_get_tokens env address)"
  "preserves (client_history env) (await_allow_custom_script env is_allowing)"
  "preserves (client_history env) (await_allow_publishing_module env is_allowing)"
  unfolding meta_initialize_def await_accept_def await_mint_token_def await_share_token_by_id_def await_share_token_by_index_def
    await_get_tokens_def await_allow_custom_script_def await_allow_publishing_module_def
  by (intro preserves_intros history_intros)+

lemma history_nft_cli [history_intros]: "preserves (client_history env) (nft_cli_initialize env)"
  unfolding nft_cli_initialize_def by (intro preserves_intros history_intros)

lemma history_meta_commands [history_intros]:
  "preserves (client_history env) (meta_add_account env params)"
  "preserves (client_history env) (meta_list_accounts env params)"
  "preserves (client_history env) (meta_create_child_account env junk params)"
  "preserves (client_history env) (meta_export_key env params)"
  unfolding meta_add_account_def meta_list_accounts_def meta_create_child_account_def meta_export_key_def
  by (intro preserves_intros history_intros)+

lemma history_query_history:
  "preserves (\<lambda>s. client_history env (fst s)) (query_shared_token_events_history env st addr token_id)"
proof -
  have "preserves (\<lambda>s. client_history env (fst s)) (complete_history env st count')" for count'
    unfolding complete_history_def client_await_query_events_def client_await_get_events_def
    by (intro preserves_intros preserves_fst history_intros)
  then show ?thesis
    unfolding query_shared_token_events_history_def make_recursive_query_shared_token_def by (intro preserves_intros)
qed

section \<open>The user waits for the coroutines\<close>

text \<open>The state of a program: the client is one of a history, and the table a prefix of the log, if the service has one.\<close>

definition sharing_state ::
    "('k, 'w) env \<Rightarrow> 'd storage \<Rightarrow> ('d \<Rightarrow> SharedTokenHistory list) \<Rightarrow> SharedTokenEvent list \<Rightarrow> ('k, 'w, 'd) shared \<Rightarrow> bool" where
  "sharing_state env st rows log s \<longleftrightarrow> client_history env (fst s) \<and>
     (storage_ok st rows \<and> log_ok log \<and> serves_history env log \<longrightarrow> (\<exists>n \<le> length log. rows (snd s) = table log n))"

lemma preserves_eff_fst_sharing:
  "preserves (client_history env) m \<Longrightarrow> preserves (sharing_state env st rows log) (eff_fst m)"
  by (fastforce simp: preserves_def sharing_state_def eff_fst_def split: prod.splits)

lemma sharing_query:
  "preserves (sharing_state env st rows log) (query_shared_token_events_history env st addr token_id)"
  unfolding preserves_def
proof (intro allI impI)
  fix s assume s: "sharing_state env st rows log s"
  obtain r t d' where run: "query_shared_token_events_history env st addr token_id s = (r, (t, d'))"
    by (metis prod.collapse)
  have "client_history env t"
    using preservesD [OF history_query_history _ run] s by (simp add: sharing_state_def)
  moreover have "\<exists>n \<le> length log. rows d' = table log n" if ok: "storage_ok st rows \<and> log_ok log \<and> serves_history env log"
  proof -
    obtain n where "n \<le> length log" "rows (snd s) = table log n" using s ok unfolding sharing_state_def by blast
    with history_query_table [of st rows log env addr token_id "fst s" "snd s" r t d' n] ok run show ?thesis by auto
  qed
  ultimately show "sharing_state env st rows log (snd (query_shared_token_events_history env st addr token_id s))"
    using run by (simp add: sharing_state_def)
qed

lemma alone_detached_query: "started_alone (sharing_state env st rows log) (detached (co_query_history env st addr token_id))"
  by (rule alone_detached) (simp add: co_run_query sharing_query)

lemma alone_detached_meta:
  "started_alone (sharing_state env st rows log) (detached (co_accept env i))"
  "started_alone (sharing_state env st rows log) (detached (co_mint_token env i path))"
  "started_alone (sharing_state env st rows log) (detached (co_share_token_by_id env i receiver token_id message))"
  "started_alone (sharing_state env st rows log) (detached (co_share_token_by_index env i receiver index message))"
  "started_alone (sharing_state env st rows log) (detached (co_get_tokens env address))"
  by (rule alone_detached; simp add: co_run_meta preserves_eff_fst_sharing history_meta)+

lemma meta_commands_alone:
  assumes "(cmd, command) \<in> set (meta_commands env st junk)"
  shows "started_alone (sharing_state env st rows log) (command iss)"
proof -
  note defs = client_command_def by_console_def meta_accept_def meta_mint_token_def meta_share_token_by_id_def
    meta_share_token_by_index_def meta_get_tokens_def meta_query_history_def
  note rules = alone_intros alone_detached_meta alone_detached_query preserves_eff_fst_sharing
  have sync: "started_alone (sharing_state env st rows log) (client_command c iss)"
    if "\<And>params. preserves (client_history env) (c params)" for c :: "('a, 'b) client_state command"
    unfolding defs by (intro rules that)
  have "started_alone (sharing_state env st rows log) (meta_accept env junk iss)"
    "started_alone (sharing_state env st rows log) (meta_mint_token env iss)"
    "started_alone (sharing_state env st rows log) (meta_share_token_by_id env junk iss)"
    "started_alone (sharing_state env st rows log) (meta_share_token_by_index env junk iss)"
    "started_alone (sharing_state env st rows log) (meta_get_tokens env junk iss)"
    "started_alone (sharing_state env st rows log) (meta_query_history env st junk iss)"
    unfolding defs by (intro rules history_intros)+
  with assms show ?thesis
    by (auto simp: meta_commands_def intro!: sync intro: history_intros preserves_return)
qed

lemma fst_with_turns [simp]: "map fst (with_turns commands) = map fst commands"
  by (simp add: with_turns_def case_prod_beta)

lemma with_turns_cases:
  assumes "(cmd, command) \<in> set (with_turns commands)"
  obtains c where "(cmd, c) \<in> set commands" "command = after_others c"
  using assms by (auto simp: with_turns_def)

lemma distinct_commands: "distinct (map fst (meta_commands env st junk))" "distinct (map fst (nft_cli_commands env junk))"
  by (simp_all add: meta_commands_def nft_cli_commands_def str_def)

interpretation meta_waiting: command_table "with_turns (meta_commands env st junk)" "waiting_keeps (sharing_state env st rows log)"
proof
  show "distinct (map fst (with_turns (meta_commands env st junk)))" by (simp add: distinct_commands)
  fix cmd command iss
  assume "(cmd, command) \<in> set (with_turns (meta_commands env st junk))"
  then obtain c where "(cmd, c) \<in> set (meta_commands env st junk)" "command = after_others c" by (rule with_turns_cases)
  then show "preserves (waiting_keeps (sharing_state env st rows log)) (command iss)"
    by (auto simp: after_others_def intro: waiting_before meta_commands_alone)
qed

section \<open>Nobody waits for them\<close>

definition shared_table ::
    "('k, 'w) env \<Rightarrow> 'd storage \<Rightarrow> ('d \<Rightarrow> SharedTokenHistory list) \<Rightarrow> SharedTokenEvent list \<Rightarrow> 'd \<Rightarrow> bool" where
  "shared_table env st rows log d \<longleftrightarrow>
     (storage_ok st rows \<and> log_ok log \<and> serves_history env log \<longrightarrow> rows_of_log log (rows d))"

lemma keeps_query_table:
  "coroutine_keeps (shared_ok_state env (shared_table env st rows log)) (\<lambda>_. True) (co_query_history env st addr token_id)"
proof (cases "storage_ok st rows \<and> log_ok log \<and> serves_history env log")
  case True
  then have "shared_table env st rows log = (\<lambda>d. rows_of_log log (rows d))" by (simp add: fun_eq_iff shared_table_def)
  with keeps_query [of st rows log env] True show ?thesis by simp
next
  case False
  then have unrelated: "preserves (shared_table env st rows log) m" for m
    unfolding preserves_def shared_table_def by blast
  show ?thesis
    unfolding co_query_history_def co_complete_history_def co_resource_def co_get_account_state_def co_query_events_def Let_def
    by (intro keeps_intros preserves_database unrelated)
qed

text \<open>
  A property of the client that its operations keep, also in the middle of those of others: every command of the console
  keeps it.
\<close>

locale client_invariant =
  fixes env :: "('k, 'w) env" and P :: "('k, 'w) client_state \<Rightarrow> bool"
  assumes keeps_operations:
    "preserves P (create_next_account env opt_address)"
    "preserves P (submit_txn_payload env i p g pr cu ex)"
    "preserves P (await_submit_txn_payload env i p g pr cu ex)"
    "preserves P (check_txn_vm_status env address sn info)"
    "preserves P (await_check_txn_vm_status env address sn info)"
    and keeps_accounts: "preserves P (get_all_accounts env)"
begin

lemmas operations = keeps_operations keeps_accounts

lemma calls:
  "preserves P (script_call env i file_name tags args info)"
  "preserves P (await_script_call env i file_name tags args info)"
  "preserves P (run_script_void env i script what)"
  "preserves P (await_run_script env i script what)"
  "preserves P (publish_module_file env i module_file)"
  "preserves P (await_publish_module_file env i module_file)"
  unfolding script_call_def client_calls async_calls
  by (intro preserves_intros operations)+

lemma framework:
  "preserves P (allow_custom_script env is_allowing)"
  "preserves P (allow_publishing_module env is_allowing)"
  "preserves P (await_allow_custom_script env is_allowing)"
  "preserves P (await_allow_publishing_module env is_allowing)"
  "preserves P (create_parent_vasp_account env a k n b)"
  "preserves P (create_child_vasp_account env i a k c m b)"
  unfolding allow_custom_script_def allow_publishing_module_def await_allow_custom_script_def
    await_allow_publishing_module_def create_parent_vasp_account_def create_child_vasp_account_def client_calls
  by (intro preserves_intros operations calls [unfolded client_calls])+

lemma console_parameters:
  "preserves P (check_istream_eof params err)"
  "preserves P (get_from_stream env junk params)"
  unfolding check_istream_eof_def get_from_stream_def
  by (intro preserves_intros operations)+

lemma console_commands:
  "preserves P (meta_add_account env params)"
  "preserves P (meta_list_accounts env params)"
  "preserves P (meta_create_child_account env junk params)"
  "preserves P (meta_initialize env)"
  "preserves P (meta_export_key env params)"
  "preserves P (nft_cli_initialize env)"
  unfolding meta_add_account_def meta_list_accounts_def meta_create_child_account_def meta_initialize_def meta_export_key_def
    nft_cli_initialize_def
  by (intro preserves_intros operations calls framework console_parameters)+

end

interpretation history_client: client_invariant env "client_history env" for env
  by unfold_locales (intro history_operations history_async history_accounts)+

interpretation ok_client: client_invariant env "\<lambda>s. client_ok env (fst s)" for env
  by unfold_locales (intro client_operations_preserve | simp add: preserves_def get_all_accounts_def)+

lemma program_console:
  "preserves (\<lambda>s. client_ok env (fst s)) m \<Longrightarrow> preserves (program_keeps (shared_ok_state env R)) (by_console m)"
  unfolding by_console_def by (intro program_keeps_fst preserves_client)

lemma meta_commands_shared:
  assumes "(cmd, command) \<in> set (meta_commands env st junk)"
  shows "preserves (program_keeps (shared_ok_state env (shared_table env st rows log))) (command iss)"
proof -
  note defs = meta_accept_def meta_mint_token_def meta_share_token_by_id_def meta_share_token_by_index_def meta_get_tokens_def
    meta_query_history_def
  note rules = preserves_intros program_console ok_client.console_parameters keeps_detached keeps_meta keeps_get_tokens
    keeps_query_table
  have "preserves (program_keeps (shared_ok_state env (shared_table env st rows log))) (meta_accept env junk iss)"
    "preserves (program_keeps (shared_ok_state env (shared_table env st rows log))) (meta_mint_token env iss)"
    "preserves (program_keeps (shared_ok_state env (shared_table env st rows log))) (meta_share_token_by_id env junk iss)"
    "preserves (program_keeps (shared_ok_state env (shared_table env st rows log))) (meta_share_token_by_index env junk iss)"
    "preserves (program_keeps (shared_ok_state env (shared_table env st rows log))) (meta_get_tokens env junk iss)"
    "preserves (program_keeps (shared_ok_state env (shared_table env st rows log))) (meta_query_history env st junk iss)"
    unfolding defs by (intro rules)+
  with assms show ?thesis
    by (auto simp: meta_commands_def client_command_def intro!: program_console ok_client.console_commands
        intro: preserves_return)
qed

interpretation meta_table: command_table "with_turns (meta_commands env st junk)"
  "program_keeps (shared_ok_state env (shared_table env st rows log))"
proof
  show "distinct (map fst (with_turns (meta_commands env st junk)))" by (simp add: distinct_commands)
  fix cmd command iss
  assume "(cmd, command) \<in> set (with_turns (meta_commands env st junk))"
  then obtain c where "(cmd, c) \<in> set (meta_commands env st junk)" "command = after_others c" by (rule with_turns_cases)
  then show "preserves (program_keeps (shared_ok_state env (shared_table env st rows log))) (command iss)"
    by (auto simp: after_others_def intro: preserves_bind keeps_others_turn meta_commands_shared)
qed

text \<open>The variant for tokens has no table.\<close>

lemma nft_cli_commands_shared:
  assumes "(cmd, command) \<in> set (nft_cli_commands env junk)"
  shows "preserves (program_keeps (shared_ok_state env (\<lambda>_. True))) (command iss)"
proof -
  have "preserves (program_keeps (shared_ok_state env (\<lambda>_. True))) (meta_accept env junk iss)"
    unfolding meta_accept_def by (intro preserves_intros keeps_detached keeps_meta)
  with assms show ?thesis
    by (auto simp: nft_cli_commands_def client_command_def intro!: program_console ok_client.console_commands)
qed

interpretation nft_cli_table: command_table "with_turns (nft_cli_commands env junk)"
  "program_keeps (shared_ok_state env (\<lambda>_. True))"
proof
  show "distinct (map fst (with_turns (nft_cli_commands env junk)))" by (simp add: distinct_commands)
  fix cmd command iss
  assume "(cmd, command) \<in> set (with_turns (nft_cli_commands env junk))"
  then obtain c where "(cmd, c) \<in> set (nft_cli_commands env junk)" "command = after_others c" by (rule with_turns_cases)
  then show "preserves (program_keeps (shared_ok_state env (\<lambda>_. True))) (command iss)"
    by (auto simp: after_others_def intro: preserves_bind keeps_others_turn nft_cli_commands_shared)
qed

section \<open>Whole programs\<close>

lemma client_main_keeps:
  assumes table: "command_table (with_turns commands) P"
    and start: "\<And>c w'. client_history env (c, w') \<Longrightarrow> P (snd (by_console (create_next_account env None) (((c, w'), d), [], turns)))"
    and run: "client_main env commands options lines w d turns = (r, Some (s, con))"
  shows "P s"
proof -
  obtain c w' where c: "client_history env (c, w')"
    and session: "client_session env commands lines ((((c, w'), d), [], turns), Console_create (str ''NFT$ '')) = (r, (s, con))"
    using run by (auto simp: client_main_def split: sum.splits prod.splits intro: client_history.started)
  obtain q S where created: "by_console (create_next_account env None) (((c, w'), d), [], turns) = (q, S)"
    by (cases "by_console (create_next_account env None) (((c, w'), d), [], turns)")
  with start [OF c] have S: "P S" by simp
  have rest: "preserves (\<lambda>s. P (fst s)) (eff_bind (eff_snd (eff_modify (add_completion (str ''exit'')))) (\<lambda>_.
      eff_bind (eff_snd (eff_modify (fold add_completion (sort (map fst commands))))) (\<lambda>_.
      read_eval_loop (with_turns commands) lines)))"
    by (intro preserves_bind preserves_client_snd command_table.session_preserves [OF table])
  show ?thesis
  proof (cases q)
    case (Inl e)
    with session created S show ?thesis by (auto simp: client_session_def eff_bind_def eff_fst_def)
  next
    case (Inr u)
    with session created have "eff_bind (eff_snd (eff_modify (add_completion (str ''exit'')))) (\<lambda>_.
        eff_bind (eff_snd (eff_modify (fold add_completion (sort (map fst commands))))) (\<lambda>_.
        read_eval_loop (with_turns commands) lines)) (S, Console_create (str ''NFT$ '')) = (r, (s, con))"
      by (simp add: client_session_def eff_bind_def [of "eff_fst _"] eff_fst_def)
    from preservesD [OF rest _ this] S show ?thesis by simp
  qed
qed

text \<open>Whatever the schedule is.\<close>

lemma meta_main_keeps:
  assumes "meta_main env st junk options lines w d turns = (r, Some ((s, pool, turns'), con))" and "rows d = []"
  shows "client_ok env (fst (fst s)) \<and> shared_table env st rows log (snd s)"
proof -
  have "program_keeps (shared_ok_state env (shared_table env st rows log)) (s, pool, turns')"
  proof (rule client_main_keeps [OF meta_table.command_table_axioms _ assms(1) [unfolded meta_main_def]])
    fix c w' assume "client_history env (c, w')"
    then have "program_keeps (shared_ok_state env (shared_table env st rows log)) (((c, w'), d), [], turns)"
      using assms(2) by (auto simp: program_keeps_def shared_ok_state_def shared_table_def rows_of_log_def table_def
          dest: client_history_ok)
    with program_console [OF ok_client.keeps_operations(1)]
    show "program_keeps (shared_ok_state env (shared_table env st rows log))
        (snd (by_console (create_next_account env None) (((c, w'), d), [], turns)))"
      unfolding preserves_def by blast
  qed
  then show ?thesis by (simp add: program_keeps_def shared_ok_state_def)
qed

text \<open>The user waits for the coroutines before every command.\<close>

lemma meta_main_waits:
  assumes "meta_main env st junk options lines w d (\<lambda>_. None) = (r, Some ((s, pool, turns'), con))" and "rows d = []"
  shows "sharing_state env st rows log (ended pool s)"
proof -
  have "waiting_keeps (sharing_state env st rows log) (s, pool, turns')"
  proof (rule client_main_keeps [OF meta_waiting.command_table_axioms _ assms(1) [unfolded meta_main_def]])
    fix c w' assume "client_history env (c, w')"
    then have "sharing_state env st rows log ((c, w'), d)"
      using assms(2) by (auto simp: sharing_state_def table_def intro: exI [of _ 0])
    moreover have "started_alone (sharing_state env st rows log) (by_console (create_next_account env None))"
      unfolding by_console_def by (intro alone_intros preserves_eff_fst_sharing history_intros)
    ultimately show "waiting_keeps (sharing_state env st rows log)
        (snd (by_console (create_next_account env None) (((c, w'), d), [], \<lambda>_. None)))"
      unfolding started_alone_def by blast
  qed
  then show ?thesis by (simp add: waiting_keeps_def)
qed

lemma nft_cli_main_keeps:
  assumes "nft_cli_main env junk options lines w d turns = (r, Some ((s, pool, turns'), con))"
  shows "client_ok env (fst (fst s))"
proof -
  have "program_keeps (shared_ok_state env (\<lambda>_. True)) (s, pool, turns')"
  proof (rule client_main_keeps [OF nft_cli_table.command_table_axioms _ assms(1) [unfolded nft_cli_main_def]])
    fix c w' assume "client_history env (c, w')"
    then have "program_keeps (shared_ok_state env (\<lambda>_. True)) (((c, w'), d), [], turns)"
      by (auto simp: program_keeps_def shared_ok_state_def dest: client_history_ok)
    with program_console [OF ok_client.keeps_operations(1)]
    show "program_keeps (shared_ok_state env (\<lambda>_. True)) (snd (by_console (create_next_account env None) (((c, w'), d), [], turns)))"
      unfolding preserves_def by blast
  qed
  then show ?thesis by (simp add: program_keeps_def shared_ok_state_def)
qed

end
