(* ===== verification/Swap_Program.thy ===== *)
theory Swap_Program
  imports Deployment
begin

text \<open>
  The trial program for swaps (\<open>src/cpp/testnet/src/violas_swap.cpp\<close>): three accounts, two currencies, and a fixed series of
  scripts of the exchange, over the client of theory \<open>Command\<close>.
\<close>

definition swap_admin_address :: Address where
  "swap_admin_address = replicate 15 0 @ [0xEE]"

definition swap_USD :: RustTypeTag where "swap_USD = make_currency_tag (str ''USD'')"
definition swap_EUR :: RustTypeTag where "swap_EUR = make_currency_tag (str ''EUR'')"

definition swap_register_currency :: "('c, 'w) command_env \<Rightarrow> cstring \<Rightarrow> ('w, unit) eff" where
  "swap_register_currency env currency_code =
     eff_bind (rust_do env (Call_publish_curency currency_code)) (\<lambda>_.
     eff_bind (rust_do env (Call_register_currency currency_code 1 2 False 1000000 100)) (\<lambda>_.
     eff_bind (rust_do env (Call_add_currency_for_designated_dealer currency_code TESTNET_DD_ADDRESS_v1)) (\<lambda>_.
     rust_do env (Call_mint_currency_for_designated_dealer currency_code 0 TESTNET_DD_ADDRESS_v1 (1000000 * MICRO_COIN_v1) 3))))"

definition swap_add_currencies :: "('c, 'w) command_env \<Rightarrow> u64 \<Rightarrow> ('w, unit) eff" where
  "swap_add_currencies env account_index =
     eff_bind (rust_do env (Call_add_currency account_index (str ''USD''))) (\<lambda>_.
     rust_do env (Call_add_currency account_index (str ''EUR'')))"

text \<open>A user of the exchange: both are created with the name of the first and with the public key of the administrator.\<close>

definition swap_user :: "('c, 'w) command_env \<Rightarrow> RustAccount \<Rightarrow> RustAccount list \<Rightarrow> u64 \<Rightarrow> ('w, unit) eff" where
  "swap_user env admin' accounts i =
     eff_bind (account_ref accounts i) (\<lambda>account.
     eff_bind (rust_do env (Call_create_parent_vasp_account (str ''VLS'') 0 (rust_address account) (rust_auth_key account)
       (str ''EE01'') [] (rust_pub_key admin') True)) (\<lambda>_.
     eff_bind (swap_add_currencies env i) (\<lambda>_.
     eff_bind (rust_do env (Call_mint_for_testnet (str ''USD'') (rust_address account) (100 * MICRO_COIN_v1))) (\<lambda>_.
     rust_do env (Call_mint_for_testnet (str ''EUR'') (rust_address account) (100 * MICRO_COIN_v1))))))"

definition swap_script :: "('c, 'w) command_env \<Rightarrow> u64 \<Rightarrow> string \<Rightarrow> RustTypeTag list \<Rightarrow> u64 list \<Rightarrow> ('w, unit) eff" where
  "swap_script env account_index script tags args =
     rust_do env (Call_execute_script_file account_index (str (''move/swap/'' @ script)) tags (map Augment_U64 args))"

definition initialize_swap :: "('c, 'w) command_env \<Rightarrow> ('w, unit) eff" where
  "initialize_swap env =
     eff_bind (rust_do env (Call_allow_publishing_module True)) (\<lambda>_.
     eff_bind (rust_do env Call_allow_custom_script) (\<lambda>_.
     eff_bind (swap_register_currency env (str ''USD'')) (\<lambda>_.
     eff_bind (swap_register_currency env (str ''EUR'')) (\<lambda>_.
     eff_bind (rust_get_all_accounts env) (\<lambda>accounts.
     eff_bind (account_ref accounts 0) (\<lambda>admin'.
     eff_bind (rust_do env (Call_create_designated_dealer_ex (str ''VLS'') 0 (rust_address admin') (rust_auth_key admin')
       (str ''EE'') [] (rust_pub_key admin') True)) (\<lambda>_.
     eff_bind (swap_add_currencies env 0) (\<lambda>_.
     eff_bind (swap_user env admin' accounts 1) (\<lambda>_.
     eff_bind (swap_user env admin' accounts 2) (\<lambda>_.
     eff_bind (rust_do env (Call_publish_module VIOLAS_ROOT_ACCOUNT_ID (str ''move/swap/exchange.mv''))) (\<lambda>_.
     eff_bind (swap_script env (rust_index admin') ''initialize.mv'' [] []) (\<lambda>_.
     swap_script env (rust_index admin') ''add_reserve.mv'' [swap_USD, swap_EUR] []))))))))))))"

definition test_swap :: "('c, 'w) command_env \<Rightarrow> ('w, unit) eff" where
  "test_swap env =
     eff_bind (rust_get_all_accounts env) (\<lambda>accounts.
     eff_bind (account_ref accounts 0) (\<lambda>admin'.
     eff_bind (swap_script env (rust_index admin') ''verify_sqrt.mv'' [] []) (\<lambda>_.
     eff_bind (swap_script env 1 ''deposit_liquidity.mv'' [swap_USD, swap_EUR] [2 * MICRO_COIN_v1, 18 * MICRO_COIN_v1]) (\<lambda>_.
     eff_bind (swap_script env 2 ''swap.mv'' [swap_USD, swap_EUR] [1 * MICRO_COIN_v1, 6 * MICRO_COIN_v1]) (\<lambda>_.
     eff_bind (swap_script env 1 ''deposit_liquidity.mv'' [swap_USD, swap_EUR] [2 * MICRO_COIN_v1, 18 * MICRO_COIN_v1]) (\<lambda>_.
     eff_bind (swap_script env 2 ''swap.mv'' [swap_EUR, swap_USD] [6 * MICRO_COIN_v1, 0 * MICRO_COIN_v1]) (\<lambda>_.
     swap_script env 1 ''withdraw_liquidity.mv'' [swap_USD, swap_EUR] [6 * MICRO_COIN_v1])))))))"

definition swap_handler :: "('c, 'w) command_env \<Rightarrow> int \<Rightarrow> ('w, unit) eff" where
  "swap_handler env index =
     (if index = 1 then initialize_swap env else if index = 2 then test_swap env else eff_throw Bad_function_call)"

definition swap_main ::
    "('c, 'w) command_env \<Rightarrow> int \<Rightarrow> (char \<times> cstring) list \<Rightarrow> ('w \<times> istream, unit) eff" where
  "swap_main env index_junk options =
     eff_catch
       (eff_bind (eff_lift (parse_command_line options Arguments_new)) (\<lambda>args.
        eff_bind (eff_fst (rust_create env args)) (\<lambda>_.
        eff_bind (eff_fst (rust_test_connection env)) (\<lambda>_.
        eff_bind (eff_fst (rust_create_next_account env (Some swap_admin_address))) (\<lambda>_.
        eff_bind (eff_fst (rust_create_next_account env None)) (\<lambda>_.
        eff_bind (eff_fst (rust_create_next_account env None)) (\<lambda>_.
        eff_bind (eff_fst (rust_get_all_accounts env)) (\<lambda>_.
        eff_bind (eff_snd (\<lambda>cin. case get_int index_junk cin of (index, cin') \<Rightarrow> (Inr index, cin'))) (\<lambda>index.
        eff_fst (swap_handler env index))))))))))
       (eff_return ())"

text \<open>Whatever is typed, no exception leaves the program.\<close>

lemma swap_main_raises: "raises (\<lambda>e. \<not> catchable e) (swap_main env index_junk options)"
  by (auto simp: raises_def swap_main_def eff_catch_def eff_return_def split: prod.splits sum.splits if_splits)

end
