(* ===== verification/Native_Client.thy ===== *)
theory Native_Client
  imports Exchange Client2_Framework
begin

text \<open>
  The client over the Rust library, as it was first (\<open>ClientImp\<close> in \<open>src/cpp/sdk/src/violas_sdk.cpp\<close> and the class
  \<open>Bytes\<close> in \<open>violas_sdk.hpp\<close>).

  The library is a set of C functions (\<open>rust_client_proxy.hpp\<close>), each of which says whether it succeeded: the record
  \<open>native\<close> holds what each does to the outside world. An object keeps the accounts that were created through it,
  in \<open>m_accounts\<close>, and the operations that take an index look there. Messages and the log are left out.
\<close>

section \<open>Bytes of a fixed length\<close>

text \<open>
  \<open>Bytes\<close> has \<open>N\<close> bytes; what a constructor does not fill stays as it was (\<open>junk\<close>). A pair of blanks is no number,
  and the byte keeps what was in the variable (\<open>byte\<close>).
\<close>

definition Bytes_create :: "u8 list \<Rightarrow> u8 list \<Rightarrow> u8 list" where
  "Bytes_create junk data = take (length junk) data @ drop (length data) junk"

definition byte_of_pair :: "u8 \<Rightarrow> cstring \<Rightarrow> u8" where
  "byte_of_pair byte pair = (if list_all is_space pair then byte else ucast (extract_hex pair))"

fun Bytes_from_string :: "u8 \<Rightarrow> u8 list \<Rightarrow> cstring \<Rightarrow> u8 list" where
  "Bytes_from_string byte [] hex = []"
| "Bytes_from_string byte (b # junk) hex =
     (if hex = [] then b # junk
      else byte_of_pair byte (take 2 hex) # Bytes_from_string byte junk (drop 2 hex))"

definition ASSOCIATION_ADDRESS :: Address where
  "ASSOCIATION_ADDRESS = Bytes_from_string 0 (replicate 16 0) (str ''0000000000000000000000000A550C18'')"

definition is_valid_balance :: "u64 \<Rightarrow> bool" where
  "is_valid_balance v \<longleftrightarrow> v \<noteq> - 1"

section \<open>The library below\<close>

datatype native_call =
    Native_test_validator_connection
  | Native_mint_coins u64 u64 bool
  | Native_compile cstring cstring bool cstring
  | Native_publish_module u64 cstring
  | Native_execute_script RustTypeTag u64 cstring "cstring list"
  | Native_execute_script_ex "RustTypeTag list" u64 cstring "cstring list"
  | Native_enable_custom_script bool
  | Native_publish_currency cstring
  | Native_register_currency RustTypeTag u64 u64 bool u64 u64 cstring nat
  | Native_add_currency_for_designated_dealer RustTypeTag Address bool
  | Native_add_currency RustTypeTag u64 bool
  | Native_mint_currency RustTypeTag u64 Address u64 u64 bool
  | Native_transfer_currency RustTypeTag u64 Address u64 bool
  | Native_create_testing_account RustTypeTag "u8 list" bool bool
  | Native_create_parent_vasp_account RustTypeTag "u8 list" cstring cstring "u8 list" bool bool
  | Native_create_child_vasp_account RustTypeTag u64 "u8 list" bool u64 bool
  | Native_create_designated_dealer_account RustTypeTag "u8 list" u64 bool

datatype native_text =
    Native_committed_txn Address u64 bool
  | Native_currency_info
  | Native_exchange_currencies Address
  | Native_exchange_reserves Address
  | Native_liquidity_balance Address

datatype native_number =
    Native_balance Address
  | Native_sequence_number Address
  | Native_currency_balance RustTypeTag Address

record NativeAccount =
  native_address :: Address
  native_auth_key :: "u8 list"
  native_index :: u64
  native_sequence_number :: u64
  native_status :: "64 word"

text \<open>
  \<open>None\<close> is the answer false. \<open>native_stale\<close> is what is found where strings were that are gone.
\<close>

record 'w native =
  native_create :: "u8 \<Rightarrow> cstring \<Rightarrow> cstring \<Rightarrow> bool \<Rightarrow> cstring \<Rightarrow> cstring \<Rightarrow> cstring \<Rightarrow> 'w \<Rightarrow> bool \<times> 'w"
  native_next_account :: "bool \<Rightarrow> 'w \<Rightarrow> (Address \<times> u64) \<times> 'w"
  native_all_accounts :: "'w \<Rightarrow> NativeAccount list \<times> 'w"
  native_do :: "native_call \<Rightarrow> 'w \<Rightarrow> bool \<times> 'w"
  native_read_text :: "native_text \<Rightarrow> 'w \<Rightarrow> cstring option \<times> 'w"
  native_read_number :: "native_number \<Rightarrow> 'w \<Rightarrow> u64 option \<times> 'w"
  native_transfer_coins :: "u64 \<Rightarrow> Address \<Rightarrow> u64 \<Rightarrow> u64 \<Rightarrow> u64 \<Rightarrow> bool \<Rightarrow> 'w \<Rightarrow> (u64 \<times> u64) option \<times> 'w"
  native_read_state :: "Address \<Rightarrow> 'w \<Rightarrow> (cstring \<times> u64) option \<times> 'w"
  native_txn_range :: "u64 \<Rightarrow> u64 \<Rightarrow> bool \<Rightarrow> 'w \<Rightarrow> (cstring \<times> cstring) list option \<times> 'w"
  native_events :: "Address \<Rightarrow> bool \<Rightarrow> u64 \<Rightarrow> u64 \<Rightarrow> 'w \<Rightarrow> (cstring list \<times> cstring) option \<times> 'w"
  native_stale :: "cstring \<times> cstring"

text \<open>A call that returns false is an exception.\<close>

definition call_or_throw :: "string \<Rightarrow> ('w \<Rightarrow> bool \<times> 'w) \<Rightarrow> ('a \<times> 'w, unit) eff" where
  "call_or_throw what f = eff_snd (\<lambda>w. case f w of (ret, w') \<Rightarrow> (if ret then Inr () else Inl (Runtime_error what), w'))"

definition read_or_throw :: "string \<Rightarrow> ('w \<Rightarrow> 'r option \<times> 'w) \<Rightarrow> ('a \<times> 'w, 'r) eff" where
  "read_or_throw what f =
     eff_snd (\<lambda>w. case f w of (None, w') \<Rightarrow> (Inl (Runtime_error what), w') | (Some x, w') \<Rightarrow> (Inr x, w'))"

section \<open>Accounts\<close>

type_synonym native_accounts = "(u64 \<times> Address) list"

definition ClientImp_create ::
    "'w native \<Rightarrow> u8 \<Rightarrow> cstring \<Rightarrow> cstring \<Rightarrow> bool \<Rightarrow> cstring \<Rightarrow> cstring \<Rightarrow> cstring \<Rightarrow> ('w, native_accounts) eff" where
  "ClientImp_create nv chain_id url mint_key_file_name sync faucet_server mnemonic_file_name waypoint w =
     (case native_create nv chain_id (c_str url) (c_str mint_key_file_name) sync (c_str faucet_server)
             (c_str mnemonic_file_name) (c_str waypoint) w of
        (ret, w') \<Rightarrow> (if ret then Inr [] else Inl (Runtime_error ''failed to create native Violas client''), w'))"

definition native_test_connection :: "'w native \<Rightarrow> (native_accounts \<times> 'w, unit) eff" where
  "native_test_connection nv =
     call_or_throw ''failed to test validator connection'' (native_do nv Native_test_validator_connection)"

definition native_create_next_account :: "'w native \<Rightarrow> bool \<Rightarrow> (native_accounts \<times> 'w, u64 \<times> Address) eff" where
  "native_create_next_account nv sync =
     eff_bind (eff_snd (\<lambda>w. case native_next_account nv sync w of (a, w') \<Rightarrow> (Inr a, w'))) (\<lambda>(address, index).
     eff_bind (eff_fst (eff_modify (\<lambda>m_accounts. m_accounts @ [(index, address)]))) (\<lambda>_.
     eff_return (index, address)))"

definition native_get_all_accounts :: "'w native \<Rightarrow> (native_accounts \<times> 'w, NativeAccount list) eff" where
  "native_get_all_accounts nv = eff_snd (\<lambda>w. case native_all_accounts nv w of (as, w') \<Rightarrow> (Inr as, w'))"

text \<open>\<open>m_accounts.at(account_index)\<close>.\<close>

definition native_account_at :: "u64 \<Rightarrow> (native_accounts \<times> 'w, Address) eff" where
  "native_account_at account_index =
     eff_bind (eff_fst (eff_get (\<lambda>m_accounts. m_accounts))) (\<lambda>m_accounts.
     if unat account_index < length m_accounts then eff_return (snd (m_accounts ! unat account_index))
     else eff_throw (Out_of_range ''vector::_M_range_check''))"

section \<open>Balances, sequence numbers, coins\<close>

definition native_get_balance :: "'w native \<Rightarrow> Address \<Rightarrow> (native_accounts \<times> 'w, u64) eff" where
  "native_get_balance nv address = read_or_throw ''failed to get balance'' (native_read_number nv (Native_balance address))"

definition native_get_balance_of_index :: "'w native \<Rightarrow> u64 \<Rightarrow> (native_accounts \<times> 'w, u64) eff" where
  "native_get_balance_of_index nv account_index = eff_bind (native_account_at account_index) (native_get_balance nv)"

definition native_get_sequence_number :: "'w native \<Rightarrow> Address \<Rightarrow> (native_accounts \<times> 'w, u64) eff" where
  "native_get_sequence_number nv address =
     read_or_throw ''failed to get sequence number'' (native_read_number nv (Native_sequence_number address))"

definition native_get_sequence_number_of_index :: "'w native \<Rightarrow> u64 \<Rightarrow> (native_accounts \<times> 'w, u64) eff" where
  "native_get_sequence_number_of_index nv account_index =
     eff_bind (native_account_at account_index) (native_get_sequence_number nv)"

definition native_mint_coins :: "'w native \<Rightarrow> u64 \<Rightarrow> u64 \<Rightarrow> bool \<Rightarrow> (native_accounts \<times> 'w, unit) eff" where
  "native_mint_coins nv index num_coins is_blocking =
     call_or_throw ''failed to mint coins'' (native_do nv (Native_mint_coins index num_coins is_blocking))"

definition native_transfer_coins_int ::
    "'w native \<Rightarrow> u64 \<Rightarrow> Address \<Rightarrow> u64 \<Rightarrow> u64 \<Rightarrow> u64 \<Rightarrow> bool \<Rightarrow> (native_accounts \<times> 'w, u64 \<times> u64) eff" where
  "native_transfer_coins_int nv sender receiver num_coins gas_unit_price max_gas_amount is_blocking =
     read_or_throw ''failed to transfer coins''
       (native_transfer_coins nv sender receiver num_coins gas_unit_price max_gas_amount is_blocking)"

section \<open>Modules and scripts\<close>

definition native_compile_address ::
    "'w native \<Rightarrow> Address \<Rightarrow> cstring \<Rightarrow> bool \<Rightarrow> cstring \<Rightarrow> (native_accounts \<times> 'w, unit) eff" where
  "native_compile_address nv address source_file is_module temp_dir =
     call_or_throw ''failed to compile move script file''
       (native_do nv (Native_compile (bytes_to_hex address) (c_str source_file) is_module (c_str temp_dir)))"

definition native_compile_index ::
    "'w native \<Rightarrow> u64 \<Rightarrow> cstring \<Rightarrow> bool \<Rightarrow> cstring \<Rightarrow> (native_accounts \<times> 'w, unit) eff" where
  "native_compile_index nv account_index source_file is_module temp_dir =
     call_or_throw ''failed to compile move script file''
       (native_do nv (Native_compile (dec (unat account_index)) (c_str source_file) is_module (c_str temp_dir)))"

definition native_publish_module :: "'w native \<Rightarrow> u64 \<Rightarrow> cstring \<Rightarrow> (native_accounts \<times> 'w, unit) eff" where
  "native_publish_module nv account_index module_file =
     call_or_throw ''failed to publish module file'' (native_do nv (Native_publish_module account_index (c_str module_file)))"

definition from_type_tag :: "RustTypeTag \<Rightarrow> RustTypeTag" where
  "from_type_tag type_tag =
     \<lparr>tag_address = tag_address type_tag, tag_module_name = c_str (tag_module_name type_tag),
      tag_resource_name = c_str (tag_resource_name type_tag)\<rparr>"

text \<open>The tag of a script without type arguments points to the strings of a temporary that is destroyed.\<close>

definition stale_tag :: "'w native \<Rightarrow> RustTypeTag" where
  "stale_tag nv = \<lparr>tag_address = replicate 16 0, tag_module_name = fst (native_stale nv), tag_resource_name = snd (native_stale nv)\<rparr>"

definition native_execute_script :: "'w native \<Rightarrow> u64 \<Rightarrow> cstring \<Rightarrow> cstring list \<Rightarrow> (native_accounts \<times> 'w, unit) eff" where
  "native_execute_script nv account_index script_file script_args =
     call_or_throw ''failed to execute script file''
       (native_do nv (Native_execute_script (stale_tag nv) account_index (c_str script_file) (map c_str script_args)))"

definition native_execute_script_tag ::
    "'w native \<Rightarrow> RustTypeTag \<Rightarrow> u64 \<Rightarrow> cstring \<Rightarrow> cstring list \<Rightarrow> (native_accounts \<times> 'w, unit) eff" where
  "native_execute_script_tag nv type_tag account_index script_file script_args =
     call_or_throw ''failed to execute script file''
       (native_do nv (Native_execute_script (from_type_tag type_tag) account_index (c_str script_file) (map c_str script_args)))"

text \<open>Sixteen tags are copied, and the library is told how many there were.\<close>

definition native_execute_script_ex ::
    "'w native \<Rightarrow> RustTypeTag list \<Rightarrow> u64 \<Rightarrow> cstring \<Rightarrow> cstring list \<Rightarrow> (native_accounts \<times> 'w, unit) eff" where
  "native_execute_script_ex nv type_tags sender script_file script_args =
     (if 16 < length type_tags then eff_throw (Undefined_behaviour ''v_type_tags[16]'')
      else call_or_throw ''failed to execute script file''
        (native_do nv (Native_execute_script_ex (map from_type_tag type_tags) sender (c_str script_file) (map c_str script_args))))"

text \<open>\<open>execute_script_json\<close>: the arguments, of the three types that it is called with, as text.\<close>

definition byte_text :: "u8 list \<Rightarrow> cstring" where
  "byte_text bs = str ''b\"'' @ bytes_to_hex bs @ str ''\"''"

datatype script_arg = Arg_Bytes "u8 list" | Arg_Address Address | Arg_U64 u64

fun parse_arg :: "script_arg \<Rightarrow> cstring" where
  "parse_arg (Arg_Bytes bs) = byte_text bs"
| "parse_arg (Arg_Address address) = bytes_to_hex address"
| "parse_arg (Arg_U64 n) = dec (unat n)"

definition execute_script_json ::
    "'w native \<Rightarrow> cstring \<Rightarrow> u64 \<Rightarrow> RustTypeTag list \<Rightarrow> script_arg list \<Rightarrow> (native_accounts \<times> 'w, unit) eff" where
  "execute_script_json nv script_file account_index type_tags args =
     native_execute_script_ex nv type_tags account_index script_file (map parse_arg args)"

section \<open>Queries\<close>

definition native_get_txn :: "'w native \<Rightarrow> Address \<Rightarrow> u64 \<Rightarrow> bool \<Rightarrow> (native_accounts \<times> 'w, cstring) eff" where
  "native_get_txn nv address sequence_num fetch_event =
     read_or_throw ''failed to get committed transaction by account index and sequence number''
       (native_read_text nv (Native_committed_txn address sequence_num fetch_event))"

definition native_get_txn_of_index :: "'w native \<Rightarrow> u64 \<Rightarrow> u64 \<Rightarrow> bool \<Rightarrow> (native_accounts \<times> 'w, cstring) eff" where
  "native_get_txn_of_index nv account_index sequence_num fetch_event =
     eff_bind (native_account_at account_index) (\<lambda>address. native_get_txn nv address sequence_num fetch_event)"

definition native_get_txn_by_range ::
    "'w native \<Rightarrow> u64 \<Rightarrow> u64 \<Rightarrow> bool \<Rightarrow> (native_accounts \<times> 'w, (cstring \<times> cstring) list) eff" where
  "native_get_txn_by_range nv start_version limit fetch_events =
     read_or_throw ''failed to get tansaction and events by range'' (native_txn_range nv start_version limit fetch_events)"

text \<open>The type of an event is sent (true) or received.\<close>

definition native_get_events ::
    "'w native \<Rightarrow> Address \<Rightarrow> bool \<Rightarrow> u64 \<Rightarrow> u64 \<Rightarrow> (native_accounts \<times> 'w, cstring list \<times> cstring) eff" where
  "native_get_events nv address type' start_seq_number limit =
     read_or_throw ''failed to get events'' (native_events nv address type' start_seq_number limit)"

definition native_get_events_of_index ::
    "'w native \<Rightarrow> u64 \<Rightarrow> bool \<Rightarrow> u64 \<Rightarrow> u64 \<Rightarrow> (native_accounts \<times> 'w, cstring list \<times> cstring) eff" where
  "native_get_events_of_index nv account_index type' start_seq_number limit =
     eff_bind (native_account_at account_index) (\<lambda>address. native_get_events nv address type' start_seq_number limit)"

text \<open>Nothing is asked.\<close>

definition get_account_resource_uint64 :: "Address \<Rightarrow> u64 \<Rightarrow> (native_accounts \<times> 'w, u64) eff" where
  "get_account_resource_uint64 res_path_addr token_index = eff_return 0"

definition native_get_currency_info :: "'w native \<Rightarrow> (native_accounts \<times> 'w, cstring) eff" where
  "native_get_currency_info nv = read_or_throw ''failed to get currency info'' (native_read_text nv Native_currency_info)"

definition native_get_account_state :: "'w native \<Rightarrow> Address \<Rightarrow> (native_accounts \<times> 'w, cstring \<times> u64) eff" where
  "native_get_account_state nv addr = read_or_throw ''failed to get account state'' (native_read_state nv addr)"

section \<open>Currencies\<close>

definition native_enable_custom_script :: "'w native \<Rightarrow> bool \<Rightarrow> (native_accounts \<times> 'w, unit) eff" where
  "native_enable_custom_script nv is_enabled =
     call_or_throw ''failed to call enable_custom_script'' (native_do nv (Native_enable_custom_script is_enabled))"

definition native_publish_currency :: "'w native \<Rightarrow> cstring \<Rightarrow> (native_accounts \<times> 'w, unit) eff" where
  "native_publish_currency nv currency_code =
     call_or_throw ''failed to publish a currency module'' (native_do nv (Native_publish_currency (c_str currency_code)))"

definition native_register_currency ::
    "'w native \<Rightarrow> RustTypeTag \<Rightarrow> u64 \<Rightarrow> u64 \<Rightarrow> bool \<Rightarrow> u64 \<Rightarrow> u64 \<Rightarrow> cstring \<Rightarrow> (native_accounts \<times> 'w, unit) eff" where
  "native_register_currency nv type_tag rate_denom rate_num is_synthetic scaling_factor fractional_part currency_code =
     call_or_throw ''failed to add currency''
       (native_do nv (Native_register_currency (from_type_tag type_tag) rate_denom rate_num is_synthetic scaling_factor
          fractional_part currency_code (length currency_code)))"

definition native_add_currency_for_designated_dealer ::
    "'w native \<Rightarrow> RustTypeTag \<Rightarrow> Address \<Rightarrow> bool \<Rightarrow> (native_accounts \<times> 'w, unit) eff" where
  "native_add_currency_for_designated_dealer nv type_tag dd_address is_blocking =
     call_or_throw ''failed to register currency for designated dealer''
       (native_do nv (Native_add_currency_for_designated_dealer (from_type_tag type_tag) dd_address is_blocking))"

definition native_add_currency :: "'w native \<Rightarrow> RustTypeTag \<Rightarrow> u64 \<Rightarrow> bool \<Rightarrow> (native_accounts \<times> 'w, unit) eff" where
  "native_add_currency nv type_tag account_index is_blocking =
     call_or_throw ''failed to register currency'' (native_do nv (Native_add_currency (from_type_tag type_tag) account_index is_blocking))"

definition native_mint_currency ::
    "'w native \<Rightarrow> RustTypeTag \<Rightarrow> u64 \<Rightarrow> Address \<Rightarrow> u64 \<Rightarrow> u64 \<Rightarrow> bool \<Rightarrow> (native_accounts \<times> 'w, unit) eff" where
  "native_mint_currency nv tag sliding_nonce dd_address amount' tier_index is_blocking =
     call_or_throw ''failed to mint currency''
       (native_do nv (Native_mint_currency (from_type_tag tag) sliding_nonce dd_address amount' tier_index is_blocking))"

definition native_transfer_currency ::
    "'w native \<Rightarrow> RustTypeTag \<Rightarrow> u64 \<Rightarrow> Address \<Rightarrow> u64 \<Rightarrow> bool \<Rightarrow> (native_accounts \<times> 'w, unit) eff" where
  "native_transfer_currency nv tag sender_account_index receiver amount' is_blocking =
     call_or_throw ''failed to transfer currency''
       (native_do nv (Native_transfer_currency (from_type_tag tag) sender_account_index receiver amount' is_blocking))"

text \<open>A balance that could not be read is 0, unless an exception is asked for.\<close>

definition native_get_currency_balance ::
    "'w native \<Rightarrow> RustTypeTag \<Rightarrow> Address \<Rightarrow> bool \<Rightarrow> (native_accounts \<times> 'w, u64) eff" where
  "native_get_currency_balance nv type_tag address throw_excption =
     eff_snd (\<lambda>w. case native_read_number nv (Native_currency_balance (from_type_tag type_tag) address) w of
       (None, w') \<Rightarrow> (if throw_excption then Inl (Runtime_error ''failed to get currency balance'') else Inr 0, w')
     | (Some balance, w') \<Rightarrow> (Inr balance, w'))"

section \<open>Accounts on the chain\<close>

definition native_create_testing_account ::
    "'w native \<Rightarrow> RustTypeTag \<Rightarrow> u8 list \<Rightarrow> bool \<Rightarrow> bool \<Rightarrow> (native_accounts \<times> 'w, unit) eff" where
  "native_create_testing_account nv type_tag auth_key add_all_currencies is_blocking =
     call_or_throw ''failed to create parent VASP account''
       (native_do nv (Native_create_testing_account (from_type_tag type_tag) auth_key add_all_currencies is_blocking))"

definition native_create_parent_vasp_account ::
    "'w native \<Rightarrow> RustTypeTag \<Rightarrow> u8 list \<Rightarrow> cstring \<Rightarrow> cstring \<Rightarrow> u8 list \<Rightarrow> bool \<Rightarrow> bool \<Rightarrow> (native_accounts \<times> 'w, unit) eff" where
  "native_create_parent_vasp_account nv type_tag auth_key human_name base_url compliance_pubkey add_all_currencies is_blocking =
     call_or_throw ''failed to create parent VASP account''
       (native_do nv (Native_create_parent_vasp_account (from_type_tag type_tag) auth_key (c_str human_name) (c_str base_url)
          compliance_pubkey add_all_currencies is_blocking))"

definition native_create_child_vasp_account ::
    "'w native \<Rightarrow> RustTypeTag \<Rightarrow> u64 \<Rightarrow> u8 list \<Rightarrow> bool \<Rightarrow> u64 \<Rightarrow> bool \<Rightarrow> (native_accounts \<times> 'w, unit) eff" where
  "native_create_child_vasp_account nv type_tag parent_account_index auth_key add_all_currencies initial_balance is_blocking =
     call_or_throw ''failed to create child VASP account''
       (native_do nv (Native_create_child_vasp_account (from_type_tag type_tag) parent_account_index auth_key add_all_currencies
          initial_balance is_blocking))"

definition native_create_designated_dealer_account ::
    "'w native \<Rightarrow> RustTypeTag \<Rightarrow> u8 list \<Rightarrow> u64 \<Rightarrow> bool \<Rightarrow> (native_accounts \<times> 'w, unit) eff" where
  "native_create_designated_dealer_account nv type_tag auth_key nonce is_blocking =
     call_or_throw ''failed to create designated dealer account''
       (native_do nv (Native_create_designated_dealer_account (from_type_tag type_tag) auth_key nonce is_blocking))"

end
