(* ===== verification/Token_Manager.thy ===== *)
theory Token_Manager
  imports Native_Client
begin

text \<open>
  The manager of tokens over the first client (\<open>TokenManagerImp\<close> in \<open>src/cpp/sdk/src/violas_sdk.cpp\<close>), and what it does to
  compiled modules: the address that they were compiled for is replaced in the bytes of the file.

  The file system is a parameter (\<open>files\<close>). The loop that replaces looks for the next place where the old address is
  from where it has just written: it is a partial function, and the lemmas say when it ends and what it gives.
\<close>

section \<open>The bytes of a module\<close>

text \<open>The address that the modules were compiled for.\<close>

definition mv_addr :: Address where
  "mv_addr = [0x72, 0x57, 0xc2, 0x41, 0x7e, 0x4d, 0x10, 0x38, 0xe1, 0x81, 0x7c, 0x8f, 0x28, 0x3a, 0xce, 0x2e]"

definition copy_at :: "nat \<Rightarrow> 'a list \<Rightarrow> 'a list \<Rightarrow> 'a list" where
  "copy_at i xs buffer = take i buffer @ xs @ drop (i + length xs) buffer"

partial_function (option) replace_loop :: "Address \<Rightarrow> nat \<Rightarrow> u8 list \<Rightarrow> u8 list option" where
  "replace_loop address pos' buffer =
     (let pos'' = pos' + search (drop pos' buffer) mv_addr
      in if pos'' = length buffer then Some buffer
         else replace_loop address pos'' (copy_at pos'' address buffer))"

definition hex_code :: "u8 list \<Rightarrow> cstring" where
  "hex_code buffer = concat (map (\<lambda>num. dec (unat num) @ str '','') buffer)"

text \<open>The last character before the end of the list is written over, whichever it is.\<close>

definition mv_json :: "u8 list \<Rightarrow> cstring" where
  "mv_json buffer = butlast (str ''{\"code\" : ['' @ hex_code buffer) @ str ''], \"args\" : []}''"

definition tx_char :: "u8 \<Rightarrow> cstring" where
  "tx_char v =
     (let n = unat (scast v :: u32)
      in if n < 256 then [hex_digit (n div 16), hex_digit (n mod 16)]
         else concat (map (\<lambda>k. [hex_digit (n div 16 ^ k mod 16)]) [7, 6, 5, 4, 3, 2, 1, 0]))"

text \<open>A character is signed, and widened to an \<open>int\<close>.\<close>

definition tx_vec_data :: "cstring \<Rightarrow> cstring" where
  "tx_vec_data data = str ''b\"'' @ concat (map tx_char data) @ str ''\"''"

section \<open>Files\<close>

record 'w files =
  fs_read :: "'w \<Rightarrow> cstring \<Rightarrow> u8 list option"
  fs_write :: "cstring \<Rightarrow> u8 list \<Rightarrow> 'w \<Rightarrow> 'w"
  fs_remove_all :: "cstring \<Rightarrow> ('w, unit) eff"
  fs_create_directory :: "cstring \<Rightarrow> ('w, unit) eff"
  fs_temp_directory_path :: "('w, cstring) eff"
  fs_directory :: "cstring \<Rightarrow> ('w, cstring list) eff"

text \<open>
  \<open>p / name\<close> for a relative \<open>name\<close>, and the extension of a file name: from its last dot, unless that is its first character.
\<close>

definition path_join :: "cstring \<Rightarrow> cstring \<Rightarrow> cstring" where
  "path_join p name' = (if p = [] \<or> last p = 0x2F then p @ name' else p @ [0x2F] @ name')"

definition fs_extension :: "cstring \<Rightarrow> cstring" where
  "fs_extension name' =
     (let suffix = takeWhile (\<lambda>c. c \<noteq> 0x2E) (rev name')
      in if length name' \<le> Suc (length suffix) \<or> name' = str ''..'' then [] else 0x2E # rev suffix)"

text \<open>
  The input is opened, then the output is opened and emptied, and only then is the input looked at and read: when both
  are one file, it is empty by then. A file has fewer than \<open>2 ^ 31\<close> bytes. A loop that does not end keeps the caller for
  ever.
\<close>

definition with_mv_file ::
    "'w files \<Rightarrow> cstring \<Rightarrow> cstring \<Rightarrow> (u8 list \<Rightarrow> u8 list result) \<Rightarrow> ('w, unit) eff" where
  "with_mv_file fs mv_file_name new_file_name f w =
     (let w1 = fs_write fs new_file_name [] w
      in if fs_read fs w mv_file_name = None then (Inl (Runtime_error ''file is not exist''), w1)
         else let buffer = (case fs_read fs w1 mv_file_name of None \<Rightarrow> [] | Some data \<Rightarrow> data)
              in (case f buffer of Inl e \<Rightarrow> (Inl e, w1) | Inr out \<Rightarrow> (Inr (), fs_write fs new_file_name out w1)))"

definition transform_mv_to_json :: "'w files \<Rightarrow> cstring \<Rightarrow> cstring \<Rightarrow> Address \<Rightarrow> ('w, unit) eff" where
  "transform_mv_to_json fs mv_file_name json_file_name address =
     with_mv_file fs mv_file_name json_file_name (\<lambda>buffer.
       let pos' = search buffer mv_addr
       in Inr (mv_json (if pos' = length buffer then buffer else copy_at pos' address buffer)))"

definition replace_mv_with_addr :: "'w files \<Rightarrow> cstring \<Rightarrow> cstring \<Rightarrow> Address \<Rightarrow> ('w, unit) eff" where
  "replace_mv_with_addr fs mv_file_name new_file_name address =
     with_mv_file fs mv_file_name new_file_name (\<lambda>buffer.
       case replace_loop address 0 buffer of None \<Rightarrow> Inl Never_resumed | Some out \<Rightarrow> Inr out)"

section \<open>The manager\<close>

record TokenManager =
  tm_name :: cstring
  tm_supervisor :: Address
  tm_temp_path :: cstring
  tm_temp_script_path :: cstring

fun install_scripts :: "'w files \<Rightarrow> cstring \<Rightarrow> cstring \<Rightarrow> Address \<Rightarrow> cstring list \<Rightarrow> ('w, unit) eff" where
  "install_scripts fs path script_path address [] = eff_return ()"
| "install_scripts fs path script_path address (file # files') =
     eff_bind (if fs_extension file = str ''.mv''
               then replace_mv_with_addr fs (path_join path file) (path_join script_path file) address
               else eff_return ()) (\<lambda>_.
     install_scripts fs path script_path address files')"

text \<open>A new, empty directory for the scripts of a supervisor.\<close>

definition script_directory :: "'w files \<Rightarrow> cstring \<Rightarrow> Address \<Rightarrow> ('w, cstring) eff" where
  "script_directory fs temp_path address =
     (let script_path = path_join temp_path (bytes_to_hex address)
      in eff_bind (fs_remove_all fs script_path) (\<lambda>_.
         eff_bind (fs_create_directory fs script_path) (\<lambda>_. eff_return script_path)))"

definition TokenManager_create :: "'w files \<Rightarrow> Address \<Rightarrow> cstring \<Rightarrow> cstring \<Rightarrow> ('w, TokenManager) eff" where
  "TokenManager_create fs governor_addr name' script_files_path =
     eff_bind (fs_temp_directory_path fs) (\<lambda>temp_path.
     eff_bind (script_directory fs temp_path governor_addr) (\<lambda>script_path.
     eff_bind (fs_directory fs script_files_path) (\<lambda>files'.
     eff_bind (install_scripts fs script_files_path script_path governor_addr files') (\<lambda>_.
     eff_return \<lparr>tm_name = name', tm_supervisor = governor_addr, tm_temp_path = temp_path, tm_temp_script_path = script_path\<rparr>))))"

definition TokenManager_create_with ::
    "'w files \<Rightarrow> Address \<Rightarrow> cstring \<Rightarrow> (cstring \<Rightarrow> ('w, unit) eff) \<Rightarrow> cstring \<Rightarrow> ('w, TokenManager) eff" where
  "TokenManager_create_with fs governor_addr name' init_all_script_fun temp_path =
     eff_bind (script_directory fs temp_path governor_addr) (\<lambda>script_path.
     eff_bind (init_all_script_fun script_path) (\<lambda>_.
     eff_return \<lparr>tm_name = name', tm_supervisor = governor_addr, tm_temp_path = temp_path, tm_temp_script_path = script_path\<rparr>))"

definition tm_script :: "TokenManager \<Rightarrow> string \<Rightarrow> cstring" where
  "tm_script tm script = path_join (tm_temp_script_path tm) (str script) @ str ''.mv''"

definition tm_deploy :: "'w native \<Rightarrow> TokenManager \<Rightarrow> u64 \<Rightarrow> (native_accounts \<times> 'w, unit) eff" where
  "tm_deploy nv tm account_index = native_publish_module nv account_index (tm_script tm ''token'')"

definition tm_publish :: "'w native \<Rightarrow> TokenManager \<Rightarrow> u64 \<Rightarrow> cstring \<Rightarrow> (native_accounts \<times> 'w, unit) eff" where
  "tm_publish nv tm account_index user_data =
     native_execute_script nv account_index (tm_script tm ''publish'') [tx_vec_data user_data]"

definition tm_create_token :: "'w native \<Rightarrow> TokenManager \<Rightarrow> u64 \<Rightarrow> Address \<Rightarrow> cstring \<Rightarrow> (native_accounts \<times> 'w, unit) eff" where
  "tm_create_token nv tm account_index owner token_data =
     native_execute_script nv account_index (tm_script tm ''create_token'') [bytes_to_hex owner, tx_vec_data token_data]"

definition tm_token_script ::
    "'w native \<Rightarrow> TokenManager \<Rightarrow> string \<Rightarrow> u64 \<Rightarrow> u64 \<Rightarrow> Address \<Rightarrow> u64 \<Rightarrow> cstring \<Rightarrow> (native_accounts \<times> 'w, unit) eff" where
  "tm_token_script nv tm script token_index account_index receiver amount_micro_coin data =
     native_execute_script nv account_index (tm_script tm script)
       [dec (unat token_index), bytes_to_hex receiver, dec (unat amount_micro_coin), tx_vec_data data]"

definition tm_mint :: "'w native \<Rightarrow> TokenManager \<Rightarrow> u64 \<Rightarrow> u64 \<Rightarrow> Address \<Rightarrow> u64 \<Rightarrow> cstring \<Rightarrow> (native_accounts \<times> 'w, unit) eff" where
  "tm_mint nv tm = tm_token_script nv tm ''mint''"

definition tm_transfer :: "'w native \<Rightarrow> TokenManager \<Rightarrow> u64 \<Rightarrow> u64 \<Rightarrow> Address \<Rightarrow> u64 \<Rightarrow> cstring \<Rightarrow> (native_accounts \<times> 'w, unit) eff" where
  "tm_transfer nv tm = tm_token_script nv tm ''transfer''"

text \<open>The number of tokens is always 0, and so is every balance.\<close>

definition tm_token_count :: "TokenManager \<Rightarrow> u64" where
  "tm_token_count tm = 0"

definition tm_get_account_balance :: "TokenManager \<Rightarrow> u64 \<Rightarrow> (native_accounts \<times> 'w, u64) eff" where
  "tm_get_account_balance tm token_index = get_account_resource_uint64 (tm_supervisor tm) token_index"

section \<open>Searching\<close>

definition occurs_at :: "nat \<Rightarrow> 'a list \<Rightarrow> 'a list \<Rightarrow> bool" where
  "occurs_at i pat xs \<longleftrightarrow> take (length pat) (drop i xs) = pat"

lemma search_le: "search xs pat \<le> length xs"
proof (induction xs)
  case (Cons x xs)
  then show ?case by (subst search.simps) simp
qed (simp add: search.simps)

lemma search_found: "search xs pat < length xs \<Longrightarrow> occurs_at (search xs pat) pat xs"
proof (induction xs)
  case (Cons x xs)
  show ?case
  proof (cases "take (length pat) (x # xs) = pat")
    case False
    then have "search (x # xs) pat = Suc (search xs pat)" by (subst search.simps) simp
    with Cons show ?thesis by (simp add: occurs_at_def)
  qed (simp add: search.simps occurs_at_def)
qed simp

lemma search_least: "i < search xs pat \<Longrightarrow> \<not> occurs_at i pat xs"
proof (induction xs arbitrary: i)
  case (Cons x xs)
  then have "take (length pat) (x # xs) \<noteq> pat" and s: "search (x # xs) pat = Suc (search xs pat)"
    by (auto simp: search.simps [of "x # xs"] split: if_splits)
  with Cons show ?case by (cases i) (simp_all add: occurs_at_def)
qed (simp add: search.simps split: if_splits)

lemma occurs_at_length: "occurs_at i pat xs \<Longrightarrow> pat \<noteq> [] \<Longrightarrow> i + length pat \<le> length xs"
proof -
  assume occurs: "occurs_at i pat xs" and "pat \<noteq> []"
  then have "0 < length pat" by simp
  moreover from occurs have "length pat = min (length xs - i) (length pat)" by (metis occurs_at_def length_take length_drop)
  ultimately show ?thesis by linarith
qed

lemma search_end: "pat \<noteq> [] \<Longrightarrow> search xs pat = length xs \<longleftrightarrow> (\<forall>i. \<not> occurs_at i pat xs)"
proof
  assume pat: "pat \<noteq> []" and last: "search xs pat = length xs"
  show "\<forall>i. \<not> occurs_at i pat xs"
  proof (intro allI notI)
    fix i assume occurs: "occurs_at i pat xs"
    moreover have "0 < length pat" using pat by simp
    ultimately have "i < search xs pat" using occurs_at_length [OF occurs pat] last by linarith
    with search_least occurs show False by blast
  qed
next
  assume "\<forall>i. \<not> occurs_at i pat xs"
  with search_found search_le show "search xs pat = length xs" by (metis le_neq_implies_less)
qed

lemma occurs_at_drop: "occurs_at k pat (drop i xs) \<longleftrightarrow> occurs_at (i + k) pat xs"
  by (simp add: occurs_at_def add.commute)

lemma length_copy_at: "i + length ys \<le> length xs \<Longrightarrow> length (copy_at i ys xs) = length xs"
  by (simp add: copy_at_def)

lemma drop_copy_at: "i \<le> length xs \<Longrightarrow> drop i (copy_at i ys xs) = ys @ drop (i + length ys) xs"
  by (simp add: copy_at_def)

lemma copy_at_same: "occurs_at i pat xs \<Longrightarrow> copy_at i pat xs = xs"
proof -
  assume "occurs_at i pat xs"
  then have "pat @ drop (length pat) (drop i xs) = drop i xs"
    unfolding occurs_at_def by (metis append_take_drop_id)
  then show ?thesis by (simp add: copy_at_def add.commute)
qed

section \<open>When the replacement ends\<close>

lemma mv_addr_length: "length mv_addr = 16"
  by (simp add: mv_addr_def)

lemma mv_addr_nonempty: "mv_addr \<noteq> []"
  by (simp add: mv_addr_def)

lemma replace_step:
  assumes "search (drop i buffer) mv_addr < length (drop i buffer)" and "i \<le> length buffer"
  defines "j \<equiv> i + search (drop i buffer) mv_addr"
  shows "replace_loop address i buffer = replace_loop address j (copy_at j address buffer)"
    and "j < length buffer" and "occurs_at j mv_addr buffer" and "j + 16 \<le> length buffer" and "i \<le> j"
proof -
  show less: "j < length buffer" using assms(1,2) by (simp add: j_def)
  then show "replace_loop address i buffer = replace_loop address j (copy_at j address buffer)"
    by (subst replace_loop.simps) (simp add: j_def Let_def)
  show occurs: "occurs_at j mv_addr buffer"
    using search_found [OF assms(1)] by (simp add: occurs_at_drop j_def)
  show "j + 16 \<le> length buffer"
    using occurs_at_length [OF occurs mv_addr_nonempty] by (simp add: mv_addr_length)
  show "i \<le> j" by (simp add: j_def)
qed

lemma replace_end:
  "search (drop i buffer) mv_addr = length (drop i buffer) \<Longrightarrow> i \<le> length buffer \<Longrightarrow> replace_loop address i buffer = Some buffer"
  by (subst replace_loop.simps) (simp add: Let_def)

lemma replace_ends:
  assumes "length address = 16" and "address \<noteq> mv_addr" and "i \<le> length buffer"
  shows "\<exists>out. replace_loop address i buffer = Some out \<and> length out = length buffer"
  using assms(3)
proof (induction "2 * (length buffer - i) + of_bool (occurs_at i mv_addr buffer)" arbitrary: i buffer rule: less_induct)
  case less
  show ?case
  proof (cases "search (drop i buffer) mv_addr = length (drop i buffer)")
    case True
    with replace_end less.prems show ?thesis by blast
  next
    case False
    then have found: "search (drop i buffer) mv_addr < length (drop i buffer)"
      using search_le [of "drop i buffer" mv_addr] by linarith
    define j where "j = i + search (drop i buffer) mv_addr"
    note step = replace_step(1) [OF found less.prems, of address, folded j_def] replace_step(2-5) [OF found less.prems, folded j_def]
    let ?buffer = "copy_at j address buffer"
    have len: "length ?buffer = length buffer" using step(4) assms(1) by (simp add: length_copy_at)
    have "\<not> occurs_at j mv_addr ?buffer"
      using assms(1,2) step(2) by (simp add: occurs_at_def drop_copy_at mv_addr_length)
    moreover have "i < j \<or> occurs_at i mv_addr buffer" using step(3,5) by (cases "i = j") auto
    ultimately have "2 * (length ?buffer - j) + of_bool (occurs_at j mv_addr ?buffer) <
        2 * (length buffer - i) + of_bool (occurs_at i mv_addr buffer)"
      using step(2,5) len by auto
    from less.hyps [OF this] step(1,2) len show ?thesis by simp
  qed
qed

text \<open>Where the new address is the old one, every place that is found is found again.\<close>

lemma replace_same_ends:
  "replace_loop address i buffer = Some out \<Longrightarrow> address = mv_addr \<Longrightarrow> i \<le> length buffer \<Longrightarrow>
     search (drop i buffer) mv_addr = length (drop i buffer)"
proof (induct rule: replace_loop.raw_induct [rotated, consumes 1])
  case (1 rec address i buffer out)
  show ?case
  proof (rule ccontr)
    assume other: "search (drop i buffer) mv_addr \<noteq> length (drop i buffer)"
    then have found: "search (drop i buffer) mv_addr < length (drop i buffer)"
      using search_le [of "drop i buffer" mv_addr] by linarith
    define j where "j = i + search (drop i buffer) mv_addr"
    note step = replace_step(2-5) [OF found 1(4), folded j_def]
    have same: "copy_at j address buffer = buffer" using copy_at_same [OF step(2)] 1(3) by simp
    have "rec address j buffer = Some out"
      using 1(2) step(1) same by (simp add: j_def Let_def)
    from 1(1) [OF this 1(3)] step(1) have "search (drop j buffer) mv_addr = length (drop j buffer)" by simp
    moreover have "occurs_at 0 mv_addr (drop j buffer)" using step(2) by (simp add: occurs_at_drop)
    ultimately show False using search_end [OF mv_addr_nonempty] by blast
  qed
qed

lemma replace_endless:
  assumes "length address = 16"
  shows "replace_loop address 0 buffer = None \<longleftrightarrow> address = mv_addr \<and> (\<exists>i. occurs_at i mv_addr buffer)"
proof
  assume none: "replace_loop address 0 buffer = None"
  then have "address = mv_addr" using replace_ends [OF assms, of 0 buffer] by auto
  moreover have "search buffer mv_addr \<noteq> length buffer" using none replace_end [of 0 buffer address] by auto
  ultimately show "address = mv_addr \<and> (\<exists>i. occurs_at i mv_addr buffer)"
    using search_end [OF mv_addr_nonempty] by blast
next
  assume same: "address = mv_addr \<and> (\<exists>i. occurs_at i mv_addr buffer)"
  then have "search buffer mv_addr \<noteq> length buffer" using search_end [OF mv_addr_nonempty] by blast
  then show "replace_loop address 0 buffer = None"
    using replace_same_ends [of address 0 buffer] same by (cases "replace_loop address 0 buffer") auto
qed

section \<open>What the replacement gives\<close>

text \<open>Every occurrence, from left to right.\<close>

function substitute :: "'a list \<Rightarrow> 'a list \<Rightarrow> 'a list \<Rightarrow> 'a list" where
  "substitute pat new xs =
     (if pat = [] \<or> xs = [] then xs
      else if take (length pat) xs = pat then new @ substitute pat new (drop (length pat) xs)
      else hd xs # substitute pat new (tl xs))"
  by pat_completeness auto
termination by (relation "measure (\<lambda>(pat, new, xs). length xs)") auto

declare substitute.simps [simp del]

lemma substitute_skip:
  assumes "pat \<noteq> []" and "hd pat \<notin> set ys"
  shows "substitute pat new (ys @ xs) = ys @ substitute pat new xs"
  using assms(2)
proof (induction ys)
  case (Cons y ys)
  obtain p pat' where pat: "pat = p # pat'" using assms(1) by (cases pat) auto
  with Cons.prems have "take (length pat) (y # ys @ xs) \<noteq> pat" by auto
  with Cons assms(1) show ?case by (simp add: substitute.simps [of pat new "y # ys @ xs"])
qed simp

lemma substitute_found:
  assumes "pat \<noteq> []" and "occurs_at j pat xs" and "\<And>i. i < j \<Longrightarrow> \<not> occurs_at i pat xs"
  shows "substitute pat new xs = take j xs @ new @ substitute pat new (drop (j + length pat) xs)"
  using assms(2,3)
proof (induction j arbitrary: xs)
  case 0
  then have "take (length pat) xs = pat" by (simp add: occurs_at_def)
  moreover from this assms(1) have "xs \<noteq> []" by auto
  ultimately show ?case using assms(1) by (subst substitute.simps) simp
next
  case (Suc j)
  from occurs_at_length [OF Suc.prems(1) assms(1)] obtain x xs' where xs: "xs = x # xs'" by (cases xs) auto
  have "\<not> occurs_at 0 pat xs" using Suc.prems(2) by blast
  then have "take (length pat) xs \<noteq> pat" by (simp add: occurs_at_def)
  then have "substitute pat new xs = x # substitute pat new xs'"
    using assms(1) xs by (subst substitute.simps) simp
  moreover have "occurs_at i pat xs' \<longleftrightarrow> occurs_at (Suc i) pat xs" for i by (simp add: occurs_at_def xs)
  ultimately show ?case using Suc.IH [of xs'] Suc.prems by (simp add: xs)
qed

lemma substitute_none:
  assumes "\<And>i. \<not> occurs_at i pat xs"
  shows "substitute pat new xs = xs"
  using assms
proof (induction xs)
  case (Cons x xs)
  have "\<not> occurs_at i pat xs" for i using Cons.prems [of "Suc i"] by (simp add: occurs_at_def)
  moreover have "take (length pat) (x # xs) \<noteq> pat" using Cons.prems [of 0] by (simp add: occurs_at_def)
  ultimately show ?case using Cons.IH by (subst substitute.simps) simp
qed (simp add: substitute.simps)

lemma replace_substitutes:
  assumes "length address = 16" and "hd mv_addr \<notin> set address" and "i \<le> length buffer"
  shows "replace_loop address i buffer = Some (take i buffer @ substitute mv_addr address (drop i buffer))"
  using assms(3)
proof (induction "2 * (length buffer - i) + of_bool (occurs_at i mv_addr buffer)" arbitrary: i buffer rule: less_induct)
  case less
  have other: "address \<noteq> mv_addr" using assms(2) by (auto simp: mv_addr_def)
  show ?case
  proof (cases "search (drop i buffer) mv_addr = length (drop i buffer)")
    case True
    then have "substitute mv_addr address (drop i buffer) = drop i buffer"
      using substitute_none search_end [OF mv_addr_nonempty] by blast
    with replace_end [OF True less.prems] show ?thesis by simp
  next
    case False
    then have found: "search (drop i buffer) mv_addr < length (drop i buffer)"
      using search_le [of "drop i buffer" mv_addr] by linarith
    define k where "k = search (drop i buffer) mv_addr"
    define j where "j = i + k"
    note step = replace_step(1) [OF found less.prems, of address, folded k_def, folded j_def]
      replace_step(2-5) [OF found less.prems, folded k_def, folded j_def]
    let ?buffer = "copy_at j address buffer"
    have len: "length ?buffer = length buffer" using step(4) assms(1) by (simp add: length_copy_at)
    have "\<not> occurs_at j mv_addr ?buffer"
      using assms(1) other step(2) by (simp add: occurs_at_def drop_copy_at mv_addr_length)
    moreover have "i < j \<or> occurs_at i mv_addr buffer" using step(3,5) by (cases "i = j") auto
    ultimately have "2 * (length ?buffer - j) + of_bool (occurs_at j mv_addr ?buffer) <
        2 * (length buffer - i) + of_bool (occurs_at i mv_addr buffer)"
      using step(2,5) len by auto
    from less.hyps [OF this] have "replace_loop address j ?buffer =
        Some (take j ?buffer @ substitute mv_addr address (drop j ?buffer))" using step(2) len by simp
    also have "drop j ?buffer = address @ drop (j + 16) buffer" using step(2) assms(1) by (simp add: drop_copy_at)
    also have "substitute mv_addr address (address @ drop (j + 16) buffer) = address @ substitute mv_addr address (drop (j + 16) buffer)"
      by (rule substitute_skip [OF mv_addr_nonempty assms(2)])
    also have "take j ?buffer = take i buffer @ take k (drop i buffer)"
      using step(2) by (simp add: copy_at_def j_def take_add)
    finally have "replace_loop address j ?buffer =
      Some (take i buffer @ take k (drop i buffer) @ address @ substitute mv_addr address (drop (j + 16) buffer))" by simp
    moreover have "substitute mv_addr address (drop i buffer) =
        take k (drop i buffer) @ address @ substitute mv_addr address (drop (k + 16) (drop i buffer))"
      using substitute_found [OF mv_addr_nonempty search_found [OF found] search_least, of address]
      by (simp add: k_def mv_addr_length)
    ultimately show ?thesis using step(1) by (simp add: j_def add.assoc add.commute)
  qed
qed

text \<open>What stands where no new byte is, stood there before.\<close>

lemma substitute_cases:
  assumes "pat \<noteq> []" and "xs \<noteq> []"
  obtains "take (length pat) xs = pat" "substitute pat new xs = new @ substitute pat new (drop (length pat) xs)"
  | "take (length pat) xs \<noteq> pat" "substitute pat new xs = hd xs # substitute pat new (tl xs)"
  using assms by (cases "take (length pat) xs = pat") (simp_all add: substitute.simps [of pat new xs])

lemma substitute_old:
  assumes "pat \<noteq> []" and "new \<noteq> []" and "set (take n (substitute pat new xs)) \<inter> set new = {}"
  shows "take n (substitute pat new xs) = take n xs"
  using assms(3)
proof (induction n arbitrary: xs)
  case (Suc n)
  show ?case
  proof (cases xs)
    case (Cons x xs')
    then have nonempty: "xs \<noteq> []" by simp
    show ?thesis
    proof (cases rule: substitute_cases [OF assms(1) nonempty, where new = new])
      case 1
      obtain a new' where "new = a # new'" using assms(2) by (cases new) auto
      then have "a \<in> set (take (Suc n) (substitute pat new xs))" "a \<in> set new" unfolding 1(2) by simp_all
      with Suc.prems show ?thesis by blast
    next
      case 2
      then have "set (take n (substitute pat new xs')) \<inter> set new = {}" using Suc.prems by (simp add: Cons)
      with Suc.IH 2 show ?thesis by (simp add: Cons)
    qed
  qed (simp add: substitute.simps)
qed simp

lemma substitute_clean:
  assumes "pat \<noteq> []" and "new \<noteq> []" and "set new \<inter> set pat = {}"
  shows "\<not> occurs_at i pat (substitute pat new xs)"
  using assms
proof (induction pat new xs arbitrary: i rule: substitute.induct)
  case (1 pat new xs)
  show ?case
  proof (cases "xs = []")
    case True
    then show ?thesis using 1(3) by (simp add: substitute.simps occurs_at_def)
  next
    case nonempty: False
    show ?thesis
    proof (cases "take (length pat) xs = pat")
      case True
      then have eq: "substitute pat new xs = new @ substitute pat new (drop (length pat) xs)"
        using 1(3) nonempty by (subst substitute.simps) simp
      show ?thesis
      proof (cases "i < length new")
        case True
        show ?thesis
        proof
          assume "occurs_at i pat (substitute pat new xs)"
          then have pat: "pat = take (length pat) (drop i new @ substitute pat new (drop (length pat) xs))"
            using True by (simp add: occurs_at_def eq)
          obtain x rest where drop: "drop i new = x # rest" using True by (cases "drop i new") auto
          then have "x \<in> set new" by (metis in_set_dropD list.set_intros(1))
          moreover have "x \<in> set pat" using pat drop 1(3) by (metis append_Cons take_Suc_Cons list.set_intros(1) length_Suc_conv neq_Nil_conv)
          ultimately show False using 1(5) by blast
        qed
      next
        case False
        then show ?thesis
          using 1(1) [of "i - length new"] True nonempty 1(3-5) by (simp add: eq occurs_at_def)
      qed
    next
      case other: False
      then have eq: "substitute pat new xs = hd xs # substitute pat new (tl xs)"
        using 1(3) nonempty by (subst substitute.simps) simp
      show ?thesis
      proof (cases i)
        case 0
        show ?thesis
        proof
          assume "occurs_at i pat (substitute pat new xs)"
          then have pat: "take (length pat) (substitute pat new xs) = pat" by (simp add: occurs_at_def 0)
          with substitute_old [OF 1(3,4), where n = "length pat" and xs = xs] 1(5) have "take (length pat) xs = pat" by (simp add: Int_commute)
          with other show False by simp
        qed
      next
        case (Suc k)
        then show ?thesis using 1(2) [of k] other nonempty 1(3-5) by (simp add: eq occurs_at_def)
      qed
    qed
  qed
qed

section \<open>Text of bytes\<close>

lemma signed_char:
  fixes v :: u8
  shows "unat (scast v :: u32) = (if v < 0x80 then unat v else 2 ^ 32 - 256 + unat v)"
proof -
  have n: "unat (scast v :: u32) = nat (sint v mod 2 ^ 32)"
    unfolding unat_eq_nat_uint scast_eq uint_word_of_int by simp
  have bounds: "0 \<le> uint v" "uint v < 256" using uint_bounded [of v] by simp_all
  show ?thesis
  proof (cases "v < 0x80")
    case True
    then have "sint v = uint v"
      unfolding sint_uint by (intro signed_take_bit_int_eq_self order_trans [OF _ uint_ge_0]) (simp_all add: word_less_def)
    moreover have "uint v mod 2 ^ 32 = uint v" using bounds by (intro mod_pos_pos_trivial) simp_all
    ultimately show ?thesis using True n by simp
  next
    case False
    then have big: "128 \<le> uint v" by (simp add: word_less_def)
    have mod: "uint v = sint v mod 256" using uint_sint [of v] by (simp add: take_bit_eq_mod)
    have range: "sint v < 128" "- 128 \<le> sint v" using sint_lt [of v] sint_ge [of v] by simp_all
    have neg: "sint v < 0"
    proof (rule ccontr)
      assume "\<not> sint v < 0"
      with mod range(1) have "uint v = sint v" by simp
      with big range(1) show False by simp
    qed
    have "uint v = (sint v + 256) mod 256" using mod by simp
    also have "\<dots> = sint v + 256" using range(2) neg by (intro mod_pos_pos_trivial) simp_all
    finally have s: "sint v = uint v - 256" by simp
    have "sint v mod 2 ^ 32 = (sint v + 2 ^ 32) mod 2 ^ 32" by simp
    also have "\<dots> = sint v + 2 ^ 32" using range(2) neg by (intro mod_pos_pos_trivial) simp_all
    finally have "unat (scast v :: u32) = nat (uint v + (2 ^ 32 - 256))" unfolding n s by simp
    also have "\<dots> = 2 ^ 32 - 256 + unat v" using bounds by (subst nat_add_distrib) simp_all
    finally show ?thesis using False by simp
  qed
qed

lemma tx_char_ascii: "v < 0x80 \<Longrightarrow> tx_char v = [hex_digit (unat v div 16), hex_digit (unat v mod 16)]"
  using unat_u8_less [of v] by (simp add: tx_char_def signed_char Let_def)

lemma tx_char_other: "\<not> v < 0x80 \<Longrightarrow> length (tx_char v) = 8"
  by (simp add: tx_char_def signed_char Let_def)

lemma length_tx_chars: "2 * length data \<le> length (concat (map tx_char data))"
proof (induction data)
  case (Cons v data)
  then show ?case by (cases "v < 0x80") (simp_all add: tx_char_ascii tx_char_other)
qed simp

lemma tx_chars_hex: "concat (map tx_char data) = bytes_to_hex data \<longleftrightarrow> list_all (\<lambda>v. v < 0x80) data"
proof (induction data)
  case (Cons v data)
  show ?case
  proof (cases "v < 0x80")
    case True
    with Cons show ?thesis by (simp add: tx_char_ascii bytes_to_hex_def)
  next
    case False
    have "length (bytes_to_hex data) = 2 * length data" by (induction data) (simp_all add: bytes_to_hex_def)
    then have "length (tx_char v @ concat (map tx_char data)) \<noteq> length (bytes_to_hex (v # data))"
      using False length_tx_chars [of data] by (simp add: tx_char_other bytes_to_hex_def)
    then have "tx_char v @ concat (map tx_char data) \<noteq> bytes_to_hex (v # data)" by metis
    with False show ?thesis by simp
  qed
qed (simp add: bytes_to_hex_def)

lemma tx_vec_data_byte_text: "tx_vec_data data = byte_text data \<longleftrightarrow> list_all (\<lambda>v. v < 0x80) data"
  by (simp add: tx_vec_data_def byte_text_def tx_chars_hex)

end
