(* ===== verification/Exchange_V1.thy ===== *)
theory Exchange_V1
  imports Native_Client
begin

text \<open>
  The exchange and the bank over the first client (\<open>ExchangeImp\<close> and \<open>BankImp\<close> in \<open>src/cpp/sdk/src/violas_sdk.cpp\<close>):
  what theory \<open>Exchange\<close> models in its later form. The objects only hold the path of the scripts. Arguments are text, the
  administrator is the association account, and the search for a swap path is the same (\<open>swap_path\<close>).
\<close>

section \<open>The exchange\<close>

definition exchange1_deploy :: "'w native \<Rightarrow> cstring \<Rightarrow> (native_accounts \<times> 'w, unit) eff" where
  "exchange1_deploy nv path =
     eff_bind (native_publish_module nv ASSOCIATION_ID (path @ str ''exdep.mv'')) (\<lambda>_.
     eff_bind (native_publish_module nv ASSOCIATION_ID (path @ str ''exchange.mv'')) (\<lambda>_.
     native_execute_script nv ASSOCIATION_ID (path @ str ''initialize.mv'') []))"

definition exchange1_add_currency :: "'w native \<Rightarrow> cstring \<Rightarrow> cstring \<Rightarrow> (native_accounts \<times> 'w, unit) eff" where
  "exchange1_add_currency nv path currency_code =
     native_execute_script_tag nv (make_currency_tag currency_code) ASSOCIATION_ID (path @ str ''add_currency.mv'') []"

definition exchange1_get_currencies ::
    "'w native \<Rightarrow> exchange_json \<Rightarrow> Address \<Rightarrow> (native_accounts \<times> 'w, cstring list) eff" where
  "exchange1_get_currencies nv js address =
     eff_bind (read_or_throw ''failed to get the currencies of Exchange'' (native_read_text nv (Native_exchange_currencies address))) (\<lambda>currencies.
     eff_bind (eff_lift (json_currency_codes js currencies)) (\<lambda>currency_codes.
     case currency_codes of
       None \<Rightarrow> eff_throw (Runtime_error ''The Exchange currency codes are empty'')
     | Some codes \<Rightarrow> eff_return (map (map word_of_int) codes)))"

definition exchange1_get_reserves :: "'w native \<Rightarrow> Address \<Rightarrow> (native_accounts \<times> 'w, cstring) eff" where
  "exchange1_get_reserves nv address =
     read_or_throw ''failed to get the reserves of Exchange'' (native_read_text nv (Native_exchange_reserves address))"

definition exchange1_get_liquidity_balance :: "'w native \<Rightarrow> Address \<Rightarrow> (native_accounts \<times> 'w, cstring) eff" where
  "exchange1_get_liquidity_balance nv address =
     read_or_throw ''failed to get the liquidity balance'' (native_read_text nv (Native_liquidity_balance address))"

definition exchange1_add_liquidity ::
    "'w native \<Rightarrow> cstring \<Rightarrow> u64 \<Rightarrow> LiquidityInfo \<Rightarrow> LiquidityInfo \<Rightarrow> (native_accounts \<times> 'w, unit) eff" where
  "exchange1_add_liquidity nv path account_index first second =
     native_execute_script_ex nv
       [make_currency_tag (liquidity_currency_code first), make_currency_tag (liquidity_currency_code second)]
       account_index (path @ str ''add_liquidity.mv'')
       [dec (unat (desired_amount first)), dec (unat (desired_amount second)), dec (unat (min_amount first)), dec (unat (min_amount second))]"

definition exchange1_remove_liquidity ::
    "'w native \<Rightarrow> cstring \<Rightarrow> u64 \<Rightarrow> u64 \<Rightarrow> cstring \<Rightarrow> u64 \<Rightarrow> cstring \<Rightarrow> u64 \<Rightarrow> (native_accounts \<times> 'w, unit) eff" where
  "exchange1_remove_liquidity nv path account_index liquidity_amount currency_code_a a_acceptable_min_amount
       currency_code_b b_acceptable_min_amount =
     native_execute_script_ex nv [make_currency_tag currency_code_a, make_currency_tag currency_code_b]
       account_index (path @ str ''remove_liquidity.mv'')
       [dec (unat liquidity_amount), dec (unat a_acceptable_min_amount), dec (unat b_acceptable_min_amount)]"

text \<open>A walk that does not end keeps the caller for ever.\<close>

definition exchange1_find_swap_path ::
    "'w native \<Rightarrow> exchange_json \<Rightarrow> (nat \<Rightarrow> vertex list \<Rightarrow> nat) \<Rightarrow> cstring \<Rightarrow> u64 \<Rightarrow> cstring \<Rightarrow> (native_accounts \<times> 'w, u8 list) eff" where
  "exchange1_find_swap_path nv js tie currency_code_a currency_a_amount currency_code_b =
     eff_bind (exchange1_get_currencies nv js ASSOCIATION_ADDRESS) (\<lambda>currency_codes.
     eff_bind (exchange1_get_reserves nv ASSOCIATION_ADDRESS) (\<lambda>text'.
     eff_bind (eff_lift (json_reserves js text')) (\<lambda>reserves.
     case swap_path tie reserves (currency_index currency_codes currency_code_a) currency_a_amount
            (currency_index currency_codes currency_code_b) of
       None \<Rightarrow> eff_throw Never_resumed
     | Some r \<Rightarrow> eff_lift r)))"

definition exchange1_swap ::
    "'w native \<Rightarrow> exchange_json \<Rightarrow> (nat \<Rightarrow> vertex list \<Rightarrow> nat) \<Rightarrow> cstring \<Rightarrow> u64 \<Rightarrow> Address \<Rightarrow> cstring \<Rightarrow> u64 \<Rightarrow> cstring \<Rightarrow> u64 \<Rightarrow>
     (native_accounts \<times> 'w, unit) eff" where
  "exchange1_swap nv js tie path account_index receiver currency_code_a amount_a currency_code_b b_acceptable_min_amount =
     eff_bind (exchange1_find_swap_path nv js tie currency_code_a amount_a currency_code_b) (\<lambda>way.
     execute_script_json nv (path @ str ''swap.mv'') account_index [make_currency_tag currency_code_a, make_currency_tag currency_code_b]
       [Arg_Address receiver, Arg_U64 amount_a, Arg_U64 b_acceptable_min_amount, Arg_Bytes way, Arg_Bytes []])"

section \<open>The bank\<close>

definition bank1_deploy :: "'w native \<Rightarrow> cstring \<Rightarrow> (native_accounts \<times> 'w, unit) eff" where
  "bank1_deploy nv path = native_publish_module nv ASSOCIATION_ID (path @ str ''bank.mv'')"

definition bank1_publish :: "'w native \<Rightarrow> cstring \<Rightarrow> u64 \<Rightarrow> (native_accounts \<times> 'w, unit) eff" where
  "bank1_publish nv path account_index = execute_script_json nv (path @ str ''publish.mv'') account_index [] [Arg_Bytes [0]]"

definition bank1_add_currency ::
    "'w native \<Rightarrow> cstring \<Rightarrow> cstring \<Rightarrow> Address \<Rightarrow> u64 \<Rightarrow> u64 \<Rightarrow> u64 \<Rightarrow> u64 \<Rightarrow> u64 \<Rightarrow> (native_accounts \<times> 'w, unit) eff" where
  "bank1_add_currency nv path currency_code owner collateral_factor base_rate rate_multiplier rate_jump_multiplier rate_kink =
     execute_script_json nv (path @ str ''register_libra_token.mv'') ASSOCIATION_ID [make_currency_tag currency_code]
       [Arg_Address owner, Arg_U64 collateral_factor, Arg_U64 base_rate, Arg_U64 rate_multiplier, Arg_U64 rate_jump_multiplier,
        Arg_U64 rate_kink, Arg_Bytes []]"

definition bank1_update_currency_price :: "'w native \<Rightarrow> cstring \<Rightarrow> cstring \<Rightarrow> u64 \<Rightarrow> (native_accounts \<times> 'w, unit) eff" where
  "bank1_update_currency_price nv path currency_code price =
     execute_script_json nv (path @ str ''update_price.mv'') ASSOCIATION_ID [make_currency_tag currency_code] [Arg_U64 price]"

text \<open>A script for one currency and one amount, with or without data.\<close>

definition bank1_amount_script ::
    "'w native \<Rightarrow> cstring \<Rightarrow> string \<Rightarrow> script_arg list \<Rightarrow> u64 \<Rightarrow> cstring \<Rightarrow> u64 \<Rightarrow> (native_accounts \<times> 'w, unit) eff" where
  "bank1_amount_script nv path script data account_index currency_code amount' =
     execute_script_json nv (path @ str script) account_index [make_currency_tag currency_code] (Arg_U64 amount' # data)"

definition bank1_enter :: "'w native \<Rightarrow> cstring \<Rightarrow> u64 \<Rightarrow> cstring \<Rightarrow> u64 \<Rightarrow> (native_accounts \<times> 'w, unit) eff" where
  "bank1_enter nv path = bank1_amount_script nv path ''enter_bank.mv'' []"

definition bank1_exit :: "'w native \<Rightarrow> cstring \<Rightarrow> u64 \<Rightarrow> cstring \<Rightarrow> u64 \<Rightarrow> (native_accounts \<times> 'w, unit) eff" where
  "bank1_exit nv path = bank1_amount_script nv path ''exit_bank.mv'' []"

definition bank1_lock :: "'w native \<Rightarrow> cstring \<Rightarrow> u64 \<Rightarrow> cstring \<Rightarrow> u64 \<Rightarrow> (native_accounts \<times> 'w, unit) eff" where
  "bank1_lock nv path = bank1_amount_script nv path ''lock.mv'' [Arg_Bytes []]"

definition bank1_redeem :: "'w native \<Rightarrow> cstring \<Rightarrow> u64 \<Rightarrow> cstring \<Rightarrow> u64 \<Rightarrow> (native_accounts \<times> 'w, unit) eff" where
  "bank1_redeem nv path = bank1_amount_script nv path ''redeem.mv'' [Arg_Bytes []]"

definition bank1_borrow :: "'w native \<Rightarrow> cstring \<Rightarrow> u64 \<Rightarrow> cstring \<Rightarrow> u64 \<Rightarrow> (native_accounts \<times> 'w, unit) eff" where
  "bank1_borrow nv path = bank1_amount_script nv path ''borrow.mv'' [Arg_Bytes []]"

definition bank1_repay_borrow :: "'w native \<Rightarrow> cstring \<Rightarrow> u64 \<Rightarrow> cstring \<Rightarrow> u64 \<Rightarrow> (native_accounts \<times> 'w, unit) eff" where
  "bank1_repay_borrow nv path = bank1_amount_script nv path ''repay_borrow.mv'' [Arg_Bytes []]"

definition bank1_liquidate_borrow ::
    "'w native \<Rightarrow> cstring \<Rightarrow> u64 \<Rightarrow> cstring \<Rightarrow> Address \<Rightarrow> u64 \<Rightarrow> cstring \<Rightarrow> (native_accounts \<times> 'w, unit) eff" where
  "bank1_liquidate_borrow nv path account_index borrowed_currency_code liquidated_user_addr amount' liquidated_currency_code =
     execute_script_json nv (path @ str ''liquidate_borrow.mv'') account_index
       [make_currency_tag borrowed_currency_code, make_currency_tag liquidated_currency_code]
       [Arg_Address liquidated_user_addr, Arg_U64 amount', Arg_Bytes []]"

section \<open>Swaps\<close>

text \<open>
  What the search finds is what is asked of the chain: with the codes and the reserves as the library answers, one call,
  whose fourth argument is the way as text of bytes.
\<close>

lemma exchange1_swap_call:
  assumes codes: "native_read_text nv (Native_exchange_currencies ASSOCIATION_ADDRESS) w = (Some text1, w1)"
      "json_currency_codes js text1 = Inr (Some codes)"
    and reserves: "native_read_text nv (Native_exchange_reserves ASSOCIATION_ADDRESS) w1 = (Some text2, w2)"
      "json_reserves js text2 = Inr rs"
    and way: "swap_path tie rs (currency_index (map (map word_of_int) codes) a) v (currency_index (map (map word_of_int) codes) b) =
      Some (Inr way)"
    and do': "native_do nv (Native_execute_script_ex (map (\<lambda>c. from_type_tag (make_currency_tag c)) [a, b]) i (c_str (path @ str ''swap.mv''))
      (map c_str [bytes_to_hex receiver, dec (unat v), dec (unat least), byte_text way, byte_text []])) w2 = (ret, w3)"
  shows "exchange1_swap nv js tie path i receiver a v b least (accounts, w) =
    (if ret then Inr () else Inl (Runtime_error ''failed to execute script file''), (accounts, w3))"
  using assms
  by (simp add: exchange1_swap_def exchange1_find_swap_path_def exchange1_get_currencies_def exchange1_get_reserves_def
      read_or_throw_def execute_script_json_def native_execute_script_ex_def call_or_throw_def eff_bind_def eff_snd_def
      eff_lift_def eff_return_def)

end
