(* ===== verification/Spec2Isabelle.thy ===== *)
theory Spec2Isabelle
  imports Diem_Metadata Diem_Framework Coroutine Meta42_History Nft_Store_2_Main Nft_Store_Main Exchange Command Nft_V1 Samples Diem_Equality Diem_Alternatives Deployment Vls Meta42_Main Swap_Program Token_Manager Exchange_V1
begin

text \<open>
  A verification development for the C++ client SDK of the Violas blockchain (\<open>src/cpp\<close>).

  \<^bold>\<open>The program.\<close> A client of the chain builds a transaction, serializes it in Binary Canonical
  Serialization (BCS), signs the bytes and submits them; it queries the state of an account, which
  comes back as hexadecimal text of BCS data, and looks up a resource in it. The parts that carry
  this are
  \<^item> the BCS runtime of the framework: \<open>serde.hpp\<close>, \<open>binary.hpp\<close> and \<open>bcs.hpp\<close> under
    \<open>src/cpp/framework/src\<close>;
  \<^item> the data types of the chain, each with its serializer and deserializer: \<open>diem_types.hpp\<close>;
  \<^item> the builders of transaction payloads: \<open>diem_framework.cpp\<close>;
  \<^item> a second, independent BCS implementation in the SDK, which reads on-chain resources and
    events: \<open>src/cpp/sdk/include/bcs_serde.hpp\<close>;
  \<^item> the resources themselves: \<open>violas_client2.hpp\<close>, \<open>violas_client2.cpp\<close> and \<open>nft.hpp\<close>;
  \<^item> the conversions between bytes and text: \<open>utils.hpp\<close>;
  \<^item> the wallet, which derives the keys and addresses of accounts from a mnemonic: \<open>mnemonic.hpp\<close>,
    \<open>wallet.cpp\<close> and \<open>ed25519.cpp\<close> under \<open>src/cpp/sdk/src\<close>;
  \<^item> the JSON-RPC client, which asks the service: \<open>json_rpc.cpp\<close>;
  \<^item> the client, which joins wallet and service: it keeps a cache of accounts with their sequence
    numbers, signs, submits, and waits for the result: \<open>violas_client2.cpp\<close>;
  \<^item> the coroutine type of its awaitable operations: \<open>co_helper.hpp\<close>;
  \<^item> the clients of Move applications over it: tokens and their market (\<open>src/cpp/nft-store-2/src\<close>), the
    first market (\<open>src/cpp/nft-store/src\<close>), shared files (\<open>src/cpp/meta42-cli/src\<close>);
  \<^item> files under a password: \<open>ssl_aes.hpp\<close>;
  \<^item> a command line program over the market, which reads commands from a console (\<open>main.cpp\<close> of \<open>nft-store-2\<close>,
    \<open>console.cpp\<close>, \<open>argument.hpp\<close>);
  \<^item> the exchange and the bank over the client of the first generation: \<open>violas_sdk2.cpp\<close>;
  \<^item> programs over that client: the command program (\<open>src/cpp/command/src\<close>), the deployment of a test network
    (\<open>src/cpp/testnet/src\<close>), the distribution of VLS (\<open>src/cpp/vls/src\<close>), tokens and the first market
    (\<open>src/cpp/nft/src\<close>, \<open>src/cpp/nft-store/src\<close>);
  \<^item> programs over the later client: shared files (\<open>meta42-cli\<close>) and a variant of them (\<open>nft-cli\<close>);
  \<^item> the oldest client, over C functions of the Rust library, with its tokens, exchange and bank: \<open>violas_sdk.cpp\<close>.

  \<^bold>\<open>Theories, and what each models.\<close>
  \<^item> \<open>Prelude\<close>: integer types as words, exceptions (\<open>exn\<close>), the result type, steps and actions,
    and the generic lemmas. A C++ statement that may throw is a function from a state to
    \<open>exn + state\<close>; undefined behaviour is a value of \<open>exn\<close> too, so a theorem that a function
    returns also says that it stays clear of it.
  \<^item> \<open>Bcs_Doc\<close>: the abstract specification. A value is abstracted to a document; \<open>enc\<close> gives the
    canonical bytes, \<open>depth\<close> the container levels, \<open>fits\<close> the length limits.
  \<^item> \<open>Codec\<close>: the states of \<open>BinarySerializer\<close> and \<open>BinaryDeserializer\<close> as records, and the locale
    \<open>bcs_codec\<close>, the contract between a type and the wire format. Round trip, canonicity, prefix
    freedom and the classification of exceptions are proved once inside it.
  \<^item> \<open>Binary\<close> (\<open>binary.hpp\<close>): one definition per member function; integers shift by shift.
  \<^item> \<open>Bcs\<close> (\<open>bcs.hpp\<close>): ULEB128, lengths, canonical order of map entries, whole messages.
  \<^item> \<open>Serde\<close> (\<open>serde.hpp\<close>): optional, vector, array, tuple, variant and map as combinators, each with
    a rule that builds the contract of the composite from those of its parts. \<open>Serde_Map\<close> proves
    the map case, as the locale \<open>map_codec\<close> over two codecs and a key order.
  \<^item> \<open>Diem_Metadata\<close>, \<open>Diem_Account\<close>, \<open>Diem_Move\<close>, \<open>Diem_Transaction\<close> (\<open>diem_types.hpp\<close>): every
    struct as a record, every variant as a datatype, with its \<open>serialize\<close>, \<open>deserialize\<close>,
    \<open>bcsSerialize\<close>, \<open>bcsDeserialize\<close> and an interpretation of \<open>bcs_codec\<close> on them. A definition
    carries the C++ name of the type as a suffix (\<open>serialize_RawTransaction\<close>).
  \<^item> \<open>Diem_Framework\<close> (\<open>diem_framework.cpp\<close>): the payload builders. The compiled bytecode of the script
    builders is copied byte for byte.
  \<^item> \<open>Utils\<close> (\<open>utils.hpp\<close>): hexadecimal text and trimming.
  \<^item> \<open>Bcs_Serde\<close> (\<open>bcs_serde.hpp\<close>): the class that reads and writes through one operator. The locale
    \<open>serde_field\<close> is its contract over documents; \<open>serde_agrees\<close> joins it with \<open>bcs_codec\<close>.
  \<^item> \<open>Sdk_Resource\<close>: event handles, resource paths, the state of an account, NFT resources, events.
  \<^item> \<open>Effects\<close>: operations that change a state and may throw, the state then being what the
    operation left of it; and the rules for what an operation preserves.
  \<^item> \<open>Mnemonic\<close> (\<open>mnemonic.hpp\<close>): the list of words, with \<open>std::lower_bound\<close> in it and the words of a stream.
  \<^item> \<open>Ed25519\<close> (\<open>ed25519.cpp\<close>): keys and signatures over a record of the functions of OpenSSL.
  \<^item> \<open>Wallet\<close> (\<open>wallet.cpp\<close>): mnemonics and entropy bit by bit, seeds, keys, accounts; \<open>wallet_history\<close>
    are the states a wallet can reach, \<open>wallet_ok\<close> is the invariant of them.
  \<^item> \<open>Json_Rpc\<close> (\<open>json_rpc.cpp\<close>): the text of each request, the reading of each answer with its errors, and
    the record \<open>rpc_client\<close> of the operations that \<open>Client_create\<close> makes of a transport.
  \<^item> \<open>Client2\<close> (\<open>violas_client2.cpp\<close>): construction, accounts, signing, submission, polling, transactions
    with several signers. The locale \<open>submitter\<close> is the contract between a way to submit and the
    sequence numbers in the cache; \<open>client_history\<close> are the states a client can reach, \<open>client_ok\<close> is
    the invariant of them.
  \<^item> \<open>Client2_Framework\<close> (\<open>violas_client2.cpp\<close>, second half): modules, account states, events, and the
    administration of currencies and accounts.
  \<^item> \<open>Coroutine\<close> (\<open>co_helper.hpp\<close>): the promise of a task and its awaiter, one step per access to what they
    share, run by a schedule.
  \<^item> \<open>Nft_Token\<close> (\<open>nft/nft.cpp\<close>): script calls, and the operations and queries for tokens. The locale \<open>token\<close> is
    the contract of a type of tokens, interpreted for \<open>Portrait\<close>.
  \<^item> \<open>Nft_Store_2\<close> and \<open>Nft_Store\<close> (\<open>nft_store.cpp\<close> of both markets): orders and their events.
  \<^item> \<open>Meta42\<close> (\<open>meta42.cpp\<close>): shared tokens and the local table of their events. \<open>Meta42_History\<close>: the recursive
    SQL query over the table, as a step relation over its queue.
  \<^item> \<open>Ssl_Aes\<close> (\<open>ssl_aes.hpp\<close>): encryption, decryption and the commands for them.
  \<^item> \<open>Iostream\<close>: the formatted input of C++, for words, integers and (\<open>utils.hpp\<close>) byte arrays.
  \<^item> \<open>Shell\<close> (\<open>argument.hpp\<close>, \<open>console.cpp\<close>, \<open>main.cpp\<close>): options, console, the loop that runs commands, and what reads
    their parameters. The locale \<open>command_table\<close> is the contract between the commands and the loop.
  \<^item> \<open>Nft_Store_2_Main\<close> (\<open>nft-store-2/src/main.cpp\<close>): one definition per command, the tables of commands, which interpret
    \<open>command_table\<close>, and the program.
  \<^item> \<open>Swap_Path\<close> (\<open>violas_sdk2.cpp\<close>, \<open>find_swap_path\<close>): the search for the way of a swap, with its invariant \<open>search_ok\<close>.
    \<open>Exchange\<close>: the operations of exchange and bank.
  \<^item> \<open>Account_State_V1\<close> (\<open>violas_sdk2.hpp\<close>): tags, paths and account states of the first generation. \<open>Nft_V1\<close> (\<open>nft.cpp\<close>,
    \<open>nft/src/main.cpp\<close>): its tokens and the program over them. \<open>Nft_Store_Main\<close> (\<open>nft-store/src/main.cpp\<close>): the program over the
    first market, with a loop of its own (\<open>line_loop\<close> in \<open>Shell\<close>).
  \<^item> \<open>Command\<close> (\<open>command.cpp\<close>): the first-generation client as the calls and queries made of it (\<open>command_env\<close>), one
    definition per command, the table and the loop.
  \<^item> \<open>Deployment\<close> (\<open>deployment.cpp\<close>), \<open>Vls\<close> (\<open>vls.cpp\<close>), \<open>Swap_Program\<close> (\<open>violas_swap.cpp\<close>): programs over the same client. What a
    function asks of the client is described by \<open>adds\<close> over a client that records it (\<open>recording_client\<close>).
  \<^item> \<open>Resumption\<close> (\<open>co_helper.hpp\<close>): coroutines that nobody waits for, as resumptions in a pool that a schedule runs.
    \<open>Meta42_Async\<close>: the awaitable operations of the client and of \<open>meta42.cpp\<close> as such coroutines, with the proof that they
    are the operations of \<open>Meta42\<close> when nothing comes between (\<open>co_run_meta\<close>, \<open>co_run_query\<close>), and what happens when
    two queries overlap (\<open>overlapping_queries_insert_twice\<close>). \<open>Meta42_Main\<close> (\<open>meta42-cli/src/main.cpp\<close>, \<open>nft-cli/src\<close>): the commands
    that start them (\<open>detached\<close>), and the programs. The locale \<open>client_invariant\<close> is what the commands need of a property of
    the client to keep it while coroutines run beside them.
  \<^item> \<open>Diem_Equality\<close> and \<open>Diem_Alternatives\<close> (\<open>diem_types.hpp\<close>): \<open>operator==\<close> of every type, and the alternatives of
    variants as messages of their own.
  \<^item> \<open>Native_Client\<close>, \<open>Token_Manager\<close>, \<open>Exchange_V1\<close> (\<open>violas_sdk.cpp\<close>): the oldest client over the record \<open>native\<close> of C functions,
    the replacement of addresses in compiled modules, and tokens, exchange and bank over it.
  \<^item> \<open>Samples\<close>: an instance of every parameter, a wallet and a client over it, for the witnesses.
  \<^item> this theory: the properties of the system, each over the definitions of the model.

  \<^bold>\<open>Parameters.\<close> Code that is not in the repository is an argument of the definitions that use it:
  OpenSSL (\<open>openssl\<close>), the HTTP client and the JSON values of the C++ REST SDK (\<open>http\<close>, \<open>json\<close>), clock,
  files and sleeping (\<open>env\<close>), the client of the first generation (\<open>rust_client\<close>, \<open>command_env\<close>, for tokens \<open>nft_client\<close>), the C
  functions of its library (\<open>native\<close>), the file system (\<open>files\<close>), the hash of passwords, and the JSON parser (\<open>exchange_json\<close>). The
  options that \<open>getopt\<close> finds and the lines that are typed are lists; a variable without initializer has an arbitrary
  value (\<open>uninit\<close>); of a floating-point word, what is left of the number times a million without its fraction (\<open>micro_coins\<close>,
  \<open>get_price\<close>, \<open>get_incentive\<close>), whose conversion to \<open>uint64_t\<close> is \<open>double_to_u64\<close>; and which of several least entries a priority queue gives first is an argument (\<open>tie\<close>). The state of the outside world is a type variable, passed through
  every operation that may see or change it; so are the local database (\<open>storage\<close>) and the block cipher
  (\<open>aes\<close>). The hypotheses on parameters state documented behaviour. \<open>openssl_ok\<close>: an ed25519 key signs, what
  it signed verifies with its public key, keys, hashes and signatures have their documented lengths,
  and key derivation succeeds. \<open>aes_ok\<close>: decryption of a block inverts its encryption. \<open>storage_ok\<close>: a row is
  inserted whole or not at all, and gets the next number. What a service answers (\<open>serves_resources\<close>,
  \<open>serves_log\<close>) is a hypothesis of the properties about queries.

  \<^bold>\<open>What the properties show.\<close> C1 to C6 and C26 are about messages as a whole: transactions round-trip, are
  not malleable, are identified by the bytes that are signed, refine the abstract specification in
  every state of the serializer, can be read from a stream, raise only the documented exceptions, and are
  well-typed when they are read; C33 and C34 add that \<open>operator==\<close> compares as the messages do, and that alternatives of
  variants have messages of their own. C7 is about the recursive types, C8 and C9 are about strings and maps. C10
  compares the SDK's implementation with the framework's, C31 the tags of the first generation. C11 goes from the text of
  an account to its resources. C12 is about payment payloads. C13 to C15 are about
  wallets: recovery from the exported mnemonic, what is not checked in a mnemonic, and accounts that
  depend on the mnemonic alone. C16 to C20 are about the client: every signature verifies, sequence
  numbers are consecutive, waiting for a transaction ends and confirms exactly what was executed, the
  service can decode what was submitted, and transactions with two signers. C21 is about awaiting a
  task. C22 and C23 are about tokens and their market: what an order that was made, revoked or traded
  has done, and what the queries answer. C24 says when the recursive query over shared tokens ends. C25 is about
  files under a password. C27, C30, C32 and C35 are about programs with a console: whatever is typed, the client stays
  within its histories, the session ends as it should, every line is carried out and remembered in its turn, and the table
  of shared tokens has only events of the chain, and is a prefix of its log if the user waits for the coroutines. C28 and C29 are about swaps: the search finds the way that gives most, and where it does not. C36 to C39 are about
  deployment and VLS: when minting ends, what the password protects, what is asked of the chain in which order, and when
  the menu ends. C40 is about addresses in compiled modules.

  Some of them pin down behaviour the code does not mean to have: the UTF-8 check (C8), the words and checksums of
  mnemonics (C14), the sequence number after a transaction with two signers (C20), the
  race of a task with its awaiter (C21), the recursion of the history
  (C24), the salt and the flags of encrypted files (C25), swaps without a path and reserves that are too small (C29), the end
  of the input (C30, C36, C39), the path of resources with primitive parameters (C31), a transaction that is default
  constructed (C32), functions without a password (C37), a replacement that never ends (C40). Further theorems stand beside them
  without a number: the round trips of integers, hexadecimal text, tags and token information, the canonical form of maps, the
  evaluation order of tuples, the limits and liberties of \<open>BcsSerde\<close>, the equations of the recursive types, trailing bytes, the
  guards of the hexadecimal parsers, the sequence number in a request, the bound and the index of variants, payment
  arguments, the forgotten member of an event, queries of tokens and orders with the handle of traded ones, the completed table of shared tokens, the line
  that trades, arguments that are missing or misread.

  \<^bold>\<open>Fuel and bounds.\<close> Only the mutual recursion of \<open>TypeTag\<close> and \<open>StructTag\<close> uses fuel: one more
  than the remaining container depth, which each level lowers by one; \<open>type_tag_recursion\<close> shows that the equations
  of the source hold for it, so the fuel never decides a result. \<open>history_fifo\<close> has fuel because the query it
  runs may not end; C24 says when some fuel is enough. The walk back over a swap path, the loop that mints, the menu of the
  program for VLS and the replacement of addresses are \<open>partial_function\<close>s in the option type; C28, C29, C36, C39 and C40 say
  when they have a value. All other loops are \<open>fun\<close> or
  \<open>function\<close> with a termination proof. Container depths and sizes of the source are \<open>size_t\<close>: the depth
  is a 64-bit word; the length of a vector is a \<open>nat\<close> and is compared with the 2^31-1 limit
  before it is narrowed to 32 bits.

  \<^bold>\<open>Coroutines.\<close> An awaitable operation of the SDK is modelled as the sequence of its steps, with its
  own transport (\<open>rpc_await\<close>): where the source never resumes the caller, because the request failed,
  the model throws \<open>Never_resumed\<close>. The hand-over between a task and its awaiter is a model of its own
  (\<open>Coroutine\<close>); C21 shows under which condition it behaves as that sequence. Where a program does not wait, what comes
  after a suspension is a resumption (\<open>Resumption\<close>), which reads client, world and database when it goes on: an entry of the
  schedule (\<open>turns\<close>) says which members of the pool go on before the next command, each up to its next suspension, or that
  the user waits until they have ended. What a coroutine does between two suspensions is one step, and so is a
  command of the console; coroutines that go on while the console is in the middle of a command, or beside each other on two
  threads at the same time, are not modelled.

  \<^bold>\<open>What is not modelled.\<close> The cryptography itself, the transport, the database, the file system and the Rust library
  (parameters, above); what programs print, and the dialogue in which the members of a new token are typed; the
  operations of the client of \<open>nft-cli\<close> that no command calls, which are copies of those of \<open>meta42.cpp\<close>;
  and the bindings for Java, Python and Android. Floating-point values are not: \<open>serialize_f32\<close> and
  its relatives always throw and ignore their argument.
\<close>

section \<open>Sample transaction\<close>

text \<open>A concrete signed transaction, at which the properties of messages are applied.\<close>

definition sample_raw_transaction :: RawTransaction where
  "sample_raw_transaction = \<lparr>
     RawTransaction_sender = \<lparr>AccountAddress_value = replicate 16 7\<rparr>,
     RawTransaction_sequence_number = 3,
     RawTransaction_payload = TransactionPayload_Module \<lparr>Module_code = [1, 2]\<rparr>,
     RawTransaction_max_gas_amount = 1000000,
     RawTransaction_gas_unit_price = 0,
     RawTransaction_gas_currency_code = str ''VLS'',
     RawTransaction_expiration_timestamp_secs = 100,
     RawTransaction_chain_id = \<lparr>ChainId_value = 4\<rparr>\<rparr>"

definition sample_signed_transaction :: SignedTransaction where
  "sample_signed_transaction = \<lparr>
     SignedTransaction_raw_txn = sample_raw_transaction,
     SignedTransaction_authenticator = TransactionAuthenticator_Ed25519
       \<lparr>Ed25519PublicKey_value = replicate 32 1\<rparr> \<lparr>Ed25519Signature_value = replicate 64 2\<rparr>\<rparr>"

lemma VLS_bytes: "str ''VLS'' = [0x56, 0x4C, 0x53]"
  by (simp add: str_def)

lemma VLS_utf8: "utf8_shaped [0x56, 0x4C, 0x53]"
  by (simp add: is_valid_utf8_iff [symmetric] is_valid_utf8_def)

lemmas sample_defs = sample_signed_transaction_def sample_raw_transaction_def doc_SignedTransaction_def
  doc_RawTransaction_def doc_AccountAddress_def doc_array_def doc_TransactionPayload_def doc_Module_def
  doc_vector_def doc_u8_def doc_word_def doc_ChainId_def doc_TransactionAuthenticator_def
  doc_Ed25519PublicKey_def doc_Ed25519Signature_def VLS_bytes VLS_utf8 list_all_iff max_length_def max_list_le_iff

lemma sample_raw_ok:
  "typed (doc_RawTransaction sample_raw_transaction)" "fits (doc_RawTransaction sample_raw_transaction)"
  "depth (doc_RawTransaction sample_raw_transaction) \<le> 400"
  by (simp_all add: sample_defs)

lemma sample_signed_ok:
  "typed (doc_SignedTransaction sample_signed_transaction)" "fits (doc_SignedTransaction sample_signed_transaction)"
  "depth (doc_SignedTransaction sample_signed_transaction) \<le> 400"
  by (simp_all add: sample_defs)

lemma sample_raw_message:
  "bcsSerialize_RawTransaction sample_raw_transaction = Inr (enc (doc_RawTransaction sample_raw_transaction))"
  using sample_raw_ok by (simp add: bcsSerialize_RawTransaction_def RawTransaction_codec.bcsSerialize_iff)

lemma sample_signed_message:
  "bcsSerialize_SignedTransaction sample_signed_transaction =
     Inr (enc (doc_SignedTransaction sample_signed_transaction))"
  using sample_signed_ok by (simp add: bcsSerialize_SignedTransaction_def SignedTransaction_codec.bcsSerialize_iff)

section \<open>Transactions on the wire\<close>

text \<open>
  C1. A signed transaction that is serialized, with UTF-8 strings and full arrays, is
  deserialized to the same transaction.
\<close>

theorem signed_transaction_roundtrip:
  assumes "bcsSerialize_SignedTransaction t = Inr bs" and "typed (doc_SignedTransaction t)"
  shows "bcsDeserialize_SignedTransaction Left_to_right bs = Inr t"
  using assms unfolding bcsSerialize_SignedTransaction_def bcsDeserialize_SignedTransaction_def
  by (rule SignedTransaction_codec.message_roundtrip)

theorem signed_transaction_roundtrip_witness:
  "bcsSerialize_SignedTransaction sample_signed_transaction =
     Inr (enc (doc_SignedTransaction sample_signed_transaction)) \<and>
   bcsDeserialize_SignedTransaction Left_to_right (enc (doc_SignedTransaction sample_signed_transaction)) =
     Inr sample_signed_transaction"
  using signed_transaction_roundtrip [OF sample_signed_message sample_signed_ok(1)] sample_signed_message by blast

text \<open>
  C2. Signed transactions are not malleable on the wire: whatever the deserializer accepts is
  exactly what the serializer writes for the transaction it returns, so no transaction has two
  accepted encodings.
\<close>

theorem signed_transaction_canonical:
  assumes "bcsDeserialize_SignedTransaction Left_to_right bs = Inr t"
  shows "bcsSerialize_SignedTransaction t = Inr bs"
  using assms unfolding bcsSerialize_SignedTransaction_def bcsDeserialize_SignedTransaction_def
  by (rule SignedTransaction_codec.message_canonical)

theorem signed_transaction_canonical_witness:
  "bcsSerialize_SignedTransaction sample_signed_transaction =
     Inr (enc (doc_SignedTransaction sample_signed_transaction))"
proof (rule signed_transaction_canonical)
  show "bcsDeserialize_SignedTransaction Left_to_right (enc (doc_SignedTransaction sample_signed_transaction)) =
      Inr sample_signed_transaction"
    using sample_signed_ok
    by (simp add: bcsDeserialize_SignedTransaction_def SignedTransaction_codec.bcsDeserialize_iff wf_doc_def)
qed

text \<open>
  C3. The bytes of a raw transaction, which are what is signed, identify it among the
  transactions whose strings are UTF-8 (and whose arrays have their full size, as those of C++
  do): two of these that are serialized to the same bytes are equal, so what is signed for one
  of them is never the signed message of another one.
\<close>

theorem signing_bytes_identify_transaction:
  assumes "bcsSerialize_RawTransaction t = Inr bs" and "bcsSerialize_RawTransaction u = Inr bs"
    and "typed (doc_RawTransaction t)" and "typed (doc_RawTransaction u)"
  shows "t = u"
  using assms unfolding bcsSerialize_RawTransaction_def by (rule RawTransaction_codec.message_injective)

theorem signing_bytes_identify_transaction_witness:
  "bcsSerialize_RawTransaction (sample_raw_transaction\<lparr>RawTransaction_sequence_number := 4\<rparr>) \<noteq>
     bcsSerialize_RawTransaction sample_raw_transaction"
proof
  let ?u = "sample_raw_transaction\<lparr>RawTransaction_sequence_number := 4\<rparr>"
  assume same: "bcsSerialize_RawTransaction ?u = bcsSerialize_RawTransaction sample_raw_transaction"
  have "typed (doc_RawTransaction ?u)" by (simp add: sample_defs)
  with signing_bytes_identify_transaction [of ?u _ sample_raw_transaction] same sample_raw_message sample_raw_ok(1)
  have "?u = sample_raw_transaction" by simp
  then show False by (simp add: sample_raw_transaction_def)
qed

text \<open>
  C4. In every state of the serializer, serializing a raw transaction succeeds exactly when its
  document fits (lengths up to 2^31-1) and the remaining container depth is enough, and then
  appends the canonical bytes of the document and restores the depth budget.
\<close>

theorem raw_transaction_refines_document:
  "serialize_RawTransaction t s = Inr s' \<longleftrightarrow>
     fits (doc_RawTransaction t) \<and>
     depth (doc_RawTransaction t) \<le> unat (container_depth_budget s) \<and>
     s' = s\<lparr>bytes := bytes s @ enc (doc_RawTransaction t)\<rparr>"
  unfolding RawTransaction_codec.ser_iff put_def ..

text \<open>
  C5. Transactions can follow one another in a buffer. For a ledger transaction whose strings
  are UTF-8 (and whose arrays have their full size), and a deserializer with at least the depth
  budget that the serializer had: what was appended for the transaction is read back from that
  position, whatever bytes follow, and the deserializer stops right behind it.
\<close>

theorem transaction_stream_read_back:
  assumes "serialize_Transaction t s = Inr s'" and "typed (doc_Transaction t)"
    and "de_bytes d = bytes s' @ rest" and "pos d = length (bytes s)"
    and "container_depth_budget s \<le> de_container_depth_budget d"
  shows "deserialize_Transaction Left_to_right d = Inr (t, d\<lparr>pos := length (bytes s')\<rparr>)"
proof -
  have le: "length (bytes s) \<le> length (bytes s')"
    using assms(1) by (auto simp: Transaction_codec.ser_iff)
  then have "drop (pos d) (de_bytes d) = drop (length (bytes s)) (bytes s') @ rest"
    using assms(3,4) by simp
  from Transaction_codec.read_back [OF assms(1,2) this assms(5)] le assms(4) show ?thesis
    by (simp add: advance_def)
qed

theorem transaction_stream_read_back_witness:
  "\<exists>s' d'. serialize_Transaction (Transaction_UserTransaction sample_signed_transaction) BcsSerializer = Inr s' \<and>
     deserialize_Transaction Left_to_right (BcsDeserializer (bytes s' @ [9])) =
       Inr (Transaction_UserTransaction sample_signed_transaction, d') \<and> pos d' = length (bytes s')"
proof -
  let ?t = "Transaction_UserTransaction sample_signed_transaction"
  have ok: "typed (doc_Transaction ?t)" "fits (doc_Transaction ?t)" "depth (doc_Transaction ?t) \<le> 500"
    using sample_signed_ok by (simp_all add: doc_Transaction_def)
  let ?s = "put (enc (doc_Transaction ?t)) BcsSerializer"
  have ser: "serialize_Transaction ?t BcsSerializer = Inr ?s"
    using ok by (simp add: Transaction_codec.ser_iff BcsSerializer_def BCS_MAX_CONTAINER_DEPTH_def)
  with transaction_stream_read_back [OF ser ok(1), of "BcsDeserializer (bytes ?s @ [9])" "[9]"]
  show ?thesis by (auto simp: BcsDeserializer_def BcsSerializer_def)
qed

text \<open>
  A message with anything appended is refused: if a byte string is accepted as a transaction, no
  proper extension of it is.
\<close>

theorem trailing_bytes_rejected:
  assumes "bcsDeserialize_Transaction Left_to_right bs = Inr t" and "rest \<noteq> []"
  shows "bcsDeserialize_Transaction Left_to_right (bs @ rest) =
    Inl (Deserialization_error ''Some input bytes were not read'')"
proof -
  have bs: "wf_doc (doc_Transaction t)" "depth (doc_Transaction t) \<le> 500" "bs = enc (doc_Transaction t)"
    using assms(1) by (auto simp: bcsDeserialize_Transaction_def Transaction_codec.bcsDeserialize_iff)
  then have "deserialize_Transaction Left_to_right (BcsDeserializer (bs @ rest)) =
      Inr (t, advance (length bs) (BcsDeserializer (bs @ rest)))"
    by (simp add: Transaction_codec.de_iff BcsDeserializer_def BCS_MAX_CONTAINER_DEPTH_def input_starts_prefix)
  with assms(2) show ?thesis
    by (simp add: bcsDeserialize_Transaction_def bcsDeserialize_def de_get_buffer_offset_def BcsDeserializer_def)
qed

theorem trailing_bytes_rejected_witness:
  "bcsDeserialize_Transaction Left_to_right
     (enc (doc_Transaction (Transaction_UserTransaction sample_signed_transaction)) @ [0]) =
   Inl (Deserialization_error ''Some input bytes were not read'')"
proof (rule trailing_bytes_rejected)
  show "bcsDeserialize_Transaction Left_to_right
      (enc (doc_Transaction (Transaction_UserTransaction sample_signed_transaction))) =
    Inr (Transaction_UserTransaction sample_signed_transaction)"
    using sample_signed_ok
    by (simp add: bcsDeserialize_Transaction_def Transaction_codec.bcsDeserialize_iff wf_doc_def doc_Transaction_def)
qed simp

text \<open>
  C6. Serializing a transaction throws nothing but serialization_error; deserializing one throws
  nothing but deserialization_error or the std::out_of_range of the variant dispatch.
\<close>

theorem codec_exceptions:
  "(\<forall>e. bcsSerialize_Transaction t = Inl e \<longrightarrow> (\<exists>m. e = Serialization_error m)) \<and>
   (\<forall>e. bcsDeserialize_Transaction Left_to_right bs = Inl e \<longrightarrow>
      (\<exists>m. e = Deserialization_error m \<or> e = Out_of_range m))"
proof (intro conjI allI impI)
  fix e
  assume "bcsSerialize_Transaction t = Inl e"
  then have "is_Serialization_error e"
    unfolding bcsSerialize_Transaction_def by (rule Transaction_codec.message_exn)
  then show "\<exists>m. e = Serialization_error m" by (cases e) auto
next
  fix e
  assume "bcsDeserialize_Transaction Left_to_right bs = Inl e"
  then have "is_decoding_exn e"
    unfolding bcsDeserialize_Transaction_def by (rule Transaction_codec.message_de_exn)
  then show "\<exists>m. e = Deserialization_error m \<or> e = Out_of_range m"
    by (cases e) (auto simp: is_decoding_exn_def)
qed

theorem codec_exceptions_witness:
  "\<exists>m. bcsDeserialize_Transaction Left_to_right [] = Inl (Deserialization_error m) \<or>
       bcsDeserialize_Transaction Left_to_right [] = Inl (Out_of_range m)"
proof -
  have "bcsDeserialize_Transaction Left_to_right [] \<noteq> Inr t" for t
    by (cases t) (auto simp: bcsDeserialize_Transaction_def Transaction_codec.bcsDeserialize_iff doc_Transaction_def)
  then obtain e where "bcsDeserialize_Transaction Left_to_right [] = Inl e"
    by (cases "bcsDeserialize_Transaction Left_to_right []") auto
  with codec_exceptions [of undefined "[]"] show ?thesis by auto
qed

section \<open>Type tags and the depth of containers\<close>

text \<open>
  The mutually recursive deserializers of TypeTag and StructTag, which the model runs with as
  much fuel as the container depth budget allows levels, satisfy the recursion equations of the
  source in every state, errors included: the fuel is never what stops them, so on every input
  they return.
\<close>

theorem type_tag_recursion:
  "deserialize_TypeTag = deserialize_TypeTag_body deserialize_TypeTag deserialize_StructTag \<and>
   deserialize_StructTag = deserialize_StructTag_body deserialize_TypeTag"
  using deserialize_TypeTag_unfold deserialize_StructTag_unfold by blast

text \<open>\<open>vector<vector<...<u8>...>>\<close> with the given number of vectors.\<close>

definition nested_vector :: "nat \<Rightarrow> TypeTag" where
  "nested_vector n = (TypeTag_Vector ^^ n) TypeTag_U8"

lemma nested_vector_simps [simp]:
  "nested_vector 0 = TypeTag_U8" "nested_vector (Suc n) = TypeTag_Vector (nested_vector n)"
  by (simp_all add: nested_vector_def)

lemma nested_vector_doc:
  "enc (doc_TypeTag (nested_vector n)) = replicate n 6 @ [1]"
  "depth (doc_TypeTag (nested_vector n)) = Suc n" "wf_doc (doc_TypeTag (nested_vector n))"
  by (induction n) (simp_all add: uleb128_small)

lemma deserialize_TypeTag_too_deep:
  assumes "n = unat (de_container_depth_budget d)" and "input_starts (replicate n 6) d"
  shows "deserialize_TypeTag d = Inl (Deserialization_error ''Too many nested containers'')"
  using assms
proof (induction n arbitrary: d)
  case 0
  then have "de_container_depth_budget d = 0" by (simp add: unat_eq_0)
  then show ?case
    by (subst deserialize_TypeTag_unfold) (simp add: body_budget_0)
next
  case (Suc n)
  let ?d = "d\<lparr>de_container_depth_budget := de_container_depth_budget d - 1\<rparr>"
  have b: "de_container_depth_budget d \<noteq> 0" using Suc.prems(1) by auto
  have starts: "input_starts [6] d" "input_starts (replicate n 6) (advance 1 d)"
    using Suc.prems(2) input_starts_Cons [of 6 "replicate n 6" d] by simp_all
  have index: "deserialize_variant_index ?d = Inr (6, advance 1 ?d)"
    unfolding deserialize_variant_index_iff using starts by (simp add: uleb128_small)
  have "deserialize_TypeTag (advance 1 ?d) = Inl (Deserialization_error ''Too many nested containers'')"
    using starts(2) Suc.prems(1) b by (intro Suc.IH) (auto simp: unat_pred_word)
  with index b show ?case
    by (subst deserialize_TypeTag_unfold)
      (simp add: deserialize_TypeTag_body_def act_then_def act_bind_def de_increase_container_depth_def
        deserialize_variant_def deserialize_TypeTag_Vector_def)
qed

text \<open>
  C7. The container depth limit of 500 is exact: a type tag with n nested vectors is serialized
  and deserialized if and only if n < 500; a byte string with 500 or more vector tags in a row
  is refused with "Too many nested containers", before the recursion can go deeper.
\<close>

theorem type_tag_depth_limit:
  "((\<exists>bs. bcsSerialize_TypeTag (nested_vector n) = Inr bs) \<longleftrightarrow> n < 500) \<and>
   bcsDeserialize_TypeTag (replicate n 6 @ [1]) =
     (if n < 500 then Inr (nested_vector n)
      else Inl (Deserialization_error ''Too many nested containers''))"
proof (intro conjI)
  show "(\<exists>bs. bcsSerialize_TypeTag (nested_vector n) = Inr bs) \<longleftrightarrow> n < 500"
    using wf_doc_fits [OF nested_vector_doc(3)]
    by (auto simp: bcsSerialize_TypeTag_def TypeTag_codec.bcsSerialize_iff nested_vector_doc(2))
  show "bcsDeserialize_TypeTag (replicate n 6 @ [1]) =
     (if n < 500 then Inr (nested_vector n)
      else Inl (Deserialization_error ''Too many nested containers''))"
  proof (cases "n < 500")
    case True
    then show ?thesis
      by (simp add: bcsDeserialize_TypeTag_def TypeTag_codec.bcsDeserialize_iff nested_vector_doc)
  next
    case False
    let ?d = "BcsDeserializer (replicate n 6 @ [1])"
    have "replicate n (6 :: u8) @ [1] = replicate 500 6 @ replicate (n - 500) 6 @ [1]"
      using False by (simp flip: replicate_add append_assoc)
    then have "input_starts (replicate 500 6) ?d"
      unfolding input_starts_prefix BcsDeserializer_def by simp
    then have "deserialize_TypeTag ?d = Inl (Deserialization_error ''Too many nested containers'')"
      by (intro deserialize_TypeTag_too_deep [where n = 500])
        (auto simp: BcsDeserializer_def BCS_MAX_CONTAINER_DEPTH_def)
    with False show ?thesis by (simp add: bcsDeserialize_TypeTag_def bcsDeserialize_def)
  qed
qed

text \<open>
  Every type tag with well-formed identifiers that is serialized is deserialized to itself,
  through the mutual recursion with StructTag.
\<close>

theorem type_tag_roundtrip:
  assumes "bcsSerialize_TypeTag ty = Inr bs" and "typed (doc_TypeTag ty)"
  shows "bcsDeserialize_TypeTag bs = Inr ty"
  using assms unfolding bcsSerialize_TypeTag_def bcsDeserialize_TypeTag_def
  by (rule TypeTag_codec.message_roundtrip)

theorem type_tag_roundtrip_witness:
  "bcsDeserialize_TypeTag (enc (doc_TypeTag (TypeTag_Struct (StructTag core_code_address
      \<lparr>Identifier_value = str ''VLS''\<rparr> \<lparr>Identifier_value = str ''VLS''\<rparr> [nested_vector 2])))) =
   Inr (TypeTag_Struct (StructTag core_code_address
      \<lparr>Identifier_value = str ''VLS''\<rparr> \<lparr>Identifier_value = str ''VLS''\<rparr> [nested_vector 2]))"
proof (rule type_tag_roundtrip)
  let ?ty = "TypeTag_Struct (StructTag core_code_address
      \<lparr>Identifier_value = str ''VLS''\<rparr> \<lparr>Identifier_value = str ''VLS''\<rparr> [nested_vector 2])"
  have wf: "wf_doc (doc_TypeTag (nested_vector 2))" and d: "depth (doc_TypeTag (nested_vector 2)) = 3"
    by (rule nested_vector_doc(3)) (simp add: nested_vector_doc(2))
  have "typed (doc_TypeTag ?ty) \<and> fits (doc_TypeTag ?ty) \<and> depth (doc_TypeTag ?ty) \<le> 500"
    using wf d by (simp add: wf_doc_def sample_defs doc_Identifier_def core_code_address_def)
  then show "bcsSerialize_TypeTag ?ty = Inr (enc (doc_TypeTag ?ty))" "typed (doc_TypeTag ?ty)"
    by (simp_all add: bcsSerialize_TypeTag_def TypeTag_codec.bcsSerialize_iff)
qed

section \<open>Numbers, strings and lengths\<close>

text \<open>
  Lengths and variant indices: the encoder writes the ULEB128 form of a 32-bit number, and the
  decoder returns a number exactly when the input goes on with its ULEB128 form, so overlong
  forms, zero digits and values above 2^32-1 are refused. The encoding takes one to five bytes.
\<close>

theorem uleb128_exact:
  "serialize_u32_as_uleb128 v s = Inr (put (uleb128 (unat v)) s) \<and>
   (deserialize_uleb128_as_u32 d = Inr (w, d') \<longleftrightarrow>
      input_starts (uleb128 (unat w)) d \<and> d' = advance (length (uleb128 (unat w))) d) \<and>
   1 \<le> length (uleb128 (unat v)) \<and> length (uleb128 (unat v)) \<le> 5"
proof (intro conjI)
  show "length (uleb128 (unat v)) \<le> 5"
    using length_uleb128_le [of "unat v" 5] unat_u32_less [of v] by simp
  show "1 \<le> length (uleb128 (unat v))"
    by (cases "uleb128 (unat v)") simp_all
qed (simp_all add: serialize_u32_as_uleb128_eq deserialize_uleb128_as_u32_iff)

lemma unat_le_join: "8 * length bs \<le> 64 \<Longrightarrow> unat (le_join bs :: u64) = foldr (\<lambda>b n. unat b + 256 * n) bs 0"
proof (induction bs)
  case (Cons b bs)
  let ?w = "le_join bs :: u64"
  have small: "bit ?w i \<Longrightarrow> i < 56" for i using bit_le_join [of bs i] Cons.prems by force
  then have take: "take_bit 56 ?w = ?w" by (intro bit_word_eqI) (auto simp: bit_simps)
  have bound: "unat ?w < 2 ^ 56"
    by (metis take take_bit_nat_less_exp unsigned_take_bit_eq)
  have "push_bit 8 ?w AND ucast (take_bit 8 b) = 0" by (rule push_and_take_zero)
  then have "ucast b OR push_bit 8 ?w = ucast b + push_bit 8 ?w"
    by (intro disjunctive_add_eq_or [symmetric]) (simp add: and.commute take_bit_word_eq_self)
  also have "\<dots> = of_nat (unat b + 256 * unat ?w)" by (simp add: push_bit_eq_mult mult.commute)
  finally have "le_join (b # bs) = (of_nat (unat b + 256 * unat ?w) :: u64)" by simp
  moreover have "unat b + 256 * unat ?w < 2 ^ 64" using bound unat_u8_less [of b] by simp
  ultimately have "unat (le_join (b # bs) :: u64) = unat b + 256 * unat ?w"
    by (simp only: unat_of_nat) simp
  with Cons show ?case by (simp del: le_join.simps)
qed simp

lemma serialize_u64_value:
  "\<exists>bs. serialize_u64 v s = Inr (s\<lparr>bytes := bytes s @ bs\<rparr>) \<and> length bs = 8 \<and>
     unat v = foldr (\<lambda>b n. unat b + 256 * n) bs 0"
proof (intro exI conjI)
  show "serialize_u64 v s = Inr (s\<lparr>bytes := bytes s @ le_split 8 v\<rparr>)"
    unfolding u64_codec.ser_iff by (simp add: doc_word_def put_def)
  have "le_join (le_split 8 v) = v" by (simp add: le_join_split take_bit_word_eq_self)
  then show "unat v = foldr (\<lambda>b n. unat b + 256 * n) (le_split 8 v) 0"
    using unat_le_join [of "le_split 8 v"] by simp
qed simp

text \<open>
  Integers: a uint64_t is written as eight bytes whose value in base 256, lowest byte first, is
  the integer; the 128-bit integers, written low half first, and the signed 64-bit integers come
  back from where they were written, in any buffer.
\<close>

theorem integers_roundtrip:
  "(\<forall>v s. \<exists>bs. serialize_u64 v s = Inr (s\<lparr>bytes := bytes s @ bs\<rparr>) \<and> length bs = 8 \<and>
      unat v = foldr (\<lambda>b n. unat b + 256 * n) bs 0) \<and>
   (\<forall>v rest. \<exists>s d'. serialize_u128 v BcsSerializer = Inr s \<and>
      deserialize_u128 (BcsDeserializer (bytes s @ rest)) = Inr (v, d') \<and> pos d' = 16) \<and>
   (\<forall>v rest. \<exists>s d'. serialize_i128 v BcsSerializer = Inr s \<and>
      deserialize_i128 (BcsDeserializer (bytes s @ rest)) = Inr (v, d') \<and> pos d' = 16) \<and>
   (\<forall>v rest. \<exists>s d'. serialize_i64 v BcsSerializer = Inr s \<and>
      deserialize_i64 (BcsDeserializer (bytes s @ rest)) = Inr (v, d') \<and> pos d' = 8)"
  using serialize_u64_value
  by (auto simp: u128_codec.ser_iff u128_codec.de_iff i128_codec.ser_iff i128_codec.de_iff i64_codec.ser_iff
      i64_codec.de_iff doc_u128_def doc_i128_def doc_word_def BcsSerializer_def BcsDeserializer_def
      input_starts_prefix put_def advance_def simp del: le_split.simps)

text \<open>
  C8. The byte loop that checks strings accepts exactly the concatenations of sequences shaped
  like UTF-8 (a leading byte that announces n continuation bytes, then n of them). This is
  weaker than UTF-8 validity: the overlong form C0 80 of U+0000, the surrogate ED A0 80 and F7
  BF BF BF, beyond U+10FFFF, are accepted as strings by the deserializer.
\<close>

theorem utf8_check:
  "(is_valid_utf8 bs \<longleftrightarrow> utf8_shaped bs) \<and>
   bcsDeserialize deserialize_str [2, 0xC0, 0x80] = Inr [0xC0, 0x80] \<and>
   bcsDeserialize deserialize_str [3, 0xED, 0xA0, 0x80] = Inr [0xED, 0xA0, 0x80] \<and>
   bcsDeserialize deserialize_str [4, 0xF7, 0xBF, 0xBF, 0xBF] = Inr [0xF7, 0xBF, 0xBF, 0xBF]"
  using is_valid_utf8_iff [of bs]
  by (simp add: str_codec.bcsDeserialize_iff is_valid_utf8_iff [symmetric] is_valid_utf8_def uleb128_small
      max_length_def)

section \<open>Variants, tuples and maps\<close>

text \<open>
  Reading an enum with n alternatives: an index above n is a deserialization_error, but the
  index n itself, one past the last alternative, escapes as std::out_of_range, because the guard
  compares with > instead of >=; a smaller index runs its alternative.
\<close>

theorem variant_dispatch:
  assumes "deserialize_variant_index d = Inr (index, d')"
  shows "(unat index < length alts \<longrightarrow> deserialize_variant alts d = (alts ! unat index) d') \<and>
    (unat index = length alts \<longrightarrow> deserialize_variant alts d = Inl (Out_of_range ''array::at'')) \<and>
    (unat index > length alts \<longrightarrow>
       deserialize_variant alts d = Inl (Deserialization_error ''Unknown variant index for enum''))"
  using assms by (simp add: deserialize_variant_def act_bind_def act_throw_def)

theorem variant_dispatch_witness:
  "bcsDeserialize_WriteOp [2] = Inl (Out_of_range ''array::at'') \<and>
   bcsDeserialize_WriteOp [3] = Inl (Deserialization_error ''Unknown variant index for enum'')"
proof -
  let ?d = "\<lambda>b. (BcsDeserializer [b])\<lparr>de_container_depth_budget := 499\<rparr>"
  have index: "deserialize_variant_index (?d b) = Inr (ucast b, advance 1 (?d b))" if "b = 2 \<or> b = 3" for b :: u8
    unfolding deserialize_variant_index_iff using that
    by (auto simp: uleb128_small input_starts_prefix BcsDeserializer_def)
  show ?thesis
    using variant_dispatch [OF index [of 2], of "[deserialize_WriteOp_Deletion, deserialize_WriteOp_Value]"]
      variant_dispatch [OF index [of 3], of "[deserialize_WriteOp_Deletion, deserialize_WriteOp_Value]"]
    by (simp add: bcsDeserialize_WriteOp_def bcsDeserialize_def deserialize_WriteOp_def act_then_def act_bind_def
        de_increase_container_depth_def BcsDeserializer_def BCS_MAX_CONTAINER_DEPTH_def)
qed

text \<open>A write set with one entry: the root path of one account, deleted.\<close>

definition sample_write_set :: WriteSetMut where
  "sample_write_set = \<lparr>WriteSetMut_write_set =
     [(\<lparr>AccessPath_address = \<lparr>AccountAddress_value = replicate 16 7\<rparr>, AccessPath_path = []\<rparr>,
       WriteOp_Deletion)]\<rparr>"

lemmas write_set_defs = sample_write_set_def doc_WriteSetMut_def doc_vector_def doc_pair_def doc_AccessPath_def
  doc_AccountAddress_def doc_array_def doc_u8_def doc_WriteOp_def list_all_iff max_length_def uleb128_small
  max_list_le_iff

lemma sample_write_set_message:
  "bcsSerialize_WriteSetMut sample_write_set = Inr (1 # replicate 16 7 @ [0, 0])"
  unfolding bcsSerialize_WriteSetMut_def WriteSetMut_codec.bcsSerialize_iff by (simp add: write_set_defs)

text \<open>Read from right to left, the first byte of the address is taken for the index of the operation.\<close>

lemma sample_write_set_reversed:
  "bcsDeserialize_WriteSetMut Right_to_left (1 # replicate 16 7 @ [0, 0]) =
     Inl (Deserialization_error ''Unknown variant index for enum'')"
proof -
  let ?in = "1 # replicate 16 7 @ [0, 0] :: u8 list"
  let ?d = "(BcsDeserializer ?in)\<lparr>de_container_depth_budget := 499\<rparr>"
  let ?e = "(advance 1 ?d)\<lparr>de_container_depth_budget := 498\<rparr>"
  have len: "deserialize_len ?d = Inr (1, advance 1 ?d)"
    unfolding deserialize_len_iff by (simp add: max_length_def uleb128_small input_starts_prefix BcsDeserializer_def)
  have "replicate 16 (7 :: u8) = 7 # replicate 15 7" by (simp add: numeral_eq_Suc)
  then have index: "deserialize_variant_index ?e = Inr (7, advance 1 ?e)"
    unfolding deserialize_variant_index_iff by (simp add: uleb128_small input_starts_prefix BcsDeserializer_def)
  have "deserialize_WriteOp (advance 1 ?d) = Inl (Deserialization_error ''Unknown variant index for enum'')"
    using index by (simp add: deserialize_WriteOp_def act_then_def de_increase_container_depth_def
        deserialize_variant_def act_bind_def act_throw_def BcsDeserializer_def)
  then have "deserialize_vector (deserialize_tuple2 Right_to_left deserialize_AccessPath deserialize_WriteOp) ?d =
      Inl (Deserialization_error ''Unknown variant index for enum'')"
    using len by (simp add: deserialize_vector_def act_bind_def act_times.simps deserialize_tuple2_def)
  moreover have "de_increase_container_depth (BcsDeserializer ?in) = Inr ?d"
    by (simp add: de_increase_container_depth_def BcsDeserializer_def BCS_MAX_CONTAINER_DEPTH_def)
  ultimately show ?thesis
    by (simp only: bcsDeserialize_WriteSetMut_def bcsDeserialize_def deserialize_WriteSetMut_def act_then_def
        act_bind_def sum.case)
qed

text \<open>
  Write sets depend on the order in which the compiler evaluates the arguments of
  std::make_tuple, which C++ leaves open. Evaluated from left to right, every serialized write
  set is read back; evaluated from right to left, a write set with a single deletion is not.
\<close>

theorem tuple_order_matters:
  "(\<forall>w bs. bcsSerialize_WriteSetMut w = Inr bs \<longrightarrow> typed (doc_WriteSetMut w) \<longrightarrow>
      bcsDeserialize_WriteSetMut Left_to_right bs = Inr w) \<and>
   (\<exists>w bs. bcsSerialize_WriteSetMut w = Inr bs \<and> typed (doc_WriteSetMut w) \<and>
      bcsDeserialize_WriteSetMut Right_to_left bs \<noteq> Inr w)"
proof (intro conjI allI impI exI)
  show "bcsDeserialize_WriteSetMut Left_to_right bs = Inr w"
    if "bcsSerialize_WriteSetMut w = Inr bs" "typed (doc_WriteSetMut w)" for w bs
    using that unfolding bcsSerialize_WriteSetMut_def bcsDeserialize_WriteSetMut_def
    by (rule WriteSetMut_codec.message_roundtrip)
  show "bcsSerialize_WriteSetMut sample_write_set = Inr (1 # replicate 16 7 @ [0, 0])"
    by (rule sample_write_set_message)
  show "typed (doc_WriteSetMut sample_write_set)" by (simp add: write_set_defs)
  show "bcsDeserialize_WriteSetMut Right_to_left (1 # replicate 16 7 @ [0, 0]) \<noteq> Inr sample_write_set"
    by (simp only: sample_write_set_reversed) simp
qed

theorem tuple_order_matters_witness:
  "bcsDeserialize_WriteSetMut Left_to_right (1 # replicate 16 7 @ [0, 0]) = Inr sample_write_set"
  using tuple_order_matters sample_write_set_message by (simp add: write_set_defs)

text \<open>
  C9. For every key and value type with a codec and every strict total order of the keys, and
  for every std::map whose keys and values the types of their documents admit (their strings are
  UTF-8, their arrays have their full size): when the map is serialized (entries written in key
  order, then sorted by their bytes), a deserializer with the depth budget of the serializer
  reads the same map back from where it was written.
\<close>

theorem map_roundtrip:
  assumes "map_codec serK deK docK serV deV docV lt"
    and "serialize_map serK serV m s = Inr s'" and "map_sorted lt m" and "map_typed docK docV m"
    and "drop (pos d) (de_bytes d) = drop (length (bytes s)) (bytes s') @ rest"
    and "container_depth_budget s = de_container_depth_budget d"
  shows "deserialize_map lt deK deV d = Inr (m, advance (length (bytes s') - length (bytes s)) d)"
  by (rule map_codec.map_read_back [OF assms])

theorem map_roundtrip_witness:
  "\<exists>s' d'. serialize_map serialize_str serialize_u64 [([], 5), ([0x61], 6)] BcsSerializer = Inr s' \<and>
     deserialize_map (<) deserialize_str deserialize_u64 (BcsDeserializer (bytes s')) =
       Inr ([([], 5), ([0x61], 6)], d')"
proof -
  let ?m = "[([], 5), ([0x61], 6)] :: (cstring \<times> u64) list"
  let ?s = "put (map_bytes Doc_Str (doc_word 8) ?m) BcsSerializer"
  have ser: "serialize_map serialize_str serialize_u64 ?m BcsSerializer = Inr ?s"
    unfolding str_u64_map.serialize_map_iff by (simp add: map_fits_def doc_word_def max_length_def)
  have "map_typed Doc_Str (doc_word 8) ?m"
    by (simp add: map_typed_def doc_word_def is_valid_utf8_iff [symmetric] is_valid_utf8_def)
  from map_roundtrip [OF str_u64_map.map_codec_axioms ser _ this, of "BcsDeserializer (bytes ?s)" "[]"]
  have "\<exists>d'. deserialize_map (<) deserialize_str deserialize_u64 (BcsDeserializer (bytes ?s)) = Inr (?m, d')"
    by (auto simp: BcsDeserializer_def BcsSerializer_def)
  with ser show ?thesis by blast
qed

text \<open>
  Maps are canonical: whatever entries the deserializer accepts as a map, serializing that map
  again writes exactly the bytes that were read, and the result is sorted with distinct keys; no
  permuted or duplicated entry is accepted.
\<close>

theorem map_canonical_bytes:
  assumes "map_codec serK deK docK serV deV docV lt"
    and "deserialize_map lt deK deV d = Inr (m, d')"
    and "container_depth_budget s = de_container_depth_budget d"
  shows "serialize_map serK serV m s = Inr (put (take (pos d' - pos d) (drop (pos d) (de_bytes d))) s) \<and>
    map_sorted lt m \<and> distinct (map fst m)"
  using map_codec.map_canonical [OF assms] assms(2)
    map_sorted_distinct [OF map_codec.strict_total [OF assms(1)]]
  unfolding map_codec.deserialize_map_iff [OF assms(1)] by blast

theorem map_canonical_bytes_witness:
  "\<exists>m d'. deserialize_map (<) deserialize_str deserialize_u64 (BcsDeserializer [0]) = Inr (m, d') \<and>
     serialize_map serialize_str serialize_u64 m BcsSerializer = Inr (put [0] BcsSerializer)"
proof -
  have de: "deserialize_map (<) deserialize_str deserialize_u64 (BcsDeserializer [0]) =
      Inr ([], advance 1 (BcsDeserializer [0]))"
    unfolding str_u64_map.deserialize_map_iff
    by (simp add: map_bytes_def map_fits_def map_typed_def uleb128_small BcsDeserializer_def input_starts_prefix)
  have "container_depth_budget BcsSerializer = de_container_depth_budget (BcsDeserializer [0])"
    by (simp add: BcsSerializer_def BcsDeserializer_def)
  from map_canonical_bytes [OF str_u64_map.map_codec_axioms de this] de show ?thesis
    by (auto simp: BcsDeserializer_def)
qed

section \<open>The SDK's own serializer\<close>



text \<open>
  The integer codec of BcsSerde: every size is written in ULEB128, but at most four bytes of it
  are read, so from the encoding of m the decoder returns m modulo 2^28; a container of 2^28 or
  more elements does not come back.
\<close>

theorem bcs_serde_length_limit:
  "encode_integer v s = s\<lparr>bs_bytes := bs_bytes s @ uleb128 (unat v)\<rparr> \<and>
   (\<exists>r. decode_integer (BcsSerde_from (uleb128 (unat v))) = Inr (of_nat (unat v mod 2 ^ 28), r)) \<and>
   (\<forall>r. decode_integer (BcsSerde_from (uleb128 (unat v))) = Inr (v, r) \<longleftrightarrow>
      unat v < 2 ^ 28 \<and> r = bs_advance (length (uleb128 (unat v))) (BcsSerde_from (uleb128 (unat v))))"
proof (intro conjI allI)
  note decode = decode_integer_uleb128 [OF bs_starts_from [of "uleb128 (unat v)"]]
  show "encode_integer v s = s\<lparr>bs_bytes := bs_bytes s @ uleb128 (unat v)\<rparr>"
    by (simp add: encode_integer_eq bs_put_def)
  show "\<exists>r. decode_integer (BcsSerde_from (uleb128 (unat v))) = Inr (of_nat (unat v mod 2 ^ 28), r)"
    using decode by blast
  have "unat v mod 2 ^ 28 < 2 ^ LENGTH(64)" by (rule less_trans [of _ "2 ^ 28"]) simp_all
  then have "of_nat (unat v mod 2 ^ 28) = v \<longleftrightarrow> unat v mod 2 ^ 28 = unat v"
    using eq_of_nat_iff [of "unat v mod 2 ^ 28" v] by auto
  also have "\<dots> \<longleftrightarrow> unat v < 2 ^ 28" by (simp add: mod_eq_self_iff_div_eq_0 div_eq_0_iff)
  finally show "decode_integer (BcsSerde_from (uleb128 (unat v))) = Inr (v, r) \<longleftrightarrow>
      unat v < 2 ^ 28 \<and> r = bs_advance (length (uleb128 (unat v))) (BcsSerde_from (uleb128 (unat v)))" for r
    using decode decode_integer_small [OF bs_starts_from [of "uleb128 (unat v)"]] by auto
qed

text \<open>
  Reading a std::variant with BcsSerde never changes its alternative: the index in the data is
  read and dropped, and the data is parsed as the alternative the variable already held.
\<close>

theorem bcs_serde_variant_ignores_index:
  assumes "\<not> is_serialization s" and "\<And>x t x' t'. visit x t = Inr (x', t') \<Longrightarrow> index x' = index x"
    and "serde_variant index visit var s = Inr (var', s')"
  shows "index var' = index var \<and>
    (\<exists>ignored t. decode_integer s = Inr (ignored, t) \<and> visit var t = Inr (var', s'))"
  using assms by (auto simp: serde_variant_def act_bind_iff)

theorem bcs_serde_variant_ignores_index_witness:
  "\<exists>t t'. serde_variant (\<lambda>x. case x of Inl b \<Rightarrow> 0 | Inr w \<Rightarrow> 1)
      (\<lambda>x. case x of Inl b \<Rightarrow> act_bind (serde_bool b) (\<lambda>b'. act_return (Inl b'))
                   | Inr w \<Rightarrow> act_bind (serde_integral 1 w) (\<lambda>w'. act_return (Inr w')))
      (Inl False :: bool + u8) (BcsSerde_from [1, 1]) = Inr (Inl t, t')"
proof -
  let ?index = "\<lambda>x :: bool + u8. (case x of Inl b \<Rightarrow> 0 | Inr w \<Rightarrow> 1) :: nat"
  let ?visit = "\<lambda>x :: bool + u8. case x of Inl b \<Rightarrow> act_bind (serde_bool b) (\<lambda>b'. act_return (Inl b'))
                   | Inr w \<Rightarrow> act_bind (serde_integral 1 w) (\<lambda>w'. act_return (Inr w'))"
  have starts: "bs_starts (uleb128 1) (BcsSerde_from [1, 1])" "bs_starts [1] (bs_advance 1 (BcsSerde_from [1, 1]))"
    using bs_starts_from [of "[1, 1]"] by (simp_all add: uleb128_small bs_starts_def bs_view_def
        BcsSerde_from_def input_starts_prefix advance_def bs_advance_def)
  have decode: "decode_integer (BcsSerde_from [1, 1]) = Inr (1, bs_advance 1 (BcsSerde_from [1, 1]))"
    using decode_integer_small [OF starts(1)] by (simp add: uleb128_small)
  have "serde_bool False (bs_advance 1 (BcsSerde_from [1, 1])) =
      Inr (True, bs_advance 1 (bs_advance 1 (BcsSerde_from [1, 1])))"
    using serde_bool.field_read [of "bs_advance 1 (BcsSerde_from [1, 1])" True False] starts(2)
    by (simp add: doc_bool_def)
  then obtain t where run: "serde_variant ?index ?visit (Inl False) (BcsSerde_from [1, 1]) = Inr (Inl True, t)"
    by (simp add: serde_variant_def act_bind_def decode act_return_def)
  have "?index (Inl True) = ?index (Inl False) \<and> (\<exists>ignored t'. decode_integer (BcsSerde_from [1, 1]) = Inr (ignored, t')
      \<and> ?visit (Inl False) t' = Inr (Inl True, t))"
    by (rule bcs_serde_variant_ignores_index [OF _ _ run]) (auto simp: run_iff split: sum.splits)
  with run show ?thesis by blast
qed

text \<open>Two entries whose keys are ordered one way as numbers and the other way as bytes.\<close>

definition sample_map :: "(u64 \<times> u64) list" where
  "sample_map = [(1, 5), (256, 6)]"

definition sample_map_sdk :: "u8 list" where
  "sample_map_sdk = [2, 1, 0, 0, 0, 0, 0, 0, 0, 5, 0, 0, 0, 0, 0, 0, 0, 0, 1, 0, 0, 0, 0, 0, 0, 6, 0, 0, 0, 0, 0, 0, 0]"

definition sample_map_framework :: "u8 list" where
  "sample_map_framework = [2, 0, 1, 0, 0, 0, 0, 0, 0, 6, 0, 0, 0, 0, 0, 0, 0, 1, 0, 0, 0, 0, 0, 0, 0, 5, 0, 0, 0, 0, 0, 0, 0]"

lemma sample_words:
  "le_split 8 (1 :: u64) = [1, 0, 0, 0, 0, 0, 0, 0]" "le_split 8 (5 :: u64) = [5, 0, 0, 0, 0, 0, 0, 0]"
  "le_split 8 (256 :: u64) = [0, 1, 0, 0, 0, 0, 0, 0]" "le_split 8 (6 :: u64) = [6, 0, 0, 0, 0, 0, 0, 0]"
  by (simp_all add: le_split_eqs)

lemma sample_map_by_sdk:
  "serde_map (<) (0, 0) (serde_integral 8) (serde_integral 8) sample_map BcsSerde_new =
     Inr (sample_map, bs_put sample_map_sdk BcsSerde_new)"
proof -
  have doc: "enc (doc_vector (doc_pair (doc_word 8) (doc_word 8)) sample_map) = sample_map_sdk"
    by (simp add: sample_map_def sample_map_sdk_def doc_vector_def doc_pair_def doc_word_def sample_words uleb128_small)
  show ?thesis
    using serde_field.field_write [OF serde_field_map [OF serde_u64.serde_field_axioms serde_u64.serde_field_axioms
          _ _ strict_total_less, of "(0, 0)"], of BcsSerde_new sample_map] doc
    by (simp add: BcsSerde_new_def sample_map_def doc_vector_def doc_pair_def doc_word_def)
qed

interpretation u64_u64_map: map_codec serialize_u64 deserialize_u64 "doc_word 8"
  serialize_u64 deserialize_u64 "doc_word 8" "(<)"
  by (intro map_codec.intro u64_codec.bcs_codec_axioms map_codec_axioms.intro strict_total_less)

lemma sample_map_by_framework:
  "serialize_map serialize_u64 serialize_u64 sample_map BcsSerializer = Inr (put sample_map_framework BcsSerializer)"
proof -
  have "map_bytes (doc_word 8) (doc_word 8) sample_map = sample_map_framework"
    by (simp add: map_bytes_def map_entry_def sample_map_def sample_map_framework_def doc_word_def sample_words
        uleb128_small)
  then show ?thesis
    unfolding u64_u64_map.serialize_map_iff
    by (simp add: map_fits_def sample_map_def doc_word_def max_length_def)
qed

lemma sample_map_sdk_refused:
  "deserialize_map (<) deserialize_u64 deserialize_u64 (BcsDeserializer sample_map_sdk) =
     Inl (Deserialization_error ''Error while decoding map: keys are not serialized in the expected order'')"
proof -
  let ?d = "BcsDeserializer sample_map_sdk"
  have len: "deserialize_len ?d = Inr (2, advance 1 ?d)"
    unfolding deserialize_len_iff
    by (simp add: max_length_def uleb128_small input_starts_def BcsDeserializer_def sample_map_sdk_def)
  have k1: "deserialize_u64 (advance 1 ?d) = Inr (1, advance 9 ?d)"
    and v1: "deserialize_u64 (advance 9 ?d) = Inr (5, advance 17 ?d)"
    and k2: "deserialize_u64 (advance 17 ?d) = Inr (256, advance 25 ?d)"
    unfolding u64_codec.de_iff
    by (simp_all add: doc_word_def sample_words input_starts_def BcsDeserializer_def sample_map_sdk_def)
  have loop: "deserialize_map_loop (<) deserialize_u64 deserialize_u64 (Suc (Suc 0)) None [] (advance 1 ?d) =
     Inl (Deserialization_error ''Error while decoding map: keys are not serialized in the expected order'')"
    using k1 v1 k2
    by (simp add: check_that_key_slices_are_increasing_def de_get_buffer_offset_def)
      (simp add: BcsDeserializer_def sample_map_sdk_def)
  then show ?thesis using len by (simp add: deserialize_map_def act_bind_def numeral_2_eq_2)
qed

lemma sample_map_differs:
  "\<exists>s s'. serde_map (<) (0, 0) (serde_integral 8) (serde_integral 8) sample_map BcsSerde_new = Inr (sample_map, s) \<and>
     serialize_map serialize_u64 serialize_u64 sample_map BcsSerializer = Inr s' \<and>
     bs_bytes s \<noteq> bytes s' \<and>
     deserialize_map (<) deserialize_u64 deserialize_u64 (BcsDeserializer (bs_bytes s)) =
       Inl (Deserialization_error
         ''Error while decoding map: keys are not serialized in the expected order'')"
proof (intro exI conjI)
  show "serde_map (<) (0, 0) (serde_integral 8) (serde_integral 8) sample_map BcsSerde_new =
      Inr (sample_map, bs_put sample_map_sdk BcsSerde_new)"
    by (rule sample_map_by_sdk)
  show "serialize_map serialize_u64 serialize_u64 sample_map BcsSerializer = Inr (put sample_map_framework BcsSerializer)"
    by (rule sample_map_by_framework)
  show "bs_bytes (bs_put sample_map_sdk BcsSerde_new) \<noteq> bytes (put sample_map_framework BcsSerializer)"
    by (simp add: sample_map_sdk_def sample_map_framework_def BcsSerde_new_def BcsSerializer_def)
  show "deserialize_map (<) deserialize_u64 deserialize_u64
      (BcsDeserializer (bs_bytes (bs_put sample_map_sdk BcsSerde_new))) =
    Inl (Deserialization_error ''Error while decoding map: keys are not serialized in the expected order'')"
    by (simp add: BcsSerde_new_def sample_map_sdk_refused)
qed

lemma serde_bool_lenient:
  "(\<exists>s. serde_bool t (BcsSerde_from [b]) = Inr (b \<noteq> 0, s)) \<and>
   bcsDeserialize deserialize_bool [b] =
     (if b = 0 then Inr False else if b = 1 then Inr True
      else Inl (Deserialization_error ''Invalid boolean value''))"
proof (intro conjI)
  have "serde_integral (Suc 0) (of_bool t) (BcsSerde_from [b]) = Inr (b, bs_advance (Suc 0) (BcsSerde_from [b]))"
    by (rule serde_byte_read) simp_all
  then show "\<exists>s. serde_bool t (BcsSerde_from [b]) = Inr (b \<noteq> 0, s)"
    by (simp add: serde_bool_def act_bind_def act_return_def)
  show "bcsDeserialize deserialize_bool [b] = (if b = 0 then Inr False else if b = 1 then Inr True
      else Inl (Deserialization_error ''Invalid boolean value''))"
    by (simp add: bcsDeserialize_def deserialize_bool_def act_bind_def act_return_def act_throw_def read_byte_def
        BcsDeserializer_def de_get_buffer_offset_def)
qed

text \<open>
  Where BcsSerde leaves the format. It writes the entries of a map in key order, the format
  wants the order of their bytes: the map {1: 5, 256: 6} written by BcsSerde differs from the
  message of the framework, and the framework refuses it. It takes every byte other than 0 for
  true, where the framework accepts only 0 and 1.
\<close>

theorem bcs_serde_not_canonical:
  "(\<exists>s s'. serde_map (<) (0, 0) (serde_integral 8) (serde_integral 8) sample_map BcsSerde_new = Inr (sample_map, s) \<and>
     serialize_map serialize_u64 serialize_u64 sample_map BcsSerializer = Inr s' \<and>
     bs_bytes s \<noteq> bytes s' \<and>
     deserialize_map (<) deserialize_u64 deserialize_u64 (BcsDeserializer (bs_bytes s)) =
       Inl (Deserialization_error
         ''Error while decoding map: keys are not serialized in the expected order'')) \<and>
   (\<exists>s. serde_bool t (BcsSerde_from [b]) = Inr (b \<noteq> 0, s)) \<and>
   bcsDeserialize deserialize_bool [b] =
     (if b = 0 then Inr False else if b = 1 then Inr True
      else Inl (Deserialization_error ''Invalid boolean value''))"
  using sample_map_differs serde_bool_lenient by blast

section \<open>Account resources\<close>

text \<open>
  C11. From text to resource: if an account holds entries with distinct keys and the entry of a
  struct tag is the data of a value of a type with a BcsSerde overload, then the state built
  from the hexadecimal blob of the account returns that value when it is asked for the tag, and
  returns nothing for a tag whose key is absent.
\<close>

theorem account_resource_lookup:
  assumes "serde_field f invar doc" and "invar init" and "invar x" and "lengths_below (2 ^ 28) (doc x)"
    and "distinct (map fst entries)" and "lengths_below (2 ^ 28) (doc_resources entries)"
    and "length (enc (doc_resources entries)) < 2 ^ 28"
    and "bcsSerialize_ResourcePath (ResourcePath_StructTag tag) = Inr key"
  shows "\<exists>m. AccountState2 (bytes_to_hex (account_blob entries)) = Inr m \<and>
    ((key, enc (doc x)) \<in> set entries \<longrightarrow> get_resource f init m tag = Inr (Some x)) \<and>
    (key \<notin> fst ` set entries \<longrightarrow> get_resource f init m tag = Inr None)"
proof -
  obtain m where m: "AccountState2 (bytes_to_hex (account_blob entries)) = Inr m" "map_of m = map_of entries"
    using AccountState2_reads_blob [OF assms(5-7)] by blast
  have "get_resource f init m tag = Inr (Some x)" if "(key, enc (doc x)) \<in> set entries"
    using that assms(5) m(2) by (intro get_resource_reads [OF assms(1-4,8)]) simp
  moreover have "get_resource f init m tag = Inr None" if "key \<notin> fst ` set entries"
  proof -
    have "map_of m key = None" unfolding m(2) using that by (simp add: map_of_eq_None_iff)
    then show ?thesis using assms(8) by (simp add: get_resource_def)
  qed
  ultimately show ?thesis using m(1) by blast
qed

theorem account_resource_lookup_witness:
  "\<exists>key m. bcsSerialize_ResourcePath (ResourcePath_StructTag (StructTag core_code_address
        \<lparr>Identifier_value = str ''VLS''\<rparr> \<lparr>Identifier_value = str ''VLS''\<rparr> [])) = Inr key \<and>
     AccountState2 (bytes_to_hex (account_blob [(key, enc (doc_word 8 (77 :: u64)))])) = Inr m \<and>
     get_resource (serde_integral 8) (0 :: u64) m (StructTag core_code_address
        \<lparr>Identifier_value = str ''VLS''\<rparr> \<lparr>Identifier_value = str ''VLS''\<rparr> []) = Inr (Some 77)"
proof -
  let ?tag = "StructTag core_code_address \<lparr>Identifier_value = str ''VLS''\<rparr> \<lparr>Identifier_value = str ''VLS''\<rparr> []"
  let ?key = "enc (doc_ResourcePath (ResourcePath_StructTag ?tag))"
  let ?entries = "[(?key, enc (doc_word 8 (77 :: u64)))]"
  have key: "bcsSerialize_ResourcePath (ResourcePath_StructTag ?tag) = Inr ?key"
    unfolding bcsSerialize_ResourcePath_iff
    by (simp add: doc_ResourcePath_def sample_defs doc_Identifier_def core_code_address_def)
  have len: "length ?key = 26"
    by (simp add: doc_ResourcePath_def sample_defs doc_Identifier_def core_code_address_def uleb128_small comp_def)
  have "lengths_below (2 ^ 28) (doc_resources ?entries)"
    using len by (simp add: doc_resources_def doc_vector_def doc_pair_def doc_u8_def list_all_iff doc_word_def)
  moreover have "length (enc (doc_resources ?entries)) < 2 ^ 28"
    using len by (simp add: doc_resources_def doc_vector_def doc_pair_def doc_u8_def doc_word_def uleb128_small
        length_concat comp_def sum_list_triv)
  ultimately show ?thesis
    using account_resource_lookup [OF serde_u64.serde_field_axioms _ _ _ _ _ _ key, where init = 0 and x = 77 and entries = ?entries] key
    by (auto simp: doc_word_def)
qed

text \<open>
  The key under which a resource is stored identifies its type: two struct tags with the same
  key are equal.
\<close>

theorem resource_key_identifies_type:
  assumes "bcsSerialize_ResourcePath (ResourcePath_StructTag t) = Inr k"
    and "bcsSerialize_ResourcePath (ResourcePath_StructTag u) = Inr k"
    and "typed (doc_StructTag t)" and "typed (doc_StructTag u)"
  shows "t = u"
  by (rule ResourcePath_inj [OF assms])

theorem resource_key_identifies_type_witness:
  "bcsSerialize_ResourcePath (ResourcePath_StructTag (StructTag core_code_address
      \<lparr>Identifier_value = str ''VLS''\<rparr> \<lparr>Identifier_value = str ''VLS''\<rparr> [])) \<noteq>
   bcsSerialize_ResourcePath (ResourcePath_StructTag (StructTag core_code_address
      \<lparr>Identifier_value = str ''VLS''\<rparr> \<lparr>Identifier_value = str ''VLS''\<rparr> [TypeTag_U8]))"
proof
  let ?t = "\<lambda>tys. StructTag core_code_address \<lparr>Identifier_value = str ''VLS''\<rparr> \<lparr>Identifier_value = str ''VLS''\<rparr> tys"
  let ?k = "enc (doc_ResourcePath (ResourcePath_StructTag (?t [])))"
  assume same: "bcsSerialize_ResourcePath (ResourcePath_StructTag (?t [])) =
      bcsSerialize_ResourcePath (ResourcePath_StructTag (?t [TypeTag_U8]))"
  have "bcsSerialize_ResourcePath (ResourcePath_StructTag (?t [])) = Inr ?k"
    unfolding bcsSerialize_ResourcePath_iff
    by (simp add: doc_ResourcePath_def sample_defs doc_Identifier_def core_code_address_def)
  moreover have "typed (doc_StructTag (?t []))" "typed (doc_StructTag (?t [TypeTag_U8]))"
    by (simp_all add: sample_defs doc_Identifier_def core_code_address_def)
  ultimately have "?t [] = ?t [TypeTag_U8]"
    using same by (intro resource_key_identifies_type) auto
  then show False by simp
qed

text \<open>
  The NFT configuration resource survives BcsSerde: after it is written and the object is
  switched to reading, it is read into any other NftInfo, including its map of owners and its
  event handles.
\<close>

theorem nft_info_roundtrip:
  assumes "length (admin x) = 16" and "owners_ok (owners x)" and "length (admin y) = 16" and "owners_ok (owners y)"
    and "lengths_below (2 ^ 28) (doc_NftInfo x)"
  shows "\<exists>s s'. serde_NftInfo x BcsSerde_new = Inr (x, s) \<and> serde_NftInfo y (set_des s) = Inr (x, s')"
proof -
  have "lengths_below (2 ^ 64) (doc_NftInfo x)" using assms(5) by (rule lengths_below_mono) simp
  then have wr: "serde_NftInfo x BcsSerde_new = Inr (x, bs_put (enc (doc_NftInfo x)) BcsSerde_new)"
    by (intro NftInfo_field.field_write) (simp_all add: BcsSerde_new_def)
  have "set_des (bs_put (enc (doc_NftInfo x)) BcsSerde_new) = BcsSerde_from (enc (doc_NftInfo x))"
    by (simp add: set_des_def bs_reset_def bs_put_def BcsSerde_new_def BcsSerde_from_def)
  with wr NftInfo_field.read_message [of x y] assms show ?thesis by auto
qed

theorem nft_info_roundtrip_witness:
  "\<exists>s s'. serde_NftInfo \<lparr>limited = True, total = 9, amount = 2, admin = replicate 16 1,
        owners = [([1], replicate 16 2), ([2], replicate 16 3)], mint_event = \<lparr>counter = 1, guid = [4]\<rparr>,
        burn_event = \<lparr>counter = 0, guid = []\<rparr>, transferred_event = \<lparr>counter = 0, guid = []\<rparr>\<rparr> BcsSerde_new =
      Inr (\<lparr>limited = True, total = 9, amount = 2, admin = replicate 16 1,
        owners = [([1], replicate 16 2), ([2], replicate 16 3)], mint_event = \<lparr>counter = 1, guid = [4]\<rparr>,
        burn_event = \<lparr>counter = 0, guid = []\<rparr>, transferred_event = \<lparr>counter = 0, guid = []\<rparr>\<rparr>, s) \<and>
     serde_NftInfo \<lparr>limited = False, total = 0, amount = 0, admin = replicate 16 0, owners = [],
        mint_event = \<lparr>counter = 0, guid = []\<rparr>, burn_event = \<lparr>counter = 0, guid = []\<rparr>,
        transferred_event = \<lparr>counter = 0, guid = []\<rparr>\<rparr> (set_des s) =
      Inr (\<lparr>limited = True, total = 9, amount = 2, admin = replicate 16 1,
        owners = [([1], replicate 16 2), ([2], replicate 16 3)], mint_event = \<lparr>counter = 1, guid = [4]\<rparr>,
        burn_event = \<lparr>counter = 0, guid = []\<rparr>, transferred_event = \<lparr>counter = 0, guid = []\<rparr>\<rparr>, s')"
  by (rule nft_info_roundtrip)
    (simp_all add: owners_ok_def doc_NftInfo_def doc_owners_def doc_EventHandle_def doc_vector_def doc_pair_def
      doc_array_def doc_u8_def doc_word_def doc_bool_def list_all_iff)

text \<open>
  TransferredEvent does not serialize its member peeer: whatever is read, that member keeps the
  value it had, and two events that differ only there are written alike.
\<close>

theorem transferred_event_loses_payee:
  "(\<forall>t s t' s'. serde_TransferredEvent t s = Inr (t', s') \<longrightarrow> transferred_peeer t' = transferred_peeer t) \<and>
   (\<forall>t s a. \<exists>r. is_serialization s \<longrightarrow> lengths_below (2 ^ 64) (doc_vector doc_u8 (transferred_token_id t)) \<longrightarrow>
      lengths_below (2 ^ 64) (doc_vector doc_u8 (transferred_metadata t)) \<longrightarrow>
      serde_TransferredEvent t s = Inr (t, r) \<and>
      serde_TransferredEvent (t\<lparr>transferred_peeer := a\<rparr>) s = Inr (t\<lparr>transferred_peeer := a\<rparr>, r))"
proof (intro conjI allI)
  show "serde_TransferredEvent t s = Inr (t', s') \<longrightarrow> transferred_peeer t' = transferred_peeer t" for t s t' s'
    by (auto simp: serde_TransferredEvent_def run_iff)
  fix t :: TransferredEvent and s a
  let ?r = "bs_put (enc (doc_vector doc_u8 (transferred_token_id t)) @ enc (doc_array 16 doc_u8 (transferred_payer t)) @
      enc (doc_vector doc_u8 (transferred_metadata t))) s"
  have "lengths_below n (doc_array 16 doc_u8 (transferred_payer t))" for n
    by (simp add: doc_array_def doc_u8_def list_all_iff)
  then show "\<exists>r. is_serialization s \<longrightarrow> lengths_below (2 ^ 64) (doc_vector doc_u8 (transferred_token_id t)) \<longrightarrow>
      lengths_below (2 ^ 64) (doc_vector doc_u8 (transferred_metadata t)) \<longrightarrow>
      serde_TransferredEvent t s = Inr (t, r) \<and>
      serde_TransferredEvent (t\<lparr>transferred_peeer := a\<rparr>) s = Inr (t\<lparr>transferred_peeer := a\<rparr>, r)"
    by (intro exI [of _ ?r]) (simp add: serde_TransferredEvent_def act_bind_def act_return_def
        serde_bytes.field_write serde_address.field_write)
qed

theorem transferred_event_loses_payee_witness:
  "\<exists>r. serde_TransferredEvent \<lparr>sequence_number = 0, transaction_version = 0, transferred_token_id = [1],
        transferred_payer = replicate 16 1, transferred_peeer = replicate 16 2, transferred_metadata = []\<rparr> BcsSerde_new =
      Inr (\<lparr>sequence_number = 0, transaction_version = 0, transferred_token_id = [1],
        transferred_payer = replicate 16 1, transferred_peeer = replicate 16 2, transferred_metadata = []\<rparr>, r)"
  using conjunct2 [OF transferred_event_loses_payee, rule_format, of BcsSerde_new
      "\<lparr>sequence_number = 0, transaction_version = 0, transferred_token_id = [1],
        transferred_payer = replicate 16 1, transferred_peeer = replicate 16 2, transferred_metadata = []\<rparr>"
      "replicate 16 2"]
  by (auto simp: doc_vector_def doc_u8_def BcsSerde_new_def)

text \<open>
  query_events decodes every event of an answer in order and gives each its sequence number and
  version; here for SentEvent, with any data the chain stored.
\<close>

theorem sent_events_query:
  assumes "length (sent_payee init) = 16"
    and "\<And>x. x \<in> set xs \<Longrightarrow> length (sent_payee x) = 16 \<and> lengths_below (2 ^ 28) (doc_SentEvent x)"
  shows "query_events serde_SentEvent init
     (map (\<lambda>x. (enc (doc_SentEvent x), sequence_number x, transaction_version x)) xs) = Inr xs"
  by (rule SentEvent_field.query [OF assms])

theorem sent_events_query_witness:
  "query_events serde_SentEvent
     \<lparr>sequence_number = 0, transaction_version = 0, sent_token_id = [], sent_payee = replicate 16 0, sent_metadata = []\<rparr>
     (map (\<lambda>x. (enc (doc_SentEvent x), sequence_number x, transaction_version x))
       [\<lparr>sequence_number = 5, transaction_version = 9, sent_token_id = [1], sent_payee = replicate 16 3,
         sent_metadata = [4]\<rparr>]) =
   Inr [\<lparr>sequence_number = 5, transaction_version = 9, sent_token_id = [1], sent_payee = replicate 16 3,
         sent_metadata = [4]\<rparr>]"
  by (rule sent_events_query) (auto simp: doc_SentEvent_def doc_vector_def doc_array_def doc_u8_def list_all_iff)

section \<open>Hexadecimal text\<close>

text \<open>
  bytes_to_hex and hex_to_bytes are inverse: every byte string is recovered from its hexadecimal
  text with the prefix 0x, and every non-empty one without it.
\<close>

theorem hex_roundtrip:
  "hex_to_bytes (str ''0x'' @ bytes_to_hex bs) = Inr bs \<and>
   hex_to_bytes (bytes_to_hex (b # bs)) = Inr (b # bs)"
proof (intro conjI)
  have "str ''0x'' = [0x30, 0x78]" by (simp add: str_def)
  then show "hex_to_bytes (str ''0x'' @ bytes_to_hex bs) = Inr bs"
    using hex_to_bytes_prefixed [of bs] by simp
  show "hex_to_bytes (bytes_to_hex (b # bs)) = Inr (b # bs)" by (rule hex_to_bytes_hex) simp
qed

text \<open>
  hex_to_bytes has defined behaviour exactly on the non-empty strings with an even number of
  characters; on any other string its iterator passes the end. When it returns, it returns one
  byte per pair of characters after the prefix.
\<close>

theorem hex_to_bytes_domain:
  "((\<exists>bs. hex_to_bytes s = Inr bs) \<longleftrightarrow> s \<noteq> [] \<and> even (length s)) \<and>
   (\<forall>bs. hex_to_bytes s = Inr bs \<longrightarrow>
      2 * length bs = (if take 2 s = [0x30, 0x78] then length s - 2 else length s))"
proof (intro conjI allI impI)
  show "(\<exists>bs. hex_to_bytes s = Inr bs) \<longleftrightarrow> s \<noteq> [] \<and> even (length s)"
  proof (cases "take 2 s = [0x30, 0x78]")
    case True
    then have "2 \<le> length s" by (cases s; cases "tl s") auto
    with True show ?thesis
      using hex_to_bytes_loop_length(1) [of "drop 2 s"] by (auto simp: hex_to_bytes_def)
  next
    case False
    then show ?thesis
      using hex_to_bytes_loop_length(1) [of s] by (auto simp: hex_to_bytes_def)
  qed
  show "2 * length bs = (if take 2 s = [0x30, 0x78] then length s - 2 else length s)"
    if "hex_to_bytes s = Inr bs" for bs
    using that hex_to_bytes_loop_length(2) [of s bs] hex_to_bytes_loop_length(2) [of "drop 2 s" bs]
    by (auto simp: hex_to_bytes_def split: if_splits)
qed

theorem hex_to_bytes_domain_witness:
  "\<not> (\<exists>bs. hex_to_bytes (str ''abc'') = Inr bs) \<and> (\<exists>bs. hex_to_bytes (str ''0xabcd'') = Inr bs \<and> length bs = 2)"
  using hex_to_bytes_domain [of "str ''abc''"] hex_to_bytes_domain [of "str ''0xabcd''"]
  by (auto simp: str_def)

text \<open>
  hex_to_array_u8 reads the first 2N digits. Its guard only asks for N characters: a text with
  at least N but fewer than 2N characters passes the guard and ends in the std::out_of_range of
  at().
\<close>

theorem hex_to_array_bounds:
  "(length bs = N \<longrightarrow> hex_to_array_u8 N (bytes_to_hex bs @ rest) = Inr bs) \<and>
   (length hex < N \<longrightarrow> (\<exists>m. hex_to_array_u8 N hex = Inl (Runtime_error m))) \<and>
   (N \<le> length hex \<and> length hex < 2 * N \<longrightarrow> hex_to_array_u8 N hex = Inl (Out_of_range ''basic_string_view::at''))"
  using hex_to_array_u8_hex [of bs N rest] hex_to_array_loop_short [of hex 0 N]
  by (auto simp: hex_to_array_u8_def)

theorem hex_to_array_bounds_witness:
  "hex_to_array_u8 4 (str ''abcd'') = Inl (Out_of_range ''basic_string_view::at'') \<and>
   hex_to_array_u8 2 (bytes_to_hex [1, 0xAB] @ []) = Inr [1, 0xAB]"
  using hex_to_array_bounds [of "[1, 0xAB]" 2 "[]" "str ''abcd''"] hex_to_array_bounds [of "[]" 4 "[]" "str ''abcd''"]
  by (simp add: str_def)

section \<open>Script builders\<close>

text \<open>The call that the payment builder makes.\<close>

definition payment_call :: "TypeTag \<Rightarrow> AccountAddress \<Rightarrow> u64 \<Rightarrow> u8 list \<Rightarrow> u8 list \<Rightarrow> ScriptFunction" where
  "payment_call currency payee amt metadata metadata_signature = \<lparr>
     ScriptFunction_module =
       \<lparr>ModuleId_address = core_code_address, ModuleId_name = \<lparr>Identifier_value = str ''PaymentScripts''\<rparr>\<rparr>,
     ScriptFunction_function = \<lparr>Identifier_value = str ''peer_to_peer_with_metadata''\<rparr>,
     ScriptFunction_ty_args = [currency],
     ScriptFunction_args =
       [enc (doc_AccountAddress payee), le_split 8 amt, uleb128 (length metadata) @ metadata,
        uleb128 (length metadata_signature) @ metadata_signature]\<rparr>"


lemma typed_bytes: "typed (doc_vector doc_u8 bs)"
  by (simp add: doc_vector_def doc_u8_def list_all_iff)

lemma AccountAddress_message:
  "bcsSerialize_AccountAddress a = Inr (enc (doc_AccountAddress a))"
  by (simp add: bcsSerialize_AccountAddress_def AccountAddress_codec.bcsSerialize_iff doc_AccountAddress_def
      doc_array_def doc_u8_def list_all_iff max_list_le_iff)

lemma payment_built:
  assumes "typed (doc_AccountAddress payee)" "length metadata \<le> max_length" "length metadata_signature \<le> max_length"
  shows "encode_peer_to_peer_with_metadata_script_function currency payee amt metadata metadata_signature =
    Inr (TransactionPayload_ScriptFunction (payment_call currency payee amt metadata metadata_signature))"
proof -
  have "bcsSerialize (serialize_vector serialize_u8) v = Inr (uleb128 (length v) @ v)"
    if "v = metadata \<or> v = metadata_signature" for v
    using that assms(2,3) by (auto simp: bcsSerialize_bytes_iff)
  then show ?thesis
    by (simp add: encode_peer_to_peer_with_metadata_script_function_def script_function_payload_def payment_call_def
        AccountAddress_message bcsSerialize_u64)
qed






text \<open>
  A payment payload determines the payment: two calls of the builder that give the same payload
  have the same currency, payee, amount and metadata.
\<close>

theorem payment_arguments_determined:
  assumes "encode_peer_to_peer_with_metadata_script_function cur payee amt md sig = Inr p"
    and "encode_peer_to_peer_with_metadata_script_function cur' payee' amt' md' sig' = Inr p"
    and "typed (doc_AccountAddress payee)" and "typed (doc_AccountAddress payee')"
  shows "cur = cur' \<and> payee = payee' \<and> amt = amt' \<and> md = md' \<and> sig = sig'"
proof -
  have args: "[cur] = [cur'] \<and>
      [bcsSerialize_AccountAddress payee, bcsSerialize serialize_u64 amt, bcsSerialize (serialize_vector serialize_u8) md,
       bcsSerialize (serialize_vector serialize_u8) sig] =
      [bcsSerialize_AccountAddress payee', bcsSerialize serialize_u64 amt', bcsSerialize (serialize_vector serialize_u8) md',
       bcsSerialize (serialize_vector serialize_u8) sig']"
    using script_function_payload_inj [OF assms(1,2) [unfolded encode_peer_to_peer_with_metadata_script_function_def]]
    by blast
  obtain bss where "[bcsSerialize_AccountAddress payee, bcsSerialize serialize_u64 amt,
      bcsSerialize (serialize_vector serialize_u8) md, bcsSerialize (serialize_vector serialize_u8) sig] = map Inr bss"
    using script_function_payload_args [OF assms(1) [unfolded encode_peer_to_peer_with_metadata_script_function_def]]
    by (rule exE)
  then obtain c d where ok: "bcsSerialize (serialize_vector serialize_u8) md = Inr c"
      "bcsSerialize (serialize_vector serialize_u8) sig = Inr d"
    by (auto simp: Cons_eq_map_conv)
  have "payee = payee'"
  proof (rule AccountAddress_codec.message_injective [OF _ _ assms(3,4)])
    show "bcsSerialize serialize_AccountAddress payee = Inr (enc (doc_AccountAddress payee))"
      "bcsSerialize serialize_AccountAddress payee' = Inr (enc (doc_AccountAddress payee))"
      using args AccountAddress_message [of payee] by (simp_all add: bcsSerialize_AccountAddress_def)
  qed
  moreover have "md = md'"
    by (rule u8_vector_codec.message_injective [OF ok(1) _ typed_bytes typed_bytes]) (use args ok in simp)
  moreover have "sig = sig'"
    by (rule u8_vector_codec.message_injective [OF ok(2) _ typed_bytes typed_bytes]) (use args ok in simp)
  moreover have "amt = amt'"
  proof (rule u64_codec.message_injective [OF bcsSerialize_u64])
    show "bcsSerialize serialize_u64 amt' = Inr (le_split 8 amt)" using args by (simp add: bcsSerialize_u64)
  qed (simp_all add: doc_word_def)
  ultimately show ?thesis using args by simp
qed

theorem payment_arguments_determined_witness:
  "encode_peer_to_peer_with_metadata_script_function TypeTag_U8 core_code_address 7 [1] [] \<noteq>
   encode_peer_to_peer_with_metadata_script_function TypeTag_U8 core_code_address 8 [1] []"
proof
  assume same: "encode_peer_to_peer_with_metadata_script_function TypeTag_U8 core_code_address 7 [1] [] =
    encode_peer_to_peer_with_metadata_script_function TypeTag_U8 core_code_address 8 [1] []"
  have "typed (doc_AccountAddress core_code_address)"
    by (simp add: core_code_address_def doc_AccountAddress_def doc_array_def doc_u8_def list_all_iff)
  then have "(7 :: u64) = 8"
    using payment_arguments_determined [of TypeTag_U8 core_code_address 7 "[1]" "[]" _ TypeTag_U8 core_code_address 8 "[1]" "[]"]
      payment_built [of core_code_address "[1]" "[]" TypeTag_U8] same
    by (simp add: max_length_def)
  then show False by simp
qed

section \<open>Wallets\<close>

text \<open>
  C13. A wallet is recovered from what it exports: after any history of a wallet that was made
  from a mnemonic, the exported text has 24 words, and the wallet made from it is the one the
  history began with (entropy, seed and main key).
\<close>

theorem mnemonic_recovery:
  assumes "generate_from_mnemonic ssl mnemonic = Inr w0" and "wallet_history ssl mnemonic w"
  shows "\<exists>text'. export_mnemonic ssl w = (Inr text', w) \<and> length (stream_words text') = 24 \<and>
    generate_from_mnemonic ssl text' = Inr w0"
proof -
  let ?e = "m_entropy_hash w"
  from wallet_history_ok [OF assms(2)] have ok: "wallet_ok ssl w"
    and e: "?e = decoded_entropy (stream_words (c_str mnemonic))" by simp_all
  obtain r w' where "export_mnemonic ssl w = (r, w')" by (cases "export_mnemonic ssl w")
  with wallet_ok_exported [OF ok this] have "export_mnemonic ssl w = (Inr (join_words (entropy_words ?e 24)), w)" by simp
  moreover from assms(1) e have "checked ssl ?e" "wallet_of ssl ?e = Inr w0"
    by (simp_all add: generate_from_mnemonic_iff Let_def)
  then have "generate_from_mnemonic ssl (join_words (entropy_words ?e 24)) = Inr w0"
    by (simp add: generate_from_exported)
  moreover have "length (stream_words (join_words (entropy_words ?e 24))) = 24"
    using stream_words_join [OF entropy_words_plain, of ?e 24] by (simp add: entropy_words_def)
  ultimately show ?thesis by blast
qed

theorem mnemonic_recovery_witness:
  "\<exists>text'. export_mnemonic sample_ssl sample_wallet = (Inr text', sample_wallet) \<and> length (stream_words text') = 24 \<and>
    generate_from_mnemonic sample_ssl text' = Inr sample_wallet"
  by (rule mnemonic_recovery [OF sample_generated sample_history])

lemma mnemonic_bits_canonical:
  assumes "list_all (\<lambda>w. lower_bound WORDS w < 2048) words"
  shows "mnemonic_bits (map (\<lambda>w. str (WORDS ! lower_bound WORDS w)) words) st = mnemonic_bits words st"
  using assms
proof (induction words arbitrary: st)
  case (Cons w words)
  then have "lower_bound WORDS (str (WORDS ! lower_bound WORDS w)) = lower_bound WORDS w"
    by (intro lower_bound_word [OF WORDS_sorted]) simp
  with Cons show ?case by (simp add: Let_def split: sum.splits)
qed simp

lemma short_entropy:
  assumes "length words \<in> {21, 18, 15, 12}"
  shows "decoded_entropy words ! 32 = 0"
proof (rule bit_word_eqI)
  fix b assume "b < LENGTH(8)"
  let ?bits = "concat (map word_bits words) @ replicate (264 - 11 * length words) False"
  have "length (concat (map word_bits words)) = 11 * length words" by (induction words) simp_all
  then have "\<not> ?bits ! (8 * 32 + (7 - b))" if "b < 8"
    using assms that by (auto simp: nth_append)
  with \<open>b < LENGTH(8)\<close> show "bit (decoded_entropy words ! 32) b \<longleftrightarrow> bit 0 b"
    using entropy_fold(2) [of 264 33 32 b ?bits] by (simp add: decoded_entropy_def)
qed

text \<open>
  C14. What is not checked in a mnemonic. A word that is not in the list is taken for the next
  word of the list, without an error: replacing every word by the word it is taken for changes
  nothing. And the checksum of a mnemonic with fewer than 24 words is looked for behind 32
  bytes, which it does not fill, so such a mnemonic is accepted only if the hash of the padded
  entropy begins with 0.
\<close>

theorem mnemonic_checks:
  assumes "list_all plain_word words" and "list_all (\<lambda>w. lower_bound WORDS w < 2048) words"
  shows "generate_from_mnemonic ssl (join_words words) =
      generate_from_mnemonic ssl (join_words (map (\<lambda>w. str (WORDS ! lower_bound WORDS w)) words)) \<and>
    (generate_from_mnemonic ssl (join_words words) = Inr w \<and> length words \<noteq> 24 \<longrightarrow>
      ssl_sha256 ssl (take 32 (m_entropy_hash w)) ! 0 = 0)"
proof
  have split: "stream_words (c_str (join_words ws)) = ws" if "list_all plain_word ws" for ws
    using that by (simp add: c_str_no_null join_words_no_null stream_words_join)
  have plain: "list_all plain_word (map (\<lambda>w. str (WORDS ! lower_bound WORDS w)) words)"
    using assms(2) WORDS_plain by (simp add: list_all_iff)
  show "generate_from_mnemonic ssl (join_words words) =
      generate_from_mnemonic ssl (join_words (map (\<lambda>w. str (WORDS ! lower_bound WORDS w)) words))"
    by (simp add: generate_from_mnemonic_def split [OF assms(1)] split [OF plain] mnemonic_bits_canonical [OF assms(2)])
  show "generate_from_mnemonic ssl (join_words words) = Inr w \<and> length words \<noteq> 24 \<longrightarrow>
      ssl_sha256 ssl (take 32 (m_entropy_hash w)) ! 0 = 0"
  proof
    assume a: "generate_from_mnemonic ssl (join_words words) = Inr w \<and> length words \<noteq> 24"
    then have "m_entropy_hash w = decoded_entropy words" "checked ssl (decoded_entropy words)" "length words \<in> {21, 18, 15, 12}"
      using wallet_ok_made(3) [of ssl "join_words words" w]
      by (auto simp: generate_from_mnemonic_iff Let_def split [OF assms(1)])
    with short_entropy show "ssl_sha256 ssl (take 32 (m_entropy_hash w)) ! 0 = 0" by (simp add: checked_def)
  qed
qed

theorem mnemonic_checks_witness:
  "generate_from_mnemonic sample_ssl (join_words (replicate 24 (str ''aaa''))) = Inr sample_wallet"
proof -
  have "generate_from_mnemonic sample_ssl (join_words (replicate 24 (str ''aaa''))) =
      generate_from_mnemonic sample_ssl (join_words (map (\<lambda>w. str (WORDS ! lower_bound WORDS w)) (replicate 24 (str ''aaa''))))"
    by (rule mnemonic_checks [THEN conjunct1]) (simp_all add: list_all_iff plain_aaa lower_bound_aaa)
  also have "map (\<lambda>w. str (WORDS ! lower_bound WORDS w)) (replicate 24 (str ''aaa'')) = abandon_words 24"
    by (simp only: map_replicate lower_bound_aaa first_word abandon_words_def)
  finally show ?thesis using sample_generated by (simp add: sample_mnemonic_def)
qed

text \<open>
  C15. The accounts of a wallet depend on its mnemonic alone: in any two histories of wallets
  made from the same mnemonic, the accounts of the one with fewer accounts are the first
  accounts of the other. The next account always gets the next index, and the list of accounts
  is extended by exactly the account that was returned.
\<close>

theorem wallet_accounts_stable:
  assumes "openssl_ok ssl" and "wallet_history ssl mnemonic v" and "wallet_history ssl mnemonic w"
    and "length (m_private_keys v) \<le> length (m_private_keys w)"
  shows "\<exists>as bs. wallet_get_all_accounts ssl v = Inr as \<and> wallet_get_all_accounts ssl w = Inr bs \<and>
    length as = length (m_private_keys v) \<and> as = take (length as) bs \<and>
    (\<exists>address auth_key w'.
       wallet_create_next_account ssl w = (Inr (of_nat (length bs), address), w') \<and>
       length (AccountAddress_value address) = 16 \<and>
       wallet_get_all_accounts ssl w' = Inr (bs @ [\<lparr>Account_index = of_nat (length bs),
         Account_address = address, Account_auth_key = auth_key\<rparr>]))"
proof -
  note v = wallet_history_ok [OF assms(2)] and w = wallet_history_ok [OF assms(3)]
  obtain as bs where acc: "wallet_get_all_accounts ssl v = Inr as" "wallet_get_all_accounts ssl w = Inr bs"
    using all_accounts_ok [OF assms(1) wallet_ok_private] v w unfolding wallet_get_all_accounts_def by blast
  have len: "length as = length (m_private_keys v)" "length bs = length (m_private_keys w)"
    using acc by (simp_all add: wallet_get_all_accounts_def all_accounts_loop_iff [of ssl 0])
  have prefix: "as = take (length as) bs"
    by (rule wallet_accounts_agree(1) [OF _ _ _ acc]) (use v w len assms(4) in auto)
  obtain k where k: "child_key ssl (m_seed w) (length (m_private_keys w)) = Inr k"
    using child_key_ok [OF assms(1) wallet_ok_seed_length [OF assms(1)]] w by blast
  obtain raw p where raw: "signs_for ssl k raw p" using openssl_okD(1) [OF assms(1) child_key_private [OF k]] by blast
  let ?account = "account_of ssl (of_nat (length bs)) raw" let ?w' = "w\<lparr>m_private_keys := m_private_keys w @ [k]\<rparr>"
  have created: "wallet_create_next_account ssl w = (Inr (of_nat (length bs), Account_address ?account), ?w')"
    using k signs_for_public [OF raw] len by (simp add: create_next_account_eq account_of_def)
  have "wallet_get_all_accounts ssl ?w' = Inr (bs @ [?account])"
    using acc(2) account_of_key [OF raw, of "of_nat (length bs)"] len
    by (simp add: wallet_get_all_accounts_def all_accounts_loop_iff [of ssl 0] nth_append less_Suc_eq
        del: all_accounts_loop.simps)
  moreover have "length (AccountAddress_value (Account_address ?account)) = 16"
    using openssl_okD(3) [OF assms(1)] by (simp add: account_of_def)
  ultimately show ?thesis using acc len prefix created by (auto simp: account_of_def)
qed

theorem wallet_accounts_stable_witness:
  "\<exists>address auth_key w'. wallet_create_next_account sample_ssl sample_wallet = (Inr (0, address), w') \<and>
     wallet_get_all_accounts sample_ssl w' = Inr [\<lparr>Account_index = 0, Account_address = address, Account_auth_key = auth_key\<rparr>]"
  using wallet_accounts_stable [OF sample_ssl_ok sample_history sample_history order_refl]
  by (auto simp: wallet_get_all_accounts_def sample_wallet_def)

section \<open>Signing and submitting\<close>

text \<open>What the sample client signs for the root account.\<close>

definition sample_payload :: TransactionPayload where
  "sample_payload = TransactionPayload_Module \<lparr>Module_code = [1, 2]\<rparr>"

definition sample_root_raw :: RawTransaction where
  "sample_root_raw = sample_raw_transaction\<lparr>RawTransaction_sender := ROOT_ADDRESS, RawTransaction_sequence_number := 7\<rparr>"

lemma sample_root_message:
  "bcsSerialize_RawTransaction sample_root_raw = Inr (enc (doc_RawTransaction sample_root_raw))"
proof -
  have "typed (doc_RawTransaction sample_root_raw)" "fits (doc_RawTransaction sample_root_raw)"
    "depth (doc_RawTransaction sample_root_raw) \<le> 400"
    by (simp_all add: sample_defs sample_root_raw_def ROOT_ADDRESS_def)
  then show ?thesis by (simp add: bcsSerialize_RawTransaction_def RawTransaction_codec.bcsSerialize_iff)
qed

lemma sample_account_ids: "ACCOUNT_TC_ID \<noteq> ACCOUNT_ROOT_ID" "ACCOUNT_DD_ID \<noteq> ACCOUNT_ROOT_ID" "ACCOUNT_DD_ID \<noteq> ACCOUNT_TC_ID"
  by (simp_all add: ACCOUNT_ROOT_ID_def ACCOUNT_TC_ID_def ACCOUNT_DD_ID_def)

lemma sample_root_cached: "m_accounts sample_client ACCOUNT_ROOT_ID = Some (sample_view ROOT_ADDRESS)"
  using sample_account_ids by (simp add: sample_client_def)

lemma sample_sign:
  "i \<in> {ACCOUNT_ROOT_ID, ACCOUNT_TC_ID} \<Longrightarrow>
     sign_message sample_ssl sample_client i message = Inr (replicate 32 9, pad 64 (replicate 32 9 @ message))"
  using sample_account_ids
  by (auto simp: sign_message_def sample_client_def sum_bind_def deref_def PrivateKey_sign_def check_ret_def
      public_raw_key_def get_public_key_def PublicKey_new_def PublicKey_get_raw_key_def ret_of_def sample_ssl_def pad_def)

lemma sample_submits: "rpc_submit (env_rpc sample_env) txn w = (Inr (), w)"
  by (simp add: sample_env_def sample_rpc_def eff_return_def)

lemma sample_make_signed_script:
  assumes "fits (doc_RawTransaction (sample_root_raw\<lparr>RawTransaction_payload := payload\<rparr>))"
    and "depth (doc_RawTransaction (sample_root_raw\<lparr>RawTransaction_payload := payload\<rparr>)) \<le> 500"
  shows "\<exists>txn. make_signed_txn sample_env ACCOUNT_ROOT_ID payload 1000000 0 (str ''VLS'') 100 (sample_client, 0) =
     (Inr txn, (sample_client, 0)) \<and> SignedTransaction_raw_txn txn = sample_root_raw\<lparr>RawTransaction_payload := payload\<rparr>"
proof -
  have raw: "\<lparr>RawTransaction_sender = ROOT_ADDRESS,
      RawTransaction_sequence_number = AccountView_sequence_number (sample_view ROOT_ADDRESS),
      RawTransaction_payload = payload, RawTransaction_max_gas_amount = 1000000,
      RawTransaction_gas_unit_price = 0, RawTransaction_gas_currency_code = str ''VLS'',
      RawTransaction_expiration_timestamp_secs = 0 + 100,
      RawTransaction_chain_id = \<lparr>ChainId_value = m_chain_id sample_client\<rparr>\<rparr> = sample_root_raw\<lparr>RawTransaction_payload := payload\<rparr>"
    by (simp add: sample_root_raw_def sample_raw_transaction_def sample_view_def sample_client_def)
  have "bcsSerialize_RawTransaction (sample_root_raw\<lparr>RawTransaction_payload := payload\<rparr>) =
      Inr (enc (doc_RawTransaction (sample_root_raw\<lparr>RawTransaction_payload := payload\<rparr>)))"
    using assms by (simp add: bcsSerialize_RawTransaction_def RawTransaction_codec.bcsSerialize_iff)
  moreover have "find_account sample_env ACCOUNT_ROOT_ID (sample_client, 0) = (Inr (sample_view ROOT_ADDRESS), (sample_client, 0))"
    by (rule find_account_cached) (simp add: sample_root_cached)
  ultimately show ?thesis
    using sample_sign [of ACCOUNT_ROOT_ID] raw
    by (simp add: make_signed_txn_def eff_bind_def eff_get_def eff_lift_def eff_return_def client_sign_def sample_env_def Let_def)
qed

lemma sample_make_signed:
  "\<exists>txn. make_signed_txn sample_env ACCOUNT_ROOT_ID sample_payload 1000000 0 (str ''VLS'') 100 (sample_client, 0) =
     (Inr txn, (sample_client, 0)) \<and> SignedTransaction_raw_txn txn = sample_root_raw"
proof -
  have "sample_root_raw\<lparr>RawTransaction_payload := sample_payload\<rparr> = sample_root_raw"
    by (simp add: sample_root_raw_def sample_raw_transaction_def sample_payload_def)
  with sample_make_signed_script [of sample_payload] sample_root_message show ?thesis
    by (simp add: bcsSerialize_RawTransaction_def RawTransaction_codec.bcsSerialize_iff)
qed

text \<open>
  C16. Whatever a client signs verifies: in every history of a client, a transaction that
  make_signed_txn returns carries a public key and a signature of the right length, and the
  signature verifies with that key over the domain separator and the BCS bytes of the raw
  transaction. This also holds for the designated dealer, whose public key is taken from another
  member, because the three keys of a client are one.
\<close>

theorem signed_transactions_verify:
  assumes "openssl_ok (env_ssl env)" and "client_history env s"
    and "make_signed_txn env i payload max_gas gas_price currency secs s = (Inr txn, t)"
  shows "\<exists>pub signature bytes'. SignedTransaction_authenticator txn =
      TransactionAuthenticator_Ed25519 \<lparr>Ed25519PublicKey_value = pub\<rparr> \<lparr>Ed25519Signature_value = signature\<rparr> \<and>
    bcsSerialize_RawTransaction (SignedTransaction_raw_txn txn) = Inr bytes' \<and>
    RawTransaction_payload (SignedTransaction_raw_txn txn) = payload \<and>
    length pub = 32 \<and> length signature = 64 \<and>
    PublicKey_verify (env_ssl env) (PublicKey_new (env_ssl env) pub) signature
      (ssl_sha3_256 (env_ssl env) (str ''DIEM::RawTransaction'') @ bytes') = Inr True"
proof -
  from make_signed_txn_eff [OF assms(3)] obtain v pub signature bytes' where
    t: "fst t = cached i v (fst s)" and p: "RawTransaction_payload (SignedTransaction_raw_txn txn) = payload"
    and m: "bcsSerialize_RawTransaction (SignedTransaction_raw_txn txn) = Inr bytes'"
    and a: "SignedTransaction_authenticator txn =
      TransactionAuthenticator_Ed25519 \<lparr>Ed25519PublicKey_value = pub\<rparr> \<lparr>Ed25519Signature_value = signature\<rparr>"
    and g: "sign_message (env_ssl env) (fst t) i (raw_transaction_message (env_ssl env) bytes') = Inr (pub, signature)"
    by auto
  have "client_ok env (fst t)" using client_history_ok [OF assms(2)] t by simp
  from sign_message_verifies [OF assms(1) this g] p m a show ?thesis
    by (auto simp: verifies_def raw_transaction_message_def)
qed

theorem signed_transactions_verify_witness:
  "\<exists>(txn :: SignedTransaction) pub signature bytes'. SignedTransaction_raw_txn txn = sample_root_raw \<and>
    SignedTransaction_authenticator txn =
      TransactionAuthenticator_Ed25519 \<lparr>Ed25519PublicKey_value = pub\<rparr> \<lparr>Ed25519Signature_value = signature\<rparr> \<and>
    bcsSerialize_RawTransaction (SignedTransaction_raw_txn txn) = Inr bytes' \<and>
    PublicKey_verify sample_ssl (PublicKey_new sample_ssl pub) signature
      (ssl_sha3_256 sample_ssl (str ''DIEM::RawTransaction'') @ bytes') = Inr True"
proof -
  have ssl: "env_ssl sample_env = sample_ssl" by (simp add: sample_env_def)
  obtain txn where txn: "make_signed_txn sample_env ACCOUNT_ROOT_ID sample_payload 1000000 0 (str ''VLS'') 100 (sample_client, 0) =
      (Inr txn, (sample_client, 0))" "SignedTransaction_raw_txn txn = sample_root_raw" using sample_make_signed by blast
  have "openssl_ok (env_ssl sample_env)" unfolding ssl by (rule sample_ssl_ok)
  from signed_transactions_verify [OF this sample_client_history txn(1)] obtain pub signature bytes' where
    "SignedTransaction_authenticator txn =
      TransactionAuthenticator_Ed25519 \<lparr>Ed25519PublicKey_value = pub\<rparr> \<lparr>Ed25519Signature_value = signature\<rparr>"
    "bcsSerialize_RawTransaction (SignedTransaction_raw_txn txn) = Inr bytes'"
    "PublicKey_verify sample_ssl (PublicKey_new sample_ssl pub) signature
      (ssl_sha3_256 sample_ssl (str ''DIEM::RawTransaction'') @ bytes') = Inr True" unfolding ssl by auto
  with txn(2) show ?thesis by blast
qed

text \<open>
  C17. Sequence numbers are neither reused nor skipped: in a series of submissions for an
  account of the cache, blocking and awaited calls mixed and whatever comes of each of them, the
  submissions that succeed get consecutive sequence numbers beginning with that of the account,
  and the cache ends up with the next one.
\<close>

theorem sequence_numbers_consecutive:
  assumes "submit_all (submit_one env i) submissions s = (results, t)" and "m_accounts (fst s) i = Some view"
  shows "submitted results = map (\<lambda>k. AccountView_sequence_number view + of_nat k) [0..<length (submitted results)] \<and>
    m_accounts (fst t) i = Some (view\<lparr>AccountView_sequence_number :=
      AccountView_sequence_number view + of_nat (length (submitted results))\<rparr>)"
  using assms by (rule account_submitter.numbers)

theorem sequence_numbers_consecutive_witness:
  "\<exists>results t. submit_all (submit_one sample_env ACCOUNT_ROOT_ID) [\<lparr>sub_awaited = False, sub_payload = sample_payload, sub_max_gas_amount = 1000000,
      sub_gas_unit_price = 0, sub_gas_currency_code = str ''VLS'', sub_expiration = 100\<rparr>] (sample_client, 0) = (results, t) \<and>
    submitted results = [7]"
proof -
  obtain txn where txn: "make_signed_txn sample_env ACCOUNT_ROOT_ID sample_payload 1000000 0 (str ''VLS'') 100 (sample_client, 0) =
      (Inr txn, (sample_client, 0))" using sample_make_signed by blast
  obtain rs t where rs: "submit_all (submit_one sample_env ACCOUNT_ROOT_ID) [\<lparr>sub_awaited = False, sub_payload = sample_payload, sub_max_gas_amount = 1000000,
      sub_gas_unit_price = 0, sub_gas_currency_code = str ''VLS'', sub_expiration = 100\<rparr>] (sample_client, 0) = (rs, t)"
    by (rule prod.exhaust)
  then have "length (submitted rs) = 1"
    using txn sample_submits increment_eff [of "(sample_client, 0::nat)" ACCOUNT_ROOT_ID "sample_view ROOT_ADDRESS"] sample_root_cached
    by (auto simp: submit_one_def submit_txn_payload_def eff_bind_def eff_snd_def eff_return_def)
  with sequence_numbers_consecutive [OF rs, of "sample_view ROOT_ADDRESS"] sample_root_cached rs show ?thesis
    by (simp add: sample_view_def)
qed

text \<open>
  C18. Waiting for a transaction ends after at most 50 questions, and returns without an
  exception exactly if one of the first 50 answers, the first that has a transaction at all,
  says that it was executed. So a transaction that the service reports as executed within 50
  questions is confirmed, and no other is.
\<close>

theorem transaction_confirmed:
  "fst (check_txn_vm_status env address sn error_info (c, w)) = Inr () \<longleftrightarrow>
     (\<exists>i < 50.
       (\<forall>j < i. answer (rpc_get_account_transaction (env_rpc env) address sn False) (env_sleep env) j w = Inr None) \<and>
       (\<exists>type'. answer (rpc_get_account_transaction (env_rpc env) address sn False) (env_sleep env) i w =
          Inr (Some \<lparr>TransactionView_vm_status = VMStatus_Executed type'\<rparr>)))"
proof -
  let ?poll = "poll_transaction (rpc_get_account_transaction (env_rpc env) address sn False) (env_sleep env) 50"
  have "fst (check_txn_vm_status env address sn error_info (c, w)) = Inr () \<longleftrightarrow>
      (\<exists>v. fst (?poll w) = Inr v \<and> vm_status_result error_info v = Inr ())"
    by (auto simp: check_txn_vm_status_def eff_bind_def eff_snd_def eff_lift_def split: prod.splits sum.splits)
  then show ?thesis unfolding poll_executed_iff .
qed

theorem transaction_confirmed_witness:
  "fst (check_txn_vm_status sample_env ROOT_ADDRESS 7 (str ''mint'') (sample_client, 0)) = Inr ()"
proof -
  have world: "world_after (rpc_get_account_transaction sample_rpc ROOT_ADDRESS 7 False) (\<lambda>ms w. Suc w) i w = w + i" for i w
    by (induction i arbitrary: w) (simp_all add: sample_rpc_def)
  show ?thesis
    unfolding transaction_confirmed
    by (rule exI [of _ 3]) (simp add: answer_def sample_env_def world, simp add: sample_rpc_def)
qed

text \<open>A service that answers every request, and remembers them.\<close>

definition sample_http :: "(cstring list, unit) http" where
  "sample_http = \<lparr>http_post = (\<lambda>request' w. (Inr \<lparr>status_code = 200, extract_string = [], extract_json = Inr ()\<rparr>, w @ [request']))\<rparr>"

definition sample_web_json :: "unit json" where
  "sample_web_json = \<lparr>json_at = (\<lambda>v k. Inr ()), json_is_null = (\<lambda>v. True), json_as_string = (\<lambda>v. Inr []),
     json_as_integer = (\<lambda>v. Inr 0), json_to_int64 = (\<lambda>v. Inr 0), json_as_array = (\<lambda>v. Inr []), json_serialize = (\<lambda>v. [])\<rparr>"

lemma enc_SignedTransaction_not_Nil: "enc (doc_SignedTransaction t) \<noteq> []"
  by (simp add: doc_SignedTransaction_def doc_RawTransaction_def doc_AccountAddress_def doc_word_def doc_u8_def)

text \<open>
  C19. What goes over the wire is the transaction. Submitting a signed transaction whose strings
  are UTF-8 (and whose arrays have their full size) posts one request, whose parameter is the
  hexadecimal digits of the canonical bytes, two digits for each byte, and the receiver that
  decodes the digits and deserializes the bytes gets the transaction that was submitted.
\<close>

theorem submitted_transaction_decodes:
  assumes "bcsSerialize_SignedTransaction txn = Inr bytes'" and "typed (doc_SignedTransaction txn)"
  shows \<open>submit http json txn w =
      eff_bind (rpc_call http
        (str ''{"jsonrpc":"2.0","method":"submit","params":["'' @ bytes_to_hex bytes' @ str ''"],"id":1}''))
        (\<lambda>rpc_response. eff_lift (submit_answer json rpc_response)) w \<and>
    length (bytes_to_hex bytes') = 2 * length bytes' \<and>
    set (bytes_to_hex bytes') \<subseteq> set (str ''0123456789abcdef'') \<and>
    sum_bind (hex_to_bytes (bytes_to_hex bytes')) (bcsDeserialize_SignedTransaction Left_to_right) = Inr txn\<close>
proof (intro conjI)
  show \<open>submit http json txn w =
      eff_bind (rpc_call http
        (str ''{"jsonrpc":"2.0","method":"submit","params":["'' @ bytes_to_hex bytes' @ str ''"],"id":1}''))
        (\<lambda>rpc_response. eff_lift (submit_answer json rpc_response)) w\<close>
    by (simp add: submit_def assms(1) submit_request_def eff_bind_def eff_lift_def)
  show "length (bytes_to_hex bytes') = 2 * length bytes'" by simp
  show "set (bytes_to_hex bytes') \<subseteq> set (str ''0123456789abcdef'')" by (rule bytes_to_hex_digits)
  have "bytes' \<noteq> []"
    using assms(1) by (auto simp: bcsSerialize_SignedTransaction_def SignedTransaction_codec.bcsSerialize_iff
        enc_SignedTransaction_not_Nil)
  moreover have "bcsDeserialize_SignedTransaction Left_to_right bytes' = Inr txn"
    using assms unfolding bcsSerialize_SignedTransaction_def bcsDeserialize_SignedTransaction_def
    by (rule SignedTransaction_codec.message_roundtrip)
  ultimately show "sum_bind (hex_to_bytes (bytes_to_hex bytes')) (bcsDeserialize_SignedTransaction Left_to_right) = Inr txn"
    by (simp add: hex_to_bytes_hex sum_bind_def)
qed

theorem submitted_transaction_decodes_witness:
  \<open>snd (submit sample_http sample_web_json sample_signed_transaction []) =
     [str ''{"jsonrpc":"2.0","method":"submit","params":["'' @
        bytes_to_hex (enc (doc_SignedTransaction sample_signed_transaction)) @ str ''"],"id":1}''] \<and>
   sum_bind (hex_to_bytes (bytes_to_hex (enc (doc_SignedTransaction sample_signed_transaction))))
     (bcsDeserialize_SignedTransaction Left_to_right) = Inr sample_signed_transaction\<close>
proof -
  note wire = submitted_transaction_decodes [OF sample_signed_message sample_signed_ok(1), of sample_http sample_web_json "[]"]
  then show ?thesis by (simp add: rpc_call_def eff_bind_def eff_lift_def sample_http_def)
qed

text \<open>
  The question for a transaction names its sequence number through %d, which prints an int:
  below 2^31 different numbers give different questions, but numbers that differ by 2^32 give
  the same one, so from there on the client asks for another transaction than it means.
\<close>

theorem transaction_request_number:
  "get_account_transaction_request address (n + 0x100000000) events = get_account_transaction_request address n events \<and>
   (unat n < 2 ^ 31 \<and> unat m < 2 ^ 31 \<and>
      get_account_transaction_request address n events = get_account_transaction_request address m events \<longrightarrow> n = m)"
proof (intro conjI impI)
  show "get_account_transaction_request address (n + 0x100000000) events = get_account_transaction_request address n events"
    by (simp add: get_account_transaction_request_def format_d_low)
  assume a: "unat n < 2 ^ 31 \<and> unat m < 2 ^ 31 \<and>
      get_account_transaction_request address n events = get_account_transaction_request address m events"
  then have "format_d n = format_d m" by (simp add: get_account_transaction_request_def)
  with a have "dec (unat n) = dec (unat m)" by (simp add: format_d_small)
  then show "n = m" by (auto simp: word_unat_eq_iff dest: dec_inj)
qed

theorem transaction_request_number_witness:
  "get_account_transaction_request ROOT_ADDRESS 3 False \<noteq> get_account_transaction_request ROOT_ADDRESS 4 False"
  using transaction_request_number [of ROOT_ADDRESS 3 False 4] by auto

lemma sample_multi_agent_fits:
  "\<exists>message. raw_transaction_with_data_message sample_ssl
     (sample_root_raw\<lparr>RawTransaction_payload := TransactionPayload_Script \<lparr>Script_code = [], Script_ty_args = [], Script_args = []\<rparr>\<rparr>)
     [TC_ADDRESS] = Inr message"
proof -
  let ?raw = "sample_root_raw\<lparr>RawTransaction_payload := TransactionPayload_Script \<lparr>Script_code = [], Script_ty_args = [], Script_args = []\<rparr>\<rparr>"
  have "fits (doc_RawTransaction ?raw)" "depth (doc_RawTransaction ?raw) \<le> 400"
    by (simp_all add: sample_defs sample_root_raw_def ROOT_ADDRESS_def doc_Script_def doc_vector_def)
  then have "bcsSerialize_RawTransaction ?raw = Inr (enc (doc_RawTransaction ?raw))"
    by (simp add: bcsSerialize_RawTransaction_def RawTransaction_codec.bcsSerialize_iff)
  moreover have "bcs_codec (serialize_vector serialize_AccountAddress) (deserialize_vector deserialize_AccountAddress)
      (doc_vector doc_AccountAddress)"
    by (intro codec_intros AccountAddress_codec.bcs_codec_axioms)
  from bcs_codec.bcsSerialize_iff [OF this, of "[TC_ADDRESS]" "enc (doc_vector doc_AccountAddress [TC_ADDRESS])"]
  have "bcsSerialize (serialize_vector serialize_AccountAddress) [TC_ADDRESS] = Inr (enc (doc_vector doc_AccountAddress [TC_ADDRESS]))"
    by (simp add: doc_vector_def sample_defs TC_ADDRESS_def)
  ultimately show ?thesis by (simp add: raw_transaction_with_data_message_def sum_bind_def)
qed

lemma sample_multi_agent_signed:
  "\<exists>txn. sign_multi_agent_script sample_env ACCOUNT_ROOT_ID
      \<lparr>Script_code = [], Script_ty_args = [], Script_args = []\<rparr> [TC_ADDRESS] 1000000 0 (str ''VLS'') 100 (sample_client, 0) =
      (Inr txn, (sample_client, 0)) \<and>
    SignedTransaction_raw_txn txn = sample_root_raw\<lparr>RawTransaction_payload :=
      TransactionPayload_Script \<lparr>Script_code = [], Script_ty_args = [], Script_args = []\<rparr>\<rparr> \<and>
    (\<exists>a. SignedTransaction_authenticator txn = TransactionAuthenticator_MultiAgent a [TC_ADDRESS] [])"
proof -
  let ?payload = "TransactionPayload_Script \<lparr>Script_code = [], Script_ty_args = [], Script_args = []\<rparr>"
  have raw: "\<lparr>RawTransaction_sender = AccountView_address (sample_view ROOT_ADDRESS),
      RawTransaction_sequence_number = AccountView_sequence_number (sample_view ROOT_ADDRESS),
      RawTransaction_payload = ?payload, RawTransaction_max_gas_amount = 1000000,
      RawTransaction_gas_unit_price = 0, RawTransaction_gas_currency_code = str ''VLS'',
      RawTransaction_expiration_timestamp_secs = 0 + 100,
      RawTransaction_chain_id = \<lparr>ChainId_value = m_chain_id sample_client\<rparr>\<rparr> = sample_root_raw\<lparr>RawTransaction_payload := ?payload\<rparr>"
    by (simp add: sample_root_raw_def sample_raw_transaction_def sample_view_def sample_client_def)
  obtain message where m: "raw_transaction_with_data_message sample_ssl (sample_root_raw\<lparr>RawTransaction_payload := ?payload\<rparr>)
      [TC_ADDRESS] = Inr message" using sample_multi_agent_fits by blast
  have "find_account sample_env ACCOUNT_ROOT_ID (sample_client, 0) = (Inr (sample_view ROOT_ADDRESS), (sample_client, 0))"
    by (rule find_account_cached) (simp add: sample_root_cached)
  then show ?thesis
    using m sample_sign [of ACCOUNT_ROOT_ID message] raw
    by (simp add: sign_multi_agent_script_def eff_bind_def eff_get_def eff_lift_def eff_return_def client_sign_def sample_env_def)
qed

text \<open>
  C20. A transaction with two signers: when an account signs a script and an ordinary account or
  the treasury account adds its signature and submits it, both signatures verify over the same
  message, that of the submitted transaction with its list of secondary signers. But the
  sequence number of the sender is not moved on: the cache still holds the number that was just
  used, and the next transaction of the sender would use it again.
\<close>

theorem multi_agent_transaction:
  assumes "openssl_ok (env_ssl env)" and "client_history env s"
    and "sign_multi_agent_script env i script addresses max_gas gas_price currency secs s = (Inr txn, s1)"
    and "sign_and_submit_multi_agent_signed_txn env j txn s1 = (Inr (sender, sn), s2)"
    and "j \<noteq> ACCOUNT_ROOT_ID" and "j \<noteq> ACCOUNT_DD_ID"
  shows "\<exists>pub1 sig1 pub2 sig2 message txn'.
    rpc_submit (env_rpc env) txn' (snd s1) = (Inr (), snd s2) \<and>
    SignedTransaction_raw_txn txn' = SignedTransaction_raw_txn txn \<and>
    SignedTransaction_authenticator txn' = TransactionAuthenticator_MultiAgent
      (AccountAuthenticator_Ed25519 \<lparr>Ed25519PublicKey_value = pub1\<rparr> \<lparr>Ed25519Signature_value = sig1\<rparr>) addresses
      [AccountAuthenticator_Ed25519 \<lparr>Ed25519PublicKey_value = pub2\<rparr> \<lparr>Ed25519Signature_value = sig2\<rparr>] \<and>
    raw_transaction_with_data_message (env_ssl env) (SignedTransaction_raw_txn txn') addresses = Inr message \<and>
    PublicKey_verify (env_ssl env) (PublicKey_new (env_ssl env) pub1) sig1 message = Inr True \<and>
    PublicKey_verify (env_ssl env) (PublicKey_new (env_ssl env) pub2) sig2 message = Inr True \<and>
    sn = RawTransaction_sequence_number (SignedTransaction_raw_txn txn) \<and>
    (\<exists>view. m_accounts (fst s2) i = Some view \<and> AccountView_sequence_number view = sn)"
proof -
  from sign_multi_agent_success [OF assms(3)] obtain v pub1 sig1 message where
    c: "fst s1 = cached i v (fst s)"
    and sn: "RawTransaction_sequence_number (SignedTransaction_raw_txn txn) = AccountView_sequence_number v"
    and auth: "SignedTransaction_authenticator txn = TransactionAuthenticator_MultiAgent
      (AccountAuthenticator_Ed25519 \<lparr>Ed25519PublicKey_value = pub1\<rparr> \<lparr>Ed25519Signature_value = sig1\<rparr>) addresses []"
    and m: "raw_transaction_with_data_message (env_ssl env) (SignedTransaction_raw_txn txn) addresses = Inr message"
    and sig1: "sign_message (env_ssl env) (fst s1) i message = Inr (pub1, sig1)" by metis
  from submit_multi_agent_success [OF assms(4) auth assms(5,6)] obtain pub2 sig2 message' where
    m': "raw_transaction_with_data_message (env_ssl env) (SignedTransaction_raw_txn txn) addresses = Inr message'"
    and sig2: "sign_message (env_ssl env) (fst s1) j message' = Inr (pub2, sig2)"
    and sub: "rpc_submit (env_rpc env) (add_signer pub2 sig2 txn) (snd s1) = (Inr (), snd s2)"
    and s2: "fst s2 = fst s1" "sn = RawTransaction_sequence_number (SignedTransaction_raw_txn txn)" by metis
  have key: "client_ok env (fst s1)" using client_history_ok [OF assms(2)] c by simp
  have "verifies (env_ssl env) pub1 sig1 message" "verifies (env_ssl env) pub2 sig2 message"
    using sign_message_verifies [OF assms(1) key] sig1 sig2 m m' by auto
  moreover have "m_accounts (fst s2) i = Some v" using c s2 by simp
  ultimately show ?thesis
    using sub s2 sn m auth
    by (intro exI [of _ pub1] exI [of _ sig1] exI [of _ pub2] exI [of _ sig2] exI [of _ message]
        exI [of _ "add_signer pub2 sig2 txn"]) (simp add: add_signer_def verifies_def)
qed

theorem multi_agent_transaction_witness:
  "\<exists>txn s1 r s2 view. sign_multi_agent_script sample_env ACCOUNT_ROOT_ID
      \<lparr>Script_code = [], Script_ty_args = [], Script_args = []\<rparr> [TC_ADDRESS] 1000000 0 (str ''VLS'') 100 (sample_client, 0) = (Inr txn, s1) \<and>
    sign_and_submit_multi_agent_signed_txn sample_env ACCOUNT_TC_ID txn s1 = (Inr r, s2) \<and>
    m_accounts (fst s2) ACCOUNT_ROOT_ID = Some view \<and> AccountView_sequence_number view = snd r"
proof -
  let ?script = "\<lparr>Script_code = [], Script_ty_args = [], Script_args = []\<rparr> :: Script"
  obtain txn s1 where t: "sign_multi_agent_script sample_env ACCOUNT_ROOT_ID ?script [TC_ADDRESS] 1000000 0 (str ''VLS'') 100
      (sample_client, 0) = (Inr txn, s1)" and s1: "s1 = (sample_client, 0)"
    and raw: "SignedTransaction_raw_txn txn = sample_root_raw\<lparr>RawTransaction_payload := TransactionPayload_Script ?script\<rparr>"
    and auth: "\<exists>a. SignedTransaction_authenticator txn = TransactionAuthenticator_MultiAgent a [TC_ADDRESS] []"
    using sample_multi_agent_signed by blast
  obtain sender sn s2 where u: "sign_and_submit_multi_agent_signed_txn sample_env ACCOUNT_TC_ID txn s1 = (Inr (sender, sn), s2)"
    using sample_multi_agent_fits auth raw sample_sign [of ACCOUNT_TC_ID] sample_account_ids s1
    by (auto simp: sign_and_submit_multi_agent_signed_txn_def eff_bind_def eff_lift_def eff_return_def eff_snd_def
        client_sign_def sample_env_def sample_rpc_def Let_def)
  have ssl: "openssl_ok (env_ssl sample_env)" using sample_ssl_ok by (simp add: sample_env_def)
  from multi_agent_transaction [OF ssl sample_client_history t u] sample_account_ids
  obtain view where "m_accounts (fst s2) ACCOUNT_ROOT_ID = Some view" "AccountView_sequence_number view = sn" by metis
  with t u show ?thesis by fastforce
qed

section \<open>Tokens, stores and files\<close>

lemma task_fairly_awaited:
  assumes "\<forall>xs \<in> set rounds. set xs = {Callee, Awaiter}" and "6 \<le> length rounds"
  shows "awaiter_state (task_run_atomic outcome (concat rounds) get_return_object) = Got outcome"
proof (rule work_done)
  show "atomic_ok outcome (task_run_atomic outcome (concat rounds) get_return_object)"
    by (rule atomic_ok_run [OF atomic_ok_initial])
  have "task_work (get_return_object :: 'a task) = 6" by (simp add: task_work_def get_return_object_def)
  with atomic_rounds [OF atomic_ok_initial assms(1), of outcome] assms(2)
  show "task_work (task_run_atomic outcome (concat rounds) get_return_object) = 0" by simp
qed

text \<open>
  C21. A coroutine awaited by another. Whatever the schedule of their two threads, the awaiter
  gets nothing but the outcome of the task, its value or its exception. If nothing comes between
  await_ready and await_suspend, every fair schedule gives the awaiter the outcome: six rounds
  in which both threads have a turn are enough. But await_ready, await_suspend and final_suspend
  are not synchronised: in one schedule the awaiter stays suspended for ever, and in another it
  writes to the promise of a coroutine that is destroyed.
\<close>

theorem awaited_task:
  assumes "\<forall>xs \<in> set rounds. set xs = {Callee, Awaiter}" and "6 \<le> length rounds"
  shows "(\<forall>r. awaiter_state (task_run outcome schedule get_return_object) = Got r \<longrightarrow> r = outcome) \<and>
    awaiter_state (task_run_atomic outcome (concat rounds) get_return_object) = Got outcome \<and>
    awaiter_state (task_run outcome ([Awaiter, Callee, Callee, Awaiter] @ schedule) get_return_object) = Suspended \<and>
    awaiter_state (task_run outcome [Awaiter, Callee, Callee, Callee, Awaiter] get_return_object) = Dangling"
proof (intro conjI allI impI)
  show "awaiter_state (task_run outcome schedule get_return_object) = Got r \<Longrightarrow> r = outcome" for r
    using task_ok_run [OF task_ok_initial, of outcome schedule] by (auto simp: task_ok_def)
  show "awaiter_state (task_run outcome ([Awaiter, Callee, Callee, Awaiter] @ schedule) get_return_object) = Suspended"
    using forgotten_run [OF lost_wake_up] unfolding task_run_append forgotten_def by blast
qed (rule task_fairly_awaited [OF assms], rule dangling_promise)

theorem awaited_task_witness:
  "awaiter_state (task_run_atomic (Inr (7 :: nat)) (concat (replicate 6 [Callee, Awaiter])) get_return_object) = Got (Inr 7)"
  using awaited_task [of "replicate 6 [Callee, Awaiter]" "Inr (7 :: nat)" "[]"] by simp

lemma sample_executed: "executed sample_env address sn 0"
proof -
  have world: "world_after (rpc_get_account_transaction sample_rpc address sn False) (\<lambda>ms w. Suc w) i w = w + i" for i w
    by (induction i arbitrary: w) (simp_all add: sample_rpc_def)
  show ?thesis
    unfolding executed_def
    by (rule exI [of _ 3]) (simp add: answer_def sample_env_def world, simp add: sample_rpc_def)
qed

definition sample_nft :: TypeTag where
  "sample_nft = TypeTag_Struct (StructTag VIOLAS_LIB_ADDRESS \<lparr>Identifier_value = str ''Tea''\<rparr> \<lparr>Identifier_value = str ''Tea''\<rparr> [])"

lemma sample_trade:
  "\<exists>t. trade_order sample_env sample_nft ACCOUNT_ROOT_ID (str ''VLS'') (replicate 32 5) (sample_client, 0) = (Inr (), t)"
proof -
  let ?payload = "TransactionPayload_Script \<lparr>Script_code = [0xA1, 0x1C, 0xEB, 0x0B],
    Script_ty_args = [sample_nft, currency_tag (str ''VLS'')], Script_args = make_txn_args [Arg_array32 (replicate 32 5)]\<rparr>"
  let ?raw = "sample_root_raw\<lparr>RawTransaction_payload := ?payload\<rparr>"
  have "fits (doc_RawTransaction ?raw)" "depth (doc_RawTransaction ?raw) \<le> 500"
    by (simp_all add: sample_defs sample_root_raw_def ROOT_ADDRESS_def doc_Script_def sample_nft_def currency_tag_def
        make_struct_type_tag_def make_txn_args_def doc_TransactionArgument_def doc_Identifier_def VIOLAS_LIB_ADDRESS_def
        STD_LIB_ADDRESS_def str_def)
  then obtain txn where txn: "make_signed_txn sample_env ACCOUNT_ROOT_ID ?payload 1000000 0 (str ''VLS'') 100 (sample_client, 0) =
      (Inr txn, (sample_client, 0))" using sample_make_signed_script by blast
  have code: "env_file sample_env 0 (str ''move/build/scripts/nft_store_2_trade_order.mv'') = Some [0xA1, 0x1C, 0xEB, 0x0B]"
    by (simp add: sample_env_def str_def)
  obtain c where sub: "submit_txn_payload sample_env ACCOUNT_ROOT_ID ?payload 1000000 0 (str ''VLS'') 100 (sample_client, 0) =
      (Inr (RawTransaction_sender (SignedTransaction_raw_txn txn), RawTransaction_sequence_number (SignedTransaction_raw_txn txn)), (c, 0))"
    using txn sample_submits sample_root_cached
    by (auto simp: submit_txn_payload_def increment_sequence_number_def set_account_def eff_bind_def eff_fst_def eff_snd_def
        eff_return_def eff_get_def eff_modify_def)
  have "fst (check_txn_vm_status sample_env (RawTransaction_sender (SignedTransaction_raw_txn txn))
      (RawTransaction_sequence_number (SignedTransaction_raw_txn txn)) (str ''Store::trade_order'') (c, 0)) = Inr ()"
    unfolding check_txn_executed by (rule sample_executed)
  with code sub show ?thesis
    by (auto simp: trade_order_def script_call_def execute_script_file_def read_file_def submit_script_def eff_bind_def
        eff_get_def eff_lift_def eff_return_def eff_snd_def prod_eq_iff split: prod.splits)
qed

text \<open>
  C22. What a store promises when account i makes, revokes or trades an order without an
  exception, in every history of the client. The script of the operation was read from its file;
  a transaction with the address of account i and the next sequence number of that account has
  it as its payload, with the type of the token (and the currency) as type arguments and the
  identifier of token or order (and the price) as its arguments; it is signed with the key of
  account i, and the signature verifies; the service took the transaction, in the world that the
  lookup of the account had left, and reported it as executed; and afterwards the client has
  counted it for account i, and nothing else of the client has changed. When the file of the
  script is missing, each of the three operations throws and changes nothing.
\<close>

theorem store_orders_confirmed:
  assumes "openssl_ok (env_ssl env)" and "client_history env s"
  shows "(make_order env nft i nft_id price currency s = (Inr (), t) \<longrightarrow>
      script_confirmed env i ''move/build/scripts/nft_store_2_make_order.mv'' [nft, currency_tag currency]
        [TransactionArgument_U8Vector nft_id, TransactionArgument_U64 price] s t) \<and>
    (revoke_order env nft i order s = (Inr (), t) \<longrightarrow>
      script_confirmed env i ''move/build/scripts/nft_store_2_revoke_order.mv'' [nft] [TransactionArgument_U8Vector order] s t) \<and>
    (trade_order env nft i currency order s = (Inr (), t) \<longrightarrow>
      script_confirmed env i ''move/build/scripts/nft_store_2_trade_order.mv'' [nft, currency_tag currency]
        [TransactionArgument_U8Vector order] s t) \<and>
    (env_file env (snd s) (str ''move/build/scripts/nft_store_2_make_order.mv'') = None \<longrightarrow>
      (\<exists>e. make_order env nft i nft_id price currency s = (Inl (Runtime_error e), s))) \<and>
    (env_file env (snd s) (str ''move/build/scripts/nft_store_2_revoke_order.mv'') = None \<longrightarrow>
      (\<exists>e. revoke_order env nft i order s = (Inl (Runtime_error e), s))) \<and>
    (env_file env (snd s) (str ''move/build/scripts/nft_store_2_trade_order.mv'') = None \<longrightarrow>
      (\<exists>e. trade_order env nft i currency order s = (Inl (Runtime_error e), s)))"
proof (intro conjI impI)
  note call = script_call_confirmed [OF assms]
  show "script_confirmed env i ''move/build/scripts/nft_store_2_make_order.mv'' [nft, currency_tag currency]
      [TransactionArgument_U8Vector nft_id, TransactionArgument_U64 price] s t"
    if "make_order env nft i nft_id price currency s = (Inr (), t)"
    using call [OF that [unfolded make_order_def]] by (simp add: make_txn_args_def)
  show "script_confirmed env i ''move/build/scripts/nft_store_2_revoke_order.mv'' [nft] [TransactionArgument_U8Vector order] s t"
    if "revoke_order env nft i order s = (Inr (), t)"
    using call [OF that [unfolded revoke_order_def]] by (simp add: make_txn_args_def)
  show "script_confirmed env i ''move/build/scripts/nft_store_2_trade_order.mv'' [nft, currency_tag currency]
      [TransactionArgument_U8Vector order] s t"
    if "trade_order env nft i currency order s = (Inr (), t)"
    using call [OF that [unfolded trade_order_def]] by (simp add: make_txn_args_def)
qed (simp_all add: make_order_def revoke_order_def trade_order_def script_call_no_file)

theorem store_orders_confirmed_witness:
  "\<exists>t. script_confirmed sample_env ACCOUNT_ROOT_ID ''move/build/scripts/nft_store_2_trade_order.mv''
     [sample_nft, currency_tag (str ''VLS'')] [TransactionArgument_U8Vector (replicate 32 5)] (sample_client, 0) t"
proof -
  have "openssl_ok (env_ssl sample_env)" using sample_ssl_ok by (simp add: sample_env_def)
  from store_orders_confirmed [OF this sample_client_history] sample_trade show ?thesis by blast
qed

definition sample_nft_info :: NftInfo where
  "sample_nft_info = \<lparr>limited = True, total = 9, amount = 1, admin = replicate 16 1, owners = [([1], replicate 16 2)],
     mint_event = \<lparr>counter = 1, guid = [4]\<rparr>, burn_event = no_handle, transferred_event = no_handle\<rparr>"

definition sample_nft_account :: "Portrait NFT" where
  "sample_nft_account = \<lparr>NFT_tokens = [\<lparr>description = [8], ipfs_cid = [9]\<rparr>], NFT_sent_event = no_handle,
     NFT_received_event = no_handle\<rparr>"

definition resource_key :: "StructTag \<Rightarrow> u8 list" where
  "resource_key tag = enc (doc_ResourcePath (ResourcePath_StructTag tag))"

definition sample_nft_env :: "(u8 list, nat) env" where
  "sample_nft_env = serving_env (\<lambda>address.
     if address = bytes_to_hex (AccountAddress_value ROOT_ADDRESS)
     then [(resource_key (nft_tag Portrait_type ''Configuration''), enc (doc_NftInfo sample_nft_info))]
     else [(resource_key (nft_tag Portrait_type ''NFT''), enc (doc_NFT doc_Portrait sample_nft_account))]) []"

lemmas sample_key_defs = resource_key_def doc_ResourcePath_def sample_defs doc_Identifier_def nft_tag_def Portrait_type_def
  make_struct_type_tag_def make_struct_tag_def VIOLAS_LIB_ADDRESS_def str_def

lemmas sample_resource_defs = sample_nft_info_def sample_nft_account_def doc_NftInfo_def doc_owners_def doc_EventHandle_def
  doc_NFT_def doc_Portrait_def doc_pair_def doc_bool_def no_handle_def

lemma sample_nft_keys:
  "bcsSerialize_ResourcePath (ResourcePath_StructTag (nft_tag Portrait_type ''Configuration'')) =
     Inr (resource_key (nft_tag Portrait_type ''Configuration''))"
  "bcsSerialize_ResourcePath (ResourcePath_StructTag (nft_tag Portrait_type ''NFT'')) =
     Inr (resource_key (nft_tag Portrait_type ''NFT''))"
  unfolding bcsSerialize_ResourcePath_iff by (simp_all add: sample_key_defs)

lemma sample_nft_lengths:
  "lengths_below (2 ^ 28) (doc_NftInfo sample_nft_info)"
  "lengths_below (2 ^ 28) (doc_NFT doc_Portrait sample_nft_account)"
  by (simp_all add: sample_resource_defs doc_vector_def doc_array_def doc_u8_def doc_word_def list_all_iff)

text \<open>Resources with one entry of a few bytes.\<close>

lemma small_resource:
  assumes "length k < 128" and "length v < 128"
  shows "lengths_below (2 ^ 28) (doc_resources [(k, v)])" and "length (enc (doc_resources [(k, v)])) < 2 ^ 28"
  using assms
  by (simp_all add: doc_resources_def doc_vector_def doc_pair_def doc_u8_def list_all_iff uleb128_small
      length_concat comp_def sum_list_triv)

lemma sample_nft_sizes:
  "length (resource_key (nft_tag Portrait_type ''Configuration'')) < 128" "length (enc (doc_NftInfo sample_nft_info)) < 128"
  "length (resource_key (nft_tag Portrait_type ''NFT'')) < 128" "length (enc (doc_NFT doc_Portrait sample_nft_account)) < 128"
  by (simp_all add: sample_key_defs sample_resource_defs uleb128_small comp_def)

lemma sample_address_hex: "xs \<noteq> [] \<Longrightarrow> hd xs \<noteq> 2 \<Longrightarrow> bytes_to_hex (replicate 16 2) \<noteq> bytes_to_hex xs"
  using hex_to_bytes_hex [of xs] hex_to_bytes_hex [of "replicate 16 2"] by (auto simp: hd_replicate)

lemma sample_nft_served:
  "serves_resources sample_nft_env ROOT_ADDRESS
     [(resource_key (nft_tag Portrait_type ''Configuration''), enc (doc_NftInfo sample_nft_info))] 0 0"
  "serves_resources sample_nft_env \<lparr>AccountAddress_value = replicate 16 2\<rparr>
     [(resource_key (nft_tag Portrait_type ''NFT''), enc (doc_NFT doc_Portrait sample_nft_account))] 0 0"
proof -
  have "bytes_to_hex (replicate 16 2) \<noteq> bytes_to_hex (AccountAddress_value ROOT_ADDRESS)"
    by (rule sample_address_hex) (simp_all add: ROOT_ADDRESS_def)
  then show "serves_resources sample_nft_env ROOT_ADDRESS
     [(resource_key (nft_tag Portrait_type ''Configuration''), enc (doc_NftInfo sample_nft_info))] 0 0"
    "serves_resources sample_nft_env \<lparr>AccountAddress_value = replicate 16 2\<rparr>
     [(resource_key (nft_tag Portrait_type ''NFT''), enc (doc_NFT doc_Portrait sample_nft_account))] 0 0"
    unfolding sample_nft_env_def
    by (intro serving_env_serves(1) small_resource sample_nft_sizes; simp)+
qed

text \<open>
  C23. The queries of the token client, from the text of the account to the answer, for tokens
  of type Portrait: when the service serves the resources of the library account with the
  configuration of the token, and those of an account with its tokens, then get_owner gives the
  owner that the configuration has for a token and nothing for a token it does not have, balance
  and get_account give the tokens of the account, and the handles of minted and burned tokens
  come from the configuration, those of sent and received ones from the account.
\<close>

theorem nft_queries:
  assumes "serves_resources env ROOT_ADDRESS root_entries w w1"
    and "bcsSerialize_ResourcePath (ResourcePath_StructTag (nft_tag Portrait_type ''Configuration'')) = Inr conf_key"
    and "map_of root_entries conf_key = Some (enc (doc_NftInfo info))"
    and "length (admin info) = 16" and "owners_ok (owners info)" and "lengths_below (2 ^ 28) (doc_NftInfo info)"
    and "serves_resources env \<lparr>AccountAddress_value = addr\<rparr> entries w w2"
    and "bcsSerialize_ResourcePath (ResourcePath_StructTag (nft_tag Portrait_type ''NFT'')) = Inr nft_key"
    and "map_of entries nft_key = Some (enc (doc_NFT doc_Portrait account))"
    and "lengths_below (2 ^ 28) (doc_NFT doc_Portrait account)"
  shows "get_owner env Portrait_type token_id (c, w) = (Inr (map_of (owners info) token_id), (c, w1)) \<and>
    balance env Portrait_type addr (c, w) = (Inr (Some (NFT_tokens account)), (c, w2)) \<and>
    nft_get_account env Portrait_type addr (c, w) = (Inr (Some account), (c, w2)) \<and>
    get_event_handle env Portrait_type minted addr (c, w) = (Inr (Some (mint_event info)), (c, w1)) \<and>
    get_event_handle env Portrait_type burned addr (c, w) = (Inr (Some (burn_event info)), (c, w1)) \<and>
    get_event_handle env Portrait_type sent addr (c, w) = (Inr (Some (NFT_sent_event account)), (c, w2)) \<and>
    get_event_handle env Portrait_type received addr (c, w) = (Inr (Some (NFT_received_event account)), (c, w2))"
  using get_nft_info_served [OF assms(1-6)] Portrait_token.account_served [OF assms(7-9) _ assms(10)]
  by (simp add: get_owner_def eff_bind_def eff_return_def list_all_iff)

theorem nft_queries_witness:
  "get_owner sample_nft_env Portrait_type [1] (sample_client, 0) = (Inr (Some (replicate 16 2)), (sample_client, 0)) \<and>
   balance sample_nft_env Portrait_type (replicate 16 2) (sample_client, 0) =
     (Inr (Some [\<lparr>description = [8], ipfs_cid = [9]\<rparr>]), (sample_client, 0))"
  using nft_queries [OF sample_nft_served(1) sample_nft_keys(1) _ _ _ sample_nft_lengths(1)
      sample_nft_served(2) sample_nft_keys(2) _ sample_nft_lengths(2), of "[1]" sample_client]
  by (simp add: sample_nft_info_def sample_nft_account_def owners_ok_def)

definition sample_order :: Order where
  "sample_order = \<lparr>order_nft_token_id = [1], order_price = 7, order_currency = [2], order_provider = replicate 16 3,
     order_timestamp = 4\<rparr>"

definition sample_account_info :: "u64 \<Rightarrow> AccountInfo" where
  "sample_account_info n = \<lparr>info_made_order_event_handle = \<lparr>counter = n, guid = [1]\<rparr>,
     info_revoked_order_event_handle = \<lparr>counter = n, guid = [2]\<rparr>, info_sold_order_event_handle = \<lparr>counter = n, guid = [3]\<rparr>,
     info_bought_order_event_handle = \<lparr>counter = n, guid = [4]\<rparr>\<rparr>"

abbreviation store_tag :: "TypeTag \<Rightarrow> string \<Rightarrow> StructTag" where
  "store_tag nft resource_name \<equiv> make_struct_tag VIOLAS_LIB_ADDRESS (str ''NftStore2'') (str resource_name) [nft]"

definition sample_store_env :: "(u8 list, nat) env" where
  "sample_store_env = serving_env (\<lambda>address.
     if address = bytes_to_hex NFT_STORE_ADMIN_ADDRESS
     then [(resource_key (store_tag sample_nft ''OrderList''), enc (doc_vector doc_Order [sample_order])),
       (resource_key (store_tag sample_nft ''Account''), enc (doc_AccountInfo (sample_account_info 5)))]
     else [(resource_key (store_tag sample_nft ''Account''), enc (doc_AccountInfo (sample_account_info 6)))]) []"

lemma sample_store_keys:
  "bcsSerialize_ResourcePath (ResourcePath_StructTag (store_tag sample_nft ''OrderList'')) =
     Inr (resource_key (store_tag sample_nft ''OrderList''))"
  "bcsSerialize_ResourcePath (ResourcePath_StructTag (store_tag sample_nft ''Account'')) =
     Inr (resource_key (store_tag sample_nft ''Account''))"
  unfolding bcsSerialize_ResourcePath_iff by (simp_all add: sample_key_defs sample_nft_def)

lemma sample_store_key_neq: "resource_key (store_tag sample_nft ''Account'') \<noteq> resource_key (store_tag sample_nft ''OrderList'')"
  by (simp add: sample_key_defs sample_nft_def uleb128_small)

lemmas sample_store_defs = sample_order_def sample_account_info_def doc_Order_def doc_AccountInfo_def doc_EventHandle_def
  doc_vector_def doc_array_def doc_u8_def doc_word_def list_all_iff

lemma sample_store_lengths:
  "lengths_below (2 ^ 28) (doc_vector doc_Order [sample_order])" "lengths_below (2 ^ 28) (doc_AccountInfo (sample_account_info n))"
  by (simp_all add: sample_store_defs)

lemma sample_store_sizes:
  "length (resource_key (store_tag sample_nft ''OrderList'')) < 128" "length (resource_key (store_tag sample_nft ''Account'')) < 128"
  "length (enc (doc_vector doc_Order [sample_order])) < 128" "length (enc (doc_AccountInfo (sample_account_info n))) < 128"
  by (simp_all add: sample_key_defs sample_nft_def sample_store_defs uleb128_small comp_def)

lemma small_resources:
  assumes "length k < 128" and "length v < 128" and "length k' < 128" and "length v' < 128"
  shows "lengths_below (2 ^ 28) (doc_resources [(k, v), (k', v')])" and "length (enc (doc_resources [(k, v), (k', v')])) < 2 ^ 28"
  using assms
  by (simp_all add: doc_resources_def doc_vector_def doc_pair_def doc_u8_def list_all_iff uleb128_small
      length_concat comp_def sum_list_triv)

lemma sample_store_served:
  "serves_resources sample_store_env \<lparr>AccountAddress_value = NFT_STORE_ADMIN_ADDRESS\<rparr>
     [(resource_key (store_tag sample_nft ''OrderList''), enc (doc_vector doc_Order [sample_order])),
       (resource_key (store_tag sample_nft ''Account''), enc (doc_AccountInfo (sample_account_info 5)))] 0 0"
  "serves_resources sample_store_env \<lparr>AccountAddress_value = replicate 16 2\<rparr>
     [(resource_key (store_tag sample_nft ''Account''), enc (doc_AccountInfo (sample_account_info 6)))] 0 0"
proof -
  show "serves_resources sample_store_env \<lparr>AccountAddress_value = NFT_STORE_ADMIN_ADDRESS\<rparr>
     [(resource_key (store_tag sample_nft ''OrderList''), enc (doc_vector doc_Order [sample_order])),
       (resource_key (store_tag sample_nft ''Account''), enc (doc_AccountInfo (sample_account_info 5)))] 0 0"
    unfolding sample_store_env_def using sample_store_key_neq
    by (intro serving_env_serves(1) small_resources sample_store_sizes) auto
  have "bytes_to_hex (replicate 16 2) \<noteq> bytes_to_hex NFT_STORE_ADMIN_ADDRESS"
    by (rule sample_address_hex) (simp_all add: NFT_STORE_ADMIN_ADDRESS_def)
  then show "serves_resources sample_store_env \<lparr>AccountAddress_value = replicate 16 2\<rparr>
     [(resource_key (store_tag sample_nft ''Account''), enc (doc_AccountInfo (sample_account_info 6)))] 0 0"
    unfolding sample_store_env_def by (intro serving_env_serves(1) small_resource sample_store_sizes) auto
qed

text \<open>
  The queries of a store, from the text of the accounts to the answer: list_orders gives the
  orders that the administrator holds for the type of token, in their order, and the event
  handles of made, revoked, sold and bought orders of an account come from its own resource. The
  handle for traded orders does not depend on the account asked for: it is the handle of revoked
  orders of the administrator.
\<close>

theorem store_queries:
  assumes "serves_resources env \<lparr>AccountAddress_value = NFT_STORE_ADMIN_ADDRESS\<rparr> admin_entries w w1"
    and "bcsSerialize_ResourcePath (ResourcePath_StructTag (make_struct_tag VIOLAS_LIB_ADDRESS (str ''NftStore2'')
      (str ''OrderList'') [nft])) = Inr list_key"
    and "bcsSerialize_ResourcePath (ResourcePath_StructTag (make_struct_tag VIOLAS_LIB_ADDRESS (str ''NftStore2'')
      (str ''Account'') [nft])) = Inr account_key"
    and "map_of admin_entries list_key = Some (enc (doc_vector doc_Order orders))"
    and "list_all (\<lambda>t. length (order_provider t) = 16) orders" and "lengths_below (2 ^ 28) (doc_vector doc_Order orders)"
    and "map_of admin_entries account_key = Some (enc (doc_AccountInfo admin_info))"
    and "lengths_below (2 ^ 28) (doc_AccountInfo admin_info)"
    and "serves_resources env \<lparr>AccountAddress_value = addr\<rparr> entries w w2"
    and "map_of entries account_key = Some (enc (doc_AccountInfo info))" and "lengths_below (2 ^ 28) (doc_AccountInfo info)"
  shows "list_orders env nft (c, w) = (Inr orders, (c, w1)) \<and>
    store_get_event_handle env nft addr made (c, w) = (Inr (Some (info_made_order_event_handle info)), (c, w2)) \<and>
    store_get_event_handle env nft addr revoked (c, w) = (Inr (Some (info_revoked_order_event_handle info)), (c, w2)) \<and>
    store_get_event_handle env nft addr sold (c, w) = (Inr (Some (info_sold_order_event_handle info)), (c, w2)) \<and>
    store_get_event_handle env nft addr bought (c, w) = (Inr (Some (info_bought_order_event_handle info)), (c, w2)) \<and>
    store_get_event_handle env nft addr traded (c, w) = (Inr (Some (info_revoked_order_event_handle admin_info)), (c, w1))"
  using list_orders_served [OF assms(1,2,4-6)] get_account_info_served [OF assms(1,3,7,8)]
    get_account_info_served [OF assms(9,3,10,11)]
  by (simp add: eff_bind_def eff_return_def)

theorem store_queries_witness:
  "list_orders sample_store_env sample_nft (sample_client, 0) = (Inr [sample_order], (sample_client, 0)) \<and>
   store_get_event_handle sample_store_env sample_nft (replicate 16 2) sold (sample_client, 0) =
     (Inr (Some \<lparr>counter = 6, guid = [3]\<rparr>), (sample_client, 0)) \<and>
   store_get_event_handle sample_store_env sample_nft (replicate 16 2) traded (sample_client, 0) =
     (Inr (Some \<lparr>counter = 5, guid = [2]\<rparr>), (sample_client, 0))"
  using store_queries [OF sample_store_served(1) sample_store_keys _ _ sample_store_lengths(1) _ sample_store_lengths(2)
      sample_store_served(2) _ sample_store_lengths(2), where c = sample_client] sample_store_key_neq
  by (simp add: sample_account_info_def sample_order_def)

definition sample_log :: "SharedTokenEvent list" where
  "sample_log = [\<lparr>sequence_number = 0, transaction_version = 10, shared_sn = 0, shared_sender = replicate 16 1,
     shared_receiver = replicate 16 2, shared_token_id = [1], shared_message = []\<rparr>,
     \<lparr>sequence_number = 1, transaction_version = 11, shared_sn = 0, shared_sender = replicate 16 2,
     shared_receiver = replicate 16 3, shared_token_id = [1], shared_message = []\<rparr>]"

definition sample_global_info :: GlobalInfo where
  "sample_global_info = \<lparr>global_minted_token_event = no_handle, global_shared_token_event = \<lparr>counter = 2, guid = [7]\<rparr>\<rparr>"

definition sample_meta_entries :: resources where
  "sample_meta_entries = [(resource_key (meta_tag ''GlobalInfo''), enc (doc_GlobalInfo sample_global_info))]"

definition sample_meta_env :: "(u8 list, nat) env" where
  "sample_meta_env = serving_env (\<lambda>address. sample_meta_entries) sample_log"

lemma length_sample_log: "length sample_log = 2"
  by (simp add: sample_log_def)

lemma sample_log_ok: "log_ok sample_log"
  by (simp add: log_ok_def sample_log_def shared_ok_def doc_SharedTokenEvent_def doc_vector_def doc_array_def doc_u8_def list_all_iff)

lemma sample_log_served: "serves_history sample_meta_env sample_log"
  unfolding sample_meta_env_def by (rule serving_env_log)

lemma sample_global_key:
  "bcsSerialize_ResourcePath (ResourcePath_StructTag (meta_tag ''GlobalInfo'')) = Inr (resource_key (meta_tag ''GlobalInfo''))"
  unfolding bcsSerialize_ResourcePath_iff by (simp add: sample_key_defs meta_tag_def)

lemma sample_global_length: "lengths_below (2 ^ 28) (doc_GlobalInfo sample_global_info)"
  by (simp add: sample_global_info_def doc_GlobalInfo_def no_handle_def sample_store_defs)

lemma sample_global_served:
  "await_serves_resources sample_meta_env \<lparr>AccountAddress_value = META42_ADMIN_ADDRESS\<rparr> sample_meta_entries 0 0"
  unfolding sample_meta_env_def sample_meta_entries_def
  by (intro serving_env_serves(2) small_resource)
    (simp_all add: sample_key_defs meta_tag_def uleb128_small comp_def sample_global_info_def doc_GlobalInfo_def
      no_handle_def doc_EventHandle_def)

text \<open>
  The local table of shared tokens is always a prefix of the log of the chain: beginning with an
  empty table, after any series of history queries, whichever of them fail, are answered in part
  or are cut off while rows are inserted, the rows are those of the first events of the log, in
  their order and each once. The database numbers the rows from one, so the number of a row is
  one more than the sequence number that the client meant to store.
\<close>

theorem shared_history_prefix:
  assumes "storage_ok st rows" and "log_ok log" and "serves_history env log" and "rows d = []"
  shows "\<exists>n \<le> length log. rows (snd (history_queries env st queries (s, d))) =
    map (\<lambda>k. (SharedTokenHistory_of (log ! k))\<lparr>history_sn := of_nat (k + 1)\<rparr>) [0..<n]"
  using history_queries_table [OF assms(1-3), of d 0 queries s] assms(4) by (auto simp: table_def)

theorem shared_history_prefix_witness:
  "\<exists>n \<le> 2. snd (history_queries sample_meta_env sample_storage [(replicate 16 3, [1])] ((sample_client, 0), [])) =
    map (\<lambda>k. (SharedTokenHistory_of (sample_log ! k))\<lparr>history_sn := of_nat (k + 1)\<rparr>) [0..<n]"
  using shared_history_prefix [OF sample_storage_ok sample_log_ok sample_log_served, of "[]"
      "[(replicate 16 3, [1])]" "(sample_client, 0)"] by (simp add: length_sample_log)

text \<open>
  A history query that meets no failure makes the table complete: when the service serves the
  account of the administrator, whose handle counts all events of the log, and answers the
  request for the missing ones, and the database takes the rows, then the query returns, and the
  table holds all events of the log, whatever part of them it held before.
\<close>

theorem shared_history_complete:
  assumes "storage_ok st rows" and "\<And>h d. \<exists>d'. storage_insert st h d = (Inr (), d')" and "sync_schema st d = (Inr (), d1)"
    and "log_ok log"
    and "await_serves_resources env \<lparr>AccountAddress_value = META42_ADMIN_ADDRESS\<rparr> entries w w1"
    and "bcsSerialize_ResourcePath (ResourcePath_StructTag (meta_tag ''GlobalInfo'')) = Inr key"
    and "map_of entries key = Some (enc (doc_GlobalInfo info))" and "lengths_below (2 ^ 28) (doc_GlobalInfo info)"
    and "counter (global_shared_token_event info) = of_nat (length log)"
    and "rpc_await_get_events (env_rpc env) (bytes_to_hex (guid (global_shared_token_event info)))
        (of_nat n) (of_nat (length log)) w1 = (Inr evs, w2)" and "map event_data evs = event_answers (drop n log)"
    and "rows d = table log n" and "n \<le> length log"
  shows "\<exists>t d'. query_shared_token_events_history env st addr token_id ((c, w), d) = (Inr [], (t, d')) \<and>
    rows d' = table log (length log)"
  by (rule history_query_served [OF assms])

theorem shared_history_complete_witness:
  "\<exists>t d'. query_shared_token_events_history sample_meta_env sample_storage (replicate 16 3) [1] ((sample_client, 0), []) =
     (Inr [], (t, d')) \<and> d' = table sample_log 2"
proof -
  have evs: "rpc_await_get_events (env_rpc sample_meta_env) (bytes_to_hex (guid (global_shared_token_event sample_global_info)))
      (of_nat 0) (of_nat (length sample_log)) 0 = (Inr (map sample_event_view sample_log), 0)"
    by (simp add: sample_meta_env_def serving_env_events length_sample_log)
  have "map event_data (map sample_event_view sample_log) = event_answers (drop 0 sample_log)"
    unfolding sample_event_answers by simp
  from shared_history_complete [OF sample_storage_ok _ _ sample_log_ok sample_global_served sample_global_key _
      sample_global_length _ evs this, where d = "[]"]
  show ?thesis
    by (simp add: sample_storage_def eff_return_def eff_modify_def sample_meta_entries_def sample_global_info_def
        length_sample_log table_def)
qed

text \<open>A token that is passed from one account to another, and one that comes back.\<close>

definition sample_row :: "u8 \<Rightarrow> u8 \<Rightarrow> SharedTokenHistory" where
  "sample_row sender' receiver' = \<lparr>history_sn = 1, history_sender = bytes_to_hex [sender'], history_receiver = bytes_to_hex [receiver'],
     history_token_id = bytes_to_hex [9], history_message = [], history_block_version = 1\<rparr>"

lemma sample_chain_acyclic: "acyclic (came_by [sample_row 1 2, sample_row 2 3])"
proof -
  have "came_by [sample_row 1 2, sample_row 2 3] \<subseteq> {(sample_row 1 2, sample_row 2 3)}"
    by (auto simp: came_by_def earlier_rows_def sample_row_def bytes_to_hex_def hex_digit_def)
  moreover have "sample_row 1 2 \<noteq> sample_row 2 3" by (simp add: sample_row_def bytes_to_hex_def hex_digit_def)
  then have "acyclic {(sample_row 1 2, sample_row 2 3)}" by (simp add: acyclic_insert) (simp add: acyclic_def)
  ultimately show ?thesis by (rule acyclic_subset [rotated])
qed

lemma sample_loop: "(sample_row 1 2, sample_row 1 2) \<in> (came_by [sample_row 1 2, sample_row 2 1])\<^sup>+"
proof -
  have "(sample_row 1 2, sample_row 2 1) \<in> came_by [sample_row 1 2, sample_row 2 1]"
    "(sample_row 2 1, sample_row 1 2) \<in> came_by [sample_row 1 2, sample_row 2 1]"
    by (auto simp: came_by_def earlier_rows_def sample_row_def)
  then show ?thesis by (meson r_into_trancl trancl_into_trancl)
qed

text \<open>
  C24. The recursive query for the way a token took to an account. When none of the sharings by
  which the token came to the account lies on a cycle of such sharings, the query ends, in
  whichever order its rows are taken from the queue; taken in the order in which they were
  found, they all come out, and what it gives out are exactly the rows of these sharings.
  Whenever it ends, in any order, it has given out exactly these. But when one of these sharings
  lies on a cycle, that is, when the token came back to an account that had passed it on before
  it came to the account of the query, the query never ends, in no order: UNION ALL keeps the
  duplicates. Cycles elsewhere in the table, also later ones of the same token, do not matter.
\<close>

theorem sharing_history_query:
  "(\<not> (\<exists>c \<in> history_of rows addr token_id. (c, c) \<in> (came_by rows)\<^sup>+) \<longrightarrow>
      (\<forall>f. f 0 = history_start rows addr token_id \<longrightarrow> (\<exists>i. \<not> history_step rows (f i) (f (Suc i)))) \<and>
      (\<exists>fuel given. history_fifo fuel rows (first_rows rows addr token_id) = Some given \<and>
         set given = history_of rows addr token_id)) \<and>
   (\<forall>given. history_steps rows (history_start rows addr token_id) ({#}, given) \<longrightarrow>
      set_mset given = history_of rows addr token_id) \<and>
   ((\<exists>c \<in> history_of rows addr token_id. (c, c) \<in> (came_by rows)\<^sup>+) \<longrightarrow>
      (\<forall>given. \<not> history_steps rows (history_start rows addr token_id) ({#}, given)))"
proof (intro conjI impI allI)
  assume "\<not> (\<exists>c \<in> history_of rows addr token_id. (c, c) \<in> (came_by rows)\<^sup>+)"
  then have ac: "\<not> cyclic_sharing rows addr token_id" by (simp add: cyclic_sharing_def)
  then show "\<exists>i. \<not> history_step rows (f i) (f (Suc i))" if "f 0 = history_start rows addr token_id" for f
    by (rule history_no_infinite_run [of rows addr token_id f]) (rule that)
  from history_fifo_ends [OF ac history_of_first] obtain fuel given where
    run: "history_fifo fuel rows (first_rows rows addr token_id) = Some given" by blast
  from history_fifo_steps [OF this, of "{#}"] have "set given = history_of rows addr token_id"
    using history_result [of rows addr token_id "mset given"] by (simp add: history_start_def)
  with run show "\<exists>fuel given. history_fifo fuel rows (first_rows rows addr token_id) = Some given \<and>
      set given = history_of rows addr token_id" by blast
next
  assume "\<exists>c \<in> history_of rows addr token_id. (c, c) \<in> (came_by rows)\<^sup>+"
  then show "\<not> history_steps rows (history_start rows addr token_id) ({#}, given)" for given
    using history_never_ends by blast
qed (rule history_result)

theorem sharing_history_query_witness:
  "(\<exists>fuel given. history_fifo fuel [sample_row 1 2, sample_row 2 3] (first_rows [sample_row 1 2, sample_row 2 3] [3] [9]) = Some given \<and>
      set given = history_of [sample_row 1 2, sample_row 2 3] [3] [9]) \<and>
   (\<forall>given. \<not> history_steps [sample_row 1 2, sample_row 2 1] (history_start [sample_row 1 2, sample_row 2 1] [2] [9]) ({#}, given))"
proof
  have "(c, c) \<notin> (came_by [sample_row 1 2, sample_row 2 3])\<^sup>+" for c using sample_chain_acyclic by (simp add: acyclic_def)
  then show "\<exists>fuel given. history_fifo fuel [sample_row 1 2, sample_row 2 3] (first_rows [sample_row 1 2, sample_row 2 3] [3] [9]) = Some given \<and>
      set given = history_of [sample_row 1 2, sample_row 2 3] [3] [9]"
    using sharing_history_query [of "[sample_row 1 2, sample_row 2 3]" "[3]" "[9]"] by blast
  have "sample_row 1 2 \<in> history_of [sample_row 1 2, sample_row 2 1] [2] [9]"
    by (auto simp: history_of_def first_rows_def sample_row_def)
  then show "\<forall>given. \<not> history_steps [sample_row 1 2, sample_row 2 1] (history_start [sample_row 1 2, sample_row 2 1] [2] [9]) ({#}, given)"
    using sharing_history_query [of "[sample_row 1 2, sample_row 2 1]" "[2]" "[9]"] sample_loop by blast
qed

text \<open>
  C25. Files under a password: on a platform whose size_t has four bytes, encryption succeeds
  and decryption with the same password gives the content filled up with zeros to whole blocks,
  so that the command decrypt gives back every mint key file of 33 bytes. On a platform whose
  size_t has eight bytes encryption has no defined behaviour at all, because it stores a size_t
  in an array of four bytes. And a file is refused as not encrypted only when both of its flag
  bytes are wrong.
\<close>

theorem decrypt_encrypted_file:
  assumes "aes_ok aes"
  shows "(\<exists>content. aes_256_cbc_encrypt 4 random aes password data = Inr content \<and>
      aes_256_cbc_decrypt aes password content = Inr (padded data) \<and>
      (length data = 33 \<and> file enc_name = Some content \<longrightarrow>
        command_decrypt aes file [password, enc_name, dec_name] = Inr data)) \<and>
    aes_256_cbc_encrypt 8 random aes password data = Inl (Undefined_behaviour ''*(size_t *)salt'') \<and>
    (aes_256_cbc_decrypt aes password (flag1 # flag2 # rest) = Inl (Runtime_error ''the input is not the encrypted content.'') \<longleftrightarrow>
      flag1 \<noteq> FLAG1 \<and> flag2 \<noteq> FLAG2)"
proof (intro conjI)
  obtain content where c: "encrypt_with_salt aes password (le_split 4 random) data = Inr content"
    using encrypt_with_salt_ok [OF assms] by blast
  then have "aes_256_cbc_decrypt aes password content = Inr (padded data)" by (intro decrypt_encrypted [OF assms]) auto
  with c show "\<exists>content. aes_256_cbc_encrypt 4 random aes password data = Inr content \<and>
      aes_256_cbc_decrypt aes password content = Inr (padded data) \<and>
      (length data = 33 \<and> file enc_name = Some content \<longrightarrow>
        command_decrypt aes file [password, enc_name, dec_name] = Inr data)"
    using padded_key_file [of data]
    by (intro exI [of _ content]) (simp add: aes_256_cbc_encrypt_def store_size_t_32 command_decrypt_def sum_bind_def)
qed (simp add: aes_256_cbc_encrypt_def store_size_t_64 sum_bind_def, rule decrypt_flags [OF assms])

theorem decrypt_encrypted_file_witness:
  "\<exists>content. aes_256_cbc_encrypt 4 0x12345678 sample_aes (str ''secret'') [1, 2, 3] = Inr content \<and>
     aes_256_cbc_decrypt sample_aes (str ''secret'') content = Inr ([1, 2, 3] @ replicate 13 0)"
  using decrypt_encrypted_file [OF sample_aes_ok, of "0x12345678" "str ''secret''" "[1, 2, 3]"]
  by (auto simp: padded_def)

text \<open>
  The types of the C++ members, as predicates: an address has 16 bytes, a name is text of a length that the
  serializer accepts, and a container is not longer than that.
\<close>

definition address_ok :: "AccountAddress \<Rightarrow> bool" where
  "address_ok a \<longleftrightarrow> length (AccountAddress_value a) = 16"

definition text_ok :: "cstring \<Rightarrow> bool" where
  "text_ok bs \<longleftrightarrow> length bs \<le> max_length \<and> utf8_shaped bs"

definition container_ok :: "('a \<Rightarrow> bool) \<Rightarrow> 'a list \<Rightarrow> bool" where
  "container_ok ok xs \<longleftrightarrow> length xs \<le> max_length \<and> list_all ok xs"

fun type_tag_ok :: "TypeTag \<Rightarrow> bool" and struct_tag_ok :: "StructTag \<Rightarrow> bool" where
  "type_tag_ok (TypeTag_Vector t) \<longleftrightarrow> type_tag_ok t"
| "type_tag_ok (TypeTag_Struct t) \<longleftrightarrow> struct_tag_ok t"
| "type_tag_ok _ \<longleftrightarrow> True"
| "struct_tag_ok (StructTag address' module' name' type_params') \<longleftrightarrow>
     address_ok address' \<and> text_ok (Identifier_value module') \<and> text_ok (Identifier_value name') \<and>
     length type_params' \<le> max_length \<and> (\<forall>t \<in> set type_params'. type_tag_ok t)"

fun argument_ok :: "TransactionArgument \<Rightarrow> bool" where
  "argument_ok (TransactionArgument_Address a) \<longleftrightarrow> address_ok a"
| "argument_ok (TransactionArgument_U8Vector bs) \<longleftrightarrow> length bs \<le> max_length"
| "argument_ok _ \<longleftrightarrow> True"

fun payload_ok :: "TransactionPayload \<Rightarrow> bool" where
  "payload_ok (TransactionPayload_Script s) \<longleftrightarrow>
     length (Script_code s) \<le> max_length \<and> container_ok type_tag_ok (Script_ty_args s) \<and> container_ok argument_ok (Script_args s)"
| "payload_ok (TransactionPayload_Module m) \<longleftrightarrow> length (Module_code m) \<le> max_length"
| "payload_ok (TransactionPayload_ScriptFunction f) \<longleftrightarrow>
     address_ok (ModuleId_address (ScriptFunction_module f)) \<and>
     text_ok (Identifier_value (ModuleId_name (ScriptFunction_module f))) \<and>
     text_ok (Identifier_value (ScriptFunction_function f)) \<and> container_ok type_tag_ok (ScriptFunction_ty_args f) \<and>
     container_ok (\<lambda>bs. length bs \<le> max_length) (ScriptFunction_args f)"
| "payload_ok (TransactionPayload_WriteSet w) \<longleftrightarrow> wf_doc (doc_WriteSetPayload w)"

lemma wf_AccountAddress: "wf_doc (doc_AccountAddress a) \<longleftrightarrow> address_ok a"
  by (auto simp: doc_AccountAddress_def doc_array_def doc_u8_def list_all_iff address_ok_def)

lemma wf_Identifier: "wf_doc (doc_Identifier x) \<longleftrightarrow> text_ok (Identifier_value x)"
  by (simp add: doc_Identifier_def text_ok_def)

lemma wf_vector: "wf_doc (doc_vector doc xs) \<longleftrightarrow> container_ok (\<lambda>x. wf_doc (doc x)) xs"
  by (simp add: doc_vector_def container_ok_def list_all_iff)

lemma wf_bytes: "wf_doc (doc_vector doc_u8 bs) \<longleftrightarrow> length bs \<le> max_length"
  by (simp add: doc_vector_def doc_u8_def list_all_iff)

lemma wf_TypeTag: "wf_doc (doc_TypeTag t) \<longleftrightarrow> type_tag_ok t"
  and wf_StructTag: "wf_doc (doc_StructTag u) \<longleftrightarrow> struct_tag_ok u"
  by (induction t and u rule: type_tag_ok_struct_tag_ok.induct)
    (auto simp: wf_AccountAddress wf_Identifier list_all_iff)

lemma wf_TransactionArgument: "wf_doc (doc_TransactionArgument x) \<Longrightarrow> argument_ok x"
  by (cases x) (simp_all add: doc_TransactionArgument_def wf_AccountAddress wf_bytes)

lemma wf_TransactionPayload: "wf_doc (doc_TransactionPayload p) \<Longrightarrow> payload_ok p"
  by (cases p)
    (auto simp: doc_TransactionPayload_def doc_Script_def doc_Module_def doc_ScriptFunction_def doc_ModuleId_def
      wf_bytes wf_vector [of doc_TypeTag] wf_vector [of doc_TransactionArgument] wf_vector [of "doc_vector doc_u8"]
      wf_AccountAddress wf_Identifier wf_TypeTag container_ok_def list_all_iff wf_TransactionArgument)

text \<open>
  C26. What the deserializer of transactions returns is a value of the C++ types: whatever bytes
  it accepts, the sender has 16 bytes, the currency is text, the payload consists of scripts,
  modules or calls whose addresses, names, type arguments and arguments satisfy the bounds of
  their types down to the innermost type parameter, the container depth is within the limit, and
  the serializer takes the value again.
\<close>

theorem decoded_transaction_typed:
  assumes "bcsDeserialize_SignedTransaction Left_to_right bs = Inr txn"
  shows "address_ok (RawTransaction_sender (SignedTransaction_raw_txn txn)) \<and>
    text_ok (RawTransaction_gas_currency_code (SignedTransaction_raw_txn txn)) \<and>
    payload_ok (RawTransaction_payload (SignedTransaction_raw_txn txn)) \<and>
    wf_doc (doc_TransactionAuthenticator (SignedTransaction_authenticator txn)) \<and>
    depth (doc_SignedTransaction txn) \<le> 500 \<and> (\<exists>bs'. bcsSerialize_SignedTransaction txn = Inr bs')"
proof -
  from assms have wf: "wf_doc (doc_SignedTransaction txn)" "depth (doc_SignedTransaction txn) \<le> 500"
    by (simp_all add: bcsDeserialize_SignedTransaction_def SignedTransaction_codec.bcsDeserialize_iff)
  then have "wf_doc (doc_RawTransaction (SignedTransaction_raw_txn txn))"
    "wf_doc (doc_TransactionAuthenticator (SignedTransaction_authenticator txn))"
    by (simp_all add: doc_SignedTransaction_def)
  moreover from this(1) have "address_ok (RawTransaction_sender (SignedTransaction_raw_txn txn))"
    "text_ok (RawTransaction_gas_currency_code (SignedTransaction_raw_txn txn))"
    "payload_ok (RawTransaction_payload (SignedTransaction_raw_txn txn))"
    by (simp_all add: doc_RawTransaction_def wf_AccountAddress text_ok_def wf_TransactionPayload)
  moreover have "bcsSerialize_SignedTransaction txn = Inr bs"
    using assms unfolding bcsSerialize_SignedTransaction_def bcsDeserialize_SignedTransaction_def
    by (rule SignedTransaction_codec.message_canonical)
  ultimately show ?thesis using wf(2) by blast
qed

theorem decoded_transaction_typed_witness:
  "address_ok (RawTransaction_sender (SignedTransaction_raw_txn sample_signed_transaction)) \<and>
   payload_ok (RawTransaction_payload (SignedTransaction_raw_txn sample_signed_transaction))"
proof -
  have "bcsDeserialize_SignedTransaction Left_to_right (enc (doc_SignedTransaction sample_signed_transaction)) =
      Inr sample_signed_transaction"
    using sample_signed_ok
    by (simp add: bcsDeserialize_SignedTransaction_def SignedTransaction_codec.bcsDeserialize_iff wf_doc_def)
  from decoded_transaction_typed [OF this] show ?thesis by blast
qed

section \<open>A program over the store\<close>

lemma sample_options:
  "parse_command_line [(CHR ''m'', str ''mint.key''), (CHR ''n'', str ''mnemonic''), (CHR ''c'', str ''260'')] Arguments_new =
    Inr (Arguments_new\<lparr>arg_mint_key := str ''mint.key'', arg_mnemonic := str ''mnemonic'', arg_chain_id := 4\<rparr>)"
  by (simp add: stoi_def scan_integer_def str_def is_space_def is_digit_def decimal_def sum_bind_def)

definition sample_uninit :: uninit where
  "sample_uninit = \<lparr>uninit_index = 0, uninit_address = replicate 16 0, uninit_id = replicate 32 0\<rparr>"

definition sample_price :: "istream \<Rightarrow> int option \<times> istream" where
  "sample_price params = (case get_u64 0 params of (price, params') \<Rightarrow> (Some (uint price), params'))"

text \<open>
  C27. The store program runs the lines that are typed, one after the other, on one client.
  Whatever its options and the lines are, if it gets as far as a client, this client was made
  from the options and, after its accounts were prepared, goes through the commands of the lines
  in their order, whether they fail or not; the state in which the program ends is exactly what
  they make of it, and is one of a history of the client. The session ends behind n lines for
  one of three reasons: the next line is exit; the input has ended; or the command of the next
  line throws an exception that the loop does not catch, and no line before it is exit or throws
  one. The console remembers exactly those of these n lines that name a command, trimmed and in
  their order, and offers exit and the sorted names of all commands for completion. When the
  preparation throws, no line is run and none is remembered.
\<close>

theorem store_program_state:
  assumes "store_main env junk get_price options lines w = (r, Some (s, con))"
  shows "client_history env s \<and>
    (\<exists>args c w'. parse_command_line options Arguments_new = Inr args \<and>
      Client2_create env (arg_chain_id args) (arg_mnemonic args) (arg_mint_key args) w = (Inr c, w') \<and>
      (case eff_bind (allow_custom_script env True) (\<lambda>_. create_store_accounts env) (c, w') of
         (Inl e, t) \<Rightarrow> r = Inl e \<and> s = t \<and> console_history con = []
       | (Inr _, t) \<Rightarrow> \<exists>n. session_result (store_program_commands env junk get_price) lines t n r s \<and>
           console_history con = filter (names_command (store_program_commands env junk get_price)) (map trim (take n lines)) \<and>
           completions con = str ''exit'' # sort (map fst (store_program_commands env junk get_price))))"
proof (rule conjI [OF store_main_history [OF assms]])
  obtain args c w' where start: "parse_command_line options Arguments_new = Inr args"
    "Client2_create env (arg_chain_id args) (arg_mnemonic args) (arg_mint_key args) w = (Inr c, w')"
    and session: "store_session env junk get_price lines ((c, w'), Console_create (str ''NFT$ '')) = (r, (s, con))"
    using assms by (auto simp: store_main_def split: sum.splits prod.splits)
  obtain q t where prepared: "store_session_prepared env (c, w') = (q, t)" by (cases "store_session_prepared env (c, w')")
  from store_session_runs [OF session prepared] start prepared
  show "\<exists>args c w'. parse_command_line options Arguments_new = Inr args \<and>
      Client2_create env (arg_chain_id args) (arg_mnemonic args) (arg_mint_key args) w = (Inr c, w') \<and>
      (case eff_bind (allow_custom_script env True) (\<lambda>_. create_store_accounts env) (c, w') of
         (Inl e, t) \<Rightarrow> r = Inl e \<and> s = t \<and> console_history con = []
       | (Inr _, t) \<Rightarrow> \<exists>n. session_result (store_program_commands env junk get_price) lines t n r s \<and>
           console_history con = filter (names_command (store_program_commands env junk get_price)) (map trim (take n lines)) \<and>
           completions con = str ''exit'' # sort (map fst (store_program_commands env junk get_price)))"
    by (intro exI [of _ args] exI [of _ c] exI [of _ w']) (cases q; simp add: store_session_prepared_def)
qed

theorem store_program_state_witness:
  "\<exists>r s con. store_main sample_env sample_uninit sample_price
      [(CHR ''m'', str ''mint.key''), (CHR ''n'', str ''mnemonic''), (CHR ''c'', str ''260'')] [str ''exit''] 0 = (r, Some (s, con)) \<and>
    client_history sample_env s"
proof -
  obtain r s con where "store_main sample_env sample_uninit sample_price
      [(CHR ''m'', str ''mint.key''), (CHR ''n'', str ''mnemonic''), (CHR ''c'', str ''260'')] [str ''exit''] 0 = (r, Some (s, con))"
    unfolding store_main_def sample_options by (cases "store_session sample_env sample_uninit sample_price [str ''exit'']
      ((sample_client, 0), Console_create (str ''NFT$ ''))") (auto simp: sample_started)
  from store_program_state [OF this] this show ?thesis by blast
qed

definition store_runs ::
    "('k, 'w) env \<Rightarrow> uninit \<Rightarrow> (istream \<Rightarrow> int option \<times> istream) \<Rightarrow> cstring \<Rightarrow> cstring list \<Rightarrow> Console \<Rightarrow>
     unit result \<times> ('k, 'w) client_state \<Rightarrow> unit result \<times> ('k, 'w) client_state \<times> Console" where
  "store_runs env junk get_price line lines con outcome =
     (case outcome of
        (Inl e, t) \<Rightarrow> if command_error e then read_eval_loop (store_program_commands env junk get_price) lines (t, add_history line con)
                     else (Inl e, (t, con))
      | (Inr u, t) \<Rightarrow> read_eval_loop (store_program_commands env junk get_price) lines (t, add_history line con))"

lemma store_line_runs:
  assumes "(str name', command) \<in> set (store_program_commands env junk get_price)" and "solid (str name')"
    and "words \<noteq> []" and "list_all solid words"
  shows "read_eval_loop (store_program_commands env junk get_price) (command_line name' words # lines) (s, con) =
    store_runs env junk get_price (command_line name' words) lines con (command (words_left words) s)"
  unfolding store_runs_def by (rule store_table.command_line_runs [OF assms])

definition sample_account_client :: "u8 list Client2Imp" where
  "sample_account_client = sample_client\<lparr>m_wallet := sample_wallet\<lparr>m_private_keys := [replicate 32 1]\<rparr>\<rparr>"

lemma sample_one_account:
  "\<exists>account. get_all_accounts (sample_env\<lparr>env_file := \<lambda>w name'. None\<rparr>) (sample_account_client, 0) = (Inr [account], (sample_account_client, 0))"
  by (simp add: get_all_accounts_def wallet_get_all_accounts_def sample_env_def sample_account_client_def sample_wallet_def
      get_public_key_def pub_key_account_address_def pub_key_to_auth_key_def PublicKey_get_raw_key_def PublicKey_new_def
      sample_ssl_def check_ret_def sum_bind_def ret_of_def)

text \<open>
  From the text of a line to the store: a line that names store-trade-order and holds an account
  index, the hexadecimal text of an order identifier and a currency runs trade_order with
  exactly these values, and the session goes on with the next line after it or after an error it
  reports. If the index is not below the number of accounts nothing is submitted and the session
  goes on in the same state. If the order identifier is left out of a line that names store-
  revoke-order, no error is reported: the bytes that an uninitialised variable happens to hold
  are revoked.
\<close>

theorem store_trade_line:
  assumes "solid currency" and "length order = 32" and "length (uninit_id junk) = 32"
    and "get_all_accounts env s = (Inr accounts, s)"
  shows "read_eval_loop (store_program_commands env junk get_price)
      (command_line ''store-trade-order'' [dec (unat i), bytes_to_hex order, currency] # lines) (s, con) =
    (let line = command_line ''store-trade-order'' [dec (unat i), bytes_to_hex order, currency]
     in if length accounts \<le> unat i
        then read_eval_loop (store_program_commands env junk get_price) lines (s, add_history line con)
        else store_runs env junk get_price line lines con (trade_order env store_type_tag i currency order s)) \<and>
   read_eval_loop (store_program_commands env junk get_price)
      (command_line ''store-revoke-order'' [dec (unat i)] # lines) (s, con) =
    (let line = command_line ''store-revoke-order'' [dec (unat i)]
     in if length accounts \<le> unat i
        then read_eval_loop (store_program_commands env junk get_price) lines (s, add_history line con)
        else store_runs env junk get_price line lines con (revoke_order env store_type_tag i (uninit_id junk) s))"
proof -
  have "order \<noteq> []" using assms(2) by auto
  then have words: "list_all solid [dec (unat i), bytes_to_hex order, currency]" "list_all solid [dec (unat i)]"
    using assms(1) by (simp_all add: solid_dec hex_digit_solid)
  show ?thesis
    unfolding store_line_runs [OF store_commands_listed(1) store_names_solid(1) list.distinct(2) words(1)]
      store_line_runs [OF store_commands_listed(2) store_names_solid(2) list.distinct(2) words(2)]
      trade_command_reads [OF assms(1-3)] revoke_command_missing check_account_index_run [OF assms(4)]
    by (simp add: store_runs_def Let_def)
qed

theorem store_trade_line_witness:
  "fst (read_eval_loop (store_program_commands (sample_env\<lparr>env_file := \<lambda>w name'. None\<rparr>) sample_uninit sample_price)
     [command_line ''store-trade-order'' [dec 0, bytes_to_hex (replicate 32 5), str ''VLS''], str ''exit'']
     ((sample_account_client, 0), Console_create [])) = Inr ()"
proof -
  let ?env = "sample_env\<lparr>env_file := \<lambda>w name'. None\<rparr>" and ?s = "(sample_account_client, 0)"
  obtain account where a: "get_all_accounts ?env ?s = (Inr [account], ?s)" using sample_one_account by blast
  obtain e where t: "trade_order ?env store_type_tag 0 (str ''VLS'') (replicate 32 5) ?s = (Inl (Runtime_error e), ?s)"
    using script_call_no_file [of ?env ?s] unfolding trade_order_def by fastforce
  have "solid (str ''VLS'')" "trim (str ''exit'') = str ''exit''"
    by (simp_all add: solid_def str_def is_space_def trim_def trim_left_def trim_right_def)
  then show ?thesis
    using store_trade_line [OF _ _ _ a, of "str ''VLS''" "replicate 32 5" sample_uninit sample_price 0 "[str ''exit'']" "Console_create []"] t
    by (simp add: sample_uninit_def store_runs_def Let_def eff_return_def)
qed

text \<open>
  One digit too few ends the program: an identifier of an odd number of hexadecimal digits,
  between 3 and 61, makes the conversion throw std::out_of_range, which the loop does not catch.
  A line that trades or revokes an order, or burns a token, with such an identifier ends the
  whole session, with every line that would have followed, though nothing was submitted.
\<close>

theorem odd_identifier_ends_program:
  assumes "odd_identifier word" and "length (uninit_id junk) = 32"
    and "name' \<in> {''store-trade-order'', ''store-revoke-order'', ''nft-burn''}" and "list_all solid words"
  shows "read_eval_loop (store_program_commands env junk get_price)
      (command_line name' (dec (unat (i :: u64)) # word # words) # lines) (s, con) =
    (Inl (Out_of_range ''basic_string::substr''), (s, con))"
proof -
  obtain command where c: "(str name', command) \<in> set (store_program_commands env junk get_price)" "solid (str name')"
      "command \<in> {cmd_store_trade_order env junk, cmd_store_revoke_order env junk, cmd_nft_burn env junk}"
    using assms(3) store_commands_listed store_names_solid by blast
  have "list_all solid (dec (unat i) # word # words)"
    using assms(4) odd_identifier_solid [OF assms(1)] by (simp add: solid_dec)
  from store_line_runs [OF c(1,2) _ this] show ?thesis
    by (simp add: odd_identifier_throws [OF assms(1,2) c(3)] store_runs_def del: read_eval_loop.simps)
qed

theorem odd_identifier_ends_program_witness:
  "read_eval_loop (store_program_commands sample_env sample_uninit sample_price)
     [command_line ''nft-burn'' [dec 0, str ''abc''], str ''std-list-accounts'', str ''exit''] ((sample_client, 0), Console_create []) =
   (Inl (Out_of_range ''basic_string::substr''), ((sample_client, 0), Console_create []))"
proof -
  have "odd_identifier (str ''abc'')" by (simp add: odd_identifier_def str_def hex_value_def)
  from odd_identifier_ends_program [OF this, of sample_uninit "''nft-burn''" "[]" sample_env sample_price 0] show ?thesis
    by (simp add: sample_uninit_def del: read_eval_loop.simps)
qed

section \<open>Swaps\<close>

lemma currency_indices:
  assumes "distinct (map (map word_of_int) codes :: cstring list)" and "i < length codes" and "length codes \<le> 32"
  shows "currency_index (map (map word_of_int) codes) (map word_of_int (codes ! i)) = of_nat i" and "unat (of_nat i :: u64) = i"
  using currency_index_nth [OF assms(1), of i] assms(2,3) by (simp_all add: unat_of_nat)

definition reserve_of :: "int \<Rightarrow> u64 \<Rightarrow> int \<Rightarrow> u64 \<Rightarrow> Reserve" where
  "reserve_of i v j u = \<lparr>coina_index = i, coina_value = v, coinb_index = j, coinb_value = u\<rparr>"

definition sample_rust :: "nat rust_client" where
  "sample_rust = \<lparr>rust_publish_module = (\<lambda>i name'. eff_return ()),
     rust_execute_script_file = (\<lambda>i name' tags args. eff_modify Suc),
     rust_get_exchange_currencies = (\<lambda>address. eff_return (str ''codes'')),
     rust_get_exchange_reserves = (\<lambda>address. eff_return (str ''reserves'')),
     rust_get_liquidity_balance = (\<lambda>address. eff_return [])\<rparr>"

definition sample_json :: "Reserve list \<Rightarrow> exchange_json" where
  "sample_json reserves = \<lparr>json_currency_codes = (\<lambda>t. Inr (Some [[65], [66], [67], [68]])), json_reserves = (\<lambda>t. Inr reserves)\<rparr>"

definition sample_exchange :: Exchange where
  "sample_exchange = Exchange_create (str ''move/exchange/'') \<lparr>admin_address = replicate 16 1, admin_index = 0\<rparr>"

lemma sample_exchange_served:
  "serves_exchange sample_rust (sample_json reserves) (admin_address (exchange_admin sample_exchange)) [[65], [66], [67], [68]] reserves 0"
  by (simp add: serves_exchange_def sample_rust_def sample_json_def eff_return_def)

definition sample_reserves :: "Reserve list" where
  "sample_reserves = [reserve_of 0 100 1 300, reserve_of 0 100 2 100, reserve_of 1 300 2 200]"

definition sample_edges :: "edge list" where
  "sample_edges = [\<lparr>coin_a = 0, coin_a_value = 100, coin_b = 1, coin_b_value = 300\<rparr>,
     \<lparr>coin_a = 0, coin_a_value = 100, coin_b = 2, coin_b_value = 100\<rparr>, \<lparr>coin_a = 1, coin_a_value = 300, coin_b = 2, coin_b_value = 200\<rparr>]"

lemma sample_edges_of: "reserve_edges True sample_reserves = Inr sample_edges"
  by (simp add: sample_reserves_def sample_edges_def reserve_of_def reserve_edge_def get_double_exact sum_bind_def)

lemma sample_reserves_ok: "reserves_ok sample_reserves"
  unfolding sample_reserves_def reserve_of_def reserves_ok_def list.set ball_simps by (intro conjI TrueI; simp)

lemma sample_chains: "chain sample_edges 0 es w \<Longrightarrow>
    es = [] \<and> w = 0 \<or> es = [sample_edges ! 0] \<and> w = 1 \<or> es = [sample_edges ! 1] \<and> w = 2 \<or>
    es = [sample_edges ! 0, sample_edges ! 2] \<and> w = 2"
proof (induction es arbitrary: w rule: rev_induct)
  case (snoc e es)
  then have e: "chain sample_edges 0 es (coin_a e)" "e = sample_edges ! 0 \<or> e = sample_edges ! 1 \<or> e = sample_edges ! 2" "coin_b e = w"
    by (simp_all add: chain_snoc) (simp add: sample_edges_def)
  from snoc.IH [OF e(1)] e(2,3) show ?case by (elim disjE) (simp_all add: sample_edges_def)
qed simp

lemma sample_unblocked: "unblocked sample_edges (0, 10)"
  unfolding unblocked_def using sample_chains by (fastforce simp: sample_edges_def converted_def)

text \<open>
  C28. A swap goes over the way that gives most. When the service serves the currencies, with
  distinct codes and at most 32 of them, and reserves in the order of their indices, with values
  that do not overflow, and when no chain of reserves brings more to a reserve than it holds,
  then for any two currencies between which some chain gives something, and whichever of several
  least vertices the queue takes first, find_swap_path returns the indices along a chain of
  reserves from the one to the other that gives at least as much as every other chain; and swap
  submits its script with exactly this path.
\<close>

theorem exchange_swap_best:
  assumes "serves_exchange rc js (admin_address (exchange_admin ex)) codes reserves w" and "reserves_ok reserves"
    and "distinct (map (map word_of_int) codes :: cstring list)" and "length codes \<le> 32"
    and "i < length codes" and "j < length codes"
    and "reserve_edges (i < j) reserves = Inr E" and "unblocked E (of_nat i, x)"
    and "chain E (of_nat i) es (of_nat j)" and "0 < carry (unat x) es"
  shows "\<exists>best path. chain E (of_nat i) best (of_nat j) \<and>
    (\<forall>es. chain E (of_nat i) es (of_nat j) \<longrightarrow> carry (unat x) es \<le> carry (unat x) best) \<and>
    path = map ucast (of_nat i # map coin_b best) \<and>
    find_swap_path rc js tie (map word_of_int (codes ! i)) x (map word_of_int (codes ! j)) (ex, w) = (Inr path, (ex, w)) \<and>
    exchange_swap rc js tie n receiver (map word_of_int (codes ! i)) x (map word_of_int (codes ! j)) least (ex, w) =
      exchange_script rc n ''swap.mv'' [make_currency_tag (map word_of_int (codes ! i)), make_currency_tag (map word_of_int (codes ! j))]
        [Augment_Address receiver, Augment_U64 x, Augment_U64 least, Augment_Bytes path, Augment_Bytes []] (ex, w)"
proof -
  note index = currency_indices [OF assms(3) assms(5,4)] currency_indices [OF assms(3) assms(6,4)]
  have "((of_nat i :: u64) < of_nat j) = (i < j)" by (simp add: word_less_nat_alt index)
  with assms(7) have edges: "reserve_edges ((of_nat i :: u64) < of_nat j) reserves = Inr E" by simp
  from swap_path_most_value [OF assms(2) edges assms(8-10), of tie] obtain best where
    best: "swap_path tie reserves (of_nat i) x (of_nat j) = Some (Inr (map ucast (of_nat i # map coin_b best)))"
      "chain E (of_nat i) best (of_nat j)" "\<forall>es. chain E (of_nat i) es (of_nat j) \<longrightarrow> carry (unat x) es \<le> carry (unat x) best" by blast
  then have "find_swap_path rc js tie (map word_of_int (codes ! i)) x (map word_of_int (codes ! j)) (ex, w) =
      (Inr (map ucast (of_nat i # map coin_b best)), (ex, w))"
    by (simp add: find_swap_path_served [OF assms(1)] index)
  with best(2,3) show ?thesis
    by (intro exI [of _ best] exI [of _ "map ucast (of_nat i # map coin_b best)"]) (simp add: exchange_swap_def eff_bind_def)
qed

theorem exchange_swap_best_witness:
  "\<exists>best path. chain sample_edges 0 best 2 \<and> 20 \<le> carry 10 best \<and>
    find_swap_path sample_rust (sample_json sample_reserves) (\<lambda>k q. 0) [65] 10 [67] (sample_exchange, 0) = (Inr path, (sample_exchange, 0))"
proof -
  let ?codes = "[[65], [66], [67], [68]] :: int list list" and ?es = "[sample_edges ! 0, sample_edges ! 2]"
  have es: "chain sample_edges 0 ?es 2" "carry 10 ?es = 20" by (simp_all add: sample_edges_def converted_def)
  have "\<exists>best path. chain sample_edges 0 best 2 \<and>
    (\<forall>es. chain sample_edges 0 es 2 \<longrightarrow> carry 10 es \<le> carry 10 best) \<and> path = map ucast (0 # map coin_b best) \<and>
    find_swap_path sample_rust (sample_json sample_reserves) (\<lambda>k q. 0) [65] 10 [67] (sample_exchange, 0) = (Inr path, (sample_exchange, 0)) \<and>
    exchange_swap sample_rust (sample_json sample_reserves) (\<lambda>k q. 0) 0 [] [65] 10 [67] 0 (sample_exchange, 0) =
      exchange_script sample_rust 0 ''swap.mv'' [make_currency_tag [65], make_currency_tag [67]]
        [Augment_Address [], Augment_U64 10, Augment_U64 0, Augment_Bytes path, Augment_Bytes []] (sample_exchange, 0)"
    using exchange_swap_best [OF sample_exchange_served sample_reserves_ok, of 0 2 sample_edges 10 ?es "\<lambda>k q. 0" 0 "[]" 0]
      sample_unblocked es by (simp add: sample_edges_of)
  with es show ?thesis by metis
qed

text \<open>A chain over which the whole amount can go.\<close>

fun passable :: "nat \<Rightarrow> edge list \<Rightarrow> bool" where
  "passable y [] \<longleftrightarrow> True"
| "passable y (e # es) \<longleftrightarrow> y \<le> unat (coin_a_value e) \<and> passable (converted e y) es"

definition narrow_reserves :: "Reserve list" where
  "narrow_reserves = sample_reserves @ [reserve_of 2 15 3 15]"

definition narrow_edges :: "edge list" where
  "narrow_edges = sample_edges @ [\<lparr>coin_a = 2, coin_a_value = 15, coin_b = 3, coin_b_value = 15\<rparr>]"

lemma narrow_edges_of: "reserve_edges True narrow_reserves = Inr narrow_edges"
  by (simp add: narrow_reserves_def narrow_edges_def sample_reserves_def sample_edges_def reserve_of_def reserve_edge_def
      get_double_exact sum_bind_def)

lemma narrow_search:
  "search_loop (\<lambda>k q. 0) 0 (edge_map narrow_edges) (search_start 0 10) =
    Inr \<lparr>dist_to = [(0, 0), (0, 30), (1, 20), (2, 10)] @ replicate 28 (0, 0), minpq = []\<rparr>"
  by code_simp

lemma narrow_path: "swap_path (\<lambda>k q. 0) narrow_reserves 0 10 3 = Some (Inr [0, 1, 2, 3])"
  by (simp add: swap_path_def narrow_edges_of sum_bind_def narrow_search path_from.simps)

lemma narrow_blocked: "chain narrow_edges 0 es 3 \<Longrightarrow> map coin_b es = [1, 2, 3] \<Longrightarrow> \<not> passable 10 es"
  by (auto simp: narrow_edges_def sample_edges_def converted_def map_eq_Cons_conv)

text \<open>
  C29. Where the search for a swap path fails. Take reserves that the search can make edges of,
  each with its two indices in order and below 32, no amount zero, that of the second currency
  below 2^53 and the product of both below 2^64. When no chain of them leads from a currency to
  one with a higher index below 32, the walk over the predecessors never ends, and the caller
  never gets an answer, unless the currency is the first one: then the path that is returned
  goes straight to the other currency, though there is no reserve between them. And when a
  reserve is small, the path can be one whose reserves cannot take the amount, although another
  chain could: the predecessor of a vertex may change after a later vertex was reached over the
  old one.
\<close>

theorem swap_path_failures:
  assumes "reserves_ok reserves" and "reserve_edges True reserves = Inr E" and "a < b" and "unat b < 32"
    and "\<forall>es. \<not> chain E a es b"
  shows "swap_path tie reserves a x b = (if a = 0 then Some (Inr [0, ucast b]) else None) \<and>
    swap_path (\<lambda>k q. 0) narrow_reserves 0 10 3 = Some (Inr [0, 1, 2, 3]) \<and>
    (\<forall>es. chain narrow_edges 0 es 3 \<longrightarrow> map coin_b es = [1, 2, 3] \<longrightarrow> \<not> passable 10 es) \<and>
    (\<exists>es. chain narrow_edges 0 es 3 \<and> passable 10 es \<and> carry 10 es = 10)"
proof (intro conjI allI impI)
  show "swap_path tie reserves a x b = (if a = 0 then Some (Inr [0, ucast b]) else None)"
    using assms by (intro swap_path_unreached) auto
  show "\<exists>es. chain narrow_edges 0 es 3 \<and> passable 10 es \<and> carry 10 es = 10"
    by (rule exI [of _ "[narrow_edges ! 1, narrow_edges ! 3]"]) (simp add: narrow_edges_def sample_edges_def converted_def)
qed (rule narrow_path, erule (1) narrow_blocked)

theorem swap_path_failures_witness:
  "swap_path (\<lambda>k q. 0) [] 1 100 2 = None \<and> swap_path (\<lambda>k q. 0) [] 0 100 2 = Some (Inr [0, 2])"
proof -
  have none: "\<forall>es. \<not> chain [] a es b" if "a \<noteq> b" for a b
    using that by (metis chain.elims(2) empty_iff list.set(1))
  show ?thesis
    using swap_path_failures [of "[]" "[]" 1 2 "\<lambda>k q. 0" 100] swap_path_failures [of "[]" "[]" 0 2 "\<lambda>k q. 0" 100] none [of 1 2] none [of 0 2]
    by (simp add: reserves_ok_def)
qed

section \<open>The command program\<close>

definition sample_account :: RustAccount where
  "sample_account = \<lparr>rust_index = 0, rust_address = replicate 16 7, rust_auth_key = replicate 32 7, rust_pub_key = replicate 32 7,
     rust_sequence_number = 3, rust_status = Persisted\<rparr>"

text \<open>A client that keeps a list of the calls it gets.\<close>

definition sample_command_env :: "(u8 list, rust_call list) command_env" where
  "sample_command_env =
     \<lparr>rust_create = (\<lambda>args. eff_return ()), rust_test_connection = eff_return (),
      rust_do = (\<lambda>c. eff_modify (\<lambda>calls. calls @ [c])), rust_ask = (\<lambda>q. eff_return (str ''{}'')),
      rust_get_all_accounts = eff_return [sample_account], rust_get_account = (\<lambda>i. eff_throw (Runtime_error ''no mint key'')),
      rust_create_next_account = (\<lambda>a. eff_return \<lparr>admin_address = replicate 16 7, admin_index = 1\<rparr>),
      rust_get_currency_balance = (\<lambda>a c. eff_return 0), json_shown = (\<lambda>q a. Inr ()), micro_coins = (\<lambda>word. Some 1000000),
      term_system = (\<lambda>line. eff_return ()), term_word = eff_return (str ''yes''), file_content = (\<lambda>calls name'. None),
      file_put = (\<lambda>name' content calls. calls), env_aes = sample_aes, env_random = (\<lambda>calls. 0), env_size_t = 8\<rparr>"

lemma sample_catchable: "catchable_env sample_command_env"
  by (simp add: catchable_env_def sample_command_env_def raises_def eff_return_def eff_modify_def eff_throw_def)

text \<open>
  A command that is given too few arguments does nothing. For every command of the table that
  needs arguments, a line with its name and fewer words than it needs throws
  std::invalid_argument with the usage of the command before anything else is done: no call of
  the client, no change of a file. The loop reports the error and goes on with the next line,
  with the line in its history.
\<close>

theorem command_missing_arguments:
  assumes "(name', n, usage) \<in> set command_usages" and "list_all plain_word words" and "length words < n"
  shows "parse_cmd env junk (command_line name' words) w = (Inl (Invalid_argument usage), w) \<and>
    command_loop env junk (command_line name' words # lines) (w, history) =
      command_loop env junk lines (w, history @ [command_line name' words])"
proof -
  obtain handler where handler: "map_of (command_handlers env junk) (str name') = Some handler"
    "handler words = eff_throw (Invalid_argument usage)"
    using handlers_need [of env junk] assms(1,3) by (fastforce simp: list_all_iff handler_needs_def)
  have plain: "plain_word (str name')" using names_plain assms(1) by (fastforce simp: list_all_iff)
  have "name' \<noteq> ''quit''" using assms(1) by (auto simp: command_usages_def)
  then have "command_line name' words \<noteq> str ''quit''" by (rule command_line_not_quit)
  then show ?thesis
    using parse_cmd_line [OF handler(1) plain assms(2)] handler(2)
    by (simp add: command_loop_line [OF plain assms(2)] eff_throw_def del: command_loop.simps)
qed

theorem command_missing_arguments_witness:
  "parse_cmd sample_command_env sample_uninit (command_line ''burn'' [str ''VLS'', str ''7'']) [] =
    (Inl (Invalid_argument ''brun currency_code sliding_nonce preburn_address''), [])"
  using command_missing_arguments [of "''burn''" 3 "''brun currency_code sliding_nonce preburn_address''" "[str ''VLS'', str ''7'']"
      sample_command_env sample_uninit "[]" "[]" "[]"]
  by (simp add: command_usages_def plain_word_def str_def is_space_def)

text \<open>
  What the arguments of transfer mean. With four arguments the client is asked to transfer with
  a gas price of 0, at most 1000000 units of gas and VLS as gas currency; a fifth argument is
  the gas price. A sixth one, the maximal amount of gas, is undefined behaviour, for args[6] is
  read; and with a seventh one, the gas currency, the maximal amount of gas is read from the
  word of the currency too, which gives 0 for a currency code: the sixth argument never takes
  effect.
\<close>

theorem command_transfer_gas:
  assumes "length address = 16" and "length (uninit_address junk) = 16"
    and "list_all plain_word [currency, price, max_gas, c # code]" and "\<not> is_digit c" and "c \<noteq> 0x2D" and "c \<noteq> 0x2B"
  shows "let line = (\<lambda>gas. command_line ''transfer'' ([currency, dec (unat i), bytes_to_hex address, price] @ gas)) in
    parse_cmd env junk (line []) = submit_transfer env i address currency price 0 1000000 (str ''VLS'') \<and>
    parse_cmd env junk (line [dec (unat g)]) = submit_transfer env i address currency price g 1000000 (str ''VLS'') \<and>
    parse_cmd env junk (line [dec (unat g), max_gas]) = eff_throw (Undefined_behaviour ''args[6]'') \<and>
    parse_cmd env junk (line [dec (unat g), max_gas, c # code]) = submit_transfer env i address currency price g 0 (c # code)"
proof -
  have handler: "map_of (command_handlers env junk) (str ''transfer'') = Some (command_transfer env junk)"
    by (simp add: command_handlers_def)
  have name': "plain_word (str ''transfer'')" by (simp add: plain_word_def str_def is_space_def)
  have "plain_word (bytes_to_hex address)" using assms(1) by (intro plain_hex) auto
  then have "parse_cmd env junk (command_line ''transfer'' ([currency, dec (unat i), bytes_to_hex address, price] @ gas)) =
      command_transfer env junk (currency # dec (unat i) # bytes_to_hex address # price # gas)" if "list_all plain_word gas" for gas
    using assms(3) that plain_dec by (subst parse_cmd_line [OF handler name']) simp_all
  then show ?thesis
    using assms(3) plain_dec arg_u64_no_number [OF _ assms(4-6), of code]
    by (simp add: command_transfer_words [OF assms(1,2)] arg_u64_dec)
qed

theorem command_transfer_gas_witness:
  "parse_cmd sample_command_env sample_uninit (command_line ''transfer''
      [str ''VLS'', dec (unat (0 :: u64)), bytes_to_hex (replicate 16 5), str ''1.5'', dec (unat (2 :: u64)), str ''3000'', str ''VLS'']) [] =
    (Inr (), [Call_transfer 0 (replicate 16 5) (str ''VLS'') 1000000 2 0 (str ''VLS'')])"
  using command_transfer_gas [of "replicate 16 5" sample_uninit "str ''VLS''" "str ''1.5''" "str ''3000''" "of_char (CHR ''V'')" "str ''LS''"
      0 sample_command_env 2]
  by (simp add: sample_uninit_def plain_word_def str_def is_space_def is_digit_def submit_transfer_def sample_command_env_def account_of_index_def
      eff_bind_def eff_modify_def eff_return_def eff_lift_def double_to_u64_def Let_def)

text \<open>
  C30. How a session of the command program can end. When the client, the JSON parser and the
  shell throw only exceptions of C++, then no exception of any command ends the session: it ends
  with quit, or at the end of the input, where a null pointer is dereferenced, or in one of five
  places of undefined behaviour that a line can lead to: an amount to transfer or to mint that
  is out of the range of uint64_t (negative, too large or not finite), an account index without
  account, the six arguments of transfer, the salt of encrypt on a platform of 64 bits, and an
  encrypted file that is too short. The history has every line up to there that is not empty,
  trimmed, and none after it.
\<close>

theorem command_session_ends:
  assumes "catchable_env env" and "command_loop env junk lines (w, history) = (r, (w', history'))"
  shows "\<exists>n \<le> length lines.
    history' = history @ map trim_blanks (filter (\<lambda>line. line \<noteq> []) (take n lines)) \<and>
    (\<forall>line \<in> set (take n lines). trim_blanks line \<noteq> str ''quit'') \<and>
    (case r of
       Inr _ \<Rightarrow> n < length lines \<and> trim_blanks (lines ! n) = str ''quit''
     | Inl e \<Rightarrow> n < length lines \<and>
           e \<in> Undefined_behaviour ` {''accounts[account_index]'', ''args[6]'', ''*(size_t *)salt'', ''*first++'', ''uint64_t(double)''} \<or>
         n = length lines \<and> e = Undefined_behaviour ''*line'')"
  using command_loop_end [OF assms, unfolded session_end_def command_faults_def list.set] by blast

theorem command_session_ends_witness:
  "command_loop sample_command_env sample_uninit [str ''burn'', [], str '' help '', str ''quit'', str ''help''] ([], []) =
      (Inr (), ([], [str ''burn'', str ''help''])) \<and>
    (\<exists>n < 5. trim_blanks ([str ''burn'', [], str '' help '', str ''quit'', str ''help''] ! n) = str ''quit'')"
proof -
  have run: "command_loop sample_command_env sample_uninit [str ''burn'', [], str '' help '', str ''quit'', str ''help''] ([], []) =
      (Inr (), ([], [str ''burn'', str ''help'']))"
    by code_simp
  from command_session_ends [OF sample_catchable run]
  obtain n where "n < length [str ''burn'', [], str '' help '', str ''quit'', str ''help'']"
    "trim_blanks ([str ''burn'', [], str '' help '', str ''quit'', str ''help''] ! n) = str ''quit''" unfolding sum.case by blast
  then have "\<exists>n < 5. trim_blanks ([str ''burn'', [], str '' help '', str ''quit'', str ''help''] ! n) = str ''quit''"
    by (intro exI [of _ n] conjI) simp_all
  with run show ?thesis by (rule conjI)
qed

section \<open>The clients of the first generation\<close>

lemma one_byte_utf8: "utf8_shaped [65]" "utf8_shaped [66]"
  by (simp_all add: is_valid_utf8_iff [symmetric] is_valid_utf8_def)

text \<open>What the newer client does with the state of an account.\<close>

definition newer_resource :: "('k, 'w) env \<Rightarrow> 'a serde_op \<Rightarrow> 'a \<Rightarrow> Address \<Rightarrow> StructTag \<Rightarrow> (('k, 'w) client_state, 'a option) eff" where
  "newer_resource env f init address tag =
     eff_bind (get_account_state env \<lparr>AccountAddress_value = address\<rparr>) (\<lambda>state. eff_lift (state_resource f init tag state))"

definition one_param_tag :: "Address \<Rightarrow> cstring \<Rightarrow> cstring \<Rightarrow> TypeTag \<Rightarrow> StructTag" where
  "one_param_tag a m n q = StructTag \<lparr>AccountAddress_value = a\<rparr> \<lparr>Identifier_value = m\<rparr> \<lparr>Identifier_value = n\<rparr> [q]"

definition tea_key :: "string \<Rightarrow> u8 list" where
  "tea_key resource_name = resource_key (framework_tag Tea_type_v1 resource_name)"

definition sample_tea :: Tea where
  "sample_tea = \<lparr>tea_kind = 1, tea_manufacture = [2], tea_PA = [3], tea_PD = 4, tea_SN = [5], tea_url = [6]\<rparr>"

definition sample_tea_env :: "(u8 list, nat) env" where
  "sample_tea_env = serving_env (\<lambda>address.
     if address = bytes_to_hex VIOLAS_ROOT_ADDRESS then [(tea_key ''Configuration'', enc (doc_NftInfo sample_nft_info))]
     else [(tea_key ''NFT'', enc (doc_vector doc_Tea [sample_tea]))]) []"

definition sample_nft_client :: "nat nft_client" where
  "sample_nft_client = \<lparr>nft_create = (\<lambda>args. eff_return ()), nft_do = (\<lambda>c. eff_modify Suc), nft_scripts = sample_rust,
     nft_accounts = eff_return [sample_account],
     nft_create_next_account = (\<lambda>a. eff_return \<lparr>admin_address = replicate 16 7, admin_index = 1\<rparr>),
     nft_rpc = (\<lambda>url. env_rpc sample_tea_env), nft_form = eff_throw (Runtime_error ''no input'')\<rparr>"

lemmas sample_tea_key_defs = tea_key_def framework_tag_def Tea_type_v1_def VIOLAS_STDLIB_ADDRESS_def sample_key_defs

lemma sample_tea_keys:
  "bcsSerialize_ResourcePath (ResourcePath_StructTag (framework_tag Tea_type_v1 ''Configuration'')) = Inr (tea_key ''Configuration'')"
  "bcsSerialize_ResourcePath (ResourcePath_StructTag (framework_tag Tea_type_v1 ''NFT'')) = Inr (tea_key ''NFT'')"
  unfolding bcsSerialize_ResourcePath_iff by (simp_all add: sample_tea_key_defs)

lemma sample_tea_lengths: "lengths_below (2 ^ 28) (doc_vector doc_Tea [sample_tea])"
  by (simp add: sample_tea_def doc_Tea_def doc_vector_def doc_u8_def doc_word_def list_all_iff)

lemma sample_tea_sizes:
  "length (tea_key ''Configuration'') < 128" "length (tea_key ''NFT'') < 128" "length (enc (doc_vector doc_Tea [sample_tea])) < 128"
  by (simp_all add: sample_tea_key_defs sample_tea_def doc_Tea_def doc_vector_def doc_u8_def doc_word_def uleb128_small comp_def)

lemma sample_tea_served:
  "blob_served (rpc_get_account_state_blob (nft_rpc sample_nft_client url)) \<lparr>AccountAddress_value = VIOLAS_ROOT_ADDRESS\<rparr>
     [(tea_key ''Configuration'', enc (doc_NftInfo sample_nft_info))] 0 0"
  "blob_served (rpc_get_account_state_blob (nft_rpc sample_nft_client url)) \<lparr>AccountAddress_value = replicate 16 2\<rparr>
     [(tea_key ''NFT'', enc (doc_vector doc_Tea [sample_tea]))] 0 0"
proof -
  have "bytes_to_hex (replicate 16 2) \<noteq> bytes_to_hex VIOLAS_ROOT_ADDRESS"
    by (rule sample_address_hex) (simp_all add: VIOLAS_ROOT_ADDRESS_def)
  then have "serves_resources sample_tea_env \<lparr>AccountAddress_value = VIOLAS_ROOT_ADDRESS\<rparr>
     [(tea_key ''Configuration'', enc (doc_NftInfo sample_nft_info))] 0 0"
    "serves_resources sample_tea_env \<lparr>AccountAddress_value = replicate 16 2\<rparr> [(tea_key ''NFT'', enc (doc_vector doc_Tea [sample_tea]))] 0 0"
    unfolding sample_tea_env_def
    by (intro serving_env_serves(1) small_resource sample_tea_sizes sample_nft_sizes(2); simp)+
  then show "blob_served (rpc_get_account_state_blob (nft_rpc sample_nft_client url)) \<lparr>AccountAddress_value = VIOLAS_ROOT_ADDRESS\<rparr>
     [(tea_key ''Configuration'', enc (doc_NftInfo sample_nft_info))] 0 0"
    "blob_served (rpc_get_account_state_blob (nft_rpc sample_nft_client url)) \<lparr>AccountAddress_value = replicate 16 2\<rparr>
     [(tea_key ''NFT'', enc (doc_vector doc_Tea [sample_tea]))] 0 0"
    by (simp_all add: sample_nft_client_def)
qed

text \<open>
  C31. The two account states agree where type parameters are structs. For every tag whose type
  parameters are structs at every level, and whose path the framework can serialize,
  AccountState of the first generation looks under the bytes of bcsSerialize, and get_resource
  gives what the client of the second generation gives for the same account, whatever the object
  held before; where the service has no state, it throws an exception, and what the newer client
  comes to is undefined behaviour, for an empty optional is dereferenced. For a primitive type
  parameter the value of the variant is written too: the key has bytes behind those of the path
  under which the resource is stored, and it is (as far as names are UTF-8) the path of no
  resource at all.
\<close>

theorem account_state_agrees:
  assumes "struct_params tag" and "bcsSerialize_ResourcePath (ResourcePath_StructTag tag) = Inr key"
    and "same_primitive p q" and "bcsSerialize_ResourcePath (ResourcePath_StructTag (one_param_tag a m n q)) = Inr key'"
  shows "access_path_bytes (AccessPath_v1_StructTag (v1_StructTag tag)) = Inr key \<and>
    fst (AccountState_get_resource (env_rpc env) f init address (v1_StructTag tag) (old, w)) =
      (case rpc_get_account_state_blob (env_rpc env) (bytes_to_hex address) w of
         (Inl e, w') \<Rightarrow> Inl e
       | (Inr asp, w') \<Rightarrow>
           if AccountState_blob asp = [] then Inl (Runtime_error ''Failed to get account state due to blob is null.'')
           else fst (newer_resource env f init address tag (c, w))) \<and>
    (\<forall>asp w'. rpc_get_account_state_blob (env_rpc env) (bytes_to_hex address) w = (Inr asp, w') \<longrightarrow> AccountState_blob asp = [] \<longrightarrow>
       fst (newer_resource env f init address tag (c, w)) = Inl (Undefined_behaviour ''empty optional'')) \<and>
    (\<exists>payload. payload \<noteq> [] \<and> access_path_bytes (AccessPath_v1_StructTag (StructTag_v1 a m n [p])) = Inr (key' @ payload) \<and>
       (typed (doc_StructTag (one_param_tag a m n q)) \<longrightarrow>
          (\<forall>t. typed (doc_StructTag t) \<longrightarrow> bcsSerialize_ResourcePath (ResourcePath_StructTag t) \<noteq> Inr (key' @ payload))))"
proof (intro conjI)
  show "access_path_bytes (AccessPath_v1_StructTag (v1_StructTag tag)) = Inr key" by (rule access_path_struct [OF assms(1,2)])
  obtain payload where "payload \<noteq> []" "access_path_bytes (AccessPath_v1_StructTag (StructTag_v1 a m n [p])) = Inr (key' @ payload)"
    using primitive_param_key [OF assms(3) assms(4) [unfolded one_param_tag_def]] by blast
  with no_path_behind [OF assms(4)]
  show "\<exists>payload. payload \<noteq> [] \<and> access_path_bytes (AccessPath_v1_StructTag (StructTag_v1 a m n [p])) = Inr (key' @ payload) \<and>
      (typed (doc_StructTag (one_param_tag a m n q)) \<longrightarrow>
         (\<forall>t. typed (doc_StructTag t) \<longrightarrow> bcsSerialize_ResourcePath (ResourcePath_StructTag t) \<noteq> Inr (key' @ payload)))"
    by blast
  show "\<forall>asp w'. rpc_get_account_state_blob (env_rpc env) (bytes_to_hex address) w = (Inr asp, w') \<longrightarrow> AccountState_blob asp = [] \<longrightarrow>
      fst (newer_resource env f init address tag (c, w)) = Inl (Undefined_behaviour ''empty optional'')"
    by (auto simp: newer_resource_def get_account_state_def account_state_of_def state_resource_def deref_def eff_bind_def eff_snd_def
        eff_lift_def eff_return_def sum_bind_def)
  obtain r w' where rpc: "rpc_get_account_state_blob (env_rpc env) (bytes_to_hex address) w = (r, w')"
    by (cases "rpc_get_account_state_blob (env_rpc env) (bytes_to_hex address) w")
  show "fst (AccountState_get_resource (env_rpc env) f init address (v1_StructTag tag) (old, w)) =
      (case rpc_get_account_state_blob (env_rpc env) (bytes_to_hex address) w of
         (Inl e, w') \<Rightarrow> Inl e
       | (Inr asp, w') \<Rightarrow>
           if AccountState_blob asp = [] then Inl (Runtime_error ''Failed to get account state due to blob is null.'')
           else fst (newer_resource env f init address tag (c, w)))"
  proof (cases "\<exists>asp. r = Inr asp \<and> AccountState_blob asp \<noteq> []")
    case True
    then obtain asp where asp: "r = Inr asp" "AccountState_blob asp \<noteq> []" by blast
    have "fst (newer_resource env f init address tag (c, w)) =
        sum_bind (AccountState2 (AccountState_blob asp)) (\<lambda>m. get_resource f init m tag)"
      using rpc asp by (simp add: newer_resource_def get_account_state_def account_state_of_def state_resource_def deref_def eff_bind_def eff_snd_def
          eff_lift_def sum_bind_def split: sum.splits)
    with AccountState_resource(1) [OF assms(1,2), of "env_rpc env" address w asp w' f init old] rpc asp show ?thesis by simp
  qed (use rpc in \<open>auto simp: AccountState_get_resource_def AccountState_get_account_state_def eff_bind_def eff_snd_def eff_throw_def split: sum.splits\<close>)
qed

theorem account_state_agrees_witness:
  "access_path_bytes (AccessPath_v1_StructTag (token_tag_v1 Tea_type_v1 ''NFT'')) = Inr (tea_key ''NFT'') \<and>
   (\<exists>payload key. payload \<noteq> [] \<and> access_path_bytes (AccessPath_v1_StructTag (StructTag_v1 (replicate 16 0) [65] [66] [TypeTag_v1_u64 7])) =
      Inr (key @ payload) \<and>
      (\<forall>t. typed (doc_StructTag t) \<longrightarrow> bcsSerialize_ResourcePath (ResourcePath_StructTag t) \<noteq> Inr (key @ payload)))"
proof -
  have "typed (doc_StructTag (one_param_tag (replicate 16 0) [65] [66] TypeTag_U64))"
    by (simp add: one_param_tag_def sample_key_defs one_byte_utf8)
  note typed' = this
  have key: "bcsSerialize_ResourcePath (ResourcePath_StructTag (one_param_tag (replicate 16 0) [65] [66] TypeTag_U64)) =
      Inr (resource_key (one_param_tag (replicate 16 0) [65] [66] TypeTag_U64))"
    unfolding bcsSerialize_ResourcePath_iff by (simp add: sample_key_defs one_param_tag_def)
  have "same_primitive (TypeTag_v1_u64 7) TypeTag_U64" by simp
  from account_state_agrees [OF token_tag_v1_eq(2) sample_tea_keys(2) this key, of sample_tea_env serde_bytes "[]" "replicate 16 2" "[]" 0 sample_client]
  typed' show ?thesis unfolding token_tag_v1_eq(1) by blast
qed

text \<open>
  What the queries of the first token client answer. When the service answers with the text of
  the resources of the root account and of an account, and these hold a configuration of the tea
  tokens and a vector of tokens, possibly with more bytes behind it, then get_nft_info and
  get_owner give the configuration and the entry of its owners, balance gives the tokens, and
  the event handles of minted and burned events are those of the configuration.
\<close>

theorem first_token_queries:
  assumes "blob_served (rpc_get_account_state_blob (nft_rpc nc url)) \<lparr>AccountAddress_value = VIOLAS_ROOT_ADDRESS\<rparr> root_entries w w1"
    and "bcsSerialize_ResourcePath (ResourcePath_StructTag (framework_tag Tea_type_v1 ''Configuration'')) = Inr conf_key"
    and "map_of root_entries conf_key = Some (enc (doc_NftInfo info) @ rest)"
    and "length (admin info) = 16" and "owners_ok (owners info)" and "lengths_below (2 ^ 28) (doc_NftInfo info)"
    and "blob_served (rpc_get_account_state_blob (nft_rpc nc url)) \<lparr>AccountAddress_value = addr\<rparr> entries w w2"
    and "bcsSerialize_ResourcePath (ResourcePath_StructTag (framework_tag Tea_type_v1 ''NFT'')) = Inr nft_key"
    and "map_of entries nft_key = Some (enc (doc_vector doc_Tea tokens) @ rest')" and "lengths_below (2 ^ 28) (doc_vector doc_Tea tokens)"
  shows "get_nft_info_v1 nc url Tea_type_v1 w = (Inr (Some info), w1) \<and>
    get_owner_v1 nc url Tea_type_v1 token_id w = (Inr (map_of (owners info) token_id), w1) \<and>
    balance_v1 nc url Tea_type_v1 addr w = (Inr (Some tokens), w2) \<and>
    get_event_handle_v1 nc url Tea_type_v1 minted addr w = (Inr (Some (mint_event info)), w1) \<and>
    get_event_handle_v1 nc url Tea_type_v1 burned addr w = (Inr (Some (burn_event info)), w1)"
proof -
  have "serde_field (token1_serde Tea_type_v1) (\<lambda>t. True) doc_Tea"
    by (simp add: Tea_type_v1_def Tea_field.serde_field_axioms)
  from tokens_served_v1 [OF assms(7,8) this _ _ assms(10,9)] nft_info_served_v1 [OF assms(1,2,4,5,6,3)]
  show ?thesis by (simp add: eff_bind_def eff_return_def list_all_iff)
qed

theorem first_token_queries_witness:
  "get_owner_v1 sample_nft_client [] Tea_type_v1 [1] 0 = (Inr (Some (replicate 16 2)), 0) \<and>
   balance_v1 sample_nft_client [] Tea_type_v1 (replicate 16 2) 0 = (Inr (Some [sample_tea]), 0)"
  using first_token_queries [OF sample_tea_served(1) sample_tea_keys(1) _ _ _ sample_nft_lengths(1) sample_tea_served(2) sample_tea_keys(2) _
      sample_tea_lengths, of "[]" "[]" "[]" "[1]"]
  by (simp add: sample_nft_info_def owners_ok_def)

definition sample_uninit_v1 :: uninit_v1 where
  "sample_uninit_v1 = \<lparr>uninit_index = 0, uninit_address = replicate 16 0, uninit_id = replicate 32 0, uninit_price = 0,
     uninit_transaction = sample_signed_transaction\<rparr>"

text \<open>
  C32. The program over the first market. Whatever its options, the lines that are typed and the
  variables without initializer, the state of its client in the end is one of the histories of
  the client; the console remembers every line up to the one that ended the session, which is
  exit, the end of the input or a line whose exception the loop does not catch, unless the
  session ended before the first line. And a line submit-trading-order with the index of an
  account and the digits of an identifier always ends it: the transaction it submits was never
  read, and has a single signer.
\<close>

theorem first_store_program:
  assumes "store_v1_main env junk get_incentive options lines w = (r, Some (s, con))"
    and "length id' = 32" and "length (uninit_id junk) = 32"
  shows "client_history env s \<and>
    (isl r \<and> console_history con = [] \<or>
     (\<exists>n. line_loop_end lines n r \<and> console_history con = map trim (take n lines))) \<and>
    line_loop (store_v1_commands env junk get_incentive)
      (command_line ''submit-trading-order'' [dec (unat (i :: u64)), bytes_to_hex id'] # rest) (t, con') = (Inl Bad_variant_access, (t, con'))"
proof (intro conjI)
  obtain c w' where "store_v1_session env junk get_incentive lines ((c, w'), Console_create (str ''NFT$ '')) = (r, (s, con))"
    using assms(1) by (rule store_v1_main_session)
  then show "isl r \<and> console_history con = [] \<or> (\<exists>n. line_loop_end lines n r \<and> console_history con = map trim (take n lines))"
    by (rule store_v1_session_console)
qed (rule store_v1_main_history [OF assms(1)], rule submit_line_ends [OF assms(2,3)])

theorem first_store_program_witness:
  "\<exists>r s con. store_v1_main sample_env sample_uninit_v1 sample_price
      [(CHR ''m'', str ''mint.key''), (CHR ''n'', str ''mnemonic''), (CHR ''c'', str ''260'')] [str ''exit''] 0 = (r, Some (s, con)) \<and>
    client_history sample_env s"
proof -
  obtain r s con where "store_v1_main sample_env sample_uninit_v1 sample_price
      [(CHR ''m'', str ''mint.key''), (CHR ''n'', str ''mnemonic''), (CHR ''c'', str ''260'')] [str ''exit''] 0 = (r, Some (s, con))"
    unfolding store_v1_main_def sample_options by (cases "store_v1_session sample_env sample_uninit_v1 sample_price [str ''exit'']
      ((sample_client, 0), Console_create (str ''NFT$ ''))") (auto simp: sample_started)
  from first_store_program [OF this, of "replicate 32 1"] this show ?thesis by (simp add: sample_uninit_v1_def)
qed

section \<open>Equality and alternatives\<close>

text \<open>
  C33. The operator == of signed transactions, which compares member by member through all the
  types they are made of, decides equality of their messages: of two transactions that can be
  serialized, with UTF-8 strings and full arrays, it says yes if and only if their bytes are the
  same.
\<close>

theorem signed_transaction_equality:
  assumes "bcsSerialize_SignedTransaction t = Inr bs" and "typed (doc_SignedTransaction t)"
    and "bcsSerialize_SignedTransaction u = Inr cs" and "typed (doc_SignedTransaction u)"
  shows "eq_SignedTransaction t u \<longleftrightarrow> bs = cs"
  using assms SignedTransaction_codec.message_injective [of t bs u]
  by (auto simp: eq_SignedTransaction_decides bcsSerialize_SignedTransaction_def)

theorem signed_transaction_equality_witness:
  "eq_SignedTransaction sample_signed_transaction sample_signed_transaction"
  using signed_transaction_equality [OF sample_signed_message sample_signed_ok(1) sample_signed_message sample_signed_ok(1)]
  by simp

lemma multi_agent_in_variant:
  assumes "bcsSerialize_TransactionAuthenticator (TransactionAuthenticator_MultiAgent sender' addresses' signers') = Inr bs"
  shows "\<exists>cs. bs = 2 # cs \<and> bcsSerialize_TransactionAuthenticator_MultiAgent sender' addresses' signers' = Inr cs"
proof -
  have "bcsSerialize_TransactionAuthenticator_MultiAgent sender' addresses' signers' = Inr (drop (length (uleb128 2)) bs) \<and>
      take (length (uleb128 2)) bs = uleb128 2"
    unfolding bcsSerialize_TransactionAuthenticator_MultiAgent_def
    by (rule TransactionAuthenticator_MultiAgent_alternative.alt_in_variant [OF TransactionAuthenticator_codec.bcs_codec_axioms])
      (use assms in \<open>simp_all add: doc_TransactionAuthenticator_def bcsSerialize_TransactionAuthenticator_def\<close>)
  then show ?thesis by (cases bs) (simp_all add: uleb128_small)
qed

lemma multi_agent_accepted:
  assumes "bcsDeserialize_TransactionAuthenticator_MultiAgent bs = Inr a"
  shows "\<exists>s as ss. a = TransactionAuthenticator_MultiAgent s as ss \<and>
    bcsSerialize_TransactionAuthenticator_MultiAgent s as ss = Inr bs"
proof -
  have read: "bcsDeserialize deserialize_TransactionAuthenticator_MultiAgent bs = Inr a"
    using assms by (simp add: bcsDeserialize_TransactionAuthenticator_MultiAgent_def)
  from TransactionAuthenticator_MultiAgent_alternative.alt_no_other [OF this] obtain s as ss
    where a: "a = TransactionAuthenticator_MultiAgent s as ss" by auto
  then show ?thesis
    using TransactionAuthenticator_MultiAgent_alternative.alt_canonical [of bs "(s, as, ss)"] read
    by (simp add: bcsSerialize_TransactionAuthenticator_MultiAgent_def)
qed

definition sample_agent :: AccountAuthenticator where
  "sample_agent = AccountAuthenticator_Ed25519 \<lparr>Ed25519PublicKey_value = [1]\<rparr> \<lparr>Ed25519Signature_value = [2]\<rparr>"

lemma sample_agent_ok:
  "typed (doc_AccountAuthenticator sample_agent)" "fits (doc_AccountAuthenticator sample_agent)"
  "depth (doc_AccountAuthenticator sample_agent) \<le> 400"
  by (simp_all add: sample_agent_def doc_AccountAuthenticator_def sample_defs)

text \<open>
  C34. The alternatives of a variant are types with messages of their own. For the authenticator
  of several signers: its message is that of the variant without the index in front; read as
  that alternative it gives the authenticator back; and whatever is accepted as that alternative
  is an authenticator of several signers with exactly these bytes as its message.
\<close>

theorem multi_agent_messages:
  assumes "bcsSerialize_TransactionAuthenticator (TransactionAuthenticator_MultiAgent sender' addresses' signers') = Inr bs"
    and "typed (doc_TransactionAuthenticator (TransactionAuthenticator_MultiAgent sender' addresses' signers'))"
  shows "\<exists>cs. bs = 2 # cs \<and> bcsSerialize_TransactionAuthenticator_MultiAgent sender' addresses' signers' = Inr cs \<and>
    bcsDeserialize_TransactionAuthenticator_MultiAgent cs = Inr (TransactionAuthenticator_MultiAgent sender' addresses' signers') \<and>
    (\<forall>ds a. bcsDeserialize_TransactionAuthenticator_MultiAgent ds = Inr a \<longrightarrow>
      (\<exists>s as ss. a = TransactionAuthenticator_MultiAgent s as ss \<and>
         bcsSerialize_TransactionAuthenticator_MultiAgent s as ss = Inr ds))"
proof -
  obtain cs where cs: "bs = 2 # cs" "bcsSerialize_TransactionAuthenticator_MultiAgent sender' addresses' signers' = Inr cs"
    using multi_agent_in_variant [OF assms(1)] by blast
  have "bcsDeserialize_TransactionAuthenticator_MultiAgent cs = Inr (TransactionAuthenticator_MultiAgent sender' addresses' signers')"
    using TransactionAuthenticator_MultiAgent_alternative.alt_roundtrip [of "(sender', addresses', signers')" cs] assms(2) cs(2)
    by (simp add: doc_TransactionAuthenticator_def bcsSerialize_TransactionAuthenticator_MultiAgent_def
        bcsDeserialize_TransactionAuthenticator_MultiAgent_def)
  moreover have "\<exists>s as ss. a = TransactionAuthenticator_MultiAgent s as ss \<and>
      bcsSerialize_TransactionAuthenticator_MultiAgent s as ss = Inr ds"
    if "bcsDeserialize_TransactionAuthenticator_MultiAgent ds = Inr a" for ds a
    using that multi_agent_accepted by blast
  ultimately show ?thesis using cs by blast
qed

theorem multi_agent_messages_witness:
  "bcsSerialize_TransactionAuthenticator_MultiAgent sample_agent [\<lparr>AccountAddress_value = replicate 16 7\<rparr>] [sample_agent] =
     Inr (enc (Doc_Tuple [doc_AccountAuthenticator sample_agent, doc_vector doc_AccountAddress [\<lparr>AccountAddress_value = replicate 16 7\<rparr>],
       doc_vector doc_AccountAuthenticator [sample_agent]])) \<and>
   bcsDeserialize_TransactionAuthenticator_MultiAgent
     (enc (Doc_Tuple [doc_AccountAuthenticator sample_agent, doc_vector doc_AccountAddress [\<lparr>AccountAddress_value = replicate 16 7\<rparr>],
       doc_vector doc_AccountAuthenticator [sample_agent]])) =
     Inr (TransactionAuthenticator_MultiAgent sample_agent [\<lparr>AccountAddress_value = replicate 16 7\<rparr>] [sample_agent])"
proof -
  let ?a = "TransactionAuthenticator_MultiAgent sample_agent [\<lparr>AccountAddress_value = replicate 16 7\<rparr>] [sample_agent]"
  have ok: "typed (doc_TransactionAuthenticator ?a)"
    "bcsSerialize_TransactionAuthenticator ?a = Inr (enc (doc_TransactionAuthenticator ?a))"
    using sample_agent_ok by (simp_all add: bcsSerialize_TransactionAuthenticator_def TransactionAuthenticator_codec.bcsSerialize_iff
        doc_TransactionAuthenticator_def doc_AccountAddress_def doc_vector_def doc_array_def doc_u8_def doc_word_def
        list_all_iff max_list_le_iff max_length_def)
  from multi_agent_messages [OF ok(2,1)] show ?thesis
    by (auto simp: doc_TransactionAuthenticator_def uleb128_small)
qed

section \<open>The program over shared files\<close>

lemma sample_meta_started: "Client2_create sample_meta_env 4 (str ''mnemonic'') (str ''mint.key'') 0 = (Inr sample_client, 0)"
proof -
  have same: "env_ssl sample_meta_env = env_ssl sample_env" "env_file sample_meta_env = env_file sample_env"
    "rpc_get_account (env_rpc sample_meta_env) = rpc_get_account (env_rpc sample_env)"
    by (simp_all add: sample_meta_env_def serving_env_def sample_env_def)
  have "Client2_create sample_meta_env = Client2_create sample_env"
    by (intro ext) (unfold Client2_create_def open_wallet_def same, rule refl)
  then show ?thesis by (simp add: sample_started)
qed

text \<open>
  C35. Whatever options the program over shared files is started with, with an empty table, and
  whatever lines are typed: the coroutines that the commands start, and that nobody waits for,
  go on between later commands, each up to its next request, in whatever order a schedule gives,
  or never. If the program gets as far as a client, then in the state in which it ends the keys
  and the wallet of the client are sound, and the local table of shared tokens has the numbers
  one, two, three and so on, each with an event of the log of the chain: nothing else gets into
  it, however the queries overlap. Overlapping queries may insert an event more than once. But
  if the user waits for the coroutines before every command, then, once the last of them has
  ended, the client is one of a history, and the table is a prefix of the log: its rows are
  those of the first events, in their order and each once, whichever of the queries failed, were
  answered in part or were cut off while rows were inserted.
\<close>

theorem meta42_program_state:
  assumes "meta_main env st junk options lines w d turns = (r, Some ((s, pool, turns'), con))" and "rows d = []"
    and "storage_ok st rows" and "log_ok log" and "serves_history env log"
  shows "client_ok env (fst (fst s)) \<and>
    (length (rows (snd s)) < 2 ^ 64 \<longrightarrow> (\<exists>xs. set xs \<subseteq> set log \<and>
       rows (snd s) = map (\<lambda>k. (SharedTokenHistory_of (xs ! k))\<lparr>history_sn := of_nat (k + 1)\<rparr>) [0..<length xs])) \<and>
    (turns = (\<lambda>_. None) \<longrightarrow> client_history env (fst (ended pool s)) \<and>
       (\<exists>n \<le> length log. rows (snd (ended pool s)) =
          map (\<lambda>k. (SharedTokenHistory_of (log ! k))\<lparr>history_sn := of_nat (k + 1)\<rparr>) [0..<n]))"
proof -
  have "client_ok env (fst (fst s)) \<and> rows_of_log log (rows (snd s))"
    using meta_main_keeps [OF assms(1), where rows = rows and log = log] assms(2-5) by (simp add: shared_table_def)
  moreover have "sharing_state env st rows log (ended pool s)" if "turns = (\<lambda>_. None)"
    using meta_main_waits [OF assms(1) [unfolded that], where rows = rows and log = log] assms(2) by simp
  ultimately show ?thesis using assms(3-5) by (auto simp: rows_of_log_def sharing_state_def table_def)
qed

theorem meta42_program_state_witness:
  "\<exists>r s pool turns con. meta_main sample_meta_env sample_storage sample_uninit
      [(CHR ''m'', str ''mint.key''), (CHR ''n'', str ''mnemonic''), (CHR ''c'', str ''260'')] [str ''exit''] 0 [] (\<lambda>_. None) =
      (r, Some ((s, pool, turns), con)) \<and>
    client_ok sample_meta_env (fst (fst s)) \<and> client_history sample_meta_env (fst (ended pool s))"
proof -
  obtain r s pool turns con where run: "meta_main sample_meta_env sample_storage sample_uninit
      [(CHR ''m'', str ''mint.key''), (CHR ''n'', str ''mnemonic''), (CHR ''c'', str ''260'')] [str ''exit''] 0 [] (\<lambda>_. None) =
      (r, Some ((s, pool, turns), con))"
    unfolding meta_main_def client_main_def sample_options
    by (cases "client_session sample_meta_env (meta_commands sample_meta_env sample_storage sample_uninit) [str ''exit'']
      ((((sample_client, 0), []), [], \<lambda>_. None), Console_create (str ''NFT$ ''))") (auto simp: sample_meta_started)
  from meta42_program_state [OF run _ sample_storage_ok sample_log_ok sample_log_served] run show ?thesis by blast
qed

section \<open>Deployment\<close>

lemma sample_minting: "minting_client sample_command_env"
  by (simp add: minting_client_def sample_command_env_def raises_def eff_modify_def)

text \<open>
  C36. Minting in the deployment program. A line of orders, each a currency and a number,
  followed by quit, is carried out order by order, failures being reported, and then the loop
  ends, with the rest of the input unread. Without q or quit it does not end: at the end of the
  input, and also as soon as an amount is not a number, because the stream has then failed and
  nothing reads the words that would end the loop; it goes on asking the chain to mint.
\<close>

theorem minting_session:
  assumes "minting_client env" and "list_all is_order orders"
  shows "mint_loop env junk (w, words_left (order_words orders @ str ''quit'' # rest)) =
      Some (Inr (), (fold (mint_once env) orders w, words_left rest)) \<and>
    mint_loop env junk (w, words_left (order_words orders)) = None \<and>
    (is_order (code, 0) \<and> solid (c # word) \<and> \<not> is_digit c \<and> c \<noteq> 0x2D \<and> c \<noteq> 0x2B \<longrightarrow>
      mint_loop env junk (w, words_left (order_words orders @ code # (c # word) # rest)) = None)"
proof (intro conjI impI)
  have "solid (str ''quit'')" by (simp add: solid_def str_def is_space_def)
  then have quit: "get_word [] (words_left (str ''quit'' # rest)) = (str ''quit'', words_left rest)" by (rule get_words_left)
  show "mint_loop env junk (w, words_left (order_words orders @ str ''quit'' # rest)) =
      Some (Inr (), (fold (mint_once env) orders w, words_left rest))"
    unfolding mint_loop_orders [OF assms] by (subst mint_loop.simps) (simp add: quit)
  show "mint_loop env junk (w, words_left (order_words orders)) = None"
    using mint_loop_orders [OF assms, of junk w "[]"] by (simp add: mint_loop_endless [OF assms(1)])
  show "mint_loop env junk (w, words_left (order_words orders @ code # (c # word) # rest)) = None"
    if "is_order (code, 0) \<and> solid (c # word) \<and> \<not> is_digit c \<and> c \<noteq> 0x2D \<and> c \<noteq> 0x2B"
    unfolding mint_loop_orders [OF assms] using that by (intro mint_loop_no_number [OF assms(1)]) simp_all
qed

theorem minting_session_witness:
  "mint_loop sample_command_env 0 ([], words_left [str ''VUSDC'', dec (unat (5 :: u64)), str ''quit'']) =
     Some (Inr (), ([Call_mint_currency_for_designated_dealer (str ''VUSDC'') 0 TESTNET_DD_ADDRESS_v1 5000000 3], words_left [])) \<and>
   mint_loop sample_command_env 0 ([], words_left [str ''VUSDC'', str ''all'', str ''quit'']) = None"
proof -
  have order: "list_all is_order [(str ''VUSDC'', 5)]" "is_order (str ''VUSDC'', 0)"
    by (simp_all add: is_order_def solid_def str_def is_space_def)
  have word: "str ''all'' = 0x61 # str ''ll''" "solid (0x61 # str ''ll'')" "\<not> is_digit 0x61"
    by (simp_all add: solid_def str_def is_space_def is_digit_def)
  show ?thesis
    using minting_session [OF sample_minting order(1), of 0 "[]" "[]" "[]" 0 "[]"]
      minting_session [OF sample_minting, of "[]" 0 "[]" "[str ''quit'']" "str ''VUSDC''" "0x61" "str ''ll''"] order(2) word
    by (simp add: order_words_def mint_once_def try_catch_def mint_to_dd_def sample_command_env_def eff_modify_def eff_catch_def
        MICRO_COIN_v1_def)
qed

text \<open>
  C37. The password in the deployment program. With a wrong password, registering a currency,
  changing the limit of dual attestation and rotating the mint key do nothing to the outside
  world: one word of the input is read, and the function returns or throws. Every other
  function, minting and deploying among them, is the same whatever the password is.
\<close>

theorem deployment_password:
  assumes "\<not> password_ok hash_str (fst (get_word [] cin'))"
  shows "(index \<in> {0, 2, 7} \<longrightarrow>
      (\<exists>r. deployment_handler env hash_str junk chain_id index (w, cin') = Some (r, (w, snd (get_word [] cin'))))) \<and>
    (index \<notin> {0, 2, 7} \<longrightarrow>
      deployment_handler env hash_str junk chain_id index (w, cin') = deployment_handler env hash_str' junk chain_id index (w, cin'))"
  using assms
  by (auto simp: deployment_handler_def register_currency_def update_dual_attestation_limit_def rotate_mint_key_def check_password_def
      cin_word_def eff_bind_def eff_snd_def eff_return_def eff_throw_def split: prod.splits)

theorem deployment_password_witness:
  "\<exists>r. deployment_handler sample_command_env (\<lambda>pwd. 0) 0 4 7 ([], words_left [str ''guess'', str ''again'']) =
    Some (r, ([], words_left [str ''again'']))"
proof -
  have "solid (str ''guess'')" by (simp add: solid_def str_def is_space_def)
  then have word: "get_word [] (words_left [str ''guess'', str ''again'']) = (str ''guess'', words_left [str ''again''])"
    by (rule get_words_left)
  then show ?thesis
    using deployment_password [of "\<lambda>pwd. 0" "words_left [str ''guess'', str ''again'']" 7 sample_command_env 0 4 "[]" "\<lambda>pwd. 0"]
    by (simp add: password_ok_def)
qed

text \<open>A client that records the calls, and keeps the accounts of a wallet.\<close>

definition sample_recorder :: "(u8 list, rust_call list \<times> RustAccount list) command_env" where
  "sample_recorder =
     \<lparr>rust_create = (\<lambda>args. eff_return ()), rust_test_connection = eff_return (),
      rust_do = (\<lambda>c. eff_modify (\<lambda>(calls, accounts). (calls @ [c], if is_recover c then [] else accounts))),
      rust_ask = (\<lambda>q. eff_return (str ''{}'')),
      rust_get_all_accounts = eff_get snd, rust_get_account = (\<lambda>i. eff_throw (Runtime_error ''no mint key'')),
      rust_create_next_account = (\<lambda>a (calls, accounts). (Inr \<lparr>admin_address = rust_address sample_account,
        admin_index = of_nat (length accounts)\<rparr>, (calls, accounts @ [sample_account]))),
      rust_get_currency_balance = (\<lambda>a c. eff_return 0), json_shown = (\<lambda>q a. Inr ()), micro_coins = (\<lambda>word. Some 1000000),
      term_system = (\<lambda>line. eff_return ()), term_word = eff_return (str ''yes''), file_content = (\<lambda>calls name'. None),
      file_put = (\<lambda>name' content calls. calls), env_aes = sample_aes, env_random = (\<lambda>calls. 0), env_size_t = 8\<rparr>"

lemma sample_recording: "recording_client sample_recorder fst snd (\<lambda>f. [])"
  by (auto simp: recording_client_def sample_recorder_def eff_modify_def eff_get_def is_recover_def split: prod.splits)

text \<open>
  C38. Deploying the exchange, with a client whose calls succeed, asks the chain for exactly
  this, in this order: the wallet is recovered from the mnemonic of the exchange; the three
  accounts that follow those of the wallet become the administrator, at the address of the
  exchange, and two users; and the account calls are made with their addresses, keys and
  indices; each of the three gets every currency; the module is published by the root account;
  and the administrator, with the index behind the accounts of the mnemonic, initializes the
  exchange and adds every currency to it. The wallet then has the accounts of the mnemonic and
  these three, and no others.
\<close>

theorem exchange_deployment:
  assumes "recording_client env log accounts recovered" and "length (recovered (str ''mnemonic/exchange.mne'')) = n" and "n + 3 < 2 ^ 64"
  shows "\<exists>w' admin' user1 user2. deploy_exchange env w = (Inr (), w') \<and>
    log w' = log w @ Call_recover_wallet_accounts (str ''mnemonic/exchange.mne'') #
      account_calls ''Exchange'' EXCHANGE_ADMIN_ADDRESS (of_nat n) admin' user1 user2 @
      [Call_publish_module ASSOCIATION_ID (str ''move/exchange/exchange.mv''),
       Call_execute_script_file (of_nat n) (str ''move/exchange/initialize.mv'') [] [Augment_Address reward_admin_address]] @
      map (\<lambda>code. Call_execute_script_file (of_nat n) (str ''move/exchange/add_currency.mv'') [make_currency_tag code] []) currency_codes \<and>
    accounts w' = recovered (str ''mnemonic/exchange.mne'') @ [admin', user1, user2]"
  using deploy_exchange_log [OF assms(1), of w] assms(2,3) by (simp add: exchange_contract_calls_def)

theorem exchange_deployment_witness:
  "\<exists>w' user1. deploy_exchange sample_recorder ([], []) = (Inr (), w') \<and> length (fst w') = 70 \<and> length (snd w') = 3 \<and>
    fst w' ! 2 = Call_create_parent_vasp_account (str ''VLS'') 0 (rust_address (snd w' ! 1)) (rust_auth_key (snd w' ! 1))
      (str ''Exchange user1'') (str ''www.violas.io'') (rust_pub_key (snd w' ! 1)) True"
proof -
  have "length currency_codes = 16" by (simp add: currency_codes_def)
  moreover have "length (concat (map (\<lambda>code. [f code, g code, h code]) codes)) = 3 * length codes"
    for f g h :: "cstring \<Rightarrow> rust_call" and codes by (induction codes) simp_all
  ultimately show ?thesis
    using exchange_deployment [OF sample_recording, of 0 "([], [])"] by (fastforce simp: account_calls_def)
qed

section \<open>The program for VLS\<close>

lemma sample_returning: "returning_client sample_command_env"
  by (simp add: returning_client_def sample_command_env_def eff_modify_def eff_return_def)

text \<open>
  C39. A session with the menu of the program for VLS: a series of choices, each with the answer
  it asks for, followed by 0, is carried out choice by choice, and then the menu ends; it ends
  early, and the rest is not carried out, only when one of them throws. A word that is not a
  number ends it like 0, and so does an empty input, before any choice. But when the input ends
  behind a choice, the index keeps its value, and the menu carries that choice out again and
  again: it can only end by an exception, and with a client whose calls return, a program whose
  last choice was to mine mines for ever.
\<close>

theorem vls_session:
  assumes "list_all is_choice choices"
  shows "(for_each (vls_action env) choices w = (Inr (), w') \<longrightarrow>
      vls_menu env 0 (w, words_left (concat (map choice_words choices) @ dec 0 # rest)) = Some (Inr (), (w', words_left rest))) \<and>
    (for_each (vls_action env) choices w = (Inl e, w') \<longrightarrow>
      (\<exists>cin'. vls_menu env 0 (w, words_left (concat (map choice_words choices) @ dec 0 # rest)) = Some (Inl e, (w', cin')))) \<and>
    (returning_client env \<and> for_each (vls_action env) choices w = (Inr (), w') \<longrightarrow>
      vls_menu env 0 (w, words_left (concat (map choice_words choices) @ [dec 3])) = None) \<and>
    (choices \<noteq> [] \<and> vls_menu env 0 (w, words_left (concat (map choice_words choices))) = Some y \<longrightarrow> isl (fst y)) \<and>
    (for_each (vls_action env) choices w = (Inr (), w') \<and> solid (c # word) \<and> \<not> is_digit c \<and> c \<noteq> 0x2D \<and> c \<noteq> 0x2B \<longrightarrow>
      (\<exists>cin'. vls_menu env 0 (w, words_left (concat (map choice_words choices) @ (c # word) # rest)) = Some (Inr (), (w', cin')))) \<and>
    (\<exists>cin'. vls_menu env 0 (w, words_left []) = Some (Inr (), (w, cin')))"
proof (intro conjI impI)
  show "\<exists>cin'. vls_menu env 0 (w, words_left []) = Some (Inr (), (w, cin'))" by (rule exI) (rule vls_menu_empty)
  show "\<exists>cin'. vls_menu env 0 (w, words_left (concat (map choice_words choices) @ (c # word) # rest)) = Some (Inr (), (w', cin'))"
    if word: "for_each (vls_action env) choices w = (Inr (), w') \<and> solid (c # word) \<and> \<not> is_digit c \<and> c \<noteq> 0x2D \<and> c \<noteq> 0x2B"
    unfolding vls_menu_choices [OF assms conjunct1 [OF word]] using word vls_menu_no_number [of c word env _ w' rest] by auto
  show "isl (fst y)" if ends: "choices \<noteq> [] \<and> vls_menu env 0 (w, words_left (concat (map choice_words choices))) = Some y"
    using vls_menu_all_read [OF assms, of env 0 w y] ends by blast

  show "vls_menu env 0 (w, words_left (concat (map choice_words choices) @ dec 0 # rest)) = Some (Inr (), (w', words_left rest))"
    if "for_each (vls_action env) choices w = (Inr (), w')"
    unfolding vls_menu_choices [OF assms that] by (rule vls_menu_quit)
  show "\<exists>cin'. vls_menu env 0 (w, words_left (concat (map choice_words choices) @ dec 0 # rest)) = Some (Inl e, (w', cin'))"
    if "for_each (vls_action env) choices w = (Inl e, w')"
    by (rule vls_menu_throws [OF assms that])
  assume run: "returning_client env \<and> for_each (vls_action env) choices w = (Inr (), w')"
  obtain w'' where mined: "mine_vls env w' = (Inr (), w'')" using mine_returns [of env w'] run by auto
  have choice: "is_choice (3, dec 0)" by (simp add: is_choice_def solid_dec)
  have "vls_menu env old (w', words_left [dec 3]) = vls_menu env 3 (w'', words_left [])" for old
    using vls_menu_choice [OF choice, of env old w' "[]"] mined by (simp add: choice_words_def vls_action_def)
  then show "vls_menu env 0 (w, words_left (concat (map choice_words choices) @ [dec 3])) = None"
    using vls_menu_choices [OF assms, of env w w' 0 "[dec 3]"] run by (simp add: vls_menu_endless)
qed

theorem vls_session_witness:
  "vls_menu sample_command_env 0 ([], words_left [dec 3, dec 0]) =
     Some (Inr (), ([Call_execute_script 0 mint_vls_bytecode [] []], words_left [])) \<and>
   vls_menu sample_command_env 0 ([], words_left [dec 3]) = None"
proof -
  have choice: "list_all is_choice [(3, dec 0)]" by (simp add: is_choice_def solid_dec)
  have run: "for_each (vls_action sample_command_env) [(3, dec 0)] [] = (Inr (), [Call_execute_script 0 mint_vls_bytecode [] []])"
    by (simp add: vls_action_def mine_vls_def execute_bytecode_def sample_command_env_def eff_modify_def eff_return_def eff_bind_def)
  show ?thesis
    using vls_session [OF choice, of sample_command_env "[]" "[Call_execute_script 0 mint_vls_bytecode [] []]" "[]" Never_resumed] run
      vls_session [of "[]" sample_command_env "[]" "[]" "[]" Never_resumed] sample_returning
    by (simp add: choice_words_def eff_return_def)
qed

section \<open>Modules and their address\<close>

type_synonym sample_disk = "cstring \<Rightarrow> u8 list option"

definition sample_files :: "sample_disk files" where
  "sample_files = \<lparr>fs_read = (\<lambda>w. w), fs_write = (\<lambda>name' data w. w(name' \<mapsto> data)),
     fs_remove_all = (\<lambda>name'. eff_return ()), fs_create_directory = (\<lambda>name'. eff_return ()),
     fs_temp_directory_path = eff_return (str ''/tmp''), fs_directory = (\<lambda>name'. eff_return [])\<rparr>"

text \<open>
  C40. The function that puts the address of a supervisor into a compiled module. It never
  returns exactly when this is the address that the module was compiled for and it is in the
  file, since every place that was written is found again. Otherwise it returns and writes as
  many bytes as it read. If the two addresses have no byte in common, these are the bytes of the
  module with each occurrence of the old address replaced, from left to right, and the old
  address is not in them any more.
\<close>

theorem module_address_replacement:
  assumes "length address = 16" and "fs_read fs w mv_file = Some data"
    and "fs_read fs (fs_write fs new_file [] w) mv_file = Some buffer"
  shows "(fst (replace_mv_with_addr fs mv_file new_file address w) = Inl Never_resumed \<longleftrightarrow>
      address = mv_addr \<and> (\<exists>i. occurs_at i mv_addr buffer)) \<and>
    (\<not> (address = mv_addr \<and> (\<exists>i. occurs_at i mv_addr buffer)) \<longrightarrow> (\<exists>out. length out = length buffer \<and>
      replace_mv_with_addr fs mv_file new_file address w = (Inr (), fs_write fs new_file out (fs_write fs new_file [] w)))) \<and>
    (set address \<inter> set mv_addr = {} \<longrightarrow>
      replace_mv_with_addr fs mv_file new_file address w =
        (Inr (), fs_write fs new_file (substitute mv_addr address buffer) (fs_write fs new_file [] w)) \<and>
      (\<forall>i. \<not> occurs_at i mv_addr (substitute mv_addr address buffer)))"
proof (intro conjI impI)
  have run: "replace_mv_with_addr fs mv_file new_file address w =
      (case replace_loop address 0 buffer of
         None \<Rightarrow> (Inl Never_resumed, fs_write fs new_file [] w)
       | Some out \<Rightarrow> (Inr (), fs_write fs new_file out (fs_write fs new_file [] w)))"
    using assms(2,3) by (simp add: replace_mv_with_addr_def with_mv_file_def split: option.split)
  show "fst (replace_mv_with_addr fs mv_file new_file address w) = Inl Never_resumed \<longleftrightarrow>
      address = mv_addr \<and> (\<exists>i. occurs_at i mv_addr buffer)"
    unfolding run by (subst replace_endless [OF assms(1), symmetric]) (simp split: option.split)
  show "\<exists>out. length out = length buffer \<and>
      replace_mv_with_addr fs mv_file new_file address w = (Inr (), fs_write fs new_file out (fs_write fs new_file [] w))"
    if ends: "\<not> (address = mv_addr \<and> (\<exists>i. occurs_at i mv_addr buffer))"
  proof (cases "address = mv_addr")
    case True
    then have "search buffer mv_addr = length buffer" using ends search_end [OF mv_addr_nonempty] by blast
    then show ?thesis using replace_end [of 0 buffer address] unfolding run by auto
  next
    case False
    then show ?thesis using replace_ends [OF assms(1) False, of 0 buffer] unfolding run by auto
  qed
  assume disjoint: "set address \<inter> set mv_addr = {}"
  then have "hd mv_addr \<notin> set address" by (auto simp: mv_addr_def)
  from replace_substitutes [OF assms(1) this, of 0 buffer]
  show "replace_mv_with_addr fs mv_file new_file address w =
      (Inr (), fs_write fs new_file (substitute mv_addr address buffer) (fs_write fs new_file [] w))"
    unfolding run by simp
  have "address \<noteq> []" using assms(1) by auto
  with substitute_clean [OF mv_addr_nonempty _ disjoint]
  show "\<forall>i. \<not> occurs_at i mv_addr (substitute mv_addr address buffer)" by blast
qed

theorem module_address_replacement_witness:
  "fst (replace_mv_with_addr sample_files [1] [2] mv_addr [[1] \<mapsto> 7 # mv_addr]) = Inl Never_resumed \<and>
   replace_mv_with_addr sample_files [1] [2] (replicate 16 0) [[1] \<mapsto> 7 # mv_addr] =
     (Inr (), [[1] \<mapsto> 7 # mv_addr, [2] \<mapsto> 7 # replicate 16 0])"
proof
  let ?w = "[[1] \<mapsto> 7 # mv_addr] :: sample_disk"
  have read: "fs_read sample_files ?w [1] = Some (7 # mv_addr)"
    "fs_read sample_files (fs_write sample_files [2] [] ?w) [1] = Some (7 # mv_addr)"
    by (simp_all add: sample_files_def)
  have "occurs_at 1 mv_addr (7 # mv_addr)" by (simp add: occurs_at_def)
  then show "fst (replace_mv_with_addr sample_files [1] [2] mv_addr ?w) = Inl Never_resumed"
    using module_address_replacement [OF mv_addr_length read] by blast
  have length: "length (replicate 16 0 :: Address) = 16" and disjoint: "set (replicate 16 0) \<inter> set mv_addr = {}"
    by (simp_all add: mv_addr_def)
  have "substitute mv_addr (replicate 16 0) (7 # mv_addr) = 7 # replicate 16 0"
    using substitute_found [OF mv_addr_nonempty, of 1 "7 # mv_addr" "replicate 16 0"]
    by (simp add: occurs_at_def mv_addr_length substitute.simps [of mv_addr _ "[]"]) (simp add: mv_addr_def)
  then show "replace_mv_with_addr sample_files [1] [2] (replicate 16 0) ?w = (Inr (), [[1] \<mapsto> 7 # mv_addr, [2] \<mapsto> 7 # replicate 16 0])"
    using module_address_replacement [OF length read] disjoint by (simp add: sample_files_def)
qed

end
